(* ===== verification/Prelude.thy ===== *)
theory Prelude
  imports Main "HOL-Library.Word"
begin

text \<open>
  The shared vocabulary of the development.

  \<^item> Types: a C \<^verbatim>\<open>unsigned char\<close> is an 8-bit word, a buffer is a list of them, a code point
    (an \<^verbatim>\<open>unsigned int\<close> of the text unit) is a natural number whose range the theorems
    bound.
  \<^item> Errors: a call of \<^verbatim>\<open>pas_runtime_error\<close> writes its message and ends the process, so an
    operation that may make it answers \<open>Inl (Trap msg)\<close> and an operation that returns
    answers \<open>Inr\<close>.
  \<^item> The generic facts on lists, words and bit operations that the component proofs share.
\<close>

unbundle bit_operations_syntax

named_theorems res_simps \<open>evaluation rules of the result combinator\<close>
named_theorems bits_arith \<open>bit operations as arithmetic on natural numbers\<close>

type_synonym byte = "8 word"
type_synonym cpoint = nat

text \<open>
  The message of a trap is the string the program hands to \<^verbatim>\<open>pas_runtime_error\<close>. Two more
  values stand where a C program has no behaviour to describe: \<open>Undefined\<close> for an access outside
  an object or an overflow of a signed integer, \<open>Diverges\<close> for a loop that does not end.
\<close>

datatype trap = Trap string | Undefined | Diverges

type_synonym 'a res = "trap + 'a"

definition rbind :: "'a res \<Rightarrow> ('a \<Rightarrow> 'b res) \<Rightarrow> 'b res" where
  "rbind m f = (case m of Inl e \<Rightarrow> Inl e | Inr x \<Rightarrow> f x)"

lemma rbind_Inl [simp, res_simps]: "rbind (Inl e) f = Inl e"
  by (simp add: rbind_def)

lemma rbind_Inr [simp, res_simps]: "rbind (Inr x) f = f x"
  by (simp add: rbind_def)

lemma rbind_eq_Inr: "rbind m f = Inr y \<longleftrightarrow> (\<exists>x. m = Inr x \<and> f x = Inr y)"
  by (cases m) auto

lemma rbind_eq_Inl: "rbind m f = Inl e \<longleftrightarrow> m = Inl e \<or> (\<exists>x. m = Inr x \<and> f x = Inl e)"
  by (cases m) auto

definition is_trap :: "'a res \<Rightarrow> bool" where
  "is_trap r = (case r of Inl _ \<Rightarrow> True | Inr _ \<Rightarrow> False)"

lemma is_trap_simps [simp]: "is_trap (Inl e)" "\<not> is_trap (Inr x)"
  by (simp_all add: is_trap_def)

text \<open>The cast of an \<^verbatim>\<open>unsigned int\<close> to \<^verbatim>\<open>char\<close> keeps the low eight bits.\<close>

definition byte_of :: "nat \<Rightarrow> byte" where
  "byte_of x = word_of_nat x"

lemma unat_byte_of: "unat (byte_of x) = x mod 256"
  by (simp add: byte_of_def unat_of_nat)

lemma unat_byte_of_small [simp]: "x < 256 \<Longrightarrow> unat (byte_of x) = x"
  by (simp add: unat_byte_of)

lemma byte_of_eq_iff: "x < 256 \<Longrightarrow> byte_of x = b \<longleftrightarrow> x = unat b"
  by (metis unat_byte_of_small word_unat_eq_iff)

lemma unat_byte_bound: "unat (b :: byte) < 256"
proof -
  have "unat b < 2 ^ LENGTH(8)" by (rule unsigned_less)
  then show ?thesis by simp
qed

section \<open>Bits as arithmetic\<close>

lemma or_disjoint_add_nat:
  fixes a b :: nat
  assumes "a mod 2 ^ k = 0" and "b < 2 ^ k"
  shows "a OR b = a + b"
proof -
  have "a AND b = 0"
  proof (rule bit_eqI)
    fix n
    from assms(1) obtain q where q: "a = q * 2 ^ k" by (metis dvdE dvd_eq_mod_eq_0 mult.commute)
    have "bit b n \<Longrightarrow> n < k"
      using assms(2) by (metis bit_take_bit_iff take_bit_nat_eq_self)
    moreover have "bit a n \<Longrightarrow> k \<le> n"
      using q by (metis bit_push_bit_iff push_bit_eq_mult)
    ultimately show "bit (a AND b) n \<longleftrightarrow> bit (0::nat) n"
      by (auto simp: bit_and_iff)
  qed
  then show ?thesis by (simp add: disjunctive_add_eq_or)
qed

lemma or_bits_arith [bits_arith]:
  fixes x :: nat
  shows "x < 64 \<Longrightarrow> 0x80 OR x = 0x80 + x"
    and "x < 32 \<Longrightarrow> 0xC0 OR x = 0xC0 + x"
    and "x < 16 \<Longrightarrow> 0xE0 OR x = 0xE0 + x"
    and "x < 8 \<Longrightarrow> 0xF0 OR x = 0xF0 + x"
  using or_disjoint_add_nat [of "0x80" 6 x] or_disjoint_add_nat [of "0xC0" 5 x]
    or_disjoint_add_nat [of "0xE0" 4 x] or_disjoint_add_nat [of "0xF0" 3 x]
  by simp_all

lemma and_mask_arith [bits_arith]:
  fixes x :: nat
  shows "x AND 0x3F = x mod 64" and "x AND 0x1F = x mod 32"
    and "x AND 0x0F = x mod 16" and "x AND 0x07 = x mod 8"
  using take_bit_eq_mask [of 6 x] take_bit_eq_mask [of 5 x] take_bit_eq_mask [of 4 x]
    take_bit_eq_mask [of 3 x]
  by (simp_all add: take_bit_eq_mod mask_eq_exp_minus_1)

lemma shift_or_arith [bits_arith]:
  fixes c x :: nat
  shows "push_bit 6 c OR x mod 64 = c * 64 + x mod 64"
proof -
  have "push_bit 6 c mod 2 ^ 6 = 0" by (simp add: push_bit_eq_mult)
  then show ?thesis
    using or_disjoint_add_nat [of "push_bit 6 c" 6 "x mod 64"] by (simp add: push_bit_eq_mult)
qed

end
