(* ===== verification/Utf8.thy ===== *)
theory Utf8
  imports Prelude
begin

text \<open>
  UTF-8, from \<^verbatim>\<open>src/runtime/pasrt_unicode.c\<close>: the decoder of one scalar (\<open>u8dec\<close>), the
  encoder (\<open>u8len\<close>, \<open>u8enc\<close>), and the two entry points that rest on the decoder alone,
  \<open>pas_text_validate\<close> and \<open>pas_text_scalar_at\<close>.

  A buffer \<^verbatim>\<open>s[0..n)\<close> is the list of its \<open>n\<close> bytes; an index is a natural number. The
  decoder answers \<open>None\<close> where the C function answers 0 bytes, and otherwise the number of
  bytes and the scalar it stored through \<^verbatim>\<open>*out\<close>.
\<close>

section \<open>The decoder and the encoder\<close>

text \<open>
  The lead byte decides the length of the sequence and the admissible range of the second
  byte (the if-chain of \<open>u8dec\<close>; the Unicode Standard's table 3-7).
\<close>

definition u8_lead :: "nat \<Rightarrow> (nat \<times> nat \<times> nat) option" where
  "u8_lead c =
     (if 0xC2 \<le> c \<and> c \<le> 0xDF then Some (2, 0x80, 0xBF)
      else if c = 0xE0 then Some (3, 0xA0, 0xBF)
      else if c = 0xED then Some (3, 0x80, 0x9F)
      else if 0xE1 \<le> c \<and> c \<le> 0xEF then Some (3, 0x80, 0xBF)
      else if c = 0xF0 then Some (4, 0x90, 0xBF)
      else if c = 0xF4 then Some (4, 0x80, 0x8F)
      else if 0xF1 \<le> c \<and> c \<le> 0xF3 then Some (4, 0x80, 0xBF)
      else None)"

definition u8dec :: "byte list \<Rightarrow> nat \<Rightarrow> (nat \<times> cpoint) option" where
  "u8dec s i =
     (let c = unat (s ! i) in
      if c < 0x80 then Some (1, c)
      else case u8_lead c of
        None \<Rightarrow> None
      | Some (k, lo2, hi2) \<Rightarrow>
          if i + k > length s then None
          else if unat (s ! (i + 1)) < lo2 \<or> unat (s ! (i + 1)) > hi2 then None
          else if list_ex (\<lambda>j. unat (s ! (i + j)) < 0x80 \<or> unat (s ! (i + j)) > 0xBF) [2..<k]
          then None
          else Some (k, fold (\<lambda>j a. push_bit 6 a OR (unat (s ! (i + j)) AND 0x3F)) [1..<k]
                          (c AND drop_bit k 0x7F)))"

definition u8len :: "cpoint \<Rightarrow> nat" where
  "u8len cp = (if cp < 0x80 then 1 else if cp < 0x800 then 2 else if cp < 0x10000 then 3 else 4)"

definition u8enc :: "cpoint \<Rightarrow> byte list" where
  "u8enc cp =
     (if u8len cp = 1 then [byte_of cp]
      else if u8len cp = 2 then
        [byte_of (0xC0 OR drop_bit 6 cp), byte_of (0x80 OR (cp AND 0x3F))]
      else if u8len cp = 3 then
        [byte_of (0xE0 OR drop_bit 12 cp), byte_of (0x80 OR (drop_bit 6 cp AND 0x3F)),
         byte_of (0x80 OR (cp AND 0x3F))]
      else
        [byte_of (0xF0 OR drop_bit 18 cp), byte_of (0x80 OR (drop_bit 12 cp AND 0x3F)),
         byte_of (0x80 OR (drop_bit 6 cp AND 0x3F)), byte_of (0x80 OR (cp AND 0x3F))])"

text \<open>
  \<open>pas_text_validate\<close>: -1, or the index of the first byte that begins no well-formed
  sequence. The loop advances by the length the decoder answered, which is at least one.
\<close>

lemma u8dec_pos: "u8dec s i = Some (k, cp) \<Longrightarrow> 0 < k"
  by (auto simp: u8dec_def u8_lead_def Let_def split: if_splits)

function validate_from :: "byte list \<Rightarrow> nat \<Rightarrow> int" where
  "validate_from s i =
     (if i < length s then
        case u8dec s i of None \<Rightarrow> int i | Some (k, cp) \<Rightarrow> validate_from s (i + k)
      else -1)"
  by pat_completeness auto
termination
  by (relation "measure (\<lambda>(s, i). length s - i)") (auto dest: u8dec_pos)

declare validate_from.simps [simp del]

definition pas_text_validate :: "byte list \<Rightarrow> int" where
  "pas_text_validate s = validate_from s 0"

text \<open>
  \<open>pas_text_scalar_at\<close>: the guards of the exported decoder, the offset being a signed
  integer there.
\<close>

definition pas_text_scalar_at :: "byte list \<Rightarrow> int \<Rightarrow> (nat \<times> cpoint) option" where
  "pas_text_scalar_at s at =
     (if at < 0 \<or> at \<ge> int (length s) then None else u8dec s (nat at))"

section \<open>The specification\<close>

text \<open>A Unicode scalar value: a code point that is not a surrogate.\<close>

definition scalar :: "cpoint \<Rightarrow> bool" where
  "scalar cp \<longleftrightarrow> cp \<le> 0x10FFFF \<and> \<not> (0xD800 \<le> cp \<and> cp \<le> 0xDFFF)"

abbreviation encode :: "cpoint list \<Rightarrow> byte list" where
  "encode cps \<equiv> concat (map u8enc cps)"

definition well_formed :: "byte list \<Rightarrow> bool" where
  "well_formed s \<longleftrightarrow> (\<exists>cps. list_all scalar cps \<and> s = encode cps)"

section \<open>Encoding one scalar\<close>

lemma u8len_range: "1 \<le> u8len cp" "u8len cp \<le> 4"
  by (simp_all add: u8len_def)

lemma length_u8enc [simp]: "length (u8enc cp) = u8len cp"
  by (auto simp: u8enc_def u8len_def)

lemma u8enc_not_Nil [simp]: "u8enc cp \<noteq> []"
  using u8len_range(1) [of cp] length_u8enc [of cp] by (metis list.size(3) not_one_le_zero)

lemma u8enc_arith:
  assumes "cp < 0x110000"
  shows "u8enc cp =
     (if cp < 0x80 then [byte_of cp]
      else if cp < 0x800 then [byte_of (0xC0 + cp div 64), byte_of (0x80 + cp mod 64)]
      else if cp < 0x10000 then
        [byte_of (0xE0 + cp div 4096), byte_of (0x80 + cp div 64 mod 64),
         byte_of (0x80 + cp mod 64)]
      else
        [byte_of (0xF0 + cp div 262144), byte_of (0x80 + cp div 4096 mod 64),
         byte_of (0x80 + cp div 64 mod 64), byte_of (0x80 + cp mod 64)])"
  using assms by (auto simp: u8enc_def u8len_def drop_bit_eq_div bits_arith)

section \<open>Decoding one sequence\<close>

text \<open>The four shapes of a sequence, each as one equation on the bytes at its start.\<close>

lemma fold_upt_2: "fold f [Suc 0..<2] x = f 1 x"
  by (simp add: upt_rec)

lemma fold_upt_3: "fold f [Suc 0..<3] x = f 2 (f 1 x)"
  by (simp add: upt_rec numeral_eq_Suc)

lemma fold_upt_4: "fold f [Suc 0..<4] x = f 3 (f 2 (f 1 x))"
  by (simp add: upt_rec numeral_eq_Suc)

lemma list_ex_upt: "list_ex P [2..<2] = False" "list_ex P [2..<3] = P 2"
  "list_ex P [2..<4] = (P 2 \<or> P 3)"
  by (simp_all add: upt_rec numeral_eq_Suc)

lemmas u8dec_unfold = u8dec_def u8_lead_def Let_def fold_upt_2 fold_upt_3 fold_upt_4 list_ex_upt

lemma u8dec_drop: "i \<le> length s \<Longrightarrow> u8dec s i = u8dec (drop i s) 0"
  by (auto simp: u8dec_def Let_def split: option.splits)


lemma mask_lead: "(c::nat) AND drop_bit 2 0x7F = c mod 32" "(c::nat) AND drop_bit 3 0x7F = c mod 16"
  "(c::nat) AND drop_bit 4 0x7F = c mod 8"
  using and_mask_arith(2,3,4) [of c] by (simp_all add: drop_bit_eq_div)

text \<open>
  A scalar by its groups of six bits, which is how both directions are computed: the encoder
  writes one byte per group and the decoder reads the groups back.
\<close>

definition six :: "nat \<Rightarrow> nat \<Rightarrow> nat" where
  "six a b = a * 64 + b"

lemma six_div [simp]: "b < 64 \<Longrightarrow> six a b div 64 = a" "b < 64 \<Longrightarrow> six a b mod 64 = b"
  by (simp_all add: six_def)

lemma six_exhaust: "\<exists>a b. x = six a b \<and> b < 64"
  by (rule exI [of _ "x div 64"], rule exI [of _ "x mod 64"]) (simp add: six_def)

lemma six_eq_0 [simp]: "six a b = 0 \<longleftrightarrow> a = 0 \<and> b = 0"
  by (simp add: six_def)

lemma six_less: "b < 64 \<Longrightarrow> six a b < n * 64 \<longleftrightarrow> a < n"
  by (auto simp: six_def)

lemma six_less_num:
  assumes "b < 64"
  shows "six a b < 0x80 \<longleftrightarrow> a < 2" "six a b < 0x800 \<longleftrightarrow> a < 32" "six a b < 0x10000 \<longleftrightarrow> a < 1024"
    "six a b < 0x400 \<longleftrightarrow> a < 16" "six a b < 0x110000 \<longleftrightarrow> a < 17408" "six a b < 32 \<longleftrightarrow> a = 0 \<and> b < 32"
    "six a b < 17408 \<longleftrightarrow> a < 272" "six a b < 16 \<longleftrightarrow> a = 0 \<and> b < 16"  "six a b < 272 \<longleftrightarrow> a < 4 \<or> a = 4 \<and> b < 16"
    "six a b < 1024 \<longleftrightarrow> a < 16" "six a b < 2 \<longleftrightarrow> a = 0 \<and> b < 2"
  using assms by (auto simp: six_def)

lemma div_4096: "(x::nat) div 4096 = x div 64 div 64" "(x::nat) div 262144 = x div 64 div 64 div 64"
  by (simp_all add: div_mult2_eq [symmetric])

lemma add_mod_small: "q < n \<Longrightarrow> n dvd c \<Longrightarrow> (c + q) mod n = (q::nat)"
  by (metis add.commute mod_add_right_eq mod_less dvd_eq_mod_eq_0 add_0_right)

lemma u8enc_shape2: "2 \<le> a \<Longrightarrow> a < 32 \<Longrightarrow> b < 64 \<Longrightarrow>
    u8enc (six a b) = [byte_of (0xC0 + a), byte_of (0x80 + b)]"
  by (subst u8enc_arith) (simp_all add: six_less_num)

lemma u8enc_shape3: "a < 16 \<Longrightarrow> b < 64 \<Longrightarrow> c < 64 \<Longrightarrow> a = 0 \<longrightarrow> 32 \<le> b \<Longrightarrow>
    u8enc (six (six a b) c) = [byte_of (0xE0 + a), byte_of (0x80 + b), byte_of (0x80 + c)]"
  by (subst u8enc_arith) (auto simp: six_less_num div_4096)

lemma u8enc_shape4: "b < 64 \<Longrightarrow> c < 64 \<Longrightarrow> d < 64 \<Longrightarrow> a = 0 \<longrightarrow> 16 \<le> b \<Longrightarrow>
    a < 4 \<or> a = 4 \<and> b < 16 \<Longrightarrow> u8enc (six (six (six a b) c) d) =
      [byte_of (0xF0 + a), byte_of (0x80 + b), byte_of (0x80 + c), byte_of (0x80 + d)]"
  by (subst u8enc_arith) (auto simp: six_less_num div_4096)

lemma shift_or_six: "push_bit 6 c OR x mod 64 = six c (x mod 64)"
  by (simp add: bits_arith six_def)

lemma u8dec_shape2: "2 \<le> a \<Longrightarrow> a < 32 \<Longrightarrow> b < 64 \<Longrightarrow>
    u8dec (byte_of (0xC0 + a) # byte_of (0x80 + b) # post) 0 = Some (2, six a b)"
  by (simp add: u8dec_unfold mask_lead and_mask_arith shift_or_six add_mod_small)

lemma u8dec_shape3: "a < 16 \<Longrightarrow> b < 64 \<Longrightarrow> c < 64 \<Longrightarrow> a = 0 \<longrightarrow> 32 \<le> b \<Longrightarrow> a = 13 \<longrightarrow> b < 32 \<Longrightarrow>
    u8dec (byte_of (0xE0 + a) # byte_of (0x80 + b) # byte_of (0x80 + c) # post) 0 =
      Some (3, six (six a b) c)"
  by (auto simp add: u8dec_unfold mask_lead and_mask_arith shift_or_six add_mod_small)

lemma u8dec_shape4: "b < 64 \<Longrightarrow> c < 64 \<Longrightarrow> d < 64 \<Longrightarrow> a = 0 \<longrightarrow> 16 \<le> b \<Longrightarrow>
    a < 4 \<or> a = 4 \<and> b < 16 \<Longrightarrow>
    u8dec (byte_of (0xF0 + a) # byte_of (0x80 + b) # byte_of (0x80 + c) # byte_of (0x80 + d) # post) 0
      = Some (4, six (six (six a b) c) d)"
  by (auto simp add: u8dec_unfold mask_lead and_mask_arith shift_or_six add_mod_small)

text \<open>Every scalar is of exactly one shape.\<close>

lemma scalar_shapes:
  assumes "scalar cp"
  obtains (s1) "cp < 0x80"
  | (s2) a b where "cp = six a b" "2 \<le> a" "a < 32" "b < 64"
  | (s3) a b c where "cp = six (six a b) c" "a < 16" "b < 64" "c < 64"
      "a = 0 \<longrightarrow> 32 \<le> b" "a = 13 \<longrightarrow> b < 32"
  | (s4) a b c d where "cp = six (six (six a b) c) d" "b < 64" "c < 64" "d < 64"
      "a = 0 \<longrightarrow> 16 \<le> b" "a < 4 \<or> a = 4 \<and> b < 16"
proof -
  obtain h d where hd: "cp = six h d" "d < 64" using six_exhaust by blast
  obtain g c where gc: "h = six g c" "c < 64" using six_exhaust by blast
  obtain a b where ab: "g = six a b" "b < 64" using six_exhaust by blast
  have top: "cp < 0x110000" using assms by (simp add: scalar_def)
  consider "cp < 0x80" | "0x80 \<le> cp" "cp < 0x800" | "0x800 \<le> cp" "cp < 0x10000" | "0x10000 \<le> cp"
    by linarith
  then show thesis
  proof cases
    case 1
    then show thesis by (rule s1)
  next
    case 2
    then show thesis using s2 [OF hd(1)] hd by (auto simp: six_less_num simp flip: not_less)
  next
    case 3
    then have "g < 16" "g = 0 \<longrightarrow> 32 \<le> c"
      using hd gc by (auto simp: six_less_num simp flip: not_less)
    moreover have "g = 13 \<longrightarrow> c < 32"
      using assms hd gc by (auto simp: scalar_def six_def)
    ultimately show thesis using s3 [of g c d] hd gc by simp
  next
    case 4
    then have "a = 0 \<longrightarrow> 16 \<le> b" "a < 4 \<or> a = 4 \<and> b < 16"
      using top hd gc ab by (auto simp: six_less_num simp flip: not_less)
    then show thesis using s4 [of a b c d] hd gc ab by simp
  qed
qed

lemma u8dec_u8enc_0:
  assumes "scalar cp"
  shows "u8dec (u8enc cp @ post) 0 = Some (u8len cp, cp)"
  using assms
proof (cases rule: scalar_shapes)
  case s1
  then show ?thesis by (simp add: u8enc_def u8len_def u8dec_def)
next
  case (s2 a b)
  then show ?thesis by (simp add: u8enc_shape2 u8dec_shape2 u8len_def six_less_num)
next
  case (s3 a b c)
  then show ?thesis by (auto simp: u8enc_shape3 u8dec_shape3 u8len_def six_less_num)
next
  case (s4 a b c d)
  then show ?thesis by (auto simp: u8enc_shape4 u8dec_shape4 u8len_def six_less_num)
qed


text \<open>
  Conversely the decoder accepts nothing but the encoding of a scalar: no overlong form, no
  surrogate, nothing above the last code point.
\<close>

lemma byte_sub: "c \<le> unat b \<Longrightarrow> b = byte_of (c + (unat b - c))"
  by (simp add: byte_of_def)

lemma u8dec_lead2:
  assumes "u8dec (b0 # r) 0 = Some (k, cp)" and l2: "0xC2 \<le> unat b0" "unat b0 \<le> 0xDF"
  obtains a b post where "k = 2" "2 \<le> a" "a < 32" "b < 64"
      "b0 # r = byte_of (0xC0 + a) # byte_of (0x80 + b) # post" "cp = six a b"
proof -
  obtain b1 post where r: "r = b1 # post" "0x80 \<le> unat b1" "unat b1 \<le> 0xBF" "k = 2"
    using assms by (cases r) (auto simp: u8dec_unfold split: if_splits)
  let ?a = "unat b0 - 0xC0" and ?b = "unat b1 - 0x80"
  have ab: "2 \<le> ?a" "?a < 32" "?b < 64" using l2 r by auto
  have l: "b0 # r = byte_of (0xC0 + ?a) # byte_of (0x80 + ?b) # post"
    using r l2 byte_sub [of "0xC0" b0] byte_sub [of "0x80" b1] by simp
  show thesis using that [OF r(4) ab l] u8dec_shape2 [OF ab, of post] assms l by simp
qed

lemma u8dec_lead3:
  assumes "u8dec (b0 # r) 0 = Some (k, cp)" and l3: "0xE0 \<le> unat b0" "unat b0 \<le> 0xEF"
  obtains a b c post where "k = 3" "a < 16" "b < 64" "c < 64" "a = 0 \<longrightarrow> 32 \<le> b" "a = 13 \<longrightarrow> b < 32"
      "b0 # r = byte_of (0xE0 + a) # byte_of (0x80 + b) # byte_of (0x80 + c) # post"
      "cp = six (six a b) c"
proof -
  obtain b1 b2 post where r: "r = b1 # b2 # post" "0x80 \<le> unat b1" "unat b1 \<le> 0xBF"
    "0x80 \<le> unat b2" "unat b2 \<le> 0xBF" "unat b0 = 0xE0 \<longrightarrow> 0xA0 \<le> unat b1"
    "unat b0 = 0xED \<longrightarrow> unat b1 \<le> 0x9F" "k = 3"
    using assms by (cases r; cases "tl r") (auto simp: u8dec_unfold split: if_splits)
  let ?a = "unat b0 - 0xE0" and ?b = "unat b1 - 0x80" and ?c = "unat b2 - 0x80"
  have ab: "?a < 16" "?b < 64" "?c < 64" "?a = 0 \<longrightarrow> 32 \<le> ?b" "?a = 13 \<longrightarrow> ?b < 32"
    using l3 r by auto
  have l: "b0 # r = byte_of (0xE0 + ?a) # byte_of (0x80 + ?b) # byte_of (0x80 + ?c) # post"
    using r l3 byte_sub [of "0xE0" b0] byte_sub [of "0x80" b1] byte_sub [of "0x80" b2] by simp
  show thesis using that [OF r(8) ab l] u8dec_shape3 [OF ab, of post] assms l by simp
qed

lemma u8dec_lead4:
  assumes "u8dec (b0 # r) 0 = Some (k, cp)" and l4: "0xF0 \<le> unat b0" "unat b0 \<le> 0xF4"
  obtains a b c d post where "k = 4" "b < 64" "c < 64" "d < 64" "a = 0 \<longrightarrow> 16 \<le> b"
      "a < 4 \<or> a = 4 \<and> b < 16"
      "b0 # r = byte_of (0xF0 + a) # byte_of (0x80 + b) # byte_of (0x80 + c) # byte_of (0x80 + d) # post"
      "cp = six (six (six a b) c) d"
proof -
  obtain b1 b2 b3 post where r: "r = b1 # b2 # b3 # post" "0x80 \<le> unat b1" "unat b1 \<le> 0xBF"
    "0x80 \<le> unat b2" "unat b2 \<le> 0xBF" "0x80 \<le> unat b3" "unat b3 \<le> 0xBF"
    "unat b0 = 0xF0 \<longrightarrow> 0x90 \<le> unat b1" "unat b0 = 0xF4 \<longrightarrow> unat b1 \<le> 0x8F" "k = 4"
    using assms by (cases r; cases "tl r"; cases "tl (tl r)") (auto simp: u8dec_unfold split: if_splits)
  let ?a = "unat b0 - 0xF0" and ?b = "unat b1 - 0x80" and ?c = "unat b2 - 0x80" and ?d = "unat b3 - 0x80"
  have ab: "?b < 64" "?c < 64" "?d < 64" "?a = 0 \<longrightarrow> 16 \<le> ?b" "?a < 4 \<or> ?a = 4 \<and> ?b < 16"
    using l4 r by auto
  have l: "b0 # r = byte_of (0xF0 + ?a) # byte_of (0x80 + ?b) # byte_of (0x80 + ?c) # byte_of (0x80 + ?d) # post"
    using r l4 byte_sub [of "0xF0" b0] byte_sub [of "0x80" b1] byte_sub [of "0x80" b2]
      byte_sub [of "0x80" b3] by simp
  show thesis using that [OF r(10) ab l] u8dec_shape4 [OF ab, of post] assms l by simp
qed

lemma scalar_six3: "a < 16 \<Longrightarrow> b < 64 \<Longrightarrow> c < 64 \<Longrightarrow> a = 13 \<longrightarrow> b < 32 \<Longrightarrow> scalar (six (six a b) c)"
  by (cases "a \<le> 12"; cases "a = 13") (auto simp: scalar_def six_def)

lemma scalar_six4: "b < 64 \<Longrightarrow> c < 64 \<Longrightarrow> d < 64 \<Longrightarrow> a = 0 \<longrightarrow> 16 \<le> b \<Longrightarrow>
    a < 4 \<or> a = 4 \<and> b < 16 \<Longrightarrow> scalar (six (six (six a b) c) d)"
  by (auto simp: scalar_def six_def)

lemma u8dec_Some_0:
  assumes "u8dec (b0 # r) 0 = Some (k, cp)"
  shows "scalar cp \<and> (\<exists>post. b0 # r = u8enc cp @ post)"
proof -
  consider (l1) "unat b0 < 0x80" | (l2) "0xC2 \<le> unat b0" "unat b0 \<le> 0xDF"
    | (l3) "0xE0 \<le> unat b0" "unat b0 \<le> 0xEF" | (l4) "0xF0 \<le> unat b0" "unat b0 \<le> 0xF4"
    | (bad) "u8_lead (unat b0) = None" "0x80 \<le> unat b0"
    by (fastforce simp: u8_lead_def)
  then show ?thesis
  proof cases
    case l1
    then show ?thesis
      using assms by (auto simp: u8dec_def Let_def byte_of_def scalar_def u8enc_def u8len_def)
  next
    case l2
    from u8dec_lead2 [OF assms l2] obtain a b post where
      "2 \<le> a" "a < 32" "b < 64" "b0 # r = byte_of (0xC0 + a) # byte_of (0x80 + b) # post"
      "cp = six a b" by metis
    then have "scalar cp" "b0 # r = u8enc cp @ post"
      by (simp_all add: u8enc_shape2 scalar_def) (simp add: six_def)
    then show ?thesis by blast
  next
    case l3
    from u8dec_lead3 [OF assms l3] obtain a b c post where
      ab: "a < 16" "b < 64" "c < 64" "a = 0 \<longrightarrow> 32 \<le> b" "a = 13 \<longrightarrow> b < 32"
      and l: "b0 # r = byte_of (0xE0 + a) # byte_of (0x80 + b) # byte_of (0x80 + c) # post"
      and cp: "cp = six (six a b) c" by metis
    have "b0 # r = u8enc cp @ post" using u8enc_shape3 [OF ab(1-4)] l cp by simp
    then show ?thesis using scalar_six3 [OF ab(1-3,5)] cp by blast
  next
    case l4
    from u8dec_lead4 [OF assms l4] obtain a b c d post where
      ab: "b < 64" "c < 64" "d < 64" "a = 0 \<longrightarrow> 16 \<le> b" "a < 4 \<or> a = 4 \<and> b < 16"
      and l: "b0 # r = byte_of (0xF0 + a) # byte_of (0x80 + b) # byte_of (0x80 + c) # byte_of (0x80 + d) # post"
      and cp: "cp = six (six (six a b) c) d" by metis
    have "b0 # r = u8enc cp @ post" using u8enc_shape4 [OF ab] l cp by simp
    then show ?thesis using scalar_six4 [OF ab] cp by blast
  next
    case bad
    then show ?thesis using assms by (simp add: u8dec_def Let_def)
  qed
qed

section \<open>Whole buffers\<close>

lemma u8dec_sound_aux:
  assumes "i < length s" and "u8dec s i = Some (k, cp)"
  shows "scalar cp" "k = u8len cp" "i + k \<le> length s" "drop i s = u8enc cp @ drop (i + k) s"
proof -
  from assms(1) obtain b0 r where d: "drop i s = b0 # r"
    by (cases "drop i s") auto
  have dec: "u8dec (b0 # r) 0 = Some (k, cp)"
    using assms u8dec_drop [of i s] d by simp
  from u8dec_Some_0 [OF dec] obtain post where p: "scalar cp" "b0 # r = u8enc cp @ post" by blast
  then have k: "k = u8len cp" using dec u8dec_u8enc_0 [of cp post] by simp
  have "length (drop i s) = k + length post" using d p k by simp
  then show "i + k \<le> length s" using assms(1) by simp
  have "drop (i + k) s = drop k (drop i s)" by (simp add: add.commute)
  also have "\<dots> = post" using d p k by simp
  finally show "drop i s = u8enc cp @ drop (i + k) s" using d p by simp
  show "scalar cp" "k = u8len cp" by fact+
qed

lemma u8dec_at:
  assumes "scalar cp"
  shows "u8dec (pre @ u8enc cp @ post) (length pre) = Some (u8len cp, cp)"
  using u8dec_u8enc_0 [OF assms, of post] u8dec_drop [of "length pre" "pre @ u8enc cp @ post"]
  by simp

lemma encode_append [simp]: "encode (xs @ ys) = encode xs @ encode ys"
  by simp

lemma well_formed_Nil [simp]: "well_formed []"
  unfolding well_formed_def by (rule exI [of _ "[]"]) simp

lemma well_formed_append: "well_formed s \<Longrightarrow> well_formed t \<Longrightarrow> well_formed (s @ t)"
  unfolding well_formed_def by (metis encode_append list_all_append)

lemma well_formed_u8enc: "scalar cp \<Longrightarrow> well_formed (u8enc cp)"
  unfolding well_formed_def by (rule exI [of _ "[cp]"]) simp

lemma well_formed_encode: "list_all scalar cps \<Longrightarrow> well_formed (encode cps)"
  unfolding well_formed_def by blast

lemma encode_eq_Nil: "encode cps = [] \<longleftrightarrow> cps = []"
  by (cases cps) auto

lemma encode_inj: "list_all scalar xs \<Longrightarrow> list_all scalar ys \<Longrightarrow> encode xs = encode ys \<Longrightarrow> xs = ys"
proof (induction xs arbitrary: ys)
  case Nil
  then show ?case using encode_eq_Nil [of ys] by simp
next
  case (Cons x xs)
  have "encode ys \<noteq> []" using Cons.prems(3) encode_eq_Nil [of "x # xs"] by simp
  then have "ys \<noteq> []" using encode_eq_Nil [of ys] by simp
  then obtain y ys' where ys: "ys = y # ys'" by (cases ys) auto
  have e: "u8enc x @ encode xs = u8enc y @ encode ys'" using Cons.prems(3) ys by simp
  have "scalar x" "scalar y" using Cons.prems ys by auto
  then have "x = y" using u8dec_u8enc_0 [of x "encode xs"] u8dec_u8enc_0 [of y "encode ys'"] e by simp
  then show ?case using Cons.IH [of ys'] Cons.prems ys e by simp
qed

text \<open>Where the validation loop stops: the bytes before it decode, and those at it do not.\<close>

lemma validate_from_neg: "validate_from s i = -1 \<Longrightarrow> i \<le> length s \<Longrightarrow> well_formed (drop i s)"
proof (induction s i rule: validate_from.induct)
  case (1 s i)
  show ?case
  proof (cases "i < length s")
    case True
    with "1.prems" obtain k cp where d: "u8dec s i = Some (k, cp)"
      by (auto simp: validate_from.simps [of s i] split: option.splits)
    note p = u8dec_sound_aux [OF True d]
    have "well_formed (drop (i + k) s)"
      using "1.IH" [OF True d refl] "1.prems" True d p(3) by (simp add: validate_from.simps [of s i])
    then show ?thesis using p(1) by (subst p(4)) (simp add: well_formed_append well_formed_u8enc)
  qed simp
qed

lemma validate_from_encode:
  assumes "list_all scalar cps"
  shows "validate_from (pre @ encode cps) (length pre) = -1"
  using assms
proof (induction cps arbitrary: pre)
  case Nil
  then show ?case by (simp add: validate_from.simps)
next
  case (Cons cp cps)
  have "u8dec (pre @ encode (cp # cps)) (length pre) = Some (u8len cp, cp)"
    using Cons.prems u8dec_at by simp
  moreover have "validate_from ((pre @ u8enc cp) @ encode cps) (length (pre @ u8enc cp)) = -1"
    using Cons.prems by (intro Cons.IH) simp
  ultimately show ?case
    using u8len_range(1) [of cp] by (subst validate_from.simps) simp
qed

lemma validate_from_index:
  "validate_from s i = int j \<Longrightarrow> i \<le> length s \<Longrightarrow>
     i \<le> j \<and> j < length s \<and> u8dec s j = None \<and> well_formed (drop i (take j s))"
proof (induction s i rule: validate_from.induct)
  case (1 s i)
  from "1.prems" have i: "i < length s" by (auto simp: validate_from.simps [of s i] split: if_splits)
  show ?case
  proof (cases "u8dec s i")
    case None
    with "1.prems" i show ?thesis by (simp add: validate_from.simps [of s i])
  next
    case (Some p)
    obtain k cp where d: "u8dec s i = Some (k, cp)" using Some by (cases p) auto
    note p = u8dec_sound_aux [OF i d]
    have IH: "i + k \<le> j \<and> j < length s \<and> u8dec s j = None \<and> well_formed (drop (i + k) (take j s))"
      using "1.IH" [OF i d refl] "1.prems" d i p(3) by (simp add: validate_from.simps [of s i])
    have "drop i (take j s) = take (j - i) (u8enc cp @ drop (i + k) s)"
      by (subst p(4) [symmetric]) (simp add: drop_take)
    also have "\<dots> = u8enc cp @ drop (i + k) (take j s)"
    proof -
      have "u8len cp \<le> j - i" using IH p(2) by arith
      then show ?thesis using p(2) by (simp add: drop_take)
    qed
    finally show ?thesis using IH p(1) by (simp add: well_formed_append well_formed_u8enc)
  qed
qed

section \<open>Properties\<close>

text \<open>
  C28. Round trip of the encoder and the decoder: every scalar value decodes from its own
  encoding at any offset of any buffer, with the length the encoder used.
\<close>

theorem u8_roundtrip:
  assumes "scalar cp"
  shows "u8dec (pre @ u8enc cp @ post) (length pre) = Some (u8len cp, cp)"
  using assms by (rule u8dec_at)

theorem u8_roundtrip_witness:
  "u8dec ([byte_of 65] @ u8enc 0x20AC @ [byte_of 66]) (length [byte_of 65]) = Some (u8len 0x20AC, 0x20AC)"
  by (rule u8_roundtrip) (simp add: scalar_def)

text \<open>
  The decoder is strict: what it accepts at an offset inside the buffer is exactly the
  encoding of a scalar value -- never an overlong form, a surrogate or a value above
  U+10FFFF -- and it reads only bytes of the buffer.
\<close>

lemma u8dec_strict:
  assumes "i < length s" and "u8dec s i = Some (k, cp)"
  shows "scalar cp \<and> k = u8len cp \<and> i + k \<le> length s \<and> take k (drop i s) = u8enc cp"
proof -
  note p = u8dec_sound_aux [OF assms]
  have "take k (drop i s) = u8enc cp" by (subst p(4)) (simp add: p(2))
  with p show ?thesis by simp
qed

lemma u8dec_strict_witness:
  "scalar 0xE9 \<and> 2 = u8len 0xE9 \<and> 0 + 2 \<le> length [byte_of 0xC3, byte_of 0xA9] \<and>
    take 2 (drop 0 [byte_of 0xC3, byte_of 0xA9]) = u8enc 0xE9"
proof (rule u8dec_strict)
  show "u8dec [byte_of 0xC3, byte_of 0xA9] 0 = Some (2, 0xE9)"
    using u8dec_shape2 [of 3 "0x29" "[]"] by (simp add: six_def)
qed simp

text \<open>
  Validation decides well-formedness: \<open>pas_text_validate\<close> answers -1 exactly on the
  buffers that are a concatenation of encodings of scalar values.
\<close>

lemma validate_iff_well_formed: "pas_text_validate s = -1 \<longleftrightarrow> well_formed s"
  unfolding pas_text_validate_def
  using validate_from_neg [of s 0] validate_from_encode [of _ "[]"]
  by (auto simp: well_formed_def)

text \<open>
  Otherwise the answer is the index of the first byte that is not part of a well-formed
  sequence: everything before it is well-formed and no scalar's encoding begins there.
\<close>

lemma validate_first_bad:
  assumes "pas_text_validate s = int j"
  shows "j < length s \<and> well_formed (take j s) \<and>
    \<not> (\<exists>cp post. scalar cp \<and> drop j s = u8enc cp @ post)"
proof -
  from assms have v: "j < length s" "u8dec s j = None" "well_formed (take j s)"
    using validate_from_index [of s 0 j] by (auto simp: pas_text_validate_def)
  then have "u8dec (drop j s) 0 = None" using u8dec_drop [of j s] by simp
  then show ?thesis using v u8dec_u8enc_0 by fastforce
qed

lemma validate_first_bad_witness:
  "1 < length [byte_of 65, byte_of 0xC0, byte_of 0x80] \<and>
    well_formed (take 1 [byte_of 65, byte_of 0xC0, byte_of 0x80]) \<and>
    \<not> (\<exists>cp post. scalar cp \<and> drop 1 [byte_of 65, byte_of 0xC0, byte_of 0x80] = u8enc cp @ post)"
proof (rule validate_first_bad)
  show "pas_text_validate [byte_of 65, byte_of 0xC0, byte_of 0x80] = int 1"
    by (simp add: pas_text_validate_def validate_from.simps u8dec_def u8_lead_def)
qed

end
