(* ===== verification/Lookup.thy ===== *)
theory Lookup
  imports Utf8
begin

text \<open>
  The entries of the Unicode tables (\<^verbatim>\<open>src/runtime/pasrt_unicode_data.h\<close>) and the bisection
  that finds one (\<^verbatim>\<open>src/runtime/pasrt_unicode.c\<close>).

  The runtime writes the same loop four times: over code point ranges (\<open>range_lookup_or\<close>),
  over the decompositions (\<open>decomp_lookup\<close>), over the composites (\<open>compose_pair\<close>) and over
  the case mappings (\<open>case_lookup\<close>). \<open>bisect\<close> is that loop, over the two comparisons the
  loop makes; the locale \<open>sorted_table\<close> states what a table owes the loop, and the lemma
  \<open>bisect_find\<close> proved in it says that the loop answers what a linear search would.
\<close>

section \<open>The structs\<close>

datatype pas_u_range = PURange (rlo: nat) (rhi: nat) (rv: nat)

datatype pas_u_decomp = PUDecomp (dcp: nat) (da: nat) (db: nat)

datatype pas_u_compose = PUCompose (ca: nat) (cb: nat) (ccp: nat)

datatype pas_u_case = PUCase (kcp: nat) (kn: nat) (ka: nat) (kb: nat) (kc: nat)

section \<open>The loop\<close>

function bisect :: "('e \<Rightarrow> bool) \<Rightarrow> ('e \<Rightarrow> bool) \<Rightarrow> 'e list \<Rightarrow> nat \<Rightarrow> nat \<Rightarrow> 'e option" where
  "bisect kbefore kafter tbl lo hi =
     (if lo < hi then
        let mid = lo + (hi - lo) div 2; e = tbl ! mid in
        if kbefore e then bisect kbefore kafter tbl lo mid
        else if kafter e then bisect kbefore kafter tbl (mid + 1) hi
        else Some e
      else None)"
  by pat_completeness auto
termination
  by (relation "measure (\<lambda>(kbefore, kafter, tbl, lo, hi). hi - lo)") auto

declare bisect.simps [simp del]

definition range_lookup_or :: "pas_u_range list \<Rightarrow> cpoint \<Rightarrow> nat \<Rightarrow> nat" where
  "range_lookup_or tbl cp dflt =
     (case bisect (\<lambda>e. cp < rlo e) (\<lambda>e. cp > rhi e) tbl 0 (length tbl) of
        Some e \<Rightarrow> rv e | None \<Rightarrow> dflt)"

definition range_lookup :: "pas_u_range list \<Rightarrow> cpoint \<Rightarrow> nat" where
  "range_lookup tbl cp = range_lookup_or tbl cp 0"

section \<open>What a table owes the loop\<close>

text \<open>
  \<open>kbefore k e\<close> says that the key lies before the entry, \<open>kafter k e\<close> that it lies after it. The
  laws are those of a sorted table: a key before an entry is before every later one, a key
  after an entry is after every earlier one, and no key belongs to two entries.
\<close>

locale sorted_table =
  fixes kbefore :: "'k \<Rightarrow> 'e \<Rightarrow> bool"
    and kafter :: "'k \<Rightarrow> 'e \<Rightarrow> bool"
    and tbl :: "'e list"
  assumes before_later: "i < j \<Longrightarrow> j < length tbl \<Longrightarrow> kbefore k (tbl ! i) \<Longrightarrow> kbefore k (tbl ! j)"
    and after_earlier: "i < j \<Longrightarrow> j < length tbl \<Longrightarrow> kafter k (tbl ! j) \<Longrightarrow> kafter k (tbl ! i)"
    and one_entry: "i < j \<Longrightarrow> j < length tbl \<Longrightarrow> kbefore k (tbl ! j) \<or> kafter k (tbl ! i)"
begin

lemma bisect_hit:
  "bisect (kbefore k) (kafter k) tbl lo hi = Some e \<Longrightarrow> hi \<le> length tbl \<Longrightarrow>
     e \<in> set tbl \<and> \<not> kbefore k e \<and> \<not> kafter k e"
proof (induction "kbefore k" "kafter k" tbl lo hi rule: bisect.induct)
  case (1 tbl lo hi)
  then show ?case
    by (subst (asm) (3) bisect.simps) (auto simp: Let_def split: if_splits)
qed

lemma bisect_miss:
  "bisect (kbefore k) (kafter k) tbl lo hi = None \<Longrightarrow> hi \<le> length tbl \<Longrightarrow> lo \<le> i \<Longrightarrow> i < hi \<Longrightarrow>
     kbefore k (tbl ! i) \<or> kafter k (tbl ! i)"
proof (induction "hi - lo" arbitrary: lo hi rule: less_induct)
  case less
  let ?mid = "lo + (hi - lo) div 2"
  have mid: "lo \<le> ?mid" "?mid < hi" using less.prems by auto
  show ?case
  proof (cases "kbefore k (tbl ! ?mid)")
    case True
    then have m: "bisect (kbefore k) (kafter k) tbl lo ?mid = None"
      using less.prems by (subst (asm) bisect.simps) (simp add: Let_def split: if_splits)
    show ?thesis
    proof (cases "i < ?mid")
      case True
      then show ?thesis using less.hyps [of ?mid lo] m mid less.prems by simp
    next
      case False
      then show ?thesis using True before_later [of ?mid i k] less.prems by (cases "i = ?mid") auto
    qed
  next
    case nb: False
    then have a: "kafter k (tbl ! ?mid)" and m: "bisect (kbefore k) (kafter k) tbl (?mid + 1) hi = None"
      using less.prems mid by (auto simp: Let_def bisect.simps [of _ _ tbl lo hi] split: if_splits)
    show ?thesis
    proof (cases "i > ?mid")
      case True
      then show ?thesis using less.hyps [of hi "?mid + 1"] m mid less.prems by simp
    next
      case False
      then show ?thesis using a after_earlier [of i ?mid k] less.prems mid by (cases "i = ?mid") auto
    qed
  qed
qed

lemma unique_hit:
  assumes "e \<in> set tbl" "\<not> kbefore k e" "\<not> kafter k e" "e' \<in> set tbl" "\<not> kbefore k e'" "\<not> kafter k e'"
  shows "e = e'"
proof -
  obtain i j where "i < length tbl" "j < length tbl" "e = tbl ! i" "e' = tbl ! j"
    using assms by (metis in_set_conv_nth)
  then show ?thesis using assms one_entry [of i j k] one_entry [of j i k]
    by (cases i j rule: linorder_cases) auto
qed

lemma bisect_find:
  "bisect (kbefore k) (kafter k) tbl 0 (length tbl) = find (\<lambda>e. \<not> kbefore k e \<and> \<not> kafter k e) tbl"
proof (cases "bisect (kbefore k) (kafter k) tbl 0 (length tbl)")
  case None
  then have "\<forall>i < length tbl. kbefore k (tbl ! i) \<or> kafter k (tbl ! i)"
    using bisect_miss [of k 0 "length tbl"] by auto
  then have "find (\<lambda>e. \<not> kbefore k e \<and> \<not> kafter k e) tbl = None"
    by (auto simp: find_None_iff in_set_conv_nth)
  then show ?thesis using None by simp
next
  case (Some e)
  then have e: "e \<in> set tbl" "\<not> kbefore k e" "\<not> kafter k e" using bisect_hit by auto
  then obtain e' where e': "find (\<lambda>e. \<not> kbefore k e \<and> \<not> kafter k e) tbl = Some e'"
    by (metis (mono_tags, lifting) find_None_iff option.exhaust)
  then have "e' \<in> set tbl" "\<not> kbefore k e'" "\<not> kafter k e'"
    by (auto simp: find_Some_iff)
  then show ?thesis using Some e e' unique_hit by metis
qed

lemma bisect_entry: "e \<in> set tbl \<Longrightarrow> \<not> kbefore k e \<Longrightarrow> \<not> kafter k e \<Longrightarrow>
    bisect (kbefore k) (kafter k) tbl 0 (length tbl) = Some e"
  using bisect_miss [of k 0 "length tbl"] bisect_hit [of k 0 "length tbl"] unique_hit
  by (metis in_set_conv_nth le0 le_refl option.exhaust)

end

section \<open>Checking a table once\<close>

text \<open>
  Sortedness of a range table, computed in one pass from the smallest code point the next
  range may begin at; the answer is that bound after the last range, so that a table can be
  checked in parts. \<open>P\<close> is what every value satisfies.
\<close>

fun ranges_run :: "(nat \<Rightarrow> bool) \<Rightarrow> nat \<Rightarrow> pas_u_range list \<Rightarrow> nat option" where
  "ranges_run P n [] = Some n"
| "ranges_run P n (PURange lo hi v # rs) =
     (if n \<le> lo \<and> lo \<le> hi \<and> P v then ranges_run P (Suc hi) rs else None)"

lemma ranges_run_append:
  "ranges_run P n (xs @ ys) = Option.bind (ranges_run P n xs) (\<lambda>m. ranges_run P m ys)"
  by (induction P n xs rule: ranges_run.induct) auto

lemma ranges_run_sorted:
  "ranges_run P n rs = Some m \<Longrightarrow>
     sorted_wrt (\<lambda>x y. rhi x < rlo y) rs \<and> (\<forall>r \<in> set rs. n \<le> rlo r \<and> rlo r \<le> rhi r \<and> P (rv r))"
proof (induction P n rs rule: ranges_run.induct)
  case (2 P n lo hi v rs)
  then have "n \<le> lo" "lo \<le> hi" "P v" "ranges_run P (Suc hi) rs = Some m" by (auto split: if_splits)
  with 2 have "sorted_wrt (\<lambda>x y. rhi x < rlo y) rs"
    and "\<forall>r \<in> set rs. Suc hi \<le> rlo r \<and> rlo r \<le> rhi r \<and> P (rv r)" by auto
  with \<open>n \<le> lo\<close> \<open>lo \<le> hi\<close> \<open>P v\<close> show ?case by fastforce
qed simp

text \<open>A checked range table is a sorted table for the comparisons of \<open>range_lookup_or\<close>.\<close>

locale range_table =
  fixes tbl :: "pas_u_range list" and P :: "nat \<Rightarrow> bool"
  assumes checked: "ranges_run P 0 tbl \<noteq> None"
begin

lemma tbl_sorted: "sorted_wrt (\<lambda>x y. rhi x < rlo y) tbl"
  and tbl_entry: "r \<in> set tbl \<Longrightarrow> rlo r \<le> rhi r \<and> P (rv r)"
proof -
  obtain m where "ranges_run P 0 tbl = Some m" using checked by blast
  note s = ranges_run_sorted [OF this]
  show "sorted_wrt (\<lambda>x y. rhi x < rlo y) tbl" using s by blast
  show "r \<in> set tbl \<Longrightarrow> rlo r \<le> rhi r \<and> P (rv r)" using s by blast
qed

lemma tbl_nth_less: "i < j \<Longrightarrow> j < length tbl \<Longrightarrow> rhi (tbl ! i) < rlo (tbl ! j)"
  using sorted_wrt_nth_less [OF tbl_sorted] .

lemma tbl_nth_le: "i < length tbl \<Longrightarrow> rlo (tbl ! i) \<le> rhi (tbl ! i)"
  using tbl_entry by simp

end

sublocale range_table \<subseteq> sorted_table "\<lambda>cp e. cp < rlo e" "\<lambda>cp e. cp > rhi e" tbl
proof unfold_locales
  fix i j and k :: nat
  assume ij: "i < j" "j < length tbl"
  have le: "rlo (tbl ! i) \<le> rhi (tbl ! i)" "rhi (tbl ! i) < rlo (tbl ! j)" "rlo (tbl ! j) \<le> rhi (tbl ! j)"
    using tbl_nth_le tbl_nth_less ij by auto
  show "k < rlo (tbl ! i) \<Longrightarrow> k < rlo (tbl ! j)" using le by simp
  show "k > rhi (tbl ! j) \<Longrightarrow> k > rhi (tbl ! i)" using le by simp
  show "k < rlo (tbl ! j) \<or> k > rhi (tbl ! i)" using le by linarith
qed

context range_table
begin

lemma lookup_find:
  "range_lookup_or tbl cp d =
     (case find (\<lambda>e. rlo e \<le> cp \<and> cp \<le> rhi e) tbl of Some e \<Rightarrow> rv e | None \<Rightarrow> d)"
  using bisect_find [of cp] by (simp add: range_lookup_or_def not_less)

lemma entry_lookup: "r \<in> set tbl \<Longrightarrow> rlo r \<le> cp \<Longrightarrow> cp \<le> rhi r \<Longrightarrow> range_lookup_or tbl cp d = rv r"
  using bisect_entry [of r cp] by (simp add: range_lookup_or_def)

lemma lookup_value: "range_lookup_or tbl cp d = d \<or> P (range_lookup_or tbl cp d)"
proof (cases "find (\<lambda>e. rlo e \<le> cp \<and> cp \<le> rhi e) tbl")
  case None
  then show ?thesis by (simp add: lookup_find)
next
  case (Some e)
  then have "e \<in> set tbl" by (auto simp: find_Some_iff)
  then show ?thesis using Some tbl_entry by (simp add: lookup_find)
qed

end

section \<open>Tables with one code point per entry\<close>

text \<open>The same for a table sorted by a key, which is how the other tables are searched.\<close>

fun keys_run :: "('e \<Rightarrow> nat) \<Rightarrow> ('e \<Rightarrow> bool) \<Rightarrow> nat \<Rightarrow> 'e list \<Rightarrow> nat option" where
  "keys_run f P n [] = Some n"
| "keys_run f P n (e # es) = (if n \<le> f e \<and> P e then keys_run f P (Suc (f e)) es else None)"

lemma keys_run_append:
  "keys_run f P n (xs @ ys) = Option.bind (keys_run f P n xs) (\<lambda>m. keys_run f P m ys)"
  by (induction f P n xs rule: keys_run.induct) auto

lemma keys_run_sorted:
  "keys_run f P n es = Some m \<Longrightarrow>
     sorted_wrt (\<lambda>x y. f x < f y) es \<and> (\<forall>e \<in> set es. n \<le> f e \<and> P e)"
proof (induction f P n es rule: keys_run.induct)
  case (2 f P n e es)
  then have "n \<le> f e" "P e" "keys_run f P (Suc (f e)) es = Some m" by (auto split: if_splits)
  with 2 have "sorted_wrt (\<lambda>x y. f x < f y) es" "\<forall>x \<in> set es. Suc (f e) \<le> f x \<and> P x" by auto
  with \<open>n \<le> f e\<close> \<open>P e\<close> show ?case by fastforce
qed simp

locale key_table =
  fixes key :: "'e \<Rightarrow> nat" and P :: "'e \<Rightarrow> bool" and tbl :: "'e list"
  assumes checked: "keys_run key P 0 tbl \<noteq> None"
begin

lemma keys_sorted: "sorted_wrt (\<lambda>x y. key x < key y) tbl"
  and entry_ok: "e \<in> set tbl \<Longrightarrow> P e"
proof -
  obtain m where "keys_run key P 0 tbl = Some m" using checked by blast
  note s = keys_run_sorted [OF this]
  show "sorted_wrt (\<lambda>x y. key x < key y) tbl" using s by blast
  show "e \<in> set tbl \<Longrightarrow> P e" using s by blast
qed

lemma keys_less: "i < j \<Longrightarrow> j < length tbl \<Longrightarrow> key (tbl ! i) < key (tbl ! j)"
  using sorted_wrt_nth_less [OF keys_sorted] .

end

sublocale key_table \<subseteq> sorted_table "\<lambda>k e. k < key e" "\<lambda>k e. k > key e" tbl
proof unfold_locales
  fix i j and k :: nat
  assume "i < j" "j < length tbl"
  then have lt: "key (tbl ! i) < key (tbl ! j)" by (rule keys_less)
  show "k < key (tbl ! i) \<Longrightarrow> k < key (tbl ! j)" using lt by simp
  show "k > key (tbl ! j) \<Longrightarrow> k > key (tbl ! i)" using lt by simp
  show "k < key (tbl ! j) \<or> k > key (tbl ! i)" using lt by linarith
qed

context key_table
begin

lemma lookup_key: "bisect (\<lambda>e. k < key e) (\<lambda>e. k > key e) tbl 0 (length tbl) = find (\<lambda>e. key e = k) tbl"
proof -
  have "(\<lambda>e. \<not> k < key e \<and> \<not> k > key e) = (\<lambda>e. key e = k)" by auto
  then show ?thesis using bisect_find [of k] by simp
qed

lemma lookup_entry: "e \<in> set tbl \<Longrightarrow>
    bisect (\<lambda>x. key e < key x) (\<lambda>x. key e > key x) tbl 0 (length tbl) = Some e"
  by (rule bisect_entry) auto

end

end
