(* ===== verification/TablesCase.thy ===== *)
theory TablesCase
  imports Lookup
begin

text \<open>
  The three case tables of \<^verbatim>\<open>src/runtime/pasrt_unicode_data.h\<close>, transcribed entry by entry
  in parts of at most 128 entries. Each is checked to be sorted by code point, to use one to
  three of its places, and to map to scalar values only.
\<close>

definition case_entry_ok :: "pas_u_case \<Rightarrow> bool" where
  "case_entry_ok e \<longleftrightarrow> 1 \<le> kn e \<and> kn e \<le> 3 \<and> scalar (kcp e) \<and> scalar (ka e) \<and> scalar (kb e) \<and> scalar (kc e) \<and>
     u8len (ka e) + (if 2 \<le> kn e then u8len (kb e) else 0) + (if 3 \<le> kn e then u8len (kc e) else 0)
       \<le> 3 * u8len (kcp e)"

definition pas_u_fold_0 :: "pas_u_case list" where
  "pas_u_fold_0 = [
    PUCase 0x41 1 0x61 0 0, PUCase 0x42 1 0x62 0 0, PUCase 0x43 1 0x63 0 0,
    PUCase 0x44 1 0x64 0 0, PUCase 0x45 1 0x65 0 0, PUCase 0x46 1 0x66 0 0,
    PUCase 0x47 1 0x67 0 0, PUCase 0x48 1 0x68 0 0, PUCase 0x49 1 0x69 0 0,
    PUCase 0x4A 1 0x6A 0 0, PUCase 0x4B 1 0x6B 0 0, PUCase 0x4C 1 0x6C 0 0,
    PUCase 0x4D 1 0x6D 0 0, PUCase 0x4E 1 0x6E 0 0, PUCase 0x4F 1 0x6F 0 0,
    PUCase 0x50 1 0x70 0 0, PUCase 0x51 1 0x71 0 0, PUCase 0x52 1 0x72 0 0,
    PUCase 0x53 1 0x73 0 0, PUCase 0x54 1 0x74 0 0, PUCase 0x55 1 0x75 0 0,
    PUCase 0x56 1 0x76 0 0, PUCase 0x57 1 0x77 0 0, PUCase 0x58 1 0x78 0 0,
    PUCase 0x59 1 0x79 0 0, PUCase 0x5A 1 0x7A 0 0, PUCase 0xB5 1 0x3BC 0 0,
    PUCase 0xC0 1 0xE0 0 0, PUCase 0xC1 1 0xE1 0 0, PUCase 0xC2 1 0xE2 0 0,
    PUCase 0xC3 1 0xE3 0 0, PUCase 0xC4 1 0xE4 0 0, PUCase 0xC5 1 0xE5 0 0,
    PUCase 0xC6 1 0xE6 0 0, PUCase 0xC7 1 0xE7 0 0, PUCase 0xC8 1 0xE8 0 0,
    PUCase 0xC9 1 0xE9 0 0, PUCase 0xCA 1 0xEA 0 0, PUCase 0xCB 1 0xEB 0 0,
    PUCase 0xCC 1 0xEC 0 0, PUCase 0xCD 1 0xED 0 0, PUCase 0xCE 1 0xEE 0 0,
    PUCase 0xCF 1 0xEF 0 0, PUCase 0xD0 1 0xF0 0 0, PUCase 0xD1 1 0xF1 0 0,
    PUCase 0xD2 1 0xF2 0 0, PUCase 0xD3 1 0xF3 0 0, PUCase 0xD4 1 0xF4 0 0,
    PUCase 0xD5 1 0xF5 0 0, PUCase 0xD6 1 0xF6 0 0, PUCase 0xD8 1 0xF8 0 0,
    PUCase 0xD9 1 0xF9 0 0, PUCase 0xDA 1 0xFA 0 0, PUCase 0xDB 1 0xFB 0 0,
    PUCase 0xDC 1 0xFC 0 0, PUCase 0xDD 1 0xFD 0 0, PUCase 0xDE 1 0xFE 0 0,
    PUCase 0xDF 2 0x73 0x73 0, PUCase 0x100 1 0x101 0 0, PUCase 0x102 1 0x103 0 0,
    PUCase 0x104 1 0x105 0 0, PUCase 0x106 1 0x107 0 0, PUCase 0x108 1 0x109 0 0,
    PUCase 0x10A 1 0x10B 0 0, PUCase 0x10C 1 0x10D 0 0, PUCase 0x10E 1 0x10F 0 0,
    PUCase 0x110 1 0x111 0 0, PUCase 0x112 1 0x113 0 0, PUCase 0x114 1 0x115 0 0,
    PUCase 0x116 1 0x117 0 0, PUCase 0x118 1 0x119 0 0, PUCase 0x11A 1 0x11B 0 0,
    PUCase 0x11C 1 0x11D 0 0, PUCase 0x11E 1 0x11F 0 0, PUCase 0x120 1 0x121 0 0,
    PUCase 0x122 1 0x123 0 0, PUCase 0x124 1 0x125 0 0, PUCase 0x126 1 0x127 0 0,
    PUCase 0x128 1 0x129 0 0, PUCase 0x12A 1 0x12B 0 0, PUCase 0x12C 1 0x12D 0 0,
    PUCase 0x12E 1 0x12F 0 0, PUCase 0x130 2 0x69 0x307 0, PUCase 0x132 1 0x133 0 0,
    PUCase 0x134 1 0x135 0 0, PUCase 0x136 1 0x137 0 0, PUCase 0x139 1 0x13A 0 0,
    PUCase 0x13B 1 0x13C 0 0, PUCase 0x13D 1 0x13E 0 0, PUCase 0x13F 1 0x140 0 0,
    PUCase 0x141 1 0x142 0 0, PUCase 0x143 1 0x144 0 0, PUCase 0x145 1 0x146 0 0,
    PUCase 0x147 1 0x148 0 0, PUCase 0x149 2 0x2BC 0x6E 0, PUCase 0x14A 1 0x14B 0 0,
    PUCase 0x14C 1 0x14D 0 0, PUCase 0x14E 1 0x14F 0 0, PUCase 0x150 1 0x151 0 0,
    PUCase 0x152 1 0x153 0 0, PUCase 0x154 1 0x155 0 0, PUCase 0x156 1 0x157 0 0,
    PUCase 0x158 1 0x159 0 0, PUCase 0x15A 1 0x15B 0 0, PUCase 0x15C 1 0x15D 0 0,
    PUCase 0x15E 1 0x15F 0 0, PUCase 0x160 1 0x161 0 0, PUCase 0x162 1 0x163 0 0,
    PUCase 0x164 1 0x165 0 0, PUCase 0x166 1 0x167 0 0, PUCase 0x168 1 0x169 0 0,
    PUCase 0x16A 1 0x16B 0 0, PUCase 0x16C 1 0x16D 0 0, PUCase 0x16E 1 0x16F 0 0,
    PUCase 0x170 1 0x171 0 0, PUCase 0x172 1 0x173 0 0, PUCase 0x174 1 0x175 0 0,
    PUCase 0x176 1 0x177 0 0, PUCase 0x178 1 0xFF 0 0, PUCase 0x179 1 0x17A 0 0,
    PUCase 0x17B 1 0x17C 0 0, PUCase 0x17D 1 0x17E 0 0, PUCase 0x17F 1 0x73 0 0,
    PUCase 0x181 1 0x253 0 0, PUCase 0x182 1 0x183 0 0, PUCase 0x184 1 0x185 0 0,
    PUCase 0x186 1 0x254 0 0, PUCase 0x187 1 0x188 0 0]"

definition pas_u_fold_1 :: "pas_u_case list" where
  "pas_u_fold_1 = [
    PUCase 0x189 1 0x256 0 0, PUCase 0x18A 1 0x257 0 0, PUCase 0x18B 1 0x18C 0 0,
    PUCase 0x18E 1 0x1DD 0 0, PUCase 0x18F 1 0x259 0 0, PUCase 0x190 1 0x25B 0 0,
    PUCase 0x191 1 0x192 0 0, PUCase 0x193 1 0x260 0 0, PUCase 0x194 1 0x263 0 0,
    PUCase 0x196 1 0x269 0 0, PUCase 0x197 1 0x268 0 0, PUCase 0x198 1 0x199 0 0,
    PUCase 0x19C 1 0x26F 0 0, PUCase 0x19D 1 0x272 0 0, PUCase 0x19F 1 0x275 0 0,
    PUCase 0x1A0 1 0x1A1 0 0, PUCase 0x1A2 1 0x1A3 0 0, PUCase 0x1A4 1 0x1A5 0 0,
    PUCase 0x1A6 1 0x280 0 0, PUCase 0x1A7 1 0x1A8 0 0, PUCase 0x1A9 1 0x283 0 0,
    PUCase 0x1AC 1 0x1AD 0 0, PUCase 0x1AE 1 0x288 0 0, PUCase 0x1AF 1 0x1B0 0 0,
    PUCase 0x1B1 1 0x28A 0 0, PUCase 0x1B2 1 0x28B 0 0, PUCase 0x1B3 1 0x1B4 0 0,
    PUCase 0x1B5 1 0x1B6 0 0, PUCase 0x1B7 1 0x292 0 0, PUCase 0x1B8 1 0x1B9 0 0,
    PUCase 0x1BC 1 0x1BD 0 0, PUCase 0x1C4 1 0x1C6 0 0, PUCase 0x1C5 1 0x1C6 0 0,
    PUCase 0x1C7 1 0x1C9 0 0, PUCase 0x1C8 1 0x1C9 0 0, PUCase 0x1CA 1 0x1CC 0 0,
    PUCase 0x1CB 1 0x1CC 0 0, PUCase 0x1CD 1 0x1CE 0 0, PUCase 0x1CF 1 0x1D0 0 0,
    PUCase 0x1D1 1 0x1D2 0 0, PUCase 0x1D3 1 0x1D4 0 0, PUCase 0x1D5 1 0x1D6 0 0,
    PUCase 0x1D7 1 0x1D8 0 0, PUCase 0x1D9 1 0x1DA 0 0, PUCase 0x1DB 1 0x1DC 0 0,
    PUCase 0x1DE 1 0x1DF 0 0, PUCase 0x1E0 1 0x1E1 0 0, PUCase 0x1E2 1 0x1E3 0 0,
    PUCase 0x1E4 1 0x1E5 0 0, PUCase 0x1E6 1 0x1E7 0 0, PUCase 0x1E8 1 0x1E9 0 0,
    PUCase 0x1EA 1 0x1EB 0 0, PUCase 0x1EC 1 0x1ED 0 0, PUCase 0x1EE 1 0x1EF 0 0,
    PUCase 0x1F0 2 0x6A 0x30C 0, PUCase 0x1F1 1 0x1F3 0 0, PUCase 0x1F2 1 0x1F3 0 0,
    PUCase 0x1F4 1 0x1F5 0 0, PUCase 0x1F6 1 0x195 0 0, PUCase 0x1F7 1 0x1BF 0 0,
    PUCase 0x1F8 1 0x1F9 0 0, PUCase 0x1FA 1 0x1FB 0 0, PUCase 0x1FC 1 0x1FD 0 0,
    PUCase 0x1FE 1 0x1FF 0 0, PUCase 0x200 1 0x201 0 0, PUCase 0x202 1 0x203 0 0,
    PUCase 0x204 1 0x205 0 0, PUCase 0x206 1 0x207 0 0, PUCase 0x208 1 0x209 0 0,
    PUCase 0x20A 1 0x20B 0 0, PUCase 0x20C 1 0x20D 0 0, PUCase 0x20E 1 0x20F 0 0,
    PUCase 0x210 1 0x211 0 0, PUCase 0x212 1 0x213 0 0, PUCase 0x214 1 0x215 0 0,
    PUCase 0x216 1 0x217 0 0, PUCase 0x218 1 0x219 0 0, PUCase 0x21A 1 0x21B 0 0,
    PUCase 0x21C 1 0x21D 0 0, PUCase 0x21E 1 0x21F 0 0, PUCase 0x220 1 0x19E 0 0,
    PUCase 0x222 1 0x223 0 0, PUCase 0x224 1 0x225 0 0, PUCase 0x226 1 0x227 0 0,
    PUCase 0x228 1 0x229 0 0, PUCase 0x22A 1 0x22B 0 0, PUCase 0x22C 1 0x22D 0 0,
    PUCase 0x22E 1 0x22F 0 0, PUCase 0x230 1 0x231 0 0, PUCase 0x232 1 0x233 0 0,
    PUCase 0x23A 1 0x2C65 0 0, PUCase 0x23B 1 0x23C 0 0, PUCase 0x23D 1 0x19A 0 0,
    PUCase 0x23E 1 0x2C66 0 0, PUCase 0x241 1 0x242 0 0, PUCase 0x243 1 0x180 0 0,
    PUCase 0x244 1 0x289 0 0, PUCase 0x245 1 0x28C 0 0, PUCase 0x246 1 0x247 0 0,
    PUCase 0x248 1 0x249 0 0, PUCase 0x24A 1 0x24B 0 0, PUCase 0x24C 1 0x24D 0 0,
    PUCase 0x24E 1 0x24F 0 0, PUCase 0x345 1 0x3B9 0 0, PUCase 0x370 1 0x371 0 0,
    PUCase 0x372 1 0x373 0 0, PUCase 0x376 1 0x377 0 0, PUCase 0x37F 1 0x3F3 0 0,
    PUCase 0x386 1 0x3AC 0 0, PUCase 0x388 1 0x3AD 0 0, PUCase 0x389 1 0x3AE 0 0,
    PUCase 0x38A 1 0x3AF 0 0, PUCase 0x38C 1 0x3CC 0 0, PUCase 0x38E 1 0x3CD 0 0,
    PUCase 0x38F 1 0x3CE 0 0, PUCase 0x390 3 0x3B9 0x308 0x301, PUCase 0x391 1 0x3B1 0 0,
    PUCase 0x392 1 0x3B2 0 0, PUCase 0x393 1 0x3B3 0 0, PUCase 0x394 1 0x3B4 0 0,
    PUCase 0x395 1 0x3B5 0 0, PUCase 0x396 1 0x3B6 0 0, PUCase 0x397 1 0x3B7 0 0,
    PUCase 0x398 1 0x3B8 0 0, PUCase 0x399 1 0x3B9 0 0, PUCase 0x39A 1 0x3BA 0 0,
    PUCase 0x39B 1 0x3BB 0 0, PUCase 0x39C 1 0x3BC 0 0]"

definition pas_u_fold_2 :: "pas_u_case list" where
  "pas_u_fold_2 = [
    PUCase 0x39D 1 0x3BD 0 0, PUCase 0x39E 1 0x3BE 0 0, PUCase 0x39F 1 0x3BF 0 0,
    PUCase 0x3A0 1 0x3C0 0 0, PUCase 0x3A1 1 0x3C1 0 0, PUCase 0x3A3 1 0x3C3 0 0,
    PUCase 0x3A4 1 0x3C4 0 0, PUCase 0x3A5 1 0x3C5 0 0, PUCase 0x3A6 1 0x3C6 0 0,
    PUCase 0x3A7 1 0x3C7 0 0, PUCase 0x3A8 1 0x3C8 0 0, PUCase 0x3A9 1 0x3C9 0 0,
    PUCase 0x3AA 1 0x3CA 0 0, PUCase 0x3AB 1 0x3CB 0 0, PUCase 0x3B0 3 0x3C5 0x308 0x301,
    PUCase 0x3C2 1 0x3C3 0 0, PUCase 0x3CF 1 0x3D7 0 0, PUCase 0x3D0 1 0x3B2 0 0,
    PUCase 0x3D1 1 0x3B8 0 0, PUCase 0x3D5 1 0x3C6 0 0, PUCase 0x3D6 1 0x3C0 0 0,
    PUCase 0x3D8 1 0x3D9 0 0, PUCase 0x3DA 1 0x3DB 0 0, PUCase 0x3DC 1 0x3DD 0 0,
    PUCase 0x3DE 1 0x3DF 0 0, PUCase 0x3E0 1 0x3E1 0 0, PUCase 0x3E2 1 0x3E3 0 0,
    PUCase 0x3E4 1 0x3E5 0 0, PUCase 0x3E6 1 0x3E7 0 0, PUCase 0x3E8 1 0x3E9 0 0,
    PUCase 0x3EA 1 0x3EB 0 0, PUCase 0x3EC 1 0x3ED 0 0, PUCase 0x3EE 1 0x3EF 0 0,
    PUCase 0x3F0 1 0x3BA 0 0, PUCase 0x3F1 1 0x3C1 0 0, PUCase 0x3F4 1 0x3B8 0 0,
    PUCase 0x3F5 1 0x3B5 0 0, PUCase 0x3F7 1 0x3F8 0 0, PUCase 0x3F9 1 0x3F2 0 0,
    PUCase 0x3FA 1 0x3FB 0 0, PUCase 0x3FD 1 0x37B 0 0, PUCase 0x3FE 1 0x37C 0 0,
    PUCase 0x3FF 1 0x37D 0 0, PUCase 0x400 1 0x450 0 0, PUCase 0x401 1 0x451 0 0,
    PUCase 0x402 1 0x452 0 0, PUCase 0x403 1 0x453 0 0, PUCase 0x404 1 0x454 0 0,
    PUCase 0x405 1 0x455 0 0, PUCase 0x406 1 0x456 0 0, PUCase 0x407 1 0x457 0 0,
    PUCase 0x408 1 0x458 0 0, PUCase 0x409 1 0x459 0 0, PUCase 0x40A 1 0x45A 0 0,
    PUCase 0x40B 1 0x45B 0 0, PUCase 0x40C 1 0x45C 0 0, PUCase 0x40D 1 0x45D 0 0,
    PUCase 0x40E 1 0x45E 0 0, PUCase 0x40F 1 0x45F 0 0, PUCase 0x410 1 0x430 0 0,
    PUCase 0x411 1 0x431 0 0, PUCase 0x412 1 0x432 0 0, PUCase 0x413 1 0x433 0 0,
    PUCase 0x414 1 0x434 0 0, PUCase 0x415 1 0x435 0 0, PUCase 0x416 1 0x436 0 0,
    PUCase 0x417 1 0x437 0 0, PUCase 0x418 1 0x438 0 0, PUCase 0x419 1 0x439 0 0,
    PUCase 0x41A 1 0x43A 0 0, PUCase 0x41B 1 0x43B 0 0, PUCase 0x41C 1 0x43C 0 0,
    PUCase 0x41D 1 0x43D 0 0, PUCase 0x41E 1 0x43E 0 0, PUCase 0x41F 1 0x43F 0 0,
    PUCase 0x420 1 0x440 0 0, PUCase 0x421 1 0x441 0 0, PUCase 0x422 1 0x442 0 0,
    PUCase 0x423 1 0x443 0 0, PUCase 0x424 1 0x444 0 0, PUCase 0x425 1 0x445 0 0,
    PUCase 0x426 1 0x446 0 0, PUCase 0x427 1 0x447 0 0, PUCase 0x428 1 0x448 0 0,
    PUCase 0x429 1 0x449 0 0, PUCase 0x42A 1 0x44A 0 0, PUCase 0x42B 1 0x44B 0 0,
    PUCase 0x42C 1 0x44C 0 0, PUCase 0x42D 1 0x44D 0 0, PUCase 0x42E 1 0x44E 0 0,
    PUCase 0x42F 1 0x44F 0 0, PUCase 0x460 1 0x461 0 0, PUCase 0x462 1 0x463 0 0,
    PUCase 0x464 1 0x465 0 0, PUCase 0x466 1 0x467 0 0, PUCase 0x468 1 0x469 0 0,
    PUCase 0x46A 1 0x46B 0 0, PUCase 0x46C 1 0x46D 0 0, PUCase 0x46E 1 0x46F 0 0,
    PUCase 0x470 1 0x471 0 0, PUCase 0x472 1 0x473 0 0, PUCase 0x474 1 0x475 0 0,
    PUCase 0x476 1 0x477 0 0, PUCase 0x478 1 0x479 0 0, PUCase 0x47A 1 0x47B 0 0,
    PUCase 0x47C 1 0x47D 0 0, PUCase 0x47E 1 0x47F 0 0, PUCase 0x480 1 0x481 0 0,
    PUCase 0x48A 1 0x48B 0 0, PUCase 0x48C 1 0x48D 0 0, PUCase 0x48E 1 0x48F 0 0,
    PUCase 0x490 1 0x491 0 0, PUCase 0x492 1 0x493 0 0, PUCase 0x494 1 0x495 0 0,
    PUCase 0x496 1 0x497 0 0, PUCase 0x498 1 0x499 0 0, PUCase 0x49A 1 0x49B 0 0,
    PUCase 0x49C 1 0x49D 0 0, PUCase 0x49E 1 0x49F 0 0, PUCase 0x4A0 1 0x4A1 0 0,
    PUCase 0x4A2 1 0x4A3 0 0, PUCase 0x4A4 1 0x4A5 0 0, PUCase 0x4A6 1 0x4A7 0 0,
    PUCase 0x4A8 1 0x4A9 0 0, PUCase 0x4AA 1 0x4AB 0 0, PUCase 0x4AC 1 0x4AD 0 0,
    PUCase 0x4AE 1 0x4AF 0 0, PUCase 0x4B0 1 0x4B1 0 0]"

definition pas_u_fold_3 :: "pas_u_case list" where
  "pas_u_fold_3 = [
    PUCase 0x4B2 1 0x4B3 0 0, PUCase 0x4B4 1 0x4B5 0 0, PUCase 0x4B6 1 0x4B7 0 0,
    PUCase 0x4B8 1 0x4B9 0 0, PUCase 0x4BA 1 0x4BB 0 0, PUCase 0x4BC 1 0x4BD 0 0,
    PUCase 0x4BE 1 0x4BF 0 0, PUCase 0x4C0 1 0x4CF 0 0, PUCase 0x4C1 1 0x4C2 0 0,
    PUCase 0x4C3 1 0x4C4 0 0, PUCase 0x4C5 1 0x4C6 0 0, PUCase 0x4C7 1 0x4C8 0 0,
    PUCase 0x4C9 1 0x4CA 0 0, PUCase 0x4CB 1 0x4CC 0 0, PUCase 0x4CD 1 0x4CE 0 0,
    PUCase 0x4D0 1 0x4D1 0 0, PUCase 0x4D2 1 0x4D3 0 0, PUCase 0x4D4 1 0x4D5 0 0,
    PUCase 0x4D6 1 0x4D7 0 0, PUCase 0x4D8 1 0x4D9 0 0, PUCase 0x4DA 1 0x4DB 0 0,
    PUCase 0x4DC 1 0x4DD 0 0, PUCase 0x4DE 1 0x4DF 0 0, PUCase 0x4E0 1 0x4E1 0 0,
    PUCase 0x4E2 1 0x4E3 0 0, PUCase 0x4E4 1 0x4E5 0 0, PUCase 0x4E6 1 0x4E7 0 0,
    PUCase 0x4E8 1 0x4E9 0 0, PUCase 0x4EA 1 0x4EB 0 0, PUCase 0x4EC 1 0x4ED 0 0,
    PUCase 0x4EE 1 0x4EF 0 0, PUCase 0x4F0 1 0x4F1 0 0, PUCase 0x4F2 1 0x4F3 0 0,
    PUCase 0x4F4 1 0x4F5 0 0, PUCase 0x4F6 1 0x4F7 0 0, PUCase 0x4F8 1 0x4F9 0 0,
    PUCase 0x4FA 1 0x4FB 0 0, PUCase 0x4FC 1 0x4FD 0 0, PUCase 0x4FE 1 0x4FF 0 0,
    PUCase 0x500 1 0x501 0 0, PUCase 0x502 1 0x503 0 0, PUCase 0x504 1 0x505 0 0,
    PUCase 0x506 1 0x507 0 0, PUCase 0x508 1 0x509 0 0, PUCase 0x50A 1 0x50B 0 0,
    PUCase 0x50C 1 0x50D 0 0, PUCase 0x50E 1 0x50F 0 0, PUCase 0x510 1 0x511 0 0,
    PUCase 0x512 1 0x513 0 0, PUCase 0x514 1 0x515 0 0, PUCase 0x516 1 0x517 0 0,
    PUCase 0x518 1 0x519 0 0, PUCase 0x51A 1 0x51B 0 0, PUCase 0x51C 1 0x51D 0 0,
    PUCase 0x51E 1 0x51F 0 0, PUCase 0x520 1 0x521 0 0, PUCase 0x522 1 0x523 0 0,
    PUCase 0x524 1 0x525 0 0, PUCase 0x526 1 0x527 0 0, PUCase 0x528 1 0x529 0 0,
    PUCase 0x52A 1 0x52B 0 0, PUCase 0x52C 1 0x52D 0 0, PUCase 0x52E 1 0x52F 0 0,
    PUCase 0x531 1 0x561 0 0, PUCase 0x532 1 0x562 0 0, PUCase 0x533 1 0x563 0 0,
    PUCase 0x534 1 0x564 0 0, PUCase 0x535 1 0x565 0 0, PUCase 0x536 1 0x566 0 0,
    PUCase 0x537 1 0x567 0 0, PUCase 0x538 1 0x568 0 0, PUCase 0x539 1 0x569 0 0,
    PUCase 0x53A 1 0x56A 0 0, PUCase 0x53B 1 0x56B 0 0, PUCase 0x53C 1 0x56C 0 0,
    PUCase 0x53D 1 0x56D 0 0, PUCase 0x53E 1 0x56E 0 0, PUCase 0x53F 1 0x56F 0 0,
    PUCase 0x540 1 0x570 0 0, PUCase 0x541 1 0x571 0 0, PUCase 0x542 1 0x572 0 0,
    PUCase 0x543 1 0x573 0 0, PUCase 0x544 1 0x574 0 0, PUCase 0x545 1 0x575 0 0,
    PUCase 0x546 1 0x576 0 0, PUCase 0x547 1 0x577 0 0, PUCase 0x548 1 0x578 0 0,
    PUCase 0x549 1 0x579 0 0, PUCase 0x54A 1 0x57A 0 0, PUCase 0x54B 1 0x57B 0 0,
    PUCase 0x54C 1 0x57C 0 0, PUCase 0x54D 1 0x57D 0 0, PUCase 0x54E 1 0x57E 0 0,
    PUCase 0x54F 1 0x57F 0 0, PUCase 0x550 1 0x580 0 0, PUCase 0x551 1 0x581 0 0,
    PUCase 0x552 1 0x582 0 0, PUCase 0x553 1 0x583 0 0, PUCase 0x554 1 0x584 0 0,
    PUCase 0x555 1 0x585 0 0, PUCase 0x556 1 0x586 0 0, PUCase 0x587 2 0x565 0x582 0,
    PUCase 0x10A0 1 0x2D00 0 0, PUCase 0x10A1 1 0x2D01 0 0, PUCase 0x10A2 1 0x2D02 0 0,
    PUCase 0x10A3 1 0x2D03 0 0, PUCase 0x10A4 1 0x2D04 0 0, PUCase 0x10A5 1 0x2D05 0 0,
    PUCase 0x10A6 1 0x2D06 0 0, PUCase 0x10A7 1 0x2D07 0 0, PUCase 0x10A8 1 0x2D08 0 0,
    PUCase 0x10A9 1 0x2D09 0 0, PUCase 0x10AA 1 0x2D0A 0 0, PUCase 0x10AB 1 0x2D0B 0 0,
    PUCase 0x10AC 1 0x2D0C 0 0, PUCase 0x10AD 1 0x2D0D 0 0, PUCase 0x10AE 1 0x2D0E 0 0,
    PUCase 0x10AF 1 0x2D0F 0 0, PUCase 0x10B0 1 0x2D10 0 0, PUCase 0x10B1 1 0x2D11 0 0,
    PUCase 0x10B2 1 0x2D12 0 0, PUCase 0x10B3 1 0x2D13 0 0, PUCase 0x10B4 1 0x2D14 0 0,
    PUCase 0x10B5 1 0x2D15 0 0, PUCase 0x10B6 1 0x2D16 0 0, PUCase 0x10B7 1 0x2D17 0 0,
    PUCase 0x10B8 1 0x2D18 0 0, PUCase 0x10B9 1 0x2D19 0 0]"

definition pas_u_fold_4 :: "pas_u_case list" where
  "pas_u_fold_4 = [
    PUCase 0x10BA 1 0x2D1A 0 0, PUCase 0x10BB 1 0x2D1B 0 0, PUCase 0x10BC 1 0x2D1C 0 0,
    PUCase 0x10BD 1 0x2D1D 0 0, PUCase 0x10BE 1 0x2D1E 0 0, PUCase 0x10BF 1 0x2D1F 0 0,
    PUCase 0x10C0 1 0x2D20 0 0, PUCase 0x10C1 1 0x2D21 0 0, PUCase 0x10C2 1 0x2D22 0 0,
    PUCase 0x10C3 1 0x2D23 0 0, PUCase 0x10C4 1 0x2D24 0 0, PUCase 0x10C5 1 0x2D25 0 0,
    PUCase 0x10C7 1 0x2D27 0 0, PUCase 0x10CD 1 0x2D2D 0 0, PUCase 0x13F8 1 0x13F0 0 0,
    PUCase 0x13F9 1 0x13F1 0 0, PUCase 0x13FA 1 0x13F2 0 0, PUCase 0x13FB 1 0x13F3 0 0,
    PUCase 0x13FC 1 0x13F4 0 0, PUCase 0x13FD 1 0x13F5 0 0, PUCase 0x1C80 1 0x432 0 0,
    PUCase 0x1C81 1 0x434 0 0, PUCase 0x1C82 1 0x43E 0 0, PUCase 0x1C83 1 0x441 0 0,
    PUCase 0x1C84 1 0x442 0 0, PUCase 0x1C85 1 0x442 0 0, PUCase 0x1C86 1 0x44A 0 0,
    PUCase 0x1C87 1 0x463 0 0, PUCase 0x1C88 1 0xA64B 0 0, PUCase 0x1C89 1 0x1C8A 0 0,
    PUCase 0x1C90 1 0x10D0 0 0, PUCase 0x1C91 1 0x10D1 0 0, PUCase 0x1C92 1 0x10D2 0 0,
    PUCase 0x1C93 1 0x10D3 0 0, PUCase 0x1C94 1 0x10D4 0 0, PUCase 0x1C95 1 0x10D5 0 0,
    PUCase 0x1C96 1 0x10D6 0 0, PUCase 0x1C97 1 0x10D7 0 0, PUCase 0x1C98 1 0x10D8 0 0,
    PUCase 0x1C99 1 0x10D9 0 0, PUCase 0x1C9A 1 0x10DA 0 0, PUCase 0x1C9B 1 0x10DB 0 0,
    PUCase 0x1C9C 1 0x10DC 0 0, PUCase 0x1C9D 1 0x10DD 0 0, PUCase 0x1C9E 1 0x10DE 0 0,
    PUCase 0x1C9F 1 0x10DF 0 0, PUCase 0x1CA0 1 0x10E0 0 0, PUCase 0x1CA1 1 0x10E1 0 0,
    PUCase 0x1CA2 1 0x10E2 0 0, PUCase 0x1CA3 1 0x10E3 0 0, PUCase 0x1CA4 1 0x10E4 0 0,
    PUCase 0x1CA5 1 0x10E5 0 0, PUCase 0x1CA6 1 0x10E6 0 0, PUCase 0x1CA7 1 0x10E7 0 0,
    PUCase 0x1CA8 1 0x10E8 0 0, PUCase 0x1CA9 1 0x10E9 0 0, PUCase 0x1CAA 1 0x10EA 0 0,
    PUCase 0x1CAB 1 0x10EB 0 0, PUCase 0x1CAC 1 0x10EC 0 0, PUCase 0x1CAD 1 0x10ED 0 0,
    PUCase 0x1CAE 1 0x10EE 0 0, PUCase 0x1CAF 1 0x10EF 0 0, PUCase 0x1CB0 1 0x10F0 0 0,
    PUCase 0x1CB1 1 0x10F1 0 0, PUCase 0x1CB2 1 0x10F2 0 0, PUCase 0x1CB3 1 0x10F3 0 0,
    PUCase 0x1CB4 1 0x10F4 0 0, PUCase 0x1CB5 1 0x10F5 0 0, PUCase 0x1CB6 1 0x10F6 0 0,
    PUCase 0x1CB7 1 0x10F7 0 0, PUCase 0x1CB8 1 0x10F8 0 0, PUCase 0x1CB9 1 0x10F9 0 0,
    PUCase 0x1CBA 1 0x10FA 0 0, PUCase 0x1CBD 1 0x10FD 0 0, PUCase 0x1CBE 1 0x10FE 0 0,
    PUCase 0x1CBF 1 0x10FF 0 0, PUCase 0x1E00 1 0x1E01 0 0, PUCase 0x1E02 1 0x1E03 0 0,
    PUCase 0x1E04 1 0x1E05 0 0, PUCase 0x1E06 1 0x1E07 0 0, PUCase 0x1E08 1 0x1E09 0 0,
    PUCase 0x1E0A 1 0x1E0B 0 0, PUCase 0x1E0C 1 0x1E0D 0 0, PUCase 0x1E0E 1 0x1E0F 0 0,
    PUCase 0x1E10 1 0x1E11 0 0, PUCase 0x1E12 1 0x1E13 0 0, PUCase 0x1E14 1 0x1E15 0 0,
    PUCase 0x1E16 1 0x1E17 0 0, PUCase 0x1E18 1 0x1E19 0 0, PUCase 0x1E1A 1 0x1E1B 0 0,
    PUCase 0x1E1C 1 0x1E1D 0 0, PUCase 0x1E1E 1 0x1E1F 0 0, PUCase 0x1E20 1 0x1E21 0 0,
    PUCase 0x1E22 1 0x1E23 0 0, PUCase 0x1E24 1 0x1E25 0 0, PUCase 0x1E26 1 0x1E27 0 0,
    PUCase 0x1E28 1 0x1E29 0 0, PUCase 0x1E2A 1 0x1E2B 0 0, PUCase 0x1E2C 1 0x1E2D 0 0,
    PUCase 0x1E2E 1 0x1E2F 0 0, PUCase 0x1E30 1 0x1E31 0 0, PUCase 0x1E32 1 0x1E33 0 0,
    PUCase 0x1E34 1 0x1E35 0 0, PUCase 0x1E36 1 0x1E37 0 0, PUCase 0x1E38 1 0x1E39 0 0,
    PUCase 0x1E3A 1 0x1E3B 0 0, PUCase 0x1E3C 1 0x1E3D 0 0, PUCase 0x1E3E 1 0x1E3F 0 0,
    PUCase 0x1E40 1 0x1E41 0 0, PUCase 0x1E42 1 0x1E43 0 0, PUCase 0x1E44 1 0x1E45 0 0,
    PUCase 0x1E46 1 0x1E47 0 0, PUCase 0x1E48 1 0x1E49 0 0, PUCase 0x1E4A 1 0x1E4B 0 0,
    PUCase 0x1E4C 1 0x1E4D 0 0, PUCase 0x1E4E 1 0x1E4F 0 0, PUCase 0x1E50 1 0x1E51 0 0,
    PUCase 0x1E52 1 0x1E53 0 0, PUCase 0x1E54 1 0x1E55 0 0, PUCase 0x1E56 1 0x1E57 0 0,
    PUCase 0x1E58 1 0x1E59 0 0, PUCase 0x1E5A 1 0x1E5B 0 0, PUCase 0x1E5C 1 0x1E5D 0 0,
    PUCase 0x1E5E 1 0x1E5F 0 0, PUCase 0x1E60 1 0x1E61 0 0, PUCase 0x1E62 1 0x1E63 0 0,
    PUCase 0x1E64 1 0x1E65 0 0, PUCase 0x1E66 1 0x1E67 0 0]"

definition pas_u_fold_5 :: "pas_u_case list" where
  "pas_u_fold_5 = [
    PUCase 0x1E68 1 0x1E69 0 0, PUCase 0x1E6A 1 0x1E6B 0 0, PUCase 0x1E6C 1 0x1E6D 0 0,
    PUCase 0x1E6E 1 0x1E6F 0 0, PUCase 0x1E70 1 0x1E71 0 0, PUCase 0x1E72 1 0x1E73 0 0,
    PUCase 0x1E74 1 0x1E75 0 0, PUCase 0x1E76 1 0x1E77 0 0, PUCase 0x1E78 1 0x1E79 0 0,
    PUCase 0x1E7A 1 0x1E7B 0 0, PUCase 0x1E7C 1 0x1E7D 0 0, PUCase 0x1E7E 1 0x1E7F 0 0,
    PUCase 0x1E80 1 0x1E81 0 0, PUCase 0x1E82 1 0x1E83 0 0, PUCase 0x1E84 1 0x1E85 0 0,
    PUCase 0x1E86 1 0x1E87 0 0, PUCase 0x1E88 1 0x1E89 0 0, PUCase 0x1E8A 1 0x1E8B 0 0,
    PUCase 0x1E8C 1 0x1E8D 0 0, PUCase 0x1E8E 1 0x1E8F 0 0, PUCase 0x1E90 1 0x1E91 0 0,
    PUCase 0x1E92 1 0x1E93 0 0, PUCase 0x1E94 1 0x1E95 0 0, PUCase 0x1E96 2 0x68 0x331 0,
    PUCase 0x1E97 2 0x74 0x308 0, PUCase 0x1E98 2 0x77 0x30A 0, PUCase 0x1E99 2 0x79 0x30A 0,
    PUCase 0x1E9A 2 0x61 0x2BE 0, PUCase 0x1E9B 1 0x1E61 0 0, PUCase 0x1E9E 2 0x73 0x73 0,
    PUCase 0x1EA0 1 0x1EA1 0 0, PUCase 0x1EA2 1 0x1EA3 0 0, PUCase 0x1EA4 1 0x1EA5 0 0,
    PUCase 0x1EA6 1 0x1EA7 0 0, PUCase 0x1EA8 1 0x1EA9 0 0, PUCase 0x1EAA 1 0x1EAB 0 0,
    PUCase 0x1EAC 1 0x1EAD 0 0, PUCase 0x1EAE 1 0x1EAF 0 0, PUCase 0x1EB0 1 0x1EB1 0 0,
    PUCase 0x1EB2 1 0x1EB3 0 0, PUCase 0x1EB4 1 0x1EB5 0 0, PUCase 0x1EB6 1 0x1EB7 0 0,
    PUCase 0x1EB8 1 0x1EB9 0 0, PUCase 0x1EBA 1 0x1EBB 0 0, PUCase 0x1EBC 1 0x1EBD 0 0,
    PUCase 0x1EBE 1 0x1EBF 0 0, PUCase 0x1EC0 1 0x1EC1 0 0, PUCase 0x1EC2 1 0x1EC3 0 0,
    PUCase 0x1EC4 1 0x1EC5 0 0, PUCase 0x1EC6 1 0x1EC7 0 0, PUCase 0x1EC8 1 0x1EC9 0 0,
    PUCase 0x1ECA 1 0x1ECB 0 0, PUCase 0x1ECC 1 0x1ECD 0 0, PUCase 0x1ECE 1 0x1ECF 0 0,
    PUCase 0x1ED0 1 0x1ED1 0 0, PUCase 0x1ED2 1 0x1ED3 0 0, PUCase 0x1ED4 1 0x1ED5 0 0,
    PUCase 0x1ED6 1 0x1ED7 0 0, PUCase 0x1ED8 1 0x1ED9 0 0, PUCase 0x1EDA 1 0x1EDB 0 0,
    PUCase 0x1EDC 1 0x1EDD 0 0, PUCase 0x1EDE 1 0x1EDF 0 0, PUCase 0x1EE0 1 0x1EE1 0 0,
    PUCase 0x1EE2 1 0x1EE3 0 0, PUCase 0x1EE4 1 0x1EE5 0 0, PUCase 0x1EE6 1 0x1EE7 0 0,
    PUCase 0x1EE8 1 0x1EE9 0 0, PUCase 0x1EEA 1 0x1EEB 0 0, PUCase 0x1EEC 1 0x1EED 0 0,
    PUCase 0x1EEE 1 0x1EEF 0 0, PUCase 0x1EF0 1 0x1EF1 0 0, PUCase 0x1EF2 1 0x1EF3 0 0,
    PUCase 0x1EF4 1 0x1EF5 0 0, PUCase 0x1EF6 1 0x1EF7 0 0, PUCase 0x1EF8 1 0x1EF9 0 0,
    PUCase 0x1EFA 1 0x1EFB 0 0, PUCase 0x1EFC 1 0x1EFD 0 0, PUCase 0x1EFE 1 0x1EFF 0 0,
    PUCase 0x1F08 1 0x1F00 0 0, PUCase 0x1F09 1 0x1F01 0 0, PUCase 0x1F0A 1 0x1F02 0 0,
    PUCase 0x1F0B 1 0x1F03 0 0, PUCase 0x1F0C 1 0x1F04 0 0, PUCase 0x1F0D 1 0x1F05 0 0,
    PUCase 0x1F0E 1 0x1F06 0 0, PUCase 0x1F0F 1 0x1F07 0 0, PUCase 0x1F18 1 0x1F10 0 0,
    PUCase 0x1F19 1 0x1F11 0 0, PUCase 0x1F1A 1 0x1F12 0 0, PUCase 0x1F1B 1 0x1F13 0 0,
    PUCase 0x1F1C 1 0x1F14 0 0, PUCase 0x1F1D 1 0x1F15 0 0, PUCase 0x1F28 1 0x1F20 0 0,
    PUCase 0x1F29 1 0x1F21 0 0, PUCase 0x1F2A 1 0x1F22 0 0, PUCase 0x1F2B 1 0x1F23 0 0,
    PUCase 0x1F2C 1 0x1F24 0 0, PUCase 0x1F2D 1 0x1F25 0 0, PUCase 0x1F2E 1 0x1F26 0 0,
    PUCase 0x1F2F 1 0x1F27 0 0, PUCase 0x1F38 1 0x1F30 0 0, PUCase 0x1F39 1 0x1F31 0 0,
    PUCase 0x1F3A 1 0x1F32 0 0, PUCase 0x1F3B 1 0x1F33 0 0, PUCase 0x1F3C 1 0x1F34 0 0,
    PUCase 0x1F3D 1 0x1F35 0 0, PUCase 0x1F3E 1 0x1F36 0 0, PUCase 0x1F3F 1 0x1F37 0 0,
    PUCase 0x1F48 1 0x1F40 0 0, PUCase 0x1F49 1 0x1F41 0 0, PUCase 0x1F4A 1 0x1F42 0 0,
    PUCase 0x1F4B 1 0x1F43 0 0, PUCase 0x1F4C 1 0x1F44 0 0, PUCase 0x1F4D 1 0x1F45 0 0,
    PUCase 0x1F50 2 0x3C5 0x313 0, PUCase 0x1F52 3 0x3C5 0x313 0x300, PUCase 0x1F54 3 0x3C5 0x313 0x301,
    PUCase 0x1F56 3 0x3C5 0x313 0x342, PUCase 0x1F59 1 0x1F51 0 0, PUCase 0x1F5B 1 0x1F53 0 0,
    PUCase 0x1F5D 1 0x1F55 0 0, PUCase 0x1F5F 1 0x1F57 0 0, PUCase 0x1F68 1 0x1F60 0 0,
    PUCase 0x1F69 1 0x1F61 0 0, PUCase 0x1F6A 1 0x1F62 0 0, PUCase 0x1F6B 1 0x1F63 0 0,
    PUCase 0x1F6C 1 0x1F64 0 0, PUCase 0x1F6D 1 0x1F65 0 0]"

definition pas_u_fold_6 :: "pas_u_case list" where
  "pas_u_fold_6 = [
    PUCase 0x1F6E 1 0x1F66 0 0, PUCase 0x1F6F 1 0x1F67 0 0, PUCase 0x1F80 2 0x1F00 0x3B9 0,
    PUCase 0x1F81 2 0x1F01 0x3B9 0, PUCase 0x1F82 2 0x1F02 0x3B9 0, PUCase 0x1F83 2 0x1F03 0x3B9 0,
    PUCase 0x1F84 2 0x1F04 0x3B9 0, PUCase 0x1F85 2 0x1F05 0x3B9 0, PUCase 0x1F86 2 0x1F06 0x3B9 0,
    PUCase 0x1F87 2 0x1F07 0x3B9 0, PUCase 0x1F88 2 0x1F00 0x3B9 0, PUCase 0x1F89 2 0x1F01 0x3B9 0,
    PUCase 0x1F8A 2 0x1F02 0x3B9 0, PUCase 0x1F8B 2 0x1F03 0x3B9 0, PUCase 0x1F8C 2 0x1F04 0x3B9 0,
    PUCase 0x1F8D 2 0x1F05 0x3B9 0, PUCase 0x1F8E 2 0x1F06 0x3B9 0, PUCase 0x1F8F 2 0x1F07 0x3B9 0,
    PUCase 0x1F90 2 0x1F20 0x3B9 0, PUCase 0x1F91 2 0x1F21 0x3B9 0, PUCase 0x1F92 2 0x1F22 0x3B9 0,
    PUCase 0x1F93 2 0x1F23 0x3B9 0, PUCase 0x1F94 2 0x1F24 0x3B9 0, PUCase 0x1F95 2 0x1F25 0x3B9 0,
    PUCase 0x1F96 2 0x1F26 0x3B9 0, PUCase 0x1F97 2 0x1F27 0x3B9 0, PUCase 0x1F98 2 0x1F20 0x3B9 0,
    PUCase 0x1F99 2 0x1F21 0x3B9 0, PUCase 0x1F9A 2 0x1F22 0x3B9 0, PUCase 0x1F9B 2 0x1F23 0x3B9 0,
    PUCase 0x1F9C 2 0x1F24 0x3B9 0, PUCase 0x1F9D 2 0x1F25 0x3B9 0, PUCase 0x1F9E 2 0x1F26 0x3B9 0,
    PUCase 0x1F9F 2 0x1F27 0x3B9 0, PUCase 0x1FA0 2 0x1F60 0x3B9 0, PUCase 0x1FA1 2 0x1F61 0x3B9 0,
    PUCase 0x1FA2 2 0x1F62 0x3B9 0, PUCase 0x1FA3 2 0x1F63 0x3B9 0, PUCase 0x1FA4 2 0x1F64 0x3B9 0,
    PUCase 0x1FA5 2 0x1F65 0x3B9 0, PUCase 0x1FA6 2 0x1F66 0x3B9 0, PUCase 0x1FA7 2 0x1F67 0x3B9 0,
    PUCase 0x1FA8 2 0x1F60 0x3B9 0, PUCase 0x1FA9 2 0x1F61 0x3B9 0, PUCase 0x1FAA 2 0x1F62 0x3B9 0,
    PUCase 0x1FAB 2 0x1F63 0x3B9 0, PUCase 0x1FAC 2 0x1F64 0x3B9 0, PUCase 0x1FAD 2 0x1F65 0x3B9 0,
    PUCase 0x1FAE 2 0x1F66 0x3B9 0, PUCase 0x1FAF 2 0x1F67 0x3B9 0, PUCase 0x1FB2 2 0x1F70 0x3B9 0,
    PUCase 0x1FB3 2 0x3B1 0x3B9 0, PUCase 0x1FB4 2 0x3AC 0x3B9 0, PUCase 0x1FB6 2 0x3B1 0x342 0,
    PUCase 0x1FB7 3 0x3B1 0x342 0x3B9, PUCase 0x1FB8 1 0x1FB0 0 0, PUCase 0x1FB9 1 0x1FB1 0 0,
    PUCase 0x1FBA 1 0x1F70 0 0, PUCase 0x1FBB 1 0x1F71 0 0, PUCase 0x1FBC 2 0x3B1 0x3B9 0,
    PUCase 0x1FBE 1 0x3B9 0 0, PUCase 0x1FC2 2 0x1F74 0x3B9 0, PUCase 0x1FC3 2 0x3B7 0x3B9 0,
    PUCase 0x1FC4 2 0x3AE 0x3B9 0, PUCase 0x1FC6 2 0x3B7 0x342 0, PUCase 0x1FC7 3 0x3B7 0x342 0x3B9,
    PUCase 0x1FC8 1 0x1F72 0 0, PUCase 0x1FC9 1 0x1F73 0 0, PUCase 0x1FCA 1 0x1F74 0 0,
    PUCase 0x1FCB 1 0x1F75 0 0, PUCase 0x1FCC 2 0x3B7 0x3B9 0, PUCase 0x1FD2 3 0x3B9 0x308 0x300,
    PUCase 0x1FD3 3 0x3B9 0x308 0x301, PUCase 0x1FD6 2 0x3B9 0x342 0, PUCase 0x1FD7 3 0x3B9 0x308 0x342,
    PUCase 0x1FD8 1 0x1FD0 0 0, PUCase 0x1FD9 1 0x1FD1 0 0, PUCase 0x1FDA 1 0x1F76 0 0,
    PUCase 0x1FDB 1 0x1F77 0 0, PUCase 0x1FE2 3 0x3C5 0x308 0x300, PUCase 0x1FE3 3 0x3C5 0x308 0x301,
    PUCase 0x1FE4 2 0x3C1 0x313 0, PUCase 0x1FE6 2 0x3C5 0x342 0, PUCase 0x1FE7 3 0x3C5 0x308 0x342,
    PUCase 0x1FE8 1 0x1FE0 0 0, PUCase 0x1FE9 1 0x1FE1 0 0, PUCase 0x1FEA 1 0x1F7A 0 0,
    PUCase 0x1FEB 1 0x1F7B 0 0, PUCase 0x1FEC 1 0x1FE5 0 0, PUCase 0x1FF2 2 0x1F7C 0x3B9 0,
    PUCase 0x1FF3 2 0x3C9 0x3B9 0, PUCase 0x1FF4 2 0x3CE 0x3B9 0, PUCase 0x1FF6 2 0x3C9 0x342 0,
    PUCase 0x1FF7 3 0x3C9 0x342 0x3B9, PUCase 0x1FF8 1 0x1F78 0 0, PUCase 0x1FF9 1 0x1F79 0 0,
    PUCase 0x1FFA 1 0x1F7C 0 0, PUCase 0x1FFB 1 0x1F7D 0 0, PUCase 0x1FFC 2 0x3C9 0x3B9 0,
    PUCase 0x2126 1 0x3C9 0 0, PUCase 0x212A 1 0x6B 0 0, PUCase 0x212B 1 0xE5 0 0,
    PUCase 0x2132 1 0x214E 0 0, PUCase 0x2160 1 0x2170 0 0, PUCase 0x2161 1 0x2171 0 0,
    PUCase 0x2162 1 0x2172 0 0, PUCase 0x2163 1 0x2173 0 0, PUCase 0x2164 1 0x2174 0 0,
    PUCase 0x2165 1 0x2175 0 0, PUCase 0x2166 1 0x2176 0 0, PUCase 0x2167 1 0x2177 0 0,
    PUCase 0x2168 1 0x2178 0 0, PUCase 0x2169 1 0x2179 0 0, PUCase 0x216A 1 0x217A 0 0,
    PUCase 0x216B 1 0x217B 0 0, PUCase 0x216C 1 0x217C 0 0, PUCase 0x216D 1 0x217D 0 0,
    PUCase 0x216E 1 0x217E 0 0, PUCase 0x216F 1 0x217F 0 0, PUCase 0x2183 1 0x2184 0 0,
    PUCase 0x24B6 1 0x24D0 0 0, PUCase 0x24B7 1 0x24D1 0 0, PUCase 0x24B8 1 0x24D2 0 0,
    PUCase 0x24B9 1 0x24D3 0 0, PUCase 0x24BA 1 0x24D4 0 0, PUCase 0x24BB 1 0x24D5 0 0,
    PUCase 0x24BC 1 0x24D6 0 0, PUCase 0x24BD 1 0x24D7 0 0]"

definition pas_u_fold_7 :: "pas_u_case list" where
  "pas_u_fold_7 = [
    PUCase 0x24BE 1 0x24D8 0 0, PUCase 0x24BF 1 0x24D9 0 0, PUCase 0x24C0 1 0x24DA 0 0,
    PUCase 0x24C1 1 0x24DB 0 0, PUCase 0x24C2 1 0x24DC 0 0, PUCase 0x24C3 1 0x24DD 0 0,
    PUCase 0x24C4 1 0x24DE 0 0, PUCase 0x24C5 1 0x24DF 0 0, PUCase 0x24C6 1 0x24E0 0 0,
    PUCase 0x24C7 1 0x24E1 0 0, PUCase 0x24C8 1 0x24E2 0 0, PUCase 0x24C9 1 0x24E3 0 0,
    PUCase 0x24CA 1 0x24E4 0 0, PUCase 0x24CB 1 0x24E5 0 0, PUCase 0x24CC 1 0x24E6 0 0,
    PUCase 0x24CD 1 0x24E7 0 0, PUCase 0x24CE 1 0x24E8 0 0, PUCase 0x24CF 1 0x24E9 0 0,
    PUCase 0x2C00 1 0x2C30 0 0, PUCase 0x2C01 1 0x2C31 0 0, PUCase 0x2C02 1 0x2C32 0 0,
    PUCase 0x2C03 1 0x2C33 0 0, PUCase 0x2C04 1 0x2C34 0 0, PUCase 0x2C05 1 0x2C35 0 0,
    PUCase 0x2C06 1 0x2C36 0 0, PUCase 0x2C07 1 0x2C37 0 0, PUCase 0x2C08 1 0x2C38 0 0,
    PUCase 0x2C09 1 0x2C39 0 0, PUCase 0x2C0A 1 0x2C3A 0 0, PUCase 0x2C0B 1 0x2C3B 0 0,
    PUCase 0x2C0C 1 0x2C3C 0 0, PUCase 0x2C0D 1 0x2C3D 0 0, PUCase 0x2C0E 1 0x2C3E 0 0,
    PUCase 0x2C0F 1 0x2C3F 0 0, PUCase 0x2C10 1 0x2C40 0 0, PUCase 0x2C11 1 0x2C41 0 0,
    PUCase 0x2C12 1 0x2C42 0 0, PUCase 0x2C13 1 0x2C43 0 0, PUCase 0x2C14 1 0x2C44 0 0,
    PUCase 0x2C15 1 0x2C45 0 0, PUCase 0x2C16 1 0x2C46 0 0, PUCase 0x2C17 1 0x2C47 0 0,
    PUCase 0x2C18 1 0x2C48 0 0, PUCase 0x2C19 1 0x2C49 0 0, PUCase 0x2C1A 1 0x2C4A 0 0,
    PUCase 0x2C1B 1 0x2C4B 0 0, PUCase 0x2C1C 1 0x2C4C 0 0, PUCase 0x2C1D 1 0x2C4D 0 0,
    PUCase 0x2C1E 1 0x2C4E 0 0, PUCase 0x2C1F 1 0x2C4F 0 0, PUCase 0x2C20 1 0x2C50 0 0,
    PUCase 0x2C21 1 0x2C51 0 0, PUCase 0x2C22 1 0x2C52 0 0, PUCase 0x2C23 1 0x2C53 0 0,
    PUCase 0x2C24 1 0x2C54 0 0, PUCase 0x2C25 1 0x2C55 0 0, PUCase 0x2C26 1 0x2C56 0 0,
    PUCase 0x2C27 1 0x2C57 0 0, PUCase 0x2C28 1 0x2C58 0 0, PUCase 0x2C29 1 0x2C59 0 0,
    PUCase 0x2C2A 1 0x2C5A 0 0, PUCase 0x2C2B 1 0x2C5B 0 0, PUCase 0x2C2C 1 0x2C5C 0 0,
    PUCase 0x2C2D 1 0x2C5D 0 0, PUCase 0x2C2E 1 0x2C5E 0 0, PUCase 0x2C2F 1 0x2C5F 0 0,
    PUCase 0x2C60 1 0x2C61 0 0, PUCase 0x2C62 1 0x26B 0 0, PUCase 0x2C63 1 0x1D7D 0 0,
    PUCase 0x2C64 1 0x27D 0 0, PUCase 0x2C67 1 0x2C68 0 0, PUCase 0x2C69 1 0x2C6A 0 0,
    PUCase 0x2C6B 1 0x2C6C 0 0, PUCase 0x2C6D 1 0x251 0 0, PUCase 0x2C6E 1 0x271 0 0,
    PUCase 0x2C6F 1 0x250 0 0, PUCase 0x2C70 1 0x252 0 0, PUCase 0x2C72 1 0x2C73 0 0,
    PUCase 0x2C75 1 0x2C76 0 0, PUCase 0x2C7E 1 0x23F 0 0, PUCase 0x2C7F 1 0x240 0 0,
    PUCase 0x2C80 1 0x2C81 0 0, PUCase 0x2C82 1 0x2C83 0 0, PUCase 0x2C84 1 0x2C85 0 0,
    PUCase 0x2C86 1 0x2C87 0 0, PUCase 0x2C88 1 0x2C89 0 0, PUCase 0x2C8A 1 0x2C8B 0 0,
    PUCase 0x2C8C 1 0x2C8D 0 0, PUCase 0x2C8E 1 0x2C8F 0 0, PUCase 0x2C90 1 0x2C91 0 0,
    PUCase 0x2C92 1 0x2C93 0 0, PUCase 0x2C94 1 0x2C95 0 0, PUCase 0x2C96 1 0x2C97 0 0,
    PUCase 0x2C98 1 0x2C99 0 0, PUCase 0x2C9A 1 0x2C9B 0 0, PUCase 0x2C9C 1 0x2C9D 0 0,
    PUCase 0x2C9E 1 0x2C9F 0 0, PUCase 0x2CA0 1 0x2CA1 0 0, PUCase 0x2CA2 1 0x2CA3 0 0,
    PUCase 0x2CA4 1 0x2CA5 0 0, PUCase 0x2CA6 1 0x2CA7 0 0, PUCase 0x2CA8 1 0x2CA9 0 0,
    PUCase 0x2CAA 1 0x2CAB 0 0, PUCase 0x2CAC 1 0x2CAD 0 0, PUCase 0x2CAE 1 0x2CAF 0 0,
    PUCase 0x2CB0 1 0x2CB1 0 0, PUCase 0x2CB2 1 0x2CB3 0 0, PUCase 0x2CB4 1 0x2CB5 0 0,
    PUCase 0x2CB6 1 0x2CB7 0 0, PUCase 0x2CB8 1 0x2CB9 0 0, PUCase 0x2CBA 1 0x2CBB 0 0,
    PUCase 0x2CBC 1 0x2CBD 0 0, PUCase 0x2CBE 1 0x2CBF 0 0, PUCase 0x2CC0 1 0x2CC1 0 0,
    PUCase 0x2CC2 1 0x2CC3 0 0, PUCase 0x2CC4 1 0x2CC5 0 0, PUCase 0x2CC6 1 0x2CC7 0 0,
    PUCase 0x2CC8 1 0x2CC9 0 0, PUCase 0x2CCA 1 0x2CCB 0 0, PUCase 0x2CCC 1 0x2CCD 0 0,
    PUCase 0x2CCE 1 0x2CCF 0 0, PUCase 0x2CD0 1 0x2CD1 0 0, PUCase 0x2CD2 1 0x2CD3 0 0,
    PUCase 0x2CD4 1 0x2CD5 0 0, PUCase 0x2CD6 1 0x2CD7 0 0, PUCase 0x2CD8 1 0x2CD9 0 0,
    PUCase 0x2CDA 1 0x2CDB 0 0, PUCase 0x2CDC 1 0x2CDD 0 0]"

definition pas_u_fold_8 :: "pas_u_case list" where
  "pas_u_fold_8 = [
    PUCase 0x2CDE 1 0x2CDF 0 0, PUCase 0x2CE0 1 0x2CE1 0 0, PUCase 0x2CE2 1 0x2CE3 0 0,
    PUCase 0x2CEB 1 0x2CEC 0 0, PUCase 0x2CED 1 0x2CEE 0 0, PUCase 0x2CF2 1 0x2CF3 0 0,
    PUCase 0xA640 1 0xA641 0 0, PUCase 0xA642 1 0xA643 0 0, PUCase 0xA644 1 0xA645 0 0,
    PUCase 0xA646 1 0xA647 0 0, PUCase 0xA648 1 0xA649 0 0, PUCase 0xA64A 1 0xA64B 0 0,
    PUCase 0xA64C 1 0xA64D 0 0, PUCase 0xA64E 1 0xA64F 0 0, PUCase 0xA650 1 0xA651 0 0,
    PUCase 0xA652 1 0xA653 0 0, PUCase 0xA654 1 0xA655 0 0, PUCase 0xA656 1 0xA657 0 0,
    PUCase 0xA658 1 0xA659 0 0, PUCase 0xA65A 1 0xA65B 0 0, PUCase 0xA65C 1 0xA65D 0 0,
    PUCase 0xA65E 1 0xA65F 0 0, PUCase 0xA660 1 0xA661 0 0, PUCase 0xA662 1 0xA663 0 0,
    PUCase 0xA664 1 0xA665 0 0, PUCase 0xA666 1 0xA667 0 0, PUCase 0xA668 1 0xA669 0 0,
    PUCase 0xA66A 1 0xA66B 0 0, PUCase 0xA66C 1 0xA66D 0 0, PUCase 0xA680 1 0xA681 0 0,
    PUCase 0xA682 1 0xA683 0 0, PUCase 0xA684 1 0xA685 0 0, PUCase 0xA686 1 0xA687 0 0,
    PUCase 0xA688 1 0xA689 0 0, PUCase 0xA68A 1 0xA68B 0 0, PUCase 0xA68C 1 0xA68D 0 0,
    PUCase 0xA68E 1 0xA68F 0 0, PUCase 0xA690 1 0xA691 0 0, PUCase 0xA692 1 0xA693 0 0,
    PUCase 0xA694 1 0xA695 0 0, PUCase 0xA696 1 0xA697 0 0, PUCase 0xA698 1 0xA699 0 0,
    PUCase 0xA69A 1 0xA69B 0 0, PUCase 0xA722 1 0xA723 0 0, PUCase 0xA724 1 0xA725 0 0,
    PUCase 0xA726 1 0xA727 0 0, PUCase 0xA728 1 0xA729 0 0, PUCase 0xA72A 1 0xA72B 0 0,
    PUCase 0xA72C 1 0xA72D 0 0, PUCase 0xA72E 1 0xA72F 0 0, PUCase 0xA732 1 0xA733 0 0,
    PUCase 0xA734 1 0xA735 0 0, PUCase 0xA736 1 0xA737 0 0, PUCase 0xA738 1 0xA739 0 0,
    PUCase 0xA73A 1 0xA73B 0 0, PUCase 0xA73C 1 0xA73D 0 0, PUCase 0xA73E 1 0xA73F 0 0,
    PUCase 0xA740 1 0xA741 0 0, PUCase 0xA742 1 0xA743 0 0, PUCase 0xA744 1 0xA745 0 0,
    PUCase 0xA746 1 0xA747 0 0, PUCase 0xA748 1 0xA749 0 0, PUCase 0xA74A 1 0xA74B 0 0,
    PUCase 0xA74C 1 0xA74D 0 0, PUCase 0xA74E 1 0xA74F 0 0, PUCase 0xA750 1 0xA751 0 0,
    PUCase 0xA752 1 0xA753 0 0, PUCase 0xA754 1 0xA755 0 0, PUCase 0xA756 1 0xA757 0 0,
    PUCase 0xA758 1 0xA759 0 0, PUCase 0xA75A 1 0xA75B 0 0, PUCase 0xA75C 1 0xA75D 0 0,
    PUCase 0xA75E 1 0xA75F 0 0, PUCase 0xA760 1 0xA761 0 0, PUCase 0xA762 1 0xA763 0 0,
    PUCase 0xA764 1 0xA765 0 0, PUCase 0xA766 1 0xA767 0 0, PUCase 0xA768 1 0xA769 0 0,
    PUCase 0xA76A 1 0xA76B 0 0, PUCase 0xA76C 1 0xA76D 0 0, PUCase 0xA76E 1 0xA76F 0 0,
    PUCase 0xA779 1 0xA77A 0 0, PUCase 0xA77B 1 0xA77C 0 0, PUCase 0xA77D 1 0x1D79 0 0,
    PUCase 0xA77E 1 0xA77F 0 0, PUCase 0xA780 1 0xA781 0 0, PUCase 0xA782 1 0xA783 0 0,
    PUCase 0xA784 1 0xA785 0 0, PUCase 0xA786 1 0xA787 0 0, PUCase 0xA78B 1 0xA78C 0 0,
    PUCase 0xA78D 1 0x265 0 0, PUCase 0xA790 1 0xA791 0 0, PUCase 0xA792 1 0xA793 0 0,
    PUCase 0xA796 1 0xA797 0 0, PUCase 0xA798 1 0xA799 0 0, PUCase 0xA79A 1 0xA79B 0 0,
    PUCase 0xA79C 1 0xA79D 0 0, PUCase 0xA79E 1 0xA79F 0 0, PUCase 0xA7A0 1 0xA7A1 0 0,
    PUCase 0xA7A2 1 0xA7A3 0 0, PUCase 0xA7A4 1 0xA7A5 0 0, PUCase 0xA7A6 1 0xA7A7 0 0,
    PUCase 0xA7A8 1 0xA7A9 0 0, PUCase 0xA7AA 1 0x266 0 0, PUCase 0xA7AB 1 0x25C 0 0,
    PUCase 0xA7AC 1 0x261 0 0, PUCase 0xA7AD 1 0x26C 0 0, PUCase 0xA7AE 1 0x26A 0 0,
    PUCase 0xA7B0 1 0x29E 0 0, PUCase 0xA7B1 1 0x287 0 0, PUCase 0xA7B2 1 0x29D 0 0,
    PUCase 0xA7B3 1 0xAB53 0 0, PUCase 0xA7B4 1 0xA7B5 0 0, PUCase 0xA7B6 1 0xA7B7 0 0,
    PUCase 0xA7B8 1 0xA7B9 0 0, PUCase 0xA7BA 1 0xA7BB 0 0, PUCase 0xA7BC 1 0xA7BD 0 0,
    PUCase 0xA7BE 1 0xA7BF 0 0, PUCase 0xA7C0 1 0xA7C1 0 0, PUCase 0xA7C2 1 0xA7C3 0 0,
    PUCase 0xA7C4 1 0xA794 0 0, PUCase 0xA7C5 1 0x282 0 0, PUCase 0xA7C6 1 0x1D8E 0 0,
    PUCase 0xA7C7 1 0xA7C8 0 0, PUCase 0xA7C9 1 0xA7CA 0 0, PUCase 0xA7CB 1 0x264 0 0,
    PUCase 0xA7CC 1 0xA7CD 0 0, PUCase 0xA7CE 1 0xA7CF 0 0]"

definition pas_u_fold_9 :: "pas_u_case list" where
  "pas_u_fold_9 = [
    PUCase 0xA7D0 1 0xA7D1 0 0, PUCase 0xA7D2 1 0xA7D3 0 0, PUCase 0xA7D4 1 0xA7D5 0 0,
    PUCase 0xA7D6 1 0xA7D7 0 0, PUCase 0xA7D8 1 0xA7D9 0 0, PUCase 0xA7DA 1 0xA7DB 0 0,
    PUCase 0xA7DC 1 0x19B 0 0, PUCase 0xA7F5 1 0xA7F6 0 0, PUCase 0xAB70 1 0x13A0 0 0,
    PUCase 0xAB71 1 0x13A1 0 0, PUCase 0xAB72 1 0x13A2 0 0, PUCase 0xAB73 1 0x13A3 0 0,
    PUCase 0xAB74 1 0x13A4 0 0, PUCase 0xAB75 1 0x13A5 0 0, PUCase 0xAB76 1 0x13A6 0 0,
    PUCase 0xAB77 1 0x13A7 0 0, PUCase 0xAB78 1 0x13A8 0 0, PUCase 0xAB79 1 0x13A9 0 0,
    PUCase 0xAB7A 1 0x13AA 0 0, PUCase 0xAB7B 1 0x13AB 0 0, PUCase 0xAB7C 1 0x13AC 0 0,
    PUCase 0xAB7D 1 0x13AD 0 0, PUCase 0xAB7E 1 0x13AE 0 0, PUCase 0xAB7F 1 0x13AF 0 0,
    PUCase 0xAB80 1 0x13B0 0 0, PUCase 0xAB81 1 0x13B1 0 0, PUCase 0xAB82 1 0x13B2 0 0,
    PUCase 0xAB83 1 0x13B3 0 0, PUCase 0xAB84 1 0x13B4 0 0, PUCase 0xAB85 1 0x13B5 0 0,
    PUCase 0xAB86 1 0x13B6 0 0, PUCase 0xAB87 1 0x13B7 0 0, PUCase 0xAB88 1 0x13B8 0 0,
    PUCase 0xAB89 1 0x13B9 0 0, PUCase 0xAB8A 1 0x13BA 0 0, PUCase 0xAB8B 1 0x13BB 0 0,
    PUCase 0xAB8C 1 0x13BC 0 0, PUCase 0xAB8D 1 0x13BD 0 0, PUCase 0xAB8E 1 0x13BE 0 0,
    PUCase 0xAB8F 1 0x13BF 0 0, PUCase 0xAB90 1 0x13C0 0 0, PUCase 0xAB91 1 0x13C1 0 0,
    PUCase 0xAB92 1 0x13C2 0 0, PUCase 0xAB93 1 0x13C3 0 0, PUCase 0xAB94 1 0x13C4 0 0,
    PUCase 0xAB95 1 0x13C5 0 0, PUCase 0xAB96 1 0x13C6 0 0, PUCase 0xAB97 1 0x13C7 0 0,
    PUCase 0xAB98 1 0x13C8 0 0, PUCase 0xAB99 1 0x13C9 0 0, PUCase 0xAB9A 1 0x13CA 0 0,
    PUCase 0xAB9B 1 0x13CB 0 0, PUCase 0xAB9C 1 0x13CC 0 0, PUCase 0xAB9D 1 0x13CD 0 0,
    PUCase 0xAB9E 1 0x13CE 0 0, PUCase 0xAB9F 1 0x13CF 0 0, PUCase 0xABA0 1 0x13D0 0 0,
    PUCase 0xABA1 1 0x13D1 0 0, PUCase 0xABA2 1 0x13D2 0 0, PUCase 0xABA3 1 0x13D3 0 0,
    PUCase 0xABA4 1 0x13D4 0 0, PUCase 0xABA5 1 0x13D5 0 0, PUCase 0xABA6 1 0x13D6 0 0,
    PUCase 0xABA7 1 0x13D7 0 0, PUCase 0xABA8 1 0x13D8 0 0, PUCase 0xABA9 1 0x13D9 0 0,
    PUCase 0xABAA 1 0x13DA 0 0, PUCase 0xABAB 1 0x13DB 0 0, PUCase 0xABAC 1 0x13DC 0 0,
    PUCase 0xABAD 1 0x13DD 0 0, PUCase 0xABAE 1 0x13DE 0 0, PUCase 0xABAF 1 0x13DF 0 0,
    PUCase 0xABB0 1 0x13E0 0 0, PUCase 0xABB1 1 0x13E1 0 0, PUCase 0xABB2 1 0x13E2 0 0,
    PUCase 0xABB3 1 0x13E3 0 0, PUCase 0xABB4 1 0x13E4 0 0, PUCase 0xABB5 1 0x13E5 0 0,
    PUCase 0xABB6 1 0x13E6 0 0, PUCase 0xABB7 1 0x13E7 0 0, PUCase 0xABB8 1 0x13E8 0 0,
    PUCase 0xABB9 1 0x13E9 0 0, PUCase 0xABBA 1 0x13EA 0 0, PUCase 0xABBB 1 0x13EB 0 0,
    PUCase 0xABBC 1 0x13EC 0 0, PUCase 0xABBD 1 0x13ED 0 0, PUCase 0xABBE 1 0x13EE 0 0,
    PUCase 0xABBF 1 0x13EF 0 0, PUCase 0xFB00 2 0x66 0x66 0, PUCase 0xFB01 2 0x66 0x69 0,
    PUCase 0xFB02 2 0x66 0x6C 0, PUCase 0xFB03 3 0x66 0x66 0x69, PUCase 0xFB04 3 0x66 0x66 0x6C,
    PUCase 0xFB05 2 0x73 0x74 0, PUCase 0xFB06 2 0x73 0x74 0, PUCase 0xFB13 2 0x574 0x576 0,
    PUCase 0xFB14 2 0x574 0x565 0, PUCase 0xFB15 2 0x574 0x56B 0, PUCase 0xFB16 2 0x57E 0x576 0,
    PUCase 0xFB17 2 0x574 0x56D 0, PUCase 0xFF21 1 0xFF41 0 0, PUCase 0xFF22 1 0xFF42 0 0,
    PUCase 0xFF23 1 0xFF43 0 0, PUCase 0xFF24 1 0xFF44 0 0, PUCase 0xFF25 1 0xFF45 0 0,
    PUCase 0xFF26 1 0xFF46 0 0, PUCase 0xFF27 1 0xFF47 0 0, PUCase 0xFF28 1 0xFF48 0 0,
    PUCase 0xFF29 1 0xFF49 0 0, PUCase 0xFF2A 1 0xFF4A 0 0, PUCase 0xFF2B 1 0xFF4B 0 0,
    PUCase 0xFF2C 1 0xFF4C 0 0, PUCase 0xFF2D 1 0xFF4D 0 0, PUCase 0xFF2E 1 0xFF4E 0 0,
    PUCase 0xFF2F 1 0xFF4F 0 0, PUCase 0xFF30 1 0xFF50 0 0, PUCase 0xFF31 1 0xFF51 0 0,
    PUCase 0xFF32 1 0xFF52 0 0, PUCase 0xFF33 1 0xFF53 0 0, PUCase 0xFF34 1 0xFF54 0 0,
    PUCase 0xFF35 1 0xFF55 0 0, PUCase 0xFF36 1 0xFF56 0 0, PUCase 0xFF37 1 0xFF57 0 0,
    PUCase 0xFF38 1 0xFF58 0 0, PUCase 0xFF39 1 0xFF59 0 0, PUCase 0xFF3A 1 0xFF5A 0 0,
    PUCase 0x10400 1 0x10428 0 0, PUCase 0x10401 1 0x10429 0 0]"

definition pas_u_fold_10 :: "pas_u_case list" where
  "pas_u_fold_10 = [
    PUCase 0x10402 1 0x1042A 0 0, PUCase 0x10403 1 0x1042B 0 0, PUCase 0x10404 1 0x1042C 0 0,
    PUCase 0x10405 1 0x1042D 0 0, PUCase 0x10406 1 0x1042E 0 0, PUCase 0x10407 1 0x1042F 0 0,
    PUCase 0x10408 1 0x10430 0 0, PUCase 0x10409 1 0x10431 0 0, PUCase 0x1040A 1 0x10432 0 0,
    PUCase 0x1040B 1 0x10433 0 0, PUCase 0x1040C 1 0x10434 0 0, PUCase 0x1040D 1 0x10435 0 0,
    PUCase 0x1040E 1 0x10436 0 0, PUCase 0x1040F 1 0x10437 0 0, PUCase 0x10410 1 0x10438 0 0,
    PUCase 0x10411 1 0x10439 0 0, PUCase 0x10412 1 0x1043A 0 0, PUCase 0x10413 1 0x1043B 0 0,
    PUCase 0x10414 1 0x1043C 0 0, PUCase 0x10415 1 0x1043D 0 0, PUCase 0x10416 1 0x1043E 0 0,
    PUCase 0x10417 1 0x1043F 0 0, PUCase 0x10418 1 0x10440 0 0, PUCase 0x10419 1 0x10441 0 0,
    PUCase 0x1041A 1 0x10442 0 0, PUCase 0x1041B 1 0x10443 0 0, PUCase 0x1041C 1 0x10444 0 0,
    PUCase 0x1041D 1 0x10445 0 0, PUCase 0x1041E 1 0x10446 0 0, PUCase 0x1041F 1 0x10447 0 0,
    PUCase 0x10420 1 0x10448 0 0, PUCase 0x10421 1 0x10449 0 0, PUCase 0x10422 1 0x1044A 0 0,
    PUCase 0x10423 1 0x1044B 0 0, PUCase 0x10424 1 0x1044C 0 0, PUCase 0x10425 1 0x1044D 0 0,
    PUCase 0x10426 1 0x1044E 0 0, PUCase 0x10427 1 0x1044F 0 0, PUCase 0x104B0 1 0x104D8 0 0,
    PUCase 0x104B1 1 0x104D9 0 0, PUCase 0x104B2 1 0x104DA 0 0, PUCase 0x104B3 1 0x104DB 0 0,
    PUCase 0x104B4 1 0x104DC 0 0, PUCase 0x104B5 1 0x104DD 0 0, PUCase 0x104B6 1 0x104DE 0 0,
    PUCase 0x104B7 1 0x104DF 0 0, PUCase 0x104B8 1 0x104E0 0 0, PUCase 0x104B9 1 0x104E1 0 0,
    PUCase 0x104BA 1 0x104E2 0 0, PUCase 0x104BB 1 0x104E3 0 0, PUCase 0x104BC 1 0x104E4 0 0,
    PUCase 0x104BD 1 0x104E5 0 0, PUCase 0x104BE 1 0x104E6 0 0, PUCase 0x104BF 1 0x104E7 0 0,
    PUCase 0x104C0 1 0x104E8 0 0, PUCase 0x104C1 1 0x104E9 0 0, PUCase 0x104C2 1 0x104EA 0 0,
    PUCase 0x104C3 1 0x104EB 0 0, PUCase 0x104C4 1 0x104EC 0 0, PUCase 0x104C5 1 0x104ED 0 0,
    PUCase 0x104C6 1 0x104EE 0 0, PUCase 0x104C7 1 0x104EF 0 0, PUCase 0x104C8 1 0x104F0 0 0,
    PUCase 0x104C9 1 0x104F1 0 0, PUCase 0x104CA 1 0x104F2 0 0, PUCase 0x104CB 1 0x104F3 0 0,
    PUCase 0x104CC 1 0x104F4 0 0, PUCase 0x104CD 1 0x104F5 0 0, PUCase 0x104CE 1 0x104F6 0 0,
    PUCase 0x104CF 1 0x104F7 0 0, PUCase 0x104D0 1 0x104F8 0 0, PUCase 0x104D1 1 0x104F9 0 0,
    PUCase 0x104D2 1 0x104FA 0 0, PUCase 0x104D3 1 0x104FB 0 0, PUCase 0x10570 1 0x10597 0 0,
    PUCase 0x10571 1 0x10598 0 0, PUCase 0x10572 1 0x10599 0 0, PUCase 0x10573 1 0x1059A 0 0,
    PUCase 0x10574 1 0x1059B 0 0, PUCase 0x10575 1 0x1059C 0 0, PUCase 0x10576 1 0x1059D 0 0,
    PUCase 0x10577 1 0x1059E 0 0, PUCase 0x10578 1 0x1059F 0 0, PUCase 0x10579 1 0x105A0 0 0,
    PUCase 0x1057A 1 0x105A1 0 0, PUCase 0x1057C 1 0x105A3 0 0, PUCase 0x1057D 1 0x105A4 0 0,
    PUCase 0x1057E 1 0x105A5 0 0, PUCase 0x1057F 1 0x105A6 0 0, PUCase 0x10580 1 0x105A7 0 0,
    PUCase 0x10581 1 0x105A8 0 0, PUCase 0x10582 1 0x105A9 0 0, PUCase 0x10583 1 0x105AA 0 0,
    PUCase 0x10584 1 0x105AB 0 0, PUCase 0x10585 1 0x105AC 0 0, PUCase 0x10586 1 0x105AD 0 0,
    PUCase 0x10587 1 0x105AE 0 0, PUCase 0x10588 1 0x105AF 0 0, PUCase 0x10589 1 0x105B0 0 0,
    PUCase 0x1058A 1 0x105B1 0 0, PUCase 0x1058C 1 0x105B3 0 0, PUCase 0x1058D 1 0x105B4 0 0,
    PUCase 0x1058E 1 0x105B5 0 0, PUCase 0x1058F 1 0x105B6 0 0, PUCase 0x10590 1 0x105B7 0 0,
    PUCase 0x10591 1 0x105B8 0 0, PUCase 0x10592 1 0x105B9 0 0, PUCase 0x10594 1 0x105BB 0 0,
    PUCase 0x10595 1 0x105BC 0 0, PUCase 0x10C80 1 0x10CC0 0 0, PUCase 0x10C81 1 0x10CC1 0 0,
    PUCase 0x10C82 1 0x10CC2 0 0, PUCase 0x10C83 1 0x10CC3 0 0, PUCase 0x10C84 1 0x10CC4 0 0,
    PUCase 0x10C85 1 0x10CC5 0 0, PUCase 0x10C86 1 0x10CC6 0 0, PUCase 0x10C87 1 0x10CC7 0 0,
    PUCase 0x10C88 1 0x10CC8 0 0, PUCase 0x10C89 1 0x10CC9 0 0, PUCase 0x10C8A 1 0x10CCA 0 0,
    PUCase 0x10C8B 1 0x10CCB 0 0, PUCase 0x10C8C 1 0x10CCC 0 0, PUCase 0x10C8D 1 0x10CCD 0 0,
    PUCase 0x10C8E 1 0x10CCE 0 0, PUCase 0x10C8F 1 0x10CCF 0 0, PUCase 0x10C90 1 0x10CD0 0 0,
    PUCase 0x10C91 1 0x10CD1 0 0, PUCase 0x10C92 1 0x10CD2 0 0]"

definition pas_u_fold_11 :: "pas_u_case list" where
  "pas_u_fold_11 = [
    PUCase 0x10C93 1 0x10CD3 0 0, PUCase 0x10C94 1 0x10CD4 0 0, PUCase 0x10C95 1 0x10CD5 0 0,
    PUCase 0x10C96 1 0x10CD6 0 0, PUCase 0x10C97 1 0x10CD7 0 0, PUCase 0x10C98 1 0x10CD8 0 0,
    PUCase 0x10C99 1 0x10CD9 0 0, PUCase 0x10C9A 1 0x10CDA 0 0, PUCase 0x10C9B 1 0x10CDB 0 0,
    PUCase 0x10C9C 1 0x10CDC 0 0, PUCase 0x10C9D 1 0x10CDD 0 0, PUCase 0x10C9E 1 0x10CDE 0 0,
    PUCase 0x10C9F 1 0x10CDF 0 0, PUCase 0x10CA0 1 0x10CE0 0 0, PUCase 0x10CA1 1 0x10CE1 0 0,
    PUCase 0x10CA2 1 0x10CE2 0 0, PUCase 0x10CA3 1 0x10CE3 0 0, PUCase 0x10CA4 1 0x10CE4 0 0,
    PUCase 0x10CA5 1 0x10CE5 0 0, PUCase 0x10CA6 1 0x10CE6 0 0, PUCase 0x10CA7 1 0x10CE7 0 0,
    PUCase 0x10CA8 1 0x10CE8 0 0, PUCase 0x10CA9 1 0x10CE9 0 0, PUCase 0x10CAA 1 0x10CEA 0 0,
    PUCase 0x10CAB 1 0x10CEB 0 0, PUCase 0x10CAC 1 0x10CEC 0 0, PUCase 0x10CAD 1 0x10CED 0 0,
    PUCase 0x10CAE 1 0x10CEE 0 0, PUCase 0x10CAF 1 0x10CEF 0 0, PUCase 0x10CB0 1 0x10CF0 0 0,
    PUCase 0x10CB1 1 0x10CF1 0 0, PUCase 0x10CB2 1 0x10CF2 0 0, PUCase 0x10D50 1 0x10D70 0 0,
    PUCase 0x10D51 1 0x10D71 0 0, PUCase 0x10D52 1 0x10D72 0 0, PUCase 0x10D53 1 0x10D73 0 0,
    PUCase 0x10D54 1 0x10D74 0 0, PUCase 0x10D55 1 0x10D75 0 0, PUCase 0x10D56 1 0x10D76 0 0,
    PUCase 0x10D57 1 0x10D77 0 0, PUCase 0x10D58 1 0x10D78 0 0, PUCase 0x10D59 1 0x10D79 0 0,
    PUCase 0x10D5A 1 0x10D7A 0 0, PUCase 0x10D5B 1 0x10D7B 0 0, PUCase 0x10D5C 1 0x10D7C 0 0,
    PUCase 0x10D5D 1 0x10D7D 0 0, PUCase 0x10D5E 1 0x10D7E 0 0, PUCase 0x10D5F 1 0x10D7F 0 0,
    PUCase 0x10D60 1 0x10D80 0 0, PUCase 0x10D61 1 0x10D81 0 0, PUCase 0x10D62 1 0x10D82 0 0,
    PUCase 0x10D63 1 0x10D83 0 0, PUCase 0x10D64 1 0x10D84 0 0, PUCase 0x10D65 1 0x10D85 0 0,
    PUCase 0x118A0 1 0x118C0 0 0, PUCase 0x118A1 1 0x118C1 0 0, PUCase 0x118A2 1 0x118C2 0 0,
    PUCase 0x118A3 1 0x118C3 0 0, PUCase 0x118A4 1 0x118C4 0 0, PUCase 0x118A5 1 0x118C5 0 0,
    PUCase 0x118A6 1 0x118C6 0 0, PUCase 0x118A7 1 0x118C7 0 0, PUCase 0x118A8 1 0x118C8 0 0,
    PUCase 0x118A9 1 0x118C9 0 0, PUCase 0x118AA 1 0x118CA 0 0, PUCase 0x118AB 1 0x118CB 0 0,
    PUCase 0x118AC 1 0x118CC 0 0, PUCase 0x118AD 1 0x118CD 0 0, PUCase 0x118AE 1 0x118CE 0 0,
    PUCase 0x118AF 1 0x118CF 0 0, PUCase 0x118B0 1 0x118D0 0 0, PUCase 0x118B1 1 0x118D1 0 0,
    PUCase 0x118B2 1 0x118D2 0 0, PUCase 0x118B3 1 0x118D3 0 0, PUCase 0x118B4 1 0x118D4 0 0,
    PUCase 0x118B5 1 0x118D5 0 0, PUCase 0x118B6 1 0x118D6 0 0, PUCase 0x118B7 1 0x118D7 0 0,
    PUCase 0x118B8 1 0x118D8 0 0, PUCase 0x118B9 1 0x118D9 0 0, PUCase 0x118BA 1 0x118DA 0 0,
    PUCase 0x118BB 1 0x118DB 0 0, PUCase 0x118BC 1 0x118DC 0 0, PUCase 0x118BD 1 0x118DD 0 0,
    PUCase 0x118BE 1 0x118DE 0 0, PUCase 0x118BF 1 0x118DF 0 0, PUCase 0x16E40 1 0x16E60 0 0,
    PUCase 0x16E41 1 0x16E61 0 0, PUCase 0x16E42 1 0x16E62 0 0, PUCase 0x16E43 1 0x16E63 0 0,
    PUCase 0x16E44 1 0x16E64 0 0, PUCase 0x16E45 1 0x16E65 0 0, PUCase 0x16E46 1 0x16E66 0 0,
    PUCase 0x16E47 1 0x16E67 0 0, PUCase 0x16E48 1 0x16E68 0 0, PUCase 0x16E49 1 0x16E69 0 0,
    PUCase 0x16E4A 1 0x16E6A 0 0, PUCase 0x16E4B 1 0x16E6B 0 0, PUCase 0x16E4C 1 0x16E6C 0 0,
    PUCase 0x16E4D 1 0x16E6D 0 0, PUCase 0x16E4E 1 0x16E6E 0 0, PUCase 0x16E4F 1 0x16E6F 0 0,
    PUCase 0x16E50 1 0x16E70 0 0, PUCase 0x16E51 1 0x16E71 0 0, PUCase 0x16E52 1 0x16E72 0 0,
    PUCase 0x16E53 1 0x16E73 0 0, PUCase 0x16E54 1 0x16E74 0 0, PUCase 0x16E55 1 0x16E75 0 0,
    PUCase 0x16E56 1 0x16E76 0 0, PUCase 0x16E57 1 0x16E77 0 0, PUCase 0x16E58 1 0x16E78 0 0,
    PUCase 0x16E59 1 0x16E79 0 0, PUCase 0x16E5A 1 0x16E7A 0 0, PUCase 0x16E5B 1 0x16E7B 0 0,
    PUCase 0x16E5C 1 0x16E7C 0 0, PUCase 0x16E5D 1 0x16E7D 0 0, PUCase 0x16E5E 1 0x16E7E 0 0,
    PUCase 0x16E5F 1 0x16E7F 0 0, PUCase 0x16EA0 1 0x16EBB 0 0, PUCase 0x16EA1 1 0x16EBC 0 0,
    PUCase 0x16EA2 1 0x16EBD 0 0, PUCase 0x16EA3 1 0x16EBE 0 0, PUCase 0x16EA4 1 0x16EBF 0 0,
    PUCase 0x16EA5 1 0x16EC0 0 0, PUCase 0x16EA6 1 0x16EC1 0 0, PUCase 0x16EA7 1 0x16EC2 0 0,
    PUCase 0x16EA8 1 0x16EC3 0 0, PUCase 0x16EA9 1 0x16EC4 0 0]"

definition pas_u_fold_12 :: "pas_u_case list" where
  "pas_u_fold_12 = [
    PUCase 0x16EAA 1 0x16EC5 0 0, PUCase 0x16EAB 1 0x16EC6 0 0, PUCase 0x16EAC 1 0x16EC7 0 0,
    PUCase 0x16EAD 1 0x16EC8 0 0, PUCase 0x16EAE 1 0x16EC9 0 0, PUCase 0x16EAF 1 0x16ECA 0 0,
    PUCase 0x16EB0 1 0x16ECB 0 0, PUCase 0x16EB1 1 0x16ECC 0 0, PUCase 0x16EB2 1 0x16ECD 0 0,
    PUCase 0x16EB3 1 0x16ECE 0 0, PUCase 0x16EB4 1 0x16ECF 0 0, PUCase 0x16EB5 1 0x16ED0 0 0,
    PUCase 0x16EB6 1 0x16ED1 0 0, PUCase 0x16EB7 1 0x16ED2 0 0, PUCase 0x16EB8 1 0x16ED3 0 0,
    PUCase 0x1E900 1 0x1E922 0 0, PUCase 0x1E901 1 0x1E923 0 0, PUCase 0x1E902 1 0x1E924 0 0,
    PUCase 0x1E903 1 0x1E925 0 0, PUCase 0x1E904 1 0x1E926 0 0, PUCase 0x1E905 1 0x1E927 0 0,
    PUCase 0x1E906 1 0x1E928 0 0, PUCase 0x1E907 1 0x1E929 0 0, PUCase 0x1E908 1 0x1E92A 0 0,
    PUCase 0x1E909 1 0x1E92B 0 0, PUCase 0x1E90A 1 0x1E92C 0 0, PUCase 0x1E90B 1 0x1E92D 0 0,
    PUCase 0x1E90C 1 0x1E92E 0 0, PUCase 0x1E90D 1 0x1E92F 0 0, PUCase 0x1E90E 1 0x1E930 0 0,
    PUCase 0x1E90F 1 0x1E931 0 0, PUCase 0x1E910 1 0x1E932 0 0, PUCase 0x1E911 1 0x1E933 0 0,
    PUCase 0x1E912 1 0x1E934 0 0, PUCase 0x1E913 1 0x1E935 0 0, PUCase 0x1E914 1 0x1E936 0 0,
    PUCase 0x1E915 1 0x1E937 0 0, PUCase 0x1E916 1 0x1E938 0 0, PUCase 0x1E917 1 0x1E939 0 0,
    PUCase 0x1E918 1 0x1E93A 0 0, PUCase 0x1E919 1 0x1E93B 0 0, PUCase 0x1E91A 1 0x1E93C 0 0,
    PUCase 0x1E91B 1 0x1E93D 0 0, PUCase 0x1E91C 1 0x1E93E 0 0, PUCase 0x1E91D 1 0x1E93F 0 0,
    PUCase 0x1E91E 1 0x1E940 0 0, PUCase 0x1E91F 1 0x1E941 0 0, PUCase 0x1E920 1 0x1E942 0 0,
    PUCase 0x1E921 1 0x1E943 0 0]"

definition pas_u_fold :: "pas_u_case list" where
  "pas_u_fold = pas_u_fold_0 @ pas_u_fold_1 @ pas_u_fold_2 @ pas_u_fold_3 @ pas_u_fold_4 @ pas_u_fold_5 @ pas_u_fold_6 @ pas_u_fold_7 @ pas_u_fold_8 @ pas_u_fold_9 @ pas_u_fold_10 @ pas_u_fold_11 @ pas_u_fold_12"

definition pas_u_upper_0 :: "pas_u_case list" where
  "pas_u_upper_0 = [
    PUCase 0x61 1 0x41 0 0, PUCase 0x62 1 0x42 0 0, PUCase 0x63 1 0x43 0 0,
    PUCase 0x64 1 0x44 0 0, PUCase 0x65 1 0x45 0 0, PUCase 0x66 1 0x46 0 0,
    PUCase 0x67 1 0x47 0 0, PUCase 0x68 1 0x48 0 0, PUCase 0x69 1 0x49 0 0,
    PUCase 0x6A 1 0x4A 0 0, PUCase 0x6B 1 0x4B 0 0, PUCase 0x6C 1 0x4C 0 0,
    PUCase 0x6D 1 0x4D 0 0, PUCase 0x6E 1 0x4E 0 0, PUCase 0x6F 1 0x4F 0 0,
    PUCase 0x70 1 0x50 0 0, PUCase 0x71 1 0x51 0 0, PUCase 0x72 1 0x52 0 0,
    PUCase 0x73 1 0x53 0 0, PUCase 0x74 1 0x54 0 0, PUCase 0x75 1 0x55 0 0,
    PUCase 0x76 1 0x56 0 0, PUCase 0x77 1 0x57 0 0, PUCase 0x78 1 0x58 0 0,
    PUCase 0x79 1 0x59 0 0, PUCase 0x7A 1 0x5A 0 0, PUCase 0xB5 1 0x39C 0 0,
    PUCase 0xDF 2 0x53 0x53 0, PUCase 0xE0 1 0xC0 0 0, PUCase 0xE1 1 0xC1 0 0,
    PUCase 0xE2 1 0xC2 0 0, PUCase 0xE3 1 0xC3 0 0, PUCase 0xE4 1 0xC4 0 0,
    PUCase 0xE5 1 0xC5 0 0, PUCase 0xE6 1 0xC6 0 0, PUCase 0xE7 1 0xC7 0 0,
    PUCase 0xE8 1 0xC8 0 0, PUCase 0xE9 1 0xC9 0 0, PUCase 0xEA 1 0xCA 0 0,
    PUCase 0xEB 1 0xCB 0 0, PUCase 0xEC 1 0xCC 0 0, PUCase 0xED 1 0xCD 0 0,
    PUCase 0xEE 1 0xCE 0 0, PUCase 0xEF 1 0xCF 0 0, PUCase 0xF0 1 0xD0 0 0,
    PUCase 0xF1 1 0xD1 0 0, PUCase 0xF2 1 0xD2 0 0, PUCase 0xF3 1 0xD3 0 0,
    PUCase 0xF4 1 0xD4 0 0, PUCase 0xF5 1 0xD5 0 0, PUCase 0xF6 1 0xD6 0 0,
    PUCase 0xF8 1 0xD8 0 0, PUCase 0xF9 1 0xD9 0 0, PUCase 0xFA 1 0xDA 0 0,
    PUCase 0xFB 1 0xDB 0 0, PUCase 0xFC 1 0xDC 0 0, PUCase 0xFD 1 0xDD 0 0,
    PUCase 0xFE 1 0xDE 0 0, PUCase 0xFF 1 0x178 0 0, PUCase 0x101 1 0x100 0 0,
    PUCase 0x103 1 0x102 0 0, PUCase 0x105 1 0x104 0 0, PUCase 0x107 1 0x106 0 0,
    PUCase 0x109 1 0x108 0 0, PUCase 0x10B 1 0x10A 0 0, PUCase 0x10D 1 0x10C 0 0,
    PUCase 0x10F 1 0x10E 0 0, PUCase 0x111 1 0x110 0 0, PUCase 0x113 1 0x112 0 0,
    PUCase 0x115 1 0x114 0 0, PUCase 0x117 1 0x116 0 0, PUCase 0x119 1 0x118 0 0,
    PUCase 0x11B 1 0x11A 0 0, PUCase 0x11D 1 0x11C 0 0, PUCase 0x11F 1 0x11E 0 0,
    PUCase 0x121 1 0x120 0 0, PUCase 0x123 1 0x122 0 0, PUCase 0x125 1 0x124 0 0,
    PUCase 0x127 1 0x126 0 0, PUCase 0x129 1 0x128 0 0, PUCase 0x12B 1 0x12A 0 0,
    PUCase 0x12D 1 0x12C 0 0, PUCase 0x12F 1 0x12E 0 0, PUCase 0x131 1 0x49 0 0,
    PUCase 0x133 1 0x132 0 0, PUCase 0x135 1 0x134 0 0, PUCase 0x137 1 0x136 0 0,
    PUCase 0x13A 1 0x139 0 0, PUCase 0x13C 1 0x13B 0 0, PUCase 0x13E 1 0x13D 0 0,
    PUCase 0x140 1 0x13F 0 0, PUCase 0x142 1 0x141 0 0, PUCase 0x144 1 0x143 0 0,
    PUCase 0x146 1 0x145 0 0, PUCase 0x148 1 0x147 0 0, PUCase 0x149 2 0x2BC 0x4E 0,
    PUCase 0x14B 1 0x14A 0 0, PUCase 0x14D 1 0x14C 0 0, PUCase 0x14F 1 0x14E 0 0,
    PUCase 0x151 1 0x150 0 0, PUCase 0x153 1 0x152 0 0, PUCase 0x155 1 0x154 0 0,
    PUCase 0x157 1 0x156 0 0, PUCase 0x159 1 0x158 0 0, PUCase 0x15B 1 0x15A 0 0,
    PUCase 0x15D 1 0x15C 0 0, PUCase 0x15F 1 0x15E 0 0, PUCase 0x161 1 0x160 0 0,
    PUCase 0x163 1 0x162 0 0, PUCase 0x165 1 0x164 0 0, PUCase 0x167 1 0x166 0 0,
    PUCase 0x169 1 0x168 0 0, PUCase 0x16B 1 0x16A 0 0, PUCase 0x16D 1 0x16C 0 0,
    PUCase 0x16F 1 0x16E 0 0, PUCase 0x171 1 0x170 0 0, PUCase 0x173 1 0x172 0 0,
    PUCase 0x175 1 0x174 0 0, PUCase 0x177 1 0x176 0 0, PUCase 0x17A 1 0x179 0 0,
    PUCase 0x17C 1 0x17B 0 0, PUCase 0x17E 1 0x17D 0 0, PUCase 0x17F 1 0x53 0 0,
    PUCase 0x180 1 0x243 0 0, PUCase 0x183 1 0x182 0 0, PUCase 0x185 1 0x184 0 0,
    PUCase 0x188 1 0x187 0 0, PUCase 0x18C 1 0x18B 0 0]"

definition pas_u_upper_1 :: "pas_u_case list" where
  "pas_u_upper_1 = [
    PUCase 0x192 1 0x191 0 0, PUCase 0x195 1 0x1F6 0 0, PUCase 0x199 1 0x198 0 0,
    PUCase 0x19A 1 0x23D 0 0, PUCase 0x19B 1 0xA7DC 0 0, PUCase 0x19E 1 0x220 0 0,
    PUCase 0x1A1 1 0x1A0 0 0, PUCase 0x1A3 1 0x1A2 0 0, PUCase 0x1A5 1 0x1A4 0 0,
    PUCase 0x1A8 1 0x1A7 0 0, PUCase 0x1AD 1 0x1AC 0 0, PUCase 0x1B0 1 0x1AF 0 0,
    PUCase 0x1B4 1 0x1B3 0 0, PUCase 0x1B6 1 0x1B5 0 0, PUCase 0x1B9 1 0x1B8 0 0,
    PUCase 0x1BD 1 0x1BC 0 0, PUCase 0x1BF 1 0x1F7 0 0, PUCase 0x1C5 1 0x1C4 0 0,
    PUCase 0x1C6 1 0x1C4 0 0, PUCase 0x1C8 1 0x1C7 0 0, PUCase 0x1C9 1 0x1C7 0 0,
    PUCase 0x1CB 1 0x1CA 0 0, PUCase 0x1CC 1 0x1CA 0 0, PUCase 0x1CE 1 0x1CD 0 0,
    PUCase 0x1D0 1 0x1CF 0 0, PUCase 0x1D2 1 0x1D1 0 0, PUCase 0x1D4 1 0x1D3 0 0,
    PUCase 0x1D6 1 0x1D5 0 0, PUCase 0x1D8 1 0x1D7 0 0, PUCase 0x1DA 1 0x1D9 0 0,
    PUCase 0x1DC 1 0x1DB 0 0, PUCase 0x1DD 1 0x18E 0 0, PUCase 0x1DF 1 0x1DE 0 0,
    PUCase 0x1E1 1 0x1E0 0 0, PUCase 0x1E3 1 0x1E2 0 0, PUCase 0x1E5 1 0x1E4 0 0,
    PUCase 0x1E7 1 0x1E6 0 0, PUCase 0x1E9 1 0x1E8 0 0, PUCase 0x1EB 1 0x1EA 0 0,
    PUCase 0x1ED 1 0x1EC 0 0, PUCase 0x1EF 1 0x1EE 0 0, PUCase 0x1F0 2 0x4A 0x30C 0,
    PUCase 0x1F2 1 0x1F1 0 0, PUCase 0x1F3 1 0x1F1 0 0, PUCase 0x1F5 1 0x1F4 0 0,
    PUCase 0x1F9 1 0x1F8 0 0, PUCase 0x1FB 1 0x1FA 0 0, PUCase 0x1FD 1 0x1FC 0 0,
    PUCase 0x1FF 1 0x1FE 0 0, PUCase 0x201 1 0x200 0 0, PUCase 0x203 1 0x202 0 0,
    PUCase 0x205 1 0x204 0 0, PUCase 0x207 1 0x206 0 0, PUCase 0x209 1 0x208 0 0,
    PUCase 0x20B 1 0x20A 0 0, PUCase 0x20D 1 0x20C 0 0, PUCase 0x20F 1 0x20E 0 0,
    PUCase 0x211 1 0x210 0 0, PUCase 0x213 1 0x212 0 0, PUCase 0x215 1 0x214 0 0,
    PUCase 0x217 1 0x216 0 0, PUCase 0x219 1 0x218 0 0, PUCase 0x21B 1 0x21A 0 0,
    PUCase 0x21D 1 0x21C 0 0, PUCase 0x21F 1 0x21E 0 0, PUCase 0x223 1 0x222 0 0,
    PUCase 0x225 1 0x224 0 0, PUCase 0x227 1 0x226 0 0, PUCase 0x229 1 0x228 0 0,
    PUCase 0x22B 1 0x22A 0 0, PUCase 0x22D 1 0x22C 0 0, PUCase 0x22F 1 0x22E 0 0,
    PUCase 0x231 1 0x230 0 0, PUCase 0x233 1 0x232 0 0, PUCase 0x23C 1 0x23B 0 0,
    PUCase 0x23F 1 0x2C7E 0 0, PUCase 0x240 1 0x2C7F 0 0, PUCase 0x242 1 0x241 0 0,
    PUCase 0x247 1 0x246 0 0, PUCase 0x249 1 0x248 0 0, PUCase 0x24B 1 0x24A 0 0,
    PUCase 0x24D 1 0x24C 0 0, PUCase 0x24F 1 0x24E 0 0, PUCase 0x250 1 0x2C6F 0 0,
    PUCase 0x251 1 0x2C6D 0 0, PUCase 0x252 1 0x2C70 0 0, PUCase 0x253 1 0x181 0 0,
    PUCase 0x254 1 0x186 0 0, PUCase 0x256 1 0x189 0 0, PUCase 0x257 1 0x18A 0 0,
    PUCase 0x259 1 0x18F 0 0, PUCase 0x25B 1 0x190 0 0, PUCase 0x25C 1 0xA7AB 0 0,
    PUCase 0x260 1 0x193 0 0, PUCase 0x261 1 0xA7AC 0 0, PUCase 0x263 1 0x194 0 0,
    PUCase 0x264 1 0xA7CB 0 0, PUCase 0x265 1 0xA78D 0 0, PUCase 0x266 1 0xA7AA 0 0,
    PUCase 0x268 1 0x197 0 0, PUCase 0x269 1 0x196 0 0, PUCase 0x26A 1 0xA7AE 0 0,
    PUCase 0x26B 1 0x2C62 0 0, PUCase 0x26C 1 0xA7AD 0 0, PUCase 0x26F 1 0x19C 0 0,
    PUCase 0x271 1 0x2C6E 0 0, PUCase 0x272 1 0x19D 0 0, PUCase 0x275 1 0x19F 0 0,
    PUCase 0x27D 1 0x2C64 0 0, PUCase 0x280 1 0x1A6 0 0, PUCase 0x282 1 0xA7C5 0 0,
    PUCase 0x283 1 0x1A9 0 0, PUCase 0x287 1 0xA7B1 0 0, PUCase 0x288 1 0x1AE 0 0,
    PUCase 0x289 1 0x244 0 0, PUCase 0x28A 1 0x1B1 0 0, PUCase 0x28B 1 0x1B2 0 0,
    PUCase 0x28C 1 0x245 0 0, PUCase 0x292 1 0x1B7 0 0, PUCase 0x29D 1 0xA7B2 0 0,
    PUCase 0x29E 1 0xA7B0 0 0, PUCase 0x345 1 0x399 0 0, PUCase 0x371 1 0x370 0 0,
    PUCase 0x373 1 0x372 0 0, PUCase 0x377 1 0x376 0 0, PUCase 0x37B 1 0x3FD 0 0,
    PUCase 0x37C 1 0x3FE 0 0, PUCase 0x37D 1 0x3FF 0 0]"

definition pas_u_upper_2 :: "pas_u_case list" where
  "pas_u_upper_2 = [
    PUCase 0x390 3 0x399 0x308 0x301, PUCase 0x3AC 1 0x386 0 0, PUCase 0x3AD 1 0x388 0 0,
    PUCase 0x3AE 1 0x389 0 0, PUCase 0x3AF 1 0x38A 0 0, PUCase 0x3B0 3 0x3A5 0x308 0x301,
    PUCase 0x3B1 1 0x391 0 0, PUCase 0x3B2 1 0x392 0 0, PUCase 0x3B3 1 0x393 0 0,
    PUCase 0x3B4 1 0x394 0 0, PUCase 0x3B5 1 0x395 0 0, PUCase 0x3B6 1 0x396 0 0,
    PUCase 0x3B7 1 0x397 0 0, PUCase 0x3B8 1 0x398 0 0, PUCase 0x3B9 1 0x399 0 0,
    PUCase 0x3BA 1 0x39A 0 0, PUCase 0x3BB 1 0x39B 0 0, PUCase 0x3BC 1 0x39C 0 0,
    PUCase 0x3BD 1 0x39D 0 0, PUCase 0x3BE 1 0x39E 0 0, PUCase 0x3BF 1 0x39F 0 0,
    PUCase 0x3C0 1 0x3A0 0 0, PUCase 0x3C1 1 0x3A1 0 0, PUCase 0x3C2 1 0x3A3 0 0,
    PUCase 0x3C3 1 0x3A3 0 0, PUCase 0x3C4 1 0x3A4 0 0, PUCase 0x3C5 1 0x3A5 0 0,
    PUCase 0x3C6 1 0x3A6 0 0, PUCase 0x3C7 1 0x3A7 0 0, PUCase 0x3C8 1 0x3A8 0 0,
    PUCase 0x3C9 1 0x3A9 0 0, PUCase 0x3CA 1 0x3AA 0 0, PUCase 0x3CB 1 0x3AB 0 0,
    PUCase 0x3CC 1 0x38C 0 0, PUCase 0x3CD 1 0x38E 0 0, PUCase 0x3CE 1 0x38F 0 0,
    PUCase 0x3D0 1 0x392 0 0, PUCase 0x3D1 1 0x398 0 0, PUCase 0x3D5 1 0x3A6 0 0,
    PUCase 0x3D6 1 0x3A0 0 0, PUCase 0x3D7 1 0x3CF 0 0, PUCase 0x3D9 1 0x3D8 0 0,
    PUCase 0x3DB 1 0x3DA 0 0, PUCase 0x3DD 1 0x3DC 0 0, PUCase 0x3DF 1 0x3DE 0 0,
    PUCase 0x3E1 1 0x3E0 0 0, PUCase 0x3E3 1 0x3E2 0 0, PUCase 0x3E5 1 0x3E4 0 0,
    PUCase 0x3E7 1 0x3E6 0 0, PUCase 0x3E9 1 0x3E8 0 0, PUCase 0x3EB 1 0x3EA 0 0,
    PUCase 0x3ED 1 0x3EC 0 0, PUCase 0x3EF 1 0x3EE 0 0, PUCase 0x3F0 1 0x39A 0 0,
    PUCase 0x3F1 1 0x3A1 0 0, PUCase 0x3F2 1 0x3F9 0 0, PUCase 0x3F3 1 0x37F 0 0,
    PUCase 0x3F5 1 0x395 0 0, PUCase 0x3F8 1 0x3F7 0 0, PUCase 0x3FB 1 0x3FA 0 0,
    PUCase 0x430 1 0x410 0 0, PUCase 0x431 1 0x411 0 0, PUCase 0x432 1 0x412 0 0,
    PUCase 0x433 1 0x413 0 0, PUCase 0x434 1 0x414 0 0, PUCase 0x435 1 0x415 0 0,
    PUCase 0x436 1 0x416 0 0, PUCase 0x437 1 0x417 0 0, PUCase 0x438 1 0x418 0 0,
    PUCase 0x439 1 0x419 0 0, PUCase 0x43A 1 0x41A 0 0, PUCase 0x43B 1 0x41B 0 0,
    PUCase 0x43C 1 0x41C 0 0, PUCase 0x43D 1 0x41D 0 0, PUCase 0x43E 1 0x41E 0 0,
    PUCase 0x43F 1 0x41F 0 0, PUCase 0x440 1 0x420 0 0, PUCase 0x441 1 0x421 0 0,
    PUCase 0x442 1 0x422 0 0, PUCase 0x443 1 0x423 0 0, PUCase 0x444 1 0x424 0 0,
    PUCase 0x445 1 0x425 0 0, PUCase 0x446 1 0x426 0 0, PUCase 0x447 1 0x427 0 0,
    PUCase 0x448 1 0x428 0 0, PUCase 0x449 1 0x429 0 0, PUCase 0x44A 1 0x42A 0 0,
    PUCase 0x44B 1 0x42B 0 0, PUCase 0x44C 1 0x42C 0 0, PUCase 0x44D 1 0x42D 0 0,
    PUCase 0x44E 1 0x42E 0 0, PUCase 0x44F 1 0x42F 0 0, PUCase 0x450 1 0x400 0 0,
    PUCase 0x451 1 0x401 0 0, PUCase 0x452 1 0x402 0 0, PUCase 0x453 1 0x403 0 0,
    PUCase 0x454 1 0x404 0 0, PUCase 0x455 1 0x405 0 0, PUCase 0x456 1 0x406 0 0,
    PUCase 0x457 1 0x407 0 0, PUCase 0x458 1 0x408 0 0, PUCase 0x459 1 0x409 0 0,
    PUCase 0x45A 1 0x40A 0 0, PUCase 0x45B 1 0x40B 0 0, PUCase 0x45C 1 0x40C 0 0,
    PUCase 0x45D 1 0x40D 0 0, PUCase 0x45E 1 0x40E 0 0, PUCase 0x45F 1 0x40F 0 0,
    PUCase 0x461 1 0x460 0 0, PUCase 0x463 1 0x462 0 0, PUCase 0x465 1 0x464 0 0,
    PUCase 0x467 1 0x466 0 0, PUCase 0x469 1 0x468 0 0, PUCase 0x46B 1 0x46A 0 0,
    PUCase 0x46D 1 0x46C 0 0, PUCase 0x46F 1 0x46E 0 0, PUCase 0x471 1 0x470 0 0,
    PUCase 0x473 1 0x472 0 0, PUCase 0x475 1 0x474 0 0, PUCase 0x477 1 0x476 0 0,
    PUCase 0x479 1 0x478 0 0, PUCase 0x47B 1 0x47A 0 0, PUCase 0x47D 1 0x47C 0 0,
    PUCase 0x47F 1 0x47E 0 0, PUCase 0x481 1 0x480 0 0, PUCase 0x48B 1 0x48A 0 0,
    PUCase 0x48D 1 0x48C 0 0, PUCase 0x48F 1 0x48E 0 0]"

definition pas_u_upper_3 :: "pas_u_case list" where
  "pas_u_upper_3 = [
    PUCase 0x491 1 0x490 0 0, PUCase 0x493 1 0x492 0 0, PUCase 0x495 1 0x494 0 0,
    PUCase 0x497 1 0x496 0 0, PUCase 0x499 1 0x498 0 0, PUCase 0x49B 1 0x49A 0 0,
    PUCase 0x49D 1 0x49C 0 0, PUCase 0x49F 1 0x49E 0 0, PUCase 0x4A1 1 0x4A0 0 0,
    PUCase 0x4A3 1 0x4A2 0 0, PUCase 0x4A5 1 0x4A4 0 0, PUCase 0x4A7 1 0x4A6 0 0,
    PUCase 0x4A9 1 0x4A8 0 0, PUCase 0x4AB 1 0x4AA 0 0, PUCase 0x4AD 1 0x4AC 0 0,
    PUCase 0x4AF 1 0x4AE 0 0, PUCase 0x4B1 1 0x4B0 0 0, PUCase 0x4B3 1 0x4B2 0 0,
    PUCase 0x4B5 1 0x4B4 0 0, PUCase 0x4B7 1 0x4B6 0 0, PUCase 0x4B9 1 0x4B8 0 0,
    PUCase 0x4BB 1 0x4BA 0 0, PUCase 0x4BD 1 0x4BC 0 0, PUCase 0x4BF 1 0x4BE 0 0,
    PUCase 0x4C2 1 0x4C1 0 0, PUCase 0x4C4 1 0x4C3 0 0, PUCase 0x4C6 1 0x4C5 0 0,
    PUCase 0x4C8 1 0x4C7 0 0, PUCase 0x4CA 1 0x4C9 0 0, PUCase 0x4CC 1 0x4CB 0 0,
    PUCase 0x4CE 1 0x4CD 0 0, PUCase 0x4CF 1 0x4C0 0 0, PUCase 0x4D1 1 0x4D0 0 0,
    PUCase 0x4D3 1 0x4D2 0 0, PUCase 0x4D5 1 0x4D4 0 0, PUCase 0x4D7 1 0x4D6 0 0,
    PUCase 0x4D9 1 0x4D8 0 0, PUCase 0x4DB 1 0x4DA 0 0, PUCase 0x4DD 1 0x4DC 0 0,
    PUCase 0x4DF 1 0x4DE 0 0, PUCase 0x4E1 1 0x4E0 0 0, PUCase 0x4E3 1 0x4E2 0 0,
    PUCase 0x4E5 1 0x4E4 0 0, PUCase 0x4E7 1 0x4E6 0 0, PUCase 0x4E9 1 0x4E8 0 0,
    PUCase 0x4EB 1 0x4EA 0 0, PUCase 0x4ED 1 0x4EC 0 0, PUCase 0x4EF 1 0x4EE 0 0,
    PUCase 0x4F1 1 0x4F0 0 0, PUCase 0x4F3 1 0x4F2 0 0, PUCase 0x4F5 1 0x4F4 0 0,
    PUCase 0x4F7 1 0x4F6 0 0, PUCase 0x4F9 1 0x4F8 0 0, PUCase 0x4FB 1 0x4FA 0 0,
    PUCase 0x4FD 1 0x4FC 0 0, PUCase 0x4FF 1 0x4FE 0 0, PUCase 0x501 1 0x500 0 0,
    PUCase 0x503 1 0x502 0 0, PUCase 0x505 1 0x504 0 0, PUCase 0x507 1 0x506 0 0,
    PUCase 0x509 1 0x508 0 0, PUCase 0x50B 1 0x50A 0 0, PUCase 0x50D 1 0x50C 0 0,
    PUCase 0x50F 1 0x50E 0 0, PUCase 0x511 1 0x510 0 0, PUCase 0x513 1 0x512 0 0,
    PUCase 0x515 1 0x514 0 0, PUCase 0x517 1 0x516 0 0, PUCase 0x519 1 0x518 0 0,
    PUCase 0x51B 1 0x51A 0 0, PUCase 0x51D 1 0x51C 0 0, PUCase 0x51F 1 0x51E 0 0,
    PUCase 0x521 1 0x520 0 0, PUCase 0x523 1 0x522 0 0, PUCase 0x525 1 0x524 0 0,
    PUCase 0x527 1 0x526 0 0, PUCase 0x529 1 0x528 0 0, PUCase 0x52B 1 0x52A 0 0,
    PUCase 0x52D 1 0x52C 0 0, PUCase 0x52F 1 0x52E 0 0, PUCase 0x561 1 0x531 0 0,
    PUCase 0x562 1 0x532 0 0, PUCase 0x563 1 0x533 0 0, PUCase 0x564 1 0x534 0 0,
    PUCase 0x565 1 0x535 0 0, PUCase 0x566 1 0x536 0 0, PUCase 0x567 1 0x537 0 0,
    PUCase 0x568 1 0x538 0 0, PUCase 0x569 1 0x539 0 0, PUCase 0x56A 1 0x53A 0 0,
    PUCase 0x56B 1 0x53B 0 0, PUCase 0x56C 1 0x53C 0 0, PUCase 0x56D 1 0x53D 0 0,
    PUCase 0x56E 1 0x53E 0 0, PUCase 0x56F 1 0x53F 0 0, PUCase 0x570 1 0x540 0 0,
    PUCase 0x571 1 0x541 0 0, PUCase 0x572 1 0x542 0 0, PUCase 0x573 1 0x543 0 0,
    PUCase 0x574 1 0x544 0 0, PUCase 0x575 1 0x545 0 0, PUCase 0x576 1 0x546 0 0,
    PUCase 0x577 1 0x547 0 0, PUCase 0x578 1 0x548 0 0, PUCase 0x579 1 0x549 0 0,
    PUCase 0x57A 1 0x54A 0 0, PUCase 0x57B 1 0x54B 0 0, PUCase 0x57C 1 0x54C 0 0,
    PUCase 0x57D 1 0x54D 0 0, PUCase 0x57E 1 0x54E 0 0, PUCase 0x57F 1 0x54F 0 0,
    PUCase 0x580 1 0x550 0 0, PUCase 0x581 1 0x551 0 0, PUCase 0x582 1 0x552 0 0,
    PUCase 0x583 1 0x553 0 0, PUCase 0x584 1 0x554 0 0, PUCase 0x585 1 0x555 0 0,
    PUCase 0x586 1 0x556 0 0, PUCase 0x587 2 0x535 0x552 0, PUCase 0x10D0 1 0x1C90 0 0,
    PUCase 0x10D1 1 0x1C91 0 0, PUCase 0x10D2 1 0x1C92 0 0, PUCase 0x10D3 1 0x1C93 0 0,
    PUCase 0x10D4 1 0x1C94 0 0, PUCase 0x10D5 1 0x1C95 0 0, PUCase 0x10D6 1 0x1C96 0 0,
    PUCase 0x10D7 1 0x1C97 0 0, PUCase 0x10D8 1 0x1C98 0 0]"

definition pas_u_upper_4 :: "pas_u_case list" where
  "pas_u_upper_4 = [
    PUCase 0x10D9 1 0x1C99 0 0, PUCase 0x10DA 1 0x1C9A 0 0, PUCase 0x10DB 1 0x1C9B 0 0,
    PUCase 0x10DC 1 0x1C9C 0 0, PUCase 0x10DD 1 0x1C9D 0 0, PUCase 0x10DE 1 0x1C9E 0 0,
    PUCase 0x10DF 1 0x1C9F 0 0, PUCase 0x10E0 1 0x1CA0 0 0, PUCase 0x10E1 1 0x1CA1 0 0,
    PUCase 0x10E2 1 0x1CA2 0 0, PUCase 0x10E3 1 0x1CA3 0 0, PUCase 0x10E4 1 0x1CA4 0 0,
    PUCase 0x10E5 1 0x1CA5 0 0, PUCase 0x10E6 1 0x1CA6 0 0, PUCase 0x10E7 1 0x1CA7 0 0,
    PUCase 0x10E8 1 0x1CA8 0 0, PUCase 0x10E9 1 0x1CA9 0 0, PUCase 0x10EA 1 0x1CAA 0 0,
    PUCase 0x10EB 1 0x1CAB 0 0, PUCase 0x10EC 1 0x1CAC 0 0, PUCase 0x10ED 1 0x1CAD 0 0,
    PUCase 0x10EE 1 0x1CAE 0 0, PUCase 0x10EF 1 0x1CAF 0 0, PUCase 0x10F0 1 0x1CB0 0 0,
    PUCase 0x10F1 1 0x1CB1 0 0, PUCase 0x10F2 1 0x1CB2 0 0, PUCase 0x10F3 1 0x1CB3 0 0,
    PUCase 0x10F4 1 0x1CB4 0 0, PUCase 0x10F5 1 0x1CB5 0 0, PUCase 0x10F6 1 0x1CB6 0 0,
    PUCase 0x10F7 1 0x1CB7 0 0, PUCase 0x10F8 1 0x1CB8 0 0, PUCase 0x10F9 1 0x1CB9 0 0,
    PUCase 0x10FA 1 0x1CBA 0 0, PUCase 0x10FD 1 0x1CBD 0 0, PUCase 0x10FE 1 0x1CBE 0 0,
    PUCase 0x10FF 1 0x1CBF 0 0, PUCase 0x13F8 1 0x13F0 0 0, PUCase 0x13F9 1 0x13F1 0 0,
    PUCase 0x13FA 1 0x13F2 0 0, PUCase 0x13FB 1 0x13F3 0 0, PUCase 0x13FC 1 0x13F4 0 0,
    PUCase 0x13FD 1 0x13F5 0 0, PUCase 0x1C80 1 0x412 0 0, PUCase 0x1C81 1 0x414 0 0,
    PUCase 0x1C82 1 0x41E 0 0, PUCase 0x1C83 1 0x421 0 0, PUCase 0x1C84 1 0x422 0 0,
    PUCase 0x1C85 1 0x422 0 0, PUCase 0x1C86 1 0x42A 0 0, PUCase 0x1C87 1 0x462 0 0,
    PUCase 0x1C88 1 0xA64A 0 0, PUCase 0x1C8A 1 0x1C89 0 0, PUCase 0x1D79 1 0xA77D 0 0,
    PUCase 0x1D7D 1 0x2C63 0 0, PUCase 0x1D8E 1 0xA7C6 0 0, PUCase 0x1E01 1 0x1E00 0 0,
    PUCase 0x1E03 1 0x1E02 0 0, PUCase 0x1E05 1 0x1E04 0 0, PUCase 0x1E07 1 0x1E06 0 0,
    PUCase 0x1E09 1 0x1E08 0 0, PUCase 0x1E0B 1 0x1E0A 0 0, PUCase 0x1E0D 1 0x1E0C 0 0,
    PUCase 0x1E0F 1 0x1E0E 0 0, PUCase 0x1E11 1 0x1E10 0 0, PUCase 0x1E13 1 0x1E12 0 0,
    PUCase 0x1E15 1 0x1E14 0 0, PUCase 0x1E17 1 0x1E16 0 0, PUCase 0x1E19 1 0x1E18 0 0,
    PUCase 0x1E1B 1 0x1E1A 0 0, PUCase 0x1E1D 1 0x1E1C 0 0, PUCase 0x1E1F 1 0x1E1E 0 0,
    PUCase 0x1E21 1 0x1E20 0 0, PUCase 0x1E23 1 0x1E22 0 0, PUCase 0x1E25 1 0x1E24 0 0,
    PUCase 0x1E27 1 0x1E26 0 0, PUCase 0x1E29 1 0x1E28 0 0, PUCase 0x1E2B 1 0x1E2A 0 0,
    PUCase 0x1E2D 1 0x1E2C 0 0, PUCase 0x1E2F 1 0x1E2E 0 0, PUCase 0x1E31 1 0x1E30 0 0,
    PUCase 0x1E33 1 0x1E32 0 0, PUCase 0x1E35 1 0x1E34 0 0, PUCase 0x1E37 1 0x1E36 0 0,
    PUCase 0x1E39 1 0x1E38 0 0, PUCase 0x1E3B 1 0x1E3A 0 0, PUCase 0x1E3D 1 0x1E3C 0 0,
    PUCase 0x1E3F 1 0x1E3E 0 0, PUCase 0x1E41 1 0x1E40 0 0, PUCase 0x1E43 1 0x1E42 0 0,
    PUCase 0x1E45 1 0x1E44 0 0, PUCase 0x1E47 1 0x1E46 0 0, PUCase 0x1E49 1 0x1E48 0 0,
    PUCase 0x1E4B 1 0x1E4A 0 0, PUCase 0x1E4D 1 0x1E4C 0 0, PUCase 0x1E4F 1 0x1E4E 0 0,
    PUCase 0x1E51 1 0x1E50 0 0, PUCase 0x1E53 1 0x1E52 0 0, PUCase 0x1E55 1 0x1E54 0 0,
    PUCase 0x1E57 1 0x1E56 0 0, PUCase 0x1E59 1 0x1E58 0 0, PUCase 0x1E5B 1 0x1E5A 0 0,
    PUCase 0x1E5D 1 0x1E5C 0 0, PUCase 0x1E5F 1 0x1E5E 0 0, PUCase 0x1E61 1 0x1E60 0 0,
    PUCase 0x1E63 1 0x1E62 0 0, PUCase 0x1E65 1 0x1E64 0 0, PUCase 0x1E67 1 0x1E66 0 0,
    PUCase 0x1E69 1 0x1E68 0 0, PUCase 0x1E6B 1 0x1E6A 0 0, PUCase 0x1E6D 1 0x1E6C 0 0,
    PUCase 0x1E6F 1 0x1E6E 0 0, PUCase 0x1E71 1 0x1E70 0 0, PUCase 0x1E73 1 0x1E72 0 0,
    PUCase 0x1E75 1 0x1E74 0 0, PUCase 0x1E77 1 0x1E76 0 0, PUCase 0x1E79 1 0x1E78 0 0,
    PUCase 0x1E7B 1 0x1E7A 0 0, PUCase 0x1E7D 1 0x1E7C 0 0, PUCase 0x1E7F 1 0x1E7E 0 0,
    PUCase 0x1E81 1 0x1E80 0 0, PUCase 0x1E83 1 0x1E82 0 0, PUCase 0x1E85 1 0x1E84 0 0,
    PUCase 0x1E87 1 0x1E86 0 0, PUCase 0x1E89 1 0x1E88 0 0, PUCase 0x1E8B 1 0x1E8A 0 0,
    PUCase 0x1E8D 1 0x1E8C 0 0, PUCase 0x1E8F 1 0x1E8E 0 0]"

definition pas_u_upper_5 :: "pas_u_case list" where
  "pas_u_upper_5 = [
    PUCase 0x1E91 1 0x1E90 0 0, PUCase 0x1E93 1 0x1E92 0 0, PUCase 0x1E95 1 0x1E94 0 0,
    PUCase 0x1E96 2 0x48 0x331 0, PUCase 0x1E97 2 0x54 0x308 0, PUCase 0x1E98 2 0x57 0x30A 0,
    PUCase 0x1E99 2 0x59 0x30A 0, PUCase 0x1E9A 2 0x41 0x2BE 0, PUCase 0x1E9B 1 0x1E60 0 0,
    PUCase 0x1EA1 1 0x1EA0 0 0, PUCase 0x1EA3 1 0x1EA2 0 0, PUCase 0x1EA5 1 0x1EA4 0 0,
    PUCase 0x1EA7 1 0x1EA6 0 0, PUCase 0x1EA9 1 0x1EA8 0 0, PUCase 0x1EAB 1 0x1EAA 0 0,
    PUCase 0x1EAD 1 0x1EAC 0 0, PUCase 0x1EAF 1 0x1EAE 0 0, PUCase 0x1EB1 1 0x1EB0 0 0,
    PUCase 0x1EB3 1 0x1EB2 0 0, PUCase 0x1EB5 1 0x1EB4 0 0, PUCase 0x1EB7 1 0x1EB6 0 0,
    PUCase 0x1EB9 1 0x1EB8 0 0, PUCase 0x1EBB 1 0x1EBA 0 0, PUCase 0x1EBD 1 0x1EBC 0 0,
    PUCase 0x1EBF 1 0x1EBE 0 0, PUCase 0x1EC1 1 0x1EC0 0 0, PUCase 0x1EC3 1 0x1EC2 0 0,
    PUCase 0x1EC5 1 0x1EC4 0 0, PUCase 0x1EC7 1 0x1EC6 0 0, PUCase 0x1EC9 1 0x1EC8 0 0,
    PUCase 0x1ECB 1 0x1ECA 0 0, PUCase 0x1ECD 1 0x1ECC 0 0, PUCase 0x1ECF 1 0x1ECE 0 0,
    PUCase 0x1ED1 1 0x1ED0 0 0, PUCase 0x1ED3 1 0x1ED2 0 0, PUCase 0x1ED5 1 0x1ED4 0 0,
    PUCase 0x1ED7 1 0x1ED6 0 0, PUCase 0x1ED9 1 0x1ED8 0 0, PUCase 0x1EDB 1 0x1EDA 0 0,
    PUCase 0x1EDD 1 0x1EDC 0 0, PUCase 0x1EDF 1 0x1EDE 0 0, PUCase 0x1EE1 1 0x1EE0 0 0,
    PUCase 0x1EE3 1 0x1EE2 0 0, PUCase 0x1EE5 1 0x1EE4 0 0, PUCase 0x1EE7 1 0x1EE6 0 0,
    PUCase 0x1EE9 1 0x1EE8 0 0, PUCase 0x1EEB 1 0x1EEA 0 0, PUCase 0x1EED 1 0x1EEC 0 0,
    PUCase 0x1EEF 1 0x1EEE 0 0, PUCase 0x1EF1 1 0x1EF0 0 0, PUCase 0x1EF3 1 0x1EF2 0 0,
    PUCase 0x1EF5 1 0x1EF4 0 0, PUCase 0x1EF7 1 0x1EF6 0 0, PUCase 0x1EF9 1 0x1EF8 0 0,
    PUCase 0x1EFB 1 0x1EFA 0 0, PUCase 0x1EFD 1 0x1EFC 0 0, PUCase 0x1EFF 1 0x1EFE 0 0,
    PUCase 0x1F00 1 0x1F08 0 0, PUCase 0x1F01 1 0x1F09 0 0, PUCase 0x1F02 1 0x1F0A 0 0,
    PUCase 0x1F03 1 0x1F0B 0 0, PUCase 0x1F04 1 0x1F0C 0 0, PUCase 0x1F05 1 0x1F0D 0 0,
    PUCase 0x1F06 1 0x1F0E 0 0, PUCase 0x1F07 1 0x1F0F 0 0, PUCase 0x1F10 1 0x1F18 0 0,
    PUCase 0x1F11 1 0x1F19 0 0, PUCase 0x1F12 1 0x1F1A 0 0, PUCase 0x1F13 1 0x1F1B 0 0,
    PUCase 0x1F14 1 0x1F1C 0 0, PUCase 0x1F15 1 0x1F1D 0 0, PUCase 0x1F20 1 0x1F28 0 0,
    PUCase 0x1F21 1 0x1F29 0 0, PUCase 0x1F22 1 0x1F2A 0 0, PUCase 0x1F23 1 0x1F2B 0 0,
    PUCase 0x1F24 1 0x1F2C 0 0, PUCase 0x1F25 1 0x1F2D 0 0, PUCase 0x1F26 1 0x1F2E 0 0,
    PUCase 0x1F27 1 0x1F2F 0 0, PUCase 0x1F30 1 0x1F38 0 0, PUCase 0x1F31 1 0x1F39 0 0,
    PUCase 0x1F32 1 0x1F3A 0 0, PUCase 0x1F33 1 0x1F3B 0 0, PUCase 0x1F34 1 0x1F3C 0 0,
    PUCase 0x1F35 1 0x1F3D 0 0, PUCase 0x1F36 1 0x1F3E 0 0, PUCase 0x1F37 1 0x1F3F 0 0,
    PUCase 0x1F40 1 0x1F48 0 0, PUCase 0x1F41 1 0x1F49 0 0, PUCase 0x1F42 1 0x1F4A 0 0,
    PUCase 0x1F43 1 0x1F4B 0 0, PUCase 0x1F44 1 0x1F4C 0 0, PUCase 0x1F45 1 0x1F4D 0 0,
    PUCase 0x1F50 2 0x3A5 0x313 0, PUCase 0x1F51 1 0x1F59 0 0, PUCase 0x1F52 3 0x3A5 0x313 0x300,
    PUCase 0x1F53 1 0x1F5B 0 0, PUCase 0x1F54 3 0x3A5 0x313 0x301, PUCase 0x1F55 1 0x1F5D 0 0,
    PUCase 0x1F56 3 0x3A5 0x313 0x342, PUCase 0x1F57 1 0x1F5F 0 0, PUCase 0x1F60 1 0x1F68 0 0,
    PUCase 0x1F61 1 0x1F69 0 0, PUCase 0x1F62 1 0x1F6A 0 0, PUCase 0x1F63 1 0x1F6B 0 0,
    PUCase 0x1F64 1 0x1F6C 0 0, PUCase 0x1F65 1 0x1F6D 0 0, PUCase 0x1F66 1 0x1F6E 0 0,
    PUCase 0x1F67 1 0x1F6F 0 0, PUCase 0x1F70 1 0x1FBA 0 0, PUCase 0x1F71 1 0x1FBB 0 0,
    PUCase 0x1F72 1 0x1FC8 0 0, PUCase 0x1F73 1 0x1FC9 0 0, PUCase 0x1F74 1 0x1FCA 0 0,
    PUCase 0x1F75 1 0x1FCB 0 0, PUCase 0x1F76 1 0x1FDA 0 0, PUCase 0x1F77 1 0x1FDB 0 0,
    PUCase 0x1F78 1 0x1FF8 0 0, PUCase 0x1F79 1 0x1FF9 0 0, PUCase 0x1F7A 1 0x1FEA 0 0,
    PUCase 0x1F7B 1 0x1FEB 0 0, PUCase 0x1F7C 1 0x1FFA 0 0, PUCase 0x1F7D 1 0x1FFB 0 0,
    PUCase 0x1F80 2 0x1F08 0x399 0, PUCase 0x1F81 2 0x1F09 0x399 0, PUCase 0x1F82 2 0x1F0A 0x399 0,
    PUCase 0x1F83 2 0x1F0B 0x399 0, PUCase 0x1F84 2 0x1F0C 0x399 0]"

definition pas_u_upper_6 :: "pas_u_case list" where
  "pas_u_upper_6 = [
    PUCase 0x1F85 2 0x1F0D 0x399 0, PUCase 0x1F86 2 0x1F0E 0x399 0, PUCase 0x1F87 2 0x1F0F 0x399 0,
    PUCase 0x1F88 2 0x1F08 0x399 0, PUCase 0x1F89 2 0x1F09 0x399 0, PUCase 0x1F8A 2 0x1F0A 0x399 0,
    PUCase 0x1F8B 2 0x1F0B 0x399 0, PUCase 0x1F8C 2 0x1F0C 0x399 0, PUCase 0x1F8D 2 0x1F0D 0x399 0,
    PUCase 0x1F8E 2 0x1F0E 0x399 0, PUCase 0x1F8F 2 0x1F0F 0x399 0, PUCase 0x1F90 2 0x1F28 0x399 0,
    PUCase 0x1F91 2 0x1F29 0x399 0, PUCase 0x1F92 2 0x1F2A 0x399 0, PUCase 0x1F93 2 0x1F2B 0x399 0,
    PUCase 0x1F94 2 0x1F2C 0x399 0, PUCase 0x1F95 2 0x1F2D 0x399 0, PUCase 0x1F96 2 0x1F2E 0x399 0,
    PUCase 0x1F97 2 0x1F2F 0x399 0, PUCase 0x1F98 2 0x1F28 0x399 0, PUCase 0x1F99 2 0x1F29 0x399 0,
    PUCase 0x1F9A 2 0x1F2A 0x399 0, PUCase 0x1F9B 2 0x1F2B 0x399 0, PUCase 0x1F9C 2 0x1F2C 0x399 0,
    PUCase 0x1F9D 2 0x1F2D 0x399 0, PUCase 0x1F9E 2 0x1F2E 0x399 0, PUCase 0x1F9F 2 0x1F2F 0x399 0,
    PUCase 0x1FA0 2 0x1F68 0x399 0, PUCase 0x1FA1 2 0x1F69 0x399 0, PUCase 0x1FA2 2 0x1F6A 0x399 0,
    PUCase 0x1FA3 2 0x1F6B 0x399 0, PUCase 0x1FA4 2 0x1F6C 0x399 0, PUCase 0x1FA5 2 0x1F6D 0x399 0,
    PUCase 0x1FA6 2 0x1F6E 0x399 0, PUCase 0x1FA7 2 0x1F6F 0x399 0, PUCase 0x1FA8 2 0x1F68 0x399 0,
    PUCase 0x1FA9 2 0x1F69 0x399 0, PUCase 0x1FAA 2 0x1F6A 0x399 0, PUCase 0x1FAB 2 0x1F6B 0x399 0,
    PUCase 0x1FAC 2 0x1F6C 0x399 0, PUCase 0x1FAD 2 0x1F6D 0x399 0, PUCase 0x1FAE 2 0x1F6E 0x399 0,
    PUCase 0x1FAF 2 0x1F6F 0x399 0, PUCase 0x1FB0 1 0x1FB8 0 0, PUCase 0x1FB1 1 0x1FB9 0 0,
    PUCase 0x1FB2 2 0x1FBA 0x399 0, PUCase 0x1FB3 2 0x391 0x399 0, PUCase 0x1FB4 2 0x386 0x399 0,
    PUCase 0x1FB6 2 0x391 0x342 0, PUCase 0x1FB7 3 0x391 0x342 0x399, PUCase 0x1FBC 2 0x391 0x399 0,
    PUCase 0x1FBE 1 0x399 0 0, PUCase 0x1FC2 2 0x1FCA 0x399 0, PUCase 0x1FC3 2 0x397 0x399 0,
    PUCase 0x1FC4 2 0x389 0x399 0, PUCase 0x1FC6 2 0x397 0x342 0, PUCase 0x1FC7 3 0x397 0x342 0x399,
    PUCase 0x1FCC 2 0x397 0x399 0, PUCase 0x1FD0 1 0x1FD8 0 0, PUCase 0x1FD1 1 0x1FD9 0 0,
    PUCase 0x1FD2 3 0x399 0x308 0x300, PUCase 0x1FD3 3 0x399 0x308 0x301, PUCase 0x1FD6 2 0x399 0x342 0,
    PUCase 0x1FD7 3 0x399 0x308 0x342, PUCase 0x1FE0 1 0x1FE8 0 0, PUCase 0x1FE1 1 0x1FE9 0 0,
    PUCase 0x1FE2 3 0x3A5 0x308 0x300, PUCase 0x1FE3 3 0x3A5 0x308 0x301, PUCase 0x1FE4 2 0x3A1 0x313 0,
    PUCase 0x1FE5 1 0x1FEC 0 0, PUCase 0x1FE6 2 0x3A5 0x342 0, PUCase 0x1FE7 3 0x3A5 0x308 0x342,
    PUCase 0x1FF2 2 0x1FFA 0x399 0, PUCase 0x1FF3 2 0x3A9 0x399 0, PUCase 0x1FF4 2 0x38F 0x399 0,
    PUCase 0x1FF6 2 0x3A9 0x342 0, PUCase 0x1FF7 3 0x3A9 0x342 0x399, PUCase 0x1FFC 2 0x3A9 0x399 0,
    PUCase 0x214E 1 0x2132 0 0, PUCase 0x2170 1 0x2160 0 0, PUCase 0x2171 1 0x2161 0 0,
    PUCase 0x2172 1 0x2162 0 0, PUCase 0x2173 1 0x2163 0 0, PUCase 0x2174 1 0x2164 0 0,
    PUCase 0x2175 1 0x2165 0 0, PUCase 0x2176 1 0x2166 0 0, PUCase 0x2177 1 0x2167 0 0,
    PUCase 0x2178 1 0x2168 0 0, PUCase 0x2179 1 0x2169 0 0, PUCase 0x217A 1 0x216A 0 0,
    PUCase 0x217B 1 0x216B 0 0, PUCase 0x217C 1 0x216C 0 0, PUCase 0x217D 1 0x216D 0 0,
    PUCase 0x217E 1 0x216E 0 0, PUCase 0x217F 1 0x216F 0 0, PUCase 0x2184 1 0x2183 0 0,
    PUCase 0x24D0 1 0x24B6 0 0, PUCase 0x24D1 1 0x24B7 0 0, PUCase 0x24D2 1 0x24B8 0 0,
    PUCase 0x24D3 1 0x24B9 0 0, PUCase 0x24D4 1 0x24BA 0 0, PUCase 0x24D5 1 0x24BB 0 0,
    PUCase 0x24D6 1 0x24BC 0 0, PUCase 0x24D7 1 0x24BD 0 0, PUCase 0x24D8 1 0x24BE 0 0,
    PUCase 0x24D9 1 0x24BF 0 0, PUCase 0x24DA 1 0x24C0 0 0, PUCase 0x24DB 1 0x24C1 0 0,
    PUCase 0x24DC 1 0x24C2 0 0, PUCase 0x24DD 1 0x24C3 0 0, PUCase 0x24DE 1 0x24C4 0 0,
    PUCase 0x24DF 1 0x24C5 0 0, PUCase 0x24E0 1 0x24C6 0 0, PUCase 0x24E1 1 0x24C7 0 0,
    PUCase 0x24E2 1 0x24C8 0 0, PUCase 0x24E3 1 0x24C9 0 0, PUCase 0x24E4 1 0x24CA 0 0,
    PUCase 0x24E5 1 0x24CB 0 0, PUCase 0x24E6 1 0x24CC 0 0, PUCase 0x24E7 1 0x24CD 0 0,
    PUCase 0x24E8 1 0x24CE 0 0, PUCase 0x24E9 1 0x24CF 0 0, PUCase 0x2C30 1 0x2C00 0 0,
    PUCase 0x2C31 1 0x2C01 0 0, PUCase 0x2C32 1 0x2C02 0 0, PUCase 0x2C33 1 0x2C03 0 0,
    PUCase 0x2C34 1 0x2C04 0 0, PUCase 0x2C35 1 0x2C05 0 0]"

definition pas_u_upper_7 :: "pas_u_case list" where
  "pas_u_upper_7 = [
    PUCase 0x2C36 1 0x2C06 0 0, PUCase 0x2C37 1 0x2C07 0 0, PUCase 0x2C38 1 0x2C08 0 0,
    PUCase 0x2C39 1 0x2C09 0 0, PUCase 0x2C3A 1 0x2C0A 0 0, PUCase 0x2C3B 1 0x2C0B 0 0,
    PUCase 0x2C3C 1 0x2C0C 0 0, PUCase 0x2C3D 1 0x2C0D 0 0, PUCase 0x2C3E 1 0x2C0E 0 0,
    PUCase 0x2C3F 1 0x2C0F 0 0, PUCase 0x2C40 1 0x2C10 0 0, PUCase 0x2C41 1 0x2C11 0 0,
    PUCase 0x2C42 1 0x2C12 0 0, PUCase 0x2C43 1 0x2C13 0 0, PUCase 0x2C44 1 0x2C14 0 0,
    PUCase 0x2C45 1 0x2C15 0 0, PUCase 0x2C46 1 0x2C16 0 0, PUCase 0x2C47 1 0x2C17 0 0,
    PUCase 0x2C48 1 0x2C18 0 0, PUCase 0x2C49 1 0x2C19 0 0, PUCase 0x2C4A 1 0x2C1A 0 0,
    PUCase 0x2C4B 1 0x2C1B 0 0, PUCase 0x2C4C 1 0x2C1C 0 0, PUCase 0x2C4D 1 0x2C1D 0 0,
    PUCase 0x2C4E 1 0x2C1E 0 0, PUCase 0x2C4F 1 0x2C1F 0 0, PUCase 0x2C50 1 0x2C20 0 0,
    PUCase 0x2C51 1 0x2C21 0 0, PUCase 0x2C52 1 0x2C22 0 0, PUCase 0x2C53 1 0x2C23 0 0,
    PUCase 0x2C54 1 0x2C24 0 0, PUCase 0x2C55 1 0x2C25 0 0, PUCase 0x2C56 1 0x2C26 0 0,
    PUCase 0x2C57 1 0x2C27 0 0, PUCase 0x2C58 1 0x2C28 0 0, PUCase 0x2C59 1 0x2C29 0 0,
    PUCase 0x2C5A 1 0x2C2A 0 0, PUCase 0x2C5B 1 0x2C2B 0 0, PUCase 0x2C5C 1 0x2C2C 0 0,
    PUCase 0x2C5D 1 0x2C2D 0 0, PUCase 0x2C5E 1 0x2C2E 0 0, PUCase 0x2C5F 1 0x2C2F 0 0,
    PUCase 0x2C61 1 0x2C60 0 0, PUCase 0x2C65 1 0x23A 0 0, PUCase 0x2C66 1 0x23E 0 0,
    PUCase 0x2C68 1 0x2C67 0 0, PUCase 0x2C6A 1 0x2C69 0 0, PUCase 0x2C6C 1 0x2C6B 0 0,
    PUCase 0x2C73 1 0x2C72 0 0, PUCase 0x2C76 1 0x2C75 0 0, PUCase 0x2C81 1 0x2C80 0 0,
    PUCase 0x2C83 1 0x2C82 0 0, PUCase 0x2C85 1 0x2C84 0 0, PUCase 0x2C87 1 0x2C86 0 0,
    PUCase 0x2C89 1 0x2C88 0 0, PUCase 0x2C8B 1 0x2C8A 0 0, PUCase 0x2C8D 1 0x2C8C 0 0,
    PUCase 0x2C8F 1 0x2C8E 0 0, PUCase 0x2C91 1 0x2C90 0 0, PUCase 0x2C93 1 0x2C92 0 0,
    PUCase 0x2C95 1 0x2C94 0 0, PUCase 0x2C97 1 0x2C96 0 0, PUCase 0x2C99 1 0x2C98 0 0,
    PUCase 0x2C9B 1 0x2C9A 0 0, PUCase 0x2C9D 1 0x2C9C 0 0, PUCase 0x2C9F 1 0x2C9E 0 0,
    PUCase 0x2CA1 1 0x2CA0 0 0, PUCase 0x2CA3 1 0x2CA2 0 0, PUCase 0x2CA5 1 0x2CA4 0 0,
    PUCase 0x2CA7 1 0x2CA6 0 0, PUCase 0x2CA9 1 0x2CA8 0 0, PUCase 0x2CAB 1 0x2CAA 0 0,
    PUCase 0x2CAD 1 0x2CAC 0 0, PUCase 0x2CAF 1 0x2CAE 0 0, PUCase 0x2CB1 1 0x2CB0 0 0,
    PUCase 0x2CB3 1 0x2CB2 0 0, PUCase 0x2CB5 1 0x2CB4 0 0, PUCase 0x2CB7 1 0x2CB6 0 0,
    PUCase 0x2CB9 1 0x2CB8 0 0, PUCase 0x2CBB 1 0x2CBA 0 0, PUCase 0x2CBD 1 0x2CBC 0 0,
    PUCase 0x2CBF 1 0x2CBE 0 0, PUCase 0x2CC1 1 0x2CC0 0 0, PUCase 0x2CC3 1 0x2CC2 0 0,
    PUCase 0x2CC5 1 0x2CC4 0 0, PUCase 0x2CC7 1 0x2CC6 0 0, PUCase 0x2CC9 1 0x2CC8 0 0,
    PUCase 0x2CCB 1 0x2CCA 0 0, PUCase 0x2CCD 1 0x2CCC 0 0, PUCase 0x2CCF 1 0x2CCE 0 0,
    PUCase 0x2CD1 1 0x2CD0 0 0, PUCase 0x2CD3 1 0x2CD2 0 0, PUCase 0x2CD5 1 0x2CD4 0 0,
    PUCase 0x2CD7 1 0x2CD6 0 0, PUCase 0x2CD9 1 0x2CD8 0 0, PUCase 0x2CDB 1 0x2CDA 0 0,
    PUCase 0x2CDD 1 0x2CDC 0 0, PUCase 0x2CDF 1 0x2CDE 0 0, PUCase 0x2CE1 1 0x2CE0 0 0,
    PUCase 0x2CE3 1 0x2CE2 0 0, PUCase 0x2CEC 1 0x2CEB 0 0, PUCase 0x2CEE 1 0x2CED 0 0,
    PUCase 0x2CF3 1 0x2CF2 0 0, PUCase 0x2D00 1 0x10A0 0 0, PUCase 0x2D01 1 0x10A1 0 0,
    PUCase 0x2D02 1 0x10A2 0 0, PUCase 0x2D03 1 0x10A3 0 0, PUCase 0x2D04 1 0x10A4 0 0,
    PUCase 0x2D05 1 0x10A5 0 0, PUCase 0x2D06 1 0x10A6 0 0, PUCase 0x2D07 1 0x10A7 0 0,
    PUCase 0x2D08 1 0x10A8 0 0, PUCase 0x2D09 1 0x10A9 0 0, PUCase 0x2D0A 1 0x10AA 0 0,
    PUCase 0x2D0B 1 0x10AB 0 0, PUCase 0x2D0C 1 0x10AC 0 0, PUCase 0x2D0D 1 0x10AD 0 0,
    PUCase 0x2D0E 1 0x10AE 0 0, PUCase 0x2D0F 1 0x10AF 0 0, PUCase 0x2D10 1 0x10B0 0 0,
    PUCase 0x2D11 1 0x10B1 0 0, PUCase 0x2D12 1 0x10B2 0 0, PUCase 0x2D13 1 0x10B3 0 0,
    PUCase 0x2D14 1 0x10B4 0 0, PUCase 0x2D15 1 0x10B5 0 0, PUCase 0x2D16 1 0x10B6 0 0,
    PUCase 0x2D17 1 0x10B7 0 0, PUCase 0x2D18 1 0x10B8 0 0]"

definition pas_u_upper_8 :: "pas_u_case list" where
  "pas_u_upper_8 = [
    PUCase 0x2D19 1 0x10B9 0 0, PUCase 0x2D1A 1 0x10BA 0 0, PUCase 0x2D1B 1 0x10BB 0 0,
    PUCase 0x2D1C 1 0x10BC 0 0, PUCase 0x2D1D 1 0x10BD 0 0, PUCase 0x2D1E 1 0x10BE 0 0,
    PUCase 0x2D1F 1 0x10BF 0 0, PUCase 0x2D20 1 0x10C0 0 0, PUCase 0x2D21 1 0x10C1 0 0,
    PUCase 0x2D22 1 0x10C2 0 0, PUCase 0x2D23 1 0x10C3 0 0, PUCase 0x2D24 1 0x10C4 0 0,
    PUCase 0x2D25 1 0x10C5 0 0, PUCase 0x2D27 1 0x10C7 0 0, PUCase 0x2D2D 1 0x10CD 0 0,
    PUCase 0xA641 1 0xA640 0 0, PUCase 0xA643 1 0xA642 0 0, PUCase 0xA645 1 0xA644 0 0,
    PUCase 0xA647 1 0xA646 0 0, PUCase 0xA649 1 0xA648 0 0, PUCase 0xA64B 1 0xA64A 0 0,
    PUCase 0xA64D 1 0xA64C 0 0, PUCase 0xA64F 1 0xA64E 0 0, PUCase 0xA651 1 0xA650 0 0,
    PUCase 0xA653 1 0xA652 0 0, PUCase 0xA655 1 0xA654 0 0, PUCase 0xA657 1 0xA656 0 0,
    PUCase 0xA659 1 0xA658 0 0, PUCase 0xA65B 1 0xA65A 0 0, PUCase 0xA65D 1 0xA65C 0 0,
    PUCase 0xA65F 1 0xA65E 0 0, PUCase 0xA661 1 0xA660 0 0, PUCase 0xA663 1 0xA662 0 0,
    PUCase 0xA665 1 0xA664 0 0, PUCase 0xA667 1 0xA666 0 0, PUCase 0xA669 1 0xA668 0 0,
    PUCase 0xA66B 1 0xA66A 0 0, PUCase 0xA66D 1 0xA66C 0 0, PUCase 0xA681 1 0xA680 0 0,
    PUCase 0xA683 1 0xA682 0 0, PUCase 0xA685 1 0xA684 0 0, PUCase 0xA687 1 0xA686 0 0,
    PUCase 0xA689 1 0xA688 0 0, PUCase 0xA68B 1 0xA68A 0 0, PUCase 0xA68D 1 0xA68C 0 0,
    PUCase 0xA68F 1 0xA68E 0 0, PUCase 0xA691 1 0xA690 0 0, PUCase 0xA693 1 0xA692 0 0,
    PUCase 0xA695 1 0xA694 0 0, PUCase 0xA697 1 0xA696 0 0, PUCase 0xA699 1 0xA698 0 0,
    PUCase 0xA69B 1 0xA69A 0 0, PUCase 0xA723 1 0xA722 0 0, PUCase 0xA725 1 0xA724 0 0,
    PUCase 0xA727 1 0xA726 0 0, PUCase 0xA729 1 0xA728 0 0, PUCase 0xA72B 1 0xA72A 0 0,
    PUCase 0xA72D 1 0xA72C 0 0, PUCase 0xA72F 1 0xA72E 0 0, PUCase 0xA733 1 0xA732 0 0,
    PUCase 0xA735 1 0xA734 0 0, PUCase 0xA737 1 0xA736 0 0, PUCase 0xA739 1 0xA738 0 0,
    PUCase 0xA73B 1 0xA73A 0 0, PUCase 0xA73D 1 0xA73C 0 0, PUCase 0xA73F 1 0xA73E 0 0,
    PUCase 0xA741 1 0xA740 0 0, PUCase 0xA743 1 0xA742 0 0, PUCase 0xA745 1 0xA744 0 0,
    PUCase 0xA747 1 0xA746 0 0, PUCase 0xA749 1 0xA748 0 0, PUCase 0xA74B 1 0xA74A 0 0,
    PUCase 0xA74D 1 0xA74C 0 0, PUCase 0xA74F 1 0xA74E 0 0, PUCase 0xA751 1 0xA750 0 0,
    PUCase 0xA753 1 0xA752 0 0, PUCase 0xA755 1 0xA754 0 0, PUCase 0xA757 1 0xA756 0 0,
    PUCase 0xA759 1 0xA758 0 0, PUCase 0xA75B 1 0xA75A 0 0, PUCase 0xA75D 1 0xA75C 0 0,
    PUCase 0xA75F 1 0xA75E 0 0, PUCase 0xA761 1 0xA760 0 0, PUCase 0xA763 1 0xA762 0 0,
    PUCase 0xA765 1 0xA764 0 0, PUCase 0xA767 1 0xA766 0 0, PUCase 0xA769 1 0xA768 0 0,
    PUCase 0xA76B 1 0xA76A 0 0, PUCase 0xA76D 1 0xA76C 0 0, PUCase 0xA76F 1 0xA76E 0 0,
    PUCase 0xA77A 1 0xA779 0 0, PUCase 0xA77C 1 0xA77B 0 0, PUCase 0xA77F 1 0xA77E 0 0,
    PUCase 0xA781 1 0xA780 0 0, PUCase 0xA783 1 0xA782 0 0, PUCase 0xA785 1 0xA784 0 0,
    PUCase 0xA787 1 0xA786 0 0, PUCase 0xA78C 1 0xA78B 0 0, PUCase 0xA791 1 0xA790 0 0,
    PUCase 0xA793 1 0xA792 0 0, PUCase 0xA794 1 0xA7C4 0 0, PUCase 0xA797 1 0xA796 0 0,
    PUCase 0xA799 1 0xA798 0 0, PUCase 0xA79B 1 0xA79A 0 0, PUCase 0xA79D 1 0xA79C 0 0,
    PUCase 0xA79F 1 0xA79E 0 0, PUCase 0xA7A1 1 0xA7A0 0 0, PUCase 0xA7A3 1 0xA7A2 0 0,
    PUCase 0xA7A5 1 0xA7A4 0 0, PUCase 0xA7A7 1 0xA7A6 0 0, PUCase 0xA7A9 1 0xA7A8 0 0,
    PUCase 0xA7B5 1 0xA7B4 0 0, PUCase 0xA7B7 1 0xA7B6 0 0, PUCase 0xA7B9 1 0xA7B8 0 0,
    PUCase 0xA7BB 1 0xA7BA 0 0, PUCase 0xA7BD 1 0xA7BC 0 0, PUCase 0xA7BF 1 0xA7BE 0 0,
    PUCase 0xA7C1 1 0xA7C0 0 0, PUCase 0xA7C3 1 0xA7C2 0 0, PUCase 0xA7C8 1 0xA7C7 0 0,
    PUCase 0xA7CA 1 0xA7C9 0 0, PUCase 0xA7CD 1 0xA7CC 0 0, PUCase 0xA7CF 1 0xA7CE 0 0,
    PUCase 0xA7D1 1 0xA7D0 0 0, PUCase 0xA7D3 1 0xA7D2 0 0, PUCase 0xA7D5 1 0xA7D4 0 0,
    PUCase 0xA7D7 1 0xA7D6 0 0, PUCase 0xA7D9 1 0xA7D8 0 0]"

definition pas_u_upper_9 :: "pas_u_case list" where
  "pas_u_upper_9 = [
    PUCase 0xA7DB 1 0xA7DA 0 0, PUCase 0xA7F6 1 0xA7F5 0 0, PUCase 0xAB53 1 0xA7B3 0 0,
    PUCase 0xAB70 1 0x13A0 0 0, PUCase 0xAB71 1 0x13A1 0 0, PUCase 0xAB72 1 0x13A2 0 0,
    PUCase 0xAB73 1 0x13A3 0 0, PUCase 0xAB74 1 0x13A4 0 0, PUCase 0xAB75 1 0x13A5 0 0,
    PUCase 0xAB76 1 0x13A6 0 0, PUCase 0xAB77 1 0x13A7 0 0, PUCase 0xAB78 1 0x13A8 0 0,
    PUCase 0xAB79 1 0x13A9 0 0, PUCase 0xAB7A 1 0x13AA 0 0, PUCase 0xAB7B 1 0x13AB 0 0,
    PUCase 0xAB7C 1 0x13AC 0 0, PUCase 0xAB7D 1 0x13AD 0 0, PUCase 0xAB7E 1 0x13AE 0 0,
    PUCase 0xAB7F 1 0x13AF 0 0, PUCase 0xAB80 1 0x13B0 0 0, PUCase 0xAB81 1 0x13B1 0 0,
    PUCase 0xAB82 1 0x13B2 0 0, PUCase 0xAB83 1 0x13B3 0 0, PUCase 0xAB84 1 0x13B4 0 0,
    PUCase 0xAB85 1 0x13B5 0 0, PUCase 0xAB86 1 0x13B6 0 0, PUCase 0xAB87 1 0x13B7 0 0,
    PUCase 0xAB88 1 0x13B8 0 0, PUCase 0xAB89 1 0x13B9 0 0, PUCase 0xAB8A 1 0x13BA 0 0,
    PUCase 0xAB8B 1 0x13BB 0 0, PUCase 0xAB8C 1 0x13BC 0 0, PUCase 0xAB8D 1 0x13BD 0 0,
    PUCase 0xAB8E 1 0x13BE 0 0, PUCase 0xAB8F 1 0x13BF 0 0, PUCase 0xAB90 1 0x13C0 0 0,
    PUCase 0xAB91 1 0x13C1 0 0, PUCase 0xAB92 1 0x13C2 0 0, PUCase 0xAB93 1 0x13C3 0 0,
    PUCase 0xAB94 1 0x13C4 0 0, PUCase 0xAB95 1 0x13C5 0 0, PUCase 0xAB96 1 0x13C6 0 0,
    PUCase 0xAB97 1 0x13C7 0 0, PUCase 0xAB98 1 0x13C8 0 0, PUCase 0xAB99 1 0x13C9 0 0,
    PUCase 0xAB9A 1 0x13CA 0 0, PUCase 0xAB9B 1 0x13CB 0 0, PUCase 0xAB9C 1 0x13CC 0 0,
    PUCase 0xAB9D 1 0x13CD 0 0, PUCase 0xAB9E 1 0x13CE 0 0, PUCase 0xAB9F 1 0x13CF 0 0,
    PUCase 0xABA0 1 0x13D0 0 0, PUCase 0xABA1 1 0x13D1 0 0, PUCase 0xABA2 1 0x13D2 0 0,
    PUCase 0xABA3 1 0x13D3 0 0, PUCase 0xABA4 1 0x13D4 0 0, PUCase 0xABA5 1 0x13D5 0 0,
    PUCase 0xABA6 1 0x13D6 0 0, PUCase 0xABA7 1 0x13D7 0 0, PUCase 0xABA8 1 0x13D8 0 0,
    PUCase 0xABA9 1 0x13D9 0 0, PUCase 0xABAA 1 0x13DA 0 0, PUCase 0xABAB 1 0x13DB 0 0,
    PUCase 0xABAC 1 0x13DC 0 0, PUCase 0xABAD 1 0x13DD 0 0, PUCase 0xABAE 1 0x13DE 0 0,
    PUCase 0xABAF 1 0x13DF 0 0, PUCase 0xABB0 1 0x13E0 0 0, PUCase 0xABB1 1 0x13E1 0 0,
    PUCase 0xABB2 1 0x13E2 0 0, PUCase 0xABB3 1 0x13E3 0 0, PUCase 0xABB4 1 0x13E4 0 0,
    PUCase 0xABB5 1 0x13E5 0 0, PUCase 0xABB6 1 0x13E6 0 0, PUCase 0xABB7 1 0x13E7 0 0,
    PUCase 0xABB8 1 0x13E8 0 0, PUCase 0xABB9 1 0x13E9 0 0, PUCase 0xABBA 1 0x13EA 0 0,
    PUCase 0xABBB 1 0x13EB 0 0, PUCase 0xABBC 1 0x13EC 0 0, PUCase 0xABBD 1 0x13ED 0 0,
    PUCase 0xABBE 1 0x13EE 0 0, PUCase 0xABBF 1 0x13EF 0 0, PUCase 0xFB00 2 0x46 0x46 0,
    PUCase 0xFB01 2 0x46 0x49 0, PUCase 0xFB02 2 0x46 0x4C 0, PUCase 0xFB03 3 0x46 0x46 0x49,
    PUCase 0xFB04 3 0x46 0x46 0x4C, PUCase 0xFB05 2 0x53 0x54 0, PUCase 0xFB06 2 0x53 0x54 0,
    PUCase 0xFB13 2 0x544 0x546 0, PUCase 0xFB14 2 0x544 0x535 0, PUCase 0xFB15 2 0x544 0x53B 0,
    PUCase 0xFB16 2 0x54E 0x546 0, PUCase 0xFB17 2 0x544 0x53D 0, PUCase 0xFF41 1 0xFF21 0 0,
    PUCase 0xFF42 1 0xFF22 0 0, PUCase 0xFF43 1 0xFF23 0 0, PUCase 0xFF44 1 0xFF24 0 0,
    PUCase 0xFF45 1 0xFF25 0 0, PUCase 0xFF46 1 0xFF26 0 0, PUCase 0xFF47 1 0xFF27 0 0,
    PUCase 0xFF48 1 0xFF28 0 0, PUCase 0xFF49 1 0xFF29 0 0, PUCase 0xFF4A 1 0xFF2A 0 0,
    PUCase 0xFF4B 1 0xFF2B 0 0, PUCase 0xFF4C 1 0xFF2C 0 0, PUCase 0xFF4D 1 0xFF2D 0 0,
    PUCase 0xFF4E 1 0xFF2E 0 0, PUCase 0xFF4F 1 0xFF2F 0 0, PUCase 0xFF50 1 0xFF30 0 0,
    PUCase 0xFF51 1 0xFF31 0 0, PUCase 0xFF52 1 0xFF32 0 0, PUCase 0xFF53 1 0xFF33 0 0,
    PUCase 0xFF54 1 0xFF34 0 0, PUCase 0xFF55 1 0xFF35 0 0, PUCase 0xFF56 1 0xFF36 0 0,
    PUCase 0xFF57 1 0xFF37 0 0, PUCase 0xFF58 1 0xFF38 0 0, PUCase 0xFF59 1 0xFF39 0 0,
    PUCase 0xFF5A 1 0xFF3A 0 0, PUCase 0x10428 1 0x10400 0 0, PUCase 0x10429 1 0x10401 0 0,
    PUCase 0x1042A 1 0x10402 0 0, PUCase 0x1042B 1 0x10403 0 0, PUCase 0x1042C 1 0x10404 0 0,
    PUCase 0x1042D 1 0x10405 0 0, PUCase 0x1042E 1 0x10406 0 0]"

definition pas_u_upper_10 :: "pas_u_case list" where
  "pas_u_upper_10 = [
    PUCase 0x1042F 1 0x10407 0 0, PUCase 0x10430 1 0x10408 0 0, PUCase 0x10431 1 0x10409 0 0,
    PUCase 0x10432 1 0x1040A 0 0, PUCase 0x10433 1 0x1040B 0 0, PUCase 0x10434 1 0x1040C 0 0,
    PUCase 0x10435 1 0x1040D 0 0, PUCase 0x10436 1 0x1040E 0 0, PUCase 0x10437 1 0x1040F 0 0,
    PUCase 0x10438 1 0x10410 0 0, PUCase 0x10439 1 0x10411 0 0, PUCase 0x1043A 1 0x10412 0 0,
    PUCase 0x1043B 1 0x10413 0 0, PUCase 0x1043C 1 0x10414 0 0, PUCase 0x1043D 1 0x10415 0 0,
    PUCase 0x1043E 1 0x10416 0 0, PUCase 0x1043F 1 0x10417 0 0, PUCase 0x10440 1 0x10418 0 0,
    PUCase 0x10441 1 0x10419 0 0, PUCase 0x10442 1 0x1041A 0 0, PUCase 0x10443 1 0x1041B 0 0,
    PUCase 0x10444 1 0x1041C 0 0, PUCase 0x10445 1 0x1041D 0 0, PUCase 0x10446 1 0x1041E 0 0,
    PUCase 0x10447 1 0x1041F 0 0, PUCase 0x10448 1 0x10420 0 0, PUCase 0x10449 1 0x10421 0 0,
    PUCase 0x1044A 1 0x10422 0 0, PUCase 0x1044B 1 0x10423 0 0, PUCase 0x1044C 1 0x10424 0 0,
    PUCase 0x1044D 1 0x10425 0 0, PUCase 0x1044E 1 0x10426 0 0, PUCase 0x1044F 1 0x10427 0 0,
    PUCase 0x104D8 1 0x104B0 0 0, PUCase 0x104D9 1 0x104B1 0 0, PUCase 0x104DA 1 0x104B2 0 0,
    PUCase 0x104DB 1 0x104B3 0 0, PUCase 0x104DC 1 0x104B4 0 0, PUCase 0x104DD 1 0x104B5 0 0,
    PUCase 0x104DE 1 0x104B6 0 0, PUCase 0x104DF 1 0x104B7 0 0, PUCase 0x104E0 1 0x104B8 0 0,
    PUCase 0x104E1 1 0x104B9 0 0, PUCase 0x104E2 1 0x104BA 0 0, PUCase 0x104E3 1 0x104BB 0 0,
    PUCase 0x104E4 1 0x104BC 0 0, PUCase 0x104E5 1 0x104BD 0 0, PUCase 0x104E6 1 0x104BE 0 0,
    PUCase 0x104E7 1 0x104BF 0 0, PUCase 0x104E8 1 0x104C0 0 0, PUCase 0x104E9 1 0x104C1 0 0,
    PUCase 0x104EA 1 0x104C2 0 0, PUCase 0x104EB 1 0x104C3 0 0, PUCase 0x104EC 1 0x104C4 0 0,
    PUCase 0x104ED 1 0x104C5 0 0, PUCase 0x104EE 1 0x104C6 0 0, PUCase 0x104EF 1 0x104C7 0 0,
    PUCase 0x104F0 1 0x104C8 0 0, PUCase 0x104F1 1 0x104C9 0 0, PUCase 0x104F2 1 0x104CA 0 0,
    PUCase 0x104F3 1 0x104CB 0 0, PUCase 0x104F4 1 0x104CC 0 0, PUCase 0x104F5 1 0x104CD 0 0,
    PUCase 0x104F6 1 0x104CE 0 0, PUCase 0x104F7 1 0x104CF 0 0, PUCase 0x104F8 1 0x104D0 0 0,
    PUCase 0x104F9 1 0x104D1 0 0, PUCase 0x104FA 1 0x104D2 0 0, PUCase 0x104FB 1 0x104D3 0 0,
    PUCase 0x10597 1 0x10570 0 0, PUCase 0x10598 1 0x10571 0 0, PUCase 0x10599 1 0x10572 0 0,
    PUCase 0x1059A 1 0x10573 0 0, PUCase 0x1059B 1 0x10574 0 0, PUCase 0x1059C 1 0x10575 0 0,
    PUCase 0x1059D 1 0x10576 0 0, PUCase 0x1059E 1 0x10577 0 0, PUCase 0x1059F 1 0x10578 0 0,
    PUCase 0x105A0 1 0x10579 0 0, PUCase 0x105A1 1 0x1057A 0 0, PUCase 0x105A3 1 0x1057C 0 0,
    PUCase 0x105A4 1 0x1057D 0 0, PUCase 0x105A5 1 0x1057E 0 0, PUCase 0x105A6 1 0x1057F 0 0,
    PUCase 0x105A7 1 0x10580 0 0, PUCase 0x105A8 1 0x10581 0 0, PUCase 0x105A9 1 0x10582 0 0,
    PUCase 0x105AA 1 0x10583 0 0, PUCase 0x105AB 1 0x10584 0 0, PUCase 0x105AC 1 0x10585 0 0,
    PUCase 0x105AD 1 0x10586 0 0, PUCase 0x105AE 1 0x10587 0 0, PUCase 0x105AF 1 0x10588 0 0,
    PUCase 0x105B0 1 0x10589 0 0, PUCase 0x105B1 1 0x1058A 0 0, PUCase 0x105B3 1 0x1058C 0 0,
    PUCase 0x105B4 1 0x1058D 0 0, PUCase 0x105B5 1 0x1058E 0 0, PUCase 0x105B6 1 0x1058F 0 0,
    PUCase 0x105B7 1 0x10590 0 0, PUCase 0x105B8 1 0x10591 0 0, PUCase 0x105B9 1 0x10592 0 0,
    PUCase 0x105BB 1 0x10594 0 0, PUCase 0x105BC 1 0x10595 0 0, PUCase 0x10CC0 1 0x10C80 0 0,
    PUCase 0x10CC1 1 0x10C81 0 0, PUCase 0x10CC2 1 0x10C82 0 0, PUCase 0x10CC3 1 0x10C83 0 0,
    PUCase 0x10CC4 1 0x10C84 0 0, PUCase 0x10CC5 1 0x10C85 0 0, PUCase 0x10CC6 1 0x10C86 0 0,
    PUCase 0x10CC7 1 0x10C87 0 0, PUCase 0x10CC8 1 0x10C88 0 0, PUCase 0x10CC9 1 0x10C89 0 0,
    PUCase 0x10CCA 1 0x10C8A 0 0, PUCase 0x10CCB 1 0x10C8B 0 0, PUCase 0x10CCC 1 0x10C8C 0 0,
    PUCase 0x10CCD 1 0x10C8D 0 0, PUCase 0x10CCE 1 0x10C8E 0 0, PUCase 0x10CCF 1 0x10C8F 0 0,
    PUCase 0x10CD0 1 0x10C90 0 0, PUCase 0x10CD1 1 0x10C91 0 0, PUCase 0x10CD2 1 0x10C92 0 0,
    PUCase 0x10CD3 1 0x10C93 0 0, PUCase 0x10CD4 1 0x10C94 0 0, PUCase 0x10CD5 1 0x10C95 0 0,
    PUCase 0x10CD6 1 0x10C96 0 0, PUCase 0x10CD7 1 0x10C97 0 0]"

definition pas_u_upper_11 :: "pas_u_case list" where
  "pas_u_upper_11 = [
    PUCase 0x10CD8 1 0x10C98 0 0, PUCase 0x10CD9 1 0x10C99 0 0, PUCase 0x10CDA 1 0x10C9A 0 0,
    PUCase 0x10CDB 1 0x10C9B 0 0, PUCase 0x10CDC 1 0x10C9C 0 0, PUCase 0x10CDD 1 0x10C9D 0 0,
    PUCase 0x10CDE 1 0x10C9E 0 0, PUCase 0x10CDF 1 0x10C9F 0 0, PUCase 0x10CE0 1 0x10CA0 0 0,
    PUCase 0x10CE1 1 0x10CA1 0 0, PUCase 0x10CE2 1 0x10CA2 0 0, PUCase 0x10CE3 1 0x10CA3 0 0,
    PUCase 0x10CE4 1 0x10CA4 0 0, PUCase 0x10CE5 1 0x10CA5 0 0, PUCase 0x10CE6 1 0x10CA6 0 0,
    PUCase 0x10CE7 1 0x10CA7 0 0, PUCase 0x10CE8 1 0x10CA8 0 0, PUCase 0x10CE9 1 0x10CA9 0 0,
    PUCase 0x10CEA 1 0x10CAA 0 0, PUCase 0x10CEB 1 0x10CAB 0 0, PUCase 0x10CEC 1 0x10CAC 0 0,
    PUCase 0x10CED 1 0x10CAD 0 0, PUCase 0x10CEE 1 0x10CAE 0 0, PUCase 0x10CEF 1 0x10CAF 0 0,
    PUCase 0x10CF0 1 0x10CB0 0 0, PUCase 0x10CF1 1 0x10CB1 0 0, PUCase 0x10CF2 1 0x10CB2 0 0,
    PUCase 0x10D70 1 0x10D50 0 0, PUCase 0x10D71 1 0x10D51 0 0, PUCase 0x10D72 1 0x10D52 0 0,
    PUCase 0x10D73 1 0x10D53 0 0, PUCase 0x10D74 1 0x10D54 0 0, PUCase 0x10D75 1 0x10D55 0 0,
    PUCase 0x10D76 1 0x10D56 0 0, PUCase 0x10D77 1 0x10D57 0 0, PUCase 0x10D78 1 0x10D58 0 0,
    PUCase 0x10D79 1 0x10D59 0 0, PUCase 0x10D7A 1 0x10D5A 0 0, PUCase 0x10D7B 1 0x10D5B 0 0,
    PUCase 0x10D7C 1 0x10D5C 0 0, PUCase 0x10D7D 1 0x10D5D 0 0, PUCase 0x10D7E 1 0x10D5E 0 0,
    PUCase 0x10D7F 1 0x10D5F 0 0, PUCase 0x10D80 1 0x10D60 0 0, PUCase 0x10D81 1 0x10D61 0 0,
    PUCase 0x10D82 1 0x10D62 0 0, PUCase 0x10D83 1 0x10D63 0 0, PUCase 0x10D84 1 0x10D64 0 0,
    PUCase 0x10D85 1 0x10D65 0 0, PUCase 0x118C0 1 0x118A0 0 0, PUCase 0x118C1 1 0x118A1 0 0,
    PUCase 0x118C2 1 0x118A2 0 0, PUCase 0x118C3 1 0x118A3 0 0, PUCase 0x118C4 1 0x118A4 0 0,
    PUCase 0x118C5 1 0x118A5 0 0, PUCase 0x118C6 1 0x118A6 0 0, PUCase 0x118C7 1 0x118A7 0 0,
    PUCase 0x118C8 1 0x118A8 0 0, PUCase 0x118C9 1 0x118A9 0 0, PUCase 0x118CA 1 0x118AA 0 0,
    PUCase 0x118CB 1 0x118AB 0 0, PUCase 0x118CC 1 0x118AC 0 0, PUCase 0x118CD 1 0x118AD 0 0,
    PUCase 0x118CE 1 0x118AE 0 0, PUCase 0x118CF 1 0x118AF 0 0, PUCase 0x118D0 1 0x118B0 0 0,
    PUCase 0x118D1 1 0x118B1 0 0, PUCase 0x118D2 1 0x118B2 0 0, PUCase 0x118D3 1 0x118B3 0 0,
    PUCase 0x118D4 1 0x118B4 0 0, PUCase 0x118D5 1 0x118B5 0 0, PUCase 0x118D6 1 0x118B6 0 0,
    PUCase 0x118D7 1 0x118B7 0 0, PUCase 0x118D8 1 0x118B8 0 0, PUCase 0x118D9 1 0x118B9 0 0,
    PUCase 0x118DA 1 0x118BA 0 0, PUCase 0x118DB 1 0x118BB 0 0, PUCase 0x118DC 1 0x118BC 0 0,
    PUCase 0x118DD 1 0x118BD 0 0, PUCase 0x118DE 1 0x118BE 0 0, PUCase 0x118DF 1 0x118BF 0 0,
    PUCase 0x16E60 1 0x16E40 0 0, PUCase 0x16E61 1 0x16E41 0 0, PUCase 0x16E62 1 0x16E42 0 0,
    PUCase 0x16E63 1 0x16E43 0 0, PUCase 0x16E64 1 0x16E44 0 0, PUCase 0x16E65 1 0x16E45 0 0,
    PUCase 0x16E66 1 0x16E46 0 0, PUCase 0x16E67 1 0x16E47 0 0, PUCase 0x16E68 1 0x16E48 0 0,
    PUCase 0x16E69 1 0x16E49 0 0, PUCase 0x16E6A 1 0x16E4A 0 0, PUCase 0x16E6B 1 0x16E4B 0 0,
    PUCase 0x16E6C 1 0x16E4C 0 0, PUCase 0x16E6D 1 0x16E4D 0 0, PUCase 0x16E6E 1 0x16E4E 0 0,
    PUCase 0x16E6F 1 0x16E4F 0 0, PUCase 0x16E70 1 0x16E50 0 0, PUCase 0x16E71 1 0x16E51 0 0,
    PUCase 0x16E72 1 0x16E52 0 0, PUCase 0x16E73 1 0x16E53 0 0, PUCase 0x16E74 1 0x16E54 0 0,
    PUCase 0x16E75 1 0x16E55 0 0, PUCase 0x16E76 1 0x16E56 0 0, PUCase 0x16E77 1 0x16E57 0 0,
    PUCase 0x16E78 1 0x16E58 0 0, PUCase 0x16E79 1 0x16E59 0 0, PUCase 0x16E7A 1 0x16E5A 0 0,
    PUCase 0x16E7B 1 0x16E5B 0 0, PUCase 0x16E7C 1 0x16E5C 0 0, PUCase 0x16E7D 1 0x16E5D 0 0,
    PUCase 0x16E7E 1 0x16E5E 0 0, PUCase 0x16E7F 1 0x16E5F 0 0, PUCase 0x16EBB 1 0x16EA0 0 0,
    PUCase 0x16EBC 1 0x16EA1 0 0, PUCase 0x16EBD 1 0x16EA2 0 0, PUCase 0x16EBE 1 0x16EA3 0 0,
    PUCase 0x16EBF 1 0x16EA4 0 0, PUCase 0x16EC0 1 0x16EA5 0 0, PUCase 0x16EC1 1 0x16EA6 0 0,
    PUCase 0x16EC2 1 0x16EA7 0 0, PUCase 0x16EC3 1 0x16EA8 0 0, PUCase 0x16EC4 1 0x16EA9 0 0,
    PUCase 0x16EC5 1 0x16EAA 0 0, PUCase 0x16EC6 1 0x16EAB 0 0, PUCase 0x16EC7 1 0x16EAC 0 0,
    PUCase 0x16EC8 1 0x16EAD 0 0, PUCase 0x16EC9 1 0x16EAE 0 0]"

definition pas_u_upper_12 :: "pas_u_case list" where
  "pas_u_upper_12 = [
    PUCase 0x16ECA 1 0x16EAF 0 0, PUCase 0x16ECB 1 0x16EB0 0 0, PUCase 0x16ECC 1 0x16EB1 0 0,
    PUCase 0x16ECD 1 0x16EB2 0 0, PUCase 0x16ECE 1 0x16EB3 0 0, PUCase 0x16ECF 1 0x16EB4 0 0,
    PUCase 0x16ED0 1 0x16EB5 0 0, PUCase 0x16ED1 1 0x16EB6 0 0, PUCase 0x16ED2 1 0x16EB7 0 0,
    PUCase 0x16ED3 1 0x16EB8 0 0, PUCase 0x1E922 1 0x1E900 0 0, PUCase 0x1E923 1 0x1E901 0 0,
    PUCase 0x1E924 1 0x1E902 0 0, PUCase 0x1E925 1 0x1E903 0 0, PUCase 0x1E926 1 0x1E904 0 0,
    PUCase 0x1E927 1 0x1E905 0 0, PUCase 0x1E928 1 0x1E906 0 0, PUCase 0x1E929 1 0x1E907 0 0,
    PUCase 0x1E92A 1 0x1E908 0 0, PUCase 0x1E92B 1 0x1E909 0 0, PUCase 0x1E92C 1 0x1E90A 0 0,
    PUCase 0x1E92D 1 0x1E90B 0 0, PUCase 0x1E92E 1 0x1E90C 0 0, PUCase 0x1E92F 1 0x1E90D 0 0,
    PUCase 0x1E930 1 0x1E90E 0 0, PUCase 0x1E931 1 0x1E90F 0 0, PUCase 0x1E932 1 0x1E910 0 0,
    PUCase 0x1E933 1 0x1E911 0 0, PUCase 0x1E934 1 0x1E912 0 0, PUCase 0x1E935 1 0x1E913 0 0,
    PUCase 0x1E936 1 0x1E914 0 0, PUCase 0x1E937 1 0x1E915 0 0, PUCase 0x1E938 1 0x1E916 0 0,
    PUCase 0x1E939 1 0x1E917 0 0, PUCase 0x1E93A 1 0x1E918 0 0, PUCase 0x1E93B 1 0x1E919 0 0,
    PUCase 0x1E93C 1 0x1E91A 0 0, PUCase 0x1E93D 1 0x1E91B 0 0, PUCase 0x1E93E 1 0x1E91C 0 0,
    PUCase 0x1E93F 1 0x1E91D 0 0, PUCase 0x1E940 1 0x1E91E 0 0, PUCase 0x1E941 1 0x1E91F 0 0,
    PUCase 0x1E942 1 0x1E920 0 0, PUCase 0x1E943 1 0x1E921 0 0]"

definition pas_u_upper :: "pas_u_case list" where
  "pas_u_upper = pas_u_upper_0 @ pas_u_upper_1 @ pas_u_upper_2 @ pas_u_upper_3 @ pas_u_upper_4 @ pas_u_upper_5 @ pas_u_upper_6 @ pas_u_upper_7 @ pas_u_upper_8 @ pas_u_upper_9 @ pas_u_upper_10 @ pas_u_upper_11 @ pas_u_upper_12"

definition pas_u_lower_0 :: "pas_u_case list" where
  "pas_u_lower_0 = [
    PUCase 0x41 1 0x61 0 0, PUCase 0x42 1 0x62 0 0, PUCase 0x43 1 0x63 0 0,
    PUCase 0x44 1 0x64 0 0, PUCase 0x45 1 0x65 0 0, PUCase 0x46 1 0x66 0 0,
    PUCase 0x47 1 0x67 0 0, PUCase 0x48 1 0x68 0 0, PUCase 0x49 1 0x69 0 0,
    PUCase 0x4A 1 0x6A 0 0, PUCase 0x4B 1 0x6B 0 0, PUCase 0x4C 1 0x6C 0 0,
    PUCase 0x4D 1 0x6D 0 0, PUCase 0x4E 1 0x6E 0 0, PUCase 0x4F 1 0x6F 0 0,
    PUCase 0x50 1 0x70 0 0, PUCase 0x51 1 0x71 0 0, PUCase 0x52 1 0x72 0 0,
    PUCase 0x53 1 0x73 0 0, PUCase 0x54 1 0x74 0 0, PUCase 0x55 1 0x75 0 0,
    PUCase 0x56 1 0x76 0 0, PUCase 0x57 1 0x77 0 0, PUCase 0x58 1 0x78 0 0,
    PUCase 0x59 1 0x79 0 0, PUCase 0x5A 1 0x7A 0 0, PUCase 0xC0 1 0xE0 0 0,
    PUCase 0xC1 1 0xE1 0 0, PUCase 0xC2 1 0xE2 0 0, PUCase 0xC3 1 0xE3 0 0,
    PUCase 0xC4 1 0xE4 0 0, PUCase 0xC5 1 0xE5 0 0, PUCase 0xC6 1 0xE6 0 0,
    PUCase 0xC7 1 0xE7 0 0, PUCase 0xC8 1 0xE8 0 0, PUCase 0xC9 1 0xE9 0 0,
    PUCase 0xCA 1 0xEA 0 0, PUCase 0xCB 1 0xEB 0 0, PUCase 0xCC 1 0xEC 0 0,
    PUCase 0xCD 1 0xED 0 0, PUCase 0xCE 1 0xEE 0 0, PUCase 0xCF 1 0xEF 0 0,
    PUCase 0xD0 1 0xF0 0 0, PUCase 0xD1 1 0xF1 0 0, PUCase 0xD2 1 0xF2 0 0,
    PUCase 0xD3 1 0xF3 0 0, PUCase 0xD4 1 0xF4 0 0, PUCase 0xD5 1 0xF5 0 0,
    PUCase 0xD6 1 0xF6 0 0, PUCase 0xD8 1 0xF8 0 0, PUCase 0xD9 1 0xF9 0 0,
    PUCase 0xDA 1 0xFA 0 0, PUCase 0xDB 1 0xFB 0 0, PUCase 0xDC 1 0xFC 0 0,
    PUCase 0xDD 1 0xFD 0 0, PUCase 0xDE 1 0xFE 0 0, PUCase 0x100 1 0x101 0 0,
    PUCase 0x102 1 0x103 0 0, PUCase 0x104 1 0x105 0 0, PUCase 0x106 1 0x107 0 0,
    PUCase 0x108 1 0x109 0 0, PUCase 0x10A 1 0x10B 0 0, PUCase 0x10C 1 0x10D 0 0,
    PUCase 0x10E 1 0x10F 0 0, PUCase 0x110 1 0x111 0 0, PUCase 0x112 1 0x113 0 0,
    PUCase 0x114 1 0x115 0 0, PUCase 0x116 1 0x117 0 0, PUCase 0x118 1 0x119 0 0,
    PUCase 0x11A 1 0x11B 0 0, PUCase 0x11C 1 0x11D 0 0, PUCase 0x11E 1 0x11F 0 0,
    PUCase 0x120 1 0x121 0 0, PUCase 0x122 1 0x123 0 0, PUCase 0x124 1 0x125 0 0,
    PUCase 0x126 1 0x127 0 0, PUCase 0x128 1 0x129 0 0, PUCase 0x12A 1 0x12B 0 0,
    PUCase 0x12C 1 0x12D 0 0, PUCase 0x12E 1 0x12F 0 0, PUCase 0x130 2 0x69 0x307 0,
    PUCase 0x132 1 0x133 0 0, PUCase 0x134 1 0x135 0 0, PUCase 0x136 1 0x137 0 0,
    PUCase 0x139 1 0x13A 0 0, PUCase 0x13B 1 0x13C 0 0, PUCase 0x13D 1 0x13E 0 0,
    PUCase 0x13F 1 0x140 0 0, PUCase 0x141 1 0x142 0 0, PUCase 0x143 1 0x144 0 0,
    PUCase 0x145 1 0x146 0 0, PUCase 0x147 1 0x148 0 0, PUCase 0x14A 1 0x14B 0 0,
    PUCase 0x14C 1 0x14D 0 0, PUCase 0x14E 1 0x14F 0 0, PUCase 0x150 1 0x151 0 0,
    PUCase 0x152 1 0x153 0 0, PUCase 0x154 1 0x155 0 0, PUCase 0x156 1 0x157 0 0,
    PUCase 0x158 1 0x159 0 0, PUCase 0x15A 1 0x15B 0 0, PUCase 0x15C 1 0x15D 0 0,
    PUCase 0x15E 1 0x15F 0 0, PUCase 0x160 1 0x161 0 0, PUCase 0x162 1 0x163 0 0,
    PUCase 0x164 1 0x165 0 0, PUCase 0x166 1 0x167 0 0, PUCase 0x168 1 0x169 0 0,
    PUCase 0x16A 1 0x16B 0 0, PUCase 0x16C 1 0x16D 0 0, PUCase 0x16E 1 0x16F 0 0,
    PUCase 0x170 1 0x171 0 0, PUCase 0x172 1 0x173 0 0, PUCase 0x174 1 0x175 0 0,
    PUCase 0x176 1 0x177 0 0, PUCase 0x178 1 0xFF 0 0, PUCase 0x179 1 0x17A 0 0,
    PUCase 0x17B 1 0x17C 0 0, PUCase 0x17D 1 0x17E 0 0, PUCase 0x181 1 0x253 0 0,
    PUCase 0x182 1 0x183 0 0, PUCase 0x184 1 0x185 0 0, PUCase 0x186 1 0x254 0 0,
    PUCase 0x187 1 0x188 0 0, PUCase 0x189 1 0x256 0 0, PUCase 0x18A 1 0x257 0 0,
    PUCase 0x18B 1 0x18C 0 0, PUCase 0x18E 1 0x1DD 0 0]"

definition pas_u_lower_1 :: "pas_u_case list" where
  "pas_u_lower_1 = [
    PUCase 0x18F 1 0x259 0 0, PUCase 0x190 1 0x25B 0 0, PUCase 0x191 1 0x192 0 0,
    PUCase 0x193 1 0x260 0 0, PUCase 0x194 1 0x263 0 0, PUCase 0x196 1 0x269 0 0,
    PUCase 0x197 1 0x268 0 0, PUCase 0x198 1 0x199 0 0, PUCase 0x19C 1 0x26F 0 0,
    PUCase 0x19D 1 0x272 0 0, PUCase 0x19F 1 0x275 0 0, PUCase 0x1A0 1 0x1A1 0 0,
    PUCase 0x1A2 1 0x1A3 0 0, PUCase 0x1A4 1 0x1A5 0 0, PUCase 0x1A6 1 0x280 0 0,
    PUCase 0x1A7 1 0x1A8 0 0, PUCase 0x1A9 1 0x283 0 0, PUCase 0x1AC 1 0x1AD 0 0,
    PUCase 0x1AE 1 0x288 0 0, PUCase 0x1AF 1 0x1B0 0 0, PUCase 0x1B1 1 0x28A 0 0,
    PUCase 0x1B2 1 0x28B 0 0, PUCase 0x1B3 1 0x1B4 0 0, PUCase 0x1B5 1 0x1B6 0 0,
    PUCase 0x1B7 1 0x292 0 0, PUCase 0x1B8 1 0x1B9 0 0, PUCase 0x1BC 1 0x1BD 0 0,
    PUCase 0x1C4 1 0x1C6 0 0, PUCase 0x1C5 1 0x1C6 0 0, PUCase 0x1C7 1 0x1C9 0 0,
    PUCase 0x1C8 1 0x1C9 0 0, PUCase 0x1CA 1 0x1CC 0 0, PUCase 0x1CB 1 0x1CC 0 0,
    PUCase 0x1CD 1 0x1CE 0 0, PUCase 0x1CF 1 0x1D0 0 0, PUCase 0x1D1 1 0x1D2 0 0,
    PUCase 0x1D3 1 0x1D4 0 0, PUCase 0x1D5 1 0x1D6 0 0, PUCase 0x1D7 1 0x1D8 0 0,
    PUCase 0x1D9 1 0x1DA 0 0, PUCase 0x1DB 1 0x1DC 0 0, PUCase 0x1DE 1 0x1DF 0 0,
    PUCase 0x1E0 1 0x1E1 0 0, PUCase 0x1E2 1 0x1E3 0 0, PUCase 0x1E4 1 0x1E5 0 0,
    PUCase 0x1E6 1 0x1E7 0 0, PUCase 0x1E8 1 0x1E9 0 0, PUCase 0x1EA 1 0x1EB 0 0,
    PUCase 0x1EC 1 0x1ED 0 0, PUCase 0x1EE 1 0x1EF 0 0, PUCase 0x1F1 1 0x1F3 0 0,
    PUCase 0x1F2 1 0x1F3 0 0, PUCase 0x1F4 1 0x1F5 0 0, PUCase 0x1F6 1 0x195 0 0,
    PUCase 0x1F7 1 0x1BF 0 0, PUCase 0x1F8 1 0x1F9 0 0, PUCase 0x1FA 1 0x1FB 0 0,
    PUCase 0x1FC 1 0x1FD 0 0, PUCase 0x1FE 1 0x1FF 0 0, PUCase 0x200 1 0x201 0 0,
    PUCase 0x202 1 0x203 0 0, PUCase 0x204 1 0x205 0 0, PUCase 0x206 1 0x207 0 0,
    PUCase 0x208 1 0x209 0 0, PUCase 0x20A 1 0x20B 0 0, PUCase 0x20C 1 0x20D 0 0,
    PUCase 0x20E 1 0x20F 0 0, PUCase 0x210 1 0x211 0 0, PUCase 0x212 1 0x213 0 0,
    PUCase 0x214 1 0x215 0 0, PUCase 0x216 1 0x217 0 0, PUCase 0x218 1 0x219 0 0,
    PUCase 0x21A 1 0x21B 0 0, PUCase 0x21C 1 0x21D 0 0, PUCase 0x21E 1 0x21F 0 0,
    PUCase 0x220 1 0x19E 0 0, PUCase 0x222 1 0x223 0 0, PUCase 0x224 1 0x225 0 0,
    PUCase 0x226 1 0x227 0 0, PUCase 0x228 1 0x229 0 0, PUCase 0x22A 1 0x22B 0 0,
    PUCase 0x22C 1 0x22D 0 0, PUCase 0x22E 1 0x22F 0 0, PUCase 0x230 1 0x231 0 0,
    PUCase 0x232 1 0x233 0 0, PUCase 0x23A 1 0x2C65 0 0, PUCase 0x23B 1 0x23C 0 0,
    PUCase 0x23D 1 0x19A 0 0, PUCase 0x23E 1 0x2C66 0 0, PUCase 0x241 1 0x242 0 0,
    PUCase 0x243 1 0x180 0 0, PUCase 0x244 1 0x289 0 0, PUCase 0x245 1 0x28C 0 0,
    PUCase 0x246 1 0x247 0 0, PUCase 0x248 1 0x249 0 0, PUCase 0x24A 1 0x24B 0 0,
    PUCase 0x24C 1 0x24D 0 0, PUCase 0x24E 1 0x24F 0 0, PUCase 0x370 1 0x371 0 0,
    PUCase 0x372 1 0x373 0 0, PUCase 0x376 1 0x377 0 0, PUCase 0x37F 1 0x3F3 0 0,
    PUCase 0x386 1 0x3AC 0 0, PUCase 0x388 1 0x3AD 0 0, PUCase 0x389 1 0x3AE 0 0,
    PUCase 0x38A 1 0x3AF 0 0, PUCase 0x38C 1 0x3CC 0 0, PUCase 0x38E 1 0x3CD 0 0,
    PUCase 0x38F 1 0x3CE 0 0, PUCase 0x391 1 0x3B1 0 0, PUCase 0x392 1 0x3B2 0 0,
    PUCase 0x393 1 0x3B3 0 0, PUCase 0x394 1 0x3B4 0 0, PUCase 0x395 1 0x3B5 0 0,
    PUCase 0x396 1 0x3B6 0 0, PUCase 0x397 1 0x3B7 0 0, PUCase 0x398 1 0x3B8 0 0,
    PUCase 0x399 1 0x3B9 0 0, PUCase 0x39A 1 0x3BA 0 0, PUCase 0x39B 1 0x3BB 0 0,
    PUCase 0x39C 1 0x3BC 0 0, PUCase 0x39D 1 0x3BD 0 0, PUCase 0x39E 1 0x3BE 0 0,
    PUCase 0x39F 1 0x3BF 0 0, PUCase 0x3A0 1 0x3C0 0 0, PUCase 0x3A1 1 0x3C1 0 0,
    PUCase 0x3A3 1 0x3C3 0 0, PUCase 0x3A4 1 0x3C4 0 0]"

definition pas_u_lower_2 :: "pas_u_case list" where
  "pas_u_lower_2 = [
    PUCase 0x3A5 1 0x3C5 0 0, PUCase 0x3A6 1 0x3C6 0 0, PUCase 0x3A7 1 0x3C7 0 0,
    PUCase 0x3A8 1 0x3C8 0 0, PUCase 0x3A9 1 0x3C9 0 0, PUCase 0x3AA 1 0x3CA 0 0,
    PUCase 0x3AB 1 0x3CB 0 0, PUCase 0x3CF 1 0x3D7 0 0, PUCase 0x3D8 1 0x3D9 0 0,
    PUCase 0x3DA 1 0x3DB 0 0, PUCase 0x3DC 1 0x3DD 0 0, PUCase 0x3DE 1 0x3DF 0 0,
    PUCase 0x3E0 1 0x3E1 0 0, PUCase 0x3E2 1 0x3E3 0 0, PUCase 0x3E4 1 0x3E5 0 0,
    PUCase 0x3E6 1 0x3E7 0 0, PUCase 0x3E8 1 0x3E9 0 0, PUCase 0x3EA 1 0x3EB 0 0,
    PUCase 0x3EC 1 0x3ED 0 0, PUCase 0x3EE 1 0x3EF 0 0, PUCase 0x3F4 1 0x3B8 0 0,
    PUCase 0x3F7 1 0x3F8 0 0, PUCase 0x3F9 1 0x3F2 0 0, PUCase 0x3FA 1 0x3FB 0 0,
    PUCase 0x3FD 1 0x37B 0 0, PUCase 0x3FE 1 0x37C 0 0, PUCase 0x3FF 1 0x37D 0 0,
    PUCase 0x400 1 0x450 0 0, PUCase 0x401 1 0x451 0 0, PUCase 0x402 1 0x452 0 0,
    PUCase 0x403 1 0x453 0 0, PUCase 0x404 1 0x454 0 0, PUCase 0x405 1 0x455 0 0,
    PUCase 0x406 1 0x456 0 0, PUCase 0x407 1 0x457 0 0, PUCase 0x408 1 0x458 0 0,
    PUCase 0x409 1 0x459 0 0, PUCase 0x40A 1 0x45A 0 0, PUCase 0x40B 1 0x45B 0 0,
    PUCase 0x40C 1 0x45C 0 0, PUCase 0x40D 1 0x45D 0 0, PUCase 0x40E 1 0x45E 0 0,
    PUCase 0x40F 1 0x45F 0 0, PUCase 0x410 1 0x430 0 0, PUCase 0x411 1 0x431 0 0,
    PUCase 0x412 1 0x432 0 0, PUCase 0x413 1 0x433 0 0, PUCase 0x414 1 0x434 0 0,
    PUCase 0x415 1 0x435 0 0, PUCase 0x416 1 0x436 0 0, PUCase 0x417 1 0x437 0 0,
    PUCase 0x418 1 0x438 0 0, PUCase 0x419 1 0x439 0 0, PUCase 0x41A 1 0x43A 0 0,
    PUCase 0x41B 1 0x43B 0 0, PUCase 0x41C 1 0x43C 0 0, PUCase 0x41D 1 0x43D 0 0,
    PUCase 0x41E 1 0x43E 0 0, PUCase 0x41F 1 0x43F 0 0, PUCase 0x420 1 0x440 0 0,
    PUCase 0x421 1 0x441 0 0, PUCase 0x422 1 0x442 0 0, PUCase 0x423 1 0x443 0 0,
    PUCase 0x424 1 0x444 0 0, PUCase 0x425 1 0x445 0 0, PUCase 0x426 1 0x446 0 0,
    PUCase 0x427 1 0x447 0 0, PUCase 0x428 1 0x448 0 0, PUCase 0x429 1 0x449 0 0,
    PUCase 0x42A 1 0x44A 0 0, PUCase 0x42B 1 0x44B 0 0, PUCase 0x42C 1 0x44C 0 0,
    PUCase 0x42D 1 0x44D 0 0, PUCase 0x42E 1 0x44E 0 0, PUCase 0x42F 1 0x44F 0 0,
    PUCase 0x460 1 0x461 0 0, PUCase 0x462 1 0x463 0 0, PUCase 0x464 1 0x465 0 0,
    PUCase 0x466 1 0x467 0 0, PUCase 0x468 1 0x469 0 0, PUCase 0x46A 1 0x46B 0 0,
    PUCase 0x46C 1 0x46D 0 0, PUCase 0x46E 1 0x46F 0 0, PUCase 0x470 1 0x471 0 0,
    PUCase 0x472 1 0x473 0 0, PUCase 0x474 1 0x475 0 0, PUCase 0x476 1 0x477 0 0,
    PUCase 0x478 1 0x479 0 0, PUCase 0x47A 1 0x47B 0 0, PUCase 0x47C 1 0x47D 0 0,
    PUCase 0x47E 1 0x47F 0 0, PUCase 0x480 1 0x481 0 0, PUCase 0x48A 1 0x48B 0 0,
    PUCase 0x48C 1 0x48D 0 0, PUCase 0x48E 1 0x48F 0 0, PUCase 0x490 1 0x491 0 0,
    PUCase 0x492 1 0x493 0 0, PUCase 0x494 1 0x495 0 0, PUCase 0x496 1 0x497 0 0,
    PUCase 0x498 1 0x499 0 0, PUCase 0x49A 1 0x49B 0 0, PUCase 0x49C 1 0x49D 0 0,
    PUCase 0x49E 1 0x49F 0 0, PUCase 0x4A0 1 0x4A1 0 0, PUCase 0x4A2 1 0x4A3 0 0,
    PUCase 0x4A4 1 0x4A5 0 0, PUCase 0x4A6 1 0x4A7 0 0, PUCase 0x4A8 1 0x4A9 0 0,
    PUCase 0x4AA 1 0x4AB 0 0, PUCase 0x4AC 1 0x4AD 0 0, PUCase 0x4AE 1 0x4AF 0 0,
    PUCase 0x4B0 1 0x4B1 0 0, PUCase 0x4B2 1 0x4B3 0 0, PUCase 0x4B4 1 0x4B5 0 0,
    PUCase 0x4B6 1 0x4B7 0 0, PUCase 0x4B8 1 0x4B9 0 0, PUCase 0x4BA 1 0x4BB 0 0,
    PUCase 0x4BC 1 0x4BD 0 0, PUCase 0x4BE 1 0x4BF 0 0, PUCase 0x4C0 1 0x4CF 0 0,
    PUCase 0x4C1 1 0x4C2 0 0, PUCase 0x4C3 1 0x4C4 0 0, PUCase 0x4C5 1 0x4C6 0 0,
    PUCase 0x4C7 1 0x4C8 0 0, PUCase 0x4C9 1 0x4CA 0 0, PUCase 0x4CB 1 0x4CC 0 0,
    PUCase 0x4CD 1 0x4CE 0 0, PUCase 0x4D0 1 0x4D1 0 0]"

definition pas_u_lower_3 :: "pas_u_case list" where
  "pas_u_lower_3 = [
    PUCase 0x4D2 1 0x4D3 0 0, PUCase 0x4D4 1 0x4D5 0 0, PUCase 0x4D6 1 0x4D7 0 0,
    PUCase 0x4D8 1 0x4D9 0 0, PUCase 0x4DA 1 0x4DB 0 0, PUCase 0x4DC 1 0x4DD 0 0,
    PUCase 0x4DE 1 0x4DF 0 0, PUCase 0x4E0 1 0x4E1 0 0, PUCase 0x4E2 1 0x4E3 0 0,
    PUCase 0x4E4 1 0x4E5 0 0, PUCase 0x4E6 1 0x4E7 0 0, PUCase 0x4E8 1 0x4E9 0 0,
    PUCase 0x4EA 1 0x4EB 0 0, PUCase 0x4EC 1 0x4ED 0 0, PUCase 0x4EE 1 0x4EF 0 0,
    PUCase 0x4F0 1 0x4F1 0 0, PUCase 0x4F2 1 0x4F3 0 0, PUCase 0x4F4 1 0x4F5 0 0,
    PUCase 0x4F6 1 0x4F7 0 0, PUCase 0x4F8 1 0x4F9 0 0, PUCase 0x4FA 1 0x4FB 0 0,
    PUCase 0x4FC 1 0x4FD 0 0, PUCase 0x4FE 1 0x4FF 0 0, PUCase 0x500 1 0x501 0 0,
    PUCase 0x502 1 0x503 0 0, PUCase 0x504 1 0x505 0 0, PUCase 0x506 1 0x507 0 0,
    PUCase 0x508 1 0x509 0 0, PUCase 0x50A 1 0x50B 0 0, PUCase 0x50C 1 0x50D 0 0,
    PUCase 0x50E 1 0x50F 0 0, PUCase 0x510 1 0x511 0 0, PUCase 0x512 1 0x513 0 0,
    PUCase 0x514 1 0x515 0 0, PUCase 0x516 1 0x517 0 0, PUCase 0x518 1 0x519 0 0,
    PUCase 0x51A 1 0x51B 0 0, PUCase 0x51C 1 0x51D 0 0, PUCase 0x51E 1 0x51F 0 0,
    PUCase 0x520 1 0x521 0 0, PUCase 0x522 1 0x523 0 0, PUCase 0x524 1 0x525 0 0,
    PUCase 0x526 1 0x527 0 0, PUCase 0x528 1 0x529 0 0, PUCase 0x52A 1 0x52B 0 0,
    PUCase 0x52C 1 0x52D 0 0, PUCase 0x52E 1 0x52F 0 0, PUCase 0x531 1 0x561 0 0,
    PUCase 0x532 1 0x562 0 0, PUCase 0x533 1 0x563 0 0, PUCase 0x534 1 0x564 0 0,
    PUCase 0x535 1 0x565 0 0, PUCase 0x536 1 0x566 0 0, PUCase 0x537 1 0x567 0 0,
    PUCase 0x538 1 0x568 0 0, PUCase 0x539 1 0x569 0 0, PUCase 0x53A 1 0x56A 0 0,
    PUCase 0x53B 1 0x56B 0 0, PUCase 0x53C 1 0x56C 0 0, PUCase 0x53D 1 0x56D 0 0,
    PUCase 0x53E 1 0x56E 0 0, PUCase 0x53F 1 0x56F 0 0, PUCase 0x540 1 0x570 0 0,
    PUCase 0x541 1 0x571 0 0, PUCase 0x542 1 0x572 0 0, PUCase 0x543 1 0x573 0 0,
    PUCase 0x544 1 0x574 0 0, PUCase 0x545 1 0x575 0 0, PUCase 0x546 1 0x576 0 0,
    PUCase 0x547 1 0x577 0 0, PUCase 0x548 1 0x578 0 0, PUCase 0x549 1 0x579 0 0,
    PUCase 0x54A 1 0x57A 0 0, PUCase 0x54B 1 0x57B 0 0, PUCase 0x54C 1 0x57C 0 0,
    PUCase 0x54D 1 0x57D 0 0, PUCase 0x54E 1 0x57E 0 0, PUCase 0x54F 1 0x57F 0 0,
    PUCase 0x550 1 0x580 0 0, PUCase 0x551 1 0x581 0 0, PUCase 0x552 1 0x582 0 0,
    PUCase 0x553 1 0x583 0 0, PUCase 0x554 1 0x584 0 0, PUCase 0x555 1 0x585 0 0,
    PUCase 0x556 1 0x586 0 0, PUCase 0x10A0 1 0x2D00 0 0, PUCase 0x10A1 1 0x2D01 0 0,
    PUCase 0x10A2 1 0x2D02 0 0, PUCase 0x10A3 1 0x2D03 0 0, PUCase 0x10A4 1 0x2D04 0 0,
    PUCase 0x10A5 1 0x2D05 0 0, PUCase 0x10A6 1 0x2D06 0 0, PUCase 0x10A7 1 0x2D07 0 0,
    PUCase 0x10A8 1 0x2D08 0 0, PUCase 0x10A9 1 0x2D09 0 0, PUCase 0x10AA 1 0x2D0A 0 0,
    PUCase 0x10AB 1 0x2D0B 0 0, PUCase 0x10AC 1 0x2D0C 0 0, PUCase 0x10AD 1 0x2D0D 0 0,
    PUCase 0x10AE 1 0x2D0E 0 0, PUCase 0x10AF 1 0x2D0F 0 0, PUCase 0x10B0 1 0x2D10 0 0,
    PUCase 0x10B1 1 0x2D11 0 0, PUCase 0x10B2 1 0x2D12 0 0, PUCase 0x10B3 1 0x2D13 0 0,
    PUCase 0x10B4 1 0x2D14 0 0, PUCase 0x10B5 1 0x2D15 0 0, PUCase 0x10B6 1 0x2D16 0 0,
    PUCase 0x10B7 1 0x2D17 0 0, PUCase 0x10B8 1 0x2D18 0 0, PUCase 0x10B9 1 0x2D19 0 0,
    PUCase 0x10BA 1 0x2D1A 0 0, PUCase 0x10BB 1 0x2D1B 0 0, PUCase 0x10BC 1 0x2D1C 0 0,
    PUCase 0x10BD 1 0x2D1D 0 0, PUCase 0x10BE 1 0x2D1E 0 0, PUCase 0x10BF 1 0x2D1F 0 0,
    PUCase 0x10C0 1 0x2D20 0 0, PUCase 0x10C1 1 0x2D21 0 0, PUCase 0x10C2 1 0x2D22 0 0,
    PUCase 0x10C3 1 0x2D23 0 0, PUCase 0x10C4 1 0x2D24 0 0, PUCase 0x10C5 1 0x2D25 0 0,
    PUCase 0x10C7 1 0x2D27 0 0, PUCase 0x10CD 1 0x2D2D 0 0, PUCase 0x13A0 1 0xAB70 0 0,
    PUCase 0x13A1 1 0xAB71 0 0, PUCase 0x13A2 1 0xAB72 0 0]"

definition pas_u_lower_4 :: "pas_u_case list" where
  "pas_u_lower_4 = [
    PUCase 0x13A3 1 0xAB73 0 0, PUCase 0x13A4 1 0xAB74 0 0, PUCase 0x13A5 1 0xAB75 0 0,
    PUCase 0x13A6 1 0xAB76 0 0, PUCase 0x13A7 1 0xAB77 0 0, PUCase 0x13A8 1 0xAB78 0 0,
    PUCase 0x13A9 1 0xAB79 0 0, PUCase 0x13AA 1 0xAB7A 0 0, PUCase 0x13AB 1 0xAB7B 0 0,
    PUCase 0x13AC 1 0xAB7C 0 0, PUCase 0x13AD 1 0xAB7D 0 0, PUCase 0x13AE 1 0xAB7E 0 0,
    PUCase 0x13AF 1 0xAB7F 0 0, PUCase 0x13B0 1 0xAB80 0 0, PUCase 0x13B1 1 0xAB81 0 0,
    PUCase 0x13B2 1 0xAB82 0 0, PUCase 0x13B3 1 0xAB83 0 0, PUCase 0x13B4 1 0xAB84 0 0,
    PUCase 0x13B5 1 0xAB85 0 0, PUCase 0x13B6 1 0xAB86 0 0, PUCase 0x13B7 1 0xAB87 0 0,
    PUCase 0x13B8 1 0xAB88 0 0, PUCase 0x13B9 1 0xAB89 0 0, PUCase 0x13BA 1 0xAB8A 0 0,
    PUCase 0x13BB 1 0xAB8B 0 0, PUCase 0x13BC 1 0xAB8C 0 0, PUCase 0x13BD 1 0xAB8D 0 0,
    PUCase 0x13BE 1 0xAB8E 0 0, PUCase 0x13BF 1 0xAB8F 0 0, PUCase 0x13C0 1 0xAB90 0 0,
    PUCase 0x13C1 1 0xAB91 0 0, PUCase 0x13C2 1 0xAB92 0 0, PUCase 0x13C3 1 0xAB93 0 0,
    PUCase 0x13C4 1 0xAB94 0 0, PUCase 0x13C5 1 0xAB95 0 0, PUCase 0x13C6 1 0xAB96 0 0,
    PUCase 0x13C7 1 0xAB97 0 0, PUCase 0x13C8 1 0xAB98 0 0, PUCase 0x13C9 1 0xAB99 0 0,
    PUCase 0x13CA 1 0xAB9A 0 0, PUCase 0x13CB 1 0xAB9B 0 0, PUCase 0x13CC 1 0xAB9C 0 0,
    PUCase 0x13CD 1 0xAB9D 0 0, PUCase 0x13CE 1 0xAB9E 0 0, PUCase 0x13CF 1 0xAB9F 0 0,
    PUCase 0x13D0 1 0xABA0 0 0, PUCase 0x13D1 1 0xABA1 0 0, PUCase 0x13D2 1 0xABA2 0 0,
    PUCase 0x13D3 1 0xABA3 0 0, PUCase 0x13D4 1 0xABA4 0 0, PUCase 0x13D5 1 0xABA5 0 0,
    PUCase 0x13D6 1 0xABA6 0 0, PUCase 0x13D7 1 0xABA7 0 0, PUCase 0x13D8 1 0xABA8 0 0,
    PUCase 0x13D9 1 0xABA9 0 0, PUCase 0x13DA 1 0xABAA 0 0, PUCase 0x13DB 1 0xABAB 0 0,
    PUCase 0x13DC 1 0xABAC 0 0, PUCase 0x13DD 1 0xABAD 0 0, PUCase 0x13DE 1 0xABAE 0 0,
    PUCase 0x13DF 1 0xABAF 0 0, PUCase 0x13E0 1 0xABB0 0 0, PUCase 0x13E1 1 0xABB1 0 0,
    PUCase 0x13E2 1 0xABB2 0 0, PUCase 0x13E3 1 0xABB3 0 0, PUCase 0x13E4 1 0xABB4 0 0,
    PUCase 0x13E5 1 0xABB5 0 0, PUCase 0x13E6 1 0xABB6 0 0, PUCase 0x13E7 1 0xABB7 0 0,
    PUCase 0x13E8 1 0xABB8 0 0, PUCase 0x13E9 1 0xABB9 0 0, PUCase 0x13EA 1 0xABBA 0 0,
    PUCase 0x13EB 1 0xABBB 0 0, PUCase 0x13EC 1 0xABBC 0 0, PUCase 0x13ED 1 0xABBD 0 0,
    PUCase 0x13EE 1 0xABBE 0 0, PUCase 0x13EF 1 0xABBF 0 0, PUCase 0x13F0 1 0x13F8 0 0,
    PUCase 0x13F1 1 0x13F9 0 0, PUCase 0x13F2 1 0x13FA 0 0, PUCase 0x13F3 1 0x13FB 0 0,
    PUCase 0x13F4 1 0x13FC 0 0, PUCase 0x13F5 1 0x13FD 0 0, PUCase 0x1C89 1 0x1C8A 0 0,
    PUCase 0x1C90 1 0x10D0 0 0, PUCase 0x1C91 1 0x10D1 0 0, PUCase 0x1C92 1 0x10D2 0 0,
    PUCase 0x1C93 1 0x10D3 0 0, PUCase 0x1C94 1 0x10D4 0 0, PUCase 0x1C95 1 0x10D5 0 0,
    PUCase 0x1C96 1 0x10D6 0 0, PUCase 0x1C97 1 0x10D7 0 0, PUCase 0x1C98 1 0x10D8 0 0,
    PUCase 0x1C99 1 0x10D9 0 0, PUCase 0x1C9A 1 0x10DA 0 0, PUCase 0x1C9B 1 0x10DB 0 0,
    PUCase 0x1C9C 1 0x10DC 0 0, PUCase 0x1C9D 1 0x10DD 0 0, PUCase 0x1C9E 1 0x10DE 0 0,
    PUCase 0x1C9F 1 0x10DF 0 0, PUCase 0x1CA0 1 0x10E0 0 0, PUCase 0x1CA1 1 0x10E1 0 0,
    PUCase 0x1CA2 1 0x10E2 0 0, PUCase 0x1CA3 1 0x10E3 0 0, PUCase 0x1CA4 1 0x10E4 0 0,
    PUCase 0x1CA5 1 0x10E5 0 0, PUCase 0x1CA6 1 0x10E6 0 0, PUCase 0x1CA7 1 0x10E7 0 0,
    PUCase 0x1CA8 1 0x10E8 0 0, PUCase 0x1CA9 1 0x10E9 0 0, PUCase 0x1CAA 1 0x10EA 0 0,
    PUCase 0x1CAB 1 0x10EB 0 0, PUCase 0x1CAC 1 0x10EC 0 0, PUCase 0x1CAD 1 0x10ED 0 0,
    PUCase 0x1CAE 1 0x10EE 0 0, PUCase 0x1CAF 1 0x10EF 0 0, PUCase 0x1CB0 1 0x10F0 0 0,
    PUCase 0x1CB1 1 0x10F1 0 0, PUCase 0x1CB2 1 0x10F2 0 0, PUCase 0x1CB3 1 0x10F3 0 0,
    PUCase 0x1CB4 1 0x10F4 0 0, PUCase 0x1CB5 1 0x10F5 0 0, PUCase 0x1CB6 1 0x10F6 0 0,
    PUCase 0x1CB7 1 0x10F7 0 0, PUCase 0x1CB8 1 0x10F8 0 0, PUCase 0x1CB9 1 0x10F9 0 0,
    PUCase 0x1CBA 1 0x10FA 0 0, PUCase 0x1CBD 1 0x10FD 0 0]"

definition pas_u_lower_5 :: "pas_u_case list" where
  "pas_u_lower_5 = [
    PUCase 0x1CBE 1 0x10FE 0 0, PUCase 0x1CBF 1 0x10FF 0 0, PUCase 0x1E00 1 0x1E01 0 0,
    PUCase 0x1E02 1 0x1E03 0 0, PUCase 0x1E04 1 0x1E05 0 0, PUCase 0x1E06 1 0x1E07 0 0,
    PUCase 0x1E08 1 0x1E09 0 0, PUCase 0x1E0A 1 0x1E0B 0 0, PUCase 0x1E0C 1 0x1E0D 0 0,
    PUCase 0x1E0E 1 0x1E0F 0 0, PUCase 0x1E10 1 0x1E11 0 0, PUCase 0x1E12 1 0x1E13 0 0,
    PUCase 0x1E14 1 0x1E15 0 0, PUCase 0x1E16 1 0x1E17 0 0, PUCase 0x1E18 1 0x1E19 0 0,
    PUCase 0x1E1A 1 0x1E1B 0 0, PUCase 0x1E1C 1 0x1E1D 0 0, PUCase 0x1E1E 1 0x1E1F 0 0,
    PUCase 0x1E20 1 0x1E21 0 0, PUCase 0x1E22 1 0x1E23 0 0, PUCase 0x1E24 1 0x1E25 0 0,
    PUCase 0x1E26 1 0x1E27 0 0, PUCase 0x1E28 1 0x1E29 0 0, PUCase 0x1E2A 1 0x1E2B 0 0,
    PUCase 0x1E2C 1 0x1E2D 0 0, PUCase 0x1E2E 1 0x1E2F 0 0, PUCase 0x1E30 1 0x1E31 0 0,
    PUCase 0x1E32 1 0x1E33 0 0, PUCase 0x1E34 1 0x1E35 0 0, PUCase 0x1E36 1 0x1E37 0 0,
    PUCase 0x1E38 1 0x1E39 0 0, PUCase 0x1E3A 1 0x1E3B 0 0, PUCase 0x1E3C 1 0x1E3D 0 0,
    PUCase 0x1E3E 1 0x1E3F 0 0, PUCase 0x1E40 1 0x1E41 0 0, PUCase 0x1E42 1 0x1E43 0 0,
    PUCase 0x1E44 1 0x1E45 0 0, PUCase 0x1E46 1 0x1E47 0 0, PUCase 0x1E48 1 0x1E49 0 0,
    PUCase 0x1E4A 1 0x1E4B 0 0, PUCase 0x1E4C 1 0x1E4D 0 0, PUCase 0x1E4E 1 0x1E4F 0 0,
    PUCase 0x1E50 1 0x1E51 0 0, PUCase 0x1E52 1 0x1E53 0 0, PUCase 0x1E54 1 0x1E55 0 0,
    PUCase 0x1E56 1 0x1E57 0 0, PUCase 0x1E58 1 0x1E59 0 0, PUCase 0x1E5A 1 0x1E5B 0 0,
    PUCase 0x1E5C 1 0x1E5D 0 0, PUCase 0x1E5E 1 0x1E5F 0 0, PUCase 0x1E60 1 0x1E61 0 0,
    PUCase 0x1E62 1 0x1E63 0 0, PUCase 0x1E64 1 0x1E65 0 0, PUCase 0x1E66 1 0x1E67 0 0,
    PUCase 0x1E68 1 0x1E69 0 0, PUCase 0x1E6A 1 0x1E6B 0 0, PUCase 0x1E6C 1 0x1E6D 0 0,
    PUCase 0x1E6E 1 0x1E6F 0 0, PUCase 0x1E70 1 0x1E71 0 0, PUCase 0x1E72 1 0x1E73 0 0,
    PUCase 0x1E74 1 0x1E75 0 0, PUCase 0x1E76 1 0x1E77 0 0, PUCase 0x1E78 1 0x1E79 0 0,
    PUCase 0x1E7A 1 0x1E7B 0 0, PUCase 0x1E7C 1 0x1E7D 0 0, PUCase 0x1E7E 1 0x1E7F 0 0,
    PUCase 0x1E80 1 0x1E81 0 0, PUCase 0x1E82 1 0x1E83 0 0, PUCase 0x1E84 1 0x1E85 0 0,
    PUCase 0x1E86 1 0x1E87 0 0, PUCase 0x1E88 1 0x1E89 0 0, PUCase 0x1E8A 1 0x1E8B 0 0,
    PUCase 0x1E8C 1 0x1E8D 0 0, PUCase 0x1E8E 1 0x1E8F 0 0, PUCase 0x1E90 1 0x1E91 0 0,
    PUCase 0x1E92 1 0x1E93 0 0, PUCase 0x1E94 1 0x1E95 0 0, PUCase 0x1E9E 1 0xDF 0 0,
    PUCase 0x1EA0 1 0x1EA1 0 0, PUCase 0x1EA2 1 0x1EA3 0 0, PUCase 0x1EA4 1 0x1EA5 0 0,
    PUCase 0x1EA6 1 0x1EA7 0 0, PUCase 0x1EA8 1 0x1EA9 0 0, PUCase 0x1EAA 1 0x1EAB 0 0,
    PUCase 0x1EAC 1 0x1EAD 0 0, PUCase 0x1EAE 1 0x1EAF 0 0, PUCase 0x1EB0 1 0x1EB1 0 0,
    PUCase 0x1EB2 1 0x1EB3 0 0, PUCase 0x1EB4 1 0x1EB5 0 0, PUCase 0x1EB6 1 0x1EB7 0 0,
    PUCase 0x1EB8 1 0x1EB9 0 0, PUCase 0x1EBA 1 0x1EBB 0 0, PUCase 0x1EBC 1 0x1EBD 0 0,
    PUCase 0x1EBE 1 0x1EBF 0 0, PUCase 0x1EC0 1 0x1EC1 0 0, PUCase 0x1EC2 1 0x1EC3 0 0,
    PUCase 0x1EC4 1 0x1EC5 0 0, PUCase 0x1EC6 1 0x1EC7 0 0, PUCase 0x1EC8 1 0x1EC9 0 0,
    PUCase 0x1ECA 1 0x1ECB 0 0, PUCase 0x1ECC 1 0x1ECD 0 0, PUCase 0x1ECE 1 0x1ECF 0 0,
    PUCase 0x1ED0 1 0x1ED1 0 0, PUCase 0x1ED2 1 0x1ED3 0 0, PUCase 0x1ED4 1 0x1ED5 0 0,
    PUCase 0x1ED6 1 0x1ED7 0 0, PUCase 0x1ED8 1 0x1ED9 0 0, PUCase 0x1EDA 1 0x1EDB 0 0,
    PUCase 0x1EDC 1 0x1EDD 0 0, PUCase 0x1EDE 1 0x1EDF 0 0, PUCase 0x1EE0 1 0x1EE1 0 0,
    PUCase 0x1EE2 1 0x1EE3 0 0, PUCase 0x1EE4 1 0x1EE5 0 0, PUCase 0x1EE6 1 0x1EE7 0 0,
    PUCase 0x1EE8 1 0x1EE9 0 0, PUCase 0x1EEA 1 0x1EEB 0 0, PUCase 0x1EEC 1 0x1EED 0 0,
    PUCase 0x1EEE 1 0x1EEF 0 0, PUCase 0x1EF0 1 0x1EF1 0 0, PUCase 0x1EF2 1 0x1EF3 0 0,
    PUCase 0x1EF4 1 0x1EF5 0 0, PUCase 0x1EF6 1 0x1EF7 0 0, PUCase 0x1EF8 1 0x1EF9 0 0,
    PUCase 0x1EFA 1 0x1EFB 0 0, PUCase 0x1EFC 1 0x1EFD 0 0, PUCase 0x1EFE 1 0x1EFF 0 0,
    PUCase 0x1F08 1 0x1F00 0 0, PUCase 0x1F09 1 0x1F01 0 0]"

definition pas_u_lower_6 :: "pas_u_case list" where
  "pas_u_lower_6 = [
    PUCase 0x1F0A 1 0x1F02 0 0, PUCase 0x1F0B 1 0x1F03 0 0, PUCase 0x1F0C 1 0x1F04 0 0,
    PUCase 0x1F0D 1 0x1F05 0 0, PUCase 0x1F0E 1 0x1F06 0 0, PUCase 0x1F0F 1 0x1F07 0 0,
    PUCase 0x1F18 1 0x1F10 0 0, PUCase 0x1F19 1 0x1F11 0 0, PUCase 0x1F1A 1 0x1F12 0 0,
    PUCase 0x1F1B 1 0x1F13 0 0, PUCase 0x1F1C 1 0x1F14 0 0, PUCase 0x1F1D 1 0x1F15 0 0,
    PUCase 0x1F28 1 0x1F20 0 0, PUCase 0x1F29 1 0x1F21 0 0, PUCase 0x1F2A 1 0x1F22 0 0,
    PUCase 0x1F2B 1 0x1F23 0 0, PUCase 0x1F2C 1 0x1F24 0 0, PUCase 0x1F2D 1 0x1F25 0 0,
    PUCase 0x1F2E 1 0x1F26 0 0, PUCase 0x1F2F 1 0x1F27 0 0, PUCase 0x1F38 1 0x1F30 0 0,
    PUCase 0x1F39 1 0x1F31 0 0, PUCase 0x1F3A 1 0x1F32 0 0, PUCase 0x1F3B 1 0x1F33 0 0,
    PUCase 0x1F3C 1 0x1F34 0 0, PUCase 0x1F3D 1 0x1F35 0 0, PUCase 0x1F3E 1 0x1F36 0 0,
    PUCase 0x1F3F 1 0x1F37 0 0, PUCase 0x1F48 1 0x1F40 0 0, PUCase 0x1F49 1 0x1F41 0 0,
    PUCase 0x1F4A 1 0x1F42 0 0, PUCase 0x1F4B 1 0x1F43 0 0, PUCase 0x1F4C 1 0x1F44 0 0,
    PUCase 0x1F4D 1 0x1F45 0 0, PUCase 0x1F59 1 0x1F51 0 0, PUCase 0x1F5B 1 0x1F53 0 0,
    PUCase 0x1F5D 1 0x1F55 0 0, PUCase 0x1F5F 1 0x1F57 0 0, PUCase 0x1F68 1 0x1F60 0 0,
    PUCase 0x1F69 1 0x1F61 0 0, PUCase 0x1F6A 1 0x1F62 0 0, PUCase 0x1F6B 1 0x1F63 0 0,
    PUCase 0x1F6C 1 0x1F64 0 0, PUCase 0x1F6D 1 0x1F65 0 0, PUCase 0x1F6E 1 0x1F66 0 0,
    PUCase 0x1F6F 1 0x1F67 0 0, PUCase 0x1F88 1 0x1F80 0 0, PUCase 0x1F89 1 0x1F81 0 0,
    PUCase 0x1F8A 1 0x1F82 0 0, PUCase 0x1F8B 1 0x1F83 0 0, PUCase 0x1F8C 1 0x1F84 0 0,
    PUCase 0x1F8D 1 0x1F85 0 0, PUCase 0x1F8E 1 0x1F86 0 0, PUCase 0x1F8F 1 0x1F87 0 0,
    PUCase 0x1F98 1 0x1F90 0 0, PUCase 0x1F99 1 0x1F91 0 0, PUCase 0x1F9A 1 0x1F92 0 0,
    PUCase 0x1F9B 1 0x1F93 0 0, PUCase 0x1F9C 1 0x1F94 0 0, PUCase 0x1F9D 1 0x1F95 0 0,
    PUCase 0x1F9E 1 0x1F96 0 0, PUCase 0x1F9F 1 0x1F97 0 0, PUCase 0x1FA8 1 0x1FA0 0 0,
    PUCase 0x1FA9 1 0x1FA1 0 0, PUCase 0x1FAA 1 0x1FA2 0 0, PUCase 0x1FAB 1 0x1FA3 0 0,
    PUCase 0x1FAC 1 0x1FA4 0 0, PUCase 0x1FAD 1 0x1FA5 0 0, PUCase 0x1FAE 1 0x1FA6 0 0,
    PUCase 0x1FAF 1 0x1FA7 0 0, PUCase 0x1FB8 1 0x1FB0 0 0, PUCase 0x1FB9 1 0x1FB1 0 0,
    PUCase 0x1FBA 1 0x1F70 0 0, PUCase 0x1FBB 1 0x1F71 0 0, PUCase 0x1FBC 1 0x1FB3 0 0,
    PUCase 0x1FC8 1 0x1F72 0 0, PUCase 0x1FC9 1 0x1F73 0 0, PUCase 0x1FCA 1 0x1F74 0 0,
    PUCase 0x1FCB 1 0x1F75 0 0, PUCase 0x1FCC 1 0x1FC3 0 0, PUCase 0x1FD8 1 0x1FD0 0 0,
    PUCase 0x1FD9 1 0x1FD1 0 0, PUCase 0x1FDA 1 0x1F76 0 0, PUCase 0x1FDB 1 0x1F77 0 0,
    PUCase 0x1FE8 1 0x1FE0 0 0, PUCase 0x1FE9 1 0x1FE1 0 0, PUCase 0x1FEA 1 0x1F7A 0 0,
    PUCase 0x1FEB 1 0x1F7B 0 0, PUCase 0x1FEC 1 0x1FE5 0 0, PUCase 0x1FF8 1 0x1F78 0 0,
    PUCase 0x1FF9 1 0x1F79 0 0, PUCase 0x1FFA 1 0x1F7C 0 0, PUCase 0x1FFB 1 0x1F7D 0 0,
    PUCase 0x1FFC 1 0x1FF3 0 0, PUCase 0x2126 1 0x3C9 0 0, PUCase 0x212A 1 0x6B 0 0,
    PUCase 0x212B 1 0xE5 0 0, PUCase 0x2132 1 0x214E 0 0, PUCase 0x2160 1 0x2170 0 0,
    PUCase 0x2161 1 0x2171 0 0, PUCase 0x2162 1 0x2172 0 0, PUCase 0x2163 1 0x2173 0 0,
    PUCase 0x2164 1 0x2174 0 0, PUCase 0x2165 1 0x2175 0 0, PUCase 0x2166 1 0x2176 0 0,
    PUCase 0x2167 1 0x2177 0 0, PUCase 0x2168 1 0x2178 0 0, PUCase 0x2169 1 0x2179 0 0,
    PUCase 0x216A 1 0x217A 0 0, PUCase 0x216B 1 0x217B 0 0, PUCase 0x216C 1 0x217C 0 0,
    PUCase 0x216D 1 0x217D 0 0, PUCase 0x216E 1 0x217E 0 0, PUCase 0x216F 1 0x217F 0 0,
    PUCase 0x2183 1 0x2184 0 0, PUCase 0x24B6 1 0x24D0 0 0, PUCase 0x24B7 1 0x24D1 0 0,
    PUCase 0x24B8 1 0x24D2 0 0, PUCase 0x24B9 1 0x24D3 0 0, PUCase 0x24BA 1 0x24D4 0 0,
    PUCase 0x24BB 1 0x24D5 0 0, PUCase 0x24BC 1 0x24D6 0 0, PUCase 0x24BD 1 0x24D7 0 0,
    PUCase 0x24BE 1 0x24D8 0 0, PUCase 0x24BF 1 0x24D9 0 0, PUCase 0x24C0 1 0x24DA 0 0,
    PUCase 0x24C1 1 0x24DB 0 0, PUCase 0x24C2 1 0x24DC 0 0]"

definition pas_u_lower_7 :: "pas_u_case list" where
  "pas_u_lower_7 = [
    PUCase 0x24C3 1 0x24DD 0 0, PUCase 0x24C4 1 0x24DE 0 0, PUCase 0x24C5 1 0x24DF 0 0,
    PUCase 0x24C6 1 0x24E0 0 0, PUCase 0x24C7 1 0x24E1 0 0, PUCase 0x24C8 1 0x24E2 0 0,
    PUCase 0x24C9 1 0x24E3 0 0, PUCase 0x24CA 1 0x24E4 0 0, PUCase 0x24CB 1 0x24E5 0 0,
    PUCase 0x24CC 1 0x24E6 0 0, PUCase 0x24CD 1 0x24E7 0 0, PUCase 0x24CE 1 0x24E8 0 0,
    PUCase 0x24CF 1 0x24E9 0 0, PUCase 0x2C00 1 0x2C30 0 0, PUCase 0x2C01 1 0x2C31 0 0,
    PUCase 0x2C02 1 0x2C32 0 0, PUCase 0x2C03 1 0x2C33 0 0, PUCase 0x2C04 1 0x2C34 0 0,
    PUCase 0x2C05 1 0x2C35 0 0, PUCase 0x2C06 1 0x2C36 0 0, PUCase 0x2C07 1 0x2C37 0 0,
    PUCase 0x2C08 1 0x2C38 0 0, PUCase 0x2C09 1 0x2C39 0 0, PUCase 0x2C0A 1 0x2C3A 0 0,
    PUCase 0x2C0B 1 0x2C3B 0 0, PUCase 0x2C0C 1 0x2C3C 0 0, PUCase 0x2C0D 1 0x2C3D 0 0,
    PUCase 0x2C0E 1 0x2C3E 0 0, PUCase 0x2C0F 1 0x2C3F 0 0, PUCase 0x2C10 1 0x2C40 0 0,
    PUCase 0x2C11 1 0x2C41 0 0, PUCase 0x2C12 1 0x2C42 0 0, PUCase 0x2C13 1 0x2C43 0 0,
    PUCase 0x2C14 1 0x2C44 0 0, PUCase 0x2C15 1 0x2C45 0 0, PUCase 0x2C16 1 0x2C46 0 0,
    PUCase 0x2C17 1 0x2C47 0 0, PUCase 0x2C18 1 0x2C48 0 0, PUCase 0x2C19 1 0x2C49 0 0,
    PUCase 0x2C1A 1 0x2C4A 0 0, PUCase 0x2C1B 1 0x2C4B 0 0, PUCase 0x2C1C 1 0x2C4C 0 0,
    PUCase 0x2C1D 1 0x2C4D 0 0, PUCase 0x2C1E 1 0x2C4E 0 0, PUCase 0x2C1F 1 0x2C4F 0 0,
    PUCase 0x2C20 1 0x2C50 0 0, PUCase 0x2C21 1 0x2C51 0 0, PUCase 0x2C22 1 0x2C52 0 0,
    PUCase 0x2C23 1 0x2C53 0 0, PUCase 0x2C24 1 0x2C54 0 0, PUCase 0x2C25 1 0x2C55 0 0,
    PUCase 0x2C26 1 0x2C56 0 0, PUCase 0x2C27 1 0x2C57 0 0, PUCase 0x2C28 1 0x2C58 0 0,
    PUCase 0x2C29 1 0x2C59 0 0, PUCase 0x2C2A 1 0x2C5A 0 0, PUCase 0x2C2B 1 0x2C5B 0 0,
    PUCase 0x2C2C 1 0x2C5C 0 0, PUCase 0x2C2D 1 0x2C5D 0 0, PUCase 0x2C2E 1 0x2C5E 0 0,
    PUCase 0x2C2F 1 0x2C5F 0 0, PUCase 0x2C60 1 0x2C61 0 0, PUCase 0x2C62 1 0x26B 0 0,
    PUCase 0x2C63 1 0x1D7D 0 0, PUCase 0x2C64 1 0x27D 0 0, PUCase 0x2C67 1 0x2C68 0 0,
    PUCase 0x2C69 1 0x2C6A 0 0, PUCase 0x2C6B 1 0x2C6C 0 0, PUCase 0x2C6D 1 0x251 0 0,
    PUCase 0x2C6E 1 0x271 0 0, PUCase 0x2C6F 1 0x250 0 0, PUCase 0x2C70 1 0x252 0 0,
    PUCase 0x2C72 1 0x2C73 0 0, PUCase 0x2C75 1 0x2C76 0 0, PUCase 0x2C7E 1 0x23F 0 0,
    PUCase 0x2C7F 1 0x240 0 0, PUCase 0x2C80 1 0x2C81 0 0, PUCase 0x2C82 1 0x2C83 0 0,
    PUCase 0x2C84 1 0x2C85 0 0, PUCase 0x2C86 1 0x2C87 0 0, PUCase 0x2C88 1 0x2C89 0 0,
    PUCase 0x2C8A 1 0x2C8B 0 0, PUCase 0x2C8C 1 0x2C8D 0 0, PUCase 0x2C8E 1 0x2C8F 0 0,
    PUCase 0x2C90 1 0x2C91 0 0, PUCase 0x2C92 1 0x2C93 0 0, PUCase 0x2C94 1 0x2C95 0 0,
    PUCase 0x2C96 1 0x2C97 0 0, PUCase 0x2C98 1 0x2C99 0 0, PUCase 0x2C9A 1 0x2C9B 0 0,
    PUCase 0x2C9C 1 0x2C9D 0 0, PUCase 0x2C9E 1 0x2C9F 0 0, PUCase 0x2CA0 1 0x2CA1 0 0,
    PUCase 0x2CA2 1 0x2CA3 0 0, PUCase 0x2CA4 1 0x2CA5 0 0, PUCase 0x2CA6 1 0x2CA7 0 0,
    PUCase 0x2CA8 1 0x2CA9 0 0, PUCase 0x2CAA 1 0x2CAB 0 0, PUCase 0x2CAC 1 0x2CAD 0 0,
    PUCase 0x2CAE 1 0x2CAF 0 0, PUCase 0x2CB0 1 0x2CB1 0 0, PUCase 0x2CB2 1 0x2CB3 0 0,
    PUCase 0x2CB4 1 0x2CB5 0 0, PUCase 0x2CB6 1 0x2CB7 0 0, PUCase 0x2CB8 1 0x2CB9 0 0,
    PUCase 0x2CBA 1 0x2CBB 0 0, PUCase 0x2CBC 1 0x2CBD 0 0, PUCase 0x2CBE 1 0x2CBF 0 0,
    PUCase 0x2CC0 1 0x2CC1 0 0, PUCase 0x2CC2 1 0x2CC3 0 0, PUCase 0x2CC4 1 0x2CC5 0 0,
    PUCase 0x2CC6 1 0x2CC7 0 0, PUCase 0x2CC8 1 0x2CC9 0 0, PUCase 0x2CCA 1 0x2CCB 0 0,
    PUCase 0x2CCC 1 0x2CCD 0 0, PUCase 0x2CCE 1 0x2CCF 0 0, PUCase 0x2CD0 1 0x2CD1 0 0,
    PUCase 0x2CD2 1 0x2CD3 0 0, PUCase 0x2CD4 1 0x2CD5 0 0, PUCase 0x2CD6 1 0x2CD7 0 0,
    PUCase 0x2CD8 1 0x2CD9 0 0, PUCase 0x2CDA 1 0x2CDB 0 0, PUCase 0x2CDC 1 0x2CDD 0 0,
    PUCase 0x2CDE 1 0x2CDF 0 0, PUCase 0x2CE0 1 0x2CE1 0 0, PUCase 0x2CE2 1 0x2CE3 0 0,
    PUCase 0x2CEB 1 0x2CEC 0 0, PUCase 0x2CED 1 0x2CEE 0 0]"

definition pas_u_lower_8 :: "pas_u_case list" where
  "pas_u_lower_8 = [
    PUCase 0x2CF2 1 0x2CF3 0 0, PUCase 0xA640 1 0xA641 0 0, PUCase 0xA642 1 0xA643 0 0,
    PUCase 0xA644 1 0xA645 0 0, PUCase 0xA646 1 0xA647 0 0, PUCase 0xA648 1 0xA649 0 0,
    PUCase 0xA64A 1 0xA64B 0 0, PUCase 0xA64C 1 0xA64D 0 0, PUCase 0xA64E 1 0xA64F 0 0,
    PUCase 0xA650 1 0xA651 0 0, PUCase 0xA652 1 0xA653 0 0, PUCase 0xA654 1 0xA655 0 0,
    PUCase 0xA656 1 0xA657 0 0, PUCase 0xA658 1 0xA659 0 0, PUCase 0xA65A 1 0xA65B 0 0,
    PUCase 0xA65C 1 0xA65D 0 0, PUCase 0xA65E 1 0xA65F 0 0, PUCase 0xA660 1 0xA661 0 0,
    PUCase 0xA662 1 0xA663 0 0, PUCase 0xA664 1 0xA665 0 0, PUCase 0xA666 1 0xA667 0 0,
    PUCase 0xA668 1 0xA669 0 0, PUCase 0xA66A 1 0xA66B 0 0, PUCase 0xA66C 1 0xA66D 0 0,
    PUCase 0xA680 1 0xA681 0 0, PUCase 0xA682 1 0xA683 0 0, PUCase 0xA684 1 0xA685 0 0,
    PUCase 0xA686 1 0xA687 0 0, PUCase 0xA688 1 0xA689 0 0, PUCase 0xA68A 1 0xA68B 0 0,
    PUCase 0xA68C 1 0xA68D 0 0, PUCase 0xA68E 1 0xA68F 0 0, PUCase 0xA690 1 0xA691 0 0,
    PUCase 0xA692 1 0xA693 0 0, PUCase 0xA694 1 0xA695 0 0, PUCase 0xA696 1 0xA697 0 0,
    PUCase 0xA698 1 0xA699 0 0, PUCase 0xA69A 1 0xA69B 0 0, PUCase 0xA722 1 0xA723 0 0,
    PUCase 0xA724 1 0xA725 0 0, PUCase 0xA726 1 0xA727 0 0, PUCase 0xA728 1 0xA729 0 0,
    PUCase 0xA72A 1 0xA72B 0 0, PUCase 0xA72C 1 0xA72D 0 0, PUCase 0xA72E 1 0xA72F 0 0,
    PUCase 0xA732 1 0xA733 0 0, PUCase 0xA734 1 0xA735 0 0, PUCase 0xA736 1 0xA737 0 0,
    PUCase 0xA738 1 0xA739 0 0, PUCase 0xA73A 1 0xA73B 0 0, PUCase 0xA73C 1 0xA73D 0 0,
    PUCase 0xA73E 1 0xA73F 0 0, PUCase 0xA740 1 0xA741 0 0, PUCase 0xA742 1 0xA743 0 0,
    PUCase 0xA744 1 0xA745 0 0, PUCase 0xA746 1 0xA747 0 0, PUCase 0xA748 1 0xA749 0 0,
    PUCase 0xA74A 1 0xA74B 0 0, PUCase 0xA74C 1 0xA74D 0 0, PUCase 0xA74E 1 0xA74F 0 0,
    PUCase 0xA750 1 0xA751 0 0, PUCase 0xA752 1 0xA753 0 0, PUCase 0xA754 1 0xA755 0 0,
    PUCase 0xA756 1 0xA757 0 0, PUCase 0xA758 1 0xA759 0 0, PUCase 0xA75A 1 0xA75B 0 0,
    PUCase 0xA75C 1 0xA75D 0 0, PUCase 0xA75E 1 0xA75F 0 0, PUCase 0xA760 1 0xA761 0 0,
    PUCase 0xA762 1 0xA763 0 0, PUCase 0xA764 1 0xA765 0 0, PUCase 0xA766 1 0xA767 0 0,
    PUCase 0xA768 1 0xA769 0 0, PUCase 0xA76A 1 0xA76B 0 0, PUCase 0xA76C 1 0xA76D 0 0,
    PUCase 0xA76E 1 0xA76F 0 0, PUCase 0xA779 1 0xA77A 0 0, PUCase 0xA77B 1 0xA77C 0 0,
    PUCase 0xA77D 1 0x1D79 0 0, PUCase 0xA77E 1 0xA77F 0 0, PUCase 0xA780 1 0xA781 0 0,
    PUCase 0xA782 1 0xA783 0 0, PUCase 0xA784 1 0xA785 0 0, PUCase 0xA786 1 0xA787 0 0,
    PUCase 0xA78B 1 0xA78C 0 0, PUCase 0xA78D 1 0x265 0 0, PUCase 0xA790 1 0xA791 0 0,
    PUCase 0xA792 1 0xA793 0 0, PUCase 0xA796 1 0xA797 0 0, PUCase 0xA798 1 0xA799 0 0,
    PUCase 0xA79A 1 0xA79B 0 0, PUCase 0xA79C 1 0xA79D 0 0, PUCase 0xA79E 1 0xA79F 0 0,
    PUCase 0xA7A0 1 0xA7A1 0 0, PUCase 0xA7A2 1 0xA7A3 0 0, PUCase 0xA7A4 1 0xA7A5 0 0,
    PUCase 0xA7A6 1 0xA7A7 0 0, PUCase 0xA7A8 1 0xA7A9 0 0, PUCase 0xA7AA 1 0x266 0 0,
    PUCase 0xA7AB 1 0x25C 0 0, PUCase 0xA7AC 1 0x261 0 0, PUCase 0xA7AD 1 0x26C 0 0,
    PUCase 0xA7AE 1 0x26A 0 0, PUCase 0xA7B0 1 0x29E 0 0, PUCase 0xA7B1 1 0x287 0 0,
    PUCase 0xA7B2 1 0x29D 0 0, PUCase 0xA7B3 1 0xAB53 0 0, PUCase 0xA7B4 1 0xA7B5 0 0,
    PUCase 0xA7B6 1 0xA7B7 0 0, PUCase 0xA7B8 1 0xA7B9 0 0, PUCase 0xA7BA 1 0xA7BB 0 0,
    PUCase 0xA7BC 1 0xA7BD 0 0, PUCase 0xA7BE 1 0xA7BF 0 0, PUCase 0xA7C0 1 0xA7C1 0 0,
    PUCase 0xA7C2 1 0xA7C3 0 0, PUCase 0xA7C4 1 0xA794 0 0, PUCase 0xA7C5 1 0x282 0 0,
    PUCase 0xA7C6 1 0x1D8E 0 0, PUCase 0xA7C7 1 0xA7C8 0 0, PUCase 0xA7C9 1 0xA7CA 0 0,
    PUCase 0xA7CB 1 0x264 0 0, PUCase 0xA7CC 1 0xA7CD 0 0, PUCase 0xA7CE 1 0xA7CF 0 0,
    PUCase 0xA7D0 1 0xA7D1 0 0, PUCase 0xA7D2 1 0xA7D3 0 0, PUCase 0xA7D4 1 0xA7D5 0 0,
    PUCase 0xA7D6 1 0xA7D7 0 0, PUCase 0xA7D8 1 0xA7D9 0 0]"

definition pas_u_lower_9 :: "pas_u_case list" where
  "pas_u_lower_9 = [
    PUCase 0xA7DA 1 0xA7DB 0 0, PUCase 0xA7DC 1 0x19B 0 0, PUCase 0xA7F5 1 0xA7F6 0 0,
    PUCase 0xFF21 1 0xFF41 0 0, PUCase 0xFF22 1 0xFF42 0 0, PUCase 0xFF23 1 0xFF43 0 0,
    PUCase 0xFF24 1 0xFF44 0 0, PUCase 0xFF25 1 0xFF45 0 0, PUCase 0xFF26 1 0xFF46 0 0,
    PUCase 0xFF27 1 0xFF47 0 0, PUCase 0xFF28 1 0xFF48 0 0, PUCase 0xFF29 1 0xFF49 0 0,
    PUCase 0xFF2A 1 0xFF4A 0 0, PUCase 0xFF2B 1 0xFF4B 0 0, PUCase 0xFF2C 1 0xFF4C 0 0,
    PUCase 0xFF2D 1 0xFF4D 0 0, PUCase 0xFF2E 1 0xFF4E 0 0, PUCase 0xFF2F 1 0xFF4F 0 0,
    PUCase 0xFF30 1 0xFF50 0 0, PUCase 0xFF31 1 0xFF51 0 0, PUCase 0xFF32 1 0xFF52 0 0,
    PUCase 0xFF33 1 0xFF53 0 0, PUCase 0xFF34 1 0xFF54 0 0, PUCase 0xFF35 1 0xFF55 0 0,
    PUCase 0xFF36 1 0xFF56 0 0, PUCase 0xFF37 1 0xFF57 0 0, PUCase 0xFF38 1 0xFF58 0 0,
    PUCase 0xFF39 1 0xFF59 0 0, PUCase 0xFF3A 1 0xFF5A 0 0, PUCase 0x10400 1 0x10428 0 0,
    PUCase 0x10401 1 0x10429 0 0, PUCase 0x10402 1 0x1042A 0 0, PUCase 0x10403 1 0x1042B 0 0,
    PUCase 0x10404 1 0x1042C 0 0, PUCase 0x10405 1 0x1042D 0 0, PUCase 0x10406 1 0x1042E 0 0,
    PUCase 0x10407 1 0x1042F 0 0, PUCase 0x10408 1 0x10430 0 0, PUCase 0x10409 1 0x10431 0 0,
    PUCase 0x1040A 1 0x10432 0 0, PUCase 0x1040B 1 0x10433 0 0, PUCase 0x1040C 1 0x10434 0 0,
    PUCase 0x1040D 1 0x10435 0 0, PUCase 0x1040E 1 0x10436 0 0, PUCase 0x1040F 1 0x10437 0 0,
    PUCase 0x10410 1 0x10438 0 0, PUCase 0x10411 1 0x10439 0 0, PUCase 0x10412 1 0x1043A 0 0,
    PUCase 0x10413 1 0x1043B 0 0, PUCase 0x10414 1 0x1043C 0 0, PUCase 0x10415 1 0x1043D 0 0,
    PUCase 0x10416 1 0x1043E 0 0, PUCase 0x10417 1 0x1043F 0 0, PUCase 0x10418 1 0x10440 0 0,
    PUCase 0x10419 1 0x10441 0 0, PUCase 0x1041A 1 0x10442 0 0, PUCase 0x1041B 1 0x10443 0 0,
    PUCase 0x1041C 1 0x10444 0 0, PUCase 0x1041D 1 0x10445 0 0, PUCase 0x1041E 1 0x10446 0 0,
    PUCase 0x1041F 1 0x10447 0 0, PUCase 0x10420 1 0x10448 0 0, PUCase 0x10421 1 0x10449 0 0,
    PUCase 0x10422 1 0x1044A 0 0, PUCase 0x10423 1 0x1044B 0 0, PUCase 0x10424 1 0x1044C 0 0,
    PUCase 0x10425 1 0x1044D 0 0, PUCase 0x10426 1 0x1044E 0 0, PUCase 0x10427 1 0x1044F 0 0,
    PUCase 0x104B0 1 0x104D8 0 0, PUCase 0x104B1 1 0x104D9 0 0, PUCase 0x104B2 1 0x104DA 0 0,
    PUCase 0x104B3 1 0x104DB 0 0, PUCase 0x104B4 1 0x104DC 0 0, PUCase 0x104B5 1 0x104DD 0 0,
    PUCase 0x104B6 1 0x104DE 0 0, PUCase 0x104B7 1 0x104DF 0 0, PUCase 0x104B8 1 0x104E0 0 0,
    PUCase 0x104B9 1 0x104E1 0 0, PUCase 0x104BA 1 0x104E2 0 0, PUCase 0x104BB 1 0x104E3 0 0,
    PUCase 0x104BC 1 0x104E4 0 0, PUCase 0x104BD 1 0x104E5 0 0, PUCase 0x104BE 1 0x104E6 0 0,
    PUCase 0x104BF 1 0x104E7 0 0, PUCase 0x104C0 1 0x104E8 0 0, PUCase 0x104C1 1 0x104E9 0 0,
    PUCase 0x104C2 1 0x104EA 0 0, PUCase 0x104C3 1 0x104EB 0 0, PUCase 0x104C4 1 0x104EC 0 0,
    PUCase 0x104C5 1 0x104ED 0 0, PUCase 0x104C6 1 0x104EE 0 0, PUCase 0x104C7 1 0x104EF 0 0,
    PUCase 0x104C8 1 0x104F0 0 0, PUCase 0x104C9 1 0x104F1 0 0, PUCase 0x104CA 1 0x104F2 0 0,
    PUCase 0x104CB 1 0x104F3 0 0, PUCase 0x104CC 1 0x104F4 0 0, PUCase 0x104CD 1 0x104F5 0 0,
    PUCase 0x104CE 1 0x104F6 0 0, PUCase 0x104CF 1 0x104F7 0 0, PUCase 0x104D0 1 0x104F8 0 0,
    PUCase 0x104D1 1 0x104F9 0 0, PUCase 0x104D2 1 0x104FA 0 0, PUCase 0x104D3 1 0x104FB 0 0,
    PUCase 0x10570 1 0x10597 0 0, PUCase 0x10571 1 0x10598 0 0, PUCase 0x10572 1 0x10599 0 0,
    PUCase 0x10573 1 0x1059A 0 0, PUCase 0x10574 1 0x1059B 0 0, PUCase 0x10575 1 0x1059C 0 0,
    PUCase 0x10576 1 0x1059D 0 0, PUCase 0x10577 1 0x1059E 0 0, PUCase 0x10578 1 0x1059F 0 0,
    PUCase 0x10579 1 0x105A0 0 0, PUCase 0x1057A 1 0x105A1 0 0, PUCase 0x1057C 1 0x105A3 0 0,
    PUCase 0x1057D 1 0x105A4 0 0, PUCase 0x1057E 1 0x105A5 0 0, PUCase 0x1057F 1 0x105A6 0 0,
    PUCase 0x10580 1 0x105A7 0 0, PUCase 0x10581 1 0x105A8 0 0, PUCase 0x10582 1 0x105A9 0 0,
    PUCase 0x10583 1 0x105AA 0 0, PUCase 0x10584 1 0x105AB 0 0, PUCase 0x10585 1 0x105AC 0 0,
    PUCase 0x10586 1 0x105AD 0 0, PUCase 0x10587 1 0x105AE 0 0]"

definition pas_u_lower_10 :: "pas_u_case list" where
  "pas_u_lower_10 = [
    PUCase 0x10588 1 0x105AF 0 0, PUCase 0x10589 1 0x105B0 0 0, PUCase 0x1058A 1 0x105B1 0 0,
    PUCase 0x1058C 1 0x105B3 0 0, PUCase 0x1058D 1 0x105B4 0 0, PUCase 0x1058E 1 0x105B5 0 0,
    PUCase 0x1058F 1 0x105B6 0 0, PUCase 0x10590 1 0x105B7 0 0, PUCase 0x10591 1 0x105B8 0 0,
    PUCase 0x10592 1 0x105B9 0 0, PUCase 0x10594 1 0x105BB 0 0, PUCase 0x10595 1 0x105BC 0 0,
    PUCase 0x10C80 1 0x10CC0 0 0, PUCase 0x10C81 1 0x10CC1 0 0, PUCase 0x10C82 1 0x10CC2 0 0,
    PUCase 0x10C83 1 0x10CC3 0 0, PUCase 0x10C84 1 0x10CC4 0 0, PUCase 0x10C85 1 0x10CC5 0 0,
    PUCase 0x10C86 1 0x10CC6 0 0, PUCase 0x10C87 1 0x10CC7 0 0, PUCase 0x10C88 1 0x10CC8 0 0,
    PUCase 0x10C89 1 0x10CC9 0 0, PUCase 0x10C8A 1 0x10CCA 0 0, PUCase 0x10C8B 1 0x10CCB 0 0,
    PUCase 0x10C8C 1 0x10CCC 0 0, PUCase 0x10C8D 1 0x10CCD 0 0, PUCase 0x10C8E 1 0x10CCE 0 0,
    PUCase 0x10C8F 1 0x10CCF 0 0, PUCase 0x10C90 1 0x10CD0 0 0, PUCase 0x10C91 1 0x10CD1 0 0,
    PUCase 0x10C92 1 0x10CD2 0 0, PUCase 0x10C93 1 0x10CD3 0 0, PUCase 0x10C94 1 0x10CD4 0 0,
    PUCase 0x10C95 1 0x10CD5 0 0, PUCase 0x10C96 1 0x10CD6 0 0, PUCase 0x10C97 1 0x10CD7 0 0,
    PUCase 0x10C98 1 0x10CD8 0 0, PUCase 0x10C99 1 0x10CD9 0 0, PUCase 0x10C9A 1 0x10CDA 0 0,
    PUCase 0x10C9B 1 0x10CDB 0 0, PUCase 0x10C9C 1 0x10CDC 0 0, PUCase 0x10C9D 1 0x10CDD 0 0,
    PUCase 0x10C9E 1 0x10CDE 0 0, PUCase 0x10C9F 1 0x10CDF 0 0, PUCase 0x10CA0 1 0x10CE0 0 0,
    PUCase 0x10CA1 1 0x10CE1 0 0, PUCase 0x10CA2 1 0x10CE2 0 0, PUCase 0x10CA3 1 0x10CE3 0 0,
    PUCase 0x10CA4 1 0x10CE4 0 0, PUCase 0x10CA5 1 0x10CE5 0 0, PUCase 0x10CA6 1 0x10CE6 0 0,
    PUCase 0x10CA7 1 0x10CE7 0 0, PUCase 0x10CA8 1 0x10CE8 0 0, PUCase 0x10CA9 1 0x10CE9 0 0,
    PUCase 0x10CAA 1 0x10CEA 0 0, PUCase 0x10CAB 1 0x10CEB 0 0, PUCase 0x10CAC 1 0x10CEC 0 0,
    PUCase 0x10CAD 1 0x10CED 0 0, PUCase 0x10CAE 1 0x10CEE 0 0, PUCase 0x10CAF 1 0x10CEF 0 0,
    PUCase 0x10CB0 1 0x10CF0 0 0, PUCase 0x10CB1 1 0x10CF1 0 0, PUCase 0x10CB2 1 0x10CF2 0 0,
    PUCase 0x10D50 1 0x10D70 0 0, PUCase 0x10D51 1 0x10D71 0 0, PUCase 0x10D52 1 0x10D72 0 0,
    PUCase 0x10D53 1 0x10D73 0 0, PUCase 0x10D54 1 0x10D74 0 0, PUCase 0x10D55 1 0x10D75 0 0,
    PUCase 0x10D56 1 0x10D76 0 0, PUCase 0x10D57 1 0x10D77 0 0, PUCase 0x10D58 1 0x10D78 0 0,
    PUCase 0x10D59 1 0x10D79 0 0, PUCase 0x10D5A 1 0x10D7A 0 0, PUCase 0x10D5B 1 0x10D7B 0 0,
    PUCase 0x10D5C 1 0x10D7C 0 0, PUCase 0x10D5D 1 0x10D7D 0 0, PUCase 0x10D5E 1 0x10D7E 0 0,
    PUCase 0x10D5F 1 0x10D7F 0 0, PUCase 0x10D60 1 0x10D80 0 0, PUCase 0x10D61 1 0x10D81 0 0,
    PUCase 0x10D62 1 0x10D82 0 0, PUCase 0x10D63 1 0x10D83 0 0, PUCase 0x10D64 1 0x10D84 0 0,
    PUCase 0x10D65 1 0x10D85 0 0, PUCase 0x118A0 1 0x118C0 0 0, PUCase 0x118A1 1 0x118C1 0 0,
    PUCase 0x118A2 1 0x118C2 0 0, PUCase 0x118A3 1 0x118C3 0 0, PUCase 0x118A4 1 0x118C4 0 0,
    PUCase 0x118A5 1 0x118C5 0 0, PUCase 0x118A6 1 0x118C6 0 0, PUCase 0x118A7 1 0x118C7 0 0,
    PUCase 0x118A8 1 0x118C8 0 0, PUCase 0x118A9 1 0x118C9 0 0, PUCase 0x118AA 1 0x118CA 0 0,
    PUCase 0x118AB 1 0x118CB 0 0, PUCase 0x118AC 1 0x118CC 0 0, PUCase 0x118AD 1 0x118CD 0 0,
    PUCase 0x118AE 1 0x118CE 0 0, PUCase 0x118AF 1 0x118CF 0 0, PUCase 0x118B0 1 0x118D0 0 0,
    PUCase 0x118B1 1 0x118D1 0 0, PUCase 0x118B2 1 0x118D2 0 0, PUCase 0x118B3 1 0x118D3 0 0,
    PUCase 0x118B4 1 0x118D4 0 0, PUCase 0x118B5 1 0x118D5 0 0, PUCase 0x118B6 1 0x118D6 0 0,
    PUCase 0x118B7 1 0x118D7 0 0, PUCase 0x118B8 1 0x118D8 0 0, PUCase 0x118B9 1 0x118D9 0 0,
    PUCase 0x118BA 1 0x118DA 0 0, PUCase 0x118BB 1 0x118DB 0 0, PUCase 0x118BC 1 0x118DC 0 0,
    PUCase 0x118BD 1 0x118DD 0 0, PUCase 0x118BE 1 0x118DE 0 0, PUCase 0x118BF 1 0x118DF 0 0,
    PUCase 0x16E40 1 0x16E60 0 0, PUCase 0x16E41 1 0x16E61 0 0, PUCase 0x16E42 1 0x16E62 0 0,
    PUCase 0x16E43 1 0x16E63 0 0, PUCase 0x16E44 1 0x16E64 0 0, PUCase 0x16E45 1 0x16E65 0 0,
    PUCase 0x16E46 1 0x16E66 0 0, PUCase 0x16E47 1 0x16E67 0 0, PUCase 0x16E48 1 0x16E68 0 0,
    PUCase 0x16E49 1 0x16E69 0 0, PUCase 0x16E4A 1 0x16E6A 0 0]"

definition pas_u_lower_11 :: "pas_u_case list" where
  "pas_u_lower_11 = [
    PUCase 0x16E4B 1 0x16E6B 0 0, PUCase 0x16E4C 1 0x16E6C 0 0, PUCase 0x16E4D 1 0x16E6D 0 0,
    PUCase 0x16E4E 1 0x16E6E 0 0, PUCase 0x16E4F 1 0x16E6F 0 0, PUCase 0x16E50 1 0x16E70 0 0,
    PUCase 0x16E51 1 0x16E71 0 0, PUCase 0x16E52 1 0x16E72 0 0, PUCase 0x16E53 1 0x16E73 0 0,
    PUCase 0x16E54 1 0x16E74 0 0, PUCase 0x16E55 1 0x16E75 0 0, PUCase 0x16E56 1 0x16E76 0 0,
    PUCase 0x16E57 1 0x16E77 0 0, PUCase 0x16E58 1 0x16E78 0 0, PUCase 0x16E59 1 0x16E79 0 0,
    PUCase 0x16E5A 1 0x16E7A 0 0, PUCase 0x16E5B 1 0x16E7B 0 0, PUCase 0x16E5C 1 0x16E7C 0 0,
    PUCase 0x16E5D 1 0x16E7D 0 0, PUCase 0x16E5E 1 0x16E7E 0 0, PUCase 0x16E5F 1 0x16E7F 0 0,
    PUCase 0x16EA0 1 0x16EBB 0 0, PUCase 0x16EA1 1 0x16EBC 0 0, PUCase 0x16EA2 1 0x16EBD 0 0,
    PUCase 0x16EA3 1 0x16EBE 0 0, PUCase 0x16EA4 1 0x16EBF 0 0, PUCase 0x16EA5 1 0x16EC0 0 0,
    PUCase 0x16EA6 1 0x16EC1 0 0, PUCase 0x16EA7 1 0x16EC2 0 0, PUCase 0x16EA8 1 0x16EC3 0 0,
    PUCase 0x16EA9 1 0x16EC4 0 0, PUCase 0x16EAA 1 0x16EC5 0 0, PUCase 0x16EAB 1 0x16EC6 0 0,
    PUCase 0x16EAC 1 0x16EC7 0 0, PUCase 0x16EAD 1 0x16EC8 0 0, PUCase 0x16EAE 1 0x16EC9 0 0,
    PUCase 0x16EAF 1 0x16ECA 0 0, PUCase 0x16EB0 1 0x16ECB 0 0, PUCase 0x16EB1 1 0x16ECC 0 0,
    PUCase 0x16EB2 1 0x16ECD 0 0, PUCase 0x16EB3 1 0x16ECE 0 0, PUCase 0x16EB4 1 0x16ECF 0 0,
    PUCase 0x16EB5 1 0x16ED0 0 0, PUCase 0x16EB6 1 0x16ED1 0 0, PUCase 0x16EB7 1 0x16ED2 0 0,
    PUCase 0x16EB8 1 0x16ED3 0 0, PUCase 0x1E900 1 0x1E922 0 0, PUCase 0x1E901 1 0x1E923 0 0,
    PUCase 0x1E902 1 0x1E924 0 0, PUCase 0x1E903 1 0x1E925 0 0, PUCase 0x1E904 1 0x1E926 0 0,
    PUCase 0x1E905 1 0x1E927 0 0, PUCase 0x1E906 1 0x1E928 0 0, PUCase 0x1E907 1 0x1E929 0 0,
    PUCase 0x1E908 1 0x1E92A 0 0, PUCase 0x1E909 1 0x1E92B 0 0, PUCase 0x1E90A 1 0x1E92C 0 0,
    PUCase 0x1E90B 1 0x1E92D 0 0, PUCase 0x1E90C 1 0x1E92E 0 0, PUCase 0x1E90D 1 0x1E92F 0 0,
    PUCase 0x1E90E 1 0x1E930 0 0, PUCase 0x1E90F 1 0x1E931 0 0, PUCase 0x1E910 1 0x1E932 0 0,
    PUCase 0x1E911 1 0x1E933 0 0, PUCase 0x1E912 1 0x1E934 0 0, PUCase 0x1E913 1 0x1E935 0 0,
    PUCase 0x1E914 1 0x1E936 0 0, PUCase 0x1E915 1 0x1E937 0 0, PUCase 0x1E916 1 0x1E938 0 0,
    PUCase 0x1E917 1 0x1E939 0 0, PUCase 0x1E918 1 0x1E93A 0 0, PUCase 0x1E919 1 0x1E93B 0 0,
    PUCase 0x1E91A 1 0x1E93C 0 0, PUCase 0x1E91B 1 0x1E93D 0 0, PUCase 0x1E91C 1 0x1E93E 0 0,
    PUCase 0x1E91D 1 0x1E93F 0 0, PUCase 0x1E91E 1 0x1E940 0 0, PUCase 0x1E91F 1 0x1E941 0 0,
    PUCase 0x1E920 1 0x1E942 0 0, PUCase 0x1E921 1 0x1E943 0 0]"

definition pas_u_lower :: "pas_u_case list" where
  "pas_u_lower = pas_u_lower_0 @ pas_u_lower_1 @ pas_u_lower_2 @ pas_u_lower_3 @ pas_u_lower_4 @ pas_u_lower_5 @ pas_u_lower_6 @ pas_u_lower_7 @ pas_u_lower_8 @ pas_u_lower_9 @ pas_u_lower_10 @ pas_u_lower_11"

lemma foldt_run_0: "keys_run kcp case_entry_ok 0 pas_u_fold_0 = Some 392"
  by (simp add: pas_u_fold_0_def case_entry_ok_def scalar_def u8len_def)

lemma foldt_run_1: "keys_run kcp case_entry_ok 392 pas_u_fold_1 = Some 925"
  by (simp add: pas_u_fold_1_def case_entry_ok_def scalar_def u8len_def)

lemma foldt_run_2: "keys_run kcp case_entry_ok 925 pas_u_fold_2 = Some 1201"
  by (simp add: pas_u_fold_2_def case_entry_ok_def scalar_def u8len_def)

lemma foldt_run_3: "keys_run kcp case_entry_ok 1201 pas_u_fold_3 = Some 4282"
  by (simp add: pas_u_fold_3_def case_entry_ok_def scalar_def u8len_def)

lemma foldt_run_4: "keys_run kcp case_entry_ok 4282 pas_u_fold_4 = Some 7783"
  by (simp add: pas_u_fold_4_def case_entry_ok_def scalar_def u8len_def)

lemma foldt_run_5: "keys_run kcp case_entry_ok 7783 pas_u_fold_5 = Some 8046"
  by (simp add: pas_u_fold_5_def case_entry_ok_def scalar_def u8len_def)

lemma foldt_run_6: "keys_run kcp case_entry_ok 8046 pas_u_fold_6 = Some 9406"
  by (simp add: pas_u_fold_6_def case_entry_ok_def scalar_def u8len_def)

lemma foldt_run_7: "keys_run kcp case_entry_ok 9406 pas_u_fold_7 = Some 11485"
  by (simp add: pas_u_fold_7_def case_entry_ok_def scalar_def u8len_def)

lemma foldt_run_8: "keys_run kcp case_entry_ok 11485 pas_u_fold_8 = Some 42959"
  by (simp add: pas_u_fold_8_def case_entry_ok_def scalar_def u8len_def)

lemma foldt_run_9: "keys_run kcp case_entry_ok 42959 pas_u_fold_9 = Some 66562"
  by (simp add: pas_u_fold_9_def case_entry_ok_def scalar_def u8len_def)

lemma foldt_run_10: "keys_run kcp case_entry_ok 66562 pas_u_fold_10 = Some 68755"
  by (simp add: pas_u_fold_10_def case_entry_ok_def scalar_def u8len_def)

lemma foldt_run_11: "keys_run kcp case_entry_ok 68755 pas_u_fold_11 = Some 93866"
  by (simp add: pas_u_fold_11_def case_entry_ok_def scalar_def u8len_def)

lemma foldt_run_12: "keys_run kcp case_entry_ok 93866 pas_u_fold_12 = Some 125218"
  by (simp add: pas_u_fold_12_def case_entry_ok_def scalar_def u8len_def)

interpretation foldt: key_table kcp case_entry_ok pas_u_fold
  by unfold_locales (simp add: pas_u_fold_def keys_run_append foldt_run_0 foldt_run_1 foldt_run_2 foldt_run_3 foldt_run_4 foldt_run_5 foldt_run_6 foldt_run_7 foldt_run_8 foldt_run_9 foldt_run_10 foldt_run_11 foldt_run_12)

lemma uppert_run_0: "keys_run kcp case_entry_ok 0 pas_u_upper_0 = Some 397"
  by (simp add: pas_u_upper_0_def case_entry_ok_def scalar_def u8len_def)

lemma uppert_run_1: "keys_run kcp case_entry_ok 397 pas_u_upper_1 = Some 894"
  by (simp add: pas_u_upper_1_def case_entry_ok_def scalar_def u8len_def)

lemma uppert_run_2: "keys_run kcp case_entry_ok 894 pas_u_upper_2 = Some 1168"
  by (simp add: pas_u_upper_2_def case_entry_ok_def scalar_def u8len_def)

lemma uppert_run_3: "keys_run kcp case_entry_ok 1168 pas_u_upper_3 = Some 4313"
  by (simp add: pas_u_upper_3_def case_entry_ok_def scalar_def u8len_def)

lemma uppert_run_4: "keys_run kcp case_entry_ok 4313 pas_u_upper_4 = Some 7824"
  by (simp add: pas_u_upper_4_def case_entry_ok_def scalar_def u8len_def)

lemma uppert_run_5: "keys_run kcp case_entry_ok 7824 pas_u_upper_5 = Some 8069"
  by (simp add: pas_u_upper_5_def case_entry_ok_def scalar_def u8len_def)

lemma uppert_run_6: "keys_run kcp case_entry_ok 8069 pas_u_upper_6 = Some 11318"
  by (simp add: pas_u_upper_6_def case_entry_ok_def scalar_def u8len_def)

lemma uppert_run_7: "keys_run kcp case_entry_ok 11318 pas_u_upper_7 = Some 11545"
  by (simp add: pas_u_upper_7_def case_entry_ok_def scalar_def u8len_def)

lemma uppert_run_8: "keys_run kcp case_entry_ok 11545 pas_u_upper_8 = Some 42970"
  by (simp add: pas_u_upper_8_def case_entry_ok_def scalar_def u8len_def)

lemma uppert_run_9: "keys_run kcp case_entry_ok 42970 pas_u_upper_9 = Some 66607"
  by (simp add: pas_u_upper_9_def case_entry_ok_def scalar_def u8len_def)

lemma uppert_run_10: "keys_run kcp case_entry_ok 66607 pas_u_upper_10 = Some 68824"
  by (simp add: pas_u_upper_10_def case_entry_ok_def scalar_def u8len_def)

lemma uppert_run_11: "keys_run kcp case_entry_ok 68824 pas_u_upper_11 = Some 93898"
  by (simp add: pas_u_upper_11_def case_entry_ok_def scalar_def u8len_def)

lemma uppert_run_12: "keys_run kcp case_entry_ok 93898 pas_u_upper_12 = Some 125252"
  by (simp add: pas_u_upper_12_def case_entry_ok_def scalar_def u8len_def)

interpretation uppert: key_table kcp case_entry_ok pas_u_upper
  by unfold_locales (simp add: pas_u_upper_def keys_run_append uppert_run_0 uppert_run_1 uppert_run_2 uppert_run_3 uppert_run_4 uppert_run_5 uppert_run_6 uppert_run_7 uppert_run_8 uppert_run_9 uppert_run_10 uppert_run_11 uppert_run_12)

lemma lowert_run_0: "keys_run kcp case_entry_ok 0 pas_u_lower_0 = Some 399"
  by (simp add: pas_u_lower_0_def case_entry_ok_def scalar_def u8len_def)

lemma lowert_run_1: "keys_run kcp case_entry_ok 399 pas_u_lower_1 = Some 933"
  by (simp add: pas_u_lower_1_def case_entry_ok_def scalar_def u8len_def)

lemma lowert_run_2: "keys_run kcp case_entry_ok 933 pas_u_lower_2 = Some 1233"
  by (simp add: pas_u_lower_2_def case_entry_ok_def scalar_def u8len_def)

lemma lowert_run_3: "keys_run kcp case_entry_ok 1233 pas_u_lower_3 = Some 5027"
  by (simp add: pas_u_lower_3_def case_entry_ok_def scalar_def u8len_def)

lemma lowert_run_4: "keys_run kcp case_entry_ok 5027 pas_u_lower_4 = Some 7358"
  by (simp add: pas_u_lower_4_def case_entry_ok_def scalar_def u8len_def)

lemma lowert_run_5: "keys_run kcp case_entry_ok 7358 pas_u_lower_5 = Some 7946"
  by (simp add: pas_u_lower_5_def case_entry_ok_def scalar_def u8len_def)

lemma lowert_run_6: "keys_run kcp case_entry_ok 7946 pas_u_lower_6 = Some 9411"
  by (simp add: pas_u_lower_6_def case_entry_ok_def scalar_def u8len_def)

lemma lowert_run_7: "keys_run kcp case_entry_ok 9411 pas_u_lower_7 = Some 11502"
  by (simp add: pas_u_lower_7_def case_entry_ok_def scalar_def u8len_def)

lemma lowert_run_8: "keys_run kcp case_entry_ok 11502 pas_u_lower_8 = Some 42969"
  by (simp add: pas_u_lower_8_def case_entry_ok_def scalar_def u8len_def)

lemma lowert_run_9: "keys_run kcp case_entry_ok 42969 pas_u_lower_9 = Some 66952"
  by (simp add: pas_u_lower_9_def case_entry_ok_def scalar_def u8len_def)

lemma lowert_run_10: "keys_run kcp case_entry_ok 66952 pas_u_lower_10 = Some 93771"
  by (simp add: pas_u_lower_10_def case_entry_ok_def scalar_def u8len_def)

lemma lowert_run_11: "keys_run kcp case_entry_ok 93771 pas_u_lower_11 = Some 125218"
  by (simp add: pas_u_lower_11_def case_entry_ok_def scalar_def u8len_def)

interpretation lowert: key_table kcp case_entry_ok pas_u_lower
  by unfold_locales (simp add: pas_u_lower_def keys_run_append lowert_run_0 lowert_run_1 lowert_run_2 lowert_run_3 lowert_run_4 lowert_run_5 lowert_run_6 lowert_run_7 lowert_run_8 lowert_run_9 lowert_run_10 lowert_run_11)

end
