(* ===== verification/TablesRange.thy ===== *)
theory TablesRange
  imports Lookup
begin

text \<open>
  The six range tables of \<^verbatim>\<open>src/runtime/pasrt_unicode_data.h\<close>, transcribed entry by entry in
  parts of at most 128 entries, and the lookups that \<^verbatim>\<open>pasrt_unicode.c\<close> makes in them. Each
  table is checked once to be sorted, disjoint and within its range of values, which
  interprets the locale \<open>range_table\<close>.
\<close>

definition pas_u_ccc_0 :: "pas_u_range list" where
  "pas_u_ccc_0 = [
    PURange 0x300 0x314 230, PURange 0x315 0x315 232, PURange 0x316 0x319 220,
    PURange 0x31A 0x31A 232, PURange 0x31B 0x31B 216, PURange 0x31C 0x320 220,
    PURange 0x321 0x322 202, PURange 0x323 0x326 220, PURange 0x327 0x328 202,
    PURange 0x329 0x333 220, PURange 0x334 0x338 1, PURange 0x339 0x33C 220,
    PURange 0x33D 0x344 230, PURange 0x345 0x345 240, PURange 0x346 0x346 230,
    PURange 0x347 0x349 220, PURange 0x34A 0x34C 230, PURange 0x34D 0x34E 220,
    PURange 0x350 0x352 230, PURange 0x353 0x356 220, PURange 0x357 0x357 230,
    PURange 0x358 0x358 232, PURange 0x359 0x35A 220, PURange 0x35B 0x35B 230,
    PURange 0x35C 0x35C 233, PURange 0x35D 0x35E 234, PURange 0x35F 0x35F 233,
    PURange 0x360 0x361 234, PURange 0x362 0x362 233, PURange 0x363 0x36F 230,
    PURange 0x483 0x487 230, PURange 0x591 0x591 220, PURange 0x592 0x595 230,
    PURange 0x596 0x596 220, PURange 0x597 0x599 230, PURange 0x59A 0x59A 222,
    PURange 0x59B 0x59B 220, PURange 0x59C 0x5A1 230, PURange 0x5A2 0x5A7 220,
    PURange 0x5A8 0x5A9 230, PURange 0x5AA 0x5AA 220, PURange 0x5AB 0x5AC 230,
    PURange 0x5AD 0x5AD 222, PURange 0x5AE 0x5AE 228, PURange 0x5AF 0x5AF 230,
    PURange 0x5B0 0x5B0 10, PURange 0x5B1 0x5B1 11, PURange 0x5B2 0x5B2 12,
    PURange 0x5B3 0x5B3 13, PURange 0x5B4 0x5B4 14, PURange 0x5B5 0x5B5 15,
    PURange 0x5B6 0x5B6 16, PURange 0x5B7 0x5B7 17, PURange 0x5B8 0x5B8 18,
    PURange 0x5B9 0x5BA 19, PURange 0x5BB 0x5BB 20, PURange 0x5BC 0x5BC 21,
    PURange 0x5BD 0x5BD 22, PURange 0x5BF 0x5BF 23, PURange 0x5C1 0x5C1 24,
    PURange 0x5C2 0x5C2 25, PURange 0x5C4 0x5C4 230, PURange 0x5C5 0x5C5 220,
    PURange 0x5C7 0x5C7 18, PURange 0x610 0x617 230, PURange 0x618 0x618 30,
    PURange 0x619 0x619 31, PURange 0x61A 0x61A 32, PURange 0x64B 0x64B 27,
    PURange 0x64C 0x64C 28, PURange 0x64D 0x64D 29, PURange 0x64E 0x64E 30,
    PURange 0x64F 0x64F 31, PURange 0x650 0x650 32, PURange 0x651 0x651 33,
    PURange 0x652 0x652 34, PURange 0x653 0x654 230, PURange 0x655 0x656 220,
    PURange 0x657 0x65B 230, PURange 0x65C 0x65C 220, PURange 0x65D 0x65E 230,
    PURange 0x65F 0x65F 220, PURange 0x670 0x670 35, PURange 0x6D6 0x6DC 230,
    PURange 0x6DF 0x6E2 230, PURange 0x6E3 0x6E3 220, PURange 0x6E4 0x6E4 230,
    PURange 0x6E7 0x6E8 230, PURange 0x6EA 0x6EA 220, PURange 0x6EB 0x6EC 230,
    PURange 0x6ED 0x6ED 220, PURange 0x711 0x711 36, PURange 0x730 0x730 230,
    PURange 0x731 0x731 220, PURange 0x732 0x733 230, PURange 0x734 0x734 220,
    PURange 0x735 0x736 230, PURange 0x737 0x739 220, PURange 0x73A 0x73A 230,
    PURange 0x73B 0x73C 220, PURange 0x73D 0x73D 230, PURange 0x73E 0x73E 220,
    PURange 0x73F 0x741 230, PURange 0x742 0x742 220, PURange 0x743 0x743 230,
    PURange 0x744 0x744 220, PURange 0x745 0x745 230, PURange 0x746 0x746 220,
    PURange 0x747 0x747 230, PURange 0x748 0x748 220, PURange 0x749 0x74A 230,
    PURange 0x7EB 0x7F1 230, PURange 0x7F2 0x7F2 220, PURange 0x7F3 0x7F3 230,
    PURange 0x7FD 0x7FD 220, PURange 0x816 0x819 230, PURange 0x81B 0x823 230,
    PURange 0x825 0x827 230, PURange 0x829 0x82D 230, PURange 0x859 0x85B 220,
    PURange 0x897 0x898 230, PURange 0x899 0x89B 220, PURange 0x89C 0x89F 230,
    PURange 0x8CA 0x8CE 230, PURange 0x8CF 0x8D3 220, PURange 0x8D4 0x8E1 230,
    PURange 0x8E3 0x8E3 220, PURange 0x8E4 0x8E5 230]"

definition pas_u_ccc_1 :: "pas_u_range list" where
  "pas_u_ccc_1 = [
    PURange 0x8E6 0x8E6 220, PURange 0x8E7 0x8E8 230, PURange 0x8E9 0x8E9 220,
    PURange 0x8EA 0x8EC 230, PURange 0x8ED 0x8EF 220, PURange 0x8F0 0x8F0 27,
    PURange 0x8F1 0x8F1 28, PURange 0x8F2 0x8F2 29, PURange 0x8F3 0x8F5 230,
    PURange 0x8F6 0x8F6 220, PURange 0x8F7 0x8F8 230, PURange 0x8F9 0x8FA 220,
    PURange 0x8FB 0x8FF 230, PURange 0x93C 0x93C 7, PURange 0x94D 0x94D 9,
    PURange 0x951 0x951 230, PURange 0x952 0x952 220, PURange 0x953 0x954 230,
    PURange 0x9BC 0x9BC 7, PURange 0x9CD 0x9CD 9, PURange 0x9FE 0x9FE 230,
    PURange 0xA3C 0xA3C 7, PURange 0xA4D 0xA4D 9, PURange 0xABC 0xABC 7,
    PURange 0xACD 0xACD 9, PURange 0xB3C 0xB3C 7, PURange 0xB4D 0xB4D 9,
    PURange 0xBCD 0xBCD 9, PURange 0xC3C 0xC3C 7, PURange 0xC4D 0xC4D 9,
    PURange 0xC55 0xC55 84, PURange 0xC56 0xC56 91, PURange 0xCBC 0xCBC 7,
    PURange 0xCCD 0xCCD 9, PURange 0xD3B 0xD3C 9, PURange 0xD4D 0xD4D 9,
    PURange 0xDCA 0xDCA 9, PURange 0xE38 0xE39 103, PURange 0xE3A 0xE3A 9,
    PURange 0xE48 0xE4B 107, PURange 0xEB8 0xEB9 118, PURange 0xEBA 0xEBA 9,
    PURange 0xEC8 0xECB 122, PURange 0xF18 0xF19 220, PURange 0xF35 0xF35 220,
    PURange 0xF37 0xF37 220, PURange 0xF39 0xF39 216, PURange 0xF71 0xF71 129,
    PURange 0xF72 0xF72 130, PURange 0xF74 0xF74 132, PURange 0xF7A 0xF7D 130,
    PURange 0xF80 0xF80 130, PURange 0xF82 0xF83 230, PURange 0xF84 0xF84 9,
    PURange 0xF86 0xF87 230, PURange 0xFC6 0xFC6 220, PURange 0x1037 0x1037 7,
    PURange 0x1039 0x103A 9, PURange 0x108D 0x108D 220, PURange 0x135D 0x135F 230,
    PURange 0x1714 0x1715 9, PURange 0x1734 0x1734 9, PURange 0x17D2 0x17D2 9,
    PURange 0x17DD 0x17DD 230, PURange 0x18A9 0x18A9 228, PURange 0x1939 0x1939 222,
    PURange 0x193A 0x193A 230, PURange 0x193B 0x193B 220, PURange 0x1A17 0x1A17 230,
    PURange 0x1A18 0x1A18 220, PURange 0x1A60 0x1A60 9, PURange 0x1A75 0x1A7C 230,
    PURange 0x1A7F 0x1A7F 220, PURange 0x1AB0 0x1AB4 230, PURange 0x1AB5 0x1ABA 220,
    PURange 0x1ABB 0x1ABC 230, PURange 0x1ABD 0x1ABD 220, PURange 0x1ABF 0x1AC0 220,
    PURange 0x1AC1 0x1AC2 230, PURange 0x1AC3 0x1AC4 220, PURange 0x1AC5 0x1AC9 230,
    PURange 0x1ACA 0x1ACA 220, PURange 0x1ACB 0x1ADC 230, PURange 0x1ADD 0x1ADD 220,
    PURange 0x1AE0 0x1AE5 230, PURange 0x1AE6 0x1AE6 220, PURange 0x1AE7 0x1AEA 230,
    PURange 0x1AEB 0x1AEB 234, PURange 0x1B34 0x1B34 7, PURange 0x1B44 0x1B44 9,
    PURange 0x1B6B 0x1B6B 230, PURange 0x1B6C 0x1B6C 220, PURange 0x1B6D 0x1B73 230,
    PURange 0x1BAA 0x1BAB 9, PURange 0x1BE6 0x1BE6 7, PURange 0x1BF2 0x1BF3 9,
    PURange 0x1C37 0x1C37 7, PURange 0x1CD0 0x1CD2 230, PURange 0x1CD4 0x1CD4 1,
    PURange 0x1CD5 0x1CD9 220, PURange 0x1CDA 0x1CDB 230, PURange 0x1CDC 0x1CDF 220,
    PURange 0x1CE0 0x1CE0 230, PURange 0x1CE2 0x1CE8 1, PURange 0x1CED 0x1CED 220,
    PURange 0x1CF4 0x1CF4 230, PURange 0x1CF8 0x1CF9 230, PURange 0x1DC0 0x1DC1 230,
    PURange 0x1DC2 0x1DC2 220, PURange 0x1DC3 0x1DC9 230, PURange 0x1DCA 0x1DCA 220,
    PURange 0x1DCB 0x1DCC 230, PURange 0x1DCD 0x1DCD 234, PURange 0x1DCE 0x1DCE 214,
    PURange 0x1DCF 0x1DCF 220, PURange 0x1DD0 0x1DD0 202, PURange 0x1DD1 0x1DF5 230,
    PURange 0x1DF6 0x1DF6 232, PURange 0x1DF7 0x1DF8 228, PURange 0x1DF9 0x1DF9 220,
    PURange 0x1DFA 0x1DFA 218, PURange 0x1DFB 0x1DFB 230, PURange 0x1DFC 0x1DFC 233,
    PURange 0x1DFD 0x1DFD 220, PURange 0x1DFE 0x1DFE 230, PURange 0x1DFF 0x1DFF 220,
    PURange 0x20D0 0x20D1 230, PURange 0x20D2 0x20D3 1]"

definition pas_u_ccc_2 :: "pas_u_range list" where
  "pas_u_ccc_2 = [
    PURange 0x20D4 0x20D7 230, PURange 0x20D8 0x20DA 1, PURange 0x20DB 0x20DC 230,
    PURange 0x20E1 0x20E1 230, PURange 0x20E5 0x20E6 1, PURange 0x20E7 0x20E7 230,
    PURange 0x20E8 0x20E8 220, PURange 0x20E9 0x20E9 230, PURange 0x20EA 0x20EB 1,
    PURange 0x20EC 0x20EF 220, PURange 0x20F0 0x20F0 230, PURange 0x2CEF 0x2CF1 230,
    PURange 0x2D7F 0x2D7F 9, PURange 0x2DE0 0x2DFF 230, PURange 0x302A 0x302A 218,
    PURange 0x302B 0x302B 228, PURange 0x302C 0x302C 232, PURange 0x302D 0x302D 222,
    PURange 0x302E 0x302F 224, PURange 0x3099 0x309A 8, PURange 0xA66F 0xA66F 230,
    PURange 0xA674 0xA67D 230, PURange 0xA69E 0xA69F 230, PURange 0xA6F0 0xA6F1 230,
    PURange 0xA806 0xA806 9, PURange 0xA82C 0xA82C 9, PURange 0xA8C4 0xA8C4 9,
    PURange 0xA8E0 0xA8F1 230, PURange 0xA92B 0xA92D 220, PURange 0xA953 0xA953 9,
    PURange 0xA9B3 0xA9B3 7, PURange 0xA9C0 0xA9C0 9, PURange 0xAAB0 0xAAB0 230,
    PURange 0xAAB2 0xAAB3 230, PURange 0xAAB4 0xAAB4 220, PURange 0xAAB7 0xAAB8 230,
    PURange 0xAABE 0xAABF 230, PURange 0xAAC1 0xAAC1 230, PURange 0xAAF6 0xAAF6 9,
    PURange 0xABED 0xABED 9, PURange 0xFB1E 0xFB1E 26, PURange 0xFE20 0xFE26 230,
    PURange 0xFE27 0xFE2D 220, PURange 0xFE2E 0xFE2F 230, PURange 0x101FD 0x101FD 220,
    PURange 0x102E0 0x102E0 220, PURange 0x10376 0x1037A 230, PURange 0x10A0D 0x10A0D 220,
    PURange 0x10A0F 0x10A0F 230, PURange 0x10A38 0x10A38 230, PURange 0x10A39 0x10A39 1,
    PURange 0x10A3A 0x10A3A 220, PURange 0x10A3F 0x10A3F 9, PURange 0x10AE5 0x10AE5 230,
    PURange 0x10AE6 0x10AE6 220, PURange 0x10D24 0x10D27 230, PURange 0x10D69 0x10D6D 230,
    PURange 0x10EAB 0x10EAC 230, PURange 0x10EFA 0x10EFB 220, PURange 0x10EFD 0x10EFF 220,
    PURange 0x10F46 0x10F47 220, PURange 0x10F48 0x10F4A 230, PURange 0x10F4B 0x10F4B 220,
    PURange 0x10F4C 0x10F4C 230, PURange 0x10F4D 0x10F50 220, PURange 0x10F82 0x10F82 230,
    PURange 0x10F83 0x10F83 220, PURange 0x10F84 0x10F84 230, PURange 0x10F85 0x10F85 220,
    PURange 0x11046 0x11046 9, PURange 0x11070 0x11070 9, PURange 0x1107F 0x1107F 9,
    PURange 0x110B9 0x110B9 9, PURange 0x110BA 0x110BA 7, PURange 0x11100 0x11102 230,
    PURange 0x11133 0x11134 9, PURange 0x11173 0x11173 7, PURange 0x111C0 0x111C0 9,
    PURange 0x111CA 0x111CA 7, PURange 0x11235 0x11235 9, PURange 0x11236 0x11236 7,
    PURange 0x112E9 0x112E9 7, PURange 0x112EA 0x112EA 9, PURange 0x1133B 0x1133C 7,
    PURange 0x1134D 0x1134D 9, PURange 0x11366 0x1136C 230, PURange 0x11370 0x11374 230,
    PURange 0x113CE 0x113D0 9, PURange 0x11442 0x11442 9, PURange 0x11446 0x11446 7,
    PURange 0x1145E 0x1145E 230, PURange 0x114C2 0x114C2 9, PURange 0x114C3 0x114C3 7,
    PURange 0x115BF 0x115BF 9, PURange 0x115C0 0x115C0 7, PURange 0x1163F 0x1163F 9,
    PURange 0x116B6 0x116B6 9, PURange 0x116B7 0x116B7 7, PURange 0x1172B 0x1172B 9,
    PURange 0x11839 0x11839 9, PURange 0x1183A 0x1183A 7, PURange 0x1193D 0x1193E 9,
    PURange 0x11943 0x11943 7, PURange 0x119E0 0x119E0 9, PURange 0x11A34 0x11A34 9,
    PURange 0x11A47 0x11A47 9, PURange 0x11A99 0x11A99 9, PURange 0x11C3F 0x11C3F 9,
    PURange 0x11D42 0x11D42 7, PURange 0x11D44 0x11D45 9, PURange 0x11D97 0x11D97 9,
    PURange 0x11F41 0x11F42 9, PURange 0x1612F 0x1612F 9, PURange 0x16AF0 0x16AF4 1,
    PURange 0x16B30 0x16B36 230, PURange 0x16FF0 0x16FF1 6, PURange 0x1BC9E 0x1BC9E 1,
    PURange 0x1D165 0x1D166 216, PURange 0x1D167 0x1D169 1, PURange 0x1D16D 0x1D16D 226,
    PURange 0x1D16E 0x1D172 216, PURange 0x1D17B 0x1D182 220, PURange 0x1D185 0x1D189 230,
    PURange 0x1D18A 0x1D18B 220, PURange 0x1D1AA 0x1D1AD 230, PURange 0x1D242 0x1D244 230,
    PURange 0x1E000 0x1E006 230, PURange 0x1E008 0x1E018 230]"

definition pas_u_ccc_3 :: "pas_u_range list" where
  "pas_u_ccc_3 = [
    PURange 0x1E01B 0x1E021 230, PURange 0x1E023 0x1E024 230, PURange 0x1E026 0x1E02A 230,
    PURange 0x1E08F 0x1E08F 230, PURange 0x1E130 0x1E136 230, PURange 0x1E2AE 0x1E2AE 230,
    PURange 0x1E2EC 0x1E2EF 230, PURange 0x1E4EC 0x1E4ED 232, PURange 0x1E4EE 0x1E4EE 220,
    PURange 0x1E4EF 0x1E4EF 230, PURange 0x1E5EE 0x1E5EE 230, PURange 0x1E5EF 0x1E5EF 220,
    PURange 0x1E6E3 0x1E6E3 230, PURange 0x1E6E6 0x1E6E6 230, PURange 0x1E6EE 0x1E6EF 230,
    PURange 0x1E6F5 0x1E6F5 230, PURange 0x1E8D0 0x1E8D6 220, PURange 0x1E944 0x1E949 230,
    PURange 0x1E94A 0x1E94A 7]"

definition pas_u_ccc :: "pas_u_range list" where
  "pas_u_ccc = pas_u_ccc_0 @ pas_u_ccc_1 @ pas_u_ccc_2 @ pas_u_ccc_3"

definition pas_u_gcb_0 :: "pas_u_range list" where
  "pas_u_gcb_0 = [
    PURange 0 0x9 3, PURange 0xA 0xA 2, PURange 0xB 0xC 3,
    PURange 0xD 0xD 1, PURange 0xE 0x1F 3, PURange 0x7F 0x9F 3,
    PURange 0xAD 0xAD 3, PURange 0x300 0x36F 4, PURange 0x483 0x489 4,
    PURange 0x591 0x5BD 4, PURange 0x5BF 0x5BF 4, PURange 0x5C1 0x5C2 4,
    PURange 0x5C4 0x5C5 4, PURange 0x5C7 0x5C7 4, PURange 0x600 0x605 7,
    PURange 0x610 0x61A 4, PURange 0x61C 0x61C 3, PURange 0x64B 0x65F 4,
    PURange 0x670 0x670 4, PURange 0x6D6 0x6DC 4, PURange 0x6DD 0x6DD 7,
    PURange 0x6DF 0x6E4 4, PURange 0x6E7 0x6E8 4, PURange 0x6EA 0x6ED 4,
    PURange 0x70F 0x70F 7, PURange 0x711 0x711 4, PURange 0x730 0x74A 4,
    PURange 0x7A6 0x7B0 4, PURange 0x7EB 0x7F3 4, PURange 0x7FD 0x7FD 4,
    PURange 0x816 0x819 4, PURange 0x81B 0x823 4, PURange 0x825 0x827 4,
    PURange 0x829 0x82D 4, PURange 0x859 0x85B 4, PURange 0x890 0x891 7,
    PURange 0x897 0x89F 4, PURange 0x8CA 0x8E1 4, PURange 0x8E2 0x8E2 7,
    PURange 0x8E3 0x902 4, PURange 0x903 0x903 8, PURange 0x93A 0x93A 4,
    PURange 0x93B 0x93B 8, PURange 0x93C 0x93C 4, PURange 0x93E 0x940 8,
    PURange 0x941 0x948 4, PURange 0x949 0x94C 8, PURange 0x94D 0x94D 4,
    PURange 0x94E 0x94F 8, PURange 0x951 0x957 4, PURange 0x962 0x963 4,
    PURange 0x981 0x981 4, PURange 0x982 0x983 8, PURange 0x9BC 0x9BC 4,
    PURange 0x9BE 0x9BE 4, PURange 0x9BF 0x9C0 8, PURange 0x9C1 0x9C4 4,
    PURange 0x9C7 0x9C8 8, PURange 0x9CB 0x9CC 8, PURange 0x9CD 0x9CD 4,
    PURange 0x9D7 0x9D7 4, PURange 0x9E2 0x9E3 4, PURange 0x9FE 0x9FE 4,
    PURange 0xA01 0xA02 4, PURange 0xA03 0xA03 8, PURange 0xA3C 0xA3C 4,
    PURange 0xA3E 0xA40 8, PURange 0xA41 0xA42 4, PURange 0xA47 0xA48 4,
    PURange 0xA4B 0xA4D 4, PURange 0xA51 0xA51 4, PURange 0xA70 0xA71 4,
    PURange 0xA75 0xA75 4, PURange 0xA81 0xA82 4, PURange 0xA83 0xA83 8,
    PURange 0xABC 0xABC 4, PURange 0xABE 0xAC0 8, PURange 0xAC1 0xAC5 4,
    PURange 0xAC7 0xAC8 4, PURange 0xAC9 0xAC9 8, PURange 0xACB 0xACC 8,
    PURange 0xACD 0xACD 4, PURange 0xAE2 0xAE3 4, PURange 0xAFA 0xAFF 4,
    PURange 0xB01 0xB01 4, PURange 0xB02 0xB03 8, PURange 0xB3C 0xB3C 4,
    PURange 0xB3E 0xB3F 4, PURange 0xB40 0xB40 8, PURange 0xB41 0xB44 4,
    PURange 0xB47 0xB48 8, PURange 0xB4B 0xB4C 8, PURange 0xB4D 0xB4D 4,
    PURange 0xB55 0xB57 4, PURange 0xB62 0xB63 4, PURange 0xB82 0xB82 4,
    PURange 0xBBE 0xBBE 4, PURange 0xBBF 0xBBF 8, PURange 0xBC0 0xBC0 4,
    PURange 0xBC1 0xBC2 8, PURange 0xBC6 0xBC8 8, PURange 0xBCA 0xBCC 8,
    PURange 0xBCD 0xBCD 4, PURange 0xBD7 0xBD7 4, PURange 0xC00 0xC00 4,
    PURange 0xC01 0xC03 8, PURange 0xC04 0xC04 4, PURange 0xC3C 0xC3C 4,
    PURange 0xC3E 0xC40 4, PURange 0xC41 0xC44 8, PURange 0xC46 0xC48 4,
    PURange 0xC4A 0xC4D 4, PURange 0xC55 0xC56 4, PURange 0xC62 0xC63 4,
    PURange 0xC81 0xC81 4, PURange 0xC82 0xC83 8, PURange 0xCBC 0xCBC 4,
    PURange 0xCBE 0xCBE 8, PURange 0xCBF 0xCC0 4, PURange 0xCC1 0xCC1 8,
    PURange 0xCC2 0xCC2 4, PURange 0xCC3 0xCC4 8, PURange 0xCC6 0xCC8 4,
    PURange 0xCCA 0xCCD 4, PURange 0xCD5 0xCD6 4, PURange 0xCE2 0xCE3 4,
    PURange 0xCF3 0xCF3 8, PURange 0xD00 0xD01 4]"

definition pas_u_gcb_1 :: "pas_u_range list" where
  "pas_u_gcb_1 = [
    PURange 0xD02 0xD03 8, PURange 0xD3B 0xD3C 4, PURange 0xD3E 0xD3E 4,
    PURange 0xD3F 0xD40 8, PURange 0xD41 0xD44 4, PURange 0xD46 0xD48 8,
    PURange 0xD4A 0xD4C 8, PURange 0xD4D 0xD4D 4, PURange 0xD4E 0xD4E 7,
    PURange 0xD57 0xD57 4, PURange 0xD62 0xD63 4, PURange 0xD81 0xD81 4,
    PURange 0xD82 0xD83 8, PURange 0xDCA 0xDCA 4, PURange 0xDCF 0xDCF 4,
    PURange 0xDD0 0xDD1 8, PURange 0xDD2 0xDD4 4, PURange 0xDD6 0xDD6 4,
    PURange 0xDD8 0xDDE 8, PURange 0xDDF 0xDDF 4, PURange 0xDF2 0xDF3 8,
    PURange 0xE31 0xE31 4, PURange 0xE33 0xE33 8, PURange 0xE34 0xE3A 4,
    PURange 0xE47 0xE4E 4, PURange 0xEB1 0xEB1 4, PURange 0xEB3 0xEB3 8,
    PURange 0xEB4 0xEBC 4, PURange 0xEC8 0xECE 4, PURange 0xF18 0xF19 4,
    PURange 0xF35 0xF35 4, PURange 0xF37 0xF37 4, PURange 0xF39 0xF39 4,
    PURange 0xF3E 0xF3F 8, PURange 0xF71 0xF7E 4, PURange 0xF7F 0xF7F 8,
    PURange 0xF80 0xF84 4, PURange 0xF86 0xF87 4, PURange 0xF8D 0xF97 4,
    PURange 0xF99 0xFBC 4, PURange 0xFC6 0xFC6 4, PURange 0x102D 0x1030 4,
    PURange 0x1031 0x1031 8, PURange 0x1032 0x1037 4, PURange 0x1039 0x103A 4,
    PURange 0x103B 0x103C 8, PURange 0x103D 0x103E 4, PURange 0x1056 0x1057 8,
    PURange 0x1058 0x1059 4, PURange 0x105E 0x1060 4, PURange 0x1071 0x1074 4,
    PURange 0x1082 0x1082 4, PURange 0x1084 0x1084 8, PURange 0x1085 0x1086 4,
    PURange 0x108D 0x108D 4, PURange 0x109D 0x109D 4, PURange 0x1100 0x115F 9,
    PURange 0x1160 0x11A7 10, PURange 0x11A8 0x11FF 11, PURange 0x135D 0x135F 4,
    PURange 0x1712 0x1715 4, PURange 0x1732 0x1734 4, PURange 0x1752 0x1753 4,
    PURange 0x1772 0x1773 4, PURange 0x17B4 0x17B5 4, PURange 0x17B6 0x17B6 8,
    PURange 0x17B7 0x17BD 4, PURange 0x17BE 0x17C5 8, PURange 0x17C6 0x17C6 4,
    PURange 0x17C7 0x17C8 8, PURange 0x17C9 0x17D3 4, PURange 0x17DD 0x17DD 4,
    PURange 0x180B 0x180D 4, PURange 0x180E 0x180E 3, PURange 0x180F 0x180F 4,
    PURange 0x1885 0x1886 4, PURange 0x18A9 0x18A9 4, PURange 0x1920 0x1922 4,
    PURange 0x1923 0x1926 8, PURange 0x1927 0x1928 4, PURange 0x1929 0x192B 8,
    PURange 0x1930 0x1931 8, PURange 0x1932 0x1932 4, PURange 0x1933 0x1938 8,
    PURange 0x1939 0x193B 4, PURange 0x1A17 0x1A18 4, PURange 0x1A19 0x1A1A 8,
    PURange 0x1A1B 0x1A1B 4, PURange 0x1A55 0x1A55 8, PURange 0x1A56 0x1A56 4,
    PURange 0x1A57 0x1A57 8, PURange 0x1A58 0x1A5E 4, PURange 0x1A60 0x1A60 4,
    PURange 0x1A62 0x1A62 4, PURange 0x1A65 0x1A6C 4, PURange 0x1A6D 0x1A72 8,
    PURange 0x1A73 0x1A7C 4, PURange 0x1A7F 0x1A7F 4, PURange 0x1AB0 0x1ADD 4,
    PURange 0x1AE0 0x1AEB 4, PURange 0x1B00 0x1B03 4, PURange 0x1B04 0x1B04 8,
    PURange 0x1B34 0x1B3D 4, PURange 0x1B3E 0x1B41 8, PURange 0x1B42 0x1B44 4,
    PURange 0x1B6B 0x1B73 4, PURange 0x1B80 0x1B81 4, PURange 0x1B82 0x1B82 8,
    PURange 0x1BA1 0x1BA1 8, PURange 0x1BA2 0x1BA5 4, PURange 0x1BA6 0x1BA7 8,
    PURange 0x1BA8 0x1BAD 4, PURange 0x1BE6 0x1BE6 4, PURange 0x1BE7 0x1BE7 8,
    PURange 0x1BE8 0x1BE9 4, PURange 0x1BEA 0x1BEC 8, PURange 0x1BED 0x1BED 4,
    PURange 0x1BEE 0x1BEE 8, PURange 0x1BEF 0x1BF3 4, PURange 0x1C24 0x1C2B 8,
    PURange 0x1C2C 0x1C33 4, PURange 0x1C34 0x1C35 8, PURange 0x1C36 0x1C37 4,
    PURange 0x1CD0 0x1CD2 4, PURange 0x1CD4 0x1CE0 4, PURange 0x1CE1 0x1CE1 8,
    PURange 0x1CE2 0x1CE8 4, PURange 0x1CED 0x1CED 4]"

definition pas_u_gcb_2 :: "pas_u_range list" where
  "pas_u_gcb_2 = [
    PURange 0x1CF4 0x1CF4 4, PURange 0x1CF7 0x1CF7 8, PURange 0x1CF8 0x1CF9 4,
    PURange 0x1DC0 0x1DFF 4, PURange 0x200B 0x200B 3, PURange 0x200C 0x200C 4,
    PURange 0x200D 0x200D 5, PURange 0x200E 0x200F 3, PURange 0x2028 0x202E 3,
    PURange 0x2060 0x206F 3, PURange 0x20D0 0x20F0 4, PURange 0x2CEF 0x2CF1 4,
    PURange 0x2D7F 0x2D7F 4, PURange 0x2DE0 0x2DFF 4, PURange 0x302A 0x302F 4,
    PURange 0x3099 0x309A 4, PURange 0xA66F 0xA672 4, PURange 0xA674 0xA67D 4,
    PURange 0xA69E 0xA69F 4, PURange 0xA6F0 0xA6F1 4, PURange 0xA802 0xA802 4,
    PURange 0xA806 0xA806 4, PURange 0xA80B 0xA80B 4, PURange 0xA823 0xA824 8,
    PURange 0xA825 0xA826 4, PURange 0xA827 0xA827 8, PURange 0xA82C 0xA82C 4,
    PURange 0xA880 0xA881 8, PURange 0xA8B4 0xA8C3 8, PURange 0xA8C4 0xA8C5 4,
    PURange 0xA8E0 0xA8F1 4, PURange 0xA8FF 0xA8FF 4, PURange 0xA926 0xA92D 4,
    PURange 0xA947 0xA951 4, PURange 0xA952 0xA952 8, PURange 0xA953 0xA953 4,
    PURange 0xA960 0xA97C 9, PURange 0xA980 0xA982 4, PURange 0xA983 0xA983 8,
    PURange 0xA9B3 0xA9B3 4, PURange 0xA9B4 0xA9B5 8, PURange 0xA9B6 0xA9B9 4,
    PURange 0xA9BA 0xA9BB 8, PURange 0xA9BC 0xA9BD 4, PURange 0xA9BE 0xA9BF 8,
    PURange 0xA9C0 0xA9C0 4, PURange 0xA9E5 0xA9E5 4, PURange 0xAA29 0xAA2E 4,
    PURange 0xAA2F 0xAA30 8, PURange 0xAA31 0xAA32 4, PURange 0xAA33 0xAA34 8,
    PURange 0xAA35 0xAA36 4, PURange 0xAA43 0xAA43 4, PURange 0xAA4C 0xAA4C 4,
    PURange 0xAA4D 0xAA4D 8, PURange 0xAA7C 0xAA7C 4, PURange 0xAAB0 0xAAB0 4,
    PURange 0xAAB2 0xAAB4 4, PURange 0xAAB7 0xAAB8 4, PURange 0xAABE 0xAABF 4,
    PURange 0xAAC1 0xAAC1 4, PURange 0xAAEB 0xAAEB 8, PURange 0xAAEC 0xAAED 4,
    PURange 0xAAEE 0xAAEF 8, PURange 0xAAF5 0xAAF5 8, PURange 0xAAF6 0xAAF6 4,
    PURange 0xABE3 0xABE4 8, PURange 0xABE5 0xABE5 4, PURange 0xABE6 0xABE7 8,
    PURange 0xABE8 0xABE8 4, PURange 0xABE9 0xABEA 8, PURange 0xABEC 0xABEC 8,
    PURange 0xABED 0xABED 4, PURange 0xAC00 0xAC00 12, PURange 0xAC01 0xAC1B 13,
    PURange 0xAC1C 0xAC1C 12, PURange 0xAC1D 0xAC37 13, PURange 0xAC38 0xAC38 12,
    PURange 0xAC39 0xAC53 13, PURange 0xAC54 0xAC54 12, PURange 0xAC55 0xAC6F 13,
    PURange 0xAC70 0xAC70 12, PURange 0xAC71 0xAC8B 13, PURange 0xAC8C 0xAC8C 12,
    PURange 0xAC8D 0xACA7 13, PURange 0xACA8 0xACA8 12, PURange 0xACA9 0xACC3 13,
    PURange 0xACC4 0xACC4 12, PURange 0xACC5 0xACDF 13, PURange 0xACE0 0xACE0 12,
    PURange 0xACE1 0xACFB 13, PURange 0xACFC 0xACFC 12, PURange 0xACFD 0xAD17 13,
    PURange 0xAD18 0xAD18 12, PURange 0xAD19 0xAD33 13, PURange 0xAD34 0xAD34 12,
    PURange 0xAD35 0xAD4F 13, PURange 0xAD50 0xAD50 12, PURange 0xAD51 0xAD6B 13,
    PURange 0xAD6C 0xAD6C 12, PURange 0xAD6D 0xAD87 13, PURange 0xAD88 0xAD88 12,
    PURange 0xAD89 0xADA3 13, PURange 0xADA4 0xADA4 12, PURange 0xADA5 0xADBF 13,
    PURange 0xADC0 0xADC0 12, PURange 0xADC1 0xADDB 13, PURange 0xADDC 0xADDC 12,
    PURange 0xADDD 0xADF7 13, PURange 0xADF8 0xADF8 12, PURange 0xADF9 0xAE13 13,
    PURange 0xAE14 0xAE14 12, PURange 0xAE15 0xAE2F 13, PURange 0xAE30 0xAE30 12,
    PURange 0xAE31 0xAE4B 13, PURange 0xAE4C 0xAE4C 12, PURange 0xAE4D 0xAE67 13,
    PURange 0xAE68 0xAE68 12, PURange 0xAE69 0xAE83 13, PURange 0xAE84 0xAE84 12,
    PURange 0xAE85 0xAE9F 13, PURange 0xAEA0 0xAEA0 12, PURange 0xAEA1 0xAEBB 13,
    PURange 0xAEBC 0xAEBC 12, PURange 0xAEBD 0xAED7 13, PURange 0xAED8 0xAED8 12,
    PURange 0xAED9 0xAEF3 13, PURange 0xAEF4 0xAEF4 12]"

definition pas_u_gcb_3 :: "pas_u_range list" where
  "pas_u_gcb_3 = [
    PURange 0xAEF5 0xAF0F 13, PURange 0xAF10 0xAF10 12, PURange 0xAF11 0xAF2B 13,
    PURange 0xAF2C 0xAF2C 12, PURange 0xAF2D 0xAF47 13, PURange 0xAF48 0xAF48 12,
    PURange 0xAF49 0xAF63 13, PURange 0xAF64 0xAF64 12, PURange 0xAF65 0xAF7F 13,
    PURange 0xAF80 0xAF80 12, PURange 0xAF81 0xAF9B 13, PURange 0xAF9C 0xAF9C 12,
    PURange 0xAF9D 0xAFB7 13, PURange 0xAFB8 0xAFB8 12, PURange 0xAFB9 0xAFD3 13,
    PURange 0xAFD4 0xAFD4 12, PURange 0xAFD5 0xAFEF 13, PURange 0xAFF0 0xAFF0 12,
    PURange 0xAFF1 0xB00B 13, PURange 0xB00C 0xB00C 12, PURange 0xB00D 0xB027 13,
    PURange 0xB028 0xB028 12, PURange 0xB029 0xB043 13, PURange 0xB044 0xB044 12,
    PURange 0xB045 0xB05F 13, PURange 0xB060 0xB060 12, PURange 0xB061 0xB07B 13,
    PURange 0xB07C 0xB07C 12, PURange 0xB07D 0xB097 13, PURange 0xB098 0xB098 12,
    PURange 0xB099 0xB0B3 13, PURange 0xB0B4 0xB0B4 12, PURange 0xB0B5 0xB0CF 13,
    PURange 0xB0D0 0xB0D0 12, PURange 0xB0D1 0xB0EB 13, PURange 0xB0EC 0xB0EC 12,
    PURange 0xB0ED 0xB107 13, PURange 0xB108 0xB108 12, PURange 0xB109 0xB123 13,
    PURange 0xB124 0xB124 12, PURange 0xB125 0xB13F 13, PURange 0xB140 0xB140 12,
    PURange 0xB141 0xB15B 13, PURange 0xB15C 0xB15C 12, PURange 0xB15D 0xB177 13,
    PURange 0xB178 0xB178 12, PURange 0xB179 0xB193 13, PURange 0xB194 0xB194 12,
    PURange 0xB195 0xB1AF 13, PURange 0xB1B0 0xB1B0 12, PURange 0xB1B1 0xB1CB 13,
    PURange 0xB1CC 0xB1CC 12, PURange 0xB1CD 0xB1E7 13, PURange 0xB1E8 0xB1E8 12,
    PURange 0xB1E9 0xB203 13, PURange 0xB204 0xB204 12, PURange 0xB205 0xB21F 13,
    PURange 0xB220 0xB220 12, PURange 0xB221 0xB23B 13, PURange 0xB23C 0xB23C 12,
    PURange 0xB23D 0xB257 13, PURange 0xB258 0xB258 12, PURange 0xB259 0xB273 13,
    PURange 0xB274 0xB274 12, PURange 0xB275 0xB28F 13, PURange 0xB290 0xB290 12,
    PURange 0xB291 0xB2AB 13, PURange 0xB2AC 0xB2AC 12, PURange 0xB2AD 0xB2C7 13,
    PURange 0xB2C8 0xB2C8 12, PURange 0xB2C9 0xB2E3 13, PURange 0xB2E4 0xB2E4 12,
    PURange 0xB2E5 0xB2FF 13, PURange 0xB300 0xB300 12, PURange 0xB301 0xB31B 13,
    PURange 0xB31C 0xB31C 12, PURange 0xB31D 0xB337 13, PURange 0xB338 0xB338 12,
    PURange 0xB339 0xB353 13, PURange 0xB354 0xB354 12, PURange 0xB355 0xB36F 13,
    PURange 0xB370 0xB370 12, PURange 0xB371 0xB38B 13, PURange 0xB38C 0xB38C 12,
    PURange 0xB38D 0xB3A7 13, PURange 0xB3A8 0xB3A8 12, PURange 0xB3A9 0xB3C3 13,
    PURange 0xB3C4 0xB3C4 12, PURange 0xB3C5 0xB3DF 13, PURange 0xB3E0 0xB3E0 12,
    PURange 0xB3E1 0xB3FB 13, PURange 0xB3FC 0xB3FC 12, PURange 0xB3FD 0xB417 13,
    PURange 0xB418 0xB418 12, PURange 0xB419 0xB433 13, PURange 0xB434 0xB434 12,
    PURange 0xB435 0xB44F 13, PURange 0xB450 0xB450 12, PURange 0xB451 0xB46B 13,
    PURange 0xB46C 0xB46C 12, PURange 0xB46D 0xB487 13, PURange 0xB488 0xB488 12,
    PURange 0xB489 0xB4A3 13, PURange 0xB4A4 0xB4A4 12, PURange 0xB4A5 0xB4BF 13,
    PURange 0xB4C0 0xB4C0 12, PURange 0xB4C1 0xB4DB 13, PURange 0xB4DC 0xB4DC 12,
    PURange 0xB4DD 0xB4F7 13, PURange 0xB4F8 0xB4F8 12, PURange 0xB4F9 0xB513 13,
    PURange 0xB514 0xB514 12, PURange 0xB515 0xB52F 13, PURange 0xB530 0xB530 12,
    PURange 0xB531 0xB54B 13, PURange 0xB54C 0xB54C 12, PURange 0xB54D 0xB567 13,
    PURange 0xB568 0xB568 12, PURange 0xB569 0xB583 13, PURange 0xB584 0xB584 12,
    PURange 0xB585 0xB59F 13, PURange 0xB5A0 0xB5A0 12, PURange 0xB5A1 0xB5BB 13,
    PURange 0xB5BC 0xB5BC 12, PURange 0xB5BD 0xB5D7 13, PURange 0xB5D8 0xB5D8 12,
    PURange 0xB5D9 0xB5F3 13, PURange 0xB5F4 0xB5F4 12]"

definition pas_u_gcb_4 :: "pas_u_range list" where
  "pas_u_gcb_4 = [
    PURange 0xB5F5 0xB60F 13, PURange 0xB610 0xB610 12, PURange 0xB611 0xB62B 13,
    PURange 0xB62C 0xB62C 12, PURange 0xB62D 0xB647 13, PURange 0xB648 0xB648 12,
    PURange 0xB649 0xB663 13, PURange 0xB664 0xB664 12, PURange 0xB665 0xB67F 13,
    PURange 0xB680 0xB680 12, PURange 0xB681 0xB69B 13, PURange 0xB69C 0xB69C 12,
    PURange 0xB69D 0xB6B7 13, PURange 0xB6B8 0xB6B8 12, PURange 0xB6B9 0xB6D3 13,
    PURange 0xB6D4 0xB6D4 12, PURange 0xB6D5 0xB6EF 13, PURange 0xB6F0 0xB6F0 12,
    PURange 0xB6F1 0xB70B 13, PURange 0xB70C 0xB70C 12, PURange 0xB70D 0xB727 13,
    PURange 0xB728 0xB728 12, PURange 0xB729 0xB743 13, PURange 0xB744 0xB744 12,
    PURange 0xB745 0xB75F 13, PURange 0xB760 0xB760 12, PURange 0xB761 0xB77B 13,
    PURange 0xB77C 0xB77C 12, PURange 0xB77D 0xB797 13, PURange 0xB798 0xB798 12,
    PURange 0xB799 0xB7B3 13, PURange 0xB7B4 0xB7B4 12, PURange 0xB7B5 0xB7CF 13,
    PURange 0xB7D0 0xB7D0 12, PURange 0xB7D1 0xB7EB 13, PURange 0xB7EC 0xB7EC 12,
    PURange 0xB7ED 0xB807 13, PURange 0xB808 0xB808 12, PURange 0xB809 0xB823 13,
    PURange 0xB824 0xB824 12, PURange 0xB825 0xB83F 13, PURange 0xB840 0xB840 12,
    PURange 0xB841 0xB85B 13, PURange 0xB85C 0xB85C 12, PURange 0xB85D 0xB877 13,
    PURange 0xB878 0xB878 12, PURange 0xB879 0xB893 13, PURange 0xB894 0xB894 12,
    PURange 0xB895 0xB8AF 13, PURange 0xB8B0 0xB8B0 12, PURange 0xB8B1 0xB8CB 13,
    PURange 0xB8CC 0xB8CC 12, PURange 0xB8CD 0xB8E7 13, PURange 0xB8E8 0xB8E8 12,
    PURange 0xB8E9 0xB903 13, PURange 0xB904 0xB904 12, PURange 0xB905 0xB91F 13,
    PURange 0xB920 0xB920 12, PURange 0xB921 0xB93B 13, PURange 0xB93C 0xB93C 12,
    PURange 0xB93D 0xB957 13, PURange 0xB958 0xB958 12, PURange 0xB959 0xB973 13,
    PURange 0xB974 0xB974 12, PURange 0xB975 0xB98F 13, PURange 0xB990 0xB990 12,
    PURange 0xB991 0xB9AB 13, PURange 0xB9AC 0xB9AC 12, PURange 0xB9AD 0xB9C7 13,
    PURange 0xB9C8 0xB9C8 12, PURange 0xB9C9 0xB9E3 13, PURange 0xB9E4 0xB9E4 12,
    PURange 0xB9E5 0xB9FF 13, PURange 0xBA00 0xBA00 12, PURange 0xBA01 0xBA1B 13,
    PURange 0xBA1C 0xBA1C 12, PURange 0xBA1D 0xBA37 13, PURange 0xBA38 0xBA38 12,
    PURange 0xBA39 0xBA53 13, PURange 0xBA54 0xBA54 12, PURange 0xBA55 0xBA6F 13,
    PURange 0xBA70 0xBA70 12, PURange 0xBA71 0xBA8B 13, PURange 0xBA8C 0xBA8C 12,
    PURange 0xBA8D 0xBAA7 13, PURange 0xBAA8 0xBAA8 12, PURange 0xBAA9 0xBAC3 13,
    PURange 0xBAC4 0xBAC4 12, PURange 0xBAC5 0xBADF 13, PURange 0xBAE0 0xBAE0 12,
    PURange 0xBAE1 0xBAFB 13, PURange 0xBAFC 0xBAFC 12, PURange 0xBAFD 0xBB17 13,
    PURange 0xBB18 0xBB18 12, PURange 0xBB19 0xBB33 13, PURange 0xBB34 0xBB34 12,
    PURange 0xBB35 0xBB4F 13, PURange 0xBB50 0xBB50 12, PURange 0xBB51 0xBB6B 13,
    PURange 0xBB6C 0xBB6C 12, PURange 0xBB6D 0xBB87 13, PURange 0xBB88 0xBB88 12,
    PURange 0xBB89 0xBBA3 13, PURange 0xBBA4 0xBBA4 12, PURange 0xBBA5 0xBBBF 13,
    PURange 0xBBC0 0xBBC0 12, PURange 0xBBC1 0xBBDB 13, PURange 0xBBDC 0xBBDC 12,
    PURange 0xBBDD 0xBBF7 13, PURange 0xBBF8 0xBBF8 12, PURange 0xBBF9 0xBC13 13,
    PURange 0xBC14 0xBC14 12, PURange 0xBC15 0xBC2F 13, PURange 0xBC30 0xBC30 12,
    PURange 0xBC31 0xBC4B 13, PURange 0xBC4C 0xBC4C 12, PURange 0xBC4D 0xBC67 13,
    PURange 0xBC68 0xBC68 12, PURange 0xBC69 0xBC83 13, PURange 0xBC84 0xBC84 12,
    PURange 0xBC85 0xBC9F 13, PURange 0xBCA0 0xBCA0 12, PURange 0xBCA1 0xBCBB 13,
    PURange 0xBCBC 0xBCBC 12, PURange 0xBCBD 0xBCD7 13, PURange 0xBCD8 0xBCD8 12,
    PURange 0xBCD9 0xBCF3 13, PURange 0xBCF4 0xBCF4 12]"

definition pas_u_gcb_5 :: "pas_u_range list" where
  "pas_u_gcb_5 = [
    PURange 0xBCF5 0xBD0F 13, PURange 0xBD10 0xBD10 12, PURange 0xBD11 0xBD2B 13,
    PURange 0xBD2C 0xBD2C 12, PURange 0xBD2D 0xBD47 13, PURange 0xBD48 0xBD48 12,
    PURange 0xBD49 0xBD63 13, PURange 0xBD64 0xBD64 12, PURange 0xBD65 0xBD7F 13,
    PURange 0xBD80 0xBD80 12, PURange 0xBD81 0xBD9B 13, PURange 0xBD9C 0xBD9C 12,
    PURange 0xBD9D 0xBDB7 13, PURange 0xBDB8 0xBDB8 12, PURange 0xBDB9 0xBDD3 13,
    PURange 0xBDD4 0xBDD4 12, PURange 0xBDD5 0xBDEF 13, PURange 0xBDF0 0xBDF0 12,
    PURange 0xBDF1 0xBE0B 13, PURange 0xBE0C 0xBE0C 12, PURange 0xBE0D 0xBE27 13,
    PURange 0xBE28 0xBE28 12, PURange 0xBE29 0xBE43 13, PURange 0xBE44 0xBE44 12,
    PURange 0xBE45 0xBE5F 13, PURange 0xBE60 0xBE60 12, PURange 0xBE61 0xBE7B 13,
    PURange 0xBE7C 0xBE7C 12, PURange 0xBE7D 0xBE97 13, PURange 0xBE98 0xBE98 12,
    PURange 0xBE99 0xBEB3 13, PURange 0xBEB4 0xBEB4 12, PURange 0xBEB5 0xBECF 13,
    PURange 0xBED0 0xBED0 12, PURange 0xBED1 0xBEEB 13, PURange 0xBEEC 0xBEEC 12,
    PURange 0xBEED 0xBF07 13, PURange 0xBF08 0xBF08 12, PURange 0xBF09 0xBF23 13,
    PURange 0xBF24 0xBF24 12, PURange 0xBF25 0xBF3F 13, PURange 0xBF40 0xBF40 12,
    PURange 0xBF41 0xBF5B 13, PURange 0xBF5C 0xBF5C 12, PURange 0xBF5D 0xBF77 13,
    PURange 0xBF78 0xBF78 12, PURange 0xBF79 0xBF93 13, PURange 0xBF94 0xBF94 12,
    PURange 0xBF95 0xBFAF 13, PURange 0xBFB0 0xBFB0 12, PURange 0xBFB1 0xBFCB 13,
    PURange 0xBFCC 0xBFCC 12, PURange 0xBFCD 0xBFE7 13, PURange 0xBFE8 0xBFE8 12,
    PURange 0xBFE9 0xC003 13, PURange 0xC004 0xC004 12, PURange 0xC005 0xC01F 13,
    PURange 0xC020 0xC020 12, PURange 0xC021 0xC03B 13, PURange 0xC03C 0xC03C 12,
    PURange 0xC03D 0xC057 13, PURange 0xC058 0xC058 12, PURange 0xC059 0xC073 13,
    PURange 0xC074 0xC074 12, PURange 0xC075 0xC08F 13, PURange 0xC090 0xC090 12,
    PURange 0xC091 0xC0AB 13, PURange 0xC0AC 0xC0AC 12, PURange 0xC0AD 0xC0C7 13,
    PURange 0xC0C8 0xC0C8 12, PURange 0xC0C9 0xC0E3 13, PURange 0xC0E4 0xC0E4 12,
    PURange 0xC0E5 0xC0FF 13, PURange 0xC100 0xC100 12, PURange 0xC101 0xC11B 13,
    PURange 0xC11C 0xC11C 12, PURange 0xC11D 0xC137 13, PURange 0xC138 0xC138 12,
    PURange 0xC139 0xC153 13, PURange 0xC154 0xC154 12, PURange 0xC155 0xC16F 13,
    PURange 0xC170 0xC170 12, PURange 0xC171 0xC18B 13, PURange 0xC18C 0xC18C 12,
    PURange 0xC18D 0xC1A7 13, PURange 0xC1A8 0xC1A8 12, PURange 0xC1A9 0xC1C3 13,
    PURange 0xC1C4 0xC1C4 12, PURange 0xC1C5 0xC1DF 13, PURange 0xC1E0 0xC1E0 12,
    PURange 0xC1E1 0xC1FB 13, PURange 0xC1FC 0xC1FC 12, PURange 0xC1FD 0xC217 13,
    PURange 0xC218 0xC218 12, PURange 0xC219 0xC233 13, PURange 0xC234 0xC234 12,
    PURange 0xC235 0xC24F 13, PURange 0xC250 0xC250 12, PURange 0xC251 0xC26B 13,
    PURange 0xC26C 0xC26C 12, PURange 0xC26D 0xC287 13, PURange 0xC288 0xC288 12,
    PURange 0xC289 0xC2A3 13, PURange 0xC2A4 0xC2A4 12, PURange 0xC2A5 0xC2BF 13,
    PURange 0xC2C0 0xC2C0 12, PURange 0xC2C1 0xC2DB 13, PURange 0xC2DC 0xC2DC 12,
    PURange 0xC2DD 0xC2F7 13, PURange 0xC2F8 0xC2F8 12, PURange 0xC2F9 0xC313 13,
    PURange 0xC314 0xC314 12, PURange 0xC315 0xC32F 13, PURange 0xC330 0xC330 12,
    PURange 0xC331 0xC34B 13, PURange 0xC34C 0xC34C 12, PURange 0xC34D 0xC367 13,
    PURange 0xC368 0xC368 12, PURange 0xC369 0xC383 13, PURange 0xC384 0xC384 12,
    PURange 0xC385 0xC39F 13, PURange 0xC3A0 0xC3A0 12, PURange 0xC3A1 0xC3BB 13,
    PURange 0xC3BC 0xC3BC 12, PURange 0xC3BD 0xC3D7 13, PURange 0xC3D8 0xC3D8 12,
    PURange 0xC3D9 0xC3F3 13, PURange 0xC3F4 0xC3F4 12]"

definition pas_u_gcb_6 :: "pas_u_range list" where
  "pas_u_gcb_6 = [
    PURange 0xC3F5 0xC40F 13, PURange 0xC410 0xC410 12, PURange 0xC411 0xC42B 13,
    PURange 0xC42C 0xC42C 12, PURange 0xC42D 0xC447 13, PURange 0xC448 0xC448 12,
    PURange 0xC449 0xC463 13, PURange 0xC464 0xC464 12, PURange 0xC465 0xC47F 13,
    PURange 0xC480 0xC480 12, PURange 0xC481 0xC49B 13, PURange 0xC49C 0xC49C 12,
    PURange 0xC49D 0xC4B7 13, PURange 0xC4B8 0xC4B8 12, PURange 0xC4B9 0xC4D3 13,
    PURange 0xC4D4 0xC4D4 12, PURange 0xC4D5 0xC4EF 13, PURange 0xC4F0 0xC4F0 12,
    PURange 0xC4F1 0xC50B 13, PURange 0xC50C 0xC50C 12, PURange 0xC50D 0xC527 13,
    PURange 0xC528 0xC528 12, PURange 0xC529 0xC543 13, PURange 0xC544 0xC544 12,
    PURange 0xC545 0xC55F 13, PURange 0xC560 0xC560 12, PURange 0xC561 0xC57B 13,
    PURange 0xC57C 0xC57C 12, PURange 0xC57D 0xC597 13, PURange 0xC598 0xC598 12,
    PURange 0xC599 0xC5B3 13, PURange 0xC5B4 0xC5B4 12, PURange 0xC5B5 0xC5CF 13,
    PURange 0xC5D0 0xC5D0 12, PURange 0xC5D1 0xC5EB 13, PURange 0xC5EC 0xC5EC 12,
    PURange 0xC5ED 0xC607 13, PURange 0xC608 0xC608 12, PURange 0xC609 0xC623 13,
    PURange 0xC624 0xC624 12, PURange 0xC625 0xC63F 13, PURange 0xC640 0xC640 12,
    PURange 0xC641 0xC65B 13, PURange 0xC65C 0xC65C 12, PURange 0xC65D 0xC677 13,
    PURange 0xC678 0xC678 12, PURange 0xC679 0xC693 13, PURange 0xC694 0xC694 12,
    PURange 0xC695 0xC6AF 13, PURange 0xC6B0 0xC6B0 12, PURange 0xC6B1 0xC6CB 13,
    PURange 0xC6CC 0xC6CC 12, PURange 0xC6CD 0xC6E7 13, PURange 0xC6E8 0xC6E8 12,
    PURange 0xC6E9 0xC703 13, PURange 0xC704 0xC704 12, PURange 0xC705 0xC71F 13,
    PURange 0xC720 0xC720 12, PURange 0xC721 0xC73B 13, PURange 0xC73C 0xC73C 12,
    PURange 0xC73D 0xC757 13, PURange 0xC758 0xC758 12, PURange 0xC759 0xC773 13,
    PURange 0xC774 0xC774 12, PURange 0xC775 0xC78F 13, PURange 0xC790 0xC790 12,
    PURange 0xC791 0xC7AB 13, PURange 0xC7AC 0xC7AC 12, PURange 0xC7AD 0xC7C7 13,
    PURange 0xC7C8 0xC7C8 12, PURange 0xC7C9 0xC7E3 13, PURange 0xC7E4 0xC7E4 12,
    PURange 0xC7E5 0xC7FF 13, PURange 0xC800 0xC800 12, PURange 0xC801 0xC81B 13,
    PURange 0xC81C 0xC81C 12, PURange 0xC81D 0xC837 13, PURange 0xC838 0xC838 12,
    PURange 0xC839 0xC853 13, PURange 0xC854 0xC854 12, PURange 0xC855 0xC86F 13,
    PURange 0xC870 0xC870 12, PURange 0xC871 0xC88B 13, PURange 0xC88C 0xC88C 12,
    PURange 0xC88D 0xC8A7 13, PURange 0xC8A8 0xC8A8 12, PURange 0xC8A9 0xC8C3 13,
    PURange 0xC8C4 0xC8C4 12, PURange 0xC8C5 0xC8DF 13, PURange 0xC8E0 0xC8E0 12,
    PURange 0xC8E1 0xC8FB 13, PURange 0xC8FC 0xC8FC 12, PURange 0xC8FD 0xC917 13,
    PURange 0xC918 0xC918 12, PURange 0xC919 0xC933 13, PURange 0xC934 0xC934 12,
    PURange 0xC935 0xC94F 13, PURange 0xC950 0xC950 12, PURange 0xC951 0xC96B 13,
    PURange 0xC96C 0xC96C 12, PURange 0xC96D 0xC987 13, PURange 0xC988 0xC988 12,
    PURange 0xC989 0xC9A3 13, PURange 0xC9A4 0xC9A4 12, PURange 0xC9A5 0xC9BF 13,
    PURange 0xC9C0 0xC9C0 12, PURange 0xC9C1 0xC9DB 13, PURange 0xC9DC 0xC9DC 12,
    PURange 0xC9DD 0xC9F7 13, PURange 0xC9F8 0xC9F8 12, PURange 0xC9F9 0xCA13 13,
    PURange 0xCA14 0xCA14 12, PURange 0xCA15 0xCA2F 13, PURange 0xCA30 0xCA30 12,
    PURange 0xCA31 0xCA4B 13, PURange 0xCA4C 0xCA4C 12, PURange 0xCA4D 0xCA67 13,
    PURange 0xCA68 0xCA68 12, PURange 0xCA69 0xCA83 13, PURange 0xCA84 0xCA84 12,
    PURange 0xCA85 0xCA9F 13, PURange 0xCAA0 0xCAA0 12, PURange 0xCAA1 0xCABB 13,
    PURange 0xCABC 0xCABC 12, PURange 0xCABD 0xCAD7 13, PURange 0xCAD8 0xCAD8 12,
    PURange 0xCAD9 0xCAF3 13, PURange 0xCAF4 0xCAF4 12]"

definition pas_u_gcb_7 :: "pas_u_range list" where
  "pas_u_gcb_7 = [
    PURange 0xCAF5 0xCB0F 13, PURange 0xCB10 0xCB10 12, PURange 0xCB11 0xCB2B 13,
    PURange 0xCB2C 0xCB2C 12, PURange 0xCB2D 0xCB47 13, PURange 0xCB48 0xCB48 12,
    PURange 0xCB49 0xCB63 13, PURange 0xCB64 0xCB64 12, PURange 0xCB65 0xCB7F 13,
    PURange 0xCB80 0xCB80 12, PURange 0xCB81 0xCB9B 13, PURange 0xCB9C 0xCB9C 12,
    PURange 0xCB9D 0xCBB7 13, PURange 0xCBB8 0xCBB8 12, PURange 0xCBB9 0xCBD3 13,
    PURange 0xCBD4 0xCBD4 12, PURange 0xCBD5 0xCBEF 13, PURange 0xCBF0 0xCBF0 12,
    PURange 0xCBF1 0xCC0B 13, PURange 0xCC0C 0xCC0C 12, PURange 0xCC0D 0xCC27 13,
    PURange 0xCC28 0xCC28 12, PURange 0xCC29 0xCC43 13, PURange 0xCC44 0xCC44 12,
    PURange 0xCC45 0xCC5F 13, PURange 0xCC60 0xCC60 12, PURange 0xCC61 0xCC7B 13,
    PURange 0xCC7C 0xCC7C 12, PURange 0xCC7D 0xCC97 13, PURange 0xCC98 0xCC98 12,
    PURange 0xCC99 0xCCB3 13, PURange 0xCCB4 0xCCB4 12, PURange 0xCCB5 0xCCCF 13,
    PURange 0xCCD0 0xCCD0 12, PURange 0xCCD1 0xCCEB 13, PURange 0xCCEC 0xCCEC 12,
    PURange 0xCCED 0xCD07 13, PURange 0xCD08 0xCD08 12, PURange 0xCD09 0xCD23 13,
    PURange 0xCD24 0xCD24 12, PURange 0xCD25 0xCD3F 13, PURange 0xCD40 0xCD40 12,
    PURange 0xCD41 0xCD5B 13, PURange 0xCD5C 0xCD5C 12, PURange 0xCD5D 0xCD77 13,
    PURange 0xCD78 0xCD78 12, PURange 0xCD79 0xCD93 13, PURange 0xCD94 0xCD94 12,
    PURange 0xCD95 0xCDAF 13, PURange 0xCDB0 0xCDB0 12, PURange 0xCDB1 0xCDCB 13,
    PURange 0xCDCC 0xCDCC 12, PURange 0xCDCD 0xCDE7 13, PURange 0xCDE8 0xCDE8 12,
    PURange 0xCDE9 0xCE03 13, PURange 0xCE04 0xCE04 12, PURange 0xCE05 0xCE1F 13,
    PURange 0xCE20 0xCE20 12, PURange 0xCE21 0xCE3B 13, PURange 0xCE3C 0xCE3C 12,
    PURange 0xCE3D 0xCE57 13, PURange 0xCE58 0xCE58 12, PURange 0xCE59 0xCE73 13,
    PURange 0xCE74 0xCE74 12, PURange 0xCE75 0xCE8F 13, PURange 0xCE90 0xCE90 12,
    PURange 0xCE91 0xCEAB 13, PURange 0xCEAC 0xCEAC 12, PURange 0xCEAD 0xCEC7 13,
    PURange 0xCEC8 0xCEC8 12, PURange 0xCEC9 0xCEE3 13, PURange 0xCEE4 0xCEE4 12,
    PURange 0xCEE5 0xCEFF 13, PURange 0xCF00 0xCF00 12, PURange 0xCF01 0xCF1B 13,
    PURange 0xCF1C 0xCF1C 12, PURange 0xCF1D 0xCF37 13, PURange 0xCF38 0xCF38 12,
    PURange 0xCF39 0xCF53 13, PURange 0xCF54 0xCF54 12, PURange 0xCF55 0xCF6F 13,
    PURange 0xCF70 0xCF70 12, PURange 0xCF71 0xCF8B 13, PURange 0xCF8C 0xCF8C 12,
    PURange 0xCF8D 0xCFA7 13, PURange 0xCFA8 0xCFA8 12, PURange 0xCFA9 0xCFC3 13,
    PURange 0xCFC4 0xCFC4 12, PURange 0xCFC5 0xCFDF 13, PURange 0xCFE0 0xCFE0 12,
    PURange 0xCFE1 0xCFFB 13, PURange 0xCFFC 0xCFFC 12, PURange 0xCFFD 0xD017 13,
    PURange 0xD018 0xD018 12, PURange 0xD019 0xD033 13, PURange 0xD034 0xD034 12,
    PURange 0xD035 0xD04F 13, PURange 0xD050 0xD050 12, PURange 0xD051 0xD06B 13,
    PURange 0xD06C 0xD06C 12, PURange 0xD06D 0xD087 13, PURange 0xD088 0xD088 12,
    PURange 0xD089 0xD0A3 13, PURange 0xD0A4 0xD0A4 12, PURange 0xD0A5 0xD0BF 13,
    PURange 0xD0C0 0xD0C0 12, PURange 0xD0C1 0xD0DB 13, PURange 0xD0DC 0xD0DC 12,
    PURange 0xD0DD 0xD0F7 13, PURange 0xD0F8 0xD0F8 12, PURange 0xD0F9 0xD113 13,
    PURange 0xD114 0xD114 12, PURange 0xD115 0xD12F 13, PURange 0xD130 0xD130 12,
    PURange 0xD131 0xD14B 13, PURange 0xD14C 0xD14C 12, PURange 0xD14D 0xD167 13,
    PURange 0xD168 0xD168 12, PURange 0xD169 0xD183 13, PURange 0xD184 0xD184 12,
    PURange 0xD185 0xD19F 13, PURange 0xD1A0 0xD1A0 12, PURange 0xD1A1 0xD1BB 13,
    PURange 0xD1BC 0xD1BC 12, PURange 0xD1BD 0xD1D7 13, PURange 0xD1D8 0xD1D8 12,
    PURange 0xD1D9 0xD1F3 13, PURange 0xD1F4 0xD1F4 12]"

definition pas_u_gcb_8 :: "pas_u_range list" where
  "pas_u_gcb_8 = [
    PURange 0xD1F5 0xD20F 13, PURange 0xD210 0xD210 12, PURange 0xD211 0xD22B 13,
    PURange 0xD22C 0xD22C 12, PURange 0xD22D 0xD247 13, PURange 0xD248 0xD248 12,
    PURange 0xD249 0xD263 13, PURange 0xD264 0xD264 12, PURange 0xD265 0xD27F 13,
    PURange 0xD280 0xD280 12, PURange 0xD281 0xD29B 13, PURange 0xD29C 0xD29C 12,
    PURange 0xD29D 0xD2B7 13, PURange 0xD2B8 0xD2B8 12, PURange 0xD2B9 0xD2D3 13,
    PURange 0xD2D4 0xD2D4 12, PURange 0xD2D5 0xD2EF 13, PURange 0xD2F0 0xD2F0 12,
    PURange 0xD2F1 0xD30B 13, PURange 0xD30C 0xD30C 12, PURange 0xD30D 0xD327 13,
    PURange 0xD328 0xD328 12, PURange 0xD329 0xD343 13, PURange 0xD344 0xD344 12,
    PURange 0xD345 0xD35F 13, PURange 0xD360 0xD360 12, PURange 0xD361 0xD37B 13,
    PURange 0xD37C 0xD37C 12, PURange 0xD37D 0xD397 13, PURange 0xD398 0xD398 12,
    PURange 0xD399 0xD3B3 13, PURange 0xD3B4 0xD3B4 12, PURange 0xD3B5 0xD3CF 13,
    PURange 0xD3D0 0xD3D0 12, PURange 0xD3D1 0xD3EB 13, PURange 0xD3EC 0xD3EC 12,
    PURange 0xD3ED 0xD407 13, PURange 0xD408 0xD408 12, PURange 0xD409 0xD423 13,
    PURange 0xD424 0xD424 12, PURange 0xD425 0xD43F 13, PURange 0xD440 0xD440 12,
    PURange 0xD441 0xD45B 13, PURange 0xD45C 0xD45C 12, PURange 0xD45D 0xD477 13,
    PURange 0xD478 0xD478 12, PURange 0xD479 0xD493 13, PURange 0xD494 0xD494 12,
    PURange 0xD495 0xD4AF 13, PURange 0xD4B0 0xD4B0 12, PURange 0xD4B1 0xD4CB 13,
    PURange 0xD4CC 0xD4CC 12, PURange 0xD4CD 0xD4E7 13, PURange 0xD4E8 0xD4E8 12,
    PURange 0xD4E9 0xD503 13, PURange 0xD504 0xD504 12, PURange 0xD505 0xD51F 13,
    PURange 0xD520 0xD520 12, PURange 0xD521 0xD53B 13, PURange 0xD53C 0xD53C 12,
    PURange 0xD53D 0xD557 13, PURange 0xD558 0xD558 12, PURange 0xD559 0xD573 13,
    PURange 0xD574 0xD574 12, PURange 0xD575 0xD58F 13, PURange 0xD590 0xD590 12,
    PURange 0xD591 0xD5AB 13, PURange 0xD5AC 0xD5AC 12, PURange 0xD5AD 0xD5C7 13,
    PURange 0xD5C8 0xD5C8 12, PURange 0xD5C9 0xD5E3 13, PURange 0xD5E4 0xD5E4 12,
    PURange 0xD5E5 0xD5FF 13, PURange 0xD600 0xD600 12, PURange 0xD601 0xD61B 13,
    PURange 0xD61C 0xD61C 12, PURange 0xD61D 0xD637 13, PURange 0xD638 0xD638 12,
    PURange 0xD639 0xD653 13, PURange 0xD654 0xD654 12, PURange 0xD655 0xD66F 13,
    PURange 0xD670 0xD670 12, PURange 0xD671 0xD68B 13, PURange 0xD68C 0xD68C 12,
    PURange 0xD68D 0xD6A7 13, PURange 0xD6A8 0xD6A8 12, PURange 0xD6A9 0xD6C3 13,
    PURange 0xD6C4 0xD6C4 12, PURange 0xD6C5 0xD6DF 13, PURange 0xD6E0 0xD6E0 12,
    PURange 0xD6E1 0xD6FB 13, PURange 0xD6FC 0xD6FC 12, PURange 0xD6FD 0xD717 13,
    PURange 0xD718 0xD718 12, PURange 0xD719 0xD733 13, PURange 0xD734 0xD734 12,
    PURange 0xD735 0xD74F 13, PURange 0xD750 0xD750 12, PURange 0xD751 0xD76B 13,
    PURange 0xD76C 0xD76C 12, PURange 0xD76D 0xD787 13, PURange 0xD788 0xD788 12,
    PURange 0xD789 0xD7A3 13, PURange 0xD7B0 0xD7C6 10, PURange 0xD7CB 0xD7FB 11,
    PURange 0xFB1E 0xFB1E 4, PURange 0xFE00 0xFE0F 4, PURange 0xFE20 0xFE2F 4,
    PURange 0xFEFF 0xFEFF 3, PURange 0xFF9E 0xFF9F 4, PURange 0xFFF0 0xFFFB 3,
    PURange 0x101FD 0x101FD 4, PURange 0x102E0 0x102E0 4, PURange 0x10376 0x1037A 4,
    PURange 0x10A01 0x10A03 4, PURange 0x10A05 0x10A06 4, PURange 0x10A0C 0x10A0F 4,
    PURange 0x10A38 0x10A3A 4, PURange 0x10A3F 0x10A3F 4, PURange 0x10AE5 0x10AE6 4,
    PURange 0x10D24 0x10D27 4, PURange 0x10D69 0x10D6D 4, PURange 0x10EAB 0x10EAC 4,
    PURange 0x10EFA 0x10EFF 4, PURange 0x10F46 0x10F50 4, PURange 0x10F82 0x10F85 4,
    PURange 0x11000 0x11000 8, PURange 0x11001 0x11001 4]"

definition pas_u_gcb_9 :: "pas_u_range list" where
  "pas_u_gcb_9 = [
    PURange 0x11002 0x11002 8, PURange 0x11038 0x11046 4, PURange 0x11070 0x11070 4,
    PURange 0x11073 0x11074 4, PURange 0x1107F 0x11081 4, PURange 0x11082 0x11082 8,
    PURange 0x110B0 0x110B2 8, PURange 0x110B3 0x110B6 4, PURange 0x110B7 0x110B8 8,
    PURange 0x110B9 0x110BA 4, PURange 0x110BD 0x110BD 7, PURange 0x110C2 0x110C2 4,
    PURange 0x110CD 0x110CD 7, PURange 0x11100 0x11102 4, PURange 0x11127 0x1112B 4,
    PURange 0x1112C 0x1112C 8, PURange 0x1112D 0x11134 4, PURange 0x11145 0x11146 8,
    PURange 0x11173 0x11173 4, PURange 0x11180 0x11181 4, PURange 0x11182 0x11182 8,
    PURange 0x111B3 0x111B5 8, PURange 0x111B6 0x111BE 4, PURange 0x111BF 0x111BF 8,
    PURange 0x111C0 0x111C0 4, PURange 0x111C2 0x111C3 7, PURange 0x111C9 0x111CC 4,
    PURange 0x111CE 0x111CE 8, PURange 0x111CF 0x111CF 4, PURange 0x1122C 0x1122E 8,
    PURange 0x1122F 0x11231 4, PURange 0x11232 0x11233 8, PURange 0x11234 0x11237 4,
    PURange 0x1123E 0x1123E 4, PURange 0x11241 0x11241 4, PURange 0x112DF 0x112DF 4,
    PURange 0x112E0 0x112E2 8, PURange 0x112E3 0x112EA 4, PURange 0x11300 0x11301 4,
    PURange 0x11302 0x11303 8, PURange 0x1133B 0x1133C 4, PURange 0x1133E 0x1133E 4,
    PURange 0x1133F 0x1133F 8, PURange 0x11340 0x11340 4, PURange 0x11341 0x11344 8,
    PURange 0x11347 0x11348 8, PURange 0x1134B 0x1134C 8, PURange 0x1134D 0x1134D 4,
    PURange 0x11357 0x11357 4, PURange 0x11362 0x11363 8, PURange 0x11366 0x1136C 4,
    PURange 0x11370 0x11374 4, PURange 0x113B8 0x113B8 4, PURange 0x113B9 0x113BA 8,
    PURange 0x113BB 0x113C0 4, PURange 0x113C2 0x113C2 4, PURange 0x113C5 0x113C5 4,
    PURange 0x113C7 0x113C9 4, PURange 0x113CA 0x113CA 8, PURange 0x113CC 0x113CD 8,
    PURange 0x113CE 0x113D0 4, PURange 0x113D1 0x113D1 7, PURange 0x113D2 0x113D2 4,
    PURange 0x113E1 0x113E2 4, PURange 0x11435 0x11437 8, PURange 0x11438 0x1143F 4,
    PURange 0x11440 0x11441 8, PURange 0x11442 0x11444 4, PURange 0x11445 0x11445 8,
    PURange 0x11446 0x11446 4, PURange 0x1145E 0x1145E 4, PURange 0x114B0 0x114B0 4,
    PURange 0x114B1 0x114B2 8, PURange 0x114B3 0x114B8 4, PURange 0x114B9 0x114B9 8,
    PURange 0x114BA 0x114BA 4, PURange 0x114BB 0x114BC 8, PURange 0x114BD 0x114BD 4,
    PURange 0x114BE 0x114BE 8, PURange 0x114BF 0x114C0 4, PURange 0x114C1 0x114C1 8,
    PURange 0x114C2 0x114C3 4, PURange 0x115AF 0x115AF 4, PURange 0x115B0 0x115B1 8,
    PURange 0x115B2 0x115B5 4, PURange 0x115B8 0x115BB 8, PURange 0x115BC 0x115BD 4,
    PURange 0x115BE 0x115BE 8, PURange 0x115BF 0x115C0 4, PURange 0x115DC 0x115DD 4,
    PURange 0x11630 0x11632 8, PURange 0x11633 0x1163A 4, PURange 0x1163B 0x1163C 8,
    PURange 0x1163D 0x1163D 4, PURange 0x1163E 0x1163E 8, PURange 0x1163F 0x11640 4,
    PURange 0x116AB 0x116AB 4, PURange 0x116AC 0x116AC 8, PURange 0x116AD 0x116AD 4,
    PURange 0x116AE 0x116AF 8, PURange 0x116B0 0x116B7 4, PURange 0x1171D 0x1171D 4,
    PURange 0x1171E 0x1171E 8, PURange 0x1171F 0x1171F 4, PURange 0x11722 0x11725 4,
    PURange 0x11726 0x11726 8, PURange 0x11727 0x1172B 4, PURange 0x1182C 0x1182E 8,
    PURange 0x1182F 0x11837 4, PURange 0x11838 0x11838 8, PURange 0x11839 0x1183A 4,
    PURange 0x11930 0x11930 4, PURange 0x11931 0x11935 8, PURange 0x11937 0x11938 8,
    PURange 0x1193B 0x1193E 4, PURange 0x1193F 0x1193F 7, PURange 0x11940 0x11940 8,
    PURange 0x11941 0x11941 7, PURange 0x11942 0x11942 8, PURange 0x11943 0x11943 4,
    PURange 0x119D1 0x119D3 8, PURange 0x119D4 0x119D7 4, PURange 0x119DA 0x119DB 4,
    PURange 0x119DC 0x119DF 8, PURange 0x119E0 0x119E0 4, PURange 0x119E4 0x119E4 8,
    PURange 0x11A01 0x11A0A 4, PURange 0x11A33 0x11A38 4]"

definition pas_u_gcb_10 :: "pas_u_range list" where
  "pas_u_gcb_10 = [
    PURange 0x11A39 0x11A39 8, PURange 0x11A3B 0x11A3E 4, PURange 0x11A47 0x11A47 4,
    PURange 0x11A51 0x11A56 4, PURange 0x11A57 0x11A58 8, PURange 0x11A59 0x11A5B 4,
    PURange 0x11A84 0x11A89 7, PURange 0x11A8A 0x11A96 4, PURange 0x11A97 0x11A97 8,
    PURange 0x11A98 0x11A99 4, PURange 0x11B60 0x11B60 4, PURange 0x11B61 0x11B61 8,
    PURange 0x11B62 0x11B64 4, PURange 0x11B65 0x11B65 8, PURange 0x11B66 0x11B66 4,
    PURange 0x11B67 0x11B67 8, PURange 0x11C2F 0x11C2F 8, PURange 0x11C30 0x11C36 4,
    PURange 0x11C38 0x11C3D 4, PURange 0x11C3E 0x11C3E 8, PURange 0x11C3F 0x11C3F 4,
    PURange 0x11C92 0x11CA7 4, PURange 0x11CA9 0x11CA9 8, PURange 0x11CAA 0x11CB0 4,
    PURange 0x11CB1 0x11CB1 8, PURange 0x11CB2 0x11CB3 4, PURange 0x11CB4 0x11CB4 8,
    PURange 0x11CB5 0x11CB6 4, PURange 0x11D31 0x11D36 4, PURange 0x11D3A 0x11D3A 4,
    PURange 0x11D3C 0x11D3D 4, PURange 0x11D3F 0x11D45 4, PURange 0x11D46 0x11D46 7,
    PURange 0x11D47 0x11D47 4, PURange 0x11D8A 0x11D8E 8, PURange 0x11D90 0x11D91 4,
    PURange 0x11D93 0x11D94 8, PURange 0x11D95 0x11D95 4, PURange 0x11D96 0x11D96 8,
    PURange 0x11D97 0x11D97 4, PURange 0x11EF3 0x11EF4 4, PURange 0x11EF5 0x11EF6 8,
    PURange 0x11F00 0x11F01 4, PURange 0x11F02 0x11F02 7, PURange 0x11F03 0x11F03 8,
    PURange 0x11F34 0x11F35 8, PURange 0x11F36 0x11F3A 4, PURange 0x11F3E 0x11F3F 8,
    PURange 0x11F40 0x11F42 4, PURange 0x11F5A 0x11F5A 4, PURange 0x13430 0x1343F 3,
    PURange 0x13440 0x13440 4, PURange 0x13447 0x13455 4, PURange 0x1611E 0x16129 4,
    PURange 0x1612A 0x1612C 8, PURange 0x1612D 0x1612F 4, PURange 0x16AF0 0x16AF4 4,
    PURange 0x16B30 0x16B36 4, PURange 0x16D63 0x16D63 10, PURange 0x16D67 0x16D6A 10,
    PURange 0x16F4F 0x16F4F 4, PURange 0x16F51 0x16F87 8, PURange 0x16F8F 0x16F92 4,
    PURange 0x16FE4 0x16FE4 4, PURange 0x16FF0 0x16FF1 4, PURange 0x1BC9D 0x1BC9E 4,
    PURange 0x1BCA0 0x1BCA3 3, PURange 0x1CF00 0x1CF2D 4, PURange 0x1CF30 0x1CF46 4,
    PURange 0x1D165 0x1D169 4, PURange 0x1D16D 0x1D172 4, PURange 0x1D173 0x1D17A 3,
    PURange 0x1D17B 0x1D182 4, PURange 0x1D185 0x1D18B 4, PURange 0x1D1AA 0x1D1AD 4,
    PURange 0x1D242 0x1D244 4, PURange 0x1DA00 0x1DA36 4, PURange 0x1DA3B 0x1DA6C 4,
    PURange 0x1DA75 0x1DA75 4, PURange 0x1DA84 0x1DA84 4, PURange 0x1DA9B 0x1DA9F 4,
    PURange 0x1DAA1 0x1DAAF 4, PURange 0x1E000 0x1E006 4, PURange 0x1E008 0x1E018 4,
    PURange 0x1E01B 0x1E021 4, PURange 0x1E023 0x1E024 4, PURange 0x1E026 0x1E02A 4,
    PURange 0x1E08F 0x1E08F 4, PURange 0x1E130 0x1E136 4, PURange 0x1E2AE 0x1E2AE 4,
    PURange 0x1E2EC 0x1E2EF 4, PURange 0x1E4EC 0x1E4EF 4, PURange 0x1E5EE 0x1E5EF 4,
    PURange 0x1E6E3 0x1E6E3 4, PURange 0x1E6E6 0x1E6E6 4, PURange 0x1E6EE 0x1E6EF 4,
    PURange 0x1E6F5 0x1E6F5 4, PURange 0x1E8D0 0x1E8D6 4, PURange 0x1E944 0x1E94A 4,
    PURange 0x1F1E6 0x1F1FF 6, PURange 0x1F3FB 0x1F3FF 4, PURange 0xE0000 0xE001F 3,
    PURange 0xE0020 0xE007F 4, PURange 0xE0080 0xE00FF 3, PURange 0xE0100 0xE01EF 4,
    PURange 0xE01F0 0xE0FFF 3]"

definition pas_u_gcb :: "pas_u_range list" where
  "pas_u_gcb = pas_u_gcb_0 @ pas_u_gcb_1 @ pas_u_gcb_2 @ pas_u_gcb_3 @ pas_u_gcb_4 @ pas_u_gcb_5 @ pas_u_gcb_6 @ pas_u_gcb_7 @ pas_u_gcb_8 @ pas_u_gcb_9 @ pas_u_gcb_10"

definition pas_u_incb_0 :: "pas_u_range list" where
  "pas_u_incb_0 = [
    PURange 0x300 0x36F 2, PURange 0x483 0x489 2, PURange 0x591 0x5BD 2,
    PURange 0x5BF 0x5BF 2, PURange 0x5C1 0x5C2 2, PURange 0x5C4 0x5C5 2,
    PURange 0x5C7 0x5C7 2, PURange 0x610 0x61A 2, PURange 0x64B 0x65F 2,
    PURange 0x670 0x670 2, PURange 0x6D6 0x6DC 2, PURange 0x6DF 0x6E4 2,
    PURange 0x6E7 0x6E8 2, PURange 0x6EA 0x6ED 2, PURange 0x711 0x711 2,
    PURange 0x730 0x74A 2, PURange 0x7A6 0x7B0 2, PURange 0x7EB 0x7F3 2,
    PURange 0x7FD 0x7FD 2, PURange 0x816 0x819 2, PURange 0x81B 0x823 2,
    PURange 0x825 0x827 2, PURange 0x829 0x82D 2, PURange 0x859 0x85B 2,
    PURange 0x897 0x89F 2, PURange 0x8CA 0x8E1 2, PURange 0x8E3 0x902 2,
    PURange 0x915 0x939 1, PURange 0x93A 0x93A 2, PURange 0x93C 0x93C 2,
    PURange 0x941 0x948 2, PURange 0x94D 0x94D 3, PURange 0x951 0x957 2,
    PURange 0x958 0x95F 1, PURange 0x962 0x963 2, PURange 0x978 0x97F 1,
    PURange 0x981 0x981 2, PURange 0x995 0x9A8 1, PURange 0x9AA 0x9B0 1,
    PURange 0x9B2 0x9B2 1, PURange 0x9B6 0x9B9 1, PURange 0x9BC 0x9BC 2,
    PURange 0x9BE 0x9BE 2, PURange 0x9C1 0x9C4 2, PURange 0x9CD 0x9CD 3,
    PURange 0x9D7 0x9D7 2, PURange 0x9DC 0x9DD 1, PURange 0x9DF 0x9DF 1,
    PURange 0x9E2 0x9E3 2, PURange 0x9F0 0x9F1 1, PURange 0x9FE 0x9FE 2,
    PURange 0xA01 0xA02 2, PURange 0xA3C 0xA3C 2, PURange 0xA41 0xA42 2,
    PURange 0xA47 0xA48 2, PURange 0xA4B 0xA4D 2, PURange 0xA51 0xA51 2,
    PURange 0xA70 0xA71 2, PURange 0xA75 0xA75 2, PURange 0xA81 0xA82 2,
    PURange 0xA95 0xAA8 1, PURange 0xAAA 0xAB0 1, PURange 0xAB2 0xAB3 1,
    PURange 0xAB5 0xAB9 1, PURange 0xABC 0xABC 2, PURange 0xAC1 0xAC5 2,
    PURange 0xAC7 0xAC8 2, PURange 0xACD 0xACD 3, PURange 0xAE2 0xAE3 2,
    PURange 0xAF9 0xAF9 1, PURange 0xAFA 0xAFF 2, PURange 0xB01 0xB01 2,
    PURange 0xB15 0xB28 1, PURange 0xB2A 0xB30 1, PURange 0xB32 0xB33 1,
    PURange 0xB35 0xB39 1, PURange 0xB3C 0xB3C 2, PURange 0xB3E 0xB3F 2,
    PURange 0xB41 0xB44 2, PURange 0xB4D 0xB4D 3, PURange 0xB55 0xB57 2,
    PURange 0xB5C 0xB5D 1, PURange 0xB5F 0xB5F 1, PURange 0xB62 0xB63 2,
    PURange 0xB71 0xB71 1, PURange 0xB82 0xB82 2, PURange 0xBBE 0xBBE 2,
    PURange 0xBC0 0xBC0 2, PURange 0xBCD 0xBCD 2, PURange 0xBD7 0xBD7 2,
    PURange 0xC00 0xC00 2, PURange 0xC04 0xC04 2, PURange 0xC15 0xC28 1,
    PURange 0xC2A 0xC39 1, PURange 0xC3C 0xC3C 2, PURange 0xC3E 0xC40 2,
    PURange 0xC46 0xC48 2, PURange 0xC4A 0xC4C 2, PURange 0xC4D 0xC4D 3,
    PURange 0xC55 0xC56 2, PURange 0xC58 0xC5A 1, PURange 0xC62 0xC63 2,
    PURange 0xC81 0xC81 2, PURange 0xCBC 0xCBC 2, PURange 0xCBF 0xCC0 2,
    PURange 0xCC2 0xCC2 2, PURange 0xCC6 0xCC8 2, PURange 0xCCA 0xCCD 2,
    PURange 0xCD5 0xCD6 2, PURange 0xCE2 0xCE3 2, PURange 0xD00 0xD01 2,
    PURange 0xD15 0xD3A 1, PURange 0xD3B 0xD3C 2, PURange 0xD3E 0xD3E 2,
    PURange 0xD41 0xD44 2, PURange 0xD4D 0xD4D 3, PURange 0xD57 0xD57 2,
    PURange 0xD62 0xD63 2, PURange 0xD81 0xD81 2, PURange 0xDCA 0xDCA 2,
    PURange 0xDCF 0xDCF 2, PURange 0xDD2 0xDD4 2, PURange 0xDD6 0xDD6 2,
    PURange 0xDDF 0xDDF 2, PURange 0xE31 0xE31 2, PURange 0xE34 0xE3A 2,
    PURange 0xE47 0xE4E 2, PURange 0xEB1 0xEB1 2]"

definition pas_u_incb_1 :: "pas_u_range list" where
  "pas_u_incb_1 = [
    PURange 0xEB4 0xEBC 2, PURange 0xEC8 0xECE 2, PURange 0xF18 0xF19 2,
    PURange 0xF35 0xF35 2, PURange 0xF37 0xF37 2, PURange 0xF39 0xF39 2,
    PURange 0xF71 0xF7E 2, PURange 0xF80 0xF84 2, PURange 0xF86 0xF87 2,
    PURange 0xF8D 0xF97 2, PURange 0xF99 0xFBC 2, PURange 0xFC6 0xFC6 2,
    PURange 0x1000 0x102A 1, PURange 0x102D 0x1030 2, PURange 0x1032 0x1037 2,
    PURange 0x1039 0x1039 3, PURange 0x103A 0x103A 2, PURange 0x103D 0x103E 2,
    PURange 0x103F 0x103F 1, PURange 0x1050 0x1055 1, PURange 0x1058 0x1059 2,
    PURange 0x105A 0x105D 1, PURange 0x105E 0x1060 2, PURange 0x1061 0x1061 1,
    PURange 0x1065 0x1066 1, PURange 0x106E 0x1070 1, PURange 0x1071 0x1074 2,
    PURange 0x1075 0x1081 1, PURange 0x1082 0x1082 2, PURange 0x1085 0x1086 2,
    PURange 0x108D 0x108D 2, PURange 0x108E 0x108E 1, PURange 0x109D 0x109D 2,
    PURange 0x135D 0x135F 2, PURange 0x1712 0x1715 2, PURange 0x1732 0x1734 2,
    PURange 0x1752 0x1753 2, PURange 0x1772 0x1773 2, PURange 0x1780 0x17B3 1,
    PURange 0x17B4 0x17B5 2, PURange 0x17B7 0x17BD 2, PURange 0x17C6 0x17C6 2,
    PURange 0x17C9 0x17D1 2, PURange 0x17D2 0x17D2 3, PURange 0x17D3 0x17D3 2,
    PURange 0x17DD 0x17DD 2, PURange 0x180B 0x180D 2, PURange 0x180F 0x180F 2,
    PURange 0x1885 0x1886 2, PURange 0x18A9 0x18A9 2, PURange 0x1920 0x1922 2,
    PURange 0x1927 0x1928 2, PURange 0x1932 0x1932 2, PURange 0x1939 0x193B 2,
    PURange 0x1A17 0x1A18 2, PURange 0x1A1B 0x1A1B 2, PURange 0x1A20 0x1A54 1,
    PURange 0x1A56 0x1A56 2, PURange 0x1A58 0x1A5E 2, PURange 0x1A60 0x1A60 3,
    PURange 0x1A62 0x1A62 2, PURange 0x1A65 0x1A6C 2, PURange 0x1A73 0x1A7C 2,
    PURange 0x1A7F 0x1A7F 2, PURange 0x1AB0 0x1ADD 2, PURange 0x1AE0 0x1AEB 2,
    PURange 0x1B00 0x1B03 2, PURange 0x1B0B 0x1B0C 1, PURange 0x1B13 0x1B33 1,
    PURange 0x1B34 0x1B3D 2, PURange 0x1B42 0x1B43 2, PURange 0x1B44 0x1B44 3,
    PURange 0x1B45 0x1B4C 1, PURange 0x1B6B 0x1B73 2, PURange 0x1B80 0x1B81 2,
    PURange 0x1B83 0x1BA0 1, PURange 0x1BA2 0x1BA5 2, PURange 0x1BA8 0x1BAA 2,
    PURange 0x1BAB 0x1BAB 3, PURange 0x1BAC 0x1BAD 2, PURange 0x1BAE 0x1BAF 1,
    PURange 0x1BBB 0x1BBD 1, PURange 0x1BE6 0x1BE6 2, PURange 0x1BE8 0x1BE9 2,
    PURange 0x1BED 0x1BED 2, PURange 0x1BEF 0x1BF3 2, PURange 0x1C2C 0x1C33 2,
    PURange 0x1C36 0x1C37 2, PURange 0x1CD0 0x1CD2 2, PURange 0x1CD4 0x1CE0 2,
    PURange 0x1CE2 0x1CE8 2, PURange 0x1CED 0x1CED 2, PURange 0x1CF4 0x1CF4 2,
    PURange 0x1CF8 0x1CF9 2, PURange 0x1DC0 0x1DFF 2, PURange 0x200D 0x200D 2,
    PURange 0x20D0 0x20F0 2, PURange 0x2CEF 0x2CF1 2, PURange 0x2D7F 0x2D7F 2,
    PURange 0x2DE0 0x2DFF 2, PURange 0x302A 0x302F 2, PURange 0x3099 0x309A 2,
    PURange 0xA66F 0xA672 2, PURange 0xA674 0xA67D 2, PURange 0xA69E 0xA69F 2,
    PURange 0xA6F0 0xA6F1 2, PURange 0xA802 0xA802 2, PURange 0xA806 0xA806 2,
    PURange 0xA80B 0xA80B 2, PURange 0xA825 0xA826 2, PURange 0xA82C 0xA82C 2,
    PURange 0xA8C4 0xA8C5 2, PURange 0xA8E0 0xA8F1 2, PURange 0xA8FF 0xA8FF 2,
    PURange 0xA926 0xA92D 2, PURange 0xA947 0xA951 2, PURange 0xA953 0xA953 2,
    PURange 0xA980 0xA982 2, PURange 0xA989 0xA98B 1, PURange 0xA98F 0xA9B2 1,
    PURange 0xA9B3 0xA9B3 2, PURange 0xA9B6 0xA9B9 2, PURange 0xA9BC 0xA9BD 2,
    PURange 0xA9C0 0xA9C0 3, PURange 0xA9E0 0xA9E4 1, PURange 0xA9E5 0xA9E5 2,
    PURange 0xA9E7 0xA9EF 1, PURange 0xA9FA 0xA9FE 1]"

definition pas_u_incb_2 :: "pas_u_range list" where
  "pas_u_incb_2 = [
    PURange 0xAA29 0xAA2E 2, PURange 0xAA31 0xAA32 2, PURange 0xAA35 0xAA36 2,
    PURange 0xAA43 0xAA43 2, PURange 0xAA4C 0xAA4C 2, PURange 0xAA60 0xAA6F 1,
    PURange 0xAA71 0xAA73 1, PURange 0xAA7A 0xAA7A 1, PURange 0xAA7C 0xAA7C 2,
    PURange 0xAA7E 0xAA7F 1, PURange 0xAAB0 0xAAB0 2, PURange 0xAAB2 0xAAB4 2,
    PURange 0xAAB7 0xAAB8 2, PURange 0xAABE 0xAABF 2, PURange 0xAAC1 0xAAC1 2,
    PURange 0xAAE0 0xAAEA 1, PURange 0xAAEC 0xAAED 2, PURange 0xAAF6 0xAAF6 3,
    PURange 0xABC0 0xABDA 1, PURange 0xABE5 0xABE5 2, PURange 0xABE8 0xABE8 2,
    PURange 0xABED 0xABED 2, PURange 0xFB1E 0xFB1E 2, PURange 0xFE00 0xFE0F 2,
    PURange 0xFE20 0xFE2F 2, PURange 0xFF9E 0xFF9F 2, PURange 0x101FD 0x101FD 2,
    PURange 0x102E0 0x102E0 2, PURange 0x10376 0x1037A 2, PURange 0x10A00 0x10A00 1,
    PURange 0x10A01 0x10A03 2, PURange 0x10A05 0x10A06 2, PURange 0x10A0C 0x10A0F 2,
    PURange 0x10A10 0x10A13 1, PURange 0x10A15 0x10A17 1, PURange 0x10A19 0x10A35 1,
    PURange 0x10A38 0x10A3A 2, PURange 0x10A3F 0x10A3F 3, PURange 0x10AE5 0x10AE6 2,
    PURange 0x10D24 0x10D27 2, PURange 0x10D69 0x10D6D 2, PURange 0x10EAB 0x10EAC 2,
    PURange 0x10EFA 0x10EFF 2, PURange 0x10F46 0x10F50 2, PURange 0x10F82 0x10F85 2,
    PURange 0x11001 0x11001 2, PURange 0x11038 0x11046 2, PURange 0x11070 0x11070 2,
    PURange 0x11073 0x11074 2, PURange 0x1107F 0x11081 2, PURange 0x110B3 0x110B6 2,
    PURange 0x110B9 0x110BA 2, PURange 0x110C2 0x110C2 2, PURange 0x11100 0x11102 2,
    PURange 0x11103 0x11126 1, PURange 0x11127 0x1112B 2, PURange 0x1112D 0x11132 2,
    PURange 0x11133 0x11133 3, PURange 0x11134 0x11134 2, PURange 0x11144 0x11144 1,
    PURange 0x11147 0x11147 1, PURange 0x11173 0x11173 2, PURange 0x11180 0x11181 2,
    PURange 0x111B6 0x111BE 2, PURange 0x111C0 0x111C0 2, PURange 0x111C9 0x111CC 2,
    PURange 0x111CF 0x111CF 2, PURange 0x1122F 0x11231 2, PURange 0x11234 0x11237 2,
    PURange 0x1123E 0x1123E 2, PURange 0x11241 0x11241 2, PURange 0x112DF 0x112DF 2,
    PURange 0x112E3 0x112EA 2, PURange 0x11300 0x11301 2, PURange 0x1133B 0x1133C 2,
    PURange 0x1133E 0x1133E 2, PURange 0x11340 0x11340 2, PURange 0x1134D 0x1134D 2,
    PURange 0x11357 0x11357 2, PURange 0x11366 0x1136C 2, PURange 0x11370 0x11374 2,
    PURange 0x11380 0x11389 1, PURange 0x1138B 0x1138B 1, PURange 0x1138E 0x1138E 1,
    PURange 0x11390 0x113B5 1, PURange 0x113B8 0x113B8 2, PURange 0x113BB 0x113C0 2,
    PURange 0x113C2 0x113C2 2, PURange 0x113C5 0x113C5 2, PURange 0x113C7 0x113C9 2,
    PURange 0x113CE 0x113CF 2, PURange 0x113D0 0x113D0 3, PURange 0x113D2 0x113D2 2,
    PURange 0x113E1 0x113E2 2, PURange 0x11438 0x1143F 2, PURange 0x11442 0x11444 2,
    PURange 0x11446 0x11446 2, PURange 0x1145E 0x1145E 2, PURange 0x114B0 0x114B0 2,
    PURange 0x114B3 0x114B8 2, PURange 0x114BA 0x114BA 2, PURange 0x114BD 0x114BD 2,
    PURange 0x114BF 0x114C0 2, PURange 0x114C2 0x114C3 2, PURange 0x115AF 0x115AF 2,
    PURange 0x115B2 0x115B5 2, PURange 0x115BC 0x115BD 2, PURange 0x115BF 0x115C0 2,
    PURange 0x115DC 0x115DD 2, PURange 0x11633 0x1163A 2, PURange 0x1163D 0x1163D 2,
    PURange 0x1163F 0x11640 2, PURange 0x116AB 0x116AB 2, PURange 0x116AD 0x116AD 2,
    PURange 0x116B0 0x116B7 2, PURange 0x1171D 0x1171D 2, PURange 0x1171F 0x1171F 2,
    PURange 0x11722 0x11725 2, PURange 0x11727 0x1172B 2, PURange 0x1182F 0x11837 2,
    PURange 0x11839 0x1183A 2, PURange 0x11900 0x11906 1, PURange 0x11909 0x11909 1,
    PURange 0x1190C 0x11913 1, PURange 0x11915 0x11916 1, PURange 0x11918 0x1192F 1,
    PURange 0x11930 0x11930 2, PURange 0x1193B 0x1193D 2]"

definition pas_u_incb_3 :: "pas_u_range list" where
  "pas_u_incb_3 = [
    PURange 0x1193E 0x1193E 3, PURange 0x11943 0x11943 2, PURange 0x119D4 0x119D7 2,
    PURange 0x119DA 0x119DB 2, PURange 0x119E0 0x119E0 2, PURange 0x11A00 0x11A00 1,
    PURange 0x11A01 0x11A0A 2, PURange 0x11A0B 0x11A32 1, PURange 0x11A33 0x11A38 2,
    PURange 0x11A3B 0x11A3E 2, PURange 0x11A47 0x11A47 3, PURange 0x11A50 0x11A50 1,
    PURange 0x11A51 0x11A56 2, PURange 0x11A59 0x11A5B 2, PURange 0x11A5C 0x11A83 1,
    PURange 0x11A8A 0x11A96 2, PURange 0x11A98 0x11A98 2, PURange 0x11A99 0x11A99 3,
    PURange 0x11B60 0x11B60 2, PURange 0x11B62 0x11B64 2, PURange 0x11B66 0x11B66 2,
    PURange 0x11C30 0x11C36 2, PURange 0x11C38 0x11C3D 2, PURange 0x11C3F 0x11C3F 2,
    PURange 0x11C92 0x11CA7 2, PURange 0x11CAA 0x11CB0 2, PURange 0x11CB2 0x11CB3 2,
    PURange 0x11CB5 0x11CB6 2, PURange 0x11D31 0x11D36 2, PURange 0x11D3A 0x11D3A 2,
    PURange 0x11D3C 0x11D3D 2, PURange 0x11D3F 0x11D45 2, PURange 0x11D47 0x11D47 2,
    PURange 0x11D90 0x11D91 2, PURange 0x11D95 0x11D95 2, PURange 0x11D97 0x11D97 2,
    PURange 0x11EF3 0x11EF4 2, PURange 0x11F00 0x11F01 2, PURange 0x11F04 0x11F10 1,
    PURange 0x11F12 0x11F33 1, PURange 0x11F36 0x11F3A 2, PURange 0x11F40 0x11F41 2,
    PURange 0x11F42 0x11F42 3, PURange 0x11F5A 0x11F5A 2, PURange 0x13440 0x13440 2,
    PURange 0x13447 0x13455 2, PURange 0x1611E 0x16129 2, PURange 0x1612D 0x1612F 2,
    PURange 0x16AF0 0x16AF4 2, PURange 0x16B30 0x16B36 2, PURange 0x16F4F 0x16F4F 2,
    PURange 0x16F8F 0x16F92 2, PURange 0x16FE4 0x16FE4 2, PURange 0x16FF0 0x16FF1 2,
    PURange 0x1BC9D 0x1BC9E 2, PURange 0x1CF00 0x1CF2D 2, PURange 0x1CF30 0x1CF46 2,
    PURange 0x1D165 0x1D169 2, PURange 0x1D16D 0x1D172 2, PURange 0x1D17B 0x1D182 2,
    PURange 0x1D185 0x1D18B 2, PURange 0x1D1AA 0x1D1AD 2, PURange 0x1D242 0x1D244 2,
    PURange 0x1DA00 0x1DA36 2, PURange 0x1DA3B 0x1DA6C 2, PURange 0x1DA75 0x1DA75 2,
    PURange 0x1DA84 0x1DA84 2, PURange 0x1DA9B 0x1DA9F 2, PURange 0x1DAA1 0x1DAAF 2,
    PURange 0x1E000 0x1E006 2, PURange 0x1E008 0x1E018 2, PURange 0x1E01B 0x1E021 2,
    PURange 0x1E023 0x1E024 2, PURange 0x1E026 0x1E02A 2, PURange 0x1E08F 0x1E08F 2,
    PURange 0x1E130 0x1E136 2, PURange 0x1E2AE 0x1E2AE 2, PURange 0x1E2EC 0x1E2EF 2,
    PURange 0x1E4EC 0x1E4EF 2, PURange 0x1E5EE 0x1E5EF 2, PURange 0x1E6E3 0x1E6E3 2,
    PURange 0x1E6E6 0x1E6E6 2, PURange 0x1E6EE 0x1E6EF 2, PURange 0x1E6F5 0x1E6F5 2,
    PURange 0x1E8D0 0x1E8D6 2, PURange 0x1E944 0x1E94A 2, PURange 0x1F3FB 0x1F3FF 2,
    PURange 0xE0020 0xE007F 2, PURange 0xE0100 0xE01EF 2]"

definition pas_u_incb :: "pas_u_range list" where
  "pas_u_incb = pas_u_incb_0 @ pas_u_incb_1 @ pas_u_incb_2 @ pas_u_incb_3"

definition pas_u_combines_back_0 :: "pas_u_range list" where
  "pas_u_combines_back_0 = [
    PURange 0x9BE 0x9BE 1, PURange 0x9D7 0x9D7 1, PURange 0xB3E 0xB3E 1,
    PURange 0xB56 0xB57 1, PURange 0xBBE 0xBBE 1, PURange 0xBD7 0xBD7 1,
    PURange 0xCC2 0xCC2 1, PURange 0xCD5 0xCD6 1, PURange 0xD3E 0xD3E 1,
    PURange 0xD57 0xD57 1, PURange 0xDCF 0xDCF 1, PURange 0xDDF 0xDDF 1,
    PURange 0x102E 0x102E 1, PURange 0x1B35 0x1B35 1, PURange 0x11127 0x11127 1,
    PURange 0x1133E 0x1133E 1, PURange 0x11357 0x11357 1, PURange 0x113B8 0x113B8 1,
    PURange 0x113BB 0x113BB 1, PURange 0x113C2 0x113C2 1, PURange 0x113C9 0x113C9 1,
    PURange 0x114B0 0x114B0 1, PURange 0x114BA 0x114BA 1, PURange 0x114BD 0x114BD 1,
    PURange 0x115AF 0x115AF 1, PURange 0x11930 0x11930 1, PURange 0x1611E 0x16120 1,
    PURange 0x16129 0x16129 1, PURange 0x16D67 0x16D67 1]"

definition pas_u_combines_back :: "pas_u_range list" where
  "pas_u_combines_back = pas_u_combines_back_0"

definition pas_u_width_0 :: "pas_u_range list" where
  "pas_u_width_0 = [
    PURange 0 0x1F 0, PURange 0x7F 0x9F 0, PURange 0xAD 0xAD 0,
    PURange 0x300 0x36F 0, PURange 0x483 0x489 0, PURange 0x591 0x5BD 0,
    PURange 0x5BF 0x5BF 0, PURange 0x5C1 0x5C2 0, PURange 0x5C4 0x5C5 0,
    PURange 0x5C7 0x5C7 0, PURange 0x600 0x605 0, PURange 0x610 0x61A 0,
    PURange 0x61C 0x61C 0, PURange 0x64B 0x65F 0, PURange 0x670 0x670 0,
    PURange 0x6D6 0x6DD 0, PURange 0x6DF 0x6E4 0, PURange 0x6E7 0x6E8 0,
    PURange 0x6EA 0x6ED 0, PURange 0x70F 0x70F 0, PURange 0x711 0x711 0,
    PURange 0x730 0x74A 0, PURange 0x7A6 0x7B0 0, PURange 0x7EB 0x7F3 0,
    PURange 0x7FD 0x7FD 0, PURange 0x816 0x819 0, PURange 0x81B 0x823 0,
    PURange 0x825 0x827 0, PURange 0x829 0x82D 0, PURange 0x859 0x85B 0,
    PURange 0x890 0x891 0, PURange 0x897 0x89F 0, PURange 0x8CA 0x902 0,
    PURange 0x93A 0x93A 0, PURange 0x93C 0x93C 0, PURange 0x941 0x948 0,
    PURange 0x94D 0x94D 0, PURange 0x951 0x957 0, PURange 0x962 0x963 0,
    PURange 0x981 0x981 0, PURange 0x9BC 0x9BC 0, PURange 0x9C1 0x9C4 0,
    PURange 0x9CD 0x9CD 0, PURange 0x9E2 0x9E3 0, PURange 0x9FE 0x9FE 0,
    PURange 0xA01 0xA02 0, PURange 0xA3C 0xA3C 0, PURange 0xA41 0xA42 0,
    PURange 0xA47 0xA48 0, PURange 0xA4B 0xA4D 0, PURange 0xA51 0xA51 0,
    PURange 0xA70 0xA71 0, PURange 0xA75 0xA75 0, PURange 0xA81 0xA82 0,
    PURange 0xABC 0xABC 0, PURange 0xAC1 0xAC5 0, PURange 0xAC7 0xAC8 0,
    PURange 0xACD 0xACD 0, PURange 0xAE2 0xAE3 0, PURange 0xAFA 0xAFF 0,
    PURange 0xB01 0xB01 0, PURange 0xB3C 0xB3C 0, PURange 0xB3F 0xB3F 0,
    PURange 0xB41 0xB44 0, PURange 0xB4D 0xB4D 0, PURange 0xB55 0xB56 0,
    PURange 0xB62 0xB63 0, PURange 0xB82 0xB82 0, PURange 0xBC0 0xBC0 0,
    PURange 0xBCD 0xBCD 0, PURange 0xC00 0xC00 0, PURange 0xC04 0xC04 0,
    PURange 0xC3C 0xC3C 0, PURange 0xC3E 0xC40 0, PURange 0xC46 0xC48 0,
    PURange 0xC4A 0xC4D 0, PURange 0xC55 0xC56 0, PURange 0xC62 0xC63 0,
    PURange 0xC81 0xC81 0, PURange 0xCBC 0xCBC 0, PURange 0xCBF 0xCBF 0,
    PURange 0xCC6 0xCC6 0, PURange 0xCCC 0xCCD 0, PURange 0xCE2 0xCE3 0,
    PURange 0xD00 0xD01 0, PURange 0xD3B 0xD3C 0, PURange 0xD41 0xD44 0,
    PURange 0xD4D 0xD4D 0, PURange 0xD62 0xD63 0, PURange 0xD81 0xD81 0,
    PURange 0xDCA 0xDCA 0, PURange 0xDD2 0xDD4 0, PURange 0xDD6 0xDD6 0,
    PURange 0xE31 0xE31 0, PURange 0xE34 0xE3A 0, PURange 0xE47 0xE4E 0,
    PURange 0xEB1 0xEB1 0, PURange 0xEB4 0xEBC 0, PURange 0xEC8 0xECE 0,
    PURange 0xF18 0xF19 0, PURange 0xF35 0xF35 0, PURange 0xF37 0xF37 0,
    PURange 0xF39 0xF39 0, PURange 0xF71 0xF7E 0, PURange 0xF80 0xF84 0,
    PURange 0xF86 0xF87 0, PURange 0xF8D 0xF97 0, PURange 0xF99 0xFBC 0,
    PURange 0xFC6 0xFC6 0, PURange 0x102D 0x1030 0, PURange 0x1032 0x1037 0,
    PURange 0x1039 0x103A 0, PURange 0x103D 0x103E 0, PURange 0x1058 0x1059 0,
    PURange 0x105E 0x1060 0, PURange 0x1071 0x1074 0, PURange 0x1082 0x1082 0,
    PURange 0x1085 0x1086 0, PURange 0x108D 0x108D 0, PURange 0x109D 0x109D 0,
    PURange 0x1100 0x115F 2, PURange 0x135D 0x135F 0, PURange 0x1712 0x1714 0,
    PURange 0x1732 0x1733 0, PURange 0x1752 0x1753 0, PURange 0x1772 0x1773 0,
    PURange 0x17B4 0x17B5 0, PURange 0x17B7 0x17BD 0]"

definition pas_u_width_1 :: "pas_u_range list" where
  "pas_u_width_1 = [
    PURange 0x17C6 0x17C6 0, PURange 0x17C9 0x17D3 0, PURange 0x17DD 0x17DD 0,
    PURange 0x180B 0x180F 0, PURange 0x1885 0x1886 0, PURange 0x18A9 0x18A9 0,
    PURange 0x1920 0x1922 0, PURange 0x1927 0x1928 0, PURange 0x1932 0x1932 0,
    PURange 0x1939 0x193B 0, PURange 0x1A17 0x1A18 0, PURange 0x1A1B 0x1A1B 0,
    PURange 0x1A56 0x1A56 0, PURange 0x1A58 0x1A5E 0, PURange 0x1A60 0x1A60 0,
    PURange 0x1A62 0x1A62 0, PURange 0x1A65 0x1A6C 0, PURange 0x1A73 0x1A7C 0,
    PURange 0x1A7F 0x1A7F 0, PURange 0x1AB0 0x1ADD 0, PURange 0x1AE0 0x1AEB 0,
    PURange 0x1B00 0x1B03 0, PURange 0x1B34 0x1B34 0, PURange 0x1B36 0x1B3A 0,
    PURange 0x1B3C 0x1B3C 0, PURange 0x1B42 0x1B42 0, PURange 0x1B6B 0x1B73 0,
    PURange 0x1B80 0x1B81 0, PURange 0x1BA2 0x1BA5 0, PURange 0x1BA8 0x1BA9 0,
    PURange 0x1BAB 0x1BAD 0, PURange 0x1BE6 0x1BE6 0, PURange 0x1BE8 0x1BE9 0,
    PURange 0x1BED 0x1BED 0, PURange 0x1BEF 0x1BF1 0, PURange 0x1C2C 0x1C33 0,
    PURange 0x1C36 0x1C37 0, PURange 0x1CD0 0x1CD2 0, PURange 0x1CD4 0x1CE0 0,
    PURange 0x1CE2 0x1CE8 0, PURange 0x1CED 0x1CED 0, PURange 0x1CF4 0x1CF4 0,
    PURange 0x1CF8 0x1CF9 0, PURange 0x1DC0 0x1DFF 0, PURange 0x200B 0x200F 0,
    PURange 0x202A 0x202E 0, PURange 0x2060 0x2064 0, PURange 0x2066 0x206F 0,
    PURange 0x20D0 0x20F0 0, PURange 0x231A 0x231B 2, PURange 0x2329 0x232A 2,
    PURange 0x23E9 0x23EC 2, PURange 0x23F0 0x23F0 2, PURange 0x23F3 0x23F3 2,
    PURange 0x25FD 0x25FE 2, PURange 0x2614 0x2615 2, PURange 0x2630 0x2637 2,
    PURange 0x2648 0x2653 2, PURange 0x267F 0x267F 2, PURange 0x268A 0x268F 2,
    PURange 0x2693 0x2693 2, PURange 0x26A1 0x26A1 2, PURange 0x26AA 0x26AB 2,
    PURange 0x26BD 0x26BE 2, PURange 0x26C4 0x26C5 2, PURange 0x26CE 0x26CE 2,
    PURange 0x26D4 0x26D4 2, PURange 0x26EA 0x26EA 2, PURange 0x26F2 0x26F3 2,
    PURange 0x26F5 0x26F5 2, PURange 0x26FA 0x26FA 2, PURange 0x26FD 0x26FD 2,
    PURange 0x2705 0x2705 2, PURange 0x270A 0x270B 2, PURange 0x2728 0x2728 2,
    PURange 0x274C 0x274C 2, PURange 0x274E 0x274E 2, PURange 0x2753 0x2755 2,
    PURange 0x2757 0x2757 2, PURange 0x2795 0x2797 2, PURange 0x27B0 0x27B0 2,
    PURange 0x27BF 0x27BF 2, PURange 0x2B1B 0x2B1C 2, PURange 0x2B50 0x2B50 2,
    PURange 0x2B55 0x2B55 2, PURange 0x2CEF 0x2CF1 0, PURange 0x2D7F 0x2D7F 0,
    PURange 0x2DE0 0x2DFF 0, PURange 0x2E80 0x2E99 2, PURange 0x2E9B 0x2EF3 2,
    PURange 0x2F00 0x2FD5 2, PURange 0x2FF0 0x3029 2, PURange 0x302A 0x302D 0,
    PURange 0x302E 0x303E 2, PURange 0x3041 0x3096 2, PURange 0x3099 0x309A 0,
    PURange 0x309B 0x30FF 2, PURange 0x3105 0x312F 2, PURange 0x3131 0x318E 2,
    PURange 0x3190 0x31E5 2, PURange 0x31EF 0x321E 2, PURange 0x3220 0x3247 2,
    PURange 0x3250 0xA48C 2, PURange 0xA490 0xA4C6 2, PURange 0xA66F 0xA672 0,
    PURange 0xA674 0xA67D 0, PURange 0xA69E 0xA69F 0, PURange 0xA6F0 0xA6F1 0,
    PURange 0xA802 0xA802 0, PURange 0xA806 0xA806 0, PURange 0xA80B 0xA80B 0,
    PURange 0xA825 0xA826 0, PURange 0xA82C 0xA82C 0, PURange 0xA8C4 0xA8C5 0,
    PURange 0xA8E0 0xA8F1 0, PURange 0xA8FF 0xA8FF 0, PURange 0xA926 0xA92D 0,
    PURange 0xA947 0xA951 0, PURange 0xA960 0xA97C 2, PURange 0xA980 0xA982 0,
    PURange 0xA9B3 0xA9B3 0, PURange 0xA9B6 0xA9B9 0, PURange 0xA9BC 0xA9BD 0,
    PURange 0xA9E5 0xA9E5 0, PURange 0xAA29 0xAA2E 0, PURange 0xAA31 0xAA32 0,
    PURange 0xAA35 0xAA36 0, PURange 0xAA43 0xAA43 0]"

definition pas_u_width_2 :: "pas_u_range list" where
  "pas_u_width_2 = [
    PURange 0xAA4C 0xAA4C 0, PURange 0xAA7C 0xAA7C 0, PURange 0xAAB0 0xAAB0 0,
    PURange 0xAAB2 0xAAB4 0, PURange 0xAAB7 0xAAB8 0, PURange 0xAABE 0xAABF 0,
    PURange 0xAAC1 0xAAC1 0, PURange 0xAAEC 0xAAED 0, PURange 0xAAF6 0xAAF6 0,
    PURange 0xABE5 0xABE5 0, PURange 0xABE8 0xABE8 0, PURange 0xABED 0xABED 0,
    PURange 0xAC00 0xD7A3 2, PURange 0xF900 0xFAFF 2, PURange 0xFB1E 0xFB1E 0,
    PURange 0xFE00 0xFE0F 0, PURange 0xFE10 0xFE19 2, PURange 0xFE20 0xFE2F 0,
    PURange 0xFE30 0xFE52 2, PURange 0xFE54 0xFE66 2, PURange 0xFE68 0xFE6B 2,
    PURange 0xFEFF 0xFEFF 0, PURange 0xFF01 0xFF60 2, PURange 0xFFE0 0xFFE6 2,
    PURange 0xFFF9 0xFFFB 0, PURange 0x101FD 0x101FD 0, PURange 0x102E0 0x102E0 0,
    PURange 0x10376 0x1037A 0, PURange 0x10A01 0x10A03 0, PURange 0x10A05 0x10A06 0,
    PURange 0x10A0C 0x10A0F 0, PURange 0x10A38 0x10A3A 0, PURange 0x10A3F 0x10A3F 0,
    PURange 0x10AE5 0x10AE6 0, PURange 0x10D24 0x10D27 0, PURange 0x10D69 0x10D6D 0,
    PURange 0x10EAB 0x10EAC 0, PURange 0x10EFA 0x10EFF 0, PURange 0x10F46 0x10F50 0,
    PURange 0x10F82 0x10F85 0, PURange 0x11001 0x11001 0, PURange 0x11038 0x11046 0,
    PURange 0x11070 0x11070 0, PURange 0x11073 0x11074 0, PURange 0x1107F 0x11081 0,
    PURange 0x110B3 0x110B6 0, PURange 0x110B9 0x110BA 0, PURange 0x110BD 0x110BD 0,
    PURange 0x110C2 0x110C2 0, PURange 0x110CD 0x110CD 0, PURange 0x11100 0x11102 0,
    PURange 0x11127 0x1112B 0, PURange 0x1112D 0x11134 0, PURange 0x11173 0x11173 0,
    PURange 0x11180 0x11181 0, PURange 0x111B6 0x111BE 0, PURange 0x111C9 0x111CC 0,
    PURange 0x111CF 0x111CF 0, PURange 0x1122F 0x11231 0, PURange 0x11234 0x11234 0,
    PURange 0x11236 0x11237 0, PURange 0x1123E 0x1123E 0, PURange 0x11241 0x11241 0,
    PURange 0x112DF 0x112DF 0, PURange 0x112E3 0x112EA 0, PURange 0x11300 0x11301 0,
    PURange 0x1133B 0x1133C 0, PURange 0x11340 0x11340 0, PURange 0x11366 0x1136C 0,
    PURange 0x11370 0x11374 0, PURange 0x113BB 0x113C0 0, PURange 0x113CE 0x113CE 0,
    PURange 0x113D0 0x113D0 0, PURange 0x113D2 0x113D2 0, PURange 0x113E1 0x113E2 0,
    PURange 0x11438 0x1143F 0, PURange 0x11442 0x11444 0, PURange 0x11446 0x11446 0,
    PURange 0x1145E 0x1145E 0, PURange 0x114B3 0x114B8 0, PURange 0x114BA 0x114BA 0,
    PURange 0x114BF 0x114C0 0, PURange 0x114C2 0x114C3 0, PURange 0x115B2 0x115B5 0,
    PURange 0x115BC 0x115BD 0, PURange 0x115BF 0x115C0 0, PURange 0x115DC 0x115DD 0,
    PURange 0x11633 0x1163A 0, PURange 0x1163D 0x1163D 0, PURange 0x1163F 0x11640 0,
    PURange 0x116AB 0x116AB 0, PURange 0x116AD 0x116AD 0, PURange 0x116B0 0x116B5 0,
    PURange 0x116B7 0x116B7 0, PURange 0x1171D 0x1171D 0, PURange 0x1171F 0x1171F 0,
    PURange 0x11722 0x11725 0, PURange 0x11727 0x1172B 0, PURange 0x1182F 0x11837 0,
    PURange 0x11839 0x1183A 0, PURange 0x1193B 0x1193C 0, PURange 0x1193E 0x1193E 0,
    PURange 0x11943 0x11943 0, PURange 0x119D4 0x119D7 0, PURange 0x119DA 0x119DB 0,
    PURange 0x119E0 0x119E0 0, PURange 0x11A01 0x11A0A 0, PURange 0x11A33 0x11A38 0,
    PURange 0x11A3B 0x11A3E 0, PURange 0x11A47 0x11A47 0, PURange 0x11A51 0x11A56 0,
    PURange 0x11A59 0x11A5B 0, PURange 0x11A8A 0x11A96 0, PURange 0x11A98 0x11A99 0,
    PURange 0x11B60 0x11B60 0, PURange 0x11B62 0x11B64 0, PURange 0x11B66 0x11B66 0,
    PURange 0x11C30 0x11C36 0, PURange 0x11C38 0x11C3D 0, PURange 0x11C3F 0x11C3F 0,
    PURange 0x11C92 0x11CA7 0, PURange 0x11CAA 0x11CB0 0, PURange 0x11CB2 0x11CB3 0,
    PURange 0x11CB5 0x11CB6 0, PURange 0x11D31 0x11D36 0, PURange 0x11D3A 0x11D3A 0,
    PURange 0x11D3C 0x11D3D 0, PURange 0x11D3F 0x11D45 0]"

definition pas_u_width_3 :: "pas_u_range list" where
  "pas_u_width_3 = [
    PURange 0x11D47 0x11D47 0, PURange 0x11D90 0x11D91 0, PURange 0x11D95 0x11D95 0,
    PURange 0x11D97 0x11D97 0, PURange 0x11EF3 0x11EF4 0, PURange 0x11F00 0x11F01 0,
    PURange 0x11F36 0x11F3A 0, PURange 0x11F40 0x11F40 0, PURange 0x11F42 0x11F42 0,
    PURange 0x11F5A 0x11F5A 0, PURange 0x13430 0x13440 0, PURange 0x13447 0x13455 0,
    PURange 0x1611E 0x16129 0, PURange 0x1612D 0x1612F 0, PURange 0x16AF0 0x16AF4 0,
    PURange 0x16B30 0x16B36 0, PURange 0x16F4F 0x16F4F 0, PURange 0x16F8F 0x16F92 0,
    PURange 0x16FE0 0x16FE3 2, PURange 0x16FE4 0x16FE4 0, PURange 0x16FF0 0x16FF6 2,
    PURange 0x17000 0x18CD5 2, PURange 0x18CFF 0x18D1E 2, PURange 0x18D80 0x18DF2 2,
    PURange 0x1AFF0 0x1AFF3 2, PURange 0x1AFF5 0x1AFFB 2, PURange 0x1AFFD 0x1AFFE 2,
    PURange 0x1B000 0x1B122 2, PURange 0x1B132 0x1B132 2, PURange 0x1B150 0x1B152 2,
    PURange 0x1B155 0x1B155 2, PURange 0x1B164 0x1B167 2, PURange 0x1B170 0x1B2FB 2,
    PURange 0x1BC9D 0x1BC9E 0, PURange 0x1BCA0 0x1BCA3 0, PURange 0x1CF00 0x1CF2D 0,
    PURange 0x1CF30 0x1CF46 0, PURange 0x1D167 0x1D169 0, PURange 0x1D173 0x1D182 0,
    PURange 0x1D185 0x1D18B 0, PURange 0x1D1AA 0x1D1AD 0, PURange 0x1D242 0x1D244 0,
    PURange 0x1D300 0x1D356 2, PURange 0x1D360 0x1D376 2, PURange 0x1DA00 0x1DA36 0,
    PURange 0x1DA3B 0x1DA6C 0, PURange 0x1DA75 0x1DA75 0, PURange 0x1DA84 0x1DA84 0,
    PURange 0x1DA9B 0x1DA9F 0, PURange 0x1DAA1 0x1DAAF 0, PURange 0x1E000 0x1E006 0,
    PURange 0x1E008 0x1E018 0, PURange 0x1E01B 0x1E021 0, PURange 0x1E023 0x1E024 0,
    PURange 0x1E026 0x1E02A 0, PURange 0x1E08F 0x1E08F 0, PURange 0x1E130 0x1E136 0,
    PURange 0x1E2AE 0x1E2AE 0, PURange 0x1E2EC 0x1E2EF 0, PURange 0x1E4EC 0x1E4EF 0,
    PURange 0x1E5EE 0x1E5EF 0, PURange 0x1E6E3 0x1E6E3 0, PURange 0x1E6E6 0x1E6E6 0,
    PURange 0x1E6EE 0x1E6EF 0, PURange 0x1E6F5 0x1E6F5 0, PURange 0x1E8D0 0x1E8D6 0,
    PURange 0x1E944 0x1E94A 0, PURange 0x1F004 0x1F004 2, PURange 0x1F0CF 0x1F0CF 2,
    PURange 0x1F18E 0x1F18E 2, PURange 0x1F191 0x1F19A 2, PURange 0x1F200 0x1F202 2,
    PURange 0x1F210 0x1F23B 2, PURange 0x1F240 0x1F248 2, PURange 0x1F250 0x1F251 2,
    PURange 0x1F260 0x1F265 2, PURange 0x1F300 0x1F320 2, PURange 0x1F32D 0x1F335 2,
    PURange 0x1F337 0x1F37C 2, PURange 0x1F37E 0x1F393 2, PURange 0x1F3A0 0x1F3CA 2,
    PURange 0x1F3CF 0x1F3D3 2, PURange 0x1F3E0 0x1F3F0 2, PURange 0x1F3F4 0x1F3F4 2,
    PURange 0x1F3F8 0x1F43E 2, PURange 0x1F440 0x1F440 2, PURange 0x1F442 0x1F4FC 2,
    PURange 0x1F4FF 0x1F53D 2, PURange 0x1F54B 0x1F54E 2, PURange 0x1F550 0x1F567 2,
    PURange 0x1F57A 0x1F57A 2, PURange 0x1F595 0x1F596 2, PURange 0x1F5A4 0x1F5A4 2,
    PURange 0x1F5FB 0x1F64F 2, PURange 0x1F680 0x1F6C5 2, PURange 0x1F6CC 0x1F6CC 2,
    PURange 0x1F6D0 0x1F6D2 2, PURange 0x1F6D5 0x1F6D8 2, PURange 0x1F6DC 0x1F6DF 2,
    PURange 0x1F6EB 0x1F6EC 2, PURange 0x1F6F4 0x1F6FC 2, PURange 0x1F7E0 0x1F7EB 2,
    PURange 0x1F7F0 0x1F7F0 2, PURange 0x1F90C 0x1F93A 2, PURange 0x1F93C 0x1F945 2,
    PURange 0x1F947 0x1F9FF 2, PURange 0x1FA70 0x1FA7C 2, PURange 0x1FA80 0x1FA8A 2,
    PURange 0x1FA8E 0x1FAC6 2, PURange 0x1FAC8 0x1FAC8 2, PURange 0x1FACD 0x1FADC 2,
    PURange 0x1FADF 0x1FAEA 2, PURange 0x1FAEF 0x1FAF8 2, PURange 0x20000 0x2FFFD 2,
    PURange 0x30000 0x3FFFD 2, PURange 0xE0001 0xE0001 0, PURange 0xE0020 0xE007F 0,
    PURange 0xE0100 0xE01EF 0]"

definition pas_u_width :: "pas_u_range list" where
  "pas_u_width = pas_u_width_0 @ pas_u_width_1 @ pas_u_width_2 @ pas_u_width_3"

definition pas_u_extpict_0 :: "pas_u_range list" where
  "pas_u_extpict_0 = [
    PURange 0xA9 0xA9 1, PURange 0xAE 0xAE 1, PURange 0x203C 0x203C 1,
    PURange 0x2049 0x2049 1, PURange 0x2122 0x2122 1, PURange 0x2139 0x2139 1,
    PURange 0x2194 0x2199 1, PURange 0x21A9 0x21AA 1, PURange 0x231A 0x231B 1,
    PURange 0x2328 0x2328 1, PURange 0x23CF 0x23CF 1, PURange 0x23E9 0x23F3 1,
    PURange 0x23F8 0x23FA 1, PURange 0x24C2 0x24C2 1, PURange 0x25AA 0x25AB 1,
    PURange 0x25B6 0x25B6 1, PURange 0x25C0 0x25C0 1, PURange 0x25FB 0x25FE 1,
    PURange 0x2600 0x2604 1, PURange 0x260E 0x260E 1, PURange 0x2611 0x2611 1,
    PURange 0x2614 0x2615 1, PURange 0x2618 0x2618 1, PURange 0x261D 0x261D 1,
    PURange 0x2620 0x2620 1, PURange 0x2622 0x2623 1, PURange 0x2626 0x2626 1,
    PURange 0x262A 0x262A 1, PURange 0x262E 0x262F 1, PURange 0x2638 0x263A 1,
    PURange 0x2640 0x2640 1, PURange 0x2642 0x2642 1, PURange 0x2648 0x2653 1,
    PURange 0x265F 0x2660 1, PURange 0x2663 0x2663 1, PURange 0x2665 0x2666 1,
    PURange 0x2668 0x2668 1, PURange 0x267B 0x267B 1, PURange 0x267E 0x267F 1,
    PURange 0x2692 0x2697 1, PURange 0x2699 0x2699 1, PURange 0x269B 0x269C 1,
    PURange 0x26A0 0x26A1 1, PURange 0x26A7 0x26A7 1, PURange 0x26AA 0x26AB 1,
    PURange 0x26B0 0x26B1 1, PURange 0x26BD 0x26BE 1, PURange 0x26C4 0x26C5 1,
    PURange 0x26C8 0x26C8 1, PURange 0x26CE 0x26CF 1, PURange 0x26D1 0x26D1 1,
    PURange 0x26D3 0x26D4 1, PURange 0x26E9 0x26EA 1, PURange 0x26F0 0x26F5 1,
    PURange 0x26F7 0x26FA 1, PURange 0x26FD 0x26FD 1, PURange 0x2702 0x2702 1,
    PURange 0x2705 0x2705 1, PURange 0x2708 0x270D 1, PURange 0x270F 0x270F 1,
    PURange 0x2712 0x2712 1, PURange 0x2714 0x2714 1, PURange 0x2716 0x2716 1,
    PURange 0x271D 0x271D 1, PURange 0x2721 0x2721 1, PURange 0x2728 0x2728 1,
    PURange 0x2733 0x2734 1, PURange 0x2744 0x2744 1, PURange 0x2747 0x2747 1,
    PURange 0x274C 0x274C 1, PURange 0x274E 0x274E 1, PURange 0x2753 0x2755 1,
    PURange 0x2757 0x2757 1, PURange 0x2763 0x2764 1, PURange 0x2795 0x2797 1,
    PURange 0x27A1 0x27A1 1, PURange 0x27B0 0x27B0 1, PURange 0x27BF 0x27BF 1,
    PURange 0x2934 0x2935 1, PURange 0x2B05 0x2B07 1, PURange 0x2B1B 0x2B1C 1,
    PURange 0x2B50 0x2B50 1, PURange 0x2B55 0x2B55 1, PURange 0x3030 0x3030 1,
    PURange 0x303D 0x303D 1, PURange 0x3297 0x3297 1, PURange 0x3299 0x3299 1,
    PURange 0x1F004 0x1F004 1, PURange 0x1F02C 0x1F02F 1, PURange 0x1F094 0x1F09F 1,
    PURange 0x1F0AF 0x1F0B0 1, PURange 0x1F0C0 0x1F0C0 1, PURange 0x1F0CF 0x1F0D0 1,
    PURange 0x1F0F6 0x1F0FF 1, PURange 0x1F170 0x1F171 1, PURange 0x1F17E 0x1F17F 1,
    PURange 0x1F18E 0x1F18E 1, PURange 0x1F191 0x1F19A 1, PURange 0x1F1AE 0x1F1E5 1,
    PURange 0x1F201 0x1F20F 1, PURange 0x1F21A 0x1F21A 1, PURange 0x1F22F 0x1F22F 1,
    PURange 0x1F232 0x1F23A 1, PURange 0x1F23C 0x1F23F 1, PURange 0x1F249 0x1F25F 1,
    PURange 0x1F266 0x1F321 1, PURange 0x1F324 0x1F393 1, PURange 0x1F396 0x1F397 1,
    PURange 0x1F399 0x1F39B 1, PURange 0x1F39E 0x1F3F0 1, PURange 0x1F3F3 0x1F3F5 1,
    PURange 0x1F3F7 0x1F3FA 1, PURange 0x1F400 0x1F4FD 1, PURange 0x1F4FF 0x1F53D 1,
    PURange 0x1F549 0x1F54E 1, PURange 0x1F550 0x1F567 1, PURange 0x1F56F 0x1F570 1,
    PURange 0x1F573 0x1F57A 1, PURange 0x1F587 0x1F587 1, PURange 0x1F58A 0x1F58D 1,
    PURange 0x1F590 0x1F590 1, PURange 0x1F595 0x1F596 1, PURange 0x1F5A4 0x1F5A5 1,
    PURange 0x1F5A8 0x1F5A8 1, PURange 0x1F5B1 0x1F5B2 1, PURange 0x1F5BC 0x1F5BC 1,
    PURange 0x1F5C2 0x1F5C4 1, PURange 0x1F5D1 0x1F5D3 1]"

definition pas_u_extpict_1 :: "pas_u_range list" where
  "pas_u_extpict_1 = [
    PURange 0x1F5DC 0x1F5DE 1, PURange 0x1F5E1 0x1F5E1 1, PURange 0x1F5E3 0x1F5E3 1,
    PURange 0x1F5E8 0x1F5E8 1, PURange 0x1F5EF 0x1F5EF 1, PURange 0x1F5F3 0x1F5F3 1,
    PURange 0x1F5FA 0x1F64F 1, PURange 0x1F680 0x1F6C5 1, PURange 0x1F6CB 0x1F6D2 1,
    PURange 0x1F6D5 0x1F6E5 1, PURange 0x1F6E9 0x1F6E9 1, PURange 0x1F6EB 0x1F6F0 1,
    PURange 0x1F6F3 0x1F6FF 1, PURange 0x1F7DA 0x1F7FF 1, PURange 0x1F80C 0x1F80F 1,
    PURange 0x1F848 0x1F84F 1, PURange 0x1F85A 0x1F85F 1, PURange 0x1F888 0x1F88F 1,
    PURange 0x1F8AE 0x1F8AF 1, PURange 0x1F8BC 0x1F8BF 1, PURange 0x1F8C2 0x1F8CF 1,
    PURange 0x1F8D9 0x1F8FF 1, PURange 0x1F90C 0x1F93A 1, PURange 0x1F93C 0x1F945 1,
    PURange 0x1F947 0x1F9FF 1, PURange 0x1FA58 0x1FA5F 1, PURange 0x1FA6E 0x1FAFF 1,
    PURange 0x1FC00 0x1FFFD 1]"

definition pas_u_extpict :: "pas_u_range list" where
  "pas_u_extpict = pas_u_extpict_0 @ pas_u_extpict_1"

section \<open>The lookups\<close>

definition u_ccc :: "cpoint \<Rightarrow> nat" where
  "u_ccc cp = range_lookup pas_u_ccc cp"

definition u_gcb :: "cpoint \<Rightarrow> nat" where
  "u_gcb cp = range_lookup pas_u_gcb cp"

definition u_incb :: "cpoint \<Rightarrow> nat" where
  "u_incb cp = range_lookup pas_u_incb cp"

definition u_extpict :: "cpoint \<Rightarrow> bool" where
  "u_extpict cp \<longleftrightarrow> range_lookup pas_u_extpict cp \<noteq> 0"

section \<open>The tables are sorted\<close>

lemma ccc_run_0: "ranges_run (\<lambda>v. 0 < v \<and> v < 255) 0 pas_u_ccc_0 = Some 2278"
  by (simp add: pas_u_ccc_0_def)

lemma ccc_run_1: "ranges_run (\<lambda>v. 0 < v \<and> v < 255) 2278 pas_u_ccc_1 = Some 8404"
  by (simp add: pas_u_ccc_1_def)

lemma ccc_run_2: "ranges_run (\<lambda>v. 0 < v \<and> v < 255) 8404 pas_u_ccc_2 = Some 122905"
  by (simp add: pas_u_ccc_2_def)

lemma ccc_run_3: "ranges_run (\<lambda>v. 0 < v \<and> v < 255) 122905 pas_u_ccc_3 = Some 125259"
  by (simp add: pas_u_ccc_3_def)

interpretation ccc: range_table pas_u_ccc "\<lambda>v. 0 < v \<and> v < 255"
  by unfold_locales (simp add: pas_u_ccc_def ranges_run_append ccc_run_0 ccc_run_1 ccc_run_2 ccc_run_3)

lemma gcb_run_0: "ranges_run (\<lambda>v. 0 < v \<and> v \<le> 13) 0 pas_u_gcb_0 = Some 3330"
  by (simp add: pas_u_gcb_0_def)

lemma gcb_run_1: "ranges_run (\<lambda>v. 0 < v \<and> v \<le> 13) 3330 pas_u_gcb_1 = Some 7406"
  by (simp add: pas_u_gcb_1_def)

lemma gcb_run_2: "ranges_run (\<lambda>v. 0 < v \<and> v \<le> 13) 7406 pas_u_gcb_2 = Some 44789"
  by (simp add: pas_u_gcb_2_def)

lemma gcb_run_3: "ranges_run (\<lambda>v. 0 < v \<and> v \<le> 13) 44789 pas_u_gcb_3 = Some 46581"
  by (simp add: pas_u_gcb_3_def)

lemma gcb_run_4: "ranges_run (\<lambda>v. 0 < v \<and> v \<le> 13) 46581 pas_u_gcb_4 = Some 48373"
  by (simp add: pas_u_gcb_4_def)

lemma gcb_run_5: "ranges_run (\<lambda>v. 0 < v \<and> v \<le> 13) 48373 pas_u_gcb_5 = Some 50165"
  by (simp add: pas_u_gcb_5_def)

lemma gcb_run_6: "ranges_run (\<lambda>v. 0 < v \<and> v \<le> 13) 50165 pas_u_gcb_6 = Some 51957"
  by (simp add: pas_u_gcb_6_def)

lemma gcb_run_7: "ranges_run (\<lambda>v. 0 < v \<and> v \<le> 13) 51957 pas_u_gcb_7 = Some 53749"
  by (simp add: pas_u_gcb_7_def)

lemma gcb_run_8: "ranges_run (\<lambda>v. 0 < v \<and> v \<le> 13) 53749 pas_u_gcb_8 = Some 69634"
  by (simp add: pas_u_gcb_8_def)

lemma gcb_run_9: "ranges_run (\<lambda>v. 0 < v \<and> v \<le> 13) 69634 pas_u_gcb_9 = Some 72249"
  by (simp add: pas_u_gcb_9_def)

lemma gcb_run_10: "ranges_run (\<lambda>v. 0 < v \<and> v \<le> 13) 72249 pas_u_gcb_10 = Some 921600"
  by (simp add: pas_u_gcb_10_def)

interpretation gcb: range_table pas_u_gcb "\<lambda>v. 0 < v \<and> v \<le> 13"
  by unfold_locales (simp add: pas_u_gcb_def ranges_run_append gcb_run_0 gcb_run_1 gcb_run_2 gcb_run_3 gcb_run_4 gcb_run_5 gcb_run_6 gcb_run_7 gcb_run_8 gcb_run_9 gcb_run_10)

lemma incb_run_0: "ranges_run (\<lambda>v. 0 < v \<and> v \<le> 3) 0 pas_u_incb_0 = Some 3762"
  by (simp add: pas_u_incb_0_def)

lemma incb_run_1: "ranges_run (\<lambda>v. 0 < v \<and> v \<le> 3) 3762 pas_u_incb_1 = Some 43519"
  by (simp add: pas_u_incb_1_def)

lemma incb_run_2: "ranges_run (\<lambda>v. 0 < v \<and> v \<le> 3) 43519 pas_u_incb_2 = Some 71998"
  by (simp add: pas_u_incb_2_def)

lemma incb_run_3: "ranges_run (\<lambda>v. 0 < v \<and> v \<le> 3) 71998 pas_u_incb_3 = Some 918000"
  by (simp add: pas_u_incb_3_def)

interpretation incb: range_table pas_u_incb "\<lambda>v. 0 < v \<and> v \<le> 3"
  by unfold_locales (simp add: pas_u_incb_def ranges_run_append incb_run_0 incb_run_1 incb_run_2 incb_run_3)

lemma cback_run_0: "ranges_run (\<lambda>v. 0 < v \<and> v < 2) 0 pas_u_combines_back_0 = Some 93544"
  by (simp add: pas_u_combines_back_0_def)

interpretation cback: range_table pas_u_combines_back "\<lambda>v. 0 < v \<and> v < 2"
  by unfold_locales (simp add: pas_u_combines_back_def ranges_run_append cback_run_0)

lemma width_run_0: "ranges_run (\<lambda>v. v = 0 \<or> v = 2) 0 pas_u_width_0 = Some 6078"
  by (simp add: pas_u_width_0_def)

lemma width_run_1: "ranges_run (\<lambda>v. v = 0 \<or> v = 2) 6078 pas_u_width_1 = Some 43588"
  by (simp add: pas_u_width_1_def)

lemma width_run_2: "ranges_run (\<lambda>v. v = 0 \<or> v = 2) 43588 pas_u_width_2 = Some 73030"
  by (simp add: pas_u_width_2_def)

lemma width_run_3: "ranges_run (\<lambda>v. v = 0 \<or> v = 2) 73030 pas_u_width_3 = Some 918000"
  by (simp add: pas_u_width_3_def)

interpretation width: range_table pas_u_width "\<lambda>v. v = 0 \<or> v = 2"
  by unfold_locales (simp add: pas_u_width_def ranges_run_append width_run_0 width_run_1 width_run_2 width_run_3)

lemma extpict_run_0: "ranges_run (\<lambda>v. 0 < v \<and> v < 2) 0 pas_u_extpict_0 = Some 128468"
  by (simp add: pas_u_extpict_0_def)

lemma extpict_run_1: "ranges_run (\<lambda>v. 0 < v \<and> v < 2) 128468 pas_u_extpict_1 = Some 131070"
  by (simp add: pas_u_extpict_1_def)

interpretation extpict: range_table pas_u_extpict "\<lambda>v. 0 < v \<and> v < 2"
  by unfold_locales (simp add: pas_u_extpict_def ranges_run_append extpict_run_0 extpict_run_1)

end
