(* ===== verification/TablesDecomp.thy ===== *)
theory TablesDecomp
  imports Lookup
begin

text \<open>
  The canonical decompositions and the primary composites of
  \<^verbatim>\<open>src/runtime/pasrt_unicode_data.h\<close>, transcribed entry by entry in parts of at most 128
  entries, with their two searches. Beside sortedness the checks establish what the
  normaliser rests on: every entry is made of scalar values, every composite is the
  decomposition of the pair it is found under, and no composite is longer in UTF-8 than its
  two parts.
\<close>

definition pas_u_decomp_tbl_0 :: "pas_u_decomp list" where
  "pas_u_decomp_tbl_0 = [
    PUDecomp 0xC0 0x41 0x300, PUDecomp 0xC1 0x41 0x301, PUDecomp 0xC2 0x41 0x302,
    PUDecomp 0xC3 0x41 0x303, PUDecomp 0xC4 0x41 0x308, PUDecomp 0xC5 0x41 0x30A,
    PUDecomp 0xC7 0x43 0x327, PUDecomp 0xC8 0x45 0x300, PUDecomp 0xC9 0x45 0x301,
    PUDecomp 0xCA 0x45 0x302, PUDecomp 0xCB 0x45 0x308, PUDecomp 0xCC 0x49 0x300,
    PUDecomp 0xCD 0x49 0x301, PUDecomp 0xCE 0x49 0x302, PUDecomp 0xCF 0x49 0x308,
    PUDecomp 0xD1 0x4E 0x303, PUDecomp 0xD2 0x4F 0x300, PUDecomp 0xD3 0x4F 0x301,
    PUDecomp 0xD4 0x4F 0x302, PUDecomp 0xD5 0x4F 0x303, PUDecomp 0xD6 0x4F 0x308,
    PUDecomp 0xD9 0x55 0x300, PUDecomp 0xDA 0x55 0x301, PUDecomp 0xDB 0x55 0x302,
    PUDecomp 0xDC 0x55 0x308, PUDecomp 0xDD 0x59 0x301, PUDecomp 0xE0 0x61 0x300,
    PUDecomp 0xE1 0x61 0x301, PUDecomp 0xE2 0x61 0x302, PUDecomp 0xE3 0x61 0x303,
    PUDecomp 0xE4 0x61 0x308, PUDecomp 0xE5 0x61 0x30A, PUDecomp 0xE7 0x63 0x327,
    PUDecomp 0xE8 0x65 0x300, PUDecomp 0xE9 0x65 0x301, PUDecomp 0xEA 0x65 0x302,
    PUDecomp 0xEB 0x65 0x308, PUDecomp 0xEC 0x69 0x300, PUDecomp 0xED 0x69 0x301,
    PUDecomp 0xEE 0x69 0x302, PUDecomp 0xEF 0x69 0x308, PUDecomp 0xF1 0x6E 0x303,
    PUDecomp 0xF2 0x6F 0x300, PUDecomp 0xF3 0x6F 0x301, PUDecomp 0xF4 0x6F 0x302,
    PUDecomp 0xF5 0x6F 0x303, PUDecomp 0xF6 0x6F 0x308, PUDecomp 0xF9 0x75 0x300,
    PUDecomp 0xFA 0x75 0x301, PUDecomp 0xFB 0x75 0x302, PUDecomp 0xFC 0x75 0x308,
    PUDecomp 0xFD 0x79 0x301, PUDecomp 0xFF 0x79 0x308, PUDecomp 0x100 0x41 0x304,
    PUDecomp 0x101 0x61 0x304, PUDecomp 0x102 0x41 0x306, PUDecomp 0x103 0x61 0x306,
    PUDecomp 0x104 0x41 0x328, PUDecomp 0x105 0x61 0x328, PUDecomp 0x106 0x43 0x301,
    PUDecomp 0x107 0x63 0x301, PUDecomp 0x108 0x43 0x302, PUDecomp 0x109 0x63 0x302,
    PUDecomp 0x10A 0x43 0x307, PUDecomp 0x10B 0x63 0x307, PUDecomp 0x10C 0x43 0x30C,
    PUDecomp 0x10D 0x63 0x30C, PUDecomp 0x10E 0x44 0x30C, PUDecomp 0x10F 0x64 0x30C,
    PUDecomp 0x112 0x45 0x304, PUDecomp 0x113 0x65 0x304, PUDecomp 0x114 0x45 0x306,
    PUDecomp 0x115 0x65 0x306, PUDecomp 0x116 0x45 0x307, PUDecomp 0x117 0x65 0x307,
    PUDecomp 0x118 0x45 0x328, PUDecomp 0x119 0x65 0x328, PUDecomp 0x11A 0x45 0x30C,
    PUDecomp 0x11B 0x65 0x30C, PUDecomp 0x11C 0x47 0x302, PUDecomp 0x11D 0x67 0x302,
    PUDecomp 0x11E 0x47 0x306, PUDecomp 0x11F 0x67 0x306, PUDecomp 0x120 0x47 0x307,
    PUDecomp 0x121 0x67 0x307, PUDecomp 0x122 0x47 0x327, PUDecomp 0x123 0x67 0x327,
    PUDecomp 0x124 0x48 0x302, PUDecomp 0x125 0x68 0x302, PUDecomp 0x128 0x49 0x303,
    PUDecomp 0x129 0x69 0x303, PUDecomp 0x12A 0x49 0x304, PUDecomp 0x12B 0x69 0x304,
    PUDecomp 0x12C 0x49 0x306, PUDecomp 0x12D 0x69 0x306, PUDecomp 0x12E 0x49 0x328,
    PUDecomp 0x12F 0x69 0x328, PUDecomp 0x130 0x49 0x307, PUDecomp 0x134 0x4A 0x302,
    PUDecomp 0x135 0x6A 0x302, PUDecomp 0x136 0x4B 0x327, PUDecomp 0x137 0x6B 0x327,
    PUDecomp 0x139 0x4C 0x301, PUDecomp 0x13A 0x6C 0x301, PUDecomp 0x13B 0x4C 0x327,
    PUDecomp 0x13C 0x6C 0x327, PUDecomp 0x13D 0x4C 0x30C, PUDecomp 0x13E 0x6C 0x30C,
    PUDecomp 0x143 0x4E 0x301, PUDecomp 0x144 0x6E 0x301, PUDecomp 0x145 0x4E 0x327,
    PUDecomp 0x146 0x6E 0x327, PUDecomp 0x147 0x4E 0x30C, PUDecomp 0x148 0x6E 0x30C,
    PUDecomp 0x14C 0x4F 0x304, PUDecomp 0x14D 0x6F 0x304, PUDecomp 0x14E 0x4F 0x306,
    PUDecomp 0x14F 0x6F 0x306, PUDecomp 0x150 0x4F 0x30B, PUDecomp 0x151 0x6F 0x30B,
    PUDecomp 0x154 0x52 0x301, PUDecomp 0x155 0x72 0x301, PUDecomp 0x156 0x52 0x327,
    PUDecomp 0x157 0x72 0x327, PUDecomp 0x158 0x52 0x30C, PUDecomp 0x159 0x72 0x30C,
    PUDecomp 0x15A 0x53 0x301, PUDecomp 0x15B 0x73 0x301]"

definition pas_u_decomp_tbl_1 :: "pas_u_decomp list" where
  "pas_u_decomp_tbl_1 = [
    PUDecomp 0x15C 0x53 0x302, PUDecomp 0x15D 0x73 0x302, PUDecomp 0x15E 0x53 0x327,
    PUDecomp 0x15F 0x73 0x327, PUDecomp 0x160 0x53 0x30C, PUDecomp 0x161 0x73 0x30C,
    PUDecomp 0x162 0x54 0x327, PUDecomp 0x163 0x74 0x327, PUDecomp 0x164 0x54 0x30C,
    PUDecomp 0x165 0x74 0x30C, PUDecomp 0x168 0x55 0x303, PUDecomp 0x169 0x75 0x303,
    PUDecomp 0x16A 0x55 0x304, PUDecomp 0x16B 0x75 0x304, PUDecomp 0x16C 0x55 0x306,
    PUDecomp 0x16D 0x75 0x306, PUDecomp 0x16E 0x55 0x30A, PUDecomp 0x16F 0x75 0x30A,
    PUDecomp 0x170 0x55 0x30B, PUDecomp 0x171 0x75 0x30B, PUDecomp 0x172 0x55 0x328,
    PUDecomp 0x173 0x75 0x328, PUDecomp 0x174 0x57 0x302, PUDecomp 0x175 0x77 0x302,
    PUDecomp 0x176 0x59 0x302, PUDecomp 0x177 0x79 0x302, PUDecomp 0x178 0x59 0x308,
    PUDecomp 0x179 0x5A 0x301, PUDecomp 0x17A 0x7A 0x301, PUDecomp 0x17B 0x5A 0x307,
    PUDecomp 0x17C 0x7A 0x307, PUDecomp 0x17D 0x5A 0x30C, PUDecomp 0x17E 0x7A 0x30C,
    PUDecomp 0x1A0 0x4F 0x31B, PUDecomp 0x1A1 0x6F 0x31B, PUDecomp 0x1AF 0x55 0x31B,
    PUDecomp 0x1B0 0x75 0x31B, PUDecomp 0x1CD 0x41 0x30C, PUDecomp 0x1CE 0x61 0x30C,
    PUDecomp 0x1CF 0x49 0x30C, PUDecomp 0x1D0 0x69 0x30C, PUDecomp 0x1D1 0x4F 0x30C,
    PUDecomp 0x1D2 0x6F 0x30C, PUDecomp 0x1D3 0x55 0x30C, PUDecomp 0x1D4 0x75 0x30C,
    PUDecomp 0x1D5 0xDC 0x304, PUDecomp 0x1D6 0xFC 0x304, PUDecomp 0x1D7 0xDC 0x301,
    PUDecomp 0x1D8 0xFC 0x301, PUDecomp 0x1D9 0xDC 0x30C, PUDecomp 0x1DA 0xFC 0x30C,
    PUDecomp 0x1DB 0xDC 0x300, PUDecomp 0x1DC 0xFC 0x300, PUDecomp 0x1DE 0xC4 0x304,
    PUDecomp 0x1DF 0xE4 0x304, PUDecomp 0x1E0 0x226 0x304, PUDecomp 0x1E1 0x227 0x304,
    PUDecomp 0x1E2 0xC6 0x304, PUDecomp 0x1E3 0xE6 0x304, PUDecomp 0x1E6 0x47 0x30C,
    PUDecomp 0x1E7 0x67 0x30C, PUDecomp 0x1E8 0x4B 0x30C, PUDecomp 0x1E9 0x6B 0x30C,
    PUDecomp 0x1EA 0x4F 0x328, PUDecomp 0x1EB 0x6F 0x328, PUDecomp 0x1EC 0x1EA 0x304,
    PUDecomp 0x1ED 0x1EB 0x304, PUDecomp 0x1EE 0x1B7 0x30C, PUDecomp 0x1EF 0x292 0x30C,
    PUDecomp 0x1F0 0x6A 0x30C, PUDecomp 0x1F4 0x47 0x301, PUDecomp 0x1F5 0x67 0x301,
    PUDecomp 0x1F8 0x4E 0x300, PUDecomp 0x1F9 0x6E 0x300, PUDecomp 0x1FA 0xC5 0x301,
    PUDecomp 0x1FB 0xE5 0x301, PUDecomp 0x1FC 0xC6 0x301, PUDecomp 0x1FD 0xE6 0x301,
    PUDecomp 0x1FE 0xD8 0x301, PUDecomp 0x1FF 0xF8 0x301, PUDecomp 0x200 0x41 0x30F,
    PUDecomp 0x201 0x61 0x30F, PUDecomp 0x202 0x41 0x311, PUDecomp 0x203 0x61 0x311,
    PUDecomp 0x204 0x45 0x30F, PUDecomp 0x205 0x65 0x30F, PUDecomp 0x206 0x45 0x311,
    PUDecomp 0x207 0x65 0x311, PUDecomp 0x208 0x49 0x30F, PUDecomp 0x209 0x69 0x30F,
    PUDecomp 0x20A 0x49 0x311, PUDecomp 0x20B 0x69 0x311, PUDecomp 0x20C 0x4F 0x30F,
    PUDecomp 0x20D 0x6F 0x30F, PUDecomp 0x20E 0x4F 0x311, PUDecomp 0x20F 0x6F 0x311,
    PUDecomp 0x210 0x52 0x30F, PUDecomp 0x211 0x72 0x30F, PUDecomp 0x212 0x52 0x311,
    PUDecomp 0x213 0x72 0x311, PUDecomp 0x214 0x55 0x30F, PUDecomp 0x215 0x75 0x30F,
    PUDecomp 0x216 0x55 0x311, PUDecomp 0x217 0x75 0x311, PUDecomp 0x218 0x53 0x326,
    PUDecomp 0x219 0x73 0x326, PUDecomp 0x21A 0x54 0x326, PUDecomp 0x21B 0x74 0x326,
    PUDecomp 0x21E 0x48 0x30C, PUDecomp 0x21F 0x68 0x30C, PUDecomp 0x226 0x41 0x307,
    PUDecomp 0x227 0x61 0x307, PUDecomp 0x228 0x45 0x327, PUDecomp 0x229 0x65 0x327,
    PUDecomp 0x22A 0xD6 0x304, PUDecomp 0x22B 0xF6 0x304, PUDecomp 0x22C 0xD5 0x304,
    PUDecomp 0x22D 0xF5 0x304, PUDecomp 0x22E 0x4F 0x307, PUDecomp 0x22F 0x6F 0x307,
    PUDecomp 0x230 0x22E 0x304, PUDecomp 0x231 0x22F 0x304, PUDecomp 0x232 0x59 0x304,
    PUDecomp 0x233 0x79 0x304, PUDecomp 0x340 0x300 0, PUDecomp 0x341 0x301 0,
    PUDecomp 0x343 0x313 0, PUDecomp 0x344 0x308 0x301]"

definition pas_u_decomp_tbl_2 :: "pas_u_decomp list" where
  "pas_u_decomp_tbl_2 = [
    PUDecomp 0x374 0x2B9 0, PUDecomp 0x37E 0x3B 0, PUDecomp 0x385 0xA8 0x301,
    PUDecomp 0x386 0x391 0x301, PUDecomp 0x387 0xB7 0, PUDecomp 0x388 0x395 0x301,
    PUDecomp 0x389 0x397 0x301, PUDecomp 0x38A 0x399 0x301, PUDecomp 0x38C 0x39F 0x301,
    PUDecomp 0x38E 0x3A5 0x301, PUDecomp 0x38F 0x3A9 0x301, PUDecomp 0x390 0x3CA 0x301,
    PUDecomp 0x3AA 0x399 0x308, PUDecomp 0x3AB 0x3A5 0x308, PUDecomp 0x3AC 0x3B1 0x301,
    PUDecomp 0x3AD 0x3B5 0x301, PUDecomp 0x3AE 0x3B7 0x301, PUDecomp 0x3AF 0x3B9 0x301,
    PUDecomp 0x3B0 0x3CB 0x301, PUDecomp 0x3CA 0x3B9 0x308, PUDecomp 0x3CB 0x3C5 0x308,
    PUDecomp 0x3CC 0x3BF 0x301, PUDecomp 0x3CD 0x3C5 0x301, PUDecomp 0x3CE 0x3C9 0x301,
    PUDecomp 0x3D3 0x3D2 0x301, PUDecomp 0x3D4 0x3D2 0x308, PUDecomp 0x400 0x415 0x300,
    PUDecomp 0x401 0x415 0x308, PUDecomp 0x403 0x413 0x301, PUDecomp 0x407 0x406 0x308,
    PUDecomp 0x40C 0x41A 0x301, PUDecomp 0x40D 0x418 0x300, PUDecomp 0x40E 0x423 0x306,
    PUDecomp 0x419 0x418 0x306, PUDecomp 0x439 0x438 0x306, PUDecomp 0x450 0x435 0x300,
    PUDecomp 0x451 0x435 0x308, PUDecomp 0x453 0x433 0x301, PUDecomp 0x457 0x456 0x308,
    PUDecomp 0x45C 0x43A 0x301, PUDecomp 0x45D 0x438 0x300, PUDecomp 0x45E 0x443 0x306,
    PUDecomp 0x476 0x474 0x30F, PUDecomp 0x477 0x475 0x30F, PUDecomp 0x4C1 0x416 0x306,
    PUDecomp 0x4C2 0x436 0x306, PUDecomp 0x4D0 0x410 0x306, PUDecomp 0x4D1 0x430 0x306,
    PUDecomp 0x4D2 0x410 0x308, PUDecomp 0x4D3 0x430 0x308, PUDecomp 0x4D6 0x415 0x306,
    PUDecomp 0x4D7 0x435 0x306, PUDecomp 0x4DA 0x4D8 0x308, PUDecomp 0x4DB 0x4D9 0x308,
    PUDecomp 0x4DC 0x416 0x308, PUDecomp 0x4DD 0x436 0x308, PUDecomp 0x4DE 0x417 0x308,
    PUDecomp 0x4DF 0x437 0x308, PUDecomp 0x4E2 0x418 0x304, PUDecomp 0x4E3 0x438 0x304,
    PUDecomp 0x4E4 0x418 0x308, PUDecomp 0x4E5 0x438 0x308, PUDecomp 0x4E6 0x41E 0x308,
    PUDecomp 0x4E7 0x43E 0x308, PUDecomp 0x4EA 0x4E8 0x308, PUDecomp 0x4EB 0x4E9 0x308,
    PUDecomp 0x4EC 0x42D 0x308, PUDecomp 0x4ED 0x44D 0x308, PUDecomp 0x4EE 0x423 0x304,
    PUDecomp 0x4EF 0x443 0x304, PUDecomp 0x4F0 0x423 0x308, PUDecomp 0x4F1 0x443 0x308,
    PUDecomp 0x4F2 0x423 0x30B, PUDecomp 0x4F3 0x443 0x30B, PUDecomp 0x4F4 0x427 0x308,
    PUDecomp 0x4F5 0x447 0x308, PUDecomp 0x4F8 0x42B 0x308, PUDecomp 0x4F9 0x44B 0x308,
    PUDecomp 0x622 0x627 0x653, PUDecomp 0x623 0x627 0x654, PUDecomp 0x624 0x648 0x654,
    PUDecomp 0x625 0x627 0x655, PUDecomp 0x626 0x64A 0x654, PUDecomp 0x6C0 0x6D5 0x654,
    PUDecomp 0x6C2 0x6C1 0x654, PUDecomp 0x6D3 0x6D2 0x654, PUDecomp 0x929 0x928 0x93C,
    PUDecomp 0x931 0x930 0x93C, PUDecomp 0x934 0x933 0x93C, PUDecomp 0x958 0x915 0x93C,
    PUDecomp 0x959 0x916 0x93C, PUDecomp 0x95A 0x917 0x93C, PUDecomp 0x95B 0x91C 0x93C,
    PUDecomp 0x95C 0x921 0x93C, PUDecomp 0x95D 0x922 0x93C, PUDecomp 0x95E 0x92B 0x93C,
    PUDecomp 0x95F 0x92F 0x93C, PUDecomp 0x9CB 0x9C7 0x9BE, PUDecomp 0x9CC 0x9C7 0x9D7,
    PUDecomp 0x9DC 0x9A1 0x9BC, PUDecomp 0x9DD 0x9A2 0x9BC, PUDecomp 0x9DF 0x9AF 0x9BC,
    PUDecomp 0xA33 0xA32 0xA3C, PUDecomp 0xA36 0xA38 0xA3C, PUDecomp 0xA59 0xA16 0xA3C,
    PUDecomp 0xA5A 0xA17 0xA3C, PUDecomp 0xA5B 0xA1C 0xA3C, PUDecomp 0xA5E 0xA2B 0xA3C,
    PUDecomp 0xB48 0xB47 0xB56, PUDecomp 0xB4B 0xB47 0xB3E, PUDecomp 0xB4C 0xB47 0xB57,
    PUDecomp 0xB5C 0xB21 0xB3C, PUDecomp 0xB5D 0xB22 0xB3C, PUDecomp 0xB94 0xB92 0xBD7,
    PUDecomp 0xBCA 0xBC6 0xBBE, PUDecomp 0xBCB 0xBC7 0xBBE, PUDecomp 0xBCC 0xBC6 0xBD7,
    PUDecomp 0xC48 0xC46 0xC56, PUDecomp 0xCC0 0xCBF 0xCD5, PUDecomp 0xCC7 0xCC6 0xCD5,
    PUDecomp 0xCC8 0xCC6 0xCD6, PUDecomp 0xCCA 0xCC6 0xCC2, PUDecomp 0xCCB 0xCCA 0xCD5,
    PUDecomp 0xD4A 0xD46 0xD3E, PUDecomp 0xD4B 0xD47 0xD3E, PUDecomp 0xD4C 0xD46 0xD57,
    PUDecomp 0xDDA 0xDD9 0xDCA, PUDecomp 0xDDC 0xDD9 0xDCF]"

definition pas_u_decomp_tbl_3 :: "pas_u_decomp list" where
  "pas_u_decomp_tbl_3 = [
    PUDecomp 0xDDD 0xDDC 0xDCA, PUDecomp 0xDDE 0xDD9 0xDDF, PUDecomp 0xF43 0xF42 0xFB7,
    PUDecomp 0xF4D 0xF4C 0xFB7, PUDecomp 0xF52 0xF51 0xFB7, PUDecomp 0xF57 0xF56 0xFB7,
    PUDecomp 0xF5C 0xF5B 0xFB7, PUDecomp 0xF69 0xF40 0xFB5, PUDecomp 0xF73 0xF71 0xF72,
    PUDecomp 0xF75 0xF71 0xF74, PUDecomp 0xF76 0xFB2 0xF80, PUDecomp 0xF78 0xFB3 0xF80,
    PUDecomp 0xF81 0xF71 0xF80, PUDecomp 0xF93 0xF92 0xFB7, PUDecomp 0xF9D 0xF9C 0xFB7,
    PUDecomp 0xFA2 0xFA1 0xFB7, PUDecomp 0xFA7 0xFA6 0xFB7, PUDecomp 0xFAC 0xFAB 0xFB7,
    PUDecomp 0xFB9 0xF90 0xFB5, PUDecomp 0x1026 0x1025 0x102E, PUDecomp 0x1B06 0x1B05 0x1B35,
    PUDecomp 0x1B08 0x1B07 0x1B35, PUDecomp 0x1B0A 0x1B09 0x1B35, PUDecomp 0x1B0C 0x1B0B 0x1B35,
    PUDecomp 0x1B0E 0x1B0D 0x1B35, PUDecomp 0x1B12 0x1B11 0x1B35, PUDecomp 0x1B3B 0x1B3A 0x1B35,
    PUDecomp 0x1B3D 0x1B3C 0x1B35, PUDecomp 0x1B40 0x1B3E 0x1B35, PUDecomp 0x1B41 0x1B3F 0x1B35,
    PUDecomp 0x1B43 0x1B42 0x1B35, PUDecomp 0x1E00 0x41 0x325, PUDecomp 0x1E01 0x61 0x325,
    PUDecomp 0x1E02 0x42 0x307, PUDecomp 0x1E03 0x62 0x307, PUDecomp 0x1E04 0x42 0x323,
    PUDecomp 0x1E05 0x62 0x323, PUDecomp 0x1E06 0x42 0x331, PUDecomp 0x1E07 0x62 0x331,
    PUDecomp 0x1E08 0xC7 0x301, PUDecomp 0x1E09 0xE7 0x301, PUDecomp 0x1E0A 0x44 0x307,
    PUDecomp 0x1E0B 0x64 0x307, PUDecomp 0x1E0C 0x44 0x323, PUDecomp 0x1E0D 0x64 0x323,
    PUDecomp 0x1E0E 0x44 0x331, PUDecomp 0x1E0F 0x64 0x331, PUDecomp 0x1E10 0x44 0x327,
    PUDecomp 0x1E11 0x64 0x327, PUDecomp 0x1E12 0x44 0x32D, PUDecomp 0x1E13 0x64 0x32D,
    PUDecomp 0x1E14 0x112 0x300, PUDecomp 0x1E15 0x113 0x300, PUDecomp 0x1E16 0x112 0x301,
    PUDecomp 0x1E17 0x113 0x301, PUDecomp 0x1E18 0x45 0x32D, PUDecomp 0x1E19 0x65 0x32D,
    PUDecomp 0x1E1A 0x45 0x330, PUDecomp 0x1E1B 0x65 0x330, PUDecomp 0x1E1C 0x228 0x306,
    PUDecomp 0x1E1D 0x229 0x306, PUDecomp 0x1E1E 0x46 0x307, PUDecomp 0x1E1F 0x66 0x307,
    PUDecomp 0x1E20 0x47 0x304, PUDecomp 0x1E21 0x67 0x304, PUDecomp 0x1E22 0x48 0x307,
    PUDecomp 0x1E23 0x68 0x307, PUDecomp 0x1E24 0x48 0x323, PUDecomp 0x1E25 0x68 0x323,
    PUDecomp 0x1E26 0x48 0x308, PUDecomp 0x1E27 0x68 0x308, PUDecomp 0x1E28 0x48 0x327,
    PUDecomp 0x1E29 0x68 0x327, PUDecomp 0x1E2A 0x48 0x32E, PUDecomp 0x1E2B 0x68 0x32E,
    PUDecomp 0x1E2C 0x49 0x330, PUDecomp 0x1E2D 0x69 0x330, PUDecomp 0x1E2E 0xCF 0x301,
    PUDecomp 0x1E2F 0xEF 0x301, PUDecomp 0x1E30 0x4B 0x301, PUDecomp 0x1E31 0x6B 0x301,
    PUDecomp 0x1E32 0x4B 0x323, PUDecomp 0x1E33 0x6B 0x323, PUDecomp 0x1E34 0x4B 0x331,
    PUDecomp 0x1E35 0x6B 0x331, PUDecomp 0x1E36 0x4C 0x323, PUDecomp 0x1E37 0x6C 0x323,
    PUDecomp 0x1E38 0x1E36 0x304, PUDecomp 0x1E39 0x1E37 0x304, PUDecomp 0x1E3A 0x4C 0x331,
    PUDecomp 0x1E3B 0x6C 0x331, PUDecomp 0x1E3C 0x4C 0x32D, PUDecomp 0x1E3D 0x6C 0x32D,
    PUDecomp 0x1E3E 0x4D 0x301, PUDecomp 0x1E3F 0x6D 0x301, PUDecomp 0x1E40 0x4D 0x307,
    PUDecomp 0x1E41 0x6D 0x307, PUDecomp 0x1E42 0x4D 0x323, PUDecomp 0x1E43 0x6D 0x323,
    PUDecomp 0x1E44 0x4E 0x307, PUDecomp 0x1E45 0x6E 0x307, PUDecomp 0x1E46 0x4E 0x323,
    PUDecomp 0x1E47 0x6E 0x323, PUDecomp 0x1E48 0x4E 0x331, PUDecomp 0x1E49 0x6E 0x331,
    PUDecomp 0x1E4A 0x4E 0x32D, PUDecomp 0x1E4B 0x6E 0x32D, PUDecomp 0x1E4C 0xD5 0x301,
    PUDecomp 0x1E4D 0xF5 0x301, PUDecomp 0x1E4E 0xD5 0x308, PUDecomp 0x1E4F 0xF5 0x308,
    PUDecomp 0x1E50 0x14C 0x300, PUDecomp 0x1E51 0x14D 0x300, PUDecomp 0x1E52 0x14C 0x301,
    PUDecomp 0x1E53 0x14D 0x301, PUDecomp 0x1E54 0x50 0x301, PUDecomp 0x1E55 0x70 0x301,
    PUDecomp 0x1E56 0x50 0x307, PUDecomp 0x1E57 0x70 0x307, PUDecomp 0x1E58 0x52 0x307,
    PUDecomp 0x1E59 0x72 0x307, PUDecomp 0x1E5A 0x52 0x323, PUDecomp 0x1E5B 0x72 0x323,
    PUDecomp 0x1E5C 0x1E5A 0x304, PUDecomp 0x1E5D 0x1E5B 0x304, PUDecomp 0x1E5E 0x52 0x331,
    PUDecomp 0x1E5F 0x72 0x331, PUDecomp 0x1E60 0x53 0x307]"

definition pas_u_decomp_tbl_4 :: "pas_u_decomp list" where
  "pas_u_decomp_tbl_4 = [
    PUDecomp 0x1E61 0x73 0x307, PUDecomp 0x1E62 0x53 0x323, PUDecomp 0x1E63 0x73 0x323,
    PUDecomp 0x1E64 0x15A 0x307, PUDecomp 0x1E65 0x15B 0x307, PUDecomp 0x1E66 0x160 0x307,
    PUDecomp 0x1E67 0x161 0x307, PUDecomp 0x1E68 0x1E62 0x307, PUDecomp 0x1E69 0x1E63 0x307,
    PUDecomp 0x1E6A 0x54 0x307, PUDecomp 0x1E6B 0x74 0x307, PUDecomp 0x1E6C 0x54 0x323,
    PUDecomp 0x1E6D 0x74 0x323, PUDecomp 0x1E6E 0x54 0x331, PUDecomp 0x1E6F 0x74 0x331,
    PUDecomp 0x1E70 0x54 0x32D, PUDecomp 0x1E71 0x74 0x32D, PUDecomp 0x1E72 0x55 0x324,
    PUDecomp 0x1E73 0x75 0x324, PUDecomp 0x1E74 0x55 0x330, PUDecomp 0x1E75 0x75 0x330,
    PUDecomp 0x1E76 0x55 0x32D, PUDecomp 0x1E77 0x75 0x32D, PUDecomp 0x1E78 0x168 0x301,
    PUDecomp 0x1E79 0x169 0x301, PUDecomp 0x1E7A 0x16A 0x308, PUDecomp 0x1E7B 0x16B 0x308,
    PUDecomp 0x1E7C 0x56 0x303, PUDecomp 0x1E7D 0x76 0x303, PUDecomp 0x1E7E 0x56 0x323,
    PUDecomp 0x1E7F 0x76 0x323, PUDecomp 0x1E80 0x57 0x300, PUDecomp 0x1E81 0x77 0x300,
    PUDecomp 0x1E82 0x57 0x301, PUDecomp 0x1E83 0x77 0x301, PUDecomp 0x1E84 0x57 0x308,
    PUDecomp 0x1E85 0x77 0x308, PUDecomp 0x1E86 0x57 0x307, PUDecomp 0x1E87 0x77 0x307,
    PUDecomp 0x1E88 0x57 0x323, PUDecomp 0x1E89 0x77 0x323, PUDecomp 0x1E8A 0x58 0x307,
    PUDecomp 0x1E8B 0x78 0x307, PUDecomp 0x1E8C 0x58 0x308, PUDecomp 0x1E8D 0x78 0x308,
    PUDecomp 0x1E8E 0x59 0x307, PUDecomp 0x1E8F 0x79 0x307, PUDecomp 0x1E90 0x5A 0x302,
    PUDecomp 0x1E91 0x7A 0x302, PUDecomp 0x1E92 0x5A 0x323, PUDecomp 0x1E93 0x7A 0x323,
    PUDecomp 0x1E94 0x5A 0x331, PUDecomp 0x1E95 0x7A 0x331, PUDecomp 0x1E96 0x68 0x331,
    PUDecomp 0x1E97 0x74 0x308, PUDecomp 0x1E98 0x77 0x30A, PUDecomp 0x1E99 0x79 0x30A,
    PUDecomp 0x1E9B 0x17F 0x307, PUDecomp 0x1EA0 0x41 0x323, PUDecomp 0x1EA1 0x61 0x323,
    PUDecomp 0x1EA2 0x41 0x309, PUDecomp 0x1EA3 0x61 0x309, PUDecomp 0x1EA4 0xC2 0x301,
    PUDecomp 0x1EA5 0xE2 0x301, PUDecomp 0x1EA6 0xC2 0x300, PUDecomp 0x1EA7 0xE2 0x300,
    PUDecomp 0x1EA8 0xC2 0x309, PUDecomp 0x1EA9 0xE2 0x309, PUDecomp 0x1EAA 0xC2 0x303,
    PUDecomp 0x1EAB 0xE2 0x303, PUDecomp 0x1EAC 0x1EA0 0x302, PUDecomp 0x1EAD 0x1EA1 0x302,
    PUDecomp 0x1EAE 0x102 0x301, PUDecomp 0x1EAF 0x103 0x301, PUDecomp 0x1EB0 0x102 0x300,
    PUDecomp 0x1EB1 0x103 0x300, PUDecomp 0x1EB2 0x102 0x309, PUDecomp 0x1EB3 0x103 0x309,
    PUDecomp 0x1EB4 0x102 0x303, PUDecomp 0x1EB5 0x103 0x303, PUDecomp 0x1EB6 0x1EA0 0x306,
    PUDecomp 0x1EB7 0x1EA1 0x306, PUDecomp 0x1EB8 0x45 0x323, PUDecomp 0x1EB9 0x65 0x323,
    PUDecomp 0x1EBA 0x45 0x309, PUDecomp 0x1EBB 0x65 0x309, PUDecomp 0x1EBC 0x45 0x303,
    PUDecomp 0x1EBD 0x65 0x303, PUDecomp 0x1EBE 0xCA 0x301, PUDecomp 0x1EBF 0xEA 0x301,
    PUDecomp 0x1EC0 0xCA 0x300, PUDecomp 0x1EC1 0xEA 0x300, PUDecomp 0x1EC2 0xCA 0x309,
    PUDecomp 0x1EC3 0xEA 0x309, PUDecomp 0x1EC4 0xCA 0x303, PUDecomp 0x1EC5 0xEA 0x303,
    PUDecomp 0x1EC6 0x1EB8 0x302, PUDecomp 0x1EC7 0x1EB9 0x302, PUDecomp 0x1EC8 0x49 0x309,
    PUDecomp 0x1EC9 0x69 0x309, PUDecomp 0x1ECA 0x49 0x323, PUDecomp 0x1ECB 0x69 0x323,
    PUDecomp 0x1ECC 0x4F 0x323, PUDecomp 0x1ECD 0x6F 0x323, PUDecomp 0x1ECE 0x4F 0x309,
    PUDecomp 0x1ECF 0x6F 0x309, PUDecomp 0x1ED0 0xD4 0x301, PUDecomp 0x1ED1 0xF4 0x301,
    PUDecomp 0x1ED2 0xD4 0x300, PUDecomp 0x1ED3 0xF4 0x300, PUDecomp 0x1ED4 0xD4 0x309,
    PUDecomp 0x1ED5 0xF4 0x309, PUDecomp 0x1ED6 0xD4 0x303, PUDecomp 0x1ED7 0xF4 0x303,
    PUDecomp 0x1ED8 0x1ECC 0x302, PUDecomp 0x1ED9 0x1ECD 0x302, PUDecomp 0x1EDA 0x1A0 0x301,
    PUDecomp 0x1EDB 0x1A1 0x301, PUDecomp 0x1EDC 0x1A0 0x300, PUDecomp 0x1EDD 0x1A1 0x300,
    PUDecomp 0x1EDE 0x1A0 0x309, PUDecomp 0x1EDF 0x1A1 0x309, PUDecomp 0x1EE0 0x1A0 0x303,
    PUDecomp 0x1EE1 0x1A1 0x303, PUDecomp 0x1EE2 0x1A0 0x323, PUDecomp 0x1EE3 0x1A1 0x323,
    PUDecomp 0x1EE4 0x55 0x323, PUDecomp 0x1EE5 0x75 0x323]"

definition pas_u_decomp_tbl_5 :: "pas_u_decomp list" where
  "pas_u_decomp_tbl_5 = [
    PUDecomp 0x1EE6 0x55 0x309, PUDecomp 0x1EE7 0x75 0x309, PUDecomp 0x1EE8 0x1AF 0x301,
    PUDecomp 0x1EE9 0x1B0 0x301, PUDecomp 0x1EEA 0x1AF 0x300, PUDecomp 0x1EEB 0x1B0 0x300,
    PUDecomp 0x1EEC 0x1AF 0x309, PUDecomp 0x1EED 0x1B0 0x309, PUDecomp 0x1EEE 0x1AF 0x303,
    PUDecomp 0x1EEF 0x1B0 0x303, PUDecomp 0x1EF0 0x1AF 0x323, PUDecomp 0x1EF1 0x1B0 0x323,
    PUDecomp 0x1EF2 0x59 0x300, PUDecomp 0x1EF3 0x79 0x300, PUDecomp 0x1EF4 0x59 0x323,
    PUDecomp 0x1EF5 0x79 0x323, PUDecomp 0x1EF6 0x59 0x309, PUDecomp 0x1EF7 0x79 0x309,
    PUDecomp 0x1EF8 0x59 0x303, PUDecomp 0x1EF9 0x79 0x303, PUDecomp 0x1F00 0x3B1 0x313,
    PUDecomp 0x1F01 0x3B1 0x314, PUDecomp 0x1F02 0x1F00 0x300, PUDecomp 0x1F03 0x1F01 0x300,
    PUDecomp 0x1F04 0x1F00 0x301, PUDecomp 0x1F05 0x1F01 0x301, PUDecomp 0x1F06 0x1F00 0x342,
    PUDecomp 0x1F07 0x1F01 0x342, PUDecomp 0x1F08 0x391 0x313, PUDecomp 0x1F09 0x391 0x314,
    PUDecomp 0x1F0A 0x1F08 0x300, PUDecomp 0x1F0B 0x1F09 0x300, PUDecomp 0x1F0C 0x1F08 0x301,
    PUDecomp 0x1F0D 0x1F09 0x301, PUDecomp 0x1F0E 0x1F08 0x342, PUDecomp 0x1F0F 0x1F09 0x342,
    PUDecomp 0x1F10 0x3B5 0x313, PUDecomp 0x1F11 0x3B5 0x314, PUDecomp 0x1F12 0x1F10 0x300,
    PUDecomp 0x1F13 0x1F11 0x300, PUDecomp 0x1F14 0x1F10 0x301, PUDecomp 0x1F15 0x1F11 0x301,
    PUDecomp 0x1F18 0x395 0x313, PUDecomp 0x1F19 0x395 0x314, PUDecomp 0x1F1A 0x1F18 0x300,
    PUDecomp 0x1F1B 0x1F19 0x300, PUDecomp 0x1F1C 0x1F18 0x301, PUDecomp 0x1F1D 0x1F19 0x301,
    PUDecomp 0x1F20 0x3B7 0x313, PUDecomp 0x1F21 0x3B7 0x314, PUDecomp 0x1F22 0x1F20 0x300,
    PUDecomp 0x1F23 0x1F21 0x300, PUDecomp 0x1F24 0x1F20 0x301, PUDecomp 0x1F25 0x1F21 0x301,
    PUDecomp 0x1F26 0x1F20 0x342, PUDecomp 0x1F27 0x1F21 0x342, PUDecomp 0x1F28 0x397 0x313,
    PUDecomp 0x1F29 0x397 0x314, PUDecomp 0x1F2A 0x1F28 0x300, PUDecomp 0x1F2B 0x1F29 0x300,
    PUDecomp 0x1F2C 0x1F28 0x301, PUDecomp 0x1F2D 0x1F29 0x301, PUDecomp 0x1F2E 0x1F28 0x342,
    PUDecomp 0x1F2F 0x1F29 0x342, PUDecomp 0x1F30 0x3B9 0x313, PUDecomp 0x1F31 0x3B9 0x314,
    PUDecomp 0x1F32 0x1F30 0x300, PUDecomp 0x1F33 0x1F31 0x300, PUDecomp 0x1F34 0x1F30 0x301,
    PUDecomp 0x1F35 0x1F31 0x301, PUDecomp 0x1F36 0x1F30 0x342, PUDecomp 0x1F37 0x1F31 0x342,
    PUDecomp 0x1F38 0x399 0x313, PUDecomp 0x1F39 0x399 0x314, PUDecomp 0x1F3A 0x1F38 0x300,
    PUDecomp 0x1F3B 0x1F39 0x300, PUDecomp 0x1F3C 0x1F38 0x301, PUDecomp 0x1F3D 0x1F39 0x301,
    PUDecomp 0x1F3E 0x1F38 0x342, PUDecomp 0x1F3F 0x1F39 0x342, PUDecomp 0x1F40 0x3BF 0x313,
    PUDecomp 0x1F41 0x3BF 0x314, PUDecomp 0x1F42 0x1F40 0x300, PUDecomp 0x1F43 0x1F41 0x300,
    PUDecomp 0x1F44 0x1F40 0x301, PUDecomp 0x1F45 0x1F41 0x301, PUDecomp 0x1F48 0x39F 0x313,
    PUDecomp 0x1F49 0x39F 0x314, PUDecomp 0x1F4A 0x1F48 0x300, PUDecomp 0x1F4B 0x1F49 0x300,
    PUDecomp 0x1F4C 0x1F48 0x301, PUDecomp 0x1F4D 0x1F49 0x301, PUDecomp 0x1F50 0x3C5 0x313,
    PUDecomp 0x1F51 0x3C5 0x314, PUDecomp 0x1F52 0x1F50 0x300, PUDecomp 0x1F53 0x1F51 0x300,
    PUDecomp 0x1F54 0x1F50 0x301, PUDecomp 0x1F55 0x1F51 0x301, PUDecomp 0x1F56 0x1F50 0x342,
    PUDecomp 0x1F57 0x1F51 0x342, PUDecomp 0x1F59 0x3A5 0x314, PUDecomp 0x1F5B 0x1F59 0x300,
    PUDecomp 0x1F5D 0x1F59 0x301, PUDecomp 0x1F5F 0x1F59 0x342, PUDecomp 0x1F60 0x3C9 0x313,
    PUDecomp 0x1F61 0x3C9 0x314, PUDecomp 0x1F62 0x1F60 0x300, PUDecomp 0x1F63 0x1F61 0x300,
    PUDecomp 0x1F64 0x1F60 0x301, PUDecomp 0x1F65 0x1F61 0x301, PUDecomp 0x1F66 0x1F60 0x342,
    PUDecomp 0x1F67 0x1F61 0x342, PUDecomp 0x1F68 0x3A9 0x313, PUDecomp 0x1F69 0x3A9 0x314,
    PUDecomp 0x1F6A 0x1F68 0x300, PUDecomp 0x1F6B 0x1F69 0x300, PUDecomp 0x1F6C 0x1F68 0x301,
    PUDecomp 0x1F6D 0x1F69 0x301, PUDecomp 0x1F6E 0x1F68 0x342, PUDecomp 0x1F6F 0x1F69 0x342,
    PUDecomp 0x1F70 0x3B1 0x300, PUDecomp 0x1F71 0x3AC 0, PUDecomp 0x1F72 0x3B5 0x300,
    PUDecomp 0x1F73 0x3AD 0, PUDecomp 0x1F74 0x3B7 0x300, PUDecomp 0x1F75 0x3AE 0,
    PUDecomp 0x1F76 0x3B9 0x300, PUDecomp 0x1F77 0x3AF 0]"

definition pas_u_decomp_tbl_6 :: "pas_u_decomp list" where
  "pas_u_decomp_tbl_6 = [
    PUDecomp 0x1F78 0x3BF 0x300, PUDecomp 0x1F79 0x3CC 0, PUDecomp 0x1F7A 0x3C5 0x300,
    PUDecomp 0x1F7B 0x3CD 0, PUDecomp 0x1F7C 0x3C9 0x300, PUDecomp 0x1F7D 0x3CE 0,
    PUDecomp 0x1F80 0x1F00 0x345, PUDecomp 0x1F81 0x1F01 0x345, PUDecomp 0x1F82 0x1F02 0x345,
    PUDecomp 0x1F83 0x1F03 0x345, PUDecomp 0x1F84 0x1F04 0x345, PUDecomp 0x1F85 0x1F05 0x345,
    PUDecomp 0x1F86 0x1F06 0x345, PUDecomp 0x1F87 0x1F07 0x345, PUDecomp 0x1F88 0x1F08 0x345,
    PUDecomp 0x1F89 0x1F09 0x345, PUDecomp 0x1F8A 0x1F0A 0x345, PUDecomp 0x1F8B 0x1F0B 0x345,
    PUDecomp 0x1F8C 0x1F0C 0x345, PUDecomp 0x1F8D 0x1F0D 0x345, PUDecomp 0x1F8E 0x1F0E 0x345,
    PUDecomp 0x1F8F 0x1F0F 0x345, PUDecomp 0x1F90 0x1F20 0x345, PUDecomp 0x1F91 0x1F21 0x345,
    PUDecomp 0x1F92 0x1F22 0x345, PUDecomp 0x1F93 0x1F23 0x345, PUDecomp 0x1F94 0x1F24 0x345,
    PUDecomp 0x1F95 0x1F25 0x345, PUDecomp 0x1F96 0x1F26 0x345, PUDecomp 0x1F97 0x1F27 0x345,
    PUDecomp 0x1F98 0x1F28 0x345, PUDecomp 0x1F99 0x1F29 0x345, PUDecomp 0x1F9A 0x1F2A 0x345,
    PUDecomp 0x1F9B 0x1F2B 0x345, PUDecomp 0x1F9C 0x1F2C 0x345, PUDecomp 0x1F9D 0x1F2D 0x345,
    PUDecomp 0x1F9E 0x1F2E 0x345, PUDecomp 0x1F9F 0x1F2F 0x345, PUDecomp 0x1FA0 0x1F60 0x345,
    PUDecomp 0x1FA1 0x1F61 0x345, PUDecomp 0x1FA2 0x1F62 0x345, PUDecomp 0x1FA3 0x1F63 0x345,
    PUDecomp 0x1FA4 0x1F64 0x345, PUDecomp 0x1FA5 0x1F65 0x345, PUDecomp 0x1FA6 0x1F66 0x345,
    PUDecomp 0x1FA7 0x1F67 0x345, PUDecomp 0x1FA8 0x1F68 0x345, PUDecomp 0x1FA9 0x1F69 0x345,
    PUDecomp 0x1FAA 0x1F6A 0x345, PUDecomp 0x1FAB 0x1F6B 0x345, PUDecomp 0x1FAC 0x1F6C 0x345,
    PUDecomp 0x1FAD 0x1F6D 0x345, PUDecomp 0x1FAE 0x1F6E 0x345, PUDecomp 0x1FAF 0x1F6F 0x345,
    PUDecomp 0x1FB0 0x3B1 0x306, PUDecomp 0x1FB1 0x3B1 0x304, PUDecomp 0x1FB2 0x1F70 0x345,
    PUDecomp 0x1FB3 0x3B1 0x345, PUDecomp 0x1FB4 0x3AC 0x345, PUDecomp 0x1FB6 0x3B1 0x342,
    PUDecomp 0x1FB7 0x1FB6 0x345, PUDecomp 0x1FB8 0x391 0x306, PUDecomp 0x1FB9 0x391 0x304,
    PUDecomp 0x1FBA 0x391 0x300, PUDecomp 0x1FBB 0x386 0, PUDecomp 0x1FBC 0x391 0x345,
    PUDecomp 0x1FBE 0x3B9 0, PUDecomp 0x1FC1 0xA8 0x342, PUDecomp 0x1FC2 0x1F74 0x345,
    PUDecomp 0x1FC3 0x3B7 0x345, PUDecomp 0x1FC4 0x3AE 0x345, PUDecomp 0x1FC6 0x3B7 0x342,
    PUDecomp 0x1FC7 0x1FC6 0x345, PUDecomp 0x1FC8 0x395 0x300, PUDecomp 0x1FC9 0x388 0,
    PUDecomp 0x1FCA 0x397 0x300, PUDecomp 0x1FCB 0x389 0, PUDecomp 0x1FCC 0x397 0x345,
    PUDecomp 0x1FCD 0x1FBF 0x300, PUDecomp 0x1FCE 0x1FBF 0x301, PUDecomp 0x1FCF 0x1FBF 0x342,
    PUDecomp 0x1FD0 0x3B9 0x306, PUDecomp 0x1FD1 0x3B9 0x304, PUDecomp 0x1FD2 0x3CA 0x300,
    PUDecomp 0x1FD3 0x390 0, PUDecomp 0x1FD6 0x3B9 0x342, PUDecomp 0x1FD7 0x3CA 0x342,
    PUDecomp 0x1FD8 0x399 0x306, PUDecomp 0x1FD9 0x399 0x304, PUDecomp 0x1FDA 0x399 0x300,
    PUDecomp 0x1FDB 0x38A 0, PUDecomp 0x1FDD 0x1FFE 0x300, PUDecomp 0x1FDE 0x1FFE 0x301,
    PUDecomp 0x1FDF 0x1FFE 0x342, PUDecomp 0x1FE0 0x3C5 0x306, PUDecomp 0x1FE1 0x3C5 0x304,
    PUDecomp 0x1FE2 0x3CB 0x300, PUDecomp 0x1FE3 0x3B0 0, PUDecomp 0x1FE4 0x3C1 0x313,
    PUDecomp 0x1FE5 0x3C1 0x314, PUDecomp 0x1FE6 0x3C5 0x342, PUDecomp 0x1FE7 0x3CB 0x342,
    PUDecomp 0x1FE8 0x3A5 0x306, PUDecomp 0x1FE9 0x3A5 0x304, PUDecomp 0x1FEA 0x3A5 0x300,
    PUDecomp 0x1FEB 0x38E 0, PUDecomp 0x1FEC 0x3A1 0x314, PUDecomp 0x1FED 0xA8 0x300,
    PUDecomp 0x1FEE 0x385 0, PUDecomp 0x1FEF 0x60 0, PUDecomp 0x1FF2 0x1F7C 0x345,
    PUDecomp 0x1FF3 0x3C9 0x345, PUDecomp 0x1FF4 0x3CE 0x345, PUDecomp 0x1FF6 0x3C9 0x342,
    PUDecomp 0x1FF7 0x1FF6 0x345, PUDecomp 0x1FF8 0x39F 0x300, PUDecomp 0x1FF9 0x38C 0,
    PUDecomp 0x1FFA 0x3A9 0x300, PUDecomp 0x1FFB 0x38F 0, PUDecomp 0x1FFC 0x3A9 0x345,
    PUDecomp 0x1FFD 0xB4 0, PUDecomp 0x2000 0x2002 0, PUDecomp 0x2001 0x2003 0,
    PUDecomp 0x2126 0x3A9 0, PUDecomp 0x212A 0x4B 0, PUDecomp 0x212B 0xC5 0,
    PUDecomp 0x219A 0x2190 0x338, PUDecomp 0x219B 0x2192 0x338]"

definition pas_u_decomp_tbl_7 :: "pas_u_decomp list" where
  "pas_u_decomp_tbl_7 = [
    PUDecomp 0x21AE 0x2194 0x338, PUDecomp 0x21CD 0x21D0 0x338, PUDecomp 0x21CE 0x21D4 0x338,
    PUDecomp 0x21CF 0x21D2 0x338, PUDecomp 0x2204 0x2203 0x338, PUDecomp 0x2209 0x2208 0x338,
    PUDecomp 0x220C 0x220B 0x338, PUDecomp 0x2224 0x2223 0x338, PUDecomp 0x2226 0x2225 0x338,
    PUDecomp 0x2241 0x223C 0x338, PUDecomp 0x2244 0x2243 0x338, PUDecomp 0x2247 0x2245 0x338,
    PUDecomp 0x2249 0x2248 0x338, PUDecomp 0x2260 0x3D 0x338, PUDecomp 0x2262 0x2261 0x338,
    PUDecomp 0x226D 0x224D 0x338, PUDecomp 0x226E 0x3C 0x338, PUDecomp 0x226F 0x3E 0x338,
    PUDecomp 0x2270 0x2264 0x338, PUDecomp 0x2271 0x2265 0x338, PUDecomp 0x2274 0x2272 0x338,
    PUDecomp 0x2275 0x2273 0x338, PUDecomp 0x2278 0x2276 0x338, PUDecomp 0x2279 0x2277 0x338,
    PUDecomp 0x2280 0x227A 0x338, PUDecomp 0x2281 0x227B 0x338, PUDecomp 0x2284 0x2282 0x338,
    PUDecomp 0x2285 0x2283 0x338, PUDecomp 0x2288 0x2286 0x338, PUDecomp 0x2289 0x2287 0x338,
    PUDecomp 0x22AC 0x22A2 0x338, PUDecomp 0x22AD 0x22A8 0x338, PUDecomp 0x22AE 0x22A9 0x338,
    PUDecomp 0x22AF 0x22AB 0x338, PUDecomp 0x22E0 0x227C 0x338, PUDecomp 0x22E1 0x227D 0x338,
    PUDecomp 0x22E2 0x2291 0x338, PUDecomp 0x22E3 0x2292 0x338, PUDecomp 0x22EA 0x22B2 0x338,
    PUDecomp 0x22EB 0x22B3 0x338, PUDecomp 0x22EC 0x22B4 0x338, PUDecomp 0x22ED 0x22B5 0x338,
    PUDecomp 0x2329 0x3008 0, PUDecomp 0x232A 0x3009 0, PUDecomp 0x2ADC 0x2ADD 0x338,
    PUDecomp 0x304C 0x304B 0x3099, PUDecomp 0x304E 0x304D 0x3099, PUDecomp 0x3050 0x304F 0x3099,
    PUDecomp 0x3052 0x3051 0x3099, PUDecomp 0x3054 0x3053 0x3099, PUDecomp 0x3056 0x3055 0x3099,
    PUDecomp 0x3058 0x3057 0x3099, PUDecomp 0x305A 0x3059 0x3099, PUDecomp 0x305C 0x305B 0x3099,
    PUDecomp 0x305E 0x305D 0x3099, PUDecomp 0x3060 0x305F 0x3099, PUDecomp 0x3062 0x3061 0x3099,
    PUDecomp 0x3065 0x3064 0x3099, PUDecomp 0x3067 0x3066 0x3099, PUDecomp 0x3069 0x3068 0x3099,
    PUDecomp 0x3070 0x306F 0x3099, PUDecomp 0x3071 0x306F 0x309A, PUDecomp 0x3073 0x3072 0x3099,
    PUDecomp 0x3074 0x3072 0x309A, PUDecomp 0x3076 0x3075 0x3099, PUDecomp 0x3077 0x3075 0x309A,
    PUDecomp 0x3079 0x3078 0x3099, PUDecomp 0x307A 0x3078 0x309A, PUDecomp 0x307C 0x307B 0x3099,
    PUDecomp 0x307D 0x307B 0x309A, PUDecomp 0x3094 0x3046 0x3099, PUDecomp 0x309E 0x309D 0x3099,
    PUDecomp 0x30AC 0x30AB 0x3099, PUDecomp 0x30AE 0x30AD 0x3099, PUDecomp 0x30B0 0x30AF 0x3099,
    PUDecomp 0x30B2 0x30B1 0x3099, PUDecomp 0x30B4 0x30B3 0x3099, PUDecomp 0x30B6 0x30B5 0x3099,
    PUDecomp 0x30B8 0x30B7 0x3099, PUDecomp 0x30BA 0x30B9 0x3099, PUDecomp 0x30BC 0x30BB 0x3099,
    PUDecomp 0x30BE 0x30BD 0x3099, PUDecomp 0x30C0 0x30BF 0x3099, PUDecomp 0x30C2 0x30C1 0x3099,
    PUDecomp 0x30C5 0x30C4 0x3099, PUDecomp 0x30C7 0x30C6 0x3099, PUDecomp 0x30C9 0x30C8 0x3099,
    PUDecomp 0x30D0 0x30CF 0x3099, PUDecomp 0x30D1 0x30CF 0x309A, PUDecomp 0x30D3 0x30D2 0x3099,
    PUDecomp 0x30D4 0x30D2 0x309A, PUDecomp 0x30D6 0x30D5 0x3099, PUDecomp 0x30D7 0x30D5 0x309A,
    PUDecomp 0x30D9 0x30D8 0x3099, PUDecomp 0x30DA 0x30D8 0x309A, PUDecomp 0x30DC 0x30DB 0x3099,
    PUDecomp 0x30DD 0x30DB 0x309A, PUDecomp 0x30F4 0x30A6 0x3099, PUDecomp 0x30F7 0x30EF 0x3099,
    PUDecomp 0x30F8 0x30F0 0x3099, PUDecomp 0x30F9 0x30F1 0x3099, PUDecomp 0x30FA 0x30F2 0x3099,
    PUDecomp 0x30FE 0x30FD 0x3099, PUDecomp 0xF900 0x8C48 0, PUDecomp 0xF901 0x66F4 0,
    PUDecomp 0xF902 0x8ECA 0, PUDecomp 0xF903 0x8CC8 0, PUDecomp 0xF904 0x6ED1 0,
    PUDecomp 0xF905 0x4E32 0, PUDecomp 0xF906 0x53E5 0, PUDecomp 0xF907 0x9F9C 0,
    PUDecomp 0xF908 0x9F9C 0, PUDecomp 0xF909 0x5951 0, PUDecomp 0xF90A 0x91D1 0,
    PUDecomp 0xF90B 0x5587 0, PUDecomp 0xF90C 0x5948 0, PUDecomp 0xF90D 0x61F6 0,
    PUDecomp 0xF90E 0x7669 0, PUDecomp 0xF90F 0x7F85 0, PUDecomp 0xF910 0x863F 0,
    PUDecomp 0xF911 0x87BA 0, PUDecomp 0xF912 0x88F8 0, PUDecomp 0xF913 0x908F 0,
    PUDecomp 0xF914 0x6A02 0, PUDecomp 0xF915 0x6D1B 0, PUDecomp 0xF916 0x70D9 0,
    PUDecomp 0xF917 0x73DE 0, PUDecomp 0xF918 0x843D 0]"

definition pas_u_decomp_tbl_8 :: "pas_u_decomp list" where
  "pas_u_decomp_tbl_8 = [
    PUDecomp 0xF919 0x916A 0, PUDecomp 0xF91A 0x99F1 0, PUDecomp 0xF91B 0x4E82 0,
    PUDecomp 0xF91C 0x5375 0, PUDecomp 0xF91D 0x6B04 0, PUDecomp 0xF91E 0x721B 0,
    PUDecomp 0xF91F 0x862D 0, PUDecomp 0xF920 0x9E1E 0, PUDecomp 0xF921 0x5D50 0,
    PUDecomp 0xF922 0x6FEB 0, PUDecomp 0xF923 0x85CD 0, PUDecomp 0xF924 0x8964 0,
    PUDecomp 0xF925 0x62C9 0, PUDecomp 0xF926 0x81D8 0, PUDecomp 0xF927 0x881F 0,
    PUDecomp 0xF928 0x5ECA 0, PUDecomp 0xF929 0x6717 0, PUDecomp 0xF92A 0x6D6A 0,
    PUDecomp 0xF92B 0x72FC 0, PUDecomp 0xF92C 0x90CE 0, PUDecomp 0xF92D 0x4F86 0,
    PUDecomp 0xF92E 0x51B7 0, PUDecomp 0xF92F 0x52DE 0, PUDecomp 0xF930 0x64C4 0,
    PUDecomp 0xF931 0x6AD3 0, PUDecomp 0xF932 0x7210 0, PUDecomp 0xF933 0x76E7 0,
    PUDecomp 0xF934 0x8001 0, PUDecomp 0xF935 0x8606 0, PUDecomp 0xF936 0x865C 0,
    PUDecomp 0xF937 0x8DEF 0, PUDecomp 0xF938 0x9732 0, PUDecomp 0xF939 0x9B6F 0,
    PUDecomp 0xF93A 0x9DFA 0, PUDecomp 0xF93B 0x788C 0, PUDecomp 0xF93C 0x797F 0,
    PUDecomp 0xF93D 0x7DA0 0, PUDecomp 0xF93E 0x83C9 0, PUDecomp 0xF93F 0x9304 0,
    PUDecomp 0xF940 0x9E7F 0, PUDecomp 0xF941 0x8AD6 0, PUDecomp 0xF942 0x58DF 0,
    PUDecomp 0xF943 0x5F04 0, PUDecomp 0xF944 0x7C60 0, PUDecomp 0xF945 0x807E 0,
    PUDecomp 0xF946 0x7262 0, PUDecomp 0xF947 0x78CA 0, PUDecomp 0xF948 0x8CC2 0,
    PUDecomp 0xF949 0x96F7 0, PUDecomp 0xF94A 0x58D8 0, PUDecomp 0xF94B 0x5C62 0,
    PUDecomp 0xF94C 0x6A13 0, PUDecomp 0xF94D 0x6DDA 0, PUDecomp 0xF94E 0x6F0F 0,
    PUDecomp 0xF94F 0x7D2F 0, PUDecomp 0xF950 0x7E37 0, PUDecomp 0xF951 0x964B 0,
    PUDecomp 0xF952 0x52D2 0, PUDecomp 0xF953 0x808B 0, PUDecomp 0xF954 0x51DC 0,
    PUDecomp 0xF955 0x51CC 0, PUDecomp 0xF956 0x7A1C 0, PUDecomp 0xF957 0x7DBE 0,
    PUDecomp 0xF958 0x83F1 0, PUDecomp 0xF959 0x9675 0, PUDecomp 0xF95A 0x8B80 0,
    PUDecomp 0xF95B 0x62CF 0, PUDecomp 0xF95C 0x6A02 0, PUDecomp 0xF95D 0x8AFE 0,
    PUDecomp 0xF95E 0x4E39 0, PUDecomp 0xF95F 0x5BE7 0, PUDecomp 0xF960 0x6012 0,
    PUDecomp 0xF961 0x7387 0, PUDecomp 0xF962 0x7570 0, PUDecomp 0xF963 0x5317 0,
    PUDecomp 0xF964 0x78FB 0, PUDecomp 0xF965 0x4FBF 0, PUDecomp 0xF966 0x5FA9 0,
    PUDecomp 0xF967 0x4E0D 0, PUDecomp 0xF968 0x6CCC 0, PUDecomp 0xF969 0x6578 0,
    PUDecomp 0xF96A 0x7D22 0, PUDecomp 0xF96B 0x53C3 0, PUDecomp 0xF96C 0x585E 0,
    PUDecomp 0xF96D 0x7701 0, PUDecomp 0xF96E 0x8449 0, PUDecomp 0xF96F 0x8AAA 0,
    PUDecomp 0xF970 0x6BBA 0, PUDecomp 0xF971 0x8FB0 0, PUDecomp 0xF972 0x6C88 0,
    PUDecomp 0xF973 0x62FE 0, PUDecomp 0xF974 0x82E5 0, PUDecomp 0xF975 0x63A0 0,
    PUDecomp 0xF976 0x7565 0, PUDecomp 0xF977 0x4EAE 0, PUDecomp 0xF978 0x5169 0,
    PUDecomp 0xF979 0x51C9 0, PUDecomp 0xF97A 0x6881 0, PUDecomp 0xF97B 0x7CE7 0,
    PUDecomp 0xF97C 0x826F 0, PUDecomp 0xF97D 0x8AD2 0, PUDecomp 0xF97E 0x91CF 0,
    PUDecomp 0xF97F 0x52F5 0, PUDecomp 0xF980 0x5442 0, PUDecomp 0xF981 0x5973 0,
    PUDecomp 0xF982 0x5EEC 0, PUDecomp 0xF983 0x65C5 0, PUDecomp 0xF984 0x6FFE 0,
    PUDecomp 0xF985 0x792A 0, PUDecomp 0xF986 0x95AD 0, PUDecomp 0xF987 0x9A6A 0,
    PUDecomp 0xF988 0x9E97 0, PUDecomp 0xF989 0x9ECE 0, PUDecomp 0xF98A 0x529B 0,
    PUDecomp 0xF98B 0x66C6 0, PUDecomp 0xF98C 0x6B77 0, PUDecomp 0xF98D 0x8F62 0,
    PUDecomp 0xF98E 0x5E74 0, PUDecomp 0xF98F 0x6190 0, PUDecomp 0xF990 0x6200 0,
    PUDecomp 0xF991 0x649A 0, PUDecomp 0xF992 0x6F23 0, PUDecomp 0xF993 0x7149 0,
    PUDecomp 0xF994 0x7489 0, PUDecomp 0xF995 0x79CA 0, PUDecomp 0xF996 0x7DF4 0,
    PUDecomp 0xF997 0x806F 0, PUDecomp 0xF998 0x8F26 0]"

definition pas_u_decomp_tbl_9 :: "pas_u_decomp list" where
  "pas_u_decomp_tbl_9 = [
    PUDecomp 0xF999 0x84EE 0, PUDecomp 0xF99A 0x9023 0, PUDecomp 0xF99B 0x934A 0,
    PUDecomp 0xF99C 0x5217 0, PUDecomp 0xF99D 0x52A3 0, PUDecomp 0xF99E 0x54BD 0,
    PUDecomp 0xF99F 0x70C8 0, PUDecomp 0xF9A0 0x88C2 0, PUDecomp 0xF9A1 0x8AAA 0,
    PUDecomp 0xF9A2 0x5EC9 0, PUDecomp 0xF9A3 0x5FF5 0, PUDecomp 0xF9A4 0x637B 0,
    PUDecomp 0xF9A5 0x6BAE 0, PUDecomp 0xF9A6 0x7C3E 0, PUDecomp 0xF9A7 0x7375 0,
    PUDecomp 0xF9A8 0x4EE4 0, PUDecomp 0xF9A9 0x56F9 0, PUDecomp 0xF9AA 0x5BE7 0,
    PUDecomp 0xF9AB 0x5DBA 0, PUDecomp 0xF9AC 0x601C 0, PUDecomp 0xF9AD 0x73B2 0,
    PUDecomp 0xF9AE 0x7469 0, PUDecomp 0xF9AF 0x7F9A 0, PUDecomp 0xF9B0 0x8046 0,
    PUDecomp 0xF9B1 0x9234 0, PUDecomp 0xF9B2 0x96F6 0, PUDecomp 0xF9B3 0x9748 0,
    PUDecomp 0xF9B4 0x9818 0, PUDecomp 0xF9B5 0x4F8B 0, PUDecomp 0xF9B6 0x79AE 0,
    PUDecomp 0xF9B7 0x91B4 0, PUDecomp 0xF9B8 0x96B8 0, PUDecomp 0xF9B9 0x60E1 0,
    PUDecomp 0xF9BA 0x4E86 0, PUDecomp 0xF9BB 0x50DA 0, PUDecomp 0xF9BC 0x5BEE 0,
    PUDecomp 0xF9BD 0x5C3F 0, PUDecomp 0xF9BE 0x6599 0, PUDecomp 0xF9BF 0x6A02 0,
    PUDecomp 0xF9C0 0x71CE 0, PUDecomp 0xF9C1 0x7642 0, PUDecomp 0xF9C2 0x84FC 0,
    PUDecomp 0xF9C3 0x907C 0, PUDecomp 0xF9C4 0x9F8D 0, PUDecomp 0xF9C5 0x6688 0,
    PUDecomp 0xF9C6 0x962E 0, PUDecomp 0xF9C7 0x5289 0, PUDecomp 0xF9C8 0x677B 0,
    PUDecomp 0xF9C9 0x67F3 0, PUDecomp 0xF9CA 0x6D41 0, PUDecomp 0xF9CB 0x6E9C 0,
    PUDecomp 0xF9CC 0x7409 0, PUDecomp 0xF9CD 0x7559 0, PUDecomp 0xF9CE 0x786B 0,
    PUDecomp 0xF9CF 0x7D10 0, PUDecomp 0xF9D0 0x985E 0, PUDecomp 0xF9D1 0x516D 0,
    PUDecomp 0xF9D2 0x622E 0, PUDecomp 0xF9D3 0x9678 0, PUDecomp 0xF9D4 0x502B 0,
    PUDecomp 0xF9D5 0x5D19 0, PUDecomp 0xF9D6 0x6DEA 0, PUDecomp 0xF9D7 0x8F2A 0,
    PUDecomp 0xF9D8 0x5F8B 0, PUDecomp 0xF9D9 0x6144 0, PUDecomp 0xF9DA 0x6817 0,
    PUDecomp 0xF9DB 0x7387 0, PUDecomp 0xF9DC 0x9686 0, PUDecomp 0xF9DD 0x5229 0,
    PUDecomp 0xF9DE 0x540F 0, PUDecomp 0xF9DF 0x5C65 0, PUDecomp 0xF9E0 0x6613 0,
    PUDecomp 0xF9E1 0x674E 0, PUDecomp 0xF9E2 0x68A8 0, PUDecomp 0xF9E3 0x6CE5 0,
    PUDecomp 0xF9E4 0x7406 0, PUDecomp 0xF9E5 0x75E2 0, PUDecomp 0xF9E6 0x7F79 0,
    PUDecomp 0xF9E7 0x88CF 0, PUDecomp 0xF9E8 0x88E1 0, PUDecomp 0xF9E9 0x91CC 0,
    PUDecomp 0xF9EA 0x96E2 0, PUDecomp 0xF9EB 0x533F 0, PUDecomp 0xF9EC 0x6EBA 0,
    PUDecomp 0xF9ED 0x541D 0, PUDecomp 0xF9EE 0x71D0 0, PUDecomp 0xF9EF 0x7498 0,
    PUDecomp 0xF9F0 0x85FA 0, PUDecomp 0xF9F1 0x96A3 0, PUDecomp 0xF9F2 0x9C57 0,
    PUDecomp 0xF9F3 0x9E9F 0, PUDecomp 0xF9F4 0x6797 0, PUDecomp 0xF9F5 0x6DCB 0,
    PUDecomp 0xF9F6 0x81E8 0, PUDecomp 0xF9F7 0x7ACB 0, PUDecomp 0xF9F8 0x7B20 0,
    PUDecomp 0xF9F9 0x7C92 0, PUDecomp 0xF9FA 0x72C0 0, PUDecomp 0xF9FB 0x7099 0,
    PUDecomp 0xF9FC 0x8B58 0, PUDecomp 0xF9FD 0x4EC0 0, PUDecomp 0xF9FE 0x8336 0,
    PUDecomp 0xF9FF 0x523A 0, PUDecomp 0xFA00 0x5207 0, PUDecomp 0xFA01 0x5EA6 0,
    PUDecomp 0xFA02 0x62D3 0, PUDecomp 0xFA03 0x7CD6 0, PUDecomp 0xFA04 0x5B85 0,
    PUDecomp 0xFA05 0x6D1E 0, PUDecomp 0xFA06 0x66B4 0, PUDecomp 0xFA07 0x8F3B 0,
    PUDecomp 0xFA08 0x884C 0, PUDecomp 0xFA09 0x964D 0, PUDecomp 0xFA0A 0x898B 0,
    PUDecomp 0xFA0B 0x5ED3 0, PUDecomp 0xFA0C 0x5140 0, PUDecomp 0xFA0D 0x55C0 0,
    PUDecomp 0xFA10 0x585A 0, PUDecomp 0xFA12 0x6674 0, PUDecomp 0xFA15 0x51DE 0,
    PUDecomp 0xFA16 0x732A 0, PUDecomp 0xFA17 0x76CA 0, PUDecomp 0xFA18 0x793C 0,
    PUDecomp 0xFA19 0x795E 0, PUDecomp 0xFA1A 0x7965 0, PUDecomp 0xFA1B 0x798F 0,
    PUDecomp 0xFA1C 0x9756 0, PUDecomp 0xFA1D 0x7CBE 0]"

definition pas_u_decomp_tbl_10 :: "pas_u_decomp list" where
  "pas_u_decomp_tbl_10 = [
    PUDecomp 0xFA1E 0x7FBD 0, PUDecomp 0xFA20 0x8612 0, PUDecomp 0xFA22 0x8AF8 0,
    PUDecomp 0xFA25 0x9038 0, PUDecomp 0xFA26 0x90FD 0, PUDecomp 0xFA2A 0x98EF 0,
    PUDecomp 0xFA2B 0x98FC 0, PUDecomp 0xFA2C 0x9928 0, PUDecomp 0xFA2D 0x9DB4 0,
    PUDecomp 0xFA2E 0x90DE 0, PUDecomp 0xFA2F 0x96B7 0, PUDecomp 0xFA30 0x4FAE 0,
    PUDecomp 0xFA31 0x50E7 0, PUDecomp 0xFA32 0x514D 0, PUDecomp 0xFA33 0x52C9 0,
    PUDecomp 0xFA34 0x52E4 0, PUDecomp 0xFA35 0x5351 0, PUDecomp 0xFA36 0x559D 0,
    PUDecomp 0xFA37 0x5606 0, PUDecomp 0xFA38 0x5668 0, PUDecomp 0xFA39 0x5840 0,
    PUDecomp 0xFA3A 0x58A8 0, PUDecomp 0xFA3B 0x5C64 0, PUDecomp 0xFA3C 0x5C6E 0,
    PUDecomp 0xFA3D 0x6094 0, PUDecomp 0xFA3E 0x6168 0, PUDecomp 0xFA3F 0x618E 0,
    PUDecomp 0xFA40 0x61F2 0, PUDecomp 0xFA41 0x654F 0, PUDecomp 0xFA42 0x65E2 0,
    PUDecomp 0xFA43 0x6691 0, PUDecomp 0xFA44 0x6885 0, PUDecomp 0xFA45 0x6D77 0,
    PUDecomp 0xFA46 0x6E1A 0, PUDecomp 0xFA47 0x6F22 0, PUDecomp 0xFA48 0x716E 0,
    PUDecomp 0xFA49 0x722B 0, PUDecomp 0xFA4A 0x7422 0, PUDecomp 0xFA4B 0x7891 0,
    PUDecomp 0xFA4C 0x793E 0, PUDecomp 0xFA4D 0x7949 0, PUDecomp 0xFA4E 0x7948 0,
    PUDecomp 0xFA4F 0x7950 0, PUDecomp 0xFA50 0x7956 0, PUDecomp 0xFA51 0x795D 0,
    PUDecomp 0xFA52 0x798D 0, PUDecomp 0xFA53 0x798E 0, PUDecomp 0xFA54 0x7A40 0,
    PUDecomp 0xFA55 0x7A81 0, PUDecomp 0xFA56 0x7BC0 0, PUDecomp 0xFA57 0x7DF4 0,
    PUDecomp 0xFA58 0x7E09 0, PUDecomp 0xFA59 0x7E41 0, PUDecomp 0xFA5A 0x7F72 0,
    PUDecomp 0xFA5B 0x8005 0, PUDecomp 0xFA5C 0x81ED 0, PUDecomp 0xFA5D 0x8279 0,
    PUDecomp 0xFA5E 0x8279 0, PUDecomp 0xFA5F 0x8457 0, PUDecomp 0xFA60 0x8910 0,
    PUDecomp 0xFA61 0x8996 0, PUDecomp 0xFA62 0x8B01 0, PUDecomp 0xFA63 0x8B39 0,
    PUDecomp 0xFA64 0x8CD3 0, PUDecomp 0xFA65 0x8D08 0, PUDecomp 0xFA66 0x8FB6 0,
    PUDecomp 0xFA67 0x9038 0, PUDecomp 0xFA68 0x96E3 0, PUDecomp 0xFA69 0x97FF 0,
    PUDecomp 0xFA6A 0x983B 0, PUDecomp 0xFA6B 0x6075 0, PUDecomp 0xFA6C 0x242EE 0,
    PUDecomp 0xFA6D 0x8218 0, PUDecomp 0xFA70 0x4E26 0, PUDecomp 0xFA71 0x51B5 0,
    PUDecomp 0xFA72 0x5168 0, PUDecomp 0xFA73 0x4F80 0, PUDecomp 0xFA74 0x5145 0,
    PUDecomp 0xFA75 0x5180 0, PUDecomp 0xFA76 0x52C7 0, PUDecomp 0xFA77 0x52FA 0,
    PUDecomp 0xFA78 0x559D 0, PUDecomp 0xFA79 0x5555 0, PUDecomp 0xFA7A 0x5599 0,
    PUDecomp 0xFA7B 0x55E2 0, PUDecomp 0xFA7C 0x585A 0, PUDecomp 0xFA7D 0x58B3 0,
    PUDecomp 0xFA7E 0x5944 0, PUDecomp 0xFA7F 0x5954 0, PUDecomp 0xFA80 0x5A62 0,
    PUDecomp 0xFA81 0x5B28 0, PUDecomp 0xFA82 0x5ED2 0, PUDecomp 0xFA83 0x5ED9 0,
    PUDecomp 0xFA84 0x5F69 0, PUDecomp 0xFA85 0x5FAD 0, PUDecomp 0xFA86 0x60D8 0,
    PUDecomp 0xFA87 0x614E 0, PUDecomp 0xFA88 0x6108 0, PUDecomp 0xFA89 0x618E 0,
    PUDecomp 0xFA8A 0x6160 0, PUDecomp 0xFA8B 0x61F2 0, PUDecomp 0xFA8C 0x6234 0,
    PUDecomp 0xFA8D 0x63C4 0, PUDecomp 0xFA8E 0x641C 0, PUDecomp 0xFA8F 0x6452 0,
    PUDecomp 0xFA90 0x6556 0, PUDecomp 0xFA91 0x6674 0, PUDecomp 0xFA92 0x6717 0,
    PUDecomp 0xFA93 0x671B 0, PUDecomp 0xFA94 0x6756 0, PUDecomp 0xFA95 0x6B79 0,
    PUDecomp 0xFA96 0x6BBA 0, PUDecomp 0xFA97 0x6D41 0, PUDecomp 0xFA98 0x6EDB 0,
    PUDecomp 0xFA99 0x6ECB 0, PUDecomp 0xFA9A 0x6F22 0, PUDecomp 0xFA9B 0x701E 0,
    PUDecomp 0xFA9C 0x716E 0, PUDecomp 0xFA9D 0x77A7 0, PUDecomp 0xFA9E 0x7235 0,
    PUDecomp 0xFA9F 0x72AF 0, PUDecomp 0xFAA0 0x732A 0, PUDecomp 0xFAA1 0x7471 0,
    PUDecomp 0xFAA2 0x7506 0, PUDecomp 0xFAA3 0x753B 0, PUDecomp 0xFAA4 0x761D 0,
    PUDecomp 0xFAA5 0x761F 0, PUDecomp 0xFAA6 0x76CA 0]"

definition pas_u_decomp_tbl_11 :: "pas_u_decomp list" where
  "pas_u_decomp_tbl_11 = [
    PUDecomp 0xFAA7 0x76DB 0, PUDecomp 0xFAA8 0x76F4 0, PUDecomp 0xFAA9 0x774A 0,
    PUDecomp 0xFAAA 0x7740 0, PUDecomp 0xFAAB 0x78CC 0, PUDecomp 0xFAAC 0x7AB1 0,
    PUDecomp 0xFAAD 0x7BC0 0, PUDecomp 0xFAAE 0x7C7B 0, PUDecomp 0xFAAF 0x7D5B 0,
    PUDecomp 0xFAB0 0x7DF4 0, PUDecomp 0xFAB1 0x7F3E 0, PUDecomp 0xFAB2 0x8005 0,
    PUDecomp 0xFAB3 0x8352 0, PUDecomp 0xFAB4 0x83EF 0, PUDecomp 0xFAB5 0x8779 0,
    PUDecomp 0xFAB6 0x8941 0, PUDecomp 0xFAB7 0x8986 0, PUDecomp 0xFAB8 0x8996 0,
    PUDecomp 0xFAB9 0x8ABF 0, PUDecomp 0xFABA 0x8AF8 0, PUDecomp 0xFABB 0x8ACB 0,
    PUDecomp 0xFABC 0x8B01 0, PUDecomp 0xFABD 0x8AFE 0, PUDecomp 0xFABE 0x8AED 0,
    PUDecomp 0xFABF 0x8B39 0, PUDecomp 0xFAC0 0x8B8A 0, PUDecomp 0xFAC1 0x8D08 0,
    PUDecomp 0xFAC2 0x8F38 0, PUDecomp 0xFAC3 0x9072 0, PUDecomp 0xFAC4 0x9199 0,
    PUDecomp 0xFAC5 0x9276 0, PUDecomp 0xFAC6 0x967C 0, PUDecomp 0xFAC7 0x96E3 0,
    PUDecomp 0xFAC8 0x9756 0, PUDecomp 0xFAC9 0x97DB 0, PUDecomp 0xFACA 0x97FF 0,
    PUDecomp 0xFACB 0x980B 0, PUDecomp 0xFACC 0x983B 0, PUDecomp 0xFACD 0x9B12 0,
    PUDecomp 0xFACE 0x9F9C 0, PUDecomp 0xFACF 0x2284A 0, PUDecomp 0xFAD0 0x22844 0,
    PUDecomp 0xFAD1 0x233D5 0, PUDecomp 0xFAD2 0x3B9D 0, PUDecomp 0xFAD3 0x4018 0,
    PUDecomp 0xFAD4 0x4039 0, PUDecomp 0xFAD5 0x25249 0, PUDecomp 0xFAD6 0x25CD0 0,
    PUDecomp 0xFAD7 0x27ED3 0, PUDecomp 0xFAD8 0x9F43 0, PUDecomp 0xFAD9 0x9F8E 0,
    PUDecomp 0xFB1D 0x5D9 0x5B4, PUDecomp 0xFB1F 0x5F2 0x5B7, PUDecomp 0xFB2A 0x5E9 0x5C1,
    PUDecomp 0xFB2B 0x5E9 0x5C2, PUDecomp 0xFB2C 0xFB49 0x5C1, PUDecomp 0xFB2D 0xFB49 0x5C2,
    PUDecomp 0xFB2E 0x5D0 0x5B7, PUDecomp 0xFB2F 0x5D0 0x5B8, PUDecomp 0xFB30 0x5D0 0x5BC,
    PUDecomp 0xFB31 0x5D1 0x5BC, PUDecomp 0xFB32 0x5D2 0x5BC, PUDecomp 0xFB33 0x5D3 0x5BC,
    PUDecomp 0xFB34 0x5D4 0x5BC, PUDecomp 0xFB35 0x5D5 0x5BC, PUDecomp 0xFB36 0x5D6 0x5BC,
    PUDecomp 0xFB38 0x5D8 0x5BC, PUDecomp 0xFB39 0x5D9 0x5BC, PUDecomp 0xFB3A 0x5DA 0x5BC,
    PUDecomp 0xFB3B 0x5DB 0x5BC, PUDecomp 0xFB3C 0x5DC 0x5BC, PUDecomp 0xFB3E 0x5DE 0x5BC,
    PUDecomp 0xFB40 0x5E0 0x5BC, PUDecomp 0xFB41 0x5E1 0x5BC, PUDecomp 0xFB43 0x5E3 0x5BC,
    PUDecomp 0xFB44 0x5E4 0x5BC, PUDecomp 0xFB46 0x5E6 0x5BC, PUDecomp 0xFB47 0x5E7 0x5BC,
    PUDecomp 0xFB48 0x5E8 0x5BC, PUDecomp 0xFB49 0x5E9 0x5BC, PUDecomp 0xFB4A 0x5EA 0x5BC,
    PUDecomp 0xFB4B 0x5D5 0x5B9, PUDecomp 0xFB4C 0x5D1 0x5BF, PUDecomp 0xFB4D 0x5DB 0x5BF,
    PUDecomp 0xFB4E 0x5E4 0x5BF, PUDecomp 0x105C9 0x105D2 0x307, PUDecomp 0x105E4 0x105DA 0x307,
    PUDecomp 0x1109A 0x11099 0x110BA, PUDecomp 0x1109C 0x1109B 0x110BA, PUDecomp 0x110AB 0x110A5 0x110BA,
    PUDecomp 0x1112E 0x11131 0x11127, PUDecomp 0x1112F 0x11132 0x11127, PUDecomp 0x1134B 0x11347 0x1133E,
    PUDecomp 0x1134C 0x11347 0x11357, PUDecomp 0x11383 0x11382 0x113C9, PUDecomp 0x11385 0x11384 0x113BB,
    PUDecomp 0x1138E 0x1138B 0x113C2, PUDecomp 0x11391 0x11390 0x113C9, PUDecomp 0x113C5 0x113C2 0x113C2,
    PUDecomp 0x113C7 0x113C2 0x113B8, PUDecomp 0x113C8 0x113C2 0x113C9, PUDecomp 0x114BB 0x114B9 0x114BA,
    PUDecomp 0x114BC 0x114B9 0x114B0, PUDecomp 0x114BE 0x114B9 0x114BD, PUDecomp 0x115BA 0x115B8 0x115AF,
    PUDecomp 0x115BB 0x115B9 0x115AF, PUDecomp 0x11938 0x11935 0x11930, PUDecomp 0x16121 0x1611E 0x1611E,
    PUDecomp 0x16122 0x1611E 0x16129, PUDecomp 0x16123 0x1611E 0x1611F, PUDecomp 0x16124 0x16129 0x1611F,
    PUDecomp 0x16125 0x1611E 0x16120, PUDecomp 0x16126 0x16121 0x1611F, PUDecomp 0x16127 0x16122 0x1611F,
    PUDecomp 0x16128 0x16121 0x16120, PUDecomp 0x16D68 0x16D67 0x16D67, PUDecomp 0x16D69 0x16D63 0x16D67,
    PUDecomp 0x16D6A 0x16D69 0x16D67, PUDecomp 0x1D15E 0x1D157 0x1D165, PUDecomp 0x1D15F 0x1D158 0x1D165,
    PUDecomp 0x1D160 0x1D15F 0x1D16E, PUDecomp 0x1D161 0x1D15F 0x1D16F, PUDecomp 0x1D162 0x1D15F 0x1D170,
    PUDecomp 0x1D163 0x1D15F 0x1D171, PUDecomp 0x1D164 0x1D15F 0x1D172, PUDecomp 0x1D1BB 0x1D1B9 0x1D165,
    PUDecomp 0x1D1BC 0x1D1BA 0x1D165, PUDecomp 0x1D1BD 0x1D1BB 0x1D16E]"

definition pas_u_decomp_tbl_12 :: "pas_u_decomp list" where
  "pas_u_decomp_tbl_12 = [
    PUDecomp 0x1D1BE 0x1D1BC 0x1D16E, PUDecomp 0x1D1BF 0x1D1BB 0x1D16F, PUDecomp 0x1D1C0 0x1D1BC 0x1D16F,
    PUDecomp 0x2F800 0x4E3D 0, PUDecomp 0x2F801 0x4E38 0, PUDecomp 0x2F802 0x4E41 0,
    PUDecomp 0x2F803 0x20122 0, PUDecomp 0x2F804 0x4F60 0, PUDecomp 0x2F805 0x4FAE 0,
    PUDecomp 0x2F806 0x4FBB 0, PUDecomp 0x2F807 0x5002 0, PUDecomp 0x2F808 0x507A 0,
    PUDecomp 0x2F809 0x5099 0, PUDecomp 0x2F80A 0x50E7 0, PUDecomp 0x2F80B 0x50CF 0,
    PUDecomp 0x2F80C 0x349E 0, PUDecomp 0x2F80D 0x2063A 0, PUDecomp 0x2F80E 0x514D 0,
    PUDecomp 0x2F80F 0x5154 0, PUDecomp 0x2F810 0x5164 0, PUDecomp 0x2F811 0x5177 0,
    PUDecomp 0x2F812 0x2051C 0, PUDecomp 0x2F813 0x34B9 0, PUDecomp 0x2F814 0x5167 0,
    PUDecomp 0x2F815 0x518D 0, PUDecomp 0x2F816 0x2054B 0, PUDecomp 0x2F817 0x5197 0,
    PUDecomp 0x2F818 0x51A4 0, PUDecomp 0x2F819 0x4ECC 0, PUDecomp 0x2F81A 0x51AC 0,
    PUDecomp 0x2F81B 0x51B5 0, PUDecomp 0x2F81C 0x291DF 0, PUDecomp 0x2F81D 0x51F5 0,
    PUDecomp 0x2F81E 0x5203 0, PUDecomp 0x2F81F 0x34DF 0, PUDecomp 0x2F820 0x523B 0,
    PUDecomp 0x2F821 0x5246 0, PUDecomp 0x2F822 0x5272 0, PUDecomp 0x2F823 0x5277 0,
    PUDecomp 0x2F824 0x3515 0, PUDecomp 0x2F825 0x52C7 0, PUDecomp 0x2F826 0x52C9 0,
    PUDecomp 0x2F827 0x52E4 0, PUDecomp 0x2F828 0x52FA 0, PUDecomp 0x2F829 0x5305 0,
    PUDecomp 0x2F82A 0x5306 0, PUDecomp 0x2F82B 0x5317 0, PUDecomp 0x2F82C 0x5349 0,
    PUDecomp 0x2F82D 0x5351 0, PUDecomp 0x2F82E 0x535A 0, PUDecomp 0x2F82F 0x5373 0,
    PUDecomp 0x2F830 0x537D 0, PUDecomp 0x2F831 0x537F 0, PUDecomp 0x2F832 0x537F 0,
    PUDecomp 0x2F833 0x537F 0, PUDecomp 0x2F834 0x20A2C 0, PUDecomp 0x2F835 0x7070 0,
    PUDecomp 0x2F836 0x53CA 0, PUDecomp 0x2F837 0x53DF 0, PUDecomp 0x2F838 0x20B63 0,
    PUDecomp 0x2F839 0x53EB 0, PUDecomp 0x2F83A 0x53F1 0, PUDecomp 0x2F83B 0x5406 0,
    PUDecomp 0x2F83C 0x549E 0, PUDecomp 0x2F83D 0x5438 0, PUDecomp 0x2F83E 0x5448 0,
    PUDecomp 0x2F83F 0x5468 0, PUDecomp 0x2F840 0x54A2 0, PUDecomp 0x2F841 0x54F6 0,
    PUDecomp 0x2F842 0x5510 0, PUDecomp 0x2F843 0x5553 0, PUDecomp 0x2F844 0x5563 0,
    PUDecomp 0x2F845 0x5584 0, PUDecomp 0x2F846 0x5584 0, PUDecomp 0x2F847 0x5599 0,
    PUDecomp 0x2F848 0x55AB 0, PUDecomp 0x2F849 0x55B3 0, PUDecomp 0x2F84A 0x55C2 0,
    PUDecomp 0x2F84B 0x5716 0, PUDecomp 0x2F84C 0x5606 0, PUDecomp 0x2F84D 0x5717 0,
    PUDecomp 0x2F84E 0x5651 0, PUDecomp 0x2F84F 0x5674 0, PUDecomp 0x2F850 0x5207 0,
    PUDecomp 0x2F851 0x58EE 0, PUDecomp 0x2F852 0x57CE 0, PUDecomp 0x2F853 0x57F4 0,
    PUDecomp 0x2F854 0x580D 0, PUDecomp 0x2F855 0x578B 0, PUDecomp 0x2F856 0x5832 0,
    PUDecomp 0x2F857 0x5831 0, PUDecomp 0x2F858 0x58AC 0, PUDecomp 0x2F859 0x214E4 0,
    PUDecomp 0x2F85A 0x58F2 0, PUDecomp 0x2F85B 0x58F7 0, PUDecomp 0x2F85C 0x5906 0,
    PUDecomp 0x2F85D 0x591A 0, PUDecomp 0x2F85E 0x5922 0, PUDecomp 0x2F85F 0x5962 0,
    PUDecomp 0x2F860 0x216A8 0, PUDecomp 0x2F861 0x216EA 0, PUDecomp 0x2F862 0x59EC 0,
    PUDecomp 0x2F863 0x5A1B 0, PUDecomp 0x2F864 0x5A27 0, PUDecomp 0x2F865 0x59D8 0,
    PUDecomp 0x2F866 0x5A66 0, PUDecomp 0x2F867 0x36EE 0, PUDecomp 0x2F868 0x36FC 0,
    PUDecomp 0x2F869 0x5B08 0, PUDecomp 0x2F86A 0x5B3E 0, PUDecomp 0x2F86B 0x5B3E 0,
    PUDecomp 0x2F86C 0x219C8 0, PUDecomp 0x2F86D 0x5BC3 0, PUDecomp 0x2F86E 0x5BD8 0,
    PUDecomp 0x2F86F 0x5BE7 0, PUDecomp 0x2F870 0x5BF3 0, PUDecomp 0x2F871 0x21B18 0,
    PUDecomp 0x2F872 0x5BFF 0, PUDecomp 0x2F873 0x5C06 0, PUDecomp 0x2F874 0x5F53 0,
    PUDecomp 0x2F875 0x5C22 0, PUDecomp 0x2F876 0x3781 0, PUDecomp 0x2F877 0x5C60 0,
    PUDecomp 0x2F878 0x5C6E 0, PUDecomp 0x2F879 0x5CC0 0, PUDecomp 0x2F87A 0x5C8D 0,
    PUDecomp 0x2F87B 0x21DE4 0, PUDecomp 0x2F87C 0x5D43 0]"

definition pas_u_decomp_tbl_13 :: "pas_u_decomp list" where
  "pas_u_decomp_tbl_13 = [
    PUDecomp 0x2F87D 0x21DE6 0, PUDecomp 0x2F87E 0x5D6E 0, PUDecomp 0x2F87F 0x5D6B 0,
    PUDecomp 0x2F880 0x5D7C 0, PUDecomp 0x2F881 0x5DE1 0, PUDecomp 0x2F882 0x5DE2 0,
    PUDecomp 0x2F883 0x382F 0, PUDecomp 0x2F884 0x5DFD 0, PUDecomp 0x2F885 0x5E28 0,
    PUDecomp 0x2F886 0x5E3D 0, PUDecomp 0x2F887 0x5E69 0, PUDecomp 0x2F888 0x3862 0,
    PUDecomp 0x2F889 0x22183 0, PUDecomp 0x2F88A 0x387C 0, PUDecomp 0x2F88B 0x5EB0 0,
    PUDecomp 0x2F88C 0x5EB3 0, PUDecomp 0x2F88D 0x5EB6 0, PUDecomp 0x2F88E 0x5ECA 0,
    PUDecomp 0x2F88F 0x2A392 0, PUDecomp 0x2F890 0x5EFE 0, PUDecomp 0x2F891 0x22331 0,
    PUDecomp 0x2F892 0x22331 0, PUDecomp 0x2F893 0x8201 0, PUDecomp 0x2F894 0x5F22 0,
    PUDecomp 0x2F895 0x5F22 0, PUDecomp 0x2F896 0x38C7 0, PUDecomp 0x2F897 0x232B8 0,
    PUDecomp 0x2F898 0x261DA 0, PUDecomp 0x2F899 0x5F62 0, PUDecomp 0x2F89A 0x5F6B 0,
    PUDecomp 0x2F89B 0x38E3 0, PUDecomp 0x2F89C 0x5F9A 0, PUDecomp 0x2F89D 0x5FCD 0,
    PUDecomp 0x2F89E 0x5FD7 0, PUDecomp 0x2F89F 0x5FF9 0, PUDecomp 0x2F8A0 0x6081 0,
    PUDecomp 0x2F8A1 0x393A 0, PUDecomp 0x2F8A2 0x391C 0, PUDecomp 0x2F8A3 0x6094 0,
    PUDecomp 0x2F8A4 0x226D4 0, PUDecomp 0x2F8A5 0x60C7 0, PUDecomp 0x2F8A6 0x6148 0,
    PUDecomp 0x2F8A7 0x614C 0, PUDecomp 0x2F8A8 0x614E 0, PUDecomp 0x2F8A9 0x614C 0,
    PUDecomp 0x2F8AA 0x617A 0, PUDecomp 0x2F8AB 0x618E 0, PUDecomp 0x2F8AC 0x61B2 0,
    PUDecomp 0x2F8AD 0x61A4 0, PUDecomp 0x2F8AE 0x61AF 0, PUDecomp 0x2F8AF 0x61DE 0,
    PUDecomp 0x2F8B0 0x61F2 0, PUDecomp 0x2F8B1 0x61F6 0, PUDecomp 0x2F8B2 0x6210 0,
    PUDecomp 0x2F8B3 0x621B 0, PUDecomp 0x2F8B4 0x625D 0, PUDecomp 0x2F8B5 0x62B1 0,
    PUDecomp 0x2F8B6 0x62D4 0, PUDecomp 0x2F8B7 0x6350 0, PUDecomp 0x2F8B8 0x22B0C 0,
    PUDecomp 0x2F8B9 0x633D 0, PUDecomp 0x2F8BA 0x62FC 0, PUDecomp 0x2F8BB 0x6368 0,
    PUDecomp 0x2F8BC 0x6383 0, PUDecomp 0x2F8BD 0x63E4 0, PUDecomp 0x2F8BE 0x22BF1 0,
    PUDecomp 0x2F8BF 0x6422 0, PUDecomp 0x2F8C0 0x63C5 0, PUDecomp 0x2F8C1 0x63A9 0,
    PUDecomp 0x2F8C2 0x3A2E 0, PUDecomp 0x2F8C3 0x6469 0, PUDecomp 0x2F8C4 0x647E 0,
    PUDecomp 0x2F8C5 0x649D 0, PUDecomp 0x2F8C6 0x6477 0, PUDecomp 0x2F8C7 0x3A6C 0,
    PUDecomp 0x2F8C8 0x654F 0, PUDecomp 0x2F8C9 0x656C 0, PUDecomp 0x2F8CA 0x2300A 0,
    PUDecomp 0x2F8CB 0x65E3 0, PUDecomp 0x2F8CC 0x66F8 0, PUDecomp 0x2F8CD 0x6649 0,
    PUDecomp 0x2F8CE 0x3B19 0, PUDecomp 0x2F8CF 0x6691 0, PUDecomp 0x2F8D0 0x3B08 0,
    PUDecomp 0x2F8D1 0x3AE4 0, PUDecomp 0x2F8D2 0x5192 0, PUDecomp 0x2F8D3 0x5195 0,
    PUDecomp 0x2F8D4 0x6700 0, PUDecomp 0x2F8D5 0x669C 0, PUDecomp 0x2F8D6 0x80AD 0,
    PUDecomp 0x2F8D7 0x43D9 0, PUDecomp 0x2F8D8 0x6717 0, PUDecomp 0x2F8D9 0x671B 0,
    PUDecomp 0x2F8DA 0x6721 0, PUDecomp 0x2F8DB 0x675E 0, PUDecomp 0x2F8DC 0x6753 0,
    PUDecomp 0x2F8DD 0x233C3 0, PUDecomp 0x2F8DE 0x3B49 0, PUDecomp 0x2F8DF 0x67FA 0,
    PUDecomp 0x2F8E0 0x6785 0, PUDecomp 0x2F8E1 0x6852 0, PUDecomp 0x2F8E2 0x6885 0,
    PUDecomp 0x2F8E3 0x2346D 0, PUDecomp 0x2F8E4 0x688E 0, PUDecomp 0x2F8E5 0x681F 0,
    PUDecomp 0x2F8E6 0x6914 0, PUDecomp 0x2F8E7 0x3B9D 0, PUDecomp 0x2F8E8 0x6942 0,
    PUDecomp 0x2F8E9 0x69A3 0, PUDecomp 0x2F8EA 0x69EA 0, PUDecomp 0x2F8EB 0x6AA8 0,
    PUDecomp 0x2F8EC 0x236A3 0, PUDecomp 0x2F8ED 0x6ADB 0, PUDecomp 0x2F8EE 0x3C18 0,
    PUDecomp 0x2F8EF 0x6B21 0, PUDecomp 0x2F8F0 0x238A7 0, PUDecomp 0x2F8F1 0x6B54 0,
    PUDecomp 0x2F8F2 0x3C4E 0, PUDecomp 0x2F8F3 0x6B72 0, PUDecomp 0x2F8F4 0x6B9F 0,
    PUDecomp 0x2F8F5 0x6BBA 0, PUDecomp 0x2F8F6 0x6BBB 0, PUDecomp 0x2F8F7 0x23A8D 0,
    PUDecomp 0x2F8F8 0x21D0B 0, PUDecomp 0x2F8F9 0x23AFA 0, PUDecomp 0x2F8FA 0x6C4E 0,
    PUDecomp 0x2F8FB 0x23CBC 0, PUDecomp 0x2F8FC 0x6CBF 0]"

definition pas_u_decomp_tbl_14 :: "pas_u_decomp list" where
  "pas_u_decomp_tbl_14 = [
    PUDecomp 0x2F8FD 0x6CCD 0, PUDecomp 0x2F8FE 0x6C67 0, PUDecomp 0x2F8FF 0x6D16 0,
    PUDecomp 0x2F900 0x6D3E 0, PUDecomp 0x2F901 0x6D77 0, PUDecomp 0x2F902 0x6D41 0,
    PUDecomp 0x2F903 0x6D69 0, PUDecomp 0x2F904 0x6D78 0, PUDecomp 0x2F905 0x6D85 0,
    PUDecomp 0x2F906 0x23D1E 0, PUDecomp 0x2F907 0x6D34 0, PUDecomp 0x2F908 0x6E2F 0,
    PUDecomp 0x2F909 0x6E6E 0, PUDecomp 0x2F90A 0x3D33 0, PUDecomp 0x2F90B 0x6ECB 0,
    PUDecomp 0x2F90C 0x6EC7 0, PUDecomp 0x2F90D 0x23ED1 0, PUDecomp 0x2F90E 0x6DF9 0,
    PUDecomp 0x2F90F 0x6F6E 0, PUDecomp 0x2F910 0x23F5E 0, PUDecomp 0x2F911 0x23F8E 0,
    PUDecomp 0x2F912 0x6FC6 0, PUDecomp 0x2F913 0x7039 0, PUDecomp 0x2F914 0x701E 0,
    PUDecomp 0x2F915 0x701B 0, PUDecomp 0x2F916 0x3D96 0, PUDecomp 0x2F917 0x704A 0,
    PUDecomp 0x2F918 0x707D 0, PUDecomp 0x2F919 0x7077 0, PUDecomp 0x2F91A 0x70AD 0,
    PUDecomp 0x2F91B 0x20525 0, PUDecomp 0x2F91C 0x7145 0, PUDecomp 0x2F91D 0x24263 0,
    PUDecomp 0x2F91E 0x719C 0, PUDecomp 0x2F91F 0x243AB 0, PUDecomp 0x2F920 0x7228 0,
    PUDecomp 0x2F921 0x7235 0, PUDecomp 0x2F922 0x7250 0, PUDecomp 0x2F923 0x24608 0,
    PUDecomp 0x2F924 0x7280 0, PUDecomp 0x2F925 0x7295 0, PUDecomp 0x2F926 0x24735 0,
    PUDecomp 0x2F927 0x24814 0, PUDecomp 0x2F928 0x737A 0, PUDecomp 0x2F929 0x738B 0,
    PUDecomp 0x2F92A 0x3EAC 0, PUDecomp 0x2F92B 0x73A5 0, PUDecomp 0x2F92C 0x3EB8 0,
    PUDecomp 0x2F92D 0x3EB8 0, PUDecomp 0x2F92E 0x7447 0, PUDecomp 0x2F92F 0x745C 0,
    PUDecomp 0x2F930 0x7471 0, PUDecomp 0x2F931 0x7485 0, PUDecomp 0x2F932 0x74CA 0,
    PUDecomp 0x2F933 0x3F1B 0, PUDecomp 0x2F934 0x7524 0, PUDecomp 0x2F935 0x24C36 0,
    PUDecomp 0x2F936 0x753E 0, PUDecomp 0x2F937 0x24C92 0, PUDecomp 0x2F938 0x7570 0,
    PUDecomp 0x2F939 0x2219F 0, PUDecomp 0x2F93A 0x7610 0, PUDecomp 0x2F93B 0x24FA1 0,
    PUDecomp 0x2F93C 0x24FB8 0, PUDecomp 0x2F93D 0x25044 0, PUDecomp 0x2F93E 0x3FFC 0,
    PUDecomp 0x2F93F 0x4008 0, PUDecomp 0x2F940 0x76F4 0, PUDecomp 0x2F941 0x250F3 0,
    PUDecomp 0x2F942 0x250F2 0, PUDecomp 0x2F943 0x25119 0, PUDecomp 0x2F944 0x25133 0,
    PUDecomp 0x2F945 0x771E 0, PUDecomp 0x2F946 0x771F 0, PUDecomp 0x2F947 0x771F 0,
    PUDecomp 0x2F948 0x774A 0, PUDecomp 0x2F949 0x4039 0, PUDecomp 0x2F94A 0x778B 0,
    PUDecomp 0x2F94B 0x4046 0, PUDecomp 0x2F94C 0x4096 0, PUDecomp 0x2F94D 0x2541D 0,
    PUDecomp 0x2F94E 0x784E 0, PUDecomp 0x2F94F 0x788C 0, PUDecomp 0x2F950 0x78CC 0,
    PUDecomp 0x2F951 0x40E3 0, PUDecomp 0x2F952 0x25626 0, PUDecomp 0x2F953 0x7956 0,
    PUDecomp 0x2F954 0x2569A 0, PUDecomp 0x2F955 0x256C5 0, PUDecomp 0x2F956 0x798F 0,
    PUDecomp 0x2F957 0x79EB 0, PUDecomp 0x2F958 0x412F 0, PUDecomp 0x2F959 0x7A40 0,
    PUDecomp 0x2F95A 0x7A4A 0, PUDecomp 0x2F95B 0x7A4F 0, PUDecomp 0x2F95C 0x2597C 0,
    PUDecomp 0x2F95D 0x25AA7 0, PUDecomp 0x2F95E 0x25AA7 0, PUDecomp 0x2F95F 0x7AEE 0,
    PUDecomp 0x2F960 0x4202 0, PUDecomp 0x2F961 0x25BAB 0, PUDecomp 0x2F962 0x7BC6 0,
    PUDecomp 0x2F963 0x7BC9 0, PUDecomp 0x2F964 0x4227 0, PUDecomp 0x2F965 0x25C80 0,
    PUDecomp 0x2F966 0x7CD2 0, PUDecomp 0x2F967 0x42A0 0, PUDecomp 0x2F968 0x7CE8 0,
    PUDecomp 0x2F969 0x7CE3 0, PUDecomp 0x2F96A 0x7D00 0, PUDecomp 0x2F96B 0x25F86 0,
    PUDecomp 0x2F96C 0x7D63 0, PUDecomp 0x2F96D 0x4301 0, PUDecomp 0x2F96E 0x7DC7 0,
    PUDecomp 0x2F96F 0x7E02 0, PUDecomp 0x2F970 0x7E45 0, PUDecomp 0x2F971 0x4334 0,
    PUDecomp 0x2F972 0x26228 0, PUDecomp 0x2F973 0x26247 0, PUDecomp 0x2F974 0x4359 0,
    PUDecomp 0x2F975 0x262D9 0, PUDecomp 0x2F976 0x7F7A 0, PUDecomp 0x2F977 0x2633E 0,
    PUDecomp 0x2F978 0x7F95 0, PUDecomp 0x2F979 0x7FFA 0, PUDecomp 0x2F97A 0x8005 0,
    PUDecomp 0x2F97B 0x264DA 0, PUDecomp 0x2F97C 0x26523 0]"

definition pas_u_decomp_tbl_15 :: "pas_u_decomp list" where
  "pas_u_decomp_tbl_15 = [
    PUDecomp 0x2F97D 0x8060 0, PUDecomp 0x2F97E 0x265A8 0, PUDecomp 0x2F97F 0x8070 0,
    PUDecomp 0x2F980 0x2335F 0, PUDecomp 0x2F981 0x43D5 0, PUDecomp 0x2F982 0x80B2 0,
    PUDecomp 0x2F983 0x8103 0, PUDecomp 0x2F984 0x440B 0, PUDecomp 0x2F985 0x813E 0,
    PUDecomp 0x2F986 0x5AB5 0, PUDecomp 0x2F987 0x267A7 0, PUDecomp 0x2F988 0x267B5 0,
    PUDecomp 0x2F989 0x23393 0, PUDecomp 0x2F98A 0x2339C 0, PUDecomp 0x2F98B 0x8201 0,
    PUDecomp 0x2F98C 0x8204 0, PUDecomp 0x2F98D 0x8F9E 0, PUDecomp 0x2F98E 0x446B 0,
    PUDecomp 0x2F98F 0x8291 0, PUDecomp 0x2F990 0x828B 0, PUDecomp 0x2F991 0x829D 0,
    PUDecomp 0x2F992 0x52B3 0, PUDecomp 0x2F993 0x82B1 0, PUDecomp 0x2F994 0x82B3 0,
    PUDecomp 0x2F995 0x82BD 0, PUDecomp 0x2F996 0x82E6 0, PUDecomp 0x2F997 0x26B3C 0,
    PUDecomp 0x2F998 0x82E5 0, PUDecomp 0x2F999 0x831D 0, PUDecomp 0x2F99A 0x8363 0,
    PUDecomp 0x2F99B 0x83AD 0, PUDecomp 0x2F99C 0x8323 0, PUDecomp 0x2F99D 0x83BD 0,
    PUDecomp 0x2F99E 0x83E7 0, PUDecomp 0x2F99F 0x8457 0, PUDecomp 0x2F9A0 0x8353 0,
    PUDecomp 0x2F9A1 0x83CA 0, PUDecomp 0x2F9A2 0x83CC 0, PUDecomp 0x2F9A3 0x83DC 0,
    PUDecomp 0x2F9A4 0x26C36 0, PUDecomp 0x2F9A5 0x26D6B 0, PUDecomp 0x2F9A6 0x26CD5 0,
    PUDecomp 0x2F9A7 0x452B 0, PUDecomp 0x2F9A8 0x84F1 0, PUDecomp 0x2F9A9 0x84F3 0,
    PUDecomp 0x2F9AA 0x8516 0, PUDecomp 0x2F9AB 0x273CA 0, PUDecomp 0x2F9AC 0x8564 0,
    PUDecomp 0x2F9AD 0x26F2C 0, PUDecomp 0x2F9AE 0x455D 0, PUDecomp 0x2F9AF 0x4561 0,
    PUDecomp 0x2F9B0 0x26FB1 0, PUDecomp 0x2F9B1 0x270D2 0, PUDecomp 0x2F9B2 0x456B 0,
    PUDecomp 0x2F9B3 0x8650 0, PUDecomp 0x2F9B4 0x865C 0, PUDecomp 0x2F9B5 0x8667 0,
    PUDecomp 0x2F9B6 0x8669 0, PUDecomp 0x2F9B7 0x86A9 0, PUDecomp 0x2F9B8 0x8688 0,
    PUDecomp 0x2F9B9 0x870E 0, PUDecomp 0x2F9BA 0x86E2 0, PUDecomp 0x2F9BB 0x8779 0,
    PUDecomp 0x2F9BC 0x8728 0, PUDecomp 0x2F9BD 0x876B 0, PUDecomp 0x2F9BE 0x8786 0,
    PUDecomp 0x2F9BF 0x45D7 0, PUDecomp 0x2F9C0 0x87E1 0, PUDecomp 0x2F9C1 0x8801 0,
    PUDecomp 0x2F9C2 0x45F9 0, PUDecomp 0x2F9C3 0x8860 0, PUDecomp 0x2F9C4 0x8863 0,
    PUDecomp 0x2F9C5 0x27667 0, PUDecomp 0x2F9C6 0x88D7 0, PUDecomp 0x2F9C7 0x88DE 0,
    PUDecomp 0x2F9C8 0x4635 0, PUDecomp 0x2F9C9 0x88FA 0, PUDecomp 0x2F9CA 0x34BB 0,
    PUDecomp 0x2F9CB 0x278AE 0, PUDecomp 0x2F9CC 0x27966 0, PUDecomp 0x2F9CD 0x46BE 0,
    PUDecomp 0x2F9CE 0x46C7 0, PUDecomp 0x2F9CF 0x8AA0 0, PUDecomp 0x2F9D0 0x8AED 0,
    PUDecomp 0x2F9D1 0x8B8A 0, PUDecomp 0x2F9D2 0x8C55 0, PUDecomp 0x2F9D3 0x27CA8 0,
    PUDecomp 0x2F9D4 0x8CAB 0, PUDecomp 0x2F9D5 0x8CC1 0, PUDecomp 0x2F9D6 0x8D1B 0,
    PUDecomp 0x2F9D7 0x8D77 0, PUDecomp 0x2F9D8 0x27F2F 0, PUDecomp 0x2F9D9 0x20804 0,
    PUDecomp 0x2F9DA 0x8DCB 0, PUDecomp 0x2F9DB 0x8DBC 0, PUDecomp 0x2F9DC 0x8DF0 0,
    PUDecomp 0x2F9DD 0x208DE 0, PUDecomp 0x2F9DE 0x8ED4 0, PUDecomp 0x2F9DF 0x8F38 0,
    PUDecomp 0x2F9E0 0x285D2 0, PUDecomp 0x2F9E1 0x285ED 0, PUDecomp 0x2F9E2 0x9094 0,
    PUDecomp 0x2F9E3 0x90F1 0, PUDecomp 0x2F9E4 0x9111 0, PUDecomp 0x2F9E5 0x2872E 0,
    PUDecomp 0x2F9E6 0x911B 0, PUDecomp 0x2F9E7 0x9238 0, PUDecomp 0x2F9E8 0x92D7 0,
    PUDecomp 0x2F9E9 0x92D8 0, PUDecomp 0x2F9EA 0x927C 0, PUDecomp 0x2F9EB 0x93F9 0,
    PUDecomp 0x2F9EC 0x9415 0, PUDecomp 0x2F9ED 0x28BFA 0, PUDecomp 0x2F9EE 0x958B 0,
    PUDecomp 0x2F9EF 0x4995 0, PUDecomp 0x2F9F0 0x95B7 0, PUDecomp 0x2F9F1 0x28D77 0,
    PUDecomp 0x2F9F2 0x49E6 0, PUDecomp 0x2F9F3 0x96C3 0, PUDecomp 0x2F9F4 0x5DB2 0,
    PUDecomp 0x2F9F5 0x9723 0, PUDecomp 0x2F9F6 0x29145 0, PUDecomp 0x2F9F7 0x2921A 0,
    PUDecomp 0x2F9F8 0x4A6E 0, PUDecomp 0x2F9F9 0x4A76 0, PUDecomp 0x2F9FA 0x97E0 0,
    PUDecomp 0x2F9FB 0x2940A 0, PUDecomp 0x2F9FC 0x4AB2 0]"

definition pas_u_decomp_tbl_16 :: "pas_u_decomp list" where
  "pas_u_decomp_tbl_16 = [
    PUDecomp 0x2F9FD 0x29496 0, PUDecomp 0x2F9FE 0x980B 0, PUDecomp 0x2F9FF 0x980B 0,
    PUDecomp 0x2FA00 0x9829 0, PUDecomp 0x2FA01 0x295B6 0, PUDecomp 0x2FA02 0x98E2 0,
    PUDecomp 0x2FA03 0x4B33 0, PUDecomp 0x2FA04 0x9929 0, PUDecomp 0x2FA05 0x99A7 0,
    PUDecomp 0x2FA06 0x99C2 0, PUDecomp 0x2FA07 0x99FE 0, PUDecomp 0x2FA08 0x4BCE 0,
    PUDecomp 0x2FA09 0x29B30 0, PUDecomp 0x2FA0A 0x9B12 0, PUDecomp 0x2FA0B 0x9C40 0,
    PUDecomp 0x2FA0C 0x9CFD 0, PUDecomp 0x2FA0D 0x4CCE 0, PUDecomp 0x2FA0E 0x4CED 0,
    PUDecomp 0x2FA0F 0x9D67 0, PUDecomp 0x2FA10 0x2A0CE 0, PUDecomp 0x2FA11 0x4CF8 0,
    PUDecomp 0x2FA12 0x2A105 0, PUDecomp 0x2FA13 0x2A20E 0, PUDecomp 0x2FA14 0x2A291 0,
    PUDecomp 0x2FA15 0x9EBB 0, PUDecomp 0x2FA16 0x4D56 0, PUDecomp 0x2FA17 0x9EF9 0,
    PUDecomp 0x2FA18 0x9EFE 0, PUDecomp 0x2FA19 0x9F05 0, PUDecomp 0x2FA1A 0x9F0F 0,
    PUDecomp 0x2FA1B 0x9F16 0, PUDecomp 0x2FA1C 0x9F3B 0, PUDecomp 0x2FA1D 0x2A600 0]"

definition pas_u_decomp_tbl :: "pas_u_decomp list" where
  "pas_u_decomp_tbl = pas_u_decomp_tbl_0 @ pas_u_decomp_tbl_1 @ pas_u_decomp_tbl_2 @ pas_u_decomp_tbl_3 @ pas_u_decomp_tbl_4 @ pas_u_decomp_tbl_5 @ pas_u_decomp_tbl_6 @ pas_u_decomp_tbl_7 @ pas_u_decomp_tbl_8 @ pas_u_decomp_tbl_9 @ pas_u_decomp_tbl_10 @ pas_u_decomp_tbl_11 @ pas_u_decomp_tbl_12 @ pas_u_decomp_tbl_13 @ pas_u_decomp_tbl_14 @ pas_u_decomp_tbl_15 @ pas_u_decomp_tbl_16"

definition pas_u_compose_tbl_0 :: "pas_u_compose list" where
  "pas_u_compose_tbl_0 = [
    PUCompose 0x3C 0x338 0x226E, PUCompose 0x3D 0x338 0x2260, PUCompose 0x3E 0x338 0x226F,
    PUCompose 0x41 0x300 0xC0, PUCompose 0x41 0x301 0xC1, PUCompose 0x41 0x302 0xC2,
    PUCompose 0x41 0x303 0xC3, PUCompose 0x41 0x304 0x100, PUCompose 0x41 0x306 0x102,
    PUCompose 0x41 0x307 0x226, PUCompose 0x41 0x308 0xC4, PUCompose 0x41 0x309 0x1EA2,
    PUCompose 0x41 0x30A 0xC5, PUCompose 0x41 0x30C 0x1CD, PUCompose 0x41 0x30F 0x200,
    PUCompose 0x41 0x311 0x202, PUCompose 0x41 0x323 0x1EA0, PUCompose 0x41 0x325 0x1E00,
    PUCompose 0x41 0x328 0x104, PUCompose 0x42 0x307 0x1E02, PUCompose 0x42 0x323 0x1E04,
    PUCompose 0x42 0x331 0x1E06, PUCompose 0x43 0x301 0x106, PUCompose 0x43 0x302 0x108,
    PUCompose 0x43 0x307 0x10A, PUCompose 0x43 0x30C 0x10C, PUCompose 0x43 0x327 0xC7,
    PUCompose 0x44 0x307 0x1E0A, PUCompose 0x44 0x30C 0x10E, PUCompose 0x44 0x323 0x1E0C,
    PUCompose 0x44 0x327 0x1E10, PUCompose 0x44 0x32D 0x1E12, PUCompose 0x44 0x331 0x1E0E,
    PUCompose 0x45 0x300 0xC8, PUCompose 0x45 0x301 0xC9, PUCompose 0x45 0x302 0xCA,
    PUCompose 0x45 0x303 0x1EBC, PUCompose 0x45 0x304 0x112, PUCompose 0x45 0x306 0x114,
    PUCompose 0x45 0x307 0x116, PUCompose 0x45 0x308 0xCB, PUCompose 0x45 0x309 0x1EBA,
    PUCompose 0x45 0x30C 0x11A, PUCompose 0x45 0x30F 0x204, PUCompose 0x45 0x311 0x206,
    PUCompose 0x45 0x323 0x1EB8, PUCompose 0x45 0x327 0x228, PUCompose 0x45 0x328 0x118,
    PUCompose 0x45 0x32D 0x1E18, PUCompose 0x45 0x330 0x1E1A, PUCompose 0x46 0x307 0x1E1E,
    PUCompose 0x47 0x301 0x1F4, PUCompose 0x47 0x302 0x11C, PUCompose 0x47 0x304 0x1E20,
    PUCompose 0x47 0x306 0x11E, PUCompose 0x47 0x307 0x120, PUCompose 0x47 0x30C 0x1E6,
    PUCompose 0x47 0x327 0x122, PUCompose 0x48 0x302 0x124, PUCompose 0x48 0x307 0x1E22,
    PUCompose 0x48 0x308 0x1E26, PUCompose 0x48 0x30C 0x21E, PUCompose 0x48 0x323 0x1E24,
    PUCompose 0x48 0x327 0x1E28, PUCompose 0x48 0x32E 0x1E2A, PUCompose 0x49 0x300 0xCC,
    PUCompose 0x49 0x301 0xCD, PUCompose 0x49 0x302 0xCE, PUCompose 0x49 0x303 0x128,
    PUCompose 0x49 0x304 0x12A, PUCompose 0x49 0x306 0x12C, PUCompose 0x49 0x307 0x130,
    PUCompose 0x49 0x308 0xCF, PUCompose 0x49 0x309 0x1EC8, PUCompose 0x49 0x30C 0x1CF,
    PUCompose 0x49 0x30F 0x208, PUCompose 0x49 0x311 0x20A, PUCompose 0x49 0x323 0x1ECA,
    PUCompose 0x49 0x328 0x12E, PUCompose 0x49 0x330 0x1E2C, PUCompose 0x4A 0x302 0x134,
    PUCompose 0x4B 0x301 0x1E30, PUCompose 0x4B 0x30C 0x1E8, PUCompose 0x4B 0x323 0x1E32,
    PUCompose 0x4B 0x327 0x136, PUCompose 0x4B 0x331 0x1E34, PUCompose 0x4C 0x301 0x139,
    PUCompose 0x4C 0x30C 0x13D, PUCompose 0x4C 0x323 0x1E36, PUCompose 0x4C 0x327 0x13B,
    PUCompose 0x4C 0x32D 0x1E3C, PUCompose 0x4C 0x331 0x1E3A, PUCompose 0x4D 0x301 0x1E3E,
    PUCompose 0x4D 0x307 0x1E40, PUCompose 0x4D 0x323 0x1E42, PUCompose 0x4E 0x300 0x1F8,
    PUCompose 0x4E 0x301 0x143, PUCompose 0x4E 0x303 0xD1, PUCompose 0x4E 0x307 0x1E44,
    PUCompose 0x4E 0x30C 0x147, PUCompose 0x4E 0x323 0x1E46, PUCompose 0x4E 0x327 0x145,
    PUCompose 0x4E 0x32D 0x1E4A, PUCompose 0x4E 0x331 0x1E48, PUCompose 0x4F 0x300 0xD2,
    PUCompose 0x4F 0x301 0xD3, PUCompose 0x4F 0x302 0xD4, PUCompose 0x4F 0x303 0xD5,
    PUCompose 0x4F 0x304 0x14C, PUCompose 0x4F 0x306 0x14E, PUCompose 0x4F 0x307 0x22E,
    PUCompose 0x4F 0x308 0xD6, PUCompose 0x4F 0x309 0x1ECE, PUCompose 0x4F 0x30B 0x150,
    PUCompose 0x4F 0x30C 0x1D1, PUCompose 0x4F 0x30F 0x20C, PUCompose 0x4F 0x311 0x20E,
    PUCompose 0x4F 0x31B 0x1A0, PUCompose 0x4F 0x323 0x1ECC, PUCompose 0x4F 0x328 0x1EA,
    PUCompose 0x50 0x301 0x1E54, PUCompose 0x50 0x307 0x1E56, PUCompose 0x52 0x301 0x154,
    PUCompose 0x52 0x307 0x1E58, PUCompose 0x52 0x30C 0x158, PUCompose 0x52 0x30F 0x210,
    PUCompose 0x52 0x311 0x212, PUCompose 0x52 0x323 0x1E5A]"

definition pas_u_compose_tbl_1 :: "pas_u_compose list" where
  "pas_u_compose_tbl_1 = [
    PUCompose 0x52 0x327 0x156, PUCompose 0x52 0x331 0x1E5E, PUCompose 0x53 0x301 0x15A,
    PUCompose 0x53 0x302 0x15C, PUCompose 0x53 0x307 0x1E60, PUCompose 0x53 0x30C 0x160,
    PUCompose 0x53 0x323 0x1E62, PUCompose 0x53 0x326 0x218, PUCompose 0x53 0x327 0x15E,
    PUCompose 0x54 0x307 0x1E6A, PUCompose 0x54 0x30C 0x164, PUCompose 0x54 0x323 0x1E6C,
    PUCompose 0x54 0x326 0x21A, PUCompose 0x54 0x327 0x162, PUCompose 0x54 0x32D 0x1E70,
    PUCompose 0x54 0x331 0x1E6E, PUCompose 0x55 0x300 0xD9, PUCompose 0x55 0x301 0xDA,
    PUCompose 0x55 0x302 0xDB, PUCompose 0x55 0x303 0x168, PUCompose 0x55 0x304 0x16A,
    PUCompose 0x55 0x306 0x16C, PUCompose 0x55 0x308 0xDC, PUCompose 0x55 0x309 0x1EE6,
    PUCompose 0x55 0x30A 0x16E, PUCompose 0x55 0x30B 0x170, PUCompose 0x55 0x30C 0x1D3,
    PUCompose 0x55 0x30F 0x214, PUCompose 0x55 0x311 0x216, PUCompose 0x55 0x31B 0x1AF,
    PUCompose 0x55 0x323 0x1EE4, PUCompose 0x55 0x324 0x1E72, PUCompose 0x55 0x328 0x172,
    PUCompose 0x55 0x32D 0x1E76, PUCompose 0x55 0x330 0x1E74, PUCompose 0x56 0x303 0x1E7C,
    PUCompose 0x56 0x323 0x1E7E, PUCompose 0x57 0x300 0x1E80, PUCompose 0x57 0x301 0x1E82,
    PUCompose 0x57 0x302 0x174, PUCompose 0x57 0x307 0x1E86, PUCompose 0x57 0x308 0x1E84,
    PUCompose 0x57 0x323 0x1E88, PUCompose 0x58 0x307 0x1E8A, PUCompose 0x58 0x308 0x1E8C,
    PUCompose 0x59 0x300 0x1EF2, PUCompose 0x59 0x301 0xDD, PUCompose 0x59 0x302 0x176,
    PUCompose 0x59 0x303 0x1EF8, PUCompose 0x59 0x304 0x232, PUCompose 0x59 0x307 0x1E8E,
    PUCompose 0x59 0x308 0x178, PUCompose 0x59 0x309 0x1EF6, PUCompose 0x59 0x323 0x1EF4,
    PUCompose 0x5A 0x301 0x179, PUCompose 0x5A 0x302 0x1E90, PUCompose 0x5A 0x307 0x17B,
    PUCompose 0x5A 0x30C 0x17D, PUCompose 0x5A 0x323 0x1E92, PUCompose 0x5A 0x331 0x1E94,
    PUCompose 0x61 0x300 0xE0, PUCompose 0x61 0x301 0xE1, PUCompose 0x61 0x302 0xE2,
    PUCompose 0x61 0x303 0xE3, PUCompose 0x61 0x304 0x101, PUCompose 0x61 0x306 0x103,
    PUCompose 0x61 0x307 0x227, PUCompose 0x61 0x308 0xE4, PUCompose 0x61 0x309 0x1EA3,
    PUCompose 0x61 0x30A 0xE5, PUCompose 0x61 0x30C 0x1CE, PUCompose 0x61 0x30F 0x201,
    PUCompose 0x61 0x311 0x203, PUCompose 0x61 0x323 0x1EA1, PUCompose 0x61 0x325 0x1E01,
    PUCompose 0x61 0x328 0x105, PUCompose 0x62 0x307 0x1E03, PUCompose 0x62 0x323 0x1E05,
    PUCompose 0x62 0x331 0x1E07, PUCompose 0x63 0x301 0x107, PUCompose 0x63 0x302 0x109,
    PUCompose 0x63 0x307 0x10B, PUCompose 0x63 0x30C 0x10D, PUCompose 0x63 0x327 0xE7,
    PUCompose 0x64 0x307 0x1E0B, PUCompose 0x64 0x30C 0x10F, PUCompose 0x64 0x323 0x1E0D,
    PUCompose 0x64 0x327 0x1E11, PUCompose 0x64 0x32D 0x1E13, PUCompose 0x64 0x331 0x1E0F,
    PUCompose 0x65 0x300 0xE8, PUCompose 0x65 0x301 0xE9, PUCompose 0x65 0x302 0xEA,
    PUCompose 0x65 0x303 0x1EBD, PUCompose 0x65 0x304 0x113, PUCompose 0x65 0x306 0x115,
    PUCompose 0x65 0x307 0x117, PUCompose 0x65 0x308 0xEB, PUCompose 0x65 0x309 0x1EBB,
    PUCompose 0x65 0x30C 0x11B, PUCompose 0x65 0x30F 0x205, PUCompose 0x65 0x311 0x207,
    PUCompose 0x65 0x323 0x1EB9, PUCompose 0x65 0x327 0x229, PUCompose 0x65 0x328 0x119,
    PUCompose 0x65 0x32D 0x1E19, PUCompose 0x65 0x330 0x1E1B, PUCompose 0x66 0x307 0x1E1F,
    PUCompose 0x67 0x301 0x1F5, PUCompose 0x67 0x302 0x11D, PUCompose 0x67 0x304 0x1E21,
    PUCompose 0x67 0x306 0x11F, PUCompose 0x67 0x307 0x121, PUCompose 0x67 0x30C 0x1E7,
    PUCompose 0x67 0x327 0x123, PUCompose 0x68 0x302 0x125, PUCompose 0x68 0x307 0x1E23,
    PUCompose 0x68 0x308 0x1E27, PUCompose 0x68 0x30C 0x21F, PUCompose 0x68 0x323 0x1E25,
    PUCompose 0x68 0x327 0x1E29, PUCompose 0x68 0x32E 0x1E2B, PUCompose 0x68 0x331 0x1E96,
    PUCompose 0x69 0x300 0xEC, PUCompose 0x69 0x301 0xED, PUCompose 0x69 0x302 0xEE,
    PUCompose 0x69 0x303 0x129, PUCompose 0x69 0x304 0x12B]"

definition pas_u_compose_tbl_2 :: "pas_u_compose list" where
  "pas_u_compose_tbl_2 = [
    PUCompose 0x69 0x306 0x12D, PUCompose 0x69 0x308 0xEF, PUCompose 0x69 0x309 0x1EC9,
    PUCompose 0x69 0x30C 0x1D0, PUCompose 0x69 0x30F 0x209, PUCompose 0x69 0x311 0x20B,
    PUCompose 0x69 0x323 0x1ECB, PUCompose 0x69 0x328 0x12F, PUCompose 0x69 0x330 0x1E2D,
    PUCompose 0x6A 0x302 0x135, PUCompose 0x6A 0x30C 0x1F0, PUCompose 0x6B 0x301 0x1E31,
    PUCompose 0x6B 0x30C 0x1E9, PUCompose 0x6B 0x323 0x1E33, PUCompose 0x6B 0x327 0x137,
    PUCompose 0x6B 0x331 0x1E35, PUCompose 0x6C 0x301 0x13A, PUCompose 0x6C 0x30C 0x13E,
    PUCompose 0x6C 0x323 0x1E37, PUCompose 0x6C 0x327 0x13C, PUCompose 0x6C 0x32D 0x1E3D,
    PUCompose 0x6C 0x331 0x1E3B, PUCompose 0x6D 0x301 0x1E3F, PUCompose 0x6D 0x307 0x1E41,
    PUCompose 0x6D 0x323 0x1E43, PUCompose 0x6E 0x300 0x1F9, PUCompose 0x6E 0x301 0x144,
    PUCompose 0x6E 0x303 0xF1, PUCompose 0x6E 0x307 0x1E45, PUCompose 0x6E 0x30C 0x148,
    PUCompose 0x6E 0x323 0x1E47, PUCompose 0x6E 0x327 0x146, PUCompose 0x6E 0x32D 0x1E4B,
    PUCompose 0x6E 0x331 0x1E49, PUCompose 0x6F 0x300 0xF2, PUCompose 0x6F 0x301 0xF3,
    PUCompose 0x6F 0x302 0xF4, PUCompose 0x6F 0x303 0xF5, PUCompose 0x6F 0x304 0x14D,
    PUCompose 0x6F 0x306 0x14F, PUCompose 0x6F 0x307 0x22F, PUCompose 0x6F 0x308 0xF6,
    PUCompose 0x6F 0x309 0x1ECF, PUCompose 0x6F 0x30B 0x151, PUCompose 0x6F 0x30C 0x1D2,
    PUCompose 0x6F 0x30F 0x20D, PUCompose 0x6F 0x311 0x20F, PUCompose 0x6F 0x31B 0x1A1,
    PUCompose 0x6F 0x323 0x1ECD, PUCompose 0x6F 0x328 0x1EB, PUCompose 0x70 0x301 0x1E55,
    PUCompose 0x70 0x307 0x1E57, PUCompose 0x72 0x301 0x155, PUCompose 0x72 0x307 0x1E59,
    PUCompose 0x72 0x30C 0x159, PUCompose 0x72 0x30F 0x211, PUCompose 0x72 0x311 0x213,
    PUCompose 0x72 0x323 0x1E5B, PUCompose 0x72 0x327 0x157, PUCompose 0x72 0x331 0x1E5F,
    PUCompose 0x73 0x301 0x15B, PUCompose 0x73 0x302 0x15D, PUCompose 0x73 0x307 0x1E61,
    PUCompose 0x73 0x30C 0x161, PUCompose 0x73 0x323 0x1E63, PUCompose 0x73 0x326 0x219,
    PUCompose 0x73 0x327 0x15F, PUCompose 0x74 0x307 0x1E6B, PUCompose 0x74 0x308 0x1E97,
    PUCompose 0x74 0x30C 0x165, PUCompose 0x74 0x323 0x1E6D, PUCompose 0x74 0x326 0x21B,
    PUCompose 0x74 0x327 0x163, PUCompose 0x74 0x32D 0x1E71, PUCompose 0x74 0x331 0x1E6F,
    PUCompose 0x75 0x300 0xF9, PUCompose 0x75 0x301 0xFA, PUCompose 0x75 0x302 0xFB,
    PUCompose 0x75 0x303 0x169, PUCompose 0x75 0x304 0x16B, PUCompose 0x75 0x306 0x16D,
    PUCompose 0x75 0x308 0xFC, PUCompose 0x75 0x309 0x1EE7, PUCompose 0x75 0x30A 0x16F,
    PUCompose 0x75 0x30B 0x171, PUCompose 0x75 0x30C 0x1D4, PUCompose 0x75 0x30F 0x215,
    PUCompose 0x75 0x311 0x217, PUCompose 0x75 0x31B 0x1B0, PUCompose 0x75 0x323 0x1EE5,
    PUCompose 0x75 0x324 0x1E73, PUCompose 0x75 0x328 0x173, PUCompose 0x75 0x32D 0x1E77,
    PUCompose 0x75 0x330 0x1E75, PUCompose 0x76 0x303 0x1E7D, PUCompose 0x76 0x323 0x1E7F,
    PUCompose 0x77 0x300 0x1E81, PUCompose 0x77 0x301 0x1E83, PUCompose 0x77 0x302 0x175,
    PUCompose 0x77 0x307 0x1E87, PUCompose 0x77 0x308 0x1E85, PUCompose 0x77 0x30A 0x1E98,
    PUCompose 0x77 0x323 0x1E89, PUCompose 0x78 0x307 0x1E8B, PUCompose 0x78 0x308 0x1E8D,
    PUCompose 0x79 0x300 0x1EF3, PUCompose 0x79 0x301 0xFD, PUCompose 0x79 0x302 0x177,
    PUCompose 0x79 0x303 0x1EF9, PUCompose 0x79 0x304 0x233, PUCompose 0x79 0x307 0x1E8F,
    PUCompose 0x79 0x308 0xFF, PUCompose 0x79 0x309 0x1EF7, PUCompose 0x79 0x30A 0x1E99,
    PUCompose 0x79 0x323 0x1EF5, PUCompose 0x7A 0x301 0x17A, PUCompose 0x7A 0x302 0x1E91,
    PUCompose 0x7A 0x307 0x17C, PUCompose 0x7A 0x30C 0x17E, PUCompose 0x7A 0x323 0x1E93,
    PUCompose 0x7A 0x331 0x1E95, PUCompose 0xA8 0x300 0x1FED, PUCompose 0xA8 0x301 0x385,
    PUCompose 0xA8 0x342 0x1FC1, PUCompose 0xC2 0x300 0x1EA6, PUCompose 0xC2 0x301 0x1EA4,
    PUCompose 0xC2 0x303 0x1EAA, PUCompose 0xC2 0x309 0x1EA8]"

definition pas_u_compose_tbl_3 :: "pas_u_compose list" where
  "pas_u_compose_tbl_3 = [
    PUCompose 0xC4 0x304 0x1DE, PUCompose 0xC5 0x301 0x1FA, PUCompose 0xC6 0x301 0x1FC,
    PUCompose 0xC6 0x304 0x1E2, PUCompose 0xC7 0x301 0x1E08, PUCompose 0xCA 0x300 0x1EC0,
    PUCompose 0xCA 0x301 0x1EBE, PUCompose 0xCA 0x303 0x1EC4, PUCompose 0xCA 0x309 0x1EC2,
    PUCompose 0xCF 0x301 0x1E2E, PUCompose 0xD4 0x300 0x1ED2, PUCompose 0xD4 0x301 0x1ED0,
    PUCompose 0xD4 0x303 0x1ED6, PUCompose 0xD4 0x309 0x1ED4, PUCompose 0xD5 0x301 0x1E4C,
    PUCompose 0xD5 0x304 0x22C, PUCompose 0xD5 0x308 0x1E4E, PUCompose 0xD6 0x304 0x22A,
    PUCompose 0xD8 0x301 0x1FE, PUCompose 0xDC 0x300 0x1DB, PUCompose 0xDC 0x301 0x1D7,
    PUCompose 0xDC 0x304 0x1D5, PUCompose 0xDC 0x30C 0x1D9, PUCompose 0xE2 0x300 0x1EA7,
    PUCompose 0xE2 0x301 0x1EA5, PUCompose 0xE2 0x303 0x1EAB, PUCompose 0xE2 0x309 0x1EA9,
    PUCompose 0xE4 0x304 0x1DF, PUCompose 0xE5 0x301 0x1FB, PUCompose 0xE6 0x301 0x1FD,
    PUCompose 0xE6 0x304 0x1E3, PUCompose 0xE7 0x301 0x1E09, PUCompose 0xEA 0x300 0x1EC1,
    PUCompose 0xEA 0x301 0x1EBF, PUCompose 0xEA 0x303 0x1EC5, PUCompose 0xEA 0x309 0x1EC3,
    PUCompose 0xEF 0x301 0x1E2F, PUCompose 0xF4 0x300 0x1ED3, PUCompose 0xF4 0x301 0x1ED1,
    PUCompose 0xF4 0x303 0x1ED7, PUCompose 0xF4 0x309 0x1ED5, PUCompose 0xF5 0x301 0x1E4D,
    PUCompose 0xF5 0x304 0x22D, PUCompose 0xF5 0x308 0x1E4F, PUCompose 0xF6 0x304 0x22B,
    PUCompose 0xF8 0x301 0x1FF, PUCompose 0xFC 0x300 0x1DC, PUCompose 0xFC 0x301 0x1D8,
    PUCompose 0xFC 0x304 0x1D6, PUCompose 0xFC 0x30C 0x1DA, PUCompose 0x102 0x300 0x1EB0,
    PUCompose 0x102 0x301 0x1EAE, PUCompose 0x102 0x303 0x1EB4, PUCompose 0x102 0x309 0x1EB2,
    PUCompose 0x103 0x300 0x1EB1, PUCompose 0x103 0x301 0x1EAF, PUCompose 0x103 0x303 0x1EB5,
    PUCompose 0x103 0x309 0x1EB3, PUCompose 0x112 0x300 0x1E14, PUCompose 0x112 0x301 0x1E16,
    PUCompose 0x113 0x300 0x1E15, PUCompose 0x113 0x301 0x1E17, PUCompose 0x14C 0x300 0x1E50,
    PUCompose 0x14C 0x301 0x1E52, PUCompose 0x14D 0x300 0x1E51, PUCompose 0x14D 0x301 0x1E53,
    PUCompose 0x15A 0x307 0x1E64, PUCompose 0x15B 0x307 0x1E65, PUCompose 0x160 0x307 0x1E66,
    PUCompose 0x161 0x307 0x1E67, PUCompose 0x168 0x301 0x1E78, PUCompose 0x169 0x301 0x1E79,
    PUCompose 0x16A 0x308 0x1E7A, PUCompose 0x16B 0x308 0x1E7B, PUCompose 0x17F 0x307 0x1E9B,
    PUCompose 0x1A0 0x300 0x1EDC, PUCompose 0x1A0 0x301 0x1EDA, PUCompose 0x1A0 0x303 0x1EE0,
    PUCompose 0x1A0 0x309 0x1EDE, PUCompose 0x1A0 0x323 0x1EE2, PUCompose 0x1A1 0x300 0x1EDD,
    PUCompose 0x1A1 0x301 0x1EDB, PUCompose 0x1A1 0x303 0x1EE1, PUCompose 0x1A1 0x309 0x1EDF,
    PUCompose 0x1A1 0x323 0x1EE3, PUCompose 0x1AF 0x300 0x1EEA, PUCompose 0x1AF 0x301 0x1EE8,
    PUCompose 0x1AF 0x303 0x1EEE, PUCompose 0x1AF 0x309 0x1EEC, PUCompose 0x1AF 0x323 0x1EF0,
    PUCompose 0x1B0 0x300 0x1EEB, PUCompose 0x1B0 0x301 0x1EE9, PUCompose 0x1B0 0x303 0x1EEF,
    PUCompose 0x1B0 0x309 0x1EED, PUCompose 0x1B0 0x323 0x1EF1, PUCompose 0x1B7 0x30C 0x1EE,
    PUCompose 0x1EA 0x304 0x1EC, PUCompose 0x1EB 0x304 0x1ED, PUCompose 0x226 0x304 0x1E0,
    PUCompose 0x227 0x304 0x1E1, PUCompose 0x228 0x306 0x1E1C, PUCompose 0x229 0x306 0x1E1D,
    PUCompose 0x22E 0x304 0x230, PUCompose 0x22F 0x304 0x231, PUCompose 0x292 0x30C 0x1EF,
    PUCompose 0x391 0x300 0x1FBA, PUCompose 0x391 0x301 0x386, PUCompose 0x391 0x304 0x1FB9,
    PUCompose 0x391 0x306 0x1FB8, PUCompose 0x391 0x313 0x1F08, PUCompose 0x391 0x314 0x1F09,
    PUCompose 0x391 0x345 0x1FBC, PUCompose 0x395 0x300 0x1FC8, PUCompose 0x395 0x301 0x388,
    PUCompose 0x395 0x313 0x1F18, PUCompose 0x395 0x314 0x1F19, PUCompose 0x397 0x300 0x1FCA,
    PUCompose 0x397 0x301 0x389, PUCompose 0x397 0x313 0x1F28, PUCompose 0x397 0x314 0x1F29,
    PUCompose 0x397 0x345 0x1FCC, PUCompose 0x399 0x300 0x1FDA, PUCompose 0x399 0x301 0x38A,
    PUCompose 0x399 0x304 0x1FD9, PUCompose 0x399 0x306 0x1FD8, PUCompose 0x399 0x308 0x3AA,
    PUCompose 0x399 0x313 0x1F38, PUCompose 0x399 0x314 0x1F39]"

definition pas_u_compose_tbl_4 :: "pas_u_compose list" where
  "pas_u_compose_tbl_4 = [
    PUCompose 0x39F 0x300 0x1FF8, PUCompose 0x39F 0x301 0x38C, PUCompose 0x39F 0x313 0x1F48,
    PUCompose 0x39F 0x314 0x1F49, PUCompose 0x3A1 0x314 0x1FEC, PUCompose 0x3A5 0x300 0x1FEA,
    PUCompose 0x3A5 0x301 0x38E, PUCompose 0x3A5 0x304 0x1FE9, PUCompose 0x3A5 0x306 0x1FE8,
    PUCompose 0x3A5 0x308 0x3AB, PUCompose 0x3A5 0x314 0x1F59, PUCompose 0x3A9 0x300 0x1FFA,
    PUCompose 0x3A9 0x301 0x38F, PUCompose 0x3A9 0x313 0x1F68, PUCompose 0x3A9 0x314 0x1F69,
    PUCompose 0x3A9 0x345 0x1FFC, PUCompose 0x3AC 0x345 0x1FB4, PUCompose 0x3AE 0x345 0x1FC4,
    PUCompose 0x3B1 0x300 0x1F70, PUCompose 0x3B1 0x301 0x3AC, PUCompose 0x3B1 0x304 0x1FB1,
    PUCompose 0x3B1 0x306 0x1FB0, PUCompose 0x3B1 0x313 0x1F00, PUCompose 0x3B1 0x314 0x1F01,
    PUCompose 0x3B1 0x342 0x1FB6, PUCompose 0x3B1 0x345 0x1FB3, PUCompose 0x3B5 0x300 0x1F72,
    PUCompose 0x3B5 0x301 0x3AD, PUCompose 0x3B5 0x313 0x1F10, PUCompose 0x3B5 0x314 0x1F11,
    PUCompose 0x3B7 0x300 0x1F74, PUCompose 0x3B7 0x301 0x3AE, PUCompose 0x3B7 0x313 0x1F20,
    PUCompose 0x3B7 0x314 0x1F21, PUCompose 0x3B7 0x342 0x1FC6, PUCompose 0x3B7 0x345 0x1FC3,
    PUCompose 0x3B9 0x300 0x1F76, PUCompose 0x3B9 0x301 0x3AF, PUCompose 0x3B9 0x304 0x1FD1,
    PUCompose 0x3B9 0x306 0x1FD0, PUCompose 0x3B9 0x308 0x3CA, PUCompose 0x3B9 0x313 0x1F30,
    PUCompose 0x3B9 0x314 0x1F31, PUCompose 0x3B9 0x342 0x1FD6, PUCompose 0x3BF 0x300 0x1F78,
    PUCompose 0x3BF 0x301 0x3CC, PUCompose 0x3BF 0x313 0x1F40, PUCompose 0x3BF 0x314 0x1F41,
    PUCompose 0x3C1 0x313 0x1FE4, PUCompose 0x3C1 0x314 0x1FE5, PUCompose 0x3C5 0x300 0x1F7A,
    PUCompose 0x3C5 0x301 0x3CD, PUCompose 0x3C5 0x304 0x1FE1, PUCompose 0x3C5 0x306 0x1FE0,
    PUCompose 0x3C5 0x308 0x3CB, PUCompose 0x3C5 0x313 0x1F50, PUCompose 0x3C5 0x314 0x1F51,
    PUCompose 0x3C5 0x342 0x1FE6, PUCompose 0x3C9 0x300 0x1F7C, PUCompose 0x3C9 0x301 0x3CE,
    PUCompose 0x3C9 0x313 0x1F60, PUCompose 0x3C9 0x314 0x1F61, PUCompose 0x3C9 0x342 0x1FF6,
    PUCompose 0x3C9 0x345 0x1FF3, PUCompose 0x3CA 0x300 0x1FD2, PUCompose 0x3CA 0x301 0x390,
    PUCompose 0x3CA 0x342 0x1FD7, PUCompose 0x3CB 0x300 0x1FE2, PUCompose 0x3CB 0x301 0x3B0,
    PUCompose 0x3CB 0x342 0x1FE7, PUCompose 0x3CE 0x345 0x1FF4, PUCompose 0x3D2 0x301 0x3D3,
    PUCompose 0x3D2 0x308 0x3D4, PUCompose 0x406 0x308 0x407, PUCompose 0x410 0x306 0x4D0,
    PUCompose 0x410 0x308 0x4D2, PUCompose 0x413 0x301 0x403, PUCompose 0x415 0x300 0x400,
    PUCompose 0x415 0x306 0x4D6, PUCompose 0x415 0x308 0x401, PUCompose 0x416 0x306 0x4C1,
    PUCompose 0x416 0x308 0x4DC, PUCompose 0x417 0x308 0x4DE, PUCompose 0x418 0x300 0x40D,
    PUCompose 0x418 0x304 0x4E2, PUCompose 0x418 0x306 0x419, PUCompose 0x418 0x308 0x4E4,
    PUCompose 0x41A 0x301 0x40C, PUCompose 0x41E 0x308 0x4E6, PUCompose 0x423 0x304 0x4EE,
    PUCompose 0x423 0x306 0x40E, PUCompose 0x423 0x308 0x4F0, PUCompose 0x423 0x30B 0x4F2,
    PUCompose 0x427 0x308 0x4F4, PUCompose 0x42B 0x308 0x4F8, PUCompose 0x42D 0x308 0x4EC,
    PUCompose 0x430 0x306 0x4D1, PUCompose 0x430 0x308 0x4D3, PUCompose 0x433 0x301 0x453,
    PUCompose 0x435 0x300 0x450, PUCompose 0x435 0x306 0x4D7, PUCompose 0x435 0x308 0x451,
    PUCompose 0x436 0x306 0x4C2, PUCompose 0x436 0x308 0x4DD, PUCompose 0x437 0x308 0x4DF,
    PUCompose 0x438 0x300 0x45D, PUCompose 0x438 0x304 0x4E3, PUCompose 0x438 0x306 0x439,
    PUCompose 0x438 0x308 0x4E5, PUCompose 0x43A 0x301 0x45C, PUCompose 0x43E 0x308 0x4E7,
    PUCompose 0x443 0x304 0x4EF, PUCompose 0x443 0x306 0x45E, PUCompose 0x443 0x308 0x4F1,
    PUCompose 0x443 0x30B 0x4F3, PUCompose 0x447 0x308 0x4F5, PUCompose 0x44B 0x308 0x4F9,
    PUCompose 0x44D 0x308 0x4ED, PUCompose 0x456 0x308 0x457, PUCompose 0x474 0x30F 0x476,
    PUCompose 0x475 0x30F 0x477, PUCompose 0x4D8 0x308 0x4DA, PUCompose 0x4D9 0x308 0x4DB,
    PUCompose 0x4E8 0x308 0x4EA, PUCompose 0x4E9 0x308 0x4EB, PUCompose 0x627 0x653 0x622,
    PUCompose 0x627 0x654 0x623, PUCompose 0x627 0x655 0x625]"

definition pas_u_compose_tbl_5 :: "pas_u_compose list" where
  "pas_u_compose_tbl_5 = [
    PUCompose 0x648 0x654 0x624, PUCompose 0x64A 0x654 0x626, PUCompose 0x6C1 0x654 0x6C2,
    PUCompose 0x6D2 0x654 0x6D3, PUCompose 0x6D5 0x654 0x6C0, PUCompose 0x928 0x93C 0x929,
    PUCompose 0x930 0x93C 0x931, PUCompose 0x933 0x93C 0x934, PUCompose 0x9C7 0x9BE 0x9CB,
    PUCompose 0x9C7 0x9D7 0x9CC, PUCompose 0xB47 0xB3E 0xB4B, PUCompose 0xB47 0xB56 0xB48,
    PUCompose 0xB47 0xB57 0xB4C, PUCompose 0xB92 0xBD7 0xB94, PUCompose 0xBC6 0xBBE 0xBCA,
    PUCompose 0xBC6 0xBD7 0xBCC, PUCompose 0xBC7 0xBBE 0xBCB, PUCompose 0xC46 0xC56 0xC48,
    PUCompose 0xCBF 0xCD5 0xCC0, PUCompose 0xCC6 0xCC2 0xCCA, PUCompose 0xCC6 0xCD5 0xCC7,
    PUCompose 0xCC6 0xCD6 0xCC8, PUCompose 0xCCA 0xCD5 0xCCB, PUCompose 0xD46 0xD3E 0xD4A,
    PUCompose 0xD46 0xD57 0xD4C, PUCompose 0xD47 0xD3E 0xD4B, PUCompose 0xDD9 0xDCA 0xDDA,
    PUCompose 0xDD9 0xDCF 0xDDC, PUCompose 0xDD9 0xDDF 0xDDE, PUCompose 0xDDC 0xDCA 0xDDD,
    PUCompose 0x1025 0x102E 0x1026, PUCompose 0x1B05 0x1B35 0x1B06, PUCompose 0x1B07 0x1B35 0x1B08,
    PUCompose 0x1B09 0x1B35 0x1B0A, PUCompose 0x1B0B 0x1B35 0x1B0C, PUCompose 0x1B0D 0x1B35 0x1B0E,
    PUCompose 0x1B11 0x1B35 0x1B12, PUCompose 0x1B3A 0x1B35 0x1B3B, PUCompose 0x1B3C 0x1B35 0x1B3D,
    PUCompose 0x1B3E 0x1B35 0x1B40, PUCompose 0x1B3F 0x1B35 0x1B41, PUCompose 0x1B42 0x1B35 0x1B43,
    PUCompose 0x1E36 0x304 0x1E38, PUCompose 0x1E37 0x304 0x1E39, PUCompose 0x1E5A 0x304 0x1E5C,
    PUCompose 0x1E5B 0x304 0x1E5D, PUCompose 0x1E62 0x307 0x1E68, PUCompose 0x1E63 0x307 0x1E69,
    PUCompose 0x1EA0 0x302 0x1EAC, PUCompose 0x1EA0 0x306 0x1EB6, PUCompose 0x1EA1 0x302 0x1EAD,
    PUCompose 0x1EA1 0x306 0x1EB7, PUCompose 0x1EB8 0x302 0x1EC6, PUCompose 0x1EB9 0x302 0x1EC7,
    PUCompose 0x1ECC 0x302 0x1ED8, PUCompose 0x1ECD 0x302 0x1ED9, PUCompose 0x1F00 0x300 0x1F02,
    PUCompose 0x1F00 0x301 0x1F04, PUCompose 0x1F00 0x342 0x1F06, PUCompose 0x1F00 0x345 0x1F80,
    PUCompose 0x1F01 0x300 0x1F03, PUCompose 0x1F01 0x301 0x1F05, PUCompose 0x1F01 0x342 0x1F07,
    PUCompose 0x1F01 0x345 0x1F81, PUCompose 0x1F02 0x345 0x1F82, PUCompose 0x1F03 0x345 0x1F83,
    PUCompose 0x1F04 0x345 0x1F84, PUCompose 0x1F05 0x345 0x1F85, PUCompose 0x1F06 0x345 0x1F86,
    PUCompose 0x1F07 0x345 0x1F87, PUCompose 0x1F08 0x300 0x1F0A, PUCompose 0x1F08 0x301 0x1F0C,
    PUCompose 0x1F08 0x342 0x1F0E, PUCompose 0x1F08 0x345 0x1F88, PUCompose 0x1F09 0x300 0x1F0B,
    PUCompose 0x1F09 0x301 0x1F0D, PUCompose 0x1F09 0x342 0x1F0F, PUCompose 0x1F09 0x345 0x1F89,
    PUCompose 0x1F0A 0x345 0x1F8A, PUCompose 0x1F0B 0x345 0x1F8B, PUCompose 0x1F0C 0x345 0x1F8C,
    PUCompose 0x1F0D 0x345 0x1F8D, PUCompose 0x1F0E 0x345 0x1F8E, PUCompose 0x1F0F 0x345 0x1F8F,
    PUCompose 0x1F10 0x300 0x1F12, PUCompose 0x1F10 0x301 0x1F14, PUCompose 0x1F11 0x300 0x1F13,
    PUCompose 0x1F11 0x301 0x1F15, PUCompose 0x1F18 0x300 0x1F1A, PUCompose 0x1F18 0x301 0x1F1C,
    PUCompose 0x1F19 0x300 0x1F1B, PUCompose 0x1F19 0x301 0x1F1D, PUCompose 0x1F20 0x300 0x1F22,
    PUCompose 0x1F20 0x301 0x1F24, PUCompose 0x1F20 0x342 0x1F26, PUCompose 0x1F20 0x345 0x1F90,
    PUCompose 0x1F21 0x300 0x1F23, PUCompose 0x1F21 0x301 0x1F25, PUCompose 0x1F21 0x342 0x1F27,
    PUCompose 0x1F21 0x345 0x1F91, PUCompose 0x1F22 0x345 0x1F92, PUCompose 0x1F23 0x345 0x1F93,
    PUCompose 0x1F24 0x345 0x1F94, PUCompose 0x1F25 0x345 0x1F95, PUCompose 0x1F26 0x345 0x1F96,
    PUCompose 0x1F27 0x345 0x1F97, PUCompose 0x1F28 0x300 0x1F2A, PUCompose 0x1F28 0x301 0x1F2C,
    PUCompose 0x1F28 0x342 0x1F2E, PUCompose 0x1F28 0x345 0x1F98, PUCompose 0x1F29 0x300 0x1F2B,
    PUCompose 0x1F29 0x301 0x1F2D, PUCompose 0x1F29 0x342 0x1F2F, PUCompose 0x1F29 0x345 0x1F99,
    PUCompose 0x1F2A 0x345 0x1F9A, PUCompose 0x1F2B 0x345 0x1F9B, PUCompose 0x1F2C 0x345 0x1F9C,
    PUCompose 0x1F2D 0x345 0x1F9D, PUCompose 0x1F2E 0x345 0x1F9E, PUCompose 0x1F2F 0x345 0x1F9F,
    PUCompose 0x1F30 0x300 0x1F32, PUCompose 0x1F30 0x301 0x1F34, PUCompose 0x1F30 0x342 0x1F36,
    PUCompose 0x1F31 0x300 0x1F33, PUCompose 0x1F31 0x301 0x1F35, PUCompose 0x1F31 0x342 0x1F37,
    PUCompose 0x1F38 0x300 0x1F3A, PUCompose 0x1F38 0x301 0x1F3C]"

definition pas_u_compose_tbl_6 :: "pas_u_compose list" where
  "pas_u_compose_tbl_6 = [
    PUCompose 0x1F38 0x342 0x1F3E, PUCompose 0x1F39 0x300 0x1F3B, PUCompose 0x1F39 0x301 0x1F3D,
    PUCompose 0x1F39 0x342 0x1F3F, PUCompose 0x1F40 0x300 0x1F42, PUCompose 0x1F40 0x301 0x1F44,
    PUCompose 0x1F41 0x300 0x1F43, PUCompose 0x1F41 0x301 0x1F45, PUCompose 0x1F48 0x300 0x1F4A,
    PUCompose 0x1F48 0x301 0x1F4C, PUCompose 0x1F49 0x300 0x1F4B, PUCompose 0x1F49 0x301 0x1F4D,
    PUCompose 0x1F50 0x300 0x1F52, PUCompose 0x1F50 0x301 0x1F54, PUCompose 0x1F50 0x342 0x1F56,
    PUCompose 0x1F51 0x300 0x1F53, PUCompose 0x1F51 0x301 0x1F55, PUCompose 0x1F51 0x342 0x1F57,
    PUCompose 0x1F59 0x300 0x1F5B, PUCompose 0x1F59 0x301 0x1F5D, PUCompose 0x1F59 0x342 0x1F5F,
    PUCompose 0x1F60 0x300 0x1F62, PUCompose 0x1F60 0x301 0x1F64, PUCompose 0x1F60 0x342 0x1F66,
    PUCompose 0x1F60 0x345 0x1FA0, PUCompose 0x1F61 0x300 0x1F63, PUCompose 0x1F61 0x301 0x1F65,
    PUCompose 0x1F61 0x342 0x1F67, PUCompose 0x1F61 0x345 0x1FA1, PUCompose 0x1F62 0x345 0x1FA2,
    PUCompose 0x1F63 0x345 0x1FA3, PUCompose 0x1F64 0x345 0x1FA4, PUCompose 0x1F65 0x345 0x1FA5,
    PUCompose 0x1F66 0x345 0x1FA6, PUCompose 0x1F67 0x345 0x1FA7, PUCompose 0x1F68 0x300 0x1F6A,
    PUCompose 0x1F68 0x301 0x1F6C, PUCompose 0x1F68 0x342 0x1F6E, PUCompose 0x1F68 0x345 0x1FA8,
    PUCompose 0x1F69 0x300 0x1F6B, PUCompose 0x1F69 0x301 0x1F6D, PUCompose 0x1F69 0x342 0x1F6F,
    PUCompose 0x1F69 0x345 0x1FA9, PUCompose 0x1F6A 0x345 0x1FAA, PUCompose 0x1F6B 0x345 0x1FAB,
    PUCompose 0x1F6C 0x345 0x1FAC, PUCompose 0x1F6D 0x345 0x1FAD, PUCompose 0x1F6E 0x345 0x1FAE,
    PUCompose 0x1F6F 0x345 0x1FAF, PUCompose 0x1F70 0x345 0x1FB2, PUCompose 0x1F74 0x345 0x1FC2,
    PUCompose 0x1F7C 0x345 0x1FF2, PUCompose 0x1FB6 0x345 0x1FB7, PUCompose 0x1FBF 0x300 0x1FCD,
    PUCompose 0x1FBF 0x301 0x1FCE, PUCompose 0x1FBF 0x342 0x1FCF, PUCompose 0x1FC6 0x345 0x1FC7,
    PUCompose 0x1FF6 0x345 0x1FF7, PUCompose 0x1FFE 0x300 0x1FDD, PUCompose 0x1FFE 0x301 0x1FDE,
    PUCompose 0x1FFE 0x342 0x1FDF, PUCompose 0x2190 0x338 0x219A, PUCompose 0x2192 0x338 0x219B,
    PUCompose 0x2194 0x338 0x21AE, PUCompose 0x21D0 0x338 0x21CD, PUCompose 0x21D2 0x338 0x21CF,
    PUCompose 0x21D4 0x338 0x21CE, PUCompose 0x2203 0x338 0x2204, PUCompose 0x2208 0x338 0x2209,
    PUCompose 0x220B 0x338 0x220C, PUCompose 0x2223 0x338 0x2224, PUCompose 0x2225 0x338 0x2226,
    PUCompose 0x223C 0x338 0x2241, PUCompose 0x2243 0x338 0x2244, PUCompose 0x2245 0x338 0x2247,
    PUCompose 0x2248 0x338 0x2249, PUCompose 0x224D 0x338 0x226D, PUCompose 0x2261 0x338 0x2262,
    PUCompose 0x2264 0x338 0x2270, PUCompose 0x2265 0x338 0x2271, PUCompose 0x2272 0x338 0x2274,
    PUCompose 0x2273 0x338 0x2275, PUCompose 0x2276 0x338 0x2278, PUCompose 0x2277 0x338 0x2279,
    PUCompose 0x227A 0x338 0x2280, PUCompose 0x227B 0x338 0x2281, PUCompose 0x227C 0x338 0x22E0,
    PUCompose 0x227D 0x338 0x22E1, PUCompose 0x2282 0x338 0x2284, PUCompose 0x2283 0x338 0x2285,
    PUCompose 0x2286 0x338 0x2288, PUCompose 0x2287 0x338 0x2289, PUCompose 0x2291 0x338 0x22E2,
    PUCompose 0x2292 0x338 0x22E3, PUCompose 0x22A2 0x338 0x22AC, PUCompose 0x22A8 0x338 0x22AD,
    PUCompose 0x22A9 0x338 0x22AE, PUCompose 0x22AB 0x338 0x22AF, PUCompose 0x22B2 0x338 0x22EA,
    PUCompose 0x22B3 0x338 0x22EB, PUCompose 0x22B4 0x338 0x22EC, PUCompose 0x22B5 0x338 0x22ED,
    PUCompose 0x3046 0x3099 0x3094, PUCompose 0x304B 0x3099 0x304C, PUCompose 0x304D 0x3099 0x304E,
    PUCompose 0x304F 0x3099 0x3050, PUCompose 0x3051 0x3099 0x3052, PUCompose 0x3053 0x3099 0x3054,
    PUCompose 0x3055 0x3099 0x3056, PUCompose 0x3057 0x3099 0x3058, PUCompose 0x3059 0x3099 0x305A,
    PUCompose 0x305B 0x3099 0x305C, PUCompose 0x305D 0x3099 0x305E, PUCompose 0x305F 0x3099 0x3060,
    PUCompose 0x3061 0x3099 0x3062, PUCompose 0x3064 0x3099 0x3065, PUCompose 0x3066 0x3099 0x3067,
    PUCompose 0x3068 0x3099 0x3069, PUCompose 0x306F 0x3099 0x3070, PUCompose 0x306F 0x309A 0x3071,
    PUCompose 0x3072 0x3099 0x3073, PUCompose 0x3072 0x309A 0x3074, PUCompose 0x3075 0x3099 0x3076,
    PUCompose 0x3075 0x309A 0x3077, PUCompose 0x3078 0x3099 0x3079, PUCompose 0x3078 0x309A 0x307A,
    PUCompose 0x307B 0x3099 0x307C, PUCompose 0x307B 0x309A 0x307D]"

definition pas_u_compose_tbl_7 :: "pas_u_compose list" where
  "pas_u_compose_tbl_7 = [
    PUCompose 0x309D 0x3099 0x309E, PUCompose 0x30A6 0x3099 0x30F4, PUCompose 0x30AB 0x3099 0x30AC,
    PUCompose 0x30AD 0x3099 0x30AE, PUCompose 0x30AF 0x3099 0x30B0, PUCompose 0x30B1 0x3099 0x30B2,
    PUCompose 0x30B3 0x3099 0x30B4, PUCompose 0x30B5 0x3099 0x30B6, PUCompose 0x30B7 0x3099 0x30B8,
    PUCompose 0x30B9 0x3099 0x30BA, PUCompose 0x30BB 0x3099 0x30BC, PUCompose 0x30BD 0x3099 0x30BE,
    PUCompose 0x30BF 0x3099 0x30C0, PUCompose 0x30C1 0x3099 0x30C2, PUCompose 0x30C4 0x3099 0x30C5,
    PUCompose 0x30C6 0x3099 0x30C7, PUCompose 0x30C8 0x3099 0x30C9, PUCompose 0x30CF 0x3099 0x30D0,
    PUCompose 0x30CF 0x309A 0x30D1, PUCompose 0x30D2 0x3099 0x30D3, PUCompose 0x30D2 0x309A 0x30D4,
    PUCompose 0x30D5 0x3099 0x30D6, PUCompose 0x30D5 0x309A 0x30D7, PUCompose 0x30D8 0x3099 0x30D9,
    PUCompose 0x30D8 0x309A 0x30DA, PUCompose 0x30DB 0x3099 0x30DC, PUCompose 0x30DB 0x309A 0x30DD,
    PUCompose 0x30EF 0x3099 0x30F7, PUCompose 0x30F0 0x3099 0x30F8, PUCompose 0x30F1 0x3099 0x30F9,
    PUCompose 0x30F2 0x3099 0x30FA, PUCompose 0x30FD 0x3099 0x30FE, PUCompose 0x105D2 0x307 0x105C9,
    PUCompose 0x105DA 0x307 0x105E4, PUCompose 0x11099 0x110BA 0x1109A, PUCompose 0x1109B 0x110BA 0x1109C,
    PUCompose 0x110A5 0x110BA 0x110AB, PUCompose 0x11131 0x11127 0x1112E, PUCompose 0x11132 0x11127 0x1112F,
    PUCompose 0x11347 0x1133E 0x1134B, PUCompose 0x11347 0x11357 0x1134C, PUCompose 0x11382 0x113C9 0x11383,
    PUCompose 0x11384 0x113BB 0x11385, PUCompose 0x1138B 0x113C2 0x1138E, PUCompose 0x11390 0x113C9 0x11391,
    PUCompose 0x113C2 0x113B8 0x113C7, PUCompose 0x113C2 0x113C2 0x113C5, PUCompose 0x113C2 0x113C9 0x113C8,
    PUCompose 0x114B9 0x114B0 0x114BC, PUCompose 0x114B9 0x114BA 0x114BB, PUCompose 0x114B9 0x114BD 0x114BE,
    PUCompose 0x115B8 0x115AF 0x115BA, PUCompose 0x115B9 0x115AF 0x115BB, PUCompose 0x11935 0x11930 0x11938,
    PUCompose 0x1611E 0x1611E 0x16121, PUCompose 0x1611E 0x1611F 0x16123, PUCompose 0x1611E 0x16120 0x16125,
    PUCompose 0x1611E 0x16129 0x16122, PUCompose 0x16121 0x1611F 0x16126, PUCompose 0x16121 0x16120 0x16128,
    PUCompose 0x16122 0x1611F 0x16127, PUCompose 0x16129 0x1611F 0x16124, PUCompose 0x16D63 0x16D67 0x16D69,
    PUCompose 0x16D67 0x16D67 0x16D68, PUCompose 0x16D69 0x16D67 0x16D6A]"

definition pas_u_compose_tbl :: "pas_u_compose list" where
  "pas_u_compose_tbl = pas_u_compose_tbl_0 @ pas_u_compose_tbl_1 @ pas_u_compose_tbl_2 @ pas_u_compose_tbl_3 @ pas_u_compose_tbl_4 @ pas_u_compose_tbl_5 @ pas_u_compose_tbl_6 @ pas_u_compose_tbl_7"

section \<open>The searches\<close>

definition decomp_lookup :: "cpoint \<Rightarrow> pas_u_decomp option" where
  "decomp_lookup cp =
     bisect (\<lambda>e. cp < dcp e) (\<lambda>e. cp > dcp e) pas_u_decomp_tbl 0 (length pas_u_decomp_tbl)"

definition compose_lookup :: "cpoint \<Rightarrow> cpoint \<Rightarrow> pas_u_compose option" where
  "compose_lookup a b =
     bisect (\<lambda>e. a < ca e \<or> (a = ca e \<and> b < cb e)) (\<lambda>e. a > ca e \<or> (a = ca e \<and> b > cb e))
       pas_u_compose_tbl 0 (length pas_u_compose_tbl)"

section \<open>The decompositions\<close>

text \<open>A second element of 0 stands for a singleton decomposition.\<close>

definition decomp_entry_ok :: "pas_u_decomp \<Rightarrow> bool" where
  "decomp_entry_ok e \<longleftrightarrow> scalar (dcp e) \<and> scalar (da e) \<and> scalar (db e) \<and> 0x80 \<le> dcp e"

text \<open>
  Code points with no entry, as intervals: one pass over the sorted table shows that none of
  its keys lies in any of the given intervals.
\<close>

fun gap_run :: "(nat \<times> nat) list \<Rightarrow> pas_u_decomp list \<Rightarrow> (nat \<times> nat) list option" where
  "gap_run gs [] = Some gs"
| "gap_run [] (e # es) = gap_run [] es"
| "gap_run ((l, h) # gs) (e # es) =
     (if dcp e < l then gap_run ((l, h) # gs) es
      else if h < dcp e then gap_run gs (e # es)
      else None)"

fun gaps_ok :: "nat \<Rightarrow> (nat \<times> nat) list \<Rightarrow> bool" where
  "gaps_ok n [] = True"
| "gaps_ok n ((l, h) # gs) = (n \<le> l \<and> l \<le> h \<and> gaps_ok (Suc h) gs)"

lemma gaps_ok_sorted:
  "gaps_ok n gs \<Longrightarrow> sorted_wrt (\<lambda>x y. snd x < fst y) gs \<and> (\<forall>g \<in> set gs. n \<le> fst g \<and> fst g \<le> snd g)"
proof (induction n gs rule: gaps_ok.induct)
  case (2 n l h gs)
  then have "sorted_wrt (\<lambda>x y. snd x < fst y) gs" "\<forall>g \<in> set gs. Suc h \<le> fst g \<and> fst g \<le> snd g"
    and "n \<le> l" "l \<le> h" by auto
  then show ?case by fastforce
qed simp

lemma gap_run_append: "gap_run gs (xs @ ys) = Option.bind (gap_run gs xs) (\<lambda>hs. gap_run hs ys)"
proof (induction gs xs rule: gap_run.induct)
  case (2 e es)
  then show ?case by simp
qed auto

lemma gap_run_sound:
  "gap_run gs es \<noteq> None \<Longrightarrow> sorted_wrt (\<lambda>x y. dcp x < dcp y) es \<Longrightarrow>
     sorted_wrt (\<lambda>x y. snd x < fst y) gs \<Longrightarrow> \<forall>g \<in> set gs. fst g \<le> snd g \<Longrightarrow>
     g \<in> set gs \<Longrightarrow> e \<in> set es \<Longrightarrow> dcp e < fst g \<or> snd g < dcp e"
proof (induction gs es rule: gap_run.induct)
  case (3 l h gs e' es)
  show ?case
  proof (cases "dcp e' < l")
    case True
    then have "dcp e' < fst g" using "3.prems" by fastforce
    then show ?thesis using 3 True by auto
  next
    case False
    then have h: "h < dcp e'" "gap_run gs (e' # es) \<noteq> None"
      using "3.prems" by (auto split: if_splits)
    show ?thesis
    proof (cases "g = (l, h)")
      case True
      then show ?thesis using h "3.prems" by (auto dest: less_trans)
    next
      case g: False
      then show ?thesis using "3.IH"(2) [OF False h(1) h(2)] "3.prems" by simp
    qed
  qed
qed auto


lemma decomp_run_0: "keys_run dcp decomp_entry_ok 0 pas_u_decomp_tbl_0 = Some 348"
  by (simp add: pas_u_decomp_tbl_0_def decomp_entry_ok_def scalar_def)

lemma decomp_run_1: "keys_run dcp decomp_entry_ok 348 pas_u_decomp_tbl_1 = Some 837"
  by (simp add: pas_u_decomp_tbl_1_def decomp_entry_ok_def scalar_def)

lemma decomp_run_2: "keys_run dcp decomp_entry_ok 837 pas_u_decomp_tbl_2 = Some 3549"
  by (simp add: pas_u_decomp_tbl_2_def decomp_entry_ok_def scalar_def)

lemma decomp_run_3: "keys_run dcp decomp_entry_ok 3549 pas_u_decomp_tbl_3 = Some 7777"
  by (simp add: pas_u_decomp_tbl_3_def decomp_entry_ok_def scalar_def)

lemma decomp_run_4: "keys_run dcp decomp_entry_ok 7777 pas_u_decomp_tbl_4 = Some 7910"
  by (simp add: pas_u_decomp_tbl_4_def decomp_entry_ok_def scalar_def)

lemma decomp_run_5: "keys_run dcp decomp_entry_ok 7910 pas_u_decomp_tbl_5 = Some 8056"
  by (simp add: pas_u_decomp_tbl_5_def decomp_entry_ok_def scalar_def)

lemma decomp_run_6: "keys_run dcp decomp_entry_ok 8056 pas_u_decomp_tbl_6 = Some 8604"
  by (simp add: pas_u_decomp_tbl_6_def decomp_entry_ok_def scalar_def)

lemma decomp_run_7: "keys_run dcp decomp_entry_ok 8604 pas_u_decomp_tbl_7 = Some 63769"
  by (simp add: pas_u_decomp_tbl_7_def decomp_entry_ok_def scalar_def)

lemma decomp_run_8: "keys_run dcp decomp_entry_ok 63769 pas_u_decomp_tbl_8 = Some 63897"
  by (simp add: pas_u_decomp_tbl_8_def decomp_entry_ok_def scalar_def)

lemma decomp_run_9: "keys_run dcp decomp_entry_ok 63897 pas_u_decomp_tbl_9 = Some 64030"
  by (simp add: pas_u_decomp_tbl_9_def decomp_entry_ok_def scalar_def)

lemma decomp_run_10: "keys_run dcp decomp_entry_ok 64030 pas_u_decomp_tbl_10 = Some 64167"
  by (simp add: pas_u_decomp_tbl_10_def decomp_entry_ok_def scalar_def)

lemma decomp_run_11: "keys_run dcp decomp_entry_ok 64167 pas_u_decomp_tbl_11 = Some 119230"
  by (simp add: pas_u_decomp_tbl_11_def decomp_entry_ok_def scalar_def)

lemma decomp_run_12: "keys_run dcp decomp_entry_ok 119230 pas_u_decomp_tbl_12 = Some 194685"
  by (simp add: pas_u_decomp_tbl_12_def decomp_entry_ok_def scalar_def)

lemma decomp_run_13: "keys_run dcp decomp_entry_ok 194685 pas_u_decomp_tbl_13 = Some 194813"
  by (simp add: pas_u_decomp_tbl_13_def decomp_entry_ok_def scalar_def)

lemma decomp_run_14: "keys_run dcp decomp_entry_ok 194813 pas_u_decomp_tbl_14 = Some 194941"
  by (simp add: pas_u_decomp_tbl_14_def decomp_entry_ok_def scalar_def)

lemma decomp_run_15: "keys_run dcp decomp_entry_ok 194941 pas_u_decomp_tbl_15 = Some 195069"
  by (simp add: pas_u_decomp_tbl_15_def decomp_entry_ok_def scalar_def)

lemma decomp_run_16: "keys_run dcp decomp_entry_ok 195069 pas_u_decomp_tbl_16 = Some 195102"
  by (simp add: pas_u_decomp_tbl_16_def decomp_entry_ok_def scalar_def)

interpretation decomp: key_table dcp decomp_entry_ok pas_u_decomp_tbl
  by unfold_locales (simp add: pas_u_decomp_tbl_def keys_run_append decomp_run_0 decomp_run_1 decomp_run_2 decomp_run_3 decomp_run_4 decomp_run_5 decomp_run_6 decomp_run_7 decomp_run_8 decomp_run_9 decomp_run_10 decomp_run_11 decomp_run_12 decomp_run_13 decomp_run_14 decomp_run_15 decomp_run_16)

definition decomp_gaps :: "(nat \<times> nat) list" where
  "decomp_gaps = [(0x0, 0xBF), (0xC6, 0xC6), (0xD7, 0xD8), (0xE6, 0xE6), (0xF7, 0xF8), (0x17F, 0x19F),
    (0x1B1, 0x1CC), (0x234, 0x33F), (0x342, 0x342), (0x345, 0x373), (0x391, 0x3A9), (0x3B1, 0x3C9),
    (0x3CF, 0x3D2), (0x404, 0x406), (0x40F, 0x418), (0x41A, 0x438), (0x43A, 0x44F), (0x454, 0x456),
    (0x45F, 0x475), (0x4D8, 0x4D9), (0x4E8, 0x4E9), (0x4FA, 0x621), (0x627, 0x6BF), (0x6C1, 0x6C1),
    (0x6C3, 0x6D2), (0x6D4, 0x928), (0x92A, 0x930), (0x932, 0x933), (0x935, 0x957), (0x960, 0x9CA),
    (0x9CD, 0x9DB), (0x9E0, 0xA32), (0xA37, 0xA58), (0xA5F, 0xB47), (0xB4D, 0xB5B), (0xB5E, 0xB93),
    (0xB95, 0xBC9), (0xBCD, 0xC47), (0xC49, 0xCBF), (0xCC1, 0xCC6), (0xCCC, 0xD49), (0xD4D, 0xDD9),
    (0xDDF, 0xF42), (0xF44, 0xF4C), (0xF4E, 0xF51), (0xF53, 0xF56), (0xF58, 0xF5B), (0xF6A, 0xF72),
    (0xF74, 0xF74), (0xF79, 0xF80), (0xF82, 0xF92), (0xF94, 0xF9C), (0xF9E, 0xFA1), (0xFA3, 0xFA6),
    (0xFA8, 0xFAB), (0xFAD, 0xFB8), (0xFBA, 0x1025), (0x1027, 0x1B05), (0x1B07, 0x1B07), (0x1B09, 0x1B09),
    (0x1B0B, 0x1B0B), (0x1B0D, 0x1B0D), (0x1B0F, 0x1B11), (0x1B13, 0x1B3A), (0x1B3C, 0x1B3C), (0x1B3E, 0x1B3F),
    (0x1B42, 0x1B42), (0x1FBF, 0x1FC0), (0x1FFE, 0x1FFF), (0x2002, 0x2125), (0x212C, 0x2199), (0x21D0, 0x2203),
    (0x2205, 0x2208), (0x220A, 0x220B), (0x220D, 0x2223), (0x2225, 0x2225), (0x2227, 0x2240), (0x2242, 0x2243),
    (0x2245, 0x2246), (0x2248, 0x2248), (0x224A, 0x225F), (0x2261, 0x2261), (0x2263, 0x226C), (0x2272, 0x2273),
    (0x2276, 0x2277), (0x227A, 0x227F), (0x2282, 0x2283), (0x2286, 0x2287), (0x228A, 0x22AB), (0x22B0, 0x22DF),
    (0x2ADD, 0x304B), (0x304D, 0x304D), (0x304F, 0x304F), (0x3051, 0x3051), (0x3053, 0x3053), (0x3055, 0x3055),
    (0x3057, 0x3057), (0x3059, 0x3059), (0x305B, 0x305B), (0x305D, 0x305D), (0x305F, 0x305F), (0x3061, 0x3061),
    (0x3063, 0x3064), (0x3066, 0x3066), (0x3068, 0x3068), (0x306A, 0x306F), (0x3072, 0x3072), (0x3075, 0x3075),
    (0x3078, 0x3078), (0x307B, 0x307B), (0x3095, 0x309D), (0x309F, 0x30AB), (0x30AD, 0x30AD), (0x30AF, 0x30AF),
    (0x30B1, 0x30B1), (0x30B3, 0x30B3), (0x30B5, 0x30B5), (0x30B7, 0x30B7), (0x30B9, 0x30B9), (0x30BB, 0x30BB),
    (0x30BD, 0x30BD), (0x30BF, 0x30BF), (0x30C1, 0x30C1), (0x30C3, 0x30C4), (0x30C6, 0x30C6), (0x30C8, 0x30C8),
    (0x30CA, 0x30CF), (0x30D2, 0x30D2), (0x30D5, 0x30D5), (0x30D8, 0x30D8), (0x30DB, 0x30DB), (0x30DE, 0x30F3),
    (0x30FB, 0x30FD), (0x30FF, 0xF8FF), (0x105CA, 0x105E3), (0x105E5, 0x11099), (0x1109B, 0x1109B), (0x1109D, 0x110AA),
    (0x110AC, 0x1112D), (0x11130, 0x1134A), (0x1134D, 0x11382), (0x11384, 0x11384), (0x11386, 0x1138D), (0x1138F, 0x11390),
    (0x11392, 0x113C4), (0x113C9, 0x114BA), (0x114BD, 0x114BD), (0x114BF, 0x115B9), (0x115BC, 0x11937), (0x11939, 0x16120),
    (0x16129, 0x16D67), (0x16D6B, 0x1D15D), (0x1D165, 0x1D1BA), (0x1D1C1, 0x2F7FF)]"

lemma decomp_gap_run_0: "gap_run (decomp_gaps) pas_u_decomp_tbl_0 = Some ([(0x17F, 0x19F), (0x1B1, 0x1CC), (0x234, 0x33F), (0x342, 0x342), (0x345, 0x373), (0x391, 0x3A9), (0x3B1, 0x3C9), (0x3CF, 0x3D2), (0x404, 0x406), (0x40F, 0x418), (0x41A, 0x438), (0x43A, 0x44F), (0x454, 0x456), (0x45F, 0x475), (0x4D8, 0x4D9), (0x4E8, 0x4E9), (0x4FA, 0x621), (0x627, 0x6BF), (0x6C1, 0x6C1), (0x6C3, 0x6D2), (0x6D4, 0x928), (0x92A, 0x930), (0x932, 0x933), (0x935, 0x957), (0x960, 0x9CA), (0x9CD, 0x9DB), (0x9E0, 0xA32), (0xA37, 0xA58), (0xA5F, 0xB47), (0xB4D, 0xB5B), (0xB5E, 0xB93), (0xB95, 0xBC9), (0xBCD, 0xC47), (0xC49, 0xCBF), (0xCC1, 0xCC6), (0xCCC, 0xD49), (0xD4D, 0xDD9), (0xDDF, 0xF42), (0xF44, 0xF4C), (0xF4E, 0xF51), (0xF53, 0xF56), (0xF58, 0xF5B), (0xF6A, 0xF72), (0xF74, 0xF74), (0xF79, 0xF80), (0xF82, 0xF92), (0xF94, 0xF9C), (0xF9E, 0xFA1), (0xFA3, 0xFA6), (0xFA8, 0xFAB), (0xFAD, 0xFB8), (0xFBA, 0x1025), (0x1027, 0x1B05), (0x1B07, 0x1B07), (0x1B09, 0x1B09), (0x1B0B, 0x1B0B), (0x1B0D, 0x1B0D), (0x1B0F, 0x1B11), (0x1B13, 0x1B3A), (0x1B3C, 0x1B3C), (0x1B3E, 0x1B3F), (0x1B42, 0x1B42), (0x1FBF, 0x1FC0), (0x1FFE, 0x1FFF), (0x2002, 0x2125), (0x212C, 0x2199), (0x21D0, 0x2203), (0x2205, 0x2208), (0x220A, 0x220B), (0x220D, 0x2223), (0x2225, 0x2225), (0x2227, 0x2240), (0x2242, 0x2243), (0x2245, 0x2246), (0x2248, 0x2248), (0x224A, 0x225F), (0x2261, 0x2261), (0x2263, 0x226C), (0x2272, 0x2273), (0x2276, 0x2277), (0x227A, 0x227F), (0x2282, 0x2283), (0x2286, 0x2287), (0x228A, 0x22AB), (0x22B0, 0x22DF), (0x2ADD, 0x304B), (0x304D, 0x304D), (0x304F, 0x304F), (0x3051, 0x3051), (0x3053, 0x3053), (0x3055, 0x3055), (0x3057, 0x3057), (0x3059, 0x3059), (0x305B, 0x305B), (0x305D, 0x305D), (0x305F, 0x305F), (0x3061, 0x3061), (0x3063, 0x3064), (0x3066, 0x3066), (0x3068, 0x3068), (0x306A, 0x306F), (0x3072, 0x3072), (0x3075, 0x3075), (0x3078, 0x3078), (0x307B, 0x307B), (0x3095, 0x309D), (0x309F, 0x30AB), (0x30AD, 0x30AD), (0x30AF, 0x30AF), (0x30B1, 0x30B1), (0x30B3, 0x30B3), (0x30B5, 0x30B5), (0x30B7, 0x30B7), (0x30B9, 0x30B9), (0x30BB, 0x30BB), (0x30BD, 0x30BD), (0x30BF, 0x30BF), (0x30C1, 0x30C1), (0x30C3, 0x30C4), (0x30C6, 0x30C6), (0x30C8, 0x30C8), (0x30CA, 0x30CF), (0x30D2, 0x30D2), (0x30D5, 0x30D5), (0x30D8, 0x30D8), (0x30DB, 0x30DB), (0x30DE, 0x30F3), (0x30FB, 0x30FD), (0x30FF, 0xF8FF), (0x105CA, 0x105E3), (0x105E5, 0x11099), (0x1109B, 0x1109B), (0x1109D, 0x110AA), (0x110AC, 0x1112D), (0x11130, 0x1134A), (0x1134D, 0x11382), (0x11384, 0x11384), (0x11386, 0x1138D), (0x1138F, 0x11390), (0x11392, 0x113C4), (0x113C9, 0x114BA), (0x114BD, 0x114BD), (0x114BF, 0x115B9), (0x115BC, 0x11937), (0x11939, 0x16120), (0x16129, 0x16D67), (0x16D6B, 0x1D15D), (0x1D165, 0x1D1BA), (0x1D1C1, 0x2F7FF)])"
  by (simp add: decomp_gaps_def pas_u_decomp_tbl_0_def)

lemma decomp_gap_run_1: "gap_run ([(0x17F, 0x19F), (0x1B1, 0x1CC), (0x234, 0x33F), (0x342, 0x342), (0x345, 0x373), (0x391, 0x3A9), (0x3B1, 0x3C9), (0x3CF, 0x3D2), (0x404, 0x406), (0x40F, 0x418), (0x41A, 0x438), (0x43A, 0x44F), (0x454, 0x456), (0x45F, 0x475), (0x4D8, 0x4D9), (0x4E8, 0x4E9), (0x4FA, 0x621), (0x627, 0x6BF), (0x6C1, 0x6C1), (0x6C3, 0x6D2), (0x6D4, 0x928), (0x92A, 0x930), (0x932, 0x933), (0x935, 0x957), (0x960, 0x9CA), (0x9CD, 0x9DB), (0x9E0, 0xA32), (0xA37, 0xA58), (0xA5F, 0xB47), (0xB4D, 0xB5B), (0xB5E, 0xB93), (0xB95, 0xBC9), (0xBCD, 0xC47), (0xC49, 0xCBF), (0xCC1, 0xCC6), (0xCCC, 0xD49), (0xD4D, 0xDD9), (0xDDF, 0xF42), (0xF44, 0xF4C), (0xF4E, 0xF51), (0xF53, 0xF56), (0xF58, 0xF5B), (0xF6A, 0xF72), (0xF74, 0xF74), (0xF79, 0xF80), (0xF82, 0xF92), (0xF94, 0xF9C), (0xF9E, 0xFA1), (0xFA3, 0xFA6), (0xFA8, 0xFAB), (0xFAD, 0xFB8), (0xFBA, 0x1025), (0x1027, 0x1B05), (0x1B07, 0x1B07), (0x1B09, 0x1B09), (0x1B0B, 0x1B0B), (0x1B0D, 0x1B0D), (0x1B0F, 0x1B11), (0x1B13, 0x1B3A), (0x1B3C, 0x1B3C), (0x1B3E, 0x1B3F), (0x1B42, 0x1B42), (0x1FBF, 0x1FC0), (0x1FFE, 0x1FFF), (0x2002, 0x2125), (0x212C, 0x2199), (0x21D0, 0x2203), (0x2205, 0x2208), (0x220A, 0x220B), (0x220D, 0x2223), (0x2225, 0x2225), (0x2227, 0x2240), (0x2242, 0x2243), (0x2245, 0x2246), (0x2248, 0x2248), (0x224A, 0x225F), (0x2261, 0x2261), (0x2263, 0x226C), (0x2272, 0x2273), (0x2276, 0x2277), (0x227A, 0x227F), (0x2282, 0x2283), (0x2286, 0x2287), (0x228A, 0x22AB), (0x22B0, 0x22DF), (0x2ADD, 0x304B), (0x304D, 0x304D), (0x304F, 0x304F), (0x3051, 0x3051), (0x3053, 0x3053), (0x3055, 0x3055), (0x3057, 0x3057), (0x3059, 0x3059), (0x305B, 0x305B), (0x305D, 0x305D), (0x305F, 0x305F), (0x3061, 0x3061), (0x3063, 0x3064), (0x3066, 0x3066), (0x3068, 0x3068), (0x306A, 0x306F), (0x3072, 0x3072), (0x3075, 0x3075), (0x3078, 0x3078), (0x307B, 0x307B), (0x3095, 0x309D), (0x309F, 0x30AB), (0x30AD, 0x30AD), (0x30AF, 0x30AF), (0x30B1, 0x30B1), (0x30B3, 0x30B3), (0x30B5, 0x30B5), (0x30B7, 0x30B7), (0x30B9, 0x30B9), (0x30BB, 0x30BB), (0x30BD, 0x30BD), (0x30BF, 0x30BF), (0x30C1, 0x30C1), (0x30C3, 0x30C4), (0x30C6, 0x30C6), (0x30C8, 0x30C8), (0x30CA, 0x30CF), (0x30D2, 0x30D2), (0x30D5, 0x30D5), (0x30D8, 0x30D8), (0x30DB, 0x30DB), (0x30DE, 0x30F3), (0x30FB, 0x30FD), (0x30FF, 0xF8FF), (0x105CA, 0x105E3), (0x105E5, 0x11099), (0x1109B, 0x1109B), (0x1109D, 0x110AA), (0x110AC, 0x1112D), (0x11130, 0x1134A), (0x1134D, 0x11382), (0x11384, 0x11384), (0x11386, 0x1138D), (0x1138F, 0x11390), (0x11392, 0x113C4), (0x113C9, 0x114BA), (0x114BD, 0x114BD), (0x114BF, 0x115B9), (0x115BC, 0x11937), (0x11939, 0x16120), (0x16129, 0x16D67), (0x16D6B, 0x1D15D), (0x1D165, 0x1D1BA), (0x1D1C1, 0x2F7FF)]) pas_u_decomp_tbl_1 = Some ([(0x345, 0x373), (0x391, 0x3A9), (0x3B1, 0x3C9), (0x3CF, 0x3D2), (0x404, 0x406), (0x40F, 0x418), (0x41A, 0x438), (0x43A, 0x44F), (0x454, 0x456), (0x45F, 0x475), (0x4D8, 0x4D9), (0x4E8, 0x4E9), (0x4FA, 0x621), (0x627, 0x6BF), (0x6C1, 0x6C1), (0x6C3, 0x6D2), (0x6D4, 0x928), (0x92A, 0x930), (0x932, 0x933), (0x935, 0x957), (0x960, 0x9CA), (0x9CD, 0x9DB), (0x9E0, 0xA32), (0xA37, 0xA58), (0xA5F, 0xB47), (0xB4D, 0xB5B), (0xB5E, 0xB93), (0xB95, 0xBC9), (0xBCD, 0xC47), (0xC49, 0xCBF), (0xCC1, 0xCC6), (0xCCC, 0xD49), (0xD4D, 0xDD9), (0xDDF, 0xF42), (0xF44, 0xF4C), (0xF4E, 0xF51), (0xF53, 0xF56), (0xF58, 0xF5B), (0xF6A, 0xF72), (0xF74, 0xF74), (0xF79, 0xF80), (0xF82, 0xF92), (0xF94, 0xF9C), (0xF9E, 0xFA1), (0xFA3, 0xFA6), (0xFA8, 0xFAB), (0xFAD, 0xFB8), (0xFBA, 0x1025), (0x1027, 0x1B05), (0x1B07, 0x1B07), (0x1B09, 0x1B09), (0x1B0B, 0x1B0B), (0x1B0D, 0x1B0D), (0x1B0F, 0x1B11), (0x1B13, 0x1B3A), (0x1B3C, 0x1B3C), (0x1B3E, 0x1B3F), (0x1B42, 0x1B42), (0x1FBF, 0x1FC0), (0x1FFE, 0x1FFF), (0x2002, 0x2125), (0x212C, 0x2199), (0x21D0, 0x2203), (0x2205, 0x2208), (0x220A, 0x220B), (0x220D, 0x2223), (0x2225, 0x2225), (0x2227, 0x2240), (0x2242, 0x2243), (0x2245, 0x2246), (0x2248, 0x2248), (0x224A, 0x225F), (0x2261, 0x2261), (0x2263, 0x226C), (0x2272, 0x2273), (0x2276, 0x2277), (0x227A, 0x227F), (0x2282, 0x2283), (0x2286, 0x2287), (0x228A, 0x22AB), (0x22B0, 0x22DF), (0x2ADD, 0x304B), (0x304D, 0x304D), (0x304F, 0x304F), (0x3051, 0x3051), (0x3053, 0x3053), (0x3055, 0x3055), (0x3057, 0x3057), (0x3059, 0x3059), (0x305B, 0x305B), (0x305D, 0x305D), (0x305F, 0x305F), (0x3061, 0x3061), (0x3063, 0x3064), (0x3066, 0x3066), (0x3068, 0x3068), (0x306A, 0x306F), (0x3072, 0x3072), (0x3075, 0x3075), (0x3078, 0x3078), (0x307B, 0x307B), (0x3095, 0x309D), (0x309F, 0x30AB), (0x30AD, 0x30AD), (0x30AF, 0x30AF), (0x30B1, 0x30B1), (0x30B3, 0x30B3), (0x30B5, 0x30B5), (0x30B7, 0x30B7), (0x30B9, 0x30B9), (0x30BB, 0x30BB), (0x30BD, 0x30BD), (0x30BF, 0x30BF), (0x30C1, 0x30C1), (0x30C3, 0x30C4), (0x30C6, 0x30C6), (0x30C8, 0x30C8), (0x30CA, 0x30CF), (0x30D2, 0x30D2), (0x30D5, 0x30D5), (0x30D8, 0x30D8), (0x30DB, 0x30DB), (0x30DE, 0x30F3), (0x30FB, 0x30FD), (0x30FF, 0xF8FF), (0x105CA, 0x105E3), (0x105E5, 0x11099), (0x1109B, 0x1109B), (0x1109D, 0x110AA), (0x110AC, 0x1112D), (0x11130, 0x1134A), (0x1134D, 0x11382), (0x11384, 0x11384), (0x11386, 0x1138D), (0x1138F, 0x11390), (0x11392, 0x113C4), (0x113C9, 0x114BA), (0x114BD, 0x114BD), (0x114BF, 0x115B9), (0x115BC, 0x11937), (0x11939, 0x16120), (0x16129, 0x16D67), (0x16D6B, 0x1D15D), (0x1D165, 0x1D1BA), (0x1D1C1, 0x2F7FF)])"
  by (simp add: pas_u_decomp_tbl_1_def)

lemma decomp_gap_run_2: "gap_run ([(0x345, 0x373), (0x391, 0x3A9), (0x3B1, 0x3C9), (0x3CF, 0x3D2), (0x404, 0x406), (0x40F, 0x418), (0x41A, 0x438), (0x43A, 0x44F), (0x454, 0x456), (0x45F, 0x475), (0x4D8, 0x4D9), (0x4E8, 0x4E9), (0x4FA, 0x621), (0x627, 0x6BF), (0x6C1, 0x6C1), (0x6C3, 0x6D2), (0x6D4, 0x928), (0x92A, 0x930), (0x932, 0x933), (0x935, 0x957), (0x960, 0x9CA), (0x9CD, 0x9DB), (0x9E0, 0xA32), (0xA37, 0xA58), (0xA5F, 0xB47), (0xB4D, 0xB5B), (0xB5E, 0xB93), (0xB95, 0xBC9), (0xBCD, 0xC47), (0xC49, 0xCBF), (0xCC1, 0xCC6), (0xCCC, 0xD49), (0xD4D, 0xDD9), (0xDDF, 0xF42), (0xF44, 0xF4C), (0xF4E, 0xF51), (0xF53, 0xF56), (0xF58, 0xF5B), (0xF6A, 0xF72), (0xF74, 0xF74), (0xF79, 0xF80), (0xF82, 0xF92), (0xF94, 0xF9C), (0xF9E, 0xFA1), (0xFA3, 0xFA6), (0xFA8, 0xFAB), (0xFAD, 0xFB8), (0xFBA, 0x1025), (0x1027, 0x1B05), (0x1B07, 0x1B07), (0x1B09, 0x1B09), (0x1B0B, 0x1B0B), (0x1B0D, 0x1B0D), (0x1B0F, 0x1B11), (0x1B13, 0x1B3A), (0x1B3C, 0x1B3C), (0x1B3E, 0x1B3F), (0x1B42, 0x1B42), (0x1FBF, 0x1FC0), (0x1FFE, 0x1FFF), (0x2002, 0x2125), (0x212C, 0x2199), (0x21D0, 0x2203), (0x2205, 0x2208), (0x220A, 0x220B), (0x220D, 0x2223), (0x2225, 0x2225), (0x2227, 0x2240), (0x2242, 0x2243), (0x2245, 0x2246), (0x2248, 0x2248), (0x224A, 0x225F), (0x2261, 0x2261), (0x2263, 0x226C), (0x2272, 0x2273), (0x2276, 0x2277), (0x227A, 0x227F), (0x2282, 0x2283), (0x2286, 0x2287), (0x228A, 0x22AB), (0x22B0, 0x22DF), (0x2ADD, 0x304B), (0x304D, 0x304D), (0x304F, 0x304F), (0x3051, 0x3051), (0x3053, 0x3053), (0x3055, 0x3055), (0x3057, 0x3057), (0x3059, 0x3059), (0x305B, 0x305B), (0x305D, 0x305D), (0x305F, 0x305F), (0x3061, 0x3061), (0x3063, 0x3064), (0x3066, 0x3066), (0x3068, 0x3068), (0x306A, 0x306F), (0x3072, 0x3072), (0x3075, 0x3075), (0x3078, 0x3078), (0x307B, 0x307B), (0x3095, 0x309D), (0x309F, 0x30AB), (0x30AD, 0x30AD), (0x30AF, 0x30AF), (0x30B1, 0x30B1), (0x30B3, 0x30B3), (0x30B5, 0x30B5), (0x30B7, 0x30B7), (0x30B9, 0x30B9), (0x30BB, 0x30BB), (0x30BD, 0x30BD), (0x30BF, 0x30BF), (0x30C1, 0x30C1), (0x30C3, 0x30C4), (0x30C6, 0x30C6), (0x30C8, 0x30C8), (0x30CA, 0x30CF), (0x30D2, 0x30D2), (0x30D5, 0x30D5), (0x30D8, 0x30D8), (0x30DB, 0x30DB), (0x30DE, 0x30F3), (0x30FB, 0x30FD), (0x30FF, 0xF8FF), (0x105CA, 0x105E3), (0x105E5, 0x11099), (0x1109B, 0x1109B), (0x1109D, 0x110AA), (0x110AC, 0x1112D), (0x11130, 0x1134A), (0x1134D, 0x11382), (0x11384, 0x11384), (0x11386, 0x1138D), (0x1138F, 0x11390), (0x11392, 0x113C4), (0x113C9, 0x114BA), (0x114BD, 0x114BD), (0x114BF, 0x115B9), (0x115BC, 0x11937), (0x11939, 0x16120), (0x16129, 0x16D67), (0x16D6B, 0x1D15D), (0x1D165, 0x1D1BA), (0x1D1C1, 0x2F7FF)]) pas_u_decomp_tbl_2 = Some ([(0xDDF, 0xF42), (0xF44, 0xF4C), (0xF4E, 0xF51), (0xF53, 0xF56), (0xF58, 0xF5B), (0xF6A, 0xF72), (0xF74, 0xF74), (0xF79, 0xF80), (0xF82, 0xF92), (0xF94, 0xF9C), (0xF9E, 0xFA1), (0xFA3, 0xFA6), (0xFA8, 0xFAB), (0xFAD, 0xFB8), (0xFBA, 0x1025), (0x1027, 0x1B05), (0x1B07, 0x1B07), (0x1B09, 0x1B09), (0x1B0B, 0x1B0B), (0x1B0D, 0x1B0D), (0x1B0F, 0x1B11), (0x1B13, 0x1B3A), (0x1B3C, 0x1B3C), (0x1B3E, 0x1B3F), (0x1B42, 0x1B42), (0x1FBF, 0x1FC0), (0x1FFE, 0x1FFF), (0x2002, 0x2125), (0x212C, 0x2199), (0x21D0, 0x2203), (0x2205, 0x2208), (0x220A, 0x220B), (0x220D, 0x2223), (0x2225, 0x2225), (0x2227, 0x2240), (0x2242, 0x2243), (0x2245, 0x2246), (0x2248, 0x2248), (0x224A, 0x225F), (0x2261, 0x2261), (0x2263, 0x226C), (0x2272, 0x2273), (0x2276, 0x2277), (0x227A, 0x227F), (0x2282, 0x2283), (0x2286, 0x2287), (0x228A, 0x22AB), (0x22B0, 0x22DF), (0x2ADD, 0x304B), (0x304D, 0x304D), (0x304F, 0x304F), (0x3051, 0x3051), (0x3053, 0x3053), (0x3055, 0x3055), (0x3057, 0x3057), (0x3059, 0x3059), (0x305B, 0x305B), (0x305D, 0x305D), (0x305F, 0x305F), (0x3061, 0x3061), (0x3063, 0x3064), (0x3066, 0x3066), (0x3068, 0x3068), (0x306A, 0x306F), (0x3072, 0x3072), (0x3075, 0x3075), (0x3078, 0x3078), (0x307B, 0x307B), (0x3095, 0x309D), (0x309F, 0x30AB), (0x30AD, 0x30AD), (0x30AF, 0x30AF), (0x30B1, 0x30B1), (0x30B3, 0x30B3), (0x30B5, 0x30B5), (0x30B7, 0x30B7), (0x30B9, 0x30B9), (0x30BB, 0x30BB), (0x30BD, 0x30BD), (0x30BF, 0x30BF), (0x30C1, 0x30C1), (0x30C3, 0x30C4), (0x30C6, 0x30C6), (0x30C8, 0x30C8), (0x30CA, 0x30CF), (0x30D2, 0x30D2), (0x30D5, 0x30D5), (0x30D8, 0x30D8), (0x30DB, 0x30DB), (0x30DE, 0x30F3), (0x30FB, 0x30FD), (0x30FF, 0xF8FF), (0x105CA, 0x105E3), (0x105E5, 0x11099), (0x1109B, 0x1109B), (0x1109D, 0x110AA), (0x110AC, 0x1112D), (0x11130, 0x1134A), (0x1134D, 0x11382), (0x11384, 0x11384), (0x11386, 0x1138D), (0x1138F, 0x11390), (0x11392, 0x113C4), (0x113C9, 0x114BA), (0x114BD, 0x114BD), (0x114BF, 0x115B9), (0x115BC, 0x11937), (0x11939, 0x16120), (0x16129, 0x16D67), (0x16D6B, 0x1D15D), (0x1D165, 0x1D1BA), (0x1D1C1, 0x2F7FF)])"
  by (simp add: pas_u_decomp_tbl_2_def)

lemma decomp_gap_run_3: "gap_run ([(0xDDF, 0xF42), (0xF44, 0xF4C), (0xF4E, 0xF51), (0xF53, 0xF56), (0xF58, 0xF5B), (0xF6A, 0xF72), (0xF74, 0xF74), (0xF79, 0xF80), (0xF82, 0xF92), (0xF94, 0xF9C), (0xF9E, 0xFA1), (0xFA3, 0xFA6), (0xFA8, 0xFAB), (0xFAD, 0xFB8), (0xFBA, 0x1025), (0x1027, 0x1B05), (0x1B07, 0x1B07), (0x1B09, 0x1B09), (0x1B0B, 0x1B0B), (0x1B0D, 0x1B0D), (0x1B0F, 0x1B11), (0x1B13, 0x1B3A), (0x1B3C, 0x1B3C), (0x1B3E, 0x1B3F), (0x1B42, 0x1B42), (0x1FBF, 0x1FC0), (0x1FFE, 0x1FFF), (0x2002, 0x2125), (0x212C, 0x2199), (0x21D0, 0x2203), (0x2205, 0x2208), (0x220A, 0x220B), (0x220D, 0x2223), (0x2225, 0x2225), (0x2227, 0x2240), (0x2242, 0x2243), (0x2245, 0x2246), (0x2248, 0x2248), (0x224A, 0x225F), (0x2261, 0x2261), (0x2263, 0x226C), (0x2272, 0x2273), (0x2276, 0x2277), (0x227A, 0x227F), (0x2282, 0x2283), (0x2286, 0x2287), (0x228A, 0x22AB), (0x22B0, 0x22DF), (0x2ADD, 0x304B), (0x304D, 0x304D), (0x304F, 0x304F), (0x3051, 0x3051), (0x3053, 0x3053), (0x3055, 0x3055), (0x3057, 0x3057), (0x3059, 0x3059), (0x305B, 0x305B), (0x305D, 0x305D), (0x305F, 0x305F), (0x3061, 0x3061), (0x3063, 0x3064), (0x3066, 0x3066), (0x3068, 0x3068), (0x306A, 0x306F), (0x3072, 0x3072), (0x3075, 0x3075), (0x3078, 0x3078), (0x307B, 0x307B), (0x3095, 0x309D), (0x309F, 0x30AB), (0x30AD, 0x30AD), (0x30AF, 0x30AF), (0x30B1, 0x30B1), (0x30B3, 0x30B3), (0x30B5, 0x30B5), (0x30B7, 0x30B7), (0x30B9, 0x30B9), (0x30BB, 0x30BB), (0x30BD, 0x30BD), (0x30BF, 0x30BF), (0x30C1, 0x30C1), (0x30C3, 0x30C4), (0x30C6, 0x30C6), (0x30C8, 0x30C8), (0x30CA, 0x30CF), (0x30D2, 0x30D2), (0x30D5, 0x30D5), (0x30D8, 0x30D8), (0x30DB, 0x30DB), (0x30DE, 0x30F3), (0x30FB, 0x30FD), (0x30FF, 0xF8FF), (0x105CA, 0x105E3), (0x105E5, 0x11099), (0x1109B, 0x1109B), (0x1109D, 0x110AA), (0x110AC, 0x1112D), (0x11130, 0x1134A), (0x1134D, 0x11382), (0x11384, 0x11384), (0x11386, 0x1138D), (0x1138F, 0x11390), (0x11392, 0x113C4), (0x113C9, 0x114BA), (0x114BD, 0x114BD), (0x114BF, 0x115B9), (0x115BC, 0x11937), (0x11939, 0x16120), (0x16129, 0x16D67), (0x16D6B, 0x1D15D), (0x1D165, 0x1D1BA), (0x1D1C1, 0x2F7FF)]) pas_u_decomp_tbl_3 = Some ([(0x1FBF, 0x1FC0), (0x1FFE, 0x1FFF), (0x2002, 0x2125), (0x212C, 0x2199), (0x21D0, 0x2203), (0x2205, 0x2208), (0x220A, 0x220B), (0x220D, 0x2223), (0x2225, 0x2225), (0x2227, 0x2240), (0x2242, 0x2243), (0x2245, 0x2246), (0x2248, 0x2248), (0x224A, 0x225F), (0x2261, 0x2261), (0x2263, 0x226C), (0x2272, 0x2273), (0x2276, 0x2277), (0x227A, 0x227F), (0x2282, 0x2283), (0x2286, 0x2287), (0x228A, 0x22AB), (0x22B0, 0x22DF), (0x2ADD, 0x304B), (0x304D, 0x304D), (0x304F, 0x304F), (0x3051, 0x3051), (0x3053, 0x3053), (0x3055, 0x3055), (0x3057, 0x3057), (0x3059, 0x3059), (0x305B, 0x305B), (0x305D, 0x305D), (0x305F, 0x305F), (0x3061, 0x3061), (0x3063, 0x3064), (0x3066, 0x3066), (0x3068, 0x3068), (0x306A, 0x306F), (0x3072, 0x3072), (0x3075, 0x3075), (0x3078, 0x3078), (0x307B, 0x307B), (0x3095, 0x309D), (0x309F, 0x30AB), (0x30AD, 0x30AD), (0x30AF, 0x30AF), (0x30B1, 0x30B1), (0x30B3, 0x30B3), (0x30B5, 0x30B5), (0x30B7, 0x30B7), (0x30B9, 0x30B9), (0x30BB, 0x30BB), (0x30BD, 0x30BD), (0x30BF, 0x30BF), (0x30C1, 0x30C1), (0x30C3, 0x30C4), (0x30C6, 0x30C6), (0x30C8, 0x30C8), (0x30CA, 0x30CF), (0x30D2, 0x30D2), (0x30D5, 0x30D5), (0x30D8, 0x30D8), (0x30DB, 0x30DB), (0x30DE, 0x30F3), (0x30FB, 0x30FD), (0x30FF, 0xF8FF), (0x105CA, 0x105E3), (0x105E5, 0x11099), (0x1109B, 0x1109B), (0x1109D, 0x110AA), (0x110AC, 0x1112D), (0x11130, 0x1134A), (0x1134D, 0x11382), (0x11384, 0x11384), (0x11386, 0x1138D), (0x1138F, 0x11390), (0x11392, 0x113C4), (0x113C9, 0x114BA), (0x114BD, 0x114BD), (0x114BF, 0x115B9), (0x115BC, 0x11937), (0x11939, 0x16120), (0x16129, 0x16D67), (0x16D6B, 0x1D15D), (0x1D165, 0x1D1BA), (0x1D1C1, 0x2F7FF)])"
  by (simp add: pas_u_decomp_tbl_3_def)

lemma decomp_gap_run_4: "gap_run ([(0x1FBF, 0x1FC0), (0x1FFE, 0x1FFF), (0x2002, 0x2125), (0x212C, 0x2199), (0x21D0, 0x2203), (0x2205, 0x2208), (0x220A, 0x220B), (0x220D, 0x2223), (0x2225, 0x2225), (0x2227, 0x2240), (0x2242, 0x2243), (0x2245, 0x2246), (0x2248, 0x2248), (0x224A, 0x225F), (0x2261, 0x2261), (0x2263, 0x226C), (0x2272, 0x2273), (0x2276, 0x2277), (0x227A, 0x227F), (0x2282, 0x2283), (0x2286, 0x2287), (0x228A, 0x22AB), (0x22B0, 0x22DF), (0x2ADD, 0x304B), (0x304D, 0x304D), (0x304F, 0x304F), (0x3051, 0x3051), (0x3053, 0x3053), (0x3055, 0x3055), (0x3057, 0x3057), (0x3059, 0x3059), (0x305B, 0x305B), (0x305D, 0x305D), (0x305F, 0x305F), (0x3061, 0x3061), (0x3063, 0x3064), (0x3066, 0x3066), (0x3068, 0x3068), (0x306A, 0x306F), (0x3072, 0x3072), (0x3075, 0x3075), (0x3078, 0x3078), (0x307B, 0x307B), (0x3095, 0x309D), (0x309F, 0x30AB), (0x30AD, 0x30AD), (0x30AF, 0x30AF), (0x30B1, 0x30B1), (0x30B3, 0x30B3), (0x30B5, 0x30B5), (0x30B7, 0x30B7), (0x30B9, 0x30B9), (0x30BB, 0x30BB), (0x30BD, 0x30BD), (0x30BF, 0x30BF), (0x30C1, 0x30C1), (0x30C3, 0x30C4), (0x30C6, 0x30C6), (0x30C8, 0x30C8), (0x30CA, 0x30CF), (0x30D2, 0x30D2), (0x30D5, 0x30D5), (0x30D8, 0x30D8), (0x30DB, 0x30DB), (0x30DE, 0x30F3), (0x30FB, 0x30FD), (0x30FF, 0xF8FF), (0x105CA, 0x105E3), (0x105E5, 0x11099), (0x1109B, 0x1109B), (0x1109D, 0x110AA), (0x110AC, 0x1112D), (0x11130, 0x1134A), (0x1134D, 0x11382), (0x11384, 0x11384), (0x11386, 0x1138D), (0x1138F, 0x11390), (0x11392, 0x113C4), (0x113C9, 0x114BA), (0x114BD, 0x114BD), (0x114BF, 0x115B9), (0x115BC, 0x11937), (0x11939, 0x16120), (0x16129, 0x16D67), (0x16D6B, 0x1D15D), (0x1D165, 0x1D1BA), (0x1D1C1, 0x2F7FF)]) pas_u_decomp_tbl_4 = Some ([(0x1FBF, 0x1FC0), (0x1FFE, 0x1FFF), (0x2002, 0x2125), (0x212C, 0x2199), (0x21D0, 0x2203), (0x2205, 0x2208), (0x220A, 0x220B), (0x220D, 0x2223), (0x2225, 0x2225), (0x2227, 0x2240), (0x2242, 0x2243), (0x2245, 0x2246), (0x2248, 0x2248), (0x224A, 0x225F), (0x2261, 0x2261), (0x2263, 0x226C), (0x2272, 0x2273), (0x2276, 0x2277), (0x227A, 0x227F), (0x2282, 0x2283), (0x2286, 0x2287), (0x228A, 0x22AB), (0x22B0, 0x22DF), (0x2ADD, 0x304B), (0x304D, 0x304D), (0x304F, 0x304F), (0x3051, 0x3051), (0x3053, 0x3053), (0x3055, 0x3055), (0x3057, 0x3057), (0x3059, 0x3059), (0x305B, 0x305B), (0x305D, 0x305D), (0x305F, 0x305F), (0x3061, 0x3061), (0x3063, 0x3064), (0x3066, 0x3066), (0x3068, 0x3068), (0x306A, 0x306F), (0x3072, 0x3072), (0x3075, 0x3075), (0x3078, 0x3078), (0x307B, 0x307B), (0x3095, 0x309D), (0x309F, 0x30AB), (0x30AD, 0x30AD), (0x30AF, 0x30AF), (0x30B1, 0x30B1), (0x30B3, 0x30B3), (0x30B5, 0x30B5), (0x30B7, 0x30B7), (0x30B9, 0x30B9), (0x30BB, 0x30BB), (0x30BD, 0x30BD), (0x30BF, 0x30BF), (0x30C1, 0x30C1), (0x30C3, 0x30C4), (0x30C6, 0x30C6), (0x30C8, 0x30C8), (0x30CA, 0x30CF), (0x30D2, 0x30D2), (0x30D5, 0x30D5), (0x30D8, 0x30D8), (0x30DB, 0x30DB), (0x30DE, 0x30F3), (0x30FB, 0x30FD), (0x30FF, 0xF8FF), (0x105CA, 0x105E3), (0x105E5, 0x11099), (0x1109B, 0x1109B), (0x1109D, 0x110AA), (0x110AC, 0x1112D), (0x11130, 0x1134A), (0x1134D, 0x11382), (0x11384, 0x11384), (0x11386, 0x1138D), (0x1138F, 0x11390), (0x11392, 0x113C4), (0x113C9, 0x114BA), (0x114BD, 0x114BD), (0x114BF, 0x115B9), (0x115BC, 0x11937), (0x11939, 0x16120), (0x16129, 0x16D67), (0x16D6B, 0x1D15D), (0x1D165, 0x1D1BA), (0x1D1C1, 0x2F7FF)])"
  by (simp add: pas_u_decomp_tbl_4_def)

lemma decomp_gap_run_5: "gap_run ([(0x1FBF, 0x1FC0), (0x1FFE, 0x1FFF), (0x2002, 0x2125), (0x212C, 0x2199), (0x21D0, 0x2203), (0x2205, 0x2208), (0x220A, 0x220B), (0x220D, 0x2223), (0x2225, 0x2225), (0x2227, 0x2240), (0x2242, 0x2243), (0x2245, 0x2246), (0x2248, 0x2248), (0x224A, 0x225F), (0x2261, 0x2261), (0x2263, 0x226C), (0x2272, 0x2273), (0x2276, 0x2277), (0x227A, 0x227F), (0x2282, 0x2283), (0x2286, 0x2287), (0x228A, 0x22AB), (0x22B0, 0x22DF), (0x2ADD, 0x304B), (0x304D, 0x304D), (0x304F, 0x304F), (0x3051, 0x3051), (0x3053, 0x3053), (0x3055, 0x3055), (0x3057, 0x3057), (0x3059, 0x3059), (0x305B, 0x305B), (0x305D, 0x305D), (0x305F, 0x305F), (0x3061, 0x3061), (0x3063, 0x3064), (0x3066, 0x3066), (0x3068, 0x3068), (0x306A, 0x306F), (0x3072, 0x3072), (0x3075, 0x3075), (0x3078, 0x3078), (0x307B, 0x307B), (0x3095, 0x309D), (0x309F, 0x30AB), (0x30AD, 0x30AD), (0x30AF, 0x30AF), (0x30B1, 0x30B1), (0x30B3, 0x30B3), (0x30B5, 0x30B5), (0x30B7, 0x30B7), (0x30B9, 0x30B9), (0x30BB, 0x30BB), (0x30BD, 0x30BD), (0x30BF, 0x30BF), (0x30C1, 0x30C1), (0x30C3, 0x30C4), (0x30C6, 0x30C6), (0x30C8, 0x30C8), (0x30CA, 0x30CF), (0x30D2, 0x30D2), (0x30D5, 0x30D5), (0x30D8, 0x30D8), (0x30DB, 0x30DB), (0x30DE, 0x30F3), (0x30FB, 0x30FD), (0x30FF, 0xF8FF), (0x105CA, 0x105E3), (0x105E5, 0x11099), (0x1109B, 0x1109B), (0x1109D, 0x110AA), (0x110AC, 0x1112D), (0x11130, 0x1134A), (0x1134D, 0x11382), (0x11384, 0x11384), (0x11386, 0x1138D), (0x1138F, 0x11390), (0x11392, 0x113C4), (0x113C9, 0x114BA), (0x114BD, 0x114BD), (0x114BF, 0x115B9), (0x115BC, 0x11937), (0x11939, 0x16120), (0x16129, 0x16D67), (0x16D6B, 0x1D15D), (0x1D165, 0x1D1BA), (0x1D1C1, 0x2F7FF)]) pas_u_decomp_tbl_5 = Some ([(0x1FBF, 0x1FC0), (0x1FFE, 0x1FFF), (0x2002, 0x2125), (0x212C, 0x2199), (0x21D0, 0x2203), (0x2205, 0x2208), (0x220A, 0x220B), (0x220D, 0x2223), (0x2225, 0x2225), (0x2227, 0x2240), (0x2242, 0x2243), (0x2245, 0x2246), (0x2248, 0x2248), (0x224A, 0x225F), (0x2261, 0x2261), (0x2263, 0x226C), (0x2272, 0x2273), (0x2276, 0x2277), (0x227A, 0x227F), (0x2282, 0x2283), (0x2286, 0x2287), (0x228A, 0x22AB), (0x22B0, 0x22DF), (0x2ADD, 0x304B), (0x304D, 0x304D), (0x304F, 0x304F), (0x3051, 0x3051), (0x3053, 0x3053), (0x3055, 0x3055), (0x3057, 0x3057), (0x3059, 0x3059), (0x305B, 0x305B), (0x305D, 0x305D), (0x305F, 0x305F), (0x3061, 0x3061), (0x3063, 0x3064), (0x3066, 0x3066), (0x3068, 0x3068), (0x306A, 0x306F), (0x3072, 0x3072), (0x3075, 0x3075), (0x3078, 0x3078), (0x307B, 0x307B), (0x3095, 0x309D), (0x309F, 0x30AB), (0x30AD, 0x30AD), (0x30AF, 0x30AF), (0x30B1, 0x30B1), (0x30B3, 0x30B3), (0x30B5, 0x30B5), (0x30B7, 0x30B7), (0x30B9, 0x30B9), (0x30BB, 0x30BB), (0x30BD, 0x30BD), (0x30BF, 0x30BF), (0x30C1, 0x30C1), (0x30C3, 0x30C4), (0x30C6, 0x30C6), (0x30C8, 0x30C8), (0x30CA, 0x30CF), (0x30D2, 0x30D2), (0x30D5, 0x30D5), (0x30D8, 0x30D8), (0x30DB, 0x30DB), (0x30DE, 0x30F3), (0x30FB, 0x30FD), (0x30FF, 0xF8FF), (0x105CA, 0x105E3), (0x105E5, 0x11099), (0x1109B, 0x1109B), (0x1109D, 0x110AA), (0x110AC, 0x1112D), (0x11130, 0x1134A), (0x1134D, 0x11382), (0x11384, 0x11384), (0x11386, 0x1138D), (0x1138F, 0x11390), (0x11392, 0x113C4), (0x113C9, 0x114BA), (0x114BD, 0x114BD), (0x114BF, 0x115B9), (0x115BC, 0x11937), (0x11939, 0x16120), (0x16129, 0x16D67), (0x16D6B, 0x1D15D), (0x1D165, 0x1D1BA), (0x1D1C1, 0x2F7FF)])"
  by (simp add: pas_u_decomp_tbl_5_def)

lemma decomp_gap_run_6: "gap_run ([(0x1FBF, 0x1FC0), (0x1FFE, 0x1FFF), (0x2002, 0x2125), (0x212C, 0x2199), (0x21D0, 0x2203), (0x2205, 0x2208), (0x220A, 0x220B), (0x220D, 0x2223), (0x2225, 0x2225), (0x2227, 0x2240), (0x2242, 0x2243), (0x2245, 0x2246), (0x2248, 0x2248), (0x224A, 0x225F), (0x2261, 0x2261), (0x2263, 0x226C), (0x2272, 0x2273), (0x2276, 0x2277), (0x227A, 0x227F), (0x2282, 0x2283), (0x2286, 0x2287), (0x228A, 0x22AB), (0x22B0, 0x22DF), (0x2ADD, 0x304B), (0x304D, 0x304D), (0x304F, 0x304F), (0x3051, 0x3051), (0x3053, 0x3053), (0x3055, 0x3055), (0x3057, 0x3057), (0x3059, 0x3059), (0x305B, 0x305B), (0x305D, 0x305D), (0x305F, 0x305F), (0x3061, 0x3061), (0x3063, 0x3064), (0x3066, 0x3066), (0x3068, 0x3068), (0x306A, 0x306F), (0x3072, 0x3072), (0x3075, 0x3075), (0x3078, 0x3078), (0x307B, 0x307B), (0x3095, 0x309D), (0x309F, 0x30AB), (0x30AD, 0x30AD), (0x30AF, 0x30AF), (0x30B1, 0x30B1), (0x30B3, 0x30B3), (0x30B5, 0x30B5), (0x30B7, 0x30B7), (0x30B9, 0x30B9), (0x30BB, 0x30BB), (0x30BD, 0x30BD), (0x30BF, 0x30BF), (0x30C1, 0x30C1), (0x30C3, 0x30C4), (0x30C6, 0x30C6), (0x30C8, 0x30C8), (0x30CA, 0x30CF), (0x30D2, 0x30D2), (0x30D5, 0x30D5), (0x30D8, 0x30D8), (0x30DB, 0x30DB), (0x30DE, 0x30F3), (0x30FB, 0x30FD), (0x30FF, 0xF8FF), (0x105CA, 0x105E3), (0x105E5, 0x11099), (0x1109B, 0x1109B), (0x1109D, 0x110AA), (0x110AC, 0x1112D), (0x11130, 0x1134A), (0x1134D, 0x11382), (0x11384, 0x11384), (0x11386, 0x1138D), (0x1138F, 0x11390), (0x11392, 0x113C4), (0x113C9, 0x114BA), (0x114BD, 0x114BD), (0x114BF, 0x115B9), (0x115BC, 0x11937), (0x11939, 0x16120), (0x16129, 0x16D67), (0x16D6B, 0x1D15D), (0x1D165, 0x1D1BA), (0x1D1C1, 0x2F7FF)]) pas_u_decomp_tbl_6 = Some ([(0x21D0, 0x2203), (0x2205, 0x2208), (0x220A, 0x220B), (0x220D, 0x2223), (0x2225, 0x2225), (0x2227, 0x2240), (0x2242, 0x2243), (0x2245, 0x2246), (0x2248, 0x2248), (0x224A, 0x225F), (0x2261, 0x2261), (0x2263, 0x226C), (0x2272, 0x2273), (0x2276, 0x2277), (0x227A, 0x227F), (0x2282, 0x2283), (0x2286, 0x2287), (0x228A, 0x22AB), (0x22B0, 0x22DF), (0x2ADD, 0x304B), (0x304D, 0x304D), (0x304F, 0x304F), (0x3051, 0x3051), (0x3053, 0x3053), (0x3055, 0x3055), (0x3057, 0x3057), (0x3059, 0x3059), (0x305B, 0x305B), (0x305D, 0x305D), (0x305F, 0x305F), (0x3061, 0x3061), (0x3063, 0x3064), (0x3066, 0x3066), (0x3068, 0x3068), (0x306A, 0x306F), (0x3072, 0x3072), (0x3075, 0x3075), (0x3078, 0x3078), (0x307B, 0x307B), (0x3095, 0x309D), (0x309F, 0x30AB), (0x30AD, 0x30AD), (0x30AF, 0x30AF), (0x30B1, 0x30B1), (0x30B3, 0x30B3), (0x30B5, 0x30B5), (0x30B7, 0x30B7), (0x30B9, 0x30B9), (0x30BB, 0x30BB), (0x30BD, 0x30BD), (0x30BF, 0x30BF), (0x30C1, 0x30C1), (0x30C3, 0x30C4), (0x30C6, 0x30C6), (0x30C8, 0x30C8), (0x30CA, 0x30CF), (0x30D2, 0x30D2), (0x30D5, 0x30D5), (0x30D8, 0x30D8), (0x30DB, 0x30DB), (0x30DE, 0x30F3), (0x30FB, 0x30FD), (0x30FF, 0xF8FF), (0x105CA, 0x105E3), (0x105E5, 0x11099), (0x1109B, 0x1109B), (0x1109D, 0x110AA), (0x110AC, 0x1112D), (0x11130, 0x1134A), (0x1134D, 0x11382), (0x11384, 0x11384), (0x11386, 0x1138D), (0x1138F, 0x11390), (0x11392, 0x113C4), (0x113C9, 0x114BA), (0x114BD, 0x114BD), (0x114BF, 0x115B9), (0x115BC, 0x11937), (0x11939, 0x16120), (0x16129, 0x16D67), (0x16D6B, 0x1D15D), (0x1D165, 0x1D1BA), (0x1D1C1, 0x2F7FF)])"
  by (simp add: pas_u_decomp_tbl_6_def)

lemma decomp_gap_run_7: "gap_run ([(0x21D0, 0x2203), (0x2205, 0x2208), (0x220A, 0x220B), (0x220D, 0x2223), (0x2225, 0x2225), (0x2227, 0x2240), (0x2242, 0x2243), (0x2245, 0x2246), (0x2248, 0x2248), (0x224A, 0x225F), (0x2261, 0x2261), (0x2263, 0x226C), (0x2272, 0x2273), (0x2276, 0x2277), (0x227A, 0x227F), (0x2282, 0x2283), (0x2286, 0x2287), (0x228A, 0x22AB), (0x22B0, 0x22DF), (0x2ADD, 0x304B), (0x304D, 0x304D), (0x304F, 0x304F), (0x3051, 0x3051), (0x3053, 0x3053), (0x3055, 0x3055), (0x3057, 0x3057), (0x3059, 0x3059), (0x305B, 0x305B), (0x305D, 0x305D), (0x305F, 0x305F), (0x3061, 0x3061), (0x3063, 0x3064), (0x3066, 0x3066), (0x3068, 0x3068), (0x306A, 0x306F), (0x3072, 0x3072), (0x3075, 0x3075), (0x3078, 0x3078), (0x307B, 0x307B), (0x3095, 0x309D), (0x309F, 0x30AB), (0x30AD, 0x30AD), (0x30AF, 0x30AF), (0x30B1, 0x30B1), (0x30B3, 0x30B3), (0x30B5, 0x30B5), (0x30B7, 0x30B7), (0x30B9, 0x30B9), (0x30BB, 0x30BB), (0x30BD, 0x30BD), (0x30BF, 0x30BF), (0x30C1, 0x30C1), (0x30C3, 0x30C4), (0x30C6, 0x30C6), (0x30C8, 0x30C8), (0x30CA, 0x30CF), (0x30D2, 0x30D2), (0x30D5, 0x30D5), (0x30D8, 0x30D8), (0x30DB, 0x30DB), (0x30DE, 0x30F3), (0x30FB, 0x30FD), (0x30FF, 0xF8FF), (0x105CA, 0x105E3), (0x105E5, 0x11099), (0x1109B, 0x1109B), (0x1109D, 0x110AA), (0x110AC, 0x1112D), (0x11130, 0x1134A), (0x1134D, 0x11382), (0x11384, 0x11384), (0x11386, 0x1138D), (0x1138F, 0x11390), (0x11392, 0x113C4), (0x113C9, 0x114BA), (0x114BD, 0x114BD), (0x114BF, 0x115B9), (0x115BC, 0x11937), (0x11939, 0x16120), (0x16129, 0x16D67), (0x16D6B, 0x1D15D), (0x1D165, 0x1D1BA), (0x1D1C1, 0x2F7FF)]) pas_u_decomp_tbl_7 = Some ([(0x105CA, 0x105E3), (0x105E5, 0x11099), (0x1109B, 0x1109B), (0x1109D, 0x110AA), (0x110AC, 0x1112D), (0x11130, 0x1134A), (0x1134D, 0x11382), (0x11384, 0x11384), (0x11386, 0x1138D), (0x1138F, 0x11390), (0x11392, 0x113C4), (0x113C9, 0x114BA), (0x114BD, 0x114BD), (0x114BF, 0x115B9), (0x115BC, 0x11937), (0x11939, 0x16120), (0x16129, 0x16D67), (0x16D6B, 0x1D15D), (0x1D165, 0x1D1BA), (0x1D1C1, 0x2F7FF)])"
  by (simp add: pas_u_decomp_tbl_7_def)

lemma decomp_gap_run_8: "gap_run ([(0x105CA, 0x105E3), (0x105E5, 0x11099), (0x1109B, 0x1109B), (0x1109D, 0x110AA), (0x110AC, 0x1112D), (0x11130, 0x1134A), (0x1134D, 0x11382), (0x11384, 0x11384), (0x11386, 0x1138D), (0x1138F, 0x11390), (0x11392, 0x113C4), (0x113C9, 0x114BA), (0x114BD, 0x114BD), (0x114BF, 0x115B9), (0x115BC, 0x11937), (0x11939, 0x16120), (0x16129, 0x16D67), (0x16D6B, 0x1D15D), (0x1D165, 0x1D1BA), (0x1D1C1, 0x2F7FF)]) pas_u_decomp_tbl_8 = Some ([(0x105CA, 0x105E3), (0x105E5, 0x11099), (0x1109B, 0x1109B), (0x1109D, 0x110AA), (0x110AC, 0x1112D), (0x11130, 0x1134A), (0x1134D, 0x11382), (0x11384, 0x11384), (0x11386, 0x1138D), (0x1138F, 0x11390), (0x11392, 0x113C4), (0x113C9, 0x114BA), (0x114BD, 0x114BD), (0x114BF, 0x115B9), (0x115BC, 0x11937), (0x11939, 0x16120), (0x16129, 0x16D67), (0x16D6B, 0x1D15D), (0x1D165, 0x1D1BA), (0x1D1C1, 0x2F7FF)])"
  by (simp add: pas_u_decomp_tbl_8_def)

lemma decomp_gap_run_9: "gap_run ([(0x105CA, 0x105E3), (0x105E5, 0x11099), (0x1109B, 0x1109B), (0x1109D, 0x110AA), (0x110AC, 0x1112D), (0x11130, 0x1134A), (0x1134D, 0x11382), (0x11384, 0x11384), (0x11386, 0x1138D), (0x1138F, 0x11390), (0x11392, 0x113C4), (0x113C9, 0x114BA), (0x114BD, 0x114BD), (0x114BF, 0x115B9), (0x115BC, 0x11937), (0x11939, 0x16120), (0x16129, 0x16D67), (0x16D6B, 0x1D15D), (0x1D165, 0x1D1BA), (0x1D1C1, 0x2F7FF)]) pas_u_decomp_tbl_9 = Some ([(0x105CA, 0x105E3), (0x105E5, 0x11099), (0x1109B, 0x1109B), (0x1109D, 0x110AA), (0x110AC, 0x1112D), (0x11130, 0x1134A), (0x1134D, 0x11382), (0x11384, 0x11384), (0x11386, 0x1138D), (0x1138F, 0x11390), (0x11392, 0x113C4), (0x113C9, 0x114BA), (0x114BD, 0x114BD), (0x114BF, 0x115B9), (0x115BC, 0x11937), (0x11939, 0x16120), (0x16129, 0x16D67), (0x16D6B, 0x1D15D), (0x1D165, 0x1D1BA), (0x1D1C1, 0x2F7FF)])"
  by (simp add: pas_u_decomp_tbl_9_def)

lemma decomp_gap_run_10: "gap_run ([(0x105CA, 0x105E3), (0x105E5, 0x11099), (0x1109B, 0x1109B), (0x1109D, 0x110AA), (0x110AC, 0x1112D), (0x11130, 0x1134A), (0x1134D, 0x11382), (0x11384, 0x11384), (0x11386, 0x1138D), (0x1138F, 0x11390), (0x11392, 0x113C4), (0x113C9, 0x114BA), (0x114BD, 0x114BD), (0x114BF, 0x115B9), (0x115BC, 0x11937), (0x11939, 0x16120), (0x16129, 0x16D67), (0x16D6B, 0x1D15D), (0x1D165, 0x1D1BA), (0x1D1C1, 0x2F7FF)]) pas_u_decomp_tbl_10 = Some ([(0x105CA, 0x105E3), (0x105E5, 0x11099), (0x1109B, 0x1109B), (0x1109D, 0x110AA), (0x110AC, 0x1112D), (0x11130, 0x1134A), (0x1134D, 0x11382), (0x11384, 0x11384), (0x11386, 0x1138D), (0x1138F, 0x11390), (0x11392, 0x113C4), (0x113C9, 0x114BA), (0x114BD, 0x114BD), (0x114BF, 0x115B9), (0x115BC, 0x11937), (0x11939, 0x16120), (0x16129, 0x16D67), (0x16D6B, 0x1D15D), (0x1D165, 0x1D1BA), (0x1D1C1, 0x2F7FF)])"
  by (simp add: pas_u_decomp_tbl_10_def)

lemma decomp_gap_run_11: "gap_run ([(0x105CA, 0x105E3), (0x105E5, 0x11099), (0x1109B, 0x1109B), (0x1109D, 0x110AA), (0x110AC, 0x1112D), (0x11130, 0x1134A), (0x1134D, 0x11382), (0x11384, 0x11384), (0x11386, 0x1138D), (0x1138F, 0x11390), (0x11392, 0x113C4), (0x113C9, 0x114BA), (0x114BD, 0x114BD), (0x114BF, 0x115B9), (0x115BC, 0x11937), (0x11939, 0x16120), (0x16129, 0x16D67), (0x16D6B, 0x1D15D), (0x1D165, 0x1D1BA), (0x1D1C1, 0x2F7FF)]) pas_u_decomp_tbl_11 = Some ([(0x1D1C1, 0x2F7FF)])"
  by (simp add: pas_u_decomp_tbl_11_def)

lemma decomp_gap_run_12: "gap_run ([(0x1D1C1, 0x2F7FF)]) pas_u_decomp_tbl_12 = Some ([])"
  by (simp add: pas_u_decomp_tbl_12_def)

lemma decomp_gap_run_13: "gap_run ([]) pas_u_decomp_tbl_13 = Some ([])"
  by (simp add: pas_u_decomp_tbl_13_def)

lemma decomp_gap_run_14: "gap_run ([]) pas_u_decomp_tbl_14 = Some ([])"
  by (simp add: pas_u_decomp_tbl_14_def)

lemma decomp_gap_run_15: "gap_run ([]) pas_u_decomp_tbl_15 = Some ([])"
  by (simp add: pas_u_decomp_tbl_15_def)

lemma decomp_gap_run_16: "gap_run ([]) pas_u_decomp_tbl_16 = Some ([])"
  by (simp add: pas_u_decomp_tbl_16_def)

lemma decomp_gap_run: "gap_run decomp_gaps pas_u_decomp_tbl \<noteq> None"
  by (simp add: pas_u_decomp_tbl_def gap_run_append decomp_gap_run_0 decomp_gap_run_1 decomp_gap_run_2 decomp_gap_run_3 decomp_gap_run_4 decomp_gap_run_5 decomp_gap_run_6 decomp_gap_run_7 decomp_gap_run_8 decomp_gap_run_9 decomp_gap_run_10 decomp_gap_run_11 decomp_gap_run_12 decomp_gap_run_13 decomp_gap_run_14 decomp_gap_run_15 decomp_gap_run_16)

lemma decomp_gaps_sorted: "sorted_wrt (\<lambda>x y. snd x < fst y) decomp_gaps" "\<forall>g \<in> set decomp_gaps. fst g \<le> snd g"
proof -
  have "gaps_ok 0 decomp_gaps" by (simp add: decomp_gaps_def)
  then show "sorted_wrt (\<lambda>x y. snd x < fst y) decomp_gaps" "\<forall>g \<in> set decomp_gaps. fst g \<le> snd g"
    using gaps_ok_sorted by blast+
qed

lemma decomp_lookup_find: "decomp_lookup cp = find (\<lambda>e. dcp e = cp) pas_u_decomp_tbl"
  unfolding decomp_lookup_def by (rule decomp.lookup_key)

lemma decomp_gap:
  assumes "g \<in> set decomp_gaps" "fst g \<le> x" "x \<le> snd g"
  shows "decomp_lookup x = None"
  using gap_run_sound [OF decomp_gap_run decomp.keys_sorted decomp_gaps_sorted assms(1)] assms
  by (fastforce simp: decomp_lookup_find find_None_iff)

lemma decomp_facts:
  assumes "set es \<subseteq> set pas_u_decomp_tbl"
  shows "list_all (\<lambda>e. decomp_lookup (dcp e) = Some e) es"
  using assms decomp.lookup_entry by (auto simp: list_all_iff decomp_lookup_def)

text \<open>The table as rewrite rules: one per entry, and one per interval without entries.\<close>

lemma decomp_gap_sub:
  "set gs \<subseteq> set decomp_gaps \<Longrightarrow>
     list_all (\<lambda>g. \<forall>x. fst g \<le> x \<longrightarrow> x \<le> snd g \<longrightarrow> decomp_lookup x = None) gs"
  using decomp_gap by (fastforce simp: list_all_iff)

text \<open>The intervals that are asked for most come first, which is the order the rules are tried in.\<close>

lemma decomp_gap_all:
  "list_all (\<lambda>g. \<forall>x. fst g \<le> x \<longrightarrow> x \<le> snd g \<longrightarrow> decomp_lookup x = None) [(0x30FF, 0xF8FF), (0x234, 0x33F), (0x0, 0xBF), (0x1D1C1, 0x2F7FF), (0x4FA, 0x621), (0x345, 0x373),
    (0x3095, 0x309D), (0x3B1, 0x3C9), (0x391, 0x3A9), (0x342, 0x342), (0x41A, 0x438), (0x1D165, 0x1D1BA),
    (0xFAD, 0xFB8), (0x40F, 0x418), (0x627, 0x6BF), (0x1B13, 0x1B3A), (0x935, 0x957), (0x11939, 0x16120),
    (0x43A, 0x44F), (0x960, 0x9CA), (0xCCC, 0xD49), (0x6D4, 0x928), (0xA5F, 0xB47), (0x113C9, 0x114BA),
    (0xA37, 0xA58), (0xD4D, 0xDD9), (0x11392, 0x113C4), (0x16129, 0x16D67), (0x228A, 0x22AB), (0x9E0, 0xA32),
    (0xB95, 0xBC9), (0x2ADD, 0x304B), (0x110AC, 0x1112D), (0x11130, 0x1134A), (0xCC1, 0xCC6), (0xF6A, 0xF72),
    (0x21D0, 0x2203), (0x227A, 0x227F), (0x22B0, 0x22DF), (0x30DE, 0x30F3), (0x114BF, 0x115B9), (0x92A, 0x930),
    (0xBCD, 0xC47), (0xDDF, 0xF42), (0xF79, 0xF80), (0x1FBF, 0x1FC0), (0x1FFE, 0x1FFF), (0x212C, 0x2199),
    (0xC6, 0xC6), (0xE6, 0xE6), (0x3CF, 0x3D2), (0x45F, 0x475), (0x4D8, 0x4D9), (0x4E8, 0x4E9),
    (0xB4D, 0xB5B), (0xC49, 0xCBF), (0xF82, 0xF92), (0x1027, 0x1B05), (0x1B3E, 0x1B3F), (0x2002, 0x2125),
    (0x2263, 0x226C), (0x2272, 0x2273), (0x2276, 0x2277), (0x2282, 0x2283), (0x2286, 0x2287), (0x306A, 0x306F),
    (0x3072, 0x3072), (0x3075, 0x3075), (0x3078, 0x3078), (0x307B, 0x307B), (0x309F, 0x30AB), (0x30CA, 0x30CF),
    (0x30D2, 0x30D2), (0x30D5, 0x30D5), (0x30D8, 0x30D8), (0x30DB, 0x30DB), (0x105CA, 0x105E3), (0x1134D, 0x11382),
    (0x115BC, 0x11937), (0x16D6B, 0x1D15D), (0x1B1, 0x1CC), (0xD7, 0xD8), (0xF7, 0xF8), (0x404, 0x406),
    (0x454, 0x456), (0x6C1, 0x6C1), (0x6C3, 0x6D2), (0x932, 0x933), (0x9CD, 0x9DB), (0xB5E, 0xB93),
    (0xF44, 0xF4C), (0xF4E, 0xF51), (0xF53, 0xF56), (0xF58, 0xF5B), (0xF74, 0xF74), (0xF94, 0xF9C),
    (0xF9E, 0xFA1), (0xFA3, 0xFA6), (0xFA8, 0xFAB), (0xFBA, 0x1025), (0x1B07, 0x1B07), (0x1B09, 0x1B09),
    (0x1B0B, 0x1B0B), (0x1B0D, 0x1B0D), (0x1B0F, 0x1B11), (0x1B3C, 0x1B3C), (0x1B42, 0x1B42), (0x17F, 0x19F),
    (0x2205, 0x2208), (0x220A, 0x220B), (0x220D, 0x2223), (0x2225, 0x2225), (0x2227, 0x2240), (0x2242, 0x2243),
    (0x2245, 0x2246), (0x2248, 0x2248), (0x2261, 0x2261), (0x224A, 0x225F), (0x304D, 0x304D), (0x304F, 0x304F),
    (0x3051, 0x3051), (0x3053, 0x3053), (0x3055, 0x3055), (0x3057, 0x3057), (0x3059, 0x3059), (0x305B, 0x305B),
    (0x305D, 0x305D), (0x305F, 0x305F), (0x3061, 0x3061), (0x3063, 0x3064), (0x3066, 0x3066), (0x3068, 0x3068),
    (0x30AD, 0x30AD), (0x30AF, 0x30AF), (0x30B1, 0x30B1), (0x30B3, 0x30B3), (0x30B5, 0x30B5), (0x30B7, 0x30B7),
    (0x30B9, 0x30B9), (0x30BB, 0x30BB), (0x30BD, 0x30BD), (0x30BF, 0x30BF), (0x30C1, 0x30C1), (0x30C3, 0x30C4),
    (0x30C6, 0x30C6), (0x30C8, 0x30C8), (0x30FB, 0x30FD), (0x105E5, 0x11099), (0x1109B, 0x1109B), (0x1109D, 0x110AA),
    (0x11384, 0x11384), (0x11386, 0x1138D), (0x1138F, 0x11390), (0x114BD, 0x114BD)]"
  by (rule decomp_gap_sub) (simp add: decomp_gaps_def)

lemmas decomp_gap_rules = decomp_gap_all [unfolded list.pred_inject fst_conv snd_conv]


lemma decomp_fact_0: "list_all (\<lambda>e. decomp_lookup (dcp e) = Some e) pas_u_decomp_tbl_0"
  by (rule decomp_facts) (auto simp: pas_u_decomp_tbl_def)

lemmas decomp_rule_0 = decomp_fact_0 [unfolded pas_u_decomp_tbl_0_def list.pred_inject pas_u_decomp.sel]

lemma decomp_fact_1: "list_all (\<lambda>e. decomp_lookup (dcp e) = Some e) pas_u_decomp_tbl_1"
  by (rule decomp_facts) (auto simp: pas_u_decomp_tbl_def)

lemmas decomp_rule_1 = decomp_fact_1 [unfolded pas_u_decomp_tbl_1_def list.pred_inject pas_u_decomp.sel]

lemma decomp_fact_2: "list_all (\<lambda>e. decomp_lookup (dcp e) = Some e) pas_u_decomp_tbl_2"
  by (rule decomp_facts) (auto simp: pas_u_decomp_tbl_def)

lemmas decomp_rule_2 = decomp_fact_2 [unfolded pas_u_decomp_tbl_2_def list.pred_inject pas_u_decomp.sel]

lemma decomp_fact_3: "list_all (\<lambda>e. decomp_lookup (dcp e) = Some e) pas_u_decomp_tbl_3"
  by (rule decomp_facts) (auto simp: pas_u_decomp_tbl_def)

lemmas decomp_rule_3 = decomp_fact_3 [unfolded pas_u_decomp_tbl_3_def list.pred_inject pas_u_decomp.sel]

lemma decomp_fact_4: "list_all (\<lambda>e. decomp_lookup (dcp e) = Some e) pas_u_decomp_tbl_4"
  by (rule decomp_facts) (auto simp: pas_u_decomp_tbl_def)

lemmas decomp_rule_4 = decomp_fact_4 [unfolded pas_u_decomp_tbl_4_def list.pred_inject pas_u_decomp.sel]

lemma decomp_fact_5: "list_all (\<lambda>e. decomp_lookup (dcp e) = Some e) pas_u_decomp_tbl_5"
  by (rule decomp_facts) (auto simp: pas_u_decomp_tbl_def)

lemmas decomp_rule_5 = decomp_fact_5 [unfolded pas_u_decomp_tbl_5_def list.pred_inject pas_u_decomp.sel]

lemma decomp_fact_6: "list_all (\<lambda>e. decomp_lookup (dcp e) = Some e) pas_u_decomp_tbl_6"
  by (rule decomp_facts) (auto simp: pas_u_decomp_tbl_def)

lemmas decomp_rule_6 = decomp_fact_6 [unfolded pas_u_decomp_tbl_6_def list.pred_inject pas_u_decomp.sel]

lemma decomp_fact_7: "list_all (\<lambda>e. decomp_lookup (dcp e) = Some e) pas_u_decomp_tbl_7"
  by (rule decomp_facts) (auto simp: pas_u_decomp_tbl_def)

lemmas decomp_rule_7 = decomp_fact_7 [unfolded pas_u_decomp_tbl_7_def list.pred_inject pas_u_decomp.sel]

lemma decomp_fact_8: "list_all (\<lambda>e. decomp_lookup (dcp e) = Some e) pas_u_decomp_tbl_8"
  by (rule decomp_facts) (auto simp: pas_u_decomp_tbl_def)

lemmas decomp_rule_8 = decomp_fact_8 [unfolded pas_u_decomp_tbl_8_def list.pred_inject pas_u_decomp.sel]

lemma decomp_fact_9: "list_all (\<lambda>e. decomp_lookup (dcp e) = Some e) pas_u_decomp_tbl_9"
  by (rule decomp_facts) (auto simp: pas_u_decomp_tbl_def)

lemmas decomp_rule_9 = decomp_fact_9 [unfolded pas_u_decomp_tbl_9_def list.pred_inject pas_u_decomp.sel]

lemma decomp_fact_10: "list_all (\<lambda>e. decomp_lookup (dcp e) = Some e) pas_u_decomp_tbl_10"
  by (rule decomp_facts) (auto simp: pas_u_decomp_tbl_def)

lemmas decomp_rule_10 = decomp_fact_10 [unfolded pas_u_decomp_tbl_10_def list.pred_inject pas_u_decomp.sel]

lemma decomp_fact_11: "list_all (\<lambda>e. decomp_lookup (dcp e) = Some e) pas_u_decomp_tbl_11"
  by (rule decomp_facts) (auto simp: pas_u_decomp_tbl_def)

lemmas decomp_rule_11 = decomp_fact_11 [unfolded pas_u_decomp_tbl_11_def list.pred_inject pas_u_decomp.sel]

lemma decomp_fact_12: "list_all (\<lambda>e. decomp_lookup (dcp e) = Some e) pas_u_decomp_tbl_12"
  by (rule decomp_facts) (auto simp: pas_u_decomp_tbl_def)

lemmas decomp_rule_12 = decomp_fact_12 [unfolded pas_u_decomp_tbl_12_def list.pred_inject pas_u_decomp.sel]

lemma decomp_fact_13: "list_all (\<lambda>e. decomp_lookup (dcp e) = Some e) pas_u_decomp_tbl_13"
  by (rule decomp_facts) (auto simp: pas_u_decomp_tbl_def)

lemmas decomp_rule_13 = decomp_fact_13 [unfolded pas_u_decomp_tbl_13_def list.pred_inject pas_u_decomp.sel]

lemma decomp_fact_14: "list_all (\<lambda>e. decomp_lookup (dcp e) = Some e) pas_u_decomp_tbl_14"
  by (rule decomp_facts) (auto simp: pas_u_decomp_tbl_def)

lemmas decomp_rule_14 = decomp_fact_14 [unfolded pas_u_decomp_tbl_14_def list.pred_inject pas_u_decomp.sel]

lemma decomp_fact_15: "list_all (\<lambda>e. decomp_lookup (dcp e) = Some e) pas_u_decomp_tbl_15"
  by (rule decomp_facts) (auto simp: pas_u_decomp_tbl_def)

lemmas decomp_rule_15 = decomp_fact_15 [unfolded pas_u_decomp_tbl_15_def list.pred_inject pas_u_decomp.sel]

lemma decomp_fact_16: "list_all (\<lambda>e. decomp_lookup (dcp e) = Some e) pas_u_decomp_tbl_16"
  by (rule decomp_facts) (auto simp: pas_u_decomp_tbl_def)

lemmas decomp_rule_16 = decomp_fact_16 [unfolded pas_u_decomp_tbl_16_def list.pred_inject pas_u_decomp.sel]

lemmas decomp_rules =
  decomp_rule_0 decomp_rule_1 decomp_rule_2 decomp_rule_3 decomp_rule_4 decomp_rule_5 decomp_rule_6 decomp_rule_7 decomp_rule_8 decomp_rule_9 decomp_rule_10 decomp_rule_11 decomp_rule_12 decomp_rule_13 decomp_rule_14 decomp_rule_15 decomp_rule_16

section \<open>The composites\<close>

definition compose_key :: "pas_u_compose \<Rightarrow> nat" where
  "compose_key e = ca e * 0x110000 + cb e"

definition compose_entry_ok :: "pas_u_compose \<Rightarrow> bool" where
  "compose_entry_ok e \<longleftrightarrow> scalar (ca e) \<and> scalar (cb e) \<and> scalar (ccp e) \<and> ccp e \<noteq> 0 \<and> cb e \<noteq> 0 \<and>
     u8len (ccp e) \<le> u8len (ca e) + u8len (cb e)"

definition compose_inverts :: "pas_u_compose \<Rightarrow> bool" where
  "compose_inverts e \<longleftrightarrow> decomp_lookup (ccp e) = Some (PUDecomp (ccp e) (ca e) (cb e))"


lemma compose_run_0: "keys_run compose_key compose_entry_ok 0 pas_u_compose_tbl_0 = Some 91357988"
  by (simp add: pas_u_compose_tbl_0_def compose_key_def compose_entry_ok_def scalar_def u8len_def)

lemma compose_inv_0: "list_all compose_inverts pas_u_compose_tbl_0"
  by (simp only: pas_u_compose_tbl_0_def list.pred_inject compose_inverts_def pas_u_compose.sel decomp_rules simp_thms)

lemma compose_run_1: "keys_run compose_key compose_entry_ok 91357988 pas_u_compose_tbl_1 = Some 116982533"
  by (simp add: pas_u_compose_tbl_1_def compose_key_def compose_entry_ok_def scalar_def u8len_def)

lemma compose_inv_1: "list_all compose_inverts pas_u_compose_tbl_1"
  by (simp only: pas_u_compose_tbl_1_def list.pred_inject compose_inverts_def pas_u_compose.sel decomp_rules simp_thms)

lemma compose_run_2: "keys_run compose_key compose_entry_ok 116982533 pas_u_compose_tbl_2 = Some 216138506"
  by (simp add: pas_u_compose_tbl_2_def compose_key_def compose_entry_ok_def scalar_def u8len_def)

lemma compose_inv_2: "list_all compose_inverts pas_u_compose_tbl_2"
  by (simp only: pas_u_compose_tbl_2_def list.pred_inject compose_inverts_def pas_u_compose.sel decomp_rules simp_thms)

lemma compose_run_3: "keys_run compose_key compose_entry_ok 216138506 pas_u_compose_tbl_3 = Some 1026097941"
  by (simp add: pas_u_compose_tbl_3_def compose_key_def compose_entry_ok_def scalar_def u8len_def)

lemma compose_inv_3: "list_all compose_inverts pas_u_compose_tbl_3"
  by (simp only: pas_u_compose_tbl_3_def list.pred_inject compose_inverts_def pas_u_compose.sel decomp_rules simp_thms)

lemma compose_run_4: "keys_run compose_key compose_entry_ok 1026097941 pas_u_compose_tbl_4 = Some 1754728022"
  by (simp add: pas_u_compose_tbl_4_def compose_key_def compose_entry_ok_def scalar_def u8len_def)

lemma compose_inv_4: "list_all compose_inverts pas_u_compose_tbl_4"
  by (simp only: pas_u_compose_tbl_4_def list.pred_inject compose_inverts_def pas_u_compose.sel decomp_rules simp_thms)

lemma compose_run_5: "keys_run compose_key compose_entry_ok 1754728022 pas_u_compose_tbl_5 = Some 8903983874"
  by (simp add: pas_u_compose_tbl_5_def compose_key_def compose_entry_ok_def scalar_def u8len_def)

lemma compose_inv_5: "list_all compose_inverts pas_u_compose_tbl_5"
  by (simp only: pas_u_compose_tbl_5_def list.pred_inject compose_inverts_def pas_u_compose.sel decomp_rules simp_thms)

lemma compose_run_6: "keys_run compose_key compose_entry_ok 8903983874 pas_u_compose_tbl_6 = Some 13827256475"
  by (simp add: pas_u_compose_tbl_6_def compose_key_def compose_entry_ok_def scalar_def u8len_def)

lemma compose_inv_6: "list_all compose_inverts pas_u_compose_tbl_6"
  by (simp only: pas_u_compose_tbl_6_def list.pred_inject compose_inverts_def pas_u_compose.sel decomp_rules simp_thms)

lemma compose_run_7: "keys_run compose_key compose_entry_ok 13827256475 pas_u_compose_tbl_7 = Some 104219700584"
  by (simp add: pas_u_compose_tbl_7_def compose_key_def compose_entry_ok_def scalar_def u8len_def)

lemma compose_inv_7: "list_all compose_inverts pas_u_compose_tbl_7"
  by (simp only: pas_u_compose_tbl_7_def list.pred_inject compose_inverts_def pas_u_compose.sel decomp_rules simp_thms)

lemmas compose_runs = compose_run_0 compose_run_1 compose_run_2 compose_run_3 compose_run_4 compose_run_5 compose_run_6 compose_run_7

lemmas compose_inv_facts = compose_inv_0 compose_inv_1 compose_inv_2 compose_inv_3 compose_inv_4 compose_inv_5 compose_inv_6 compose_inv_7

text \<open>
  The search in the composites compares pairs; the order of the pairs is that of one number,
  because no code point reaches the multiplier.
\<close>

lemma scalar_less: "scalar cp \<Longrightarrow> cp < 0x110000"
  by (simp add: scalar_def)

lemma compose_key_less:
  assumes "cb x < 0x110000" "cb y < 0x110000" "compose_key x < compose_key y"
  shows "ca x < ca y \<or> ca x = ca y \<and> cb x < cb y"
proof (rule ccontr)
  assume "\<not> ?thesis"
  then consider "ca x = ca y" "cb y \<le> cb x" | "ca y < ca x" by linarith
  then show False using assms by cases (auto simp: compose_key_def)
qed

interpretation compose: key_table compose_key compose_entry_ok pas_u_compose_tbl
  by unfold_locales (simp add: pas_u_compose_tbl_def keys_run_append compose_runs)

lemma compose_pairs_sorted:
  assumes "i < j" "j < length pas_u_compose_tbl"
  defines "x \<equiv> pas_u_compose_tbl ! i" and "y \<equiv> pas_u_compose_tbl ! j"
  shows "ca x < ca y \<or> ca x = ca y \<and> cb x < cb y"
proof -
  have "compose_entry_ok x" "compose_entry_ok y"
    using compose.entry_ok [of x] compose.entry_ok [of y] assms by simp_all
  then have "cb x < 0x110000" "cb y < 0x110000"
    by (auto simp: compose_entry_ok_def intro: scalar_less)
  then show ?thesis using compose_key_less compose.keys_less [OF assms(1,2)] assms(3,4) by blast
qed

interpretation compose_pairs: sorted_table
  "\<lambda>k e. fst k < ca e \<or> (fst k = ca e \<and> snd k < cb e)"
  "\<lambda>k e. fst k > ca e \<or> (fst k = ca e \<and> snd k > cb e)" pas_u_compose_tbl
proof unfold_locales
  fix i j and k :: "nat \<times> nat"
  assume "i < j" "j < length pas_u_compose_tbl"
  note lt = compose_pairs_sorted [OF this]
  let ?x = "pas_u_compose_tbl ! i" and ?y = "pas_u_compose_tbl ! j"
  show "fst k < ca ?x \<or> fst k = ca ?x \<and> snd k < cb ?x \<Longrightarrow> fst k < ca ?y \<or> fst k = ca ?y \<and> snd k < cb ?y"
    using lt by auto
  show "fst k > ca ?y \<or> fst k = ca ?y \<and> snd k > cb ?y \<Longrightarrow> fst k > ca ?x \<or> fst k = ca ?x \<and> snd k > cb ?x"
    using lt by auto
  show "(fst k < ca ?y \<or> fst k = ca ?y \<and> snd k < cb ?y) \<or> (fst k > ca ?x \<or> fst k = ca ?x \<and> snd k > cb ?x)"
    using lt by linarith
qed

lemma compose_lookup_Some:
  assumes "compose_lookup a b = Some e"
  shows "e \<in> set pas_u_compose_tbl" "ca e = a" "cb e = b"
  using compose_pairs.bisect_hit [of "(a, b)" 0 "length pas_u_compose_tbl" e] assms
  by (auto simp: compose_lookup_def)

lemma compose_lookup_find: "compose_lookup a b = find (\<lambda>e. ca e = a \<and> cb e = b) pas_u_compose_tbl"
proof -
  have "(\<lambda>e. \<not> (a < ca e \<or> a = ca e \<and> b < cb e) \<and> \<not> (a > ca e \<or> a = ca e \<and> b > cb e)) =
      (\<lambda>e. ca e = a \<and> cb e = b)" by auto
  then show ?thesis
    using compose_pairs.bisect_find [of "(a, b)"] by (simp add: compose_lookup_def)
qed

lemma compose_inverts_all: "e \<in> set pas_u_compose_tbl \<Longrightarrow> compose_inverts e"
  using compose_inv_facts by (auto simp: pas_u_compose_tbl_def list_all_iff)

lemma compose_lookup_decomp:
  assumes "compose_lookup a b = Some e"
  shows "decomp_lookup (ccp e) = Some (PUDecomp (ccp e) a b)"
  using compose_inverts_all [OF compose_lookup_Some(1) [OF assms]] compose_lookup_Some(2,3) [OF assms]
  by (simp add: compose_inverts_def)

end
