(* ===== verification/Decomp.thy ===== *)
theory Decomp
  imports TablesDecomp
begin

text \<open>
  Canonical decomposition and pairwise composition (\<^verbatim>\<open>decompose\<close> and \<^verbatim>\<open>compose_pair\<close> of
  \<^verbatim>\<open>src/runtime/pasrt_unicode.c\<close>): Hangul by arithmetic, everything else by table.

  \<^verbatim>\<open>decompose\<close> calls itself on both halves of an entry and nothing in the function bounds the
  recursion; the table does. The model spends one unit of fuel per call and the lemma
  \<open>decompose_fuel_enough\<close> shows that four are enough for every code point, so that
  \<open>decompose\<close> satisfies the recursion of the source without fuel (\<open>decompose_rec\<close>).
\<close>

section \<open>Hangul\<close>

abbreviation S_BASE :: nat where "S_BASE \<equiv> 0xAC00"
abbreviation L_BASE :: nat where "L_BASE \<equiv> 0x1100"
abbreviation V_BASE :: nat where "V_BASE \<equiv> 0x1161"
abbreviation T_BASE :: nat where "T_BASE \<equiv> 0x11A7"
abbreviation L_COUNT :: nat where "L_COUNT \<equiv> 19"
abbreviation V_COUNT :: nat where "V_COUNT \<equiv> 21"
abbreviation T_COUNT :: nat where "T_COUNT \<equiv> 28"
abbreviation N_COUNT :: nat where "N_COUNT \<equiv> 588"
abbreviation S_COUNT :: nat where "S_COUNT \<equiv> 11172"

definition is_syllable :: "cpoint \<Rightarrow> bool" where
  "is_syllable cp \<longleftrightarrow> S_BASE \<le> cp \<and> cp < S_BASE + S_COUNT"

definition decompose_hangul :: "cpoint \<Rightarrow> cpoint list" where
  "decompose_hangul cp =
     (let si = cp - S_BASE; ti = si mod T_COUNT in
      [L_BASE + si div N_COUNT, V_BASE + (si mod N_COUNT) div T_COUNT] @
      (if ti = 0 then [] else [T_BASE + ti]))"

section \<open>Decomposition and composition\<close>

fun decompose_fuel :: "nat \<Rightarrow> cpoint \<Rightarrow> cpoint list option" where
  "decompose_fuel 0 cp = None"
| "decompose_fuel (Suc n) cp =
     (if is_syllable cp then Some (decompose_hangul cp)
      else case decomp_lookup cp of
        None \<Rightarrow> Some [cp]
      | Some e \<Rightarrow>
          (case decompose_fuel n (da e) of
             None \<Rightarrow> None
           | Some xs \<Rightarrow>
               if db e \<noteq> 0 then
                 (case decompose_fuel n (db e) of None \<Rightarrow> None | Some ys \<Rightarrow> Some (xs @ ys))
               else Some xs))"

abbreviation DECOMP_FUEL :: nat where "DECOMP_FUEL \<equiv> Suc (Suc (Suc (Suc 0)))"

definition decompose :: "cpoint \<Rightarrow> cpoint list" where
  "decompose cp = (case decompose_fuel DECOMP_FUEL cp of Some ds \<Rightarrow> ds | None \<Rightarrow> [])"

definition compose_pair :: "cpoint \<Rightarrow> cpoint \<Rightarrow> cpoint" where
  "compose_pair a b =
     (if L_BASE \<le> a \<and> a < L_BASE + L_COUNT \<and> V_BASE \<le> b \<and> b < V_BASE + V_COUNT then
        S_BASE + ((a - L_BASE) * V_COUNT + (b - V_BASE)) * T_COUNT
      else if S_BASE \<le> a \<and> a < S_BASE + S_COUNT \<and> (a - S_BASE) mod T_COUNT = 0 \<and>
              T_BASE < b \<and> b < T_BASE + T_COUNT then
        a + (b - T_BASE)
      else case compose_lookup a b of Some e \<Rightarrow> ccp e | None \<Rightarrow> 0)"

section \<open>The table bounds the recursion\<close>

text \<open>
  Every entry of the table, decomposed by evaluation: four units of fuel are enough, the
  result has at most \<^verbatim>\<open>PAS_U_DECOMP_MAX\<close> code points, all of them scalar values, and takes at
  most three times the bytes.
\<close>

definition PAS_U_DECOMP_MAX :: nat where
  "PAS_U_DECOMP_MAX = 4"

abbreviation u8bytes :: "cpoint list \<Rightarrow> nat" where
  "u8bytes cps \<equiv> sum_list (map u8len cps)"

definition decomposed_ok :: "cpoint \<Rightarrow> cpoint list option \<Rightarrow> bool" where
  "decomposed_ok cp r \<longleftrightarrow> (case r of None \<Rightarrow> False
     | Some ds \<Rightarrow> ds \<noteq> [] \<and> length ds \<le> 4 \<and> list_all scalar ds \<and> u8bytes ds \<le> 3 * u8len cp)"

definition decompose_entry_ok :: "cpoint \<Rightarrow> bool" where
  "decompose_entry_ok cp \<longleftrightarrow> decomposed_ok cp (decompose_fuel DECOMP_FUEL cp)"

lemma decomposed_ok_Some:
  "decomposed_ok cp (Some ds) \<longleftrightarrow> ds \<noteq> [] \<and> length ds \<le> 4 \<and> list_all scalar ds \<and> u8bytes ds \<le> 3 * u8len cp"
  by (simp add: decomposed_ok_def)

lemmas entry_eval = decomposed_ok_Some is_syllable_def scalar_def u8len_def

lemma decompose_entry_0: "list_all (decompose_entry_ok \<circ> dcp) pas_u_decomp_tbl_0"
  by (simp add: pas_u_decomp_tbl_0_def decomp_rules decomp_gap_rules decompose_entry_ok_def entry_eval)

lemma decompose_entry_1: "list_all (decompose_entry_ok \<circ> dcp) pas_u_decomp_tbl_1"
  by (simp add: pas_u_decomp_tbl_1_def decomp_rules decomp_gap_rules decompose_entry_ok_def entry_eval)

lemma decompose_entry_2: "list_all (decompose_entry_ok \<circ> dcp) pas_u_decomp_tbl_2"
  by (simp add: pas_u_decomp_tbl_2_def decomp_rules decomp_gap_rules decompose_entry_ok_def entry_eval)

lemma decompose_entry_3: "list_all (decompose_entry_ok \<circ> dcp) pas_u_decomp_tbl_3"
  by (simp add: pas_u_decomp_tbl_3_def decomp_rules decomp_gap_rules decompose_entry_ok_def entry_eval)

lemma decompose_entry_4: "list_all (decompose_entry_ok \<circ> dcp) pas_u_decomp_tbl_4"
  by (simp add: pas_u_decomp_tbl_4_def decomp_rules decomp_gap_rules decompose_entry_ok_def entry_eval)

lemma decompose_entry_5: "list_all (decompose_entry_ok \<circ> dcp) pas_u_decomp_tbl_5"
  by (simp add: pas_u_decomp_tbl_5_def decomp_rules decomp_gap_rules decompose_entry_ok_def entry_eval)

lemma decompose_entry_6: "list_all (decompose_entry_ok \<circ> dcp) pas_u_decomp_tbl_6"
  by (simp add: pas_u_decomp_tbl_6_def decomp_rules decomp_gap_rules decompose_entry_ok_def entry_eval)

lemma decompose_entry_7: "list_all (decompose_entry_ok \<circ> dcp) pas_u_decomp_tbl_7"
  by (simp add: pas_u_decomp_tbl_7_def decomp_rules decomp_gap_rules decompose_entry_ok_def entry_eval)

lemma decompose_entry_8: "list_all (decompose_entry_ok \<circ> dcp) pas_u_decomp_tbl_8"
  by (simp add: pas_u_decomp_tbl_8_def decomp_rules decomp_gap_rules decompose_entry_ok_def entry_eval)

lemma decompose_entry_9: "list_all (decompose_entry_ok \<circ> dcp) pas_u_decomp_tbl_9"
  by (simp add: pas_u_decomp_tbl_9_def decomp_rules decomp_gap_rules decompose_entry_ok_def entry_eval)

lemma decompose_entry_10: "list_all (decompose_entry_ok \<circ> dcp) pas_u_decomp_tbl_10"
  by (simp add: pas_u_decomp_tbl_10_def decomp_rules decomp_gap_rules decompose_entry_ok_def entry_eval)

lemma decompose_entry_11: "list_all (decompose_entry_ok \<circ> dcp) pas_u_decomp_tbl_11"
  by (simp add: pas_u_decomp_tbl_11_def decomp_rules decomp_gap_rules decompose_entry_ok_def entry_eval)

lemma decompose_entry_12: "list_all (decompose_entry_ok \<circ> dcp) pas_u_decomp_tbl_12"
  by (simp add: pas_u_decomp_tbl_12_def decomp_rules decomp_gap_rules decompose_entry_ok_def entry_eval)

lemma decompose_entry_13: "list_all (decompose_entry_ok \<circ> dcp) pas_u_decomp_tbl_13"
  by (simp add: pas_u_decomp_tbl_13_def decomp_rules decomp_gap_rules decompose_entry_ok_def entry_eval)

lemma decompose_entry_14: "list_all (decompose_entry_ok \<circ> dcp) pas_u_decomp_tbl_14"
  by (simp add: pas_u_decomp_tbl_14_def decomp_rules decomp_gap_rules decompose_entry_ok_def entry_eval)

lemma decompose_entry_15: "list_all (decompose_entry_ok \<circ> dcp) pas_u_decomp_tbl_15"
  by (simp add: pas_u_decomp_tbl_15_def decomp_rules decomp_gap_rules decompose_entry_ok_def entry_eval)

lemma decompose_entry_16: "list_all (decompose_entry_ok \<circ> dcp) pas_u_decomp_tbl_16"
  by (simp add: pas_u_decomp_tbl_16_def decomp_rules decomp_gap_rules decompose_entry_ok_def entry_eval)

lemmas decompose_entries =
  decompose_entry_0 decompose_entry_1 decompose_entry_2 decompose_entry_3 decompose_entry_4 decompose_entry_5 decompose_entry_6 decompose_entry_7 decompose_entry_8 decompose_entry_9 decompose_entry_10 decompose_entry_11 decompose_entry_12 decompose_entry_13 decompose_entry_14 decompose_entry_15 decompose_entry_16

section \<open>Decomposition without fuel\<close>

lemma decompose_fuel_mono: "decompose_fuel n cp = Some ds \<Longrightarrow> decompose_fuel (Suc n) cp = Some ds"
proof (induction n arbitrary: cp ds)
  case (Suc n)
  show ?case
  proof (cases "is_syllable cp \<or> decomp_lookup cp = None")
    case False
    then obtain e where e: "\<not> is_syllable cp" "decomp_lookup cp = Some e" by auto
    with Suc.prems obtain xs where xs: "decompose_fuel n (da e) = Some xs"
      by (auto split: option.splits)
    note xs' = Suc.IH [OF xs]
    show ?thesis
    proof (cases "db e = 0")
      case True
      then show ?thesis using e xs xs' Suc.prems by (simp del: decompose_fuel.simps add: decompose_fuel.simps(2) [of "Suc n"] decompose_fuel.simps(2) [of n])
    next
      case False
      with e xs Suc.prems obtain ys where "decompose_fuel n (db e) = Some ys" "ds = xs @ ys"
        by (auto split: option.splits)
      then show ?thesis using Suc.IH [of "db e" ys] e xs xs' False
        by (simp del: decompose_fuel.simps add: decompose_fuel.simps(2) [of "Suc n"])
    qed
  qed (use Suc.prems in auto)
qed simp

lemma jamo_no_entry: "0x1100 \<le> x \<Longrightarrow> x < 0x1200 \<Longrightarrow> decomp_lookup x = None"
  and syllable_no_entry: "is_syllable x \<Longrightarrow> decomp_lookup x = None"
  by (simp_all add: decomp_gap_rules is_syllable_def)

lemma hangul_parts:
  assumes "is_syllable cp"
  shows "(cp - S_BASE) div N_COUNT < L_COUNT" "(cp - S_BASE) mod N_COUNT div T_COUNT < V_COUNT"
    "(cp - S_BASE) mod T_COUNT < T_COUNT"
  using assms by (auto simp: is_syllable_def less_mult_imp_div_less)

lemma decompose_hangul_jamo:
  assumes "is_syllable cp" "d \<in> set (decompose_hangul cp)"
  shows "0x1100 \<le> d" "d < 0x1200"
  using hangul_parts(1,2) [OF assms(1)] less_trans [OF hangul_parts(3) [OF assms(1)], of 89] assms(2)
  by (auto simp: decompose_hangul_def Let_def split: if_splits)

lemma decomposed_ok_hangul: "is_syllable cp \<Longrightarrow> decomposed_ok cp (Some (decompose_hangul cp))"
  using decompose_hangul_jamo [of cp] hangul_parts [of cp]
  by (auto simp: decomposed_ok_Some list_all_iff scalar_def decompose_hangul_def Let_def u8len_def is_syllable_def)

lemma decompose_entry: "decomp_lookup cp = Some e \<Longrightarrow> decompose_entry_ok cp"
proof -
  assume "decomp_lookup cp = Some e"
  then have "e \<in> set pas_u_decomp_tbl" "dcp e = cp"
    by (auto simp: decomp_lookup_find find_Some_iff)
  moreover have "list_all (decompose_entry_ok \<circ> dcp) pas_u_decomp_tbl"
    by (simp add: pas_u_decomp_tbl_def decompose_entries)
  ultimately show ?thesis by (auto simp: list_all_iff)
qed

lemma decompose_fuel_ok: "scalar cp \<or> decomp_lookup cp \<noteq> None \<Longrightarrow> decompose_entry_ok cp"
proof (cases "is_syllable cp")
  case True
  then show ?thesis using decomposed_ok_hangul by (simp add: decompose_entry_ok_def)
next
  case False
  assume "scalar cp \<or> decomp_lookup cp \<noteq> None"
  show ?thesis
  proof (cases "decomp_lookup cp")
    case None
    with \<open>scalar cp \<or> _\<close> False show ?thesis by (simp add: decompose_entry_ok_def decomposed_ok_Some)
  qed (rule decompose_entry)
qed

lemma decompose_fuel_enough: "\<exists>ds. decompose_fuel DECOMP_FUEL cp = Some ds"
proof (cases "is_syllable cp \<or> decomp_lookup cp = None")
  case False
  then show ?thesis using decompose_fuel_ok [of cp]
    by (auto simp del: decompose_fuel.simps simp: decompose_entry_ok_def decomposed_ok_def split: option.splits)
qed auto

lemma decompose_eq: "decompose_fuel DECOMP_FUEL cp = Some (decompose cp)"
  using decompose_fuel_enough [of cp] by (auto simp del: decompose_fuel.simps simp: decompose_def)

lemma decompose_fuelI: "decompose_fuel (Suc (Suc (Suc 0))) cp = Some ds \<Longrightarrow> decompose cp = ds"
  using decompose_fuel_mono [of "Suc (Suc (Suc 0))" cp ds] decompose_eq [of cp] by (simp del: decompose_fuel.simps)

text \<open>
  The recursion of the source: this equation, not the one with fuel, is what the rest of the
  development uses.
\<close>

lemma decompose_rec:
  "decompose cp =
     (if is_syllable cp then decompose_hangul cp
      else case decomp_lookup cp of
        None \<Rightarrow> [cp]
      | Some e \<Rightarrow> decompose (da e) @ (if db e \<noteq> 0 then decompose (db e) else []))"
proof (cases "is_syllable cp \<or> decomp_lookup cp = None")
  case True
  then show ?thesis by (auto simp: decompose_def)
next
  case False
  then obtain e where e: "\<not> is_syllable cp" "decomp_lookup cp = Some e" by auto
  note unf = decompose_fuel.simps(2) [of "Suc (Suc (Suc 0))" cp]
  from decompose_eq [of cp] e obtain xs where xs: "decompose_fuel (Suc (Suc (Suc 0))) (da e) = Some xs"
    unfolding unf by (auto simp del: decompose_fuel.simps split: option.splits)
  show ?thesis
  proof (cases "db e = 0")
    case True
    then show ?thesis using decompose_eq [of cp] e xs decompose_fuelI [OF xs] unfolding unf
      by (simp del: decompose_fuel.simps)
  next
    case False
    with decompose_eq [of cp] e xs obtain ys where "decompose_fuel (Suc (Suc (Suc 0))) (db e) = Some ys"
      unfolding unf by (auto simp del: decompose_fuel.simps split: option.splits)
    then show ?thesis using decompose_eq [of cp] e xs False decompose_fuelI [OF xs] decompose_fuelI [of "db e" ys]
      unfolding unf by (simp del: decompose_fuel.simps)
  qed
qed

lemma decompose_ok:
  assumes "scalar cp"
  shows "decompose cp \<noteq> []" "length (decompose cp) \<le> PAS_U_DECOMP_MAX" "list_all scalar (decompose cp)"
    "u8bytes (decompose cp) \<le> 3 * u8len cp"
  using decompose_fuel_ok [of cp] assms
  by (auto simp del: decompose_fuel.simps simp: decompose_entry_ok_def decompose_eq decomposed_ok_Some PAS_U_DECOMP_MAX_def)

text \<open>A code point that decomposition leaves alone.\<close>

definition undecomposable :: "cpoint \<Rightarrow> bool" where
  "undecomposable cp \<longleftrightarrow> \<not> is_syllable cp \<and> decomp_lookup cp = None"

lemma undecomposable_decompose: "undecomposable cp \<Longrightarrow> decompose cp = [cp]"
  by (subst decompose_rec) (simp add: undecomposable_def)

lemma decompose_fuel_undecomposable: "decompose_fuel n cp = Some ds \<Longrightarrow> list_all undecomposable ds"
proof (induction n arbitrary: cp ds)
  case (Suc n)
  show ?case
  proof (cases "is_syllable cp")
    case True
    then have "undecomposable d" if "d \<in> set (decompose_hangul cp)" for d
      using decompose_hangul_jamo [OF True that] by (simp add: undecomposable_def is_syllable_def jamo_no_entry)
    then show ?thesis using True Suc.prems by (simp add: list_all_iff)
  next
    case False
    then show ?thesis using Suc by (auto simp: undecomposable_def split: option.splits if_splits)
  qed
qed simp

lemma decompose_undecomposable: "list_all undecomposable (decompose cp)"
  using decompose_fuel_undecomposable [OF decompose_eq] .

section \<open>Composition undoes one step of decomposition\<close>

lemma compose_pair_entry:
  assumes "compose_lookup a b = Some e"
  shows "scalar (ccp e)" "ccp e \<noteq> 0" "b \<noteq> 0" "u8len (ccp e) \<le> u8len a + u8len b"
  using compose.entry_ok [OF compose_lookup_Some(1) [OF assms]] compose_lookup_Some(2,3) [OF assms]
  by (auto simp: compose_entry_ok_def)

lemma hangul_lv_arith:
  fixes l v t :: nat
  assumes "l < L_COUNT" "v < V_COUNT" "t < T_COUNT"
  defines "s \<equiv> (l * V_COUNT + v) * T_COUNT + t"
  shows "s < S_COUNT" "s div N_COUNT = l" "s mod N_COUNT div T_COUNT = v" "s mod T_COUNT = t"
proof -
  have s: "s = l * N_COUNT + (v * T_COUNT + t)" by (simp add: s_def algebra_simps)
  have vt: "v * T_COUNT + t < N_COUNT" using assms(2,3) by simp
  show "s < S_COUNT" using assms(1) vt s by simp
  show "s div N_COUNT = l" using vt unfolding s by simp
  have "s mod N_COUNT = v * T_COUNT + t" using vt unfolding s by simp
  then show "s mod N_COUNT div T_COUNT = v" using assms(3) by simp
  show "s mod T_COUNT = t" using assms(3) unfolding s_def mod_mult_self3 by (rule mod_less)
qed

lemma decompose_lv:
  assumes "l < L_COUNT" "v < V_COUNT"
  shows "decompose (S_BASE + (l * V_COUNT + v) * T_COUNT) = [L_BASE + l, V_BASE + v]"
  using hangul_lv_arith [OF assms, of 0]
  by (subst decompose_rec) (simp add: is_syllable_def decompose_hangul_def)

lemma decompose_lvt:
  assumes "is_syllable a" "(a - S_BASE) mod T_COUNT = 0" "0 < t" "t < T_COUNT"
  shows "decompose (a + t) = decompose a @ [T_BASE + t]" "is_syllable (a + t)"
proof -
  let ?s = "a - S_BASE"
  define l v where "l = ?s div N_COUNT" and "v = ?s mod N_COUNT div T_COUNT"
  have lv: "l < L_COUNT" "v < V_COUNT" using hangul_parts [OF assms(1)] by (auto simp: l_def v_def)
  have "?s = l * N_COUNT + ?s mod N_COUNT" by (simp add: l_def)
  moreover have "?s mod N_COUNT = v * T_COUNT + ?s mod N_COUNT mod T_COUNT" by (simp add: v_def)
  moreover have "?s mod N_COUNT mod T_COUNT = ?s mod T_COUNT" by (simp add: mod_mod_cancel)
  ultimately have "?s = (l * V_COUNT + v) * T_COUNT" using assms(2) by simp
  then have a: "a = S_BASE + (l * V_COUNT + v) * T_COUNT" using assms(1) unfolding is_syllable_def by linarith
  note ar = hangul_lv_arith [OF lv assms(4)]
  show syl: "is_syllable (a + t)" using ar(1) by (simp add: a is_syllable_def)
  have "decompose a = [L_BASE + l, V_BASE + v]" unfolding a by (rule decompose_lv [OF lv])
  moreover have "a + t - S_BASE = (l * V_COUNT + v) * T_COUNT + t" by (simp add: a)
  ultimately show "decompose (a + t) = decompose a @ [T_BASE + t]"
    using syl ar(2-4) assms(3) by (subst decompose_rec) (simp add: decompose_hangul_def Let_def)
qed

lemma decompose_jamo: "0x1100 \<le> x \<Longrightarrow> x < 0x1200 \<Longrightarrow> decompose x = [x]"
  by (rule undecomposable_decompose) (simp add: undecomposable_def is_syllable_def jamo_no_entry)

lemma compose_pair_cases [consumes 1, case_names lv lvt table]:
  assumes "compose_pair a b \<noteq> 0"
  obtains
    l v where "l < L_COUNT" "v < V_COUNT" "a = L_BASE + l" "b = V_BASE + v"
      "compose_pair a b = S_BASE + (l * V_COUNT + v) * T_COUNT"
  | t where "is_syllable a" "(a - S_BASE) mod T_COUNT = 0" "0 < t" "t < T_COUNT" "b = T_BASE + t"
      "compose_pair a b = a + t"
  | e where "compose_lookup a b = Some e" "compose_pair a b = ccp e"
proof (cases "L_BASE \<le> a \<and> a < L_BASE + L_COUNT \<and> V_BASE \<le> b \<and> b < V_BASE + V_COUNT")
  case True
  then show ?thesis using that(1) [of "a - L_BASE" "b - V_BASE"] by (auto simp: compose_pair_def)
next
  case no_lv: False
  show ?thesis
  proof (cases "is_syllable a \<and> (a - S_BASE) mod T_COUNT = 0 \<and> T_BASE < b \<and> b < T_BASE + T_COUNT")
    case True
    then show ?thesis using that(2) [of "b - T_BASE"] no_lv by (auto simp: compose_pair_def is_syllable_def)
  next
    case False
    then show ?thesis using no_lv that(3) assms
      by (auto simp: compose_pair_def is_syllable_def split: option.splits if_splits)
  qed
qed

lemma compose_pair_inverse:
  assumes "compose_pair a b \<noteq> 0"
  shows "decompose (compose_pair a b) = decompose a @ decompose b"
  using assms
proof (cases rule: compose_pair_cases)
  case (lv l v)
  then show ?thesis using decompose_lv [OF lv(1,2)] by (simp only:) (simp add: decompose_jamo)
next
  case (lvt t)
  then show ?thesis by (simp add: decompose_lvt decompose_jamo)
next
  case (table e)
  note d = compose_lookup_decomp [OF table(1)]
  then have "\<not> is_syllable (ccp e)" using syllable_no_entry [of "ccp e"] by auto
  then show ?thesis using table d compose_pair_entry(3) [OF table(1)] by (subst decompose_rec) simp
qed

lemma compose_pair_scalar:
  assumes "compose_pair a b \<noteq> 0"
  shows "scalar (compose_pair a b)" "u8len (compose_pair a b) \<le> u8len a + u8len b"
proof -
  have syl: "is_syllable x \<Longrightarrow> scalar x \<and> u8len x = 3" for x
    by (auto simp: is_syllable_def scalar_def u8len_def)
  from assms have "scalar (compose_pair a b) \<and> u8len (compose_pair a b) \<le> u8len a + u8len b"
  proof (cases rule: compose_pair_cases)
    case (lv l v)
    then show ?thesis using hangul_lv_arith [OF lv(1,2), of 0] syl [of "compose_pair a b"]
      by (auto simp: is_syllable_def u8len_def)
  next
    case (lvt t)
    then show ?thesis using decompose_lvt(2) [OF lvt(1-4)] syl [of a] syl [of "a + t"] by auto
  next
    case (table e)
    then show ?thesis using compose_pair_entry by simp
  qed
  then show "scalar (compose_pair a b)" "u8len (compose_pair a b) \<le> u8len a + u8len b" by auto
qed

section \<open>Properties\<close>

text \<open>
  C29. Decomposition terminates and stays inside its array: for every scalar value the
  recursion of \<^verbatim>\<open>decompose\<close> returns within four nested calls, with at least one and at most
  \<^verbatim>\<open>PAS_U_DECOMP_MAX\<close> code points (the size of the array \<^verbatim>\<open>pas_text_nfc\<close> gives it), all of
  them scalar values that decompose no further.
\<close>

theorem decompose_total:
  assumes "scalar cp"
  shows "\<exists>ds. decompose_fuel DECOMP_FUEL cp = Some ds \<and> decompose cp = ds \<and>
     0 < length ds \<and> length ds \<le> PAS_U_DECOMP_MAX \<and>
     list_all (\<lambda>d. scalar d \<and> decompose d = [d]) ds"
  using decompose_eq [of cp] decompose_ok [OF assms] decompose_undecomposable [of cp]
  by (auto simp del: decompose_fuel.simps simp: list_all_iff undecomposable_decompose)

theorem decompose_total_witness:
  "\<exists>ds. decompose_fuel DECOMP_FUEL 0xAC01 = Some ds \<and> decompose 0xAC01 = ds \<and>
     0 < length ds \<and> length ds \<le> PAS_U_DECOMP_MAX \<and>
     list_all (\<lambda>d. scalar d \<and> decompose d = [d]) ds"
  by (rule decompose_total) (simp add: scalar_def)

text \<open>
  Composition inverts decomposition: whenever \<^verbatim>\<open>compose_pair\<close> makes a code point out of two,
  by Hangul arithmetic or by table, the result decomposes to exactly what the two decompose
  to, is a scalar value, and never takes more bytes than the pair it replaces.
\<close>

lemma compose_decompose:
  assumes "compose_pair a b \<noteq> 0"
  shows "decompose (compose_pair a b) = decompose a @ decompose b \<and> scalar (compose_pair a b) \<and>
     length (u8enc (compose_pair a b)) \<le> length (u8enc a @ u8enc b)"
  using compose_pair_inverse [OF assms] compose_pair_scalar [OF assms] by simp

lemma compose_decompose_witness:
  "compose_pair 0xAC00 0x11A8 = 0xAC01 \<and> decompose 0xAC01 = decompose 0xAC00 @ decompose 0x11A8"
proof -
  have "compose_pair 0xAC00 0x11A8 = 0xAC01" by (simp add: compose_pair_def)
  then show ?thesis using compose_decompose [of "0xAC00" "0x11A8"] by simp
qed

end
