(* ===== verification/Segments.thy ===== *)
theory Segments
  imports TablesRange Decomp
begin

text \<open>
  Where a normalisation segment may begin (\<^verbatim>\<open>combines_back\<close> of \<^verbatim>\<open>src/runtime/pasrt_unicode.c\<close>).
  The streaming normalisation is right only if no composition ever reaches across the start
  of a segment; this theory checks that against the two tables: every second element of a
  composite either has a combining class or is one \<^verbatim>\<open>combines_back\<close> knows.
\<close>

definition combines_back :: "cpoint \<Rightarrow> bool" where
  "combines_back cp \<longleftrightarrow>
     (V_BASE \<le> cp \<and> cp < V_BASE + V_COUNT) \<or>
     (T_BASE < cp \<and> cp < T_BASE + T_COUNT) \<or>
     range_lookup pas_u_combines_back cp \<noteq> 0"

definition starter :: "cpoint \<Rightarrow> bool" where
  "starter cp \<longleftrightarrow> u_ccc cp = 0"

lemma u_ccc_bound: "u_ccc cp < 255"
  using ccc.lookup_value [of cp 0] by (auto simp: u_ccc_def range_lookup_def)

text \<open>One pass over a sorted table and a sorted list of code points it has to cover.\<close>

fun cover_run :: "cpoint list \<Rightarrow> pas_u_range list \<Rightarrow> cpoint list option" where
  "cover_run [] rs = Some []"
| "cover_run vs [] = Some vs"
| "cover_run (v # vs) (r # rs) =
     (if rhi r < v then cover_run (v # vs) rs
      else if rlo r \<le> v then cover_run vs (r # rs) else None)"

lemma cover_run_append: "cover_run vs (rs @ rs') = Option.bind (cover_run vs rs) (\<lambda>ws. cover_run ws rs')"
proof (induction vs rs rule: cover_run.induct)
  case (2 v vs)
  then show ?case by simp
qed (auto split: if_splits)

lemma cover_run_sound:
  "cover_run vs rs = Some [] \<Longrightarrow> v \<in> set vs \<Longrightarrow> \<exists>r \<in> set rs. rlo r \<le> v \<and> v \<le> rhi r"
  by (induction vs rs rule: cover_run.induct) (auto split: if_splits)

definition second_marks :: "cpoint list" where
  "second_marks = [
     0x300, 0x301, 0x302, 0x303, 0x304, 0x306, 0x307, 0x308, 0x309, 0x30A, 0x30B, 0x30C,
     0x30F, 0x311, 0x313, 0x314, 0x31B, 0x323, 0x324, 0x325, 0x326, 0x327, 0x328, 0x32D,
     0x32E, 0x330, 0x331, 0x338, 0x342, 0x345, 0x653, 0x654, 0x655, 0x93C, 0xC56, 0xDCA,
     0x3099, 0x309A, 0x110BA]"

definition second_starters :: "cpoint list" where
  "second_starters = [
     0x9BE, 0x9D7, 0xB3E, 0xB56, 0xB57, 0xBBE, 0xBD7, 0xCC2, 0xCD5, 0xCD6, 0xD3E, 0xD57,
     0xDCF, 0xDDF, 0x102E, 0x1B35, 0x11127, 0x1133E, 0x11357, 0x113B8, 0x113BB, 0x113C2,
     0x113C9, 0x114B0, 0x114BA, 0x114BD, 0x115AF, 0x11930, 0x1611E, 0x1611F, 0x16120,
     0x16129, 0x16D67]"

lemma cover_ccc_0: "cover_run second_marks pas_u_ccc_0 = Some [0x93C, 0xC56, 0xDCA, 0x3099, 0x309A, 0x110BA]"
  by (simp add: pas_u_ccc_0_def second_marks_def)

lemma cover_ccc_1: "cover_run ([0x93C, 0xC56, 0xDCA, 0x3099, 0x309A, 0x110BA]) pas_u_ccc_1 = Some [0x3099, 0x309A, 0x110BA]"
  by (simp add: pas_u_ccc_1_def)

lemma cover_ccc_2: "cover_run ([0x3099, 0x309A, 0x110BA]) pas_u_ccc_2 = Some []"
  by (simp add: pas_u_ccc_2_def)

lemma cover_ccc_3: "cover_run ([]) pas_u_ccc_3 = Some []"
  by (simp add: pas_u_ccc_3_def)

lemma second_marks_ccc: "v \<in> set second_marks \<Longrightarrow> \<not> starter v"
proof -
  assume "v \<in> set second_marks"
  moreover have "cover_run second_marks pas_u_ccc = Some []"
    by (simp add: pas_u_ccc_def cover_run_append cover_ccc_0 cover_ccc_1 cover_ccc_2 cover_ccc_3)
  ultimately obtain r where r: "r \<in> set pas_u_ccc" "rlo r \<le> v" "v \<le> rhi r" using cover_run_sound by blast
  then show ?thesis using ccc.entry_lookup [OF r] ccc.tbl_entry [OF r(1)]
    by (simp add: starter_def u_ccc_def range_lookup_def)
qed

lemma second_starters_back: "v \<in> set second_starters \<Longrightarrow> combines_back v"
proof -
  assume "v \<in> set second_starters"
  moreover have "cover_run second_starters pas_u_combines_back = Some []"
    by (simp add: pas_u_combines_back_def pas_u_combines_back_0_def second_starters_def)
  ultimately obtain r where r: "r \<in> set pas_u_combines_back" "rlo r \<le> v" "v \<le> rhi r"
    using cover_run_sound by blast
  then show ?thesis using cback.entry_lookup [OF r] cback.tbl_entry [OF r(1)]
    by (simp add: combines_back_def range_lookup_def)
qed

lemma second_0: "list_all (\<lambda>e. cb e \<in> set (second_marks @ second_starters)) pas_u_compose_tbl_0"
  by (simp add: pas_u_compose_tbl_0_def second_marks_def second_starters_def)

lemma second_1: "list_all (\<lambda>e. cb e \<in> set (second_marks @ second_starters)) pas_u_compose_tbl_1"
  by (simp add: pas_u_compose_tbl_1_def second_marks_def second_starters_def)

lemma second_2: "list_all (\<lambda>e. cb e \<in> set (second_marks @ second_starters)) pas_u_compose_tbl_2"
  by (simp add: pas_u_compose_tbl_2_def second_marks_def second_starters_def)

lemma second_3: "list_all (\<lambda>e. cb e \<in> set (second_marks @ second_starters)) pas_u_compose_tbl_3"
  by (simp add: pas_u_compose_tbl_3_def second_marks_def second_starters_def)

lemma second_4: "list_all (\<lambda>e. cb e \<in> set (second_marks @ second_starters)) pas_u_compose_tbl_4"
  by (simp add: pas_u_compose_tbl_4_def second_marks_def second_starters_def)

lemma second_5: "list_all (\<lambda>e. cb e \<in> set (second_marks @ second_starters)) pas_u_compose_tbl_5"
  by (simp add: pas_u_compose_tbl_5_def second_marks_def second_starters_def)

lemma second_6: "list_all (\<lambda>e. cb e \<in> set (second_marks @ second_starters)) pas_u_compose_tbl_6"
  by (simp add: pas_u_compose_tbl_6_def second_marks_def second_starters_def)

lemma second_7: "list_all (\<lambda>e. cb e \<in> set (second_marks @ second_starters)) pas_u_compose_tbl_7"
  by (simp add: pas_u_compose_tbl_7_def second_marks_def second_starters_def)

lemma second_element: "e \<in> set pas_u_compose_tbl \<Longrightarrow> \<not> starter (cb e) \<or> combines_back (cb e)"
proof -
  assume "e \<in> set pas_u_compose_tbl"
  then have "cb e \<in> set (second_marks @ second_starters)"
    using second_0 second_1 second_2 second_3 second_4 second_5 second_6 second_7
    unfolding pas_u_compose_tbl_def list_all_iff set_append by blast
  then show ?thesis using second_marks_ccc second_starters_back by auto
qed

lemma compose_pair_segment:
  assumes "starter b" "\<not> combines_back b"
  shows "compose_pair a b = 0"
proof (rule ccontr)
  assume "compose_pair a b \<noteq> 0"
  then show False
  proof (cases rule: compose_pair_cases)
    case (table e)
    then show False using second_element [OF compose_lookup_Some(1) [OF table(1)]]
        compose_lookup_Some(3) [OF table(1)] assms by simp
  qed (use assms(2) in \<open>auto simp: combines_back_def\<close>)
qed

end
