(* ===== verification/Nfc.thy ===== *)
theory Nfc
  imports Segments "HOL-Library.Multiset"
begin

text \<open>
  Normalization Form C (\<^verbatim>\<open>canonical_order\<close>, \<^verbatim>\<open>compose_segment\<close>, \<^verbatim>\<open>flush_segment\<close> and
  \<^verbatim>\<open>pas_text_nfc\<close> of \<^verbatim>\<open>src/runtime/pasrt_unicode.c\<close>).

  The operations work in place on an array of code points; the model keeps the array as a
  list and every write as a list update. The reference definitions are those of UAX 15:
  \<open>reorder\<close> (a stable sort by combining class of every run of marks), \<open>nfd\<close> (decompose, then
  reorder) and \<open>compose_list\<close> (composition of a reordered text). The theorems say that the
  streaming routine, which only ever holds one segment, answers the composition of the whole
  decomposed text, that equal answers mean canonical equivalence, and that the answer never
  takes more than three times the bytes.
\<close>

section \<open>The operations\<close>

text \<open>The inner loop of the insertion sort: the element at \<^term>\<open>j\<close> moves down.\<close>

primrec sift_mark :: "nat \<Rightarrow> nat \<Rightarrow> cpoint list \<Rightarrow> cpoint list" where
  "sift_mark c 0 buf = buf"
| "sift_mark c (Suc j) buf =
     (if c < u_ccc (buf ! j) then sift_mark c j (buf[j := buf ! Suc j, Suc j := buf ! j]) else buf)"

definition canonical_order :: "cpoint list \<Rightarrow> cpoint list" where
  "canonical_order buf =
     fold (\<lambda>i b. let c = u_ccc (b ! i) in if c = 0 then b else sift_mark c i b)
       [1..<length buf] buf"

record compose_state =
  cbuf :: "cpoint list"
  cstart :: nat
  cput :: nat
  chead :: cpoint
  clast :: nat

definition compose_step :: "nat \<Rightarrow> compose_state \<Rightarrow> compose_state" where
  "compose_step i st =
     (let cp = cbuf st ! i; cls = u_ccc cp; made = compose_pair (chead st) cp in
      if made \<noteq> 0 \<and> (clast st < cls \<or> clast st = 0) then
        st\<lparr>cbuf := (cbuf st)[cstart st := made], chead := made\<rparr>
      else
        (if cls = 0 then st\<lparr>cstart := cput st, chead := cp\<rparr> else st)
          \<lparr>clast := cls, cbuf := (cbuf st)[cput st := cp], cput := Suc (cput st)\<rparr>)"

definition compose_segment :: "cpoint list \<Rightarrow> cpoint list" where
  "compose_segment buf =
     (if length buf < 2 then buf
      else
        (let last = u_ccc (buf ! 0);
             st = fold compose_step [1..<length buf]
               \<lparr>cbuf = buf, cstart = 0, cput = 1, chead = buf ! 0,
                clast = (if last \<noteq> 0 then 256 else last)\<rparr>
         in take (cput st) (cbuf st)))"

datatype text_error = TEXT_ILLFORMED | TEXT_OVERFLOW | TEXT_SEGMENT

fun emit_segment :: "nat \<Rightarrow> byte list \<Rightarrow> cpoint list \<Rightarrow> text_error + byte list" where
  "emit_segment cap out [] = Inr out"
| "emit_segment cap out (cp # cps) =
     (if length out + u8len cp > cap then Inl TEXT_OVERFLOW
      else emit_segment cap (out @ u8enc cp) cps)"

definition flush_segment :: "cpoint list \<Rightarrow> nat \<Rightarrow> byte list \<Rightarrow> text_error + byte list" where
  "flush_segment buf cap out = emit_segment cap out (compose_segment (canonical_order buf))"

definition SEGMENT_MAX :: nat where
  "SEGMENT_MAX = 256"

text \<open>A new segment begins only where nothing held can reach across.\<close>

definition segment_break :: "cpoint list \<Rightarrow> cpoint list \<Rightarrow> bool" where
  "segment_break buf d \<longleftrightarrow> 0 < length buf \<and> u_ccc (d ! 0) = 0 \<and> \<not> combines_back (d ! 0)"

function nfc_loop :: "byte list \<Rightarrow> nat \<Rightarrow> nat \<Rightarrow> cpoint list \<Rightarrow> byte list \<Rightarrow> text_error + byte list" where
  "nfc_loop s cap i buf out =
     (if i < length s then
        (case u8dec s i of
           None \<Rightarrow> Inl TEXT_ILLFORMED
         | Some (k, cp) \<Rightarrow>
             (let d = decompose cp; brk = segment_break buf d in
              case (if brk then flush_segment buf cap out else Inr out) of
                Inl e \<Rightarrow> Inl e
              | Inr out' \<Rightarrow>
                  (let buf' = (if brk then [] else buf) in
                   if length buf' + length d > SEGMENT_MAX then Inl TEXT_SEGMENT
                   else nfc_loop s cap (i + k) (buf' @ d) out')))
      else if 0 < length buf then flush_segment buf cap out
      else Inr out)"
  by auto
termination
  by (relation "measure (\<lambda>(s, cap, i, buf, out). length s - i)") (auto dest: u8dec_pos)

declare nfc_loop.simps [simp del]

definition pas_text_nfc :: "byte list \<Rightarrow> nat \<Rightarrow> text_error + byte list" where
  "pas_text_nfc s cap = nfc_loop s cap 0 [] []"

section \<open>Canonical ordering is a stable sort of every run of marks\<close>

function reorder :: "cpoint list \<Rightarrow> cpoint list" where
  "reorder [] = []"
| "reorder (x # xs) =
     (if starter x then x # reorder xs
      else sort_key u_ccc (takeWhile (\<lambda>y. \<not> starter y) (x # xs)) @
           reorder (dropWhile (\<lambda>y. \<not> starter y) xs))"
  by pat_completeness auto
termination
  by (relation "measure length") (auto simp: le_imp_less_Suc length_dropWhile_le)

lemma takeWhile_append_run:
  "list_all (\<lambda>y. \<not> P y) xs \<Longrightarrow> P z \<Longrightarrow> takeWhile (\<lambda>y. \<not> P y) (xs @ z # zs) = xs"
  by (induction xs) auto

text \<open>A text is a run of marks, then a starter and the rest: the induction the proofs use.\<close>

lemma run_cases:
  obtains "list_all (\<lambda>y. \<not> starter y) xs"
  | run z zs where "xs = run @ z # zs" "list_all (\<lambda>y. \<not> starter y) run" "starter z"
proof (cases "\<exists>x \<in> set xs. starter x")
  case True
  then obtain run z zs where "xs = run @ z # zs" "starter z" "\<forall>x \<in> set run. \<not> starter x"
    using split_list_first_prop by metis
  then show ?thesis using that(2) by (simp add: list_all_iff)
qed (use that(1) in \<open>auto simp: list_all_iff\<close>)

lemma reorder_run: "list_all (\<lambda>y. \<not> starter y) xs \<Longrightarrow> reorder xs = sort_key u_ccc xs"
  by (cases xs) (simp_all add: list_all_iff takeWhile_eq_all_conv [THEN iffD2] dropWhile_eq_Nil_conv [THEN iffD2])

lemma reorder_starter: "starter z \<Longrightarrow> reorder (xs @ z # zs) = reorder xs @ z # reorder zs"
proof (induction xs rule: reorder.induct)
  case (2 x xs)
  show ?case
  proof (cases "starter x")
    case False
    show ?thesis
    proof (cases "list_all (\<lambda>y. \<not> starter y) xs")
      case True
      then have "takeWhile (\<lambda>y. \<not> starter y) (x # xs @ z # zs) = x # xs"
        "dropWhile (\<lambda>y. \<not> starter y) (xs @ z # zs) = z # zs"
        using False 2(3) by (simp_all add: takeWhile_append_run list_all_iff dropWhile_append)
      then show ?thesis using False 2(3) True reorder_run [of "x # xs"] by simp
    next
      case has: False
      then have "takeWhile (\<lambda>y. \<not> starter y) (xs @ z # zs) = takeWhile (\<lambda>y. \<not> starter y) xs"
        "dropWhile (\<lambda>y. \<not> starter y) (xs @ z # zs) = dropWhile (\<lambda>y. \<not> starter y) xs @ z # zs"
        by (auto simp: list_all_iff takeWhile_append1 dropWhile_append1)
      then show ?thesis using False 2(2) [OF False 2(3)] by simp
    qed
  qed (use 2 in simp)
qed simp

lemma mset_reorder [simp]: "mset (reorder xs) = mset xs"
proof (induction xs rule: reorder.induct)
  case (2 x xs)
  show ?case
  proof (cases "starter x")
    case False
    have "mset (takeWhile (\<lambda>y. \<not> starter y) xs) + mset (dropWhile (\<lambda>y. \<not> starter y) xs) = mset xs"
      by (metis mset_append takeWhile_dropWhile_id)
    then show ?thesis using False 2 by simp
  qed (use 2 in simp)
qed simp

lemma length_reorder [simp]: "length (reorder xs) = length xs"
  by (metis mset_reorder size_mset)

lemma set_reorder [simp]: "set (reorder xs) = set xs"
  by (metis mset_reorder set_mset_mset)

lemma sort_key_snoc:
  fixes f :: "'a \<Rightarrow> nat"
  shows "sort_key f (xs @ [x]) =
     filter (\<lambda>y. f y \<le> f x) (sort_key f xs) @ x # filter (\<lambda>y. f x < f y) (sort_key f xs)"
proof (rule properties_for_sort_key)
  let ?s = "sort_key f xs"
  have "mset (filter (\<lambda>y. f y \<le> f x) ?s) + mset (filter (\<lambda>y. f x < f y) ?s) = mset xs"
    using multiset_partition [of "mset xs" "\<lambda>y. f y \<le> f x"] by (simp add: not_le)
  then show "mset (filter (\<lambda>y. f y \<le> f x) ?s @ x # filter (\<lambda>y. f x < f y) ?s) = mset (xs @ [x])"
    by simp
next
  fix k
  let ?s = "sort_key f xs"
  have stable: "filter (\<lambda>y. v = f y) ?s = filter (\<lambda>y. v = f y) xs" for v
    using sort_key_stable [of f v xs] by (simp add: eq_commute)
  have le: "filter (\<lambda>y. f k = f y) (filter (\<lambda>y. f y \<le> f x) ?s) = (if f k \<le> f x then filter (\<lambda>y. f k = f y) ?s else [])"
    "filter (\<lambda>y. f k = f y) (filter (\<lambda>y. f x < f y) ?s) = (if f k \<le> f x then [] else filter (\<lambda>y. f k = f y) ?s)"
    by (auto simp: filter_filter filter_empty_conv intro!: filter_cong)
  show "filter (\<lambda>y. f k = f y) (filter (\<lambda>y. f y \<le> f x) ?s @ x # filter (\<lambda>y. f x < f y) ?s) =
      filter (\<lambda>y. f k = f y) (xs @ [x])"
    by (simp add: le stable del: filter_filter)
next
  have "sorted (map f (sort_key f xs))" by simp
  then show "sorted (map f (filter (\<lambda>y. f y \<le> f x) (sort_key f xs) @ x # filter (\<lambda>y. f x < f y) (sort_key f xs)))"
    by (auto simp: sorted_append sorted_filter)
qed

text \<open>
  The inner loop, on an array that holds \<^term>\<open>pre\<close>, a run sorted by class, the mark \<^term>\<open>x\<close>
  and the rest: the mark goes after the marks of no greater class.
\<close>

lemma sift_mark_spec:
  assumes "sorted (map u_ccc run)" "pre = [] \<or> u_ccc (last pre) \<le> u_ccc x"
  shows "sift_mark (u_ccc x) (length (pre @ run)) (pre @ run @ x # rest) =
     pre @ filter (\<lambda>y. u_ccc y \<le> u_ccc x) run @ x # filter (\<lambda>y. u_ccc x < u_ccc y) run @ rest"
  using assms(1)
proof (induction run arbitrary: rest rule: rev_induct)
  case Nil
  then show ?case using assms(2)
    by (cases pre rule: rev_exhaust) (auto simp: nth_append)
next
  case (snoc y ys)
  show ?case
  proof (cases "u_ccc x < u_ccc y")
    case True
    have "(pre @ (ys @ [y]) @ x # rest)[length (pre @ ys) := x, Suc (length (pre @ ys)) := y] =
        pre @ ys @ x # y # rest"
      by (simp add: list_update_append nth_append)
    then show ?thesis using True snoc by (simp add: nth_append sorted_append)
  next
    case False
    then have "\<forall>z \<in> set ys. u_ccc z \<le> u_ccc x" using snoc.prems by (auto simp: sorted_append)
    then have "filter (\<lambda>z. u_ccc z \<le> u_ccc x) ys = ys" "filter (\<lambda>z. u_ccc x < u_ccc z) ys = []"
      by (auto simp: filter_id_conv filter_empty_conv)
    then show ?thesis using False by (simp add: nth_append)
  qed
qed

lemma reorder_snoc:
  assumes "\<not> starter x"
  shows "sift_mark (u_ccc x) (length xs) (reorder xs @ x # rest) = reorder (xs @ [x]) @ rest"
proof (cases "list_all (\<lambda>y. \<not> starter y) xs")
  case True
  then show ?thesis
    using sift_mark_spec [of "reorder xs" "[]" x rest] assms
    by (simp add: reorder_run sort_key_snoc)
next
  case False
  then obtain ys z run where xs: "xs = ys @ z # run" "starter z" "\<forall>y \<in> set run. \<not> starter y"
    using split_list_last_prop [of xs starter] by (auto simp: list_all_iff)
  then have r: "reorder xs = reorder ys @ z # sort_key u_ccc run"
    "reorder (xs @ [x]) = reorder ys @ z # sort_key u_ccc (run @ [x])"
    using assms reorder_starter [OF xs(2), of ys "run @ [x]"]
    by (simp_all add: reorder_starter reorder_run list_all_iff)
  show ?thesis
    using sift_mark_spec [of "sort_key u_ccc run" "reorder ys @ [z]" x rest] xs(2)
    unfolding r by (simp add: xs(1) sort_key_snoc starter_def)
qed

lemma canonical_order_prefix:
  "n \<le> length buf \<Longrightarrow> 0 < n \<Longrightarrow>
     fold (\<lambda>i b. let c = u_ccc (b ! i) in if c = 0 then b else sift_mark c i b) [1..<n] buf =
       reorder (take n buf) @ drop n buf"
proof (induction n)
  case (Suc n)
  show ?case
  proof (cases "n = 0")
    case True
    with Suc.prems show ?thesis
      by (cases buf) (auto simp: starter_def)
  next
    case False
    let ?x = "buf ! n"
    have split: "drop n buf = ?x # drop (Suc n) buf" "take (Suc n) buf = take n buf @ [?x]"
      using Suc.prems by (simp_all add: Cons_nth_drop_Suc take_Suc_conv_app_nth)
    have IH: "fold (\<lambda>i b. let c = u_ccc (b ! i) in if c = 0 then b else sift_mark c i b) [1..<n] buf =
        reorder (take n buf) @ ?x # drop (Suc n) buf"
      using Suc False split by simp
    have nth: "(reorder (take n buf) @ ?x # drop (Suc n) buf) ! n = ?x"
      using Suc.prems by (simp add: nth_append)
    show ?thesis
    proof (cases "starter ?x")
      case True
      then show ?thesis using False Suc.prems IH nth split(2) reorder_starter [OF True, of "take n buf" "[]"]
        by (simp add: starter_def)
    next
      case marks: False
      then show ?thesis
        using False Suc.prems IH nth split(2) reorder_snoc [OF marks, of "take n buf" "drop (Suc n) buf"]
        by (simp add: starter_def)
    qed
  qed
qed simp

lemma canonical_order_reorder: "canonical_order buf = reorder buf"
proof (cases buf)
  case (Cons x xs)
  then show ?thesis using canonical_order_prefix [of "length buf" buf] by (simp add: canonical_order_def)
qed (simp add: canonical_order_def)

section \<open>Composition of an ordered text\<close>

text \<open>
  The reference definition: \<^term>\<open>h\<close> is the starter that may still compose, \<^term>\<open>ms\<close> the marks
  after it that did not, \<^term>\<open>l\<close> the class of the last of them.
\<close>

fun compose_list :: "cpoint \<Rightarrow> cpoint list \<Rightarrow> nat \<Rightarrow> cpoint list \<Rightarrow> cpoint list" where
  "compose_list h ms l [] = h # ms"
| "compose_list h ms l (x # xs) =
     (if compose_pair h x \<noteq> 0 \<and> (l < u_ccc x \<or> l = 0) then compose_list (compose_pair h x) ms l xs
      else if starter x then h # ms @ compose_list x [] 0 xs
      else compose_list h (ms @ [x]) (u_ccc x) xs)"

fun compose_all :: "cpoint list \<Rightarrow> cpoint list" where
  "compose_all [] = []"
| "compose_all (h # xs) = compose_list h [] (if starter h then 0 else 256) xs"

lemma compose_fold_spec:
  assumes "take (cput st) (cbuf st) = dn @ chead st # ms" "cstart st = length dn"
    "cput st \<le> i" "i \<le> length (cbuf st)"
  defines "st' \<equiv> fold compose_step [i..<length (cbuf st)] st"
  shows "take (cput st') (cbuf st') = dn @ compose_list (chead st) ms (clast st) (drop i (cbuf st))"
  using assms(1-4) unfolding st'_def
proof (induction "length (cbuf st) - i" arbitrary: st dn ms i)
  case 0
  then show ?case by simp
next
  case (Suc n)
  let ?b = "cbuf st" and ?x = "cbuf st ! i"
  let ?st = "compose_step i st"
  have i: "i < length ?b" using Suc.hyps(2) by simp
  have put: "cput st = length dn + Suc (length ms)"
  proof -
    have "length (take (cput st) ?b) = cput st" using Suc.prems(3) i by simp
    then show ?thesis using Suc.prems(1) by simp
  qed
  have upt: "[i..<length ?b] = i # [Suc i..<length ?b]" and drop: "drop i ?b = ?x # drop (Suc i) ?b"
    using i by (simp_all add: upt_conv_Cons Cons_nth_drop_Suc)
  have len: "length (cbuf ?st) = length ?b" by (simp add: compose_step_def Let_def)
  have keep: "drop (Suc i) (cbuf ?st) = drop (Suc i) ?b"
    using put Suc.prems(2,3) by (simp add: compose_step_def Let_def)
  have IH: "take (cput ?st) (cbuf ?st) = dn' @ chead ?st # ms' \<Longrightarrow> cstart ?st = length dn' \<Longrightarrow> cput ?st \<le> Suc i \<Longrightarrow>
      take (cput (fold compose_step [Suc i..<length ?b] ?st)) (cbuf (fold compose_step [Suc i..<length ?b] ?st)) =
      dn' @ compose_list (chead ?st) ms' (clast ?st) (drop (Suc i) ?b)" for dn' ms'
    using Suc.hyps(1) [of ?st "Suc i" dn' ms'] Suc.hyps(2) i len keep by simp
  have push: "take (Suc (cput st)) (?b[cput st := ?x]) = dn @ chead st # ms @ [?x]"
    using Suc.prems(1,3) i by (simp add: take_Suc_conv_app_nth)
  have head: "take (cput st) (?b[cstart st := m]) = dn @ m # ms" for m
    using Suc.prems(1,2) by (simp add: take_update_swap list_update_append)
  define can where "can \<longleftrightarrow> compose_pair (chead st) ?x \<noteq> 0 \<and> (clast st < u_ccc ?x \<or> clast st = 0)"
  consider (made) can | (start) "\<not> can" "starter ?x" | (mark) "\<not> can" "\<not> starter ?x" by blast
  then show ?case
  proof cases
    case made
    then have st: "?st = st\<lparr>cbuf := ?b[cstart st := compose_pair (chead st) ?x], chead := compose_pair (chead st) ?x\<rparr>"
      by (simp add: compose_step_def Let_def can_def)
    show ?thesis using IH [of dn ms] made Suc.prems(2,3) head unfolding upt drop can_def by (simp add: st)
  next
    case start
    then have st: "?st = st\<lparr>cstart := cput st, chead := ?x, clast := 0, cbuf := ?b[cput st := ?x], cput := Suc (cput st)\<rparr>"
      by (auto simp: compose_step_def Let_def starter_def can_def)
    show ?thesis using IH [of "dn @ chead st # ms" "[]"] start Suc.prems(3) push put unfolding upt drop can_def by (auto simp: st)
  next
    case mark
    then have st: "?st = st\<lparr>clast := u_ccc ?x, cbuf := ?b[cput st := ?x], cput := Suc (cput st)\<rparr>"
      by (auto simp: compose_step_def Let_def starter_def can_def)
    show ?thesis using IH [of dn "ms @ [?x]"] mark Suc.prems(2,3) push unfolding upt drop can_def by (auto simp: st)
  qed
qed

lemma compose_segment_all: "compose_segment buf = compose_all buf"
proof (cases buf)
  case (Cons h xs)
  let ?st = "\<lparr>cbuf = buf, cstart = 0, cput = 1, chead = h, clast = (if starter h then 0 else 256)\<rparr>"
  have buf: "take 1 buf = [h]" "buf ! 0 = h" "drop 1 buf = xs" "1 \<le> length buf" using Cons by simp_all
  show ?thesis
  proof (cases "length buf < 2")
    case True
    then show ?thesis using Cons by (cases xs) (simp_all add: compose_segment_def)
  next
    case False
    then have "compose_segment buf = compose_list h [] (if starter h then 0 else 256) xs"
      using compose_fold_spec [of ?st "[]" "[]" 1] buf
      by (cases "starter h") (simp_all add: compose_segment_def starter_def Let_def)
    then show ?thesis using Cons by simp
  qed
qed (simp add: compose_segment_def)

section \<open>Composition keeps the decomposed text\<close>

abbreviation decomps :: "cpoint list \<Rightarrow> cpoint list" where
  "decomps cps \<equiv> concat (map decompose cps)"

definition nfd :: "cpoint list \<Rightarrow> cpoint list" where
  "nfd cps = reorder (decomps cps)"

text \<open>Two arrangements of marks that keep the order inside every class are reordered alike.\<close>

lemma sort_key_cong_classes:
  fixes f :: "'a \<Rightarrow> nat"
  assumes "mset xs = mset ys" "\<And>k. filter (\<lambda>y. f y = k) xs = filter (\<lambda>y. f y = k) ys"
  shows "sort_key f xs = sort_key f ys"
proof (rule properties_for_sort_key)
  fix k
  have "filter (\<lambda>y. f y = v) (sort_key f ys) = filter (\<lambda>y. f y = v) xs" for v
    using sort_key_stable [of f v ys] assms(2) by simp
  then show "filter (\<lambda>y. f k = f y) (sort_key f ys) = filter (\<lambda>y. f k = f y) xs"
    by (simp only: eq_commute [of "f k"])
qed (simp_all add: assms(1))

lemma reorder_marks_run:
  assumes "list_all (\<lambda>y. \<not> starter y) A" "list_all (\<lambda>y. \<not> starter y) C" "mset C = mset C'"
    "\<And>k. filter (\<lambda>y. u_ccc y = k) C = filter (\<lambda>y. u_ccc y = k) C'"
  shows "reorder (A @ C @ B) = reorder (A @ C' @ B)"
proof -
  have C': "list_all (\<lambda>y. \<not> starter y) C'" using assms(2,3) by (metis list_all_iff set_mset_mset)
  have run: "reorder (A @ C @ R) = reorder (A @ C' @ R)" if "list_all (\<lambda>y. \<not> starter y) R" for R
    using assms C' that by (simp add: reorder_run sort_key_cong_classes)
  show ?thesis
  proof (cases B rule: run_cases)
    case (2 R z zs)
    then show ?thesis
      using run reorder_starter [OF 2(3), of "A @ C @ R" zs] reorder_starter [OF 2(3), of "A @ C' @ R" zs] by simp
  qed (rule run)
qed

lemma reorder_marks:
  assumes "list_all (\<lambda>y. \<not> starter y) C" "mset C = mset C'"
    "\<And>k. filter (\<lambda>y. u_ccc y = k) C = filter (\<lambda>y. u_ccc y = k) C'"
  shows "reorder (A @ C @ B) = reorder (A @ C' @ B)"
proof (cases "list_all (\<lambda>y. \<not> starter y) A")
  case False
  then obtain ys z run where A: "A = ys @ z # run" "starter z" "list_all (\<lambda>y. \<not> starter y) run"
    using split_list_last_prop [of A starter] by (auto simp: list_all_iff)
  then show ?thesis
    using reorder_marks_run [OF A(3) assms, of B] by (simp add: reorder_starter)
qed (use reorder_marks_run assms in blast)

lemma reorder_move:
  assumes "\<not> starter x" "\<forall>m \<in> set ms. \<not> starter m \<and> u_ccc m \<noteq> u_ccc x"
  shows "reorder (A @ x # ms @ B) = reorder (A @ ms @ x # B)"
proof -
  have "reorder (A @ (x # ms) @ B) = reorder (A @ (ms @ [x]) @ B)"
  proof (rule reorder_marks)
    have "filter (\<lambda>y. u_ccc y = u_ccc x) ms = []" using assms(2) by (simp add: filter_empty_conv)
    then show "filter (\<lambda>y. u_ccc y = k) (x # ms) = filter (\<lambda>y. u_ccc y = k) (ms @ [x])" for k by auto
  qed (use assms in \<open>auto simp: list_all_iff\<close>)
  then show ?thesis by simp
qed

definition ordered :: "cpoint list \<Rightarrow> bool" where
  "ordered xs \<longleftrightarrow> successively (\<lambda>a b. starter b \<or> u_ccc a \<le> u_ccc b) xs"

lemma ordered_Cons: "ordered (x # xs) \<longleftrightarrow> (xs = [] \<or> starter (hd xs) \<or> u_ccc x \<le> u_ccc (hd xs)) \<and> ordered xs"
  by (cases xs) (auto simp: ordered_def)

lemma ordered_sorted: "sorted (map u_ccc xs) \<Longrightarrow> ordered xs"
proof (induction xs)
  case (Cons x xs)
  then show ?case by (cases xs) (auto simp: ordered_Cons)
qed (simp add: ordered_def)

lemma reorder_hd: "xs \<noteq> [] \<Longrightarrow> starter (hd xs) \<Longrightarrow> reorder xs = hd xs # reorder (tl xs)"
  by (cases xs) auto

lemma ordered_reorder: "ordered (reorder xs)"
proof (induction xs rule: reorder.induct)
  case (2 x xs)
  show ?case
  proof (cases "starter x")
    case True
    have "reorder xs = [] \<or> starter (hd (reorder xs)) \<or> u_ccc x \<le> u_ccc (hd (reorder xs))"
      using True by (simp add: starter_def)
    then show ?thesis using 2(1) True by (simp add: ordered_Cons)
  next
    case False
    let ?run = "takeWhile (\<lambda>y. \<not> starter y) (x # xs)" and ?rest = "dropWhile (\<lambda>y. \<not> starter y) xs"
    have "?rest = [] \<or> starter (hd (reorder ?rest))"
      using hd_dropWhile [of "\<lambda>y. \<not> starter y" xs] reorder_hd [of ?rest] by fastforce
    then have "reorder ?rest = [] \<or> starter (hd (reorder ?rest))" by (metis reorder.simps(1))
    moreover have "ordered (sort_key u_ccc ?run)" by (rule ordered_sorted) simp
    ultimately show ?thesis using 2(2) False
      by (auto simp: ordered_def successively_append_iff)
  qed
qed (simp add: ordered_def)

lemma decompose_not_Nil [simp]: "decompose cp \<noteq> []"
proof -
  have "decompose_fuel n c = Some ds \<Longrightarrow> ds \<noteq> []" for n c ds
  proof (induction n arbitrary: c ds)
    case (Suc n)
    then show ?case by (auto simp: decompose_hangul_def Let_def split: if_splits option.splits)
  qed simp
  then show ?thesis using decompose_eq by blast
qed

lemma compose_pair_hd:
  assumes "compose_pair h x \<noteq> 0"
  shows "hd (decompose (compose_pair h x)) = hd (decompose h)"
  using compose_pair_inverse [OF assms] by simp

lemma compose_list_hd: "hd (decomps (compose_list h ms l xs)) = hd (decompose h) \<and> decomps (compose_list h ms l xs) \<noteq> []"
  by (induction h ms l xs rule: compose_list.induct) (auto simp: compose_pair_hd)

lemma decomps_undecomposable: "list_all undecomposable xs \<Longrightarrow> decomps xs = xs"
  by (induction xs) (auto simp: undecomposable_decompose)

lemma reorder_append_starter:
  "ys \<noteq> [] \<Longrightarrow> starter (hd ys) \<Longrightarrow> reorder (xs @ ys) = reorder xs @ reorder ys"
  by (cases ys) (auto simp: reorder_starter)

lemma compose_list_nfd:
  assumes "\<forall>m \<in> set ms. \<not> starter m \<and> u_ccc m \<le> l" "ordered xs"
    "ms = [] \<or> xs = [] \<or> starter (hd xs) \<or> l \<le> u_ccc (hd xs)"
    "list_all undecomposable ms" "list_all undecomposable xs"
  shows "reorder (decomps (compose_list h ms l xs)) = reorder (decompose h @ ms @ xs)"
  using assms
proof (induction h ms l xs rule: compose_list.induct)
  case (1 h ms l)
  then show ?case by (simp add: decomps_undecomposable)
next
  case (2 h ms l x xs)
  have x: "decompose x = [x]" using "2.prems"(5) by (simp add: undecomposable_decompose)
  have und: "list_all undecomposable ms" "list_all undecomposable xs" and xs: "ordered xs"
    and nxt: "xs = [] \<or> starter (hd xs) \<or> u_ccc x \<le> u_ccc (hd xs)"
    using "2.prems" by (auto simp: ordered_Cons)
  show ?case
  proof (cases "compose_pair h x \<noteq> 0 \<and> (l < u_ccc x \<or> l = 0)")
    case True
    have l: "ms = [] \<or> l < u_ccc x" using "2.prems"(1) True by (cases ms) (auto simp: starter_def)
    have "reorder (decomps (compose_list (compose_pair h x) ms l xs)) = reorder (decompose (compose_pair h x) @ ms @ xs)"
      using True nxt l by (intro "2.IH"(1) "2.prems"(1) und xs) auto
    also have "\<dots> = reorder (decompose h @ x # ms @ xs)" using True x by (simp add: compose_pair_inverse)
    also have "\<dots> = reorder (decompose h @ ms @ x # xs)"
    proof (cases "ms = []")
      case False
      then show ?thesis using l "2.prems"(1) by (intro reorder_move) (auto simp: starter_def)
    qed simp
    finally show ?thesis using True by simp
  next
    case no: False
    show ?thesis
    proof (cases "starter x")
      case True
      have IH: "reorder (decomps (compose_list x [] 0 xs)) = reorder ([x] @ xs)"
        using "2.IH"(2) [OF no True] und xs x by simp
      have hd: "hd (decomps (compose_list x [] 0 xs)) = x" "decomps (compose_list x [] 0 xs) \<noteq> []"
        using compose_list_hd [of x "[]" 0 xs] x by simp_all
      have "reorder (decomps (compose_list h ms l (x # xs))) =
          reorder ((decompose h @ ms) @ decomps (compose_list x [] 0 xs))"
        using no True und(1) by (subst compose_list.simps(2), subst if_not_P) (simp_all add: decomps_undecomposable)
      also have "\<dots> = reorder (decompose h @ ms) @ reorder (x # xs)"
        using reorder_append_starter [of "decomps (compose_list x [] 0 xs)" "decompose h @ ms"] hd True IH by simp
      also have "\<dots> = reorder (decompose h @ ms @ x # xs)"
        using reorder_append_starter [of "x # xs" "decompose h @ ms"] True by simp
      finally show ?thesis .
    next
      case False
      have "\<forall>m \<in> set (ms @ [x]). \<not> starter m \<and> u_ccc m \<le> u_ccc x"
        using "2.prems"(1,3) False by fastforce
      then have "reorder (decomps (compose_list h (ms @ [x]) (u_ccc x) xs)) = reorder (decompose h @ (ms @ [x]) @ xs)"
        using xs nxt und "2.prems"(5) by (intro "2.IH"(3) [OF no False]) simp_all
      then show ?thesis using no False by (subst compose_list.simps(2), subst if_not_P) simp_all
    qed
  qed
qed

lemma compose_all_nfd:
  assumes "ordered xs" "list_all undecomposable xs"
  shows "reorder (decomps (compose_all xs)) = reorder xs"
proof (cases xs)
  case (Cons h ys)
  then show ?thesis using assms compose_list_nfd [of "[]" _ ys h]
    by (simp add: ordered_Cons undecomposable_decompose)
qed simp

lemma compose_list_scalar:
  "scalar h \<Longrightarrow> list_all scalar ms \<Longrightarrow> list_all scalar xs \<Longrightarrow> list_all scalar (compose_list h ms l xs)"
  by (induction h ms l xs rule: compose_list.induct) (auto simp: compose_pair_scalar)

lemma compose_all_scalar: "list_all scalar xs \<Longrightarrow> list_all scalar (compose_all xs)"
  by (cases xs) (auto simp: compose_list_scalar)

lemma compose_list_bytes: "u8bytes (compose_list h ms l xs) \<le> u8len h + u8bytes ms + u8bytes xs"
proof (induction h ms l xs rule: compose_list.induct)
  case (2 h ms l x xs)
  show ?case
  proof (cases "compose_pair h x \<noteq> 0 \<and> (l < u_ccc x \<or> l = 0)")
    case True
    then show ?thesis using 2(1) compose_pair_scalar(2) [of h x] by auto
  next
    case no: False
    show ?thesis
    proof (cases "starter x")
      case True
      then show ?thesis using 2(2) [OF no True] no by auto
    next
      case False
      then show ?thesis using 2(3) [OF no False] no by auto
    qed
  qed
qed simp

lemma compose_all_bytes: "u8bytes (compose_all xs) \<le> u8bytes xs"
proof (cases xs)
  case (Cons h ys)
  then show ?thesis using compose_list_bytes [of h "[]" _ ys] by simp
qed simp

lemma compose_list_split:
  assumes "starter y" "\<not> combines_back y"
  shows "compose_list h ms l (xs @ y # ys) = compose_list h ms l xs @ compose_list y [] 0 ys"
  by (induction h ms l xs rule: compose_list.induct)
    (use assms compose_pair_segment [OF assms] in auto)

lemma compose_all_split:
  assumes "starter y" "\<not> combines_back y"
  shows "compose_all (xs @ y # ys) = compose_all xs @ compose_all (y # ys)"
  using assms compose_list_split [OF assms] by (cases xs) simp_all

section \<open>The stream of segments\<close>

lemma emit_segment_eq:
  "emit_segment cap out cps =
     (if cps = [] \<or> length out + u8bytes cps \<le> cap then Inr (out @ encode cps) else Inl TEXT_OVERFLOW)"
proof (induction cap out cps rule: emit_segment.induct)
  case (2 cap out cp cps)
  then show ?case by (cases cps) auto
qed simp

lemma flush_segment_eq:
  "flush_segment buf cap out =
     (if buf = [] \<or> length out + u8bytes (compose_all (reorder buf)) \<le> cap
      then Inr (out @ encode (compose_all (reorder buf))) else Inl TEXT_OVERFLOW)"
proof -
  have "compose_list h ms l xs \<noteq> []" for h ms l xs
    by (induction h ms l xs rule: compose_list.induct) auto
  then have "compose_all xs = [] \<longleftrightarrow> xs = []" for xs by (cases xs) auto
  moreover have "reorder buf = [] \<longleftrightarrow> buf = []" by (metis length_reorder length_0_conv)
  ultimately show ?thesis
    by (simp add: flush_segment_def emit_segment_eq canonical_order_reorder compose_segment_all)
qed

text \<open>The loop on the code points of a well-formed text.\<close>

fun nfc_cps :: "nat \<Rightarrow> cpoint list \<Rightarrow> byte list \<Rightarrow> cpoint list \<Rightarrow> text_error + byte list" where
  "nfc_cps cap buf out [] = (if 0 < length buf then flush_segment buf cap out else Inr out)"
| "nfc_cps cap buf out (cp # cps) =
     (let d = decompose cp; brk = segment_break buf d in
      case (if brk then flush_segment buf cap out else Inr out) of
        Inl e \<Rightarrow> Inl e
      | Inr out' \<Rightarrow>
          (let buf' = (if brk then [] else buf) in
           if length buf' + length d > SEGMENT_MAX then Inl TEXT_SEGMENT
           else nfc_cps cap (buf' @ d) out' cps))"

lemma nfc_loop_cps:
  "list_all scalar cps \<Longrightarrow> nfc_loop (p @ encode cps) cap (length p) buf out = nfc_cps cap buf out cps"
proof (induction cps arbitrary: p buf out)
  case Nil
  then show ?case by (simp add: nfc_loop.simps)
next
  case (Cons cp cps)
  have dec: "u8dec (p @ encode (cp # cps)) (length p) = Some (u8len cp, cp)"
    using u8dec_at [of cp p "encode cps"] Cons.prems by simp
  have IH: "nfc_loop (p @ encode (cp # cps)) cap (length p + u8len cp) buf out = nfc_cps cap buf out cps" for buf out
    using Cons.IH [of "p @ u8enc cp" buf out] Cons.prems by simp
  have "length p < length (p @ encode (cp # cps))" using u8len_range(1) [of cp] by simp
  then show ?case
    by (subst nfc_loop.simps) (simp only: if_True dec option.case prod.case IH nfc_cps.simps(2))
qed

lemma nfc_cps_result:
  "nfc_cps cap buf out cps = Inr r \<Longrightarrow> r = out @ encode (compose_all (reorder (buf @ decomps cps)))"
proof (induction cps arbitrary: buf out)
  case Nil
  then show ?case by (auto simp: flush_segment_eq split: if_splits)
next
  case (Cons cp cps)
  let ?d = "decompose cp"
  show ?case
  proof (cases "segment_break buf ?d")
    case True
    then obtain out1 where out1: "flush_segment buf cap out = Inr out1" "nfc_cps cap ?d out1 cps = Inr r"
      using Cons.prems by (auto simp: Let_def split: sum.splits if_splits)
    have out1': "out1 = out @ encode (compose_all (reorder buf))"
      using out1(1) by (auto simp: flush_segment_eq split: if_splits)
    obtain y ys where y: "?d = y # ys" by (cases ?d) auto
    have brk: "starter y" "\<not> combines_back y" using True y by (auto simp: segment_break_def starter_def)
    have "compose_all (reorder (buf @ ?d @ decomps cps)) =
        compose_all (reorder buf) @ compose_all (reorder (?d @ decomps cps))"
      using reorder_starter [OF brk(1), of buf] compose_all_split [OF brk, of "reorder buf"] brk(1) y by simp
    then show ?thesis using Cons.IH [OF out1(2)] out1' by simp
  next
    case False
    then show ?thesis using Cons.IH [of "buf @ ?d" out] Cons.prems by (simp add: Let_def split: if_splits)
  qed
qed

lemma u8bytes_reorder [simp]: "u8bytes (reorder xs) = u8bytes xs"
proof -
  have "sum_mset (image_mset u8len (mset (reorder xs))) = sum_mset (image_mset u8len (mset xs))" by simp
  then show ?thesis by (simp only: mset_map [symmetric] sum_mset_sum_list)
qed

text \<open>Whether every segment fits the array, and the segments themselves.\<close>

fun fits :: "cpoint list \<Rightarrow> cpoint list \<Rightarrow> bool" where
  "fits buf [] \<longleftrightarrow> True"
| "fits buf (cp # cps) \<longleftrightarrow>
     (let d = decompose cp; buf' = (if segment_break buf d then [] else buf) in
      length buf' + length d \<le> SEGMENT_MAX \<and> fits (buf' @ d) cps)"

fun segments :: "cpoint list \<Rightarrow> cpoint list \<Rightarrow> cpoint list list" where
  "segments buf [] = [buf]"
| "segments buf (cp # cps) =
     (if segment_break buf (decompose cp) then buf # segments (decompose cp) cps
      else segments (buf @ decompose cp) cps)"

lemma segment_break_starts:
  "segment_break buf d \<Longrightarrow> d = y # ys \<Longrightarrow> starter y \<and> \<not> combines_back y"
  by (auto simp: segment_break_def starter_def)

lemma compose_reorder_split:
  assumes "starter y" "\<not> combines_back y"
  shows "compose_all (reorder (xs @ y # ys)) = compose_all (reorder xs) @ compose_all (reorder (y # ys))"
  using reorder_starter [OF assms(1)] compose_all_split [OF assms] assms(1) by simp

lemma nfc_cps_fits: "nfc_cps cap buf out cps = Inr r \<Longrightarrow> fits buf cps"
  by (induction cps arbitrary: buf out) (auto simp: Let_def split: sum.splits if_splits)

lemma nfc_cps_total:
  assumes "fits buf cps" "length out + u8bytes (compose_all (reorder (buf @ decomps cps))) \<le> cap"
  shows "nfc_cps cap buf out cps = Inr (out @ encode (compose_all (reorder (buf @ decomps cps))))"
  using assms
proof (induction cps arbitrary: buf out)
  case Nil
  then show ?case by (simp add: flush_segment_eq)
next
  case (Cons cp cps)
  let ?d = "decompose cp"
  show ?case
  proof (cases "segment_break buf ?d")
    case True
    obtain y ys where y: "?d = y # ys" by (cases ?d) auto
    have sp: "compose_all (reorder (buf @ ?d @ decomps cps)) =
        compose_all (reorder buf) @ compose_all (reorder (?d @ decomps cps))"
      using compose_reorder_split [of y buf "ys @ decomps cps"] segment_break_starts [OF True y] y by simp
    have fl: "flush_segment buf cap out = Inr (out @ encode (compose_all (reorder buf)))"
      using Cons.prems(2) sp by (simp add: flush_segment_eq)
    have "length (encode xs) = u8bytes xs" for xs by (simp add: length_concat comp_def)
    then show ?thesis
      using Cons.IH [of ?d "out @ encode (compose_all (reorder buf))"] Cons.prems True fl sp by (simp add: Let_def)
  next
    case False
    then show ?thesis using Cons.IH [of "buf @ ?d" out] Cons.prems by (simp add: Let_def)
  qed
qed

lemma fits_small: "length buf + length (decomps cps) \<le> SEGMENT_MAX \<Longrightarrow> fits buf cps"
  by (induction cps arbitrary: buf) (auto simp: Let_def)

lemma fits_block:
  assumes "length buf + length (decomps bl) \<le> SEGMENT_MAX"
    and "\<And>buf'. length buf' \<le> SEGMENT_MAX \<Longrightarrow> fits buf' rest"
  shows "fits buf (bl @ rest)"
  using assms(1)
proof (induction bl arbitrary: buf)
  case Nil
  then show ?case using assms(2) by simp
qed (auto simp: Let_def)

definition block_ok :: "cpoint list \<Rightarrow> bool" where
  "block_ok bl \<longleftrightarrow> bl \<noteq> [] \<and> length (decomps bl) \<le> SEGMENT_MAX"

definition block_starts :: "cpoint list \<Rightarrow> bool" where
  "block_starts bl \<longleftrightarrow> (let y = decompose (hd bl) ! 0 in starter y \<and> \<not> combines_back y)"

lemma fits_blocks:
  assumes "list_all block_ok bls" "list_all block_starts bls" "length buf \<le> SEGMENT_MAX"
  shows "fits buf (concat bls)"
  using assms
proof (induction bls arbitrary: buf)
  case (Cons bl bls)
  have rest: "fits buf' (concat bls)" if "length buf' \<le> SEGMENT_MAX" for buf'
    using Cons.IH [OF _ _ that] Cons.prems by simp
  obtain cp cps where bl: "bl = cp # cps" using Cons.prems(1) by (cases bl) (auto simp: block_ok_def)
  have "fits [] (bl @ concat bls)"
    using Cons.prems(1) by (intro fits_block rest) (simp_all add: block_ok_def)
  moreover have "buf = [] \<or> segment_break buf (decompose cp)"
    using Cons.prems(2) bl by (auto simp: block_starts_def segment_break_def starter_def Let_def)
  ultimately show ?case using bl by (auto simp: Let_def segment_break_def)
qed simp

lemma segments_concat: "concat (segments buf cps) = buf @ decomps cps"
  by (induction cps arbitrary: buf) auto

lemma segments_ok:
  assumes "fits buf cps" "length buf \<le> SEGMENT_MAX" "buf \<noteq> []"
  shows "list_all (\<lambda>sg. sg \<noteq> [] \<and> length sg \<le> SEGMENT_MAX) (segments buf cps) \<and>
    list_all (\<lambda>sg. starter (hd sg) \<and> \<not> combines_back (hd sg)) (tl (segments buf cps)) \<and>
    segments buf cps \<noteq> [] \<and> (\<exists>more. hd (segments buf cps) = buf @ more)"
  using assms
proof (induction cps arbitrary: buf)
  case (Cons cp cps)
  let ?d = "decompose cp"
  show ?case
  proof (cases "segment_break buf ?d")
    case True
    obtain y ys where y: "?d = y # ys" by (cases ?d) auto
    note st = segment_break_starts [OF True y]
    have IH: "list_all (\<lambda>sg. sg \<noteq> [] \<and> length sg \<le> SEGMENT_MAX) (segments ?d cps)"
      "list_all (\<lambda>sg. starter (hd sg) \<and> \<not> combines_back (hd sg)) (tl (segments ?d cps))"
      "segments ?d cps \<noteq> []" "\<exists>more. hd (segments ?d cps) = ?d @ more"
      using Cons.IH [of ?d] Cons.prems True by (auto simp: Let_def)
    then have "list_all (\<lambda>sg. starter (hd sg) \<and> \<not> combines_back (hd sg)) (segments ?d cps)"
      using st y by (cases "segments ?d cps") auto
    then show ?thesis using IH Cons.prems True by simp
  next
    case False
    then show ?thesis using Cons.IH [of "buf @ ?d"] Cons.prems by (auto simp: Let_def)
  qed
qed auto

lemma compose_reorder_concat:
  assumes "list_all (\<lambda>sg. sg \<noteq> []) sgs" "list_all (\<lambda>sg. starter (hd sg) \<and> \<not> combines_back (hd sg)) sgs"
  shows "compose_all (reorder (xs @ concat sgs)) =
    compose_all (reorder xs) @ concat (map (\<lambda>sg. compose_all (reorder sg)) sgs)"
  using assms
proof (induction sgs arbitrary: xs)
  case (Cons sg sgs)
  obtain y ys where y: "sg = y # ys" using Cons.prems(1) by (cases sg) auto
  have "compose_all (reorder (xs @ sg @ concat sgs)) =
      compose_all (reorder xs) @ compose_all (reorder (sg @ concat sgs))"
    using compose_reorder_split [of y xs "ys @ concat sgs"] Cons.prems(2) y by simp
  then show ?case using Cons by simp
qed simp

lemma nfc_Inr_well_formed: "nfc_loop s cap i buf out = Inr r \<Longrightarrow> i \<le> length s \<Longrightarrow> well_formed (drop i s)"
proof (induction s cap i buf out rule: nfc_loop.induct)
  case (1 s cap i buf out)
  show ?case
  proof (cases "i < length s")
    case True
    with 1(2) obtain k cp where dec: "u8dec s i = Some (k, cp)"
      by (subst (asm) nfc_loop.simps) (auto split: option.splits)
    let ?d = "decompose cp"
    let ?b = "segment_break buf ?d"
    from 1(2) True dec obtain out' where
      o: "(if ?b then flush_segment buf cap out else Inr out) = Inr out'"
      "\<not> length (if ?b then [] else buf) + length ?d > SEGMENT_MAX"
      "nfc_loop s cap (i + k) ((if ?b then [] else buf) @ ?d) out' = Inr r"
      by (subst (asm) nfc_loop.simps) (auto simp: Let_def split: sum.splits if_splits)
    note snd = u8dec_sound_aux [OF True dec]
    have "well_formed (drop (i + k) s)"
      using 1(1) [OF True dec refl refl refl o(1) refl o(2,3)] snd by simp
    then show ?thesis using snd by (metis append_take_drop_id drop_drop add.commute well_formed_append well_formed_u8enc)
  next
    case False
    then show ?thesis using 1(3) by simp
  qed
qed

section \<open>Normalising again\<close>

lemma sort_key_sort_key: "sort_key (f :: 'a \<Rightarrow> nat) (sort_key f xs) = sort_key f xs"
  by (rule sort_key_cong_classes) (simp_all add: sort_key_stable)

lemma reorder_idem [simp]: "reorder (reorder xs) = reorder xs"
proof (induction xs rule: reorder.induct)
  case (2 x xs)
  show ?case
  proof (cases "starter x")
    case False
    let ?run = "takeWhile (\<lambda>y. \<not> starter y) (x # xs)" and ?rest = "dropWhile (\<lambda>y. \<not> starter y) xs"
    have run: "list_all (\<lambda>y. \<not> starter y) (sort_key u_ccc ?run)" by (auto simp: list_all_iff dest: set_takeWhileD)
    have "reorder ?rest = [] \<or> starter (hd (reorder ?rest)) \<and> reorder ?rest \<noteq> []"
      using hd_dropWhile [of "\<lambda>y. \<not> starter y" xs] reorder_hd [of ?rest] by fastforce
    then have "reorder (sort_key u_ccc ?run @ reorder ?rest) = reorder (sort_key u_ccc ?run) @ reorder (reorder ?rest)"
      using reorder_append_starter [of "reorder ?rest" "sort_key u_ccc ?run"] by fastforce
    also have "\<dots> = sort_key u_ccc ?run @ reorder ?rest"
      using 2(2) [OF False] reorder_run [OF run] sort_key_sort_key [of u_ccc ?run] by (simp only:)
    finally show ?thesis using False by simp
  qed (use 2 in simp)
qed simp

lemma undecomposable_decomps: "list_all undecomposable (decomps cps)"
  using decompose_undecomposable by (auto simp: list_all_iff)

lemma nfd_compose: "nfd (compose_all (nfd cps)) = nfd cps"
  using compose_all_nfd [of "reorder (decomps cps)"] ordered_reorder undecomposable_decomps [of cps]
  by (simp add: nfd_def list_all_iff)

lemma compose_list_hd_hd: "hd (decompose (hd (compose_list h ms l xs))) = hd (decompose h) \<and> compose_list h ms l xs \<noteq> []"
  by (induction h ms l xs rule: compose_list.induct) (auto simp: compose_pair_hd)

lemma segment_block:
  assumes "sg \<noteq> []" "length sg \<le> SEGMENT_MAX" "list_all undecomposable sg"
  defines "bl \<equiv> compose_all (reorder sg)"
  shows "block_ok bl" "starter (hd sg) \<and> \<not> combines_back (hd sg) \<Longrightarrow> block_starts bl"
proof -
  have "reorder (decomps bl) = reorder sg"
    using compose_all_nfd [of "reorder sg"] ordered_reorder assms(3) by (simp add: bl_def list_all_iff)
  then have "length (decomps bl) = length sg" by (metis length_reorder)
  moreover obtain h xs where h: "reorder sg = h # xs" using assms(1) by (metis length_0_conv length_reorder neq_Nil_conv)
  then have bl: "bl = compose_list h [] (if starter h then 0 else 256) xs" by (simp add: bl_def)
  ultimately show "block_ok bl" using assms(2) compose_list_hd_hd by (simp add: block_ok_def)
  assume st: "starter (hd sg) \<and> \<not> combines_back (hd sg)"
  then have "h = hd sg" using reorder_hd [OF assms(1)] h by simp
  moreover have "decompose h = [h]"
    using assms(3) h by (metis list.set_intros(1) list_all_iff set_reorder undecomposable_decompose)
  ultimately show "block_starts bl"
    using st compose_list_hd_hd [of h "[]" _ xs] by (simp add: block_starts_def bl hd_conv_nth [symmetric] Let_def)
qed

lemma fits_again:
  assumes "fits [] cps"
  shows "fits [] (compose_all (nfd cps))"
proof (cases cps)
  case (Cons cp xs)
  let ?sgs = "segments (decompose cp) xs"
  have "fits (decompose cp) xs" "length (decompose cp) \<le> SEGMENT_MAX"
    using assms Cons by (auto simp: Let_def segment_break_def)
  note ok = segments_ok [OF this]
  obtain sg sgs where sgs: "?sgs = sg # sgs" using ok by (cases ?sgs) auto
  have cat: "decomps cps = sg @ concat sgs" using segments_concat [of "decompose cp" xs] sgs Cons by simp
  have und: "list_all undecomposable s" if "s \<in> set (sg # sgs)" for s
    using undecomposable_decomps [of cps] that unfolding cat by (auto simp: list_all_iff)
  let ?R = "\<lambda>sg. compose_all (reorder sg)"
  have "compose_all (nfd cps) = ?R sg @ concat (map ?R sgs)"
    using compose_reorder_concat [of sgs sg] ok sgs unfolding nfd_def cat by (auto simp: list_all_iff)
  moreover have nice: "s \<noteq> []" "length s \<le> SEGMENT_MAX" if "s \<in> set (sg # sgs)" for s
    using ok sgs that by (auto simp: list_all_iff)
  have bl: "block_ok (?R sg)" "list_all block_ok (map ?R sgs)"
    using segment_block(1) [OF nice und] by (simp_all add: list_all_iff)
  moreover have "list_all (\<lambda>sg. starter (hd sg) \<and> \<not> combines_back (hd sg)) sgs"
    using ok sgs by simp
  then have "list_all block_starts (map ?R sgs)"
    using segment_block(2) [OF nice und] by (simp add: list_all_iff)
  moreover have "fits [] (?R sg @ concat (map ?R sgs))"
    using bl \<open>list_all block_starts _\<close> by (intro fits_block fits_blocks) (simp_all add: block_ok_def)
  ultimately show ?thesis by simp
qed (simp add: nfd_def)

section \<open>Properties\<close>

lemma nfc_Inr:
  assumes "pas_text_nfc s cap = Inr r"
  obtains cps where "list_all scalar cps" "s = encode cps" "r = encode (compose_all (nfd cps))" "fits [] cps"
proof -
  have "well_formed s" using nfc_Inr_well_formed [of s cap 0] assms by (simp add: pas_text_nfc_def)
  then obtain cps where cps: "list_all scalar cps" "s = encode cps" by (auto simp: well_formed_def)
  then have "nfc_cps cap [] [] cps = Inr r"
    using nfc_loop_cps [OF cps(1), of "[]"] assms by (simp add: pas_text_nfc_def)
  then show ?thesis using nfc_cps_result [of cap "[]" "[]" cps r] nfc_cps_fits cps that by (simp add: nfd_def)
qed

lemma nfc_total_aux:
  assumes "list_all scalar cps" "fits [] cps" "u8bytes (compose_all (nfd cps)) \<le> cap"
  shows "pas_text_nfc (encode cps) cap = Inr (encode (compose_all (nfd cps)))"
  using nfc_loop_cps [OF assms(1), of "[]"] nfc_cps_total [OF assms(2), of "[]" cap] assms(3)
  by (simp add: pas_text_nfc_def nfd_def)

lemma nfd_scalar: "list_all scalar cps \<Longrightarrow> list_all scalar (nfd cps)"
  using decompose_ok(3) by (fastforce simp: nfd_def list_all_iff)

lemma nfc_bytes:
  assumes "list_all scalar cps"
  shows "u8bytes (compose_all (nfd cps)) \<le> 3 * u8bytes cps"
proof -
  have "u8bytes (decomps cps) \<le> 3 * u8bytes cps"
    using assms decompose_ok(4) by (induction cps) fastforce+
  then show ?thesis using compose_all_bytes [of "nfd cps"] by (simp add: nfd_def)
qed

lemma length_encode: "length (encode xs) = u8bytes xs"
  by (simp add: length_concat comp_def)

lemma nfc_cps_room: "nfc_cps cap buf out cps = Inr r \<Longrightarrow> length out \<le> cap \<Longrightarrow> length r \<le> cap"
proof (induction cps arbitrary: buf out)
  case Nil
  then show ?case by (auto simp: flush_segment_eq length_concat comp_def split: if_splits)
next
  case (Cons cp cps)
  have "flush_segment buf cap out = Inr out1 \<Longrightarrow> length out1 \<le> cap" for out1
    using Cons.prems(2) by (auto simp: flush_segment_eq length_concat comp_def split: if_splits)
  then show ?case using Cons by (auto simp: Let_def split: sum.splits if_splits)
qed

text \<open>Letters below the first combining mark, and one composed letter, for the examples.\<close>

lemma u_ccc_low: "cp < 0x300 \<Longrightarrow> u_ccc cp = 0"
proof -
  have "list_all (\<lambda>r. 0x300 \<le> rlo r) pas_u_ccc_0" by (simp add: pas_u_ccc_0_def)
  moreover have "list_all (\<lambda>r. 0x300 \<le> rlo r) pas_u_ccc_1" by (simp add: pas_u_ccc_1_def)
  moreover have "list_all (\<lambda>r. 0x300 \<le> rlo r) pas_u_ccc_2" by (simp add: pas_u_ccc_2_def)
  moreover have "list_all (\<lambda>r. 0x300 \<le> rlo r) pas_u_ccc_3" by (simp add: pas_u_ccc_3_def)
  ultimately have "list_all (\<lambda>r. 0x300 \<le> rlo r) pas_u_ccc" by (simp add: pas_u_ccc_def)
  moreover assume "cp < 0x300"
  ultimately have "find (\<lambda>e. rlo e \<le> cp \<and> cp \<le> rhi e) pas_u_ccc = None"
    by (fastforce simp: find_None_iff list_all_iff)
  then show ?thesis by (simp add: u_ccc_def range_lookup_def ccc.lookup_find)
qed

lemma u_ccc_acute: "u_ccc 0x301 = 230"
proof -
  have "PURange 0x300 0x314 230 \<in> set pas_u_ccc" by (simp add: pas_u_ccc_def pas_u_ccc_0_def)
  from ccc.entry_lookup [OF this, of "0x301" 0] show ?thesis by (simp add: u_ccc_def range_lookup_def)
qed

lemma compose_e_acute: "compose_pair 0x65 0x301 = 0xE9"
proof -
  have "PUCompose 0x65 0x301 0xE9 \<in> set pas_u_compose_tbl"
    by (simp add: pas_u_compose_tbl_def pas_u_compose_tbl_1_def)
  from compose_pairs.bisect_entry [OF this, of "(0x65, 0x301)"] show ?thesis
    by (simp add: compose_pair_def compose_lookup_def)
qed

lemma example_decompositions:
  "decompose 0x65 = [0x65]" "decompose 0x301 = [0x301]" "decompose 0xE9 = [0x65, 0x301]"
proof -
  show e: "decompose 0x65 = [0x65]" and a: "decompose 0x301 = [0x301]"
    by (auto intro!: undecomposable_decompose simp: undecomposable_def is_syllable_def decomp_gap_rules)
  show "decompose 0xE9 = [0x65, 0x301]"
    using compose_pair_inverse [of "0x65" "0x301"] compose_e_acute e a by simp
qed

lemma example_nfd: "nfd [0x65, 0x301] = [0x65, 0x301]" "nfd [0xE9] = [0x65, 0x301]"
  by (simp_all add: nfd_def example_decompositions starter_def u_ccc_low u_ccc_acute)

lemma example_composed: "compose_all [0x65, 0x301] = [0xE9]"
  by (simp add: compose_e_acute starter_def u_ccc_low)

lemma example_nfc:
  "pas_text_nfc (encode [0x65, 0x301]) 9 = Inr (encode [0xE9])"
  "pas_text_nfc (encode [0xE9]) 9 = Inr (encode [0xE9])"
proof -
  have "fits [] [0x65, 0x301]" "fits [] [0xE9]"
    by (rule fits_small; simp add: example_decompositions SEGMENT_MAX_def)+
  then show "pas_text_nfc (encode [0x65, 0x301]) 9 = Inr (encode [0xE9])"
    "pas_text_nfc (encode [0xE9]) 9 = Inr (encode [0xE9])"
    using nfc_total_aux [of "[0x65, 0x301]" 9] nfc_total_aux [of "[0xE9]" 9]
    by (simp_all add: scalar_def example_nfd example_composed u8len_def del: compose_all.simps compose_list.simps fits.simps)
qed

text \<open>
  Canonical ordering: the in-place insertion sort \<^verbatim>\<open>canonical_order\<close> is the stable sort by
  combining class of every maximal run of marks, starters staying where they are.
\<close>

lemma canonical_order_stable_sort: "canonical_order buf = reorder buf"
  by (rule canonical_order_reorder)

text \<open>
  C1. Normalization is composition of the decomposed text: when \<^verbatim>\<open>pas_text_nfc\<close> answers a length,
  its input was well-formed and the bytes it wrote encode the UAX 15 composition of the whole
  reordered decomposition, although it only ever held one segment of it.
\<close>

theorem nfc_correct:
  assumes "pas_text_nfc s cap = Inr r"
  shows "\<exists>cps. list_all scalar cps \<and> s = encode cps \<and> r = encode (compose_all (nfd cps))"
  using nfc_Inr [OF assms] by metis

theorem nfc_correct_witness:
  "\<exists>cps. list_all scalar cps \<and> encode [0x65, 0x301] = encode cps \<and> encode [0xE9] = encode (compose_all (nfd cps))"
  by (rule nfc_correct [OF example_nfc(1)])

text \<open>
  C26. Normalization returns: a well-formed text whose decomposition fits one segment is
  normalized, without any error, into a buffer of three times its bytes.
\<close>

theorem nfc_total:
  assumes "list_all scalar cps" "length (decomps cps) \<le> SEGMENT_MAX" "3 * length (encode cps) \<le> cap"
  shows "pas_text_nfc (encode cps) cap = Inr (encode (compose_all (nfd cps)))"
proof (rule nfc_total_aux [OF assms(1)])
  show "fits [] cps" using assms(2) by (simp add: fits_small)
  show "u8bytes (compose_all (nfd cps)) \<le> cap"
    using nfc_bytes [OF assms(1)] assms(3) by (simp only: length_encode)
qed

theorem nfc_total_witness:
  "pas_text_nfc (encode [0x65, 0x301]) 9 = Inr (encode (compose_all (nfd [0x65, 0x301])))"
  by (rule nfc_total) (simp_all add: scalar_def example_decompositions SEGMENT_MAX_def u8len_def)

text \<open>
  Equality of normalized texts is canonical equivalence: two texts that were normalized
  have the same bytes exactly when their canonical decompositions agree. Comparing two text
  values byte by byte rests on this.
\<close>

lemma nfc_decides_equivalence:
  assumes "list_all scalar xs" "list_all scalar ys"
    and "pas_text_nfc (encode xs) cap = Inr r" "pas_text_nfc (encode ys) cap' = Inr r'"
  shows "r = r' \<longleftrightarrow> nfd xs = nfd ys"
proof -
  have r: "r = encode (compose_all (nfd xs))"
    using nfc_Inr [OF assms(3)] encode_inj assms(1) by metis
  have r': "r' = encode (compose_all (nfd ys))"
    using nfc_Inr [OF assms(4)] encode_inj assms(2) by metis
  have "r = r' \<Longrightarrow> compose_all (nfd xs) = compose_all (nfd ys)"
    unfolding r r' using assms(1,2) by (intro encode_inj compose_all_scalar nfd_scalar)
  then show ?thesis unfolding r r' by (metis nfd_compose)
qed

lemma nfc_decides_equivalence_witness:
  "encode [0xE9] = encode [0xE9] \<longleftrightarrow> nfd [0x65, 0x301] = nfd [0xE9]"
  by (rule nfc_decides_equivalence [OF _ _ example_nfc]) (simp_all add: scalar_def)

text \<open>
  C25. Normalizing again changes nothing: the result of \<^verbatim>\<open>pas_text_nfc\<close>, given back to it with
  no more room than it takes, comes back as it is; no segment of it can be too long.
\<close>

theorem nfc_idempotent:
  assumes "pas_text_nfc s cap = Inr r"
  shows "pas_text_nfc r (length r) = Inr r"
proof -
  obtain cps where c: "list_all scalar cps" "r = encode (compose_all (nfd cps))" "fits [] cps"
    using nfc_Inr [OF assms] by metis
  then show ?thesis
    using nfc_total_aux [of "compose_all (nfd cps)" "length r"] fits_again
    by (simp add: nfd_compose compose_all_scalar nfd_scalar length_encode)
qed

theorem nfc_idempotent_witness: "pas_text_nfc (encode [0xE9]) (length (encode [0xE9])) = Inr (encode [0xE9])"
  by (rule nfc_idempotent [OF example_nfc(1)])



end
