(* ===== verification/Casing.thy ===== *)
theory Casing
  imports TablesCase Nfc
begin

text \<open>
  Case folding and case mapping (\<^verbatim>\<open>case_lookup\<close>, \<^verbatim>\<open>case_map\<close>, \<^verbatim>\<open>case_all\<close> and the three entry
  points of \<^verbatim>\<open>src/runtime/pasrt_unicode.c\<close>): one walk over three tables. The facts are proved
  once, in a locale over the table, and hold for the three by interpretation.
\<close>

section \<open>The operations\<close>

definition case_lookup :: "pas_u_case list \<Rightarrow> cpoint \<Rightarrow> pas_u_case option" where
  "case_lookup tbl cp = bisect (\<lambda>e. cp < kcp e) (\<lambda>e. cp > kcp e) tbl 0 (length tbl)"

definition case_map :: "pas_u_case list \<Rightarrow> cpoint \<Rightarrow> cpoint list" where
  "case_map tbl cp =
     (case case_lookup tbl cp of
        None \<Rightarrow> [cp]
      | Some e \<Rightarrow> take (kn e) [ka e, kb e, kc e])"

function case_loop :: "pas_u_case list \<Rightarrow> byte list \<Rightarrow> nat \<Rightarrow> nat \<Rightarrow> byte list \<Rightarrow> text_error + byte list" where
  "case_loop tbl s cap i out =
     (if i < length s then
        (case u8dec s i of
           None \<Rightarrow> Inl TEXT_ILLFORMED
         | Some (k, cp) \<Rightarrow>
             (case emit_segment cap out (case_map tbl cp) of
                Inl e \<Rightarrow> Inl e
              | Inr out' \<Rightarrow> case_loop tbl s cap (i + k) out'))
      else Inr out)"
  by auto
termination
  by (relation "measure (\<lambda>(tbl, s, cap, i, out). length s - i)") (auto dest: u8dec_pos)

declare case_loop.simps [simp del]

definition case_all :: "pas_u_case list \<Rightarrow> byte list \<Rightarrow> nat \<Rightarrow> text_error + byte list" where
  "case_all tbl s cap = case_loop tbl s cap 0 []"

definition pas_text_fold :: "byte list \<Rightarrow> nat \<Rightarrow> text_error + byte list" where
  "pas_text_fold = case_all pas_u_fold"

definition pas_text_upper :: "byte list \<Rightarrow> nat \<Rightarrow> text_error + byte list" where
  "pas_text_upper = case_all pas_u_upper"

definition pas_text_lower :: "byte list \<Rightarrow> nat \<Rightarrow> text_error + byte list" where
  "pas_text_lower = case_all pas_u_lower"

section \<open>What the loop answers\<close>

abbreviation case_cps :: "pas_u_case list \<Rightarrow> cpoint list \<Rightarrow> cpoint list" where
  "case_cps tbl cps \<equiv> concat (map (case_map tbl) cps)"

locale case_mapping = key_table kcp case_entry_ok tbl for tbl
begin

lemma lookup_entry_ok:
  assumes "case_lookup tbl cp = Some e"
  shows "case_entry_ok e" "kcp e = cp"
  using assms lookup_key [of cp] entry_ok [of e]
  by (auto simp: case_lookup_def find_Some_iff)

lemma case_map_ok:
  assumes "scalar cp"
  shows "case_map tbl cp \<noteq> []" "length (case_map tbl cp) \<le> 3" "list_all scalar (case_map tbl cp)"
    "u8bytes (case_map tbl cp) \<le> 3 * u8len cp"
proof -
  have "case_map tbl cp \<noteq> [] \<and> length (case_map tbl cp) \<le> 3 \<and> list_all scalar (case_map tbl cp) \<and>
      u8bytes (case_map tbl cp) \<le> 3 * u8len cp"
  proof (cases "case_lookup tbl cp")
    case (Some e)
    note ok = lookup_entry_ok [OF Some]
    then consider "kn e = 1" | "kn e = 2" | "kn e = 3" by (force simp: case_entry_ok_def)
    then show ?thesis using ok Some by cases (auto simp: case_map_def case_entry_ok_def numeral_2_eq_2 numeral_3_eq_3)
  qed (use assms in \<open>simp add: case_map_def\<close>)
  then show "case_map tbl cp \<noteq> []" "length (case_map tbl cp) \<le> 3" "list_all scalar (case_map tbl cp)"
    "u8bytes (case_map tbl cp) \<le> 3 * u8len cp" by auto
qed

lemma case_loop_cps:
  assumes "list_all scalar cps" "length out \<le> cap"
  shows "case_loop tbl (p @ encode cps) cap (length p) out =
    (if length out + u8bytes (case_cps tbl cps) \<le> cap then Inr (out @ encode (case_cps tbl cps))
     else Inl TEXT_OVERFLOW)"
  using assms
proof (induction cps arbitrary: p out)
  case Nil
  then show ?case by (simp add: case_loop.simps)
next
  case (Cons cp cps)
  have dec: "u8dec (p @ u8enc cp @ encode cps) (length p) = Some (u8len cp, cp)"
    using u8dec_at [of cp p "encode cps"] Cons.prems(1) by simp
  have lt: "length p < length (p @ encode (cp # cps))" using u8len_range(1) [of cp] by simp
  have ne: "case_map tbl cp \<noteq> []" using case_map_ok(1) Cons.prems(1) by simp
  show ?case
  proof (cases "length out + u8bytes (case_map tbl cp) \<le> cap")
    case True
    have "length (out @ encode (case_map tbl cp)) \<le> cap" using True by (simp add: length_encode)
    then show ?thesis
      using Cons.IH [of "out @ encode (case_map tbl cp)" "p @ u8enc cp"] Cons.prems(1) True lt
      by (subst case_loop.simps) (simp add: dec emit_segment_eq length_encode add.assoc)
  next
    case False
    then show ?thesis using lt ne
      by (subst case_loop.simps) (simp add: dec emit_segment_eq)
  qed
qed

lemma case_all_cps:
  assumes "list_all scalar cps"
  shows "case_all tbl (encode cps) cap =
    (if u8bytes (case_cps tbl cps) \<le> cap then Inr (encode (case_cps tbl cps)) else Inl TEXT_OVERFLOW)"
  using case_loop_cps [OF assms, of "[]" cap "[]"] by (simp add: case_all_def)

lemma case_cps_bytes: "list_all scalar cps \<Longrightarrow> u8bytes (case_cps tbl cps) \<le> 3 * u8bytes cps"
  using case_map_ok(4) by (induction cps) fastforce+

lemma case_cps_scalar: "list_all scalar cps \<Longrightarrow> list_all scalar (case_cps tbl cps)"
  using case_map_ok(3) by (fastforce simp: list_all_iff)

lemma case_loop_Inr:
  "case_loop tbl s cap i out = Inr r \<Longrightarrow> i \<le> length s \<Longrightarrow> well_formed (drop i s)"
proof (induction tbl s cap i out rule: case_loop.induct)
  case (1 tbl s cap i out)
  show ?case
  proof (cases "i < length s")
    case True
    with 1(2) obtain k cp where dec: "u8dec s i = Some (k, cp)"
      by (subst (asm) case_loop.simps) (auto split: option.splits)
    with 1(2) True obtain out' where o: "emit_segment cap out (case_map tbl cp) = Inr out'"
      "case_loop tbl s cap (i + k) out' = Inr r"
      by (subst (asm) case_loop.simps) (auto split: sum.splits)
    note snd = u8dec_sound_aux [OF True dec]
    have "well_formed (drop (i + k) s)" using 1(1) [OF True dec refl o] snd by simp
    then show ?thesis using snd by (metis well_formed_append well_formed_u8enc)
  next
    case False
    then show ?thesis using 1(3) by simp
  qed
qed

lemma case_all_sound:
  assumes "case_all tbl s cap = Inr r"
  shows "well_formed s \<and> well_formed r \<and> length r \<le> cap \<and> length r \<le> 3 * length s"
proof -
  have "well_formed s" using case_loop_Inr [of s cap 0 "[]" r] assms by (simp add: case_all_def)
  then obtain cps where c: "list_all scalar cps" "s = encode cps" by (auto simp: well_formed_def)
  have r: "u8bytes (case_cps tbl cps) \<le> cap" "r = encode (case_cps tbl cps)"
    using case_all_cps [OF c(1), of cap] assms c(2) by (auto split: if_splits)
  have "well_formed r" unfolding r(2) by (intro well_formed_encode case_cps_scalar c(1))
  moreover have "length r \<le> 3 * length s"
    using case_cps_bytes [OF c(1)] unfolding r(2) c(2) length_encode .
  moreover have "length r \<le> cap" using r(1) unfolding r(2) length_encode .
  ultimately show ?thesis using \<open>well_formed s\<close> by blast
qed

end

interpretation foldm: case_mapping pas_u_fold ..
interpretation upperm: case_mapping pas_u_upper ..
interpretation lowerm: case_mapping pas_u_lower ..

section \<open>Properties\<close>

lemma example_fold: "case_map pas_u_fold 0x41 = [0x61]" "pas_text_fold (encode [0x41]) 1 = Inr (encode [0x61])"
proof -
  have "PUCase 0x41 1 0x61 0 0 \<in> set pas_u_fold" by (simp add: pas_u_fold_def pas_u_fold_0_def)
  from foldt.lookup_entry [OF this] show m: "case_map pas_u_fold 0x41 = [0x61]"
    by (simp add: case_map_def case_lookup_def)
  show "pas_text_fold (encode [0x41]) 1 = Inr (encode [0x61])"
    using foldm.case_all_cps [of "[0x41]" 1] by (simp add: m pas_text_fold_def scalar_def u8len_def)
qed



text \<open>
  The three case mappings keep text well-formed and bounded: whatever \<^verbatim>\<open>pas_text_fold\<close>,
  \<^verbatim>\<open>pas_text_upper\<close> or \<^verbatim>\<open>pas_text_lower\<close> answer without an error came from a well-formed text, is
  well-formed, fits the room given and takes at most three times the bytes.
\<close>

lemma casing_sound:
  assumes "f \<in> {pas_text_fold, pas_text_upper, pas_text_lower}" "f s cap = Inr r"
  shows "well_formed s \<and> well_formed r \<and> length r \<le> cap \<and> length r \<le> 3 * length s"
  using assms foldm.case_all_sound upperm.case_all_sound lowerm.case_all_sound
  by (auto simp: pas_text_fold_def pas_text_upper_def pas_text_lower_def)

lemma casing_sound_witness:
  "well_formed (encode [0x41]) \<and> well_formed (encode [0x61]) \<and> length (encode [0x61]) \<le> 1 \<and>
     length (encode [0x61]) \<le> 3 * length (encode [0x41])"
  by (rule casing_sound [of pas_text_fold]) (simp_all add: example_fold(2) [simplified])

end
