(* ===== verification/Grapheme.thy ===== *)
theory Grapheme
  imports Segments
begin

text \<open>
  Extended grapheme clusters and display columns (\<^verbatim>\<open>scan_step\<close>, \<^verbatim>\<open>breaks_before\<close>,
  \<^verbatim>\<open>pas_text_next\<close>, \<^verbatim>\<open>pas_text_columns\<close> and \<^verbatim>\<open>pas_text_count\<close> of
  \<^verbatim>\<open>src/runtime/pasrt_unicode.c\<close>).

  The reference definition \<open>joined\<close> states the rules GB3 to GB13 of UAX 29 about the code
  points already in the cluster, without any scan state; the automaton of the source is
  proved to decide them.
\<close>

section \<open>The operations\<close>

abbreviation (input) GCB_OTHER :: nat where "GCB_OTHER \<equiv> 0"
abbreviation (input) GCB_CR :: nat where "GCB_CR \<equiv> 1"
abbreviation (input) GCB_LF :: nat where "GCB_LF \<equiv> 2"
abbreviation (input) GCB_CONTROL :: nat where "GCB_CONTROL \<equiv> 3"
abbreviation (input) GCB_EXTEND :: nat where "GCB_EXTEND \<equiv> 4"
abbreviation (input) GCB_ZWJ :: nat where "GCB_ZWJ \<equiv> 5"
abbreviation (input) GCB_RI :: nat where "GCB_RI \<equiv> 6"
abbreviation (input) GCB_PREPEND :: nat where "GCB_PREPEND \<equiv> 7"
abbreviation (input) GCB_SPACINGMARK :: nat where "GCB_SPACINGMARK \<equiv> 8"
abbreviation (input) GCB_L :: nat where "GCB_L \<equiv> 9"
abbreviation (input) GCB_V :: nat where "GCB_V \<equiv> 10"
abbreviation (input) GCB_T :: nat where "GCB_T \<equiv> 11"
abbreviation (input) GCB_LV :: nat where "GCB_LV \<equiv> 12"
abbreviation (input) GCB_LVT :: nat where "GCB_LVT \<equiv> 13"

abbreviation (input) INCB_NONE :: nat where "INCB_NONE \<equiv> 0"
abbreviation (input) INCB_CONSONANT :: nat where "INCB_CONSONANT \<equiv> 1"
abbreviation (input) INCB_EXTEND :: nat where "INCB_EXTEND \<equiv> 2"
abbreviation (input) INCB_LINKER :: nat where "INCB_LINKER \<equiv> 3"

record scan =
  ri :: nat
  pict :: nat
  incb :: nat
  gcb :: nat

definition scan0 :: scan where
  "scan0 = \<lparr>ri = 0, pict = 0, incb = 0, gcb = GCB_OTHER\<rparr>"

definition scan_step :: "scan \<Rightarrow> cpoint \<Rightarrow> scan" where
  "scan_step st cp =
     (let g = u_gcb cp; ic = u_incb cp in
      \<lparr>ri = (if g = GCB_RI then ri st + 1 else 0),
       pict = (if u_extpict cp then 1
               else if g = GCB_EXTEND \<and> pict st = 1 then 1
               else if g = GCB_ZWJ \<and> pict st = 1 then 2
               else 0),
       incb = (if ic = INCB_CONSONANT then 1
               else if incb st \<noteq> 0 \<and> ic = INCB_LINKER then 2
               else if incb st \<noteq> 0 \<and> ic = INCB_EXTEND then incb st
               else 0),
       gcb = g\<rparr>)"

definition breaks_before :: "scan \<Rightarrow> cpoint \<Rightarrow> bool" where
  "breaks_before st cp =
     (let g = u_gcb cp in
      if gcb st = GCB_CR \<and> g = GCB_LF then False
      else if gcb st = GCB_CONTROL \<or> gcb st = GCB_CR \<or> gcb st = GCB_LF then True
      else if g = GCB_CONTROL \<or> g = GCB_CR \<or> g = GCB_LF then True
      else if gcb st = GCB_L \<and> (g = GCB_L \<or> g = GCB_V \<or> g = GCB_LV \<or> g = GCB_LVT) then False
      else if (gcb st = GCB_LV \<or> gcb st = GCB_V) \<and> (g = GCB_V \<or> g = GCB_T) then False
      else if (gcb st = GCB_LVT \<or> gcb st = GCB_T) \<and> g = GCB_T then False
      else if g = GCB_EXTEND \<or> g = GCB_ZWJ then False
      else if g = GCB_SPACINGMARK then False
      else if gcb st = GCB_PREPEND then False
      else if incb st = 2 \<and> u_incb cp = INCB_CONSONANT then False
      else if pict st = 2 \<and> u_extpict cp then False
      else if gcb st = GCB_RI \<and> g = GCB_RI \<and> ri st mod 2 = 1 then False
      else True)"

function next_loop :: "byte list \<Rightarrow> scan \<Rightarrow> nat \<Rightarrow> nat" where
  "next_loop s st i =
     (if i < length s then
        (case u8dec s i of
           None \<Rightarrow> i
         | Some (k, cp) \<Rightarrow> if breaks_before st cp then i else next_loop s (scan_step st cp) (i + k))
      else length s)"
  by auto
termination
  by (relation "measure (\<lambda>(s, st, i). length s - i)") (auto dest: u8dec_pos)

declare next_loop.simps [simp del]

definition pas_text_next :: "byte list \<Rightarrow> nat \<Rightarrow> nat" where
  "pas_text_next s at =
     (if length s \<le> at then length s
      else case u8dec s at of
        None \<Rightarrow> at + 1
      | Some (k, cp) \<Rightarrow> next_loop s (scan_step scan0 cp) (at + k))"

lemma next_loop_bounds: "i \<le> length s \<Longrightarrow> i \<le> next_loop s st i \<and> next_loop s st i \<le> length s"
proof (induction s st i rule: next_loop.induct)
  case (1 s st i)
  show ?case
  proof (cases "i < length s")
    case True
    show ?thesis
    proof (cases "u8dec s i")
      case (Some kc)
      obtain k cp where dec: "u8dec s i = Some (k, cp)" using Some by (cases kc) auto
      have "i + k \<le> length s" by (rule u8dec_sound_aux(3) [OF True dec])
      then show ?thesis using 1(1) [OF True dec refl] True dec
        by (subst (1 2) next_loop.simps) auto
    qed (use True in \<open>simp add: next_loop.simps\<close>)
  qed (use 1(2) in \<open>simp add: next_loop.simps\<close>)
qed

lemma next_progress: "at < length s \<Longrightarrow> at < pas_text_next s at \<and> pas_text_next s at \<le> length s"
proof (cases "u8dec s at")
  case (Some kc)
  assume at: "at < length s"
  obtain k cp where dec: "u8dec s at = Some (k, cp)" using Some by (cases kc) auto
  have "0 < k" "at + k \<le> length s" using u8dec_pos [OF dec] u8dec_sound_aux(3) [OF at dec] by blast+
  then show ?thesis using next_loop_bounds [of "at + k" s "scan_step scan0 cp"] dec at
    by (simp add: pas_text_next_def)
qed (simp add: pas_text_next_def)

function columns_loop :: "byte list \<Rightarrow> nat \<Rightarrow> nat \<Rightarrow> nat" where
  "columns_loop s i cols =
     (if i < length s then
        columns_loop s (pas_text_next s i)
          (cols + (case u8dec s i of Some (k, cp) \<Rightarrow> range_lookup_or pas_u_width cp 1 | None \<Rightarrow> 1))
      else cols)"
  by auto
termination
  by (relation "measure (\<lambda>(s, i, cols). length s - i)") (use next_progress in \<open>auto simp: diff_less_mono2\<close>)

definition pas_text_columns :: "byte list \<Rightarrow> nat" where
  "pas_text_columns s = columns_loop s 0 0"

function count_loop :: "byte list \<Rightarrow> nat \<Rightarrow> nat \<Rightarrow> nat" where
  "count_loop s i count = (if i < length s then count_loop s (pas_text_next s i) (count + 1) else count)"
  by auto
termination
  by (relation "measure (\<lambda>(s, i, count). length s - i)") (use next_progress in \<open>auto simp: diff_less_mono2\<close>)

definition pas_text_count :: "byte list \<Rightarrow> nat" where
  "pas_text_count s = count_loop s 0 0"

declare columns_loop.simps [simp del] count_loop.simps [simp del]

section \<open>The rules of UAX 29\<close>

text \<open>
  \<^term>\<open>cs\<close> is what the cluster already holds, \<^term>\<open>cp\<close> the next code point. A zero-width joiner
  is never pictographic, which the tables decide.
\<close>

definition emoji_zwj :: "cpoint list \<Rightarrow> bool" where
  "emoji_zwj cs \<longleftrightarrow> (\<exists>pre p exts z. cs = pre @ p # exts @ [z] \<and> u_extpict p \<and>
     list_all (\<lambda>e. u_gcb e = GCB_EXTEND) exts \<and> u_gcb z = GCB_ZWJ)"

definition conjunct_run :: "cpoint list \<Rightarrow> bool \<Rightarrow> bool" where
  "conjunct_run cs linked \<longleftrightarrow> (\<exists>pre c mid. cs = pre @ c # mid \<and> u_incb c = INCB_CONSONANT \<and>
     list_all (\<lambda>m. u_incb m = INCB_EXTEND \<or> u_incb m = INCB_LINKER) mid \<and>
     (linked \<longleftrightarrow> list_ex (\<lambda>m. u_incb m = INCB_LINKER) mid))"

definition ri_run :: "cpoint list \<Rightarrow> nat" where
  "ri_run cs = length (takeWhile (\<lambda>c. u_gcb c = GCB_RI) (rev cs))"

definition hangul_joined :: "nat \<Rightarrow> nat \<Rightarrow> bool" where
  "hangul_joined a b \<longleftrightarrow>
     a = GCB_L \<and> b \<in> {GCB_L, GCB_V, GCB_LV, GCB_LVT} \<or>
     a \<in> {GCB_LV, GCB_V} \<and> b \<in> {GCB_V, GCB_T} \<or>
     a \<in> {GCB_LVT, GCB_T} \<and> b = GCB_T"

definition joined :: "cpoint list \<Rightarrow> cpoint \<Rightarrow> bool" where
  "joined cs cp \<longleftrightarrow>
     (let a = u_gcb (last cs); b = u_gcb cp; controls = {GCB_CONTROL, GCB_CR, GCB_LF} in
      a = GCB_CR \<and> b = GCB_LF \<or>
      a \<notin> controls \<and> b \<notin> controls \<and>
      (hangul_joined a b \<or> b \<in> {GCB_EXTEND, GCB_ZWJ, GCB_SPACINGMARK} \<or> a = GCB_PREPEND \<or>
       conjunct_run cs True \<and> u_incb cp = INCB_CONSONANT \<or>
       emoji_zwj cs \<and> u_extpict cp \<or>
       b = GCB_RI \<and> odd (ri_run cs)))"

lemma zwj_only_0: "list_all (\<lambda>r. rv r = GCB_ZWJ \<longrightarrow> rlo r = 0x200D \<and> rhi r = 0x200D) pas_u_gcb_0"
  by (simp add: pas_u_gcb_0_def)

lemma zwj_only_1: "list_all (\<lambda>r. rv r = GCB_ZWJ \<longrightarrow> rlo r = 0x200D \<and> rhi r = 0x200D) pas_u_gcb_1"
  by (simp add: pas_u_gcb_1_def)

lemma zwj_only_2: "list_all (\<lambda>r. rv r = GCB_ZWJ \<longrightarrow> rlo r = 0x200D \<and> rhi r = 0x200D) pas_u_gcb_2"
  by (simp add: pas_u_gcb_2_def)

lemma zwj_only_3: "list_all (\<lambda>r. rv r = GCB_ZWJ \<longrightarrow> rlo r = 0x200D \<and> rhi r = 0x200D) pas_u_gcb_3"
  by (simp add: pas_u_gcb_3_def)

lemma zwj_only_4: "list_all (\<lambda>r. rv r = GCB_ZWJ \<longrightarrow> rlo r = 0x200D \<and> rhi r = 0x200D) pas_u_gcb_4"
  by (simp add: pas_u_gcb_4_def)

lemma zwj_only_5: "list_all (\<lambda>r. rv r = GCB_ZWJ \<longrightarrow> rlo r = 0x200D \<and> rhi r = 0x200D) pas_u_gcb_5"
  by (simp add: pas_u_gcb_5_def)

lemma zwj_only_6: "list_all (\<lambda>r. rv r = GCB_ZWJ \<longrightarrow> rlo r = 0x200D \<and> rhi r = 0x200D) pas_u_gcb_6"
  by (simp add: pas_u_gcb_6_def)

lemma zwj_only_7: "list_all (\<lambda>r. rv r = GCB_ZWJ \<longrightarrow> rlo r = 0x200D \<and> rhi r = 0x200D) pas_u_gcb_7"
  by (simp add: pas_u_gcb_7_def)

lemma zwj_only_8: "list_all (\<lambda>r. rv r = GCB_ZWJ \<longrightarrow> rlo r = 0x200D \<and> rhi r = 0x200D) pas_u_gcb_8"
  by (simp add: pas_u_gcb_8_def)

lemma zwj_only_9: "list_all (\<lambda>r. rv r = GCB_ZWJ \<longrightarrow> rlo r = 0x200D \<and> rhi r = 0x200D) pas_u_gcb_9"
  by (simp add: pas_u_gcb_9_def)

lemma zwj_only_10: "list_all (\<lambda>r. rv r = GCB_ZWJ \<longrightarrow> rlo r = 0x200D \<and> rhi r = 0x200D) pas_u_gcb_10"
  by (simp add: pas_u_gcb_10_def)

lemma zwj_only: "u_gcb cp = GCB_ZWJ \<Longrightarrow> cp = 0x200D"
proof -
  assume z: "u_gcb cp = GCB_ZWJ"
  then obtain r where r: "find (\<lambda>e. rlo e \<le> cp \<and> cp \<le> rhi e) pas_u_gcb = Some r" "rv r = GCB_ZWJ"
    by (auto simp: u_gcb_def range_lookup_def gcb.lookup_find split: option.splits)
  then have "r \<in> set pas_u_gcb" "rlo r \<le> cp" "cp \<le> rhi r" by (auto simp: find_Some_iff)
  moreover have "list_all (\<lambda>r. rv r = GCB_ZWJ \<longrightarrow> rlo r = 0x200D \<and> rhi r = 0x200D) pas_u_gcb"
    by (simp only: pas_u_gcb_def list_all_append zwj_only_0 zwj_only_1 zwj_only_2 zwj_only_3 zwj_only_4 zwj_only_5 zwj_only_6 zwj_only_7 zwj_only_8 zwj_only_9 zwj_only_10 simp_thms)
  ultimately show ?thesis using r(2) by (auto simp: list_all_iff)
qed

lemma zwj_not_pict: "u_gcb cp = GCB_ZWJ \<Longrightarrow> \<not> u_extpict cp"
proof -
  have "list_all (\<lambda>r. rhi r < 0x200D \<or> 0x200D < rlo r) pas_u_extpict_0"
    "list_all (\<lambda>r. rhi r < 0x200D \<or> 0x200D < rlo r) pas_u_extpict_1"
    by (simp_all add: pas_u_extpict_0_def pas_u_extpict_1_def)
  then have "list_all (\<lambda>r. rhi r < 0x200D \<or> 0x200D < rlo r) pas_u_extpict" by (simp add: pas_u_extpict_def)
  then have "find (\<lambda>e. rlo e \<le> 0x200D \<and> 0x200D \<le> rhi e) pas_u_extpict = None"
    by (fastforce simp: find_None_iff list_all_iff)
  then have "\<not> u_extpict 0x200D" by (simp add: u_extpict_def range_lookup_def extpict.lookup_find)
  moreover assume "u_gcb cp = GCB_ZWJ"
  ultimately show ?thesis using zwj_only by metis
qed

section \<open>The scan decides the rules\<close>

definition scanned :: "cpoint list \<Rightarrow> scan" where
  "scanned cs = foldl scan_step scan0 cs"

lemma scanned_snoc [simp]: "scanned (cs @ [c]) = scan_step (scanned cs) c"
  by (simp add: scanned_def)

lemma scanned_gcb: "cs \<noteq> [] \<Longrightarrow> gcb (scanned cs) = u_gcb (last cs)"
  by (cases cs rule: rev_exhaust) (auto simp: scan_step_def Let_def)

lemma scanned_ri: "ri (scanned cs) = ri_run cs"
  by (induction cs rule: rev_induct) (auto simp: scanned_def scan0_def ri_run_def scan_step_def Let_def)

definition pict_run :: "cpoint list \<Rightarrow> bool" where
  "pict_run cs \<longleftrightarrow> (\<exists>pre p exts. cs = pre @ p # exts \<and> u_extpict p \<and> list_all (\<lambda>e. u_gcb e = GCB_EXTEND) exts)"

lemma pict_run_snoc: "pict_run (cs @ [c]) \<longleftrightarrow> u_extpict c \<or> u_gcb c = GCB_EXTEND \<and> pict_run cs"
proof
  assume "pict_run (cs @ [c])"
  then obtain pre p exts where r: "cs @ [c] = pre @ p # exts" "u_extpict p" "list_all (\<lambda>e. u_gcb e = GCB_EXTEND) exts"
    by (auto simp: pict_run_def)
  then show "u_extpict c \<or> u_gcb c = GCB_EXTEND \<and> pict_run cs"
    by (cases exts rule: rev_exhaust) (auto simp: pict_run_def)
next
  assume "u_extpict c \<or> u_gcb c = GCB_EXTEND \<and> pict_run cs"
  then show "pict_run (cs @ [c])"
  proof
    assume "u_gcb c = GCB_EXTEND \<and> pict_run cs"
    then obtain pre p exts where "cs = pre @ p # exts" "u_extpict p" "list_all (\<lambda>e. u_gcb e = GCB_EXTEND) (exts @ [c])"
      by (auto simp: pict_run_def)
    then show ?thesis unfolding pict_run_def by (metis append_Cons append_assoc)
  qed (force simp: pict_run_def)
qed

lemma emoji_zwj_snoc: "emoji_zwj (cs @ [c]) \<longleftrightarrow> u_gcb c = GCB_ZWJ \<and> pict_run cs"
  unfolding emoji_zwj_def pict_run_def by fastforce

lemma scanned_pict:
  "pict (scanned cs) = 1 \<longleftrightarrow> pict_run cs" "pict (scanned cs) = 2 \<longleftrightarrow> emoji_zwj cs"
proof (induction cs rule: rev_induct)
  case Nil
  show "pict (scanned []) = 1 \<longleftrightarrow> pict_run []" "pict (scanned []) = 2 \<longleftrightarrow> emoji_zwj []"
    by (auto simp: scanned_def scan0_def pict_run_def emoji_zwj_def)
next
  case (snoc c cs)
  show "pict (scanned (cs @ [c])) = 1 \<longleftrightarrow> pict_run (cs @ [c])"
    using snoc by (auto simp: scan_step_def Let_def pict_run_snoc)
  show "pict (scanned (cs @ [c])) = 2 \<longleftrightarrow> emoji_zwj (cs @ [c])"
    using snoc zwj_not_pict [of c] by (auto simp: scan_step_def Let_def emoji_zwj_snoc)
qed

lemma conjunct_run_snoc:
  "conjunct_run (cs @ [c]) l \<longleftrightarrow>
     u_incb c = INCB_CONSONANT \<and> \<not> l \<or>
     u_incb c = INCB_LINKER \<and> l \<and> (conjunct_run cs True \<or> conjunct_run cs False) \<or>
     u_incb c = INCB_EXTEND \<and> conjunct_run cs l"
  (is "?L \<longleftrightarrow> ?R")
proof
  assume ?L
  then obtain pre x mid where r: "cs @ [c] = pre @ x # mid" "u_incb x = INCB_CONSONANT"
    "list_all (\<lambda>m. u_incb m = INCB_EXTEND \<or> u_incb m = INCB_LINKER) mid"
    "l \<longleftrightarrow> list_ex (\<lambda>m. u_incb m = INCB_LINKER) mid"
    by (auto simp: conjunct_run_def)
  show ?R
  proof (cases mid rule: rev_exhaust)
    case (snoc mid' y)
    have "conjunct_run cs (list_ex (\<lambda>m. u_incb m = INCB_LINKER) mid')" "y = c"
      using r snoc by (auto simp: conjunct_run_def)
    then show ?thesis using r snoc by (cases "list_ex (\<lambda>m. u_incb m = INCB_LINKER) mid'") auto
  qed (use r in auto)
next
  have ext: "conjunct_run (cs @ [c]) (l' \<or> u_incb c = INCB_LINKER)"
    if "conjunct_run cs l'" "u_incb c = INCB_EXTEND \<or> u_incb c = INCB_LINKER" for l'
  proof -
    from that(1) obtain pre x mid where "cs = pre @ x # mid" "u_incb x = INCB_CONSONANT"
      "list_all (\<lambda>m. u_incb m = INCB_EXTEND \<or> u_incb m = INCB_LINKER) mid"
      "l' \<longleftrightarrow> list_ex (\<lambda>m. u_incb m = INCB_LINKER) mid" by (auto simp: conjunct_run_def)
    with that(2) show ?thesis unfolding conjunct_run_def
      by (intro exI [of _ pre] exI [of _ x] exI [of _ "mid @ [c]"]) auto
  qed
  have cons: "u_incb c = INCB_CONSONANT \<Longrightarrow> conjunct_run (cs @ [c]) False"
    unfolding conjunct_run_def by (intro exI [of _ cs] exI [of _ c] exI [of _ "[]"]) simp
  assume ?R
  then show ?L using ext [of True] ext [of False] ext [of l] cons by auto
qed

lemma scanned_incb:
  "(incb (scanned cs) = 1 \<longleftrightarrow> conjunct_run cs False \<and> \<not> conjunct_run cs True) \<and>
   (incb (scanned cs) = 2 \<longleftrightarrow> conjunct_run cs True) \<and> incb (scanned cs) \<le> 2 \<and>
   \<not> (conjunct_run cs True \<and> conjunct_run cs False)"
proof (induction cs rule: rev_induct)
  case Nil
  show ?case by (auto simp: scanned_def scan0_def conjunct_run_def)
next
  case (snoc c cs)
  then show ?case by (auto simp: scan_step_def Let_def conjunct_run_snoc)
qed

lemma breaks_before_joined: "cs \<noteq> [] \<Longrightarrow> breaks_before (scanned cs) cp \<longleftrightarrow> \<not> joined cs cp"
proof -
  assume "cs \<noteq> []"
  note st = scanned_gcb [OF this] scanned_ri scanned_pict(2) scanned_incb
  have ri: "u_gcb (last cs) = GCB_RI \<and> odd (ri_run cs) \<longleftrightarrow> odd (ri_run cs)"
    using \<open>cs \<noteq> []\<close> by (cases cs rule: rev_exhaust) (auto simp: ri_run_def)
  show ?thesis
    unfolding breaks_before_def joined_def hangul_joined_def Let_def st(1,2)
    using st(3,4) ri by (auto simp: odd_iff_mod_2_eq_one)
qed

section \<open>Clusters of a well-formed text\<close>

fun cluster_from :: "cpoint list \<Rightarrow> cpoint list \<Rightarrow> cpoint list" where
  "cluster_from cs [] = cs"
| "cluster_from cs (x # xs) = (if joined cs x then cluster_from (cs @ [x]) xs else cs)"

lemma cluster_from_prefix: "\<exists>more rest. cluster_from cs xs = cs @ more \<and> xs = more @ rest"
proof (induction cs xs rule: cluster_from.induct)
  case (2 cs x xs)
  show ?case
  proof (cases "joined cs x")
    case True
    then obtain more rest where "cluster_from (cs @ [x]) xs = (cs @ [x]) @ more" "xs = more @ rest"
      using 2 by blast
    then show ?thesis using True by (intro exI [of _ "x # more"] exI [of _ rest]) simp
  qed simp
qed simp

definition first_cluster :: "cpoint list \<Rightarrow> cpoint list" where
  "first_cluster cps = (case cps of [] \<Rightarrow> [] | c # cs \<Rightarrow> cluster_from [c] cs)"

lemma first_cluster_prefix:
  "\<exists>rest. cps = first_cluster cps @ rest" "cps \<noteq> [] \<Longrightarrow> first_cluster cps \<noteq> []"
proof -
  show "\<exists>rest. cps = first_cluster cps @ rest"
  proof (cases cps)
    case (Cons c cs)
    then show ?thesis using cluster_from_prefix [of "[c]" cs] by (auto simp: first_cluster_def)
  qed (simp add: first_cluster_def)
  have "cluster_from [c] cs \<noteq> []" for c cs using cluster_from_prefix [of "[c]" cs] by auto
  then show "cps \<noteq> [] \<Longrightarrow> first_cluster cps \<noteq> []" by (cases cps) (simp_all add: first_cluster_def)
qed

function clusters :: "cpoint list \<Rightarrow> cpoint list list" where
  "clusters cps =
     (if cps = [] then []
      else first_cluster cps # clusters (drop (length (first_cluster cps)) cps))"
  by auto
termination
  by (relation "measure length") (use first_cluster_prefix(2) in \<open>auto simp: length_greater_0_conv\<close>)

declare clusters.simps [simp del]

lemma clusters_concat: "concat (clusters cps) = cps"
proof (induction cps rule: clusters.induct)
  case (1 cps)
  show ?case
  proof (cases "cps = []")
    case False
    obtain rest where r: "cps = first_cluster cps @ rest" using first_cluster_prefix(1) by blast
    then have "drop (length (first_cluster cps)) cps = rest" by (metis append_eq_conv_conj)
    then show ?thesis using 1 [OF False] False r by (subst clusters.simps) simp
  qed (simp add: clusters.simps)
qed

lemma clusters_nonempty: "c \<in> set (clusters cps) \<Longrightarrow> c \<noteq> []"
proof (induction cps rule: clusters.induct)
  case (1 cps)
  then show ?case using first_cluster_prefix(2) [of cps] by (subst (asm) (2) clusters.simps) (auto split: if_splits)
qed

lemma next_loop_cluster:
  "list_all scalar xs \<Longrightarrow> cs \<noteq> [] \<Longrightarrow>
     next_loop (p @ encode xs) (scanned cs) (length p) + u8bytes cs = length p + u8bytes (cluster_from cs xs)"
proof (induction xs arbitrary: cs p)
  case Nil
  then show ?case by (simp add: next_loop.simps)
next
  case (Cons x xs)
  have dec: "u8dec (p @ u8enc x @ encode xs) (length p) = Some (u8len x, x)"
    using u8dec_at [of x p "encode xs"] Cons.prems(1) by simp
  have lt: "length p < length (p @ u8enc x @ encode xs)" using u8len_range(1) [of x] by simp
  show ?case
  proof (cases "joined cs x")
    case True
    have "next_loop (p @ u8enc x @ encode xs) (scanned cs) (length p) =
        next_loop (p @ u8enc x @ encode xs) (scanned (cs @ [x])) (length p + u8len x)"
      using True lt breaks_before_joined [OF Cons.prems(2)] by (subst next_loop.simps) (simp add: dec)
    then show ?thesis using Cons.IH [of "cs @ [x]" "p @ u8enc x"] Cons.prems True by simp
  next
    case False
    then show ?thesis using lt breaks_before_joined [OF Cons.prems(2)]
      by (subst next_loop.simps) (simp add: dec)
  qed
qed

lemma next_cluster:
  assumes "list_all scalar cps" "cps \<noteq> []"
  shows "pas_text_next (p @ encode cps) (length p) = length (p @ encode (first_cluster cps))"
proof -
  obtain c cs where c: "cps = c # cs" using assms(2) by (cases cps) auto
  have dec: "u8dec (p @ u8enc c @ encode cs) (length p) = Some (u8len c, c)"
    using u8dec_at [of c p "encode cs"] assms(1) c by simp
  have len: "length (encode xs) = u8bytes xs" for xs by (simp add: length_concat comp_def)
  have "next_loop (p @ u8enc c @ encode cs) (scanned [c]) (length p + u8len c) = length p + u8bytes (cluster_from [c] cs)"
    using next_loop_cluster [of cs "[c]" "p @ u8enc c"] assms(1) c by simp
  then show ?thesis using u8len_range(1) [of c] dec
    by (simp add: c pas_text_next_def first_cluster_def scanned_def len)
qed

lemma drop_cluster:
  assumes "list_all scalar cps"
  shows "p @ encode cps = (p @ encode (first_cluster cps)) @ encode (drop (length (first_cluster cps)) cps)"
    "list_all scalar (drop (length (first_cluster cps)) cps)"
proof -
  obtain rest where r: "cps = first_cluster cps @ rest" using first_cluster_prefix(1) by blast
  then have "drop (length (first_cluster cps)) cps = rest" by (metis append_eq_conv_conj)
  then show "p @ encode cps = (p @ encode (first_cluster cps)) @ encode (drop (length (first_cluster cps)) cps)"
    using r by (metis append.assoc encode_append)
  show "list_all scalar (drop (length (first_cluster cps)) cps)"
    using assms by (meson in_set_dropD list_all_iff)
qed

lemma encode_longer: "cps \<noteq> [] \<Longrightarrow> length p < length (p @ encode cps)"
  using encode_eq_Nil [of cps] by simp

lemma count_loop_clusters:
  "list_all scalar cps \<Longrightarrow> count_loop (p @ encode cps) (length p) n = n + length (clusters cps)"
proof (induction cps arbitrary: p n rule: clusters.induct)
  case (1 cps)
  show ?case
  proof (cases "cps = []")
    case False
    note d = drop_cluster(1) [OF 1(2), of p] drop_cluster(2) [OF 1(2)]
    have "count_loop (p @ encode cps) (length p) n =
        count_loop (p @ encode cps) (length (p @ encode (first_cluster cps))) (n + 1)"
      using next_cluster [OF 1(2) False, of p] encode_longer [OF False, of p]
      by (subst count_loop.simps) simp
    then show ?thesis
      using 1(1) [OF False d(2), of "p @ encode (first_cluster cps)" "n + 1"] False d(1)
      by (subst clusters.simps) simp
  qed (simp add: count_loop.simps clusters.simps)
qed

abbreviation width :: "cpoint \<Rightarrow> nat" where
  "width cp \<equiv> range_lookup_or pas_u_width cp 1"

lemma first_cluster_hd: "cps \<noteq> [] \<Longrightarrow> hd (first_cluster cps) = hd cps"
  by (metis first_cluster_prefix hd_append)

lemma columns_loop_clusters:
  "list_all scalar cps \<Longrightarrow>
     columns_loop (p @ encode cps) (length p) n = n + sum_list (map (\<lambda>c. width (hd c)) (clusters cps))"
proof (induction cps arbitrary: p n rule: clusters.induct)
  case (1 cps)
  show ?case
  proof (cases "cps = []")
    case False
    note d = drop_cluster(1) [OF 1(2), of p] drop_cluster(2) [OF 1(2)]
    have dec: "u8dec (p @ encode cps) (length p) = Some (u8len (hd cps), hd cps)"
      using u8dec_at [of "hd cps" p "encode (tl cps)"] 1(2) False by (cases cps) auto
    have "columns_loop (p @ encode cps) (length p) n =
        columns_loop (p @ encode cps) (length (p @ encode (first_cluster cps))) (n + width (hd (first_cluster cps)))"
      using next_cluster [OF 1(2) False, of p] encode_longer [OF False, of p] first_cluster_hd [OF False] dec
      by (subst columns_loop.simps) simp
    then show ?thesis
      using 1(1) [OF False d(2), of "p @ encode (first_cluster cps)" "n + width (hd (first_cluster cps))"] False d(1)
      by (subst clusters.simps) simp
  qed (simp add: columns_loop.simps clusters.simps)
qed

section \<open>Properties\<close>

text \<open>
  Stepping over elements always advances and never leaves the text: from any position
  inside it, well-formed or not, \<^verbatim>\<open>pas_text_next\<close> answers a later position that is at most the
  length, so every loop over the elements of a text ends.
\<close>

lemma next_advances:
  assumes "at < length s"
  shows "at < pas_text_next s at \<and> pas_text_next s at \<le> length s"
  using next_progress [OF assms] .

lemma next_advances_witness:
  "0 < pas_text_next [byte_of 0xFF, byte_of 0x41] 0 \<and>
     pas_text_next [byte_of 0xFF, byte_of 0x41] 0 \<le> length [byte_of 0xFF, byte_of 0x41]"
  by (rule next_advances) simp

text \<open>
  C20. An element is an extended grapheme cluster: the scan of \<^verbatim>\<open>scan_step\<close>, run over the code
  points of a cluster, lets \<^verbatim>\<open>breaks_before\<close> decide the rules GB3 to GB13 of UAX 29, which are
  stated on the code points themselves.
\<close>

theorem scan_decides_rules:
  assumes "cs \<noteq> []"
  shows "breaks_before (foldl scan_step scan0 cs) cp \<longleftrightarrow> \<not> joined cs cp"
  using breaks_before_joined [OF assms] by (simp add: scanned_def)

theorem scan_decides_rules_witness:
  "breaks_before (foldl scan_step scan0 [0x0D]) 0x0A \<longleftrightarrow> \<not> joined [0x0D] 0x0A"
  by (rule scan_decides_rules) simp

text \<open>
  C30. Counting and measuring a text: on a well-formed text \<^verbatim>\<open>pas_text_count\<close> is the number of
  its clusters and \<^verbatim>\<open>pas_text_columns\<close> the sum of the widths of their first code points, where
  the clusters are non-empty and make up the text without gap or overlap.
\<close>

theorem count_and_columns:
  assumes "list_all scalar cps"
  shows "pas_text_count (encode cps) = length (clusters cps) \<and>
     pas_text_columns (encode cps) = sum_list (map (\<lambda>c. width (hd c)) (clusters cps)) \<and>
     concat (clusters cps) = cps \<and> [] \<notin> set (clusters cps)"
  using count_loop_clusters [OF assms, of "[]" 0] columns_loop_clusters [OF assms, of "[]" 0]
    clusters_concat clusters_nonempty
  by (auto simp: pas_text_count_def pas_text_columns_def)

theorem count_and_columns_witness:
  "pas_text_count (encode [0x41]) = length (clusters [0x41]) \<and>
     pas_text_columns (encode [0x41]) = sum_list (map (\<lambda>c. width (hd c)) (clusters [0x41])) \<and>
     concat (clusters [0x41]) = [0x41] \<and> [] \<notin> set (clusters [0x41])"
  by (rule count_and_columns) (simp add: scalar_def)

end
