(* ===== verification/Channel.thy ===== *)
theory Channel
  imports Prelude
begin

text \<open>
  Channels (\<^verbatim>\<open>struct pas_chan\<close> and the \<^verbatim>\<open>pas_chan_*\<close> operations of \<^verbatim>\<open>src/runtime/pasrt_task.c\<close>).

  Every operation holds the channel's mutex from its first read of the channel to its last
  write, apart from the waits inside \<^verbatim>\<open>pthread_cond_wait\<close>. The body of such a critical section
  is one function here; \<open>Blocked\<close> is the answer that the loop around the condition variable
  has to wait, and the operation runs its body again when it is woken. A channel lives in a
  store indexed by its address; a null pointer is \<^term>\<open>None\<close>, freeing removes the address.

  The interface the clients use is the locale \<open>bounded_queue\<close>: a queue with a bound that can
  be closed. The ring buffer is an interpretation of it.
\<close>

section \<open>The channel\<close>

record chan =
  esize :: nat
  cap :: nat
  head :: nat
  tail :: nat
  count :: nat
  refs :: int
  closed :: bool
  buf :: "byte list"

text \<open>\<^verbatim>\<open>memcpy\<close> into a buffer at an offset, and out of it.\<close>

definition copy_in :: "byte list \<Rightarrow> nat \<Rightarrow> byte list \<Rightarrow> nat \<Rightarrow> byte list" where
  "copy_in dst off src k = take off dst @ take k src @ drop (off + k) dst"

definition copy_out :: "byte list \<Rightarrow> nat \<Rightarrow> nat \<Rightarrow> byte list" where
  "copy_out src off k = take k (drop off src)"

definition LLONG_MAX :: int where
  "LLONG_MAX = 2 ^ 63 - 1"

text \<open>
  \<^verbatim>\<open>pas_chan_new\<close>. The two calls of \<^verbatim>\<open>malloc\<close> are parameters: whether the first gave storage, and
  the bytes of the second if it did.
\<close>

definition pas_chan_new :: "int \<Rightarrow> int \<Rightarrow> bool \<Rightarrow> byte list option \<Rightarrow> chan res" where
  "pas_chan_new es cp got mem =
     (if es \<le> 0 \<or> cp \<le> 0 then Inl (Trap ''a channel needs a positive capacity'')
      else if es > LLONG_MAX div cp then Inl (Trap ''a channel that large cannot be allocated'')
      else if \<not> got then Inl (Trap ''out of memory making a channel'')
      else case mem of
        None \<Rightarrow> Inl (Trap ''out of memory making a channel'')
      | Some b \<Rightarrow> Inr \<lparr>esize = nat es, cap = nat cp, head = 0, tail = 0, count = 0,
                        refs = 1, closed = False, buf = b\<rparr>)"

datatype 'a outcome = Blocked | Proceed 'a

definition put_value :: "chan \<Rightarrow> byte list \<Rightarrow> chan" where
  "put_value c v =
     c\<lparr>buf := copy_in (buf c) (tail c * esize c) v (esize c),
       tail := (tail c + 1) mod cap c, count := count c + 1\<rparr>"

definition take_value :: "chan \<Rightarrow> byte list \<times> chan" where
  "take_value c =
     (copy_out (buf c) (head c * esize c) (esize c),
      c\<lparr>head := (head c + 1) mod cap c, count := count c - 1\<rparr>)"

definition send_body :: "chan \<Rightarrow> byte list \<Rightarrow> chan outcome res" where
  "send_body c v =
     (if count c = cap c \<and> \<not> closed c then Inr Blocked
      else if closed c then Inl (Trap ''send on a channel that has been closed'')
      else Inr (Proceed (put_value c v)))"

definition receive_body :: "chan \<Rightarrow> (byte list option \<times> chan) outcome" where
  "receive_body c =
     (if count c = 0 \<and> \<not> closed c then Blocked
      else if count c = 0 then Proceed (None, c)
      else case take_value c of (v, c') \<Rightarrow> Proceed (Some v, c'))"

definition shut_body :: "chan \<Rightarrow> chan" where
  "shut_body c = c\<lparr>closed := True\<rparr>"

section \<open>The store of channels\<close>

type_synonym addr = nat
type_synonym chans = "addr \<rightharpoonup> chan"

text \<open>
  An access through an address with no channel is undefined behaviour of the program; the
  answer is \<^term>\<open>None\<close>, and the count of references is what rules it out.
\<close>

definition chan_upd :: "(chan \<Rightarrow> chan) \<Rightarrow> chans \<Rightarrow> addr \<Rightarrow> chans option" where
  "chan_upd f h p = (case h p of None \<Rightarrow> None | Some c \<Rightarrow> Some (h(p \<mapsto> f c)))"

definition pas_chan_ref :: "chans \<Rightarrow> addr option \<Rightarrow> chans option" where
  "pas_chan_ref h p =
     (case p of None \<Rightarrow> Some h | Some a \<Rightarrow> chan_upd (\<lambda>c. c\<lparr>refs := refs c + 1\<rparr>) h a)"

definition pas_chan_drop :: "chans \<Rightarrow> addr \<Rightarrow> chans option" where
  "pas_chan_drop h a =
     (case h a of
        None \<Rightarrow> None
      | Some c \<Rightarrow>
          (let c' = c\<lparr>refs := refs c - 1\<rparr> in
           if refs c' = 0 then Some (h(a := None)) else Some (h(a \<mapsto> c'))))"

definition pas_chan_unref :: "chans \<Rightarrow> addr option \<Rightarrow> (int \<times> chans) option" where
  "pas_chan_unref h p =
     (case p of None \<Rightarrow> Some (0, h) | Some a \<Rightarrow> map_option (Pair 0) (pas_chan_drop h a))"

definition pas_chan_shut :: "chans \<Rightarrow> addr option \<Rightarrow> chans option" where
  "pas_chan_shut h p = (case p of None \<Rightarrow> Some h | Some a \<Rightarrow> chan_upd shut_body h a)"

definition pas_chan_close :: "chans \<Rightarrow> addr option \<Rightarrow> (int \<times> chans) option" where
  "pas_chan_close h p =
     (case p of
        None \<Rightarrow> Some (0, h)
      | Some a \<Rightarrow>
          (case chan_upd shut_body h a of
             None \<Rightarrow> None
           | Some h' \<Rightarrow> map_option (Pair 0) (pas_chan_drop h' a)))"

definition pas_chan_send :: "chans \<Rightarrow> addr option \<Rightarrow> byte list \<Rightarrow> chans outcome res option" where
  "pas_chan_send h p v =
     (case p of
        None \<Rightarrow> Some (Inl (Trap ''send on an empty channel variable''))
      | Some a \<Rightarrow>
          (case h a of
             None \<Rightarrow> None
           | Some c \<Rightarrow>
               Some (case send_body c v of
                 Inl e \<Rightarrow> Inl e
               | Inr Blocked \<Rightarrow> Inr Blocked
               | Inr (Proceed c') \<Rightarrow> Inr (Proceed (h(a \<mapsto> c'))))))"

definition pas_chan_receive :: "chans \<Rightarrow> addr option \<Rightarrow> (byte list option \<times> chans) outcome res option" where
  "pas_chan_receive h p =
     (case p of
        None \<Rightarrow> Some (Inl (Trap ''receive on an empty channel variable''))
      | Some a \<Rightarrow>
          (case h a of
             None \<Rightarrow> None
           | Some c \<Rightarrow>
               Some (Inr (case receive_body c of
                 Blocked \<Rightarrow> Blocked
               | Proceed (v, c') \<Rightarrow> Proceed (v, h(a \<mapsto> c'))))))"

section \<open>The ring buffer holds a queue\<close>

definition chan_ok :: "chan \<Rightarrow> bool" where
  "chan_ok c \<longleftrightarrow> 0 < esize c \<and> 0 < cap c \<and> length (buf c) = esize c * cap c \<and>
     head c < cap c \<and> count c \<le> cap c \<and> tail c = (head c + count c) mod cap c"

definition slot :: "chan \<Rightarrow> nat \<Rightarrow> byte list" where
  "slot c i = copy_out (buf c) (i * esize c) (esize c)"

definition contents :: "chan \<Rightarrow> byte list list" where
  "contents c = map (\<lambda>k. slot c ((head c + k) mod cap c)) [0..<count c]"

lemma length_contents [simp]: "length (contents c) = count c"
  by (simp add: contents_def)

lemma copy_out_in:
  assumes "length v = k" "off + k \<le> length dst"
  shows "copy_out (copy_in dst off v k) off k = v"
  using assms by (simp add: copy_out_def copy_in_def)

lemma length_copy_in:
  "length v = k \<Longrightarrow> off + k \<le> length dst \<Longrightarrow> length (copy_in dst off v k) = length dst"
  by (simp add: copy_in_def)

lemma copy_out_other:
  assumes "length v = k" "i \<noteq> j" "(i + 1) * k \<le> length dst" "(j + 1) * k \<le> length dst"
  shows "copy_out (copy_in dst (i * k) v k) (j * k) k = copy_out dst (j * k) k"
proof -
  consider "i < j" | "j < i" using assms(2) by linarith
  then show ?thesis
  proof cases
    case 1
    then have le: "i * k + k \<le> j * k" by (metis Suc_leI add.commute mult_Suc mult_le_mono1)
    have "drop (j * k) (copy_in dst (i * k) v k) = drop (j * k - (i * k + k)) (drop (i * k + k) dst)"
      using assms(1,3) le 1 by (simp add: copy_in_def)
    also have "\<dots> = drop (j * k) dst" using le by simp
    finally show ?thesis by (simp add: copy_out_def)
  next
    case 2
    then have le: "j * k + k \<le> i * k" by (metis Suc_leI add.commute mult_Suc mult_le_mono1)
    have "take k (drop (j * k) (take (i * k) dst)) = take k (drop (j * k) dst)"
      using le by (simp add: drop_take)
    moreover have "k \<le> length (drop (j * k) (take (i * k) dst))" using assms(3) le by simp
    ultimately show ?thesis by (simp add: copy_out_def copy_in_def)
  qed
qed

lemma ring_index_inj:
  fixes h i j c :: nat
  assumes "i < c" "j < c" "(h + i) mod c = (h + j) mod c"
  shows "i = j"
proof -
  have "x = y" if "x \<le> y" "y < c" "(h + x) mod c = (h + y) mod c" for x y
  proof -
    have "c dvd (h + y) - (h + x)" using that(1,3) by (metis mod_eq_dvd_iff_nat add_le_mono1 add.commute)
    then have "c dvd y - x" by simp
    then show ?thesis using that(1,2) by (metis dvd_imp_le le_antisym less_imp_diff_less not_less zero_less_diff)
  qed
  from this [of i j] this [of j i] assms show ?thesis by (metis nat_le_linear)
qed

lemma slot_bound: "chan_ok c \<Longrightarrow> i < cap c \<Longrightarrow> (i + 1) * esize c \<le> length (buf c)"
  by (simp add: chan_ok_def) (metis Suc_leI mult.commute mult_Suc mult_le_mono1)

lemma put_value_simps [simp]:
  "esize (put_value c v) = esize c" "cap (put_value c v) = cap c" "head (put_value c v) = head c"
  "count (put_value c v) = count c + 1" "refs (put_value c v) = refs c" "closed (put_value c v) = closed c"
  by (simp_all add: put_value_def)

lemma put_value_ok:
  assumes "chan_ok c" "count c < cap c" "length v = esize c"
  shows "chan_ok (put_value c v)" "contents (put_value c v) = contents c @ [v]"
proof -
  have t: "tail c < cap c" "tail c = (head c + count c) mod cap c" using assms(1) by (auto simp: chan_ok_def)
  have room: "tail c * esize c + esize c \<le> length (buf c)" using slot_bound [OF assms(1) t(1)] by (simp add: add.commute)
  show "chan_ok (put_value c v)"
    using assms room by (auto simp: chan_ok_def put_value_def length_copy_in mod_Suc_eq)
  have new: "slot (put_value c v) (tail c) = v"
    using assms(3) room by (simp add: slot_def put_value_def copy_out_in)
  have old: "slot (put_value c v) ((head c + k) mod cap c) = slot c ((head c + k) mod cap c)" if "k < count c" for k
  proof -
    have "(head c + k) mod cap c \<noteq> tail c"
      using ring_index_inj [of k "cap c" "count c" "head c"] that assms(2) t(2) by force
    moreover have "(head c + k) mod cap c < cap c" using t(1) by simp
    ultimately show ?thesis
      using copy_out_other [OF assms(3), of "tail c" "(head c + k) mod cap c" "buf c"]
        slot_bound [OF assms(1)] t(1) by (simp add: slot_def put_value_def)
  qed
  show "contents (put_value c v) = contents c @ [v]"
    using old new t(2) by (simp add: contents_def)
qed

lemma take_value_ok:
  assumes "chan_ok c" "0 < count c" "take_value c = (v, c')"
  shows "chan_ok c'" "contents c = v # contents c'" "length v = esize c"
proof -
  have v: "v = slot c (head c)" and c': "c' = c\<lparr>head := (head c + 1) mod cap c, count := count c - 1\<rparr>"
    using assms(3) by (auto simp: take_value_def slot_def)
  have hd: "head c < cap c" using assms(1) by (simp add: chan_ok_def)
  obtain m where m: "count c = Suc m" using assms(2) by (cases "count c") auto
  then have "((head c + 1) mod cap c + (count c - 1)) mod cap c = (head c + count c) mod cap c"
    using mod_add_left_eq [of "head c + 1" "cap c" m] by (simp only: diff_Suc_Suc diff_zero add_Suc_right add_Suc add.right_neutral One_nat_def)
  then show "chan_ok c'" using assms(1) by (auto simp: chan_ok_def c')
  have "[0..<count c] = 0 # map Suc [0..<count c - 1]"
    by (simp add: m upt_conv_Cons map_Suc_upt del: upt_Suc)
  moreover have "slot c' i = slot c i" for i by (simp add: slot_def c')
  moreover have "(head c + Suc k) mod cap c = ((head c + 1) mod cap c + k) mod cap c" for k
    using mod_add_left_eq [of "head c + 1" "cap c" k] by (simp only: add_Suc_right add_Suc add.right_neutral One_nat_def)
  ultimately show "contents c = v # contents c'"
    using hd by (simp add: contents_def v c' comp_def)
  show "length v = esize c" using slot_bound [OF assms(1) hd] by (simp add: v slot_def copy_out_def)
qed

section \<open>The contract of a channel\<close>

text \<open>What a program can observe of a channel, in the order the critical sections ran.\<close>

datatype 'v event = Sent 'v | Received 'v | Drained | Shut

fun replay :: "('c \<Rightarrow> 'v \<Rightarrow> 'c outcome res) \<Rightarrow> ('c \<Rightarrow> ('v option \<times> 'c) outcome) \<Rightarrow> ('c \<Rightarrow> 'c) \<Rightarrow>
    'c \<Rightarrow> 'v event list \<Rightarrow> 'c option" where
  "replay sd rc cl c [] = Some c"
| "replay sd rc cl c (Sent v # es) =
     (case sd c v of Inr (Proceed c') \<Rightarrow> replay sd rc cl c' es | _ \<Rightarrow> None)"
| "replay sd rc cl c (Received v # es) =
     (case rc c of Proceed (Some w, c') \<Rightarrow> if w = v then replay sd rc cl c' es else None | _ \<Rightarrow> None)"
| "replay sd rc cl c (Drained # es) =
     (case rc c of Proceed (None, c') \<Rightarrow> replay sd rc cl c' es | _ \<Rightarrow> None)"
| "replay sd rc cl c (Shut # es) = replay sd rc cl (cl c) es"

fun sent :: "'v event list \<Rightarrow> 'v list" where
  "sent [] = []"
| "sent (Sent v # es) = v # sent es"
| "sent (_ # es) = sent es"

fun received :: "'v event list \<Rightarrow> 'v list" where
  "received [] = []"
| "received (Received v # es) = v # received es"
| "received (_ # es) = received es"

locale bounded_queue =
  fixes ok :: "'c \<Rightarrow> bool" and bound :: "'c \<Rightarrow> nat" and queue :: "'c \<Rightarrow> 'v list" and shut :: "'c \<Rightarrow> bool"
    and admits :: "'c \<Rightarrow> 'v \<Rightarrow> bool"
    and sd :: "'c \<Rightarrow> 'v \<Rightarrow> 'c outcome res" and rc :: "'c \<Rightarrow> ('v option \<times> 'c) outcome" and cl :: "'c \<Rightarrow> 'c"
  assumes bounded: "ok c \<Longrightarrow> length (queue c) \<le> bound c"
    and sd_full: "ok c \<Longrightarrow> \<not> shut c \<Longrightarrow> length (queue c) = bound c \<Longrightarrow> sd c v = Inr Blocked"
    and sd_room: "ok c \<Longrightarrow> \<not> shut c \<Longrightarrow> length (queue c) < bound c \<Longrightarrow> admits c v \<Longrightarrow>
      \<exists>c'. sd c v = Inr (Proceed c') \<and> ok c' \<and> queue c' = queue c @ [v] \<and> shut c' = shut c \<and> bound c' = bound c \<and>
        admits c' = admits c"
    and sd_shut: "ok c \<Longrightarrow> shut c \<Longrightarrow> is_trap (sd c v)"
    and rcv_wait: "ok c \<Longrightarrow> \<not> shut c \<Longrightarrow> queue c = [] \<Longrightarrow> rc c = Blocked"
    and rcv_drained: "ok c \<Longrightarrow> shut c \<Longrightarrow> queue c = [] \<Longrightarrow> rc c = Proceed (None, c)"
    and rcv_value: "ok c \<Longrightarrow> queue c = v # q \<Longrightarrow>
      \<exists>c'. rc c = Proceed (Some v, c') \<and> ok c' \<and> queue c' = q \<and> shut c' = shut c \<and> bound c' = bound c \<and>
        admits c' = admits c"
    and cl_shut: "ok c \<Longrightarrow> ok (cl c) \<and> queue (cl c) = queue c \<and> shut (cl c) \<and> bound (cl c) = bound c \<and>
      admits (cl c) = admits c"
begin

abbreviation run :: "'c \<Rightarrow> 'v event list \<Rightarrow> 'c option" where
  "run \<equiv> replay sd rc cl"

lemma sd_cases:
  assumes "ok c" "admits c v"
  obtains (full) "\<not> shut c" "length (queue c) = bound c" "sd c v = Inr Blocked"
  | (room) c' where "\<not> shut c" "length (queue c) < bound c" "sd c v = Inr (Proceed c')" "ok c'"
      "queue c' = queue c @ [v]" "shut c' = shut c" "bound c' = bound c" "admits c' = admits c"
  | (trap) e where "shut c" "sd c v = Inl e"
proof (cases "shut c")
  case True
  then show ?thesis using sd_shut [OF assms(1) True, of v] that(3) by (cases "sd c v") auto
next
  case False
  then show ?thesis
    using that(1,2) sd_full [OF assms(1) False] sd_room [OF assms(1) False _ assms(2)] bounded [OF assms(1)]
    by (metis le_neq_implies_less)
qed

lemma rcv_cases:
  assumes "ok c"
  obtains (wait) "\<not> shut c" "queue c = []" "rc c = Blocked"
  | (drained) "shut c" "queue c = []" "rc c = Proceed (None, c)"
  | (got) v q c' where "queue c = v # q" "rc c = Proceed (Some v, c')" "ok c'" "queue c' = q"
      "shut c' = shut c" "bound c' = bound c" "admits c' = admits c"
proof (cases "queue c")
  case Nil
  then show ?thesis using that(1,2) rcv_wait [OF assms] rcv_drained [OF assms] by blast
next
  case (Cons v q)
  then show ?thesis using that(3) rcv_value [OF assms Cons] by blast
qed

lemma run_invariant:
  assumes "ok c" "\<forall>v \<in> set (sent es). admits c v" "run c es = Some c'"
  shows "ok c' \<and> queue c @ sent es = received es @ queue c' \<and> bound c' = bound c \<and>
    (shut c \<longrightarrow> shut c' \<and> sent es = []) \<and> (shut c' \<longrightarrow> shut c \<or> Shut \<in> set es)"
  using assms
proof (induction es arbitrary: c)
  case (Cons e es)
  show ?case
  proof (cases e)
    case (Sent v)
    from Cons.prems(1) have "admits c v" using Cons.prems(2) Sent by simp
    with Cons.prems(1) show ?thesis
    proof (cases rule: sd_cases)
      case (room c1)
      then show ?thesis using Cons.IH [of c1] Cons.prems Sent by simp
    qed (use Cons.prems(3) Sent in auto)
  next
    case (Received v)
    from Cons.prems(1) show ?thesis
    proof (cases rule: rcv_cases)
      case (got w q c1)
      then show ?thesis using Cons.IH [of c1] Cons.prems Received by (auto split: if_splits)
    qed (use Cons.prems(3) Received in auto)
  next
    case Drained
    from Cons.prems(1) show ?thesis
    proof (cases rule: rcv_cases)
      case drained
      then show ?thesis using Cons.IH [of c] Cons.prems Drained by auto
    qed (use Cons.prems(3) Drained in auto)
  next
    case Shut
    then show ?thesis using Cons.IH [of "cl c"] Cons.prems cl_shut [OF Cons.prems(1)] by auto
  qed
qed simp

lemma run_append: "run c (es @ es') = Option.bind (run c es) (\<lambda>c1. run c1 es')"
proof (induction es arbitrary: c)
  case (Cons e es)
  then show ?case by (cases e) (auto split: sum.splits outcome.splits option.splits)
qed simp

lemma fifo:
  assumes "ok c" "queue c = []" "\<forall>v \<in> set (sent es). admits c v" "run c es = Some c'"
  shows "sent es = received es @ queue c'" "length (queue c') \<le> bound c"
  using run_invariant [OF assms(1,3,4)] assms(2) bounded [of c'] by auto

lemma drained_complete:
  assumes "ok c" "queue c = []" "\<not> shut c" "\<forall>v \<in> set (sent (es @ Drained # es')). admits c v"
    "run c (es @ Drained # es') = Some c'"
  shows "Shut \<in> set es \<and> received es = sent es \<and> sent es' = [] \<and> received es' = []"
proof -
  have sent_append: "sent (xs @ ys) = sent xs @ sent ys" for xs ys :: "'v event list"
    by (induction xs rule: sent.induct) auto
  obtain c1 where c1: "run c es = Some c1" "run c1 (Drained # es') = Some c'"
    using assms(5) run_append [of c es "Drained # es'"] by (cases "run c es") auto
  have adm: "\<forall>v \<in> set (sent es). admits c v" using assms(4) sent_append by (metis Un_iff set_append)
  note inv = run_invariant [OF assms(1) adm c1(1)]
  then have "ok c1" by blast
  then have dr: "shut c1" "queue c1 = []" "run c1 es' = Some c'"
    by (cases rule: rcv_cases; use c1(2) in auto)+
  have "run c1 es' = Some c' \<Longrightarrow> sent es' = [] \<and> received es' = []" 
  proof -
    assume r: "run c1 es' = Some c'"
    have "ok d \<Longrightarrow> shut d \<Longrightarrow> queue d = [] \<Longrightarrow> run d xs = Some c' \<Longrightarrow> sent xs = [] \<and> received xs = []" for d xs
    proof (induction xs arbitrary: d)
      case (Cons e xs)
      show ?case
      proof (cases e)
        case (Sent v)
        then show ?thesis using sd_shut [OF Cons.prems(1,2), of v] Cons.prems(4) by (auto split: sum.splits)
      qed (use Cons rcv_drained [OF Cons.prems(1-3)] cl_shut [OF Cons.prems(1)] in auto)
    qed simp
    from this [OF \<open>ok c1\<close> dr(1,2) r] show ?thesis .
  qed
  then show ?thesis using inv dr assms(2,3) by auto
qed

end

interpretation ring: bounded_queue chan_ok cap contents closed "\<lambda>c v. length v = esize c"
  send_body receive_body shut_body
proof unfold_locales
  fix c :: chan and v :: "byte list"
  show "chan_ok c \<Longrightarrow> length (contents c) \<le> cap c" by (simp add: chan_ok_def)
  show "chan_ok c \<Longrightarrow> \<not> closed c \<Longrightarrow> length (contents c) = cap c \<Longrightarrow> send_body c v = Inr Blocked"
    by (simp add: send_body_def)
  show "chan_ok c \<Longrightarrow> \<not> closed c \<Longrightarrow> length (contents c) < cap c \<Longrightarrow> length v = esize c \<Longrightarrow>
      \<exists>c'. send_body c v = Inr (Proceed c') \<and> chan_ok c' \<and> contents c' = contents c @ [v] \<and> closed c' = closed c \<and>
        cap c' = cap c \<and> (\<lambda>v. length v = esize c') = (\<lambda>v. length v = esize c)"
    using put_value_ok [of c v] by (simp add: send_body_def)
  show "chan_ok c \<Longrightarrow> closed c \<Longrightarrow> is_trap (send_body c v)" by (simp add: send_body_def)
  show "chan_ok c \<Longrightarrow> \<not> closed c \<Longrightarrow> contents c = [] \<Longrightarrow> receive_body c = Blocked"
    and "chan_ok c \<Longrightarrow> closed c \<Longrightarrow> contents c = [] \<Longrightarrow> receive_body c = Proceed (None, c)"
    by (simp_all add: receive_body_def contents_def)
  show "chan_ok c \<Longrightarrow> chan_ok (shut_body c) \<and> contents (shut_body c) = contents c \<and> closed (shut_body c) \<and>
      cap (shut_body c) = cap c \<and> (\<lambda>v. length v = esize (shut_body c)) = (\<lambda>v. length v = esize c)"
    by (simp add: shut_body_def chan_ok_def contents_def slot_def)
next
  fix c :: chan and v :: "byte list" and q
  assume c: "chan_ok c" "contents c = v # q"
  then have n: "0 < count c" by (metis length_contents length_greater_0_conv list.distinct(1))
  obtain w c' where t: "take_value c = (w, c')" by (cases "take_value c")
  then have "closed c' = closed c" "cap c' = cap c" "esize c' = esize c" by (auto simp: take_value_def)
  then show "\<exists>c'. receive_body c = Proceed (Some v, c') \<and> chan_ok c' \<and> contents c' = q \<and> closed c' = closed c \<and>
      cap c' = cap c \<and> (\<lambda>v. length v = esize c') = (\<lambda>v. length v = esize c)"
    using take_value_ok [OF c(1) n t] c(2) t n by (simp add: receive_body_def)
qed

lemma pas_chan_new_ok:
  assumes "pas_chan_new es cp got mem = Inr c" "\<forall>b. mem = Some b \<longrightarrow> length b = nat (es * cp)"
  shows "chan_ok c" "contents c = []" "refs c = 1" "\<not> closed c"
  using assms by (auto simp: pas_chan_new_def chan_ok_def contents_def nat_mult_distrib split: if_splits option.splits)

section \<open>References\<close>

text \<open>
  Who holds a reference: \<^term>\<open>hold p\<close> holders of the channel at \<^term>\<open>p\<close>. A program makes a channel,
  lends it (\<^verbatim>\<open>pas_chan_ref\<close> where a task is spawned), shuts it, or gives a reference up, by the
  closer of a shared variable or by that of the owner. Each step but the first is taken by a
  holder.
\<close>

inductive ref_step :: "chans \<times> (addr \<Rightarrow> nat) \<Rightarrow> chans \<times> (addr \<Rightarrow> nat) \<Rightarrow> bool" where
  make: "h p = None \<Longrightarrow> pas_chan_new es cp got mem = Inr c \<Longrightarrow>
     ref_step (h, hold) (h(p \<mapsto> c), hold(p := 1))"
| lend: "0 < hold p \<Longrightarrow> pas_chan_ref h (Some p) = Some h' \<Longrightarrow>
     ref_step (h, hold) (h', hold(p := hold p + 1))"
| use: "0 < hold p \<Longrightarrow> chan_upd f h p = Some h' \<Longrightarrow> (\<And>c. refs (f c) = refs c) \<Longrightarrow>
     ref_step (h, hold) (h', hold)"
| unref: "0 < hold p \<Longrightarrow> pas_chan_unref h (Some p) = Some (r, h') \<Longrightarrow>
     ref_step (h, hold) (h', hold(p := hold p - 1))"
| close: "0 < hold p \<Longrightarrow> pas_chan_close h (Some p) = Some (r, h') \<Longrightarrow>
     ref_step (h, hold) (h', hold(p := hold p - 1))"

definition counted :: "chans \<times> (addr \<Rightarrow> nat) \<Rightarrow> bool" where
  "counted st \<longleftrightarrow> (\<forall>p. (fst st p = None \<longrightarrow> snd st p = 0) \<and>
      (\<forall>c. fst st p = Some c \<longrightarrow> 0 < snd st p \<and> refs c = int (snd st p)))"

lemma countedD: "counted (h, hold) \<Longrightarrow> 0 < hold p \<Longrightarrow> \<exists>c. h p = Some c \<and> refs c = int (hold p)"
  unfolding counted_def by (cases "h p") (auto dest: spec [of _ p])

lemma counted_drop:
  assumes "counted (h, hold)" "0 < hold p" "pas_chan_drop h p = Some h'"
  shows "counted (h', hold(p := hold p - 1))"
proof -
  obtain c where c: "h p = Some c" "refs c = int (hold p)" using countedD [OF assms(1,2)] by blast
  show ?thesis
  proof (cases "hold p = 1")
    case True
    then have "h' = h(p := None)" using assms(3) c by (simp add: pas_chan_drop_def Let_def)
    then show ?thesis using assms(1) True by (auto simp: counted_def)
  next
    case False
    then have "h' = h(p \<mapsto> c\<lparr>refs := refs c - 1\<rparr>)" using assms(2,3) c by (auto simp: pas_chan_drop_def Let_def)
    moreover have "0 < hold p - 1" "refs c - 1 = int (hold p - 1)" using False assms(2) c(2) by auto
    ultimately show ?thesis using assms(1) by (auto simp: counted_def)
  qed
qed

lemma counted_upd:
  assumes "counted (h, hold)" "chan_upd f h p = Some h'" "\<And>c. refs (f c) = refs c"
  shows "counted (h', hold)"
  using assms by (auto simp: counted_def chan_upd_def split: option.splits if_splits)

lemma counted_step: "ref_step st st' \<Longrightarrow> counted st \<Longrightarrow> counted st'"
proof (induction rule: ref_step.induct)
  case (make h p es cp got mem c hold)
  then have "refs c = 1" by (auto simp: pas_chan_new_def split: if_splits option.splits)
  then show ?case using make by (auto simp: counted_def)
next
  case (lend hold p h h')
  then show ?case
    by (auto simp: counted_def pas_chan_ref_def chan_upd_def split: option.splits if_splits)
next
  case (use hold p f h h')
  then show ?case using counted_upd by blast
next
  case (unref hold p h r h')
  then show ?case using counted_drop by (auto simp: pas_chan_unref_def)
next
  case (close hold p h r h')
  then obtain h1 where "chan_upd shut_body h p = Some h1" "pas_chan_drop h1 p = Some h'"
    by (auto simp: pas_chan_close_def split: option.splits)
  then show ?case
    using counted_drop [OF counted_upd [OF close.prems]] close.hyps(1) by (simp add: shut_body_def)
qed

lemma counted_reachable: "ref_step\<^sup>*\<^sup>* (Map.empty, \<lambda>_. 0) st \<Longrightarrow> counted st"
  by (induction rule: rtranclp_induct) (auto simp: counted_def [of "(Map.empty, \<lambda>_. 0)"] counted_step)

section \<open>Properties\<close>

definition example_chan :: chan where
  "example_chan = \<lparr>esize = 1, cap = 1, head = 0, tail = 0, count = 0, refs = 1, closed = False, buf = [0]\<rparr>"

text \<open>
  C4. A channel is a bounded first-in first-out queue: starting from a new channel, whatever
  critical sections of sends, receives and closes run in whatever order, the values received
  are the first of the values sent, in order and none twice, the rest are still in the
  channel, and there are never more of them than its capacity.
\<close>

theorem channel_fifo:
  assumes "pas_chan_new es cp got (Some mem) = Inr c" "length mem = nat (es * cp)"
    and "\<forall>v \<in> set (sent evs). length v = esize c"
    and "replay send_body receive_body shut_body c evs = Some c'"
  shows "sent evs = received evs @ contents c' \<and> length (contents c') \<le> cap c"
  using ring.fifo [OF _ _ assms(3,4)] pas_chan_new_ok [OF assms(1)] assms(2) by simp

theorem channel_fifo_witness:
  "sent [Sent [7 :: byte], Received [7], Sent [9]] =
     received [Sent [7 :: byte], Received [7], Sent [9]] @ [[9]] \<and> length [[9 :: byte]] \<le> cap example_chan"
proof -
  let ?c = "\<lparr>esize = 1, cap = 1, head = 0, tail = 0, count = 1, refs = 1, closed = False, buf = [9 :: byte]\<rparr>"
  have "pas_chan_new 1 1 True (Some [0]) = Inr example_chan"
    by (simp add: pas_chan_new_def example_chan_def LLONG_MAX_def)
  moreover have "replay send_body receive_body shut_body example_chan [Sent [7], Received [7], Sent [9]] = Some ?c"
    by (simp add: example_chan_def send_body_def receive_body_def put_value_def take_value_def copy_in_def copy_out_def)
  moreover have "contents ?c = [[9]]" by (simp add: contents_def slot_def copy_out_def)
  ultimately show ?thesis
    using channel_fifo [of 1 1 True "[0]" example_chan "[Sent [7], Received [7], Sent [9]]" ?c]
    by (simp add: example_chan_def)
qed

text \<open>
  A receive reports the close only when nothing is left: when a receive answers 0 the
  channel had been closed, every value ever sent had already been received, and nothing is
  sent or received afterwards.
\<close>

lemma channel_drains_before_close:
  assumes "pas_chan_new es cp got (Some mem) = Inr c" "length mem = nat (es * cp)"
    and "\<forall>v \<in> set (sent (evs @ Drained # evs')). length v = esize c"
    and "replay send_body receive_body shut_body c (evs @ Drained # evs') = Some c'"
  shows "Shut \<in> set evs \<and> received evs = sent evs \<and> sent evs' = [] \<and> received evs' = []"
  using ring.drained_complete [OF _ _ _ assms(3,4)] pas_chan_new_ok [OF assms(1)] assms(2) by simp

lemma channel_drains_before_close_witness:
  "Shut \<in> set [Sent [7 :: byte], Shut, Received [7]] \<and>
     received [Sent [7 :: byte], Shut, Received [7]] = sent [Sent [7], Shut, Received [7]] \<and>
     sent ([] :: byte list event list) = [] \<and> received ([] :: byte list event list) = []"
proof -
  have "pas_chan_new 1 1 True (Some [0]) = Inr example_chan"
    by (simp add: pas_chan_new_def example_chan_def LLONG_MAX_def)
  moreover have "replay send_body receive_body shut_body example_chan ([Sent [7], Shut, Received [7]] @ [Drained]) =
      Some \<lparr>esize = 1, cap = 1, head = 0, tail = 0, count = 0, refs = 1, closed = True, buf = [7]\<rparr>"
    by (simp add: example_chan_def send_body_def receive_body_def put_value_def take_value_def shut_body_def
        copy_in_def copy_out_def)
  ultimately show ?thesis
    using channel_drains_before_close [of 1 1 True "[0]" example_chan "[Sent [7], Shut, Received [7]]" "[]"]
    by (simp add: example_chan_def)
qed

text \<open>
  C32. A channel is freed exactly when its last reference is given up: in every reachable state
  the count of a channel is the number of its holders, a channel with a holder exists, and
  no operation a holder makes ever reaches a freed one.
\<close>

theorem channel_references:
  assumes "ref_step\<^sup>*\<^sup>* (Map.empty, \<lambda>_. 0) (h, hold)" "0 < hold p"
  shows "(\<exists>c. h p = Some c \<and> refs c = int (hold p)) \<and>
    pas_chan_ref h (Some p) \<noteq> None \<and> pas_chan_shut h (Some p) \<noteq> None \<and>
    (\<exists>h'. pas_chan_unref h (Some p) = Some (0, h') \<and> (h' p = None \<longleftrightarrow> hold p = 1)) \<and>
    (\<exists>h'. pas_chan_close h (Some p) = Some (0, h') \<and> (h' p = None \<longleftrightarrow> hold p = 1)) \<and>
    pas_chan_send h (Some p) v \<noteq> None \<and> pas_chan_receive h (Some p) \<noteq> None"
proof -
  obtain c where c: "h p = Some c" "refs c = int (hold p)"
    using countedD [OF counted_reachable [OF assms(1)] assms(2)] by blast
  have "refs c - 1 = 0 \<longleftrightarrow> hold p = 1" using c(2) by linarith
  then show ?thesis using c assms(2)
    by (auto simp: pas_chan_ref_def pas_chan_shut_def pas_chan_unref_def pas_chan_close_def pas_chan_drop_def
        pas_chan_send_def pas_chan_receive_def chan_upd_def shut_body_def Let_def)
qed

theorem channel_references_witness:
  "(\<exists>c. (Map.empty(0 \<mapsto> example_chan)) 0 = Some c \<and> refs c = 1) \<and>
    (\<exists>h'. pas_chan_unref (Map.empty(0 \<mapsto> example_chan)) (Some 0) = Some (0, h') \<and> h' 0 = None)"
proof -
  have "pas_chan_new 1 1 True (Some [0]) = Inr example_chan"
    by (simp add: pas_chan_new_def example_chan_def LLONG_MAX_def)
  then have "ref_step (Map.empty, \<lambda>_. 0) (Map.empty(0 \<mapsto> example_chan), (\<lambda>_. 0)(0 := 1))"
    by (intro ref_step.make) simp_all
  then show ?thesis
    using channel_references [of "Map.empty(0 \<mapsto> example_chan)" "(\<lambda>_. 0)(0 := 1)" 0 "[]"] by auto
qed

end
