(* ===== verification/Select.thy ===== *)
theory Select
  imports Channel
begin

text \<open>
  Selecting over several channels (\<^verbatim>\<open>pas_select_try\<close> and \<^verbatim>\<open>pas_select\<close> of
  \<^verbatim>\<open>src/runtime/pasrt_task.c\<close>).

  The turn is the \<^verbatim>\<open>unsigned\<close> counter of the thread, a 32-bit word, and the arithmetic of the
  start of a round is kept at that width. The waits are given as a list of wake-ups, each
  with the store of channels the selector finds when it holds the activity mutex again; a
  select that has used them all is still waiting.
\<close>

section \<open>One arm\<close>

datatype arm_kind = ReceiveArm | SendArm

record select_arm =
  kind :: arm_kind
  got :: bool
  chan :: "addr option"
  val :: "byte list"

definition pas_select_try :: "chans \<Rightarrow> select_arm \<Rightarrow> (bool \<times> chans \<times> select_arm) res option" where
  "pas_select_try h a =
     (case chan a of
        None \<Rightarrow> Some (Inl (Trap ''a select arm names an empty channel variable''))
      | Some p \<Rightarrow>
          (case h p of
             None \<Rightarrow> None
           | Some c \<Rightarrow> Some (
               case kind a of
                 ReceiveArm \<Rightarrow>
                   if count c > 0 then
                     (case take_value c of (v, c') \<Rightarrow> Inr (True, h(p \<mapsto> c'), a\<lparr>val := v, got := True\<rparr>))
                   else if closed c then Inr (True, h, a\<lparr>got := False\<rparr>)
                   else Inr (False, h, a)
               | SendArm \<Rightarrow>
                   if closed c then Inl (Trap ''send on a channel that has been closed'')
                   else if count c < cap c then Inr (True, h(p \<mapsto> put_value c (val a)), a)
                   else Inr (False, h, a))))"

section \<open>One round\<close>

type_synonym turn = "32 word"

definition arm_index :: "turn \<Rightarrow> nat \<Rightarrow> nat \<Rightarrow> nat" where
  "arm_index t n k = unat ((t + word_of_nat k) mod word_of_nat n)"

definition arm_order :: "turn \<Rightarrow> nat \<Rightarrow> nat list" where
  "arm_order t n = map (arm_index t n) [0..<n]"

fun poll :: "chans \<Rightarrow> select_arm list \<Rightarrow> nat list \<Rightarrow> (nat option \<times> chans \<times> select_arm list) res option" where
  "poll h arms [] = Some (Inr (None, h, arms))"
| "poll h arms (i # is) =
     (case pas_select_try h (arms ! i) of
        None \<Rightarrow> None
      | Some (Inl e) \<Rightarrow> Some (Inl e)
      | Some (Inr (done, h', a)) \<Rightarrow>
          if done then Some (Inr (Some i, h', arms[i := a])) else poll h' (arms[i := a]) is)"

section \<open>The statement\<close>

datatype wake = Woken chans | TimedOut

datatype select_result = Fired nat chans "select_arm list" | GaveUp | Waiting

fun select_loop :: "bool \<Rightarrow> chans \<Rightarrow> select_arm list \<Rightarrow> turn \<Rightarrow> wake list \<Rightarrow> (select_result \<times> turn) res option" where
  "select_loop bounded h arms t ws =
     (case poll h arms (arm_order t (length arms)) of
        None \<Rightarrow> None
      | Some (Inl e) \<Rightarrow> Some (Inl e)
      | Some (Inr (Some i, h', arms')) \<Rightarrow> Some (Inr (Fired i h' arms', t + 1))
      | Some (Inr (None, h', arms')) \<Rightarrow>
          (case ws of
             [] \<Rightarrow> Some (Inr (Waiting, t + 1))
           | Woken h2 # ws' \<Rightarrow> select_loop bounded h2 arms' (t + 1) ws'
           | TimedOut # ws' \<Rightarrow>
               if bounded then Some (Inr (GaveUp, t + 1)) else select_loop bounded h' arms' (t + 1) ws'))"

declare select_loop.simps [simp del]

definition select_deadline :: "int \<times> int \<Rightarrow> int \<Rightarrow> int \<times> int" where
  "select_deadline now wait_ms =
     (let s = fst now + wait_ms div 1000; ns = snd now + wait_ms mod 1000 * 1000000 in
      if ns \<ge> 1000000000 then (s + 1, ns - 1000000000) else (s, ns))"

definition pas_select :: "chans \<Rightarrow> select_arm list \<Rightarrow> bool \<Rightarrow> int \<Rightarrow> turn \<Rightarrow> wake list \<Rightarrow> (select_result \<times> turn) res option" where
  "pas_select h arms bounded wait_ms t ws =
     (if length arms = 0 then Some (Inl (Trap ''a select statement needs at least one channel arm''))
      else if bounded \<and> wait_ms < 0 then
        Some (Inl (Trap ''a select statement cannot wait for a negative time''))
      else select_loop bounded h arms t ws)"

section \<open>The order of a round\<close>

lemma unat_word_of_nat32: "k < 2 ^ 32 \<Longrightarrow> unat (word_of_nat k :: turn) = k"
  by (simp add: unat_of_nat)

lemma arm_index_nowrap:
  assumes "unat t + k < 2 ^ 32" "0 < n" "n < 2 ^ 32"
  shows "arm_index t n k = (unat t + k) mod n"
proof -
  have "unat (word_of_nat k :: turn) = k" using assms(1) by (intro unat_word_of_nat32) simp
  then have "unat (t + word_of_nat k) = unat t + k" using assms(1) by (simp add: unat_word_ariths)
  then show ?thesis using unat_word_of_nat32 [OF assms(3)] by (simp add: arm_index_def unat_mod_distrib)
qed

lemma arm_order_perm:
  assumes "unat t + n \<le> 2 ^ 32" "0 < n" "n < 2 ^ 32"
  shows "distinct (arm_order t n)" "set (arm_order t n) = {0..<n}" "hd (arm_order t n) = unat t mod n"
proof -
  have idx: "arm_index t n k = (unat t + k) mod n" if "k < n" for k
    using arm_index_nowrap [OF _ assms(2,3), of t k] assms(1) that by simp
  have inj: "inj_on (arm_index t n) {0..<n}"
    using ring_index_inj idx by (auto intro!: inj_onI)
  then show "distinct (arm_order t n)" by (simp add: arm_order_def distinct_map)
  have "arm_index t n ` {0..<n} \<subseteq> {0..<n}" using idx assms(2) by auto
  then show "set (arm_order t n) = {0..<n}"
    using inj by (simp add: arm_order_def endo_inj_surj)
  show "hd (arm_order t n) = unat t mod n"
    using idx [OF assms(2)] assms(2) by (simp add: arm_order_def upt_conv_Cons)
qed

section \<open>What a round finds\<close>

definition arm_ready :: "chans \<Rightarrow> select_arm \<Rightarrow> bool" where
  "arm_ready h a \<longleftrightarrow>
     (\<exists>p c. chan a = Some p \<and> h p = Some c \<and>
       (case kind a of ReceiveArm \<Rightarrow> 0 < count c \<or> closed c | SendArm \<Rightarrow> \<not> closed c \<and> count c < cap c))"

definition arm_sound :: "chans \<Rightarrow> select_arm \<Rightarrow> bool" where
  "arm_sound h a \<longleftrightarrow> (\<exists>p c. chan a = Some p \<and> h p = Some c \<and> (kind a = SendArm \<longrightarrow> \<not> closed c))"

lemma try_sound:
  assumes "arm_sound h a"
  shows "\<exists>h' a'. pas_select_try h a = Some (Inr (arm_ready h a, h', a')) \<and>
    (\<not> arm_ready h a \<longrightarrow> h' = h \<and> a' = a)"
  using assms
  by (cases "kind a") (auto simp: arm_sound_def arm_ready_def pas_select_try_def split: prod.splits)

lemma poll_find:
  assumes "list_all (arm_sound h) arms" "\<forall>i \<in> set is. i < length arms"
  shows "case find (\<lambda>i. arm_ready h (arms ! i)) is of
      None \<Rightarrow> poll h arms is = Some (Inr (None, h, arms))
    | Some i \<Rightarrow> \<exists>h' a. pas_select_try h (arms ! i) = Some (Inr (True, h', a)) \<and>
        poll h arms is = Some (Inr (Some i, h', arms[i := a]))"
  using assms(2)
proof (induction "is")
  case (Cons i "is")
  have "arm_sound h (arms ! i)" using assms(1) Cons.prems by (simp add: list_all_length)
  then obtain h' a' where t: "pas_select_try h (arms ! i) = Some (Inr (arm_ready h (arms ! i), h', a'))"
    "\<not> arm_ready h (arms ! i) \<Longrightarrow> h' = h \<and> a' = arms ! i"
    using try_sound by blast
  show ?case
  proof (cases "arm_ready h (arms ! i)")
    case False
    then have "poll h arms (i # is) = poll h arms is" using t by simp
    then show ?thesis using Cons False
      by (cases "find (\<lambda>i. arm_ready h (arms ! i)) is") (simp_all del: poll.simps)
  qed (use t in auto)
qed simp

lemma find_arm:
  assumes "unat t + length arms \<le> 2 ^ 32" "arms \<noteq> []" "length arms < 2 ^ 32"
  shows "find P (arm_order t (length arms)) = None \<longleftrightarrow> (\<forall>i < length arms. \<not> P i)"
    "find P (arm_order t (length arms)) = Some i \<Longrightarrow> i < length arms \<and> P i"
proof -
  note perm = arm_order_perm(2) [OF assms(1) _ assms(3)]
  show "find P (arm_order t (length arms)) = None \<longleftrightarrow> (\<forall>i < length arms. \<not> P i)"
    using perm assms(2) by (auto simp: find_None_iff)
  assume "find P (arm_order t (length arms)) = Some i"
  then have "i \<in> set (arm_order t (length arms))" "P i" by (auto simp: find_Some_iff)
  then show "i < length arms \<and> P i" using perm assms(2) by auto
qed

lemma select_round:
  assumes "list_all (arm_sound h) arms" "arms \<noteq> []" "\<not> (bounded \<and> wait_ms < 0)"
    "unat t + length arms \<le> 2 ^ 32" "length arms < 2 ^ 32"
  defines "r \<equiv> find (\<lambda>i. arm_ready h (arms ! i)) (arm_order t (length arms))"
  shows "r = None \<Longrightarrow> pas_select h arms bounded wait_ms t ws =
      (case ws of
         [] \<Rightarrow> Some (Inr (Waiting, t + 1))
       | Woken h2 # ws' \<Rightarrow> pas_select h2 arms bounded wait_ms (t + 1) ws'
       | TimedOut # ws' \<Rightarrow>
           if bounded then Some (Inr (GaveUp, t + 1)) else pas_select h arms bounded wait_ms (t + 1) ws')"
    and "r = Some i \<Longrightarrow> \<exists>h' a. pas_select_try h (arms ! i) = Some (Inr (True, h', a)) \<and>
      pas_select h arms bounded wait_ms t ws = Some (Inr (Fired i h' (arms[i := a]), t + 1))"
proof -
  have "\<forall>i \<in> set (arm_order t (length arms)). i < length arms"
    using arm_order_perm(2) [OF assms(4) _ assms(5)] assms(2) by simp
  note p = poll_find [OF assms(1) this]
  show "r = None \<Longrightarrow> pas_select h arms bounded wait_ms t ws =
      (case ws of
         [] \<Rightarrow> Some (Inr (Waiting, t + 1))
       | Woken h2 # ws' \<Rightarrow> pas_select h2 arms bounded wait_ms (t + 1) ws'
       | TimedOut # ws' \<Rightarrow>
           if bounded then Some (Inr (GaveUp, t + 1)) else pas_select h arms bounded wait_ms (t + 1) ws')"
    using p assms(2,3) unfolding r_def pas_select_def
    by (subst select_loop.simps) (simp split: list.splits wake.splits)
  show "r = Some i \<Longrightarrow> \<exists>h' a. pas_select_try h (arms ! i) = Some (Inr (True, h', a)) \<and>
      pas_select h arms bounded wait_ms t ws = Some (Inr (Fired i h' (arms[i := a]), t + 1))"
    using p assms(2,3) unfolding r_def pas_select_def by (subst select_loop.simps) auto
qed

section \<open>Properties\<close>

text \<open>
  C23. A select proceeds exactly when an arm can: as long as the turn counter does not wrap
  during the round, \<^verbatim>\<open>pas_select\<close> answers an arm if and only if one is ready, the arm it
  answers is ready, and what it does is what that arm alone would do.
\<close>

theorem select_finds_ready:
  assumes "list_all (arm_sound h) arms" "arms \<noteq> []" "\<not> (bounded \<and> wait_ms < 0)"
    "unat t + length arms \<le> 2 ^ 32" "length arms < 2 ^ 32"
  shows "if \<exists>i < length arms. arm_ready h (arms ! i)
    then \<exists>i h' a. i < length arms \<and> arm_ready h (arms ! i) \<and>
      pas_select_try h (arms ! i) = Some (Inr (True, h', a)) \<and>
      pas_select h arms bounded wait_ms t ws = Some (Inr (Fired i h' (arms[i := a]), t + 1))
    else pas_select h arms bounded wait_ms t [] = Some (Inr (Waiting, t + 1)) \<and>
      pas_select h arms True 0 t [TimedOut] = Some (Inr (GaveUp, t + 1))"
proof (cases "find (\<lambda>i. arm_ready h (arms ! i)) (arm_order t (length arms))")
  case None
  then have "\<not> (\<exists>i < length arms. arm_ready h (arms ! i))"
    using find_arm(1) [OF assms(4,2,5), of "\<lambda>i. arm_ready h (arms ! i)"] by simp
  moreover have "pas_select h arms bounded wait_ms t [] = Some (Inr (Waiting, t + 1))"
    by (subst select_round(1) [OF assms None]) simp
  moreover have "pas_select h arms True 0 t [TimedOut] = Some (Inr (GaveUp, t + 1))"
    by (subst select_round(1) [OF assms(1,2) _ assms(4,5) None]) simp_all
  ultimately show ?thesis by (simp only: if_False simp_thms)
next
  case (Some i)
  note i = find_arm(2) [OF assms(4,2,5) Some]
  then have "\<exists>i < length arms. arm_ready h (arms ! i)" by blast
  moreover have "\<exists>i h' a. i < length arms \<and> arm_ready h (arms ! i) \<and>
      pas_select_try h (arms ! i) = Some (Inr (True, h', a)) \<and>
      pas_select h arms bounded wait_ms t ws = Some (Inr (Fired i h' (arms[i := a]), t + 1))"
    using select_round(2) [OF assms Some, of ws] i by blast
  ultimately show ?thesis by (simp only: if_True)
qed

definition example_arm :: select_arm where
  "example_arm = \<lparr>kind = SendArm, got = False, chan = Some 0, val = [7]\<rparr>"

theorem select_finds_ready_witness:
  "\<exists>i h' a. i < length [example_arm] \<and> arm_ready [0 \<mapsto> example_chan] ([example_arm] ! i) \<and>
      pas_select_try [0 \<mapsto> example_chan] ([example_arm] ! i) = Some (Inr (True, h', a)) \<and>
      pas_select [0 \<mapsto> example_chan] [example_arm] False 0 0 [] = Some (Inr (Fired i h' ([example_arm][i := a]), 0 + 1))"
proof -
  have "list_all (arm_sound [0 \<mapsto> example_chan]) [example_arm]" "arm_ready [0 \<mapsto> example_chan] ([example_arm] ! 0)"
    by (simp_all add: arm_sound_def arm_ready_def example_arm_def example_chan_def)
  then show ?thesis
    using select_finds_ready [of "[0 \<mapsto> example_chan]" "[example_arm]" False 0 0 "[]"]
    by (simp del: fun_upd_apply split: if_splits)
qed

text \<open>
  The start of a select rotates: while the turn counter does not wrap, every round looks
  at every arm exactly once, and in \<^term>\<open>n\<close> successive rounds every arm is looked at first
  exactly once, so no arm that stays ready starves another.
\<close>

lemma select_rotation:
  assumes "0 < n" "unat t + 2 * n \<le> 2 ^ 32" "n < 2 ^ 31"
  shows "(\<forall>j < n. distinct (arm_order (t + word_of_nat j) n) \<and> set (arm_order (t + word_of_nat j) n) = {0..<n}) \<and>
    bij_betw (\<lambda>j. hd (arm_order (t + word_of_nat j) n)) {0..<n} {0..<n}"
proof -
  have u: "unat (t + word_of_nat j) = unat t + j" if "j < n" for j
    using assms that unat_word_of_nat32 [of j] by (simp add: unat_word_ariths)
  have perm: "unat (t + word_of_nat j) + n \<le> 2 ^ 32" if "j < n" for j using u [OF that] assms that by simp
  have "n < 2 ^ 32" using assms(3) by simp
  note ord = arm_order_perm [OF perm assms(1) this]
  have hd: "hd (arm_order (t + word_of_nat j) n) = (unat t + j) mod n" if "j < n" for j
    using ord(3) [OF that] u [OF that] by simp
  have "bij_betw (\<lambda>j. (unat t + j) mod n) {0..<n} {0..<n}"
  proof (rule bij_betw_imageI)
    show inj: "inj_on (\<lambda>j. (unat t + j) mod n) {0..<n}" using ring_index_inj by (auto intro!: inj_onI)
    show "(\<lambda>j. (unat t + j) mod n) ` {0..<n} = {0..<n}"
      using inj assms(1) by (intro endo_inj_surj) auto
  qed
  then have "bij_betw (\<lambda>j. hd (arm_order (t + word_of_nat j) n)) {0..<n} {0..<n}"
    using hd by (subst bij_betw_cong [of _ _ "\<lambda>j. (unat t + j) mod n"]) auto
  then show ?thesis using ord(1,2) by blast
qed

lemma select_rotation_witness:
  "distinct (arm_order 5 3) \<and> set (arm_order 5 3) = {0..<3} \<and>
    bij_betw (\<lambda>j. hd (arm_order (5 + word_of_nat j) 3)) {0..<3} {0..<3}"
  using select_rotation [of 3 5] by force

text \<open>
  Where the counter wraps the rotation breaks: for three arms and the last value of the
  counter, the round looks at the first arm twice and never at the third, so a select whose
  third arm alone is ready does not see it.
\<close>

lemma select_wrap_skips: "arm_order (- 1) 3 = [0, 0, 1]"
  by (simp add: arm_order_def arm_index_def upt_rec)

text \<open>
  The deadline of a bounded select is the time asked for: the normalised time is that
  many milliseconds after the reading of the clock, with its nanoseconds in range.
\<close>

lemma select_deadline_exact:
  assumes "0 \<le> ms" "0 \<le> snd now" "snd now < 1000000000"
  shows "fst (select_deadline now ms) * 1000000000 + snd (select_deadline now ms) =
      fst now * 1000000000 + snd now + ms * 1000000 \<and>
    0 \<le> snd (select_deadline now ms) \<and> snd (select_deadline now ms) < 1000000000"
proof -
  define q r where "q = ms div 1000" and "r = ms mod 1000"
  have "ms = q * 1000 + r" "0 \<le> r" "r < 1000" by (simp_all add: q_def r_def)
  then show ?thesis using assms(2,3)
    unfolding select_deadline_def Let_def q_def [symmetric] r_def [symmetric] by auto
qed

lemma select_deadline_exact_witness:
  "fst (select_deadline (5, 999000000) 1500) * 1000000000 + snd (select_deadline (5, 999000000) 1500) =
      5 * 1000000000 + 999000000 + 1500 * 1000000 \<and>
    0 \<le> snd (select_deadline (5, 999000000) 1500) \<and> snd (select_deadline (5, 999000000) 1500) < (1000000000 :: int)"
  using select_deadline_exact [of 1500 "(5, 999000000)"] by simp

end
