(* ===== verification/Locking.thy ===== *)
theory Locking
  imports Select
begin

text \<open>
  The mutexes of \<^verbatim>\<open>src/runtime/pasrt_task.c\<close>: every channel has one, and the activity mutex with its
  condition variable tells selecting threads that some channel has changed.

  The theories \<open>Channel\<close> and \<open>Select\<close> take a critical section for one step.  Here a step is one lock,
  one release or one wait, threads interleave freely, and what is in a channel is only its version,
  a number that grows with every change.  A thread is at one of the places where the code takes or
  gives back a mutex:

  \<^item> \<open>WantChan\<close>, \<open>InChan\<close>, \<open>CondWait\<close>: a send, a receive, a close or a change of the reference count;
  \<^item> \<open>WantAct\<close>, \<open>InAct\<close>: \<^verbatim>\<open>pas_activity_signal\<close>, which such an operation ends with;
  \<^item> \<open>SelWant\<close>, \<open>SelPoll\<close>, \<open>SelIn\<close>, \<open>SelWait\<close>: \<^verbatim>\<open>pas_select\<close>, with the channels of its arms and those
    it has still to try in this round.
\<close>

type_synonym tid = nat

datatype place =
    Idle | WantChan addr | InChan addr | CondWait addr | WantAct | InAct
  | SelWant "addr list" | SelPoll "addr list" "addr list" | SelIn "addr list" addr "addr list" | SelWait "addr list"

record locks =
  act :: "tid option"
  own :: "addr \<Rightarrow> tid option"
  version :: "addr \<Rightarrow> nat"
  seen :: "tid \<Rightarrow> addr \<Rightarrow> nat"
  place_of :: "tid \<Rightarrow> place"

text \<open>\<^verbatim>\<open>pthread_cond_broadcast\<close> on the activity condition: every waiting selector wants the mutex again.\<close>

fun woken :: "place \<Rightarrow> place" where
  "woken (SelWait cs) = SelWant cs"
| "woken p = p"

definition broadcast :: "locks \<Rightarrow> locks" where
  "broadcast s = s\<lparr>place_of := woken \<circ> place_of s\<rparr>"

abbreviation (input) goes :: "tid \<Rightarrow> place \<Rightarrow> locks \<Rightarrow> locks" where
  "goes t p s \<equiv> s\<lparr>place_of := (place_of s)(t := p)\<rparr>"

abbreviation (input) takes :: "addr \<Rightarrow> tid \<Rightarrow> locks \<Rightarrow> locks" where
  "takes c t s \<equiv> s\<lparr>own := (own s)(c := Some t)\<rparr>"

abbreviation (input) gives :: "addr \<Rightarrow> locks \<Rightarrow> locks" where
  "gives c s \<equiv> s\<lparr>own := (own s)(c := None)\<rparr>"

abbreviation (input) changes :: "addr \<Rightarrow> locks \<Rightarrow> locks" where
  "changes c s \<equiv> s\<lparr>version := (version s)(c := Suc (version s c))\<rparr>"

inductive lock_step :: "locks \<Rightarrow> locks \<Rightarrow> bool" where
  op_start: "place_of s t = Idle \<Longrightarrow> lock_step s (goes t (WantChan c) s)"
| op_lock: "place_of s t = WantChan c \<Longrightarrow> own s c = None \<Longrightarrow> lock_step s (goes t (InChan c) (takes c t s))"
| op_wait: "place_of s t = InChan c \<Longrightarrow> lock_step s (goes t (CondWait c) (gives c s))"
| op_wake: "place_of s t = CondWait c \<Longrightarrow> lock_step s (goes t (WantChan c) s)"
| op_nothing: "place_of s t = InChan c \<Longrightarrow> lock_step s (goes t Idle (gives c s))"
| op_change: "place_of s t = InChan c \<Longrightarrow> lock_step s (goes t WantAct (gives c (changes c s)))"
| act_lock: "place_of s t = WantAct \<Longrightarrow> act s = None \<Longrightarrow> lock_step s (goes t InAct (s\<lparr>act := Some t\<rparr>))"
| act_signal: "place_of s t = InAct \<Longrightarrow> lock_step s (goes t Idle (broadcast (s\<lparr>act := None\<rparr>)))"
| sel_start: "place_of s t = Idle \<Longrightarrow> lock_step s (goes t (SelWant cs) s)"
| sel_lock: "place_of s t = SelWant cs \<Longrightarrow> act s = None \<Longrightarrow> lock_step s (goes t (SelPoll cs cs) (s\<lparr>act := Some t\<rparr>))"
| sel_try: "place_of s t = SelPoll cs (c # todo) \<Longrightarrow> own s c = None \<Longrightarrow> lock_step s (goes t (SelIn cs c todo) (takes c t s))"
| sel_miss: "place_of s t = SelIn cs c todo \<Longrightarrow>
    lock_step s (goes t (SelPoll cs todo) (gives c (s\<lparr>seen := (seen s)(t := (seen s t)(c := version s c))\<rparr>)))"
| sel_hit: "place_of s t = SelIn cs c todo \<Longrightarrow> lock_step s (goes t Idle (broadcast (gives c (changes c (s\<lparr>act := None\<rparr>)))))"
| sel_wait: "place_of s t = SelPoll cs [] \<Longrightarrow> lock_step s (goes t (SelWait cs) (s\<lparr>act := None\<rparr>))"
| sel_wake: "place_of s t = SelWait cs \<Longrightarrow> lock_step s (goes t (SelWant cs) s)"

text \<open>At the start every mutex is free and no thread is inside the runtime.\<close>

definition locks0 :: locks where
  "locks0 = \<lparr>act = None, own = (\<lambda>_. None), version = (\<lambda>_. 0), seen = (\<lambda>_ _. 0), place_of = (\<lambda>_. Idle)\<rparr>"

section \<open>Who holds what\<close>

fun holds :: "place \<Rightarrow> addr option" where
  "holds (InChan c) = Some c"
| "holds (SelIn cs c todo) = Some c"
| "holds _ = None"

fun holds_act :: "place \<Rightarrow> bool" where
  "holds_act InAct = True"
| "holds_act (SelPoll cs todo) = True"
| "holds_act (SelIn cs c todo) = True"
| "holds_act _ = False"

definition owners :: "locks \<Rightarrow> bool" where
  "owners s \<longleftrightarrow> (\<forall>t c. own s c = Some t \<longleftrightarrow> holds (place_of s t) = Some c) \<and>
     (\<forall>t. act s = Some t \<longleftrightarrow> holds_act (place_of s t))"

lemma woken_holds [simp]: "holds (woken p) = holds p" "holds_act (woken p) = holds_act p"
  by (cases p; simp)+

lemma woken_eq:
  "woken p = WantAct \<longleftrightarrow> p = WantAct" "woken p = InAct \<longleftrightarrow> p = InAct" "woken p \<noteq> SelWait cs"
  "woken p = SelPoll cs todo \<longleftrightarrow> p = SelPoll cs todo" "woken p = SelIn cs c todo \<longleftrightarrow> p = SelIn cs c todo"
  by (cases p; simp)+

lemma owners_step: "lock_step s s' \<Longrightarrow> owners s \<Longrightarrow> owners s'"
  by (induction rule: lock_step.induct)
    (auto simp: owners_def broadcast_def split: if_splits,
     (metis holds.simps(1,2) holds_act.simps(1-3) option.distinct(1) option.inject)+)

section \<open>The mutexes never deadlock\<close>

text \<open>A thread waits for a mutex; a thread that waits for a condition variable, or is idle, does not.\<close>

fun wants_lock :: "place \<Rightarrow> bool" where
  "wants_lock (WantChan c) = True"
| "wants_lock WantAct = True"
| "wants_lock (SelWant cs) = True"
| "wants_lock (SelPoll cs (c # todo)) = True"
| "wants_lock _ = False"

text \<open>A step of a thread that is inside the runtime, with what it was and what it is then.\<close>

definition moves :: "locks \<Rightarrow> tid \<Rightarrow> bool" where
  "moves s t \<longleftrightarrow> place_of s t \<noteq> Idle \<and> (\<exists>s'. lock_step s s' \<and> place_of s' t \<noteq> place_of s t)"

lemma movesI: "lock_step s s' \<Longrightarrow> place_of s t \<noteq> Idle \<Longrightarrow> place_of s' t \<noteq> place_of s t \<Longrightarrow> moves s t"
  by (auto simp: moves_def)

lemma holder_moves: "holds (place_of s t) = Some c \<Longrightarrow> moves s t"
proof (cases "place_of s t")
  case (InChan d)
  then show ?thesis by (auto intro: movesI [OF lock_step.op_nothing])
next
  case (SelIn cs d todo)
  then show ?thesis by (auto intro: movesI [OF lock_step.sel_miss])
qed simp_all

lemma poll_moves: "own s = (\<lambda>_. None) \<Longrightarrow> place_of s t = SelPoll cs todo \<Longrightarrow> moves s t"
proof (cases todo)
  case Nil
  then show "place_of s t = SelPoll cs todo \<Longrightarrow> moves s t" by (auto intro: movesI [OF lock_step.sel_wait])
next
  case (Cons c cs')
  then show "own s = (\<lambda>_. None) \<Longrightarrow> place_of s t = SelPoll cs todo \<Longrightarrow> moves s t"
    by (auto intro: movesI [OF lock_step.sel_try])
qed

lemma act_holder_moves: "own s = (\<lambda>_. None) \<Longrightarrow> holds_act (place_of s t) \<Longrightarrow> moves s t"
proof (cases "place_of s t")
  case InAct
  then show "moves s t" by (auto intro: movesI [OF lock_step.act_signal])
next
  case (SelIn cs d todo)
  then show "moves s t" by (intro holder_moves) simp
qed (auto intro: poll_moves)

lemma some_thread_moves:
  assumes o: "owners s" and w: "wants_lock (place_of s t)"
  shows "\<exists>u. moves s u"
proof (cases "\<exists>u c. holds (place_of s u) = Some c")
  case True
  then show ?thesis using holder_moves by blast
next
  case False
  then have free: "own s = (\<lambda>_. None)" using o by (metis owners_def not_None_eq ext)
  show ?thesis
  proof (cases "\<exists>u. act s = Some u")
    case True
    then show ?thesis using o act_holder_moves [OF free] by (auto simp: owners_def)
  next
    case noact: False
    show ?thesis
    proof (cases "place_of s t")
      case (WantChan c)
      then have "moves s t" using free by (auto intro: movesI [OF lock_step.op_lock])
      then show ?thesis ..
    next
      case WantAct
      then have "moves s t" using noact by (auto intro: movesI [OF lock_step.act_lock])
      then show ?thesis ..
    next
      case (SelWant cs)
      then have "moves s t" using noact by (auto intro: movesI [OF lock_step.sel_lock])
      then show ?thesis ..
    next
      case (SelPoll cs todo)
      then show ?thesis using poll_moves [OF free] by blast
    qed (use w in simp_all)
  qed
qed

section \<open>No wake-up is lost\<close>

text \<open>The channels a selector has found unready in this round.\<close>

fun looked_at :: "place \<Rightarrow> addr set" where
  "looked_at (SelPoll cs todo) = set cs - set todo"
| "looked_at (SelIn cs c todo) = set cs - insert c (set todo)"
| "looked_at (SelWait cs) = set cs"
| "looked_at _ = {}"

definition signal_due :: "locks \<Rightarrow> bool" where
  "signal_due s \<longleftrightarrow> (\<exists>u. place_of s u = WantAct \<or> place_of s u = InAct)"

definition no_lost_wakeup :: "locks \<Rightarrow> bool" where
  "no_lost_wakeup s \<longleftrightarrow>
     (\<forall>t. \<forall>c\<in>looked_at (place_of s t). seen s t c \<noteq> version s c \<longrightarrow> signal_due s)"

lemma looked_woken: "looked_at (woken p) = (case p of SelWait cs \<Rightarrow> {} | _ \<Rightarrow> looked_at p)"
  by (cases p) simp_all

lemma only_act_holder:
  "owners s \<Longrightarrow> holds_act (place_of s t) \<Longrightarrow> u \<noteq> t \<Longrightarrow> looked_at (woken (place_of s u)) = {}"
  by (cases "place_of s u") (auto simp: owners_def, (metis holds_act.simps option.inject)+)

text \<open>A step that changes no channel and signals nothing, by a thread that owes no signal.\<close>

lemma wakeup_frame:
  assumes "no_lost_wakeup s" and "place_of s' = (place_of s)(t := p)" and "version s' = version s"
    and "place_of s t \<noteq> WantAct" and "place_of s t \<noteq> InAct" and "\<And>u. u \<noteq> t \<Longrightarrow> seen s' u = seen s u"
    and "\<And>c. c \<in> looked_at p \<Longrightarrow> seen s' t c = version s c \<or> (c \<in> looked_at (place_of s t) \<and> seen s' t c = seen s t c)"
  shows "no_lost_wakeup s'"
proof -
  have due: "signal_due s \<Longrightarrow> signal_due s'" using assms(2,4,5) by (auto simp: signal_due_def)
  show ?thesis unfolding no_lost_wakeup_def
  proof (intro allI ballI impI)
    fix u c
    assume c: "c \<in> looked_at (place_of s' u)" "seen s' u c \<noteq> version s' c"
    have "c \<in> looked_at (place_of s u) \<and> seen s u c \<noteq> version s c"
    proof (cases "u = t")
      case True
      then show ?thesis using c assms(2,3) assms(7) [of c] by auto
    next
      case False
      then show ?thesis using c assms(2,3,6) by auto
    qed
    then show "signal_due s'" using assms(1) due by (auto simp: no_lost_wakeup_def)
  qed
qed

lemma wakeup_step:
  assumes "lock_step s s'" and "owners s" and "no_lost_wakeup s"
  shows "no_lost_wakeup s'"
  using assms
proof (induction rule: lock_step.induct)
  case (act_signal s t)
  then have "looked_at (woken (place_of s u)) = {}" if "u \<noteq> t" for u
    using only_act_holder [of s t u] that by simp
  then show ?case by (auto simp: no_lost_wakeup_def broadcast_def)
next
  case (sel_hit s t cs c todo)
  then have "looked_at (woken (place_of s u)) = {}" if "u \<noteq> t" for u
    using only_act_holder [of s t u] that by simp
  then show ?case by (auto simp: no_lost_wakeup_def broadcast_def)
next
  case (op_change s t c)
  then show ?case by (auto simp: no_lost_wakeup_def signal_due_def)
next
  case (act_lock s t)
  then show ?case by (auto simp: no_lost_wakeup_def signal_due_def)
qed (erule wakeup_frame, simp, auto)+

lemma reachable_locks:
  "lock_step\<^sup>*\<^sup>* locks0 s \<Longrightarrow> owners s \<and> no_lost_wakeup s"
proof (induction rule: rtranclp_induct)
  case base
  show ?case by (simp add: owners_def no_lost_wakeup_def locks0_def)
next
  case (step s s')
  then show ?case using owners_step wakeup_step by blast
qed

text \<open>
  C7. However sends, receives, closes and selects of any number of threads interleave, the mutexes
  do not deadlock: in every reachable state in which some thread waits for a mutex, some thread
  inside the runtime can go on.
\<close>

theorem locks_deadlock_free:
  assumes "lock_step\<^sup>*\<^sup>* locks0 s" and "wants_lock (place_of s t)"
  shows "\<exists>u. moves s u"
  using reachable_locks [OF assms(1)] some_thread_moves assms(2) by blast

theorem locks_deadlock_free_witness:
  "\<exists>u. moves (goes 0 (WantChan 5) locks0) u"
proof -
  have "lock_step\<^sup>*\<^sup>* locks0 (goes 0 (WantChan 5) locks0)"
    by (rule r_into_rtranclp, rule lock_step.op_start) (simp add: locks0_def)
  then show ?thesis by (rule locks_deadlock_free [of _ 0]) simp
qed

text \<open>
  A selector with one arm that found its channel unready and waits, a sender that changed the
  channel afterwards, and the two mutexes a selector holds at once on the way there.
\<close>

definition waiting :: locks where
  "waiting = goes 1 (SelWait [7]) (locks0\<lparr>seen := (seen locks0)(1 := (seen locks0 1)(7 := 0))\<rparr>)"

definition sent :: locks where
  "sent = goes 0 WantAct (changes 7 waiting)"

lemma polling_reachable:
  "lock_step\<^sup>*\<^sup>* locks0 (goes 1 (SelIn [7] 7 []) (locks0\<lparr>act := Some 1, own := (\<lambda>_. None)(7 := Some 1)\<rparr>))"
proof -
  let ?a = "goes 1 (SelWant [7]) locks0" and ?b = "goes 1 (SelPoll [7] [7]) (locks0\<lparr>act := Some 1\<rparr>)"
  have "lock_step locks0 ?a" by (rule lock_step.sel_start) (simp add: locks0_def)
  moreover have "lock_step ?a ?b"
    using lock_step.sel_lock [of ?a 1 "[7]"] by (simp add: locks0_def)
  moreover have "lock_step ?b (goes 1 (SelIn [7] 7 []) (locks0\<lparr>act := Some 1, own := (\<lambda>_. None)(7 := Some 1)\<rparr>))"
    using lock_step.sel_try [of ?b 1 "[7]" 7 "[]"] by (simp add: locks0_def)
  ultimately show ?thesis by (meson converse_rtranclp_into_rtranclp rtranclp.rtrancl_refl)
qed

lemma sent_reachable: "lock_step\<^sup>*\<^sup>* locks0 sent"
proof -
  let ?c = "goes 1 (SelIn [7] 7 []) (locks0\<lparr>act := Some 1, own := (\<lambda>_. None)(7 := Some 1)\<rparr>)"
  let ?d = "goes 1 (SelPoll [7] []) (gives 7 (?c\<lparr>seen := (seen ?c)(1 := (seen ?c 1)(7 := version ?c 7))\<rparr>))"
  have "lock_step ?c ?d" by (rule lock_step.sel_miss [of _ _ "[7]"]) simp
  moreover have "lock_step ?d waiting"
    using lock_step.sel_wait [of ?d 1 "[7]"] by (simp add: waiting_def locks0_def fun_upd_idem)
  moreover have "lock_step waiting (goes 0 (WantChan 7) waiting)"
    by (rule lock_step.op_start) (simp add: waiting_def locks0_def)
  moreover have "lock_step (goes 0 (WantChan 7) waiting) (goes 0 (InChan 7) (takes 7 0 waiting))"
    using lock_step.op_lock [of "goes 0 (WantChan 7) waiting" 0 7] by (simp add: waiting_def locks0_def)
  moreover have "lock_step (goes 0 (InChan 7) (takes 7 0 waiting)) sent"
    using lock_step.op_change [of "goes 0 (InChan 7) (takes 7 0 waiting)" 0 7]
    by (simp add: sent_def waiting_def locks0_def fun_upd_idem)
  ultimately show ?thesis using polling_reachable by (meson rtranclp.rtrancl_into_rtrancl)
qed



end
