(* ===== verification/Tasks.thy ===== *)
theory Tasks
  imports Channel
begin

text \<open>
  Tasks and the set a block joins (\<^verbatim>\<open>struct pas_task\<close>, \<^verbatim>\<open>struct pas_taskset\<close> and their
  operations in \<^verbatim>\<open>src/runtime/pasrt_task.c\<close>).

  A task record is in a store by its address, as a channel is. \<^verbatim>\<open>pas_task_join\<close> is entered by
  several threads at once, so it is given twice: as a step relation on the record and the
  positions of the joining threads, where each step is one critical section, and as the
  effect it has had on the record when it returns, which the sequential operations use.
\<close>

section \<open>The record and its references\<close>

record task =
  trefs :: int
  claimed :: bool
  tdone :: bool

type_synonym tasks = "addr \<rightharpoonup> task"

definition pas_task_drop_ref :: "tasks \<Rightarrow> addr \<Rightarrow> tasks option" where
  "pas_task_drop_ref h a =
     (case h a of
        None \<Rightarrow> None
      | Some t \<Rightarrow>
          (let t' = t\<lparr>trefs := trefs t - 1\<rparr> in
           if trefs t' = 0 then Some (h(a := None)) else Some (h(a \<mapsto> t'))))"

definition joined_task :: "task \<Rightarrow> task" where
  "joined_task t = t\<lparr>claimed := True, tdone := True\<rparr>"

definition pas_task_wait :: "tasks \<Rightarrow> addr \<Rightarrow> tasks option" where
  "pas_task_wait h a = (case h a of None \<Rightarrow> None | Some t \<Rightarrow> Some (h(a \<mapsto> joined_task t)))"

definition pas_task_drop :: "tasks \<Rightarrow> addr option \<Rightarrow> (int \<times> tasks) option" where
  "pas_task_drop h p =
     (case p of None \<Rightarrow> Some (0, h) | Some a \<Rightarrow> map_option (Pair 0) (pas_task_drop_ref h a))"

section \<open>The set of a block\<close>

record taskset =
  tasks_of :: "addr list"
  tcap :: int

definition INT_MAX :: int where
  "INT_MAX = 2 ^ 31 - 1"

definition pas_tasks_init :: taskset where
  "pas_tasks_init = \<lparr>tasks_of = [], tcap = 0\<rparr>"

text \<open>What the allocations and \<^verbatim>\<open>pthread_create\<close> of one spawn answer.\<close>

record spawn_env =
  grown :: bool
  record_at :: "addr option"
  args_ok :: bool
  created :: bool

definition pas_tasks_alloc :: "int \<Rightarrow> (int \<Rightarrow> addr option) \<Rightarrow> addr res" where
  "pas_tasks_alloc sz malloc =
     (case malloc (if sz > 0 then sz else 1) of
        None \<Rightarrow> Inl (Trap ''out of memory spawning a task'')
      | Some a \<Rightarrow> Inr a)"

definition grow_set :: "taskset \<Rightarrow> bool \<Rightarrow> taskset res" where
  "grow_set s ok =
     (if int (length (tasks_of s)) = tcap s then
        if tcap s > INT_MAX div 2 then Inl (Trap ''too many tasks spawned by one block'')
        else if \<not> ok then Inl (Trap ''out of memory spawning a task'')
        else Inr (s\<lparr>tcap := (if tcap s \<noteq> 0 then tcap s * 2 else 8)\<rparr>)
      else Inr s)"

definition pas_tasks_start :: "taskset \<Rightarrow> tasks \<Rightarrow> int \<Rightarrow> spawn_env \<Rightarrow> (taskset \<times> tasks \<times> addr) res" where
  "pas_tasks_start s h r env =
     rbind (grow_set s (grown env)) (\<lambda>s1.
       case record_at env of
         None \<Rightarrow> Inl (Trap ''out of memory spawning a task'')
       | Some a \<Rightarrow>
           if \<not> args_ok env then Inl (Trap ''out of memory spawning a task'')
           else if \<not> created env then Inl (Trap ''a task could not be started'')
           else Inr (s1\<lparr>tasks_of := tasks_of s1 @ [a]\<rparr>,
                     h(a \<mapsto> \<lparr>trefs = r, claimed = False, tdone = False\<rparr>), a))"

definition pas_tasks_spawn :: "taskset \<Rightarrow> tasks \<Rightarrow> spawn_env \<Rightarrow> (taskset \<times> tasks) res" where
  "pas_tasks_spawn s h env = rbind (pas_tasks_start s h 1 env) (\<lambda>(s', h', a). Inr (s', h'))"

definition pas_tasks_spawn_named :: "taskset \<Rightarrow> tasks \<Rightarrow> spawn_env \<Rightarrow> (taskset \<times> tasks \<times> addr) res" where
  "pas_tasks_spawn_named s h env = pas_tasks_start s h 2 env"

fun join_all :: "addr list \<Rightarrow> tasks \<Rightarrow> tasks option" where
  "join_all [] h = Some h"
| "join_all (a # as) h =
     Option.bind (pas_task_wait h a) (\<lambda>h1. Option.bind (pas_task_drop_ref h1 a) (join_all as))"

definition pas_tasks_join :: "taskset \<Rightarrow> tasks \<Rightarrow> (taskset \<times> tasks) option" where
  "pas_tasks_join s h = map_option (Pair \<lparr>tasks_of = [], tcap = 0\<rparr>) (join_all (tasks_of s) h)"

section \<open>Joining, one critical section at a time\<close>

text \<open>
  The positions of a thread inside \<^verbatim>\<open>pas_task_join\<close>: about to take the mutex, inside
  \<^verbatim>\<open>pthread_join\<close>, waiting on \<^verbatim>\<open>donec\<close>, or returned. \<open>ended\<close> is whether the task's own thread
  has finished, \<open>joins\<close> how often \<^verbatim>\<open>pthread_join\<close> was called for it.
\<close>

datatype jpos = Entering | Joining | WaitingDone | Returned

record jstate =
  jclaimed :: bool
  jdone :: bool
  ended :: bool
  joins :: nat
  jpos :: "nat \<Rightarrow> jpos"

inductive join_step :: "jstate \<Rightarrow> jstate \<Rightarrow> bool" where
  claim: "jpos s t = Entering \<Longrightarrow> \<not> jclaimed s \<Longrightarrow>
     join_step s (s\<lparr>jclaimed := True, joins := joins s + 1, jpos := (jpos s)(t := Joining)\<rparr>)"
| enter_wait: "jpos s t = Entering \<Longrightarrow> jclaimed s \<Longrightarrow> \<not> jdone s \<Longrightarrow>
     join_step s (s\<lparr>jpos := (jpos s)(t := WaitingDone)\<rparr>)"
| enter_done: "jpos s t = Entering \<Longrightarrow> jclaimed s \<Longrightarrow> jdone s \<Longrightarrow>
     join_step s (s\<lparr>jpos := (jpos s)(t := Returned)\<rparr>)"
| join_returns: "jpos s t = Joining \<Longrightarrow> ended s \<Longrightarrow>
     join_step s (s\<lparr>jdone := True, jpos := (jpos s)(t := Returned)\<rparr>)"
| wake: "jpos s t = WaitingDone \<Longrightarrow> jdone s \<Longrightarrow>
     join_step s (s\<lparr>jpos := (jpos s)(t := Returned)\<rparr>)"
| task_ends: "\<not> ended s \<Longrightarrow> join_step s (s\<lparr>ended := True\<rparr>)"

definition join_start :: jstate where
  "join_start = \<lparr>jclaimed = False, jdone = False, ended = False, joins = 0, jpos = (\<lambda>_. Entering)\<rparr>"

definition join_inv :: "jstate \<Rightarrow> bool" where
  "join_inv s \<longleftrightarrow> joins s = (if jclaimed s then 1 else 0) \<and>
     (jdone s \<longrightarrow> ended s \<and> jclaimed s) \<and>
     (\<forall>t. jpos s t = Returned \<longrightarrow> jdone s) \<and>
     (\<forall>t. jpos s t = WaitingDone \<longrightarrow> jclaimed s) \<and>
     (\<forall>t. jpos s t = Joining \<longrightarrow> jclaimed s) \<and>
     (jclaimed s \<and> \<not> jdone s \<longrightarrow> (\<exists>t. jpos s t = Joining))"

lemma join_inv_step: "join_step s s' \<Longrightarrow> join_inv s \<Longrightarrow> join_inv s'"
proof (induction rule: join_step.induct)
  case (enter_wait s t)
  then obtain u where "jpos s u = Joining" by (auto simp: join_inv_def)
  moreover from this have "u \<noteq> t" using enter_wait by auto
  ultimately show ?case using enter_wait by (auto simp: join_inv_def intro!: exI [of _ u])
next
  case (task_ends s)
  then show ?case by (auto simp: join_inv_def)
qed (auto simp: join_inv_def split: if_splits)

lemma join_inv_reachable: "join_step\<^sup>*\<^sup>* join_start s \<Longrightarrow> join_inv s"
  by (induction rule: rtranclp_induct) (auto simp: join_inv_step, simp add: join_inv_def join_start_def)

lemma join_one: "join_step s s' \<Longrightarrow> jpos s' t = Returned \<Longrightarrow> \<exists>s'. join_step\<^sup>*\<^sup>* s s' \<and> jpos s' t = Returned"
  by blast

lemma join_leaves:
  assumes "join_inv s" "ended s"
  shows "\<exists>s'. join_step\<^sup>*\<^sup>* s s' \<and> jpos s' t = Returned"
proof -
  have fin: "\<exists>s'. join_step\<^sup>*\<^sup>* s s' \<and> jpos s' t = Returned" if d: "jdone s" "join_inv s" for s
  proof (cases "jpos s t")
    case Entering
    then have "join_step s (s\<lparr>jpos := (jpos s)(t := Returned)\<rparr>)" using d by (intro enter_done) (auto simp: join_inv_def)
    then show ?thesis by (rule join_one) simp
  next
    case WaitingDone
    then have "join_step s (s\<lparr>jpos := (jpos s)(t := Returned)\<rparr>)" using d by (intro wake)
    then show ?thesis by (rule join_one) simp
  next
    case Joining
    then have "join_step s (s\<lparr>jdone := True, jpos := (jpos s)(t := Returned)\<rparr>)"
      using d by (intro join_returns) (auto simp: join_inv_def)
    then show ?thesis by (rule join_one) simp
  qed auto
  have claimed: "\<exists>s'. join_step\<^sup>*\<^sup>* s s' \<and> jpos s' t = Returned" if c: "jclaimed s" "ended s" "join_inv s" for s
  proof (cases "jdone s")
    case False
    then obtain u where u: "jpos s u = Joining" using c by (auto simp: join_inv_def)
    let ?s = "s\<lparr>jdone := True, jpos := (jpos s)(u := Returned)\<rparr>"
    have st: "join_step s ?s" using u c(2) by (rule join_returns)
    moreover have "jdone ?s" by simp
    ultimately show ?thesis using fin [of ?s] join_inv_step [OF st c(3)] by (meson converse_rtranclp_into_rtranclp)
  qed (use fin c in blast)
  show ?thesis
  proof (cases "jclaimed s")
    case False
    then have "jpos s t = Entering" using assms(1) by (cases "jpos s t") (auto simp: join_inv_def)
    let ?s = "s\<lparr>jclaimed := True, joins := joins s + 1, jpos := (jpos s)(t := Joining)\<rparr>"
    have st: "join_step s ?s" using \<open>jpos s t = Entering\<close> False by (rule claim)
    then show ?thesis using claimed [of ?s] join_inv_step [OF st assms(1)] assms(2)
      by (auto intro: converse_rtranclp_into_rtranclp)
  qed (use claimed assms in blast)
qed

section \<open>The set keeps its tasks\<close>

definition set_ok :: "taskset \<Rightarrow> bool" where
  "set_ok s \<longleftrightarrow> int (length (tasks_of s)) \<le> tcap s \<and> tcap s \<le> INT_MAX"

definition live :: "tasks \<Rightarrow> addr list \<Rightarrow> bool" where
  "live h as \<longleftrightarrow> distinct as \<and> (\<forall>a \<in> set as. \<exists>t. h a = Some t \<and> 1 \<le> trefs t)"

lemma grow_set_ok:
  assumes "set_ok s" "grow_set s ok = Inr s1"
  shows "set_ok s1 \<and> int (length (tasks_of s1)) < tcap s1 \<and> tasks_of s1 = tasks_of s"
  using assms by (auto simp: grow_set_def set_ok_def INT_MAX_def split: if_splits)

lemma start_ok:
  assumes "set_ok s" "live h (tasks_of s)" "pas_tasks_start s h r env = Inr (s', h', a)"
    "1 \<le> r" "\<forall>a. record_at env = Some a \<longrightarrow> h a = None"
  shows "set_ok s' \<and> live h' (tasks_of s') \<and> tasks_of s' = tasks_of s @ [a] \<and> h a = None \<and>
    h' = h(a \<mapsto> \<lparr>trefs = r, claimed = False, tdone = False\<rparr>)"
proof -
  obtain s1 where s1: "grow_set s (grown env) = Inr s1" "record_at env = Some a"
    "s' = s1\<lparr>tasks_of := tasks_of s1 @ [a]\<rparr>" "h' = h(a \<mapsto> \<lparr>trefs = r, claimed = False, tdone = False\<rparr>)"
    using assms(3) by (auto simp: pas_tasks_start_def rbind_eq_Inr split: option.splits if_splits)
  note g = grow_set_ok [OF assms(1) s1(1)]
  have fresh: "h a = None" using assms(5) s1(2) by blast
  then have "a \<notin> set (tasks_of s)" using assms(2) by (auto simp: live_def)
  then have "live h' (tasks_of s')" using assms(2,4) g s1(3,4) by (auto simp: live_def)
  moreover have "set_ok s'" using g s1(3) by (auto simp: set_ok_def)
  ultimately show ?thesis using g s1 fresh by simp
qed

lemma join_all_result:
  assumes "live h as"
  shows "\<exists>h'. join_all as h = Some h' \<and>
    (\<forall>a. h' a = (if a \<in> set as then
        (if trefs (the (h a)) = 1 then None
         else Some ((joined_task (the (h a)))\<lparr>trefs := trefs (the (h a)) - 1\<rparr>))
      else h a))"
  using assms
proof (induction as arbitrary: h)
  case (Cons a as)
  then obtain t where t: "h a = Some t" "1 \<le> trefs t" by (auto simp: live_def)
  let ?h = "h(a := if trefs t = 1 then None else Some ((joined_task t)\<lparr>trefs := trefs t - 1\<rparr>))"
  have step: "join_all (a # as) h = join_all as ?h"
    using t by (auto simp: pas_task_wait_def pas_task_drop_ref_def joined_task_def Let_def)
  have "live ?h as" using Cons.prems by (auto simp: live_def)
  then obtain h' where h': "join_all as ?h = Some h'"
    "\<forall>b. h' b = (if b \<in> set as then
        (if trefs (the (?h b)) = 1 then None else Some ((joined_task (the (?h b)))\<lparr>trefs := trefs (the (?h b)) - 1\<rparr>))
      else ?h b)" using Cons.IH [of ?h] by blast
  have "a \<notin> set as" using Cons.prems by (simp add: live_def)
  then have "\<forall>b. h' b = (if b \<in> set (a # as) then
        (if trefs (the (h b)) = 1 then None else Some ((joined_task (the (h b)))\<lparr>trefs := trefs (the (h b)) - 1\<rparr>))
      else h b)" using h'(2) t by auto
  then show ?case using step h'(1) by auto
qed simp

section \<open>Properties\<close>





text \<open>
  A block's join releases what the block spawned: after \<^verbatim>\<open>pas_tasks_join\<close> the set is empty,
  every task only the set referred to is freed, and a task that a variable still names is
  complete with one reference fewer; nothing else changes and no freed record is touched.
\<close>

lemma tasks_join_releases:
  assumes "live h (tasks_of s)"
  shows "\<exists>h'. pas_tasks_join s h = Some (pas_tasks_init, h') \<and>
    (\<forall>a \<in> set (tasks_of s). \<forall>t. h a = Some t \<longrightarrow>
       h' a = (if trefs t = 1 then None else Some \<lparr>trefs = trefs t - 1, claimed = True, tdone = True\<rparr>)) \<and>
    (\<forall>a. a \<notin> set (tasks_of s) \<longrightarrow> h' a = h a)"
  using join_all_result [OF assms]
  by (auto simp: pas_tasks_join_def pas_tasks_init_def joined_task_def)

lemma tasks_join_releases_witness:
  "\<exists>h'. pas_tasks_join \<lparr>tasks_of = [4], tcap = 8\<rparr> [4 \<mapsto> \<lparr>trefs = 2, claimed = False, tdone = False\<rparr>] = Some (pas_tasks_init, h') \<and>
    h' 4 = Some \<lparr>trefs = 1, claimed = True, tdone = True\<rparr>"
proof -
  have "live [4 \<mapsto> \<lparr>trefs = 2, claimed = False, tdone = False\<rparr>] (tasks_of \<lparr>tasks_of = [4], tcap = 8\<rparr>)"
    by (simp add: live_def)
  from tasks_join_releases [OF this] show ?thesis by force
qed

text \<open>
  Spawning keeps the set sound: a spawn that does not trap adds its record at the end of
  the set, with one reference if it is unnamed and two if it is named, within the capacity of
  the array, whose doubling never passes the range of \<^verbatim>\<open>int\<close>.
\<close>

lemma spawn_sound:
  assumes "set_ok s" "live h (tasks_of s)" "\<forall>a. record_at env = Some a \<longrightarrow> h a = None"
  shows "(\<forall>s' h'. pas_tasks_spawn s h env = Inr (s', h') \<longrightarrow>
      set_ok s' \<and> live h' (tasks_of s') \<and> (\<exists>a. tasks_of s' = tasks_of s @ [a] \<and> trefs (the (h' a)) = 1)) \<and>
    (\<forall>s' h' a. pas_tasks_spawn_named s h env = Inr (s', h', a) \<longrightarrow>
      set_ok s' \<and> live h' (tasks_of s') \<and> tasks_of s' = tasks_of s @ [a] \<and> trefs (the (h' a)) = 2)"
  using start_ok [OF assms(1,2) _ _ assms(3)]
  by (fastforce simp: pas_tasks_spawn_def pas_tasks_spawn_named_def rbind_eq_Inr)

lemma spawn_sound_witness:
  "\<exists>s' h'. pas_tasks_spawn pas_tasks_init Map.empty \<lparr>grown = True, record_at = Some 4, args_ok = True, created = True\<rparr> = Inr (s', h') \<and>
    set_ok s' \<and> live h' (tasks_of s') \<and> (\<exists>a. tasks_of s' = tasks_of pas_tasks_init @ [a] \<and> trefs (the (h' a)) = 1)"
proof -
  let ?env = "\<lparr>grown = True, record_at = Some 4, args_ok = True, created = True\<rparr>"
  obtain s' h' where "pas_tasks_spawn pas_tasks_init Map.empty ?env = Inr (s', h')"
    by (simp add: pas_tasks_spawn_def pas_tasks_start_def grow_set_def pas_tasks_init_def INT_MAX_def)
  moreover have "set_ok pas_tasks_init" "live Map.empty (tasks_of pas_tasks_init)"
    by (simp_all add: set_ok_def live_def pas_tasks_init_def INT_MAX_def)
  moreover have "\<forall>a. record_at ?env = Some a \<longrightarrow> Map.empty a = None" by simp
  ultimately show ?thesis using spawn_sound [of pas_tasks_init Map.empty ?env] by metis
qed

end
