(* ===== verification/Errors.thy ===== *)
theory Errors
  imports Decimal "HOL-Library.Signed_Division"
begin

text \<open>
  Errors, leaving, and exponentiation (the beginning of \<^verbatim>\<open>src/runtime/pasrt.c\<close>).

  A trap writes one line on the standard error stream and ends the process with status 1.
  What it does is a list of effects; the rest of the development only keeps the message
  (\<open>Trap\<close>). \<^verbatim>\<open>exit\<close> runs the handlers and flushes, \<^verbatim>\<open>_Exit\<close> does neither.
\<close>

section \<open>Leaving once\<close>

datatype effect = Flush_stdout | Stderr string | Exit int | Quick_exit int

definition pas_exit_once :: "bool \<Rightarrow> int \<Rightarrow> effect \<times> bool" where
  "pas_exit_once leaving status = ((if leaving then Quick_exit status else Exit status), True)"

section \<open>Where a trap happened\<close>

record pas_pos =
  pfile :: string
  pline :: int
  pcol :: int

definition pas_error_end :: "bool \<Rightarrow> pas_pos option \<Rightarrow> effect list \<times> bool" where
  "pas_error_end leaving p =
     (case pas_exit_once leaving 1 of (e, f) \<Rightarrow>
        ((case p of
            None \<Rightarrow> []
          | Some q \<Rightarrow> [Stderr ('' at '' @ pfile q @ '':'' @ dec_int (pline q) @ '':'' @ dec_int (pcol q))]) @
         [Stderr (''\<newline>''), e], f))"

definition pas_runtime_error_at :: "bool \<Rightarrow> string \<Rightarrow> pas_pos option \<Rightarrow> effect list \<times> bool" where
  "pas_runtime_error_at leaving msg p =
     (case pas_error_end leaving p of (es, f) \<Rightarrow> ([Flush_stdout, Stderr (''runtime error: '' @ msg)] @ es, f))"

text \<open>The runtime's own traps read the position the emitter stored in \<^verbatim>\<open>pas_at\<close>.\<close>

definition pas_runtime_error :: "bool \<Rightarrow> pas_pos option \<Rightarrow> string \<Rightarrow> effect list \<times> bool" where
  "pas_runtime_error leaving pas_at msg = pas_runtime_error_at leaving msg pas_at"

definition pas_index_error_at :: "int \<Rightarrow> int \<Rightarrow> trap" where
  "pas_index_error_at lo hi =
     Trap (''array index out of bounds ('' @ dec_int lo @ ''..'' @ dec_int hi @ '')'')"

definition pas_range_error_at :: "int \<Rightarrow> int \<Rightarrow> trap" where
  "pas_range_error_at lo hi = Trap (''value out of range ('' @ dec_int lo @ ''..'' @ dec_int hi @ '')'')"

definition pas_disc_error_at :: "string \<Rightarrow> string \<Rightarrow> int \<Rightarrow> int \<Rightarrow> trap" where
  "pas_disc_error_at schema disc left right =
     Trap (''assignment needs one type: schema '' @ [char_of (39 :: nat)] @ schema @ [char_of (39 :: nat)] @
       '' with '' @ disc @ '' = '' @ dec_int left @ '' and '' @ disc @ '' = '' @ dec_int right)"

definition pas_length_error_at :: "int \<Rightarrow> int \<Rightarrow> trap" where
  "pas_length_error_at left right =
     Trap (''strings of different lengths cannot be compared ('' @ dec_int left @ '' and '' @ dec_int right @ '')'')"

definition pas_error2 :: "string \<Rightarrow> string \<Rightarrow> trap" where
  "pas_error2 msg what = Trap (msg @ what)"

section \<open>Exponentiation\<close>

definition PAS_MAXINT :: int where
  "PAS_MAXINT = 2147483647"

text \<open>The accumulator is a \<^verbatim>\<open>long long\<close>; that it never leaves its range is a lemma below.\<close>

fun pow_loop :: "nat \<Rightarrow> int \<Rightarrow> int \<Rightarrow> int res" where
  "pow_loop 0 x acc = Inr acc"
| "pow_loop (Suc i) x acc =
     (let a = acc * x in
      if a > PAS_MAXINT \<or> a < - PAS_MAXINT then Inl (Trap ''integer overflow in pow'')
      else pow_loop i x a)"

definition pas_pow_int :: "int \<Rightarrow> int \<Rightarrow> int res" where
  "pas_pow_int x y =
     (if x = 0 \<and> y \<le> 0 then Inl (Trap ''pow: 0 pow y is an error when y <= 0'')
      else if x = 0 then Inr 0
      else if y = 0 then Inr 1
      else if y < 0 then
        (let x' = 1 sdiv x; y' = - y in if x' = 0 then Inr 0 else pow_loop (nat y') x' 1)
      else pow_loop (nat y) x 1)"

text \<open>
  \<^verbatim>\<open>pas_pow_real\<close> and \<^verbatim>\<open>pas_pow_realint\<close>: the guards are the source's, the power itself is the C
  library's \<^verbatim>\<open>pow\<close>, a parameter over any type of numbers.
\<close>

definition pas_pow_real :: "('r :: linordered_idom \<Rightarrow> 'r \<Rightarrow> 'r) \<Rightarrow> 'r \<Rightarrow> 'r \<Rightarrow> 'r res" where
  "pas_pow_real pow x y =
     (if x = 0 \<and> y \<le> 0 then Inl (Trap ''**: 0 ** y is an error when y <= 0'')
      else if x < 0 then Inl (Trap ''**: a negative left operand needs an integer exponent; use pow'')
      else if x = 0 then Inr 0
      else if y = 0 then Inr 1
      else Inr (pow x y))"

definition pas_pow_realint :: "('r :: linordered_idom \<Rightarrow> 'r \<Rightarrow> 'r) \<Rightarrow> 'r \<Rightarrow> int \<Rightarrow> 'r res" where
  "pas_pow_realint pow x y =
     (if x = 0 \<and> y \<le> 0 then Inl (Trap ''pow: 0 pow y is an error when y <= 0'')
      else if x = 0 then Inr 0
      else if y = 0 then Inr 1
      else Inr (pow x (of_int y)))"

definition in_int :: "int \<Rightarrow> bool" where
  "in_int v \<longleftrightarrow> - PAS_MAXINT \<le> v \<and> v \<le> PAS_MAXINT"

text \<open>Every product the loop forms is in the range of \<^verbatim>\<open>long long\<close>.\<close>

lemma pow_product_fits:
  assumes "in_int acc" "in_int x"
  shows "\<bar>acc * x\<bar> < 2 ^ 63"
proof -
  have "\<bar>acc\<bar> \<le> 2147483647" "\<bar>x\<bar> \<le> 2147483647" using assms by (auto simp: in_int_def PAS_MAXINT_def)
  then have "\<bar>acc\<bar> * \<bar>x\<bar> \<le> 2147483647 * 2147483647" by (intro mult_mono) auto
  then show ?thesis by (simp add: abs_mult)
qed

lemma pow_loop_result:
  assumes "in_int acc" "x \<noteq> 0"
  shows "pow_loop n x acc =
    (if in_int (acc * x ^ n) then Inr (acc * x ^ n) else Inl (Trap ''integer overflow in pow''))"
  using assms(1)
proof (induction n arbitrary: acc)
  case (Suc n)
  show ?case
  proof (cases "in_int (acc * x)")
    case True
    then have "\<not> (acc * x > PAS_MAXINT \<or> acc * x < - PAS_MAXINT)" by (auto simp: in_int_def)
    then show ?thesis using Suc.IH [OF True] by (simp add: Let_def mult.assoc)
  next
    case False
    have "1 \<le> \<bar>x\<bar> ^ n" using assms(2) by (simp add: one_le_power)
    then have "\<bar>acc * x\<bar> * 1 \<le> \<bar>acc * x\<bar> * \<bar>x\<bar> ^ n" by (intro mult_left_mono) auto
    then have "\<bar>acc * x\<bar> \<le> \<bar>acc * x ^ Suc n\<bar>" by (simp add: abs_mult power_abs mult.assoc)
    moreover have big: "PAS_MAXINT < \<bar>acc * x\<bar>" using False by (auto simp: in_int_def)
    ultimately have "\<not> in_int (acc * x ^ Suc n)" by (auto simp: in_int_def)
    moreover have "acc * x > PAS_MAXINT \<or> acc * x < - PAS_MAXINT" using big by linarith
    ultimately show ?thesis by (simp only: pow_loop.simps Let_def if_True if_False)
  qed
qed (simp add: in_int_def)

text \<open>The value ISO/IEC 10206 defines: repeated multiplication, of \<^verbatim>\<open>1 div x\<close> for a negative exponent.\<close>

definition pow_value :: "int \<Rightarrow> int \<Rightarrow> int" where
  "pow_value x y = (if 0 \<le> y then x ^ nat y else (1 sdiv x) ^ nat (- y))"

lemma one_sdiv: "1 sdiv x = (if x = 1 \<or> x = - 1 then x else (0 :: int))"
proof -
  consider "x = 1" | "x = - 1" | "x = 0" | "1 < \<bar>x\<bar>" by linarith
  then show ?thesis by cases (auto simp: signed_divide_int_def)
qed

section \<open>Properties\<close>

text \<open>
  C34. Exponentiation of integers is exact or traps: \<^verbatim>\<open>pas_pow_int\<close> is an error for a zero base
  with an exponent that is not positive, otherwise answers the power when it is in
  -maxint..maxint and traps exactly when it is not, although it checks every partial product.
\<close>

theorem pow_int_exact:
  assumes "in_int x" "in_int y"
  shows "pas_pow_int x y =
    (if x = 0 \<and> y \<le> 0 then Inl (Trap ''pow: 0 pow y is an error when y <= 0'')
     else if in_int (pow_value x y) then Inr (pow_value x y)
     else Inl (Trap ''integer overflow in pow''))"
proof -
  have one: "in_int 1" "in_int 0" by (simp_all add: in_int_def PAS_MAXINT_def)
  consider "x = 0" "y \<le> 0" | "x = 0" "0 < y" | "x \<noteq> 0" "y = 0" | "x \<noteq> 0" "0 < y"
    | "x \<noteq> 0" "y < 0" "1 sdiv x = 0" | "x \<noteq> 0" "y < 0" "1 sdiv x \<noteq> 0" by linarith
  then show ?thesis
  proof cases
    case 4
    then show ?thesis using pow_loop_result [OF one(1) 4(1), of "nat y"] by (simp add: pas_pow_int_def pow_value_def)
  next
    case 6
    then show ?thesis using pow_loop_result [OF one(1) 6(3), of "nat (- y)"]
      by (simp add: pas_pow_int_def pow_value_def Let_def)
  qed (auto simp: pas_pow_int_def pow_value_def Let_def one power_0_left)
qed

theorem pow_int_exact_witness:
  "pas_pow_int (- 2) 31 = Inl (Trap ''integer overflow in pow'') \<and> pas_pow_int (- 2) 30 = Inr 1073741824"
  using pow_int_exact [of "- 2" 31] pow_int_exact [of "- 2" 30]
  by (simp add: in_int_def PAS_MAXINT_def pow_value_def)

end
