(* ===== verification/Coverage.thy ===== *)
theory Coverage
  imports Decimal "HOL-Library.Multiset"
begin

text \<open>
  Statement and branch coverage (\<^verbatim>\<open>pas_cov_*\<close> and \<^verbatim>\<open>pas_br_*\<close> of \<^verbatim>\<open>src/runtime/pasrt.c\<close>).

  The line table is an array that doubles; the branch table a hash set with linear probing
  over 64-bit keys, whose arithmetic is kept at that width. Whether an allocation succeeds is
  an argument of the operation that makes it. The loop that probes has no bound in the source;
  the model gives it one step per slot and the theorems show that it never needs more.
\<close>

section \<open>Lines\<close>

record cov =
  cov_seen :: "bool list"
  cov_high :: nat
  cov_armed :: bool

definition cov0 :: cov where
  "cov0 = \<lparr>cov_seen = [], cov_high = 0, cov_armed = False\<rparr>"

function double_past :: "nat \<Rightarrow> nat \<Rightarrow> nat" where
  "double_past want line = (if want = 0 \<or> line < want then want else double_past (want * 2) line)"
  by auto
termination
  by (relation "measure (\<lambda>(want, line). Suc line - want)") auto

declare double_past.simps [simp del]

definition pas_cov_hit :: "bool \<Rightarrow> int \<Rightarrow> cov \<Rightarrow> cov" where
  "pas_cov_hit alloc ln c =
     (if ln < 0 then c
      else
        (let i = nat ln; cap = length (cov_seen c) in
         if cap \<le> i \<and> \<not> alloc then c
         else
           (let c1 = (if cap \<le> i then
                        (let want = double_past (if cap \<noteq> 0 then cap else 1024) i in
                         c\<lparr>cov_seen := cov_seen c @ replicate (want - cap) False, cov_armed := True\<rparr>)
                      else c) in
            c1\<lparr>cov_seen := (cov_seen c1)[i := True], cov_high := max (cov_high c1) i\<rparr>)))"

definition pas_cov_dump :: "cov \<Rightarrow> string list" where
  "pas_cov_dump c = (if cov_seen c = [] then [] else map (\<lambda>i. dec_int (int i)) (filter (\<lambda>i. cov_seen c ! i) [0..<Suc (cov_high c)]))"

definition cov_lines :: "cov \<Rightarrow> nat set" where
  "cov_lines c = {i. i < length (cov_seen c) \<and> cov_seen c ! i}"

definition cov_ok :: "cov \<Rightarrow> bool" where
  "cov_ok c \<longleftrightarrow> (\<forall>i \<in> cov_lines c. i \<le> cov_high c) \<and> (cov_seen c = [] \<longrightarrow> cov_high c = 0) \<and>
     (cov_seen c \<noteq> [] \<longrightarrow> cov_high c < length (cov_seen c)) \<and> (cov_armed c \<longleftrightarrow> cov_seen c \<noteq> [])"

lemma double_past_greater: "0 < want \<Longrightarrow> line < double_past want line \<and> want \<le> double_past want line"
proof (induction want line rule: double_past.induct)
  case (1 want line)
  then show ?case by (subst (1 2) double_past.simps) auto
qed

lemma lines_grown:
  "{i. i < length (xs @ replicate k False) \<and> (xs @ replicate k False) ! i} = {i. i < length xs \<and> xs ! i}"
proof -
  have "\<not> (xs @ replicate k False) ! i" if "length xs \<le> i" "i < length xs + k" for i
    using that by (simp add: nth_append)
  then have "i < length (xs @ replicate k False) \<and> (xs @ replicate k False) ! i \<longleftrightarrow> i < length xs \<and> xs ! i" for i
    by (cases "i < length xs") (auto simp: nth_append)
  then show ?thesis by (rule Collect_cong)
qed

lemma cov_hit_lines:
  assumes "cov_ok c" "0 \<le> ln"
  shows "cov_ok (pas_cov_hit True ln c) \<and> cov_lines (pas_cov_hit True ln c) = insert (nat ln) (cov_lines c)"
proof -
  let ?i = "nat ln" and ?cap = "length (cov_seen c)"
  define c1 where "c1 = (if ?cap \<le> ?i then
      (let want = double_past (if ?cap \<noteq> 0 then ?cap else 1024) ?i in
       c\<lparr>cov_seen := cov_seen c @ replicate (want - ?cap) False, cov_armed := True\<rparr>) else c)"
  have hit: "pas_cov_hit True ln c = c1\<lparr>cov_seen := (cov_seen c1)[?i := True], cov_high := max (cov_high c1) ?i\<rparr>"
    using assms(2) by (simp add: pas_cov_hit_def c1_def Let_def)
  have "?i < length (cov_seen c1) \<and> ?cap \<le> length (cov_seen c1)"
    using double_past_greater [of "if ?cap \<noteq> 0 then ?cap else 1024" ?i] by (auto simp: c1_def Let_def)
  moreover have "cov_lines c1 = cov_lines c"
    using lines_grown by (simp add: c1_def cov_lines_def Let_def)
  moreover have "cov_high c1 = cov_high c" "cov_armed c1 \<longleftrightarrow> ?cap \<le> ?i \<or> cov_armed c"
    by (auto simp: c1_def Let_def)
  moreover have "cov_lines (pas_cov_hit True ln c) = insert ?i (cov_lines c1)"
    using calculation(1) unfolding hit cov_lines_def by (auto simp: nth_list_update)
  ultimately show ?thesis using assms(1) unfolding hit by (auto simp: cov_ok_def)
qed

lemma cov_hit_other: "ln < 0 \<Longrightarrow> pas_cov_hit alloc ln c = c"
  by (simp add: pas_cov_hit_def)

lemma cov_hits:
  "cov_ok c \<Longrightarrow> cov_ok (fold (pas_cov_hit True) lns c) \<and>
     cov_lines (fold (pas_cov_hit True) lns c) = cov_lines c \<union> nat ` {l \<in> set lns. 0 \<le> l}"
proof (induction lns arbitrary: c)
  case (Cons l lns)
  show ?case
  proof (cases "0 \<le> l")
    case True
    then have "{x \<in> set (l # lns). 0 \<le> x} = insert l {x \<in> set lns. 0 \<le> x}" by auto
    then show ?thesis using True Cons.IH [of "pas_cov_hit True l c"] cov_hit_lines [OF Cons.prems True] by auto
  next
    case False
    then have "{x \<in> set (l # lns). 0 \<le> x} = {x \<in> set lns. 0 \<le> x}" by auto
    then show ?thesis using False Cons by (simp add: cov_hit_other)
  qed
qed auto

lemma filter_upt_sorted: "filter P [0..<n] = sorted_list_of_set {i. i < n \<and> P i}"
proof -
  have "set (filter P [0..<n]) = {i. i < n \<and> P i}" by auto
  moreover have "sorted (filter P [0..<n])" "distinct (filter P [0..<n])" by (simp_all add: sorted_wrt_filter)
  ultimately show ?thesis using sorted_list_of_set.idem_if_sorted_distinct by metis
qed

lemma dump_lines: "cov_ok c \<Longrightarrow> pas_cov_dump c = map (\<lambda>i. dec_int (int i)) (sorted_list_of_set (cov_lines c))"
proof -
  assume ok: "cov_ok c"
  show ?thesis
  proof (cases "cov_seen c = []")
    case False
    then have "{i. i < Suc (cov_high c) \<and> cov_seen c ! i} = cov_lines c"
      using ok by (force simp: cov_ok_def cov_lines_def)
    then show ?thesis using False by (simp add: pas_cov_dump_def filter_upt_sorted del: upt_Suc)
  qed (simp add: pas_cov_dump_def cov_lines_def)
qed

section \<open>Branches\<close>

type_synonym key = "64 word"

record br =
  br_key :: "key list"
  br_used :: nat
  br_armed :: bool

definition br0 :: br where
  "br0 = \<lparr>br_key = [], br_used = 0, br_armed = False\<rparr>"

definition PAS_BR_MIX :: key where
  "PAS_BR_MIX = 1099511628211"

definition br_slot :: "key \<Rightarrow> nat \<Rightarrow> nat" where
  "br_slot k cap = unat (drop_bit 32 (k * PAS_BR_MIX) AND (word_of_nat cap - 1))"

definition br_next :: "nat \<Rightarrow> nat \<Rightarrow> nat" where
  "br_next h cap = unat ((word_of_nat h + 1 :: key) AND (word_of_nat cap - 1))"

text \<open>
  The two loops of the source: on to the first empty slot, and on to the first slot that is
  empty or holds the key.
\<close>

fun br_scan :: "(key \<Rightarrow> bool) \<Rightarrow> nat \<Rightarrow> key list \<Rightarrow> nat \<Rightarrow> nat option" where
  "br_scan P 0 tab h = None"
| "br_scan P (Suc n) tab h = (if P (tab ! h) then Some h else br_scan P n tab (br_next h (length tab)))"

definition br_free :: "key list \<Rightarrow> nat \<Rightarrow> nat option" where
  "br_free tab h = br_scan (\<lambda>v. v = 0) (length tab) tab h"

definition br_probe :: "key list \<Rightarrow> key \<Rightarrow> nat \<Rightarrow> nat option" where
  "br_probe tab k h = br_scan (\<lambda>v. v = 0 \<or> v = k) (length tab) tab h"

fun br_rehash :: "key list \<Rightarrow> key list \<Rightarrow> key list option" where
  "br_rehash [] tab = Some tab"
| "br_rehash (k # ks) tab =
     (if k = 0 then br_rehash ks tab
      else case br_free tab (br_slot k (length tab)) of
        None \<Rightarrow> None
      | Some h \<Rightarrow> br_rehash ks (tab[h := k]))"

definition pas_br_grow :: "br \<Rightarrow> br option" where
  "pas_br_grow b =
     (let cap = length (br_key b); want = (if cap \<noteq> 0 then cap * 2 else 1024) in
      map_option (\<lambda>tab. b\<lparr>br_key := tab\<rparr>) (br_rehash (br_key b) (replicate want 0)))"

definition br_pack :: "int \<Rightarrow> int \<Rightarrow> int \<Rightarrow> key" where
  "br_pack ln cl dir =
     push_bit 32 (word_of_int (ln mod 2 ^ 32)) OR push_bit 1 (word_of_int (cl mod 2 ^ 32)) OR word_of_int (dir mod 2)"

definition pas_cov_branch :: "bool \<Rightarrow> int \<Rightarrow> int \<Rightarrow> int \<Rightarrow> br \<Rightarrow> br option" where
  "pas_cov_branch alloc ln cl dir b =
     (if ln \<le> 0 then Some b
      else
        (let grow = br_used b * 2 \<ge> length (br_key b) in
         if grow \<and> \<not> alloc then Some b
         else
           Option.bind (if grow then pas_br_grow b else Some b) (\<lambda>b1.
             let b2 = b1\<lparr>br_armed := True\<rparr>; k = br_pack ln cl dir in
             case br_probe (br_key b2) k (br_slot k (length (br_key b2))) of
               None \<Rightarrow> None
             | Some h \<Rightarrow>
                 if br_key b2 ! h = k then Some b2
                 else Some (b2\<lparr>br_key := (br_key b2)[h := k], br_used := br_used b2 + 1\<rparr>))))"

definition pas_br_dump :: "br \<Rightarrow> (int \<times> int \<times> int) list" where
  "pas_br_dump b =
     map (\<lambda>k. (uint (drop_bit 32 k), uint (drop_bit 1 k AND 0x7fffffff), uint (k AND 1)))
       (filter (\<lambda>k. k \<noteq> 0) (br_key b))"

section \<open>The branch table is a set\<close>

lemma mask_mod:
  assumes "e < 64"
  shows "unat (w AND (word_of_nat (2 ^ e) - 1) :: key) = unat w mod 2 ^ e"
proof -
  have "(word_of_nat (2 ^ e) - 1 :: key) = mask e" by (simp add: mask_eq_exp_minus_1)
  then have "w AND (word_of_nat (2 ^ e) - 1) = take_bit e w" by (simp only: take_bit_eq_mask)
  then have "unat (w AND (word_of_nat (2 ^ e) - 1)) = take_bit e (unat w)" by (simp only: unsigned_take_bit_eq)
  then show ?thesis by (simp only: take_bit_eq_mod)
qed

lemma br_slot_less: "e < 64 \<Longrightarrow> br_slot k (2 ^ e) < 2 ^ e"
  unfolding br_slot_def by (subst mask_mod) simp_all

lemma unat_word_of_nat64: "k < 2 ^ 64 \<Longrightarrow> unat (word_of_nat k :: key) = k"
  by (simp add: unat_of_nat)

lemma br_next_mod:
  assumes "e < 63" "h < 2 ^ e"
  shows "br_next h (2 ^ e) = (h + 1) mod 2 ^ e"
proof -
  have "(2 :: nat) ^ e < 2 ^ 63" using assms(1) by (intro power_strict_increasing) simp_all
  then have "h + 1 < 2 ^ 64" using assms(2) by simp
  then have "unat (word_of_nat (h + 1) :: key) = h + 1" by (rule unat_word_of_nat64)
  then have "unat (word_of_nat h + 1 :: key) = h + 1" by (simp only: of_nat_add of_nat_1)
  then show ?thesis unfolding br_next_def using assms(1) by (subst mask_mod) simp_all
qed

definition pow2 :: "nat \<Rightarrow> bool" where
  "pow2 n \<longleftrightarrow> (\<exists>e < 63. n = 2 ^ e)"

lemma pow2_pos: "pow2 n \<Longrightarrow> 0 < n"
  by (auto simp: pow2_def)

lemma br_scan_first:
  assumes "pow2 (length tab)" "h < length tab"
  shows "br_scan P m tab h = Some j \<longleftrightarrow>
    (\<exists>d < m. j = (h + d) mod length tab \<and> P (tab ! j) \<and> (\<forall>i < d. \<not> P (tab ! ((h + i) mod length tab))))"
  using assms(2)
proof (induction m arbitrary: h)
  case (Suc m)
  let ?n = "length tab"
  have nx: "br_next h ?n = (h + 1) mod ?n" using br_next_mod Suc.prems assms(1) by (auto simp: pow2_def)
  have lt: "(h + 1) mod ?n < ?n" using pow2_pos [OF assms(1)] by simp
  have shift: "((h + 1) mod ?n + d) mod ?n = (h + Suc d) mod ?n" for d
    by (simp add: mod_add_left_eq)
  show ?case
  proof (cases "P (tab ! h)")
    case True
    then show ?thesis using Suc.prems by (auto intro: exI [of _ 0]) (metis add.right_neutral mod_less not_gr_zero)
  next
    case False
    have "(\<exists>d < Suc m. j = (h + d) mod ?n \<and> P (tab ! j) \<and> (\<forall>i < d. \<not> P (tab ! ((h + i) mod ?n)))) \<longleftrightarrow>
        (\<exists>d < m. j = (h + Suc d) mod ?n \<and> P (tab ! j) \<and> (\<forall>i < d. \<not> P (tab ! ((h + Suc i) mod ?n))))"
      (is "?L \<longleftrightarrow> ?R")
    proof
      assume ?L
      then obtain d where d: "d < Suc m" "j = (h + d) mod ?n" "P (tab ! j)" "\<forall>i < d. \<not> P (tab ! ((h + i) mod ?n))" by blast
      then obtain d' where "d = Suc d'" using False Suc.prems by (cases d) auto
      with d show ?R by (intro exI [of _ d']) auto
    next
      assume ?R
      then obtain d where d: "d < m" "j = (h + Suc d) mod ?n" "P (tab ! j)" "\<forall>i < d. \<not> P (tab ! ((h + Suc i) mod ?n))" by blast
      have "\<not> P (tab ! ((h + i) mod ?n))" if "i < Suc d" for i using that d(4) False Suc.prems by (cases i) auto
      with d show ?L by (intro exI [of _ "Suc d"]) auto
    qed
    then show ?thesis using False Suc.IH [OF lt] nx by (simp only: br_scan.simps if_False shift)
  qed
qed simp

lemma br_scan_exists:
  assumes "pow2 (length tab)" "h < length tab" "j < length tab" "P (tab ! j)"
  shows "\<exists>h'. br_scan P (length tab) tab h = Some h' \<and> h' < length tab \<and> P (tab ! h')"
proof -
  let ?n = "length tab"
  let ?Q = "\<lambda>d. P (tab ! ((h + d) mod ?n))"
  have "(h + (j + ?n - h) mod ?n) mod ?n = j"
    using assms(2,3) by (simp add: mod_add_right_eq)
  then have ex: "?Q ((j + ?n - h) mod ?n)" using assms(4) by simp
  let ?d = "LEAST d. ?Q d"
  have "?Q ?d" "\<forall>i < ?d. \<not> ?Q i" using LeastI [of ?Q, OF ex] not_less_Least by blast+
  moreover have "?d < ?n"
    using Least_le [of ?Q, OF ex] pow2_pos [OF assms(1)] by (meson le_less_trans mod_less_divisor)
  ultimately show ?thesis
    using br_scan_first [OF assms(1,2), of P ?n "(h + ?d) mod ?n"] pow2_pos [OF assms(1)] by auto
qed

definition reached :: "key list \<Rightarrow> nat \<Rightarrow> bool" where
  "reached tab j \<longleftrightarrow> (\<exists>d < length tab. j = (br_slot (tab ! j) (length tab) + d) mod length tab \<and>
     (\<forall>i < d. tab ! ((br_slot (tab ! j) (length tab) + i) mod length tab) \<noteq> 0))"

definition tab_ok :: "key list \<Rightarrow> bool" where
  "tab_ok tab \<longleftrightarrow> pow2 (length tab) \<and> distinct (filter (\<lambda>k. k \<noteq> 0) tab) \<and>
     (\<forall>j < length tab. tab ! j \<noteq> 0 \<longrightarrow> reached tab j)"

definition keys :: "key list \<Rightarrow> key set" where
  "keys tab = set tab - {0}"

definition filled :: "key list \<Rightarrow> nat" where
  "filled tab = length (filter (\<lambda>k. k \<noteq> 0) tab)"

lemma empty_slot: "filled tab < length tab \<Longrightarrow> \<exists>j < length tab. tab ! j = 0"
proof (rule ccontr)
  assume "filled tab < length tab" "\<not> (\<exists>j < length tab. tab ! j = 0)"
  then have "filter (\<lambda>k. k \<noteq> 0) tab = tab" by (auto simp: filter_id_conv in_set_conv_nth)
  then show False using \<open>filled tab < length tab\<close> by (simp add: filled_def)
qed

lemma slot_in: "pow2 (length tab) \<Longrightarrow> br_slot k (length tab) < length tab"
  using br_slot_less by (auto simp: pow2_def)

lemma filter_update:
  assumes "h < length tab" "tab ! h = 0" "k \<noteq> (0 :: key)"
  shows "mset (filter (\<lambda>v. v \<noteq> 0) (tab[h := k])) = add_mset k (mset (filter (\<lambda>v. v \<noteq> 0) tab))"
proof -
  define l r where "l = take h tab" and "r = drop (Suc h) tab"
  have "tab[h := k] = l @ k # r" using assms(1) by (simp add: upd_conv_take_nth_drop l_def r_def)
  moreover have "tab = l @ 0 # r" using id_take_nth_drop [OF assms(1)] assms(2) by (simp add: l_def r_def)
  ultimately show ?thesis using assms(3) by simp
qed

lemma tab_insert:
  assumes "tab_ok tab" "k \<noteq> 0" "k \<notin> keys tab" "h < length tab" "tab ! h = 0"
    "d < length tab" "h = (br_slot k (length tab) + d) mod length tab"
    "\<forall>i < d. tab ! ((br_slot k (length tab) + i) mod length tab) \<noteq> 0"
  shows "tab_ok (tab[h := k]) \<and> keys (tab[h := k]) = insert k (keys tab) \<and> filled (tab[h := k]) = Suc (filled tab)"
proof -
  note ms = filter_update [OF assms(4,5,2)]
  have keep: "tab ! i \<noteq> 0 \<Longrightarrow> tab[h := k] ! i = tab ! i" for i using assms(5) by (cases "i = h") auto
  have "reached (tab[h := k]) j" if j: "j < length tab" "tab[h := k] ! j \<noteq> 0" for j
  proof (cases "j = h")
    case True
    then show ?thesis using assms(2,4,6-8) keep by (auto simp: reached_def)
  next
    case False
    then have "reached tab j" "tab ! j \<noteq> 0" using assms(1) j by (auto simp: tab_ok_def)
    then show ?thesis using keep False by (auto simp: reached_def)
  qed
  moreover have "distinct (filter (\<lambda>v. v \<noteq> 0) (tab[h := k]))"
  proof -
    have "k \<notin> set (filter (\<lambda>v. v \<noteq> 0) tab)" using assms(3) by (auto simp: keys_def)
    then have "distinct (k # filter (\<lambda>v. v \<noteq> 0) tab)" using assms(1) by (simp add: tab_ok_def)
    then show ?thesis using ms by (metis mset.simps(2) mset_eq_imp_distinct_iff)
  qed
  moreover have "keys (tab[h := k]) = insert k (keys tab)"
  proof -
    have "set (filter (\<lambda>v. v \<noteq> 0) (tab[h := k])) = insert k (set (filter (\<lambda>v. v \<noteq> 0) tab))"
      using ms by (metis set_mset_add_mset_insert set_mset_mset)
    then show ?thesis by (auto simp: keys_def)
  qed
  moreover have "filled (tab[h := k]) = Suc (filled tab)"
    using ms by (metis filled_def size_add_mset size_mset)
  ultimately show ?thesis using assms(1) by (simp add: tab_ok_def)
qed

lemma probe_result:
  assumes "tab_ok tab" "filled tab < length tab" "k \<noteq> 0"
  shows "\<exists>h. br_probe tab k (br_slot k (length tab)) = Some h \<and> h < length tab \<and>
    (k \<in> keys tab \<longrightarrow> tab ! h = k) \<and>
    (k \<notin> keys tab \<longrightarrow> tab ! h = 0 \<and> tab_ok (tab[h := k]) \<and> keys (tab[h := k]) = insert k (keys tab) \<and>
       filled (tab[h := k]) = Suc (filled tab))"
proof -
  let ?n = "length tab" and ?s = "br_slot k (length tab)"
  have p2: "pow2 ?n" using assms(1) by (simp add: tab_ok_def)
  have s: "?s < ?n" by (rule slot_in [OF p2])
  obtain j0 where "j0 < ?n" "tab ! j0 = 0" using empty_slot [OF assms(2)] by blast
  then obtain h where h: "br_probe tab k ?s = Some h" "h < ?n" "tab ! h = 0 \<or> tab ! h = k"
    using br_scan_exists [OF p2 s, of j0 "\<lambda>v. v = 0 \<or> v = k"] by (auto simp: br_probe_def)
  then obtain d where d: "d < ?n" "h = (?s + d) mod ?n" "\<forall>i < d. tab ! ((?s + i) mod ?n) \<noteq> 0 \<and> tab ! ((?s + i) mod ?n) \<noteq> k"
    using br_scan_first [OF p2 s] by (auto simp: br_probe_def)
  show ?thesis
  proof (cases "k \<in> keys tab")
    case True
    then obtain j where j: "j < ?n" "tab ! j = k" by (auto simp: keys_def in_set_conv_nth)
    then obtain d' where d': "d' < ?n" "j = (?s + d') mod ?n" "\<forall>i < d'. tab ! ((?s + i) mod ?n) \<noteq> 0"
      using assms(1,3) by (auto simp: tab_ok_def reached_def)
    have "tab ! h = k"
    proof (rule ccontr)
      assume "tab ! h \<noteq> k"
      then have "tab ! h = 0" using h(3) by blast
      then have "\<not> d < d'" using d'(3) d(2) by auto
      moreover have "\<not> d' < d" using d(3) d'(2) j(2) by auto
      ultimately have "h = j" using d(2) d'(2) by simp
      then show False using j(2) \<open>tab ! h \<noteq> k\<close> by simp
    qed
    then show ?thesis using h(1,2) True by blast
  next
    case False
    then have "tab ! h = 0" using h(2,3) by (auto simp: keys_def)
    then show ?thesis using tab_insert [OF assms(1,3) False h(2) _ d(1,2)] d(3) h(1,2) False by auto
  qed
qed

lemma free_result:
  assumes "tab_ok tab" "filled tab < length tab" "k \<noteq> 0" "k \<notin> keys tab"
  shows "\<exists>h. br_free tab (br_slot k (length tab)) = Some h \<and> tab_ok (tab[h := k]) \<and>
    keys (tab[h := k]) = insert k (keys tab) \<and> filled (tab[h := k]) = Suc (filled tab)"
proof -
  let ?n = "length tab" and ?s = "br_slot k (length tab)"
  have p2: "pow2 ?n" using assms(1) by (simp add: tab_ok_def)
  have s: "?s < ?n" by (rule slot_in [OF p2])
  obtain j0 where "j0 < ?n" "tab ! j0 = 0" using empty_slot [OF assms(2)] by blast
  then obtain h where h: "br_free tab ?s = Some h" "h < ?n" "tab ! h = 0"
    using br_scan_exists [OF p2 s, of j0 "\<lambda>v. v = 0"] by (auto simp: br_free_def)
  then obtain d where "d < ?n" "h = (?s + d) mod ?n" "\<forall>i < d. tab ! ((?s + i) mod ?n) \<noteq> 0"
    using br_scan_first [OF p2 s] by (auto simp: br_free_def)
  then show ?thesis using tab_insert [OF assms(1,3,4) h(2,3)] h(1) by blast
qed

lemma rehash_result:
  "tab_ok tab \<Longrightarrow> distinct (filter (\<lambda>k. k \<noteq> 0) ks) \<Longrightarrow> set ks \<inter> keys tab \<subseteq> {0} \<Longrightarrow>
     filled tab + filled ks < length tab \<Longrightarrow>
   \<exists>tab'. br_rehash ks tab = Some tab' \<and> tab_ok tab' \<and> keys tab' = keys tab \<union> keys ks \<and>
     filled tab' = filled tab + filled ks \<and> length tab' = length tab"
proof (induction ks arbitrary: tab)
  case (Cons k ks)
  show ?case
  proof (cases "k = 0")
    case True
    then show ?thesis using Cons by (auto simp: filled_def keys_def)
  next
    case False
    have new: "k \<notin> keys tab" using Cons.prems(3) False by (auto simp: keys_def)
    have room: "filled tab < length tab" using Cons.prems(4) by simp
    obtain h where h: "br_free tab (br_slot k (length tab)) = Some h" "tab_ok (tab[h := k])"
      "keys (tab[h := k]) = insert k (keys tab)" "filled (tab[h := k]) = Suc (filled tab)"
      using free_result [OF Cons.prems(1) room False new] by blast
    have fk: "filled (k # ks) = Suc (filled ks)" using False by (simp add: filled_def)
    have dis: "distinct (filter (\<lambda>k. k \<noteq> 0) ks)" "k \<notin> set ks" using Cons.prems(2) False by auto
    have sub: "set ks \<inter> keys (tab[h := k]) \<subseteq> {0}" using Cons.prems(3) dis(2) h(3) by auto
    have size: "filled (tab[h := k]) + filled ks < length (tab[h := k])" using Cons.prems(4) h(4) fk by simp
    from Cons.IH [OF h(2) dis(1) sub size] show ?thesis
      using h False fk by (auto simp: keys_def)
  qed
qed (simp add: filled_def keys_def)

lemma tab_ok_empty: "pow2 n \<Longrightarrow> tab_ok (replicate n 0)" "keys (replicate n 0) = {}" "filled (replicate n 0) = 0"
  by (auto simp: tab_ok_def keys_def filled_def)

definition br_ok :: "br \<Rightarrow> bool" where
  "br_ok b \<longleftrightarrow> (br_key b = [] \<and> br_used b = 0 \<or> tab_ok (br_key b)) \<and> br_used b = filled (br_key b) \<and>
     br_used b * 2 \<le> length (br_key b) \<and> length (br_key b) \<le> max 1024 (4 * br_used b) \<and>
     (br_key b \<noteq> [] \<longrightarrow> 1024 \<le> length (br_key b))"

lemma pow2_double: "pow2 n \<Longrightarrow> n \<le> 2 ^ 30 \<Longrightarrow> pow2 (n * 2)"
proof -
  assume "pow2 n" "n \<le> 2 ^ 30"
  then obtain e where e: "n = 2 ^ e" "e < 63" by (auto simp: pow2_def)
  have "e \<le> 30" using \<open>n \<le> 2 ^ 30\<close> unfolding e(1) by (simp only: power_increasing_iff)
  then show ?thesis using e unfolding pow2_def by (intro exI [of _ "Suc e"]) simp
qed

lemma grow_result:
  assumes "br_ok b" "br_used b * 2 \<ge> length (br_key b)" "br_used b < 2 ^ 28"
  shows "\<exists>tab. pas_br_grow b = Some (b\<lparr>br_key := tab\<rparr>) \<and> tab_ok tab \<and> keys tab = keys (br_key b) \<and>
    filled tab = br_used b \<and> length tab = (if br_key b = [] then 1024 else length (br_key b) * 2)"
proof -
  let ?n = "length (br_key b)"
  let ?want = "if ?n \<noteq> 0 then ?n * 2 else 1024"
  have p2: "pow2 ?want"
  proof (cases "br_key b = []")
    case True
    have "pow2 (2 ^ 10)" unfolding pow2_def by (intro exI [of _ 10]) simp
    then show ?thesis using True by simp
  next
    case False
    then have "?n \<le> 2 ^ 30" "pow2 ?n" using assms(1,3) by (auto simp: br_ok_def tab_ok_def)
    then show ?thesis using False pow2_double by auto
  qed
  have "distinct (filter (\<lambda>k. k \<noteq> 0) (br_key b))" using assms(1) by (auto simp: br_ok_def tab_ok_def)
  moreover have "filled (br_key b) < ?want" using assms(1,2) by (auto simp: br_ok_def)
  ultimately obtain tab where "br_rehash (br_key b) (replicate ?want 0) = Some tab" "tab_ok tab"
    "keys tab = keys (br_key b)" "filled tab = filled (br_key b)" "length tab = ?want"
    using rehash_result [OF tab_ok_empty(1) [OF p2], of "br_key b"] tab_ok_empty(2,3) by auto
  then show ?thesis using assms(1) by (auto simp: pas_br_grow_def br_ok_def Let_def)
qed

lemma pack_bits:
  assumes "0 < ln" "ln < 2 ^ 31" "0 \<le> cl" "cl < 2 ^ 31"
  shows "uint (br_pack ln cl dir) = ln * 2 ^ 32 + cl * 2 + dir mod 2"
proof -
  obtain l c d where n: "ln = int l" "cl = int c" "dir mod 2 = int d" "l < 2 ^ 31" "c < 2 ^ 31" "d < 2"
  proof -
    have "dir mod 2 = int (nat (dir mod 2))" "nat (dir mod 2) < 2" by (simp_all add: nat_less_iff)
    then show ?thesis using that [of "nat ln" "nat cl" "nat (dir mod 2)"] assms by (simp add: nat_less_iff)
  qed
  have w: "br_pack ln cl dir = push_bit 32 (word_of_nat l) OR push_bit 1 (word_of_nat c) OR word_of_nat d"
    using n by (simp add: br_pack_def)
  have u1: "unat (push_bit 32 (word_of_nat l) :: key) = l * 2 ^ 32"
    using n(4) by (simp add: push_bit_eq_mult unat_word_ariths unat_of_nat)
  have u2: "unat (push_bit 1 (word_of_nat c) :: key) = c * 2"
    using n(5) by (simp add: push_bit_eq_mult unat_word_ariths unat_of_nat)
  have u3: "unat (word_of_nat d :: key) = d" using n(6) by (simp add: unat_of_nat)
  have "(c * 2) OR d = c * 2 + d" using or_disjoint_add_nat [of "c * 2" 1 d] n(6) by simp
  moreover have "(l * 2 ^ 32) OR (c * 2 + d) = l * 2 ^ 32 + (c * 2 + d)"
    using or_disjoint_add_nat [of "l * 2 ^ 32" 32 "c * 2 + d"] n(5,6) by simp
  ultimately have "unat (br_pack ln cl dir) = l * 2 ^ 32 + (c * 2 + d)"
    unfolding w by (simp only: unsigned_or_eq u1 u2 u3 or.assoc)
  then have "uint (br_pack ln cl dir) = int (l * 2 ^ 32 + (c * 2 + d))" by (metis uint_nat)
  then show ?thesis using n by simp
qed

lemma pack_nonzero:
  assumes "0 < ln" "ln < 2 ^ 31" "0 \<le> cl" "cl < 2 ^ 31"
  shows "br_pack ln cl dir \<noteq> 0"
proof
  assume "br_pack ln cl dir = 0"
  then have "uint (br_pack ln cl dir) = 0" by simp
  moreover have "0 \<le> dir mod 2" by simp
  ultimately show False using pack_bits [OF assms, of dir] assms by simp
qed

lemma unpack:
  fixes dir :: int
  assumes "0 < ln" "ln < 2 ^ 31" "0 \<le> cl" "cl < 2 ^ 31"
  defines "k \<equiv> br_pack ln cl dir"
  shows "uint (drop_bit 32 k) = ln" "uint (drop_bit 1 k AND 0x7fffffff) = cl" "uint (k AND 1) = dir mod 2"
proof -
  note u = pack_bits [OF assms(1-4), of dir, folded k_def]
  define d where "d = dir mod 2"
  have d: "0 \<le> d" "d < 2" by (simp_all add: d_def)
  have u': "uint k = ln * 4294967296 + (cl * 2 + d)" using u by (simp add: d_def)
  have "uint (drop_bit 32 k) = uint k div 4294967296" by (simp add: drop_bit_eq_div uint_div_distrib)
  also have "\<dots> = ln" unfolding u' using assms(3,4) d by simp
  finally show "uint (drop_bit 32 k) = ln" .
  have "uint (k AND 1) = uint k AND 1" by (simp add: unsigned_and_eq)
  also have "\<dots> = uint k mod 2" by (simp add: and_one_eq)
  also have "\<dots> = d" unfolding u' using d by presburger
  finally show "uint (k AND 1) = dir mod 2" by (simp add: d_def)
  have "(0x7fffffff :: key) = mask 31" by (simp add: mask_eq_exp_minus_1)
  then have "drop_bit 1 k AND 0x7fffffff = take_bit 31 (drop_bit 1 k)" by (simp only: take_bit_eq_mask)
  then have "uint (drop_bit 1 k AND 0x7fffffff) = take_bit 31 (uint (drop_bit 1 k))" by (simp only: unsigned_take_bit_eq)
  also have "uint (drop_bit 1 k) = uint k div 2" by (simp add: drop_bit_eq_div uint_div_distrib)
  also have "take_bit 31 (uint k div 2) = (uint k div 2) mod 2147483648" by (simp add: take_bit_eq_mod)
  also have "uint k div 2 = ln * 2147483648 + cl" unfolding u' using d by presburger
  also have "(ln * 2147483648 + cl) mod 2147483648 = cl" using assms(3,4) by simp
  finally show "uint (drop_bit 1 k AND 0x7fffffff) = cl" .
qed

lemma branch_step:
  assumes "br_ok b" "br_used b < 2 ^ 28" "0 < ln" "ln < 2 ^ 31" "0 \<le> cl" "cl < 2 ^ 31"
  shows "\<exists>b'. pas_cov_branch True ln cl dir b = Some b' \<and> br_ok b' \<and> br_used b' \<le> br_used b + 1 \<and>
    keys (br_key b') = insert (br_pack ln cl dir) (keys (br_key b))"
proof -
  let ?k = "br_pack ln cl dir"
  have k: "?k \<noteq> 0" by (rule pack_nonzero [OF assms(3-6)])
  define grow where "grow \<longleftrightarrow> br_used b * 2 \<ge> length (br_key b)"
  obtain b1 where b1: "(if grow then pas_br_grow b else Some b) = Some b1" "tab_ok (br_key b1)"
    "br_used b1 = br_used b" "keys (br_key b1) = keys (br_key b)" "filled (br_key b1) = br_used b"
    "br_used b * 2 + 2 \<le> length (br_key b1)" "length (br_key b1) \<le> max 1024 (4 * br_used b)"
    "1024 \<le> length (br_key b1)"
  proof (cases grow)
    case True
    then obtain tab where t: "pas_br_grow b = Some (b\<lparr>br_key := tab\<rparr>)" "tab_ok tab" "keys tab = keys (br_key b)"
      "filled tab = br_used b" "length tab = (if br_key b = [] then 1024 else length (br_key b) * 2)"
      using grow_result [OF assms(1) _ assms(2)] by (auto simp: grow_def)
    have "br_used b * 2 + 2 \<le> length tab" "length tab \<le> max 1024 (4 * br_used b)" "1024 \<le> length tab"
      using t(5) assms(1) True by (auto simp: br_ok_def grow_def)
    then show ?thesis using that [of "b\<lparr>br_key := tab\<rparr>"] t True by simp
  next
    case False
    then have ne: "br_key b \<noteq> []" "br_used b * 2 < length (br_key b)" by (auto simp: grow_def)
    then have ok: "tab_ok (br_key b)" using assms(1) by (auto simp: br_ok_def)
    have "1024 \<le> length (br_key b)" using assms(1) ne by (simp add: br_ok_def)
    moreover obtain e where "length (br_key b) = 2 ^ e" using ok by (auto simp: tab_ok_def pow2_def)
    ultimately have "even (length (br_key b))" by (cases e) auto
    then have "br_used b * 2 + 2 \<le> length (br_key b)" using ne(2) by presburger
    then show ?thesis using that [of b] ok assms(1) False ne by (auto simp: br_ok_def)
  qed
  have "filled (br_key b1) < length (br_key b1)" using b1(5,6) by simp
  from probe_result [OF b1(2) this k] obtain h where
    h: "br_probe (br_key b1) ?k (br_slot ?k (length (br_key b1))) = Some h" "h < length (br_key b1)"
      "?k \<in> keys (br_key b1) \<longrightarrow> br_key b1 ! h = ?k"
      "?k \<notin> keys (br_key b1) \<longrightarrow> br_key b1 ! h = 0 \<and> tab_ok ((br_key b1)[h := ?k]) \<and>
         keys ((br_key b1)[h := ?k]) = insert ?k (keys (br_key b1)) \<and> filled ((br_key b1)[h := ?k]) = Suc (filled (br_key b1))"
    by blast
  have run: "pas_cov_branch True ln cl dir b =
      (if br_key b1 ! h = ?k then Some (b1\<lparr>br_armed := True\<rparr>)
       else Some (b1\<lparr>br_armed := True, br_key := (br_key b1)[h := ?k], br_used := br_used b1 + 1\<rparr>))"
    using assms(3) b1(1) h(1) by (simp add: pas_cov_branch_def grow_def [symmetric] Let_def)
  show ?thesis
  proof (cases "?k \<in> keys (br_key b1)")
    case True
    then show ?thesis using run h(3) b1 by (auto simp: br_ok_def)
  next
    case False
    then have "br_key b1 ! h \<noteq> ?k" using h(4) k by auto
    then show ?thesis using run h(4) False b1 by (auto simp: br_ok_def)
  qed
qed

type_synonym site = "int \<times> int \<times> int"

definition cov_branches :: "site list \<Rightarrow> br \<Rightarrow> br option" where
  "cov_branches sites b =
     foldl (\<lambda>r (ln, cl, dir). Option.bind r (pas_cov_branch True ln cl dir)) (Some b) sites"

definition site_ok :: "site \<Rightarrow> bool" where
  "site_ok s \<longleftrightarrow> (case s of (ln, cl, dir) \<Rightarrow> 0 < ln \<and> ln < 2 ^ 31 \<and> 0 \<le> cl \<and> cl < 2 ^ 31)"

lemma cov_branches_Cons:
  "cov_branches ((ln, cl, dir) # sites) b =
     (case pas_cov_branch True ln cl dir b of None \<Rightarrow> None | Some b' \<Rightarrow> cov_branches sites b')"
proof -
  have none: "foldl (\<lambda>r (ln, cl, dir). Option.bind r (pas_cov_branch True ln cl dir)) None sites = None"
    by (induction sites) auto
  then show ?thesis by (cases "pas_cov_branch True ln cl dir b") (simp_all add: cov_branches_def)
qed

lemma branches_result:
  "br_ok b \<Longrightarrow> br_used b + length sites < 2 ^ 28 \<Longrightarrow> list_all site_ok sites \<Longrightarrow>
   \<exists>b'. cov_branches sites b = Some b' \<and> br_ok b' \<and>
     keys (br_key b') = keys (br_key b) \<union> (\<lambda>(ln, cl, dir). br_pack ln cl dir) ` set sites"
proof (induction sites arbitrary: b)
  case Nil
  then show ?case by (simp add: cov_branches_def)
next
  case (Cons s sites)
  obtain ln cl dir where s: "s = (ln, cl, dir)" by (cases s)
  then have ok: "0 < ln" "ln < 2 ^ 31" "0 \<le> cl" "cl < 2 ^ 31" using Cons.prems(3) by (auto simp: site_ok_def)
  have "br_used b < 2 ^ 28" using Cons.prems(2) by simp
  from branch_step [OF Cons.prems(1) this ok, of dir] obtain b1 where
    b1: "pas_cov_branch True ln cl dir b = Some b1" "br_ok b1" "br_used b1 \<le> br_used b + 1"
      "keys (br_key b1) = insert (br_pack ln cl dir) (keys (br_key b))" by blast
  have "br_used b1 + length sites < 2 ^ 28" using b1(3) Cons.prems(2) by simp
  then show ?case using Cons.IH [OF b1(2)] Cons.prems(3) b1(1,4) s by (auto simp: cov_branches_Cons)
qed

section \<open>Properties\<close>

text \<open>
  The line table records exactly the lines that were hit: after any sequence of hits, in any
  order and with any repetitions, the dump lists the non-negative ones once each, in order.
\<close>

lemma cov_dump_exact:
  "pas_cov_dump (fold (pas_cov_hit True) lns cov0) =
     map (\<lambda>i. dec_int (int i)) (sorted_list_of_set (nat ` {l \<in> set lns. 0 \<le> l}))"
proof -
  have "cov_ok cov0" "cov_lines cov0 = {}" by (simp_all add: cov_ok_def cov0_def cov_lines_def)
  then show ?thesis using cov_hits [of cov0 lns] dump_lines by simp
qed

text \<open>
  C35. The branch table is a set: recording any sequence of fewer than 2 to the 28 decisions
  always ends, so no probe runs forever, and the dump then lists every decision that was
  recorded, unpacked as it was given, exactly once and nothing else.
\<close>

theorem branch_dump_exact:
  assumes "list_all site_ok sites" "length sites < 2 ^ 28"
  shows "\<exists>b. cov_branches sites br0 = Some b \<and> distinct (pas_br_dump b) \<and>
    set (pas_br_dump b) = (\<lambda>(ln, cl, dir). (ln, cl, dir mod 2)) ` set sites"
proof -
  let ?u = "\<lambda>k :: key. (uint (drop_bit 32 k), uint (drop_bit 1 k AND 0x7fffffff), uint (k AND 1))"
  let ?p = "\<lambda>(ln, cl, dir). br_pack ln cl dir"
  have "br_ok br0" "keys (br_key br0) = {}" by (simp_all add: br_ok_def br0_def filled_def keys_def)
  then obtain b where b: "cov_branches sites br0 = Some b" "br_ok b" "keys (br_key b) = ?p ` set sites"
    using branches_result [of br0 sites] assms by (auto simp: br0_def)
  have up: "?u (?p s) = (case s of (ln, cl, dir) \<Rightarrow> (ln, cl, dir mod 2))" if "s \<in> set sites" for s
    using assms(1) that unpack by (cases s) (auto simp: list_all_iff site_ok_def)
  have keys: "set (filter (\<lambda>k. k \<noteq> 0) (br_key b)) = ?p ` set sites"
  proof -
    have "set (filter (\<lambda>k. k \<noteq> 0) (br_key b)) = keys (br_key b)" by (auto simp: keys_def)
    then show ?thesis using b(3) by (simp only:)
  qed
  then have "set (pas_br_dump b) = (\<lambda>s. ?u (?p s)) ` set sites"
    unfolding pas_br_dump_def set_map keys by (simp add: image_image)
  also have "\<dots> = (\<lambda>(ln, cl, dir). (ln, cl, dir mod 2)) ` set sites" using up by (intro image_cong) auto
  finally have "set (pas_br_dump b) = (\<lambda>(ln, cl, dir). (ln, cl, dir mod 2)) ` set sites" .
  moreover have "inj_on ?u (set (filter (\<lambda>k. k \<noteq> 0) (br_key b)))"
  proof (rule inj_onI)
    fix x y assume x: "x \<in> set (filter (\<lambda>k. k \<noteq> 0) (br_key b))" and y: "y \<in> set (filter (\<lambda>k. k \<noteq> 0) (br_key b))"
      and eq: "?u x = ?u y"
    obtain s t where st: "s \<in> set sites" "x = ?p s" "t \<in> set sites" "y = ?p t" using x y unfolding keys by auto
    obtain l c d l' c' d' where s: "s = (l, c, d)" "t = (l', c', d')" by (cases s, cases t)
    have "(l, c, d mod 2) = (l', c', d' mod 2)" using eq up [OF st(1)] up [OF st(3)] st(2,4) s by auto
    then show "x = y" using st s by (simp add: br_pack_def)
  qed
  then have "distinct (pas_br_dump b)"
    using b(2) by (auto simp: pas_br_dump_def distinct_map br_ok_def tab_ok_def)
  ultimately show ?thesis using b(1) by blast
qed

theorem branch_dump_exact_witness:
  "\<exists>b. cov_branches [(3, 7, 1), (3, 7, 0), (3, 7, 1)] br0 = Some b \<and> distinct (pas_br_dump b) \<and>
    set (pas_br_dump b) = {(3, 7, 1), (3, 7, 0)}"
  using branch_dump_exact [of "[(3, 7, 1), (3, 7, 0), (3, 7, 1)]"] by (simp add: site_ok_def insert_commute)

end
