(* ===== verification/Stdio.thy ===== *)
theory Stdio
  imports Prelude
begin

text \<open>
  What the runtime uses of the streams of the C library (C11 7.21): a \<^verbatim>\<open>FILE *\<close> is a number
  in a table of streams, a stream has a file and a position in it, and the files are lists of
  characters found through a directory of names.

  \<^item> A name can be refused by the operating system: \<open>may_read\<close>, \<open>may_write\<close>, \<open>may_create\<close> and
    \<open>may_remove\<close> are its answers, and \<open>full\<close> makes every write of a byte fail.
  \<^item> A stream that cannot be positioned (a terminal, a pipe) has \<open>seekable\<close> false.
  \<^item> The buffers of the library are not represented: a byte written is in its file at once,
    so \<^verbatim>\<open>fflush\<close> changes nothing.
\<close>

type_synonym fid = nat

record stream =
  ino :: nat
  pos :: nat
  append_mode :: bool
  seekable :: bool
  is_open :: bool

record world =
  streams :: "fid \<Rightarrow> stream"
  next_fid :: fid
  disk :: "nat \<Rightarrow> char list"
  next_ino :: nat
  names :: "string \<rightharpoonup> nat"
  may_read :: "string \<Rightarrow> bool"
  may_write :: "string \<Rightarrow> bool"
  may_create :: "string \<Rightarrow> bool"
  may_remove :: "string \<Rightarrow> bool"
  full :: bool
  argv :: "string list"
  clock :: nat
  tick :: nat

abbreviation (input) c_stdin :: fid where "c_stdin \<equiv> 0"
abbreviation (input) c_stdout :: fid where "c_stdout \<equiv> 1"

definition contents_of :: "world \<Rightarrow> fid \<Rightarrow> char list" where
  "contents_of w p = disk w (ino (streams w p))"

text \<open>The characters a reader of the stream has not reached yet.\<close>

definition ahead :: "world \<Rightarrow> fid \<Rightarrow> char list" where
  "ahead w p = drop (pos (streams w p)) (contents_of w p)"

definition set_pos :: "fid \<Rightarrow> nat \<Rightarrow> world \<Rightarrow> world" where
  "set_pos p n w = w\<lparr>streams := (streams w)(p := (streams w p)\<lparr>pos := n\<rparr>)\<rparr>"

definition c_getc :: "world \<Rightarrow> fid \<Rightarrow> char option \<times> world" where
  "c_getc w p =
     (case ahead w p of [] \<Rightarrow> (None, w) | c # _ \<Rightarrow> (Some c, set_pos p (Suc (pos (streams w p))) w))"

definition c_fread :: "nat \<Rightarrow> world \<Rightarrow> fid \<Rightarrow> char list \<times> world" where
  "c_fread n w p =
     (let got = take n (ahead w p) in (got, set_pos p (pos (streams w p) + length got) w))"

text \<open>Bytes written over the old contents from a position on.\<close>

definition overwrite :: "nat \<Rightarrow> char list \<Rightarrow> char list \<Rightarrow> char list" where
  "overwrite at bs xs = take at xs @ bs @ drop (at + length bs) xs"

definition c_fwrite :: "char list \<Rightarrow> world \<Rightarrow> fid \<Rightarrow> nat \<times> world" where
  "c_fwrite bs w p =
     (if full w then (0, w)
      else let s = streams w p; at = (if append_mode s then length (contents_of w p) else pos s) in
        (length bs,
         set_pos p (at + length bs) w\<lparr>disk := (disk w)(ino s := overwrite at bs (contents_of w p))\<rparr>))"

definition c_putc :: "char \<Rightarrow> world \<Rightarrow> fid \<Rightarrow> world" where
  "c_putc c w p = snd (c_fwrite [c] w p)"

definition c_ftell :: "world \<Rightarrow> fid \<Rightarrow> nat" where
  "c_ftell w p = pos (streams w p)"

definition c_fseek :: "nat \<Rightarrow> world \<Rightarrow> fid \<Rightarrow> world option" where
  "c_fseek n w p = (if seekable (streams w p) then Some (set_pos p n w) else None)"

definition c_fseek_end :: "world \<Rightarrow> fid \<Rightarrow> world option" where
  "c_fseek_end w p = c_fseek (length (contents_of w p)) w p"

definition c_rewind :: "world \<Rightarrow> fid \<Rightarrow> world" where
  "c_rewind w p = (case c_fseek 0 w p of None \<Rightarrow> w | Some w' \<Rightarrow> w')"

definition c_fclose :: "world \<Rightarrow> fid \<Rightarrow> world" where
  "c_fclose w p = w\<lparr>streams := (streams w)(p := (streams w p)\<lparr>is_open := False\<rparr>)\<rparr>"

text \<open>
  The modes the runtime opens files in: read, write from empty, create exclusively, append; the
  argument is the \<^verbatim>\<open>+\<close>, which asks for both directions.
\<close>

datatype open_mode = OpenRead bool | OpenWrite bool | OpenExclusive | OpenAppend bool

fun permitted :: "open_mode \<Rightarrow> string \<Rightarrow> world \<Rightarrow> bool" where
  "permitted (OpenRead both) name w = (may_read w name \<and> (both \<longrightarrow> may_write w name))"
| "permitted (OpenWrite both) name w = (may_write w name \<and> (both \<longrightarrow> may_read w name))"
| "permitted (OpenAppend both) name w = (may_write w name \<and> (both \<longrightarrow> may_read w name))"
| "permitted OpenExclusive name w = False"

fun appends :: "open_mode \<Rightarrow> bool" where
  "appends (OpenAppend _) = True"
| "appends _ = False"

fun truncates :: "open_mode \<Rightarrow> bool" where
  "truncates (OpenWrite _) = True"
| "truncates _ = False"

fun creates :: "open_mode \<Rightarrow> bool" where
  "creates (OpenRead _) = False"
| "creates _ = True"

definition new_stream :: "nat \<Rightarrow> bool \<Rightarrow> world \<Rightarrow> fid \<times> world" where
  "new_stream i app w =
     (next_fid w,
      w\<lparr>streams := (streams w)(next_fid w :=
            \<lparr>ino = i, pos = 0, append_mode = app, seekable = True, is_open = True\<rparr>),
        next_fid := Suc (next_fid w)\<rparr>)"

definition new_file :: "string \<Rightarrow> world \<Rightarrow> nat \<times> world" where
  "new_file name w =
     (next_ino w,
      w\<lparr>names := (names w)(name \<mapsto> next_ino w), disk := (disk w)(next_ino w := []),
        next_ino := Suc (next_ino w)\<rparr>)"

definition c_fopen :: "string \<Rightarrow> open_mode \<Rightarrow> world \<Rightarrow> (fid \<times> world) option" where
  "c_fopen name m w =
     (case names w name of
        Some i \<Rightarrow>
          (if \<not> permitted m name w then None
           else Some (new_stream i (appends m) (if truncates m then w\<lparr>disk := (disk w)(i := [])\<rparr> else w)))
      | None \<Rightarrow>
          (if \<not> creates m \<or> \<not> may_create w name then None
           else let (i, w') = new_file name w in Some (new_stream i (appends m) w')))"

definition c_remove :: "string \<Rightarrow> world \<Rightarrow> world option" where
  "c_remove name w =
     (if names w name \<noteq> None \<and> may_remove w name then Some (w\<lparr>names := (names w)(name := None)\<rparr>)
      else None)"

text \<open>A world in which nothing has been opened and every name is allowed, for examples.\<close>

definition world0 :: world where
  "world0 = \<lparr>streams = (\<lambda>p. \<lparr>ino = p, pos = 0, append_mode = False, seekable = False, is_open = p < 2\<rparr>),
     next_fid = 2, disk = (\<lambda>_. []), next_ino = 2, names = (\<lambda>_. None), may_read = (\<lambda>_. True), may_write = (\<lambda>_. True),
     may_create = (\<lambda>_. True), may_remove = (\<lambda>_. True), full = False, argv = [], clock = 1, tick = 0\<rparr>"

section \<open>How the streams behave\<close>

lemma set_pos_simps [simp]:
  "pos (streams (set_pos p n w) q) = (if q = p then n else pos (streams w q))"
  "ino (streams (set_pos p n w) q) = ino (streams w q)"
  "append_mode (streams (set_pos p n w) q) = append_mode (streams w q)"
  "seekable (streams (set_pos p n w) q) = seekable (streams w q)"
  "is_open (streams (set_pos p n w) q) = is_open (streams w q)"
  "disk (set_pos p n w) = disk w" "names (set_pos p n w) = names w" "full (set_pos p n w) = full w"
  "next_fid (set_pos p n w) = next_fid w" "next_ino (set_pos p n w) = next_ino w"
  "argv (set_pos p n w) = argv w"
  by (simp_all add: set_pos_def)

lemma contents_set_pos [simp]: "contents_of (set_pos p n w) q = contents_of w q"
  by (simp add: contents_of_def)

lemma ahead_set_pos: "ahead (set_pos p n w) q = drop (if q = p then n else pos (streams w q)) (contents_of w q)"
  by (simp add: ahead_def)

lemma set_pos_set_pos [simp]: "set_pos p n (set_pos p m w) = set_pos p n w"
  by (simp add: set_pos_def fun_upd_def cong: if_cong)

lemma getc_ahead:
  "ahead w p = c # cs \<Longrightarrow> \<exists>w'. c_getc w p = (Some c, w') \<and> ahead w' p = cs \<and> w' = set_pos p (Suc (pos (streams w p))) w"
  by (auto simp: c_getc_def ahead_set_pos) (simp add: ahead_def drop_Suc flip: tl_drop)

lemma getc_end: "ahead w p = [] \<Longrightarrow> c_getc w p = (None, w)"
  by (simp add: c_getc_def)

lemma overwrite_end: "overwrite (length xs) bs xs = xs @ bs"
  by (simp add: overwrite_def)

lemma length_overwrite: "at \<le> length xs \<Longrightarrow> length (overwrite at bs xs) = max (length xs) (at + length bs)"
  by (simp add: overwrite_def)

lemma overwrite_overwrite:
  "at \<le> length xs \<Longrightarrow> overwrite (at + length bs) cs (overwrite at bs xs) = overwrite at (bs @ cs) xs"
  by (simp add: overwrite_def ac_simps)

lemma fwrite_contents:
  "\<not> full w \<Longrightarrow> contents_of (snd (c_fwrite bs w p)) p =
     overwrite (if append_mode (streams w p) then length (contents_of w p) else pos (streams w p)) bs (contents_of w p)"
  by (simp add: c_fwrite_def Let_def contents_of_def set_pos_def)

end
