(* ===== verification/Files.thy ===== *)
theory Files
  imports Stdio Errors
begin

text \<open>
  File variables: \<^verbatim>\<open>struct pas_file\<close> of \<^verbatim>\<open>pasrt.c\<close>, its opening, closing and positioning, the
  buffer variable and the primitives \<^verbatim>\<open>get\<close>, \<^verbatim>\<open>put\<close>, \<^verbatim>\<open>eof\<close> and \<^verbatim>\<open>eoln\<close> on it.

  An operation is a function of the world of streams and the file variable, and it answers
  both updated or the trap it raises.  What a string transfer keeps beside its file
  (\<^verbatim>\<open>struct pas_str_file\<close>, a file with no stream) is the last two fields of the record.
\<close>

datatype file_mode = PAS_CLOSED | PAS_READING | PAS_WRITING | PAS_UPDATING

datatype file_binding = PAS_BIND_INTERNAL | PAS_BIND_INPUT | PAS_BIND_OUTPUT | PAS_BIND_ARG

text \<open>
  \<open>lookahead\<close> is the raw character or \<^term>\<open>None\<close> for \<^verbatim>\<open>EOF\<close>; \<open>pushback\<close> is the array of that
  name up to \<^verbatim>\<open>npush\<close>, its top first; \<open>buf\<close> is the allocated buffer variable, which a text
  does not have; \<open>m_buf\<close> and \<open>m_at\<close> are the memory of a string transfer.
\<close>

record pas_file =
  fp :: "fid option"
  mode :: file_mode
  binding :: file_binding
  arg :: int
  lookahead :: "char option"
  has :: bool
  istext :: bool
  direct :: bool
  capacity :: int
  bound_name :: "string option"
  compsize :: nat
  ateof :: bool
  ch :: char
  pushback :: "char list"
  atbol :: bool
  buf :: "char list option"
  fname :: "string option"
  prev_open :: "nat option"
  next_open :: "nat option"
  m_buf :: "char list"
  m_at :: nat

abbreviation newline :: char where "newline \<equiv> CHR 0x0A"
abbreviation blank :: char where "blank \<equiv> CHR 0x20"
abbreviation htab :: char where "htab \<equiv> CHR 0x09"

definition c_int :: "int \<Rightarrow> int" where
  "c_int x = (x + 2 ^ 31) mod 2 ^ 32 - 2 ^ 31"

definition ismem :: "pas_file \<Rightarrow> bool" where
  "ismem f = (fp f = None)"

definition the_fp :: "pas_file \<Rightarrow> fid" where
  "the_fp f = (case fp f of None \<Rightarrow> c_stdin | Some p \<Rightarrow> p)"

section \<open>Checks and direct access\<close>

definition pas_check_open :: "pas_file \<Rightarrow> file_mode \<Rightarrow> string \<Rightarrow> unit res" where
  "pas_check_open f m op =
     (if mode f \<noteq> m \<and> mode f \<noteq> PAS_UPDATING
      then Inl (pas_error2 op (if mode f = PAS_CLOSED then '' a file that is not open''
                               else '' a file open in the other mode''))
      else Inr ())"

definition pas_check_direct :: "pas_file \<Rightarrow> string \<Rightarrow> unit res" where
  "pas_check_direct f op =
     (if fp f = None \<or> mode f = PAS_CLOSED then Inl (pas_error2 op '' a file that is not open'')
      else Inr ())"

definition pas_length :: "world \<Rightarrow> pas_file \<Rightarrow> (nat \<times> world) res" where
  "pas_length w f =
     (let p = the_fp f; here = c_ftell w p in
      case c_fseek_end w p of
        None \<Rightarrow> Inl (Trap ''cannot measure the file'')
      | Some w1 \<Rightarrow>
          (let last = c_ftell w1 p in
           case c_fseek here w1 p of
             None \<Rightarrow> Inl (Trap ''cannot measure the file'')
           | Some w2 \<Rightarrow> Inr (last div compsize f, w2)))"

definition pas_seek :: "world \<Rightarrow> pas_file \<Rightarrow> int \<Rightarrow> file_mode \<Rightarrow> string \<Rightarrow> (world \<times> pas_file) res" where
  "pas_seek w f n m op =
     rbind (pas_check_direct f op) (\<lambda>_.
       if n < 0 then Inl (pas_error2 op '' a position before the start of the file'')
       else rbind (pas_length w f) (\<lambda>(len, w1).
         if n > int len then Inl (pas_error2 op '' a position past the end of the file'')
         else (case c_fseek (nat n * compsize f) w1 (the_fp f) of
                 None \<Rightarrow> Inl (pas_error2 op '' a position the operating system refused'')
               | Some w2 \<Rightarrow> Inr (w2, f\<lparr>has := False, ateof := False, pushback := [], mode := m\<rparr>))))"

definition pas_seekread :: "world \<Rightarrow> pas_file \<Rightarrow> int \<Rightarrow> (world \<times> pas_file) res" where
  "pas_seekread w f n = pas_seek w f n PAS_READING ''seeking to''"

definition pas_seekwrite :: "world \<Rightarrow> pas_file \<Rightarrow> int \<Rightarrow> (world \<times> pas_file) res" where
  "pas_seekwrite w f n = pas_seek w f n PAS_WRITING ''seeking to''"

definition pas_seekupdate :: "world \<Rightarrow> pas_file \<Rightarrow> int \<Rightarrow> (world \<times> pas_file) res" where
  "pas_seekupdate w f n = pas_seek w f n PAS_UPDATING ''seeking to''"

definition pas_position :: "world \<Rightarrow> pas_file \<Rightarrow> int res" where
  "pas_position w f =
     rbind (pas_check_direct f ''asking the position of'') (\<lambda>_.
       let at = int (c_ftell w (the_fp f) div compsize f) in
       Inr (c_int (if has f \<and> mode f \<noteq> PAS_WRITING then at - 1 else at)))"

definition pas_lastposition :: "world \<Rightarrow> pas_file \<Rightarrow> (int \<times> world) res" where
  "pas_lastposition w f =
     rbind (pas_check_direct f ''asking the last position of'') (\<lambda>_.
     rbind (pas_length w f) (\<lambda>(len, w1).
       if len = 0 then Inl (Trap ''lastposition of an empty file'')
       else Inr (c_int (int len - 1), w1)))"

definition pas_empty :: "world \<Rightarrow> pas_file \<Rightarrow> (bool \<times> world) res" where
  "pas_empty w f =
     rbind (pas_check_direct f ''asking whether it is empty'') (\<lambda>_.
     rbind (pas_length w f) (\<lambda>(len, w1). Inr (len = 0, w1)))"

text \<open>A seek to a computed offset: the C library refuses a negative one.\<close>

definition seek_to :: "int \<Rightarrow> world \<Rightarrow> fid \<Rightarrow> world option" where
  "seek_to at w p = (if at < 0 then None else c_fseek (nat at) w p)"

text \<open>The bytes of the buffer variable.\<close>

definition component :: "pas_file \<Rightarrow> char list" where
  "component f = (case buf f of None \<Rightarrow> [ch f] | Some b \<Rightarrow> b)"

definition pas_update :: "world \<Rightarrow> pas_file \<Rightarrow> (world \<times> pas_file) res" where
  "pas_update w f =
     rbind (pas_check_direct f ''updating'') (\<lambda>_.
       if mode f \<noteq> PAS_UPDATING \<and> mode f \<noteq> PAS_WRITING
       then Inl (Trap ''update needs a file opened with SeekUpdate'')
       else
         (let p = the_fp f; n = compsize f;
              at0 = int (c_ftell w p div n); at = (if has f then at0 - 1 else at0) in
          case seek_to (at * int n) w p of
            None \<Rightarrow> Inl (Trap ''cannot position the file to update it'')
          | Some w1 \<Rightarrow>
              (let (k, w2) = c_fwrite (take n (component f)) w1 p in
               if k \<noteq> n then Inl (Trap ''cannot write to the file'')
               else (case seek_to (at * int n) w2 p of
                       None \<Rightarrow> Inl (Trap ''cannot position the file after updating it'')
                     | Some w3 \<Rightarrow> Inr (w3, f\<lparr>has := False\<rparr>)))))"

section \<open>Opening and closing\<close>

definition pas_external :: "world \<Rightarrow> pas_file \<Rightarrow> string res" where
  "pas_external w f =
     (case bound_name f of
        Some n \<Rightarrow> Inr n
      | None \<Rightarrow>
          (if arg f \<ge> int (length (argv w))
           then Inl (Trap (take 127 (''the program parameter '' @ [CHR 0x27] @
                       (case fname f of None \<Rightarrow> ''?'' | Some n \<Rightarrow> n) @ [CHR 0x27] @
                       '' needs a file name as argument '' @ dec_int (arg f))))
           else Inr (argv w ! nat (arg f))))"

text \<open>
  The buffer of a \<^verbatim>\<open>file of T\<close> is allocated (\<open>mem\<close> is whether the allocator has room) and the
  standard files are open from the start.  Linking the file into the list of open files is
  the caller's, with the other files in hand.
\<close>

definition pas_file_init ::
  "bool \<Rightarrow> file_binding \<Rightarrow> int \<Rightarrow> string option \<Rightarrow> int \<Rightarrow> bool \<Rightarrow> bool \<Rightarrow> int \<Rightarrow> pas_file res" where
  "pas_file_init mem b a nm csize txt dir cap =
     (let n = (if csize > 0 then nat csize else 1) in
      if \<not> txt \<and> \<not> mem then Inl (Trap ''out of memory for a file buffer variable'')
      else Inr
        \<lparr>fp = (if b = PAS_BIND_INPUT then Some c_stdin
               else if b = PAS_BIND_OUTPUT then Some c_stdout else None),
         mode = (if b = PAS_BIND_INPUT then PAS_READING
                 else if b = PAS_BIND_OUTPUT then PAS_WRITING else PAS_CLOSED),
         binding = b, arg = a, lookahead = None, has = False, istext = txt, direct = dir,
         capacity = cap, bound_name = None, compsize = n, ateof = False, ch = blank,
         pushback = [], atbol = True,
         buf = (if txt then None else Some (replicate n (CHR 0x00))),
         fname = nm, prev_open = None, next_open = None, m_buf = [], m_at = 0\<rparr>)"

text \<open>What \<^verbatim>\<open>pas_file_done\<close> does once the file is off the list of open files.\<close>

definition pas_file_close :: "world \<Rightarrow> pas_file \<Rightarrow> world \<times> pas_file" where
  "pas_file_close w f =
     (let f = f\<lparr>bound_name := None\<rparr> in
      if fp f \<noteq> None \<and> (binding f = PAS_BIND_INPUT \<or> binding f = PAS_BIND_OUTPUT) then (w, f)
      else
        (let (w, f) = (case fp f of
                         None \<Rightarrow> (w, f)
                       | Some p \<Rightarrow> (c_fclose w p, f\<lparr>fp := None, mode := PAS_CLOSED\<rparr>)) in
         (w, f\<lparr>buf := None\<rparr>)))"

subsection \<open>An auxiliary file\<close>

definition PAS_TMP_TRIES :: nat where
  "PAS_TMP_TRIES = 32"

definition pas_temp_tick :: "world \<Rightarrow> nat \<times> world" where
  "pas_temp_tick w =
     (let next = (if tick w = 0 then clock w else tick w) in
      (next, w\<lparr>tick := (next + 1) mod 2 ^ 64\<rparr>))"

definition hex_digit :: "nat \<Rightarrow> char" where
  "hex_digit d = char_of (if d < 10 then 48 + d else 87 + d)"

fun hex_pad :: "nat \<Rightarrow> nat \<Rightarrow> string" where
  "hex_pad 0 n = []"
| "hex_pad (Suc k) n = hex_pad k (n div 16) @ [hex_digit (n mod 16)]"

text \<open>One directory: up to \<open>k\<close> names are tried, the first that can be created is removed again.\<close>

fun pas_tmp_dir :: "nat \<Rightarrow> string \<Rightarrow> world \<Rightarrow> fid option \<times> world" where
  "pas_tmp_dir 0 d w = (None, w)"
| "pas_tmp_dir (Suc k) d w =
     (let (n, w) = pas_temp_tick w;
          name = d @ ''/pas-aux-'' @ hex_pad 8 (n mod 2 ^ 32) in
      case c_fopen name OpenExclusive w of
        None \<Rightarrow> pas_tmp_dir k d w
      | Some (p, w) \<Rightarrow>
          (case c_remove name w of
             Some w \<Rightarrow> (Some p, w)
           | None \<Rightarrow> (None, c_fclose w p)))"

definition pas_tmpfile :: "world \<Rightarrow> fid option \<times> world" where
  "pas_tmpfile w =
     (case pas_tmp_dir PAS_TMP_TRIES ''/tmp'' w of
        (Some p, w) \<Rightarrow> (Some p, w)
      | (None, w) \<Rightarrow> pas_tmp_dir PAS_TMP_TRIES ''.'' w)"

subsection \<open>The three ways to open\<close>

definition close_if_open :: "world \<Rightarrow> pas_file \<Rightarrow> world" where
  "close_if_open w f = (case fp f of None \<Rightarrow> w | Some p \<Rightarrow> c_fclose w p)"

text \<open>A file found by its external name, opened anew.\<close>

definition reopen :: "open_mode \<Rightarrow> string \<Rightarrow> world \<Rightarrow> pas_file \<Rightarrow> (world \<times> pas_file) res" where
  "reopen m what w f =
     rbind (pas_external w f) (\<lambda>name.
       case c_fopen name m (close_if_open w f) of
         None \<Rightarrow> Inl (pas_error2 what name)
       | Some (p, w) \<Rightarrow> Inr (w, f\<lparr>fp := Some p\<rparr>))"

definition fresh_aux :: "world \<Rightarrow> pas_file \<Rightarrow> (world \<times> pas_file) res" where
  "fresh_aux w f =
     (case pas_tmpfile w of
        (None, _) \<Rightarrow> Inl (Trap ''cannot create a temporary file'')
      | (Some p, w) \<Rightarrow> Inr (w, f\<lparr>fp := Some p\<rparr>))"

definition pas_reset :: "world \<Rightarrow> pas_file \<Rightarrow> (world \<times> pas_file) res" where
  "pas_reset w f =
     (if binding f = PAS_BIND_INPUT then Inr (w, f\<lparr>fp := Some c_stdin, mode := PAS_READING\<rparr>)
      else
        (let f = f\<lparr>has := False, lookahead := None, ateof := False, ch := blank, atbol := True,
                   pushback := []\<rparr> in
         rbind
           (case binding f of
              PAS_BIND_OUTPUT \<Rightarrow> Inl (Trap ''reset applied to the standard output'')
            | PAS_BIND_ARG \<Rightarrow> reopen (OpenRead (direct f)) ''cannot open for reading: '' w f
            | _ \<Rightarrow> (case fp f of
                      None \<Rightarrow> fresh_aux w f
                    | Some p \<Rightarrow> Inr (c_rewind w p, f)))
           (\<lambda>(w, f). Inr (w, f\<lparr>mode := PAS_READING\<rparr>))))"

definition pas_rewrite :: "world \<Rightarrow> pas_file \<Rightarrow> (world \<times> pas_file) res" where
  "pas_rewrite w f =
     (let f = f\<lparr>has := False, lookahead := None, ateof := False, ch := blank, pushback := []\<rparr> in
      rbind
        (case binding f of
           PAS_BIND_INPUT \<Rightarrow> Inl (Trap ''rewrite applied to the standard input'')
         | PAS_BIND_OUTPUT \<Rightarrow> Inr (w, f\<lparr>fp := Some c_stdout\<rparr>)
         | PAS_BIND_ARG \<Rightarrow>
             rbind (reopen (OpenWrite (direct f)) ''cannot open for writing: '' w f)
               (\<lambda>(w, f). Inr (w, f\<lparr>atbol := True\<rparr>))
         | PAS_BIND_INTERNAL \<Rightarrow>
             rbind (fresh_aux (close_if_open w f) f) (\<lambda>(w, f). Inr (w, f\<lparr>atbol := True\<rparr>)))
        (\<lambda>(w, f). Inr (w, f\<lparr>mode := PAS_WRITING\<rparr>)))"

definition pas_extend :: "world \<Rightarrow> pas_file \<Rightarrow> (world \<times> pas_file) res" where
  "pas_extend w f =
     (let f = f\<lparr>has := False, lookahead := None, ateof := False, ch := blank, pushback := []\<rparr> in
      rbind
        (case binding f of
           PAS_BIND_INPUT \<Rightarrow> Inl (Trap ''extend applied to the standard input'')
         | PAS_BIND_OUTPUT \<Rightarrow> Inr (w, f\<lparr>fp := Some c_stdout\<rparr>)
         | PAS_BIND_ARG \<Rightarrow> reopen (OpenAppend (direct f)) ''cannot open for appending: '' w f
         | PAS_BIND_INTERNAL \<Rightarrow>
             (case fp f of
                None \<Rightarrow> fresh_aux w f
              | Some p \<Rightarrow>
                  (case c_fseek_end w p of
                     None \<Rightarrow> Inl (Trap ''cannot position the file to extend it'')
                   | Some w \<Rightarrow> Inr (w, f))))
        (\<lambda>(w, f). Inr (w, f\<lparr>mode := PAS_WRITING\<rparr>)))"

section \<open>The buffer variable\<close>

text \<open>The next character of a text: of a string transfer from its memory, else from the stream.\<close>

definition next_char :: "world \<Rightarrow> pas_file \<Rightarrow> char option \<times> world \<times> pas_file" where
  "next_char w f =
     (if ismem f
      then (if m_at f < length (m_buf f) then (Some (m_buf f ! m_at f), w, f\<lparr>m_at := Suc (m_at f)\<rparr>)
            else (None, w, f))
      else let (c, w) = c_getc w (the_fp f) in (c, w, f))"

definition deliver :: "char option \<Rightarrow> pas_file \<Rightarrow> pas_file" where
  "deliver c f =
     (let la = (if c = None \<and> \<not> atbol f then Some newline else c) in
      f\<lparr>lookahead := la, atbol := (if la = None then atbol f else la = Some newline),
        has := True, ateof := (la = None),
        ch := (case la of None \<Rightarrow> blank | Some c \<Rightarrow> if c = newline then blank else c)\<rparr>)"

definition pas_fill :: "world \<Rightarrow> pas_file \<Rightarrow> (world \<times> pas_file) res" where
  "pas_fill w f =
     (if has f then Inr (w, f)
      else rbind (pas_check_open f PAS_READING ''reading from'') (\<lambda>_.
        if \<not> istext f
        then (let (got, w) = c_fread (compsize f) w (the_fp f) in
              Inr (w, f\<lparr>buf := map_option (\<lambda>b. got @ drop (length got) b) (buf f),
                        ateof := (length got \<noteq> compsize f), has := True\<rparr>))
        else
          (case pushback f of
             c # cs \<Rightarrow>
               Inr (w, f\<lparr>pushback := cs, lookahead := Some c, has := True, ateof := False, ch := c\<rparr>)
           | [] \<Rightarrow> (let (c, w, f) = next_char w f in Inr (w, deliver c f)))))"

definition pas_eof :: "world \<Rightarrow> pas_file \<Rightarrow> (bool \<times> world \<times> pas_file) res" where
  "pas_eof w f =
     (if mode f = PAS_WRITING then Inr (True, w, f)
      else rbind (pas_fill w f) (\<lambda>(w, f). Inr (ateof f, w, f)))"

definition pas_eoln :: "world \<Rightarrow> pas_file \<Rightarrow> (bool \<times> world \<times> pas_file) res" where
  "pas_eoln w f =
     rbind (pas_fill w f) (\<lambda>(w, f).
       if lookahead f = None then Inl (Trap ''eoln at the end of the file'')
       else Inr (lookahead f = Some newline, w, f))"

definition pas_buffer :: "world \<Rightarrow> pas_file \<Rightarrow> (char list \<times> world \<times> pas_file) res" where
  "pas_buffer w f =
     (if mode f = PAS_READING \<or> mode f = PAS_UPDATING
      then rbind (pas_fill w f) (\<lambda>(w, f).
             if ateof f then Inl (Trap ''the buffer variable is undefined at end of file'')
             else Inr (component f, w, f))
      else rbind (pas_check_open f PAS_WRITING ''using the buffer variable of'')
             (\<lambda>_. Inr (component f, w, f)))"

definition pas_get :: "world \<Rightarrow> pas_file \<Rightarrow> (world \<times> pas_file) res" where
  "pas_get w f =
     rbind (pas_fill w f) (\<lambda>(w, f).
       if ateof f then Inl (Trap ''get past the end of the file'')
       else Inr (w, f\<lparr>has := False\<rparr>))"

definition capacity_trap :: "int \<Rightarrow> trap" where
  "capacity_trap n = Trap (''this file holds at most '' @ dec_int n @ '' components'')"

definition pas_put :: "world \<Rightarrow> pas_file \<Rightarrow> (world \<times> pas_file) res" where
  "pas_put w f =
     rbind (pas_check_open f PAS_WRITING ''writing to'') (\<lambda>_.
     rbind
       (if direct f \<and> has f
        then (let p = the_fp f; n = compsize f; at = int (c_ftell w p div n) - 1 in
              case seek_to (at * int n) w p of
                None \<Rightarrow> Inl (Trap ''cannot position the file to write to it'')
              | Some w \<Rightarrow> Inr (w, f\<lparr>has := False\<rparr>))
        else Inr (w, f)) (\<lambda>(w, f).
     if capacity f > 0 \<and> int (c_ftell w (the_fp f) div compsize f) \<ge> capacity f
     then Inl (capacity_trap (capacity f))
     else if istext f then Inr (c_putc (ch f) w (the_fp f), f)
     else (let (k, w) = c_fwrite (take (compsize f) (component f)) w (the_fp f) in
           if k \<noteq> compsize f then Inl (Trap ''cannot write to the file'') else Inr (w, f))))"

definition pas_read_char :: "world \<Rightarrow> pas_file \<Rightarrow> (char \<times> world \<times> pas_file) res" where
  "pas_read_char w f =
     rbind (pas_buffer w f) (\<lambda>(b, w, f). rbind (pas_get w f) (\<lambda>(w, f). Inr (hd b, w, f)))"

end
