(* ===== verification/ReadText.thy ===== *)
theory ReadText
  imports Files
begin

text \<open>
  Reading a text: the derived operations of \<^verbatim>\<open>pasrt.c\<close> on the buffer variable (\<^verbatim>\<open>readln\<close>, blanks,
  integers, reals, strings) and the string transfers.

  What a text still holds is the list \<open>rest\<close>: the lookahead, the characters given back, and
  what its source has not delivered, ended by the end-of-line the standard appends.  A source
  is a stream or the memory of a string transfer; the locale \<open>char_source\<close> is what the
  reading code needs of either, and the facts about the reading code are proved in it once.

  A loop of the source that reads until some character arrives carries fuel; it is as many
  steps as there are characters left, which the lemmas show is enough.
\<close>

section \<open>What a text still holds\<close>

definition first :: "'a list \<Rightarrow> 'a option" where
  "first xs = (case xs of [] \<Rightarrow> None | x # _ \<Rightarrow> Some x)"

definition complete :: "bool \<Rightarrow> string \<Rightarrow> string" where
  "complete bol xs =
     (if xs = [] then (if bol then [] else [newline])
      else if last xs = newline then xs else xs @ [newline])"

definition source :: "world \<Rightarrow> pas_file \<Rightarrow> string" where
  "source w f = (if ismem f then drop (m_at f) (m_buf f) else ahead w (the_fp f))"

definition seen :: "pas_file \<Rightarrow> string" where
  "seen f = (if has f then (case lookahead f of None \<Rightarrow> [] | Some c \<Rightarrow> [c]) else []) @ pushback f"

text \<open>The rest of a text over a source, and a text in a state the reading operations leave it in.\<close>

definition rest_of :: "(world \<Rightarrow> pas_file \<Rightarrow> string) \<Rightarrow> world \<Rightarrow> pas_file \<Rightarrow> string" where
  "rest_of src w f = seen f @ complete (atbol f) (src w f)"

definition reading_of :: "(world \<Rightarrow> pas_file \<Rightarrow> string) \<Rightarrow> world \<Rightarrow> pas_file \<Rightarrow> bool" where
  "reading_of src w f \<longleftrightarrow> istext f \<and> buf f = None \<and> mode f \<in> {PAS_READING, PAS_UPDATING} \<and>
     (has f \<longrightarrow> ateof f = (lookahead f = None) \<and>
       (case lookahead f of
          None \<Rightarrow> pushback f = [] \<and> src w f = [] \<and> atbol f
        | Some c \<Rightarrow> c \<noteq> newline \<longrightarrow> ch f = c))"

abbreviation rest :: "world \<Rightarrow> pas_file \<Rightarrow> string" where
  "rest \<equiv> rest_of source"

abbreviation reading :: "world \<Rightarrow> pas_file \<Rightarrow> bool" where
  "reading \<equiv> reading_of source"

definition fuel :: "world \<Rightarrow> pas_file \<Rightarrow> nat" where
  "fuel w f = Suc (length (rest w f))"

section \<open>The operations\<close>

definition advance :: "world \<Rightarrow> pas_file \<Rightarrow> (world \<times> pas_file) res" where
  "advance w f = pas_fill w (f\<lparr>has := False\<rparr>)"

text \<open>The loop of \<^verbatim>\<open>pas_readln\<close> is entered with the lookahead in place.\<close>

fun readln_loop :: "nat \<Rightarrow> world \<Rightarrow> pas_file \<Rightarrow> (world \<times> pas_file) res" where
  "readln_loop 0 w f = Inl Diverges"
| "readln_loop (Suc k) w f =
     (if lookahead f = Some newline then Inr (w, f\<lparr>has := False\<rparr>)
      else rbind (advance w f) (\<lambda>(w, f).
        if lookahead f = None then Inr (w, f) else readln_loop k w f))"

definition pas_readln :: "world \<Rightarrow> pas_file \<Rightarrow> (world \<times> pas_file) res" where
  "pas_readln w f =
     rbind (pas_fill w f) (\<lambda>(w, f).
       if lookahead f = None then Inl (Trap ''readln past the end of the file'')
       else readln_loop (fuel w f) w f)"

definition is_blank :: "char \<Rightarrow> bool" where
  "is_blank c = (c = blank \<or> c = newline \<or> c = htab)"

fun skip_loop :: "nat \<Rightarrow> world \<Rightarrow> pas_file \<Rightarrow> (world \<times> pas_file) res" where
  "skip_loop 0 w f = Inl Diverges"
| "skip_loop (Suc k) w f =
     rbind (pas_fill w f) (\<lambda>(w, f).
       case lookahead f of
         None \<Rightarrow> Inr (w, f)
       | Some c \<Rightarrow> if is_blank c then skip_loop k w (f\<lparr>has := False\<rparr>) else Inr (w, f))"

definition pas_skip_blanks :: "world \<Rightarrow> pas_file \<Rightarrow> (world \<times> pas_file) res" where
  "pas_skip_blanks w f = skip_loop (fuel w f) w f"

definition pas_unread :: "char \<Rightarrow> pas_file \<Rightarrow> pas_file" where
  "pas_unread c f =
     f\<lparr>pushback := (case lookahead f of
                      Some d \<Rightarrow> if has f then d # pushback f else pushback f
                    | None \<Rightarrow> pushback f),
       lookahead := Some c, has := True, ateof := False, ch := c\<rparr>"

definition at_sign :: "pas_file \<Rightarrow> bool" where
  "at_sign f = (lookahead f = Some (CHR ''+'') \<or> lookahead f = Some (CHR ''-''))"

definition at_digit :: "pas_file \<Rightarrow> bool" where
  "at_digit f = (case lookahead f of None \<Rightarrow> False | Some c \<Rightarrow> is_digit c)"

definition la :: "pas_file \<Rightarrow> char" where
  "la f = (case lookahead f of None \<Rightarrow> CHR 0xFF | Some c \<Rightarrow> c)"

fun int_loop :: "nat \<Rightarrow> int \<Rightarrow> string \<Rightarrow> int \<Rightarrow> nat \<Rightarrow> world \<Rightarrow> pas_file \<Rightarrow> (int \<times> nat \<times> world \<times> pas_file) res" where
  "int_loop 0 limit what v n w f = Inl Diverges"
| "int_loop (Suc k) limit what v n w f =
     (if at_digit f
      then let d = int (digit_value (la f)) in
        if v > limit div 10 \<or> (v = limit div 10 \<and> d > limit mod 10) then Inl (Trap what)
        else rbind (advance w f) (\<lambda>(w, f). int_loop k limit what (v * 10 + d) (n + 1) w f)
      else Inr (v, n, w, f))"

definition int_limit :: "bool \<Rightarrow> int" where
  "int_limit wide = (if wide then 9223372036854775807 else 2147483647)"

definition int_what :: "bool \<Rightarrow> string" where
  "int_what wide = (if wide then ''int64 read is outside -maxint64..maxint64''
                    else ''integer read is outside -maxint..maxint'')"

definition pas_read_int_at :: "bool \<Rightarrow> world \<Rightarrow> pas_file \<Rightarrow> (int \<times> world \<times> pas_file) res" where
  "pas_read_int_at wide w f =
     rbind (pas_skip_blanks w f) (\<lambda>(w, f).
       let neg = (lookahead f = Some (CHR ''-'')) in
       rbind (if at_sign f then advance w f else Inr (w, f)) (\<lambda>(w, f).
       rbind (int_loop (fuel w f) (int_limit wide) (int_what wide) 0 0 w f) (\<lambda>(v, n, w, f).
         if n = 0 then Inl (Trap ''expected an integer in the input'')
         else Inr (if neg then - v else v, w, f))))"

definition pas_read_int :: "world \<Rightarrow> pas_file \<Rightarrow> (int \<times> world \<times> pas_file) res" where
  "pas_read_int w f = pas_read_int_at False w f"

definition pas_read_int64 :: "world \<Rightarrow> pas_file \<Rightarrow> (int \<times> world \<times> pas_file) res" where
  "pas_read_int64 w f = pas_read_int_at True w f"

subsection \<open>Reals\<close>

text \<open>The buffer of a number: its characters and the room they have; \<open>mem n\<close> is whether the allocator gives \<open>n\<close> bytes.\<close>

record pas_numbuf =
  nchars :: string
  ncap :: nat

definition pas_numbuf_init :: pas_numbuf where
  "pas_numbuf_init = \<lparr>nchars = [], ncap = 64\<rparr>"

definition pas_numbuf_put :: "(nat \<Rightarrow> bool) \<Rightarrow> char \<Rightarrow> pas_numbuf \<Rightarrow> pas_numbuf res" where
  "pas_numbuf_put mem c b =
     (if length (nchars b) + 1 \<ge> ncap b
      then (if mem (ncap b * 2) then Inr \<lparr>nchars = nchars b @ [c], ncap = ncap b * 2\<rparr>
            else Inl (Trap ''out of memory reading a number''))
      else Inr (b\<lparr>nchars := nchars b @ [c]\<rparr>))"

text \<open>The statements that put the lookahead into the buffer and fetch the next one.\<close>

definition take_la :: "(nat \<Rightarrow> bool) \<Rightarrow> pas_numbuf \<Rightarrow> world \<Rightarrow> pas_file \<Rightarrow> (pas_numbuf \<times> world \<times> pas_file) res" where
  "take_la mem b w f =
     rbind (pas_numbuf_put mem (la f) b) (\<lambda>b. rbind (advance w f) (\<lambda>(w, f). Inr (b, w, f)))"

fun real_digits :: "nat \<Rightarrow> (nat \<Rightarrow> bool) \<Rightarrow> pas_numbuf \<Rightarrow> nat \<Rightarrow> world \<Rightarrow> pas_file \<Rightarrow>
    (pas_numbuf \<times> nat \<times> world \<times> pas_file) res" where
  "real_digits 0 mem b n w f = Inl Diverges"
| "real_digits (Suc k) mem b n w f =
     (if at_digit f
      then rbind (take_la mem b w f) (\<lambda>(b, w, f). real_digits k mem b (n + 1) w f)
      else Inr (b, n, w, f))"

definition real_sign :: "(nat \<Rightarrow> bool) \<Rightarrow> pas_numbuf \<Rightarrow> world \<Rightarrow> pas_file \<Rightarrow> (pas_numbuf \<times> world \<times> pas_file) res" where
  "real_sign mem b w f = (if at_sign f then take_la mem b w f else Inr (b, w, f))"

definition real_point :: "(nat \<Rightarrow> bool) \<Rightarrow> pas_numbuf \<Rightarrow> nat \<Rightarrow> world \<Rightarrow> pas_file \<Rightarrow>
    (pas_numbuf \<times> nat \<times> world \<times> pas_file) res" where
  "real_point mem b n w f =
     (if lookahead f = Some (CHR ''.'') \<and> n > 0
      then rbind (advance w f) (\<lambda>(w, f).
             if at_digit f
             then rbind (pas_numbuf_put mem (CHR ''.'') b) (\<lambda>b. real_digits (fuel w f) mem b n w f)
             else Inr (b, n, w, pas_unread (CHR ''.'') f))
      else Inr (b, n, w, f))"

definition real_scale :: "(nat \<Rightarrow> bool) \<Rightarrow> pas_numbuf \<Rightarrow> nat \<Rightarrow> world \<Rightarrow> pas_file \<Rightarrow>
    (pas_numbuf \<times> world \<times> pas_file) res" where
  "real_scale mem b n w f =
     (if (lookahead f = Some (CHR ''e'') \<or> lookahead f = Some (CHR ''E'')) \<and> n > 0
      then let e = la f in
        rbind (advance w f) (\<lambda>(w, f).
          let sg = (if at_sign f then Some (la f) else None) in
          rbind (if at_sign f then advance w f else Inr (w, f)) (\<lambda>(w, f).
            if at_digit f
            then rbind (pas_numbuf_put mem (CHR ''e'') b) (\<lambda>b.
                 rbind (case sg of None \<Rightarrow> Inr b | Some s \<Rightarrow> pas_numbuf_put mem s b) (\<lambda>b.
                 rbind (real_digits (fuel w f) mem b 0 w f) (\<lambda>(b, _, w, f). Inr (b, w, f))))
            else Inr (b, w, pas_unread e (case sg of None \<Rightarrow> f | Some s \<Rightarrow> pas_unread s f))))
      else Inr (b, w, f))"

text \<open>\<^verbatim>\<open>strtod\<close>, which rounds the numeral to a \<^verbatim>\<open>double\<close>, is an argument.\<close>

definition pas_read_real :: "(nat \<Rightarrow> bool) \<Rightarrow> (string \<Rightarrow> 'r) \<Rightarrow> world \<Rightarrow> pas_file \<Rightarrow> ('r \<times> world \<times> pas_file) res" where
  "pas_read_real mem strtod w f =
     rbind (pas_skip_blanks w f) (\<lambda>(w, f).
     rbind (real_sign mem pas_numbuf_init w f) (\<lambda>(b, w, f).
     rbind (real_digits (fuel w f) mem b 0 w f) (\<lambda>(b, n, w, f).
     rbind (real_point mem b n w f) (\<lambda>(b, n, w, f).
     rbind (real_scale mem b n w f) (\<lambda>(b, w, f).
       if n = 0 then Inl (Trap ''expected a number in the input'')
       else Inr (strtod (nchars b), w, f))))))"

subsection \<open>Strings\<close>

fun str_loop :: "nat \<Rightarrow> string \<Rightarrow> world \<Rightarrow> pas_file \<Rightarrow> (string \<times> world \<times> pas_file) res" where
  "str_loop 0 out w f = Inr (out, w, f)"
| "str_loop (Suc room) out w f =
     rbind (pas_fill w f) (\<lambda>(w, f).
       if ateof f \<or> lookahead f = Some newline then Inr (out, w, f)
       else str_loop room (out @ [ch f]) w (f\<lparr>has := False\<rparr>))"

text \<open>A variable string gets what was read, a fixed one is padded with spaces.\<close>

definition pas_read_str :: "nat \<Rightarrow> bool \<Rightarrow> world \<Rightarrow> pas_file \<Rightarrow> (string \<times> world \<times> pas_file) res" where
  "pas_read_str cap isvar w f =
     rbind (pas_fill w f) (\<lambda>(w, f).
       if ateof f then Inl (Trap ''the buffer variable is undefined at end of file'')
       else rbind (str_loop cap [] w f) (\<lambda>(out, w, f).
         Inr (if isvar then out else out @ replicate (cap - length out) blank, w, f)))"

definition pas_str_file :: "file_mode \<Rightarrow> string \<Rightarrow> pas_file" where
  "pas_str_file m bytes =
     \<lparr>fp = None, mode = m, binding = PAS_BIND_INTERNAL, arg = 0, lookahead = None, has = False,
      istext = True, direct = False, capacity = 0, bound_name = None, compsize = 1, ateof = False,
      ch = blank, pushback = [], atbol = False, buf = None, fname = Some ''a string'',
      prev_open = None, next_open = None, m_buf = bytes, m_at = 0\<rparr>"

definition pas_str_read_begin :: "string \<Rightarrow> pas_file" where
  "pas_str_read_begin chars = pas_str_file PAS_READING (chars @ [newline])"

definition pas_str_read_end :: "world \<Rightarrow> pas_file \<Rightarrow> unit res" where
  "pas_str_read_end w f =
     rbind (pas_eof w f) (\<lambda>(e, _).
       if e then Inl (Trap ''readstr: the string ended before every value was read'') else Inr ())"

section \<open>The value of a numeral\<close>

definition horner :: "int \<Rightarrow> string \<Rightarrow> int" where
  "horner v ds = foldl (\<lambda>a c. a * 10 + int (digit_value c)) v ds"

lemma horner_Cons: "horner v (c # cs) = horner (v * 10 + int (digit_value c)) cs"
  by (simp add: horner_def)

lemma horner_mono: "0 \<le> v \<Longrightarrow> v \<le> horner v ds"
proof (induction ds arbitrary: v)
  case (Cons c cs)
  have "v * 10 + int (digit_value c) \<le> horner v (c # cs)"
    using Cons.IH [of "v * 10 + int (digit_value c)"] Cons.prems by (simp add: horner_Cons)
  with Cons.prems show ?case by linarith
qed (simp add: horner_def)

lemma horner_dec_value: "horner 0 ds = int (dec_value ds)"
proof -
  have "horner (int a) ds = int (foldl (\<lambda>a c. a * 10 + digit_value c) a ds)" for a
  proof (induction ds arbitrary: a)
    case (Cons c cs)
    show ?case using Cons.IH [of "a * 10 + digit_value c"] by (simp add: horner_Cons)
  qed (simp add: horner_def)
  from this [of 0] show ?thesis by (simp add: dec_value_def)
qed

section \<open>What is read\<close>

text \<open>A sign before a number is passed over.\<close>

definition after_sign :: "string \<Rightarrow> string" where
  "after_sign ys = (case ys of [] \<Rightarrow> [] | c # cs \<Rightarrow> if c = CHR ''+'' \<or> c = CHR ''-'' then cs else ys)"

text \<open>
  The integer at the front of a text: whether a minus sign stands before it, its digits and
  what follows them.
\<close>

definition int_text :: "string \<Rightarrow> bool \<times> string \<times> string" where
  "int_text xs =
     (let ys = dropWhile is_blank xs;
          zs = after_sign ys in
      (first ys = Some (CHR ''-''), takeWhile is_digit zs, dropWhile is_digit zs))"

text \<open>The rest of the line, and what the program sees of a character: a line marker is a space.\<close>

definition line_of :: "string \<Rightarrow> string" where
  "line_of xs = takeWhile (\<lambda>c. c \<noteq> newline) xs"

definition shown :: "char \<Rightarrow> char" where
  "shown c = (if c = newline then blank else c)"

text \<open>No line marker has been given back, so none is shown as itself.\<close>

definition plain :: "pas_file \<Rightarrow> bool" where
  "plain f \<longleftrightarrow> newline \<notin> set (pushback f) \<and> (has f \<and> lookahead f = Some newline \<longrightarrow> ch f = blank)"

lemma plain_fill: "plain f \<Longrightarrow> istext f \<Longrightarrow> pas_fill w f = Inr (w', f') \<Longrightarrow> plain f'"
  by (auto simp: pas_fill_def plain_def rbind_eq_Inr deliver_def next_char_def Let_def
      split: if_splits list.splits option.splits prod.splits)

text \<open>
  The number at the front of a text that begins with no blank: its digits before the point,
  the characters that are taken, and what follows them.
\<close>

definition sign_of :: "string \<Rightarrow> string" where
  "sign_of ys = (case ys of [] \<Rightarrow> [] | c # _ \<Rightarrow> if c = CHR ''+'' \<or> c = CHR ''-'' then [c] else [])"

definition starts_digit :: "string \<Rightarrow> bool" where
  "starts_digit xs = (case xs of [] \<Rightarrow> False | c # _ \<Rightarrow> is_digit c)"

definition frac_text :: "string \<Rightarrow> string \<times> string" where
  "frac_text zs =
     (case zs of
        [] \<Rightarrow> ([], [])
      | c # cs \<Rightarrow> if c = CHR ''.'' \<and> starts_digit cs then (c # takeWhile is_digit cs, dropWhile is_digit cs)
                  else ([], zs))"

definition scale_text :: "string \<Rightarrow> string \<times> string" where
  "scale_text zs =
     (case zs of
        [] \<Rightarrow> ([], [])
      | c # cs \<Rightarrow>
          if (c = CHR ''e'' \<or> c = CHR ''E'') \<and> starts_digit (after_sign cs)
          then (c # sign_of cs @ takeWhile is_digit (after_sign cs), dropWhile is_digit (after_sign cs))
          else ([], zs))"

definition number_text :: "string \<Rightarrow> string \<times> string \<times> string \<times> string" where
  "number_text ys =
     (let zs = after_sign ys; ds = takeWhile is_digit zs; (fr, r1) = frac_text (dropWhile is_digit zs);
          (sc, r2) = scale_text r1 in
      (ds, sign_of ys @ ds @ fr, sc, r2))"

text \<open>The scale factor is handed to \<^verbatim>\<open>strtod\<close> with a small \<^verbatim>\<open>e\<close>.\<close>

definition small_e :: "string \<Rightarrow> string" where
  "small_e sc = (case sc of [] \<Rightarrow> [] | _ # cs \<Rightarrow> CHR ''e'' # cs)"

lemma numbuf_put:
  assumes "\<forall>n. mem n"
  shows "\<exists>b'. pas_numbuf_put mem c b = Inr b' \<and> nchars b' = nchars b @ [c]"
  using assms by (simp add: pas_numbuf_put_def)

section \<open>What has been given back\<close>

text \<open>
  At most two characters are behind the lookahead, and none of them is a digit: a digit is only
  ever read when nothing is there any more.
\<close>

definition few :: "pas_file \<Rightarrow> bool" where
  "few f \<longleftrightarrow> length (pushback f) \<le> 2 \<and> list_all (\<lambda>c. \<not> is_digit c) (pushback f) \<and>
     (has f \<and> pushback f \<noteq> [] \<longrightarrow> \<not> at_digit f)"

lemma few_fill: "few f \<Longrightarrow> istext f \<Longrightarrow> pas_fill w f = Inr (w', f') \<Longrightarrow> few f'"
  by (auto simp: pas_fill_def few_def rbind_eq_Inr deliver_def next_char_def at_digit_def Let_def
      split: if_splits list.splits option.splits prod.splits)

lemma few_consumed: "few f \<Longrightarrow> few (f\<lparr>has := False\<rparr>)"
  by (simp add: few_def)

lemma few_empty: "pushback f = [] \<Longrightarrow> few f"
  by (simp add: few_def)

section \<open>The interface of a character source\<close>

text \<open>Fields the delivery of characters does not depend on.\<close>

definition same_source :: "pas_file \<Rightarrow> pas_file \<Rightarrow> bool" where
  "same_source f g \<longleftrightarrow> fp f = fp g \<and> m_buf f = m_buf g \<and> m_at f = m_at g"

locale char_source =
  fixes kind :: "pas_file \<Rightarrow> bool" and src :: "world \<Rightarrow> pas_file \<Rightarrow> string"
  assumes frame: "same_source f g \<Longrightarrow> kind f = kind g \<and> src w f = src w g"
    and next_end: "kind f \<Longrightarrow> src w f = [] \<Longrightarrow> next_char w f = (None, w, f)"
    and next_more: "kind f \<Longrightarrow> src w f = c # cs \<Longrightarrow>
      \<exists>w' n. next_char w f = (Some c, w', f\<lparr>m_at := n\<rparr>) \<and> kind (f\<lparr>m_at := n\<rparr>) \<and>
        src w' (f\<lparr>m_at := n\<rparr>) = cs \<and> disk w' = disk w"
    and covers: "kind f \<Longrightarrow> source w f = src w f"
begin

abbreviation left :: "world \<Rightarrow> pas_file \<Rightarrow> string" where
  "left \<equiv> rest_of src"

abbreviation ok :: "world \<Rightarrow> pas_file \<Rightarrow> bool" where
  "ok w f \<equiv> kind f \<and> reading_of src w f"

lemma kind_upd [simp]:
  "kind (f\<lparr>has := b\<rparr>) = kind f" "kind (f\<lparr>lookahead := l\<rparr>) = kind f" "kind (f\<lparr>ateof := b\<rparr>) = kind f"
  "kind (f\<lparr>ch := c\<rparr>) = kind f" "kind (f\<lparr>pushback := cs\<rparr>) = kind f" "kind (f\<lparr>atbol := b\<rparr>) = kind f"
  by (rule frame [THEN conjunct1], simp add: same_source_def)+

lemma src_upd [simp]:
  "src w (f\<lparr>has := b\<rparr>) = src w f" "src w (f\<lparr>lookahead := l\<rparr>) = src w f" "src w (f\<lparr>ateof := b\<rparr>) = src w f"
  "src w (f\<lparr>ch := c\<rparr>) = src w f" "src w (f\<lparr>pushback := cs\<rparr>) = src w f" "src w (f\<lparr>atbol := b\<rparr>) = src w f"
  by (rule frame [THEN conjunct2], simp add: same_source_def)+

lemma first_rest: "reading_of src w f \<Longrightarrow> has f \<Longrightarrow> lookahead f = first (left w f)"
  by (auto simp: reading_of_def rest_of_def seen_def complete_def first_def split: option.splits)

text \<open>The text is at its next character: nothing left means the lookahead is the end of the file.\<close>

definition at :: "world \<Rightarrow> pas_file \<Rightarrow> string \<Rightarrow> bool" where
  "at w f xs \<longleftrightarrow> ok w f \<and> has f \<and> left w f = xs"

lemma at_lookahead: "at w f xs \<Longrightarrow> lookahead f = first xs"
  by (auto simp: at_def first_rest)

lemma at_deliver:
  assumes "kind f" "istext f" "buf f = None" "mode f \<in> {PAS_READING, PAS_UPDATING}" "pushback f = []"
    and "c = None \<Longrightarrow> src w f = []"
  shows "at w (deliver c f)
    (case c of None \<Rightarrow> if atbol f then [] else [newline] | Some d \<Rightarrow> d # complete (d = newline) (src w f))"
  using assms
  by (auto simp: deliver_def Let_def at_def reading_of_def rest_of_def seen_def complete_def split: option.splits)

lemma fill_stream:
  assumes "ok w f" "\<not> has f" "pushback f = []"
  shows "\<exists>w' f'. pas_fill w f = Inr (w', f') \<and> at w' f' (left w f) \<and> disk w' = disk w \<and> pushback f' = []"
proof (cases "src w f")
  case Nil
  have "pas_fill w f = Inr (w, deliver None f)" using assms next_end [of f w] Nil
    by (auto simp: pas_fill_def pas_check_open_def reading_of_def)
  moreover have "at w (deliver None f) (left w f)"
    using at_deliver [of f None w] assms Nil
    by (auto simp: reading_of_def rest_of_def seen_def complete_def split: if_splits)
  ultimately show ?thesis using assms by (auto simp: deliver_def Let_def)
next
  case (Cons c cs)
  from next_more [OF _ Cons] assms obtain w' n where n: "next_char w f = (Some c, w', f\<lparr>m_at := n\<rparr>)"
    "kind (f\<lparr>m_at := n\<rparr>)" "src w' (f\<lparr>m_at := n\<rparr>) = cs" "disk w' = disk w" by blast
  have "pas_fill w f = Inr (w', deliver (Some c) (f\<lparr>m_at := n\<rparr>))" using assms n
    by (auto simp: pas_fill_def pas_check_open_def reading_of_def)
  moreover have "at w' (deliver (Some c) (f\<lparr>m_at := n\<rparr>)) (left w f)"
    using at_deliver [of "f\<lparr>m_at := n\<rparr>" "Some c" w'] assms Cons n
    by (auto simp: reading_of_def rest_of_def seen_def complete_def split: if_splits)
  ultimately show ?thesis using assms n by (auto simp: deliver_def Let_def)
qed

text \<open>The lookahead fetched: nothing of the text is lost, and what had been given back comes first.\<close>

lemma fill:
  assumes "ok w f"
  shows "\<exists>w' f'. pas_fill w f = Inr (w', f') \<and> at w' f' (left w f) \<and> disk w' = disk w \<and>
    (if has f then f' = f else pushback f' = tl (pushback f) \<and> (pushback f \<noteq> [] \<longrightarrow> lookahead f' = Some (hd (pushback f))))"
proof (cases "has f")
  case False
  note nh = this
  show ?thesis
  proof (cases "pushback f")
    case Nil
    with fill_stream [OF assms nh] nh show ?thesis by auto
  next
    case (Cons c cs)
    then show ?thesis using assms nh
      by (auto simp: pas_fill_def pas_check_open_def reading_of_def at_def rest_of_def seen_def)
  qed
qed (use assms in \<open>auto simp: pas_fill_def at_def\<close>)

lemma consume:
  assumes "at w f (c # cs)"
  shows "ok w (f\<lparr>has := False\<rparr>)" "left w (f\<lparr>has := False\<rparr>) = cs"
  using assms by (auto simp: at_def reading_of_def rest_of_def seen_def complete_def split: option.splits if_splits)

lemma advance_at:
  assumes "at w f (c # cs)"
  shows "\<exists>w' f'. advance w f = Inr (w', f') \<and> at w' f' cs \<and> disk w' = disk w \<and> pushback f' = tl (pushback f) \<and>
    (pushback f \<noteq> [] \<longrightarrow> lookahead f' = Some (hd (pushback f)))"
  using fill [OF consume(1) [OF assms]] consume(2) [OF assms] by (auto simp: advance_def)

lemma unread_at:
  assumes "at w f xs"
  shows "at w (pas_unread c f) (c # xs)"
  using assms
  by (auto simp: at_def pas_unread_def reading_of_def rest_of_def seen_def complete_def split: option.splits)

lemma skip_loop_at:
  assumes "ok w f" "length (left w f) < k"
  shows "\<exists>w' f'. skip_loop k w f = Inr (w', f') \<and> at w' f' (dropWhile is_blank (left w f)) \<and> disk w' = disk w"
  using assms
proof (induction k arbitrary: w f)
  case (Suc k)
  from fill [OF Suc.prems(1)] obtain w' f' where f': "pas_fill w f = Inr (w', f')" "at w' f' (left w f)" "disk w' = disk w"
    by blast
  show ?case
  proof (cases "left w f")
    case Nil
    with f' at_lookahead [OF f'(2)] show ?thesis by (auto simp: first_def)
  next
    case (Cons c cs)
    show ?thesis
    proof (cases "is_blank c")
      case True
      have "\<exists>w'' f''. skip_loop k w' (f'\<lparr>has := False\<rparr>) = Inr (w'', f'') \<and> at w'' f'' (dropWhile is_blank cs) \<and> disk w'' = disk w'"
        using Suc.IH [where w = w' and f = "f'\<lparr>has := False\<rparr>"] Suc.prems consume [of w' f' c cs] f' Cons by simp
      with f' at_lookahead [OF f'(2)] True Cons show ?thesis by (auto simp: first_def)
    qed (use f' at_lookahead [OF f'(2)] Cons in \<open>auto simp: first_def\<close>)
  qed
qed simp

lemma readln_loop_at:
  assumes "at w f xs" "xs \<noteq> []" "length xs < k"
  shows "\<exists>w' f'. readln_loop k w f = Inr (w', f') \<and> ok w' f' \<and> left w' f' = tl (dropWhile (\<lambda>c. c \<noteq> newline) xs) \<and> disk w' = disk w"
  using assms
proof (induction k arbitrary: w f xs)
  case (Suc k)
  from Suc.prems obtain c cs where xs: "xs = c # cs" by (cases xs) auto
  show ?case
  proof (cases "c = newline")
    case True
    with Suc.prems xs at_lookahead [OF Suc.prems(1)] consume [of w f c cs] show ?thesis by (auto simp: first_def)
  next
    case False
    from advance_at [of w f c cs] Suc.prems xs obtain w' f' where
      f': "advance w f = Inr (w', f')" "at w' f' cs" "disk w' = disk w" by blast
    show ?thesis
    proof (cases cs)
      case Nil
      with f' at_lookahead [OF f'(2)] at_lookahead [OF Suc.prems(1)] xs False show ?thesis
        by (auto simp: first_def at_def)
    next
      case (Cons d ds)
      with Suc.IH [OF f'(2)] f' Suc.prems at_lookahead [OF f'(2)] at_lookahead [OF Suc.prems(1)] xs False
      show ?thesis by (auto simp: first_def)
    qed
  qed
qed simp

lemma at_digit_at: "at w f xs \<Longrightarrow> at_digit f = (case xs of [] \<Rightarrow> False | c # _ \<Rightarrow> is_digit c)"
  by (drule at_lookahead) (auto simp: at_digit_def first_def split: list.splits)

lemma at_sign_at: "at w f xs \<Longrightarrow> at_sign f = (case xs of [] \<Rightarrow> False | c # _ \<Rightarrow> c = CHR ''+'' \<or> c = CHR ''-'')"
  by (drule at_lookahead) (auto simp: at_sign_def first_def split: list.splits)

lemma la_at: "at w f (c # cs) \<Longrightarrow> la f = c"
  by (drule at_lookahead) (auto simp: la_def first_def)

lemma int_loop_at:
  assumes "at w f xs" "length xs < k" "0 \<le> v" "v \<le> limit"
  shows "let ds = takeWhile is_digit xs; r = horner v ds in
    if r > limit then int_loop k limit what v n w f = Inl (Trap what)
    else \<exists>w' f'. int_loop k limit what v n w f = Inr (r, n + length ds, w', f') \<and>
           at w' f' (dropWhile is_digit xs) \<and> disk w' = disk w"
  using assms
proof (induction k arbitrary: w f xs v n)
  case (Suc k)
  show ?case
  proof (cases "xs \<noteq> [] \<and> is_digit (hd xs)")
    case False
    with Suc.prems at_digit_at [OF Suc.prems(1)] show ?thesis by (cases xs) (auto simp: horner_def)
  next
    case True
    then obtain c cs where xs: "xs = c # cs" "is_digit c" by (cases xs) auto
    let ?v = "v * 10 + int (digit_value c)"
    have d: "digit_value c < 10" by (rule digit_value_bound) fact
    have over: "(v > limit div 10 \<or> (v = limit div 10 \<and> int (digit_value c) > limit mod 10)) = (?v > limit)"
      using d by presburger
    from advance_at [of w f c cs] Suc.prems xs obtain w' f' where
      f': "advance w f = Inr (w', f')" "at w' f' cs" "disk w' = disk w" by blast
    show ?thesis
    proof (cases "?v > limit")
      case True
      have "horner v (takeWhile is_digit xs) > limit"
        using True horner_mono [of ?v "takeWhile is_digit cs"] Suc.prems xs by (simp add: horner_Cons)
      with True over xs at_digit_at [OF Suc.prems(1)] la_at [of w f c cs] Suc.prems show ?thesis by simp
    next
      case False
      from Suc.IH [OF f'(2), where v = ?v and n = "n + 1"] Suc.prems xs False
      have "let ds = takeWhile is_digit cs; r = horner ?v ds in
        if r > limit then int_loop k limit what ?v (n + 1) w' f' = Inl (Trap what)
        else \<exists>w'' f''. int_loop k limit what ?v (n + 1) w' f' = Inr (r, n + 1 + length ds, w'', f'') \<and>
           at w'' f'' (dropWhile is_digit cs) \<and> disk w'' = disk w'" by simp
      then show ?thesis using False over xs at_digit_at [OF Suc.prems(1)] la_at [of w f c cs] Suc.prems f'
        by (auto simp: horner_Cons Let_def split: if_splits)
    qed
  qed
qed simp

lemma fuel_left: "kind f \<Longrightarrow> fuel w f = Suc (length (left w f))"
  by (simp add: fuel_def rest_of_def covers)

lemma at_ok: "at w f xs \<Longrightarrow> ok w f \<and> left w f = xs"
  by (simp add: at_def)

lemma skip_at:
  "ok w f \<Longrightarrow> \<exists>w' f'. pas_skip_blanks w f = Inr (w', f') \<and> at w' f' (dropWhile is_blank (left w f)) \<and> disk w' = disk w"
  using skip_loop_at [of f w "fuel w f"] by (simp add: pas_skip_blanks_def fuel_left)

lemma int_digits_at:
  assumes "at w f xs"
  shows "let ds = takeWhile is_digit xs in
    if int (dec_value ds) > int_limit wide then int_loop (fuel w f) (int_limit wide) what 0 0 w f = Inl (Trap what)
    else \<exists>w' f'. int_loop (fuel w f) (int_limit wide) what 0 0 w f = Inr (int (dec_value ds), length ds, w', f') \<and>
           at w' f' (dropWhile is_digit xs) \<and> disk w' = disk w"
proof -
  have k: "length xs < fuel w f" using assms by (auto simp: fuel_left at_def)
  have l: "(0 :: int) \<le> int_limit wide" by (simp add: int_limit_def)
  from int_loop_at [OF assms k order_refl l, of what 0] show ?thesis
    by (auto simp: horner_dec_value Let_def split: if_splits)
qed

lemma sign_at:
  assumes "at w f ys"
  shows "\<exists>w' f'. (if at_sign f then advance w f else Inr (w, f)) = Inr (w', f') \<and> at w' f' (after_sign ys) \<and> disk w' = disk w"
proof (cases ys)
  case (Cons c cs)
  then show ?thesis using assms at_sign_at [OF assms] advance_at [of w f c cs] by (auto simp: after_sign_def)
qed (use assms at_sign_at [OF assms] in \<open>auto simp: after_sign_def\<close>)

lemma read_int_at:
  assumes "ok w f"
  shows "case int_text (left w f) of (neg, ds, xs) \<Rightarrow>
    if ds = [] then pas_read_int_at wide w f = Inl (Trap ''expected an integer in the input'')
    else if int (dec_value ds) > int_limit wide then pas_read_int_at wide w f = Inl (Trap (int_what wide))
    else \<exists>w' f'. pas_read_int_at wide w f = Inr (if neg then - int (dec_value ds) else int (dec_value ds), w', f') \<and>
           at w' f' xs \<and> disk w' = disk w"
proof -
  let ?ys = "dropWhile is_blank (left w f)"
  from skip_at [OF assms] obtain w1 f1 where 1: "pas_skip_blanks w f = Inr (w1, f1)" "at w1 f1 ?ys" "disk w1 = disk w"
    by blast
  let ?zs = "after_sign ?ys"
  from sign_at [OF 1(2)] 1(3) obtain w2 f2 where 2: "(if at_sign f1 then advance w1 f1 else Inr (w1, f1)) = Inr (w2, f2)" "at w2 f2 ?zs"
    "disk w2 = disk w" by metis
  have 3: "dec_value [] = 0" by (simp add: dec_value_def)
  show ?thesis
    using int_digits_at [OF 2(2), of wide "int_what wide"] 1 2 at_lookahead [OF 1(2)] 3
    by (auto simp: pas_read_int_at_def int_text_def Let_def int_limit_def split: if_splits)
qed

lemma eof_at:
  assumes "ok w f"
  shows "\<exists>w' f'. pas_eof w f = Inr (left w f = [], w', f') \<and> at w' f' (left w f) \<and> disk w' = disk w"
proof -
  from fill [OF assms] obtain w1 f1 where 1: "pas_fill w f = Inr (w1, f1)" "at w1 f1 (left w f)" "disk w1 = disk w"
    by blast
  have "ateof f1 = (left w f = [])" using 1(2) at_lookahead [OF 1(2)]
    by (auto simp: at_def reading_of_def first_def split: list.splits)
  with 1 assms show ?thesis by (auto simp: pas_eof_def reading_of_def)
qed

lemma eoln_at:
  assumes "ok w f"
  shows "case left w f of
      [] \<Rightarrow> pas_eoln w f = Inl (Trap ''eoln at the end of the file'')
    | c # cs \<Rightarrow> \<exists>w' f'. pas_eoln w f = Inr (c = newline, w', f') \<and> at w' f' (left w f) \<and> disk w' = disk w"
proof -
  from fill [OF assms] obtain w1 f1 where 1: "pas_fill w f = Inr (w1, f1)" "at w1 f1 (left w f)" "disk w1 = disk w"
    by blast
  with at_lookahead [OF 1(2)] show ?thesis by (auto simp: pas_eoln_def first_def split: list.splits)
qed

lemma readln_at:
  assumes "ok w f"
  shows "if left w f = [] then pas_readln w f = Inl (Trap ''readln past the end of the file'')
    else \<exists>w' f'. pas_readln w f = Inr (w', f') \<and> ok w' f' \<and>
           left w' f' = tl (dropWhile (\<lambda>c. c \<noteq> newline) (left w f)) \<and> disk w' = disk w"
proof -
  from fill [OF assms] obtain w1 f1 where 1: "pas_fill w f = Inr (w1, f1)" "at w1 f1 (left w f)" "disk w1 = disk w"
    by blast
  show ?thesis
  proof (cases "left w f")
    case (Cons c cs)
    with readln_loop_at [OF 1(2), of "fuel w1 f1"] 1 at_lookahead [OF 1(2)] at_ok [OF 1(2)] show ?thesis
      by (auto simp: pas_readln_def first_def fuel_left)
  qed (use 1 at_lookahead [OF 1(2)] in \<open>auto simp: pas_readln_def first_def\<close>)
qed

lemma few_advance: "few f \<Longrightarrow> istext f \<Longrightarrow> advance w f = Inr (w', f') \<Longrightarrow> few f'"
  unfolding advance_def by (rule few_fill [of "f\<lparr>has := False\<rparr>"]) (simp_all add: few_consumed)

lemma at_text: "at w f xs \<Longrightarrow> istext f"
  by (simp add: at_def reading_of_def)

lemma few_skip_loop:
  "few f \<Longrightarrow> ok w f \<Longrightarrow> skip_loop k w f = Inr (w', f') \<Longrightarrow> few f'"
proof (induction k arbitrary: w f)
  case (Suc k)
  from fill [OF Suc.prems(2)] obtain w1 f1 where 1: "pas_fill w f = Inr (w1, f1)" "at w1 f1 (left w f)" by blast
  have "istext f" using Suc.prems(2) by (simp add: reading_of_def)
  with few_fill [OF Suc.prems(1) _ 1(1)] have 2: "few f1" by simp
  show ?case
  proof (cases "left w f")
    case Nil
    with 1 at_lookahead [OF 1(2)] Suc.prems(3) 2 show ?thesis by (simp add: first_def)
  next
    case (Cons c cs)
    with 1 at_lookahead [OF 1(2)] Suc.prems(3) 2 Suc.IH [OF few_consumed [OF 2]] consume(1) [of w1 f1 c cs]
    show ?thesis by (auto simp: first_def split: if_splits)
  qed
qed simp

lemma digit_behind_nothing: "at w f (c # cs) \<Longrightarrow> is_digit c \<Longrightarrow> few f \<Longrightarrow> pushback f = []"
  using at_digit_at [of w f "c # cs"] by (auto simp: few_def at_def)

lemma take_la_at:
  assumes "at w f (c # cs)" "\<forall>n. mem n"
  shows "\<exists>b' w' f'. take_la mem b w f = Inr (b', w', f') \<and> nchars b' = nchars b @ [c] \<and> at w' f' cs \<and>
    disk w' = disk w \<and> pushback f' = tl (pushback f) \<and> (few f \<longrightarrow> few f')"
proof -
  from numbuf_put [OF assms(2)] obtain b' where "pas_numbuf_put mem c b = Inr b'" "nchars b' = nchars b @ [c]" by blast
  moreover from advance_at [OF assms(1)] obtain w' f' where
    "advance w f = Inr (w', f')" "at w' f' cs" "disk w' = disk w" "pushback f' = tl (pushback f)" by blast
  ultimately show ?thesis using la_at [OF assms(1)] few_advance [of f w w' f'] at_text [OF assms(1)]
    by (auto simp: take_la_def)
qed

lemma real_digits_at:
  assumes "at w f xs" "length xs < k" "\<forall>n. mem n" "few f"
  shows "\<exists>b' w' f'. real_digits k mem b n w f = Inr (b', n + length (takeWhile is_digit xs), w', f') \<and>
    nchars b' = nchars b @ takeWhile is_digit xs \<and> at w' f' (dropWhile is_digit xs) \<and> disk w' = disk w \<and>
    few f' \<and> (pushback f = [] \<or> starts_digit xs \<longrightarrow> pushback f' = [])"
  using assms
proof (induction k arbitrary: w f xs b n)
  case (Suc k)
  show ?case
  proof (cases "starts_digit xs")
    case False
    with Suc.prems at_digit_at [OF Suc.prems(1)] show ?thesis by (cases xs) (auto simp: starts_digit_def)
  next
    case True
    then obtain c cs where xs: "xs = c # cs" "is_digit c" by (cases xs) (auto simp: starts_digit_def)
    from take_la_at [of w f c cs mem b] Suc.prems xs obtain b1 w1 f1 where
      1: "take_la mem b w f = Inr (b1, w1, f1)" "nchars b1 = nchars b @ [c]" "at w1 f1 cs" "disk w1 = disk w"
         "pushback f1 = tl (pushback f)" "few f1" by blast
    from digit_behind_nothing [of w f c cs] Suc.prems xs 1 have 2: "pushback f1 = []" by simp
    from Suc.IH [OF 1(3), where b = b1 and n = "n + 1"] Suc.prems xs 1 obtain b2 w2 f2 where
      3: "real_digits k mem b1 (n + 1) w1 f1 = Inr (b2, n + 1 + length (takeWhile is_digit cs), w2, f2)"
         "nchars b2 = nchars b1 @ takeWhile is_digit cs" "at w2 f2 (dropWhile is_digit cs)" "disk w2 = disk w1"
         "few f2" "pushback f2 = []" using 2 by fastforce
    show ?thesis using 1 3 xs at_digit_at [OF Suc.prems(1)] by auto
  qed
qed simp

lemma real_digits_all:
  assumes "at w f xs" "\<forall>n. mem n" "few f"
  shows "\<exists>b' w' f'. real_digits (fuel w f) mem b n w f = Inr (b', n + length (takeWhile is_digit xs), w', f') \<and>
    nchars b' = nchars b @ takeWhile is_digit xs \<and> at w' f' (dropWhile is_digit xs) \<and> disk w' = disk w \<and>
    few f' \<and> (pushback f = [] \<or> starts_digit xs \<longrightarrow> pushback f' = [])"
proof (rule real_digits_at [OF assms(1) _ assms(2,3)])
  show "length xs < fuel w f" using assms(1) by (auto simp: fuel_left at_def)
qed

lemma starts_digit_at: "at w f xs \<Longrightarrow> at_digit f = starts_digit xs"
  by (simp add: at_digit_at starts_digit_def)

lemma real_point_at:
  assumes "at w f xs" "\<forall>n. mem n" "few f" "n > 0" "pushback f = []"
  shows "\<exists>b' n' w' f'. real_point mem b n w f = Inr (b', n', w', f') \<and> n' > 0 \<and> nchars b' = nchars b @ fst (frac_text xs) \<and>
    at w' f' (snd (frac_text xs)) \<and> disk w' = disk w \<and> few f' \<and> (lookahead f' \<noteq> Some (CHR ''.'') \<longrightarrow> pushback f' = [])"
proof (cases "\<exists>cs. xs = CHR ''.'' # cs")
  case False
  then have "frac_text xs = ([], xs)" by (auto simp: frac_text_def split: list.splits)
  moreover have "lookahead f \<noteq> Some (CHR ''.'')" using at_lookahead [OF assms(1)] False
    by (auto simp: first_def split: list.splits)
  ultimately show ?thesis using assms by (auto simp: real_point_def)
next
  case True
  then obtain cs where xs: "xs = CHR ''.'' # cs" by blast
  from advance_at [of w f _ cs] assms xs obtain w1 f1 where
    1: "advance w f = Inr (w1, f1)" "at w1 f1 cs" "disk w1 = disk w" "pushback f1 = tl (pushback f)" by blast
  from 1 assms(5) have p: "pushback f1 = []" by simp
  have la: "lookahead f = Some (CHR ''.'')" using at_lookahead [OF assms(1)] xs by (simp add: first_def)
  show ?thesis
  proof (cases "starts_digit cs")
    case True
    from numbuf_put [OF assms(2)] obtain b1 where b1: "pas_numbuf_put mem (CHR ''.'') b = Inr b1" "nchars b1 = nchars b @ ''.''"
      by blast
    from real_digits_all [OF 1(2) assms(2) few_empty [OF p], of b1 n] True p obtain b2 w2 f2 where
      2: "real_digits (fuel w1 f1) mem b1 n w1 f1 = Inr (b2, n + length (takeWhile is_digit cs), w2, f2)"
        "nchars b2 = nchars b1 @ takeWhile is_digit cs" "at w2 f2 (dropWhile is_digit cs)" "disk w2 = disk w1"
        "few f2" "pushback f2 = []" by fastforce
    show ?thesis using 1 2 b1 la assms True xs starts_digit_at [OF 1(2)] by (auto simp: real_point_def frac_text_def)
  next
    case False
    have "at w1 (pas_unread (CHR ''.'') f1) xs" using unread_at [OF 1(2)] xs by simp
    moreover have "few (pas_unread (CHR ''.'') f1)" using p False starts_digit_at [OF 1(2)]
      by (auto simp: few_def pas_unread_def at_digit_def is_digit_def split: option.splits)
    ultimately show ?thesis using 1 la assms False xs starts_digit_at [OF 1(2)]
      by (auto simp: real_point_def frac_text_def pas_unread_def)
  qed
qed

lemma sign_la_at:
  assumes "at w f ys" "pushback f = []"
  shows "\<exists>w' f'. (if at_sign f then advance w f else Inr (w, f)) = Inr (w', f') \<and> at w' f' (after_sign ys) \<and>
    disk w' = disk w \<and> pushback f' = [] \<and> (if at_sign f then [la f] else []) = sign_of ys"
proof (cases ys)
  case (Cons c cs)
  then show ?thesis using assms at_sign_at [OF assms(1)] advance_at [of w f c cs] la_at [of w f c cs]
    by (auto simp: after_sign_def sign_of_def)
qed (use assms at_sign_at [OF assms(1)] in \<open>auto simp: after_sign_def sign_of_def\<close>)

lemma unread_scale:
  assumes "at w f (after_sign cs)" "\<not> starts_digit (after_sign cs)" "pushback f = []" "e = CHR ''e'' \<or> e = CHR ''E''"
  shows "let g = pas_unread e (case sign_of cs of [] \<Rightarrow> f | s # _ \<Rightarrow> pas_unread s f) in at w g (e # cs) \<and> few g"
proof (cases "sign_of cs")
  case Nil
  then have "after_sign cs = cs" by (auto simp: after_sign_def sign_of_def split: list.splits if_splits)
  then show ?thesis using Nil assms unread_at [OF assms(1), of e] starts_digit_at [OF assms(1)]
    by (auto simp: few_def pas_unread_def at_digit_def is_digit_def Let_def split: option.splits)
next
  case (Cons s ss)
  then have cs: "cs = s # after_sign cs" "\<not> is_digit s" "s = CHR ''+'' \<or> s = CHR ''-''"
    by (auto simp: after_sign_def sign_of_def is_digit_def split: list.splits if_splits)
  have "at w (pas_unread e (pas_unread s f)) (e # cs)"
    using unread_at [OF unread_at [OF assms(1), of s], of e] cs(1) by simp
  then show ?thesis using Cons assms starts_digit_at [OF assms(1)] cs(2)
    by (auto simp: few_def pas_unread_def at_digit_def is_digit_def Let_def split: option.splits)
qed

lemma real_scale_at:
  assumes "at w f xs" "\<forall>n. mem n" "few f" "n > 0" "lookahead f \<noteq> Some (CHR ''.'') \<longrightarrow> pushback f = []"
  shows "\<exists>b' w' f'. real_scale mem b n w f = Inr (b', w', f') \<and> nchars b' = nchars b @ small_e (fst (scale_text xs)) \<and>
    at w' f' (snd (scale_text xs)) \<and> disk w' = disk w \<and> few f'"
proof (cases "\<exists>c cs. xs = c # cs \<and> (c = CHR ''e'' \<or> c = CHR ''E'')")
  case False
  then have "scale_text xs = ([], xs)" by (auto simp: scale_text_def split: list.splits)
  moreover have "\<not> (lookahead f = Some (CHR ''e'') \<or> lookahead f = Some (CHR ''E''))"
    using at_lookahead [OF assms(1)] False by (auto simp: first_def split: list.splits)
  ultimately show ?thesis using assms by (auto simp: real_scale_def small_e_def)
next
  case True
  then obtain c cs where xs: "xs = c # cs" and c: "c = CHR ''e'' \<or> c = CHR ''E''" by blast
  have at: "at w f (c # cs)" using assms(1) xs by simp
  have la: "lookahead f = Some c" "la f = c" using at_lookahead [OF at] la_at [OF at] by (simp_all add: first_def)
  from advance_at [OF at] obtain w1 f1 where
    1: "advance w f = Inr (w1, f1)" "at w1 f1 cs" "disk w1 = disk w" "pushback f1 = tl (pushback f)" by blast
  from assms(5) la c 1 have p: "pushback f1 = []" by auto
  from sign_la_at [OF 1(2) p] obtain w2 f2 where
    2: "(if at_sign f1 then advance w1 f1 else Inr (w1, f1)) = Inr (w2, f2)" "at w2 f2 (after_sign cs)"
       "disk w2 = disk w1" "pushback f2 = []" "(if at_sign f1 then [la f1] else []) = sign_of cs" by blast
  show ?thesis
  proof (cases "starts_digit (after_sign cs)")
    case True
    from numbuf_put [OF assms(2)] obtain b1 where b1: "pas_numbuf_put mem (CHR ''e'') b = Inr b1" "nchars b1 = nchars b @ ''e''"
      by blast
    have "\<exists>b2. (case (if at_sign f1 then Some (la f1) else None) of None \<Rightarrow> Inr b1 | Some s \<Rightarrow> pas_numbuf_put mem s b1) = Inr b2 \<and>
        nchars b2 = nchars b1 @ sign_of cs"
      using numbuf_put [OF assms(2), of "la f1" b1] 2(5) by auto
    then obtain b2 where b2: "(case (if at_sign f1 then Some (la f1) else None) of None \<Rightarrow> Inr b1 | Some s \<Rightarrow> pas_numbuf_put mem s b1) = Inr b2"
        "nchars b2 = nchars b1 @ sign_of cs" by blast
    from real_digits_all [OF 2(2) assms(2) few_empty [OF 2(4)], of b2 0] obtain b3 w3 f3 where
      3: "real_digits (fuel w2 f2) mem b2 0 w2 f2 = Inr (b3, 0 + length (takeWhile is_digit (after_sign cs)), w3, f3)"
        "nchars b3 = nchars b2 @ takeWhile is_digit (after_sign cs)" "at w3 f3 (dropWhile is_digit (after_sign cs))"
        "disk w3 = disk w2" "few f3" by blast
    have "real_scale mem b n w f = Inr (b3, w3, f3)"
      using 1(1) 2(1) 3(1) b1(1) b2(1) la c assms(4) starts_digit_at [OF 2(2)] True
      by (simp add: real_scale_def Let_def)
    moreover have "scale_text xs = (c # sign_of cs @ takeWhile is_digit (after_sign cs), dropWhile is_digit (after_sign cs))"
      using True c xs by (simp add: scale_text_def)
    ultimately show ?thesis using 1(3) 2(3) 3 b1(2) b2(2) by (simp add: small_e_def)
  next
    case False
    let ?g = "pas_unread c (case sign_of cs of [] \<Rightarrow> f2 | s # _ \<Rightarrow> pas_unread s f2)"
    have g: "(case (if at_sign f1 then Some (la f1) else None) of None \<Rightarrow> f2 | Some s \<Rightarrow> pas_unread s f2) =
        (case sign_of cs of [] \<Rightarrow> f2 | s # _ \<Rightarrow> pas_unread s f2)"
      unfolding 2(5) [symmetric] by simp
    have "real_scale mem b n w f = Inr (b, w2, ?g)"
      using 1(1) 2(1) la c assms(4) starts_digit_at [OF 2(2)] False g by (simp add: real_scale_def Let_def)
    moreover have "scale_text xs = ([], xs)" using False c xs by (simp add: scale_text_def)
    ultimately show ?thesis using 1(3) 2(3) xs unread_scale [OF 2(2) False 2(4) c] by (simp add: small_e_def Let_def)
  qed
qed

lemma real_sign_at:
  assumes "at w f ys" "\<forall>n. mem n" "few f"
  shows "\<exists>b' w' f'. real_sign mem b w f = Inr (b', w', f') \<and> nchars b' = nchars b @ sign_of ys \<and>
    at w' f' (after_sign ys) \<and> disk w' = disk w \<and> few f'"
proof (cases ys)
  case (Cons c cs)
  then show ?thesis using assms at_sign_at [OF assms(1)] take_la_at [of w f c cs mem b]
    by (auto simp: real_sign_def sign_of_def after_sign_def)
qed (use assms at_sign_at [OF assms(1)] in \<open>auto simp: real_sign_def sign_of_def after_sign_def\<close>)

lemma read_real_at:
  assumes "ok w f" "\<forall>n. mem n" "few f"
  shows "case number_text (dropWhile is_blank (left w f)) of (ds, t, sc, xs) \<Rightarrow>
    if ds = [] then pas_read_real mem strtod w f = Inl (Trap ''expected a number in the input'')
    else \<exists>w' f'. pas_read_real mem strtod w f = Inr (strtod (t @ small_e sc), w', f') \<and>
           at w' f' xs \<and> disk w' = disk w \<and> few f'"
proof -
  let ?ys = "dropWhile is_blank (left w f)"
  let ?ds = "takeWhile is_digit (after_sign ?ys)" and ?rs = "dropWhile is_digit (after_sign ?ys)"
  from skip_at [OF assms(1)] obtain w1 f1 where
    1: "pas_skip_blanks w f = Inr (w1, f1)" "at w1 f1 ?ys" "disk w1 = disk w" by blast
  have few1: "few f1" using few_skip_loop [OF assms(3,1)] 1(1) unfolding pas_skip_blanks_def by blast
  from real_sign_at [OF 1(2) assms(2) few1, of pas_numbuf_init] obtain b2 w2 f2 where
    2: "real_sign mem pas_numbuf_init w1 f1 = Inr (b2, w2, f2)" "nchars b2 = sign_of ?ys" "at w2 f2 (after_sign ?ys)"
       "disk w2 = disk w1" "few f2" by (auto simp: pas_numbuf_init_def)
  from real_digits_all [OF 2(3) assms(2) 2(5), of b2 0] obtain b3 w3 f3 where
    3: "real_digits (fuel w2 f2) mem b2 0 w2 f2 = Inr (b3, length ?ds, w3, f3)" "nchars b3 = nchars b2 @ ?ds"
       "at w3 f3 ?rs" "disk w3 = disk w2" "few f3" "starts_digit (after_sign ?ys) \<longrightarrow> pushback f3 = []" by auto
  show ?thesis
  proof (cases "?ds = []")
    case True
    with 1 2 3 show ?thesis
      by (auto simp: pas_read_real_def number_text_def real_point_def real_scale_def Let_def split: prod.splits)
  next
    case False
    then have n: "length ?ds > 0" and p: "pushback f3 = []" using 3(6)
      by (auto simp: starts_digit_def split: list.splits if_splits)
    from real_point_at [OF 3(3) assms(2) 3(5) n p, of b3] obtain b4 n4 w4 f4 where
      4: "real_point mem b3 (length ?ds) w3 f3 = Inr (b4, n4, w4, f4)" "n4 > 0" "nchars b4 = nchars b3 @ fst (frac_text ?rs)"
         "at w4 f4 (snd (frac_text ?rs))" "disk w4 = disk w3" "few f4" "lookahead f4 \<noteq> Some (CHR ''.'') \<longrightarrow> pushback f4 = []"
      by blast
    from real_scale_at [OF 4(4) assms(2) 4(6,2,7), of b4] obtain b5 w5 f5 where
      5: "real_scale mem b4 n4 w4 f4 = Inr (b5, w5, f5)" "nchars b5 = nchars b4 @ small_e (fst (scale_text (snd (frac_text ?rs))))"
         "at w5 f5 (snd (scale_text (snd (frac_text ?rs))))" "disk w5 = disk w4" "few f5" by blast
    have "pas_read_real mem strtod w f = Inr (strtod (nchars b5), w5, f5)"
      using 1(1) 2(1) 3(1) 4(1,2) 5(1) by (simp add: pas_read_real_def)
    moreover have "number_text ?ys = (?ds, sign_of ?ys @ ?ds @ fst (frac_text ?rs), fst (scale_text (snd (frac_text ?rs))),
        snd (scale_text (snd (frac_text ?rs))))"
      by (simp add: number_text_def Let_def split: prod.splits)
    ultimately show ?thesis using False 1(3) 2(2,4) 3(2,4) 4(3,5) 5 by (auto split: prod.splits)
  qed
qed

lemma buffer_at:
  assumes "ok w f" "plain f"
  shows "case left w f of
      [] \<Rightarrow> pas_read_char w f = Inl (Trap ''the buffer variable is undefined at end of file'')
    | c # cs \<Rightarrow> \<exists>w' f'. pas_read_char w f = Inr (shown c, w', f') \<and> ok w' f' \<and> plain f' \<and> left w' f' = cs \<and> disk w' = disk w"
proof -
  from fill [OF assms(1)] obtain w1 f1 where
    1: "pas_fill w f = Inr (w1, f1)" "at w1 f1 (left w f)" "disk w1 = disk w" by blast
  have pl: "plain f1" using plain_fill [OF assms(2) _ 1(1)] assms(1) by (simp add: reading_of_def)
  show ?thesis
  proof (cases "left w f")
    case Nil
    with 1 at_lookahead [OF 1(2)] assms(1) show ?thesis
      by (auto simp: pas_read_char_def pas_buffer_def reading_of_def at_def first_def)
  next
    case (Cons c cs)
    have f1: "lookahead f1 = Some c" "has f1" "\<not> ateof f1" "buf f1 = None" "ch f1 = shown c"
      using 1(2) at_lookahead [OF 1(2)] Cons pl by (auto simp: at_def reading_of_def first_def plain_def shown_def)
    have "pas_read_char w f = Inr (shown c, w1, f1\<lparr>has := False\<rparr>)"
      using 1(1) f1 assms(1)
      by (auto simp: pas_read_char_def pas_buffer_def pas_get_def pas_fill_def [of w1] component_def reading_of_def)
    then show ?thesis using Cons consume [of w1 f1 c cs] 1 pl by (auto simp: plain_def)
  qed
qed

lemma str_loop_at:
  assumes "ok w f"
  shows "let line = take k (line_of (left w f)) in
    \<exists>w' f'. str_loop k out w f = Inr (out @ line, w', f') \<and> ok w' f' \<and> left w' f' = drop (length line) (left w f) \<and> disk w' = disk w"
  using assms
proof (induction k arbitrary: w f out)
  case (Suc k)
  from fill [OF Suc.prems] obtain w1 f1 where
    1: "pas_fill w f = Inr (w1, f1)" "at w1 f1 (left w f)" "disk w1 = disk w" by blast
  show ?case
  proof (cases "\<exists>c cs. left w f = c # cs \<and> c \<noteq> newline")
    case False
    then have "ateof f1 \<or> lookahead f1 = Some newline" and l: "line_of (left w f) = []"
      using 1(2) at_lookahead [OF 1(2)]
      by (auto simp: at_def reading_of_def first_def line_of_def split: list.splits)
    with 1 l show ?thesis by (auto simp: at_def)
  next
    case True
    then obtain c cs where c: "left w f = c # cs" "c \<noteq> newline" by blast
    have f1: "lookahead f1 = Some c" "\<not> ateof f1" "ch f1 = c"
      using 1(2) at_lookahead [OF 1(2)] c by (auto simp: at_def reading_of_def first_def)
    from Suc.IH [OF conjI, of "f1\<lparr>has := False\<rparr>" w1 "out @ [c]"] consume [of w1 f1 c cs] 1 c f1 show ?thesis
      by (fastforce simp: Let_def line_of_def)
  qed
qed (auto simp: Let_def)

lemma read_str_at:
  assumes "ok w f"
  shows "if left w f = [] then pas_read_str cap isvar w f = Inl (Trap ''the buffer variable is undefined at end of file'')
    else let line = take cap (line_of (left w f)) in
      \<exists>w' f'. pas_read_str cap isvar w f = Inr (if isvar then line else line @ replicate (cap - length line) blank, w', f') \<and>
        ok w' f' \<and> left w' f' = drop (length line) (left w f) \<and> disk w' = disk w"
proof -
  from fill [OF assms] obtain w1 f1 where
    1: "pas_fill w f = Inr (w1, f1)" "at w1 f1 (left w f)" "disk w1 = disk w" by blast
  have e: "ateof f1 = (left w f = [])" using 1(2) at_lookahead [OF 1(2)]
    by (auto simp: at_def reading_of_def first_def split: list.splits)
  from str_loop_at [of f1 w1 cap "[]"] at_ok [OF 1(2)] 1 e show ?thesis
    by (fastforce simp: pas_read_str_def Let_def)
qed

end

section \<open>The two sources\<close>

interpretation stream_text: char_source "\<lambda>f. \<not> ismem f" "\<lambda>w f. ahead w (the_fp f)"
proof
  fix f g :: pas_file and w
  assume "same_source f g"
  then show "(\<not> ismem f) = (\<not> ismem g) \<and> ahead w (the_fp f) = ahead w (the_fp g)"
    by (simp add: same_source_def ismem_def the_fp_def)
next
  fix f w
  assume "\<not> ismem f" "ahead w (the_fp f) = []"
  then show "next_char w f = (None, w, f)" by (simp add: next_char_def getc_end)
next
  fix f w c cs
  assume f: "\<not> ismem f" "ahead w (the_fp f) = c # cs"
  let ?w = "set_pos (the_fp f) (Suc (pos (streams w (the_fp f)))) w"
  have g: "f\<lparr>m_at := m_at f\<rparr> = f" by simp
  from getc_ahead [OF f(2)] f have "next_char w f = (Some c, ?w, f\<lparr>m_at := m_at f\<rparr>)" "ahead ?w (the_fp f) = cs"
    unfolding g by (auto simp: next_char_def)
  then show "\<exists>w' n. next_char w f = (Some c, w', f\<lparr>m_at := n\<rparr>) \<and> \<not> ismem (f\<lparr>m_at := n\<rparr>) \<and>
      ahead w' (the_fp (f\<lparr>m_at := n\<rparr>)) = cs \<and> disk w' = disk w"
    using f by (intro exI [of _ ?w] exI [of _ "m_at f"]) simp
qed (simp add: source_def)

interpretation string_text: char_source ismem "\<lambda>w f. drop (m_at f) (m_buf f)"
proof
  fix f w c cs
  assume f: "ismem f" "drop (m_at f) (m_buf f) = c # cs"
  have lt: "m_at f < length (m_buf f)" using f(2) by (cases "m_at f < length (m_buf f)") auto
  with Cons_nth_drop_Suc [OF lt] f(2) have "m_buf f ! m_at f = c" "drop (Suc (m_at f)) (m_buf f) = cs" by simp_all
  with f lt show "\<exists>w' n. next_char w f = (Some c, w', f\<lparr>m_at := n\<rparr>) \<and> ismem (f\<lparr>m_at := n\<rparr>) \<and>
      drop (m_at (f\<lparr>m_at := n\<rparr>)) (m_buf (f\<lparr>m_at := n\<rparr>)) = cs \<and> disk w' = disk w"
    by (auto simp: next_char_def ismem_def)
qed (auto simp: same_source_def ismem_def next_char_def source_def)

text \<open>A text over either source: the laws are those of the one it has.\<close>

interpretation any_text: char_source "\<lambda>_. True" source
proof
  fix f g :: pas_file and w
  assume "same_source f g"
  then show "True = True \<and> source w f = source w g"
    by (simp add: same_source_def source_def ismem_def the_fp_def)
next
  fix f w
  assume "source w f = []"
  then show "next_char w f = (None, w, f)"
    using stream_text.next_end [of f w] string_text.next_end [of f w] by (cases "ismem f") (simp_all add: source_def)
next
  fix f w c cs
  assume "source w f = c # cs"
  then show "\<exists>w' n. next_char w f = (Some c, w', f\<lparr>m_at := n\<rparr>) \<and> True \<and>
      source w' (f\<lparr>m_at := n\<rparr>) = cs \<and> disk w' = disk w"
    using stream_text.next_more [where f = f and w = w and c = c and cs = cs] string_text.next_more [where f = f and w = w and c = c and cs = cs]
    by (cases "ismem f") (auto simp: source_def ismem_def)
qed simp

declare any_text.kind_upd [simp del]

section \<open>The longest number\<close>

text \<open>The signed-number of ISO 7185 6.1.5.\<close>

definition digits :: "string \<Rightarrow> bool" where
  "digits s \<longleftrightarrow> s \<noteq> [] \<and> list_all is_digit s"

definition sign :: "string \<Rightarrow> bool" where
  "sign s \<longleftrightarrow> s = [] \<or> s = ''+'' \<or> s = ''-''"

definition fraction :: "string \<Rightarrow> bool" where
  "fraction s \<longleftrightarrow> s = [] \<or> hd s = CHR ''.'' \<and> digits (tl s)"

definition scale_factor :: "string \<Rightarrow> bool" where
  "scale_factor s \<longleftrightarrow>
     s = [] \<or> (hd s = CHR ''e'' \<or> hd s = CHR ''E'') \<and> (\<exists>sg ds. tl s = sg @ ds \<and> sign sg \<and> digits ds)"

definition signed_number :: "string \<Rightarrow> bool" where
  "signed_number s \<longleftrightarrow>
     (\<exists>sg ds fr sc. s = sg @ ds @ fr @ sc \<and> sign sg \<and> digits ds \<and> fraction fr \<and> scale_factor sc)"

lemma sign_split: "sign sg \<Longrightarrow> starts_digit r \<Longrightarrow> sign_of (sg @ r) = sg \<and> after_sign (sg @ r) = r"
  by (auto simp: sign_def sign_of_def after_sign_def starts_digit_def is_digit_def split: list.splits)

lemma sign_of_sign: "sign (sign_of ys)" "sign_of ys @ after_sign ys = ys"
  by (auto simp: sign_def sign_of_def after_sign_def split: list.splits)

lemma digits_starts: "digits ds \<Longrightarrow> starts_digit (ds @ r)"
  by (cases ds) (auto simp: digits_def starts_digit_def)

lemma digits_takeWhile: "starts_digit xs \<Longrightarrow> digits (takeWhile is_digit xs)"
  by (cases xs) (auto simp: digits_def starts_digit_def list_all_iff dest: set_takeWhileD)

lemma takeWhile_digits: "digits ds \<Longrightarrow> takeWhile is_digit (ds @ r) = ds @ takeWhile is_digit r \<and> dropWhile is_digit (ds @ r) = dropWhile is_digit r"
  by (simp add: digits_def list_all_iff)

lemma scale_text_ok: "scale_factor (fst (scale_text zs))" "fst (scale_text zs) @ snd (scale_text zs) = zs"
proof -
  have "\<exists>sg ds. sign_of cs @ takeWhile is_digit (after_sign cs) = sg @ ds \<and> sign sg \<and> digits ds"
    if "starts_digit (after_sign cs)" for cs
    using sign_of_sign(1) digits_takeWhile [OF that] by blast
  then show "scale_factor (fst (scale_text zs))" by (auto simp: scale_text_def scale_factor_def split: list.splits)
  show "fst (scale_text zs) @ snd (scale_text zs) = zs"
    using sign_of_sign(2) by (auto simp: scale_text_def split: list.splits)
qed

lemma frac_text_ok: "fraction (fst (frac_text zs))" "fst (frac_text zs) @ snd (frac_text zs) = zs"
  using digits_takeWhile by (auto simp: frac_text_def fraction_def split: list.splits)

lemma scale_text_longest: "scale_factor sc \<Longrightarrow> length sc \<le> length (fst (scale_text (sc @ q)))"
proof (cases sc)
  case (Cons c cs)
  assume "scale_factor sc"
  with Cons obtain sg ds where c: "c = CHR ''e'' \<or> c = CHR ''E''" "cs = sg @ ds" "sign sg" "digits ds"
    by (auto simp: scale_factor_def)
  then have "sign_of (cs @ q) = sg" "after_sign (cs @ q) = ds @ q" "starts_digit (ds @ q)"
    using sign_split [of sg "ds @ q"] digits_starts [of ds q] by auto
  then show ?thesis using Cons c takeWhile_digits [of ds q] by (auto simp: scale_text_def)
qed simp

lemma frac_text_longest:
  assumes "fraction fr" "scale_factor sc"
  shows "length (fr @ sc) \<le> length (fst (frac_text (fr @ sc @ q))) + length (fst (scale_text (snd (frac_text (fr @ sc @ q)))))"
proof (cases fr)
  case Nil
  have "sc \<noteq> [] \<Longrightarrow> frac_text (sc @ q) = ([], sc @ q)"
    using assms(2) by (cases sc) (auto simp: frac_text_def scale_factor_def)
  with Nil scale_text_longest [OF assms(2), of q] show ?thesis by (cases "sc = []") auto
next
  case (Cons c cs)
  with assms(1) have c: "c = CHR ''.''" "digits cs" by (auto simp: fraction_def)
  show ?thesis
  proof (cases "sc = []")
    case True
    with Cons c digits_starts [of cs q] takeWhile_digits [of cs q] show ?thesis by (simp add: frac_text_def)
  next
    case False
    then have "takeWhile is_digit (sc @ q) = []" "dropWhile is_digit (sc @ q) = sc @ q"
      using assms(2) by (cases sc; auto simp: scale_factor_def is_digit_def)+
    with Cons c digits_starts [of cs "sc @ q"] takeWhile_digits [of cs "sc @ q"] scale_text_longest [OF assms(2), of q]
    show ?thesis by (simp add: frac_text_def)
  qed
qed

text \<open>The characters taken form a signed-number, and no longer prefix does.\<close>

lemma number_text_longest:
  assumes "number_text ys = (ds, t, sc, r)" "ds \<noteq> []"
  shows "ys = t @ sc @ r" "signed_number (t @ sc)" "ys = p @ q \<Longrightarrow> signed_number p \<Longrightarrow> length p \<le> length (t @ sc)"
proof -
  let ?zs = "after_sign ys"
  let ?fr = "frac_text (dropWhile is_digit ?zs)"
  let ?sc = "scale_text (snd ?fr)"
  have n: "ds = takeWhile is_digit ?zs" "t = sign_of ys @ ds @ fst ?fr" "sc = fst ?sc" "r = snd ?sc"
    using assms(1) by (auto simp: number_text_def Let_def split: prod.splits)
  have d: "digits ds" using assms(2) n(1)
    by (auto simp: digits_def list_all_iff dest: set_takeWhileD)
  have "t @ sc @ r = sign_of ys @ ds @ dropWhile is_digit ?zs"
    using n(2-4) frac_text_ok(2) [of "dropWhile is_digit ?zs"] scale_text_ok(2) [of "snd ?fr"] by simp
  also have "\<dots> = ys" using n(1) sign_of_sign(2) [of ys] by simp
  finally show "ys = t @ sc @ r" by simp
  show "signed_number (t @ sc)" unfolding signed_number_def
    using n(2-4) d sign_of_sign(1) [of ys] frac_text_ok(1) scale_text_ok(1)
    by (intro exI [of _ "sign_of ys"] exI [of _ ds] exI [of _ "fst ?fr"] exI [of _ sc]) simp
  show "length p \<le> length (t @ sc)" if "ys = p @ q" "signed_number p"
  proof -
    from that(2) obtain sg ds' fr' sc' where p: "p = sg @ ds' @ fr' @ sc'" "sign sg" "digits ds'" "fraction fr'"
      "scale_factor sc'" by (auto simp: signed_number_def)
    have z: "sign_of ys = sg" "?zs = ds' @ fr' @ sc' @ q"
      using that(1) p sign_split [of sg "ds' @ fr' @ sc' @ q"] digits_starts [of ds' "fr' @ sc' @ q"] by auto
    show ?thesis
    proof (cases "fr' @ sc' = []")
      case True
      then show ?thesis using p z n takeWhile_digits [of ds' q] by simp
    next
      case False
      then have "takeWhile is_digit (fr' @ sc' @ q) = []" "dropWhile is_digit (fr' @ sc' @ q) = fr' @ sc' @ q"
        using p(4,5) by (cases fr'; cases sc'; auto simp: fraction_def scale_factor_def is_digit_def)+
      then show ?thesis using p z n takeWhile_digits [of ds' "fr' @ sc' @ q"] frac_text_longest [OF p(4,5), of q]
        by simp
    qed
  qed
qed

section \<open>Properties\<close>

lemma example_reading: "reading w (pas_str_read_begin s)" "rest w (pas_str_read_begin s) = s @ [newline]"
  "few (pas_str_read_begin s)" "plain (pas_str_read_begin s)"
  by (auto simp: reading_of_def rest_of_def seen_def complete_def pas_str_read_begin_def pas_str_file_def
      source_def ismem_def few_def plain_def)

text \<open>
  C18. Reading an integer is exact: whatever text is left, an integer is read as an optional sign
  and the longest run of digits after any blanks and line markers; its value is returned and
  exactly these characters are consumed, a value outside the range of the type and a missing
  digit are the two errors, and the read always ends.
\<close>

theorem read_int_correct:
  assumes "reading w f"
  shows "case int_text (rest w f) of (neg, ds, xs) \<Rightarrow>
    if ds = [] then pas_read_int_at wide w f = Inl (Trap ''expected an integer in the input'')
    else if int (dec_value ds) > int_limit wide then pas_read_int_at wide w f = Inl (Trap (int_what wide))
    else \<exists>w' f'. pas_read_int_at wide w f = Inr (if neg then - int (dec_value ds) else int (dec_value ds), w', f') \<and>
           reading w' f' \<and> rest w' f' = xs"
  using any_text.read_int_at [where f = f and w = w and wide = wide] assms any_text.at_ok by (fastforce split: prod.splits if_splits)

theorem read_int_correct_witness:
  "\<exists>w' f'. pas_read_int_at False world0 (pas_str_read_begin ''  -42 x'') = Inr (- 42, w', f') \<and>
     reading w' f' \<and> rest w' f' = '' x'' @ [newline]"
proof -
  have "int_text (''  -42 x'' @ [newline]) = (True, ''42'', '' x'' @ [newline])"
    by (simp add: int_text_def after_sign_def first_def is_blank_def is_digit_def Let_def)
  moreover have "dec_value ''42'' = 42" by (simp add: dec_value_def digit_value_def)
  ultimately show ?thesis
    using read_int_correct [OF example_reading(1), of False world0 "''  -42 x''"]
    by (simp add: example_reading(2) int_limit_def)
qed

text \<open>
  C36. Reading a real takes the longest number: after the blanks, the characters consumed are a
  signed-number of the standard, no longer prefix of the text is one, \<^verbatim>\<open>strtod\<close> is given exactly
  them (with a small \<^verbatim>\<open>e\<close>), and an over-read of a point, or of an \<^verbatim>\<open>e\<close> and a sign, is given back
  within the two places there are for it.
\<close>

theorem read_real_longest:
  assumes "reading w f" "few f" "\<forall>n. mem n"
    and "number_text (dropWhile is_blank (rest w f)) = (ds, t, sc, xs)" "ds \<noteq> []"
  shows "(\<exists>w' f'. pas_read_real mem strtod w f = Inr (strtod (t @ small_e sc), w', f') \<and> reading w' f' \<and> rest w' f' = xs \<and>
      few f' \<and> length (pushback f') \<le> 2) \<and>
    dropWhile is_blank (rest w f) = t @ sc @ xs \<and> signed_number (t @ sc) \<and>
    (\<forall>p q. dropWhile is_blank (rest w f) = p @ q \<longrightarrow> signed_number p \<longrightarrow> length p \<le> length (t @ sc))"
proof -
  have "\<exists>w' f'. pas_read_real mem strtod w f = Inr (strtod (t @ small_e sc), w', f') \<and> reading w' f' \<and> rest w' f' = xs \<and>
      few f' \<and> length (pushback f') \<le> 2"
    using any_text.read_real_at [where f = f and w = w and mem = mem and strtod = strtod] assms any_text.at_ok
    by (fastforce simp: few_def)
  with number_text_longest [OF assms(4,5)] show ?thesis by blast
qed

theorem read_real_longest_witness:
  "\<exists>w' f'. pas_read_real (\<lambda>_. True) (\<lambda>s. s) world0 (pas_str_read_begin ''2.5e+x'') = Inr (''2.5'', w', f') \<and>
     reading w' f' \<and> rest w' f' = ''e+x'' @ [newline] \<and> few f' \<and> length (pushback f') \<le> 2"
proof -
  have n: "number_text (dropWhile is_blank (rest world0 (pas_str_read_begin ''2.5e+x''))) = (''2'', ''2.5'', [], ''e+x'' @ [newline])"
    by (simp add: example_reading(2) is_blank_def number_text_def after_sign_def sign_of_def frac_text_def
        scale_text_def starts_digit_def is_digit_def)
  show ?thesis
    using read_real_longest [OF example_reading(1) example_reading(3) _ n, of "\<lambda>_. True" "\<lambda>s. s"]
    by (simp add: small_e_def)
qed

text \<open>
  C11. A text is read as the standard's sequence of components: \<^verbatim>\<open>eof\<close> is true exactly when nothing
  is left, \<^verbatim>\<open>eoln\<close> when a line marker is next and an error at the end, \<^verbatim>\<open>read\<close> of a character
  delivers the next one (a line marker as a space), \<^verbatim>\<open>readln\<close> passes the next line marker,
  and the read of a string takes what is on the line up to its capacity; each loses nothing
  else of the text.
\<close>

theorem text_reads_sequence:
  assumes "reading w f" "plain f"
  shows "(\<exists>w' f'. pas_eof w f = Inr (rest w f = [], w', f') \<and> reading w' f' \<and> rest w' f' = rest w f) \<and>
    (case rest w f of
        [] \<Rightarrow> pas_eoln w f = Inl (Trap ''eoln at the end of the file'') \<and>
              pas_read_char w f = Inl (Trap ''the buffer variable is undefined at end of file'') \<and>
              pas_readln w f = Inl (Trap ''readln past the end of the file'')
      | c # cs \<Rightarrow>
          (\<exists>w' f'. pas_eoln w f = Inr (c = newline, w', f') \<and> reading w' f' \<and> rest w' f' = c # cs) \<and>
          (\<exists>w' f'. pas_read_char w f = Inr (shown c, w', f') \<and> reading w' f' \<and> plain f' \<and> rest w' f' = cs) \<and>
          (\<exists>w' f'. pas_readln w f = Inr (w', f') \<and> reading w' f' \<and> rest w' f' = tl (dropWhile (\<lambda>c. c \<noteq> newline) (c # cs))) \<and>
          (\<exists>w' f'. pas_read_str cap True w f = Inr (take cap (line_of (c # cs)), w', f') \<and> reading w' f' \<and>
             rest w' f' = drop (length (take cap (line_of (c # cs)))) (c # cs)))"
proof -
  have ok: "True \<and> reading w f" using assms by simp
  have eof: "\<exists>w' f'. pas_eof w f = Inr (rest w f = [], w', f') \<and> reading w' f' \<and> rest w' f' = rest w f"
    using any_text.eof_at [OF ok] any_text.at_ok by blast
  show ?thesis
  proof (cases "rest w f")
    case Nil
    then show ?thesis using eof any_text.eoln_at [OF ok] any_text.buffer_at [OF ok assms(2)] any_text.readln_at [OF ok] by simp
  next
    case (Cons c cs)
    then show ?thesis
      using eof any_text.eoln_at [OF ok] any_text.at_ok any_text.buffer_at [OF ok assms(2)] any_text.readln_at [OF ok]
        any_text.read_str_at [OF ok, of cap True]
      by (auto simp: Let_def)
  qed
qed

theorem text_reads_sequence_witness:
  "(\<exists>w' f'. pas_eof world0 (pas_str_read_begin ''ab'') = Inr (False, w', f') \<and> reading w' f' \<and> rest w' f' = ''ab'' @ [newline]) \<and>
   (\<exists>w' f'. pas_read_char world0 (pas_str_read_begin ''ab'') = Inr (CHR ''a'', w', f') \<and> reading w' f' \<and> plain f' \<and> rest w' f' = ''b'' @ [newline])"
  using text_reads_sequence [OF example_reading(1) example_reading(4), of world0 "''ab''" 0]
  by (simp add: example_reading(2) shown_def)

text \<open>
  A line marker that was over-read is given back as a character: after the read of a real from
  \<^verbatim>\<open>1.\<close> at the end of a line, the point and then the character with the ordinal 10 are delivered,
  where a line marker is a space.
\<close>

lemma given_back_newline:
  "case pas_read_real (\<lambda>_. True) (\<lambda>s. s) world0 (pas_str_read_begin ''1.'') of Inl _ \<Rightarrow> False | Inr (s, w, f) \<Rightarrow> s = ''1'' \<and>
     (case pas_read_char w f of Inl _ \<Rightarrow> False | Inr (c, w, f) \<Rightarrow> c = CHR ''.'' \<and>
     (case pas_read_char w f of Inl _ \<Rightarrow> False | Inr (c, w, f) \<Rightarrow> c = newline))"
  by code_simp

end
