(* ===== verification/WriteText.thy ===== *)
theory WriteText
  imports ReadText
begin

text \<open>
  Writing a text: where a written character goes (a stream, or the memory a string transfer
  grows), and the write procedures for integers, characters, strings and Booleans, \<^verbatim>\<open>writeln\<close> and
  \<^verbatim>\<open>page\<close> of \<^verbatim>\<open>pasrt.c\<close>.

  A memory file keeps its bytes in \<open>m_buf\<close> and the room they have in \<open>m_at\<close>.  What the write
  procedures need of a destination is the locale \<open>char_sink\<close>; it is interpreted for the two
  destinations, and the facts about the procedures are proved in it once.  \<open>mem n\<close> is whether
  the allocator gives \<open>n\<close> bytes.
\<close>

section \<open>Where a written character goes\<close>

definition SIZE_MAX :: nat where
  "SIZE_MAX = 2 ^ 64 - 1"

abbreviation (input) C_INT_MAX :: nat where "C_INT_MAX \<equiv> 2147483647"

definition pas_out :: "pas_file \<Rightarrow> unit res" where
  "pas_out f = pas_check_open f PAS_WRITING ''writing to''"

function grow_cap :: "nat \<Rightarrow> nat \<Rightarrow> nat res" where
  "grow_cap cap want =
     (if want \<le> cap then Inr cap
      else if cap > SIZE_MAX div 2 then Inl (Trap ''writestr: too much was written to a string'')
      else if cap = 0 then Inl Diverges
      else grow_cap (cap * 2) want)"
  by auto
termination by (relation "measure (\<lambda>(cap, want). want - cap)") auto

declare grow_cap.simps [simp del]

definition pas_mem_room :: "(nat \<Rightarrow> bool) \<Rightarrow> nat \<Rightarrow> pas_file \<Rightarrow> pas_file res" where
  "pas_mem_room mem n m =
     (let want = length (m_buf m) + n + 1; cap = m_at m in
      if want \<le> cap then Inr m
      else rbind (grow_cap (if cap < 128 then 128 else cap) want) (\<lambda>cap.
        if mem cap then Inr (m\<lparr>m_at := cap\<rparr>)
        else Inl (Trap ''out of memory for a string transfer'')))"

definition pas_swrite :: "(nat \<Rightarrow> bool) \<Rightarrow> string \<Rightarrow> world \<Rightarrow> pas_file \<Rightarrow> (world \<times> pas_file) res" where
  "pas_swrite mem bytes w o' =
     (if \<not> ismem o'
      then (let (k, w1) = c_fwrite bytes w (the_fp o') in
            if bytes = [] then Inr (w, o')
            else if k \<noteq> length bytes then Inl (Trap ''cannot write to the file'') else Inr (w1, o'))
      else rbind (pas_mem_room mem (length bytes) o') (\<lambda>m. Inr (w, m\<lparr>m_buf := m_buf m @ bytes\<rparr>)))"

definition pas_sputc :: "(nat \<Rightarrow> bool) \<Rightarrow> char \<Rightarrow> world \<Rightarrow> pas_file \<Rightarrow> (world \<times> pas_file) res" where
  "pas_sputc mem c w o' =
     (if \<not> ismem o' then Inr (c_putc c w (the_fp o'), o') else pas_swrite mem [c] w o')"

text \<open>The characters a conversion produced, through the stack buffer of 256 or an allocated one.\<close>

definition pas_sprintf :: "(nat \<Rightarrow> bool) \<Rightarrow> string \<Rightarrow> world \<Rightarrow> pas_file \<Rightarrow> (world \<times> pas_file) res" where
  "pas_sprintf mem s w o' =
     (if length s > C_INT_MAX then Inl (Trap ''cannot format a value for writing'')
      else if length s \<ge> 256 \<and> \<not> mem (length s + 1)
      then Inl (Trap ''out of memory formatting a value for writing'')
      else pas_swrite mem s w o')"

definition c_pad :: "int \<Rightarrow> string \<Rightarrow> string" where
  "c_pad width s = replicate (nat width - length s) blank @ s"

section \<open>The write procedures\<close>

definition pas_write_int :: "(nat \<Rightarrow> bool) \<Rightarrow> int \<Rightarrow> int \<Rightarrow> world \<Rightarrow> pas_file \<Rightarrow> (world \<times> pas_file) res" where
  "pas_write_int mem val width w f =
     rbind (pas_out f) (\<lambda>_.
     rbind (pas_sprintf mem (if width < 0 then dec_int val else c_pad width (dec_int val)) w f)
       (\<lambda>(w, f). Inr (w, f\<lparr>atbol := False\<rparr>)))"

fun put_blanks :: "(nat \<Rightarrow> bool) \<Rightarrow> nat \<Rightarrow> world \<Rightarrow> pas_file \<Rightarrow> (world \<times> pas_file) res" where
  "put_blanks mem 0 w f = Inr (w, f)"
| "put_blanks mem (Suc k) w f = rbind (pas_sputc mem blank w f) (\<lambda>(w, f). put_blanks mem k w f)"

definition pas_write_padded :: "(nat \<Rightarrow> bool) \<Rightarrow> string \<Rightarrow> int \<Rightarrow> world \<Rightarrow> pas_file \<Rightarrow> (world \<times> pas_file) res" where
  "pas_write_padded mem s width w f =
     (if width < 0 then pas_swrite mem s w f
      else if width > int (length s)
      then rbind (put_blanks mem (nat (width - int (length s))) w f) (\<lambda>(w, f). pas_swrite mem s w f)
      else pas_swrite mem (take (nat width) s) w f)"

definition pas_write_bool :: "(nat \<Rightarrow> bool) \<Rightarrow> bool \<Rightarrow> int \<Rightarrow> world \<Rightarrow> pas_file \<Rightarrow> (world \<times> pas_file) res" where
  "pas_write_bool mem val width w f =
     rbind (pas_out f) (\<lambda>_.
     rbind (pas_write_padded mem (if val then ''TRUE'' else ''FALSE'') width w f)
       (\<lambda>(w, f). Inr (w, if width \<noteq> 0 then f\<lparr>atbol := False\<rparr> else f)))"

definition pas_write_char :: "(nat \<Rightarrow> bool) \<Rightarrow> char \<Rightarrow> int \<Rightarrow> world \<Rightarrow> pas_file \<Rightarrow> (world \<times> pas_file) res" where
  "pas_write_char mem c width w f =
     rbind (pas_out f) (\<lambda>_.
       if width = 0 then Inr (w, f)
       else rbind (if width < 0 then pas_sputc mem c w f else pas_sprintf mem (c_pad width [c]) w f)
              (\<lambda>(w, f). Inr (w, f\<lparr>atbol := False\<rparr>)))"

definition pas_write_str :: "(nat \<Rightarrow> bool) \<Rightarrow> string \<Rightarrow> int \<Rightarrow> world \<Rightarrow> pas_file \<Rightarrow> (world \<times> pas_file) res" where
  "pas_write_str mem s width w f =
     rbind (pas_out f) (\<lambda>_.
     rbind (pas_write_padded mem s width w f)
       (\<lambda>(w, f). Inr (w, if width \<noteq> 0 \<and> \<not> (width < 0 \<and> s = []) then f\<lparr>atbol := False\<rparr> else f)))"

definition pas_writeln :: "(nat \<Rightarrow> bool) \<Rightarrow> world \<Rightarrow> pas_file \<Rightarrow> (world \<times> pas_file) res" where
  "pas_writeln mem w f =
     rbind (pas_out f) (\<lambda>_. rbind (pas_sputc mem newline w f) (\<lambda>(w, f). Inr (w, f\<lparr>atbol := True\<rparr>)))"

abbreviation formfeed :: char where "formfeed \<equiv> CHR 0x0C"

definition pas_page :: "(nat \<Rightarrow> bool) \<Rightarrow> world \<Rightarrow> pas_file \<Rightarrow> (world \<times> pas_file) res" where
  "pas_page mem w f =
     rbind (pas_out f) (\<lambda>_.
     rbind (if atbol f then Inr (w, f) else pas_sputc mem newline w f) (\<lambda>(w, f).
     rbind (pas_sputc mem formfeed w f) (\<lambda>(w, f). Inr (w, f\<lparr>atbol := True, has := False\<rparr>))))"

definition pas_str_write_begin :: pas_file where
  "pas_str_write_begin = pas_str_file PAS_WRITING []"

definition pas_str_write_len :: "pas_file \<Rightarrow> int res" where
  "pas_str_write_len f =
     (if length (m_buf f) > C_INT_MAX then Inl (Trap ''writestr: too much was written to a string'')
      else Inr (int (length (m_buf f))))"

definition pas_str_write_ptr :: "pas_file \<Rightarrow> string" where
  "pas_str_write_ptr f = m_buf f"

section \<open>The interface of a destination\<close>

text \<open>
  A destination has taken the characters \<open>written\<close>; handing it more appends them, and leaves the
  rest of the file variable alone but for the memory it grows.
\<close>

definition quiet :: "world \<Rightarrow> pas_file \<Rightarrow> world \<Rightarrow> pas_file \<Rightarrow> bool" where
  "quiet w f w' g \<longleftrightarrow> (\<exists>b n. g = f\<lparr>m_buf := b, m_at := n\<rparr>) \<and> (\<forall>q. seekable (streams w' q) = seekable (streams w q))"

lemma quiet_refl: "(\<forall>q. seekable (streams w' q) = seekable (streams w q)) \<Longrightarrow> quiet w f w' f"
  by (simp add: quiet_def) (rule exI [of _ "m_buf f"], rule exI [of _ "m_at f"], simp)

lemma quiet_trans: "quiet w f w1 g \<Longrightarrow> quiet w1 g w2 h \<Longrightarrow> quiet w f w2 h"
  unfolding quiet_def by (elim conjE exE) (simp, blast)

lemma quiet_fields: "quiet w f w' g \<Longrightarrow> atbol g = atbol f \<and> fp g = fp f \<and> mode g = mode f \<and> binding g = binding f \<and>
    istext g = istext f \<and> buf g = buf f \<and> (\<forall>q. seekable (streams w' q) = seekable (streams w q))"
  by (auto simp: quiet_def)

abbreviation (input) SINK_MAX :: nat where "SINK_MAX \<equiv> 2 ^ 62"

locale char_sink =
  fixes ok :: "world \<Rightarrow> pas_file \<Rightarrow> bool" and written :: "world \<Rightarrow> pas_file \<Rightarrow> string" and mem :: "nat \<Rightarrow> bool"
  assumes frame: "fp f = fp g \<Longrightarrow> mode f = mode g \<Longrightarrow> m_buf f = m_buf g \<Longrightarrow> m_at f = m_at g \<Longrightarrow>
      ok w f = ok w g \<and> written w f = written w g"
    and writing: "ok w f \<Longrightarrow> mode f = PAS_WRITING"
    and gives: "mem n"
    and accepts: "ok w f \<Longrightarrow> length (written w f) + length s < SINK_MAX \<Longrightarrow>
      \<exists>w' f'. pas_swrite mem s w f = Inr (w', f') \<and> ok w' f' \<and> written w' f' = written w f @ s \<and> quiet w f w' f'"
    and accepts_char: "ok w f \<Longrightarrow> length (written w f) + 1 < SINK_MAX \<Longrightarrow>
      \<exists>w' f'. pas_sputc mem c w f = Inr (w', f') \<and> ok w' f' \<and> written w' f' = written w f @ [c] \<and> quiet w f w' f'"
begin

lemma frame_atbol [simp]:
  "ok w (f\<lparr>atbol := b\<rparr>) = ok w f" "written w (f\<lparr>atbol := b\<rparr>) = written w f"
  "ok w (f\<lparr>has := h\<rparr>) = ok w f" "written w (f\<lparr>has := h\<rparr>) = written w f"
  using frame [of "f\<lparr>atbol := b\<rparr>" f w] frame [of "f\<lparr>has := h\<rparr>" f w] by simp_all

lemma out_ok: "ok w f \<Longrightarrow> pas_out f = Inr ()"
  by (simp add: pas_out_def pas_check_open_def writing)

lemma sprintf_accepts:
  "ok w f \<Longrightarrow> length (written w f) + length s < SINK_MAX \<Longrightarrow> length s \<le> C_INT_MAX \<Longrightarrow>
     \<exists>w' f'. pas_sprintf mem s w f = Inr (w', f') \<and> ok w' f' \<and> written w' f' = written w f @ s \<and> quiet w f w' f'"
  using accepts [of w f s] gives by (simp add: pas_sprintf_def)

lemma put_blanks_accepts:
  "ok w f \<Longrightarrow> length (written w f) + k < SINK_MAX \<Longrightarrow>
     \<exists>w' f'. put_blanks mem k w f = Inr (w', f') \<and> ok w' f' \<and> written w' f' = written w f @ replicate k blank \<and> quiet w f w' f'"
proof (induction k arbitrary: w f)
  case (Suc k)
  from accepts_char [of w f blank] Suc.prems obtain w1 f1 where
    1: "pas_sputc mem blank w f = Inr (w1, f1)" "ok w1 f1" "written w1 f1 = written w f @ [blank]" "quiet w f w1 f1" by auto
  from Suc.IH [OF 1(2)] 1(3) Suc.prems obtain w2 f2 where
    2: "put_blanks mem k w1 f1 = Inr (w2, f2)" "ok w2 f2" "written w2 f2 = written w1 f1 @ replicate k blank" "quiet w1 f1 w2 f2"
    by auto
  with 1 quiet_trans [OF 1(4) 2(4)] show ?case by simp
qed (simp add: quiet_refl)

end

text \<open>The characters of a string in a field.\<close>

definition field :: "string \<Rightarrow> int \<Rightarrow> string" where
  "field s width =
     (if width < 0 then s else if width > int (length s) then c_pad width s else take (nat width) s)"

text \<open>
  What each write procedure appends, and that afterwards the line counts as begun exactly when
  something was written on it.
\<close>

definition appended :: "(world \<Rightarrow> pas_file \<Rightarrow> bool) \<Rightarrow> (world \<Rightarrow> pas_file \<Rightarrow> string) \<Rightarrow> world \<Rightarrow> pas_file \<Rightarrow>
    string \<Rightarrow> bool \<Rightarrow> (world \<times> pas_file) res \<Rightarrow> bool" where
  "appended okp wr w f s bol r \<longleftrightarrow>
     (\<exists>w' f'. r = Inr (w', f') \<and> okp w' f' \<and> wr w' f' = wr w f @ s \<and> atbol f' = bol \<and>
        fp f' = fp f \<and> binding f' = binding f \<and> istext f' = istext f \<and> buf f' = buf f \<and>
        (\<forall>q. seekable (streams w' q) = seekable (streams w q)))"

context char_sink
begin

lemma padded_accepts:
  assumes "ok w f" "length (written w f) + length (field s width) < SINK_MAX"
  shows "\<exists>w' f'. pas_write_padded mem s width w f = Inr (w', f') \<and> ok w' f' \<and>
    written w' f' = written w f @ field s width \<and> quiet w f w' f'"
proof (cases "width > int (length s)")
  case True
  let ?k = "nat (width - int (length s))"
  have k: "?k = nat width - length s" using True by simp
  have field: "field s width = replicate ?k blank @ s" using True by (simp add: field_def c_pad_def k)
  from put_blanks_accepts [OF assms(1), of ?k] assms(2) obtain w1 f1 where
    1: "put_blanks mem ?k w f = Inr (w1, f1)" "ok w1 f1" "written w1 f1 = written w f @ replicate ?k blank" "quiet w f w1 f1"
    by (auto simp: field)
  from accepts [OF 1(2), of s] 1(3) assms(2) obtain w2 f2 where
    2: "pas_swrite mem s w1 f1 = Inr (w2, f2)" "ok w2 f2" "written w2 f2 = written w1 f1 @ s" "quiet w1 f1 w2 f2"
    by (auto simp: field)
  with 1 True field quiet_trans [OF 1(4) 2(4)] show ?thesis by (simp add: pas_write_padded_def)
qed (use assms accepts [of w f s] accepts [of w f "take (nat width) s"] in \<open>auto simp: pas_write_padded_def field_def\<close>)

lemma write_int_appends:
  assumes "ok w f" "length (written w f) + max (nat width) (length (dec_int v)) < SINK_MAX"
    "max (nat width) (length (dec_int v)) \<le> C_INT_MAX"
  shows "appended ok written w f (if width < 0 then dec_int v else c_pad width (dec_int v)) False
    (pas_write_int mem v width w f)"
proof -
  let ?s = "if width < 0 then dec_int v else c_pad width (dec_int v)"
  have l: "length ?s = max (nat width) (length (dec_int v))" by (auto simp: c_pad_def max_def)
  from sprintf_accepts [of w f ?s] assms l obtain w' f' where
    "pas_sprintf mem ?s w f = Inr (w', f')" "ok w' f'" "written w' f' = written w f @ ?s" "quiet w f w' f'" by metis
  then show ?thesis using assms(1) quiet_fields [of w f w' f'] by (simp add: pas_write_int_def appended_def out_ok)
qed

lemma padded_appends:
  assumes "ok w f" "length (written w f) + length (field s width) < SINK_MAX"
  shows "appended ok written w f (field s width) (atbol f) (pas_write_padded mem s width w f)"
  using padded_accepts [OF assms] quiet_fields by (fastforce simp: appended_def)

lemma field_empty: "field s width = [] \<longleftrightarrow> width = 0 \<or> width < 0 \<and> s = []"
  by (auto simp: field_def c_pad_def)

lemma write_str_appends:
  assumes "ok w f" "length (written w f) + length (field s width) < SINK_MAX"
  shows "appended ok written w f (field s width) (atbol f \<and> field s width = []) (pas_write_str mem s width w f)"
  using padded_appends [OF assms] assms(1) by (auto simp: pas_write_str_def appended_def out_ok field_empty)

lemma write_bool_appends:
  assumes "ok w f" "length (written w f) + length (field (if b then ''TRUE'' else ''FALSE'') width) < SINK_MAX"
  shows "appended ok written w f (field (if b then ''TRUE'' else ''FALSE'') width) (atbol f \<and> width = 0)
    (pas_write_bool mem b width w f)"
  using padded_appends [OF assms] assms(1) unfolding pas_write_bool_def appended_def
  by (auto simp: out_ok split: if_splits)

lemma write_char_appends:
  assumes "ok w f" "length (written w f) + max (nat width) 1 < SINK_MAX" "nat width \<le> C_INT_MAX"
  shows "appended ok written w f (field [c] width) (atbol f \<and> width = 0) (pas_write_char mem c width w f)"
proof -
  have "width \<noteq> 0 \<Longrightarrow> field [c] width = (if width < 0 then [c] else c_pad width [c])"
    by (auto simp: field_def c_pad_def)
  moreover have "length (c_pad width [c]) = max (nat width) 1" by (simp add: c_pad_def)
  ultimately show ?thesis
    using assms accepts_char [of w f c] sprintf_accepts [of w f "c_pad width [c]"]
    by (auto simp: pas_write_char_def appended_def out_ok field_def [of _ 0] dest!: quiet_fields)
qed

lemma writeln_appends:
  assumes "ok w f" "length (written w f) + 1 < SINK_MAX"
  shows "appended ok written w f [newline] True (pas_writeln mem w f)"
  using assms accepts_char [of w f newline] by (auto simp: pas_writeln_def appended_def out_ok dest!: quiet_fields)

lemma page_appends:
  assumes "ok w f" "length (written w f) + 2 < SINK_MAX"
  shows "appended ok written w f (if atbol f then [formfeed] else [newline, formfeed]) True (pas_page mem w f)"
proof (cases "atbol f")
  case True
  then show ?thesis using assms accepts_char [of w f formfeed] by (auto simp: pas_page_def appended_def out_ok dest!: quiet_fields)
next
  case False
  from accepts_char [of w f newline] assms obtain w1 f1 where
    "pas_sputc mem newline w f = Inr (w1, f1)" "ok w1 f1" "written w1 f1 = written w f @ [newline]" "quiet w f w1 f1" by auto
  with accepts_char [of w1 f1 formfeed] assms False show ?thesis
    by (auto simp: pas_page_def appended_def out_ok dest!: quiet_fields)
qed

end

section \<open>The two destinations\<close>

text \<open>
  A stream positioned at its end, on a device with room; and a string transfer, whose bytes and
  the terminator after them are inside the memory it has.
\<close>

definition stream_writing :: "world \<Rightarrow> pas_file \<Rightarrow> bool" where
  "stream_writing w f \<longleftrightarrow> fp f \<noteq> None \<and> mode f = PAS_WRITING \<and> \<not> full w \<and>
     (append_mode (streams w (the_fp f)) \<or> pos (streams w (the_fp f)) = length (contents_of w (the_fp f)))"

definition memory_writing :: "world \<Rightarrow> pas_file \<Rightarrow> bool" where
  "memory_writing w f \<longleftrightarrow> fp f = None \<and> mode f = PAS_WRITING \<and> (m_buf f = [] \<or> length (m_buf f) < m_at f)"

lemma fwrite_at_end:
  assumes "stream_writing w f"
  shows "fst (c_fwrite s w (the_fp f)) = length s"
    "contents_of (snd (c_fwrite s w (the_fp f))) (the_fp f) = contents_of w (the_fp f) @ s"
    "stream_writing (snd (c_fwrite s w (the_fp f))) f"
  using assms overwrite_end [of "contents_of w (the_fp f)" s]
  by (auto simp: stream_writing_def c_fwrite_def Let_def contents_of_def)

lemma fwrite_quiet: "quiet w f (snd (c_fwrite s w p)) f"
  by (rule quiet_refl) (simp add: c_fwrite_def Let_def)

interpretation stream_sink: char_sink stream_writing "\<lambda>w f. contents_of w (the_fp f)" "\<lambda>_. True"
proof
  fix w f and s :: string
  assume "stream_writing w f"
  then show "\<exists>w' f'. pas_swrite (\<lambda>_. True) s w f = Inr (w', f') \<and> stream_writing w' f' \<and>
      contents_of w' (the_fp f') = contents_of w (the_fp f) @ s \<and> quiet w f w' f'"
    using fwrite_at_end [of w f s] fwrite_quiet [of w f s "the_fp f"] quiet_refl [of w w f]
    by (cases "c_fwrite s w (the_fp f)") (auto simp: pas_swrite_def stream_writing_def ismem_def)
next
  fix w f c
  assume "stream_writing w f"
  then show "\<exists>w' f'. pas_sputc (\<lambda>_. True) c w f = Inr (w', f') \<and> stream_writing w' f' \<and>
      contents_of w' (the_fp f') = contents_of w (the_fp f) @ [c] \<and> quiet w f w' f'"
    using fwrite_at_end [of w f "[c]"] fwrite_quiet [of w f "[c]" "the_fp f"]
    by (auto simp: pas_sputc_def c_putc_def stream_writing_def ismem_def)
qed (auto simp: stream_writing_def the_fp_def)

lemma grow_cap_enough: "0 < cap \<Longrightarrow> want \<le> SINK_MAX \<Longrightarrow> \<exists>c. grow_cap cap want = Inr c \<and> want \<le> c"
proof (induction cap want rule: grow_cap.induct)
  case (1 cap want)
  have "want \<le> cap \<or> cap \<le> SIZE_MAX div 2" using 1(3) by (auto simp: SIZE_MAX_def)
  with 1 show ?case by (subst grow_cap.simps) auto
qed

lemma mem_room_enough:
  assumes "length (m_buf f) + n < SINK_MAX"
  shows "\<exists>c. pas_mem_room (\<lambda>_. True) n f = Inr (f\<lparr>m_at := c\<rparr>) \<and> length (m_buf f) + n < c"
proof (cases "length (m_buf f) + n + 1 \<le> m_at f")
  case False
  have pos: "0 < (if m_at f < 128 then 128 else m_at f)" by simp
  from grow_cap_enough [OF pos, of "length (m_buf f) + n + 1"] assms obtain c where
    "grow_cap (if m_at f < 128 then 128 else m_at f) (length (m_buf f) + n + 1) = Inr c" "length (m_buf f) + n + 1 \<le> c"
    by auto
  with False show ?thesis by (intro exI [of _ c]) (simp add: pas_mem_room_def Let_def)
qed (auto simp: pas_mem_room_def Let_def intro!: exI [of _ "m_at f"])

lemma swrite_memory:
  assumes "memory_writing w f" "length (m_buf f) + length s < SINK_MAX"
  shows "\<exists>w' f'. pas_swrite (\<lambda>_. True) s w f = Inr (w', f') \<and> memory_writing w' f' \<and> m_buf f' = m_buf f @ s \<and> quiet w f w' f'"
proof -
  from mem_room_enough [OF assms(2)] obtain c where c: "pas_mem_room (\<lambda>_. True) (length s) f = Inr (f\<lparr>m_at := c\<rparr>)"
    "length (m_buf f) + length s < c" by blast
  then have "pas_swrite (\<lambda>_. True) s w f = Inr (w, f\<lparr>m_buf := m_buf f @ s, m_at := c\<rparr>)"
    using assms(1) by (simp add: pas_swrite_def memory_writing_def ismem_def)
  with c assms(1) show ?thesis by (auto simp: memory_writing_def quiet_def)
qed

interpretation memory_sink: char_sink memory_writing "\<lambda>w f. m_buf f" "\<lambda>_. True"
proof
  fix w f and s :: string
  assume "memory_writing w f" "length (m_buf f) + length s < SINK_MAX"
  then show "\<exists>w' f'. pas_swrite (\<lambda>_. True) s w f = Inr (w', f') \<and> memory_writing w' f' \<and> m_buf f' = m_buf f @ s \<and>
      quiet w f w' f'" by (rule swrite_memory)
next
  fix w f and c :: char
  assume "memory_writing w f" "length (m_buf f) + 1 < SINK_MAX"
  then show "\<exists>w' f'. pas_sputc (\<lambda>_. True) c w f = Inr (w', f') \<and> memory_writing w' f' \<and> m_buf f' = m_buf f @ [c] \<and>
      quiet w f w' f'"
    using swrite_memory [of w f "[c]"] by (simp add: pas_sputc_def memory_writing_def ismem_def)
qed (auto simp: memory_writing_def)

text \<open>A text being written, wherever its characters go.\<close>

definition writing_to :: "world \<Rightarrow> pas_file \<Rightarrow> bool" where
  "writing_to w f \<longleftrightarrow> (if ismem f then memory_writing w f else stream_writing w f)"

definition written :: "world \<Rightarrow> pas_file \<Rightarrow> string" where
  "written w f = (if ismem f then m_buf f else contents_of w (the_fp f))"

interpretation any_sink: char_sink writing_to written "\<lambda>_. True"
proof
  fix w f and s :: string
  assume "writing_to w f" "length (written w f) + length s < SINK_MAX"
  then show "\<exists>w' f'. pas_swrite (\<lambda>_. True) s w f = Inr (w', f') \<and> writing_to w' f' \<and> written w' f' = written w f @ s \<and>
      quiet w f w' f'"
    using stream_sink.accepts [of w f s] memory_sink.accepts [of w f s] quiet_fields [of w f]
    by (fastforce simp: writing_to_def written_def ismem_def)
next
  fix w f c
  assume "writing_to w f" "length (written w f) + 1 < SINK_MAX"
  then show "\<exists>w' f'. pas_sputc (\<lambda>_. True) c w f = Inr (w', f') \<and> writing_to w' f' \<and> written w' f' = written w f @ [c] \<and>
      quiet w f w' f'"
    using stream_sink.accepts_char [of w f c] memory_sink.accepts_char [of w f c] quiet_fields [of w f]
    by (fastforce simp: writing_to_def written_def ismem_def)
qed (auto simp: writing_to_def written_def ismem_def memory_writing_def stream_writing_def the_fp_def split: if_splits)

section \<open>An auxiliary file is new and empty\<close>

definition fresh_stream :: "world \<Rightarrow> fid \<Rightarrow> bool" where
  "fresh_stream w p \<longleftrightarrow> contents_of w p = [] \<and> pos (streams w p) = 0 \<and> seekable (streams w p) \<and>
     \<not> append_mode (streams w p) \<and> is_open (streams w p)"

lemma fopen_exclusive:
  "c_fopen name OpenExclusive w = Some (p, w') \<Longrightarrow> fresh_stream w' p \<and> full w' = full w \<and> names w name = None"
  by (auto simp: c_fopen_def new_stream_def new_file_def fresh_stream_def contents_of_def split: option.splits if_splits)

lemma remove_fresh: "c_remove name w = Some w' \<Longrightarrow> fresh_stream w' p = fresh_stream w p \<and> full w' = full w"
  by (auto simp: c_remove_def fresh_stream_def contents_of_def split: if_splits)

lemma tmp_dir_fresh: "pas_tmp_dir k d w = (r, w') \<Longrightarrow> full w' = full w \<and> (case r of None \<Rightarrow> True | Some p \<Rightarrow> fresh_stream w' p)"
proof (induction k arbitrary: w)
  case (Suc k)
  let ?n = "fst (pas_temp_tick w)" and ?w = "snd (pas_temp_tick w)"
  let ?name = "d @ ''/pas-aux-'' @ hex_pad 8 (?n mod 2 ^ 32)"
  have f: "full ?w = full w" by (simp add: pas_temp_tick_def Let_def)
  show ?case
  proof (cases "c_fopen ?name OpenExclusive ?w")
    case None
    then show ?thesis using Suc f by (simp add: Let_def split: prod.splits)
  next
    case (Some pw)
    obtain p w1 where pw: "pw = (p, w1)" by (cases pw)
    with Some have 1: "fresh_stream w1 p \<and> full w1 = full ?w" using fopen_exclusive by blast
    show ?thesis
    proof (cases "c_remove ?name w1")
      case None
      then show ?thesis using Suc.prems Some pw 1 f
        by (auto simp: Let_def c_fclose_def split: prod.splits option.splits)
    next
      case (Some w2)
      then show ?thesis using Suc.prems \<open>c_fopen ?name OpenExclusive ?w = Some pw\<close> pw 1 f remove_fresh [OF Some, of p]
        by (auto simp: Let_def split: prod.splits)
    qed
  qed
qed simp

lemma tmpfile_fresh: "pas_tmpfile w = (Some p, w') \<Longrightarrow> fresh_stream w' p \<and> full w' = full w"
  using tmp_dir_fresh [of PAS_TMP_TRIES "''/tmp''" w] tmp_dir_fresh [of PAS_TMP_TRIES "''.''"]
  by (fastforce simp: pas_tmpfile_def split: prod.splits option.splits)

section \<open>What is written can be read\<close>

lemma rewrite_internal:
  assumes "pas_rewrite w f = Inr (w', f')" "binding f = PAS_BIND_INTERNAL" "\<not> full w"
  shows "stream_writing w' f' \<and> contents_of w' (the_fp f') = [] \<and> seekable (streams w' (the_fp f')) \<and> fp f' \<noteq> None \<and>
    binding f' = PAS_BIND_INTERNAL \<and> istext f' = istext f \<and> buf f' = buf f"
proof -
  let ?g = "f\<lparr>has := False, lookahead := None, ateof := False, ch := blank, pushback := []\<rparr>"
  have w: "full (close_if_open w ?g) = full w" by (simp add: close_if_open_def c_fclose_def split: option.splits)
  from assms obtain p where "pas_tmpfile (close_if_open w ?g) = (Some p, w')"
    "f' = ?g\<lparr>fp := Some p, atbol := True, mode := PAS_WRITING\<rparr>"
    by (auto simp: pas_rewrite_def Let_def fresh_aux_def rbind_eq_Inr split: prod.splits option.splits)
  then show ?thesis using tmpfile_fresh [of "close_if_open w ?g" p w'] w assms
    by (auto simp: stream_writing_def fresh_stream_def the_fp_def)
qed

lemma reset_internal:
  assumes "fp f = Some p" "binding f = PAS_BIND_INTERNAL" "seekable (streams w p)" "istext f" "buf f = None"
  shows "\<exists>w' f'. pas_reset w f = Inr (w', f') \<and> reading w' f' \<and> rest w' f' = complete True (contents_of w p)"
proof -
  let ?g = "f\<lparr>has := False, lookahead := None, ateof := False, ch := blank, atbol := True, pushback := [], mode := PAS_READING\<rparr>"
  have "pas_reset w f = Inr (set_pos p 0 w, ?g)" using assms by (simp add: pas_reset_def Let_def c_rewind_def c_fseek_def)
  moreover have "source (set_pos p 0 w) ?g = contents_of w p"
    using assms(1) by (simp add: source_def ismem_def the_fp_def ahead_def)
  ultimately show ?thesis using assms by (auto simp: reading_of_def rest_of_def seen_def)
qed

lemma takeWhile_dec_nat: "takeWhile is_digit (dec_nat n @ [newline]) = dec_nat n" "dropWhile is_digit (dec_nat n @ [newline]) = [newline]"
  using dec_nat_digits [of n] by (auto simp: list_all_iff is_digit_def [of newline])

lemma hd_dec_nat: "\<exists>c cs. dec_nat n = c # cs \<and> is_digit c"
  using dec_nat_digits [of n] by (cases "dec_nat n") auto

lemma int_text_dec_int: "int_text (replicate k blank @ dec_int v @ [newline]) = (v < 0, dec_nat (nat \<bar>v\<bar>), [newline])"
proof -
  have b: "dropWhile is_blank (replicate k blank @ ys) = dropWhile is_blank ys" for ys
    by (induction k) (simp_all add: is_blank_def)
  obtain c cs where c: "dec_nat (nat \<bar>v\<bar>) = c # cs" "is_digit c" using hd_dec_nat by blast
  have d: "\<not> is_blank c" "c \<noteq> CHR ''+''" "c \<noteq> CHR ''-''" using c(2) by (auto simp: is_blank_def is_digit_def)
  show ?thesis
  proof (cases "v < 0")
    case True
    then have "dec_int v = CHR ''-'' # dec_nat (nat \<bar>v\<bar>)" by (simp add: dec_int_def)
    with True takeWhile_dec_nat [of "nat \<bar>v\<bar>"] show ?thesis
      by (simp add: int_text_def b is_blank_def [of "CHR ''-''"] after_sign_def first_def)
  next
    case False
    then have "dec_int v = c # cs" using c by (simp add: dec_int_def)
    with False c d takeWhile_dec_nat [of "nat \<bar>v\<bar>"] show ?thesis
      by (simp add: int_text_def b after_sign_def first_def Let_def)
  qed
qed

lemma read_back:
  assumes "reading w f" "rest w f = replicate k blank @ dec_int v @ [newline]" "\<bar>v\<bar> \<le> int_limit wide"
  shows "\<exists>w' f'. pas_read_int_at wide w f = Inr (v, w', f') \<and> rest w' f' = [newline]"
proof -
  have "int (dec_value (dec_nat (nat \<bar>v\<bar>))) = \<bar>v\<bar>" by simp
  with any_text.read_int_at [where f = f and w = w and wide = wide] assms any_text.at_ok show ?thesis
    by (auto simp: int_text_dec_int)
qed

lemma dec_int_length: "\<bar>v\<bar> \<le> int_limit wide \<Longrightarrow> length (dec_int v) \<le> 20"
proof -
  assume "\<bar>v\<bar> \<le> int_limit wide"
  then have "nat \<bar>v\<bar> < 10 ^ 19" by (auto simp: int_limit_def split: if_splits)
  then have "length (dec_nat (nat \<bar>v\<bar>)) \<le> 19" by (rule dec_nat_length [rotated]) simp
  then show ?thesis by (auto simp: dec_int_def abs_if split: if_splits)
qed

lemma write_int_padding: "\<exists>k. (if width < 0 then dec_int v else c_pad width (dec_int v)) = replicate k blank @ dec_int v"
  by (auto simp: c_pad_def intro: exI [of _ 0])

section \<open>Properties\<close>

text \<open>
  C22. Every write procedure appends exactly the field the standard describes: an integer is padded
  on the left and never cut, a string, a character and a Boolean are padded or cut to the field
  width and vanish in a field of zero, \<^verbatim>\<open>writeln\<close> ends the line, and \<^verbatim>\<open>page\<close> ends it first exactly
  when something is on it; the flag that says so follows what was written, and nothing else of
  the file variable changes.  This holds of a stream and of the memory of a string transfer,
  whose bytes never outgrow the memory it has.
\<close>

theorem write_fields:
  assumes "writing_to w f" "length (written w f) + max (nat width) (length s + 20) < SINK_MAX" "nat width \<le> C_INT_MAX"
    and "\<bar>v\<bar> \<le> int_limit wide"
  shows "appended writing_to written w f (if width < 0 then dec_int v else c_pad width (dec_int v)) False
      (pas_write_int (\<lambda>_. True) v width w f) \<and>
    appended writing_to written w f (field s width) (atbol f \<and> field s width = []) (pas_write_str (\<lambda>_. True) s width w f) \<and>
    appended writing_to written w f (field [c] width) (atbol f \<and> width = 0) (pas_write_char (\<lambda>_. True) c width w f) \<and>
    appended writing_to written w f (field (if b then ''TRUE'' else ''FALSE'') width) (atbol f \<and> width = 0)
      (pas_write_bool (\<lambda>_. True) b width w f) \<and>
    appended writing_to written w f [newline] True (pas_writeln (\<lambda>_. True) w f) \<and>
    appended writing_to written w f (if atbol f then [formfeed] else [newline, formfeed]) True (pas_page (\<lambda>_. True) w f)"
proof -
  have l: "length (field t width) \<le> max (nat width) (length t)" for t by (auto simp: field_def c_pad_def)
  have d: "length (dec_int v) \<le> 20" using assms(4) by (rule dec_int_length)
  have n: "length (written w f) + max (nat width) (length (dec_int v)) < SINK_MAX"
    "max (nat width) (length (dec_int v)) \<le> C_INT_MAX"
    "length (written w f) + length (field s width) < SINK_MAX" "length (written w f) + max (nat width) 1 < SINK_MAX"
    "length (written w f) + length (field (if b then ''TRUE'' else ''FALSE'') width) < SINK_MAX"
    "length (written w f) + 1 < SINK_MAX" "length (written w f) + 2 < SINK_MAX"
    using assms(2,3) d l [of s] l [of "if b then ''TRUE'' else ''FALSE''"] by (auto split: if_splits)
  show ?thesis
    using any_sink.write_int_appends [OF assms(1) n(1,2)] any_sink.write_str_appends [OF assms(1) n(3)]
      any_sink.write_char_appends [OF assms(1) n(4) assms(3)] any_sink.write_bool_appends [OF assms(1) n(5)]
      any_sink.writeln_appends [OF assms(1) n(6)] any_sink.page_appends [OF assms(1) n(7)] by blast
qed

lemma str_writing: "writing_to w pas_str_write_begin" "written w pas_str_write_begin = []"
  by (simp_all add: writing_to_def written_def memory_writing_def pas_str_write_begin_def pas_str_file_def ismem_def)

theorem write_fields_witness:
  "appended writing_to written world0 pas_str_write_begin '' -7'' False (pas_write_int (\<lambda>_. True) (- 7) 3 world0 pas_str_write_begin) \<and>
   appended writing_to written world0 pas_str_write_begin ''abc'' False (pas_write_str (\<lambda>_. True) ''abcd'' 3 world0 pas_str_write_begin)"
proof -
  have d: "dec_int (- 7) = ''-7''" by code_simp
  show ?thesis
    using write_fields [OF str_writing(1), of world0 3 "''abcd''" "- 7" False "CHR ''x''" True]
    by (simp add: str_writing(2) int_limit_def c_pad_def field_def d)
qed

text \<open>
  An integer survives a file: an internal text that is rewritten, given an integer in any
  field width and an end of line, and reset, is read back as the integer that was written.
\<close>

lemma integer_roundtrip:
  assumes "pas_rewrite w f = Inr (w1, f1)" "binding f = PAS_BIND_INTERNAL" "istext f" "buf f = None" "\<not> full w"
    and "\<bar>v\<bar> \<le> int_limit wide" "nat width \<le> C_INT_MAX"
  shows "\<exists>w2 f2 w3 f3 w4 f4 w5 f5. pas_write_int (\<lambda>_. True) v width w1 f1 = Inr (w2, f2) \<and>
    pas_writeln (\<lambda>_. True) w2 f2 = Inr (w3, f3) \<and> pas_reset w3 f3 = Inr (w4, f4) \<and>
    pas_read_int_at wide w4 f4 = Inr (v, w5, f5)"
proof -
  let ?s = "if width < 0 then dec_int v else c_pad width (dec_int v)"
  let ?wr = "\<lambda>w f. contents_of w (the_fp f)"
  note 1 = rewrite_internal [OF assms(1,2,5)]
  have d: "length (dec_int v) \<le> 20" using assms(6) by (rule dec_int_length)
  have l: "length ?s \<le> C_INT_MAX" using d assms(7) by (auto simp: c_pad_def)
  from stream_sink.write_int_appends [of w1 f1 width v] 1 d assms(7) obtain w2 f2 where
    2: "pas_write_int (\<lambda>_. True) v width w1 f1 = Inr (w2, f2)" "stream_writing w2 f2" "?wr w2 f2 = ?s"
       "fp f2 = fp f1" "binding f2 = binding f1" "istext f2 = istext f1" "buf f2 = buf f1"
       "\<forall>q. seekable (streams w2 q) = seekable (streams w1 q)" by (auto simp: appended_def)
  from stream_sink.writeln_appends [OF 2(2)] 2(3) l obtain w3 f3 where
    3: "pas_writeln (\<lambda>_. True) w2 f2 = Inr (w3, f3)" "?wr w3 f3 = ?s @ [newline]"
       "fp f3 = fp f2" "binding f3 = binding f2" "istext f3 = istext f2" "buf f3 = buf f2"
       "\<forall>q. seekable (streams w3 q) = seekable (streams w2 q)" by (auto simp: appended_def)
  obtain p where p: "fp f3 = Some p" using 1 2(4) 3(3) by auto
  then have t: "the_fp f3 = p" "the_fp f1 = p" using 2(4) 3(3) by (auto simp: the_fp_def)
  have f3: "binding f3 = PAS_BIND_INTERNAL" "seekable (streams w3 p)" "istext f3" "buf f3 = None" "contents_of w3 p = ?s @ [newline]"
    using 1 2(4-8) 3(2-7) t assms(3,4) by simp_all
  from reset_internal [OF p f3(1-4)] obtain w4 f4 where
    4: "pas_reset w3 f3 = Inr (w4, f4)" "reading w4 f4" "rest w4 f4 = complete True (?s @ [newline])"
    unfolding f3(5) by blast
  obtain k where k: "?s = replicate k blank @ dec_int v" using write_int_padding by metis
  have "rest w4 f4 = replicate k blank @ dec_int v @ [newline]" unfolding 4(3) k by (simp add: complete_def)
  from read_back [OF 4(2) this assms(6)] 2(1) 3(1) 4(1) show ?thesis by blast
qed

definition example_file :: pas_file where
  "example_file = (case pas_file_init True PAS_BIND_INTERNAL 0 None 1 True False 0 of Inr f \<Rightarrow> f | Inl _ \<Rightarrow> pas_str_file PAS_CLOSED [])"

lemma integer_roundtrip_witness:
  "\<exists>w1 f1 w2 f2 w3 f3 w4 f4 w5 f5. pas_rewrite world0 example_file = Inr (w1, f1) \<and>
    pas_write_int (\<lambda>_. True) (- 120) 6 w1 f1 = Inr (w2, f2) \<and>
    pas_writeln (\<lambda>_. True) w2 f2 = Inr (w3, f3) \<and> pas_reset w3 f3 = Inr (w4, f4) \<and>
    pas_read_int_at False w4 f4 = Inr (- 120, w5, f5)"
proof -
  have f: "binding example_file = PAS_BIND_INTERNAL" "istext example_file" "buf example_file = None" "fp example_file = None"
    by (simp_all add: example_file_def pas_file_init_def)
  have tries: "PAS_TMP_TRIES = Suc 31" by (simp add: PAS_TMP_TRIES_def)
  have "\<exists>p w. pas_tmp_dir (Suc k) ''/tmp'' world0 = (Some p, w)" for k
    by (simp add: pas_temp_tick_def c_fopen_def new_file_def new_stream_def c_remove_def world0_def Let_def)
  from this [of 31] obtain p w where "pas_tmp_dir PAS_TMP_TRIES ''/tmp'' world0 = (Some p, w)" unfolding tries by blast
  then have "pas_tmpfile world0 = (Some p, w)" by (simp add: pas_tmpfile_def)
  then have "\<exists>w1 f1. pas_rewrite world0 example_file = Inr (w1, f1)"
    by (simp add: pas_rewrite_def f close_if_open_def fresh_aux_def)
  then obtain w1 f1 where r: "pas_rewrite world0 example_file = Inr (w1, f1)" by blast
  show ?thesis using integer_roundtrip [OF r f(1-3), of "- 120" False 6] r
    by (simp add: world0_def int_limit_def)
qed

end
