(* ===== verification/WriteReal.thy ===== *)
theory WriteReal
  imports Complex_Main WriteText
begin

text \<open>
  Writing a real (\<^verbatim>\<open>pas_write_real\<close> and its rounding, \<^verbatim>\<open>pasrt.c\<close>).

  A finite \<^verbatim>\<open>double\<close> is a sign, a significand and a power of two; \<^verbatim>\<open>printf\<close> with enough digits writes
  its exact decimal expansion, and the code rounds that expansion itself, half away from zero.
  The buffers of the source are lists as long as the source makes them; a read that leaves the
  bytes that were put there is \<open>Undefined\<close>.
\<close>

datatype double = Finite bool nat int | Infinite bool | Not_a_number bool

definition is_double :: "nat \<Rightarrow> int \<Rightarrow> bool" where
  "is_double m e \<longleftrightarrow> m < 2 ^ 53 \<and> - 1074 \<le> e \<and> e \<le> 971"

definition PAS_EXACT_FRAC :: nat where "PAS_EXACT_FRAC = 1074"

definition PAS_REALBUF :: nat where "PAS_REALBUF = 1450"

definition PAS_EXACT_SIG :: nat where "PAS_EXACT_SIG = 767"

abbreviation (input) NUL :: char where "NUL \<equiv> CHR 0x00"

section \<open>What printf writes\<close>

text \<open>
  The magnitude of a finite double in units of \<open>10\<^sup>-\<^sup>p\<close>, exact when \<open>p\<close> is at least the number
  of binary places.
\<close>

definition scaled :: "nat \<Rightarrow> nat \<Rightarrow> int \<Rightarrow> nat" where
  "scaled p m e = (if e \<ge> 0 then m * 2 ^ nat e * 10 ^ p else m * 10 ^ p div 2 ^ nat (- e))"

fun dec_pad :: "nat \<Rightarrow> nat \<Rightarrow> string" where
  "dec_pad 0 n = []"
| "dec_pad (Suc k) n = dec_pad k (n div 10) @ [digit_char (n mod 10)]"

text \<open>The conversion \<^verbatim>\<open>f\<close> with \<open>p\<close> places.\<close>

definition c_fixed :: "nat \<Rightarrow> nat \<Rightarrow> int \<Rightarrow> string" where
  "c_fixed p m e = (let n = scaled p m e in dec_nat (n div 10 ^ p) @ ''.'' @ dec_pad p (n mod 10 ^ p))"

text \<open>
  The conversion \<^verbatim>\<open>e\<close> with \<^const>\<open>PAS_EXACT_SIG\<close> places: its digits without the point and its exponent.
\<close>

definition c_digits :: "nat \<Rightarrow> int \<Rightarrow> string" where
  "c_digits m e = (if m = 0 then replicate (Suc PAS_EXACT_SIG) (CHR ''0'')
     else take (Suc PAS_EXACT_SIG) (dec_nat (scaled PAS_EXACT_FRAC m e) @ replicate (Suc PAS_EXACT_SIG) (CHR ''0'')))"

definition c_exponent :: "nat \<Rightarrow> int \<Rightarrow> int" where
  "c_exponent m e = (if m = 0 then 0
     else int (length (dec_nat (scaled PAS_EXACT_FRAC m e))) - 1 - int PAS_EXACT_FRAC)"

text \<open>An exponent as the conversion writes it, with a sign and at least two digits.\<close>

definition c_exp_text :: "int \<Rightarrow> string" where
  "c_exp_text x = (if x < 0 then ''-'' else ''+'') @ (if \<bar>x\<bar> < 10 then ''0'' else []) @ dec_nat (nat \<bar>x\<bar>)"

definition nonfinite_text :: "bool \<Rightarrow> double \<Rightarrow> string" where
  "nonfinite_text upper v =
     (case v of
        Infinite neg \<Rightarrow> (if neg then ''-'' else []) @ (if upper then ''INF'' else ''inf'')
      | Not_a_number neg \<Rightarrow> (if neg then ''-'' else []) @ (if upper then ''NAN'' else ''nan'')
      | Finite _ _ _ \<Rightarrow> [])"

section \<open>Rounding half up\<close>

text \<open>The loop from the last kept digit to the first, on the digits reversed.\<close>

fun carry_up :: "string \<Rightarrow> string \<times> bool" where
  "carry_up [] = ([], True)"
| "carry_up (c # cs) =
     (if c \<noteq> CHR ''9'' then (char_of (of_char c + 1 :: nat) # cs, False)
      else (case carry_up cs of (r, k) \<Rightarrow> (CHR ''0'' # r, k)))"

definition pas_round_half_up :: "string \<Rightarrow> nat \<Rightarrow> string \<times> bool" where
  "pas_round_half_up d keep =
     (if keep \<ge> length d then (d, False)
      else if (of_char (d ! keep) :: nat) < of_char (CHR ''5'') then (take keep d, False)
      else (case carry_up (rev (take keep d)) of (r, k) \<Rightarrow> (rev r, k)))"

definition pas_digits_all_zero :: "string \<Rightarrow> bool" where
  "pas_digits_all_zero d = list_all (\<lambda>c. c = CHR ''0'') d"

section \<open>The fixed-point form\<close>

text \<open>
  The digits in the buffer, the point closed up, and how many stand before it: the spare slot,
  then what \<^verbatim>\<open>snprintf\<close> left of the conversion in the bytes it was given.
\<close>

definition fixed_buf :: "nat \<Rightarrow> nat \<Rightarrow> int \<Rightarrow> string \<times> nat" where
  "fixed_buf prec m e =
     (let want = max (prec + 1) PAS_EXACT_FRAC;
          txt = take (PAS_REALBUF - 2) (c_fixed want m e);
          ip = takeWhile (\<lambda>c. c \<noteq> CHR ''.'') txt in
      (CHR ''0'' # ip @ drop (Suc (length ip)) txt, Suc (length ip)))"

fun strip_zeros :: "nat \<Rightarrow> string \<Rightarrow> nat \<times> string" where
  "strip_zeros (Suc (Suc n)) (c # cs) = (if c = CHR ''0'' then strip_zeros (Suc n) cs else (Suc (Suc n), c # cs))"
| "strip_zeros n cs = (n, cs)"

text \<open>\<open>k\<close> bytes of the buffer: after the digits stand two terminators, and then it ends.\<close>

definition buf_bytes :: "nat \<Rightarrow> string \<Rightarrow> string res" where
  "buf_bytes k ds = (if k \<le> length ds + 2 then Inr (take k (ds @ [NUL, NUL])) else Inl Undefined)"

definition write_fixed :: "(nat \<Rightarrow> bool) \<Rightarrow> bool \<Rightarrow> nat \<Rightarrow> int \<Rightarrow> int \<Rightarrow> nat \<Rightarrow> world \<Rightarrow> pas_file \<Rightarrow> (world \<times> pas_file) res" where
  "write_fixed mem neg m e width prec w f =
     (let (d0, ilen0) = fixed_buf prec m e;
          (d1, _) = pas_round_half_up d0 (ilen0 + prec);
          (ilen, ip) = strip_zeros ilen0 d1;
          negative = (neg \<and> m > 0 \<and> \<not> pas_digits_all_zero ip);
          minChars = ilen + prec + 1 + (if negative then 1 else 0) in
      rbind (put_blanks mem (nat (width - int minChars)) w f) (\<lambda>(w, f).
      rbind (if negative then pas_sputc mem (CHR ''-'') w f else Inr (w, f)) (\<lambda>(w, f).
      rbind (pas_swrite mem (take ilen ip) w f) (\<lambda>(w, f).
      rbind (pas_sputc mem (CHR ''.'') w f) (\<lambda>(w, f).
      rbind (buf_bytes prec (drop ilen ip)) (\<lambda>frac. pas_swrite mem frac w f))))))"

section \<open>The floating-point form\<close>

definition exp_digits :: "int \<Rightarrow> nat" where
  "exp_digits x = (if x \<ge> 100 \<or> x \<le> - 100 then 3 else 2)"

definition act_width :: "int \<Rightarrow> nat \<Rightarrow> int" where
  "act_width width xd = (let a = (if width < 0 then int xd + 17 else width) in
     if a < int xd + 6 then int xd + 6 else a)"

text \<open>
  After the digits stand the terminator twice, then the exponent \<^verbatim>\<open>snprintf\<close> wrote and its
  terminator; nothing was put into the bytes after that.
\<close>

definition sig_bytes :: "nat \<Rightarrow> string \<Rightarrow> int \<Rightarrow> string res" where
  "sig_bytes k ds x =
     (let bytes = ds @ [NUL, NUL] @ c_exp_text x @ [NUL] in
      if k \<le> length bytes then Inr (take k bytes) else Inl Undefined)"

definition write_floating :: "(nat \<Rightarrow> bool) \<Rightarrow> bool \<Rightarrow> nat \<Rightarrow> int \<Rightarrow> int \<Rightarrow> world \<Rightarrow> pas_file \<Rightarrow> (world \<times> pas_file) res" where
  "write_floating mem neg m e width w f =
     (let ds = c_digits m e;
          x0 = c_exponent m e;
          xd0 = exp_digits x0;
          decPlaces = nat (act_width width xd0 - int xd0 - 5);
          (r, carried) = pas_round_half_up ds (1 + decPlaces);
          dig = (if carried then CHR ''1'' # r else r);
          x = (if carried then x0 + 1 else x0);
          xd = (if carried \<and> (x \<ge> 100 \<or> x \<le> - 100) then 3 else xd0);
          negative = (neg \<and> m > 0 \<and> \<not> pas_digits_all_zero dig) in
      rbind (pas_sputc mem (if negative then CHR ''-'' else blank) w f) (\<lambda>(w, f).
      rbind (pas_sputc mem (hd dig) w f) (\<lambda>(w, f).
      rbind (pas_sputc mem (CHR ''.'') w f) (\<lambda>(w, f).
      rbind (sig_bytes decPlaces (tl dig) x0) (\<lambda>frac.
      rbind (pas_swrite mem frac w f) (\<lambda>(w, f).
      rbind (pas_sputc mem (CHR ''E'') w f) (\<lambda>(w, f).
      rbind (pas_sputc mem (if x < 0 then CHR ''-'' else CHR ''+'') w f) (\<lambda>(w, f).
        pas_sprintf mem (replicate (xd - length (dec_nat (nat \<bar>x\<bar>))) (CHR ''0'') @ dec_nat (nat \<bar>x\<bar>)) w f))))))))"

definition pas_write_real :: "(nat \<Rightarrow> bool) \<Rightarrow> double \<Rightarrow> int \<Rightarrow> int \<Rightarrow> world \<Rightarrow> pas_file \<Rightarrow> (world \<times> pas_file) res" where
  "pas_write_real mem val width prec w f =
     rbind (pas_out f) (\<lambda>_.
       let f = f\<lparr>atbol := False\<rparr> in
       case val of
         Finite neg m e \<Rightarrow>
           (if prec \<ge> 0 then
              (if prec = 2147483647 then Inl Undefined else write_fixed mem neg m e width (nat prec) w f)
            else write_floating mem neg m e width w f)
       | _ \<Rightarrow>
           (if prec \<ge> 0
            then pas_sprintf mem (if width < 0 then nonfinite_text False val else c_pad width (nonfinite_text False val)) w f
            else pas_sprintf mem
                   (let t = nonfinite_text True val in
                    c_pad (act_width width 2) (if hd t = CHR ''-'' then t else blank # t)) w f))"

section \<open>Digit strings and their values\<close>

lemma dec_value_append: "dec_value (xs @ ys) = dec_value xs * 10 ^ length ys + dec_value ys"
proof -
  have "foldl (\<lambda>a c. a * 10 + digit_value c) a ys = a * 10 ^ length ys + foldl (\<lambda>a c. a * 10 + digit_value c) 0 ys" for a
    by (induction ys rule: rev_induct) (simp_all add: algebra_simps)
  then show ?thesis unfolding dec_value_def foldl_append .
qed

lemma dec_value_snoc: "dec_value (xs @ [c]) = dec_value xs * 10 + digit_value c"
  by (simp add: dec_value_def)

lemma dec_value_Nil [simp]: "dec_value [] = 0"
  by (simp add: dec_value_def)

lemma dec_value_Cons: "dec_value (c # cs) = digit_value c * 10 ^ length cs + dec_value cs"
  using dec_value_append [of "[c]" cs] by (simp add: dec_value_def)

lemma dec_value_less: "list_all is_digit ds \<Longrightarrow> dec_value ds < 10 ^ length ds"
proof (induction ds rule: rev_induct)
  case (snoc c ds)
  then show ?case using digit_value_bound [of c] by (auto simp: dec_value_snoc)
qed simp

lemma digit_zero: "digit_value (CHR ''0'') = 0" "is_digit (CHR ''0'')" "digit_char 0 = CHR ''0''"
  by code_simp+

lemma digit_value_0: "is_digit c \<Longrightarrow> digit_value c = 0 \<longleftrightarrow> c = CHR ''0''"
  using digit_char_value [of c] digit_zero by metis

lemma dec_pad_props: "length (dec_pad k n) = k" "list_all is_digit (dec_pad k n)" "dec_value (dec_pad k n) = n mod 10 ^ k"
proof (induction k arbitrary: n)
  case (Suc k)
  { case 1 show ?case using Suc(1) by simp }
  { case 2 show ?case using Suc(2) by simp }
  { case 3 show ?case using Suc(3) [of "n div 10"] by (simp add: dec_value_snoc mod_mult2_eq) }
qed simp_all

lemma dec_pad_value: "list_all is_digit ds \<Longrightarrow> dec_pad (length ds) (dec_value ds) = ds"
proof (induction ds rule: rev_induct)
  case (snoc c ds)
  then show ?case using digit_value_bound [of c] by (auto simp: dec_value_snoc digit_char_value)
qed simp

lemma dec_nat_value: "list_all is_digit ds \<Longrightarrow> ds \<noteq> [] \<Longrightarrow> length ds = 1 \<or> hd ds \<noteq> CHR ''0'' \<Longrightarrow> dec_nat (dec_value ds) = ds"
proof (induction ds rule: rev_induct)
  case (snoc c ds)
  show ?case
  proof (cases "ds = []")
    case True
    with snoc.prems digit_value_bound [of c] show ?thesis by (simp add: dec_value_Cons dec_nat_small digit_char_value)
  next
    case False
    then obtain d rs where ds: "ds = d # rs" by (cases ds) auto
    have d: "is_digit d" "d \<noteq> CHR ''0''" using snoc.prems ds by auto
    then have "digit_value d > 0" using digit_value_0 by auto
    then have "dec_value ds > 0" by (simp add: ds dec_value_Cons)
    moreover have "dec_nat (dec_value ds) = ds" using snoc.IH snoc.prems ds d by auto
    ultimately show ?thesis using snoc.prems digit_value_bound [of c]
      by (subst dec_nat.simps) (simp add: dec_value_snoc digit_char_value)
  qed
qed simp

lemma dec_value_zero: "list_all is_digit ds \<Longrightarrow> dec_value ds = 0 \<longleftrightarrow> pas_digits_all_zero ds"
  by (induction ds) (auto simp: dec_value_Cons pas_digits_all_zero_def digit_value_0 digit_zero)

lemma dec_value_take: "list_all is_digit ds \<Longrightarrow> k \<le> length ds \<Longrightarrow> dec_value (take k ds) = dec_value ds div 10 ^ (length ds - k)"
proof -
  assume "list_all is_digit ds" "k \<le> length ds"
  then have "dec_value ds = dec_value (take k ds) * 10 ^ (length ds - k) + dec_value (drop k ds)"
    "dec_value (drop k ds) < 10 ^ (length ds - k)"
    using dec_value_append [of "take k ds" "drop k ds"] dec_value_less [of "drop k ds"]
    by (simp_all add: list_all_iff) (meson in_set_dropD)
  then show ?thesis by simp
qed

section \<open>Rounding is rounding\<close>

lemma nine: "is_digit c \<Longrightarrow> c \<noteq> CHR ''9'' \<Longrightarrow> is_digit (char_of (of_char c + 1 :: nat)) \<and> digit_value (char_of (of_char c + 1 :: nat)) = digit_value c + 1"
proof -
  assume c: "is_digit c" "c \<noteq> CHR ''9''"
  have "char_of (57 :: nat) = CHR ''9''" by code_simp
  then have "(of_char c :: nat) \<noteq> 57" using c(2) by (metis char_of_char)
  then show ?thesis using c by (auto simp: is_digit_def digit_value_def)
qed

lemma carry_up_value:
  "list_all is_digit cs \<Longrightarrow> carry_up cs = (r, k) \<Longrightarrow> length r = length cs \<and> list_all is_digit r \<and>
     dec_value (rev r) + (if k then 10 ^ length cs else 0) = dec_value (rev cs) + 1"
proof (induction cs arbitrary: r k)
  case (Cons c cs)
  have n9: "digit_value (CHR ''9'') = 9" by code_simp
  show ?case
  proof (cases "c = CHR ''9''")
    case True
    then show ?thesis using Cons.prems Cons.IH digit_zero n9
      by (auto simp: dec_value_snoc algebra_simps split: prod.splits if_splits)
  next
    case False
    then show ?thesis using Cons.prems nine [of c] by (auto simp: dec_value_snoc)
  qed
qed auto

lemma round_step:
  fixes A c B P :: nat
  assumes "B < P" "c < 10"
  shows "(A * (10 * P) + c * P + B + 5 * P) div (10 * P) = A + (if c < 5 then 0 else 1)"
proof -
  have P: "P > 0" using assms by simp
  have "(c * P + B + 5 * P) div (10 * P) = (if c < 5 then 0 else 1)"
  proof (cases "c < 5")
    case True
    then have "c * P \<le> 4 * P" by (intro mult_right_mono) auto
    then have "c * P + B + 5 * P < 10 * P" using assms(1) by linarith
    with True show ?thesis by simp
  next
    case False
    have "5 * P \<le> c * P" "c * P \<le> 9 * P" using False assms(2) by (auto intro!: mult_right_mono)
    then have "10 * P \<le> c * P + B + 5 * P" "c * P + B + 5 * P < 2 * (10 * P)" using assms(1) by linarith+
    with False P show ?thesis by (simp add: div_nat_eqI)
  qed
  moreover have "(A * (10 * P) + c * P + B + 5 * P) div (10 * P) = A + (c * P + B + 5 * P) div (10 * P)"
    using div_mult_self3 [of "10 * P" A "c * P + B + 5 * P"] P by (simp add: add.assoc)
  ultimately show ?thesis by simp
qed

text \<open>Keeping so many digits of a digit string adds a half of the last one kept and truncates.\<close>

lemma round_half_up_value:
  assumes "list_all is_digit d" "keep < length d" "pas_round_half_up d keep = (r, k)"
  shows "length r = keep \<and> list_all is_digit r \<and> dec_value r + (if k then 10 ^ keep else 0) =
    (dec_value d + 5 * 10 ^ (length d - keep - 1)) div 10 ^ (length d - keep)"
proof -
  let ?j = "length d - keep - 1" and ?c = "d ! keep"
  have j: "length d - keep = Suc ?j" using assms(2) by simp
  have d: "d = take keep d @ ?c # drop (Suc keep) d" using id_take_nth_drop assms(2) by blast
  have dig: "list_all is_digit (take keep d)" "is_digit ?c" "list_all is_digit (drop (Suc keep) d)"
    using assms(1,2) by (auto simp: list_all_iff dest: in_set_takeD in_set_dropD)
  have l: "length (drop (Suc keep) d) = ?j" by simp
  have v: "dec_value d = dec_value (take keep d) * (10 * 10 ^ ?j) + digit_value ?c * 10 ^ ?j + dec_value (drop (Suc keep) d)"
  proof -
    have "dec_value (take keep d @ ?c # drop (Suc keep) d) =
        dec_value (take keep d) * (10 * 10 ^ ?j) + digit_value ?c * 10 ^ ?j + dec_value (drop (Suc keep) d)"
      unfolding dec_value_append dec_value_Cons list.size l by simp
    then show ?thesis using d by metis
  qed
  have B: "dec_value (drop (Suc keep) d) < 10 ^ ?j" using dec_value_less [OF dig(3)] l by simp
  have five: "((of_char ?c :: nat) < of_char (CHR ''5'')) = (digit_value ?c < 5)"
    using dig(2) by (auto simp: is_digit_def digit_value_def)
  let ?A = "dec_value (take keep d)" and ?P = "10 ^ ?j :: nat"
  have "(dec_value d + 5 * ?P) div (10 * ?P) = ?A + (if digit_value ?c < 5 then 0 else 1)"
    using v B digit_value_bound [OF dig(2)] by (auto simp: round_step)
  moreover have "length r = keep \<and> list_all is_digit r \<and> dec_value r + (if k then 10 ^ keep else 0) =
      ?A + (if digit_value ?c < 5 then 0 else 1)"
  proof (cases "digit_value ?c < 5")
    case True
    with assms(2,3) five have "r = take keep d" "\<not> k" by (simp_all add: pas_round_half_up_def)
    with True dig(1) assms(2) show ?thesis by simp
  next
    case False
    obtain t where t: "carry_up (rev (take keep d)) = (t, k)" "r = rev t"
      using assms(2,3) five False by (auto simp: pas_round_half_up_def split: prod.splits)
    from carry_up_value [OF _ t(1)] dig(1) t(2) False assms(2) show ?thesis by (auto split: if_splits)
  qed
  moreover have "10 ^ (length d - keep) = 10 * ?P" using j by simp
  ultimately show ?thesis by metis
qed

section \<open>The fixed-point form is the rounded value\<close>

definition magnitude :: "nat \<Rightarrow> int \<Rightarrow> real" where
  "magnitude m e = real m * 2 powi e"

text \<open>The algorithm of the standard: add a half of the last place and truncate.\<close>

definition round_away :: "real \<Rightarrow> nat \<Rightarrow> nat" where
  "round_away x p = nat \<lfloor>x * 10 ^ p + 1 / 2\<rfloor>"

definition fixed_text :: "bool \<Rightarrow> real \<Rightarrow> nat \<Rightarrow> string" where
  "fixed_text neg x p =
     (let n = round_away x p in
      (if neg \<and> n > 0 then ''-'' else []) @ dec_nat (n div 10 ^ p) @ ''.'' @ dec_pad p (n mod 10 ^ p))"

lemma scaled_exact:
  assumes "- e \<le> int p"
  shows "real (scaled p m e) = magnitude m e * 10 ^ p"
proof (cases "e \<ge> 0")
  case True
  then show ?thesis by (simp add: scaled_def magnitude_def power_int_def)
next
  case False
  define k where "k = nat (- e)"
  have k: "k \<le> p" "e = - int k" using assms False by (auto simp: k_def)
  have "(2 :: nat) ^ k dvd 2 ^ p" using k(1) by (rule le_imp_power_dvd)
  also have "(2 :: nat) ^ p dvd 10 ^ p" by (rule dvd_power_same) simp
  finally have "(2 :: nat) ^ k dvd m * 10 ^ p" by simp
  then have "real (m * 10 ^ p div 2 ^ k) = real (m * 10 ^ p) / real (2 ^ k)" by (rule real_of_nat_div)
  with False k show ?thesis by (simp add: scaled_def magnitude_def power_int_minus field_simps)
qed

lemma round_away_scaled:
  assumes "- e \<le> int q" "p < q"
  shows "round_away (magnitude m e) p = (scaled q m e + 5 * 10 ^ (q - p - 1)) div 10 ^ (q - p)"
proof -
  have q: "(10 :: real) ^ q = 10 ^ p * 10 ^ (q - p)" using assms(2) by (simp flip: power_add)
  have h: "(10 :: real) ^ (q - p) = 10 * 10 ^ (q - p - 1)" using assms(2) by (simp flip: power_Suc)
  have "magnitude m e * 10 ^ p + 1 / 2 = real (scaled q m e + 5 * 10 ^ (q - p - 1)) / real (10 ^ (q - p))"
    using scaled_exact [OF assms(1), of m] by (simp add: q h field_simps)
  then show ?thesis unfolding round_away_def by (simp only: floor_divide_of_nat_eq nat_int)
qed

lemma is_digit_point: "\<not> is_digit (CHR ''.'')"
  by code_simp

lemma magnitude_bound:
  assumes "is_double m e"
  shows "magnitude m e < 10 ^ 309"
proof -
  have "(2 :: real) powi e \<le> 2 powi 971" using assms by (intro power_int_increasing) (auto simp: is_double_def)
  moreover have "(2 :: real) powi 971 = 2 ^ 971" by (simp add: power_int_def)
  moreover have "real m < 2 ^ 53" using assms unfolding is_double_def by (metis of_nat_less_iff of_nat_numeral of_nat_power)
  ultimately have "magnitude m e \<le> 2 ^ 53 * 2 ^ 971" unfolding magnitude_def
    by (intro mult_mono) auto
  also have "(2 :: real) ^ 53 * 2 ^ 971 < 10 ^ 309" by simp
  finally show ?thesis .
qed

text \<open>The digits of the expansion: those before the point, then those after it.\<close>

definition int_digits :: "nat \<Rightarrow> nat \<Rightarrow> int \<Rightarrow> string" where
  "int_digits p m e = dec_nat (scaled p m e div 10 ^ p)"

lemma int_digits_length: "is_double m e \<Longrightarrow> 1074 \<le> p \<Longrightarrow> length (int_digits p m e) \<le> 309"
proof -
  assume a: "is_double m e" "1074 \<le> p"
  have "magnitude m e * 10 ^ p < 10 ^ 309 * 10 ^ p"
    using magnitude_bound [OF a(1)] by (intro mult_strict_right_mono) simp_all
  then have "real (scaled p m e) < real (10 ^ 309 * 10 ^ p)"
    using scaled_exact [of e p m] a unfolding is_double_def of_nat_mult of_nat_power of_nat_numeral by linarith
  then have "scaled p m e < 10 ^ 309 * 10 ^ p" unfolding of_nat_less_iff .
  then have "scaled p m e div 10 ^ p < 10 ^ 309" by (simp add: less_mult_imp_div_less)
  then show ?thesis unfolding int_digits_def by (rule dec_nat_length [rotated]) simp
qed

lemma fixed_buf_eq:
  fixes prec :: nat
  assumes "is_double m e"
  defines "p \<equiv> max (prec + 1) 1074"
  defines "k \<equiv> min p (1447 - length (int_digits p m e))"
  shows "fixed_buf prec m e = (CHR ''0'' # int_digits p m e @ take k (dec_pad p (scaled p m e mod 10 ^ p)), Suc (length (int_digits p m e)))"
    and "prec \<le> 1137 \<Longrightarrow> prec < k" "k \<le> p" "k \<le> 1446"
proof -
  let ?ip = "int_digits p m e" and ?fp = "dec_pad p (scaled p m e mod 10 ^ p)"
  have l: "length ?ip \<le> 309" using int_digits_length [OF assms(1), of p] by (simp add: p_def)
  obtain c cs where "?ip = c # cs" by (cases ?ip) (simp_all add: int_digits_def)
  then show "k \<le> 1446" by (simp add: k_def)
  have t: "take 1448 (c_fixed p m e) = ?ip @ CHR ''.'' # take (1447 - length ?ip) ?fp"
    using l by (simp add: c_fixed_def int_digits_def Let_def take_Cons' Suc_diff_le)
  have d: "list_all is_digit ?ip" by (simp add: int_digits_def dec_nat_digits)
  then have "\<And>c. c \<in> set ?ip \<Longrightarrow> c \<noteq> CHR ''.''" using is_digit_point by (auto simp: list_all_iff)
  then have w: "takeWhile (\<lambda>c. c \<noteq> CHR ''.'') (?ip @ CHR ''.'' # r) = ?ip" for r
    by (subst takeWhile_append2) auto
  have "take (1447 - length ?ip) ?fp = take k ?fp" by (simp add: k_def dec_pad_props min_def)
  moreover have "PAS_REALBUF - 2 = 1448" by (simp add: PAS_REALBUF_def)
  ultimately show "fixed_buf prec m e = (CHR ''0'' # ?ip @ take k ?fp, Suc (length ?ip))"
    unfolding fixed_buf_def PAS_EXACT_FRAC_def p_def [symmetric] Let_def by (simp add: t w)
  show "prec \<le> 1137 \<Longrightarrow> prec < k" "k \<le> p" using l by (auto simp: k_def p_def)
qed

lemma strip_zeros_one:
  assumes "list_all is_digit d" "d \<noteq> []" "strip_zeros (Suc 0) d = (k, r)"
  shows "take k r = dec_nat (dec_value (take (Suc 0) d)) \<and> drop k r = drop (Suc 0) d \<and> k \<le> length r \<and> list_all is_digit r \<and>
    dec_value r = dec_value d"
  using assms dec_nat_value [of "[hd d]"] by (cases d) auto

lemma strip_zeros_spec:
  assumes "list_all is_digit d" "0 < n" "n \<le> length d" "strip_zeros n d = (k, r)"
  shows "take k r = dec_nat (dec_value (take n d)) \<and> drop k r = drop n d \<and> k \<le> length r \<and> list_all is_digit r \<and>
    dec_value r = dec_value d"
  using assms
proof (induction n d rule: strip_zeros.induct)
  case (1 n c cs)
  show ?case
  proof (cases "c = CHR ''0''")
    case True
    with 1 show ?thesis by (auto simp: dec_value_Cons digit_zero)
  next
    case False
    have "list_all is_digit (take (Suc (Suc n)) (c # cs))" using 1(2) by (auto simp: list_all_iff dest: in_set_takeD)
    from dec_nat_value [OF this] False 1 show ?thesis by auto
  qed
next
  case "2_2"
  then show ?case by (intro strip_zeros_one) auto
qed auto

lemma nested_div:
  fixes n :: nat
  assumes "j < k" "k \<le> p"
  shows "(n div 10 ^ (p - k) + 5 * 10 ^ (k - j - 1)) div 10 ^ (k - j) = (n + 5 * 10 ^ (p - j - 1)) div 10 ^ (p - j)"
proof -
  have a: "(10 :: nat) ^ (p - j - 1) = 10 ^ (k - j - 1) * 10 ^ (p - k)" "(10 :: nat) ^ (p - j) = 10 ^ (p - k) * 10 ^ (k - j)"
    using assms by (simp_all flip: power_add)
  have "n div 10 ^ (p - k) + 5 * 10 ^ (k - j - 1) = (n + 5 * 10 ^ (k - j - 1) * 10 ^ (p - k)) div 10 ^ (p - k)"
    by simp
  then show ?thesis unfolding a by (simp add: div_mult2_eq mult.assoc)
qed

lemma rounded_small:
  fixes v :: nat
  assumes "v < 10 ^ (i + k)" "j < k"
  shows "(v + 5 * 10 ^ (k - j - 1)) div 10 ^ (k - j) < 10 ^ (Suc i + j)"
proof -
  have a: "(10 :: nat) ^ (Suc i + j) * 10 ^ (k - j) = 10 * 10 ^ (i + k)" using assms(2) by (simp flip: power_add power_Suc)
  have "(10 :: nat) ^ (k - j - 1) \<le> 10 ^ (i + k)" by (rule power_increasing) simp_all
  then have "v + 5 * 10 ^ (k - j - 1) < 10 ^ (Suc i + j) * 10 ^ (k - j)" using assms(1) unfolding a by linarith
  then show ?thesis by (rule less_mult_imp_div_less)
qed

text \<open>What the fixed-point form puts together from the rounded digits.\<close>

lemma fixed_digits_rounded:
  assumes "is_double m e" "prec \<le> 1137" "fixed_buf prec m e = (d0, i0)" "pas_round_half_up d0 (i0 + prec) = (d1, c)"
  shows "length d1 = i0 + prec \<and> list_all is_digit d1 \<and> dec_value d1 = round_away (magnitude m e) prec \<and>
    0 < i0 \<and> i0 \<le> 310"
proof -
  define p where "p = max (prec + 1) 1074"
  define k where "k = min p (1447 - length (int_digits p m e))"
  let ?ip = "int_digits p m e" and ?fp = "dec_pad p (scaled p m e mod 10 ^ p)"
  note buf0 = fixed_buf_eq [OF assms(1), of prec, folded p_def, folded k_def]
  note buf = buf0(1) buf0(2) [OF assms(2)] buf0(3)
  have d0: "d0 = CHR ''0'' # ?ip @ take k ?fp" "i0 = Suc (length ?ip)" using buf(1) assms(3) by simp_all
  have di: "list_all is_digit (?ip @ ?fp)" by (simp add: int_digits_def dec_nat_digits dec_pad_props)
  have tk: "?ip @ take k ?fp = take (length ?ip + k) (?ip @ ?fp)" by simp
  have dig: "list_all is_digit (?ip @ take k ?fp)" unfolding tk using di by (auto simp: list_all_iff dest: in_set_takeD)
  have dig0: "list_all is_digit d0" using dig by (simp add: d0 digit_zero)
  have len: "length d0 = i0 + k" using buf(3) by (simp add: d0 dec_pad_props)
  have v0: "dec_value d0 = dec_value (?ip @ take k ?fp)" by (simp add: d0 dec_value_Cons digit_zero)
  have "dec_value (?ip @ ?fp) = scaled p m e"
    using div_mult_mod_eq [of "scaled p m e" "10 ^ p"] by (simp add: dec_value_append int_digits_def dec_pad_props)
  then have v: "dec_value d0 = scaled p m e div 10 ^ (p - k)"
    unfolding v0 tk using dec_value_take [OF di, of "length ?ip + k"] buf(3) by (simp add: dec_pad_props)
  have lt: "dec_value d0 < 10 ^ (length ?ip + k)"
    unfolding v0 using dec_value_less [OF dig] buf(3) by (simp add: dec_pad_props)
  have keep: "i0 + prec < length d0" using buf(2) len by simp
  have sub: "length d0 - (i0 + prec) = k - prec" using len by simp
  have "- e \<le> int p" "prec < p" using assms(1) by (auto simp: is_double_def p_def)
  then have n: "(dec_value d0 + 5 * 10 ^ (k - prec - 1)) div 10 ^ (k - prec) = round_away (magnitude m e) prec"
    unfolding v nested_div [OF buf(2,3)] by (rule round_away_scaled [symmetric])
  have s: "(dec_value d0 + 5 * 10 ^ (k - prec - 1)) div 10 ^ (k - prec) < 10 ^ (i0 + prec)"
    using rounded_small [OF lt buf(2)] by (simp only: d0(2))
  have R: "length d1 = i0 + prec" "list_all is_digit d1"
    "dec_value d1 + (if c then 10 ^ (i0 + prec) else 0) = (dec_value d0 + 5 * 10 ^ (k - prec - 1)) div 10 ^ (k - prec)"
    using round_half_up_value [OF dig0 keep assms(4)] by (simp_all only: sub)
  have "\<not> c" using R(3) s by (cases c) simp_all
  moreover have "i0 \<le> 310" using int_digits_length [OF assms(1), of p] by (simp add: d0(2) p_def)
  ultimately show ?thesis using R n d0(2) by simp
qed

lemma fixed_pieces:
  assumes "is_double m e" "prec \<le> 1137"
    and "fixed_buf prec m e = (d0, i0)" "pas_round_half_up d0 (i0 + prec) = (d1, c)" "strip_zeros i0 d1 = (ilen, ip)"
  defines "n \<equiv> round_away (magnitude m e) prec"
  shows "take ilen ip = dec_nat (n div 10 ^ prec)" "drop ilen ip = dec_pad prec (n mod 10 ^ prec)"
    "pas_digits_all_zero ip = (n = 0)" "ilen = length (dec_nat (n div 10 ^ prec))" "ilen \<le> 310"
proof -
  have d1: "length d1 = i0 + prec" "list_all is_digit d1" "dec_value d1 = n" "0 < i0" "i0 \<le> 310"
    using fixed_digits_rounded [OF assms(1-4)] by (simp_all add: n_def)
  have st: "take ilen ip = dec_nat (dec_value (take i0 d1))" "drop ilen ip = drop i0 d1" "ilen \<le> length ip"
    "list_all is_digit ip" "dec_value ip = n"
    using strip_zeros_spec [OF d1(2,4) _ assms(5)] d1 by auto
  have hi: "dec_value (take i0 d1) = n div 10 ^ prec" using dec_value_take [OF d1(2), of i0] d1 by simp
  have "n = dec_value (take i0 d1) * 10 ^ prec + dec_value (drop i0 d1)"
    using dec_value_append [of "take i0 d1" "drop i0 d1"] d1 by simp
  then have lo: "dec_value (drop i0 d1) = n mod 10 ^ prec" unfolding hi by (metis add_left_cancel div_mult_mod_eq)
  have dd: "list_all is_digit (drop i0 d1)" using d1(2) by (auto simp: list_all_iff dest: in_set_dropD)
  show "take ilen ip = dec_nat (n div 10 ^ prec)" using st(1) hi by simp
  then show il: "ilen = length (dec_nat (n div 10 ^ prec))" using st(3) by (metis length_take min.absorb2)
  have "n div 10 ^ prec < 10 ^ i0" unfolding hi [symmetric] using dec_value_less [of "take i0 d1"] d1(1,2)
    by (auto simp: list_all_iff dest: in_set_takeD)
  from dec_nat_length [OF d1(4) this] il d1(5) show "ilen \<le> 310" by simp
  show "drop ilen ip = dec_pad prec (n mod 10 ^ prec)" using dec_pad_value [OF dd] d1(1) st(2) lo by simp
  show "pas_digits_all_zero ip = (n = 0)" using dec_value_zero [OF st(4)] st(5) by simp
qed

section \<open>The floating-point form is the rounded value\<close>

lemma dec_nat_bounds: "0 < n \<Longrightarrow> 10 ^ (length (dec_nat n) - 1) \<le> n \<and> n < 10 ^ length (dec_nat n)"
proof -
  assume n: "0 < n"
  have up: "n < 10 ^ length (dec_nat n)" using dec_value_less [OF dec_nat_digits, of n] by simp
  obtain c cs where d: "dec_nat n = c # cs" by (cases "dec_nat n") auto
  have c: "is_digit c" using dec_nat_digits [of n] d by simp
  have "c \<noteq> CHR ''0''"
  proof (cases "n < 10")
    case True
    then show ?thesis using n d digit_char_props(2) [of n] digit_zero(1) by (metis dec_nat_small list.inject less_numeral_extra(3))
  next
    case False
    then show ?thesis using dec_nat_no_leading_zero [of n] d by simp
  qed
  then have "digit_value c \<ge> 1" using digit_value_0 [OF c] by (cases "digit_value c") auto
  moreover have "n = digit_value c * 10 ^ length cs + dec_value cs" using dec_value_nat [of n] d by (simp add: dec_value_Cons)
  ultimately have "10 ^ length cs \<le> n" by (metis le_add1 mult_1 mult_le_mono1 le_trans)
  with up d show ?thesis by simp
qed

lemma frac_enough: "is_double m e \<Longrightarrow> - e \<le> int PAS_EXACT_FRAC"
  by (simp add: is_double_def PAS_EXACT_FRAC_def)

lemma scaled_pos:
  assumes "is_double m e" "m > 0"
  shows "scaled PAS_EXACT_FRAC m e > 0"
proof -
  have "magnitude m e > 0" using assms(2) by (simp add: magnitude_def)
  then have "real (scaled PAS_EXACT_FRAC m e) > 0" using scaled_exact [OF frac_enough [OF assms(1)], of m] by simp
  then show ?thesis by simp
qed

lemma powi_nat_diff: "(10 :: real) powi (int a - int q) = 10 ^ a / 10 ^ q"
  by (simp add: power_int_diff)

lemma powi_exponent:
  assumes "L \<ge> 1"
  shows "(10 :: real) powi (int L - 1 - int q) = 10 ^ (L - 1) / 10 ^ q"
proof -
  obtain a where "L = Suc a" using assms by (cases L) auto
  then show ?thesis using powi_nat_diff [of a q] by simp
qed

lemma c_exponent_decade:
  assumes "is_double m e" "m > 0"
  shows "10 powi c_exponent m e \<le> magnitude m e" "magnitude m e < 10 powi (c_exponent m e + 1)"
proof -
  let ?K = "scaled PAS_EXACT_FRAC m e"
  let ?L = "length (dec_nat ?K)"
  have K: "real ?K = magnitude m e * 10 ^ PAS_EXACT_FRAC" by (rule scaled_exact [OF frac_enough [OF assms(1)]])
  have L: "?L \<ge> 1" using dec_nat_not_Nil [of ?K] by (cases "dec_nat ?K") auto
  have b: "real (10 ^ (?L - 1)) \<le> real ?K" "real ?K < real (10 ^ ?L)"
    using dec_nat_bounds [OF scaled_pos [OF assms]] by (simp_all only: of_nat_le_iff of_nat_less_iff)
  have x: "c_exponent m e = int ?L - 1 - int PAS_EXACT_FRAC" using assms(2) by (simp add: c_exponent_def)
  have p: "(10 :: real) powi c_exponent m e = 10 ^ (?L - 1) / 10 ^ PAS_EXACT_FRAC" unfolding x by (rule powi_exponent [OF L])
  show "10 powi c_exponent m e \<le> magnitude m e" unfolding p using b(1) K by (simp add: field_simps)
  have p': "(10 :: real) powi (c_exponent m e + 1) = 10 ^ ?L / 10 ^ PAS_EXACT_FRAC"
    using power_minus_mult [of ?L "10 :: real"] L by (simp add: power_int_add p)
  show "magnitude m e < 10 powi (c_exponent m e + 1)" unfolding p' using b(2) K by (simp add: field_simps)
qed

text \<open>The digits of the conversion, cut or filled to their number, still round as the value does.\<close>

lemma c_digits_props: "length (c_digits m e) = 768" "list_all is_digit (c_digits m e)"
  using dec_nat_digits by (auto simp: c_digits_def PAS_EXACT_SIG_def list_all_iff digit_zero dest: in_set_takeD)

lemma c_digits_rounded:
  assumes "is_double m e" "D \<le> 766"
  shows "(dec_value (c_digits m e) + 5 * 10 ^ (768 - Suc D - 1)) div 10 ^ (768 - Suc D) =
    round_away (magnitude m e / 10 powi c_exponent m e) D"
proof (cases "m = 0")
  case True
  have "dec_value (c_digits m e) = 0" using True c_digits_props(2) [of m e]
    by (simp add: dec_value_zero c_digits_def pas_digits_all_zero_def list_all_iff)
  moreover have "(5 :: nat) * 10 ^ (768 - Suc D - 1) < 10 ^ (768 - Suc D)"
    using assms(2) by (subst (2) Suc_diff_Suc [of "Suc D" 768, symmetric]) auto
  ultimately show ?thesis using True by (simp add: round_away_def magnitude_def)
next
  case False
  let ?K = "scaled PAS_EXACT_FRAC m e"
  define L where "L = length (dec_nat ?K)"
  define q where "q = max L 768"
  let ?full = "dec_nat ?K @ replicate (q - L) (CHR ''0'')"
  have L: "L \<ge> 1" unfolding L_def using dec_nat_not_Nil [of ?K] by (cases "dec_nat ?K") auto
  have q: "L \<le> q" "768 \<le> q" "Suc D < 768" using assms(2) by (auto simp: q_def)
  have full: "list_all is_digit ?full" "length ?full = q" using dec_nat_digits q by (auto simp: list_all_iff digit_zero L_def)
  have z: "dec_value (replicate k (CHR ''0'')) = 0" for k by (induction k) (simp_all add: dec_value_Cons digit_zero)
  have "c_digits m e = take 768 ?full"
    using False by (simp add: c_digits_def PAS_EXACT_SIG_def L_def [symmetric] q_def max_def)
  then have v: "dec_value (c_digits m e) = ?K * 10 ^ (q - L) div 10 ^ (q - 768)"
    using dec_value_take [OF full(1), of 768] q(2) full(2) z by (simp add: dec_value_append)
  have mag: "magnitude m e / 10 powi c_exponent m e = real ?K / 10 ^ (L - 1)"
    using scaled_exact [OF frac_enough [OF assms(1)], of m] powi_exponent [OF L, of PAS_EXACT_FRAC] False
    by (simp add: c_exponent_def L_def [symmetric])
  have pw: "(10 :: real) ^ D * 10 ^ (q - Suc D) = 10 ^ (L - 1) * 10 ^ (q - L)" "(10 :: real) ^ (q - Suc D) = 10 * 10 ^ (q - Suc D - 1)"
    using L q by (simp_all flip: power_add power_Suc)
  have "real ?K / 10 ^ (L - 1) * 10 ^ D + 1 / 2 = real (?K * 10 ^ (q - L) + 5 * 10 ^ (q - Suc D - 1)) / real (10 ^ (q - Suc D))"
    using pw by (simp add: field_simps)
  then have "round_away (magnitude m e / 10 powi c_exponent m e) D = (?K * 10 ^ (q - L) + 5 * 10 ^ (q - Suc D - 1)) div 10 ^ (q - Suc D)"
    unfolding round_away_def mag by (simp only: floor_divide_of_nat_eq nat_int)
  then show ?thesis unfolding v nested_div [OF q(3,2)] by simp
qed

definition floating_text :: "bool \<Rightarrow> real \<Rightarrow> int \<Rightarrow> nat \<Rightarrow> string" where
  "floating_text neg x x0 D =
     (let n = round_away (x / 10 powi x0) D;
          up = (n \<ge> 10 ^ Suc D);
          d = (if up then 10 ^ D else n);
          x1 = (if up then x0 + 1 else x0) in
      (if neg \<and> n > 0 then ''-'' else [blank]) @ [digit_char (d div 10 ^ D)] @ ''.'' @ dec_pad D (d mod 10 ^ D) @ ''E'' @
      (if x1 < 0 then ''-'' else ''+'') @ dec_pad (max (exp_digits x0) (exp_digits x1)) (nat \<bar>x1\<bar>))"

lemma dec_pad_dec_nat: "n < 10 ^ k \<Longrightarrow> 0 < k \<Longrightarrow> replicate (k - length (dec_nat n)) (CHR ''0'') @ dec_nat n = dec_pad k n"
proof -
  assume n: "n < 10 ^ k" "0 < k"
  let ?s = "replicate (k - length (dec_nat n)) (CHR ''0'') @ dec_nat n"
  have z: "dec_value (replicate j (CHR ''0'')) = 0" for j by (induction j) (simp_all add: dec_value_Cons digit_zero)
  have "list_all is_digit ?s" using dec_nat_digits by (auto simp: list_all_iff digit_zero)
  moreover have "length ?s = k" using dec_nat_length [OF n(2,1)] by simp
  moreover have "dec_value ?s = n" by (simp add: dec_value_append z)
  ultimately show ?thesis using dec_pad_value [of ?s] by simp
qed

lemma powi_less: "(10 :: real) powi a < 10 powi b \<Longrightarrow> a < b"
  using power_int_increasing [of b a "10 :: real"] by (cases "b \<le> a") auto

lemma c_exponent_range:
  assumes "is_double m e"
  shows "- 400 \<le> c_exponent m e \<and> c_exponent m e \<le> 309"
proof (cases "m = 0")
  case False
  have "10 powi c_exponent m e < (10 :: real) powi 309"
    using c_exponent_decade(1) [OF assms] False magnitude_bound [OF assms] by (simp add: power_int_def)
  then have "c_exponent m e < 309" by (rule powi_less)
  moreover have "(10 :: real) powi (- 400) < 10 powi (c_exponent m e + 1)"
  proof -
    have "(10 :: real) powi (- 400) < 2 powi (- 1074)" by (simp add: power_int_minus)
    also have "\<dots> \<le> 2 powi e" using assms by (intro power_int_increasing) (auto simp: is_double_def)
    also have "\<dots> \<le> magnitude m e" using False by (simp add: magnitude_def)
    also have "\<dots> < 10 powi (c_exponent m e + 1)" using c_exponent_decade(2) [OF assms] False by simp
    finally show ?thesis .
  qed
  then have "- 400 < c_exponent m e + 1" by (rule powi_less)
  ultimately show ?thesis by simp
qed (simp add: c_exponent_def)

lemma floating_pieces:
  assumes "is_double m e" "D \<le> 766" "pas_round_half_up (c_digits m e) (1 + D) = (r, c)"
  defines "n \<equiv> round_away (magnitude m e / 10 powi c_exponent m e) D"
  defines "dig \<equiv> (if c then CHR ''1'' # r else r)"
  defines "d \<equiv> (if n \<ge> 10 ^ Suc D then 10 ^ D else n)"
  shows "c = (n \<ge> 10 ^ Suc D)" "hd dig = digit_char (d div 10 ^ D)" "sig_bytes D (tl dig) x = Inr (dec_pad D (d mod 10 ^ D))"
    "pas_digits_all_zero dig = (n = 0)"
proof -
  have keep: "1 + D < length (c_digits m e)" using assms(2) by (simp add: c_digits_props)
  have R: "length r = Suc D" "list_all is_digit r" "dec_value r + (if c then 10 ^ Suc D else 0) = n"
    using round_half_up_value [OF c_digits_props(2) keep assms(3)] c_digits_rounded [OF assms(1,2)]
    by (auto simp: c_digits_props(1) n_def split: if_splits)
  have "magnitude m e / 10 powi c_exponent m e \<le> 10"
    using c_exponent_decade(2) [OF assms(1)] by (cases "m = 0") (auto simp: power_int_add field_simps magnitude_def)
  then have "magnitude m e / 10 powi c_exponent m e * 10 ^ D + 1 / 2 < real (10 ^ Suc D) + 1"
    using mult_right_mono [of "magnitude m e / 10 powi c_exponent m e" 10 "10 ^ D"] by simp
  then have le: "n \<le> 10 ^ Suc D" unfolding n_def round_away_def by (simp add: floor_le_iff nat_le_iff)
  show c: "c = (n \<ge> 10 ^ Suc D)" using R dec_value_less [OF R(2)] by (cases c) auto
  obtain h t where r: "r = h # t" using R(1) by (cases r) auto
  have ht: "is_digit h" "list_all is_digit t" "length t = D" using R r by auto
  show "hd dig = digit_char (d div 10 ^ D)" "sig_bytes D (tl dig) x = Inr (dec_pad D (d mod 10 ^ D))"
    "pas_digits_all_zero dig = (n = 0)"
  proof (atomize (full), cases c)
    case True
    then have n: "n = 10 ^ Suc D" "dec_value r = 0" using R(3) c le by auto
    have "digit_char 1 = CHR ''1''" by code_simp
    moreover have "r = dec_pad (Suc D) 0" using dec_pad_value [OF R(2)] R(1) n(2) by simp
    moreover have "take D (dec_pad (Suc D) 0) = dec_pad D 0" by (simp add: dec_pad_props)
    ultimately show "hd dig = digit_char (d div 10 ^ D) \<and> sig_bytes D (tl dig) x = Inr (dec_pad D (d mod 10 ^ D)) \<and>
        pas_digits_all_zero dig = (n = 0)"
      using True n c by (simp add: dig_def d_def sig_bytes_def dec_pad_props pas_digits_all_zero_def)
  next
    case False
    then have n: "n = digit_value h * 10 ^ D + dec_value t" "d = n" using R(3) r ht c by (auto simp: dec_value_Cons d_def)
    have t: "dec_value t < 10 ^ D" using dec_value_less [OF ht(2)] ht(3) by simp
    have "d div 10 ^ D = digit_value h" "d mod 10 ^ D = dec_value t" using n t by auto
    then show "hd dig = digit_char (d div 10 ^ D) \<and> sig_bytes D (tl dig) x = Inr (dec_pad D (d mod 10 ^ D)) \<and>
        pas_digits_all_zero dig = (n = 0)"
      using False r ht dec_pad_value [OF ht(2)] digit_char_value [OF ht(1)] dec_value_zero [OF R(2)] R(3)
      by (auto simp: dig_def sig_bytes_def)
  qed
qed

section \<open>What is written\<close>

context char_sink
begin

text \<open>Pieces written one after the other.\<close>

lemma then_appends:
  assumes "appended ok written w f s b r" "\<And>w' f'. ok w' f' \<Longrightarrow> written w' f' = written w f @ s \<Longrightarrow> atbol f' = b \<Longrightarrow> appended ok written w' f' t c (k w' f')"
  shows "appended ok written w f (s @ t) c (rbind r (\<lambda>(w, f). k w f))"
proof -
  from assms(1) obtain w' f' where "r = Inr (w', f')" "ok w' f'" "written w' f' = written w f @ s" "atbol f' = b"
    "fp f' = fp f" "binding f' = binding f" "istext f' = istext f" "buf f' = buf f" "\<forall>q. seekable (streams w' q) = seekable (streams w q)"
    by (auto simp: appended_def)
  with assms(2) [of w' f'] show ?thesis by (auto simp: appended_def)
qed

lemma swrite_appends:
  "ok w f \<Longrightarrow> length (written w f) + length s < SINK_MAX \<Longrightarrow> appended ok written w f s (atbol f) (pas_swrite mem s w f)"
  using accepts [of w f s] quiet_fields by (fastforce simp: appended_def)

lemma then_fails:
  assumes "appended ok written w f s b r" "\<And>w' f'. ok w' f' \<Longrightarrow> written w' f' = written w f @ s \<Longrightarrow> k w' f' = Inl u"
  shows "rbind r (\<lambda>(w, f). k w f) = Inl u"
  using assms by (auto simp: appended_def)

lemma swrite_last:
  "ok w f \<Longrightarrow> length (written w f) + length s < SINK_MAX \<Longrightarrow> atbol f = b \<Longrightarrow> appended ok written w f s b (pas_swrite mem s w f)"
  using swrite_appends by blast

lemma sputc_appends:
  "ok w f \<Longrightarrow> length (written w f) + 1 < SINK_MAX \<Longrightarrow> appended ok written w f [c] (atbol f) (pas_sputc mem c w f)"
  using accepts_char [of w f c] quiet_fields by (fastforce simp: appended_def)

lemma blanks_appends:
  "ok w f \<Longrightarrow> length (written w f) + k < SINK_MAX \<Longrightarrow> appended ok written w f (replicate k blank) (atbol f) (put_blanks mem k w f)"
  using put_blanks_accepts [of w f k] quiet_fields by (fastforce simp: appended_def)

lemma sprintf_appends:
  "ok w f \<Longrightarrow> length (written w f) + length s < SINK_MAX \<Longrightarrow> length s \<le> C_INT_MAX \<Longrightarrow>
     appended ok written w f s (atbol f) (pas_sprintf mem s w f)"
  using sprintf_accepts [of w f s] quiet_fields by (fastforce simp: appended_def)

lemma maybe_appends:
  "ok w f \<Longrightarrow> length (written w f) + 1 < SINK_MAX \<Longrightarrow>
     appended ok written w f (if p then [c] else []) (atbol f) (if p then pas_sputc mem c w f else Inr (w, f))"
  using sputc_appends [of w f c] by (auto simp: appended_def)

lemma write_fixed_appends:
  assumes "ok w f" "is_double m e" "prec \<le> 1137" "length (written w f) + max (nat width) 2000 < SINK_MAX"
  shows "appended ok written w f (c_pad width (fixed_text neg (magnitude m e) prec)) (atbol f) (write_fixed mem neg m e width prec w f)"
proof -
  obtain d0 i0 where d0: "fixed_buf prec m e = (d0, i0)" by fastforce
  obtain d1 c where d1: "pas_round_half_up d0 (i0 + prec) = (d1, c)" by fastforce
  obtain ilen ip where ip: "strip_zeros i0 d1 = (ilen, ip)" by fastforce
  define n where "n = round_away (magnitude m e) prec"
  note P = fixed_pieces [OF assms(2,3) d0 d1 ip, folded n_def]
  define neg' where "neg' = (neg \<and> m > 0 \<and> \<not> pas_digits_all_zero ip)"
  have "m = 0 \<Longrightarrow> n = 0" by (simp add: n_def round_away_def magnitude_def)
  then have neg': "neg' = (neg \<and> n > 0)" by (auto simp: neg'_def P(3))
  let ?body = "(if neg' then ''-'' else []) @ dec_nat (n div 10 ^ prec) @ ''.'' @ dec_pad prec (n mod 10 ^ prec)"
  let ?k = "nat (width - int (ilen + prec + 1 + (if neg' then 1 else 0)))"
  have lb: "length ?body = ilen + prec + 1 + (if neg' then 1 else 0)" by (simp add: P(4) dec_pad_props)
  have body: "fixed_text neg (magnitude m e) prec = ?body" by (simp add: fixed_text_def n_def [symmetric] neg' Let_def)
  have pad: "c_pad width ?body = replicate ?k blank @ ?body" unfolding c_pad_def lb by simp
  have frac: "buf_bytes prec (drop ilen ip) = Inr (dec_pad prec (n mod 10 ^ prec))"
    by (simp add: buf_bytes_def P(2) dec_pad_props)
  have "?k + (ilen + prec + 1 + (if neg' then 1 else 0)) \<le> max (nat width) 2000"
    using P(5) assms(3) by (cases "int (ilen + prec + 1 + (if neg' then 1 else 0)) \<le> width") auto
  then have tot: "length (written w f) + ?k + (ilen + prec + 1 + (if neg' then 1 else 0)) < SINK_MAX"
    using assms(4) by linarith
  show ?thesis unfolding body pad write_fixed_def d0 d1 ip Let_def prod.case neg'_def [symmetric] frac
    unfolding P(1) rbind_Inr
    by (intro then_appends [OF blanks_appends] then_appends [OF maybe_appends] then_appends [OF swrite_appends]
          then_appends [OF sputc_appends] swrite_last;
        use assms(1) tot P(4,5) in \<open>auto simp: dec_pad_props\<close>)
qed

lemma sprintf_last:
  "ok w f \<Longrightarrow> length (written w f) + length s < SINK_MAX \<Longrightarrow> length s \<le> C_INT_MAX \<Longrightarrow> atbol f = b \<Longrightarrow>
     appended ok written w f s b (pas_sprintf mem s w f)"
  using sprintf_appends by blast

lemma write_floating_appends:
  assumes "ok w f" "is_double m e" "width \<le> 773" "length (written w f) + 1000 < SINK_MAX"
  defines "x0 \<equiv> c_exponent m e"
  defines "D \<equiv> nat (act_width width (exp_digits x0) - int (exp_digits x0) - 5)"
  shows "appended ok written w f (floating_text neg (magnitude m e) x0 D) (atbol f) (write_floating mem neg m e width w f)"
proof -
  obtain r c where r: "pas_round_half_up (c_digits m e) (1 + D) = (r, c)" by fastforce
  define n where "n = round_away (magnitude m e / 10 powi x0) D"
  define d where "d = (if n \<ge> 10 ^ Suc D then 10 ^ D else n)"
  define x1 where "x1 = (if c then x0 + 1 else x0)"
  define xd where "xd = (if c \<and> (x1 \<ge> 100 \<or> x1 \<le> - 100) then 3 else exp_digits x0)"
  have D: "D \<le> 766" using assms(3) by (auto simp: D_def act_width_def exp_digits_def Let_def)
  note P = floating_pieces [OF assms(2) D r, folded x0_def, folded n_def, folded d_def]
  have "m = 0 \<Longrightarrow> n = 0" by (simp add: n_def round_away_def magnitude_def)
  then have neg: "(neg \<and> m > 0 \<and> \<not> pas_digits_all_zero (if c then CHR ''1'' # r else r)) = (neg \<and> n > 0)"
    using P(4) by auto
  have xr: "- 400 \<le> x1 \<and> x1 \<le> 310" using c_exponent_range [OF assms(2)] by (auto simp: x1_def x0_def)
  have xd: "xd = max (exp_digits x0) (exp_digits x1)" by (auto simp: xd_def x1_def exp_digits_def)
  have "nat \<bar>x1\<bar> < 10 ^ xd" using xr by (auto simp: xd exp_digits_def)
  moreover have "0 < xd" by (auto simp: xd exp_digits_def)
  ultimately have ex: "replicate (xd - length (dec_nat (nat \<bar>x1\<bar>))) (CHR ''0'') @ dec_nat (nat \<bar>x1\<bar>) = dec_pad xd (nat \<bar>x1\<bar>)"
    by (rule dec_pad_dec_nat)
  have xl: "length (dec_pad xd (nat \<bar>x1\<bar>)) \<le> 3" by (simp add: dec_pad_props xd exp_digits_def)
  have ft: "floating_text neg (magnitude m e) x0 D =
      [if neg \<and> n > 0 then CHR ''-'' else blank] @ [digit_char (d div 10 ^ D)] @ ''.'' @ dec_pad D (d mod 10 ^ D) @ ''E'' @
      [if x1 < 0 then CHR ''-'' else CHR ''+''] @ dec_pad xd (nat \<bar>x1\<bar>)"
    unfolding floating_text_def Let_def n_def [symmetric] d_def [symmetric] xd x1_def P(1) by simp
  show ?thesis unfolding ft write_floating_def Let_def x0_def [symmetric] D_def [symmetric] r prod.case
      x1_def [symmetric] xd_def [symmetric] neg P(2,3) ex rbind_Inr
    by (intro then_appends [OF sputc_appends] then_appends [OF swrite_appends] sprintf_last;
        use assms(1,4) D xl in \<open>auto simp: dec_pad_props\<close>)
qed

end

section \<open>Properties\<close>

text \<open>
  C10. A real is written rounded as the standard prescribes: the fixed-point form writes the
  magnitude rounded half away from zero to the places asked for, exactly and however large or
  small the value, with a sign only if something but zero is left; the floating-point form writes
  one digit, the rounded places and the decimal exponent, which moves up when the rounding
  carries; both fill the field.
\<close>

theorem write_real_rounds:
  assumes "writing_to w f" "is_double m e" "length (written w f) + max (nat width) 2000 < SINK_MAX"
  shows "(prec \<le> 1137 \<longrightarrow>
      appended writing_to written w f (c_pad width (fixed_text neg (magnitude m e) prec)) False
        (pas_write_real (\<lambda>_. True) (Finite neg m e) width (int prec) w f)) \<and>
    (width \<le> 773 \<longrightarrow>
      appended writing_to written w f
        (floating_text neg (magnitude m e) (c_exponent m e)
          (nat (act_width width (exp_digits (c_exponent m e)) - int (exp_digits (c_exponent m e)) - 5))) False
        (pas_write_real (\<lambda>_. True) (Finite neg m e) width (- 1) w f)) \<and>
    (m > 0 \<longrightarrow> 10 powi c_exponent m e \<le> magnitude m e \<and> magnitude m e < 10 powi (c_exponent m e + 1))"
proof -
  let ?g = "f\<lparr>atbol := False\<rparr>"
  have g: "writing_to w ?g" "written w ?g = written w f" using assms(1) by simp_all
  have out: "pas_out f = Inr ()" by (rule any_sink.out_ok [OF assms(1)])
  have begun: "appended writing_to written w ?g s False r \<Longrightarrow> appended writing_to written w f s False r" for s r
    by (auto simp: appended_def)
  show ?thesis
    using any_sink.write_fixed_appends [OF g(1) assms(2), of prec width neg] any_sink.write_floating_appends [OF g(1) assms(2), of width neg]
      c_exponent_decade [OF assms(2)] assms(3) g(2) begun
    by (auto simp: pas_write_real_def out)
qed

lemma round_away_exact: "round_away (real k / 2 ^ j) p = (2 * k * 10 ^ p + 2 ^ j) div (2 * 2 ^ j)"
proof -
  have "real k / 2 ^ j * 10 ^ p + 1 / 2 = real (2 * k * 10 ^ p + 2 ^ j) / real (2 * 2 ^ j)" by (simp add: field_simps)
  then show ?thesis unfolding round_away_def by (simp only: floor_divide_of_nat_eq nat_int)
qed

theorem write_real_rounds_witness:
  "appended writing_to written world0 pas_str_write_begin '' -0.13'' False
     (pas_write_real (\<lambda>_. True) (Finite True 1 (- 3)) 6 2 world0 pas_str_write_begin)"
proof -
  have "magnitude 1 (- 3) = real 1 / 2 ^ 3" by (simp add: magnitude_def power_int_minus)
  then have "fixed_text True (magnitude 1 (- 3)) 2 = ''-0.13''"
    unfolding fixed_text_def by (simp only: round_away_exact) code_simp
  then have "c_pad 6 (fixed_text True (magnitude 1 (- 3)) 2) = '' -0.13''" by (simp add: c_pad_def)
  then show ?thesis
    using write_real_rounds [OF str_writing(1), of 1 "- 3" world0 6 2 True]
    by (simp add: str_writing(2) is_double_def)
qed

text \<open>
  The bounds on the places are needed: with 1450 or more places after the point the code reads past
  the end of its buffer of \<^verbatim>\<open>PAS_REALBUF\<close> bytes, and with a field of 800 or more characters past what
  was put into the buffer of the floating-point form.
\<close>

lemma fixed_overread:
  assumes "is_double m e" "1450 \<le> prec" "fixed_buf prec m e = (d0, i0)" "pas_round_half_up d0 (i0 + prec) = (d1, c)"
    "strip_zeros i0 d1 = (ilen, ip)"
  shows "buf_bytes prec (drop ilen ip) = Inl Undefined"
proof -
  define p where "p = max (prec + 1) 1074"
  define k where "k = min p (1447 - length (int_digits p m e))"
  let ?ip = "int_digits p m e" and ?fp = "dec_pad p (scaled p m e mod 10 ^ p)"
  note buf = fixed_buf_eq [OF assms(1), of prec, folded p_def, folded k_def]
  have d0: "d0 = CHR ''0'' # ?ip @ take k ?fp" "i0 = Suc (length ?ip)" using buf(1) assms(3) by simp_all
  have dig: "list_all is_digit d0" unfolding d0 using dec_nat_digits dec_pad_props(2)
    by (auto simp: int_digits_def list_all_iff digit_zero dest: in_set_takeD)
  have len: "length d0 = i0 + k" using buf(3) by (simp add: d0 dec_pad_props)
  then have "d1 = d0" using assms(2,4) buf(4) by (simp add: pas_round_half_up_def)
  then have "drop ilen ip = drop i0 d0" using strip_zeros_spec [OF dig _ _ assms(5) [unfolded \<open>d1 = d0\<close>]] d0 len by simp
  then show ?thesis using len buf(4) assms(2) by (simp add: buf_bytes_def)
qed

lemma floating_overread:
  assumes "800 \<le> D" "pas_round_half_up (c_digits m e) (1 + D) = (r, c)" "\<bar>x\<bar> < 1000"
  shows "\<not> c" "sig_bytes D (tl r) x = Inl Undefined"
proof -
  have r: "r = c_digits m e" "\<not> c" using assms(1,2) by (auto simp: pas_round_half_up_def c_digits_props)
  have "length (dec_nat (nat \<bar>x\<bar>)) \<le> 3" using assms(3) by (intro dec_nat_length) auto
  then have "length (c_exp_text x) \<le> 5" by (auto simp: c_exp_text_def)
  then show "\<not> c" "sig_bytes D (tl r) x = Inl Undefined" using r assms(1) by (auto simp: sig_bytes_def c_digits_props)
qed

end
