(* ===== verification/Links.thy ===== *)
theory Links
  imports Prelude
begin

text \<open>
  Doubly linked lists through the objects of a program: the handles, the blocks with deferred
  statements and the open files are each kept on one (\<^verbatim>\<open>pasrt.c\<close> writes the same linking and
  unlinking three times).

  A list is the address of its first object and the objects themselves; the link fields are
  read and written through the functions of the locale \<open>dlinks\<close>, which is interpreted for the
  three kinds of object.
\<close>

type_synonym node = nat

text \<open>A segment: the previous link of its first object, where it starts, what it leads to.\<close>

fun seg :: "('n \<Rightarrow> node option) \<Rightarrow> ('n \<Rightarrow> node option) \<Rightarrow> (node \<Rightarrow> 'n) \<Rightarrow> node option \<Rightarrow> node option \<Rightarrow> node list \<Rightarrow> node option \<Rightarrow> bool" where
  "seg gp gn st p h [] t = (h = t)"
| "seg gp gn st p h (x # xs) t = (h = Some x \<and> gp (st x) = p \<and> seg gp gn st (Some x) (gn (st x)) xs t)"

definition chained :: "('n \<Rightarrow> node option) \<Rightarrow> ('n \<Rightarrow> node option) \<Rightarrow> (node \<Rightarrow> 'n) \<Rightarrow> node option \<Rightarrow> node list \<Rightarrow> bool" where
  "chained gp gn st h xs \<longleftrightarrow> distinct xs \<and> seg gp gn st None h xs None"

text \<open>
  Linking an object in front of the list, and taking one out of it: the statements of
  \<^verbatim>\<open>pas_handle_init\<close> and \<^verbatim>\<open>pas_handle_done\<close>, of their companions for the deferred statements, and of
  \<^verbatim>\<open>pas_link_open\<close> and \<^verbatim>\<open>pas_unlink_open\<close>.
\<close>

definition link_front ::
  "(node option \<Rightarrow> 'n \<Rightarrow> 'n) \<Rightarrow> (node option \<Rightarrow> 'n \<Rightarrow> 'n) \<Rightarrow> node \<Rightarrow> (node \<Rightarrow> 'n) \<Rightarrow> node option \<Rightarrow> (node \<Rightarrow> 'n) \<times> node option" where
  "link_front sp sn x st h =
     (let st = st(x := sn h (sp None (st x)));
          st = (case h of None \<Rightarrow> st | Some y \<Rightarrow> st(y := sp (Some x) (st y))) in
      (st, Some x))"

definition unlink ::
  "('n \<Rightarrow> node option) \<Rightarrow> ('n \<Rightarrow> node option) \<Rightarrow> (node option \<Rightarrow> 'n \<Rightarrow> 'n) \<Rightarrow> (node option \<Rightarrow> 'n \<Rightarrow> 'n) \<Rightarrow>
   node \<Rightarrow> (node \<Rightarrow> 'n) \<Rightarrow> node option \<Rightarrow> (node \<Rightarrow> 'n) \<times> node option" where
  "unlink gp gn sp sn x st h =
     (let (st, h) =
            (case gp (st x) of
               Some y \<Rightarrow> (st(y := sn (gn (st x)) (st y)), h)
             | None \<Rightarrow> (st, if h = Some x then gn (st x) else h));
          st = (case gn (st x) of None \<Rightarrow> st | Some y \<Rightarrow> st(y := sp (gp (st x)) (st y))) in
      (st(x := sn None (sp None (st x))), h))"

lemma seg_append:
  "seg gp gn st p h (xs @ ys) t \<longleftrightarrow>
     (\<exists>m. seg gp gn st p h xs m \<and> seg gp gn st (if xs = [] then p else Some (last xs)) m ys t)"
  by (induction xs arbitrary: p h) auto

lemma seg_frame:
  "(\<And>x. x \<in> set xs \<Longrightarrow> gp (st' x) = gp (st x) \<and> gn (st' x) = gn (st x)) \<Longrightarrow>
     seg gp gn st' p h xs t = seg gp gn st p h xs t"
  by (induction xs arbitrary: p h) auto

lemma seg_first: "seg gp gn st p h (x # xs) t \<Longrightarrow> h = Some x"
  by simp

locale dlinks =
  fixes gp gn :: "'n \<Rightarrow> node option" and sp sn :: "node option \<Rightarrow> 'n \<Rightarrow> 'n"
  assumes gp_sp: "gp (sp a n) = a" and gn_sp: "gn (sp a n) = gn n"
    and gp_sn: "gp (sn a n) = gp n" and gn_sn: "gn (sn a n) = a"
begin

lemmas link_fields [simp] = gp_sp gn_sp gp_sn gn_sn

text \<open>A new object comes in front of the others.\<close>

lemma link_front_chained:
  assumes "chained gp gn st h xs" "x \<notin> set xs" "link_front sp sn x st h = (st', h')"
  shows "chained gp gn st' h' (x # xs)"
proof (cases xs)
  case Nil
  then show ?thesis using assms by (auto simp: chained_def link_front_def Let_def)
next
  case (Cons y ys)
  then have y: "y \<notin> set ys" "x \<noteq> y" "x \<notin> set ys" "h = Some y" using assms by (auto simp: chained_def)
  have st': "st' = st(x := sn (Some y) (sp None (st x)), y := sp (Some x) (st y))" "h' = Some x"
    using assms(3) y by (auto simp: link_front_def Let_def)
  have "seg gp gn st' (Some y) (gn (st y)) ys None = seg gp gn st (Some y) (gn (st y)) ys None"
    by (rule seg_frame) (use y in \<open>auto simp: st'\<close>)
  then show ?thesis using assms(1) y Cons by (auto simp: chained_def st')
qed

text \<open>Taking the objects before and after an object of the list as they are linked.\<close>

lemma chained_around:
  assumes "chained gp gn st h (ys @ x # zs)"
  shows "gp (st x) = (if ys = [] then None else Some (last ys))" "gn (st x) = (case zs of [] \<Rightarrow> None | z # _ \<Rightarrow> Some z)"
    "ys = [] \<Longrightarrow> h = Some x" "ys \<noteq> [] \<Longrightarrow> h \<noteq> Some x"
  using assms by (auto simp: chained_def seg_append split: list.splits) (cases ys; auto)+

text \<open>The fields after an object was taken out: its neighbours are linked to each other.\<close>

lemma unlink_fields:
  assumes "gp (st x) \<noteq> Some x" "gn (st x) \<noteq> Some x" "unlink gp gn sp sn x st h = (st', h')"
  shows "gp (st' v) = (if v = x then None else if gn (st x) = Some v then gp (st x) else gp (st v))"
    "gn (st' v) = (if v = x then None else if gp (st x) = Some v then gn (st x) else gn (st v))"
    "h' = (if gp (st x) = None \<and> h = Some x then gn (st x) else h)"
  using assms by (auto simp: unlink_def Let_def split: option.splits prod.splits if_splits)

lemma unlink_chained:
  assumes "chained gp gn st h (ys @ x # zs)" "unlink gp gn sp sn x st h = (st', h')"
  shows "chained gp gn st' h' (ys @ zs)" "gp (st' x) = None" "gn (st' x) = None"
proof -
  note A = chained_around [OF assms(1)]
  have d: "distinct (ys @ x # zs)" using assms(1) by (simp add: chained_def)
  have nx: "gp (st x) \<noteq> Some x" "gn (st x) \<noteq> Some x" using A(1,2) d by (auto split: list.splits)
  note F = unlink_fields [OF nx assms(2)]
  show "gp (st' x) = None" "gn (st' x) = None" using F by simp_all
  have lz: "ys \<noteq> [] \<Longrightarrow> last ys \<notin> set zs" 
  proof
    assume "ys \<noteq> []" "last ys \<in> set zs"
    then have "last ys \<in> set ys \<inter> set zs" by simp
    with d show False by simp
  qed
  let ?p = "if ys = [] then None else Some (last ys)"
  have right: "seg gp gn st' ?p (gn (st x)) zs None"
  proof (cases zs)
    case (Cons z zs')
    have "seg gp gn st (Some z) (gn (st z)) zs' None" using assms(1) Cons by (simp add: chained_def seg_append)
    moreover have "seg gp gn st' (Some z) (gn (st z)) zs' None = seg gp gn st (Some z) (gn (st z)) zs' None"
      by (rule seg_frame) (use d A Cons F lz in \<open>auto split: if_splits\<close>)
    ultimately show ?thesis using A d Cons F by (auto split: if_splits)
  qed (use A in simp)
  show "chained gp gn st' h' (ys @ zs)"
  proof (cases ys rule: rev_cases)
    case Nil
    then show ?thesis using right A F d by (simp add: chained_def)
  next
    case (snoc us u)
    have s: "seg gp gn st None h us (Some u)" "gp (st u) = (if us = [] then None else Some (last us))"
      using assms(1) snoc by (auto simp: chained_def seg_append)
    have "seg gp gn st' None h us (Some u) = seg gp gn st None h us (Some u)"
      by (rule seg_frame) (use d A snoc F in \<open>auto split: if_splits list.splits\<close>)
    then show ?thesis using right A F d snoc s by (auto simp: chained_def seg_append split: list.splits)
  qed
qed

text \<open>An object that is on no list is left alone, and so is the list.\<close>

lemma unlink_off:
  assumes "gp (st x) = None" "gn (st x) = None" "h \<noteq> Some x" "unlink gp gn sp sn x st h = (st', h')"
  shows "h' = h" "\<And>y. y \<noteq> x \<Longrightarrow> st' y = st y"
  using assms by (auto simp: unlink_def Let_def)

end

end
