(* ===== verification/Unwind.thy ===== *)
theory Unwind
  imports Links Files
begin

text \<open>
  What an activation owns and how it is given back: the handles, the deferred statements and
  the files of the blocks (\<^verbatim>\<open>pasrt.c\<close>), their release at a block exit, and the two ways to leave
  several blocks at once, the non-local \<^verbatim>\<open>goto\<close> and \<^verbatim>\<open>halt\<close>; also \<^verbatim>\<open>new\<close> and \<^verbatim>\<open>dispose\<close>.

  The state is that of one thread: the slots of the three kinds by address, the heads of the
  three lists, the world of streams, and a trace of what was released.  A closer is a foreign
  routine; what it answers is the argument \<open>closer\<close>.  A deferred statement is compiled code of
  the program; what it does to the state is the argument \<open>run\<close>, which also says whether it
  returned or ended in a \<^verbatim>\<open>halt\<close> of its own.
\<close>

record pas_handle =
  hvalue :: "nat option"
  hcloser :: nat
  hprev :: "nat option"
  hnext :: "nat option"

record pas_defer =
  drun :: "nat option"
  dframe :: nat
  dprev :: "nat option"
  dnext :: "nat option"

datatype event = Closed nat nat | Ran nat nat | FileDone nat

record rt =
  handles :: "nat \<Rightarrow> pas_handle"
  live_handles :: "nat option"
  defers :: "nat \<Rightarrow> pas_defer"
  live_defers :: "nat option"
  files :: "nat \<Rightarrow> pas_file"
  open_files :: "nat option"
  outside :: world
  pas_at :: "pas_pos option"
  trace :: "event list"

type_synonym runner = "nat \<Rightarrow> nat \<Rightarrow> rt \<Rightarrow> rt \<times> int option"

definition log :: "event \<Rightarrow> rt \<Rightarrow> rt" where
  "log e s = s\<lparr>trace := trace s @ [e]\<rparr>"

section \<open>Handles\<close>

definition hunlink :: "nat \<Rightarrow> rt \<Rightarrow> rt" where
  "hunlink x s =
     (let (st, h) = unlink hprev hnext (\<lambda>a. hprev_update (\<lambda>_. a)) (\<lambda>a. hnext_update (\<lambda>_. a)) x (handles s) (live_handles s) in
      s\<lparr>handles := st, live_handles := h\<rparr>)"

definition upd_handle :: "nat \<Rightarrow> (pas_handle \<Rightarrow> pas_handle) \<Rightarrow> rt \<Rightarrow> rt" where
  "upd_handle x f s = s\<lparr>handles := (handles s)(x := f (handles s x))\<rparr>"

definition pas_handle_init :: "nat \<Rightarrow> nat \<Rightarrow> rt \<Rightarrow> rt" where
  "pas_handle_init x cl s =
     (let s = upd_handle x (\<lambda>h. h\<lparr>hvalue := None, hcloser := cl\<rparr>) s;
          (st, h) = link_front (\<lambda>a. hprev_update (\<lambda>_. a)) (\<lambda>a. hnext_update (\<lambda>_. a)) x (handles s) (live_handles s) in
      s\<lparr>handles := st, live_handles := h\<rparr>)"

definition pas_handle_release :: "nat \<Rightarrow> rt \<Rightarrow> rt" where
  "pas_handle_release x s =
     (case hvalue (handles s x) of
        None \<Rightarrow> s
      | Some v \<Rightarrow> upd_handle x (\<lambda>h. h\<lparr>hvalue := None\<rparr>) (log (Closed (hcloser (handles s x)) v) s))"

definition pas_handle_release_result :: "(nat \<Rightarrow> nat \<Rightarrow> int) \<Rightarrow> nat \<Rightarrow> rt \<Rightarrow> int \<times> rt" where
  "pas_handle_release_result closer x s =
     (case hvalue (handles s x) of
        None \<Rightarrow> (0, s)
      | Some v \<Rightarrow> (closer (hcloser (handles s x)) v,
                   upd_handle x (\<lambda>h. h\<lparr>hvalue := None\<rparr>) (log (Closed (hcloser (handles s x)) v) s)))"

definition pas_handle_take :: "nat \<Rightarrow> rt \<Rightarrow> nat option \<times> rt" where
  "pas_handle_take x s = (hvalue (handles s x), upd_handle x (\<lambda>h. h\<lparr>hvalue := None\<rparr>) s)"

definition pas_handle_done :: "nat \<Rightarrow> rt \<Rightarrow> rt" where
  "pas_handle_done x s = hunlink x (pas_handle_release x s)"

definition pas_handle_set :: "nat \<Rightarrow> nat option \<Rightarrow> rt \<Rightarrow> rt" where
  "pas_handle_set x v s = upd_handle x (\<lambda>h. h\<lparr>hvalue := v\<rparr>) (pas_handle_release x s)"

definition pas_handle_lend :: "nat \<Rightarrow> rt \<Rightarrow> nat res" where
  "pas_handle_lend x s =
     (case hvalue (handles s x) of
        None \<Rightarrow> Inl (Trap ''the handle is empty, and a foreign routine may not be lent it'')
      | Some v \<Rightarrow> Inr v)"

definition pas_handle_peek :: "nat \<Rightarrow> rt \<Rightarrow> nat option" where
  "pas_handle_peek x s = hvalue (handles s x)"

section \<open>Deferred statements\<close>

definition pas_defer_init :: "nat \<Rightarrow> nat \<Rightarrow> nat \<Rightarrow> rt \<Rightarrow> rt" where
  "pas_defer_init x fn frame s =
     (let ds = (defers s)(x := (defers s x)\<lparr>drun := Some fn, dframe := frame\<rparr>);
          (st, h) = link_front (\<lambda>a. dprev_update (\<lambda>_. a)) (\<lambda>a. dnext_update (\<lambda>_. a)) x ds (live_defers s) in
      s\<lparr>defers := st, live_defers := h\<rparr>)"

definition dunlink :: "nat \<Rightarrow> rt \<Rightarrow> rt" where
  "dunlink x s =
     (let (st, h) = unlink dprev dnext (\<lambda>a. dprev_update (\<lambda>_. a)) (\<lambda>a. dnext_update (\<lambda>_. a)) x (defers s) (live_defers s) in
      s\<lparr>defers := st(x := (st x)\<lparr>drun := None\<rparr>), live_defers := h\<rparr>)"

definition pas_defer_done :: "runner \<Rightarrow> nat \<Rightarrow> rt \<Rightarrow> rt \<times> int option" where
  "pas_defer_done run x s =
     (let fn = drun (defers s x); frame = dframe (defers s x); s = dunlink x s in
      case fn of None \<Rightarrow> (s, None) | Some f \<Rightarrow> run f frame (log (Ran f frame) s))"

section \<open>Open files\<close>

definition pas_link_open :: "nat \<Rightarrow> rt \<Rightarrow> rt" where
  "pas_link_open x s =
     (let (st, h) = link_front (\<lambda>a. prev_open_update (\<lambda>_. a)) (\<lambda>a. next_open_update (\<lambda>_. a)) x (files s) (open_files s) in
      s\<lparr>files := st, open_files := h\<rparr>)"

definition pas_unlink_open :: "nat \<Rightarrow> rt \<Rightarrow> rt" where
  "pas_unlink_open x s =
     (let (st, h) = unlink prev_open next_open (\<lambda>a. prev_open_update (\<lambda>_. a)) (\<lambda>a. next_open_update (\<lambda>_. a)) x (files s) (open_files s) in
      s\<lparr>files := st, open_files := h\<rparr>)"

definition pas_file_done :: "nat \<Rightarrow> rt \<Rightarrow> rt" where
  "pas_file_done x s =
     (let s = pas_unlink_open x s; (w, f) = pas_file_close (outside s) (files s x) in
      log (FileDone x) (s\<lparr>files := (files s)(x := f), outside := w\<rparr>))"

section \<open>The non-local goto\<close>

record pas_jump =
  mark :: "nat option"
  hmark :: "nat option"
  dmark :: "nat option"
  active :: bool

definition pas_jump_env :: "rt \<Rightarrow> pas_jump" where
  "pas_jump_env s = \<lparr>mark = open_files s, hmark = live_handles s, dmark = live_defers s, active = True\<rparr>"

definition pas_jump_done :: "pas_jump \<Rightarrow> pas_jump" where
  "pas_jump_done j = j\<lparr>active := False\<rparr>"

text \<open>How the process goes on: at the label with that number, or not at all.\<close>

datatype leave = Jumped int rt | Exited int rt

text \<open>
  A walk from an object of a list up to a mark, the next one read before the object is done
  with; the fuel bounds the objects met.
\<close>

fun walk :: "(rt \<Rightarrow> nat \<Rightarrow> nat option) \<Rightarrow> (nat \<Rightarrow> rt \<Rightarrow> rt) \<Rightarrow> nat \<Rightarrow> nat option \<Rightarrow> nat option \<Rightarrow> rt \<Rightarrow> rt res" where
  "walk nxt fin 0 m x s = Inl Diverges"
| "walk nxt fin (Suc k) m x s =
     (case x of
        None \<Rightarrow> Inr s
      | Some y \<Rightarrow> if x = m then Inr s else walk nxt fin k m (nxt s y) (fin y s))"

definition file_walk :: "nat \<Rightarrow> nat option \<Rightarrow> rt \<Rightarrow> rt res" where
  "file_walk k m s = walk (\<lambda>s y. next_open (files s y)) pas_file_done k m (open_files s) s"

definition handle_walk :: "nat \<Rightarrow> nat option \<Rightarrow> nat option \<Rightarrow> rt \<Rightarrow> rt res" where
  "handle_walk k m x s = walk (\<lambda>s y. hnext (handles s y)) pas_handle_done k m x s"

section \<open>Halt\<close>

text \<open>A deferred statement that halts starts the same loop again, with its own status.\<close>

fun halt_defers :: "runner \<Rightarrow> nat \<Rightarrow> int \<Rightarrow> rt \<Rightarrow> (int \<times> rt) res" where
  "halt_defers run 0 status s = Inl Diverges"
| "halt_defers run (Suc k) status s =
     (case live_defers s of
        None \<Rightarrow> Inr (status, s)
      | Some d \<Rightarrow>
          (case pas_defer_done run d s of
             (s, None) \<Rightarrow> halt_defers run k status s
           | (s, Some st) \<Rightarrow> halt_defers run k st s))"

definition pas_halt :: "runner \<Rightarrow> nat \<Rightarrow> int \<Rightarrow> rt \<Rightarrow> leave res" where
  "pas_halt run fuel status s =
     rbind (halt_defers run fuel status s) (\<lambda>(status, s).
       let h = live_handles s in
       rbind (file_walk fuel None s) (\<lambda>s.
       rbind (handle_walk fuel None h s) (\<lambda>s. Inr (Exited status s))))"

fun jump_defers :: "runner \<Rightarrow> nat \<Rightarrow> nat \<Rightarrow> nat option \<Rightarrow> nat option \<Rightarrow> rt \<Rightarrow> (leave + rt) res" where
  "jump_defers run fuel 0 m x s = Inl Diverges"
| "jump_defers run fuel (Suc k) m x s =
     (case x of
        None \<Rightarrow> Inr (Inr s)
      | Some d \<Rightarrow>
          if x = m then Inr (Inr s)
          else let nxt = dnext (defers s d) in
            (case pas_defer_done run d s of
               (s, None) \<Rightarrow> jump_defers run fuel k m nxt s
             | (s, Some st) \<Rightarrow> rbind (pas_halt run fuel st s) (\<lambda>l. Inr (Inl l))))"

definition pas_jump_go :: "runner \<Rightarrow> nat \<Rightarrow> pas_jump \<Rightarrow> int \<Rightarrow> rt \<Rightarrow> leave res" where
  "pas_jump_go run fuel j target s =
     (if \<not> active j then Inl (Trap ''goto to a block that is no longer active'')
      else rbind (jump_defers run fuel fuel (dmark j) (live_defers s) (s\<lparr>pas_at := None\<rparr>)) (\<lambda>r.
        case r of
          Inl l \<Rightarrow> Inr l
        | Inr s \<Rightarrow>
            rbind (file_walk fuel (mark j) s) (\<lambda>s.
            rbind (handle_walk fuel (hmark j) (live_handles s) s) (\<lambda>s. Inr (Jumped target s)))))"

section \<open>The heap balance\<close>

record balance =
  heap_news :: int
  heap_disposes :: int
  heap_armed :: bool

definition pas_new :: "bool \<Rightarrow> int \<Rightarrow> balance \<Rightarrow> (nat \<times> balance) res" where
  "pas_new mem n b =
     (let b = b\<lparr>heap_news := heap_news b + 1, heap_armed := True\<rparr> in
      if mem then Inr (if n > 0 then nat n else 1, b) else Inl (Trap ''out of memory in new''))"

definition pas_dispose :: "bool \<Rightarrow> balance \<Rightarrow> balance" where
  "pas_dispose null b = (if null then b else b\<lparr>heap_disposes := heap_disposes b + 1\<rparr>)"

definition pas_heap_dump :: "balance \<Rightarrow> string" where
  "pas_heap_dump b = ''new='' @ dec_int (heap_news b) @ '' dispose='' @ dec_int (heap_disposes b) @
     '' live='' @ dec_int (heap_news b - heap_disposes b) @ [CHR 0x0A]"

section \<open>The three lists\<close>

definition hchain :: "rt \<Rightarrow> nat list \<Rightarrow> bool" where
  "hchain s xs = chained hprev hnext (handles s) (live_handles s) xs"

definition dchain :: "rt \<Rightarrow> nat list \<Rightarrow> bool" where
  "dchain s xs = chained dprev dnext (defers s) (live_defers s) xs"

definition fchain :: "rt \<Rightarrow> nat list \<Rightarrow> bool" where
  "fchain s xs = chained prev_open next_open (files s) (open_files s) xs"

lemmas chain_defs = hchain_def dchain_def fchain_def

interpretation handle_links: dlinks hprev hnext "\<lambda>a. hprev_update (\<lambda>_. a)" "\<lambda>a. hnext_update (\<lambda>_. a)"
  by unfold_locales simp_all

interpretation defer_links: dlinks dprev dnext "\<lambda>a. dprev_update (\<lambda>_. a)" "\<lambda>a. dnext_update (\<lambda>_. a)"
  by unfold_locales simp_all

interpretation file_links: dlinks prev_open next_open "\<lambda>a. prev_open_update (\<lambda>_. a)" "\<lambda>a. next_open_update (\<lambda>_. a)"
  by unfold_locales simp_all

definition hd_opt :: "'a list \<Rightarrow> 'a option" where
  "hd_opt xs = (case xs of [] \<Rightarrow> None | x # _ \<Rightarrow> Some x)"

lemma chained_head: "chained gp gn st h xs \<Longrightarrow> h = hd_opt xs"
  by (cases xs) (auto simp: chained_def hd_opt_def)

lemma chained_next: "chained gp gn st h (x # xs) \<Longrightarrow> gn (st x) = hd_opt xs"
  by (cases xs) (auto simp: chained_def hd_opt_def)

text \<open>Changes that leave the links alone leave the lists alone.\<close>

lemma chained_same:
  "(\<And>x. gp (st' x) = gp (st x) \<and> gn (st' x) = gn (st x)) \<Longrightarrow> chained gp gn st' h xs = chained gp gn st h xs"
  unfolding chained_def by (subst seg_frame [where st = st and st' = st']) auto

lemma release_chain [simp]: "hchain (pas_handle_release x s) xs = hchain s xs"
  unfolding hchain_def pas_handle_release_def upd_handle_def log_def
  by (auto split: option.splits intro!: chained_same)

lemma release_fields [simp]:
  "defers (pas_handle_release x s) = defers s" "live_defers (pas_handle_release x s) = live_defers s"
  "files (pas_handle_release x s) = files s" "open_files (pas_handle_release x s) = open_files s"
  "outside (pas_handle_release x s) = outside s" "pas_at (pas_handle_release x s) = pas_at s"
  "hvalue (handles (pas_handle_release x s) x) = None"
  by (auto simp: pas_handle_release_def upd_handle_def log_def split: option.splits)

section \<open>Unwinding a list\<close>

text \<open>
  What the two walks need of a list: the next object is the one behind, an object that is done
  with leaves the list, its events are its own, and the rest of the state is kept.
\<close>

locale unwinding =
  fixes chain :: "rt \<Rightarrow> nat list \<Rightarrow> bool" and nxt :: "rt \<Rightarrow> nat \<Rightarrow> nat option" and fin :: "nat \<Rightarrow> rt \<Rightarrow> rt"
    and evs :: "rt \<Rightarrow> nat \<Rightarrow> event list" and same :: "rt \<Rightarrow> rt \<Rightarrow> bool" and gone :: "rt \<Rightarrow> nat \<Rightarrow> bool"
  assumes chain_distinct: "chain s xs \<Longrightarrow> distinct xs"
    and next_behind: "chain s (x # xs) \<Longrightarrow> nxt s x = hd_opt xs"
    and fin_chain: "chain s (x # xs) \<Longrightarrow> chain (fin x s) xs"
    and fin_trace: "trace (fin x s) = trace s @ evs s x"
    and fin_others: "chain s (x # xs) \<Longrightarrow> y \<noteq> x \<Longrightarrow> evs (fin x s) y = evs s y \<and> (gone s y \<longrightarrow> gone (fin x s) y)"
    and fin_gone: "gone (fin x s) x"
    and same_refl: "same s s" and same_trans: "same s t \<Longrightarrow> same t u \<Longrightarrow> same s u" and fin_same: "same s (fin x s)"
begin

lemma walk_unwinds:
  assumes "chain s (ys @ zs)" "m = hd_opt zs" "length ys < k"
  shows "\<exists>s'. walk nxt fin k m (hd_opt (ys @ zs)) s = Inr s' \<and> chain s' zs \<and> same s s' \<and>
    trace s' = trace s @ concat (map (evs s) ys) \<and> (\<forall>y. gone s y \<or> y \<in> set ys \<longrightarrow> gone s' y)"
  using assms
proof (induction ys arbitrary: s k)
  case Nil
  then obtain j where "k = Suc j" by (cases k) auto
  with Nil show ?case using same_refl by (cases zs) (auto simp: hd_opt_def)
next
  case (Cons y ys)
  then obtain j where k: "k = Suc j" "length ys < j" by (cases k) auto
  have d: "distinct (y # ys @ zs)" using chain_distinct [OF Cons.prems(1)] by simp
  then have m: "Some y \<noteq> m" using Cons.prems(2) by (cases zs) (auto simp: hd_opt_def)
  have c: "chain (fin y s) (ys @ zs)" "nxt s y = hd_opt (ys @ zs)"
    using fin_chain next_behind Cons.prems(1) by simp_all
  from Cons.IH [OF c(1) Cons.prems(2) k(2)] obtain s' where
    s': "walk nxt fin j m (hd_opt (ys @ zs)) (fin y s) = Inr s'" "chain s' zs" "same (fin y s) s'"
      "trace s' = trace (fin y s) @ concat (map (evs (fin y s)) ys)" "\<forall>x. gone (fin y s) x \<or> x \<in> set ys \<longrightarrow> gone s' x" by blast
  have o: "x \<noteq> y \<Longrightarrow> evs (fin y s) x = evs s x \<and> (gone s x \<longrightarrow> gone (fin y s) x)" for x
    using fin_others [of s y "ys @ zs" x] Cons.prems(1) by simp
  have e: "concat (map (evs (fin y s)) ys) = concat (map (evs s) ys)"
  proof (rule arg_cong [of _ _ concat], rule map_cong [OF refl])
    fix x
    assume "x \<in> set ys"
    then have "x \<noteq> y" using d by auto
    then show "evs (fin y s) x = evs s x" using o by blast
  qed
  have "walk nxt fin k m (hd_opt ((y # ys) @ zs)) s = Inr s'" using s'(1) c(2) m k(1) by (simp add: hd_opt_def)
  moreover have "\<forall>x. gone s x \<or> x \<in> set (y # ys) \<longrightarrow> gone s' x"
  proof (intro allI impI)
    fix x
    assume "gone s x \<or> x \<in> set (y # ys)"
    then have "gone (fin y s) x \<or> x \<in> set ys" using fin_gone [of y s] o [of x] by (cases "x = y") auto
    then show "gone s' x" using s'(5) by blast
  qed
  moreover have "trace s' = trace s @ concat (map (evs s) (y # ys))" using s'(4) e fin_trace [of y s] by simp
  ultimately show ?case using s'(2) same_trans [OF fin_same s'(3)] by blast
qed

end

definition closes :: "rt \<Rightarrow> nat \<Rightarrow> event list" where
  "closes s x = (case hvalue (handles s x) of None \<Rightarrow> [] | Some v \<Rightarrow> [Closed (hcloser (handles s x)) v])"

definition same_but_files :: "rt \<Rightarrow> rt \<Rightarrow> bool" where
  "same_but_files s t \<longleftrightarrow> handles t = handles s \<and> live_handles t = live_handles s \<and> defers t = defers s \<and> live_defers t = live_defers s"

definition same_but_handles :: "rt \<Rightarrow> rt \<Rightarrow> bool" where
  "same_but_handles s t \<longleftrightarrow> files t = files s \<and> open_files t = open_files s \<and> defers t = defers s \<and> live_defers t = live_defers s"

lemma unlink_open_chain:
  assumes "fchain s (x # xs)"
  shows "fchain (pas_unlink_open x s) xs"
  using assms file_links.unlink_chained(1) [of "files s" "open_files s" "[]" x xs]
  by (auto simp: fchain_def pas_unlink_open_def split: prod.splits)

lemma file_close_links: "prev_open (snd (pas_file_close w f)) = prev_open f" "next_open (snd (pas_file_close w f)) = next_open f"
  by (auto simp: pas_file_close_def Let_def split: option.splits)

lemma file_done_chain:
  assumes "fchain s (x # xs)"
  shows "fchain (pas_file_done x s) xs"
proof -
  have "fchain (pas_file_done x s) xs = fchain (pas_unlink_open x s) xs"
    using file_close_links [of "outside (pas_unlink_open x s)" "files (pas_unlink_open x s) x"]
    unfolding fchain_def pas_file_done_def log_def Let_def
    by (auto split: prod.splits intro!: chained_same)
  with unlink_open_chain [OF assms] show ?thesis by simp
qed

interpretation files_unwind: unwinding fchain "\<lambda>s y. next_open (files s y)" pas_file_done "\<lambda>s x. [FileDone x]" same_but_files "\<lambda>s x. True"
proof
  fix s x xs
  show "fchain s xs \<Longrightarrow> distinct xs" by (simp add: fchain_def chained_def)
  show "fchain s (x # xs) \<Longrightarrow> next_open (files s x) = hd_opt xs" unfolding fchain_def by (rule chained_next)
  show "fchain s (x # xs) \<Longrightarrow> fchain (pas_file_done x s) xs" by (rule file_done_chain)
  show "trace (pas_file_done x s) = trace s @ [FileDone x]" "same_but_files s (pas_file_done x s)"
    by (auto simp: pas_file_done_def pas_unlink_open_def log_def Let_def same_but_files_def split: prod.splits)
qed (auto simp: same_but_files_def)

lemma handle_done_fields:
  "trace (pas_handle_done x s) = trace s @ closes s x" "same_but_handles s (pas_handle_done x s)"
  by (auto simp: pas_handle_done_def hunlink_def pas_handle_release_def closes_def log_def upd_handle_def same_but_handles_def
      split: prod.splits option.splits)

lemma unlink_values:
  assumes "unlink hprev hnext (\<lambda>a. hprev_update (\<lambda>_. a)) (\<lambda>a. hnext_update (\<lambda>_. a)) x st h = (st', h')"
  shows "hvalue (st' y) = hvalue (st y)" "hcloser (st' y) = hcloser (st y)"
  using assms by (auto simp: unlink_def Let_def split: option.splits prod.splits if_splits)

lemma handle_done_values:
  "hvalue (handles (pas_handle_done x s) y) = (if y = x then None else hvalue (handles s y))"
  "hcloser (handles (pas_handle_done x s) y) = hcloser (handles s y)"
  by (auto simp: pas_handle_done_def hunlink_def pas_handle_release_def log_def upd_handle_def unlink_values
      split: prod.splits option.splits)

lemma handle_done_chain:
  assumes "hchain s (x # xs)"
  shows "hchain (pas_handle_done x s) xs"
proof -
  have "hchain (pas_handle_release x s) (x # xs)" using assms by simp
  then show ?thesis using handle_links.unlink_chained(1) [of "handles (pas_handle_release x s)" _ "[]" x xs]
    by (auto simp: hchain_def pas_handle_done_def hunlink_def split: prod.splits)
qed

interpretation handles_unwind: unwinding hchain "\<lambda>s y. hnext (handles s y)" pas_handle_done closes same_but_handles
  "\<lambda>s x. hvalue (handles s x) = None"
proof
  fix s x xs y
  show "hchain s xs \<Longrightarrow> distinct xs" by (simp add: hchain_def chained_def)
  show "hchain s (x # xs) \<Longrightarrow> hnext (handles s x) = hd_opt xs" unfolding hchain_def by (rule chained_next)
  show "hchain s (x # xs) \<Longrightarrow> hchain (pas_handle_done x s) xs" by (rule handle_done_chain)
  show "trace (pas_handle_done x s) = trace s @ closes s x" "same_but_handles s (pas_handle_done x s)"
    by (rule handle_done_fields)+
  show "y \<noteq> x \<Longrightarrow> closes (pas_handle_done x s) y = closes s y \<and>
      (hvalue (handles s y) = None \<longrightarrow> hvalue (handles (pas_handle_done x s) y) = None)"
    by (simp add: closes_def handle_done_values split: option.split)
  show "hvalue (handles (pas_handle_done x s) x) = None" by (simp add: handle_done_values)
qed (auto simp: same_but_handles_def)

section \<open>Running the deferred statements\<close>

definition is_run :: "event \<Rightarrow> bool" where
  "is_run e = (case e of Ran _ _ \<Rightarrow> True | _ \<Rightarrow> False)"

definition is_close :: "event \<Rightarrow> bool" where
  "is_close e = (case e of Closed _ _ \<Rightarrow> True | _ \<Rightarrow> False)"

text \<open>
  What is relied on of a deferred statement: the blocks it enters it leaves again, so it keeps the
  three lists, and whether it returns or halts, all it may do to them is release or set a
  handle.
\<close>

definition balanced :: "runner \<Rightarrow> bool" where
  "balanced run \<longleftrightarrow> (\<forall>f fr s s' r. run f fr s = (s', r) \<longrightarrow>
     (\<forall>xs. (dchain s xs \<longrightarrow> dchain s' xs) \<and> (fchain s xs \<longrightarrow> fchain s' xs) \<and> (hchain s xs \<longrightarrow> hchain s' xs)) \<and>
     (\<forall>d. drun (defers s' d) = drun (defers s d) \<and> dframe (defers s' d) = dframe (defers s d)) \<and>
     (\<exists>es. trace s' = trace s @ es \<and> list_all is_close es))"

definition runs :: "rt \<Rightarrow> nat \<Rightarrow> event list" where
  "runs s d = (case drun (defers s d) of None \<Rightarrow> [] | Some f \<Rightarrow> [Ran f (dframe (defers s d))])"

lemma log_simps [simp]:
  "dchain (log e s) = dchain s" "fchain (log e s) = fchain s" "hchain (log e s) = hchain s" "runs (log e s) = runs s"
  "trace (log e s) = trace s @ [e]"
  by (auto simp: log_def chain_defs runs_def fun_eq_iff split: option.split)

lemma unlink_drun:
  assumes "unlink dprev dnext (\<lambda>a. dprev_update (\<lambda>_. a)) (\<lambda>a. dnext_update (\<lambda>_. a)) x st h = (st', h')"
  shows "drun (st' y) = drun (st y)" "dframe (st' y) = dframe (st y)"
  using assms by (auto simp: unlink_def Let_def split: option.splits prod.splits if_splits)

lemma dunlink_facts:
  assumes "dchain s (d # ds)"
  shows "dchain (dunlink d s) ds" "trace (dunlink d s) = trace s" "fchain (dunlink d s) = fchain s" "hchain (dunlink d s) = hchain s"
    "y \<noteq> d \<Longrightarrow> runs (dunlink d s) y = runs s y"
proof -
  obtain st h where u: "unlink dprev dnext (\<lambda>a. dprev_update (\<lambda>_. a)) (\<lambda>a. dnext_update (\<lambda>_. a)) d (defers s) (live_defers s) = (st, h)"
    by fastforce
  have "chained dprev dnext st h ds"
    using defer_links.unlink_chained(1) [of "defers s" "live_defers s" "[]" d ds, OF _ u] assms by (simp add: dchain_def)
  then have "chained dprev dnext (st(d := (st d)\<lparr>drun := None\<rparr>)) h ds" by (subst chained_same [where st = st]) auto
  then show "dchain (dunlink d s) ds" by (simp add: dchain_def dunlink_def u)
  show "trace (dunlink d s) = trace s" "fchain (dunlink d s) = fchain s" "hchain (dunlink d s) = hchain s"
    by (auto simp: dunlink_def u fchain_def hchain_def fun_eq_iff)
  show "y \<noteq> d \<Longrightarrow> runs (dunlink d s) y = runs s y" by (simp add: runs_def dunlink_def u unlink_drun [OF u] split: option.split)
qed

text \<open>
  One block's deferred statements: its record is off the list before they run, and they run once.
\<close>

lemma defer_done_runs:
  assumes "balanced run" "dchain s (d # ds)" "fchain s fs" "hchain s hs"
  shows "\<exists>s' r es. pas_defer_done run d s = (s', r) \<and> dchain s' ds \<and> fchain s' fs \<and> hchain s' hs \<and>
    trace s' = trace s @ runs s d @ es \<and> list_all is_close es \<and> (\<forall>y. y \<noteq> d \<longrightarrow> runs s' y = runs s y)"
proof -
  note U = dunlink_facts [OF assms(2)]
  show ?thesis
  proof (cases "drun (defers s d)")
    case None
    have "pas_defer_done run d s = (dunlink d s, None)" using None by (simp add: pas_defer_done_def Let_def)
    then show ?thesis using U assms None by (intro exI [of _ "dunlink d s"] exI [of _ None] exI [of _ "[]"]) (simp add: runs_def)
  next
    case (Some f)
    define t where "t = log (Ran f (dframe (defers s d))) (dunlink d s)"
    obtain s' r where r: "run f (dframe (defers s d)) t = (s', r)" by fastforce
    have t: "dchain t ds" "fchain t fs" "hchain t hs" "trace t = trace s @ runs s d" "y \<noteq> d \<Longrightarrow> runs t y = runs s y" for y
      using U assms Some by (auto simp: t_def runs_def [of s d])
    have b: "\<forall>xs. (dchain t xs \<longrightarrow> dchain s' xs) \<and> (fchain t xs \<longrightarrow> fchain s' xs) \<and> (hchain t xs \<longrightarrow> hchain s' xs)"
      "\<forall>d. drun (defers s' d) = drun (defers t d) \<and> dframe (defers s' d) = dframe (defers t d)"
      "\<exists>es. trace s' = trace t @ es \<and> list_all is_close es"
      using assms(1) r unfolding balanced_def by blast+
    have "pas_defer_done run d s = (s', r)" using Some r by (simp add: pas_defer_done_def t_def Let_def)
    moreover have "runs s' y = runs t y" for y using b(2) by (simp add: runs_def split: option.split)
    ultimately show ?thesis using b t by fastforce
  qed
qed

lemma run_not_close: "list_all is_close es \<Longrightarrow> filter is_run es = []"
  by (auto simp: list_all_iff filter_empty_conv is_run_def is_close_def split: event.splits)

lemma filter_runs: "filter is_run (runs s d) = runs s d"
  by (simp add: runs_def is_run_def split: option.split)

lemma halt_defers_runs:
  assumes "balanced run" "dchain s ds" "fchain s fs" "hchain s hs" "length ds < k"
  shows "\<exists>st s' es. halt_defers run k status s = Inr (st, s') \<and> dchain s' [] \<and> fchain s' fs \<and> hchain s' hs \<and>
    trace s' = trace s @ es \<and> filter is_run es = concat (map (runs s) ds) \<and> (\<forall>x. FileDone x \<notin> set es)"
  using assms(2-)
proof (induction ds arbitrary: s k status)
  case Nil
  then obtain j where "k = Suc j" by (cases k) auto
  with Nil show ?case by (auto simp: dchain_def chained_def)
next
  case (Cons d ds)
  then obtain j where k: "k = Suc j" "length ds < j" by (cases k) auto
  have live: "live_defers s = Some d" using chained_head Cons.prems(1) unfolding dchain_def hd_opt_def by fastforce
  from defer_done_runs [OF assms(1) Cons.prems(1-3)] obtain s1 r es1 where
    1: "pas_defer_done run d s = (s1, r)" "dchain s1 ds" "fchain s1 fs" "hchain s1 hs" "trace s1 = trace s @ runs s d @ es1"
       "list_all is_close es1" "\<forall>y. y \<noteq> d \<longrightarrow> runs s1 y = runs s y" by blast
  from Cons.IH [OF 1(2-4) k(2), of "case r of None \<Rightarrow> status | Some st \<Rightarrow> st"] obtain st s' es where
    2: "halt_defers run j (case r of None \<Rightarrow> status | Some st \<Rightarrow> st) s1 = Inr (st, s')" "dchain s' []" "fchain s' fs" "hchain s' hs"
       "trace s' = trace s1 @ es" "filter is_run es = concat (map (runs s1) ds)" "\<forall>x. FileDone x \<notin> set es" by blast
  have "d \<notin> set ds" using Cons.prems(1) by (simp add: dchain_def chained_def)
  then have "concat (map (runs s1) ds) = concat (map (runs s) ds)"
    using 1(7) by (intro arg_cong [of _ _ concat] map_cong) auto
  moreover have "halt_defers run k status s = Inr (st, s')" using 1(1) 2(1) live k(1) by (simp split: option.splits)
  moreover have "FileDone x \<notin> set (runs s d @ es1)" for x
    using 1(6) by (auto simp: runs_def list_all_iff is_close_def split: option.splits event.splits)
  ultimately show ?case using 1(5,6) 2 run_not_close [OF 1(6)] filter_runs [of s d]
    by (intro exI [of _ st] exI [of _ s'] exI [of _ "runs s d @ es1 @ es"]) auto
qed

section \<open>Leaving several blocks\<close>

text \<open>
  What leaving the blocks that own the deferred statements \<open>nd\<close>, the files \<open>nf\<close> and the handles
  \<open>nh\<close> has done when only \<open>od\<close>, \<open>of\<close> and \<open>oh\<close> are left: every deferred statement ran once, the last
  first, all of them before the first file was closed, then the files were closed and then the
  handles, each once.
\<close>

definition left_blocks :: "rt \<Rightarrow> nat list \<Rightarrow> nat list \<Rightarrow> nat list \<Rightarrow> nat list \<Rightarrow> nat list \<Rightarrow> nat list \<Rightarrow> rt \<Rightarrow> bool" where
  "left_blocks s nd od nf xf nh oh s' \<longleftrightarrow> dchain s' od \<and> fchain s' xf \<and> hchain s' oh \<and>
     (\<exists>es cl. trace s' = trace s @ es @ map FileDone nf @ cl \<and> filter is_run es = concat (map (runs s) nd) \<and>
       (\<forall>x. FileDone x \<notin> set es) \<and> list_all is_close cl) \<and>
     (\<forall>x \<in> set nh. hvalue (handles s' x) = None)"

lemma closes_close: "list_all is_close (concat (map (closes s) xs))"
  by (auto simp: list_all_iff closes_def is_close_def split: option.splits)

text \<open>The files, then the handles, up to their marks.\<close>

lemma walks_release:
  assumes "fchain s (nf @ xf)" "hchain s (nh @ oh)" "length nf < k" "length nh < k"
  shows "\<exists>s1 s2. file_walk k (hd_opt xf) s = Inr s1 \<and> handle_walk k (hd_opt oh) (live_handles s) s1 = Inr s2 \<and>
    live_handles s1 = live_handles s \<and> fchain s2 xf \<and> hchain s2 oh \<and> dchain s2 = dchain s \<and>
    (\<exists>cl. trace s2 = trace s @ map FileDone nf @ cl \<and> list_all is_close cl) \<and> (\<forall>x \<in> set nh. hvalue (handles s2 x) = None)"
proof -
  have f: "open_files s = hd_opt (nf @ xf)" "live_handles s = hd_opt (nh @ oh)"
    using assms(1,2) unfolding chain_defs by (auto dest: chained_head)
  from files_unwind.walk_unwinds [OF assms(1) refl assms(3)] obtain s1 where
    1: "file_walk k (hd_opt xf) s = Inr s1" "fchain s1 xf" "same_but_files s s1" "trace s1 = trace s @ map FileDone nf"
    unfolding file_walk_def f by (auto simp: concat_map_singleton)
  have h1: "hchain s1 (nh @ oh)" using assms(2) 1(3) by (simp add: hchain_def same_but_files_def)
  from handles_unwind.walk_unwinds [OF h1 refl assms(4)] obtain s2 where
    2: "handle_walk k (hd_opt oh) (hd_opt (nh @ oh)) s1 = Inr s2" "hchain s2 oh" "same_but_handles s1 s2"
       "trace s2 = trace s1 @ concat (map (closes s1) nh)" "\<forall>y. hvalue (handles s1 y) = None \<or> y \<in> set nh \<longrightarrow> hvalue (handles s2 y) = None"
    unfolding handle_walk_def by blast
  have "fchain s2 xf" using 1(2) 2(3) by (simp add: fchain_def same_but_handles_def)
  moreover have "dchain s2 = dchain s"
    by (rule ext) (use 1(3) 2(3) in \<open>simp add: dchain_def same_but_files_def same_but_handles_def\<close>)
  moreover have "live_handles s1 = live_handles s" using 1(3) by (simp add: same_but_files_def)
  moreover have "trace s2 = trace s @ map FileDone nf @ concat (map (closes s1) nh)" using 1(4) 2(4) by simp
  ultimately show ?thesis using 1(1) 2(1,2,5) closes_close [of s1 nh] unfolding f by blast
qed

lemma halt_leaves_all:
  assumes "balanced run" "dchain s ds" "fchain s fs" "hchain s hs" "length ds < k" "length fs < k" "length hs < k"
  shows "\<exists>st s'. pas_halt run k status s = Inr (Exited st s') \<and> left_blocks s ds [] fs [] hs [] s'"
proof -
  from halt_defers_runs [OF assms(1-5)] obtain st s1 es where
    1: "halt_defers run k status s = Inr (st, s1)" "dchain s1 []" "fchain s1 fs" "hchain s1 hs" "trace s1 = trace s @ es"
       "filter is_run es = concat (map (runs s) ds)" "\<forall>x. FileDone x \<notin> set es" by blast
  have "fchain s1 (fs @ [])" "hchain s1 (hs @ [])" using 1 by simp_all
  from walks_release [OF this assms(6,7)] obtain s2 s3 where
    2: "file_walk k None s1 = Inr s2" "handle_walk k None (live_handles s1) s2 = Inr s3" "fchain s3 []" "hchain s3 []"
       "dchain s3 = dchain s1" "\<exists>cl. trace s3 = trace s1 @ map FileDone fs @ cl \<and> list_all is_close cl"
       "\<forall>x \<in> set hs. hvalue (handles s3 x) = None" by (auto simp: hd_opt_def)
  have "pas_halt run k status s = Inr (Exited st s3)" using 1(1) 2(1,2) by (simp add: pas_halt_def Let_def)
  moreover have "left_blocks s ds [] fs [] hs [] s3"
  proof -
    from 2(6) obtain cl where "trace s3 = trace s @ es @ map FileDone fs @ cl" "list_all is_close cl" using 1(5) by auto
    with 1(2,6,7) 2(3,4,5,7) show ?thesis unfolding left_blocks_def by metis
  qed
  ultimately show ?thesis by blast
qed

text \<open>One more block before those: its deferred statements come first.\<close>

lemma left_blocks_prefix:
  assumes "trace s1 = trace s @ runs s d @ es1" "filter is_run (runs s d @ es1) = runs s d" "\<forall>x. FileDone x \<notin> set (runs s d @ es1)"
    and "concat (map (runs s1) ds) = concat (map (runs s) ds)" "left_blocks s1 ds od nf xf nh oh s'"
  shows "left_blocks s (d # ds) od nf xf nh oh s'"
proof -
  from assms(5) obtain es cl where "trace s' = trace s1 @ es @ map FileDone nf @ cl" "filter is_run es = concat (map (runs s1) ds)"
    "\<forall>x. FileDone x \<notin> set es" "list_all is_close cl" by (auto simp: left_blocks_def)
  then have "trace s' = trace s @ (runs s d @ es1 @ es) @ map FileDone nf @ cl \<and>
      filter is_run (runs s d @ es1 @ es) = concat (map (runs s) (d # ds)) \<and> (\<forall>x. FileDone x \<notin> set (runs s d @ es1 @ es)) \<and> list_all is_close cl"
    using assms(1-4) by auto
  then show ?thesis using assms(5) unfolding left_blocks_def by blast
qed

definition ran :: "rt \<Rightarrow> nat list \<Rightarrow> rt \<Rightarrow> bool" where
  "ran s nd s' \<longleftrightarrow> (\<exists>es. trace s' = trace s @ es \<and> filter is_run es = concat (map (runs s) nd) \<and> (\<forall>x. FileDone x \<notin> set es))"

lemma ran_prefix:
  assumes "trace s1 = trace s @ runs s d @ es1" "filter is_run (runs s d @ es1) = runs s d" "\<forall>x. FileDone x \<notin> set (runs s d @ es1)"
    and "concat (map (runs s1) ds) = concat (map (runs s) ds)" "ran s1 ds s'"
  shows "ran s (d # ds) s'"
proof -
  from assms(5) obtain es where "trace s' = trace s1 @ es" "filter is_run es = concat (map (runs s1) ds)" "\<forall>x. FileDone x \<notin> set es"
    by (auto simp: ran_def)
  then have "trace s' = trace s @ runs s d @ es1 @ es \<and> filter is_run (runs s d @ es1 @ es) = concat (map (runs s) (d # ds)) \<and>
      (\<forall>x. FileDone x \<notin> set (runs s d @ es1 @ es))" using assms(1-4) by auto
  then show ?thesis unfolding ran_def by blast
qed

lemma jump_defers_runs:
  assumes "balanced run" "dchain s (nd @ od)" "fchain s fs" "hchain s hs" "length nd < k"
    "length nd + length od < fuel" "length fs < fuel" "length hs < fuel"
  shows "\<exists>r. jump_defers run fuel k (hd_opt od) (hd_opt (nd @ od)) s = Inr r \<and>
    (case r of
       Inr s' \<Rightarrow> dchain s' od \<and> fchain s' fs \<and> hchain s' hs \<and> ran s nd s'
     | Inl (Exited st s') \<Rightarrow> left_blocks s (nd @ od) [] fs [] hs [] s'
     | Inl (Jumped t s') \<Rightarrow> False)"
  using assms(2-)
proof (induction nd arbitrary: s k)
  case Nil
  then obtain j where "k = Suc j" by (cases k) auto
  with Nil show ?case by (cases od) (auto simp: hd_opt_def ran_def)
next
  case (Cons d nd)
  then obtain j where k: "k = Suc j" "length nd < j" by (cases k) auto
  have dist: "d \<notin> set (nd @ od)" using Cons.prems(1) by (simp add: dchain_def chained_def)
  then have m: "Some d \<noteq> hd_opt od" by (cases od) (auto simp: hd_opt_def)
  have dc: "dchain s (d # nd @ od)" using Cons.prems(1) by simp
  have nx: "dnext (defers s d) = hd_opt (nd @ od)" using dc unfolding dchain_def by (rule chained_next)
  from defer_done_runs [OF assms(1) dc Cons.prems(2,3)] obtain s1 r es1 where
    1: "pas_defer_done run d s = (s1, r)" "dchain s1 (nd @ od)" "fchain s1 fs" "hchain s1 hs" "trace s1 = trace s @ runs s d @ es1"
       "list_all is_close es1" "\<forall>y. y \<noteq> d \<longrightarrow> runs s1 y = runs s y" by blast
  have rs: "concat (map (runs s1) xs) = concat (map (runs s) xs)" if "set xs \<subseteq> set (nd @ od)" for xs
    using 1(7) dist that by (intro arg_cong [of _ _ concat] map_cong) auto
  have e1: "filter is_run (runs s d @ es1) = runs s d" "\<forall>x. FileDone x \<notin> set (runs s d @ es1)"
    using run_not_close [OF 1(6)] filter_runs [of s d] 1(6)
    by (auto simp: runs_def list_all_iff is_close_def split: option.splits event.splits)
  have go: "jump_defers run fuel k (hd_opt od) (hd_opt ((d # nd) @ od)) s =
      (case r of None \<Rightarrow> jump_defers run fuel j (hd_opt od) (hd_opt (nd @ od)) s1
       | Some st \<Rightarrow> rbind (pas_halt run fuel st s1) (\<lambda>l. Inr (Inl l)))"
    using 1(1) k(1) m nx by (auto simp: hd_opt_def Let_def split: option.splits)
  show ?case
  proof (cases r)
    case None
    from Cons.IH [OF 1(2-4) k(2)] Cons.prems obtain r' where
      2: "jump_defers run fuel j (hd_opt od) (hd_opt (nd @ od)) s1 = Inr r'" and
      3: "case r' of
       Inr s' \<Rightarrow> dchain s' od \<and> fchain s' fs \<and> hchain s' hs \<and> ran s1 nd s'
     | Inl (Exited st s') \<Rightarrow> left_blocks s1 (nd @ od) [] fs [] hs [] s'
     | Inl (Jumped t s') \<Rightarrow> False" by auto
    show ?thesis unfolding go None option.case 2
      using 3 ran_prefix [OF 1(5) e1 rs [of nd]] left_blocks_prefix [OF 1(5) e1 rs [of "nd @ od"]]
      by (intro exI [of _ r'] conjI refl) (auto split: sum.splits leave.splits)
  next
    case (Some st)
    from halt_leaves_all [OF assms(1) 1(2-4), of fuel st] Cons.prems obtain st' s' where
      2: "pas_halt run fuel st s1 = Inr (Exited st' s')" "left_blocks s1 (nd @ od) [] fs [] hs [] s'" by auto
    show ?thesis unfolding go Some option.case 2(1) rbind_Inr using left_blocks_prefix [OF 1(5) e1 rs 2(2)] by auto
  qed
qed

definition never_halts :: "runner \<Rightarrow> bool" where
  "never_halts run \<longleftrightarrow> (\<forall>f fr s. snd (run f fr s) = None)"

lemma jump_defers_returns:
  "never_halts run \<Longrightarrow> jump_defers run fuel k m x s = Inr r \<Longrightarrow> \<exists>s'. r = Inr s'"
proof (induction k arbitrary: x s)
  case (Suc k)
  show ?case
  proof (cases x)
    case None
    then show ?thesis using Suc.prems(2) by auto
  next
    case (Some d)
    have "snd (pas_defer_done run d s) = None"
      using Suc.prems(1) by (simp add: pas_defer_done_def never_halts_def Let_def split: option.split)
    then obtain s1 where s1: "pas_defer_done run d s = (s1, None)" by (metis prod.collapse)
    show ?thesis
    proof (cases "x = m")
      case True
      then show ?thesis using Suc.prems(2) Some by auto
    next
      case False
      then show ?thesis using Suc.prems(2) Some s1 by (intro Suc.IH [OF Suc.prems(1)]) (simp add: Let_def)
    qed
  qed
qed simp

lemma runs_pos [simp]: "runs (s\<lparr>pas_at := p\<rparr>) x = runs s x"
  by (simp add: runs_def split: option.split)

lemma runs_pos_fun [simp]: "runs (s\<lparr>pas_at := p\<rparr>) = runs s"
  by (simp add: fun_eq_iff)

lemma cleared_pos [simp]: "dchain (s\<lparr>pas_at := p\<rparr>) = dchain s" "fchain (s\<lparr>pas_at := p\<rparr>) = fchain s"
  "hchain (s\<lparr>pas_at := p\<rparr>) = hchain s" "left_blocks (s\<lparr>pas_at := p\<rparr>) = left_blocks s" "ran (s\<lparr>pas_at := p\<rparr>) = ran s"
  by (simp_all add: chain_defs left_blocks_def ran_def fun_eq_iff)

section \<open>The lists are stacks\<close>

lemma handle_init_chain: "hchain s xs \<Longrightarrow> x \<notin> set xs \<Longrightarrow> hchain (pas_handle_init x cl s) (x # xs)"
proof -
  assume h: "hchain s xs" "x \<notin> set xs"
  have "hchain (upd_handle x (\<lambda>h. h\<lparr>hvalue := None, hcloser := cl\<rparr>) s) xs"
    using h unfolding hchain_def upd_handle_def by (subst chained_same [where st = "handles s"]) auto
  with h show ?thesis
    using handle_links.link_front_chained [of "handles (upd_handle x (\<lambda>h. h\<lparr>hvalue := None, hcloser := cl\<rparr>) s)" _ xs x]
    by (auto simp: hchain_def pas_handle_init_def Let_def split: prod.splits)
qed

lemma defer_init_chain: "dchain s xs \<Longrightarrow> x \<notin> set xs \<Longrightarrow> dchain (pas_defer_init x fn fr s) (x # xs)"
proof -
  assume h: "dchain s xs" "x \<notin> set xs"
  have "chained dprev dnext ((defers s)(x := (defers s x)\<lparr>drun := Some fn, dframe := fr\<rparr>)) (live_defers s) xs"
    using h unfolding dchain_def by (subst chained_same [where st = "defers s"]) auto
  with h show ?thesis using defer_links.link_front_chained [of _ "live_defers s" xs x]
    by (auto simp: dchain_def pas_defer_init_def Let_def split: prod.splits)
qed

lemma link_open_chain: "fchain s xs \<Longrightarrow> x \<notin> set xs \<Longrightarrow> fchain (pas_link_open x s) (x # xs)"
  using file_links.link_front_chained [of "files s" "open_files s" xs x]
  by (auto simp: fchain_def pas_link_open_def split: prod.splits)

lemma handle_done_anywhere: "hchain s (ys @ x # zs) \<Longrightarrow> hchain (pas_handle_done x s) (ys @ zs)"
  using handle_links.unlink_chained(1) [of "handles (pas_handle_release x s)" "live_handles (pas_handle_release x s)" ys x zs]
    release_chain [of x s "ys @ x # zs"]
  by (auto simp: hchain_def pas_handle_done_def hunlink_def split: prod.splits)

section \<open>Properties\<close>


definition rt0 :: rt where
  "rt0 = \<lparr>handles = (\<lambda>_. \<lparr>hvalue = None, hcloser = 0, hprev = None, hnext = None\<rparr>), live_handles = None,
     defers = (\<lambda>_. \<lparr>drun = None, dframe = 0, dprev = None, dnext = None\<rparr>), live_defers = None,
     files = (\<lambda>_. case pas_file_init True PAS_BIND_INTERNAL 0 None 1 True False 0 of Inr f \<Rightarrow> f | Inl _ \<Rightarrow> undefined),
     open_files = None, outside = world0, pas_at = None, trace = []\<rparr>"

lemma rt0_chains: "hchain rt0 []" "dchain rt0 []" "fchain rt0 []"
  by (simp_all add: chain_defs chained_def rt0_def)

text \<open>Two blocks: the outer with a handle and a deferred statement, the inner with one more of each.\<close>

definition rt_outer :: rt where
  "rt_outer = pas_defer_init 2 20 21 (pas_handle_set 1 (Some 11) (pas_handle_init 1 10 rt0))"

definition rt_inner :: rt where
  "rt_inner = pas_defer_init 4 40 41 (pas_handle_set 3 (Some 31) (pas_handle_init 3 30 rt_outer))"

definition example_run :: runner where
  "example_run f fr s = (s, if f = 40 then Some 7 else None)"

lemma example_balanced: "balanced example_run" "balanced (\<lambda>f fr s. (s, None))"
  by (auto simp: balanced_def example_run_def)

lemma set_chain [simp]: "hchain (pas_handle_set x v s) = hchain s" "dchain (pas_handle_set x v s) = dchain s" "fchain (pas_handle_set x v s) = fchain s"
proof -
  show "hchain (pas_handle_set x v s) = hchain s"
  proof
    fix xs
    have "hchain (pas_handle_set x v s) xs = hchain (pas_handle_release x s) xs"
      unfolding hchain_def pas_handle_set_def upd_handle_def
      by simp (rule chained_same, simp)
    then show "hchain (pas_handle_set x v s) xs = hchain s xs" by simp
  qed
qed (auto simp: pas_handle_set_def upd_handle_def chain_defs fun_eq_iff)

lemma init_frames [simp]: "dchain (pas_handle_init x cl s) = dchain s" "fchain (pas_handle_init x cl s) = fchain s"
  "hchain (pas_defer_init x fn fr s) = hchain s" "fchain (pas_defer_init x fn fr s) = fchain s"
  by (auto simp: pas_handle_init_def pas_defer_init_def upd_handle_def chain_defs Let_def fun_eq_iff split: prod.splits)

lemma example_chains:
  "hchain rt_outer [1]" "dchain rt_outer [2]" "fchain rt_outer []" "hchain rt_inner [3, 1]" "dchain rt_inner [4, 2]" "fchain rt_inner []"
proof -
  show o: "hchain rt_outer [1]" "dchain rt_outer [2]" "fchain rt_outer []"
    unfolding rt_outer_def using rt0_chains by (simp_all add: handle_init_chain defer_init_chain)
  show "hchain rt_inner [3, 1]" "dchain rt_inner [4, 2]" "fchain rt_inner []"
    unfolding rt_inner_def using o by (simp_all add: handle_init_chain defer_init_chain)
qed




text \<open>
  A handle is owned once: moving what one variable holds to another closes what the target
  held, once, and empties the source; moving a variable to itself changes nothing; and giving a
  variable up closes what it holds exactly once, so that doing it again closes nothing.
\<close>

lemma handle_moves:
  "case pas_handle_take x s of (v, t) \<Rightarrow>
     (let u = pas_handle_set y v t in
      (if y = x then u = s
       else trace u = trace s @ closes s y \<and> hvalue (handles u y) = hvalue (handles s x) \<and> hvalue (handles u x) = None) \<and>
      (let d = pas_handle_done y s in trace d = trace s @ closes s y \<and> closes d y = [] \<and> trace (pas_handle_done y d) = trace d))"
proof -
  have "upd_handle x (\<lambda>h. h\<lparr>hvalue := hvalue (handles s x)\<rparr>) (upd_handle x (\<lambda>h. h\<lparr>hvalue := None\<rparr>) s) = s"
    by (simp add: upd_handle_def)
  then show ?thesis
    using handle_done_fields(1) [of y s] handle_done_fields(1) [of y "pas_handle_done y s"] handle_done_values [of y s y]
    by (auto simp: pas_handle_take_def pas_handle_set_def pas_handle_release_def closes_def Let_def upd_handle_def log_def
        split: option.splits)
qed

end
