(* ===== verification/Simulation.thy ===== *)
theory Simulation
  imports Prelude
begin

text \<open>
  The contract between a component and its specification: a relation between their states that
  every operation keeps, under which the component answers what the specification answers.  The
  locale \<open>simulation\<close> carries it from one operation to every sequence of them; the direct-access
  files, the line reader of a socket and the argument vector are its instances.
\<close>

section \<open>Simulations\<close>

text \<open>Sequences of operations of a specification (which may refuse) and of code (which may trap).\<close>

fun arun :: "('op \<Rightarrow> 'a \<Rightarrow> ('o \<times> 'a) option) \<Rightarrow> 'op list \<Rightarrow> 'a \<Rightarrow> ('o list \<times> 'a) option" where
  "arun step [] a = Some ([], a)"
| "arun step (x # xs) a =
     (case step x a of
        None \<Rightarrow> None
      | Some (u, a) \<Rightarrow> (case arun step xs a of None \<Rightarrow> None | Some (us, a) \<Rightarrow> Some (u # us, a)))"

fun crun :: "('op \<Rightarrow> 'c \<Rightarrow> ('o \<times> 'c) res) \<Rightarrow> 'op list \<Rightarrow> 'c \<Rightarrow> ('o list \<times> 'c) res" where
  "crun step [] c = Inr ([], c)"
| "crun step (x # xs) c =
     rbind (step x c) (\<lambda>(u, c). rbind (crun step xs c) (\<lambda>(us, c). Inr (u # us, c)))"

text \<open>What a related pair does: the code traps where the specification refuses and answers what it answers.\<close>

definition simulates :: "('c \<Rightarrow> 'a \<Rightarrow> bool) \<Rightarrow> ('o \<times> 'a) option \<Rightarrow> ('o \<times> 'c) res \<Rightarrow> bool" where
  "simulates rel r q \<longleftrightarrow>
     (case r of
        None \<Rightarrow> \<exists>msg. q = Inl (Trap msg)
      | Some (u, a) \<Rightarrow> \<exists>c. q = Inr (u, c) \<and> rel c a)"

locale simulation =
  fixes rel :: "'c \<Rightarrow> 'a \<Rightarrow> bool"
    and astep :: "'op \<Rightarrow> 'a \<Rightarrow> ('o \<times> 'a) option"
    and cstep :: "'op \<Rightarrow> 'c \<Rightarrow> ('o \<times> 'c) res"
    and admissible :: "'op \<Rightarrow> bool"
  assumes step: "rel c a \<Longrightarrow> admissible x \<Longrightarrow> simulates rel (astep x a) (cstep x c)"
begin

lemma run_simulates: "rel c a \<Longrightarrow> list_all admissible xs \<Longrightarrow> simulates rel (arun astep xs a) (crun cstep xs c)"
proof (induction xs arbitrary: c a)
  case Nil
  then show ?case by (simp add: simulates_def)
next
  case (Cons x xs)
  then have s: "simulates rel (astep x a) (cstep x c)" by (simp add: step)
  show ?case
  proof (cases "astep x a")
    case None
    with s show ?thesis by (auto simp: simulates_def rbind_def)
  next
    case (Some r)
    then obtain u b where r: "astep x a = Some (u, b)" by (cases r) auto
    with s obtain d where d: "cstep x c = Inr (u, d)" "rel d b" by (auto simp: simulates_def)
    from Cons.IH [OF d(2)] Cons.prems(2) have "simulates rel (arun astep xs b) (crun cstep xs d)" by simp
    with r d(1) show ?thesis
      by (auto simp: simulates_def rbind_def split: option.splits)
  qed
qed

end

end
