(* ===== verification/DirectFile.thy ===== *)
theory DirectFile
  imports Files Simulation
begin

text \<open>
  Direct access: a file with an index-type as a sequence of components and a position in it.

  The operations of \<^verbatim>\<open>pasrt.c\<close> work on the bytes of a stream that is one component ahead of the
  program whenever the buffer variable has been filled.  The specification has no bytes and no
  lookahead; a simulation relates the two, and every sequence of operations behaves on the
  stream as it does on the sequence.
\<close>

section \<open>The specification\<close>

text \<open>The components, the position, the mode and what the buffer variable was last given.\<close>

record afile =
  comps :: "char list list"
  here :: nat
  amode :: file_mode
  hold :: "char list"

text \<open>
  The operations of a program: the three seeks, reading \<^verbatim>\<open>f^\<close>, \<^verbatim>\<open>get(f)\<close>, \<^verbatim>\<open>f^ := x; put(f)\<close>,
  \<^verbatim>\<open>f^ := x; update(f)\<close> and the three inquiries.
\<close>

datatype dop = SeekRead int | SeekWrite int | SeekUpdate int | Fetch | Get | Put "char list"
  | Update "char list" | Position | LastPosition | Empty

datatype answer = Nothing | Component "char list" | Number int | Truth bool

definition put_at :: "nat \<Rightarrow> 'a \<Rightarrow> 'a list \<Rightarrow> 'a list" where
  "put_at k x xs = take k xs @ x # drop (Suc k) xs"

definition aseek :: "file_mode \<Rightarrow> int \<Rightarrow> afile \<Rightarrow> (answer \<times> afile) option" where
  "aseek m k a =
     (if 0 \<le> k \<and> k \<le> int (length (comps a)) then Some (Nothing, a\<lparr>here := nat k, amode := m\<rparr>) else None)"

definition present :: "afile \<Rightarrow> bool" where
  "present a \<longleftrightarrow> here a < length (comps a)"

definition storable :: "afile \<Rightarrow> bool" where
  "storable a \<longleftrightarrow> amode a = PAS_WRITING \<or> (amode a = PAS_UPDATING \<and> present a)"

fun astep :: "int \<Rightarrow> dop \<Rightarrow> afile \<Rightarrow> (answer \<times> afile) option" where
  "astep cap (SeekRead k) a = aseek PAS_READING k a"
| "astep cap (SeekWrite k) a = aseek PAS_WRITING k a"
| "astep cap (SeekUpdate k) a = aseek PAS_UPDATING k a"
| "astep cap Fetch a =
     (if amode a = PAS_WRITING then Some (Component (hold a), a)
      else if present a then Some (Component (comps a ! here a), a\<lparr>hold := comps a ! here a\<rparr>) else None)"
| "astep cap Get a =
     (if amode a \<noteq> PAS_WRITING \<and> present a
      then Some (Nothing, a\<lparr>hold := comps a ! here a, here := Suc (here a)\<rparr>) else None)"
| "astep cap (Put x) a =
     (if storable a \<and> \<not> (cap > 0 \<and> int (here a) \<ge> cap)
      then Some (Nothing, a\<lparr>hold := x, comps := put_at (here a) x (comps a), here := Suc (here a)\<rparr>) else None)"
| "astep cap (Update x) a =
     (if storable a then Some (Nothing, a\<lparr>hold := x, comps := put_at (here a) x (comps a)\<rparr>) else None)"
| "astep cap Position a = Some (Number (c_int (int (here a))), a)"
| "astep cap LastPosition a =
     (if comps a = [] then None else Some (Number (c_int (int (length (comps a)) - 1)), a))"
| "astep cap Empty a = Some (Truth (comps a = []), a)"

section \<open>The code\<close>

text \<open>An assignment to \<^verbatim>\<open>f^\<close> goes through \<^verbatim>\<open>pas_buffer\<close>, as reading it does.\<close>

definition assign :: "char list \<Rightarrow> world \<Rightarrow> pas_file \<Rightarrow> (world \<times> pas_file) res" where
  "assign x w f = rbind (pas_buffer w f) (\<lambda>(_, w, f). Inr (w, f\<lparr>buf := Some x\<rparr>))"

fun cstep :: "dop \<Rightarrow> world \<times> pas_file \<Rightarrow> (answer \<times> world \<times> pas_file) res" where
  "cstep (SeekRead k) (w, f) = rbind (pas_seekread w f k) (\<lambda>s. Inr (Nothing, s))"
| "cstep (SeekWrite k) (w, f) = rbind (pas_seekwrite w f k) (\<lambda>s. Inr (Nothing, s))"
| "cstep (SeekUpdate k) (w, f) = rbind (pas_seekupdate w f k) (\<lambda>s. Inr (Nothing, s))"
| "cstep Fetch (w, f) = rbind (pas_buffer w f) (\<lambda>(b, s). Inr (Component b, s))"
| "cstep Get (w, f) = rbind (pas_get w f) (\<lambda>s. Inr (Nothing, s))"
| "cstep (Put x) (w, f) = rbind (assign x w f) (\<lambda>(w, f). rbind (pas_put w f) (\<lambda>s. Inr (Nothing, s)))"
| "cstep (Update x) (w, f) = rbind (assign x w f) (\<lambda>(w, f). rbind (pas_update w f) (\<lambda>s. Inr (Nothing, s)))"
| "cstep Position (w, f) = rbind (pas_position w f) (\<lambda>k. Inr (Number k, w, f))"
| "cstep LastPosition (w, f) = rbind (pas_lastposition w f) (\<lambda>(k, w). Inr (Number k, w, f))"
| "cstep Empty (w, f) = rbind (pas_empty w f) (\<lambda>(b, w). Inr (Truth b, w, f))"

text \<open>
  The relation: the stream holds the components end to end and stands at the position, or one
  component further when the buffer variable is filled; unless something was assigned to it, it
  then holds the component passed.
\<close>

definition dcore :: "nat \<Rightarrow> int \<Rightarrow> world \<times> pas_file \<Rightarrow> afile \<Rightarrow> bool" where
  "dcore n cap c a \<longleftrightarrow>
     (case c of (w, f) \<Rightarrow> fp f \<noteq> None \<and> \<not> istext f \<and> direct f \<and> compsize f = n \<and> 0 < n \<and>
        capacity f = cap \<and> mode f = amode a \<and> amode a \<noteq> PAS_CLOSED \<and>
        seekable (streams w (the_fp f)) \<and> \<not> append_mode (streams w (the_fp f)) \<and> \<not> full w \<and>
        contents_of w (the_fp f) = concat (comps a) \<and> list_all (\<lambda>c. length c = n) (comps a) \<and>
        here a \<le> length (comps a) \<and> buf f = Some (hold a) \<and> length (hold a) = n \<and>
        pos (streams w (the_fp f)) = n * (here a + (if has f then 1 else 0)) \<and>
        (has f \<longrightarrow> \<not> ateof f \<and> amode a \<noteq> PAS_WRITING \<and> present a))"

definition drel :: "nat \<Rightarrow> int \<Rightarrow> world \<times> pas_file \<Rightarrow> afile \<Rightarrow> bool" where
  "drel n cap c a \<longleftrightarrow> dcore n cap c a \<and> (has (snd c) \<longrightarrow> hold a = comps a ! here a)"

definition sized :: "nat \<Rightarrow> dop \<Rightarrow> bool" where
  "sized n x = (case x of Put b \<Rightarrow> length b = n | Update b \<Rightarrow> length b = n | _ \<Rightarrow> True)"

section \<open>Components as bytes\<close>

lemma length_comps: "list_all (\<lambda>c. length c = n) cs \<Longrightarrow> length (concat cs) = n * length cs"
  by (induction cs) auto

lemma drop_comps: "list_all (\<lambda>c. length c = n) cs \<Longrightarrow> drop (n * k) (concat cs) = concat (drop k cs)"
proof (induction k arbitrary: cs)
  case (Suc k)
  then show ?case by (cases cs) (auto simp flip: drop_drop)
qed simp

lemma take_comps: "list_all (\<lambda>c. length c = n) cs \<Longrightarrow> take (n * k) (concat cs) = concat (take k cs)"
proof (induction k arbitrary: cs)
  case (Suc k)
  then show ?case by (cases cs) (auto simp: take_add)
qed simp

lemma next_comp: "list_all (\<lambda>c. length c = n) cs \<Longrightarrow> 0 < n \<Longrightarrow>
  take n (drop (n * k) (concat cs)) = (if k < length cs then cs ! k else [])"
  by (cases "k < length cs") (auto simp: drop_comps list_all_length simp flip: Cons_nth_drop_Suc)

lemma overwrite_comps:
  assumes "list_all (\<lambda>c. length c = n) cs" "length x = n"
  shows "overwrite (n * k) x (concat cs) = concat (put_at k x cs)"
proof -
  have "drop (n * k + length x) (concat cs) = concat (drop (Suc k) cs)"
    using drop_comps [OF assms(1), of "Suc k"] assms(2) by (simp add: ac_simps)
  then show ?thesis using take_comps [OF assms(1)] by (simp add: overwrite_def put_at_def)
qed

lemma put_at_comps: "list_all P cs \<Longrightarrow> P x \<Longrightarrow> list_all P (put_at k x cs)"
  by (auto simp: put_at_def list_all_iff dest: in_set_takeD in_set_dropD)

lemma length_put_at: "k \<le> length cs \<Longrightarrow> length (put_at k x cs) = max (length cs) (Suc k)"
  by (simp add: put_at_def)

section \<open>One operation\<close>

lemmas drels = drel_def dcore_def

lemma the_fp_upd [simp]: "the_fp (f\<lparr>has := h\<rparr>) = the_fp f" "the_fp (f\<lparr>buf := b\<rparr>) = the_fp f"
  "the_fp (f\<lparr>ateof := e\<rparr>) = the_fp f" "the_fp (f\<lparr>pushback := q\<rparr>) = the_fp f" "the_fp (f\<lparr>mode := m\<rparr>) = the_fp f"
  by (simp_all add: the_fp_def)

lemma component_has [simp]: "component (f\<lparr>has := h\<rparr>) = component f"
  by (simp add: component_def split: option.split)

lemma seek_bytes: "seekable (streams w p) \<Longrightarrow> seek_to (int k * int n) w p = Some (set_pos p (n * k) w)"
  by (simp add: seek_to_def c_fseek_def mult.commute flip: of_nat_mult)

lemma set_pos_same: "pos (streams w p) = k \<Longrightarrow> set_pos p k w = w"
  by (auto simp: set_pos_def)

lemma present_upd [simp]: "present (a\<lparr>hold := h\<rparr>) = present a"
  by (simp add: present_def)

lemma fill_drel:
  assumes "drel n cap (w, f) a" "amode a \<noteq> PAS_WRITING"
  shows "\<exists>w' f'. pas_fill w f = Inr (w', f') \<and> (if present a then drel n cap (w', f') (a\<lparr>hold := comps a ! here a\<rparr>) \<and> has f' else ateof f')"
proof (cases "has f")
  case True
  with assms show ?thesis by (auto simp: pas_fill_def drels)
next
  case False
  let ?p = "the_fp f"
  from assms have p: "contents_of w ?p = concat (comps a)" "0 < n" "list_all (\<lambda>c. length c = n) (comps a)"
    "pos (streams w ?p) = n * here a" "compsize f = n" "\<not> istext f"
    using False by (auto simp: drels)
  have m: "pas_check_open f PAS_READING op = Inr ()" for op
    using assms by (cases "amode a") (auto simp: drels pas_check_open_def)
  have got: "take n (ahead w ?p) = (if present a then comps a ! here a else [])"
    using next_comp [OF p(3,2)] p by (simp add: ahead_def present_def)
  have len: "present a \<Longrightarrow> length (comps a ! here a) = n" using p(3) by (simp add: present_def list_all_length)
  have "pas_fill w f = Inr (set_pos ?p (n * here a + (if present a then n else 0)) w,
      f\<lparr>buf := map_option (\<lambda>b. (if present a then comps a ! here a else []) @ drop (if present a then n else 0) b) (buf f),
        ateof := \<not> present a, has := True\<rparr>)"
    using False m p got len by (simp add: pas_fill_def rbind_def c_fread_def)
  with assms p len show ?thesis by (auto simp: drels False)
qed

lemma buffer_reading:
  assumes "drel n cap (w, f) a" "amode a \<noteq> PAS_WRITING"
  shows "if present a
    then \<exists>w' f'. pas_buffer w f = Inr (comps a ! here a, w', f') \<and> drel n cap (w', f') (a\<lparr>hold := comps a ! here a\<rparr>) \<and> has f'
    else \<exists>msg. pas_buffer w f = Inl (Trap msg)"
proof -
  from fill_drel [OF assms] obtain w' f' where 1: "pas_fill w f = Inr (w', f')"
    "if present a then drel n cap (w', f') (a\<lparr>hold := comps a ! here a\<rparr>) \<and> has f' else ateof f'" by blast
  have "mode f = PAS_READING \<or> mode f = PAS_UPDATING"
    using assms by (cases "amode a") (auto simp: drels)
  with 1 show ?thesis by (auto simp: pas_buffer_def drels component_def)
qed

lemma buffer_writing:
  "drel n cap (w, f) a \<Longrightarrow> amode a = PAS_WRITING \<Longrightarrow> pas_buffer w f = Inr (hold a, w, f)"
  by (auto simp: pas_buffer_def drels component_def pas_check_open_def)

lemma drel_hold_writing:
  "drel n cap (w, f) a \<Longrightarrow> amode a = PAS_WRITING \<Longrightarrow> length x = n \<Longrightarrow> drel n cap (w, f\<lparr>buf := Some x\<rparr>) (a\<lparr>hold := x\<rparr>)"
  by (auto simp: drels)

lemma length_drel:
  assumes "drel n cap (w, f) a"
  shows "pas_length w f = Inr (length (comps a), w)"
proof -
  let ?p = "the_fp f"
  from assms have p: "contents_of w ?p = concat (comps a)" "0 < n" "list_all (\<lambda>c. length c = n) (comps a)"
    "compsize f = n" "seekable (streams w ?p)"
    by (auto simp: drels)
  from p show ?thesis
    by (simp add: pas_length_def c_fseek_end_def c_fseek_def c_ftell_def length_comps [OF p(3)] set_pos_same)
qed

lemma direct_drel: "drel n cap (w, f) a \<Longrightarrow> pas_check_direct f op = Inr ()"
  by (auto simp: drels pas_check_direct_def)

lemma error2_trap: "\<exists>msg. pas_error2 a b = Trap msg"
  by (simp add: pas_error2_def)

lemma seek_drel:
  assumes "drel n cap (w, f) a" "m \<noteq> PAS_CLOSED"
  shows "simulates (drel n cap) (aseek m k a) (rbind (pas_seek w f k m op) (\<lambda>s. Inr (Nothing, s)))"
proof (cases "0 \<le> k \<and> k \<le> int (length (comps a))")
  case True
  from assms have p: "seekable (streams w (the_fp f))" "compsize f = n" by (auto simp: drels)
  let ?f = "f\<lparr>has := False, ateof := False, pushback := [], mode := m\<rparr>"
  have "pas_seek w f k m op = Inr (set_pos (the_fp f) (n * nat k) w, ?f)"
    using True p direct_drel [OF assms(1)] length_drel [OF assms(1)]
    by (simp add: pas_seek_def c_fseek_def mult.commute)
  moreover have "drel n cap (set_pos (the_fp f) (n * nat k) w, ?f) (a\<lparr>here := nat k, amode := m\<rparr>)"
    using True assms unfolding drels by (simp add: nat_le_iff)
  ultimately show ?thesis using True by (simp add: simulates_def aseek_def)
next
  case False
  then show ?thesis using direct_drel [OF assms(1)] length_drel [OF assms(1)] error2_trap
    by (auto simp: simulates_def aseek_def pas_seek_def)
qed

lemma assign_drel:
  assumes "drel n cap (w, f) a" "length x = n"
  shows "if amode a = PAS_WRITING \<or> present a
    then \<exists>w' f'. assign x w f = Inr (w', f') \<and> dcore n cap (w', f') (a\<lparr>hold := x\<rparr>) \<and> (amode a = PAS_WRITING \<or> has f')
    else \<exists>msg. assign x w f = Inl (Trap msg)"
proof (cases "amode a = PAS_WRITING")
  case True
  then show ?thesis using assms buffer_writing [OF assms(1) True] by (auto simp: assign_def drels)
next
  case False
  note b = buffer_reading [OF assms(1) False]
  show ?thesis
  proof (cases "present a")
    case True
    with b obtain w' f' where
      1: "pas_buffer w f = Inr (comps a ! here a, w', f')" "drel n cap (w', f') (a\<lparr>hold := comps a ! here a\<rparr>)" "has f'" by auto
    with True assms(2) show ?thesis by (auto simp: assign_def drels)
  next
    case absent: False
    with b False show ?thesis by (auto simp: assign_def)
  qed
qed

lemma told: "dcore n cap (w, f) a \<Longrightarrow> c_ftell w (the_fp f) div compsize f = here a + (if has f then 1 else 0)"
  by (auto simp: dcore_def c_ftell_def)

text \<open>Writing the buffer variable at the position, the stream having been brought there.\<close>

lemma write_here:
  assumes "dcore n cap (w, f) a"
  shows "\<exists>w'. c_fwrite (take n (component f)) (set_pos (the_fp f) (n * here a) w) (the_fp f) = (n, w') \<and>
     dcore n cap (w', f\<lparr>has := False\<rparr>) (a\<lparr>comps := put_at (here a) (hold a) (comps a), here := Suc (here a)\<rparr>)"
proof -
  let ?p = "the_fp f"
  from assms have c: "component f = hold a" "length (hold a) = n" "\<not> full w" "\<not> append_mode (streams w ?p)"
    "list_all (\<lambda>c. length c = n) (comps a)" "contents_of w ?p = concat (comps a)" "here a \<le> length (comps a)"
    by (auto simp: dcore_def component_def)
  have "overwrite (n * here a) (hold a) (concat (comps a)) = concat (put_at (here a) (hold a) (comps a))"
    by (rule overwrite_comps [OF c(5,2)])
  with c assms show ?thesis
    by (auto simp: c_fwrite_def Let_def dcore_def contents_of_def set_pos_def put_at_comps length_put_at)
qed

lemma put_core:
  assumes "dcore n cap (w, f) a" "amode a = PAS_WRITING \<or> amode a = PAS_UPDATING"
  shows "if cap > 0 \<and> int (here a) \<ge> cap then \<exists>msg. pas_put w f = Inl (Trap msg)
    else \<exists>c. pas_put w f = Inr c \<and> drel n cap c (a\<lparr>comps := put_at (here a) (hold a) (comps a), here := Suc (here a)\<rparr>)"
proof -
  let ?p = "the_fp f"
  let ?w = "set_pos ?p (n * here a) w"
  let ?f = "f\<lparr>has := False\<rparr>"
  have f: "direct f" "compsize f = n" "\<not> istext f" "capacity f = cap" "0 < n" "pas_check_open f PAS_WRITING op = Inr ()" for op
    using assms by (auto simp: dcore_def pas_check_open_def)
  have seek: "seekable (streams w ?p)" using assms(1) by (auto simp: dcore_def)
  have same: "\<not> has f \<Longrightarrow> ?w = w \<and> ?f = f" using assms(1) by (auto simp: dcore_def set_pos_same)
  have step: "pas_put w f =
      (if cap > 0 \<and> int (here a) \<ge> cap then Inl (capacity_trap cap)
       else (let (k, w) = c_fwrite (take n (component f)) ?w ?p in
             if k \<noteq> n then Inl (Trap ''cannot write to the file'') else Inr (w, ?f)))"
  proof (cases "has f")
    case True
    have "seek_to ((int (c_ftell w ?p div n) - 1) * int n) w ?p = Some ?w"
      using told [OF assms(1)] seek_bytes [OF seek] f(2) True by simp
    with f True show ?thesis by (simp add: pas_put_def c_ftell_def)
  next
    case False
    with f same told [OF assms(1)] show ?thesis by (simp add: pas_put_def split: prod.split)
  qed
  from write_here [OF assms(1)] obtain w' where "c_fwrite (take n (component f)) ?w ?p = (n, w')"
    "dcore n cap (w', ?f) (a\<lparr>comps := put_at (here a) (hold a) (comps a), here := Suc (here a)\<rparr>)" by blast
  then show ?thesis unfolding step by (auto simp: drel_def capacity_trap_def)
qed

lemma update_core:
  assumes "dcore n cap (w, f) a" "amode a = PAS_WRITING \<or> amode a = PAS_UPDATING"
  shows "\<exists>c. pas_update w f = Inr c \<and> drel n cap c (a\<lparr>comps := put_at (here a) (hold a) (comps a)\<rparr>)"
proof -
  let ?p = "the_fp f"
  let ?b = "a\<lparr>comps := put_at (here a) (hold a) (comps a), here := Suc (here a)\<rparr>"
  from write_here [OF assms(1)] obtain w' where
    w': "c_fwrite (take n (component f)) (set_pos ?p (n * here a) w) ?p = (n, w')" "dcore n cap (w', f\<lparr>has := False\<rparr>) ?b" by blast
  have f: "compsize f = n" "mode f = PAS_WRITING \<or> mode f = PAS_UPDATING" "pas_check_direct f op = Inr ()" "seekable (streams w' ?p)" for op
    using assms w'(2) by (auto simp: dcore_def pas_check_direct_def)
  have seek: "seekable (streams w ?p)" using assms(1) by (auto simp: dcore_def)
  have "pas_update w f = Inr (set_pos ?p (n * here a) w', f\<lparr>has := False\<rparr>)"
    using f w'(1) told [OF assms(1)] seek_bytes [OF f(4)] seek_bytes [OF seek]
    by (cases "has f") (auto simp: pas_update_def)
  moreover have "drel n cap (set_pos ?p (n * here a) w', f\<lparr>has := False\<rparr>) (a\<lparr>comps := put_at (here a) (hold a) (comps a)\<rparr>)"
    using w'(2) assms(1) unfolding drels by (simp add: length_put_at)
  ultimately show ?thesis by auto
qed

lemma put_step:
  assumes "drel n cap (w, f) a" "length x = n"
  shows "simulates (drel n cap) (astep cap (Put x) a) (cstep (Put x) (w, f))"
proof (cases "storable a")
  case True
  then have s: "amode a = PAS_WRITING \<or> present a" by (auto simp: storable_def)
  with assign_drel [OF assms] obtain w' f' where
    "assign x w f = Inr (w', f')" "dcore n cap (w', f') (a\<lparr>hold := x\<rparr>)" by auto
  with put_core [of n cap w' f' "a\<lparr>hold := x\<rparr>"] True show ?thesis by (auto simp: simulates_def storable_def)
next
  case False
  with assign_drel [OF assms] show ?thesis
    by (auto simp: simulates_def storable_def pas_put_def pas_check_open_def pas_error2_def dcore_def split: if_splits)
qed

lemma update_step:
  assumes "drel n cap (w, f) a" "length x = n"
  shows "simulates (drel n cap) (astep cap (Update x) a) (cstep (Update x) (w, f))"
proof (cases "storable a")
  case True
  then have s: "amode a = PAS_WRITING \<or> present a" by (auto simp: storable_def)
  with assign_drel [OF assms] obtain w' f' where
    "assign x w f = Inr (w', f')" "dcore n cap (w', f') (a\<lparr>hold := x\<rparr>)" by auto
  with update_core [of n cap w' f' "a\<lparr>hold := x\<rparr>"] True show ?thesis by (auto simp: simulates_def storable_def)
next
  case False
  with assign_drel [OF assms] show ?thesis
    by (auto simp: simulates_def storable_def pas_update_def pas_check_direct_def dcore_def split: if_splits)
qed

lemma get_step:
  assumes "drel n cap (w, f) a"
  shows "simulates (drel n cap) (astep cap Get a) (cstep Get (w, f))"
proof (cases "amode a = PAS_WRITING")
  case True
  with assms show ?thesis by (auto simp: simulates_def drels pas_get_def pas_fill_def pas_check_open_def pas_error2_def)
next
  case False
  from fill_drel [OF assms this] obtain w' f' where 1: "pas_fill w f = Inr (w', f')"
    "if present a then drel n cap (w', f') (a\<lparr>hold := comps a ! here a\<rparr>) \<and> has f' else ateof f'" by blast
  show ?thesis
  proof (cases "present a")
    case True
    with 1 have d: "drel n cap (w', f') (a\<lparr>hold := comps a ! here a\<rparr>)" "has f'" by auto
    then have "drel n cap (w', f'\<lparr>has := False\<rparr>) (a\<lparr>hold := comps a ! here a, here := Suc (here a)\<rparr>)"
      using True unfolding drels by (simp add: present_def)
    moreover have "\<not> ateof f'" using d by (simp add: drels)
    ultimately show ?thesis using 1(1) True False by (simp add: simulates_def pas_get_def)
  next
    case False
    with 1 show ?thesis by (auto simp: simulates_def pas_get_def)
  qed
qed

lemma fetch_step:
  assumes "drel n cap (w, f) a"
  shows "simulates (drel n cap) (astep cap Fetch a) (cstep Fetch (w, f))"
  using assms buffer_reading [OF assms] buffer_writing [OF assms]
  by (cases "amode a = PAS_WRITING"; cases "present a") (auto simp: simulates_def)

lemma inquiry_steps:
  assumes "drel n cap (w, f) a"
  shows "simulates (drel n cap) (astep cap Position a) (cstep Position (w, f))"
    "simulates (drel n cap) (astep cap LastPosition a) (cstep LastPosition (w, f))"
    "simulates (drel n cap) (astep cap Empty a) (cstep Empty (w, f))"
proof -
  have d: "dcore n cap (w, f) a" "mode f = amode a" "has f \<Longrightarrow> amode a \<noteq> PAS_WRITING" using assms by (auto simp: drels)
  show "simulates (drel n cap) (astep cap Position a) (cstep Position (w, f))"
    using assms d told [OF d(1)] direct_drel [OF assms] by (auto simp: simulates_def pas_position_def)
qed (use assms direct_drel [OF assms] length_drel [OF assms] in \<open>auto simp: simulates_def pas_lastposition_def pas_empty_def\<close>)

interpretation direct_file: simulation "drel n cap" "astep cap" cstep "sized n" for n cap
proof
  fix c a x
  assume d: "drel n cap c a" and s: "sized n x"
  obtain w f where c: "c = (w, f)" by (cases c)
  note d = d [unfolded c]
  show "simulates (drel n cap) (astep cap x a) (cstep x c)"
    unfolding c using s put_step [OF d] update_step [OF d]
    by (cases x) (simp_all add: sized_def pas_seekread_def pas_seekwrite_def pas_seekupdate_def seek_drel [OF d] get_step [OF d] fetch_step [OF d]
        inquiry_steps [OF d] del: cstep.simps(4-10) astep.simps(4-10))
qed

section \<open>Properties\<close>


text \<open>A file of three components of two bytes, with room for three.\<close>

definition example_world :: world where
  "example_world = world0\<lparr>streams := (streams world0)(2 := \<lparr>ino = 2, pos = 0, append_mode = False, seekable = True, is_open = True\<rparr>),
     disk := (\<lambda>i. if i = 2 then ''abcdef'' else [])\<rparr>"

definition example_direct :: pas_file where
  "example_direct = \<lparr>fp = Some 2, mode = PAS_READING, binding = PAS_BIND_INTERNAL, arg = 0, lookahead = None, has = False,
     istext = False, direct = True, capacity = 3, bound_name = None, compsize = 2, ateof = False, ch = blank, pushback = [],
     atbol = True, buf = Some ''..'', fname = None, prev_open = None, next_open = None, m_buf = [], m_at = 0\<rparr>"

definition example_seq :: afile where
  "example_seq = \<lparr>comps = [''ab'', ''cd'', ''ef''], here = 0, amode = PAS_READING, hold = ''..''\<rparr>"

lemma example_drel: "drel 2 3 (example_world, example_direct) example_seq"
  by (simp add: drels example_world_def example_direct_def example_seq_def the_fp_def world0_def contents_of_def)

lemma c_int_two: "c_int 2 = 2"
  by (simp add: c_int_def)

lemma example_arun:
  "arun (astep 3) [Get, Fetch, SeekUpdate 2, Update ''XY'', Position, Fetch, SeekWrite 3, LastPosition] example_seq =
     Some ([Nothing, Component ''cd'', Nothing, Nothing, Number 2, Component ''XY'', Nothing, Number 2],
       \<lparr>comps = [''ab'', ''cd'', ''XY''], here = 3, amode = PAS_WRITING, hold = ''XY''\<rparr>)"
  by (simp add: example_seq_def aseek_def present_def storable_def put_at_def c_int_two)


section \<open>Where the code leaves the sequence\<close>

text \<open>
  Asking \<^verbatim>\<open>eof\<close> at the end fills the buffer without passing a component, and \<^verbatim>\<open>position\<close> still
  steps back over one: it answers one less than before the question.
\<close>

lemma position_after_eof:
  assumes "drel n cap (w, f) a" "amode a \<noteq> PAS_WRITING" "here a = length (comps a)"
  shows "pas_position w f = Inr (c_int (int (here a)))"
    "\<exists>w' f'. pas_eof w f = Inr (True, w', f') \<and> pas_position w' f' = Inr (c_int (int (here a) - 1))"
proof -
  have f: "\<not> has f" "\<not> istext f" "compsize f = n" "0 < n" "fp f \<noteq> None" "mode f = amode a" "amode a \<noteq> PAS_CLOSED"
    "pos (streams w (the_fp f)) = n * here a" "contents_of w (the_fp f) = concat (comps a)" "list_all (\<lambda>c. length c = n) (comps a)"
    using assms by (auto simp: drels present_def)
  then show "pas_position w f = Inr (c_int (int (here a)))" by (simp add: pas_position_def pas_check_direct_def c_ftell_def)
  have "ahead w (the_fp f) = []" using f assms(3) length_comps [OF f(10)] by (simp add: ahead_def)
  moreover have "pas_check_open f PAS_READING op = Inr ()" for op
    using f assms(2) by (cases "amode a") (auto simp: pas_check_open_def)
  ultimately show "\<exists>w' f'. pas_eof w f = Inr (True, w', f') \<and> pas_position w' f' = Inr (c_int (int (here a) - 1))"
    using f assms(2) by (simp add: pas_eof_def pas_fill_def c_fread_def pas_position_def pas_check_direct_def c_ftell_def set_pos_same)
qed

text \<open>
  After \<^verbatim>\<open>SeekUpdate\<close> the buffer variable is only filled when the program touches it, and
  \<^verbatim>\<open>update\<close> does not fill it: it writes what the buffer held before the seek over the component.
\<close>

lemma update_writes_stale:
  assumes "drel n cap (w, f) a" "0 \<le> k" "k \<le> int (length (comps a))"
  shows "\<exists>w1 f1 c. pas_seekupdate w f k = Inr (w1, f1) \<and> pas_update w1 f1 = Inr c \<and>
    drel n cap c (a\<lparr>here := nat k, amode := PAS_UPDATING, comps := put_at (nat k) (hold a) (comps a)\<rparr>)"
proof -
  let ?a = "a\<lparr>here := nat k, amode := PAS_UPDATING\<rparr>"
  from seek_drel [OF assms(1), of PAS_UPDATING k "''seeking to''"] assms(2,3) obtain w1 f1 where
    1: "pas_seekupdate w f k = Inr (w1, f1)" "drel n cap (w1, f1) ?a"
    by (auto simp: simulates_def aseek_def pas_seekupdate_def rbind_eq_Inr)
  with update_core [of n cap w1 f1 ?a] show ?thesis by (auto simp: drel_def)
qed

text \<open>\<^verbatim>\<open>update\<close> at the end of a full file writes a component more than the index-type has.\<close>

lemma update_past_capacity:
  "\<exists>c. crun cstep [SeekWrite 3, Update ''gh''] (example_world, example_direct) = Inr ([Nothing, Nothing], c) \<and>
     drel 2 3 c \<lparr>comps = [''ab'', ''cd'', ''ef'', ''gh''], here = 3, amode = PAS_WRITING, hold = ''gh''\<rparr>"
  using direct_file.run_simulates [OF example_drel, of "[SeekWrite 3, Update ''gh'']"]
  by (simp add: simulates_def sized_def example_seq_def aseek_def present_def storable_def put_at_def eval_nat_numeral)

end
