(* ===== verification/Strings.thy ===== *)
theory Strings
  imports Files
begin

text \<open>
  String values and the string arena of \<^verbatim>\<open>pasrt.c\<close>.

  A string value is a pointer and a length.  The pointer is into the arena, a stack of bytes
  that the generated code cuts back at the end of every statement, or it is to bytes the arena
  does not hold (a variable, a literal, \<^verbatim>\<open>argv\<close>).  The operations that make no bytes are given
  the characters of their operands.
\<close>

section \<open>The arena\<close>

definition PAS_STR_ARENA :: int where
  "PAS_STR_ARENA = 1048576"

record arena =
  pas_str_arena :: "nat \<Rightarrow> char"
  pas_str_at :: int

datatype ptr = Arena nat | Outside string

definition load :: "arena \<Rightarrow> ptr \<Rightarrow> nat \<Rightarrow> string" where
  "load s p n = (case p of Arena k \<Rightarrow> map (pas_str_arena s) [k..<k + n] | Outside b \<Rightarrow> take n b)"

definition store :: "nat \<Rightarrow> string \<Rightarrow> arena \<Rightarrow> arena" where
  "store k b s = s\<lparr>pas_str_arena := (\<lambda>i. if k \<le> i \<and> i < k + length b then b ! (i - k) else pas_str_arena s i)\<rparr>"

text \<open>An \<^verbatim>\<open>int\<close> sum, undefined in C outside the range of the type.\<close>

definition int_add :: "int \<Rightarrow> int \<Rightarrow> int res" where
  "int_add x y = (if - (2 ^ 31) \<le> x + y \<and> x + y < 2 ^ 31 then Inr (x + y) else Inl Undefined)"

definition pas_str_temp :: "int \<Rightarrow> arena \<Rightarrow> (nat \<times> arena) res" where
  "pas_str_temp n s =
     (let n = (if n < 0 then 0 else n) in
      if n > PAS_STR_ARENA then Inl (Trap ''a single string value is larger than the string arena'')
      else if pas_str_at s + n > PAS_STR_ARENA
      then Inl (Trap ''more string values are live at once than the string arena holds'')
      else Inr (nat (pas_str_at s), s\<lparr>pas_str_at := pas_str_at s + n\<rparr>))"

definition pas_str_char :: "char \<Rightarrow> arena \<Rightarrow> (ptr \<times> arena) res" where
  "pas_str_char c s = rbind (pas_str_temp 1 s) (\<lambda>(p, s). Inr (Arena p, store p [c] s))"

abbreviation (input) NULc :: char where "NULc \<equiv> CHR 0x00"

definition pas_str_cstr :: "ptr \<Rightarrow> int \<Rightarrow> arena \<Rightarrow> (ptr \<times> arena) res" where
  "pas_str_cstr p len s =
     (let len = (if len < 0 then 0 else len); b = load s p (nat len) in
      if NULc \<in> set b then Inl (Trap ''a string crossing to a foreign routine contains a NUL character'')
      else rbind (int_add len 1) (\<lambda>n.
           rbind (pas_str_temp n s) (\<lambda>(q, s). Inr (Arena q, store q (b @ [NULc]) s))))"

definition pas_str_concat :: "ptr \<Rightarrow> int \<Rightarrow> ptr \<Rightarrow> int \<Rightarrow> arena \<Rightarrow> (ptr \<times> arena) res" where
  "pas_str_concat a la b lb s =
     (let la = (if la < 0 then 0 else la); lb = (if lb < 0 then 0 else lb) in
      rbind (int_add la lb) (\<lambda>n.
      rbind (pas_str_temp n s) (\<lambda>(p, s).
        let s = store p (load s a (nat la)) s in
        Inr (Arena p, store (p + nat la) (load s b (nat lb)) s))))"

section \<open>Comparison\<close>

fun pad_loop :: "nat \<Rightarrow> nat \<Rightarrow> string \<Rightarrow> string \<Rightarrow> int" where
  "pad_loop 0 i a b = 0"
| "pad_loop (Suc k) i a b =
     (let ca = (if i < length a then of_char (a ! i) else 32 :: nat);
          cb = (if i < length b then of_char (b ! i) else 32) in
      if ca \<noteq> cb then (if ca < cb then - 1 else 1) else pad_loop k (Suc i) a b)"

definition pas_str_cmp_pad :: "string \<Rightarrow> string \<Rightarrow> int" where
  "pas_str_cmp_pad a b = pad_loop (max (length a) (length b)) 0 a b"

fun exact_loop :: "nat \<Rightarrow> nat \<Rightarrow> string \<Rightarrow> string \<Rightarrow> int" where
  "exact_loop 0 i a b = (if length a = length b then 0 else if length a < length b then - 1 else 1)"
| "exact_loop (Suc k) i a b =
     (let ca = of_char (a ! i) :: nat; cb = of_char (b ! i) in
      if ca \<noteq> cb then (if ca < cb then - 1 else 1) else exact_loop k (Suc i) a b)"

definition pas_str_cmp_exact :: "string \<Rightarrow> string \<Rightarrow> int" where
  "pas_str_cmp_exact a b = exact_loop (min (length a) (length b)) 0 a b"

text \<open>\<^verbatim>\<open>memcmp\<close>, which compares two fixed strings of one length.\<close>

fun c_memcmp :: "string \<Rightarrow> string \<Rightarrow> int" where
  "c_memcmp (x # xs) (y # ys) =
     (if (of_char x :: nat) < of_char y then - 1 else if (of_char y :: nat) < of_char x then 1 else c_memcmp xs ys)"
| "c_memcmp _ _ = 0"

definition pas_str_compare :: "string \<Rightarrow> string \<Rightarrow> nat \<Rightarrow> int" where
  "pas_str_compare a b len = c_memcmp (take len a) (take len b)"

section \<open>Trimming and searching\<close>

fun pas_str_trimlen :: "string \<Rightarrow> nat \<Rightarrow> nat" where
  "pas_str_trimlen a 0 = 0"
| "pas_str_trimlen a (Suc la) = (if a ! la = blank then pas_str_trimlen a la else Suc la)"

fun index_loop :: "nat \<Rightarrow> nat \<Rightarrow> string \<Rightarrow> string \<Rightarrow> int" where
  "index_loop 0 i a b = 0"
| "index_loop (Suc k) i a b =
     (if i + length b \<le> length a
      then if c_memcmp (take (length b) (drop i a)) b = 0 then int i + 1 else index_loop k (Suc i) a b
      else 0)"

definition pas_str_index :: "string \<Rightarrow> string \<Rightarrow> int" where
  "pas_str_index a b =
     (if b = [] then 1 else if a = [] then 0 else index_loop (Suc (length a)) 0 a b)"

section \<open>Stores\<close>

definition pas_str_fits :: "int \<Rightarrow> int \<Rightarrow> unit res" where
  "pas_str_fits len cap =
     (if len > cap
      then Inl (Trap (take 127 (''a string of length '' @ dec_int len @ '' does not fit a capacity of '' @ dec_int cap)))
      else Inr ())"

text \<open>The bytes a fixed string of the capacity has after the store.\<close>

definition pas_str_store_fixed :: "nat \<Rightarrow> string \<Rightarrow> string res" where
  "pas_str_store_fixed cap src =
     rbind (pas_str_fits (int (length src)) (int cap)) (\<lambda>_. Inr (src @ replicate (cap - length src) blank))"

definition pas_str_pad :: "nat \<Rightarrow> ptr \<Rightarrow> nat \<Rightarrow> arena \<Rightarrow> (ptr \<times> arena) res" where
  "pas_str_pad cap src len s =
     rbind (pas_str_temp (int cap) s) (\<lambda>(p, s).
     rbind (pas_str_store_fixed cap (load s src len)) (\<lambda>b. Inr (Arena p, store p b s)))"

text \<open>A variable string: its length word and its characters.\<close>

record varstr =
  vlen :: int
  vchars :: string

definition pas_str_store_var :: "nat \<Rightarrow> string \<Rightarrow> varstr \<Rightarrow> varstr res" where
  "pas_str_store_var cap src dst =
     rbind (pas_str_fits (int (length src)) (int cap)) (\<lambda>_.
       Inr (dst\<lparr>vlen := int (length src), vchars := src @ drop (length src) (vchars dst)\<rparr>))"

definition varstr_value :: "varstr \<Rightarrow> string" where
  "varstr_value v = take (nat (vlen v)) (vchars v)"

definition pas_cstr_take :: "nat \<Rightarrow> string option \<Rightarrow> varstr \<Rightarrow> (bool \<times> varstr) res" where
  "pas_cstr_take cap s dst =
     (case s of None \<Rightarrow> Inr (False, dst)
      | Some c \<Rightarrow> rbind (pas_str_store_var cap c dst) (\<lambda>v. Inr (True, v)))"

definition pas_str_store_char :: "string \<Rightarrow> char res" where
  "pas_str_store_char src =
     rbind (pas_str_fits (int (length src)) 1) (\<lambda>_. Inr (if length src = 1 then src ! 0 else blank))"

section \<open>Substrings and slices\<close>

definition pas_str_substr_check :: "int \<Rightarrow> int \<Rightarrow> int \<Rightarrow> bool \<Rightarrow> unit res" where
  "pas_str_substr_check lo hi len emptyok =
     (if lo < 1 \<or> hi > len \<or> hi < (if emptyok then lo - 1 else lo)
      then Inl (Trap (''substring: ['' @ dec_int lo @ ''..'' @ dec_int hi @ ''] is not within a string of length '' @ dec_int len))
      else Inr ())"

definition pas_slice_check :: "int \<Rightarrow> int \<Rightarrow> int \<Rightarrow> unit res" where
  "pas_slice_check lo hi len =
     (if lo < 1 \<or> hi > len \<or> hi < lo - 1
      then Inl (Trap (''slice: ['' @ dec_int lo @ ''..'' @ dec_int hi @ ''] is not within a sequence of '' @ dec_int len @ '' components''))
      else Inr ())"

definition pas_str_slice_check :: "int \<Rightarrow> int \<Rightarrow> int \<Rightarrow> unit res" where
  "pas_str_slice_check p n len =
     (let bad = Inl (Trap (''substr: '' @ dec_int n @ '' characters from position '' @ dec_int p @
                           '' is outside a string of length '' @ dec_int len)) in
      if p \<le> 0 \<or> n < 0 then bad
      else rbind (int_add p n) (\<lambda>e. if e - 1 > len then bad else Inr ()))"

section \<open>What the arena keeps\<close>

definition wf_arena :: "arena \<Rightarrow> bool" where
  "wf_arena s \<longleftrightarrow> 0 \<le> pas_str_at s \<and> pas_str_at s \<le> PAS_STR_ARENA"

text \<open>A value whose bytes are there: in use in the arena, or somewhere outside it.\<close>

definition live :: "arena \<Rightarrow> ptr \<Rightarrow> nat \<Rightarrow> bool" where
  "live s p n = (case p of Arena k \<Rightarrow> int (k + n) \<le> pas_str_at s | Outside b \<Rightarrow> n \<le> length b)"

definition keeps :: "arena \<Rightarrow> arena \<Rightarrow> bool" where
  "keeps s t \<longleftrightarrow> wf_arena t \<and> (\<forall>p n. live s p n \<longrightarrow> live t p n \<and> load t p n = load s p n)"

lemma keeps_refl: "wf_arena s \<Longrightarrow> keeps s s"
  by (simp add: keeps_def)

lemma keeps_trans: "keeps s t \<Longrightarrow> keeps t u \<Longrightarrow> keeps s u"
  by (simp add: keeps_def)

lemma keepsD: "keeps s t \<Longrightarrow> live s p n \<Longrightarrow> live t p n" "keeps s t \<Longrightarrow> live s p n \<Longrightarrow> load t p n = load s p n"
  "keeps s t \<Longrightarrow> wf_arena t"
  by (simp_all add: keeps_def)

lemma load_length: "live s p n \<Longrightarrow> length (load s p n) = n"
  by (cases p) (simp_all add: live_def load_def)

lemma load_store: "load (store k b s) (Arena k) (length b) = b"
  by (rule nth_equalityI) (simp_all add: load_def store_def)

lemma store_frame: "live s p n \<Longrightarrow> pas_str_at s \<le> int k \<Longrightarrow> load (store k b t) p n = load t p n"
  by (cases p) (auto simp: load_def store_def live_def)

lemma store_at [simp]: "pas_str_at (store k b s) = pas_str_at s"
  by (simp add: store_def)

lemma store_store: "store (k + length b) c (store k b s) = store k (b @ c) s"
  by (rule arena.equality) (auto simp: store_def fun_eq_iff nth_append)

text \<open>Reserving bytes and filling them: what every producer of a value does.\<close>

lemma temp_fill:
  assumes "wf_arena s"
  shows "if pas_str_at s + int (length b) \<le> PAS_STR_ARENA
    then \<exists>k t. pas_str_temp (int (length b)) s = Inr (k, t) \<and> pas_str_arena t = pas_str_arena s \<and> pas_str_at s = int k \<and> keeps s (store k b t) \<and>
      pas_str_at (store k b t) = pas_str_at s + int (length b) \<and> live (store k b t) (Arena k) (length b) \<and> load (store k b t) (Arena k) (length b) = b
    else \<exists>m. pas_str_temp (int (length b)) s = Inl (Trap m)"
proof (cases "pas_str_at s + int (length b) \<le> PAS_STR_ARENA")
  case True
  let ?k = "nat (pas_str_at s)"
  let ?t = "s\<lparr>pas_str_at := pas_str_at s + int (length b)\<rparr>"
  have "pas_str_temp (int (length b)) s = Inr (?k, ?t)" using assms True by (simp add: pas_str_temp_def wf_arena_def)
  moreover have "live (store ?k b ?t) p m \<and> load (store ?k b ?t) p m = load s p m" if l: "live s p m" for p m
  proof -
    have "load (store ?k b ?t) p m = load ?t p m" using assms by (intro store_frame [OF l]) (simp add: wf_arena_def)
    then show ?thesis using l by (cases p) (auto simp: live_def load_def)
  qed
  ultimately show ?thesis using True assms load_store [of ?k b ?t]
    by (auto simp: keeps_def wf_arena_def live_def)
qed (use assms in \<open>auto simp: pas_str_temp_def wf_arena_def Let_def\<close>)

lemma concat_arena:
  assumes "wf_arena s" "live s a m" "live s b n" "int m + int n < 2 ^ 31"
  shows "if pas_str_at s + int (m + n) \<le> PAS_STR_ARENA
    then \<exists>p t. pas_str_concat a (int m) b (int n) s = Inr (p, t) \<and> keeps s t \<and> pas_str_at t = pas_str_at s + int (m + n) \<and>
      live t p (m + n) \<and> load t p (m + n) = load s a m @ load s b n
    else \<exists>e. pas_str_concat a (int m) b (int n) s = Inl (Trap e)"
proof -
  let ?b = "load s a m @ load s b n"
  have l: "length (load s a m) = m" "length (load s b n) = n" using assms by (simp_all add: load_length)
  have n: "length ?b = m + n" using l by simp
  have add: "int_add (int m) (int n) = Inr (int (m + n))" using assms(4) by (simp add: int_add_def)
  note t = temp_fill [OF assms(1), of ?b, unfolded n]
  show ?thesis
  proof (cases "pas_str_at s + int (m + n) \<le> PAS_STR_ARENA")
    case True
    with t obtain k u where u: "pas_str_temp (int (m + n)) s = Inr (k, u)" "pas_str_arena u = pas_str_arena s" "pas_str_at s = int k"
      "keeps s (store k ?b u)" "pas_str_at (store k ?b u) = pas_str_at s + int (m + n)"
      "live (store k ?b u) (Arena k) (m + n)" "load (store k ?b u) (Arena k) (m + n) = ?b" by metis
    have same: "load u a m = load s a m" "load u b n = load s b n" using u(2) by (cases a; cases b; simp add: load_def)+
    have "load (store k (load s a m) u) b n = load s b n"
      using store_frame [OF assms(3), of k "load s a m" u] u(3) same by simp
    then have "pas_str_concat a (int m) b (int n) s = Inr (Arena k, store k ?b u)"
      using add u(1) same store_store [of k "load s a m" "load s b n" u] l by (simp add: pas_str_concat_def)
    with True u show ?thesis by auto
  next
    case False
    with t add show ?thesis by (auto simp: pas_str_concat_def)
  qed
qed

lemma char_arena:
  assumes "wf_arena s"
  shows "if pas_str_at s + 1 \<le> PAS_STR_ARENA
    then \<exists>p t. pas_str_char c s = Inr (p, t) \<and> keeps s t \<and> pas_str_at t = pas_str_at s + 1 \<and> live t p 1 \<and> load t p 1 = [c]
    else \<exists>e. pas_str_char c s = Inl (Trap e)"
  using temp_fill [OF assms, of "[c]"] by (auto simp: pas_str_char_def)

lemma pad_arena:
  assumes "wf_arena s" "live s a m"
  shows "if m \<le> cap \<and> pas_str_at s + int cap \<le> PAS_STR_ARENA
    then \<exists>p t. pas_str_pad cap a m s = Inr (p, t) \<and> keeps s t \<and> pas_str_at t = pas_str_at s + int cap \<and>
      live t p cap \<and> load t p cap = load s a m @ replicate (cap - m) blank
    else \<exists>e. pas_str_pad cap a m s = Inl (Trap e)"
proof -
  let ?b = "load s a m @ replicate (cap - m) blank"
  have l: "length (load s a m) = m" using assms by (simp add: load_length)
  show ?thesis
  proof (cases "m \<le> cap")
    case True
    then have n: "length ?b = cap" using l by simp
    have fits: "pas_str_store_fixed cap (load s a m) = Inr ?b" using True l by (simp add: pas_str_store_fixed_def pas_str_fits_def)
    note t = temp_fill [OF assms(1), of ?b, unfolded n]
    show ?thesis
    proof (cases "pas_str_at s + int cap \<le> PAS_STR_ARENA")
      case room: True
      with t obtain k u where u: "pas_str_temp (int cap) s = Inr (k, u)" "pas_str_arena u = pas_str_arena s" "pas_str_at s = int k"
        "keeps s (store k ?b u)" "pas_str_at (store k ?b u) = pas_str_at s + int cap"
        "live (store k ?b u) (Arena k) cap" "load (store k ?b u) (Arena k) cap = ?b" by metis
      have "load u a m = load s a m" using u(2) by (cases a) (simp_all add: load_def)
      with u fits True room show ?thesis by (auto simp: pas_str_pad_def)
    qed (use t in \<open>auto simp: pas_str_pad_def\<close>)
  next
    case False
    have "\<exists>e. pas_str_store_fixed cap (load t a m) = Inl (Trap e)" if "pas_str_arena t = pas_str_arena s" for t
      using that False l by (cases a) (auto simp: pas_str_store_fixed_def pas_str_fits_def load_def)
    moreover have "(\<exists>k t. pas_str_temp (int cap) s = Inr (k, t) \<and> pas_str_arena t = pas_str_arena s) \<or> (\<exists>e. pas_str_temp (int cap) s = Inl (Trap e))"
      by (auto simp: pas_str_temp_def Let_def)
    ultimately show ?thesis using False by (fastforce simp: pas_str_pad_def)
  qed
qed

section \<open>String expressions\<close>

text \<open>
  What the generated code evaluates within one statement: literals and variables, characters,
  concatenations, a value padded for a fixed-string parameter, \<^verbatim>\<open>substr\<close> and \<^verbatim>\<open>trim\<close>, which
  only move the pointer and the length.
\<close>

datatype sexpr = Lit string | Chr char | Cat sexpr sexpr | Fill nat sexpr | Sub sexpr int int | Trim sexpr

fun shift :: "nat \<Rightarrow> ptr \<Rightarrow> ptr" where
  "shift i (Arena k) = Arena (k + i)"
| "shift i (Outside b) = Outside (drop i b)"

fun seval :: "sexpr \<Rightarrow> arena \<Rightarrow> (ptr \<times> nat \<times> arena) res" where
  "seval (Lit b) s = Inr (Outside b, length b, s)"
| "seval (Chr c) s = rbind (pas_str_char c s) (\<lambda>(p, s). Inr (p, 1, s))"
| "seval (Cat x y) s =
     rbind (seval x s) (\<lambda>(p, m, s). rbind (seval y s) (\<lambda>(q, n, s).
       rbind (pas_str_concat p (int m) q (int n) s) (\<lambda>(r, s). Inr (r, m + n, s))))"
| "seval (Fill cap x) s =
     rbind (seval x s) (\<lambda>(p, m, s). rbind (pas_str_pad cap p m s) (\<lambda>(r, s). Inr (r, cap, s)))"
| "seval (Sub x i n) s =
     rbind (seval x s) (\<lambda>(p, m, s).
       rbind (pas_str_slice_check i n (int m)) (\<lambda>_. Inr (shift (nat i - 1) p, nat n, s)))"
| "seval (Trim x) s =
     rbind (seval x s) (\<lambda>(p, m, s). Inr (p, pas_str_trimlen (load s p m) m, s))"

definition trim :: "string \<Rightarrow> string" where
  "trim v = rev (dropWhile (\<lambda>c. c = blank) (rev v))"

fun svalue :: "sexpr \<Rightarrow> string option" where
  "svalue (Lit b) = Some b"
| "svalue (Chr c) = Some [c]"
| "svalue (Cat x y) = (case (svalue x, svalue y) of (Some v, Some w) \<Rightarrow> Some (v @ w) | _ \<Rightarrow> None)"
| "svalue (Fill cap x) =
     (case svalue x of Some v \<Rightarrow> if length v \<le> cap then Some (v @ replicate (cap - length v) blank) else None | None \<Rightarrow> None)"
| "svalue (Sub x i n) =
     (case svalue x of
        Some v \<Rightarrow> if 1 \<le> i \<and> 0 \<le> n \<and> i + n - 1 \<le> int (length v) then Some (take (nat n) (drop (nat i - 1) v)) else None
      | None \<Rightarrow> None)"
| "svalue (Trim x) = map_option trim (svalue x)"

text \<open>The bytes of arena the evaluation takes.\<close>

fun demand :: "sexpr \<Rightarrow> nat" where
  "demand (Lit b) = 0"
| "demand (Chr c) = 1"
| "demand (Cat x y) = demand x + demand y + (case svalue (Cat x y) of Some v \<Rightarrow> length v | None \<Rightarrow> 0)"
| "demand (Fill cap x) = demand x + cap"
| "demand (Sub x i n) = demand x"
| "demand (Trim x) = demand x"

text \<open>Literals and counts far from the limits of \<^verbatim>\<open>int\<close>.\<close>

fun small :: "sexpr \<Rightarrow> bool" where
  "small (Lit b) = (int (length b) < 2 ^ 30)"
| "small (Chr c) = True"
| "small (Cat x y) = (small x \<and> small y)"
| "small (Fill cap x) = small x"
| "small (Sub x i n) = (small x \<and> i + n < 2 ^ 31)"
| "small (Trim x) = small x"

lemma trim_snoc: "trim (v @ [c]) = (if c = blank then trim v else v @ [c])"
  by (simp add: trim_def)

lemma trimlen_trim: "pas_str_trimlen v (length v) = length (trim v) \<and> trim v = take (length (trim v)) v"
proof (induction v rule: rev_induct)
  case (snoc c v)
  have same: "pas_str_trimlen (v @ [c]) k = pas_str_trimlen v k" if "k \<le> length v" for k
    using that by (induction k) (auto simp: nth_append)
  have "length (trim v) \<le> length v" using length_dropWhile_le [of "\<lambda>c. c = blank" "rev v"] by (simp add: trim_def)
  with snoc same [of "length v"] show ?case by (auto simp: trim_snoc)
qed (simp add: trim_def)

lemma live_prefix: "live s p n \<Longrightarrow> k \<le> n \<Longrightarrow> live s p k \<and> load s p k = take k (load s p n)"
  by (cases p) (auto simp: live_def load_def take_map)

lemma live_shift: "live s p n \<Longrightarrow> i + k \<le> n \<Longrightarrow> live s (shift i p) k \<and> load s (shift i p) k = take k (drop i (load s p n))"
  by (cases p) (auto simp: live_def load_def take_map drop_map drop_take ac_simps)

definition evaluates :: "sexpr \<Rightarrow> arena \<Rightarrow> string \<Rightarrow> ptr \<Rightarrow> arena \<Rightarrow> bool" where
  "evaluates e s v p t \<longleftrightarrow>
     seval e s = Inr (p, length v, t) \<and> keeps s t \<and> pas_str_at t = pas_str_at s + int (demand e) \<and>
     live t p (length v) \<and> load t p (length v) = v"

definition traps :: "sexpr \<Rightarrow> arena \<Rightarrow> bool" where
  "traps e s \<longleftrightarrow> (\<exists>m. seval e s = Inl (Trap m))"

text \<open>The value when there is one and the arena has the room, and a trap otherwise.\<close>

definition exact :: "sexpr \<Rightarrow> arena \<Rightarrow> bool" where
  "exact e s \<longleftrightarrow>
     (case svalue e of
        Some v \<Rightarrow> if pas_str_at s + int (demand e) \<le> PAS_STR_ARENA then (\<exists>p t. evaluates e s v p t) \<and> int (length v) < 2 ^ 30
                  else traps e s
      | None \<Rightarrow> traps e s)"

lemma exact_cases:
  assumes "exact e s"
  obtains (ok) v p t where "svalue e = Some v" "pas_str_at s + int (demand e) \<le> PAS_STR_ARENA" "evaluates e s v p t" "int (length v) < 2 ^ 30"
  | (fail) "traps e s" "svalue e = None \<or> pas_str_at s + int (demand e) > PAS_STR_ARENA"
  using assms by (auto simp: exact_def split: option.splits if_splits)

lemma exact_failI: "traps e s \<Longrightarrow> svalue e = None \<or> pas_str_at s + int (demand e) > PAS_STR_ARENA \<Longrightarrow> exact e s"
  by (auto simp: exact_def split: option.splits)

lemma exact_okI:
  assumes "evaluates e s v p t" "svalue e = Some v" "int (length v) < 2 ^ 30"
  shows "exact e s"
proof -
  have "pas_str_at s + int (demand e) \<le> PAS_STR_ARENA" using assms(1) by (auto simp: evaluates_def keeps_def wf_arena_def)
  then show ?thesis using assms by (auto simp: exact_def)
qed

lemma cat_exact:
  assumes x: "exact x s" and y: "\<And>t. wf_arena t \<Longrightarrow> exact y t"
  shows "exact (Cat x y) s"
  using x
proof (cases rule: exact_cases)
  case fail
  have "exact (Cat x y) s" if "svalue x = None" using fail(1) that by (intro exact_failI) (auto simp: traps_def)
  moreover have "traps (Cat x y) s" using fail(1) by (auto simp: traps_def)
  moreover have "int (demand (Cat x y)) \<ge> int (demand x)" by simp
  ultimately show ?thesis using fail(2) by (intro exact_failI) auto
next
  case (ok v p t)
  then have t: "seval x s = Inr (p, length v, t)" "keeps s t" "live t p (length v)" "load t p (length v) = v"
    "pas_str_at t = pas_str_at s + int (demand x)" by (auto simp: evaluates_def)
  from y [OF keepsD(3) [OF t(2)]] show ?thesis
  proof (cases rule: exact_cases)
    case fail
    then show ?thesis using t(1,5) ok(1) by (intro exact_failI) (auto simp: traps_def split: option.split)
  next
    case (ok w q u)
    then have u: "seval y t = Inr (q, length w, u)" "keeps t u" "live u q (length w)" "load u q (length w) = w"
      "pas_str_at u = pas_str_at t + int (demand y)" by (auto simp: evaluates_def)
    have vw: "svalue (Cat x y) = Some (v @ w)" using ok(1) \<open>svalue x = Some v\<close> by simp
    have p: "live u p (length v)" "load u p (length v) = v" using t keepsD [OF u(2)] by auto
    have len: "int (length v) + int (length w) < 2 ^ 31" using ok(4) \<open>int (length v) < 2 ^ 30\<close> by simp
    note c = concat_arena [OF keepsD(3) [OF u(2)] p(1) u(3) len]
    show ?thesis
    proof (cases "pas_str_at u + int (length v + length w) \<le> PAS_STR_ARENA")
      case True
      with c obtain r z where z: "pas_str_concat p (int (length v)) q (int (length w)) u = Inr (r, z)" "keeps u z"
        "pas_str_at z = pas_str_at u + int (length v + length w)" "live z r (length v + length w)"
        "load z r (length v + length w) = load u p (length v) @ load u q (length w)" by auto
      have "evaluates (Cat x y) s (v @ w) r z"
        using z t u p vw keeps_trans [OF t(2) keeps_trans [OF u(2) z(2)]] by (simp add: evaluates_def)
      moreover have "int (length (v @ w)) < 2 ^ 30"
        using True keepsD(3) [OF u(2)] by (simp add: wf_arena_def PAS_STR_ARENA_def)
      ultimately show ?thesis using vw by (intro exact_okI) auto
    next
      case False
      with c obtain e where "pas_str_concat p (int (length v)) q (int (length w)) u = Inl (Trap e)" by auto
      then have "traps (Cat x y) s" using t(1) u(1) by (simp add: traps_def)
      then show ?thesis using False vw t(5) u(5) by (intro exact_failI) auto
    qed
  qed
qed

lemma fill_exact:
  assumes "exact x s"
  shows "exact (Fill cap x) s"
  using assms
proof (cases rule: exact_cases)
  case fail
  then show ?thesis by (intro exact_failI) (auto simp: traps_def)
next
  case (ok v p t)
  then have t: "seval x s = Inr (p, length v, t)" "keeps s t" "live t p (length v)" "load t p (length v) = v"
    "pas_str_at t = pas_str_at s + int (demand x)" by (auto simp: evaluates_def)
  note c = pad_arena [OF keepsD(3) [OF t(2)] t(3), of cap]
  show ?thesis
  proof (cases "length v \<le> cap \<and> pas_str_at t + int cap \<le> PAS_STR_ARENA")
    case True
    let ?v = "v @ replicate (cap - length v) blank"
    from True c obtain r z where z: "pas_str_pad cap p (length v) t = Inr (r, z)" "keeps t z" "pas_str_at z = pas_str_at t + int cap"
      "live z r cap" "load z r cap = load t p (length v) @ replicate (cap - length v) blank" by auto
    have "evaluates (Fill cap x) s ?v r z" using z t True keeps_trans [OF t(2) z(2)] by (simp add: evaluates_def)
    moreover have "int (length ?v) < 2 ^ 30" using True keepsD(3) [OF t(2)] by (simp add: wf_arena_def PAS_STR_ARENA_def)
    ultimately show ?thesis using ok(1) True by (intro exact_okI) auto
  next
    case False
    with c obtain e where "pas_str_pad cap p (length v) t = Inl (Trap e)" by auto
    then have "traps (Fill cap x) s" using t(1) by (simp add: traps_def)
    then show ?thesis using False ok(1) t(5) by (intro exact_failI) auto
  qed
qed

lemma sub_exact:
  assumes "exact x s" "i + n < 2 ^ 31"
  shows "exact (Sub x i n) s"
  using assms(1)
proof (cases rule: exact_cases)
  case fail
  then show ?thesis by (intro exact_failI) (auto simp: traps_def)
next
  case (ok v p t)
  then have t: "seval x s = Inr (p, length v, t)" "keeps s t" "live t p (length v)" "load t p (length v) = v"
    "pas_str_at t = pas_str_at s + int (demand x)" by (auto simp: evaluates_def)
  show ?thesis
  proof (cases "1 \<le> i \<and> 0 \<le> n \<and> i + n - 1 \<le> int (length v)")
    case True
    then have c: "pas_str_slice_check i n (int (length v)) = Inr ()" using assms(2) by (simp add: pas_str_slice_check_def int_add_def)
    have fit: "nat i - 1 + nat n \<le> length v" using True by linarith
    have "length (take (nat n) (drop (nat i - 1) v)) = nat n" using fit by simp
    then have "evaluates (Sub x i n) s (take (nat n) (drop (nat i - 1) v)) (shift (nat i - 1) p) t"
      using t c live_shift [OF t(3) fit] by (simp add: evaluates_def)
    then show ?thesis by (rule exact_okI) (use ok True in auto)
  next
    case False
    then have "\<exists>e. pas_str_slice_check i n (int (length v)) = Inl (Trap e)"
      using assms(2) by (auto simp: pas_str_slice_check_def int_add_def Let_def)
    then have "traps (Sub x i n) s" using t(1) by (auto simp: traps_def)
    then show ?thesis using False ok(1) by (intro exact_failI) auto
  qed
qed

lemma trim_exact:
  assumes "exact x s"
  shows "exact (Trim x) s"
  using assms
proof (cases rule: exact_cases)
  case fail
  then show ?thesis by (intro exact_failI) (auto simp: traps_def)
next
  case (ok v p t)
  then have t: "seval x s = Inr (p, length v, t)" "keeps s t" "live t p (length v)" "load t p (length v) = v"
    "pas_str_at t = pas_str_at s + int (demand x)" by (auto simp: evaluates_def)
  have k: "length (trim v) \<le> length v" using trimlen_trim [of v] by (metis length_take min.cobounded1)
  have "evaluates (Trim x) s (trim v) p t"
    using t trimlen_trim [of v] live_prefix [OF t(3) k] by (simp add: evaluates_def)
  then show ?thesis by (rule exact_okI) (use ok k in auto)
qed

lemma seval_exact: "small e \<Longrightarrow> wf_arena s \<Longrightarrow> exact e s"
proof (induction e arbitrary: s)
  case (Lit b)
  then have "evaluates (Lit b) s b (Outside b) s" by (simp add: evaluates_def keeps_refl live_def load_def)
  then show ?case by (rule exact_okI) (use Lit in auto)
next
  case (Chr c)
  show ?case
  proof (cases "pas_str_at s + 1 \<le> PAS_STR_ARENA")
    case True
    with char_arena [OF Chr(2), of c] obtain p t where "evaluates (Chr c) s [c] p t" by (auto simp: evaluates_def)
    then show ?thesis by (rule exact_okI) auto
  next
    case False
    with char_arena [OF Chr(2), of c] show ?thesis by (intro exact_failI) (auto simp: traps_def)
  qed
next
  case (Cat x y)
  then show ?case by (intro cat_exact) auto
qed (simp_all add: fill_exact sub_exact trim_exact)

section \<open>Comparison, searching and storing\<close>

definition byte_less :: "(char \<times> char) set" where
  "byte_less = {(x, y). (of_char x :: nat) < of_char y}"

text \<open>The order of two strings by their bytes: the sign of the comparison.\<close>

fun byte_order :: "string \<Rightarrow> string \<Rightarrow> int" where
  "byte_order [] [] = 0"
| "byte_order [] (y # ys) = - 1"
| "byte_order (x # xs) [] = 1"
| "byte_order (x # xs) (y # ys) =
     (if x = y then byte_order xs ys else if (of_char x :: nat) < of_char y then - 1 else 1)"

lemma byte_order_sound:
  "byte_order a b = 0 \<longleftrightarrow> a = b" "byte_order a b < 0 \<longleftrightarrow> (a, b) \<in> lexord byte_less" "byte_order b a = - byte_order a b"
  by (induction a b rule: byte_order.induct) (auto simp: byte_less_def)

lemma byte_eq: "(of_char x :: nat) = of_char y \<longleftrightarrow> x = y"
  by (metis of_char_eq_iff)

lemma exact_loop_drop:
  "i + k = min (length a) (length b) \<Longrightarrow> exact_loop k i a b = byte_order (drop i a) (drop i b)"
proof (induction k arbitrary: i)
  case 0
  have "length a = i \<Longrightarrow> length b > i \<Longrightarrow> drop i b = b ! i # drop (Suc i) b" "length b = i \<Longrightarrow> length a > i \<Longrightarrow> drop i a = a ! i # drop (Suc i) a"
    by (simp_all add: Cons_nth_drop_Suc)
  with 0 show ?case by (cases "length a" "length b" rule: linorder_cases) auto
next
  case (Suc k)
  then have "i < length a" "i < length b" by auto
  then have "drop i a = a ! i # drop (Suc i) a" "drop i b = b ! i # drop (Suc i) b" by (simp_all add: Cons_nth_drop_Suc)
  with Suc show ?case by (auto simp: byte_eq Let_def)
qed

lemma cmp_exact_order: "pas_str_cmp_exact a b = byte_order a b"
  unfolding pas_str_cmp_exact_def by (subst exact_loop_drop) auto

definition pad_to :: "nat \<Rightarrow> string \<Rightarrow> string" where
  "pad_to n a = a @ replicate (n - length a) blank"

lemma pad_loop_drop:
  "i + k = n \<Longrightarrow> length a \<le> n \<Longrightarrow> length b \<le> n \<Longrightarrow> pad_loop k i a b = byte_order (drop i (pad_to n a)) (drop i (pad_to n b))"
proof (induction k arbitrary: i)
  case 0
  then show ?case by (simp add: pad_to_def)
next
  case (Suc k)
  have l: "length (pad_to n a) = n" "length (pad_to n b) = n" using Suc.prems by (simp_all add: pad_to_def)
  then have d: "drop i (pad_to n a) = pad_to n a ! i # drop (Suc i) (pad_to n a)" "drop i (pad_to n b) = pad_to n b ! i # drop (Suc i) (pad_to n b)"
    using Suc.prems by (simp_all add: Cons_nth_drop_Suc)
  have blank: "(of_char blank :: nat) = 32" by (simp add: of_char_def)
  have c: "(if i < length x then of_char (x ! i) else 32) = (of_char (pad_to n x ! i) :: nat)" if "length x \<le> n" for x
    using that Suc.prems(1) blank by (auto simp: pad_to_def nth_append)
  have ih: "pad_loop k (Suc i) a b = byte_order (drop (Suc i) (pad_to n a)) (drop (Suc i) (pad_to n b))" using Suc by simp
  show ?case unfolding pad_loop.simps c [OF Suc.prems(2)] c [OF Suc.prems(3)] d by (simp add: ih byte_eq)
qed

lemma trim_pad: "trim (a @ replicate k blank) = trim a"
  by (induction k) (simp_all add: trim_snoc flip: replicate_append_same append_assoc)

lemma trim_blanks: "a = trim a @ replicate (length a - length (trim a)) blank"
proof (induction a rule: rev_induct)
  case (snoc c a)
  have "length (trim a) \<le> length a" using trimlen_trim [of a] by (metis length_take min.cobounded1)
  moreover have "trim a @ blank # replicate k blank = (trim a @ replicate k blank) @ [blank]" for k
    by (simp add: replicate_append_same)
  ultimately show ?case using snoc by (auto simp: trim_snoc Suc_diff_le)
qed (simp add: trim_def)

lemma cmp_pad_order:
  "pas_str_cmp_pad a b = byte_order (pad_to (max (length a) (length b)) a) (pad_to (max (length a) (length b)) b)"
  unfolding pas_str_cmp_pad_def by (subst pad_loop_drop [where n = "max (length a) (length b)"]) auto

lemma pad_eq_trim:
  assumes "length a \<le> n" "length b \<le> n"
  shows "pad_to n a = pad_to n b \<longleftrightarrow> trim a = trim b"
proof
  show "pad_to n a = pad_to n b \<Longrightarrow> trim a = trim b" unfolding pad_to_def by (metis trim_pad)
  have p: "pad_to n x = trim x @ replicate (n - length (trim x)) blank" if "length x \<le> n" for x
  proof -
    have k: "length (trim x) \<le> length x" using trimlen_trim [of x] by (metis length_take min.cobounded1)
    have "pad_to n x = (trim x @ replicate (length x - length (trim x)) blank) @ replicate (n - length x) blank"
      unfolding pad_to_def by (subst trim_blanks [of x]) simp
    with that k show ?thesis by (simp flip: replicate_add)
  qed
  show "trim a = trim b \<Longrightarrow> pad_to n a = pad_to n b" using assms by (simp add: p)
qed

lemma memcmp_order: "length a = length b \<Longrightarrow> c_memcmp a b = byte_order a b"
  by (induction a b rule: byte_order.induct) (auto simp: byte_eq dest: linorder_neqE_nat)

definition occurs :: "string \<Rightarrow> string \<Rightarrow> nat \<Rightarrow> bool" where
  "occurs a b i \<longleftrightarrow> i + length b \<le> length a \<and> take (length b) (drop i a) = b"

lemma index_loop_spec:
  "i + k = Suc (length a) \<Longrightarrow>
   if \<exists>j \<ge> i. occurs a b j
   then \<exists>j \<ge> i. index_loop k i a b = int j + 1 \<and> occurs a b j \<and> (\<forall>m. i \<le> m \<and> m < j \<longrightarrow> \<not> occurs a b m)
   else index_loop k i a b = 0"
proof (induction k arbitrary: i)
  case 0
  then show ?case by (auto simp: occurs_def)
next
  case (Suc k)
  show ?case
  proof (cases "i + length b \<le> length a")
    case False
    then show ?thesis by (auto simp: occurs_def)
  next
    case True
    then have m: "c_memcmp (take (length b) (drop i a)) b = 0 \<longleftrightarrow> occurs a b i"
      by (simp add: memcmp_order byte_order_sound(1) occurs_def)
    show ?thesis
    proof (cases "occurs a b i")
      case occ: True
      with m True show ?thesis by auto
    next
      case no: False
      then have e: "(\<exists>j \<ge> i. occurs a b j) \<longleftrightarrow> (\<exists>j \<ge> Suc i. occurs a b j)" by (metis Suc_leD le_less Suc_le_eq)
      have "index_loop (Suc k) i a b = index_loop k (Suc i) a b" using True m no by simp
      with Suc.IH [of "Suc i"] Suc.prems no show ?thesis unfolding e
        by (auto split: if_splits) (metis Suc_leD Suc_le_eq le_less)+
    qed
  qed
qed

section \<open>Properties\<close>

text \<open>
  C5. Within one statement no string value is overwritten while it is needed: the arena evaluates
  every string expression to the value its operators say, wherever its parts were put, and keeps
  every value that was live before; it takes exactly the bytes the results need; and it traps,
  instead of wrapping around, when the arena has fewer or when a \<^verbatim>\<open>substr\<close> or a fixed string
  does not admit its operand.
\<close>

theorem arena_evaluates:
  assumes "small e" "wf_arena s"
  shows "case svalue e of
      Some v \<Rightarrow>
        (if pas_str_at s + int (demand e) \<le> PAS_STR_ARENA
         then \<exists>p t. seval e s = Inr (p, length v, t) \<and> load t p (length v) = v \<and> pas_str_at t = pas_str_at s + int (demand e) \<and> keeps s t
         else \<exists>m. seval e s = Inl (Trap m))
    | None \<Rightarrow> \<exists>m. seval e s = Inl (Trap m)"
  using seval_exact [OF assms] by (fastforce simp: exact_def evaluates_def traps_def split: option.splits if_splits)

definition arena0 :: arena where
  "arena0 = \<lparr>pas_str_arena = (\<lambda>_. CHR 0x00), pas_str_at = 0\<rparr>"

theorem arena_evaluates_witness:
  "\<exists>p t. seval (Cat (Cat (Lit ''ab'') (Chr (CHR ''c''))) (Sub (Cat (Lit ''xyz'') (Trim (Lit ''d  ''))) 3 2)) arena0 = Inr (p, length ''abczd'', t) \<and>
     load t p (length ''abczd'') = ''abczd'' \<and> pas_str_at t = 13 \<and> keeps arena0 t"
  using arena_evaluates [of "Cat (Cat (Lit ''ab'') (Chr (CHR ''c''))) (Sub (Cat (Lit ''xyz'') (Trim (Lit ''d  ''))) 3 2)" arena0]
  by (simp add: wf_arena_def arena0_def PAS_STR_ARENA_def trim_def del: seval.simps)

text \<open>
  The two comparisons: the relational operators order strings by their bytes after the shorter
  is extended with spaces, so that two strings are equal exactly when they differ in trailing
  spaces alone; the functions \<^verbatim>\<open>EQ\<close>, \<^verbatim>\<open>LT\<close> and the others order them by their bytes with a
  proper prefix first, so that only a string itself is equal to it.  Both are antisymmetric, and
  over two strings of one length they agree with each other and with \<^verbatim>\<open>memcmp\<close>.
\<close>

lemma string_comparisons:
  "(pas_str_cmp_pad a b = 0 \<longleftrightarrow> trim a = trim b) \<and>
   (pas_str_cmp_pad a b < 0 \<longleftrightarrow>
     (pad_to (max (length a) (length b)) a, pad_to (max (length a) (length b)) b) \<in> lexord byte_less) \<and>
   pas_str_cmp_pad b a = - pas_str_cmp_pad a b \<and>
   (pas_str_cmp_exact a b = 0 \<longleftrightarrow> a = b) \<and> (pas_str_cmp_exact a b < 0 \<longleftrightarrow> (a, b) \<in> lexord byte_less) \<and>
   pas_str_cmp_exact b a = - pas_str_cmp_exact a b \<and>
   (if length a = length b
    then pas_str_cmp_pad a b = pas_str_cmp_exact a b \<and> pas_str_compare a b (length a) = pas_str_cmp_exact a b else True)"
proof -
  let ?a = "pad_to (max (length a) (length b)) a"
  let ?b = "pad_to (max (length a) (length b)) b"
  have p: "pas_str_cmp_pad a b = byte_order ?a ?b" "pas_str_cmp_pad b a = byte_order ?b ?a"
    by (simp_all add: cmp_pad_order max.commute)
  have e: "pas_str_cmp_exact a b = byte_order a b" "pas_str_cmp_exact b a = byte_order b a" by (simp_all add: cmp_exact_order)
  have t: "?a = ?b \<longleftrightarrow> trim a = trim b" by (rule pad_eq_trim) simp_all
  have same: "?a = a \<and> ?b = b \<and> pas_str_compare a b (length a) = byte_order a b" if "length a = length b"
    using that by (simp add: pad_to_def pas_str_compare_def memcmp_order)
  show ?thesis unfolding p e using same t byte_order_sound [of ?a ?b] byte_order_sound [of a b] by auto
qed

text \<open>
  Searching and the checks of substrings fit together: \<^verbatim>\<open>index\<close> answers the least position at
  which the second string occurs and 0 when there is none (so 1 for the null-string), a position
  it answers passes the check of \<^verbatim>\<open>substr\<close> for the length of the second string, and taking that
  substring gives it back.
\<close>

lemma index_finds_least:
  assumes "int (length a) < 2 ^ 31 - 1"
  shows "if \<exists>i. occurs a b i
    then \<exists>i. pas_str_index a b = int i + 1 \<and> take (length b) (drop i a) = b \<and> (\<forall>j. j < i \<longrightarrow> \<not> occurs a b j) \<and>
      pas_str_slice_check (pas_str_index a b) (int (length b)) (int (length a)) = Inr ()
    else pas_str_index a b = 0"
proof -
  have "if \<exists>i. occurs a b i then \<exists>i. pas_str_index a b = int i + 1 \<and> occurs a b i \<and> (\<forall>j. j < i \<longrightarrow> \<not> occurs a b j)
    else pas_str_index a b = 0"
  proof (cases "b = [] \<or> a = []")
    case True
    then show ?thesis by (auto simp: pas_str_index_def occurs_def)
  next
    case False
    then show ?thesis using index_loop_spec [of 0 "Suc (length a)" a b] by (auto simp: pas_str_index_def simp del: index_loop.simps split: if_splits)
  qed
  moreover have "pas_str_slice_check (int i + 1) (int (length b)) (int (length a)) = Inr ()" if "occurs a b i" for i
    using that assms by (simp add: pas_str_slice_check_def int_add_def occurs_def)
  ultimately show ?thesis by (auto simp: occurs_def split: if_splits)
qed

lemma index_finds_least_witness:
  "(\<exists>i. pas_str_index ''banana'' ''an'' = int i + 1 \<and> take (length ''an'') (drop i ''banana'') = ''an'') \<and> pas_str_index ''banana'' ''x'' = 0"
proof -
  have "occurs ''banana'' ''an'' 1" "\<nexists>i. occurs ''banana'' ''x'' i"
    by (auto simp: occurs_def take_Cons' drop_Cons' split: if_splits)
  then show ?thesis using index_finds_least [of "''banana''" "''an''"] index_finds_least [of "''banana''" "''x''"]
    by (auto split: if_splits)
qed

text \<open>
  The check of \<^verbatim>\<open>substr\<close> adds the position and the count before it compares, and for a count
  near \<^verbatim>\<open>maxint\<close> the sum is not an \<^verbatim>\<open>int\<close>: the error it is to report is undefined behaviour.
\<close>

lemma slice_check_overflow: "pas_str_slice_check 2 2147483647 10 = Inl Undefined"
  by (simp add: pas_str_slice_check_def int_add_def)

text \<open>What each store leaves, and that a store that does not fit is refused.\<close>

lemma stores_exact:
  "length src \<le> cap \<Longrightarrow> pas_str_store_fixed cap src = Inr (pad_to cap src)"
  "length src \<le> cap \<Longrightarrow> \<exists>v. pas_str_store_var cap src dst = Inr v \<and> varstr_value v = src"
  "length src > cap \<Longrightarrow> \<exists>m. pas_str_store_fixed cap src = Inl (Trap m) \<and> pas_str_store_var cap src dst = Inl (Trap m)"
  by (auto simp: pas_str_store_fixed_def pas_str_store_var_def pas_str_fits_def pad_to_def varstr_value_def)

end
