(* ===== verification/TextValue.thy ===== *)
theory TextValue
  imports Casing Grapheme Strings WriteText
begin

text \<open>
  Values of the text-type: the entry points of \<^verbatim>\<open>pasrt.c\<close> between the string values of a program
  (theory Strings) and the Unicode library (theories Nfc, Casing and Grapheme).

  A text variable is a variable string whose characters are the bytes of well-formed UTF-8 in
  Normalization Form C; \<^verbatim>\<open>pas_text_store\<close> is what establishes that.
\<close>

definition bytes_of :: "string \<Rightarrow> byte list" where
  "bytes_of s = map (\<lambda>c. word_of_nat (of_char c)) s"

definition chars_of :: "byte list \<Rightarrow> string" where
  "chars_of b = map (\<lambda>x. char_of (unat x)) b"

section \<open>Storing a value\<close>

definition pas_text_store :: "int \<Rightarrow> ptr \<Rightarrow> int \<Rightarrow> varstr \<Rightarrow> arena \<Rightarrow> (varstr \<times> arena) res" where
  "pas_text_store cap src len dst s =
     (let len = (if len < 0 then 0 else len); b = bytes_of (load s src (nat len)); room = (if cap > len then cap else len) in
      if pas_text_validate b \<ge> 0 then Inl (Trap ''text: the value is not well-formed UTF-8'')
      else rbind (pas_str_temp room s) (\<lambda>(p, s).
        case pas_text_nfc b (nat room) of
          Inl TEXT_ILLFORMED \<Rightarrow> Inl (Trap ''text: the value is not well-formed UTF-8'')
        | Inl TEXT_SEGMENT \<Rightarrow> Inl (Trap ''text: one character carries more combining marks than this implementation normalises at once'')
        | Inl TEXT_OVERFLOW \<Rightarrow> Inl (Trap ''text: the value does not fit the capacity'')
        | Inr r \<Rightarrow>
            (if int (length r) > cap then Inl (Trap ''text: the value does not fit the capacity'')
             else (let c = chars_of r; s = store p c s in
                   Inr (dst\<lparr>vlen := int (length r), vchars := load s (Arena p) (length r) @ drop (length r) (vchars dst)\<rparr>, s)))))"

section \<open>Joining two values\<close>

text \<open>The length word as it lies in memory, low byte first.\<close>

definition i32_bytes :: "nat \<Rightarrow> string" where
  "i32_bytes n = map char_of [n mod 256, n div 256 mod 256, n div 65536 mod 256, n div 16777216 mod 256]"

definition i32_at :: "arena \<Rightarrow> nat \<Rightarrow> nat" where
  "i32_at s p = (let b = \<lambda>k. of_char (pas_str_arena s (p + k)) in b 0 + b 1 * 256 + b 2 * 65536 + b 3 * 16777216)"

text \<open>The text value at an offset of the arena: a length word and the bytes.\<close>

definition text_at :: "arena \<Rightarrow> nat \<Rightarrow> string" where
  "text_at s p = load s (Arena (p + 4)) (i32_at s p)"

fun align :: "nat \<Rightarrow> arena \<Rightarrow> arena res" where
  "align 0 s = (if pas_str_at s mod 4 \<noteq> 0 then Inl Diverges else Inr s)"
| "align (Suc k) s = (if pas_str_at s mod 4 \<noteq> 0 then rbind (pas_str_temp 1 s) (\<lambda>(_, s). align k s) else Inr s)"

definition pas_text_concat :: "ptr \<Rightarrow> int \<Rightarrow> ptr \<Rightarrow> int \<Rightarrow> arena \<Rightarrow> (nat \<times> arena) res" where
  "pas_text_concat a la0 b lb0 s =
     (let la0 = (if la0 < 0 then 0 else la0); lb0 = (if lb0 < 0 then 0 else lb0) in
      rbind (align 3 s) (\<lambda>s.
      rbind (int_add la0 lb0) (\<lambda>n.
      rbind (pas_str_temp n s) (\<lambda>(j, s).
        let s = store j (load s a (nat la0)) s; s = store (j + nat la0) (load s b (nat lb0)) s;
            joined = bytes_of (load s (Arena j) (nat n)) in
        if pas_text_validate joined \<ge> 0 then Inl (Trap ''text: a value joined to a text is not well-formed UTF-8'')
        else rbind (int_add (4 + la0) lb0) (\<lambda>m.
             rbind (pas_str_temp m s) (\<lambda>(p, s).
               case pas_text_nfc joined (nat n) of
                 Inl _ \<Rightarrow> Inl (Trap ''text: two values could not be joined'')
               | Inr r \<Rightarrow> Inr (p, store p (i32_bytes (length r)) (store (p + 4) (chars_of r) s))))))))"

section \<open>Elements, length and comparison\<close>

definition pas_text_boundary :: "string \<Rightarrow> int \<Rightarrow> int" where
  "pas_text_boundary s k = int (pas_text_next (bytes_of s) (nat (if k < 0 then 0 else k)))"

definition pas_text_take :: "int \<Rightarrow> string \<Rightarrow> varstr \<Rightarrow> varstr res" where
  "pas_text_take cap src dst =
     (if int (length src) > cap then Inl (Trap ''text: an element does not fit the control variable'')
      else Inr (dst\<lparr>vlen := int (length src), vchars := src @ drop (length src) (vchars dst)\<rparr>))"

definition pas_text_length :: "string \<Rightarrow> int" where
  "pas_text_length s = int (pas_text_count (bytes_of s))"

definition pas_text_cmp :: "string \<Rightarrow> string \<Rightarrow> bool \<Rightarrow> arena \<Rightarrow> (int \<times> arena) res" where
  "pas_text_cmp a b normb s =
     (if \<not> normb then Inr (exact_loop (min (length a) (length b)) 0 a b, s)
      else if pas_text_validate (bytes_of b) \<ge> 0 then Inl (Trap ''text: a value compared with a text is not well-formed UTF-8'')
      else if int (length b) * 3 + 4 \<ge> 2 ^ 31 then Inl Undefined
      else rbind (pas_str_temp (int (length b) * 3 + 4) s) (\<lambda>(p, s).
        case pas_text_nfc (bytes_of b) (length b * 3 + 4) of
          Inl _ \<Rightarrow> Inl (Trap ''text: a value compared with a text could not be normalised'')
        | Inr r \<Rightarrow> (let b = chars_of r in Inr (exact_loop (min (length a) (length b)) 0 a b, store p b s))))"

fun write_pad :: "nat \<Rightarrow> (nat \<Rightarrow> bool) \<Rightarrow> world \<Rightarrow> pas_file \<Rightarrow> (world \<times> pas_file) res" where
  "write_pad 0 mem w f = Inr (w, f)"
| "write_pad (Suc k) mem w f = rbind (pas_write_char mem blank (- 1) w f) (\<lambda>(w, f). write_pad k mem w f)"

definition pas_write_text :: "(nat \<Rightarrow> bool) \<Rightarrow> string \<Rightarrow> int \<Rightarrow> world \<Rightarrow> pas_file \<Rightarrow> (world \<times> pas_file) res" where
  "pas_write_text mem s wid w f =
     rbind (if wid > 0 then write_pad (nat (wid - int (pas_text_count (bytes_of s)))) mem w f else Inr (w, f))
       (\<lambda>(w, f). pas_write_str mem s (- 1) w f)"

section \<open>What a library may bind\<close>

text \<open>
  The argument is a C string: \<^term>\<open>None\<close> is the null pointer, and otherwise the characters before
  the terminator.
\<close>

definition pasx_text_check :: "string option \<Rightarrow> int \<Rightarrow> arena \<Rightarrow> (int \<times> arena) res" where
  "pasx_text_check src cap s =
     (case src of
        None \<Rightarrow> Inr (1, s)
      | Some c \<Rightarrow>
          (if pas_text_validate (bytes_of c) \<ge> 0 then Inr (1, s)
           else rbind (pas_str_temp (c_int (int (length c) * 3 + 4)) s) (\<lambda>(p, s).
             case pas_text_nfc (bytes_of c) (length c * 3 + 4) of
               Inl _ \<Rightarrow> Inr (1, s)
             | Inr r \<Rightarrow> Inr (if int (length r) > cap then 2 else 0, store p (chars_of r) s))))"

text \<open>The answer with the status: 0 and the string, 1 for no room, 2 for what is not a text.\<close>

definition case_x :: "(byte list \<Rightarrow> nat \<Rightarrow> text_error + byte list) \<Rightarrow> string option \<Rightarrow> int \<Rightarrow> arena \<Rightarrow> (string option \<times> int \<times> arena) res" where
  "case_x f src cap s =
     (case src of
        None \<Rightarrow> Inr (None, 2, s)
      | Some c \<Rightarrow>
          (if cap < 0 then Inr (None, 2, s)
           else rbind (int_add cap 1) (\<lambda>n. rbind (pas_str_temp n s) (\<lambda>(p, s).
             case f (bytes_of c) (nat cap) of
               Inl TEXT_OVERFLOW \<Rightarrow> Inr (None, 1, s)
             | Inl _ \<Rightarrow> Inr (None, 2, s)
             | Inr r \<Rightarrow> Inr (Some (chars_of r), 0, store p (chars_of r @ [NULc]) s)))))"

definition pasx_text_fold :: "string option \<Rightarrow> int \<Rightarrow> arena \<Rightarrow> (string option \<times> int \<times> arena) res" where
  "pasx_text_fold = case_x pas_text_fold"

definition pasx_text_upper :: "string option \<Rightarrow> int \<Rightarrow> arena \<Rightarrow> (string option \<times> int \<times> arena) res" where
  "pasx_text_upper = case_x pas_text_upper"

definition pasx_text_lower :: "string option \<Rightarrow> int \<Rightarrow> arena \<Rightarrow> (string option \<times> int \<times> arena) res" where
  "pasx_text_lower = case_x pas_text_lower"

definition pasx_text_scalar :: "string option \<Rightarrow> int \<Rightarrow> int \<times> int option" where
  "pasx_text_scalar src k =
     (case src of
        None \<Rightarrow> (0, None)
      | Some c \<Rightarrow>
          (if k < 1 \<or> k - 1 \<ge> int (length c) then (0, None)
           else case pas_text_scalar_at (bytes_of c) (k - 1) of
             None \<Rightarrow> (0, None)
           | Some (n, v) \<Rightarrow> (k + int n, Some (int v))))"

definition pasx_text_element :: "string option \<Rightarrow> int \<Rightarrow> int" where
  "pasx_text_element src k =
     (case src of
        None \<Rightarrow> 0
      | Some c \<Rightarrow>
          (if k < 1 \<or> k - 1 \<ge> int (length c) then 0
           else let b = bytes_of c; i = nat (k - 1); nxt = pas_text_next b i in
             if nxt \<le> i \<or> pas_text_validate (take (nxt - i) (drop i b)) \<noteq> - 1 then 0 else int nxt + 1))"

definition pasx_text_columns :: "string option \<Rightarrow> int" where
  "pasx_text_columns src =
     (case src of
        None \<Rightarrow> 0
      | Some c \<Rightarrow> if pas_text_validate (bytes_of c) \<noteq> - 1 then - 1 else int (pas_text_columns (bytes_of c)))"

section \<open>Bytes and characters\<close>

lemma length_bytes_of [simp]: "length (bytes_of s) = length s"
  by (simp add: bytes_of_def)

lemma length_chars_of [simp]: "length (chars_of b) = length b"
  by (simp add: chars_of_def)

lemma bytes_of_append: "bytes_of (s @ t) = bytes_of s @ bytes_of t"
  by (simp add: bytes_of_def)

lemma bytes_chars [simp]: "bytes_of (chars_of b) = b"
proof -
  have "word_of_nat (of_char (char_of (unat x) :: char)) = x" for x :: byte
    using unat_byte_bound [of x] by simp
  then show ?thesis by (simp add: bytes_of_def chars_of_def comp_def)
qed

lemma chars_bytes [simp]: "chars_of (bytes_of s) = s"
proof -
  have "char_of (unat (word_of_nat (of_char c) :: byte)) = c" for c
  proof -
    have "(of_char c :: nat) < 256" by (metis char_of_eq_iff nat_of_char_less_256)
    then have "unat (word_of_nat (of_char c) :: byte) = of_char c" by (simp add: unat_of_nat take_bit_eq_mod)
    then show ?thesis by simp
  qed
  then show ?thesis by (simp add: bytes_of_def chars_of_def comp_def)
qed

lemma bytes_of_inj: "bytes_of a = bytes_of b \<longleftrightarrow> a = b"
  by (metis chars_bytes)

lemma validate_decides: "pas_text_validate b \<ge> 0 \<longleftrightarrow> \<not> well_formed b"
proof -
  have neg: "validate_from b i < 0 \<Longrightarrow> validate_from b i = - 1" for i
    by (induction b i rule: validate_from.induct)
      (subst (asm) (2) validate_from.simps, subst validate_from.simps, auto split: option.splits if_splits)
  show ?thesis
    using neg [of 0] validate_from_neg [of b 0] validate_from_encode [of _ "[]"]
    by (fastforce simp: pas_text_validate_def well_formed_def)
qed

text \<open>A text value: well-formed, and what normalization makes of it is itself.\<close>

definition normal :: "string \<Rightarrow> bool" where
  "normal s \<longleftrightarrow> pas_text_nfc (bytes_of s) (length s) = Inr (bytes_of s)"

lemma nfc_normal: "pas_text_nfc b cap = Inr r \<Longrightarrow> normal (chars_of r)"
proof -
  assume "pas_text_nfc b cap = Inr r"
  then obtain cps where c: "list_all scalar cps" "r = encode (compose_all (nfd cps))" "fits [] cps"
    using nfc_Inr by metis
  have "pas_text_nfc r (length r) = Inr r"
    using nfc_total_aux [of "compose_all (nfd cps)" "length r"] c fits_again
    by (simp add: nfd_compose compose_all_scalar nfd_scalar length_encode)
  then show ?thesis by (simp add: normal_def)
qed

lemma chars_of_eq: "chars_of r = c \<longleftrightarrow> r = bytes_of c"
  by auto

lemma nfc_outcome:
  assumes "list_all scalar cps"
  shows "case pas_text_nfc (encode cps) cap of
      Inr r \<Rightarrow> r = encode (compose_all (nfd cps)) \<and> normal (chars_of r) \<and> length r \<le> cap \<and> fits [] cps
    | Inl e \<Rightarrow> e \<noteq> TEXT_ILLFORMED \<and> (\<not> fits [] cps \<or> u8bytes (compose_all (nfd cps)) > cap)"
proof (cases "pas_text_nfc (encode cps) cap")
  case (Inr r)
  then obtain ds where d: "list_all scalar ds" "encode cps = encode ds" "r = encode (compose_all (nfd ds))" "fits [] ds" using nfc_Inr by metis
  then have "cps = ds" using encode_inj assms by metis
  have "nfc_cps cap [] [] cps = Inr r"
    using Inr nfc_loop_cps [OF assms, of "[]"] by (simp add: pas_text_nfc_def)
  then have "length r \<le> cap" by (rule nfc_cps_room) simp
  with Inr d \<open>cps = ds\<close> nfc_normal [OF Inr] show ?thesis by simp
next
  case (Inl e)
  have "nfc_cps cap buf out cs \<noteq> Inl TEXT_ILLFORMED" for buf out cs
    by (induction cs arbitrary: buf out) (auto simp: Let_def flush_segment_eq split: sum.splits if_splits)
  then have "e \<noteq> TEXT_ILLFORMED" using Inl nfc_loop_cps [OF assms, of "[]"] by (auto simp: pas_text_nfc_def)
  moreover have "\<not> fits [] cps \<or> u8bytes (compose_all (nfd cps)) > cap"
    using nfc_total_aux [OF assms, of cap] Inl by (metis Inr_Inl_False not_le)
  ultimately show ?thesis using Inl by simp
qed

section \<open>Storing\<close>

text \<open>What a store has to do with the code points of its source.\<close>

definition storable_as :: "int \<Rightarrow> cpoint list \<Rightarrow> bool" where
  "storable_as cap cps \<longleftrightarrow> fits [] cps \<and> int (u8bytes (compose_all (nfd cps))) \<le> cap"

lemma temp_keeps:
  assumes "wf_arena s" "pas_str_temp n s = Inr (p, t)" "int (length c) \<le> n"
  shows "keeps s (store p c t)" "load (store p c t) (Arena p) (length c) = c" "live (store p c t) (Arena p) (length c)"
    "int p = pas_str_at s" "pas_str_at t = pas_str_at s + n"
proof -
  have n: "0 \<le> n" using assms(3) by linarith
  have t: "t = s\<lparr>pas_str_at := pas_str_at s + n\<rparr>" "p = nat (pas_str_at s)" "pas_str_at s + n \<le> PAS_STR_ARENA"
    using assms(2) n by (auto simp: pas_str_temp_def Let_def split: if_splits)
  show p: "int p = pas_str_at s" "pas_str_at t = pas_str_at s + n" using t assms(1) by (auto simp: wf_arena_def)
  show "load (store p c t) (Arena p) (length c) = c" by (rule load_store)
  show "live (store p c t) (Arena p) (length c)" using p assms(3) by (simp add: live_def)
  have "live (store p c t) q m \<and> load (store p c t) q m = load s q m" if l: "live s q m" for q m
  proof -
    have "load (store p c t) q m = load t q m" using p by (intro store_frame [OF l]) simp
    then show ?thesis using l n t(1) by (cases q) (auto simp: live_def load_def)
  qed
  then show "keeps s (store p c t)" using t(1,3) n assms(1) by (auto simp: keeps_def wf_arena_def)
qed

lemma store_value:
  assumes "wf_arena s" "live s src len" "0 \<le> cap" "list_all scalar cps" "bytes_of (load s src len) = encode cps"
  shows "if storable_as cap cps \<and> pas_str_at s + max cap (int len) \<le> PAS_STR_ARENA
    then \<exists>v t. pas_text_store cap src (int len) dst s = Inr (v, t) \<and> bytes_of (varstr_value v) = encode (compose_all (nfd cps)) \<and>
      normal (varstr_value v) \<and> vlen v \<le> cap \<and> keeps s t
    else \<exists>m. pas_text_store cap src (int len) dst s = Inl (Trap m) \<and> m \<noteq> ''text: the value is not well-formed UTF-8''"
proof -
  let ?room = "if cap > int len then cap else int len"
  have room: "?room = max cap (int len)" "0 \<le> ?room" by auto
  have v: "\<not> pas_text_validate (bytes_of (load s src len)) \<ge> 0"
    unfolding validate_decides assms(5) using assms(4) by (auto simp: well_formed_def)
  show ?thesis
  proof (cases "pas_str_temp ?room s")
    case (Inl e)
    then have "\<not> pas_str_at s + max cap (int len) \<le> PAS_STR_ARENA" "\<exists>m. e = Trap m \<and> m \<noteq> ''text: the value is not well-formed UTF-8''"
      using room assms(1) by (auto simp: pas_str_temp_def Let_def wf_arena_def split: if_splits)
    with Inl v show ?thesis by (auto simp: pas_text_store_def Let_def)
  next
    case (Inr pt)
    obtain p t where t: "pas_str_temp ?room s = Inr (p, t)" using Inr by (cases pt) auto
    then have fit: "pas_str_at s + max cap (int len) \<le> PAS_STR_ARENA"
      using room by (auto simp: pas_str_temp_def Let_def split: if_splits)
    note o = nfc_outcome [OF assms(4), of "nat ?room", folded assms(5)]
    show ?thesis
    proof (cases "pas_text_nfc (bytes_of (load s src len)) (nat ?room)")
      case (Inl e)
      with o have "e \<noteq> TEXT_ILLFORMED" "\<not> storable_as cap cps" by (auto simp: storable_as_def split: if_splits)
      with Inl t v show ?thesis by (cases e) (auto simp: pas_text_store_def Let_def)
    next
      case (Inr r)
      from o [unfolded Inr, simplified] have r: "r = encode (compose_all (nfd cps))" "normal (chars_of r)" "length r \<le> nat ?room" "fits [] cps"
        by blast+
      have len: "int (length r) \<le> ?room" using r(3) room(2) by linarith
      note k = temp_keeps [OF assms(1) t, of "chars_of r", unfolded length_chars_of, OF len]
      have st: "storable_as cap cps \<longleftrightarrow> int (length r) \<le> cap" using r by (simp add: storable_as_def length_encode)
      show ?thesis
      proof (cases "int (length r) \<le> cap")
        case True
        let ?v = "dst\<lparr>vlen := int (length r), vchars := chars_of r @ drop (length r) (vchars dst)\<rparr>"
        have val: "varstr_value ?v = chars_of r" by (simp add: varstr_value_def)
        have "pas_text_store cap src (int len) dst s = Inr (?v, store p (chars_of r) t)"
          using v t Inr True k(2) by (simp add: pas_text_store_def Let_def)
        then show ?thesis using st True fit val r k(1) by auto
      next
        case False
        then show ?thesis using st v t Inr by (auto simp: pas_text_store_def Let_def)
      qed
    qed
  qed
qed

section \<open>Comparing\<close>

lemma normal_encode:
  assumes "normal a" "list_all scalar xs" "bytes_of a = encode xs"
  shows "xs = compose_all (nfd xs)"
proof -
  have "pas_text_nfc (encode xs) (length a) = Inr (encode xs)" using assms by (simp add: normal_def)
  with nfc_outcome [OF assms(2), of "length a"] have "encode xs = encode (compose_all (nfd xs))" by simp
  then show ?thesis using assms(2) by (intro encode_inj) (simp_all add: compose_all_scalar nfd_scalar)
qed

lemma composed_eq: "compose_all (nfd xs) = compose_all (nfd ys) \<longleftrightarrow> nfd xs = nfd ys"
  by (metis nfd_compose)

lemma compare_value:
  assumes "wf_arena s" "normal a" "list_all scalar xs" "bytes_of a = encode xs"
    and ys: "list_all scalar ys" "bytes_of b = encode ys" "fits [] ys"
    and room: "pas_str_at s + (3 * int (length b) + 4) \<le> PAS_STR_ARENA"
  shows "\<exists>t. pas_text_cmp a b True s = Inr (byte_order a (chars_of (encode (compose_all (nfd ys)))), t) \<and> keeps s t"
proof -
  let ?r = "encode (compose_all (nfd ys))"
  have len: "length b = u8bytes ys" using ys(2) by (metis length_bytes_of length_encode)
  have le: "length ?r \<le> length b * 3 + 4" using nfc_bytes [OF ys(1)] by (simp only: length_encode len)
  have nfc: "pas_text_nfc (bytes_of b) (length b * 3 + 4) = Inr ?r"
    unfolding ys(2) using nfc_total_aux [OF ys(1,3)] le by (simp only: length_encode)
  have v: "\<not> pas_text_validate (bytes_of b) \<ge> 0"
    unfolding validate_decides ys(2) using ys(1) by (auto simp: well_formed_def)
  have small: "\<not> int (length b) * 3 + 4 \<ge> 2 ^ 31" using room assms(1) by (simp add: wf_arena_def PAS_STR_ARENA_def)
  obtain p t where t: "pas_str_temp (int (length b) * 3 + 4) s = Inr (p, t)"
    using room assms(1) by (auto simp: pas_str_temp_def Let_def wf_arena_def)
  have "keeps s (store p (chars_of ?r) t)" using temp_keeps(1) [OF assms(1) t, of "chars_of ?r"] le by simp
  moreover have "exact_loop (min (length a) (length (chars_of ?r))) 0 a (chars_of ?r) = byte_order a (chars_of ?r)"
    using cmp_exact_order [of a "chars_of ?r"] by (simp add: pas_str_cmp_exact_def)
  ultimately show ?thesis using v small t nfc unfolding pas_text_cmp_def Let_def by simp
qed

section \<open>Joining\<close>

lemma store_Nil [simp]: "store k [] s = s"
  by (rule arena.equality) (auto simp: store_def fun_eq_iff)

lemma store_front: "length b = k \<Longrightarrow> store p b (store (p + k) c s) = store p (b @ c) s"
  by (rule arena.equality) (auto simp: store_def fun_eq_iff nth_append)

lemma align_spec:
  "wf_arena s \<Longrightarrow> (- pas_str_at s) mod 4 \<le> int k \<Longrightarrow> case align k s of
     Inr t \<Rightarrow> keeps s t \<and> pas_str_at t mod 4 = 0
   | Inl e \<Rightarrow> \<exists>m. e = Trap m"
proof (induction k arbitrary: s)
  case 0
  then have "(- pas_str_at s) mod 4 = 0" using pos_mod_sign [of 4 "- pas_str_at s"] by linarith
  then have "pas_str_at s mod 4 = 0" by presburger
  with 0 show ?case by (simp add: keeps_refl)
next
  case (Suc k)
  show ?case
  proof (cases "pas_str_at s mod 4 = 0")
    case True
    with Suc show ?thesis by (simp add: keeps_refl)
  next
    case False
    show ?thesis
    proof (cases "pas_str_temp 1 s")
      case (Inl e)
      then have "\<exists>m. e = Trap m" by (auto simp: pas_str_temp_def split: if_splits)
      with Inl False show ?thesis by simp
    next
      case (Inr pt)
      obtain p t where t: "pas_str_temp 1 s = Inr (p, t)" using Inr by (cases pt) auto
      note k = temp_keeps [OF Suc.prems(1) t, of "[]", simplified]
      have "(- pas_str_at t) mod 4 \<le> int k" using Suc.prems(2) False temp_keeps(5) [OF Suc.prems(1) t, of "[]"] by simp presburger
      from Suc.IH [OF keepsD(3) [OF k(1)] this] t False show ?thesis
        by (auto split: sum.splits intro: keeps_trans [OF k(1)])
    qed
  qed
qed

lemma i32_length [simp]: "length (i32_bytes n) = 4"
  by (simp add: i32_bytes_def)

lemma i32_read:
  assumes "load s (Arena p) 4 = i32_bytes n" "n < 4294967296"
  shows "i32_at s p = n"
proof -
  have b: "pas_str_arena s (p + k) = i32_bytes n ! k" if "k < 4" for k
  proof -
    have "load s (Arena p) 4 ! k = i32_bytes n ! k" by (simp add: assms(1))
    with that show ?thesis by (simp add: load_def)
  qed
  have "i32_at s p = n mod 256 + n div 256 mod 256 * 256 + n div 65536 mod 256 * 65536 + n div 16777216 mod 256 * 16777216"
    unfolding i32_at_def Let_def using b [of 0] b [of 1] b [of 2] b [of 3] by (simp add: i32_bytes_def)
  also have "\<dots> = n"
  proof -
    define q r where qr: "q = n div 256" "r = q div 256"
    have d: "n div 65536 = r" "n div 16777216 = r div 256" by (simp_all add: qr div_mult2_eq [symmetric])
    have "n div 16777216 < 256" using assms(2) by (simp add: div_less_iff_less_mult)
    then have "r div 256 mod 256 = r div 256" using d by simp
    moreover have "q * 256 + n mod 256 = n" "r * 256 + q mod 256 = q" "r div 256 * 256 + r mod 256 = r" by (simp_all add: qr)
    ultimately show ?thesis unfolding d qr(1) [symmetric] by linarith
  qed
  finally show ?thesis .
qed

lemma temp_trap: "pas_str_temp n s = Inl e \<Longrightarrow> \<exists>m. e = Trap m"
  by (auto simp: pas_str_temp_def Let_def split: if_splits)

text \<open>The two operands copied one after the other into reserved bytes.\<close>

lemma copy_two:
  assumes "wf_arena s" "live s a m" "live s b n" "pas_str_temp (int (m + n)) s = Inr (j, t)"
  shows "store (j + m) (load (store j (load t a m) t) b n) (store j (load t a m) t) = store j (load s a m @ load s b n) t"
proof -
  have "length (load s a m @ load s b n) = m + n" using assms by (simp add: load_length)
  then have j: "int j = pas_str_at s" using temp_keeps(4) [OF assms(1,4), of "load s a m @ load s b n"] by simp
  have "pas_str_arena t = pas_str_arena s" using assms(4) by (auto simp: pas_str_temp_def Let_def split: if_splits)
  then have t: "load t p k = load s p k" for p k by (cases p) (simp_all add: load_def)
  have "load (store j (load s a m) t) b n = load s b n" using store_frame [OF assms(3)] j t by simp
  with t load_length [OF assms(2)] show ?thesis using store_store [of j "load s a m" "load s b n" t] by simp
qed

lemma join_value:
  assumes s: "wf_arena s" "live s a m" "live s b n" and "int m + int n < 2 ^ 30"
  shows "case pas_text_concat a (int m) b (int n) s of
      Inr (p, t) \<Rightarrow> (\<exists>cps. list_all scalar cps \<and> bytes_of (load s a m @ load s b n) = encode cps \<and>
          bytes_of (text_at t p) = encode (compose_all (nfd cps))) \<and> normal (text_at t p) \<and> keeps s t \<and> p mod 4 = (m + n) mod 4 \<and>
          length (text_at t p) \<le> m + n
    | Inl e \<Rightarrow> \<exists>msg. e = Trap msg"
proof -
  let ?ab = "load s a m @ load s b n"
  let ?r = "pas_text_concat a (int m) b (int n) s"
  have al: "(- pas_str_at s) mod 4 \<le> int 3" using pos_mod_bound [of 4 "- pas_str_at s"] by simp
  have add: "int_add (int m) (int n) = Inr (int (m + n))" "int_add (4 + int m) (int n) = Inr (int (4 + (m + n)))"
    using assms(4) by (simp_all add: int_add_def)
  show ?thesis
  proof (cases "align 3 s")
    case (Inl e)
    with align_spec [OF s(1) al] show ?thesis by (auto simp: pas_text_concat_def Let_def)
  next
    case (Inr s0)
    with align_spec [OF s(1) al] have s0: "keeps s s0" "pas_str_at s0 mod 4 = 0" by auto
    then have l0: "live s0 a m" "live s0 b n" "load s0 a m @ load s0 b n = ?ab" "wf_arena s0" using keepsD s by auto
    show ?thesis
    proof (cases "pas_str_temp (int (m + n)) s0")
      case (Inl e)
      with temp_trap [OF this] \<open>align 3 s = Inr s0\<close> add show ?thesis by (auto simp: pas_text_concat_def Let_def)
    next
      case (Inr jt)
      obtain j s1 where j: "pas_str_temp (int (m + n)) s0 = Inr (j, s1)" using Inr by (cases jt) auto
      have len: "length ?ab = m + n" using s by (simp add: load_length)
      define s3 where "s3 = store j ?ab s1"
      note k = temp_keeps [OF l0(4) j, of ?ab, unfolded len, folded s3_def, OF order_refl]
      have cp: "store (j + m) (load (store j (load s1 a m) s1) b n) (store j (load s1 a m) s1) = s3"
        using copy_two [OF l0(4,1,2) j] l0(3) by (simp add: s3_def)
      let ?v = "pas_text_validate (bytes_of ?ab) \<ge> 0"
      have step: "?r = (if ?v then Inl (Trap ''text: a value joined to a text is not well-formed UTF-8'')
        else rbind (pas_str_temp (int (4 + (m + n))) s3) (\<lambda>(p, s).
          case pas_text_nfc (bytes_of ?ab) (m + n) of
            Inl _ \<Rightarrow> Inl (Trap ''text: two values could not be joined'')
          | Inr r \<Rightarrow> Inr (p, store p (i32_bytes (length r)) (store (p + 4) (chars_of r) s))))"
        using \<open>align 3 s = Inr s0\<close> add j cp k(2) nat_int [of "m + n"] by (simp add: pas_text_concat_def Let_def)
      show ?thesis
      proof (cases "?v \<or> (\<exists>e. pas_str_temp (int (4 + (m + n))) s3 = Inl e) \<or> (\<exists>e. pas_text_nfc (bytes_of ?ab) (m + n) = Inl e)")
        case True
        then have "\<exists>msg. ?r = Inl (Trap msg)"
          unfolding step using temp_trap by (cases "pas_str_temp (int (4 + (m + n))) s3") auto
        then show ?thesis by auto
      next
        case False
        then obtain p s4 r where ok: "\<not> ?v" "pas_str_temp (int (4 + (m + n))) s3 = Inr (p, s4)" "pas_text_nfc (bytes_of ?ab) (m + n) = Inr r"
          by (metis surj_pair sum.exhaust)
        then obtain cps where c: "list_all scalar cps" "bytes_of ?ab = encode cps" by (auto simp: validate_decides well_formed_def)
        from nfc_outcome [OF c(1), of "m + n", folded c(2)] ok(3)
        have r: "r = encode (compose_all (nfd cps))" "normal (chars_of r)" "length r \<le> m + n" by auto
        define t where "t = store p (i32_bytes (length r) @ chars_of r) s4"
        have t: "store p (i32_bytes (length r)) (store (p + 4) (chars_of r) s4) = t" by (simp add: t_def store_front)
        have le: "int (length (i32_bytes (length r) @ chars_of r)) \<le> int (4 + (m + n))" using r(3) by simp
        note q = temp_keeps [OF keepsD(3) [OF k(1)] ok(2) le, folded t_def]
        have parts: "load t (Arena p) 4 = i32_bytes (length r)" "load t (Arena (p + 4)) (length r) = chars_of r"
          using q(2) live_prefix [OF q(3), of 4] live_shift [OF q(3), of 4 "length r"] by simp_all
        have n: "i32_at t p = length r" using i32_read [OF parts(1)] r(3) assms(4) by simp
        then have val: "text_at t p = chars_of r" using parts(2) by (simp add: text_at_def)
        have "?r = Inr (p, t)" unfolding step using ok t by simp
        moreover have "p mod 4 = (m + n) mod 4"
        proof -
          have "int p = pas_str_at s0 + int (m + n)" using q(4) k(5) by (simp add: s3_def)
          then have "int p mod 4 = int (m + n) mod 4"
            using s0(2) mod_add_left_eq [of "pas_str_at s0" 4 "int (m + n)"] by simp
          then show ?thesis by (metis of_nat_eq_iff of_nat_numeral zmod_int)
        qed
        ultimately show ?thesis using c r val keeps_trans [OF s0(1) keeps_trans [OF k(1) q(1)]] by auto
      qed
    qed
  qed
qed

section \<open>Properties\<close>

text \<open>
  C14. \<^verbatim>\<open>pas_text_store\<close> is the door into a text variable: what it leaves there is the
  Normalization Form C of the source, so the variable holds well-formed normalized text within
  its capacity whatever string it was given; it reports ill-formed bytes as that and nothing
  else as that; and it succeeds whenever the normal form fits, no run of marks is too long for a
  segment and the arena has the scratch space.
\<close>

theorem text_store_normalizes:
  assumes "wf_arena s" "live s src len" "0 \<le> cap"
  shows "if well_formed (bytes_of (load s src len))
    then \<exists>cps. list_all scalar cps \<and> bytes_of (load s src len) = encode cps \<and>
      (if storable_as cap cps \<and> pas_str_at s + max cap (int len) \<le> PAS_STR_ARENA
       then \<exists>v t. pas_text_store cap src (int len) dst s = Inr (v, t) \<and> bytes_of (varstr_value v) = encode (compose_all (nfd cps)) \<and>
         normal (varstr_value v) \<and> vlen v \<le> cap \<and> keeps s t
       else \<exists>m. pas_text_store cap src (int len) dst s = Inl (Trap m) \<and> m \<noteq> ''text: the value is not well-formed UTF-8'')
    else pas_text_store cap src (int len) dst s = Inl (Trap ''text: the value is not well-formed UTF-8'')"
proof (cases "well_formed (bytes_of (load s src len))")
  case True
  then obtain cps where "list_all scalar cps" "bytes_of (load s src len) = encode cps" by (auto simp: well_formed_def)
  with store_value [OF assms this, of dst] True show ?thesis by auto
next
  case False
  then show ?thesis by (simp add: pas_text_store_def Let_def validate_decides)
qed

lemma example_bytes: "bytes_of (chars_of (encode [0x65, 0x301])) = encode [0x65, 0x301]"
  by simp

theorem text_store_normalizes_witness:
  "well_formed (bytes_of (load arena0 (Outside (chars_of (encode [0x65, 0x301]))) 3)) \<and>
   (\<exists>cps. bytes_of (load arena0 (Outside (chars_of (encode [0x65, 0x301]))) 3) = encode cps \<and>
     (if storable_as 4 cps
      then \<exists>v t. pas_text_store 4 (Outside (chars_of (encode [0x65, 0x301]))) (int 3) \<lparr>vlen = 0, vchars = ''....''\<rparr> arena0 = Inr (v, t) \<and>
        bytes_of (varstr_value v) = encode (compose_all (nfd cps))
      else \<exists>m. pas_text_store 4 (Outside (chars_of (encode [0x65, 0x301]))) (int 3) \<lparr>vlen = 0, vchars = ''....''\<rparr> arena0 = Inl (Trap m)))"
proof -
  let ?src = "Outside (chars_of (encode [0x65, 0x301]))"
  have len: "length (encode [0x65, 0x301]) = 3" by (simp add: u8len_def)
  then have l: "load arena0 ?src 3 = chars_of (encode [0x65, 0x301])" "live arena0 ?src 3" by (simp_all add: load_def live_def)
  have w: "well_formed (encode [0x65, 0x301])" unfolding well_formed_def by (rule exI [of _ "[0x65, 0x301]"]) (simp add: scalar_def)
  have a: "wf_arena arena0" "pas_str_at arena0 + max 4 (int 3) \<le> PAS_STR_ARENA" by (simp_all add: wf_arena_def arena0_def PAS_STR_ARENA_def)
  have t: "well_formed (bytes_of (load arena0 ?src 3))" unfolding l(1) bytes_chars by (rule w)
  from text_store_normalizes [OF a(1) l(2), of 4 "\<lparr>vlen = 0, vchars = ''....''\<rparr>", unfolded if_P [OF t]] a(2) t
  show ?thesis by (metis (no_types, lifting) zero_le_numeral)
qed





section \<open>A join that is refused\<close>

text \<open>
  The result of a join is given as many bytes as the two operands have, on the ground that the
  normal form of two normal texts is never longer.  It can be: a dot below put after
  \<^verbatim>\<open>U+00E0\<close> moves before its accent and composes with the letter instead, and \<^verbatim>\<open>U+1EA1 U+0300\<close>
  takes five bytes where the operands have four.  The join traps.
\<close>

lemma join_letters:
  "compose_pair 0x61 0x300 = 0xE0" "compose_pair 0x61 0x323 = 0x1EA1" "u_ccc 0x300 = 230" "u_ccc 0x323 = 220"
proof -
  have "PUCompose 0x61 0x300 0xE0 \<in> set pas_u_compose_tbl" by (simp add: pas_u_compose_tbl_def pas_u_compose_tbl_1_def)
  from compose_pairs.bisect_entry [OF this, of "(0x61, 0x300)"] show "compose_pair 0x61 0x300 = 0xE0"
    by (simp add: compose_pair_def compose_lookup_def)
  have "PUCompose 0x61 0x323 0x1EA1 \<in> set pas_u_compose_tbl" by (simp add: pas_u_compose_tbl_def pas_u_compose_tbl_1_def)
  from compose_pairs.bisect_entry [OF this, of "(0x61, 0x323)"] show "compose_pair 0x61 0x323 = 0x1EA1"
    by (simp add: compose_pair_def compose_lookup_def)
  have "PURange 0x300 0x314 230 \<in> set pas_u_ccc" by (simp add: pas_u_ccc_def pas_u_ccc_0_def)
  from ccc.entry_lookup [OF this, of "0x300" 0] show "u_ccc 0x300 = 230" by (simp add: u_ccc_def range_lookup_def)
  have "PURange 0x323 0x326 220 \<in> set pas_u_ccc" by (simp add: pas_u_ccc_def pas_u_ccc_0_def)
  from ccc.entry_lookup [OF this, of "0x323" 0] show "u_ccc 0x323 = 220" by (simp add: u_ccc_def range_lookup_def)
qed

lemma no_composite: "compose_pair 0x1EA1 0x300 = 0"
proof -
  let ?P = "\<lambda>e. \<not> (ca e = 0x1EA1 \<and> cb e = 0x300)"
  have "list_all ?P pas_u_compose_tbl_0" "list_all ?P pas_u_compose_tbl_1" "list_all ?P pas_u_compose_tbl_2"
    "list_all ?P pas_u_compose_tbl_3" "list_all ?P pas_u_compose_tbl_4" "list_all ?P pas_u_compose_tbl_5"
    "list_all ?P pas_u_compose_tbl_6" "list_all ?P pas_u_compose_tbl_7"
    by (simp add: pas_u_compose_tbl_0_def, simp add: pas_u_compose_tbl_1_def, simp add: pas_u_compose_tbl_2_def,
      simp add: pas_u_compose_tbl_3_def, simp add: pas_u_compose_tbl_4_def, simp add: pas_u_compose_tbl_5_def,
      simp add: pas_u_compose_tbl_6_def, simp add: pas_u_compose_tbl_7_def)
  then have "list_all ?P pas_u_compose_tbl" by (simp add: pas_u_compose_tbl_def)
  then have "compose_lookup 0x1EA1 0x300 = None"
    using compose_lookup_Some [of "0x1EA1" "0x300"] by (cases "compose_lookup 0x1EA1 0x300") (auto simp: list_all_iff)
  then show ?thesis by (simp add: compose_pair_def)
qed

lemma join_decomposed: "decompose 0xE0 = [0x61, 0x300]" "decompose 0x323 = [0x323]"
proof -
  have d: "decompose 0x61 = [0x61]" "decompose 0x300 = [0x300]" and "decompose 0x323 = [0x323]"
    by (auto intro!: undecomposable_decompose simp: undecomposable_def is_syllable_def decomp_gap_rules)
  then show "decompose 0x323 = [0x323]" "decompose 0xE0 = [0x61, 0x300]"
    using compose_pair_inverse [of "0x61" "0x300"] join_letters(1) by simp_all
qed

lemma join_nfd: "nfd [0xE0, 0x323] = [0x61, 0x323, 0x300]" "compose_all [0x61, 0x323, 0x300] = [0x1EA1, 0x300]"
  by (simp_all add: nfd_def join_decomposed starter_def u_ccc_low join_letters no_composite)

lemma join_five: "length (encode [0x1EA1, 0x300]) = 5"
  by (simp add: u8len_def)

lemma join_refused:
  defines "a \<equiv> chars_of (encode [0xE0])" and "b \<equiv> chars_of (encode [0x323])"
  shows "normal a" "normal b" "\<exists>msg. pas_text_concat (Outside a) (int 2) (Outside b) (int 2) arena0 = Inl (Trap msg)"
proof -
  have d: "nfd [0xE0] = [0x61, 0x300]" "nfd [0x323] = [0x323]" "compose_all [0x61, 0x300] = [0xE0]" "compose_all [0x323] = [0x323]"
    by (simp_all add: nfd_def join_decomposed starter_def u_ccc_low join_letters)
  have f: "fits [] [0xE0]" "fits [] [0x323]" by (rule fits_small; simp add: join_decomposed SEGMENT_MAX_def)+
  have sc: "list_all scalar [0xE0]" "list_all scalar [0x323]" "list_all scalar [0xE0, 0x323]" by (simp_all add: scalar_def)
  show "normal a" "normal b"
    using nfc_normal [OF nfc_total_aux [OF sc(1) f(1) order_refl]] nfc_normal [OF nfc_total_aux [OF sc(2) f(2) order_refl]] d
    by (simp_all add: a_def b_def del: compose_all.simps compose_list.simps)
  have len: "length a = 2" "length b = 2" by (simp_all add: a_def b_def u8len_def)
  have ab: "load arena0 (Outside a) 2 @ load arena0 (Outside b) 2 = a @ b" by (simp add: load_def len)
  have w: "wf_arena arena0" "live arena0 (Outside a) 2" "live arena0 (Outside b) 2" "int 2 + int 2 < (2 :: int) ^ 30"
    by (simp_all add: wf_arena_def arena0_def PAS_STR_ARENA_def live_def len)
  show "\<exists>msg. pas_text_concat (Outside a) (int 2) (Outside b) (int 2) arena0 = Inl (Trap msg)"
  proof (cases "pas_text_concat (Outside a) (int 2) (Outside b) (int 2) arena0")
    case (Inl e)
    with join_value [OF w] show ?thesis by auto
  next
    case (Inr pt)
    obtain p t where "pt = (p, t)" by (cases pt)
    with join_value [OF w, unfolded ab Inr] obtain cps where c: "list_all scalar cps" "bytes_of (a @ b) = encode cps"
      "bytes_of (text_at t p) = encode (compose_all (nfd cps))" "length (text_at t p) \<le> 2 + 2" by auto
    have "encode cps = encode [0xE0, 0x323]" using c(2) by (simp add: bytes_of_append a_def b_def)
    then have "cps = [0xE0, 0x323]" using encode_inj c(1) sc(3) by metis
    then have "bytes_of (text_at t p) = encode [0x1EA1, 0x300]" using c(3) join_nfd by (simp del: compose_all.simps compose_list.simps)
    then have "length (text_at t p) = 5" by (metis join_five length_bytes_of)
    with c(4) show ?thesis by simp
  qed
qed

text \<open>
  The padding a join takes before it copies its operands aligns the copy, not the result: the
  length word of the result stands at an offset that is a multiple of four only when the lengths
  of the operands add up to one.
\<close>

lemma join_unaligned:
  assumes "wf_arena s" "live s a m" "live s b n" "int m + int n < 2 ^ 30" "pas_text_concat a (int m) b (int n) s = Inr (p, t)"
  shows "p mod 4 = (m + n) mod 4"
  using join_value [OF assms(1-4)] assms(5) by simp

end
