(* ===== verification/Calendar.thy ===== *)
theory Calendar
  imports Strings
begin

text \<open>
  \<^verbatim>\<open>GetTimeStamp\<close>, \<^verbatim>\<open>date\<close> and \<^verbatim>\<open>time\<close> of \<^verbatim>\<open>pasrt.c\<close>.

  Of the C library the clock and the local zone are the environment, a record the operation is
  given; \<^verbatim>\<open>strtoll\<close> and \<^verbatim>\<open>gmtime\<close> are defined here, the latter by counting years and months off a
  number of days.
\<close>

section \<open>The calendar\<close>

definition leap :: "int \<Rightarrow> bool" where
  "leap y \<longleftrightarrow> y mod 4 = 0 \<and> (y mod 100 \<noteq> 0 \<or> y mod 400 = 0)"

definition pas_days_in_month :: "int \<Rightarrow> int \<Rightarrow> int" where
  "pas_days_in_month y m =
     (if m = 2 \<and> leap y then 29
      else [0, 31, 28, 31, 30, 31, 30, 31, 31, 30, 31, 30, 31] ! nat m)"

definition year_len :: "int \<Rightarrow> int" where
  "year_len y = (if leap y then 366 else 365)"

text \<open>The year and the day of it, counted from the first day of a year.\<close>

function find_year :: "int \<Rightarrow> int \<Rightarrow> int \<times> int" where
  "find_year y d = (if d < year_len y then (y, d) else find_year (y + 1) (d - year_len y))"
  by auto
termination
  by (relation "measure (\<lambda>(y, d). nat d)") (auto simp: year_len_def split: if_splits)

declare find_year.simps [simp del]

fun find_month :: "nat \<Rightarrow> int \<Rightarrow> int \<Rightarrow> int \<Rightarrow> int \<times> int" where
  "find_month 0 y m d = (m, d)"
| "find_month (Suc k) y m d =
     (if d < pas_days_in_month y m then (m, d) else find_month k y (m + 1) (d - pas_days_in_month y m))"

section \<open>What the C library answers\<close>

record tm =
  tm_year :: int
  tm_mon :: int
  tm_mday :: int
  tm_hour :: int
  tm_min :: int
  tm_sec :: int

text \<open>Days since 1 January 1 to a date, by 400 years of 146097 days; 719162 of them lie before 1970.\<close>

definition civil :: "int \<Rightarrow> int \<times> int \<times> int" where
  "civil n =
     (let (y, d) = find_year (400 * (n div 146097) + 1) (n mod 146097);
          (m, k) = find_month 11 y 1 d in (y, m, k + 1))"

definition c_gmtime :: "int \<Rightarrow> tm option" where
  "c_gmtime t =
     (let (y, m, d) = civil (t div 86400 + 719162); s = t mod 86400 in
      if - (2 ^ 31) \<le> y - 1900 \<and> y - 1900 < 2 ^ 31
      then Some \<lparr>tm_year = y - 1900, tm_mon = m - 1, tm_mday = d,
                 tm_hour = s div 3600, tm_min = s mod 3600 div 60, tm_sec = s mod 60\<rparr>
      else None)"

text \<open>
  \<^verbatim>\<open>strtoll\<close> in base ten: white space, a sign and digits, the value clamped to its type; what it
  does not read is the second component, the whole word when there is no digit.
\<close>

definition is_space :: "char \<Rightarrow> bool" where
  "is_space c \<longleftrightarrow> c = CHR '' '' \<or> (9 \<le> (of_char c :: nat) \<and> (of_char c :: nat) \<le> 13)"

definition c_strtoll :: "string \<Rightarrow> int \<times> string" where
  "c_strtoll s =
     (let r = dropWhile is_space s;
          neg = (r \<noteq> [] \<and> hd r = CHR ''-'');
          r = (if r \<noteq> [] \<and> (hd r = CHR ''-'' \<or> hd r = CHR ''+'') then tl r else r);
          ds = takeWhile is_digit r; v = int (dec_value ds) in
      if ds = [] then (0, s)
      else (max (- (2 ^ 63)) (min (2 ^ 63 - 1) (if neg then - v else v)), dropWhile is_digit r))"

text \<open>A value converted to a \<^verbatim>\<open>time_t\<close> of the given number of bits.\<close>

definition to_time_t :: "nat \<Rightarrow> int \<Rightarrow> int" where
  "to_time_t bits v = (v + 2 ^ (bits - 1)) mod 2 ^ bits - 2 ^ (bits - 1)"

text \<open>\<open>time_now\<close> is \<^term>\<open>None\<close> when \<^verbatim>\<open>time\<close> answers -1.\<close>

record clock_env =
  source_date_epoch :: "string option"
  time_bits :: nat
  time_now :: "int option"
  localtime :: "int \<Rightarrow> tm option"

section \<open>The sample\<close>

text \<open>Whether the variable named an instant, and what the calendar says of it.\<close>

definition named_instant :: "clock_env \<Rightarrow> bool \<times> tm option" where
  "named_instant e =
     (case source_date_epoch e of
        None \<Rightarrow> (False, None)
      | Some [] \<Rightarrow> (False, None)
      | Some s \<Rightarrow>
          (case c_strtoll s of (v, rest) \<Rightarrow>
             if rest = [] then (True, let now = to_time_t (time_bits e) v in if now = v then c_gmtime now else None)
             else (False, None)))"

definition pas_gettimestamp :: "clock_env \<Rightarrow> int list res" where
  "pas_gettimestamp e =
     (let (named, t) = named_instant e;
          t = (if t = None \<and> \<not> named then (case time_now e of None \<Rightarrow> None | Some now \<Rightarrow> localtime e now) else t) in
      case t of
        None \<Rightarrow> Inr [0, 0, 1, 1, 1, 0, 0, 0]
      | Some t \<Rightarrow>
          rbind (int_add (tm_year t) 1900) (\<lambda>y.
            Inr [1, 1, y, tm_mon t + 1, tm_mday t, tm_hour t, tm_min t, if tm_sec t > 59 then 59 else tm_sec t]))"

definition pas_timestamp_field :: "int list \<Rightarrow> int \<Rightarrow> int res" where
  "pas_timestamp_field stamp k =
     (if k < 0 \<or> k > 7 then Inl (Trap ''GetTimeStamp: no such field'') else Inr (stamp ! nat k))"

section \<open>Writing a date and a time\<close>

definition dchar :: "int \<Rightarrow> char" where
  "dchar d = char_of (nat (48 + d))"

definition pas_date :: "int \<Rightarrow> int \<Rightarrow> int \<Rightarrow> arena \<Rightarrow> (ptr \<times> arena) res" where
  "pas_date y m d s =
     (if y < 1 \<or> y > 9999 then Inl (Trap ''date: the year is not one this implementation can write (1 to 9999)'')
      else if m < 1 \<or> m > 12 \<or> d < 1 \<or> d > pas_days_in_month y m
      then Inl (Trap ''date: the day, month and year are not a valid calendar date'')
      else rbind (pas_str_temp 10 s) (\<lambda>(p, s).
        Inr (Arena p, store p [dchar (y div 1000), dchar (y div 100 mod 10), dchar (y div 10 mod 10), dchar (y mod 10),
          CHR ''-'', dchar (m div 10), dchar (m mod 10), CHR ''-'', dchar (d div 10), dchar (d mod 10)] s)))"

definition pas_time :: "int \<Rightarrow> int \<Rightarrow> int \<Rightarrow> arena \<Rightarrow> (ptr \<times> arena) res" where
  "pas_time h m s t =
     rbind (pas_str_temp 8 t) (\<lambda>(p, t).
       Inr (Arena p, store p [dchar (h div 10), dchar (h mod 10), CHR '':'', dchar (m div 10), dchar (m mod 10), CHR '':'',
         dchar (s div 10), dchar (s mod 10)] t))"

section \<open>Counting days\<close>

text \<open>The days before a year, in closed form, and before a month of it.\<close>

definition days_before_year :: "int \<Rightarrow> int" where
  "days_before_year y = 365 * (y - 1) + (y - 1) div 4 - (y - 1) div 100 + (y - 1) div 400"

definition days_before_month :: "int \<Rightarrow> int \<Rightarrow> int" where
  "days_before_month y m = (\<Sum>k \<in> {1..<m}. pas_days_in_month y k)"

definition day_number :: "int \<Rightarrow> int \<Rightarrow> int \<Rightarrow> int" where
  "day_number y m d = days_before_year y + days_before_month y m + (d - 1)"

definition valid_date :: "int \<Rightarrow> int \<Rightarrow> int \<Rightarrow> bool" where
  "valid_date y m d \<longleftrightarrow> 1 \<le> m \<and> m \<le> 12 \<and> 1 \<le> d \<and> d \<le> pas_days_in_month y m"

lemma quotient_step:
  fixes y k :: int
  assumes "0 < k"
  shows "y div k - (y - 1) div k = (if y mod k = 0 then 1 else 0)"
proof -
  have q: "y = k * (y div k) + y mod k" "0 \<le> y mod k" "y mod k < k" using assms by simp_all
  show ?thesis
  proof (cases "y mod k = 0")
    case True
    then have "y - 1 = k * (y div k - 1) + (k - 1)" using q(1) by (simp add: algebra_simps)
    from int_div_pos_eq [OF this] assms have "(y - 1) div k = y div k - 1" by simp
    with True show ?thesis by simp
  next
    case False
    then have "y - 1 = k * (y div k) + (y mod k - 1)" using q(1) by simp
    from int_div_pos_eq [OF this] q(2,3) False have "(y - 1) div k = y div k" by simp
    with False show ?thesis by simp
  qed
qed

lemma year_step: "days_before_year (y + 1) = days_before_year y + year_len y"
proof -
  have "y mod 400 = 0 \<Longrightarrow> y mod 100 = 0" "y mod 100 = 0 \<Longrightarrow> y mod 4 = 0" by presburger+
  moreover have "days_before_year (y + 1) - days_before_year y =
      365 + (y div 4 - (y - 1) div 4) - (y div 100 - (y - 1) div 100) + (y div 400 - (y - 1) div 400)"
    by (simp add: days_before_year_def)
  ultimately show ?thesis
    unfolding quotient_step [of 4, simplified] quotient_step [of 100, simplified] quotient_step [of 400, simplified] year_len_def leap_def
    by (auto split: if_splits)
qed

lemma month_step: "1 \<le> m \<Longrightarrow> days_before_month y (m + 1) = days_before_month y m + pas_days_in_month y m"
proof -
  assume "1 \<le> m"
  then have "{1..<m + 1} = insert m {1..<m}" by auto
  then show ?thesis by (simp add: days_before_month_def)
qed

lemma month_positive: "1 \<le> m \<Longrightarrow> m \<le> 12 \<Longrightarrow> 28 \<le> pas_days_in_month y m \<and> pas_days_in_month y m \<le> 31"
proof -
  assume "1 \<le> m" "m \<le> 12"
  then have "m = 1 \<or> m = 2 \<or> m = 3 \<or> m = 4 \<or> m = 5 \<or> m = 6 \<or> m = 7 \<or> m = 8 \<or> m = 9 \<or> m = 10 \<or> m = 11 \<or> m = 12" by presburger
  then show ?thesis by (auto simp: pas_days_in_month_def)
qed

lemma months_of_year: "days_before_month y 13 = year_len y"
proof -
  have "days_before_month y 1 = 0" by (simp add: days_before_month_def)
  then show ?thesis
    using month_step [of 1 y] month_step [of 2 y] month_step [of 3 y] month_step [of 4 y] month_step [of 5 y] month_step [of 6 y]
      month_step [of 7 y] month_step [of 8 y] month_step [of 9 y] month_step [of 10 y] month_step [of 11 y] month_step [of 12 y]
    by (simp add: pas_days_in_month_def year_len_def)
qed

lemma year_positive: "365 \<le> year_len y \<and> year_len y \<le> 366"
  by (simp add: year_len_def)

lemma find_year_spec:
  "0 \<le> d \<Longrightarrow> find_year y d = (y', d') \<Longrightarrow> days_before_year y' + d' = days_before_year y + d \<and> 0 \<le> d' \<and> d' < year_len y' \<and> y \<le> y'"
proof (induction y d rule: find_year.induct)
  case (1 y d)
  show ?case
  proof (cases "d < year_len y")
    case True
    with 1(2,3) show ?thesis by (simp add: find_year.simps [of y d])
  next
    case False
    with 1(3) have "find_year (y + 1) (d - year_len y) = (y', d')" by (simp add: find_year.simps [of y d])
    from 1(1) [OF False _ this] False year_step [of y] show ?thesis by simp
  qed
qed

lemma find_month_spec:
  "find_month k y m d = (m', d') \<Longrightarrow> 1 \<le> m \<Longrightarrow> m + int k = 12 \<Longrightarrow> 0 \<le> d \<Longrightarrow> days_before_month y m + d < year_len y \<Longrightarrow>
   days_before_month y m' + d' = days_before_month y m + d \<and> m \<le> m' \<and> m' \<le> 12 \<and> 0 \<le> d' \<and> d' < pas_days_in_month y m'"
proof (induction k arbitrary: m d)
  case 0
  then have "days_before_month y 13 = days_before_month y 12 + pas_days_in_month y 12" using month_step [of 12 y] by simp
  with 0 show ?case by (simp add: months_of_year)
next
  case (Suc k)
  show ?case
  proof (cases "d < pas_days_in_month y m")
    case True
    with Suc.prems show ?thesis by auto
  next
    case False
    with Suc.prems Suc.IH [of "m + 1" "d - pas_days_in_month y m"] month_step [of m y] show ?thesis by auto
  qed
qed

lemma civil_spec:
  assumes "civil n = (y, m, d)"
  shows "valid_date y m d \<and> day_number y m d = n"
proof -
  let ?q = "n div 146097"
  obtain y' k where f: "find_year (400 * ?q + 1) (n mod 146097) = (y', k)" by (cases "find_year (400 * ?q + 1) (n mod 146097)")
  obtain m' j where g: "find_month 11 y' 1 k = (m', j)" by (cases "find_month 11 y' 1 k")
  have eq: "y = y'" "m = m'" "d = j + 1" using assms f g by (simp_all add: civil_def)
  have s: "days_before_year y' + k = days_before_year (400 * ?q + 1) + n mod 146097" "0 \<le> k" "k < year_len y'"
    using find_year_spec [OF _ f] by simp_all
  have "(400 * ?q) div 4 = 100 * ?q" "(400 * ?q) div 100 = 4 * ?q" by simp_all
  then have "days_before_year (400 * ?q + 1) = 146097 * ?q" by (simp add: days_before_year_def)
  then have n: "days_before_year y' + k = n" using s(1) by simp
  have "days_before_month y' 1 = 0" by (simp add: days_before_month_def)
  then have "days_before_month y' m' + j = k \<and> 1 \<le> m' \<and> m' \<le> 12 \<and> 0 \<le> j \<and> j < pas_days_in_month y' m'"
    using find_month_spec [OF g] s(2,3) by simp
  with n show ?thesis by (auto simp: eq valid_date_def day_number_def)
qed

lemma year_excess:
  fixes x :: int
  shows "0 \<le> x \<Longrightarrow> 0 \<le> x div 4 - x div 100 + x div 400" "x \<le> 0 \<Longrightarrow> x div 4 - x div 100 + x div 400 \<le> 0"
proof -
  show "0 \<le> x \<Longrightarrow> 0 \<le> x div 4 - x div 100 + x div 400"
    using zdiv_mono2 [of x 4 100] pos_imp_zdiv_nonneg_iff [of 400 x] by simp
  show "x \<le> 0 \<Longrightarrow> x div 4 - x div 100 + x div 400 \<le> 0"
    using zdiv_mono2_neg [of x 4 100] div_nonpos_pos_le0 [of x 400] by (cases "x = 0") simp_all
qed

lemma year_bound:
  assumes "valid_date y m d" "day_number y m d = n" "\<bar>n\<bar> < 700000000000"
  shows "\<bar>y\<bar> < 2000000000"
proof -
  have pos: "1 \<le> k \<Longrightarrow> k < 13 \<Longrightarrow> 0 \<le> pas_days_in_month y k" for k using month_positive [of k y] by simp
  have "days_before_month y m \<ge> 0" unfolding days_before_month_def
    using assms(1) pos by (intro sum_nonneg) (simp add: valid_date_def)
  moreover have "days_before_month y m + d \<le> year_len y"
  proof -
    have "days_before_month y (m + 1) \<le> days_before_month y 13"
      unfolding days_before_month_def using assms(1) pos by (intro sum_mono2) (auto simp: valid_date_def)
    with assms(1) month_step [of m y] months_of_year [of y] show ?thesis by (simp add: valid_date_def)
  qed
  ultimately have n: "days_before_year y \<le> n" "n < days_before_year y + 366"
    using assms(1,2) year_positive [of y] by (auto simp: day_number_def valid_date_def)
  then show ?thesis using assms(3) year_excess [of "y - 1"] by (cases "1 \<le> y") (auto simp: days_before_year_def)
qed

lemma day_parts:
  fixes s :: int
  assumes "0 \<le> s" "s < 86400"
  shows "0 \<le> s div 3600 \<and> s div 3600 < 24 \<and> 0 \<le> s mod 3600 div 60 \<and> s mod 3600 div 60 < 60 \<and>
    s div 3600 * 3600 + s mod 3600 div 60 * 60 + s mod 60 = s"
proof -
  define h r where hr: "h = s div 3600" "r = s mod 3600"
  have r: "0 \<le> r" "r < 3600" "h * 3600 + r = s" by (simp_all add: hr)
  define q k where qk: "q = r div 60" "k = r mod 60"
  have k: "0 \<le> k" "k < 60" "q * 60 + k = r" by (simp_all add: qk)
  have "s mod 60 = k" by (simp add: hr qk mod_mod_cancel)
  moreover have "0 \<le> h" "h < 24" "0 \<le> q" "q < 60" using assms r k by linarith+
  ultimately show ?thesis unfolding hr [symmetric] qk(1) [symmetric] using r(3) k(3) by simp
qed

lemma gmtime_spec:
  assumes "c_gmtime v = Some t"
  shows "valid_date (tm_year t + 1900) (tm_mon t + 1) (tm_mday t) \<and>
    0 \<le> tm_hour t \<and> tm_hour t < 24 \<and> 0 \<le> tm_min t \<and> tm_min t < 60 \<and> 0 \<le> tm_sec t \<and> tm_sec t < 60 \<and>
    (day_number (tm_year t + 1900) (tm_mon t + 1) (tm_mday t) - 719162) * 86400 + tm_hour t * 3600 + tm_min t * 60 + tm_sec t = v"
proof -
  obtain y m d where c: "civil (v div 86400 + 719162) = (y, m, d)" by (cases "civil (v div 86400 + 719162)") auto
  let ?s = "v mod 86400"
  have t: "tm_year t = y - 1900" "tm_mon t = m - 1" "tm_mday t = d" "tm_hour t = ?s div 3600" "tm_min t = ?s mod 3600 div 60" "tm_sec t = ?s mod 60"
    using assms c by (auto simp: c_gmtime_def Let_def split: if_splits)
  have p: "0 \<le> ?s div 3600 \<and> ?s div 3600 < 24 \<and> 0 \<le> ?s mod 3600 div 60 \<and> ?s mod 3600 div 60 < 60 \<and>
    ?s div 3600 * 3600 + ?s mod 3600 div 60 * 60 + ?s mod 60 = ?s" by (rule day_parts) simp_all
  have k: "0 \<le> ?s mod 60" "?s mod 60 < 60" by simp_all
  have v: "v div 86400 * 86400 + ?s = v" by simp
  from civil_spec [OF c] have d: "valid_date y m d" "day_number y m d - 719162 = v div 86400" by auto
  have "(day_number y m d - 719162) * 86400 + ?s div 3600 * 3600 + ?s mod 3600 div 60 * 60 + ?s mod 60 = v"
    unfolding d(2) using conjunct2 [OF conjunct2 [OF conjunct2 [OF conjunct2 [OF p]]]] v by (simp only: add.assoc)
  then show ?thesis unfolding t diff_add_cancel using d(1) p k by blast
qed

definition sound_tm :: "tm \<Rightarrow> bool" where
  "sound_tm t \<longleftrightarrow> 0 \<le> tm_mon t \<and> tm_mon t \<le> 11 \<and> 1 \<le> tm_mday t \<and> tm_mday t \<le> 31 \<and> 0 \<le> tm_hour t \<and> tm_hour t \<le> 23 \<and>
     0 \<le> tm_min t \<and> tm_min t \<le> 59 \<and> 0 \<le> tm_sec t \<and> tm_sec t \<le> 60"

lemma gmtime_sound: "c_gmtime v = Some t \<Longrightarrow> sound_tm t"
proof -
  assume "c_gmtime v = Some t"
  note g = gmtime_spec [OF this]
  then show ?thesis using month_positive [of "tm_mon t + 1" "tm_year t + 1900"] by (simp add: sound_tm_def valid_date_def)
qed

lemma digit_dchar: "0 \<le> d \<Longrightarrow> d < 10 \<Longrightarrow> digit_value (dchar d) = nat d"
  by (simp add: dchar_def digit_value_def nat_add_distrib)

lemma date_digits:
  fixes y :: int
  assumes "0 \<le> y" "y \<le> 9999"
  shows "dec_value [dchar (y div 1000), dchar (y div 100 mod 10), dchar (y div 10 mod 10), dchar (y mod 10)] = nat y"
    "y \<le> 99 \<Longrightarrow> dec_value [dchar (y div 10), dchar (y mod 10)] = nat y"
proof -
  define q r u where qr: "q = y div 10" "r = q div 10" "u = r div 10"
  have d: "y div 100 = r" "y div 1000 = u" by (simp_all add: qr zdiv_zmult2_eq [symmetric])
  define a b c where abc: "a = y mod 10" "b = q mod 10" "c = r mod 10"
  have e: "q * 10 + a = y" "r * 10 + b = q" "u * 10 + c = r" by (simp_all add: qr abc)
  have m: "0 \<le> a" "a < 10" "0 \<le> b" "b < 10" "0 \<le> c" "c < 10" by (simp_all add: abc)
  have z: "0 \<le> q" "0 \<le> r" "0 \<le> u" "u < 10" using e m assms by linarith+
  show "dec_value [dchar (y div 1000), dchar (y div 100 mod 10), dchar (y div 10 mod 10), dchar (y mod 10)] = nat y"
    unfolding d qr(1) [symmetric] abc [symmetric] using e m z by (simp add: dec_value_def digit_dchar)
  assume "y \<le> 99"
  then have "q < 10" using e m by linarith
  then show "dec_value [dchar (y div 10), dchar (y mod 10)] = nat y"
    unfolding qr(1) [symmetric] abc(1) [symmetric] using e(1) m z(1) by (simp add: dec_value_def digit_dchar)
qed

section \<open>Properties\<close>

text \<open>
  C19. A named instant is the date and the time of day it names: when \<^verbatim>\<open>SOURCE_DATE_EPOCH\<close> is a
  number of seconds, the sample is valid, its date is a date of the Gregorian calendar and its
  time a time of day, and counting days and seconds back from them gives the number.  The clock
  is not consulted.
\<close>

theorem timestamp_names_instant:
  assumes "source_date_epoch e = Some s" "s \<noteq> []" "c_strtoll s = (v, [])" "to_time_t (time_bits e) v = v" "\<bar>v\<bar> < 2 ^ 55"
  shows "\<exists>y m d h mi sec. pas_gettimestamp e = Inr [1, 1, y, m, d, h, mi, sec] \<and> valid_date y m d \<and>
    0 \<le> h \<and> h < 24 \<and> 0 \<le> mi \<and> mi < 60 \<and> 0 \<le> sec \<and> sec < 60 \<and>
    (day_number y m d - 719162) * 86400 + h * 3600 + mi * 60 + sec = v"
proof -
  obtain y m d where c: "civil (v div 86400 + 719162) = (y, m, d)" by (cases "civil (v div 86400 + 719162)") auto
  have "v div 86400 \<le> 2 ^ 55 div 86400" "- (2 ^ 55) div 86400 \<le> v div 86400"
    using assms(5) by (intro zdiv_mono1; simp)+
  then have "v div 86400 \<le> 417000000000" "- 417000000001 \<le> v div 86400" by simp_all
  then have "\<bar>y\<bar> < 2000000000" using civil_spec [OF c] by (intro year_bound [of y m d]) auto
  then have "- (2 ^ 31) \<le> y - 1900 \<and> y - 1900 < 2 ^ 31" by (simp add: abs_less_iff)
  then obtain t where t: "c_gmtime v = Some t" "tm_year t = y - 1900"
    unfolding c_gmtime_def c Let_def prod.case by (simp only: if_True) (metis tm.select_convs(1))
  have n: "named_instant e = (True, Some t)" using assms(1-4) t(1) by (cases s) (simp_all add: named_instant_def)
  have "int_add (tm_year t) 1900 = Inr (tm_year t + 1900)" using t(2) \<open>\<bar>y\<bar> < 2000000000\<close> by (simp add: int_add_def abs_less_iff)
  with n gmtime_spec [OF t(1)] show ?thesis by (simp add: pas_gettimestamp_def)
qed

definition example_clock :: "string \<Rightarrow> clock_env" where
  "example_clock s = \<lparr>source_date_epoch = Some s, time_bits = 64, time_now = None, localtime = (\<lambda>_. None)\<rparr>"

theorem timestamp_names_instant_witness:
  "\<exists>y m d h mi sec. pas_gettimestamp (example_clock ''951782400'') = Inr [1, 1, y, m, d, h, mi, sec] \<and>
    (day_number y m d - 719162) * 86400 + h * 3600 + mi * 60 + sec = 951782400"
  using timestamp_names_instant [of "example_clock ''951782400''" "''951782400''" 951782400]
  by (fastforce simp: example_clock_def c_strtoll_def is_space_def is_digit_def digit_value_def dec_value_def to_time_t_def)

text \<open>
  C40. Every field of a sample is a value of its subrange: the two flags agree, the month is
  1..12, the day 1..31, the hour 0..23, the minute and the second 0..59, even when the local
  time reports a leap second and when there is no time at all; and each is there to be asked
  for, while any other number is an error.
\<close>

theorem timestamp_fields_in_range:
  assumes "\<forall>t u. localtime e t = Some u \<longrightarrow> sound_tm u" "pas_gettimestamp e = Inr stamp"
  shows "\<exists>v y m d h mi sec. stamp = [v, v, y, m, d, h, mi, sec] \<and> v \<in> {0, 1} \<and> m \<in> {1..12} \<and> d \<in> {1..31} \<and>
    h \<in> {0..23} \<and> mi \<in> {0..59} \<and> sec \<in> {0..59} \<and>
    (\<forall>k. if k \<in> {0..7} then \<exists>x. pas_timestamp_field stamp k = Inr x \<and> x \<in> set stamp
         else pas_timestamp_field stamp k = Inl (Trap ''GetTimeStamp: no such field''))"
proof -
  obtain named t0 where n: "named_instant e = (named, t0)" by (cases "named_instant e")
  have "t0 = Some u \<Longrightarrow> sound_tm u" for u
    using n gmtime_sound by (auto simp: named_instant_def Let_def split: option.splits list.splits prod.splits if_splits)
  then have "\<exists>v y m d h mi sec. stamp = [v, v, y, m, d, h, mi, sec] \<and> v \<in> {0, 1} \<and> m \<in> {1..12} \<and> d \<in> {1..31} \<and>
    h \<in> {0..23} \<and> mi \<in> {0..59} \<and> sec \<in> {0..59}"
    using assms n
    by (auto simp: pas_gettimestamp_def rbind_eq_Inr sound_tm_def split: option.splits if_splits)
  moreover have "if k \<in> {0..7} then \<exists>x. pas_timestamp_field stamp k = Inr x \<and> x \<in> set stamp
         else pas_timestamp_field stamp k = Inl (Trap ''GetTimeStamp: no such field'')" if "length stamp = 8" for k
    using that by (auto simp: pas_timestamp_field_def)
  ultimately show ?thesis by fastforce
qed

text \<open>A clock in the middle of a leap second.\<close>

definition leap_clock :: clock_env where
  "leap_clock = (example_clock [])\<lparr>time_now := Some 0, localtime := (\<lambda>_. Some \<lparr>tm_year = 116, tm_mon = 11,
       tm_mday = 31, tm_hour = 23, tm_min = 59, tm_sec = 60\<rparr>)\<rparr>"

theorem timestamp_fields_in_range_witness:
  "\<exists>v y m d h mi sec. pas_gettimestamp leap_clock = Inr [v, v, y, m, d, h, mi, sec] \<and> sec \<in> {0..59}"
proof -
  have "pas_gettimestamp leap_clock = Inr [1, 1, 2016, 12, 31, 23, 59, 59]" "\<forall>t u. localtime leap_clock t = Some u \<longrightarrow> sound_tm u"
    by (simp_all add: pas_gettimestamp_def named_instant_def leap_clock_def example_clock_def sound_tm_def int_add_def)
  with timestamp_fields_in_range [of leap_clock] show ?thesis by metis
qed

text \<open>
  \<^verbatim>\<open>date\<close> writes exactly the dates of the calendar from year 1 to 9999, as ten characters from
  which year, month and day can be read back; everything else is an error, and it never writes
  over a live string.
\<close>

lemma date_writes_calendar:
  assumes "wf_arena s" "pas_str_at s + 10 \<le> PAS_STR_ARENA"
  shows "if 1 \<le> y \<and> y \<le> 9999 \<and> valid_date y m d
    then \<exists>p t. pas_date y m d s = Inr (p, t) \<and> keeps s t \<and> length (load t p 10) = 10 \<and>
      dec_value (take 4 (load t p 10)) = nat y \<and> dec_value (take 2 (drop 5 (load t p 10))) = nat m \<and> dec_value (drop 8 (load t p 10)) = nat d
    else \<exists>msg. pas_date y m d s = Inl (Trap msg)"
proof (cases "1 \<le> y \<and> y \<le> 9999 \<and> valid_date y m d")
  case True
  let ?b = "[dchar (y div 1000), dchar (y div 100 mod 10), dchar (y div 10 mod 10), dchar (y mod 10),
          CHR ''-'', dchar (m div 10), dchar (m mod 10), CHR ''-'', dchar (d div 10), dchar (d mod 10)]"
  have len: "length ?b = 10" by simp
  from temp_fill [OF assms(1), of ?b, unfolded len] assms(2) obtain k t where t: "pas_str_temp 10 s = Inr (k, t)"
    "keeps s (store k ?b t)" "load (store k ?b t) (Arena k) 10 = ?b" by auto
  have "d \<le> 31" using True month_positive [of m y] by (simp add: valid_date_def)
  then have v: "dec_value [dchar (y div 1000), dchar (y div 100 mod 10), dchar (y div 10 mod 10), dchar (y mod 10)] = nat y"
    "dec_value [dchar (m div 10), dchar (m mod 10)] = nat m" "dec_value [dchar (d div 10), dchar (d mod 10)] = nat d"
    using True by (simp_all add: date_digits valid_date_def)
  have "pas_date y m d s = Inr (Arena k, store k ?b t)" using True t(1) by (simp add: pas_date_def valid_date_def)
  moreover have "take 4 ?b = [dchar (y div 1000), dchar (y div 100 mod 10), dchar (y div 10 mod 10), dchar (y mod 10)]"
    "take 2 (drop 5 ?b) = [dchar (m div 10), dchar (m mod 10)]" "drop 8 ?b = [dchar (d div 10), dchar (d mod 10)]" by simp_all
  ultimately show ?thesis unfolding if_P [OF True] using t(2,3) v len by metis
next
  case False
  then show ?thesis by (auto simp: pas_date_def valid_date_def)
qed

lemma date_writes_calendar_witness:
  "(\<exists>p t. pas_date 2000 2 29 arena0 = Inr (p, t) \<and> dec_value (take 4 (load t p 10)) = 2000) \<and>
   (\<exists>msg. pas_date 1900 2 29 arena0 = Inl (Trap msg))"
  using date_writes_calendar [of arena0 2000 2 29] date_writes_calendar [of arena0 1900 2 29]
  by (auto simp: wf_arena_def arena0_def PAS_STR_ARENA_def valid_date_def pas_days_in_month_def leap_def)

text \<open>
  An instant in the last years the calendar of the C library can express: the year is computed
  as an \<^verbatim>\<open>int\<close> sum that does not fit one.
\<close>

lemma timestamp_overflow: "pas_gettimestamp (example_clock ''67767987373171200'') = Inl Undefined"
proof -
  have "find_year 2147484001 0 = (2147484001, 0)" by (subst find_year.simps) (simp add: year_len_def)
  moreover have "find_month 11 2147484001 1 0 = (1, 0)"
    using find_month.simps(2) [of 10 2147484001 1 0] by (simp add: pas_days_in_month_def)
  ultimately have "civil 784352424870 = (2147484001, 1, 1)" by (simp add: civil_def del: find_month.simps)
  then have "c_gmtime 67767987373171200 = Some \<lparr>tm_year = 2147482101, tm_mon = 0, tm_mday = 1, tm_hour = 0, tm_min = 0, tm_sec = 0\<rparr>"
    by (simp add: c_gmtime_def)
  moreover have "c_strtoll ''67767987373171200'' = (67767987373171200, [])"
    by (simp add: c_strtoll_def is_space_def is_digit_def digit_value_def dec_value_def)
  ultimately have "named_instant (example_clock ''67767987373171200'') =
      (True, Some \<lparr>tm_year = 2147482101, tm_mon = 0, tm_mday = 1, tm_hour = 0, tm_min = 0, tm_sec = 0\<rparr>)"
    by (simp add: named_instant_def example_clock_def to_time_t_def)
  then show ?thesis by (simp add: pas_gettimestamp_def int_add_def)
qed

end
