(* ===== verification/Binding.thy ===== *)
theory Binding
  imports Files
begin

text \<open>
  Binding file variables to external entities (\<^verbatim>\<open>bind\<close>, \<^verbatim>\<open>unbind\<close>, \<^verbatim>\<open>binding\<close>), the command line, and
  names for temporary files, as \<^verbatim>\<open>pasrt.c\<close> has them over the streams of \<open>Stdio\<close>.

  \<^verbatim>\<open>access\<close> is the operating system's: \<open>exists\<close> is its answer for \<^verbatim>\<open>F_OK\<close> and \<open>admits\<close> for \<^verbatim>\<open>W_OK\<close>.
  \<open>probe_mem\<close> is whether \<^verbatim>\<open>malloc\<close> has room for the name a test composes.
\<close>

record access_env =
  exists :: "string \<Rightarrow> bool"
  admits :: "string \<Rightarrow> bool"
  probe_mem :: bool

definition pas_bound_exists :: "access_env \<Rightarrow> pas_file \<Rightarrow> bool" where
  "pas_bound_exists acc f \<longleftrightarrow> (case bound_name f of None \<Rightarrow> False | Some n \<Rightarrow> exists acc n)"

abbreviation (input) slash :: char where "slash \<equiv> CHR 0x2F"

definition pas_is_directory :: "access_env \<Rightarrow> string \<Rightarrow> bool" where
  "pas_is_directory acc name \<longleftrightarrow>
     (if name \<noteq> [] \<and> last name = slash then exists acc name
      else probe_mem acc \<and> exists acc (name @ [slash]))"

text \<open>\<^verbatim>\<open>strrchr\<close>: the offset of the last slash.\<close>

fun last_slash :: "string \<Rightarrow> nat option" where
  "last_slash [] = None"
| "last_slash (c # cs) =
     (case last_slash cs of Some i \<Rightarrow> Some (Suc i) | None \<Rightarrow> if c = slash then Some 0 else None)"

definition pas_can_write :: "access_env \<Rightarrow> string \<Rightarrow> bool" where
  "pas_can_write acc name \<longleftrightarrow>
     (if exists acc name then \<not> pas_is_directory acc name \<and> admits acc name
      else case last_slash name of
             None \<Rightarrow> admits acc ''.''
           | Some i \<Rightarrow>
               if i = 0 then admits acc ''/''
               else probe_mem acc \<and> pas_is_directory acc (take i name) \<and> admits acc (take i name))"

text \<open>The loop that takes the trailing spaces off a name.\<close>

fun trim_len :: "string \<Rightarrow> nat \<Rightarrow> nat" where
  "trim_len name 0 = 0"
| "trim_len name (Suc n) = (if name ! n = blank then trim_len name n else Suc n)"

text \<open>\<open>mem\<close> is whether the allocator has room; the stream of a bound file is closed.\<close>

definition close_bound :: "world \<Rightarrow> pas_file \<Rightarrow> world \<times> pas_file" where
  "close_bound w f =
     (case fp f of
        Some p \<Rightarrow> if binding f = PAS_BIND_ARG then (c_fclose w p, f\<lparr>fp := None\<rparr>) else (w, f)
      | None \<Rightarrow> (w, f))"

definition pas_bind :: "access_env \<Rightarrow> bool \<Rightarrow> world \<Rightarrow> pas_file \<Rightarrow> string \<Rightarrow> nat \<Rightarrow> (world \<times> pas_file) res" where
  "pas_bind acc mem w f name len =
     (if pas_bound_exists acc f then Inl (Trap ''bind: the variable is already bound'')
      else let len = trim_len name len in
           if \<not> mem then Inl (Trap ''out of memory in bind'')
           else let (w, f) = close_bound w (f\<lparr>bound_name := Some (take len name)\<rparr>) in
                Inr (w, f\<lparr>mode := PAS_CLOSED, has := False, ateof := False, pushback := [],
                          binding := PAS_BIND_ARG\<rparr>))"

definition pas_unbind :: "world \<Rightarrow> pas_file \<Rightarrow> world \<times> pas_file" where
  "pas_unbind w f =
     (let (w, f) = close_bound w f in
      (w, f\<lparr>bound_name := None, binding := PAS_BIND_INTERNAL, arg := 0, mode := PAS_CLOSED,
            has := False, ateof := False, pushback := []\<rparr>))"

definition pas_named_by :: "world \<Rightarrow> pas_file \<Rightarrow> string option" where
  "pas_named_by w f =
     (case bound_name f of
        Some n \<Rightarrow> Some n
      | None \<Rightarrow>
          if binding f = PAS_BIND_ARG \<and> arg f < int (length (argv w)) then Some (argv w ! nat (arg f)) else None)"

definition pas_bound_to :: "access_env \<Rightarrow> world \<Rightarrow> pas_file \<Rightarrow> string option" where
  "pas_bound_to acc w f =
     (case bound_name f of
        Some n \<Rightarrow> if pas_bound_exists acc f then Some n else None
      | None \<Rightarrow>
          if binding f = PAS_BIND_ARG \<and> arg f < int (length (argv w)) then Some (argv w ! nat (arg f)) else None)"

definition pas_binding_bound :: "access_env \<Rightarrow> world \<Rightarrow> pas_file \<Rightarrow> bool" where
  "pas_binding_bound acc w f \<longleftrightarrow> pas_bound_to acc w f \<noteq> None"

definition pas_binding_writable :: "access_env \<Rightarrow> world \<Rightarrow> pas_file \<Rightarrow> bool" where
  "pas_binding_writable acc w f \<longleftrightarrow>
     (case pas_named_by w f of None \<Rightarrow> False | Some n \<Rightarrow> pas_can_write acc n)"

definition pas_binding_name :: "access_env \<Rightarrow> world \<Rightarrow> pas_file \<Rightarrow> string" where
  "pas_binding_name acc w f = (case pas_bound_to acc w f of None \<Rightarrow> '''' | Some n \<Rightarrow> n)"

definition pas_binding_namelen :: "access_env \<Rightarrow> world \<Rightarrow> pas_file \<Rightarrow> int" where
  "pas_binding_namelen acc w f = (case pas_bound_to acc w f of None \<Rightarrow> 0 | Some n \<Rightarrow> c_int (int (length n)))"

section \<open>The command line\<close>

definition pas_args :: "string list \<Rightarrow> world \<Rightarrow> world" where
  "pas_args av w = w\<lparr>argv := av\<rparr>"

definition pas_argcount :: "world \<Rightarrow> int" where
  "pas_argcount w = (if length (argv w) > 0 then int (length (argv w)) - 1 else 0)"

definition pas_argument :: "world \<Rightarrow> int \<Rightarrow> string res" where
  "pas_argument w k =
     (if k < 1 \<or> k > pas_argcount w
      then Inl (Trap (take 95 (''argument '' @ dec_int k @ '' is not in 1..'' @ dec_int (pas_argcount w))))
      else Inr (argv w ! nat k))"

definition pas_argument_len :: "world \<Rightarrow> int \<Rightarrow> int res" where
  "pas_argument_len w k =
     (if 0 \<le> k \<and> k < int (length (argv w)) then Inr (c_int (int (length (argv w ! nat k)))) else Inl Undefined)"

section \<open>Names for temporary files\<close>

definition PASX_TEMP_MAX :: int where "PASX_TEMP_MAX = 4096"
definition PASX_TEMP_TRIES :: nat where "PASX_TEMP_TRIES = 4096"

definition joined_path :: "string \<Rightarrow> string" where
  "joined_path dir = dir @ (if dir \<noteq> [] \<and> last dir = slash then '''' else ''/'')"

fun temp_loop :: "nat \<Rightarrow> string \<Rightarrow> string \<Rightarrow> int \<Rightarrow> world \<Rightarrow> int \<times> string option \<times> world" where
  "temp_loop 0 dir prefix cap w = (2, None, w)"
| "temp_loop (Suc k) dir prefix cap w =
     (let (n, w) = pas_temp_tick w;
          name = joined_path dir @ prefix @ hex_pad 8 (n mod 2 ^ 32) in
      if int (length name) > cap \<or> int (length name) \<ge> PASX_TEMP_MAX + 1 then (3, None, w)
      else case c_fopen name OpenExclusive w of
             Some (p, w) \<Rightarrow> (0, Some name, c_fclose w p)
           | None \<Rightarrow> temp_loop k dir prefix cap w)"

definition pasx_temp_name :: "string option \<Rightarrow> string option \<Rightarrow> int \<Rightarrow> world \<Rightarrow> int \<times> string option \<times> world" where
  "pasx_temp_name dir prefix cap w =
     (case (dir, prefix) of
        (Some d, Some p) \<Rightarrow>
          if cap < 0 \<or> cap > PASX_TEMP_MAX then (2, None, w) else temp_loop PASX_TEMP_TRIES d p cap w
      | _ \<Rightarrow> (2, None, w))"

definition PASX_TDIR_MAX :: int where "PASX_TDIR_MAX = 4096"

text \<open>
  \<^verbatim>\<open>mkdtemp\<close> makes a directory that was not there before, its name the template with the last six
  characters replaced, or refuses.
\<close>

definition pasx_temp_dir ::
  "(string \<Rightarrow> string option) \<Rightarrow> string option \<Rightarrow> string option \<Rightarrow> int \<Rightarrow> int \<times> string option" where
  "pasx_temp_dir mkdtemp dir prefix cap =
     (case (dir, prefix) of
        (Some d, Some p) \<Rightarrow>
          if cap < 0 \<or> cap > PASX_TDIR_MAX then (2, None)
          else let name = joined_path d @ p @ ''XXXXXX'' in
               if int (length name) > cap \<or> int (length name) \<ge> PASX_TDIR_MAX + 1 then (3, None)
               else (case mkdtemp name of None \<Rightarrow> (2, None) | Some made \<Rightarrow> (0, Some made))
      | _ \<Rightarrow> (2, None))"

section \<open>What binding answers\<close>

definition trim :: "string \<Rightarrow> string" where
  "trim s = rev (dropWhile (\<lambda>c. c = blank) (rev s))"

lemma take_trim_len: "n \<le> length name \<Longrightarrow> take (trim_len name n) name = trim (take n name)"
  by (induction n) (simp_all add: trim_def take_Suc_conv_app_nth)

text \<open>The last slash splits a name into a directory and an entry.\<close>

lemma last_slash_None: "last_slash s = None \<longleftrightarrow> slash \<notin> set s"
  by (induction s) (auto split: option.splits)

lemma last_slash_append: "slash \<notin> set e \<Longrightarrow> last_slash (d @ slash # e) = Some (length d)"
  by (induction d) (auto simp: last_slash_None [THEN iffD2])

lemma can_write_new:
  "\<not> exists acc (d @ slash # e) \<Longrightarrow> slash \<notin> set e \<Longrightarrow> d \<noteq> [] \<Longrightarrow> probe_mem acc \<Longrightarrow>
     pas_can_write acc (d @ slash # e) \<longleftrightarrow> pas_is_directory acc d \<and> admits acc d"
  by (simp add: pas_can_write_def last_slash_append)

lemmas binding_defs = pas_binding_bound_def pas_binding_name_def pas_bound_to_def pas_bound_exists_def
  pas_named_by_def pas_binding_writable_def

lemma bind_result:
  assumes "pas_bind acc mem w f name len = Inr (w1, f1)"
  shows "bound_name f1 = Some (take (trim_len name len) name)" "binding f1 = PAS_BIND_ARG" "mode f1 = PAS_CLOSED"
    "names w1 = names w" "argv w1 = argv w" "\<not> pas_bound_exists acc f"
  using assms
  by (auto simp: pas_bind_def close_bound_def c_fclose_def split: if_splits option.splits)

lemma rewrite_bound:
  assumes "pas_rewrite w f = Inr (w', f')" and "binding f = PAS_BIND_ARG" and "bound_name f = Some n"
  shows "bound_name f' = Some n" "binding f' = PAS_BIND_ARG" "names w' n \<noteq> None" "mode f' = PAS_WRITING"
    "\<exists>p. fp f' = Some p \<and> contents_of w' p = [] \<and> names w' n = Some (ino (streams w' p))"
  using assms
  by (auto simp: pas_rewrite_def reopen_def pas_external_def close_if_open_def c_fopen_def new_file_def
      new_stream_def c_fclose_def contents_of_def Let_def rbind_eq_Inr split: option.splits if_splits)

text \<open>
  C39. A variable is bound exactly while the entity it names exists: \<^verbatim>\<open>bind\<close> only records the name,
  without its trailing spaces; \<^verbatim>\<open>binding\<close> answers unbound as long as nothing is there; the \<^verbatim>\<open>rewrite\<close>
  that creates the file makes the same variable bound, to that name; from then on a second \<^verbatim>\<open>bind\<close>
  is the dynamic violation; and \<^verbatim>\<open>unbind\<close> makes it bound to nothing.
\<close>

theorem binding_follows_entity:
  assumes "pas_bind acc mem w f name len = Inr (w1, f1)" and "len \<le> length name"
    and "pas_rewrite w1 f1 = Inr (w2, f2)"
    and acc: "\<And>n. exists acc n \<longleftrightarrow> names w n \<noteq> None" and acc2: "\<And>n. exists acc2 n \<longleftrightarrow> names w2 n \<noteq> None"
  shows "pas_binding_bound acc w1 f1 = (names w (trim (take len name)) \<noteq> None) \<and>
     pas_binding_bound acc2 w2 f2 \<and> pas_binding_name acc2 w2 f2 = trim (take len name) \<and>
     pas_bind acc2 mem w2 f2 other k = Inl (Trap ''bind: the variable is already bound'') \<and>
     (\<exists>p. fp f2 = Some p \<and> contents_of w2 p = [] \<and> names w2 (trim (take len name)) = Some (ino (streams w2 p))) \<and>
     (case pas_unbind w2 f2 of (w3, f3) \<Rightarrow> \<not> pas_binding_bound acc2 w3 f3 \<and> \<not> pas_binding_writable acc2 w3 f3)"
proof -
  note b = bind_result [OF assms(1), unfolded take_trim_len [OF assms(2)]]
  note r = rewrite_bound [OF assms(3) b(2) b(1)]
  have "pas_binding_bound acc w1 f1 = (names w (trim (take len name)) \<noteq> None)"
    using b acc by (simp add: binding_defs)
  moreover have "pas_binding_bound acc2 w2 f2" "pas_binding_name acc2 w2 f2 = trim (take len name)"
    "pas_bind acc2 mem w2 f2 other k = Inl (Trap ''bind: the variable is already bound'')"
    using r acc2 by (simp_all add: binding_defs pas_bind_def)
  moreover have "case pas_unbind w2 f2 of (w3, f3) \<Rightarrow> \<not> pas_binding_bound acc2 w3 f3 \<and> \<not> pas_binding_writable acc2 w3 f3"
    by (simp add: pas_unbind_def binding_defs split: prod.splits)
  ultimately show ?thesis using r(5) by blast
qed

definition unbound_file :: pas_file where
  "unbound_file = \<lparr>fp = None, mode = PAS_CLOSED, binding = PAS_BIND_INTERNAL, arg = 0, lookahead = None, has = False,
     istext = True, direct = False, capacity = 0, bound_name = None, compsize = 1, ateof = False, ch = blank,
     pushback = [], atbol = True, buf = None, fname = None, prev_open = None, next_open = None, m_buf = [], m_at = 0\<rparr>"

definition access_of :: "world \<Rightarrow> access_env" where
  "access_of w = \<lparr>exists = (\<lambda>n. names w n \<noteq> None), admits = may_write w, probe_mem = True\<rparr>"

theorem binding_follows_entity_witness:
  "\<exists>w1 f1 w2 f2. pas_bind (access_of world0) True world0 unbound_file ''out.txt  '' 9 = Inr (w1, f1) \<and>
     pas_rewrite w1 f1 = Inr (w2, f2) \<and> \<not> pas_binding_bound (access_of world0) w1 f1 \<and>
     pas_binding_bound (access_of w2) w2 f2 \<and> pas_binding_name (access_of w2) w2 f2 = ''out.txt''"
proof -
  obtain w1 f1 where b: "pas_bind (access_of world0) True world0 unbound_file ''out.txt  '' 9 = Inr (w1, f1)"
    by (simp add: pas_bind_def pas_bound_exists_def unbound_file_def close_bound_def)
  obtain w2 f2 where r: "pas_rewrite w1 f1 = Inr (w2, f2)"
    using b by (auto simp: pas_bind_def pas_bound_exists_def unbound_file_def close_bound_def pas_rewrite_def reopen_def
        pas_external_def close_if_open_def c_fopen_def new_file_def new_stream_def world0_def)
  from binding_follows_entity [OF b _ r, of "access_of w2"]
  have "pas_binding_bound (access_of world0) w1 f1 = (names world0 (trim (take 9 ''out.txt  '')) \<noteq> None) \<and>
     pas_binding_bound (access_of w2) w2 f2 \<and> pas_binding_name (access_of w2) w2 f2 = trim (take 9 ''out.txt  '')"
    by (simp add: access_of_def)
  with b r show ?thesis by (auto simp: world0_def trim_def)
qed

section \<open>A temporary name is nobody else's\<close>

lemma tick_world: "pas_temp_tick w = (n, w') \<Longrightarrow> w' = w\<lparr>tick := tick w'\<rparr>"
  by (auto simp: pas_temp_tick_def Let_def)

lemma exclusive_open:
  "c_fopen name OpenExclusive w = Some (p, w') \<Longrightarrow>
     names w name = None \<and> names w' = (names w)(name \<mapsto> next_ino w) \<and> disk w' = (disk w)(next_ino w := [])"
  by (auto simp: c_fopen_def new_file_def new_stream_def split: option.splits if_splits)

lemma temp_loop_result:
  "temp_loop k dir prefix cap w = (st, r, w') \<Longrightarrow>
     (case r of
        None \<Rightarrow> st \<noteq> 0 \<and> names w' = names w \<and> disk w' = disk w
      | Some n \<Rightarrow> st = 0 \<and> int (length n) \<le> cap \<and> names w n = None \<and>
          names w' = (names w)(n \<mapsto> next_ino w) \<and> disk w' = (disk w)(next_ino w := []) \<and>
          (\<exists>i. n = joined_path dir @ prefix @ hex_pad 8 i))"
proof (induction k dir prefix cap w rule: temp_loop.induct)
  case (2 k dir prefix cap w)
  obtain n w1 where t: "pas_temp_tick w = (n, w1)" by (cases "pas_temp_tick w")
  have w1: "names w1 = names w" "disk w1 = disk w" "next_ino w1 = next_ino w"
    using tick_world [OF t] by (metis world.select_convs world.surjective world.update_convs(13))+
  define name where "name = joined_path dir @ prefix @ hex_pad 8 (n mod 2 ^ 32)"
  have e: "(if int (length name) > cap \<or> int (length name) \<ge> PASX_TEMP_MAX + 1 then (3, None, w1)
      else case c_fopen name OpenExclusive w1 of
             Some (p, w) \<Rightarrow> (0, Some name, c_fclose w p)
           | None \<Rightarrow> temp_loop k dir prefix cap w1) = (st, r, w')"
    using 2(2) unfolding temp_loop.simps t Let_def prod.case name_def .
  show ?case
  proof (cases "int (length name) > cap \<or> int (length name) \<ge> PASX_TEMP_MAX + 1")
    case True
    with e w1 show ?thesis by auto
  next
    case False
    show ?thesis
    proof (cases "c_fopen name OpenExclusive w1")
      case None
      with e False have "temp_loop k dir prefix cap w1 = (st, r, w')" by simp
      with 2(1) [OF t [symmetric] refl name_def False None] show ?thesis unfolding w1 .
    next
      case (Some q)
      then obtain p w2 where q: "c_fopen name OpenExclusive w1 = Some (p, w2)" by (cases q) auto
      with e False have "st = 0" "r = Some name" "w' = c_fclose w2 p" by auto
      with exclusive_open [OF q] w1 False show ?thesis by (auto simp: c_fclose_def name_def)
    qed
  qed
qed simp

text \<open>
  A name \<^verbatim>\<open>pasx_temp_name\<close> answers named nothing before and names a new empty file after, fits
  the capacity and is the only thing that changed; when none is answered no file was made, and the
  routine always returns, whatever files are there.
\<close>

lemma temp_name_exclusive:
  "case pasx_temp_name dir prefix cap w of
     (st, None, w') \<Rightarrow> st \<noteq> 0 \<and> names w' = names w \<and> disk w' = disk w
   | (st, Some n, w') \<Rightarrow> st = 0 \<and> int (length n) \<le> cap \<and> names w n = None \<and>
       names w' = (names w)(n \<mapsto> next_ino w) \<and> disk w' = (disk w)(next_ino w := []) \<and>
       (\<exists>d p i. dir = Some d \<and> prefix = Some p \<and> n = joined_path d @ p @ hex_pad 8 i)"
  using temp_loop_result [of PASX_TEMP_TRIES "the dir" "the prefix" cap w]
  by (fastforce simp: pasx_temp_name_def split: option.splits prod.splits if_splits)

section \<open>Names with trailing spaces, and standard files\<close>

text \<open>A name that ends in a space is recorded without it, whatever its type.\<close>

lemma bind_strips_spaces:
  "pas_bind acc True w f ''data '' 5 = Inr (w', f') \<Longrightarrow> bound_name f' = Some ''data''"
  by (auto dest: bind_result(1) simp: numeral_eq_Suc)

text \<open>
  Unbinding a variable bound to the standard input keeps its stream: the next \<^verbatim>\<open>reset\<close> rewinds that
  stream and opens no scratch file.
\<close>

lemma unbind_keeps_standard_input:
  assumes "fp f = Some c_stdin" and "binding f = PAS_BIND_INPUT" and "pas_unbind w f = (w1, f1)"
  shows "w1 = w" "fp f1 = Some c_stdin" "\<exists>f2. pas_reset w1 f1 = Inr (c_rewind w c_stdin, f2) \<and> fp f2 = Some c_stdin"
  using assms
  by (auto simp: pas_unbind_def close_bound_def pas_reset_def Let_def)

end
