(* ===== verification/Persistence.thy ===== *)
theory Persistence
  imports Binding WriteText
begin

text \<open>
  What a program stores another program can read: binding, opening, writing, closing, binding again
  and reading, composed as the statements of a program compose them.
\<close>

text \<open>\<^verbatim>\<open>for each v: writeln(f, v : width)\<close>, and \<^verbatim>\<open>n\<close> times \<^verbatim>\<open>read(g, v)\<close>.\<close>

fun write_table :: "int list \<Rightarrow> int \<Rightarrow> world \<Rightarrow> pas_file \<Rightarrow> (world \<times> pas_file) res" where
  "write_table [] width w f = Inr (w, f)"
| "write_table (v # vs) width w f =
     rbind (pas_write_int (\<lambda>_. True) v width w f) (\<lambda>(w, f).
     rbind (pas_writeln (\<lambda>_. True) w f) (\<lambda>(w, f). write_table vs width w f))"

fun read_table :: "nat \<Rightarrow> bool \<Rightarrow> world \<Rightarrow> pas_file \<Rightarrow> (int list \<times> world \<times> pas_file) res" where
  "read_table 0 wide w f = Inr ([], w, f)"
| "read_table (Suc n) wide w f =
     rbind (pas_read_int_at wide w f) (\<lambda>(v, w, f).
     rbind (read_table n wide w f) (\<lambda>(vs, w, f). Inr (v # vs, w, f)))"

definition int_field :: "int \<Rightarrow> int \<Rightarrow> string" where
  "int_field width v = (if width < 0 then dec_int v else c_pad width (dec_int v))"

definition table_text :: "int \<Rightarrow> int list \<Rightarrow> string" where
  "table_text width vs = concat (map (\<lambda>v. int_field width v @ [newline]) vs)"

section \<open>Writing keeps the names\<close>

definition same_names :: "world \<Rightarrow> world \<Rightarrow> bool" where
  "same_names w w' \<longleftrightarrow> names w' = names w \<and> may_read w' = may_read w \<and> (\<forall>q. ino (streams w' q) = ino (streams w q))"

lemma same_names_refl [simp]: "same_names w w"
  by (simp add: same_names_def)

lemma same_names_trans: "same_names w w1 \<Longrightarrow> same_names w1 w2 \<Longrightarrow> same_names w w2"
  by (simp add: same_names_def)

lemma fwrite_same_names [simp]: "c_fwrite bs w p = (k, w') \<Longrightarrow> same_names w w'"
  by (auto simp: c_fwrite_def same_names_def set_pos_def Let_def split: if_splits)

lemma fclose_same [simp]: "same_names w (c_fclose w p)" "disk (c_fclose w p) = disk w"
  by (simp_all add: same_names_def c_fclose_def)

lemma write_same_names:
  "pas_write_int mem v width w f = Inr (w', f') \<Longrightarrow> same_names w w'"
  "pas_writeln mem w f = Inr (w', f') \<Longrightarrow> same_names w w'"
proof -
  have s: "pas_swrite mem s w f = Inr (w', f') \<Longrightarrow> same_names w w'" for s w f w' f'
    by (auto simp: pas_swrite_def rbind_eq_Inr Let_def split: if_splits prod.splits)
  have c: "pas_sputc mem d w f = Inr (w', f') \<Longrightarrow> same_names w w'" for d w f w' f'
    using s fwrite_same_names [of "[d]" w "the_fp f" "fst (c_fwrite [d] w (the_fp f))" "snd (c_fwrite [d] w (the_fp f))"]
    by (auto simp: pas_sputc_def c_putc_def split: if_splits)
  show "pas_write_int mem v width w f = Inr (w', f') \<Longrightarrow> same_names w w'"
    by (auto simp: pas_write_int_def pas_sprintf_def rbind_eq_Inr dest: s split: if_splits)
  show "pas_writeln mem w f = Inr (w', f') \<Longrightarrow> same_names w w'"
    by (auto simp: pas_writeln_def rbind_eq_Inr dest: c)
qed

lemma length_int_field: "\<bar>v\<bar> \<le> int_limit wide \<Longrightarrow> length (int_field width v) \<le> nat width + 20"
  using dec_int_length [of v wide] by (auto simp: int_field_def c_pad_def)

lemma write_table_result:
  assumes "stream_writing w f" and "\<forall>v\<in>set vs. \<bar>v\<bar> \<le> int_limit wide" and "nat width + 20 \<le> C_INT_MAX"
    and "length (contents_of w (the_fp f)) + length vs * (nat width + 21) < SINK_MAX"
  shows "\<exists>w' f'. write_table vs width w f = Inr (w', f') \<and> stream_writing w' f' \<and> fp f' = fp f \<and> same_names w w' \<and>
     contents_of w' (the_fp f') = contents_of w (the_fp f) @ table_text width vs"
  using assms
proof (induction vs arbitrary: w f)
  case Nil
  then show ?case by (simp add: table_text_def)
next
  case (Cons v vs)
  let ?c = "\<lambda>w f. contents_of w (the_fp f)"
  have v: "\<bar>v\<bar> \<le> int_limit wide" and l: "length (int_field width v) \<le> nat width + 20"
    using Cons.prems(2) length_int_field by auto
  have d: "length (dec_int v) \<le> 20" using v by (rule dec_int_length)
  have room0: "length (?c w f) + max (nat width) (length (dec_int v)) < SINK_MAX" "max (nat width) (length (dec_int v)) \<le> C_INT_MAX"
    using Cons.prems(3,4) d by simp_all
  from stream_sink.write_int_appends [OF Cons.prems(1) room0] obtain w1 f1 where
    1: "pas_write_int (\<lambda>_. True) v width w f = Inr (w1, f1)" "stream_writing w1 f1" "?c w1 f1 = ?c w f @ int_field width v"
       "fp f1 = fp f" by (auto simp: appended_def int_field_def)
  have room: "length (?c w1 f1) + 1 < SINK_MAX" using 1(3) l Cons.prems(4) by simp
  from stream_sink.writeln_appends [OF 1(2) room] obtain w2 f2 where
    2: "pas_writeln (\<lambda>_. True) w1 f1 = Inr (w2, f2)" "stream_writing w2 f2" "?c w2 f2 = ?c w1 f1 @ [newline]" "fp f2 = fp f1"
    by (auto simp: appended_def)
  have "length (?c w2 f2) + length vs * (nat width + 21) < SINK_MAX" using 1(3) 2(3) l Cons.prems(4) by simp
  from Cons.IH [OF 2(2) _ Cons.prems(3) this] Cons.prems(2) obtain w3 f3 where
    3: "write_table vs width w2 f2 = Inr (w3, f3)" "stream_writing w3 f3" "fp f3 = fp f2" "same_names w2 w3"
       "?c w3 f3 = ?c w2 f2 @ table_text width vs" by auto
  have "same_names w w3" using write_same_names(1) [OF 1(1)] write_same_names(2) [OF 2(1)] 3(4)
    by (blast intro: same_names_trans)
  with 1 2 3 show ?case by (simp add: table_text_def)
qed

section \<open>Reading finds the values\<close>

lemma int_text_field:
  assumes "pre = [] \<or> pre = [newline]"
  shows "int_text (pre @ int_field width v @ newline # xs) = (v < 0, dec_nat (nat \<bar>v\<bar>), newline # xs)"
proof -
  obtain k where k: "int_field width v = replicate k blank @ dec_int v" using write_int_padding by (metis int_field_def)
  have b: "dropWhile is_blank (replicate k blank @ ys) = dropWhile is_blank ys" for ys
    by (induction k) (simp_all add: is_blank_def)
  have n: "dropWhile is_blank (pre @ ys) = dropWhile is_blank ys" for ys using assms by (auto simp: is_blank_def)
  have tw: "takeWhile is_digit (dec_nat m @ newline # xs) = dec_nat m" "dropWhile is_digit (dec_nat m @ newline # xs) = newline # xs" for m
    using dec_nat_digits [of m] by (auto simp: list_all_iff is_digit_def [of newline])
  obtain c cs where c: "dec_nat (nat \<bar>v\<bar>) = c # cs" "is_digit c" using hd_dec_nat by blast
  have d: "\<not> is_blank c" "c \<noteq> CHR ''+''" "c \<noteq> CHR ''-''" using c(2) by (auto simp: is_blank_def is_digit_def)
  show ?thesis
  proof (cases "v < 0")
    case True
    then have "dec_int v = CHR ''-'' # dec_nat (nat \<bar>v\<bar>)" by (simp add: dec_int_def)
    with True tw [of "nat \<bar>v\<bar>"] show ?thesis
      by (simp add: int_text_def k b n is_blank_def [of "CHR ''-''"] after_sign_def first_def)
  next
    case False
    then have "dec_int v = c # cs" using c by (simp add: dec_int_def)
    with False c d tw [of "nat \<bar>v\<bar>"] show ?thesis
      by (simp add: int_text_def k b n after_sign_def first_def Let_def)
  qed
qed

lemma read_table_result:
  assumes "reading w f" and "rest w f = pre @ table_text width vs" and "pre = [] \<or> pre = [newline]"
    and "\<forall>v\<in>set vs. \<bar>v\<bar> \<le> int_limit wide"
  shows "\<exists>w' f'. read_table (length vs) wide w f = Inr (vs, w', f')"
  using assms
proof (induction vs arbitrary: w f pre)
  case Nil
  then show ?case by simp
next
  case (Cons v vs)
  have r: "rest w f = pre @ int_field width v @ newline # table_text width vs" using Cons.prems(2) by (simp add: table_text_def)
  have "int (dec_value (dec_nat (nat \<bar>v\<bar>))) = \<bar>v\<bar>" by simp
  with any_text.read_int_at [where f = f and w = w and wide = wide] Cons.prems(1,4) any_text.at_ok
  obtain w1 f1 where 1: "pas_read_int_at wide w f = Inr (v, w1, f1)" "reading w1 f1" "rest w1 f1 = [newline] @ table_text width vs"
    unfolding r int_text_field [OF Cons.prems(3)] by (fastforce split: if_splits)
  from Cons.IH [OF 1(2,3)] Cons.prems(4) obtain w' f' where "read_table (length vs) wide w1 f1 = Inr (vs, w', f')" by auto
  with 1(1) show ?case by simp
qed

section \<open>Named files\<close>

lemma rewrite_named:
  assumes "pas_rewrite w f = Inr (w', f')" and "binding f = PAS_BIND_ARG" and "bound_name f = Some n" and "\<not> full w"
  shows "stream_writing w' f' \<and> contents_of w' (the_fp f') = [] \<and> may_read w' = may_read w \<and>
    names w' n = Some (ino (streams w' (the_fp f')))"
  using assms
  by (auto simp: pas_rewrite_def reopen_def pas_external_def close_if_open_def c_fopen_def new_file_def
      new_stream_def c_fclose_def contents_of_def Let_def rbind_eq_Inr stream_writing_def the_fp_def
      split: option.splits if_splits)

lemma reset_named:
  assumes "binding g = PAS_BIND_ARG" and "bound_name g = Some n" and "names w n = Some i" and "may_read w n"
    and "istext g" and "\<not> direct g" and "buf g = None"
  shows "\<exists>w' g'. pas_reset w g = Inr (w', g') \<and> reading w' g' \<and> rest w' g' = complete True (disk w i)"
proof -
  obtain w' p where "pas_reset w g = Inr (w', g\<lparr>has := False, lookahead := None, ateof := False, ch := blank,
       atbol := True, pushback := [], fp := Some p, mode := PAS_READING\<rparr>)"
      "pos (streams w' p) = 0" "contents_of w' p = disk w i"
    using assms
    by (cases "fp g") (simp_all add: pas_reset_def reopen_def pas_external_def close_if_open_def c_fopen_def
        new_stream_def c_fclose_def contents_of_def Let_def)
  then show ?thesis using assms(5,7)
    by (simp add: reading_of_def rest_of_def seen_def source_def ismem_def the_fp_def ahead_def)
qed

lemma bind_unbound:
  assumes "bound_name g = None"
  shows "\<exists>w' g'. pas_bind acc True w g name len = Inr (w', g') \<and> same_names w w' \<and> disk w' = disk w \<and>
    istext g' = istext g \<and> direct g' = direct g \<and> buf g' = buf g"
  using assms by (cases "fp g") (simp_all add: pas_bind_def pas_bound_exists_def close_bound_def Let_def)

lemma close_same_names: "pas_file_close w f = (w', f') \<Longrightarrow> same_names w w' \<and> disk w' = disk w"
  by (auto simp: pas_file_close_def Let_def split: if_splits option.splits)

lemma complete_table: "complete True (table_text width vs) = table_text width vs"
proof (cases vs rule: rev_cases)
  case Nil
  then show ?thesis by (simp add: table_text_def complete_def)
next
  case (snoc us v)
  then show ?thesis by (simp add: table_text_def complete_def)
qed

lemma bind_full: "pas_bind acc mem w f name len = Inr (w1, f1) \<Longrightarrow> full w1 = full w \<and> may_read w1 = may_read w"
  by (auto simp: pas_bind_def close_bound_def c_fclose_def split: if_splits option.splits)

text \<open>
  C3. Data survives a program: the integers that one file variable, bound to a name, writes a line
  each in any field width are, once it is closed, what another variable bound to the same name
  reads, all of them, in order and exactly.
\<close>

theorem table_persists:
  assumes "pas_bind acc mem w f name len = Inr (w1, f1)" and "len \<le> length name" and "pas_rewrite w1 f1 = Inr (w2, f2)"
    and "\<not> full w" and "may_read w (trim (take len name))" and "\<forall>v\<in>set vs. \<bar>v\<bar> \<le> int_limit wide"
    and "nat width + 20 \<le> C_INT_MAX" and "length vs * (nat width + 21) < SINK_MAX"
    and g: "bound_name g = None" "istext g" "\<not> direct g" "buf g = None"
    and "len' \<le> length name'" and "trim (take len' name') = trim (take len name)"
  shows "\<exists>w3 f3 w4 f4 w5 g5 w6 g6 w7 g7. write_table vs width w2 f2 = Inr (w3, f3) \<and> pas_file_close w3 f3 = (w4, f4) \<and>
    pas_bind acc' True w4 g name' len' = Inr (w5, g5) \<and> pas_reset w5 g5 = Inr (w6, g6) \<and>
    read_table (length vs) wide w6 g6 = Inr (vs, w7, g7)"
proof -
  let ?n = "trim (take len name)"
  note b = bind_result [OF assms(1), unfolded take_trim_len [OF assms(2)]]
  have r: "stream_writing w2 f2" "contents_of w2 (the_fp f2) = []" "may_read w2 = may_read w"
      "names w2 ?n = Some (ino (streams w2 (the_fp f2)))"
    using rewrite_named [OF assms(3) b(2,1)] bind_full [OF assms(1)] assms(4) by auto
  have "length (contents_of w2 (the_fp f2)) + length vs * (nat width + 21) < SINK_MAX" using r(2) assms(8) by simp
  from write_table_result [OF r(1) assms(6,7) this] r(2) obtain w3 f3 where
    3: "write_table vs width w2 f2 = Inr (w3, f3)" "fp f3 = fp f2" "same_names w2 w3"
       "contents_of w3 (the_fp f3) = table_text width vs" by auto
  obtain w4 f4 where 4: "pas_file_close w3 f3 = (w4, f4)" by (cases "pas_file_close w3 f3")
  obtain w5 g5 where 5: "pas_bind acc' True w4 g name' len' = Inr (w5, g5)" "same_names w4 w5" "disk w5 = disk w4"
      "istext g5" "\<not> direct g5" "buf g5 = None"
    using bind_unbound [OF g(1), of acc' w4 name' len'] g(2-4) by auto
  note b5 = bind_result [OF 5(1), unfolded take_trim_len [OF assms(13)] assms(14)]
  have same: "same_names w2 w5" "disk w5 = disk w3"
    using 3(3) close_same_names [OF 4] 5(2,3) by (auto intro: same_names_trans)
  have i: "names w5 ?n = Some (ino (streams w3 (the_fp f3)))" "may_read w5 ?n"
    using same(1) r(3,4) 3(2,3) assms(5) by (auto simp: same_names_def the_fp_def)
  from reset_named [OF b5(2,1) i 5(4-6)] obtain w6 g6 where
    6: "pas_reset w5 g5 = Inr (w6, g6)" "reading w6 g6" "rest w6 g6 = [] @ table_text width vs"
    using 3(4) complete_table same(2) by (auto simp: contents_of_def)
  from read_table_result [OF 6(2,3) _ assms(6)] obtain w7 g7 where
    "read_table (length vs) wide w6 g6 = Inr (vs, w7, g7)" by auto
  with 3(1) 4 5(1) 6(1) show ?thesis by blast
qed

theorem table_persists_witness:
  "\<exists>w1 f1 w2 f2 w3 f3 w4 f4 w5 g5 w6 g6 w7 g7.
     pas_bind (access_of world0) True world0 unbound_file ''data'' 4 = Inr (w1, f1) \<and> pas_rewrite w1 f1 = Inr (w2, f2) \<and>
     write_table [12, -7, 0] 5 w2 f2 = Inr (w3, f3) \<and> pas_file_close w3 f3 = (w4, f4) \<and>
     pas_bind (access_of w4) True w4 unbound_file ''data '' 5 = Inr (w5, g5) \<and> pas_reset w5 g5 = Inr (w6, g6) \<and>
     read_table 3 False w6 g6 = Inr ([12, -7, 0], w7, g7)"
proof -
  obtain w1 f1 where b: "pas_bind (access_of world0) True world0 unbound_file ''data'' 4 = Inr (w1, f1)"
    by (simp add: pas_bind_def pas_bound_exists_def unbound_file_def close_bound_def)
  obtain w2 f2 where r: "pas_rewrite w1 f1 = Inr (w2, f2)"
    using b by (auto simp: pas_bind_def pas_bound_exists_def unbound_file_def close_bound_def pas_rewrite_def reopen_def
        pas_external_def close_if_open_def c_fopen_def new_file_def new_stream_def world0_def)
  obtain w3 f3 w4 f4 where "write_table [12, -7, 0] 5 w2 f2 = Inr (w3, f3)" "pas_file_close w3 f3 = (w4, f4)"
    using table_persists [OF b _ r, where vs = "[12, -7, 0]" and width = 5 and wide = False and g = unbound_file
        and name' = "''data ''" and len' = 5 and acc' = "access_of world0"]
    by (auto simp: world0_def unbound_file_def int_limit_def trim_def)
  moreover from table_persists [OF b _ r, where vs = "[12, -7, 0]" and width = 5 and wide = False and g = unbound_file
        and name' = "''data ''" and len' = 5 and acc' = "access_of w4"] calculation
  obtain w5 g5 w6 g6 w7 g7 where "pas_bind (access_of w4) True w4 unbound_file ''data '' 5 = Inr (w5, g5)"
    "pas_reset w5 g5 = Inr (w6, g6)" "read_table 3 False w6 g6 = Inr ([12, -7, 0], w7, g7)"
    by (auto simp: world0_def unbound_file_def int_limit_def trim_def numeral_3_eq_3 simp del: write_table.simps)
  ultimately show ?thesis using b r by blast
qed

end
