(* ===== verification/Terminal.thy ===== *)
theory Terminal
  imports Prelude
begin

text \<open>
  The terminal of \<^verbatim>\<open>pasrt_posix.c\<close>: raw mode, entered with the settings of the terminal saved in the
  one slot of the runtime, and left by \<^verbatim>\<open>pasx_term_restore\<close> or by the handler registered with
  \<^verbatim>\<open>atexit\<close>.

  A terminal is a descriptor and its settings, a \<^verbatim>\<open>struct termios\<close>; which bit a flag is and where
  \<^verbatim>\<open>VMIN\<close> and \<^verbatim>\<open>VTIME\<close> stand is the system's, a parameter.  The answers of \<^verbatim>\<open>isatty\<close>, \<^verbatim>\<open>tcgetattr\<close>,
  \<^verbatim>\<open>tcsetattr\<close>, \<^verbatim>\<open>ioctl\<close> and \<^verbatim>\<open>atexit\<close> are parameters too: each call may be refused.
\<close>

section \<open>Settings\<close>

type_synonym tcflag = "32 word"

record termios =
  c_iflag :: tcflag
  c_oflag :: tcflag
  c_cflag :: tcflag
  c_lflag :: tcflag
  c_cc :: "nat \<Rightarrow> byte"

record tty_flags =
  ECHO :: tcflag
  ICANON :: tcflag
  ISIG :: tcflag
  IEXTEN :: tcflag
  BRKINT :: tcflag
  ICRNL :: tcflag
  INPCK :: tcflag
  ISTRIP :: tcflag
  IXON :: tcflag
  OPOST :: tcflag
  CS8 :: tcflag
  VMIN :: nat
  VTIME :: nat

definition raw_mode :: "tty_flags \<Rightarrow> termios \<Rightarrow> termios" where
  "raw_mode fl t = t\<lparr>
     c_lflag := c_lflag t AND NOT (ECHO fl OR ICANON fl OR ISIG fl OR IEXTEN fl),
     c_iflag := c_iflag t AND NOT (BRKINT fl OR ICRNL fl OR INPCK fl OR ISTRIP fl OR IXON fl),
     c_oflag := c_oflag t AND NOT (OPOST fl),
     c_cflag := c_cflag t OR CS8 fl,
     c_cc := (c_cc t)(VMIN fl := 1, VTIME fl := 0)\<rparr>"

section \<open>The slot\<close>

record term_slot =
  pasx_term_saved :: termios
  pasx_term_saved_fd :: int
  pasx_term_atexit_done :: bool

text \<open>The terminals of the system, and what one call finds when it asks it.\<close>

type_synonym ttys = "int \<Rightarrow> termios"

record tty_answers =
  is_tty :: "int \<Rightarrow> bool"
  get_ok :: bool
  set_ok :: bool
  atexit_ok :: bool

definition tcsetattr :: "tty_answers \<Rightarrow> int \<Rightarrow> termios \<Rightarrow> ttys \<Rightarrow> bool \<times> ttys" where
  "tcsetattr sys d t ts = (if set_ok sys then (True, ts(d := t)) else (False, ts))"

definition pasx_term_isatty :: "tty_answers \<Rightarrow> int \<Rightarrow> int" where
  "pasx_term_isatty sys d = (if 0 \<le> d \<and> is_tty sys d then 1 else 0)"

text \<open>\<^verbatim>\<open>ioctl\<close> answers the rows and the columns, both \<^verbatim>\<open>unsigned short\<close>, or refuses.\<close>

definition pasx_term_size ::
  "tty_answers \<Rightarrow> (int \<Rightarrow> (16 word \<times> 16 word) option) \<Rightarrow> int \<Rightarrow> int \<times> int \<times> int" where
  "pasx_term_size sys winsize d =
     (if d < 0 then (2, 0, 0)
      else if \<not> is_tty sys d then (1, 0, 0)
      else case winsize d of
             None \<Rightarrow> (2, 0, 0)
           | Some (r, c) \<Rightarrow> if r = 0 \<or> c = 0 then (1, 0, 0) else (0, uint r, uint c))"

definition pasx_term_at_exit :: "tty_answers \<Rightarrow> term_slot \<Rightarrow> ttys \<Rightarrow> term_slot \<times> ttys" where
  "pasx_term_at_exit sys s ts =
     (if 0 \<le> pasx_term_saved_fd s
      then (s\<lparr>pasx_term_saved_fd := -1\<rparr>, snd (tcsetattr sys (pasx_term_saved_fd s) (pasx_term_saved s) ts))
      else (s, ts))"

definition pasx_term_raw :: "tty_flags \<Rightarrow> tty_answers \<Rightarrow> int \<Rightarrow> term_slot \<Rightarrow> ttys \<Rightarrow> int \<times> term_slot \<times> ttys" where
  "pasx_term_raw fl sys d s ts =
     (if d < 0 then (2, s, ts)
      else if 0 \<le> pasx_term_saved_fd s then (3, s, ts)
      else if \<not> is_tty sys d then (1, s, ts)
      else if \<not> get_ok sys then (2, s, ts)
      else let s = s\<lparr>pasx_term_saved := ts d\<rparr> in
           case tcsetattr sys d (raw_mode fl (pasx_term_saved s)) ts of
             (ok, ts) \<Rightarrow>
               if \<not> ok then (2, s, ts)
               else let s = s\<lparr>pasx_term_saved_fd := d\<rparr> in
                    (0, if \<not> pasx_term_atexit_done s \<and> atexit_ok sys
                        then s\<lparr>pasx_term_atexit_done := True\<rparr> else s, ts))"

definition pasx_term_restore :: "tty_answers \<Rightarrow> term_slot \<Rightarrow> ttys \<Rightarrow> int \<times> term_slot \<times> ttys" where
  "pasx_term_restore sys s ts =
     (if pasx_term_saved_fd s < 0 then (1, s, ts)
      else case tcsetattr sys (pasx_term_saved_fd s) (pasx_term_saved s) ts of
             (ok, ts) \<Rightarrow> (if ok then 0 else 2, s\<lparr>pasx_term_saved_fd := -1\<rparr>, ts))"

definition pasx_term_raw_active :: "term_slot \<Rightarrow> int" where
  "pasx_term_raw_active s = (if 0 \<le> pasx_term_saved_fd s then 1 else 0)"

text \<open>The end of the process runs the handler if it was registered.\<close>

definition process_exit :: "tty_answers \<Rightarrow> term_slot \<Rightarrow> ttys \<Rightarrow> ttys" where
  "process_exit sys s ts = (if pasx_term_atexit_done s then snd (pasx_term_at_exit sys s ts) else ts)"

section \<open>Raw mode is always left\<close>

text \<open>
  The moves of a program: entering raw mode on any descriptor, leaving it, and asking, each under
  whatever answers the system gives; but a \<^verbatim>\<open>tcsetattr\<close> that puts settings back and the
  registration of the handler succeed.
\<close>

inductive term_step :: "tty_flags \<Rightarrow> term_slot \<times> ttys \<Rightarrow> term_slot \<times> ttys \<Rightarrow> bool" for fl where
  enter: "atexit_ok sys \<Longrightarrow> pasx_term_raw fl sys d s ts = (st, s', ts') \<Longrightarrow> term_step fl (s, ts) (s', ts')"
| leave: "set_ok sys \<Longrightarrow> pasx_term_restore sys s ts = (st, s', ts') \<Longrightarrow> term_step fl (s, ts) (s', ts')"

inductive_cases term_stepE: "term_step fl (s, ts) (s', ts')"

definition slot0 :: term_slot where
  "slot0 = \<lparr>pasx_term_saved = \<lparr>c_iflag = 0, c_oflag = 0, c_cflag = 0, c_lflag = 0, c_cc = (\<lambda>_. 0)\<rparr>,
     pasx_term_saved_fd = -1, pasx_term_atexit_done = False\<rparr>"

text \<open>
  What every state reached from the start has: with the slot empty every terminal has its original
  settings, with the slot taken it holds the original settings of its terminal, that terminal is
  raw, every other has its original settings and the handler is registered.
\<close>

definition term_inv :: "tty_flags \<Rightarrow> ttys \<Rightarrow> term_slot \<times> ttys \<Rightarrow> bool" where
  "term_inv fl orig = (\<lambda>(s, ts).
     if pasx_term_saved_fd s < 0 then ts = orig
     else pasx_term_saved s = orig (pasx_term_saved_fd s) \<and> pasx_term_atexit_done s \<and>
          ts = orig(pasx_term_saved_fd s := raw_mode fl (orig (pasx_term_saved_fd s))))"

lemma term_inv_step:
  assumes "term_step fl (s, ts) (s', ts')" and "term_inv fl orig (s, ts)"
  shows "term_inv fl orig (s', ts')"
  using assms
  by (elim term_stepE)
    (auto simp: pasx_term_raw_def pasx_term_restore_def tcsetattr_def term_inv_def Let_def split: if_splits)

lemma term_inv_reachable:
  "(term_step fl)\<^sup>*\<^sup>* c c' \<Longrightarrow> term_inv fl orig c \<Longrightarrow> term_inv fl orig c'"
  by (induction rule: rtranclp_induct) (auto intro: term_inv_step split: prod.splits)


definition flags0 :: tty_flags where
  "flags0 = \<lparr>ECHO = 8, ICANON = 2, ISIG = 1, IEXTEN = 0x8000, BRKINT = 2, ICRNL = 0x100, INPCK = 0x10,
     ISTRIP = 0x20, IXON = 0x400, OPOST = 1, CS8 = 0x30, VMIN = 6, VTIME = 5\<rparr>"

definition cooked :: termios where
  "cooked = \<lparr>c_iflag = 0x500, c_oflag = 5, c_cflag = 0xBF, c_lflag = 0x8A3B, c_cc = (\<lambda>_. 0)\<rparr>"

definition willing :: tty_answers where
  "willing = \<lparr>is_tty = (\<lambda>d. d < 3), get_ok = True, set_ok = True, atexit_ok = True\<rparr>"

text \<open>The settings of an ordinary Linux terminal, and what raw mode makes of them.\<close>

lemma raw_mode_cooked:
  "raw_mode flags0 cooked =
     \<lparr>c_iflag = 0, c_oflag = 4, c_cflag = 0xBF, c_lflag = 0x0A30, c_cc = (\<lambda>_. 0)(6 := 1, 5 := 0)\<rparr>"
  by (simp add: raw_mode_def flags0_def cooked_def)


text \<open>A second entry is refused and changes nothing.\<close>

lemma raw_refused_when_active:
  "pasx_term_raw_active s = 1 \<Longrightarrow> 0 \<le> d \<Longrightarrow> pasx_term_raw fl sys d s ts = (3, s, ts)"
  by (simp add: pasx_term_raw_def pasx_term_raw_active_def split: if_splits)

text \<open>
  A refused restore empties the slot: the settings are forgotten, the next entry saves the raw
  settings as though they were the original, and the restore after it leaves the terminal raw.
\<close>

lemma refused_restore_forgets:
  assumes "0 \<le> d" and "pasx_term_saved_fd s = d" and "ts d = raw_mode fl t" and "\<not> set_ok no"
    and "set_ok yes" and "get_ok yes" and "is_tty yes d"
    and "pasx_term_restore no s ts = (st1, s1, ts1)" and "pasx_term_raw fl yes d s1 ts1 = (st2, s2, ts2)"
    and "pasx_term_restore yes s2 ts2 = (st3, s3, ts3)"
  shows "st1 = 2 \<and> st2 = 0 \<and> st3 = 0 \<and> ts3 d = raw_mode fl t"
  using assms
  by (auto simp: pasx_term_restore_def pasx_term_raw_def tcsetattr_def Let_def split: if_splits)

end
