(* ===== verification/Sockets.thy ===== *)
theory Sockets
  imports Simulation
begin

text \<open>
  The sockets of \<^verbatim>\<open>pasrt_posix.c\<close>: opening one end of a connection, writing to it, and reading it
  by lines out of a buffer of \<open>PASX_SOCK_BUF\<close> bytes.

  The operating system is a parameter.  What a \<^verbatim>\<open>read\<close> finds is a list of arrivals: bytes, of which
  it takes as many as it was asked for at most, an interruption (\<^verbatim>\<open>EINTR\<close>) or a refusal; at the end
  of the list the far end has closed.  What a \<^verbatim>\<open>write\<close> accepts is a list of the same kind, and an
  address that \<^verbatim>\<open>getaddrinfo\<close> found comes with the answers of the calls made on it.  The
  specification of reading sees none of the buffer, of the chunks or of the interruptions: it is
  a function of the bytes the far end sent.
\<close>

section \<open>The socket\<close>

definition PASX_SOCK_BUF :: nat where "PASX_SOCK_BUF = 4096"

record pasx_socket =
  sk_fd :: int
  sk_head :: nat
  sk_tail :: nat
  sk_buf :: "char list"
  sk_line :: "char list"
  sk_service :: "char list"

abbreviation (input) nl :: char where "nl \<equiv> CHR 0x0A"
abbreviation (input) cr :: char where "cr \<equiv> CHR 0x0D"

text \<open>The string a \<^verbatim>\<open>char *\<close> names: the bytes up to the first zero.\<close>

definition c_string :: "char list \<Rightarrow> string" where
  "c_string xs = takeWhile (\<lambda>c. c \<noteq> CHR 0x00) xs"

section \<open>Opening\<close>

text \<open>
  What the system answers on one address: the descriptor of \<^verbatim>\<open>socket\<close> (negative on a refusal) and
  whether \<^verbatim>\<open>bind\<close>, \<^verbatim>\<open>listen\<close> and \<^verbatim>\<open>connect\<close> succeed.  The descriptors the process holds open are a
  list, which \<^verbatim>\<open>socket\<close> and \<^verbatim>\<open>accept\<close> lengthen and \<^verbatim>\<open>close\<close> shortens.
\<close>

record address =
  ai_socket :: int
  ai_bind :: bool
  ai_listen :: bool
  ai_connect :: bool

type_synonym fds = "int list"

definition c_close :: "int \<Rightarrow> fds \<Rightarrow> fds" where
  "c_close d live = remove1 d live"

text \<open>\<^verbatim>\<open>malloc\<close> answers storage whose contents are whatever was there, or nothing.\<close>

definition pasx_socket_new :: "pasx_socket option \<Rightarrow> int \<Rightarrow> fds \<Rightarrow> pasx_socket option \<times> fds" where
  "pasx_socket_new storage d live =
     (case storage of
        None \<Rightarrow> (None, c_close d live)
      | Some s \<Rightarrow> (Some (s\<lparr>sk_fd := d, sk_head := 0, sk_tail := 0\<rparr>), live))"

definition pasx_socket_close :: "pasx_socket option \<Rightarrow> fds \<Rightarrow> int \<times> fds" where
  "pasx_socket_close p live =
     (case p of None \<Rightarrow> (0, live) | Some s \<Rightarrow> (0, c_close (sk_fd s) live))"

fun open_loop :: "bool \<Rightarrow> address list \<Rightarrow> fds \<Rightarrow> int \<times> fds" where
  "open_loop passive [] live = (-1, live)"
| "open_loop passive (a # as) live =
     (if ai_socket a < 0 then open_loop passive as live
      else if (if passive then ai_bind a \<and> ai_listen a else ai_connect a)
      then (ai_socket a, ai_socket a # live)
      else open_loop passive as (c_close (ai_socket a) (ai_socket a # live)))"

text \<open>The last descriptor of the loop is \<open>-1\<close> when \<^verbatim>\<open>socket\<close> refused it or it was closed again.\<close>

record net_env =
  resolve :: "string \<Rightarrow> string \<Rightarrow> bool \<Rightarrow> address list option"
  sock_store :: "pasx_socket option"

definition pasx_socket_open ::
  "net_env \<Rightarrow> string option \<Rightarrow> string option \<Rightarrow> bool \<Rightarrow> fds \<Rightarrow> int \<times> pasx_socket option \<times> fds" where
  "pasx_socket_open env host srv passive live =
     (case (host, srv) of
        (Some h, Some v) \<Rightarrow>
          (case resolve env h v passive of
             None \<Rightarrow> (1, None, live)
           | Some as \<Rightarrow>
               (case open_loop passive as live of
                  (d, live') \<Rightarrow>
                    if d < 0 then (2, None, live')
                    else (0, pasx_socket_new (sock_store env) d live')))
      | _ \<Rightarrow> (2, None, live))"

definition pasx_socket_connect ::
  "net_env \<Rightarrow> string option \<Rightarrow> string option \<Rightarrow> fds \<Rightarrow> int \<times> pasx_socket option \<times> fds" where
  "pasx_socket_connect env host srv live = pasx_socket_open env host srv False live"

definition pasx_socket_listen ::
  "net_env \<Rightarrow> string option \<Rightarrow> string option \<Rightarrow> fds \<Rightarrow> int \<times> pasx_socket option \<times> fds" where
  "pasx_socket_listen env host srv live = pasx_socket_open env host srv True live"

text \<open>The answer of the system call \<^verbatim>\<open>accept\<close> is a descriptor or a negative number.\<close>

definition pasx_socket_accept ::
  "net_env \<Rightarrow> pasx_socket option \<Rightarrow> int \<Rightarrow> fds \<Rightarrow> int \<times> pasx_socket option \<times> fds" where
  "pasx_socket_accept env p accepted live =
     (case p of
        None \<Rightarrow> (2, None, live)
      | Some s \<Rightarrow>
          if accepted < 0 then (2, None, live)
          else (0, pasx_socket_new (sock_store env) accepted (accepted # live)))"

text \<open>
  \<^verbatim>\<open>getsockname\<close> and \<^verbatim>\<open>getnameinfo\<close> together answer the numeric service, or refuse; a string that does
  not fit the array of 64 bytes with its zero is a refusal of \<^verbatim>\<open>getnameinfo\<close>.
\<close>

definition pasx_socket_service ::
  "(int \<Rightarrow> string option) \<Rightarrow> pasx_socket option \<Rightarrow> int \<Rightarrow> int \<times> string option \<times> pasx_socket option" where
  "pasx_socket_service name_of p cap =
     (case p of
        None \<Rightarrow> (2, None, None)
      | Some s \<Rightarrow>
          if cap < 0 then (2, None, p)
          else (case name_of (sk_fd s) of
                  None \<Rightarrow> (2, None, p)
                | Some v \<Rightarrow>
                    let s' = s\<lparr>sk_service := v @ CHR 0x00 # drop (Suc (length v)) (sk_service s)\<rparr> in
                    if int (length (c_string (sk_service s'))) > cap then (3, None, Some s')
                    else (0, Some (c_string (sk_service s')), Some s')))"

section \<open>Writing\<close>

text \<open>What a \<^verbatim>\<open>write\<close> does: takes some bytes (at most those offered), is interrupted, or refuses.\<close>

datatype written = Took nat | WriteInterrupted | WriteRefused

fun write_loop :: "string \<Rightarrow> written list \<Rightarrow> string \<Rightarrow> (int \<times> string) res" where
  "write_loop data [] sent = (if data = [] then Inr (0, sent) else Inl Diverges)"
| "write_loop data (w # ws) sent =
     (if data = [] then Inr (0, sent)
      else case w of
             WriteInterrupted \<Rightarrow> write_loop data ws sent
           | WriteRefused \<Rightarrow> Inr (2, sent)
           | Took k \<Rightarrow>
               let n = min k (length data) in
               if n = 0 then Inr (2, sent) else write_loop (drop n data) ws (sent @ take n data))"

definition pasx_socket_write ::
  "pasx_socket option \<Rightarrow> char list option \<Rightarrow> written list \<Rightarrow> (int \<times> string) res" where
  "pasx_socket_write p data ws =
     (case (p, data) of
        (Some s, Some d) \<Rightarrow> write_loop (c_string d) ws []
      | _ \<Rightarrow> Inr (2, []))"

section \<open>Reading by lines\<close>

datatype arrival = Data "char list" | ReadInterrupted | ReadRefused

datatype read_answer = Got "char list" | Interrupted | Refused

text \<open>One \<^verbatim>\<open>read\<close> of at most \<open>n\<close> bytes.  An empty chunk is no arrival.\<close>

fun c_read :: "nat \<Rightarrow> arrival list \<Rightarrow> read_answer \<times> arrival list" where
  "c_read n [] = (Got [], [])"
| "c_read n (ReadInterrupted # es) = (Interrupted, es)"
| "c_read n (ReadRefused # es) = (Refused, es)"
| "c_read n (Data [] # es) = c_read n es"
| "c_read n (Data (c # cs) # es) = (Got (take n (c # cs)), Data (drop n (c # cs)) # es)"

text \<open>The inner \<^verbatim>\<open>for\<close> of the reader: the first newline in what is held.\<close>

function nl_from :: "char list \<Rightarrow> nat \<Rightarrow> nat \<Rightarrow> nat option" where
  "nl_from b i t = (if i < t then if b ! i = nl then Some i else nl_from b (Suc i) t else None)"
  by pat_completeness auto
termination by (relation "measure (\<lambda>(b, i, t). t - i)") auto

declare nl_from.simps [simp del]

text \<open>\<^verbatim>\<open>memcpy\<close> of \<open>len\<close> bytes at \<open>sk_head\<close> into the line, and its terminating zero.\<close>

definition take_line :: "pasx_socket \<Rightarrow> nat \<Rightarrow> pasx_socket res" where
  "take_line s len =
     (if len < length (sk_line s) \<and> sk_head s + len \<le> length (sk_buf s)
      then Inr (s\<lparr>sk_line := take len (drop (sk_head s) (sk_buf s)) @ CHR 0x00 # drop (Suc len) (sk_line s)\<rparr>)
      else Inl Undefined)"

definition make_room :: "pasx_socket \<Rightarrow> pasx_socket" where
  "make_room s =
     (if sk_head s > 0
      then let held = take (sk_tail s - sk_head s) (drop (sk_head s) (sk_buf s)) in
           s\<lparr>sk_buf := held @ drop (length held) (sk_buf s), sk_tail := sk_tail s - sk_head s, sk_head := 0\<rparr>
      else s)"

text \<open>\<^verbatim>\<open>read\<close> has put its bytes behind the tail.\<close>

definition store_bytes :: "char list \<Rightarrow> pasx_socket \<Rightarrow> pasx_socket" where
  "store_bytes bs s =
     s\<lparr>sk_buf := take (sk_tail s) (sk_buf s) @ bs @ drop (sk_tail s + length bs) (sk_buf s),
       sk_tail := sk_tail s + length bs\<rparr>"

type_synonym line_answer = "int \<times> string option"

text \<open>A newline at \<open>i\<close>: the line before it, without a carriage return.\<close>

definition full_line :: "int \<Rightarrow> pasx_socket \<Rightarrow> nat \<Rightarrow> (line_answer \<times> pasx_socket) res" where
  "full_line cap s i =
     (let len = i - sk_head s;
          len = (if len > 0 \<and> sk_buf s ! (i - 1) = cr then len - 1 else len) in
      if int len > cap then Inr ((3, None), s\<lparr>sk_head := i + 1\<rparr>)
      else rbind (take_line s len)
             (\<lambda>s. Inr ((0, Some (c_string (sk_line s))), s\<lparr>sk_head := i + 1\<rparr>)))"

text \<open>The far end has closed: what is held is the last line.\<close>

definition last_line :: "int \<Rightarrow> pasx_socket \<Rightarrow> (line_answer \<times> pasx_socket) res" where
  "last_line cap s =
     (let len = sk_tail s - sk_head s in
      if len = 0 then Inr ((1, None), s)
      else if int len > cap then Inr ((3, None), s\<lparr>sk_head := sk_tail s\<rparr>)
      else rbind (take_line s len)
             (\<lambda>s. Inr ((0, Some (c_string (sk_line s))), s\<lparr>sk_head := sk_tail s\<rparr>)))"

fun arrival_size :: "arrival list \<Rightarrow> nat" where
  "arrival_size [] = 0"
| "arrival_size (Data cs # es) = length cs + arrival_size es"
| "arrival_size (_ # es) = Suc (arrival_size es)"

lemma c_read_interrupted: "c_read n es = (Interrupted, es') \<Longrightarrow> arrival_size es' < arrival_size es"
  by (induction n es rule: c_read.induct) auto

lemma c_read_got: "c_read n es = (Got bs, es') \<Longrightarrow> bs \<noteq> [] \<Longrightarrow> arrival_size es' < arrival_size es"
  by (induction n es rule: c_read.induct) (auto simp: Suc_diff_le split: if_splits)

function readline_loop ::
  "int \<Rightarrow> pasx_socket \<Rightarrow> arrival list \<Rightarrow> (line_answer \<times> pasx_socket \<times> arrival list) res" where
  "readline_loop cap s es =
     (case nl_from (sk_buf s) (sk_head s) (sk_tail s) of
        Some i \<Rightarrow> rbind (full_line cap s i) (\<lambda>(a, s). Inr (a, s, es))
      | None \<Rightarrow>
          let s = make_room s in
          if sk_tail s = PASX_SOCK_BUF then Inr ((3, None), s\<lparr>sk_tail := 0\<rparr>, es)
          else (case c_read (PASX_SOCK_BUF - sk_tail s) es of
                  (Interrupted, es') \<Rightarrow> readline_loop cap s es'
                | (Refused, es') \<Rightarrow> Inr ((2, None), s, es')
                | (Got bs, es') \<Rightarrow>
                    if bs = [] then rbind (last_line cap s) (\<lambda>(a, s). Inr (a, s, es'))
                    else readline_loop cap (store_bytes bs s) es'))"
  by pat_completeness auto
termination
  by (relation "measure (\<lambda>(cap, s, es). arrival_size es)")
    (auto dest: c_read_interrupted [OF sym] c_read_got [OF sym])

declare readline_loop.simps [simp del]

definition pasx_socket_readline ::
  "pasx_socket option \<Rightarrow> int \<Rightarrow> arrival list \<Rightarrow> (line_answer \<times> pasx_socket option \<times> arrival list) res" where
  "pasx_socket_readline p cap es =
     (case p of
        None \<Rightarrow> Inr ((2, None), None, es)
      | Some s \<Rightarrow>
          if cap < 0 then Inr ((2, None), p, es)
          else rbind (readline_loop cap s es) (\<lambda>(a, s, es). Inr (a, Some s, es)))"

section \<open>Readiness\<close>

definition pasx_socket_buffered :: "pasx_socket \<Rightarrow> bool" where
  "pasx_socket_buffered s \<longleftrightarrow>
     (nl_from (sk_buf s) (sk_head s) (sk_tail s) \<noteq> None \<or> (sk_head s = 0 \<and> sk_tail s = PASX_SOCK_BUF))"

definition pasx_socket_pending :: "pasx_socket option \<Rightarrow> bool" where
  "pasx_socket_pending p \<longleftrightarrow> (case p of None \<Rightarrow> False | Some s \<Rightarrow> pasx_socket_buffered s)"

definition pasx_socket_fd :: "pasx_socket option \<Rightarrow> int" where
  "pasx_socket_fd p = (case p of None \<Rightarrow> -1 | Some s \<Rightarrow> sk_fd s)"

text \<open>What \<^verbatim>\<open>poll\<close> does: is interrupted, refuses, or answers the returned events of every entry.\<close>

datatype polled = PollInterrupted | PollRefused | Events "nat list"

fun poll_loop :: "polled list \<Rightarrow> nat list option res" where
  "poll_loop [] = Inl Diverges"
| "poll_loop (PollInterrupted # ps) = poll_loop ps"
| "poll_loop (PollRefused # ps) = Inr None"
| "poll_loop (Events evs # ps) = Inr (Some evs)"

definition pasx_socket_poll ::
  "bool \<Rightarrow> int list option \<Rightarrow> int list option \<Rightarrow> polled list \<Rightarrow> (int \<times> int list option) res" where
  "pasx_socket_poll room p got ps =
     (case (p, got) of
        (Some ds, Some flags) \<Rightarrow>
          if length flags \<noteq> length ds then Inr (-1, got)
          else let flags = replicate (length flags) 0 in
               if ds = [] then Inr (0, Some flags)
               else if \<not> room then Inr (-1, Some flags)
               else rbind (poll_loop ps)
                      (\<lambda>r. case r of
                             None \<Rightarrow> Inr (-1, Some flags)
                           | Some evs \<Rightarrow>
                               let ready = map (\<lambda>(d, e). d \<ge> 0 \<and> e \<noteq> 0) (zip ds evs) in
                               Inr (int (length (filter id ready)), Some (map of_bool ready)))
      | _ \<Rightarrow> Inr (-1, got))"

section \<open>The specification of reading\<close>

text \<open>What the far end sends, without chunks and interruptions: bytes, and the refusals of the system.\<close>

datatype item = Byte char | Refusal

fun items :: "arrival list \<Rightarrow> item list" where
  "items [] = []"
| "items (Data cs # es) = map Byte cs @ items es"
| "items (ReadInterrupted # es) = items es"
| "items (ReadRefused # es) = Refusal # items es"

fun plain :: "item \<Rightarrow> bool" where
  "plain (Byte c) \<longleftrightarrow> c \<noteq> nl"
| "plain Refusal \<longleftrightarrow> False"

fun byte_in :: "item \<Rightarrow> char" where
  "byte_in (Byte c) = c"
| "byte_in Refusal = CHR 0x00"

definition strip_cr :: "string \<Rightarrow> string" where
  "strip_cr l = (if l \<noteq> [] \<and> last l = cr then butlast l else l)"

definition line_fits :: "int \<Rightarrow> string \<Rightarrow> line_answer" where
  "line_fits cap l = (if int (length l) > cap then (3, None) else (0, Some (c_string l)))"

definition spec_line :: "int \<Rightarrow> item list \<Rightarrow> line_answer \<times> item list" where
  "spec_line cap its =
     (let l = takeWhile plain its in
      if PASX_SOCK_BUF \<le> length l then ((3, None), drop PASX_SOCK_BUF its)
      else (case drop (length l) its of
              [] \<Rightarrow> (if l = [] then (1, None) else line_fits cap (map byte_in l), [])
            | Byte _ # r \<Rightarrow> (line_fits cap (strip_cr (map byte_in l)), r)
            | Refusal # r \<Rightarrow> ((2, None), l @ r)))"

text \<open>What the socket holds, and the whole of what is still to be read.\<close>

definition held :: "pasx_socket \<Rightarrow> char list" where
  "held s = take (sk_tail s - sk_head s) (drop (sk_head s) (sk_buf s))"

definition unread :: "pasx_socket \<Rightarrow> arrival list \<Rightarrow> item list" where
  "unread s es = map Byte (held s) @ items es"

definition sock_ok :: "pasx_socket \<Rightarrow> bool" where
  "sock_ok s \<longleftrightarrow> length (sk_buf s) = PASX_SOCK_BUF \<and> length (sk_line s) = PASX_SOCK_BUF + 1 \<and>
     length (sk_service s) = 64 \<and> sk_head s \<le> sk_tail s \<and> sk_tail s \<le> PASX_SOCK_BUF"

section \<open>One call reads one line\<close>

lemma plain_prefix [simp]: "nl \<notin> set xs \<Longrightarrow> takeWhile plain (map Byte xs @ ys) = map Byte xs @ takeWhile plain ys"
  by (induction xs) auto

lemma plain_all [simp]: "nl \<notin> set xs \<Longrightarrow> takeWhile plain (map Byte xs) = map Byte xs"
  using plain_prefix [of xs "[]"] by simp

lemma byte_in_Byte [simp]: "map (byte_in \<circ> Byte) xs = xs" "map byte_in (map Byte xs) = xs"
  by (induction xs) auto

lemma takeWhile_shorter: "x \<in> set xs \<Longrightarrow> \<not> P x \<Longrightarrow> length (takeWhile P xs) < length xs"
  by (induction xs) auto

lemma length_held: "sock_ok s \<Longrightarrow> length (held s) = sk_tail s - sk_head s"
  by (auto simp: sock_ok_def held_def min_def)

lemma c_string_nul [simp]: "c_string (xs @ CHR 0x00 # ys) = c_string xs"
  by (induction xs) (auto simp: c_string_def)

lemma nl_from_held:
  assumes "i \<le> t" and "t \<le> length b"
  shows "nl_from b i t =
    (let h = take (t - i) (drop i b) in
     if nl \<in> set h then Some (i + length (takeWhile (\<lambda>c. c \<noteq> nl) h)) else None)"
  using assms
proof (induction b i t rule: nl_from.induct)
  case (1 b i t)
  show ?case
  proof (cases "i < t")
    case False
    then show ?thesis using 1 by (simp add: nl_from.simps)
  next
    case True
    then have h: "take (t - i) (drop i b) = b ! i # take (t - Suc i) (drop (Suc i) b)"
      using 1 by (metis Cons_nth_drop_Suc Suc_diff_Suc less_le_trans take_Suc_Cons)
    show ?thesis
    proof (cases "b ! i = nl")
      case nl: True
      then show ?thesis using True h by (simp add: nl_from.simps [of b i])
    next
      case nonl: False
      have "nl_from b i t = nl_from b (Suc i) t" using True nonl by (simp add: nl_from.simps [of b i])
      also have "\<dots> = (let h = take (t - Suc i) (drop (Suc i) b) in
          if nl \<in> set h then Some (Suc i + length (takeWhile (\<lambda>c. c \<noteq> nl) h)) else None)"
        using 1 True nonl by simp
      finally show ?thesis using nonl by (auto simp: h Let_def)
    qed
  qed
qed

lemma nl_from_sock:
  "sock_ok s \<Longrightarrow> nl_from (sk_buf s) (sk_head s) (sk_tail s) =
     (if nl \<in> set (held s) then Some (sk_head s + length (takeWhile (\<lambda>c. c \<noteq> nl) (held s))) else None)"
  by (simp add: nl_from_held sock_ok_def held_def Let_def)

lemma make_room_ok:
  assumes "sock_ok s"
  shows "sock_ok (make_room s)" "held (make_room s) = held s" "sk_head (make_room s) = 0"
    "sk_tail (make_room s) = length (held s)"
  using assms by (auto simp: make_room_def sock_ok_def held_def Let_def)

lemma store_bytes_ok:
  assumes "sock_ok s" and "sk_head s = 0" and "sk_tail s + length bs \<le> PASX_SOCK_BUF"
  shows "sock_ok (store_bytes bs s)" "held (store_bytes bs s) = held s @ bs"
  using assms by (auto simp: store_bytes_def sock_ok_def held_def)

lemma take_line_ok:
  assumes "sock_ok s" and "sk_head s + len \<le> sk_tail s"
  shows "\<exists>s'. take_line s len = Inr s' \<and> sock_ok s' \<and> held s' = held s \<and>
           sk_head s' = sk_head s \<and> sk_tail s' = sk_tail s \<and> sk_buf s' = sk_buf s \<and>
           c_string (sk_line s') = c_string (take len (held s))"
proof -
  have "len < length (sk_line s)" "sk_head s + len \<le> length (sk_buf s)"
    using assms by (auto simp: sock_ok_def)
  moreover have "min len (sk_tail s - sk_head s) = len" using assms(2) by simp
  moreover have "length (take len (drop (sk_head s) (sk_buf s))) = len"
    using calculation by simp
  ultimately show ?thesis
    using assms by (simp add: take_line_def sock_ok_def held_def) linarith
qed

lemma c_read_cases:
  assumes "c_read n es = (r, es')" and "0 < n"
  shows "case r of
           Interrupted \<Rightarrow> items es = items es'
         | Refused \<Rightarrow> items es = Refusal # items es'
         | Got bs \<Rightarrow> length bs \<le> n \<and> items es = map Byte bs @ items es' \<and> (bs = [] \<longrightarrow> items es = [] \<and> es' = [])"
  using assms
  by (induction n es rule: c_read.induct)
    (auto simp flip: map_append split: read_answer.splits)

text \<open>
  The three ways a call ends inside the loop, against the specification: the held bytes have a
  newline, the buffer is full, the far end has closed.
\<close>

lemma full_line_spec:
  assumes ok: "sock_ok s" and "nl \<in> set (held s)"
  defines "l \<equiv> takeWhile (\<lambda>c. c \<noteq> nl) (held s)"
  shows "\<exists>a s'. full_line cap s (sk_head s + length l) = Inr (a, s') \<and> sock_ok s' \<and>
           (a, unread s' es) = spec_line cap (unread s es)"
proof -
  have lt: "length l < length (held s)"
    using assms(2) by (simp add: l_def takeWhile_shorter)
  then have lt': "sk_head s + length l < sk_tail s" using ok by (simp add: length_held)
  have nth: "held s ! length l = nl" using lt unfolding l_def
    using nth_length_takeWhile by blast
  have split: "held s = l @ nl # drop (Suc (length l)) (held s)"
    using lt nth l_def by (metis id_take_nth_drop takeWhile_eq_take)
  have tk: "take (length l) (held s) = l" by (simp add: l_def flip: takeWhile_eq_take)
  have lst: "l \<noteq> [] \<Longrightarrow> sk_buf s ! (sk_head s + length l - 1) = last l"
  proof -
    assume "l \<noteq> []"
    then have "last l = held s ! (length l - 1)"
      using split by (metis diff_less last_conv_nth length_greater_0_conv nth_append zero_less_one)
    also have "\<dots> = sk_buf s ! (sk_head s + (length l - 1))"
      using lt ok \<open>l \<noteq> []\<close> by (auto simp: held_def sock_ok_def nth_take)
    finally show ?thesis using \<open>l \<noteq> []\<close> by (simp add: Suc_leI)
  qed
  define m where "m = strip_cr l"
  have m: "m = take (length m) (held s)" "length m \<le> length l"
    using tk by (auto simp: m_def strip_cr_def butlast_conv_take) (metis diff_le_self min.absorb_iff1 take_take)
  have lenm: "(if length l > 0 \<and> sk_buf s ! (sk_head s + length l - 1) = cr then length l - 1 else length l) = length m"
    using lst by (auto simp: m_def strip_cr_def)
  obtain s1 where s1: "take_line s (length m) = Inr s1" "sock_ok s1" "held s1 = held s"
      "sk_head s1 = sk_head s" "sk_tail s1 = sk_tail s" "sk_buf s1 = sk_buf s" "c_string (sk_line s1) = c_string m"
    using take_line_ok [OF ok, of "length m"] m lt' by auto
  have adv: "sock_ok (t\<lparr>sk_head := sk_head s + length l + 1\<rparr>)"
      "held (t\<lparr>sk_head := sk_head s + length l + 1\<rparr>) = drop (Suc (length l)) (held s)"
    if "sock_ok t" "sk_head t = sk_head s" "sk_tail t = sk_tail s" "sk_buf t = sk_buf s" for t
    using that lt' by (auto simp: sock_ok_def held_def drop_take ac_simps)
  have un: "unread s es = map Byte l @ Byte nl # map Byte (drop (Suc (length l)) (held s)) @ items es"
    unfolding unread_def by (subst split) simp
  have "nl \<notin> set l" unfolding l_def by (auto dest: set_takeWhileD)
  have sl: "spec_line cap (unread s es) = (line_fits cap m, map Byte (drop (Suc (length l)) (held s)) @ items es)"
    using lt' ok \<open>nl \<notin> set l\<close> by (auto simp: spec_line_def un m_def Let_def sock_ok_def)
  have "full_line cap s (sk_head s + length l) =
      (if int (length m) > cap then Inr ((3, None), s\<lparr>sk_head := sk_head s + length l + 1\<rparr>)
       else rbind (take_line s (length m))
              (\<lambda>t. Inr ((0, Some (c_string (sk_line t))), t\<lparr>sk_head := sk_head s + length l + 1\<rparr>)))"
    unfolding full_line_def Let_def add_diff_cancel_left' lenm ..
  then show ?thesis
    using s1 adv [of s] adv [of s1] ok unfolding sl by (simp add: line_fits_def unread_def)
qed

lemma spec_unread_end:
  assumes ok: "sock_ok s" and "nl \<notin> set (held s)" and short: "length (held s) < PASX_SOCK_BUF"
  shows "spec_line cap (unread s []) =
      (if held s = [] then (1, None) else line_fits cap (held s), [])"
    and "spec_line cap (map Byte (held s) @ Refusal # its) = ((2, None), map Byte (held s) @ its)"
  using assms by (simp_all add: spec_line_def unread_def Let_def)

lemma spec_unread_full:
  assumes "sock_ok s" and "nl \<notin> set (held s)" and "length (held s) = PASX_SOCK_BUF"
  shows "spec_line cap (unread s es) = ((3, None), items es)"
  using assms by (simp add: spec_line_def unread_def)

lemma last_line_spec:
  assumes ok: "sock_ok s" and nonl: "nl \<notin> set (held s)" and short: "length (held s) < PASX_SOCK_BUF"
  shows "\<exists>a s'. last_line cap s = Inr (a, s') \<and> sock_ok s' \<and> (a, unread s' []) = spec_line cap (unread s [])"
proof -
  obtain s1 where s1: "take_line s (length (held s)) = Inr s1" "sock_ok s1" "held s1 = held s"
      "sk_head s1 = sk_head s" "sk_tail s1 = sk_tail s" "c_string (sk_line s1) = c_string (held s)"
    using take_line_ok [OF ok, of "length (held s)"] ok by (auto simp: length_held sock_ok_def)
  have adv: "sock_ok (t\<lparr>sk_head := k\<rparr>)" "held (t\<lparr>sk_head := k\<rparr>) = []" if "sock_ok t" "k = sk_tail t" for t k
    using that by (simp_all add: sock_ok_def held_def)
  show ?thesis
    using s1 ok spec_unread_end(1) [OF ok nonl short, of cap] adv [of s "sk_tail s"] adv [of s1 "sk_tail s"]
    by (auto simp: last_line_def Let_def line_fits_def unread_def simp flip: length_held)
qed

lemma readline_loop_spec:
  assumes "sock_ok s"
  shows "\<exists>a s' es'. readline_loop cap s es = Inr (a, s', es') \<and> sock_ok s' \<and>
           (a, unread s' es') = spec_line cap (unread s es)"
  using assms
proof (induction cap s es rule: readline_loop.induct)
  case (1 cap s es)
  show ?case
  proof (cases "nl \<in> set (held s)")
    case True
    with full_line_spec [OF 1(3) True, of cap es] 1(3) show ?thesis
      by (auto simp: readline_loop.simps [of cap s es] nl_from_sock)
  next
    case False
    define r where "r = make_room s"
    note room = make_room_ok [OF 1(3), folded r_def]
    have none: "nl_from (sk_buf s) (sk_head s) (sk_tail s) = None" using False 1(3) by (simp add: nl_from_sock)
    have un: "unread r es = unread s es" for es by (simp add: unread_def room)
    show ?thesis
    proof (cases "length (held s) = PASX_SOCK_BUF")
      case True
      moreover have "sock_ok (r\<lparr>sk_tail := 0\<rparr>)" "held (r\<lparr>sk_tail := 0\<rparr>) = []"
        using room by (auto simp: sock_ok_def held_def)
      ultimately show ?thesis
        using spec_unread_full [OF room(1), of cap es] False room
        by (simp add: readline_loop.simps [of cap s es] none Let_def un flip: r_def) (simp add: unread_def)
    next
      case notfull: False
      then have short: "length (held s) < PASX_SOCK_BUF"
        using 1(3) by (auto simp: length_held sock_ok_def)
      obtain q es' where q: "c_read (PASX_SOCK_BUF - sk_tail r) es = (q, es')" by (cases "c_read (PASX_SOCK_BUF - sk_tail r) es")
      note rd = c_read_cases [OF q]
      show ?thesis
      proof (cases q)
        case (Got bs)
        show ?thesis
        proof (cases "bs = []")
          case True
          with last_line_spec [OF room(1), of cap] rd q Got False short notfull show ?thesis
            by (auto simp: readline_loop.simps [of cap s es] none Let_def room unread_def simp flip: r_def)
        next
          case nonempty: False
          have st: "sock_ok (store_bytes bs r)" "held (store_bytes bs r) = held s @ bs"
            using store_bytes_ok [OF room(1) room(3), of bs] rd Got short by (auto simp: room)
          have "unread (store_bytes bs r) es' = unread s es"
            using rd Got short by (simp add: unread_def st room)
          with 1(1) [OF none r_def _ q [symmetric] Got nonempty] st notfull room(4) q Got nonempty show ?thesis
            by (simp add: readline_loop.simps [of cap s es] none Let_def flip: r_def)
        qed
      next
        case Interrupted
        have "unread r es' = unread s es" using rd Interrupted short by (simp add: unread_def room)
        with 1(2) [OF none r_def _ q [symmetric] Interrupted] room notfull q Interrupted show ?thesis
          by (simp add: readline_loop.simps [of cap s es] none Let_def flip: r_def)
      next
        case Refused
        have "unread s es = map Byte (held s) @ Refusal # items es'" using rd Refused short by (simp add: unread_def room)
        with spec_unread_end(2) [OF room(1)] room notfull q Refused False short show ?thesis
          by (auto simp: readline_loop.simps [of cap s es] none Let_def unread_def simp flip: r_def)
      qed
    qed
  qed
qed

section \<open>A socket is a stream of lines\<close>

text \<open>A program's reads: each with the capacity of the variable the line is for.\<close>

definition read_step ::
  "int \<Rightarrow> pasx_socket option \<times> arrival list \<Rightarrow> (line_answer \<times> pasx_socket option \<times> arrival list) res" where
  "read_step cap = (\<lambda>(p, es). pasx_socket_readline p cap es)"

definition sock_rel :: "pasx_socket option \<times> arrival list \<Rightarrow> item list \<Rightarrow> bool" where
  "sock_rel = (\<lambda>(p, es) its. case p of None \<Rightarrow> False | Some s \<Rightarrow> sock_ok s \<and> unread s es = its)"

interpretation socket_reader:
  simulation sock_rel "\<lambda>cap its. Some (spec_line cap its)" read_step "\<lambda>cap. 0 \<le> cap"
proof
  fix c its and cap :: int
  assume "sock_rel c its" and cap: "0 \<le> cap"
  then obtain s es where c: "c = (Some s, es)" "sock_ok s" "unread s es = its"
    by (cases c) (auto simp: sock_rel_def split: option.splits)
  from readline_loop_spec [OF c(2), of cap es] c cap
  show "simulates sock_rel (Some (spec_line cap its)) (read_step cap c)"
    by (auto simp: simulates_def read_step_def pasx_socket_readline_def sock_rel_def split: prod.splits)
qed

fun spec_lines :: "int list \<Rightarrow> item list \<Rightarrow> line_answer list \<times> item list" where
  "spec_lines [] its = ([], its)"
| "spec_lines (cap # caps) its =
     (case spec_line cap its of (a, its) \<Rightarrow> case spec_lines caps its of (as, its) \<Rightarrow> (a # as, its))"

lemma arun_spec_lines: "arun (\<lambda>cap its. Some (spec_line cap its)) caps its = Some (spec_lines caps its)"
  by (induction caps arbitrary: its) (auto split: prod.splits)

lemma socket_run:
  assumes "sock_ok s" and "list_all (\<lambda>cap. 0 \<le> cap) caps"
  shows "\<exists>c. crun read_step caps (Some s, es) = Inr (fst (spec_lines caps (unread s es)), c) \<and>
           sock_rel c (snd (spec_lines caps (unread s es)))"
proof -
  have "sock_rel (Some s, es) (unread s es)" using assms(1) by (simp add: sock_rel_def)
  from socket_reader.run_simulates [OF this assms(2)] show ?thesis
    by (auto simp: arun_spec_lines simulates_def split: prod.splits)
qed

text \<open>
  C2. The sequence of lines a program reads from a socket is a function of what the far end sent:
  however the bytes arrive in chunks, however often a read is interrupted and wherever the buffer
  stands, every call of \<^verbatim>\<open>pasx_socket_readline\<close> returns, stays inside its arrays, and answers the
  line the specification takes off the stream.
\<close>

theorem socket_reads_stream:
  assumes "sock_ok s" and "list_all (\<lambda>cap. 0 \<le> cap) caps"
  shows "\<exists>s' es'. crun read_step caps (Some s, es) = Inr (fst (spec_lines caps (unread s es)), Some s', es') \<and>
           sock_ok s' \<and> unread s' es' = snd (spec_lines caps (unread s es))"
  using socket_run [OF assms, of es] by (auto simp: sock_rel_def split: prod.splits option.splits)

definition sock0 :: pasx_socket where
  "sock0 = \<lparr>sk_fd = 3, sk_head = 0, sk_tail = 0, sk_buf = replicate 4096 (CHR 0x00),
     sk_line = replicate 4097 (CHR 0x00), sk_service = replicate 64 (CHR 0x00)\<rparr>"

lemma sock0_ok [simp]: "sock_ok sock0"
  by (simp add: sock0_def sock_ok_def PASX_SOCK_BUF_def)

lemma held_sock0 [simp]: "held sock0 = []"
  by (simp add: sock0_def held_def)

theorem socket_reads_stream_witness:
  "\<exists>s' es'. crun read_step [10, 1, 10]
     (Some sock0, [Data ''ab'', ReadInterrupted, Data [CHR ''c'', cr], Data [nl, CHR ''d'', CHR ''e'', nl, CHR ''f'']]) =
     Inr ([(0, Some ''abc''), (3, None), (0, Some ''f'')], Some s', es') \<and> sock_ok s'"
  using socket_reads_stream [of sock0 "[10, 1, 10]"
      "[Data ''ab'', ReadInterrupted, Data [CHR ''c'', cr], Data [nl, CHR ''d'', CHR ''e'', nl, CHR ''f'']]"]
  by (auto simp: unread_def spec_line_def PASX_SOCK_BUF_def line_fits_def strip_cr_def c_string_def)

text \<open>
  What \<^verbatim>\<open>pasx_socket_write\<close> has sent when it returns: everything when it answers 0, and a proper
  prefix when it answers 2.
\<close>

lemma write_loop_sent:
  "write_loop d ws sent = Inr (st, out) \<Longrightarrow>
     \<exists>k \<le> length d. out = sent @ take k d \<and> (st = 0 \<longleftrightarrow> k = length d) \<and> (st = 0 \<or> st = 2)"
proof (induction d ws sent rule: write_loop.induct)
  case (1 d sent)
  then show ?case by (auto split: if_splits)
next
  case (2 d w ws sent)
  show ?case
  proof (cases "\<exists>k. w = Took k \<and> d \<noteq> [] \<and> k \<noteq> 0")
    case True
    then obtain k where k: "w = Took k" "d \<noteq> []" "k \<noteq> 0" by blast
    define n where "n = min k (length d)"
    have n: "0 < n" "n \<le> length d" using k by (auto simp: n_def)
    have "write_loop (drop n d) ws (sent @ take n d) = Inr (st, out)"
      using 2(3) k n by (simp add: Let_def flip: n_def)
    with 2(1) [OF k(2,1) n_def] n obtain j where j: "j \<le> length (drop n d)"
        "out = (sent @ take n d) @ take j (drop n d)" "st = 0 \<longleftrightarrow> j = length (drop n d)" "st = 0 \<or> st = 2"
      by auto
    with n show ?thesis by (intro exI [of _ "n + j"]) (auto simp: take_add)
  next
    case False
    with 2 show ?thesis by (cases w) (auto split: if_splits)
  qed
qed

lemma write_exact:
  "pasx_socket_write (Some s) (Some d) ws = Inr (st, out) \<Longrightarrow>
     (st = 0 \<and> out = c_string d) \<or> (st = 2 \<and> (\<exists>k < length (c_string d). out = take k (c_string d)))"
  by (auto simp: pasx_socket_write_def le_less dest!: write_loop_sent)

text \<open>A line that survives the journey: it has no terminator of its own and fits.\<close>

definition sendable :: "int \<Rightarrow> string \<Rightarrow> bool" where
  "sendable cap l \<longleftrightarrow> nl \<notin> set l \<and> CHR 0x00 \<notin> set l \<and> (l \<noteq> [] \<longrightarrow> last l \<noteq> cr) \<and>
     length l < PASX_SOCK_BUF \<and> int (length l) \<le> cap"

definition lines_text :: "string list \<Rightarrow> string" where
  "lines_text ls = concat (map (\<lambda>l. l @ [nl]) ls)"

lemma c_string_id: "CHR 0x00 \<notin> set l \<Longrightarrow> c_string l = l"
  by (auto simp: c_string_def takeWhile_eq_all_conv)

lemma spec_line_sendable:
  "sendable cap l \<Longrightarrow> spec_line cap (map Byte l @ Byte nl # its) = ((0, Some l), its)"
  by (auto simp: sendable_def spec_line_def line_fits_def strip_cr_def c_string_id)

lemma spec_lines_sendable:
  "list_all (sendable cap) ls \<Longrightarrow>
     spec_lines (replicate (Suc (length ls)) cap) (map Byte (lines_text ls)) = (map (\<lambda>l. (0, Some l)) ls @ [(1, None)], [])"
proof (induction ls)
  case Nil
  then show ?case by (simp add: lines_text_def spec_line_def PASX_SOCK_BUF_def)
next
  case (Cons l ls)
  then have "spec_line cap (map Byte (lines_text (l # ls))) = ((0, Some l), map Byte (lines_text ls))"
    using spec_line_sendable [of cap l "map Byte (lines_text ls)"] by (simp add: lines_text_def)
  then show ?case using Cons by simp
qed

text \<open>
  What one end writes the other end reads: when the writes of a text of lines have succeeded
  and the bytes have arrived, in whatever pieces, successive reads answer those lines one by one
  and then the end of the connection.
\<close>

lemma socket_conversation:
  assumes "pasx_socket_write (Some w) (Some (lines_text ls @ CHR 0x00 # rest)) ws = Inr (0, sent)"
    and "items es = map Byte sent" and "sock_ok s" and "held s = []"
    and "list_all (sendable cap) ls" and "0 \<le> cap"
  shows "\<exists>s' es'. crun read_step (replicate (Suc (length ls)) cap) (Some s, es) =
           Inr (map (\<lambda>l. (0, Some l)) ls @ [(1, None)], Some s', es')"
proof -
  have "CHR 0x00 \<notin> set (lines_text ls)"
    using assms(5) by (auto simp: lines_text_def list_all_iff sendable_def)
  then have "sent = lines_text ls" using write_exact [OF assms(1)] by (simp add: c_string_id)
  then have "unread s es = map Byte (lines_text ls)" using assms by (simp add: unread_def)
  with socket_run [OF assms(3), of "replicate (Suc (length ls)) cap" es] assms(6) spec_lines_sendable [OF assms(5)]
  show ?thesis
    by (auto simp: sock_rel_def list_all_iff simp del: replicate.simps spec_lines.simps crun.simps
        split: option.splits prod.splits)
qed

lemma socket_conversation_witness:
  "\<exists>s' es'. crun read_step (replicate 3 80) (Some sock0, [Data ''h'', ReadInterrupted, Data (''i'' @ [nl]), Data [nl]]) =
     Inr ([(0, Some ''hi''), (0, Some ''''), (1, None)], Some s', es')"
  using socket_conversation [of sock0 "[''hi'', '''']" "[]" "[Took 1, WriteInterrupted, Took 9]" "''hi'' @ [nl, nl]"
      "[Data ''h'', ReadInterrupted, Data (''i'' @ [nl]), Data [nl]]" sock0 80]
  by (simp add: lines_text_def pasx_socket_write_def c_string_def sendable_def PASX_SOCK_BUF_def numeral_3_eq_3
      del: crun.simps)

text \<open>
  \<^verbatim>\<open>pasx_socket_pending\<close> is exact: it answers yes precisely when the next
  \<^verbatim>\<open>pasx_socket_readline\<close> will answer out of the buffer, without a \<^verbatim>\<open>read\<close> that could wait.
\<close>

lemma pending_exact:
  assumes "sock_ok s" and "0 \<le> cap"
  shows "pasx_socket_pending (Some s) \<longleftrightarrow>
     (\<forall>es. \<exists>a s'. pasx_socket_readline (Some s) cap es = Inr (a, Some s', es))"
proof
  assume p: "pasx_socket_pending (Some s)"
  show "\<forall>es. \<exists>a s'. pasx_socket_readline (Some s) cap es = Inr (a, Some s', es)"
  proof
    fix es
    show "\<exists>a s'. pasx_socket_readline (Some s) cap es = Inr (a, Some s', es)"
    proof (cases "nl \<in> set (held s)")
      case True
      with full_line_spec [OF assms(1) True, of cap es] assms show ?thesis
        by (auto simp: pasx_socket_readline_def readline_loop.simps [of cap s es] nl_from_sock)
    next
      case False
      then have none: "nl_from (sk_buf s) (sk_head s) (sk_tail s) = None" using assms(1) by (simp add: nl_from_sock)
      with p have "make_room s = s" "sk_tail s = PASX_SOCK_BUF"
        by (auto simp: pasx_socket_pending_def pasx_socket_buffered_def make_room_def)
      with none assms(2) show ?thesis
        by (simp add: pasx_socket_readline_def readline_loop.simps [of cap s es])
    qed
  qed
next
  assume r: "\<forall>es. \<exists>a s'. pasx_socket_readline (Some s) cap es = Inr (a, Some s', es)"
  show "pasx_socket_pending (Some s)"
  proof (rule ccontr)
    assume n: "\<not> pasx_socket_pending (Some s)"
    then have no: "nl_from (sk_buf s) (sk_head s) (sk_tail s) = None" "sk_head s = 0 \<Longrightarrow> sk_tail s \<noteq> PASX_SOCK_BUF"
      by (auto simp: pasx_socket_pending_def pasx_socket_buffered_def)
    then have "sk_tail (make_room s) \<noteq> PASX_SOCK_BUF"
      using assms(1) by (auto simp: make_room_def sock_ok_def)
    then have "pasx_socket_readline (Some s) cap [ReadRefused] = Inr ((2, None), Some (make_room s), [])"
      using no assms(2) by (simp add: pasx_socket_readline_def readline_loop.simps [of cap s] Let_def)
    with r show False by (metis Inr_inject list.distinct(1) prod.inject)
  qed
qed

lemma pending_exact_witness:
  "pasx_socket_pending (Some sock0) \<longleftrightarrow>
     (\<forall>es. \<exists>a s'. pasx_socket_readline (Some sock0) 5 es = Inr (a, Some s', es))"
  using pending_exact [of sock0 5] by simp

text \<open>
  A line longer than the buffer is refused with status 3 once, and what follows its first
  \<open>PASX_SOCK_BUF\<close> bytes is then answered as a line of its own.
\<close>

lemma long_line_continues:
  assumes "length l = PASX_SOCK_BUF" and "nl \<notin> set l" and "sendable cap m"
  shows "spec_lines [cap, cap] (map Byte (l @ m @ [nl])) = ([(3, None), (0, Some m)], [])"
proof -
  have "spec_line cap (map Byte (l @ m @ [nl])) = ((3, None), map Byte (m @ [nl]))"
    using assms by (simp add: spec_line_def)
  moreover have "spec_line cap (map Byte (m @ [nl])) = ((0, Some m), [])"
    using spec_line_sendable [OF assms(3), of "[]"] by simp
  ultimately show ?thesis by simp
qed

text \<open>Without storage for the socket the status is 0 all the same.\<close>

lemma open_status_without_socket:
  "pasx_socket_open \<lparr>resolve = (\<lambda>h v q. Some [\<lparr>ai_socket = 4, ai_bind = b, ai_listen = b, ai_connect = True\<rparr>]),
     sock_store = None\<rparr> (Some h) (Some v) False [] = (0, None, [])"
  by (simp add: pasx_socket_open_def pasx_socket_new_def c_close_def)

section \<open>Every descriptor has one owner\<close>

text \<open>The documented behaviour of \<^verbatim>\<open>socket\<close>: the descriptor is not one in use.\<close>

definition fresh_answers :: "address list \<Rightarrow> fds \<Rightarrow> bool" where
  "fresh_answers as live \<longleftrightarrow> list_all (\<lambda>a. ai_socket a \<notin> set live) as"

lemma open_loop_owns:
  "fresh_answers as live \<Longrightarrow>
     open_loop passive as live = (d, live') \<Longrightarrow> live' = (if d < 0 then live else d # live)"
  by (induction as arbitrary: live) (auto simp: fresh_answers_def c_close_def split: if_splits)

text \<open>
  Opening a connection holds on to exactly one descriptor or to none: whatever addresses were
  tried and whichever call refused, the descriptors open afterwards are those from before and,
  when a socket is answered, the one it owns, which \<^verbatim>\<open>pasx_socket_close\<close> gives back.
\<close>

lemma open_owns_descriptor:
  assumes "\<And>h v q as. resolve env h v q = Some as \<Longrightarrow> fresh_answers as live"
  shows "case pasx_socket_open env host srv passive live of
      (st, None, live') \<Rightarrow> live' = live
    | (st, Some s, live') \<Rightarrow> st = 0 \<and> 0 \<le> sk_fd s \<and> live' = sk_fd s # live \<and> held s = [] \<and>
        pasx_socket_close (Some s) live' = (0, live)"
proof -
  have loop: "live' = (if d < 0 then live else d # live)"
    if "resolve env h v passive = Some as" "open_loop passive as live = (d, live')" for h v as d live'
    using open_loop_owns assms that by blast
  show ?thesis
    by (auto simp: pasx_socket_open_def pasx_socket_new_def pasx_socket_close_def c_close_def held_def
        split: option.splits prod.splits dest!: loop)
qed

definition net0 :: net_env where
  "net0 = \<lparr>resolve = (\<lambda>h v q. Some
       [\<lparr>ai_socket = 4, ai_bind = True, ai_listen = True, ai_connect = False\<rparr>,
        \<lparr>ai_socket = 4, ai_bind = True, ai_listen = True, ai_connect = True\<rparr>]), sock_store = Some sock0\<rparr>"

lemma open_owns_descriptor_witness:
  "\<exists>s. pasx_socket_open net0 (Some ''localhost'') (Some ''80'') False [0, 1, 2] = (0, Some s, [4, 0, 1, 2]) \<and>
     pasx_socket_close (Some s) [4, 0, 1, 2] = (0, [0, 1, 2])"
  using open_owns_descriptor [of net0 "[0, 1, 2]" "Some ''localhost''" "Some ''80''" False]
  by (simp add: net0_def fresh_answers_def pasx_socket_open_def pasx_socket_new_def c_close_def)

end
