(* ===== verification/FileInfo.thy ===== *)
theory FileInfo
  imports Sockets
begin

text \<open>
  The routines of \<^verbatim>\<open>pasrt_file.c\<close>: what a path names, the next entry of a directory, and whether a
  descriptor has something to read.  \<^verbatim>\<open>stat\<close>, \<^verbatim>\<open>access\<close>, \<^verbatim>\<open>readdir\<close> and \<^verbatim>\<open>poll\<close> are the system's and
  appear as the answers they give.
\<close>

datatype file_type = S_ISREG | S_ISDIR | S_OTHER

record stat_answer =
  st_size :: int
  st_mtime :: int
  st_type :: file_type

text \<open>The status, and what is stored through the three pointers when it is 0.\<close>

definition pasx_file_info ::
  "(string \<Rightarrow> stat_answer option) \<Rightarrow> (string \<Rightarrow> bool) \<Rightarrow> string option \<Rightarrow> int \<times> (int \<times> int \<times> int) option" where
  "pasx_file_info stat f_ok path =
     (case path of
        None \<Rightarrow> (2, None)
      | Some p \<Rightarrow>
          (case stat p of
             None \<Rightarrow> (if f_ok p then 2 else 1, None)
           | Some st \<Rightarrow>
               (0, Some (st_size st, st_mtime st, case st_type st of S_ISREG \<Rightarrow> 1 | S_ISDIR \<Rightarrow> 2 | S_OTHER \<Rightarrow> 3))))"

text \<open>An open directory is what \<^verbatim>\<open>readdir\<close> will answer: entries, failures, and then its end.\<close>

datatype dir_event = Entry string | EntryRefused

definition pasx_dir_next ::
  "dir_event list option \<Rightarrow> int \<Rightarrow> (int \<times> string option) \<times> dir_event list option" where
  "pasx_dir_next d cap =
     (case d of
        None \<Rightarrow> ((2, None), None)
      | Some es \<Rightarrow>
          if cap < 0 then ((2, None), d)
          else (case es of
                  [] \<Rightarrow> ((1, None), d)
                | EntryRefused # es \<Rightarrow> ((2, None), Some es)
                | Entry name # es \<Rightarrow>
                    if int (length (c_string name)) > cap then ((3, None), Some es)
                    else ((0, Some (c_string name)), Some es)))"

definition pasx_fd_ready :: "int \<Rightarrow> polled list \<Rightarrow> int res" where
  "pasx_fd_ready fd ps =
     (if fd < 0 then Inr (-1)
      else rbind (poll_loop ps)
             (\<lambda>r. case r of
                    None \<Rightarrow> Inr (-1)
                  | Some evs \<Rightarrow> Inr (if evs \<noteq> [] \<and> hd evs \<noteq> 0 then 1 else 0)))"

section \<open>What they answer\<close>

text \<open>A program that asks for entries until it is told 1: what it is given, one answer per entry.\<close>

fun dir_read :: "nat \<Rightarrow> int \<Rightarrow> dir_event list option \<Rightarrow> (int \<times> string option) list" where
  "dir_read 0 cap d = []"
| "dir_read (Suc n) cap d =
     (case pasx_dir_next d cap of (a, d) \<Rightarrow> if fst a = 1 then [] else a # dir_read n cap d)"

fun entry_answer :: "int \<Rightarrow> dir_event \<Rightarrow> int \<times> string option" where
  "entry_answer cap (Entry name) =
     (if int (length (c_string name)) \<le> cap then (0, Some (c_string name)) else (3, None))"
| "entry_answer cap EntryRefused = (2, None)"

lemma dir_read_all: "0 \<le> cap \<Longrightarrow> length es < n \<Longrightarrow> dir_read n cap (Some es) = map (entry_answer cap) es"
proof (induction es arbitrary: n)
  case Nil
  then show ?case by (cases n) (simp_all add: pasx_dir_next_def)
next
  case (Cons e es)
  then obtain m where "n = Suc m" "length es < m" by (cases n) auto
  with Cons show ?case by (cases e) (simp_all add: pasx_dir_next_def)
qed

lemma fd_ready_answers:
  "pasx_fd_ready fd (replicate k PollInterrupted @ Events [e] # ps) = Inr (if fd < 0 then -1 else if e \<noteq> 0 then 1 else 0)"
proof -
  have "poll_loop (replicate k PollInterrupted @ Events [e] # ps) = Inr (Some [e])" by (induction k) auto
  then show ?thesis by (simp add: pasx_fd_ready_def)
qed

lemma file_info_status:
  "fst (pasx_file_info stat f_ok (Some p)) = (if stat p \<noteq> None then 0 else if f_ok p then 2 else 1)"
  by (simp add: pasx_file_info_def split: option.splits)

end
