(* ===== verification/Process.thy ===== *)
theory Process
  imports FileInfo
begin

text \<open>
  Argument vectors and the processes started from them (\<^verbatim>\<open>pasrt_posix.c\<close>).

  \<^item> The vector is an array of pointers that grows by doubling; its specification is a list of
    words.
  \<^item> A process is started with \<^verbatim>\<open>posix_spawnp\<close>, its output read through a pipe within a deadline,
    and waited for.  The system calls are parameters: the answers of \<^verbatim>\<open>pipe\<close>, of the file actions
    and of the spawn in a record, and one round of answers (clock, \<^verbatim>\<open>poll\<close>, \<^verbatim>\<open>read\<close> or \<^verbatim>\<open>waitpid\<close>) for
    every pass of a loop.  A loop whose rounds run out is still waiting: \<open>Diverges\<close>.
  \<^item> The signals sent to the child are the list of process identifiers given to \<^verbatim>\<open>kill\<close>.
\<close>

section \<open>The argument vector\<close>

definition PASX_ARGV_MAX :: nat where "PASX_ARGV_MAX = 4096"

text \<open>A slot is a pointer: the word it points to, or \<^verbatim>\<open>NULL\<close>.\<close>

record pasx_argv =
  av_v :: "string option list"
  av_n :: nat
  av_cap :: nat
  av_deadline_ms :: int

text \<open>What the allocator does: has room to grow the array, has room for a copy; new slots hold \<open>junk\<close>.\<close>

record argv_mem =
  grow_ok :: bool
  copy_ok :: bool
  junk :: "string option"

definition set_slot :: "nat \<Rightarrow> string option \<Rightarrow> pasx_argv \<Rightarrow> pasx_argv res" where
  "set_slot i x a = (if i < length (av_v a) then Inr (a\<lparr>av_v := (av_v a)[i := x]\<rparr>) else Inl Undefined)"

definition pasx_argv_new :: "argv_mem \<Rightarrow> pasx_argv option" where
  "pasx_argv_new m =
     (if copy_ok m \<and> grow_ok m
      then Some \<lparr>av_v = (replicate 8 (junk m))[0 := None], av_n = 0, av_cap = 8, av_deadline_ms = 0\<rparr>
      else None)"

definition pasx_argv_push :: "argv_mem \<Rightarrow> pasx_argv option \<Rightarrow> char list option \<Rightarrow> (int \<times> pasx_argv option) res" where
  "pasx_argv_push m p s =
     (case (p, s) of
        (Some a, Some s) \<Rightarrow>
          if av_n a \<ge> PASX_ARGV_MAX then Inr (1, p)
          else if av_n a + 2 > av_cap a \<and> \<not> grow_ok m then Inr (1, p)
          else let a = (if av_n a + 2 > av_cap a
                        then a\<lparr>av_v := av_v a @ replicate (av_cap a) (junk m), av_cap := av_cap a * 2\<rparr> else a) in
               if \<not> copy_ok m then Inr (1, Some a)
               else rbind (set_slot (av_n a) (Some (c_string s)) a) (\<lambda>a.
                    rbind (set_slot (av_n a + 1) None (a\<lparr>av_n := av_n a + 1\<rparr>)) (\<lambda>a. Inr (0, Some a)))
      | _ \<Rightarrow> Inr (2, p))"

definition pasx_argv_deadline :: "pasx_argv option \<Rightarrow> int \<Rightarrow> pasx_argv option" where
  "pasx_argv_deadline p ms = map_option (\<lambda>a. a\<lparr>av_deadline_ms := (if ms < 0 then 0 else ms)\<rparr>) p"

definition pasx_argv_count :: "pasx_argv option \<Rightarrow> int" where
  "pasx_argv_count p = (case p of None \<Rightarrow> 0 | Some a \<Rightarrow> int (av_n a))"

text \<open>The words given to \<^verbatim>\<open>free\<close>, in that order; a slot that was never set is not one to free.\<close>

fun drop_loop :: "nat \<Rightarrow> nat \<Rightarrow> string option list \<Rightarrow> (nat \<times> string list) res" where
  "drop_loop 0 keep v = Inr (0, [])"
| "drop_loop (Suc n) keep v =
     (if Suc n > keep
      then (if n < length v
            then (case v ! n of
                    None \<Rightarrow> Inl Undefined
                  | Some s \<Rightarrow> rbind (drop_loop n keep v) (\<lambda>(k, freed). Inr (k, s # freed)))
            else Inl Undefined)
      else Inr (Suc n, []))"

definition pasx_argv_drop :: "pasx_argv option \<Rightarrow> int \<Rightarrow> ((int \<times> string list) \<times> pasx_argv option) res" where
  "pasx_argv_drop p keep =
     (case p of
        None \<Rightarrow> Inr ((0, []), None)
      | Some a \<Rightarrow>
          rbind (drop_loop (av_n a) (if keep < 0 then 0 else nat keep) (av_v a)) (\<lambda>(k, freed).
          rbind (set_slot k None (a\<lparr>av_n := k\<rparr>)) (\<lambda>a. Inr ((int k, freed), Some a))))"

fun free_loop :: "nat \<Rightarrow> nat \<Rightarrow> string option list \<Rightarrow> string list res" where
  "free_loop i 0 v = Inr []"
| "free_loop i (Suc k) v =
     (if i < length v
      then (case v ! i of
              None \<Rightarrow> Inl Undefined
            | Some s \<Rightarrow> rbind (free_loop (Suc i) k v) (\<lambda>freed. Inr (s # freed)))
      else Inl Undefined)"

definition pasx_argv_free :: "pasx_argv option \<Rightarrow> (int \<times> string list) res" where
  "pasx_argv_free p =
     (case p of
        None \<Rightarrow> Inr (0, [])
      | Some a \<Rightarrow> rbind (free_loop 0 (av_n a) (av_v a)) (\<lambda>freed. Inr (0, freed)))"

section \<open>The vector is a list of words\<close>

text \<open>What a reader of \<^verbatim>\<open>argv\<close> sees: the words up to the \<^verbatim>\<open>NULL\<close>.\<close>

definition argv_words :: "pasx_argv \<Rightarrow> string list" where
  "argv_words a = map the (takeWhile (\<lambda>x. x \<noteq> None) (av_v a))"

definition argv_ok :: "pasx_argv \<Rightarrow> string list \<Rightarrow> bool" where
  "argv_ok a ws \<longleftrightarrow> av_n a = length ws \<and> length (av_v a) = av_cap a \<and> length ws < av_cap a \<and>
     length ws \<le> PASX_ARGV_MAX \<and> take (length ws + 1) (av_v a) = map Some ws @ [None] \<and> 0 \<le> av_deadline_ms a"

lemma take_slots: "take k v = map Some ws @ [None] \<Longrightarrow> v = map Some ws @ None # drop k v"
  by (metis append.assoc append_Cons append_Nil append_take_drop_id)

lemma argv_ok_slots: "argv_ok a ws \<Longrightarrow> \<exists>r. av_v a = map Some ws @ None # r"
  unfolding argv_ok_def using take_slots by blast

lemma argv_words_ok: "argv_ok a ws \<Longrightarrow> argv_words a = ws"
proof -
  assume "argv_ok a ws"
  then obtain r where "av_v a = map Some ws @ None # r" using argv_ok_slots by blast
  moreover have "takeWhile (\<lambda>x. x \<noteq> None) (map Some ws @ None # r) = map Some ws" by (induction ws) auto
  ultimately show ?thesis by (simp add: argv_words_def comp_def)
qed

lemma argv_new_ok: "pasx_argv_new m = Some a \<Longrightarrow> argv_ok a []"
  by (auto simp: pasx_argv_new_def argv_ok_def PASX_ARGV_MAX_def numeral_eq_Suc split: if_splits)

lemma drop_loop_words:
  "n \<le> length ws \<Longrightarrow> drop_loop n keep (map Some ws @ r) = Inr (min n keep, rev (drop keep (take n ws)))"
proof (induction n)
  case (Suc n)
  have "take (Suc n) ws = take n ws @ [ws ! n]" using Suc by (simp add: take_Suc_conv_app_nth)
  with Suc show ?case by (auto simp: nth_append min_def)
qed simp

lemma free_loop_words:
  "free_loop i k (map Some ws @ r) = Inr (take k (drop i ws))" if "i + k \<le> length ws"
  using that
proof (induction k arbitrary: i)
  case (Suc k)
  then have "drop i ws = ws ! i # drop (Suc i) ws" by (simp add: Cons_nth_drop_Suc)
  with Suc show ?case by (simp add: nth_append)
qed simp

lemma argv_free_ok: "argv_ok a ws \<Longrightarrow> pasx_argv_free (Some a) = Inr (0, ws)"
  using argv_ok_slots [of a ws] free_loop_words [of 0 "length ws" ws]
  by (auto simp: pasx_argv_free_def argv_ok_def)

text \<open>The operations of a program on its vector, and the list of words they are on.\<close>

datatype vop = VPush argv_mem "char list" | VDrop int | VDeadline int | VCount

record words =
  w_list :: "string list"
  w_limit :: int

definition vec_step :: "vop \<Rightarrow> pasx_argv option \<Rightarrow> ((int \<times> string list) \<times> pasx_argv option) res" where
  "vec_step x p =
     (case x of
        VPush m s \<Rightarrow> rbind (pasx_argv_push m p (Some s)) (\<lambda>(st, p). Inr ((st, []), p))
      | VDrop keep \<Rightarrow> pasx_argv_drop p keep
      | VDeadline ms \<Rightarrow> Inr ((0, []), pasx_argv_deadline p ms)
      | VCount \<Rightarrow> Inr ((pasx_argv_count p, []), p))"

fun words_step :: "vop \<Rightarrow> words \<Rightarrow> ((int \<times> string list) \<times> words) option" where
  "words_step (VPush m s) w =
     Some (if length (w_list w) < PASX_ARGV_MAX \<and> copy_ok m
           then ((0, []), w\<lparr>w_list := w_list w @ [c_string s]\<rparr>) else ((1, []), w))"
| "words_step (VDrop keep) w =
     Some ((int (min (length (w_list w)) (nat keep)), rev (drop (nat keep) (w_list w))),
           w\<lparr>w_list := take (nat keep) (w_list w)\<rparr>)"
| "words_step (VDeadline ms) w = Some ((0, []), w\<lparr>w_limit := max 0 ms\<rparr>)"
| "words_step VCount w = Some ((int (length (w_list w)), []), w)"

text \<open>Memory is there or it is not: the array can grow exactly when a word can be copied.\<close>

fun steady_mem :: "vop \<Rightarrow> bool" where
  "steady_mem (VPush m s) \<longleftrightarrow> (grow_ok m \<longleftrightarrow> copy_ok m)"
| "steady_mem _ \<longleftrightarrow> True"

definition vec_rel :: "pasx_argv option \<Rightarrow> words \<Rightarrow> bool" where
  "vec_rel p w \<longleftrightarrow> (case p of None \<Rightarrow> False | Some a \<Rightarrow> argv_ok a (w_list w) \<and> av_deadline_ms a = w_limit w)"

text \<open>A word stored at the end with the \<^verbatim>\<open>NULL\<close> behind it.\<close>

lemma store_word:
  assumes "length v = c" and "length ws + 2 \<le> c" and "take (length ws + 1) v = map Some ws @ [None]"
  shows "take (length ws + 2) (v[length ws := Some s, Suc (length ws) := None]) = map Some ws @ [Some s, None]"
proof -
  have v: "v = map Some ws @ None # drop (length ws + 1) v" using assms(3) by (rule take_slots)
  obtain x r where x: "drop (length ws + 1) v = x # r"
    using assms(1,2) by (cases "drop (length ws + 1) v") auto
  have "v = map Some ws @ None # x # r" using v x by simp
  then show ?thesis by (simp add: list_update_append)
qed

lemma push_simulates:
  assumes ok: "argv_ok a ws" and steady: "grow_ok m \<longleftrightarrow> copy_ok m"
  shows "\<exists>a'. pasx_argv_push m (Some a) (Some s) =
             Inr (if length ws < PASX_ARGV_MAX \<and> copy_ok m then 0 else 1, Some a') \<and>
           argv_ok a' (if length ws < PASX_ARGV_MAX \<and> copy_ok m then ws @ [c_string s] else ws) \<and>
           av_deadline_ms a' = av_deadline_ms a"
proof (cases "length ws < PASX_ARGV_MAX \<and> copy_ok m")
  case False
  with ok steady show ?thesis by (auto simp: pasx_argv_push_def argv_ok_def)
next
  case True
  define b where "b = (if av_n a + 2 > av_cap a
      then a\<lparr>av_v := av_v a @ replicate (av_cap a) (junk m), av_cap := av_cap a * 2\<rparr> else a)"
  have b: "argv_ok b ws" "length ws + 2 \<le> av_cap b" "av_deadline_ms b = av_deadline_ms a"
    using ok by (auto simp: b_def argv_ok_def)
  let ?v = "(av_v b)[length ws := Some (c_string s), Suc (length ws) := None]"
  have "pasx_argv_push m (Some a) (Some s) = Inr (0, Some (b\<lparr>av_n := Suc (length ws), av_v := ?v\<rparr>))"
    using True steady ok by (simp add: pasx_argv_push_def argv_ok_def set_slot_def b_def)
  moreover have "take (length ws + 2) ?v = map Some ws @ [Some (c_string s), None]"
    using b by (intro store_word) (auto simp: argv_ok_def)
  then have "argv_ok (b\<lparr>av_n := Suc (length ws), av_v := ?v\<rparr>) (ws @ [c_string s])"
    using b True by (simp add: argv_ok_def)
  ultimately show ?thesis
    using True b(3) by (intro exI [of _ "b\<lparr>av_n := Suc (length ws), av_v := ?v\<rparr>"]) simp
qed

lemma drop_simulates:
  assumes ok: "argv_ok a ws"
  shows "\<exists>a'. pasx_argv_drop (Some a) keep =
             Inr ((int (min (length ws) (nat keep)), rev (drop (nat keep) ws)), Some a') \<and>
           argv_ok a' (take (nat keep) ws) \<and> av_deadline_ms a' = av_deadline_ms a"
proof -
  obtain r where r: "av_v a = map Some ws @ None # r" using argv_ok_slots [OF ok] by blast
  define k where "k = min (length ws) (nat keep)"
  have d: "drop_loop (av_n a) (if keep < 0 then 0 else nat keep) (av_v a) = Inr (k, rev (drop (nat keep) ws))"
    using drop_loop_words [of "length ws" ws "nat keep" "None # r"] ok r by (auto simp: argv_ok_def k_def)
  have k: "k < length (av_v a)" "take k ws = take (nat keep) ws" "length (take k ws) = k"
    using r by (auto simp: k_def min_def)
  have "take (Suc k) ((av_v a)[k := None]) = map Some (take k ws) @ [None]"
    using k(1) r by (simp add: take_Suc_conv_app_nth k_def take_map)
  then have "argv_ok (a\<lparr>av_n := k, av_v := (av_v a)[k := None]\<rparr>) (take k ws)"
    using ok k by (auto simp: argv_ok_def k_def)
  with d k show ?thesis by (simp add: pasx_argv_drop_def set_slot_def flip: k_def)
qed

interpretation argv_vector: simulation vec_rel words_step vec_step steady_mem
proof
  fix p w x
  assume rel: "vec_rel p w" and st: "steady_mem x"
  then obtain a where a: "p = Some a" "argv_ok a (w_list w)" "av_deadline_ms a = w_limit w"
    by (cases p) (auto simp: vec_rel_def)
  show "simulates vec_rel (words_step x w) (vec_step x p)"
  proof (cases x)
    case (VPush m s)
    then show ?thesis using push_simulates [OF a(2), of m s] st a
      by (auto simp: simulates_def vec_step_def vec_rel_def)
  next
    case (VDrop keep)
    then show ?thesis using drop_simulates [OF a(2), of keep] a
      by (auto simp: simulates_def vec_step_def vec_rel_def)
  next
    case (VDeadline ms)
    then show ?thesis using a
      by (auto simp: simulates_def vec_step_def vec_rel_def pasx_argv_deadline_def argv_ok_def max_def)
  next
    case VCount
    then show ?thesis using a
      by (auto simp: simulates_def vec_step_def vec_rel_def pasx_argv_count_def argv_ok_def)
  qed
qed

lemma words_total: "\<exists>us w'. arun words_step xs w = Some (us, w')"
proof (induction xs arbitrary: w)
  case (Cons x xs)
  have "words_step x w \<noteq> None" by (cases x) auto
  then obtain u w1 where "words_step x w = Some (u, w1)" by auto
  moreover obtain us w2 where "arun words_step xs w1 = Some (us, w2)" using Cons by blast
  ultimately show ?case by auto
qed simp


definition plenty :: argv_mem where
  "plenty = \<lparr>grow_ok = True, copy_ok = True, junk = Some ''?''\<rparr>"


end
