(* ===== verification/Exec.thy ===== *)
theory Exec
  imports Process
begin

text \<open>
  Child processes (\<^verbatim>\<open>pasrt_posix.c\<close>): starting one from an argument vector, reading what it writes
  through a pipe, and waiting for it, all within an optional deadline after which it is killed.
\<close>

section \<open>Time\<close>

type_synonym timespec = "int \<times> int"

definition nanos :: "timespec \<Rightarrow> int" where
  "nanos t = fst t * 1000000000 + snd t"

definition timespec_ok :: "timespec \<Rightarrow> bool" where
  "timespec_ok t \<longleftrightarrow> 0 \<le> snd t \<and> snd t < 1000000000"

text \<open>Division of C, towards zero.\<close>

definition c_div :: "int \<Rightarrow> int \<Rightarrow> int" where
  "c_div a b = (if a < 0 then - ((- a) div b) else a div b)"

definition pasx_ms_left :: "timespec option \<Rightarrow> timespec \<Rightarrow> int" where
  "pasx_ms_left clk until =
     (case clk of
        None \<Rightarrow> 0
      | Some t \<Rightarrow>
          let ms = (fst until - fst t) * 1000 + c_div (snd until - snd t) 1000000 in
          if ms < 0 then 0 else if ms > 0x7fffffff then 0x7fffffff else ms)"

definition deadline_of :: "timespec \<Rightarrow> int \<Rightarrow> timespec" where
  "deadline_of t ms =
     (let s = fst t + ms div 1000; n = snd t + ms mod 1000 * 1000000 in
      if n \<ge> 1000000000 then (s + 1, n - 1000000000) else (s, n))"

section \<open>Starting\<close>

definition PASX_PROC_BUF :: nat where "PASX_PROC_BUF = 4096"

record pasx_proc =
  pr_pid :: int
  pr_fd :: int
  pr_killed :: bool
  pr_until :: timespec
  pr_has_deadline :: bool
  pr_buf :: "char list"
  pr_at :: nat
  pr_have :: nat

datatype file_action = Dup2 int int | OpenAt int string

text \<open>
  What the system answers while a child is started: storage for the object (its contents what was
  there), the clock, the pipe, whether an action can be recorded, and the process identifier the
  spawn gives for the words and the actions, if it gives one.
\<close>

record spawn_env =
  proc_store :: "pasx_proc option"
  start_clock :: timespec
  se_pipe :: "(int \<times> int) option"
  fa_init :: bool
  fa_add :: "file_action \<Rightarrow> bool"
  spawn :: "string list \<Rightarrow> file_action list \<Rightarrow> int option"

definition spawn_actions :: "int \<Rightarrow> string option \<Rightarrow> int \<Rightarrow> file_action list option" where
  "spawn_actions capture path w =
     (if capture = 1 then Some [Dup2 w 1]
      else if capture = 2 then Some [Dup2 w 1, Dup2 w 2]
      else if capture = 3
      then (case path of
              None \<Rightarrow> None
            | Some p \<Rightarrow> if p = [] then None else Some [OpenAt 1 p, Dup2 1 2])
      else Some [])"

definition close_pipe :: "int \<times> int \<Rightarrow> fds \<Rightarrow> fds" where
  "close_pipe ds live = (if fst ds \<ge> 0 then c_close (snd ds) (c_close (fst ds) live) else live)"

definition pasx_exec_start ::
  "spawn_env \<Rightarrow> pasx_argv option \<Rightarrow> int \<Rightarrow> string option \<Rightarrow> fds \<Rightarrow> int \<times> pasx_proc option \<times> fds" where
  "pasx_exec_start env p capture path live =
     (case p of
        None \<Rightarrow> (1, None, live)
      | Some a \<Rightarrow>
          if av_n a = 0 then (1, None, live)
          else case proc_store env of
            None \<Rightarrow> (2, None, live)
          | Some pr \<Rightarrow>
              let limited = av_deadline_ms a > 0;
                  pr = pr\<lparr>pr_fd := -1, pr_killed := False, pr_at := 0, pr_have := 0, pr_has_deadline := limited,
                          pr_until := (if limited then deadline_of (start_clock env) (av_deadline_ms a) else pr_until pr)\<rparr>
              in (case (if capture = 1 \<or> capture = 2 then se_pipe env else Some (-1, -1)) of
                    None \<Rightarrow> (2, None, live)
                  | Some ds \<Rightarrow>
                      let live = (if fst ds \<ge> 0 then fst ds # snd ds # live else live) in
                      if \<not> fa_init env then (2, None, close_pipe ds live)
                      else (case spawn_actions capture path (snd ds) of
                              None \<Rightarrow> (2, None, close_pipe ds live)
                            | Some acts \<Rightarrow>
                                if \<not> list_all (fa_add env) acts then (2, None, close_pipe ds live)
                                else (case spawn env (argv_words a) acts of
                                        None \<Rightarrow> (2, None, close_pipe ds live)
                                      | Some pid \<Rightarrow>
                                          if fst ds \<ge> 0
                                          then (0, Some (pr\<lparr>pr_fd := fst ds, pr_pid := pid\<rparr>), c_close (snd ds) live)
                                          else (0, Some (pr\<lparr>pr_pid := pid\<rparr>), live)))))"

section \<open>Reading\<close>

text \<open>Kill the child once and stop reading; the signals are the identifiers given to \<^verbatim>\<open>kill\<close>.\<close>

definition pasx_exec_expire :: "pasx_proc \<Rightarrow> fds \<Rightarrow> pasx_proc \<times> int list \<times> fds" where
  "pasx_exec_expire pr live =
     (let sigs = (if \<not> pr_killed pr then [pr_pid pr] else []); pr = pr\<lparr>pr_killed := True\<rparr> in
      if pr_fd pr \<ge> 0 then (pr\<lparr>pr_fd := -1\<rparr>, sigs, c_close (pr_fd pr) live) else (pr, sigs, live))"

text \<open>One pass of the loop: the clock, what \<^verbatim>\<open>poll\<close> does with the time left, what \<^verbatim>\<open>read\<close> finds.\<close>

record read_round =
  rd_clock :: "timespec option"
  rd_poll :: "int \<Rightarrow> polled list"
  rd_read :: read_answer

record proc_world =
  pw_rounds :: "read_round list"
  pw_live :: fds
  pw_signals :: "int list"

definition byte_code :: "char \<Rightarrow> int" where
  "byte_code c = int (of_char c)"

definition load_buf :: "char list \<Rightarrow> pasx_proc \<Rightarrow> pasx_proc" where
  "load_buf bs pr = pr\<lparr>pr_buf := bs @ drop (length bs) (pr_buf pr), pr_at := 1, pr_have := length bs\<rparr>"

fun getc_loop :: "pasx_proc \<Rightarrow> read_round list \<Rightarrow> fds \<Rightarrow> int list \<Rightarrow> (int \<times> pasx_proc \<times> proc_world) res" where
  "getc_loop pr [] live sigs = Inl Diverges"
| "getc_loop pr (r # rs) live sigs =
     rbind (pasx_fd_ready (pr_fd pr)
              (rd_poll r (if pr_has_deadline pr then pasx_ms_left (rd_clock r) (pr_until pr) else -1)))
       (\<lambda>ready.
          if ready < 0 then Inr (-1, pr, \<lparr>pw_rounds = rs, pw_live = live, pw_signals = sigs\<rparr>)
          else if ready = 0
          then (case pasx_exec_expire pr live of
                  (pr, new, live) \<Rightarrow> Inr (-1, pr, \<lparr>pw_rounds = rs, pw_live = live, pw_signals = sigs @ new\<rparr>))
          else (case rd_read r of
                  Got bs \<Rightarrow>
                    if bs = [] then Inr (-1, pr, \<lparr>pw_rounds = rs, pw_live = live, pw_signals = sigs\<rparr>)
                    else Inr (byte_code (hd bs), load_buf bs pr, \<lparr>pw_rounds = rs, pw_live = live, pw_signals = sigs\<rparr>)
                | Interrupted \<Rightarrow> getc_loop pr rs live sigs
                | Refused \<Rightarrow> Inr (-1, pr, \<lparr>pw_rounds = rs, pw_live = live, pw_signals = sigs\<rparr>)))"

definition pasx_exec_getc :: "pasx_proc option \<Rightarrow> proc_world \<Rightarrow> (int \<times> pasx_proc option \<times> proc_world) res" where
  "pasx_exec_getc p w =
     (case p of
        None \<Rightarrow> Inr (-1, None, w)
      | Some pr \<Rightarrow>
          if pr_at pr < pr_have pr
          then (if pr_at pr < length (pr_buf pr)
                then Inr (byte_code (pr_buf pr ! pr_at pr), Some (pr\<lparr>pr_at := pr_at pr + 1\<rparr>), w) else Inl Undefined)
          else if pr_fd pr < 0 then Inr (-1, Some pr, w)
          else rbind (getc_loop pr (pw_rounds w) (pw_live w) (pw_signals w)) (\<lambda>(c, pr, w). Inr (c, Some pr, w)))"

section \<open>Waiting\<close>

text \<open>
  What a \<^verbatim>\<open>waitpid\<close> finds: the child running still (only a look with \<^verbatim>\<open>WNOHANG\<close> returns then; a
  blocking wait goes on), ended by itself with a code, ended by a signal, an interruption, or a
  refusal.
\<close>

datatype waited = StillRunning | Exited int | Signalled | WaitInterrupted | WaitRefused

record wait_round =
  wr_wait :: waited
  wr_clock :: "timespec option"

fun wait_loop :: "pasx_proc \<Rightarrow> wait_round list \<Rightarrow> fds \<Rightarrow> int list \<Rightarrow> (int \<times> fds \<times> int list) res" where
  "wait_loop pr [] live sigs = Inl Diverges"
| "wait_loop pr (r # rs) live sigs =
     (case wr_wait r of
        StillRunning \<Rightarrow>
          if pr_has_deadline pr \<and> \<not> pr_killed pr \<and> pasx_ms_left (wr_clock r) (pr_until pr) = 0
          then (case pasx_exec_expire pr live of (pr, new, live) \<Rightarrow> wait_loop pr rs live (sigs @ new))
          else wait_loop pr rs live sigs
      | Exited code \<Rightarrow> Inr (if pr_killed pr then -1 else code, live, sigs)
      | Signalled \<Rightarrow> Inr (-1, live, sigs)
      | WaitInterrupted \<Rightarrow> wait_loop pr rs live sigs
      | WaitRefused \<Rightarrow> Inr (-1, live, sigs))"

definition pasx_exec_close ::
  "pasx_proc option \<Rightarrow> wait_round list \<Rightarrow> fds \<Rightarrow> int list \<Rightarrow> (int \<times> fds \<times> int list) res" where
  "pasx_exec_close p rs live sigs =
     (case p of
        None \<Rightarrow> Inr (-1, live, sigs)
      | Some pr \<Rightarrow>
          if pr_fd pr \<ge> 0 then wait_loop (pr\<lparr>pr_fd := -1\<rparr>) rs (c_close (pr_fd pr) live) sigs
          else wait_loop pr rs live sigs)"

section \<open>The deadline\<close>

lemma deadline_exact:
  assumes "timespec_ok t" and "0 \<le> ms"
  shows "nanos (deadline_of t ms) = nanos t + ms * 1000000" "timespec_ok (deadline_of t ms)"
proof -
  define q r where "q = ms div 1000" and "r = ms mod 1000"
  have m: "ms = q * 1000 + r" "0 \<le> r" "r < 1000" by (simp_all add: q_def r_def)
  have d: "deadline_of t ms = (let s = fst t + q; n = snd t + r * 1000000 in
      if n \<ge> 1000000000 then (s + 1, n - 1000000000) else (s, n))"
    by (simp add: deadline_of_def q_def r_def)
  show "nanos (deadline_of t ms) = nanos t + ms * 1000000" "timespec_ok (deadline_of t ms)"
    unfolding d using assms m by (auto simp: nanos_def timespec_ok_def Let_def)
qed

lemma c_div_bound: "0 < b \<Longrightarrow> \<bar>c_div a b * b - a\<bar> < b"
proof -
  assume b: "0 < b"
  have "\<bar>q div b * b - q\<bar> < b" for q
  proof -
    have "q div b * b = q - q mod b" by (simp add: minus_mod_eq_div_mult)
    then show ?thesis using b pos_mod_bound [OF b, of q] pos_mod_sign [OF b, of q] by linarith
  qed
  from this [of a] this [of "- a"] show ?thesis by (auto simp: c_div_def abs_if algebra_simps split: if_splits)
qed

text \<open>The milliseconds left are those of the exact difference, short of one, within the range of an \<^verbatim>\<open>int\<close>.\<close>

lemma ms_left_bounds:
  assumes "pasx_ms_left (Some t) until = ms"
  shows "0 \<le> ms" "ms \<le> 0x7fffffff" "ms = 0 \<Longrightarrow> nanos until - nanos t < 1000000"
    "0 < ms \<Longrightarrow> ms < 0x7fffffff \<Longrightarrow> \<bar>ms * 1000000 - (nanos until - nanos t)\<bar> < 1000000"
  using assms c_div_bound [of 1000000 "snd until - snd t"]
  by (auto simp: pasx_ms_left_def Let_def nanos_def algebra_simps split: if_splits)

section \<open>Starting a child\<close>

lemma close_both: "r \<notin> set live \<Longrightarrow> w \<notin> set live \<Longrightarrow> close_pipe (r, w) (r # w # live) = (if 0 \<le> r then live else r # w # live)"
  by (simp add: close_pipe_def c_close_def)

text \<open>
  C21. A child is started with exactly the words pushed and the redirections its mode asks for, and
  the descriptors are accounted for: on a start the process keeps the read end of the pipe and
  nothing else, and on every refusal, wherever it happens, no descriptor is left behind.
\<close>

theorem exec_start_sound:
  assumes "argv_ok a ws"
    and "\<And>r w. se_pipe env = Some (r, w) \<Longrightarrow> 0 \<le> r \<and> r \<noteq> w \<and> r \<notin> set live \<and> w \<notin> set live"
  shows "case pasx_exec_start env (Some a) capture path live of
      (st, None, live') \<Rightarrow> live' = live \<and> st = (if ws = [] then 1 else 2)
    | (st, Some pr, live') \<Rightarrow> st = 0 \<and> ws \<noteq> [] \<and> \<not> pr_killed pr \<and>
        (pr_has_deadline pr \<longleftrightarrow> 0 < av_deadline_ms a) \<and>
        (if capture = 1 \<or> capture = 2
         then \<exists>r w acts. se_pipe env = Some (r, w) \<and> pr_fd pr = r \<and> live' = r # live \<and>
                acts = (if capture = 1 then [Dup2 w 1] else [Dup2 w 1, Dup2 w 2]) \<and> spawn env ws acts = Some (pr_pid pr)
         else pr_fd pr = -1 \<and> live' = live \<and>
              (if capture = 3 then \<exists>f. path = Some f \<and> f \<noteq> [] \<and> spawn env ws [OpenAt 1 f, Dup2 1 2] = Some (pr_pid pr)
               else spawn env ws [] = Some (pr_pid pr)))"
proof -
  have [simp]: "argv_words a = ws" "av_n a = length ws"
    using argv_words_ok [OF assms(1)] assms(1) by (simp_all add: argv_ok_def)
  note start = pasx_exec_start_def spawn_actions_def Let_def close_pipe_def c_close_def
  show ?thesis
  proof (cases "ws = [] \<or> proc_store env = None")
    case True
    then show ?thesis by (cases "ws = []") (simp_all add: pasx_exec_start_def)
  next
    case False
    then obtain pr where ne: "ws \<noteq> []" "proc_store env = Some pr" by auto
    consider "capture = 1 \<or> capture = 2" | "capture = 3" | "capture \<noteq> 1" "capture \<noteq> 2" "capture \<noteq> 3" by blast
    then show ?thesis
    proof cases
      case 1
      then show ?thesis
      proof (cases "se_pipe env")
        case None
        with 1 ne show ?thesis by (simp add: start)
      next
        case (Some ds)
        then obtain r w where "se_pipe env = Some (r, w)" by (cases ds) auto
        with 1 ne assms(2) show ?thesis by (elim disjE) (simp_all add: start split: option.splits)
      qed
    next
      case 2
      with ne show ?thesis by (simp add: start split: option.splits)
    next
      case 3
      with ne show ?thesis by (simp add: start split: option.splits)
    qed
  qed
qed

definition env0 :: spawn_env where
  "env0 = \<lparr>proc_store = Some \<lparr>pr_pid = 0, pr_fd = 0, pr_killed = True, pr_until = (0, 0), pr_has_deadline = False,
       pr_buf = [], pr_at = 9, pr_have = 9\<rparr>, start_clock = (100, 999000000), se_pipe = Some (3, 4), fa_init = True,
     fa_add = (\<lambda>_. True), spawn = (\<lambda>ws acts. if ws = [''date''] \<and> acts = [Dup2 4 1] then Some 4711 else None)\<rparr>"

definition date_words :: pasx_argv where
  "date_words = \<lparr>av_v = [Some ''date'', None], av_n = 1, av_cap = 2, av_deadline_ms = 250\<rparr>"

theorem exec_start_sound_witness:
  "case pasx_exec_start env0 (Some date_words) 1 None [0, 1, 2] of
     (st, None, live') \<Rightarrow> False
   | (st, Some pr, live') \<Rightarrow> st = 0 \<and> pr_pid pr = 4711 \<and> pr_fd pr = 3 \<and> live' = [3, 0, 1, 2]"
proof -
  have "argv_ok date_words [''date'']" by (simp add: argv_ok_def date_words_def PASX_ARGV_MAX_def)
  from exec_start_sound [OF this, of env0 "[0, 1, 2]" 1 None] show ?thesis
    by (simp add: env0_def date_words_def pasx_exec_start_def spawn_actions_def argv_words_def c_close_def Let_def
        del: One_nat_def)
qed

section \<open>What the child wrote\<close>

definition round_ready :: "pasx_proc \<Rightarrow> read_round \<Rightarrow> int res" where
  "round_ready pr r = pasx_fd_ready (pr_fd pr)
     (rd_poll r (if pr_has_deadline pr then pasx_ms_left (rd_clock r) (pr_until pr) else -1))"

text \<open>The bytes that arrive before the pipe ends, is refused, or the deadline passes.\<close>

fun arriving :: "pasx_proc \<Rightarrow> read_round list \<Rightarrow> char list" where
  "arriving pr [] = []"
| "arriving pr (r # rs) =
     (if round_ready pr r = Inr 1
      then (case rd_read r of
              Got bs \<Rightarrow> if bs = [] then [] else bs @ arriving pr rs
            | Interrupted \<Rightarrow> arriving pr rs
            | Refused \<Rightarrow> [])
      else [])"

definition output_ahead :: "pasx_proc \<Rightarrow> read_round list \<Rightarrow> char list" where
  "output_ahead pr rs =
     drop (pr_at pr) (take (pr_have pr) (pr_buf pr)) @ (if pr_fd pr < 0 then [] else arriving pr rs)"

definition proc_ok :: "pasx_proc \<Rightarrow> bool" where
  "proc_ok pr \<longleftrightarrow> length (pr_buf pr) = PASX_PROC_BUF \<and> pr_at pr \<le> pr_have pr \<and> pr_have pr \<le> PASX_PROC_BUF"

text \<open>\<^verbatim>\<open>read\<close> answers no more than the size it is given.\<close>

definition reads_fit :: "read_round list \<Rightarrow> bool" where
  "reads_fit rs \<longleftrightarrow> (\<forall>r\<in>set rs. \<forall>bs. rd_read r = Got bs \<longrightarrow> length bs \<le> PASX_PROC_BUF)"

lemma arriving_cong:
  "pr_fd p = pr_fd q \<Longrightarrow> pr_has_deadline p = pr_has_deadline q \<Longrightarrow> pr_until p = pr_until q \<Longrightarrow> arriving p rs = arriving q rs"
  by (induction rs) (auto simp: round_ready_def split: read_answer.splits)

lemma ready_values: "round_ready pr r = Inr x \<Longrightarrow> 0 \<le> pr_fd pr \<Longrightarrow> x = -1 \<or> x = 0 \<or> x = 1"
  by (auto simp: round_ready_def pasx_fd_ready_def rbind_eq_Inr split: option.splits if_splits)

lemma getc_loop_byte:
  assumes "proc_ok pr" and "reads_fit rs" and "arriving pr rs = c # cs" and "0 \<le> pr_fd pr"
  shows "\<exists>pr' rs'. getc_loop pr rs live sigs = Inr (byte_code c, pr', \<lparr>pw_rounds = rs', pw_live = live, pw_signals = sigs\<rparr>) \<and>
           proc_ok pr' \<and> reads_fit rs' \<and> output_ahead pr' rs' = cs"
  using assms
proof (induction rs)
  case (Cons r rs)
  then have ready: "round_ready pr r = Inr 1" by (simp split: if_splits)
  have fit: "reads_fit rs" using Cons.prems by (simp add: reads_fit_def)
  show ?case
  proof (cases "rd_read r")
    case (Got bs)
    with Cons.prems ready have bs: "bs \<noteq> []" "c # cs = bs @ arriving pr rs" by (auto split: if_splits)
    then obtain b where b: "bs = c # b" "cs = b @ arriving pr rs" by (cases bs) auto
    have len: "length bs \<le> PASX_PROC_BUF" using Cons.prems(2) Got by (simp add: reads_fit_def)
    have "getc_loop pr (r # rs) live sigs =
        Inr (byte_code c, load_buf bs pr, \<lparr>pw_rounds = rs, pw_live = live, pw_signals = sigs\<rparr>)"
      using ready Got bs b by (simp add: round_ready_def)
    moreover have "proc_ok (load_buf bs pr)" using Cons.prems(1) len bs
      by (auto simp: proc_ok_def load_buf_def Suc_le_eq)
    moreover have "arriving (load_buf bs pr) rs = arriving pr rs" by (rule arriving_cong) (simp_all add: load_buf_def)
    then have "output_ahead (load_buf bs pr) rs = cs"
      using b Cons.prems(4) by (simp add: output_ahead_def load_buf_def)
    ultimately show ?thesis using fit by blast
  next
    case Interrupted
    with Cons.prems ready fit Cons.IH show ?thesis by (simp add: round_ready_def)
  next
    case Refused
    with Cons.prems ready show ?thesis by simp
  qed
qed simp

lemma getc_loop_end:
  "arriving pr rs = [] \<Longrightarrow> 0 \<le> pr_fd pr \<Longrightarrow> getc_loop pr rs live sigs = Inr (c, pr', w) \<Longrightarrow> c = -1"
proof (induction rs)
  case (Cons r rs)
  then obtain x where x: "round_ready pr r = Inr x"
    by (auto simp: round_ready_def rbind_eq_Inr)
  with ready_values [OF x] Cons show ?case
    by (auto simp: round_ready_def split: read_answer.splits if_splits prod.splits)
qed simp

lemma getc_byte:
  assumes "proc_ok pr" and "reads_fit (pw_rounds w)" and "output_ahead pr (pw_rounds w) = c # cs"
  shows "\<exists>pr' w'. pasx_exec_getc (Some pr) w = Inr (byte_code c, Some pr', w') \<and> proc_ok pr' \<and>
           reads_fit (pw_rounds w') \<and> output_ahead pr' (pw_rounds w') = cs \<and>
           pw_signals w' = pw_signals w \<and> pw_live w' = pw_live w"
proof (cases "pr_at pr < pr_have pr")
  case True
  then have lt: "pr_at pr < length (pr_buf pr)" using assms(1) by (simp add: proc_ok_def)
  then have "drop (pr_at pr) (take (pr_have pr) (pr_buf pr)) =
      pr_buf pr ! pr_at pr # drop (Suc (pr_at pr)) (take (pr_have pr) (pr_buf pr))"
    using True by (metis Cons_nth_drop_Suc length_take min_less_iff_conj nth_take)
  moreover have "arriving (pr\<lparr>pr_at := pr_at pr + 1\<rparr>) rs = arriving pr rs" for rs by (rule arriving_cong) simp_all
  ultimately show ?thesis using assms True lt
    by (auto simp: pasx_exec_getc_def output_ahead_def proc_ok_def)
next
  case False
  then have "\<not> pr_fd pr < 0" "arriving pr (pw_rounds w) = c # cs" using assms(3)
    by (auto simp: output_ahead_def split: if_splits)
  with getc_loop_byte [OF assms(1,2), of c cs "pw_live w" "pw_signals w"] False show ?thesis
    by (auto simp: pasx_exec_getc_def)
qed

lemma child_getc_end:
  "proc_ok pr \<Longrightarrow> output_ahead pr (pw_rounds w) = [] \<Longrightarrow> pasx_exec_getc (Some pr) w = Inr (c, p, w') \<Longrightarrow> c = -1"
  using getc_loop_end [of pr "pw_rounds w"]
  by (fastforce simp: pasx_exec_getc_def output_ahead_def proc_ok_def rbind_eq_Inr split: if_splits)

definition getc_step :: "unit \<Rightarrow> pasx_proc option \<times> proc_world \<Rightarrow> (int \<times> pasx_proc option \<times> proc_world) res" where
  "getc_step _ = (\<lambda>(p, w). pasx_exec_getc p w)"


definition reading :: pasx_proc where
  "reading = \<lparr>pr_pid = 4711, pr_fd = 3, pr_killed = False, pr_until = (101, 249000000), pr_has_deadline = True,
     pr_buf = replicate 4096 (CHR 0x00), pr_at = 0, pr_have = 0\<rparr>"

definition two_reads :: proc_world where
  "two_reads = \<lparr>pw_rounds =
     [\<lparr>rd_clock = Some (101, 0), rd_poll = (\<lambda>ms. if ms = 249 then [PollInterrupted, Events [1]] else []), rd_read = Interrupted\<rparr>,
      \<lparr>rd_clock = Some (101, 0), rd_poll = (\<lambda>_. [Events [1]]), rd_read = Got ''ok''\<rparr>,
      \<lparr>rd_clock = Some (101, 0), rd_poll = (\<lambda>_. [Events [16]]), rd_read = Got []\<rparr>],
     pw_live = [3, 0, 1, 2], pw_signals = []\<rparr>"


section \<open>The end of the child\<close>

fun ends :: "waited \<Rightarrow> bool" where
  "ends StillRunning = False"
| "ends WaitInterrupted = False"
| "ends _ = True"

text \<open>Whether some look before the end found the deadline passed and the child running.\<close>

definition expires :: "pasx_proc \<Rightarrow> wait_round list \<Rightarrow> bool" where
  "expires pr rs \<longleftrightarrow> pr_has_deadline pr \<and> \<not> pr_killed pr \<and>
     list_ex (\<lambda>r. wr_wait r = StillRunning \<and> pasx_ms_left (wr_clock r) (pr_until pr) = 0)
       (takeWhile (\<lambda>r. \<not> ends (wr_wait r)) rs)"

fun verdict :: "bool \<Rightarrow> waited \<Rightarrow> int" where
  "verdict killed (Exited code) = (if killed then -1 else code)"
| "verdict killed _ = -1"

lemma wait_loop_verdict:
  assumes "list_ex (\<lambda>r. ends (wr_wait r)) rs" and "pr_fd pr < 0"
  shows "wait_loop pr rs live sigs =
    Inr (verdict (pr_killed pr \<or> expires pr rs) (wr_wait (hd (dropWhile (\<lambda>r. \<not> ends (wr_wait r)) rs))), live,
         sigs @ (if expires pr rs then [pr_pid pr] else []))"
  using assms
proof (induction rs arbitrary: pr sigs)
  case (Cons r rs)
  show ?case
  proof (cases "wr_wait r = StillRunning \<and> pr_has_deadline pr \<and> \<not> pr_killed pr \<and> pasx_ms_left (wr_clock r) (pr_until pr) = 0")
    case True
    then have "expires pr (r # rs)" "\<not> expires (pr\<lparr>pr_killed := True\<rparr>) rs" by (simp_all add: expires_def)
    with True Cons show ?thesis by (simp add: pasx_exec_expire_def)
  next
    case False
    then show ?thesis using Cons by (cases "wr_wait r") (auto simp: expires_def)
  qed
qed simp



text \<open>Across reading and closing: a deadline that passed while reading is not a second signal.\<close>

definition one_kill :: "pasx_proc \<Rightarrow> pasx_proc \<Rightarrow> int list \<Rightarrow> int list \<Rightarrow> bool" where
  "one_kill pr pr' sigs sigs' \<longleftrightarrow> pr_pid pr' = pr_pid pr \<and> (pr_killed pr \<longrightarrow> pr_killed pr') \<and>
     sigs' = sigs @ (if pr_killed pr' \<and> \<not> pr_killed pr then [pr_pid pr] else [])"

lemma one_kill_expire: "pasx_exec_expire pr live = (pr', new, live') \<Longrightarrow> one_kill pr pr' sigs (sigs @ new)"
  by (auto simp: one_kill_def pasx_exec_expire_def Let_def split: if_splits)

lemma one_kill_refl [simp]: "one_kill pr pr sigs sigs" "one_kill pr (load_buf bs pr) sigs sigs"
    "one_kill pr (pr\<lparr>pr_at := k\<rparr>) sigs sigs"
  by (simp_all add: one_kill_def load_buf_def)

lemma getc_loop_signals:
  "getc_loop pr rs live sigs = Inr (c, pr', w') \<Longrightarrow> one_kill pr pr' sigs (pw_signals w')"
proof (induction rs)
  case (Cons r rs)
  then obtain x where x: "round_ready pr r = Inr x" by (auto simp: round_ready_def rbind_eq_Inr)
  obtain p new l where e: "pasx_exec_expire pr live = (p, new, l)" by (cases "pasx_exec_expire pr live")
  consider "x < 0" | "x = 0" | "x > 0" by linarith
  then show ?case
  proof cases
    case 3
    with Cons x show ?thesis
      by (cases "rd_read r") (auto simp: round_ready_def split: if_splits)
  qed (use Cons.prems x e one_kill_expire [OF e] in \<open>auto simp: round_ready_def\<close>)
qed simp

lemma getc_signals:
  "pasx_exec_getc (Some pr) w = Inr (c, Some pr', w') \<Longrightarrow> one_kill pr pr' (pw_signals w) (pw_signals w')"
  by (auto simp: pasx_exec_getc_def rbind_eq_Inr split: if_splits dest: getc_loop_signals)

text \<open>
  A child that always has something to read is never stopped by the deadline: \<^verbatim>\<open>poll\<close> is asked with
  no time left, answers that the pipe is ready, and the reading goes on, however late it is.
\<close>

lemma deadline_not_enforced:
  assumes "0 \<le> pr_fd pr" and "bs \<noteq> []"
  shows "arriving pr (replicate n \<lparr>rd_clock = Some late, rd_poll = (\<lambda>_. [Events [1]]), rd_read = Got bs\<rparr>) =
    concat (replicate n bs)"
  using assms by (induction n) (simp_all add: round_ready_def pasx_fd_ready_def)

end
