(* ===== verification/Foreign.thy ===== *)
theory Foreign
  imports Files
begin

text \<open>
  What crosses the boundary to C and back: the complex functions, which answer one part of a result
  at a time, and records, whose fields stand where the rule of C for structs puts them.

  The functions of the C library are parameters over any type of numbers, and the bytes of a
  \<^verbatim>\<open>double\<close> are a parameter of the record probe.  Integers are little-endian two's complement, as on
  every target of the compiler.
\<close>

section \<open>Complex numbers\<close>

type_synonym 'r cx = "'r \<times> 'r"

text \<open>The two functions the macro \<^verbatim>\<open>PAS_COMPLEX_FN\<close> makes of a function of \<^verbatim>\<open>complex.h\<close>.\<close>

definition pas_cfn_re :: "('r cx \<Rightarrow> 'r cx) \<Rightarrow> 'r \<Rightarrow> 'r \<Rightarrow> 'r" where
  "pas_cfn_re f re im = fst (f (re, im))"

definition pas_cfn_im :: "('r cx \<Rightarrow> 'r cx) \<Rightarrow> 'r \<Rightarrow> 'r \<Rightarrow> 'r" where
  "pas_cfn_im f re im = snd (f (re, im))"

definition pas_cln_re :: "('r :: linordered_idom cx \<Rightarrow> 'r cx) \<Rightarrow> 'r \<Rightarrow> 'r \<Rightarrow> 'r res" where
  "pas_cln_re clog re im =
     (if re = 0 \<and> im = 0 then Inl (Trap ''ln: argument is zero'') else Inr (fst (clog (re, im))))"

definition pas_cln_im :: "('r :: linordered_idom cx \<Rightarrow> 'r cx) \<Rightarrow> 'r \<Rightarrow> 'r \<Rightarrow> 'r res" where
  "pas_cln_im clog re im =
     (if re = 0 \<and> im = 0 then Inl (Trap ''ln: argument is zero'') else Inr (snd (clog (re, im))))"

definition pas_cpow_value :: "('r :: linordered_idom cx \<Rightarrow> 'r \<Rightarrow> 'r cx) \<Rightarrow> 'r \<Rightarrow> 'r \<Rightarrow> 'r \<Rightarrow> 'r cx" where
  "pas_cpow_value cpow re im y =
     (if re = 0 \<and> im = 0 then (0, 0) else if y = 0 then (1, 0) else cpow (re, im) y)"

definition pas_cpow_re :: "('r :: linordered_idom cx \<Rightarrow> 'r \<Rightarrow> 'r cx) \<Rightarrow> 'r \<Rightarrow> 'r \<Rightarrow> 'r \<Rightarrow> 'r" where
  "pas_cpow_re cpow re im y = fst (pas_cpow_value cpow re im y)"

definition pas_cpow_im :: "('r :: linordered_idom cx \<Rightarrow> 'r \<Rightarrow> 'r cx) \<Rightarrow> 'r \<Rightarrow> 'r \<Rightarrow> 'r \<Rightarrow> 'r" where
  "pas_cpow_im cpow re im y = snd (pas_cpow_value cpow re im y)"

definition pas_cpowi_re :: "('r :: linordered_idom cx \<Rightarrow> 'r \<Rightarrow> 'r cx) \<Rightarrow> 'r \<Rightarrow> 'r \<Rightarrow> int \<Rightarrow> 'r" where
  "pas_cpowi_re cpow re im n = fst (pas_cpow_value cpow re im (of_int n))"

definition pas_cpowi_im :: "('r :: linordered_idom cx \<Rightarrow> 'r \<Rightarrow> 'r cx) \<Rightarrow> 'r \<Rightarrow> 'r \<Rightarrow> int \<Rightarrow> 'r" where
  "pas_cpowi_im cpow re im n = snd (pas_cpow_value cpow re im (of_int n))"

text \<open>The two halves are those of one result, and \<^verbatim>\<open>ln\<close> fails in both or in neither.\<close>

lemma complex_halves:
  "(pas_cfn_re f re im, pas_cfn_im f re im) = f (re, im)"
  "is_trap (pas_cln_re clog re im) \<longleftrightarrow> re = 0 \<and> im = 0"
  "is_trap (pas_cln_im clog re im) \<longleftrightarrow> re = 0 \<and> im = 0"
  "pas_cln_re clog re im = Inr a \<Longrightarrow> pas_cln_im clog re im = Inr b \<Longrightarrow> (a, b) = clog (re, im)"
  "(pas_cpow_re cpow re im y, pas_cpow_im cpow re im y) = pas_cpow_value cpow re im y"
  "(pas_cpowi_re cpow re im n, pas_cpowi_im cpow re im n) = pas_cpow_value cpow re im (of_int n)"
  by (auto simp: pas_cfn_re_def pas_cfn_im_def pas_cln_re_def pas_cln_im_def pas_cpow_re_def pas_cpow_im_def
      pas_cpowi_re_def pas_cpowi_im_def split: if_splits)

text \<open>The special values of a power, for every function the library has.\<close>

lemma cpow_special:
  "pas_cpow_value cpow 0 0 y = (0, 0)"
  "(re, im) \<noteq> (0, 0) \<Longrightarrow> pas_cpow_value cpow re im 0 = (1, 0)"
  "(re, im) \<noteq> (0, 0) \<Longrightarrow> y \<noteq> 0 \<Longrightarrow> pas_cpow_value cpow re im y = cpow (re, im) y"
  by (auto simp: pas_cpow_value_def)

section \<open>The layout of a struct\<close>

datatype cty = CScalar nat | CArray nat cty | CStruct "cty list"

definition round_up :: "nat \<Rightarrow> nat \<Rightarrow> nat" where
  "round_up n a = (n + a - 1) div a * a"

fun c_align :: "cty \<Rightarrow> nat" where
  "c_align (CScalar n) = n"
| "c_align (CArray k t) = c_align t"
| "c_align (CStruct ts) = fold max (map c_align ts) 1"

fun c_size :: "cty \<Rightarrow> nat" and struct_end :: "nat \<Rightarrow> cty list \<Rightarrow> nat" where
  "c_size (CScalar n) = n"
| "c_size (CArray k t) = k * c_size t"
| "c_size (CStruct ts) = round_up (struct_end 0 ts) (c_align (CStruct ts))"
| "struct_end n [] = n"
| "struct_end n (t # ts) = struct_end (round_up n (c_align t) + c_size t) ts"

fun offsets :: "nat \<Rightarrow> cty list \<Rightarrow> nat list" where
  "offsets n [] = []"
| "offsets n (t # ts) = (let at = round_up n (c_align t) in at # offsets (at + c_size t) ts)"

definition nested_members :: "cty list" where
  "nested_members = [CScalar 1, CScalar 4]"

definition probe_members :: "cty list" where
  "probe_members = [CScalar 8, CScalar 4, CScalar 1, CArray 3 (CScalar 1), CScalar 8, CArray 2 (CScalar 8), CStruct nested_members]"

definition probe_offset :: "nat \<Rightarrow> nat" where
  "probe_offset k = offsets 0 probe_members ! k"

definition nested_offset :: "nat \<Rightarrow> nat" where
  "nested_offset k = probe_offset 6 + offsets 0 nested_members ! k"

section \<open>The record probe\<close>

text \<open>The bytes of an integer.\<close>

fun enc :: "nat \<Rightarrow> int \<Rightarrow> char list" where
  "enc 0 v = []"
| "enc (Suc k) v = char_of (nat (v mod 256)) # enc k (v div 256)"

definition put_field :: "nat \<Rightarrow> char list \<Rightarrow> char list \<Rightarrow> char list" where
  "put_field at bs mem = overwrite at bs mem"

definition get_field :: "nat \<Rightarrow> nat \<Rightarrow> char list \<Rightarrow> char list" where
  "get_field at n mem = take n (drop at mem)"

text \<open>\<open>dbl\<close> gives the bytes of a \<^verbatim>\<open>double\<close>, here of 2.5.\<close>

definition pasx_record_probe :: "char list \<Rightarrow> char list option \<Rightarrow> int \<times> char list option" where
  "pasx_record_probe dbl p =
     (case p of
        None \<Rightarrow> (-1, None)
      | Some mem \<Rightarrow>
          let mem = put_field (probe_offset 0) (enc 8 1234567890123) mem;
              mem = put_field (probe_offset 1) (enc 4 (-4242)) mem;
              mem = put_field (probe_offset 2) ''c'' mem;
              mem = put_field (probe_offset 3) ''d'' mem;
              mem = put_field (probe_offset 3 + 1) ''e'' mem;
              mem = put_field (probe_offset 3 + 2) ''f'' mem;
              mem = put_field (probe_offset 4) dbl mem;
              mem = put_field (probe_offset 5) (enc 8 111) mem;
              mem = put_field (probe_offset 5 + 8) (enc 8 222) mem;
              mem = put_field (nested_offset 0) ''g'' mem;
              mem = put_field (nested_offset 1) (enc 4 (-8)) mem in
          (int (c_size (CStruct probe_members)), Some mem))"

text \<open>\<open>half\<close> gives the bytes of \<^verbatim>\<open>0.5 * n\<close>; the storage is one object, reused by every call.\<close>

definition pasx_record_answer :: "(int \<Rightarrow> char list) \<Rightarrow> int \<Rightarrow> char list \<Rightarrow> char list option \<times> char list" where
  "pasx_record_answer half n mem =
     (if n = 0 then (None, mem)
      else
        let mem = put_field (probe_offset 0) (enc 8 (1000 * n)) mem;
            mem = put_field (probe_offset 1) (enc 4 (- n)) mem;
            mem = put_field (probe_offset 2) (enc 1 (97 + n - 1)) mem;
            mem = put_field (probe_offset 3) ''d'' mem;
            mem = put_field (probe_offset 3 + 1) ''e'' mem;
            mem = put_field (probe_offset 3 + 2) (enc 1 (48 + n)) mem;
            mem = put_field (probe_offset 4) (half n) mem;
            mem = put_field (probe_offset 5) (enc 8 (11 * n)) mem;
            mem = put_field (probe_offset 5 + 8) (enc 8 (22 * n)) mem;
            mem = put_field (nested_offset 0) ''g'' mem;
            mem = put_field (nested_offset 1) (enc 4 (-8 * n)) mem in
        (Some mem, mem))"

text \<open>\<^verbatim>\<open>memcpy\<close> of the record out of storage that is not this program's.\<close>

definition pas_rec_take :: "char list \<Rightarrow> nat \<Rightarrow> char list option \<Rightarrow> (bool \<times> char list) res" where
  "pas_rec_take dst n src =
     (case src of
        None \<Rightarrow> Inr (False, dst)
      | Some s \<Rightarrow> if n \<le> length s \<and> n \<le> length dst then Inr (True, take n s @ drop n dst) else Inl Undefined)"

section \<open>Fields do not overlap\<close>

lemma probe_layout:
  "offsets 0 probe_members = [0, 8, 12, 13, 16, 24, 40]" "c_size (CStruct probe_members) = 48"
  "offsets 0 nested_members = [0, 4]"
  by (simp_all add: probe_members_def nested_members_def round_up_def Let_def)

lemma probe_offsets [simp]:
  "probe_offset 0 = 0" "probe_offset 1 = 8" "probe_offset (Suc 0) = 8" "probe_offset 2 = 12" "probe_offset 3 = 13"
  "probe_offset 4 = 16" "probe_offset 5 = 24" "nested_offset 0 = 40" "nested_offset 1 = 44" "nested_offset (Suc 0) = 44"
  by (simp_all add: probe_offset_def nested_offset_def probe_layout numeral_eq_Suc)

lemma length_enc [simp]: "length (enc k v) = k"
  by (induction k arbitrary: v) auto

lemma length_put_field [simp]: "at + length bs \<le> length mem \<Longrightarrow> length (put_field at bs mem) = length mem"
  by (simp add: put_field_def length_overwrite)

lemma get_put_same: "at + length bs \<le> length mem \<Longrightarrow> length bs = n \<Longrightarrow> get_field at n (put_field at bs mem) = bs"
  by (auto simp: get_field_def put_field_def overwrite_def)

lemma get_put_other:
  assumes "i + n \<le> at \<or> at + length bs \<le> i" and "at + length bs \<le> length mem"
  shows "get_field i n (put_field at bs mem) = get_field i n mem"
proof (cases "i + n \<le> at")
  case True
  then show ?thesis using assms(2) by (simp add: get_field_def put_field_def overwrite_def take_drop min_def)
next
  case False
  then obtain j where "i = at + length bs + j" using assms(1) by (metis le_iff_add)
  then show ?thesis using assms(2) by (simp add: get_field_def put_field_def overwrite_def min_def ac_simps)
qed

lemma probe_fields:
  assumes "length mem = 48" and "length dbl = 8" and "pasx_record_probe dbl (Some mem) = (n, Some m)"
  shows "n = 48" "length m = 48" "get_field 0 8 m = enc 8 1234567890123" "get_field 8 4 m = enc 4 (-4242)"
    "get_field 12 1 m = ''c''" "get_field 16 8 m = dbl" "get_field 24 8 m = enc 8 111"
    "get_field 32 8 m = enc 8 222" "get_field 40 1 m = ''g''" "get_field 44 4 m = enc 4 (-8)"
  using assms
  by (auto simp: pasx_record_probe_def Let_def probe_layout(2) [simplified] get_put_same get_put_other)

text \<open>
  The three characters fill the hole before the \<^verbatim>\<open>double\<close>: it stands at 16 and nothing is padding
  there; the only padding of the struct is the three bytes inside the nested one.
\<close>

lemma probe_padding:
  "probe_offset 3 + c_size (CArray 3 (CScalar 1)) = probe_offset 4"
  "nested_offset 0 + 1 + 3 = nested_offset 1"
  by simp_all

text \<open>Two answers of \<^verbatim>\<open>pasx_record_answer\<close> do not differ in every field: three of them are constants.\<close>

lemma answer_constants:
  assumes "length mem = 48" and "n \<noteq> 0" and "\<And>n. length (half n) = 8" and "pasx_record_answer half n mem = (Some m, m')"
  shows "get_field 13 1 m = ''d''" "get_field 14 1 m = ''e''" "get_field 40 1 m = ''g''" "m' = m"
  using assms by (auto simp: pasx_record_answer_def Let_def get_put_same get_put_other)

lemma rec_take_copies:
  "length s \<ge> n \<Longrightarrow> length dst \<ge> n \<Longrightarrow>
     \<exists>d. pas_rec_take dst n (Some s) = Inr (True, d) \<and> take n d = take n s \<and> drop n d = drop n dst"
  by (simp add: pas_rec_take_def)

end
