(* ===== verification/Spec2Isabelle.thy ===== *)
theory Spec2Isabelle
  imports Casing Grapheme Select Locking Tasks Errors Coverage WriteReal Unwind DirectFile TextValue Calendar
    Persistence Terminal Exec Foreign
begin

text \<open>
  \<^bold>\<open>The run-time library of Afterschool Pascal.\<close>

  A program of Afterschool Pascal is compiled to LLVM IR and linked with a runtime written in C, the
  files \<^verbatim>\<open>src/runtime/pasrt*.c\<close>. The runtime has what the generated code calls: files and text input
  and output, strings and Unicode text, the heap, handles, deferred statements and non-local jumps,
  tasks and channels, the checks that stop a program, and, for the library modules, sockets, the
  terminal, child processes and the file system. This development models that C code and proves it
  correct. Its parts, from the bottom up:

  \<^item> \<^bold>\<open>Unicode\<close> (\<^verbatim>\<open>pasrt_unicode.c\<close>, \<^verbatim>\<open>pasrt_unicode_data.h\<close>). \<open>Utf8\<close> has the decoder, the encoder and
    validation; \<open>Lookup\<close> the bisections; \<open>TablesRange\<close>, \<open>TablesDecomp\<close> and \<open>TablesCase\<close> the generated
    tables entry by entry, with the facts about them that later proofs need; \<open>Decomp\<close> canonical
    decomposition and composition, \<open>Segments\<close> and \<open>Nfc\<close> the streaming normalization, \<open>Casing\<close> the case
    mappings, \<open>Grapheme\<close> the automaton for extended grapheme clusters. Shown: round trips of the
    encoding; validation decides well-formedness; the streaming normalization writes the composition
    of the whole reordered decomposition (UAX 15), decides canonical equivalence and is idempotent;
    the automaton decides the boundary rules of UAX 29.

  \<^item> \<^bold>\<open>Concurrency\<close> (\<^verbatim>\<open>pasrt_task.c\<close>). \<open>Channel\<close> has the ring buffer and the reference counts, \<open>Select\<close> the
    rotating poll and its deadline, \<open>Tasks\<close> spawning and joining; in these a critical section is one
    step. \<open>Locking\<close> has the mutexes one by one, with threads interleaving freely. Shown: a channel is a
    bounded queue that drains before it reports its close; a poll fires exactly when an arm is ready;
    each task is joined once whoever waits; the mutexes do not deadlock and no wake-up is lost.

  \<^item> \<^bold>\<open>Errors, powers, coverage\<close> (\<^verbatim>\<open>pasrt.c\<close>). \<open>Errors\<close> has every message that stops a program and the
    integer and real powers; \<open>Coverage\<close> the line table and the open-addressing branch table.

  \<^item> \<^bold>\<open>Files\<close> (\<^verbatim>\<open>pasrt.c\<close>). \<open>Stdio\<close> is what the runtime uses of C streams; \<open>Files\<close> has \<^verbatim>\<open>struct pas_file\<close>, its
    opening and positioning and the buffer variable; \<open>ReadText\<close>, \<open>WriteText\<close> and \<open>WriteReal\<close> the text
    procedures; \<open>DirectFile\<close> the specification of direct access; \<open>Binding\<close> the binding of names, the
    command line and temporary names; \<open>Persistence\<close> composes them into programs that store and read back.
    Shown: a text is read as its sequence of characters; numbers
    are read as the longest prefix and exactly; every write appends the field the standard
    prescribes, a real rounded half away from zero from its exact value; direct access refines a
    sequence of components with a position.

  \<^item> \<^bold>\<open>Strings and text values\<close> (\<^verbatim>\<open>pasrt.c\<close>). \<open>Strings\<close> has the arena in which the values of a statement
    live, at its addresses, and the operations that allocate there; \<open>TextValue\<close> the text-type over the
    Unicode unit and the arena; \<open>Calendar\<close> time stamps, dates and times. Shown: string expressions
    evaluate to their values or trap when the arena is full; a text variable always holds normal
    form; comparison is canonical equivalence.

  \<^item> \<^bold>\<open>Leaving blocks\<close> (\<^verbatim>\<open>pasrt.c\<close>). \<open>Links\<close> has doubly linked lists in a store, \<open>Unwind\<close> the lists of open
    files, live handles and armed deferred statements, and what the end of a block, a non-local goto
    and a halt release; the heap balance too.

  \<^item> \<^bold>\<open>The operating system\<close> (\<^verbatim>\<open>pasrt_posix.c\<close>, \<^verbatim>\<open>pasrt_file.c\<close>). \<open>Sockets\<close> has connections and the line
    reader, \<open>Terminal\<close> raw mode, \<open>FileInfo\<close> file information, directories and readiness, \<open>Process\<close> the
    argument vector, \<open>Exec\<close> child processes with deadlines. Shown: the lines read are a function of
    the bytes sent; the terminal is always put back; a child gets exactly its words, its output is
    read in order, it is killed at most once and no descriptor is leaked.

  \<^item> \<^bold>\<open>The boundary to C\<close> (\<^verbatim>\<open>pasrt.c\<close>). \<open>Foreign\<close> has the complex functions and the layout of records.

  \<^bold>\<open>How the code is modelled.\<close> A C function is a function of the state it reads to the state it
  leaves; a struct is a record with the fields of the source, an array a list of its length, a
  pointer into an explicit store an address. A call of \<^verbatim>\<open>pas_runtime_error\<close> is the value \<open>Inl (Trap msg)\<close>,
  undefined behaviour (an access outside an object, a signed overflow the code does not exclude) is
  \<open>Inl Undefined\<close>, and a loop that goes on waiting is \<open>Inl Diverges\<close>; the theorems show which of them can
  happen. Machine integers are words or integers with their bounds written out where the width
  matters: bytes and the turn of a select are words, lengths and positions are integers. A null
  \<^verbatim>\<open>status\<close> pointer, with which a \<^verbatim>\<open>pasx_\<close> routine does nothing at all, is not represented.

  \<^bold>\<open>Parameters.\<close> What the C library and the operating system do is a parameter: \<^verbatim>\<open>strtod\<close>, \<^verbatim>\<open>pow\<close>, the
  functions of \<^verbatim>\<open>complex.h\<close>, the allocator, the clock, \<^verbatim>\<open>localtime\<close>, \<^verbatim>\<open>access\<close>, \<^verbatim>\<open>stat\<close>, \<^verbatim>\<open>getaddrinfo\<close>, \<^verbatim>\<open>mkdtemp\<close>,
  \<^verbatim>\<open>posix_spawnp\<close>; a call that may be made repeatedly (\<^verbatim>\<open>read\<close>, \<^verbatim>\<open>write\<close>, \<^verbatim>\<open>poll\<close>, \<^verbatim>\<open>waitpid\<close>, a wake-up of a
  condition variable) is the list of the answers it gives, so every theorem holds for every
  behaviour of the system. The hypotheses on them are documented behaviour: a new descriptor is one
  not in use, a read answers no more than it was asked for.

  \<^bold>\<open>Interfaces.\<close> \<open>Simulation\<close> states as a locale what it means for operations to implement a
  specification and carries it to every sequence of operations; direct-access files, the line reader
  and the argument vector are its instances. \<open>Links\<close>, \<open>Lookup\<close>, \<open>Channel\<close> and others state the
  contracts between their components in the same way, each interpreted on the definitions of the code.

  \<^bold>\<open>Fuel and termination.\<close> Loops are structural recursions or come with a measure. Where the C code
  recurses through data (\<open>decompose_fuel\<close>, the walks over the lists of \<open>Unwind\<close>) the fuel is bounded by
  the data and the theorems show that the stated amount is enough. The loops over the answers of the
  system recurse on the list of answers.

  \<^bold>\<open>What modelling showed.\<close> Lemmas next to the properties record where the code does not do what its
  comments say, among them: joining two texts can need more room than the sum of their lengths and
  then stops the program (\<open>join_refused\<close>), the length word of a joined text may be misaligned
  (\<open>join_unaligned\<close>), a child that keeps writing is never stopped by its deadline
  (\<open>deadline_not_enforced\<close>), a refused restore of the terminal forgets its settings
  (\<open>refused_restore_forgets\<close>), the position after the end of a file is one too small
  (\<open>position_after_eof\<close>), an update can write a stale component (\<open>update_writes_stale\<close>), and a substring
  check can overflow (\<open>slice_check_overflow\<close>).

  \<^bold>\<open>Not modelled.\<close> The compiler (\<^verbatim>\<open>src/selfhost\<close>), the library modules (\<^verbatim>\<open>src/lib\<close>), the language server
  and the terminal interface (\<^verbatim>\<open>src/lsp\<close>, \<^verbatim>\<open>src/tui\<close>) are written in Pascal, and \<^verbatim>\<open>src/seed\<close> is generated
  IR. Of the runtime, functions that only forward to one library call (\<^verbatim>\<open>pas_atan\<close>, \<^verbatim>\<open>pas_hypot\<close>,
  \<^verbatim>\<open>pasx_errno\<close>, \<^verbatim>\<open>pasx_cloexec\<close>) and the sizes of objects that the compiler lays out are left aside. The
  buffering inside C streams is not represented, and the weak memory of threads is not: a critical
  section is atomic because its mutex makes it so.
\<close>

end
